(* ===== verification/Prelude.thy ===== *)
theory Prelude
  imports Complex_Main "HOL-Library.Sublist" "HOL-Library.List_Lexorder" "HOL-Library.Char_ord"
begin

text \<open>
  Shared vocabulary of the development: the exception hierarchy of
  \<^verbatim>\<open>backend/app/exceptions.py\<close>, the part of Python's string library the
  modelled code calls, time as microseconds, and rows of a database table with the
  lookup / update / delete an ORM session performs on them.

  Text is a list of characters. Case folding, \<open>strip\<close> and \<open>isspace\<close> act on the
  ASCII range as Python does; characters outside it (the bytes of an UTF-8 encoding)
  are left alone.
\<close>

section \<open>Named collections\<close>

named_theorems py_defs \<open>definitions of the Python library fragments\<close>
named_theorems table_simps \<open>laws of rows addressed by their key\<close>

section \<open>Errors as values\<close>

text \<open>
  An exception that leaves a handler is a value: \<open>Http\<close> is FastAPI's
  \<open>HTTPException(status, detail)\<close>, the next four are the domain errors the modelled
  services raise, \<open>MultipleResultsFound\<close> is what \<open>scalar_one_or_none\<close> raises on more
  than one row, and \<open>ValueErr\<close> / \<open>OtherExc\<close> stand for any other exception.
\<close>

datatype error =
    Http nat string
  | NotFoundError string string
  | ConflictError string
  | ValidationError string
  | MailServerError string
  | MultipleResultsFound
  | ValueErr string
  | OtherExc string

type_synonym 'a result = "error + 'a"

text \<open>The status code the registered exception handlers answer with.\<close>

fun status_code :: "error \<Rightarrow> nat" where
  "status_code (Http c d) = c"
| "status_code (NotFoundError r i) = 404"
| "status_code (ConflictError m) = 409"
| "status_code (ValidationError m) = 422"
| "status_code (MailServerError m) = 502"
| "status_code MultipleResultsFound = 500"
| "status_code (ValueErr m) = 500"
| "status_code (OtherExc m) = 500"

definition bind_res :: "'e + 'a \<Rightarrow> ('a \<Rightarrow> 'e + 'b) \<Rightarrow> 'e + 'b" where
  "bind_res r f = (case r of Inl e \<Rightarrow> Inl e | Inr a \<Rightarrow> f a)"

lemma bind_res_simps [simp]:
  "bind_res (Inl e) f = Inl e"
  "bind_res (Inr a) f = f a"
  by (simp_all add: bind_res_def)

lemma bind_res_eq_Inr_iff:
  "bind_res r f = Inr b \<longleftrightarrow> (\<exists>a. r = Inr a \<and> f a = Inr b)"
  by (cases r) simp_all

lemma bind_res_eq_InrE [elim!]:
  assumes "bind_res r f = Inr b"
  obtains a where "r = Inr a" and "f a = Inr b"
  using assms by (cases r) auto

section \<open>Time\<close>

text \<open>A \<open>datetime\<close> is its distance in microseconds from a fixed origin.\<close>

type_synonym time = int

definition seconds :: "int \<Rightarrow> time" where
  "seconds n = 1000000 * n"

definition minutes :: "int \<Rightarrow> time" where
  "minutes n = 60000000 * n"

lemma minutes_less_iff [simp]: "minutes a < minutes b \<longleftrightarrow> a < b"
  by (simp add: minutes_def)

lemma minutes_le_iff [simp]: "minutes a \<le> minutes b \<longleftrightarrow> a \<le> b"
  by (simp add: minutes_def)

lemma minutes_pos [simp]: "0 < minutes a \<longleftrightarrow> 0 < a"
  by (simp add: minutes_def)

section \<open>Characters and strings\<close>

abbreviation code :: "char \<Rightarrow> nat" where
  "code c \<equiv> of_char c"

definition lower_char :: "char \<Rightarrow> char" where
  "lower_char c = (if 65 \<le> code c \<and> code c \<le> 90 then char_of (code c + 32) else c)"

definition upper_char :: "char \<Rightarrow> char" where
  "upper_char c = (if 97 \<le> code c \<and> code c \<le> 122 then char_of (code c - 32) else c)"

definition lower :: "string \<Rightarrow> string" where
  "lower s = map lower_char s"

definition upper :: "string \<Rightarrow> string" where
  "upper s = map upper_char s"

definition is_space :: "char \<Rightarrow> bool" where
  "is_space c \<longleftrightarrow> (9 \<le> code c \<and> code c \<le> 13) \<or> (28 \<le> code c \<and> code c \<le> 32)"

definition is_digit :: "char \<Rightarrow> bool" where
  "is_digit c \<longleftrightarrow> 48 \<le> code c \<and> code c \<le> 57"

definition is_alpha :: "char \<Rightarrow> bool" where
  "is_alpha c \<longleftrightarrow> (65 \<le> code c \<and> code c \<le> 90) \<or> (97 \<le> code c \<and> code c \<le> 122)"

definition is_alnum :: "char \<Rightarrow> bool" where
  "is_alnum c \<longleftrightarrow> is_alpha c \<or> is_digit c"

definition lstrip_by :: "(char \<Rightarrow> bool) \<Rightarrow> string \<Rightarrow> string" where
  "lstrip_by p s = dropWhile p s"

definition rstrip_by :: "(char \<Rightarrow> bool) \<Rightarrow> string \<Rightarrow> string" where
  "rstrip_by p s = rev (dropWhile p (rev s))"

definition strip :: "string \<Rightarrow> string" where
  "strip s = rstrip_by is_space (lstrip_by is_space s)"

lemma lower_char_idem [simp]: "lower_char (lower_char c) = lower_char c"
proof (cases "65 \<le> code c \<and> code c \<le> 90")
  case True
  then have "code (char_of (code c + 32) :: char) = code c + 32"
    by simp
  with True show ?thesis
    by (simp add: lower_char_def)
qed (auto simp: lower_char_def)

lemma lower_idem [simp]: "lower (lower s) = lower s"
  by (simp add: lower_def)

lemma lower_append [simp]: "lower (s @ t) = lower s @ lower t"
  by (simp add: lower_def)

lemma lower_Nil_iff [simp]: "lower s = [] \<longleftrightarrow> s = []"
  by (simp add: lower_def)

lemma length_lower [simp]: "length (lower s) = length s"
  by (simp add: lower_def)

lemma lower_char_outside:
  assumes "code (lower_char c) < 65 \<or> (90 < code c \<and> code c < 97)"
  shows "lower_char c = c"
proof (rule ccontr)
  assume "lower_char c \<noteq> c"
  then have r: "65 \<le> code c" "code c \<le> 90"
    by (auto simp: lower_char_def split: if_splits)
  then have "code (lower_char c) = code c + 32"
    by (simp add: lower_char_def)
  with r assms show False by auto
qed

lemma set_rstrip_by: "set (rstrip_by p s) \<subseteq> set s"
  by (auto simp: rstrip_by_def dest: set_dropWhileD)

lemma set_strip: "set (strip s) \<subseteq> set s"
proof -
  have "set (strip s) \<subseteq> set (lstrip_by is_space s)"
    by (simp add: strip_def set_rstrip_by)
  then show ?thesis
    by (auto simp: lstrip_by_def dest: set_dropWhileD)
qed

section \<open>Searching and splitting\<close>

text \<open>\<open>contains needle s\<close> is Python's \<open>needle in s\<close>.\<close>

fun contains :: "string \<Rightarrow> string \<Rightarrow> bool" where
  "contains n [] \<longleftrightarrow> n = []"
| "contains n (c # s) \<longleftrightarrow> prefix n (c # s) \<or> contains n s"

lemma contains_iff_sublist: "contains n s \<longleftrightarrow> sublist n s"
proof (induction s)
  case (Cons c s)
  then show ?case by (simp add: sublist_Cons_right)
qed simp

lemma contains_append_iff:
  "contains n s \<longleftrightarrow> (\<exists>u v. s = u @ n @ v)"
  by (simp add: contains_iff_sublist sublist_def)

definition contains_any :: "string list \<Rightarrow> string \<Rightarrow> bool" where
  "contains_any ms s \<longleftrightarrow> list_ex (\<lambda>m. contains m s) ms"

text \<open>\<open>s.split(c, maxsplit=1)\<close> and \<open>s.rsplit(c, 1)\<close> for one-character separators:
  the pair of the two parts, or \<open>None\<close> when the separator does not occur.\<close>

fun split_first :: "char \<Rightarrow> string \<Rightarrow> (string \<times> string) option" where
  "split_first c [] = None"
| "split_first c (x # xs) =
     (if x = c then Some ([], xs)
      else map_option (\<lambda>(a, b). (x # a, b)) (split_first c xs))"

definition split_last :: "char \<Rightarrow> string \<Rightarrow> (string \<times> string) option" where
  "split_last c s = map_option (\<lambda>(a, b). (rev b, rev a)) (split_first c (rev s))"

lemma split_first_Some:
  "split_first c s = Some (a, b) \<Longrightarrow> s = a @ c # b \<and> c \<notin> set a"
  by (induction s arbitrary: a) (auto split: if_splits)

lemma split_first_None: "split_first c s = None \<longleftrightarrow> c \<notin> set s"
  by (induction s) auto

lemma split_first_append [simp]:
  "c \<notin> set a \<Longrightarrow> split_first c (a @ c # b) = Some (a, b)"
  by (induction a) auto

lemma split_last_Some:
  assumes "split_last c s = Some (a, b)"
  shows "s = a @ c # b \<and> c \<notin> set b"
proof -
  from assms have "split_first c (rev s) = Some (rev b, rev a)"
    by (auto simp: split_last_def)
  from split_first_Some [OF this] have "rev s = rev b @ c # rev a" "c \<notin> set b"
    by simp_all
  then have "rev (rev s) = rev (rev b @ c # rev a)" by simp
  then show ?thesis using \<open>c \<notin> set b\<close> by simp
qed

lemma split_last_None: "split_last c s = None \<longleftrightarrow> c \<notin> set s"
  by (simp add: split_last_def split_first_None)

lemma split_last_append [simp]:
  "c \<notin> set b \<Longrightarrow> split_last c (a @ c # b) = Some (a, b)"
  by (simp add: split_last_def)

text \<open>\<open>sep.join(parts)\<close>.\<close>

fun join :: "string \<Rightarrow> string list \<Rightarrow> string" where
  "join sep [] = []"
| "join sep [p] = p"
| "join sep (p # q # ps) = p @ sep @ join sep (q # ps)"

text \<open>\<open>s.split()\<close>: the maximal runs of characters that are not white space.\<close>

fun split_ws_aux :: "string \<Rightarrow> string \<Rightarrow> string list" where
  "split_ws_aux acc [] = (if acc = [] then [] else [rev acc])"
| "split_ws_aux acc (c # s) =
     (if is_space c
      then (if acc = [] then split_ws_aux [] s else rev acc # split_ws_aux [] s)
      else split_ws_aux (c # acc) s)"

definition split_ws :: "string \<Rightarrow> string list" where
  "split_ws s = split_ws_aux [] s"

lemma split_ws_Nil [simp]: "split_ws [] = []"
  by (simp add: split_ws_def)

lemma split_ws_aux_word:
  "(\<forall>c \<in> set w. \<not> is_space c) \<Longrightarrow> split_ws_aux acc (w @ s) = split_ws_aux (rev w @ acc) s"
  by (induction w arbitrary: acc) auto

lemma split_ws_join:
  "list_all (\<lambda>w. w \<noteq> [] \<and> (\<forall>c \<in> set w. \<not> is_space c)) ws \<Longrightarrow> split_ws (join '' '' ws) = ws"
proof (induction "'' ''" ws rule: join.induct)
  case (2 p)
  have "split_ws_aux [] (p @ []) = split_ws_aux (rev p) []" using 2 by (subst split_ws_aux_word) auto
  with 2 show ?case by (simp add: split_ws_def)
next
  case (3 p q ps)
  have sp: "is_space (CHR '' '')" by code_simp
  have "split_ws_aux [] (p @ '' '' @ join '' '' (q # ps)) = split_ws_aux (rev p @ []) ('' '' @ join '' '' (q # ps))"
    using 3(2) by (intro split_ws_aux_word) simp
  with 3 sp show ?case by (simp add: split_ws_def)
qed simp

text \<open>\<open>str(n)\<close> of an integer.\<close>

fun show_nat :: "nat \<Rightarrow> string" where
  "show_nat n = (if n < 10 then [char_of (48 + n)] else show_nat (n div 10) @ [char_of (48 + n mod 10)])"

declare show_nat.simps [simp del]

lemma digits_show_nat: "list_all is_digit (show_nat n)"
proof (induction n rule: show_nat.induct)
  case (1 n)
  then show ?case by (cases "n < 10") (simp_all add: show_nat.simps [of n] is_digit_def)
qed

definition show_int :: "int \<Rightarrow> string" where
  "show_int i = (if i < 0 then ''-'' @ show_nat (nat (- i)) else show_nat (nat i))"

text \<open>
  \<open>int(s)\<close> on text: surrounding white space, an optional sign, then decimal digits with
  single underscores between them; anything else is a \<open>ValueError\<close>.
\<close>

fun digits_value :: "bool \<Rightarrow> nat \<Rightarrow> string \<Rightarrow> nat option" where
  "digits_value after acc [] = (if after then Some acc else None)"
| "digits_value after acc (c # s) =
     (if is_digit c then digits_value True (10 * acc + (code c - 48)) s
      else if code c = 95 \<and> after then digits_value False acc s
      else None)"

definition py_int :: "string \<Rightarrow> error + int" where
  "py_int s = (let t = strip s;
                   neg = (t \<noteq> [] \<and> hd t = CHR ''-'');
                   body = (if t \<noteq> [] \<and> (hd t = CHR ''-'' \<or> hd t = CHR ''+'') then tl t else t)
               in case digits_value False 0 body of
                    None \<Rightarrow> Inl (ValueErr ''invalid literal for int() with base 10'')
                  | Some n \<Rightarrow> Inr (if neg then - int n else int n))"

lemmas py_basic_defs [py_defs] =
  lower_def upper_def strip_def rstrip_by_def lstrip_by_def is_space_def
  lower_char_def upper_char_def is_digit_def is_alpha_def is_alnum_def

text \<open>Text in single quotes, as the messages of the exceptions show identifiers.\<close>

definition quoted :: "string \<Rightarrow> string" where
  "quoted s = CHR 0x27 # s @ [CHR 0x27]"

section \<open>Python truthiness of optional text\<close>

text \<open>\<open>if s:\<close> on a value of type \<open>str | None\<close>.\<close>

fun truthy :: "string option \<Rightarrow> bool" where
  "truthy None \<longleftrightarrow> False"
| "truthy (Some s) \<longleftrightarrow> s \<noteq> []"

text \<open>\<open>a or b\<close> where \<open>a\<close> is text and \<open>b\<close> is anything of that type.\<close>

definition or_text :: "string option \<Rightarrow> string option \<Rightarrow> string option" where
  "or_text a b = (if truthy a then a else b)"

section \<open>Sets of text in sorted order\<close>

text \<open>\<open>sorted(set(xs))\<close>: the distinct elements in lexicographic order.\<close>

definition sorted_set :: "string list \<Rightarrow> string list" where
  "sorted_set xs = sort (remdups xs)"

lemma set_sorted_set [simp]: "set (sorted_set xs) = set xs"
  by (simp add: sorted_set_def)

lemma sorted_set_Nil_iff [simp]: "sorted_set xs = [] \<longleftrightarrow> xs = []"
  by (metis set_sorted_set set_empty)

section \<open>Rows of a table, addressed by key\<close>

text \<open>
  A table is the list of its rows in insertion order. \<open>row_get\<close> is a lookup by primary
  key (\<open>db.get\<close>), \<open>row_put\<close> the effect of a committed change to the row with the
  given row's key, \<open>row_del\<close> a delete.
\<close>

definition row_get :: "('r \<Rightarrow> 'k) \<Rightarrow> 'k \<Rightarrow> 'r list \<Rightarrow> 'r option" where
  "row_get key k rows = find (\<lambda>r. key r = k) rows"

definition row_put :: "('r \<Rightarrow> 'k) \<Rightarrow> 'r \<Rightarrow> 'r list \<Rightarrow> 'r list" where
  "row_put key r rows = map (\<lambda>x. if key x = key r then r else x) rows"

definition row_del :: "('r \<Rightarrow> 'k) \<Rightarrow> 'k \<Rightarrow> 'r list \<Rightarrow> 'r list" where
  "row_del key k rows = filter (\<lambda>x. key x \<noteq> k) rows"

lemma row_get_Nil [table_simps]: "row_get key k [] = None"
  by (simp add: row_get_def)

lemma row_get_Cons [table_simps]:
  "row_get key k (r # rows) = (if key r = k then Some r else row_get key k rows)"
  by (simp add: row_get_def)

lemma row_get_append [table_simps]:
  "row_get key k (xs @ ys) =
     (case row_get key k xs of Some r \<Rightarrow> Some r | None \<Rightarrow> row_get key k ys)"
  by (induction xs) (auto simp: table_simps)

lemma row_get_SomeD: "row_get key k rows = Some r \<Longrightarrow> r \<in> set rows \<and> key r = k"
  by (induction rows) (auto simp: table_simps split: if_splits)

lemma row_get_None_iff: "row_get key k rows = None \<longleftrightarrow> k \<notin> key ` set rows"
  by (induction rows) (auto simp: table_simps)

lemma row_get_unique:
  "distinct (map key rows) \<Longrightarrow> r \<in> set rows \<Longrightarrow> row_get key (key r) rows = Some r"
  by (induction rows) (auto simp: table_simps)

lemma row_put_Nil [table_simps]: "row_put key r [] = []"
  by (simp add: row_put_def)

lemma row_put_Cons [table_simps]:
  "row_put key r (x # rows) = (if key x = key r then r else x) # row_put key r rows"
  by (simp add: row_put_def)

lemma row_get_put [table_simps]:
  "row_get key k (row_put key r rows) =
     (if k = key r then (if row_get key k rows = None then None else Some r)
      else row_get key k rows)"
  by (induction rows) (auto simp: table_simps)

lemma keys_row_put [simp]: "map key (row_put key r rows) = map key rows"
  by (simp add: row_put_def)

lemma set_row_put: "set (row_put key r rows) \<subseteq> insert r (set rows)"
  by (auto simp: row_put_def)

lemma row_put_row_put:
  "key r = key r' \<Longrightarrow> row_put key r (row_put key r' rows) = row_put key r rows"
  by (simp add: row_put_def)

lemma row_put_same_key:
  assumes "distinct (map key rows)" and "row_get key (key r) rows = Some r0" and "f r = f r0"
  shows "map f (row_put key r rows) = map f rows"
proof -
  have "f (if key x = key r then r else x) = f x" if "x \<in> set rows" for x
  proof (cases "key x = key r")
    case True
    with row_get_unique [OF assms(1) that] assms(2) have "x = r0" by simp
    with True assms(3) show ?thesis by simp
  qed simp
  then show ?thesis by (simp add: row_put_def)
qed

lemma row_get_del [table_simps]:
  "row_get key k (row_del key j rows) = (if k = j then None else row_get key k rows)"
  by (induction rows) (auto simp: table_simps row_del_def)

lemma set_row_del: "set (row_del key k rows) = {r \<in> set rows. key r \<noteq> k}"
  by (auto simp: row_del_def)

lemma distinct_row_del: "distinct (map f rows) \<Longrightarrow> distinct (map f (row_del key k rows))"
  by (simp add: row_del_def distinct_map_filter)

text \<open>The element \<open>next(...)\<close> finds is one of the list that meets the condition.\<close>

lemma find_SomeD: "find P xs = Some x \<Longrightarrow> x \<in> set xs \<and> P x"
  by (auto simp: find_Some_iff)

text \<open>\<open>scalar_one_or_none\<close> on the rows a query selects: more than one row is an error.\<close>

lemma row_put_map_same:
  assumes "f a' = f a" "key a' = key a" "a \<in> set rows" "distinct (map key rows)"
  shows "map f (row_put key a' rows) = map f rows"
proof -
  have "x = a" if "x \<in> set rows" "key x = key a'" for x
    using assms(2,3,4) that by (metis distinct_map inj_onD)
  with assms(1) show ?thesis by (auto simp: row_put_def)
qed

lemma distinct_row_put:
  assumes "distinct (map f rows)" and "distinct (map key rows)"
    and "\<And>r. r \<in> set rows \<Longrightarrow> key r \<noteq> key t \<Longrightarrow> f r \<noteq> f t"
  shows "distinct (map f (row_put key t rows))"
  using assms
proof (induction rows)
  case (Cons r rows)
  show ?case
  proof (cases "key r = key t")
    case True
    then have "key x \<noteq> key t" if "x \<in> set rows" for x using Cons.prems(2) that by (auto simp: image_iff)
    then have "row_put key t rows = rows" by (simp add: row_put_def map_idI)
    moreover have "f t \<notin> f ` set rows"
      using Cons.prems(3) \<open>\<And>x. x \<in> set rows \<Longrightarrow> key x \<noteq> key t\<close> by fastforce
    ultimately show ?thesis using True Cons.prems(1) by (simp add: row_put_Cons)
  next
    case False
    have "f r \<notin> f ` set (row_put key t rows)"
      using Cons.prems(1,3) False set_row_put[of key t rows] by (auto simp: image_iff)
    then show ?thesis using False Cons by (simp add: row_put_Cons)
  qed
qed (simp add: row_put_def)

lemma sort_key_map_same:
  "(\<And>x. f (g x) = f x) \<Longrightarrow> sort_key f (map g xs) = map g (sort_key f xs)"
proof (induction xs)
  case (Cons x xs)
  have "insort_key f (g x) (map g ys) = map g (insort_key f x ys)" for ys
    by (induction ys) (simp_all add: Cons.prems)
  with Cons show ?case by simp
qed simp

fun one_or_none :: "'r list \<Rightarrow> 'r option result" where
  "one_or_none [] = Inr None"
| "one_or_none [r] = Inr (Some r)"
| "one_or_none (r # s # rows) = Inl MultipleResultsFound"

lemma one_or_none_None_iff: "one_or_none rows = Inr None \<longleftrightarrow> rows = []"
  by (cases rows rule: one_or_none.cases) auto

lemma one_or_none_SomeD: "one_or_none rows = Inr (Some r) \<Longrightarrow> r \<in> set rows"
  by (cases rows rule: one_or_none.cases) auto

lemma one_or_none_filter_unique:
  assumes "distinct (map key rows)"
  shows "one_or_none (filter (\<lambda>r. key r = k) rows) = Inr (row_get key k rows)"
  using assms
proof (induction rows)
  case (Cons r rows)
  show ?case
  proof (cases "key r = k")
    case True
    with Cons.prems have "filter (\<lambda>r. key r = k) rows = []"
      by (auto simp: filter_empty_conv image_iff)
    with True show ?thesis by (simp add: row_get_Cons)
  next
    case False
    with Cons show ?thesis by (simp add: row_get_Cons)
  qed
qed (simp add: row_get_Nil)

section \<open>A keyed store as an interface\<close>

text \<open>
  What the services rely on when they read, change and delete rows by primary key. The
  laws are all a client needs: which row a lookup returns after each operation.
\<close>

locale keyed_store =
  fixes key :: "'r \<Rightarrow> 'k"
    and get :: "'k \<Rightarrow> 's \<Rightarrow> 'r option"
    and put :: "'r \<Rightarrow> 's \<Rightarrow> 's"
    and del :: "'k \<Rightarrow> 's \<Rightarrow> 's"
  assumes get_key: "get k s = Some r \<Longrightarrow> key r = k"
    and get_put: "get k (put r s) =
      (if k = key r then (if get k s = None then None else Some r) else get k s)"
    and get_del: "get k (del j s) = (if k = j then None else get k s)"
begin

lemma get_after_update:
  assumes "get k s = Some r" and "key r' = k"
  shows "get k (put r' s) = Some r'"
  using assms by (simp add: get_put)

lemma update_frame: "j \<noteq> key r \<Longrightarrow> get j (put r s) = get j s"
  by (simp add: get_put)

lemma update_keeps_missing: "get j s = None \<Longrightarrow> get j (put r s) = None"
  by (auto simp: get_put)

lemma deleted_is_gone: "get k (del k s) = None"
  by (simp add: get_del)

lemma delete_frame: "j \<noteq> k \<Longrightarrow> get j (del k s) = get j s"
  by (simp add: get_del)

lemma last_update_wins:
  assumes "get k s = Some r0" and "key r = k" and "key r' = k"
  shows "get k (put r' (put r s)) = Some r'"
  using assms by (simp add: get_put)

end

lemma keyed_store_rows: "keyed_store key (row_get key) (row_put key) (row_del key)"
  by unfold_locales (auto simp: table_simps dest: row_get_SomeD)

end
