(* ===== verification/Models.thy ===== *)
theory Models
  imports Prelude
begin

text \<open>
  The ORM rows several components share (\<^verbatim>\<open>auth/models.py\<close>,
  \<^verbatim>\<open>mailboxes/models.py\<close>), the database that holds them, and the settings the
  modelled handlers read. A table is the list of its rows; \<open>save_*\<close> is the committed
  change of one row.
\<close>

section \<open>Rows\<close>

record user =
  u_id :: string
  u_username :: string
  u_email :: string
  u_hashed_password :: string
  u_is_admin :: bool
  u_is_active :: bool
  u_created_at :: time
  u_totp_secret :: "string option"
  u_totp_enabled :: bool
  u_failed_login_attempts :: int
  u_locked_until :: "time option"
  u_token_version :: int
  u_max_mailboxes :: int

record api_key =
  k_id :: string
  k_user_id :: string
  k_key_hash :: string
  k_name :: string
  k_prefix :: string
  k_created_at :: time
  k_last_used_at :: "time option"
  k_is_active :: bool
  k_scopes :: "string list"
  k_allowed_mailboxes :: "string list option"

datatype purpose = Standard | Deliverability

record mailbox =
  m_id :: string
  m_address :: string
  m_display_name :: string
  m_domain :: string
  m_is_active :: bool
  m_is_catchall :: bool
  m_purpose :: purpose
  m_created_at :: time
  m_quota_mb :: int
  m_signature :: string
  m_user_id :: "string option"

text \<open>The columns of \<^verbatim>\<open>domains/models.py\<close> that the mailbox and warmup services read.\<close>

record domain_row =
  d_name :: string
  d_is_active :: bool
  d_mx_verified :: bool
  d_spf_verified :: bool
  d_dkim_verified :: bool
  d_dmarc_verified :: bool

text \<open>\<open>catch_all_enabled\<close> is the column of the singleton \<open>ServerSettings\<close> row, \<open>None\<close> when
  the row does not exist.\<close>

record db =
  users :: "user list"
  api_keys :: "api_key list"
  mailboxes :: "mailbox list"
  domains :: "domain_row list"
  catch_all_row :: "bool option"

record settings =
  is_production :: bool
  max_failed_login_attempts :: int
  lockout_duration_minutes :: int
  access_token_expire_minutes :: int
  refresh_token_expire_days :: int
  cors_origins :: "string list"
  s_hostname :: string
  s_domain :: string
  admin_user :: string
  admin_password :: string
  mail_storage_path :: string

section \<open>Committed changes\<close>

definition save_user :: "user \<Rightarrow> db \<Rightarrow> db" where
  "save_user u d = d\<lparr>users := row_put u_id u (users d)\<rparr>"

definition save_key :: "api_key \<Rightarrow> db \<Rightarrow> db" where
  "save_key k d = d\<lparr>api_keys := row_put k_id k (api_keys d)\<rparr>"

definition save_mailbox :: "mailbox \<Rightarrow> db \<Rightarrow> db" where
  "save_mailbox m d = d\<lparr>mailboxes := row_put m_id m (mailboxes d)\<rparr>"

definition get_user :: "string \<Rightarrow> db \<Rightarrow> user option" where
  "get_user i d = row_get u_id i (users d)"

definition get_key :: "string \<Rightarrow> db \<Rightarrow> api_key option" where
  "get_key i d = row_get k_id i (api_keys d)"

definition delete_key :: "string \<Rightarrow> db \<Rightarrow> db" where
  "delete_key i d = d\<lparr>api_keys := row_del k_id i (api_keys d)\<rparr>"

definition delete_user :: "string \<Rightarrow> db \<Rightarrow> db" where
  "delete_user i d = d\<lparr>users := row_del u_id i (users d)\<rparr>"

definition get_mailbox_row :: "string \<Rightarrow> db \<Rightarrow> mailbox option" where
  "get_mailbox_row i d = row_get m_id i (mailboxes d)"

definition delete_mailbox_row :: "string \<Rightarrow> db \<Rightarrow> db" where
  "delete_mailbox_row i d = d\<lparr>mailboxes := row_del m_id i (mailboxes d)\<rparr>"

lemmas save_defs = save_user_def save_key_def save_mailbox_def delete_key_def
  delete_user_def delete_mailbox_row_def

interpretation user_store: keyed_store u_id get_user save_user delete_user
  by unfold_locales
    (auto simp: get_user_def save_user_def delete_user_def table_simps dest: row_get_SomeD)

interpretation key_store: keyed_store k_id get_key save_key delete_key
  by unfold_locales
    (auto simp: get_key_def save_key_def delete_key_def table_simps dest: row_get_SomeD)

interpretation mailbox_store: keyed_store m_id get_mailbox_row save_mailbox delete_mailbox_row
  by unfold_locales
    (auto simp: get_mailbox_row_def save_mailbox_def delete_mailbox_row_def table_simps
      dest: row_get_SomeD)

section \<open>What each save leaves alone\<close>

lemma save_user_frame [simp]:
  "api_keys (save_user u d) = api_keys d"
  "mailboxes (save_user u d) = mailboxes d"
  "domains (save_user u d) = domains d"
  "catch_all_row (save_user u d) = catch_all_row d"
  "users (save_user u d) = row_put u_id u (users d)"
  by (simp_all add: save_user_def)

lemma save_key_frame [simp]:
  "users (save_key k d) = users d"
  "mailboxes (save_key k d) = mailboxes d"
  "api_keys (save_key k d) = row_put k_id k (api_keys d)"
  by (simp_all add: save_key_def)

lemma save_mailbox_frame [simp]:
  "users (save_mailbox m d) = users d"
  "api_keys (save_mailbox m d) = api_keys d"
  "domains (save_mailbox m d) = domains d"
  "catch_all_row (save_mailbox m d) = catch_all_row d"
  "mailboxes (save_mailbox m d) = row_put m_id m (mailboxes d)"
  by (simp_all add: save_mailbox_def)

lemma get_user_save_key [simp]: "get_user i (save_key k d) = get_user i d"
  by (simp add: get_user_def)

lemma get_user_in_users: "get_user i d = Some u \<Longrightarrow> u \<in> set (users d) \<and> u_id u = i"
  by (auto simp: get_user_def dest: row_get_SomeD)

lemma get_user_saved [simp]:
  "get_user (u_id u) d = Some u0 \<Longrightarrow> get_user (u_id u) (save_user u d) = Some u"
  by (simp add: user_store.get_put)

end
