(* ===== verification/AuthCore.thy ===== *)
theory AuthCore
  imports Models
begin

text \<open>
  The building blocks of authentication: \<^verbatim>\<open>auth/utils.py\<close> (tokens),
  \<^verbatim>\<open>auth/service.py\<close> (passwords, API-key lookup, lockout, bootstrap) and
  \<^verbatim>\<open>dependencies.py\<close> (resolving the principal of a request).

  Argon2, JWT signing, Fernet and TOTP are third-party code: they are the fields of a
  \<open>crypto\<close> record that every handler takes. Random values (salts, identifiers, raw keys)
  and the current time are arguments.
\<close>

section \<open>Third-party primitives as parameters\<close>

text \<open>The outcomes of \<open>argon2.PasswordHasher.verify\<close>: success, \<open>VerifyMismatchError\<close>, or any
  other exception (for example a malformed stored hash).\<close>

datatype argon_outcome = Verified | Mismatch | ArgonError string

record claims =
  c_sub :: "string option"
  c_type :: "string option"
  c_ver :: "int option"
  c_exp :: time

record crypto =
  argon_hash :: "string \<Rightarrow> string \<Rightarrow> string"  \<comment> \<open>salt, plain text\<close>
  argon_verify :: "string \<Rightarrow> string \<Rightarrow> argon_outcome"  \<comment> \<open>stored hash, plain text\<close>
  jwt_encode :: "claims \<Rightarrow> string"
  jwt_decode :: "time \<Rightarrow> string \<Rightarrow> claims option"  \<comment> \<open>\<open>None\<close> for any \<open>PyJWTError\<close>\<close>
  fernet_encrypt :: "string \<Rightarrow> string \<Rightarrow> string"  \<comment> \<open>nonce, plain text\<close>
  fernet_decrypt :: "string \<Rightarrow> string option"  \<comment> \<open>\<open>None\<close> for \<open>InvalidToken\<close>\<close>
  totp_verify :: "time \<Rightarrow> string \<Rightarrow> string \<Rightarrow> bool"  \<comment> \<open>secret, code, one-step window\<close>

section \<open>Passwords and tokens\<close>

definition hash_password :: "crypto \<Rightarrow> string \<Rightarrow> string \<Rightarrow> string" where
  "hash_password cr salt plain = argon_hash cr salt plain"

definition verify_password :: "crypto \<Rightarrow> string \<Rightarrow> string \<Rightarrow> bool result" where
  "verify_password cr plain hashed =
     (case argon_verify cr hashed plain of
        Verified \<Rightarrow> Inr True
      | Mismatch \<Rightarrow> Inr False
      | ArgonError e \<Rightarrow> Inl (OtherExc e))"

definition decode_jwt :: "crypto \<Rightarrow> time \<Rightarrow> string \<Rightarrow> claims result" where
  "decode_jwt cr now token =
     (case jwt_decode cr now token of
        None \<Rightarrow> Inl (ValueErr ''Invalid token'')
      | Some p \<Rightarrow> Inr p)"

definition token_claims :: "string \<Rightarrow> string \<Rightarrow> int \<Rightarrow> time \<Rightarrow> claims" where
  "token_claims uid typ ver expire =
     \<lparr>c_sub = Some uid, c_type = Some typ, c_ver = Some ver, c_exp = expire\<rparr>"

definition create_access_token :: "settings \<Rightarrow> crypto \<Rightarrow> time \<Rightarrow> string \<Rightarrow> int \<Rightarrow> string" where
  "create_access_token st cr now uid ver =
     jwt_encode cr (token_claims uid ''access'' ver (now + minutes (access_token_expire_minutes st)))"

definition create_refresh_token :: "settings \<Rightarrow> crypto \<Rightarrow> time \<Rightarrow> string \<Rightarrow> int \<Rightarrow> string" where
  "create_refresh_token st cr now uid ver =
     jwt_encode cr (token_claims uid ''refresh'' ver
       (now + minutes (1440 * refresh_token_expire_days st)))"

definition create_2fa_temp_token :: "crypto \<Rightarrow> time \<Rightarrow> string \<Rightarrow> int \<Rightarrow> string" where
  "create_2fa_temp_token cr now uid ver =
     jwt_encode cr (token_claims uid ''2fa_temp'' ver (now + seconds 90))"

lemma token_claims_simps [simp]:
  "c_sub (token_claims u t v e) = Some u"
  "c_type (token_claims u t v e) = Some t"
  "c_ver (token_claims u t v e) = Some v"
  "c_exp (token_claims u t v e) = e"
  by (simp_all add: token_claims_def)

text \<open>What the code relies on from the JWT library: a token it signed decodes to the claims it
  carries until the expiry time has passed.\<close>

definition jwt_roundtrip :: "crypto \<Rightarrow> bool" where
  "jwt_roundtrip cr \<longleftrightarrow>
     (\<forall>p now. now < c_exp p \<longrightarrow> jwt_decode cr now (jwt_encode cr p) = Some p)"

section \<open>Account lockout\<close>

definition is_account_locked :: "time \<Rightarrow> user \<Rightarrow> bool" where
  "is_account_locked now u =
     (case u_locked_until u of None \<Rightarrow> False | Some locked \<Rightarrow> now < locked)"

text \<open>The two helpers that write the lockout columns return the changed user; the callers
  commit it with \<open>save_user\<close>.\<close>

definition record_failed_login :: "settings \<Rightarrow> time \<Rightarrow> user \<Rightarrow> user" where
  "record_failed_login st now u =
     (let u1 = u\<lparr>u_failed_login_attempts := u_failed_login_attempts u + 1\<rparr>
      in if u_failed_login_attempts u1 \<ge> max_failed_login_attempts st
         then u1\<lparr>u_locked_until := Some (now + minutes (lockout_duration_minutes st))\<rparr>
         else u1)"

definition reset_failed_login :: "user \<Rightarrow> user" where
  "reset_failed_login u =
     (if u_failed_login_attempts u > 0 \<or> u_locked_until u \<noteq> None
      then u\<lparr>u_failed_login_attempts := 0, u_locked_until := None\<rparr>
      else u)"

lemma record_failed_login_frame [simp]:
  "u_id (record_failed_login st now u) = u_id u"
  "u_username (record_failed_login st now u) = u_username u"
  "u_email (record_failed_login st now u) = u_email u"
  "u_hashed_password (record_failed_login st now u) = u_hashed_password u"
  "u_is_admin (record_failed_login st now u) = u_is_admin u"
  "u_is_active (record_failed_login st now u) = u_is_active u"
  "u_totp_secret (record_failed_login st now u) = u_totp_secret u"
  "u_totp_enabled (record_failed_login st now u) = u_totp_enabled u"
  "u_token_version (record_failed_login st now u) = u_token_version u"
  "u_max_mailboxes (record_failed_login st now u) = u_max_mailboxes u"
  "u_failed_login_attempts (record_failed_login st now u) = u_failed_login_attempts u + 1"
  by (simp_all add: record_failed_login_def Let_def)

lemma reset_failed_login_frame [simp]:
  "u_id (reset_failed_login u) = u_id u"
  "u_username (reset_failed_login u) = u_username u"
  "u_email (reset_failed_login u) = u_email u"
  "u_hashed_password (reset_failed_login u) = u_hashed_password u"
  "u_is_admin (reset_failed_login u) = u_is_admin u"
  "u_is_active (reset_failed_login u) = u_is_active u"
  "u_totp_secret (reset_failed_login u) = u_totp_secret u"
  "u_totp_enabled (reset_failed_login u) = u_totp_enabled u"
  "u_token_version (reset_failed_login u) = u_token_version u"
  "u_max_mailboxes (reset_failed_login u) = u_max_mailboxes u"
  "u_locked_until (reset_failed_login u) = None"
  by (simp_all add: reset_failed_login_def)

lemma reset_failed_login_attempts [simp]:
  "u_failed_login_attempts u \<ge> 0 \<Longrightarrow> u_failed_login_attempts (reset_failed_login u) = 0"
  by (simp add: reset_failed_login_def)

lemma record_failed_login_locks:
  assumes "max_failed_login_attempts st \<le> u_failed_login_attempts u + 1"
    and "0 < lockout_duration_minutes st"
  shows "is_account_locked now (record_failed_login st now u)"
  using assms by (simp add: record_failed_login_def is_account_locked_def)

lemma record_failed_login_below:
  "u_failed_login_attempts u + 1 < max_failed_login_attempts st \<Longrightarrow>
   u_locked_until (record_failed_login st now u) = u_locked_until u"
  by (simp add: record_failed_login_def)

lemma reset_failed_login_unlocked [simp]: "\<not> is_account_locked now (reset_failed_login u)"
  by (simp add: is_account_locked_def)

section \<open>API keys\<close>

definition generate_api_key :: "string \<Rightarrow> string" where
  "generate_api_key token_urlsafe = ''mc_'' @ token_urlsafe"

definition api_key_prefix :: "string \<Rightarrow> string" where
  "api_key_prefix raw_key = take 8 raw_key"

text \<open>The loop of \<open>validate_api_key\<close> over the rows the query returned. A row whose hash
  matches is touched and committed even when its owner turns out to be inactive, and the
  loop then goes on.\<close>

fun validate_rows ::
  "crypto \<Rightarrow> time \<Rightarrow> string \<Rightarrow> api_key list \<Rightarrow> db \<Rightarrow> (user \<times> api_key) option result \<times> db" where
  "validate_rows cr now raw [] d = (Inr None, d)"
| "validate_rows cr now raw (row # rows) d =
     (case verify_password cr raw (k_key_hash row) of
        Inl e \<Rightarrow> (Inl e, d)
      | Inr False \<Rightarrow> validate_rows cr now raw rows d
      | Inr True \<Rightarrow>
          (let row' = row\<lparr>k_last_used_at := Some now\<rparr>;
               d' = save_key row' d
           in case get_user (k_user_id row) d' of
                None \<Rightarrow> validate_rows cr now raw rows d'
              | Some u \<Rightarrow>
                  (if u_is_active u then (Inr (Some (u, row')), d')
                   else validate_rows cr now raw rows d')))"

definition validate_api_key ::
  "crypto \<Rightarrow> time \<Rightarrow> string \<Rightarrow> db \<Rightarrow> (user \<times> api_key) option result \<times> db" where
  "validate_api_key cr now raw d =
     validate_rows cr now raw
       (filter (\<lambda>k. k_prefix k = api_key_prefix raw \<and> k_is_active k) (api_keys d)) d"

lemma validate_rows_sound:
  assumes "validate_rows cr now raw rows d = (Inr (Some (u, k)), d')"
  shows "\<exists>row \<in> set rows. verify_password cr raw (k_key_hash row) = Inr True \<and>
     k = row\<lparr>k_last_used_at := Some now\<rparr> \<and> get_user (k_user_id row) d = Some u \<and> u_is_active u"
  using assms
proof (induction rows arbitrary: d)
  case (Cons row rows)
  have "users (save_key (row\<lparr>k_last_used_at := Some now\<rparr>) d) = users d" by simp
  with Cons show ?case
    by (fastforce simp: get_user_def Let_def split: sum.splits bool.splits option.splits if_splits)
qed simp

lemma validate_rows_frame:
  assumes "validate_rows cr now raw rows d = (r, d')"
  shows "users d' = users d \<and> mailboxes d' = mailboxes d"
  using assms
  by (induction rows arbitrary: d)
    (auto simp: Let_def split: sum.splits bool.splits option.splits if_splits)

section \<open>The principal of a request\<close>

record auth_context =
  ctx_user :: user
  ctx_api_key :: "api_key option"

definition is_api_key :: "auth_context \<Rightarrow> bool" where
  "is_api_key auth \<longleftrightarrow> ctx_api_key auth \<noteq> None"

definition ctx_scopes :: "auth_context \<Rightarrow> string list" where
  "ctx_scopes auth = (case ctx_api_key auth of None \<Rightarrow> [''*''] | Some k \<Rightarrow> k_scopes k)"

definition ctx_allowed_mailboxes :: "auth_context \<Rightarrow> string list option" where
  "ctx_allowed_mailboxes auth =
     (case ctx_api_key auth of
        None \<Rightarrow> None
      | Some k \<Rightarrow>
          (case k_allowed_mailboxes k of
             None \<Rightarrow> None
           | Some [] \<Rightarrow> None
           | Some ms \<Rightarrow> Some (map lower ms)))"

end
