(* ===== verification/Scopes.thy ===== *)
theory Scopes
  imports Prelude
begin

text \<open>
  The contract behind delegated permissions: a grant permits some requests, and one grant
  may be issued from another only when it lies \<open>within\<close> it. A client of this interface
  (the API-key endpoints) relies on nothing else to show that delegation never widens
  what the first grant of a chain permits.
\<close>

locale grant_order =
  fixes permits :: "'g \<Rightarrow> 'r \<Rightarrow> bool"
    and within_grant :: "'g \<Rightarrow> 'g \<Rightarrow> bool"
  assumes within_sound: "within_grant c p \<Longrightarrow> permits c r \<Longrightarrow> permits p r"
begin

text \<open>\<open>delegated p c\<close>: \<open>c\<close> was obtained from \<open>p\<close> by a chain of narrowing steps.\<close>

inductive delegated :: "'g \<Rightarrow> 'g \<Rightarrow> bool" where
  root: "delegated g g"
| issue: "delegated p g \<Longrightarrow> within_grant c g \<Longrightarrow> delegated p c"

lemma delegation_never_escalates:
  assumes "delegated p c" and "permits c r"
  shows "permits p r"
  using assms by (induction rule: delegated.induct) (auto intro: within_sound)

lemma delegated_trans:
  assumes "delegated b c" and "delegated a b"
  shows "delegated a c"
  using assms by (induction rule: delegated.induct) (auto intro: delegated.issue)

end

text \<open>An interface that also decides inclusion exactly: nothing harmless is refused.\<close>

locale exact_grant_order = grant_order +
  assumes within_complete: "(\<And>r. permits c r \<Longrightarrow> permits p r) \<Longrightarrow> within_grant c p"
begin

lemma within_iff_includes: "within_grant c p \<longleftrightarrow> (\<forall>r. permits c r \<longrightarrow> permits p r)"
  using within_sound within_complete by blast

lemma within_refl: "within_grant g g"
  by (simp add: within_iff_includes)

lemma within_trans: "within_grant a b \<Longrightarrow> within_grant b c \<Longrightarrow> within_grant a c"
  by (auto simp: within_iff_includes)

lemma delegated_iff_within: "delegated p c \<longleftrightarrow> within_grant c p"
proof
  assume "delegated p c"
  then show "within_grant c p"
    by (auto intro: within_complete delegation_never_escalates)
next
  assume "within_grant c p"
  then show "delegated p c"
    by (rule delegated.issue [OF delegated.root])
qed

end

text \<open>Two independent restrictions on the same key combine into one.\<close>

definition both_permit :: "('g \<Rightarrow> 'r \<Rightarrow> bool) \<Rightarrow> ('h \<Rightarrow> 's \<Rightarrow> bool) \<Rightarrow> 'g \<times> 'h \<Rightarrow> 'r \<times> 's \<Rightarrow> bool" where
  "both_permit f h g r \<longleftrightarrow> f (fst g) (fst r) \<and> h (snd g) (snd r)"

definition both_within :: "('g \<Rightarrow> 'g \<Rightarrow> bool) \<Rightarrow> ('h \<Rightarrow> 'h \<Rightarrow> bool) \<Rightarrow> 'g \<times> 'h \<Rightarrow> 'g \<times> 'h \<Rightarrow> bool" where
  "both_within v w c p \<longleftrightarrow> v (fst c) (fst p) \<and> w (snd c) (snd p)"

lemma grant_order_product:
  assumes "grant_order f v" and "grant_order h w"
  shows "grant_order (both_permit f h) (both_within v w)"
  using assms unfolding grant_order_def both_permit_def both_within_def by blast

section \<open>The scopes of the program\<close>

text \<open>
  \<^verbatim>\<open>backend/app/auth/scopes.py\<close>: the permission scopes an API key can carry, the
  validation of a requested scope list, and the two comparisons the rest of the
  application makes, \<open>scope_satisfied\<close> and \<open>is_subset\<close>.
\<close>

section \<open>The catalogue\<close>

definition WILDCARD :: string where
  "WILDCARD = ''*''"

definition EMAIL_READ :: string where
  "EMAIL_READ = ''email:read''"

definition EMAIL_SEND :: string where
  "EMAIL_SEND = ''email:send''"

definition EMAIL_DELETE :: string where
  "EMAIL_DELETE = ''email:delete''"

definition EMAIL_VALIDATE :: string where
  "EMAIL_VALIDATE = ''email:validate''"

definition MAILBOX_READ :: string where
  "MAILBOX_READ = ''mailbox:read''"

definition MAILBOX_MANAGE :: string where
  "MAILBOX_MANAGE = ''mailbox:manage''"

definition GPG_READ :: string where
  "GPG_READ = ''gpg:read''"

definition GPG_MANAGE :: string where
  "GPG_MANAGE = ''gpg:manage''"

definition FORWARDING_READ :: string where
  "FORWARDING_READ = ''forwarding:read''"

definition FORWARDING_MANAGE :: string where
  "FORWARDING_MANAGE = ''forwarding:manage''"

definition DOMAIN_READ :: string where
  "DOMAIN_READ = ''domain:read''"

definition DOMAIN_MANAGE :: string where
  "DOMAIN_MANAGE = ''domain:manage''"

definition ALIAS_READ :: string where
  "ALIAS_READ = ''alias:read''"

definition ALIAS_MANAGE :: string where
  "ALIAS_MANAGE = ''alias:manage''"

definition SYSTEM_READ :: string where
  "SYSTEM_READ = ''system:read''"

definition SYSTEM_MANAGE :: string where
  "SYSTEM_MANAGE = ''system:manage''"

definition TUNNEL_READ :: string where
  "TUNNEL_READ = ''tunnel:read''"

definition TUNNEL_MANAGE :: string where
  "TUNNEL_MANAGE = ''tunnel:manage''"

definition WARMUP_READ :: string where
  "WARMUP_READ = ''warmup:read''"

definition WARMUP_MANAGE :: string where
  "WARMUP_MANAGE = ''warmup:manage''"

definition APIKEY_READ :: string where
  "APIKEY_READ = ''apikey:read''"

definition APIKEY_MANAGE :: string where
  "APIKEY_MANAGE = ''apikey:manage''"

lemmas scope_names =
  WILDCARD_def EMAIL_READ_def EMAIL_SEND_def EMAIL_DELETE_def EMAIL_VALIDATE_def MAILBOX_READ_def MAILBOX_MANAGE_def GPG_READ_def GPG_MANAGE_def FORWARDING_READ_def FORWARDING_MANAGE_def DOMAIN_READ_def DOMAIN_MANAGE_def ALIAS_READ_def ALIAS_MANAGE_def SYSTEM_READ_def SYSTEM_MANAGE_def TUNNEL_READ_def TUNNEL_MANAGE_def WARMUP_READ_def WARMUP_MANAGE_def APIKEY_READ_def APIKEY_MANAGE_def

record scope_def =
  sc_value :: string
  sc_group :: string
  sc_label :: string
  sc_description :: string
  sc_admin_only :: bool

definition scope_entry :: "string \<Rightarrow> string \<Rightarrow> string \<Rightarrow> string \<Rightarrow> bool \<Rightarrow> scope_def" where
  "scope_entry v g l d a =
     \<lparr>sc_value = v, sc_group = g, sc_label = l, sc_description = d, sc_admin_only = a\<rparr>"

definition SCOPES :: "scope_def list" where
  "SCOPES = [
    scope_entry EMAIL_READ ''Email'' ''Read email'' ''List, search, and read messages and attachments.'' False,
    scope_entry EMAIL_SEND ''Email'' ''Send email'' ''Send new messages and replies.'' False,
    scope_entry EMAIL_DELETE ''Email'' ''Delete email'' ''Delete messages, bulk-delete, and purge mailboxes.'' False,
    scope_entry EMAIL_VALIDATE ''Email'' ''Validate email'' ''Validate email addresses (DNS, MX, mailbox probe, disposable check).'' False,
    scope_entry MAILBOX_READ ''Mailbox'' ''Read mailboxes'' ''List mailboxes and read their stats.'' False,
    scope_entry MAILBOX_MANAGE ''Mailbox'' ''Manage mailboxes'' ''Create/delete mailboxes, edit signature and display name, flag and triage messages.'' False,
    scope_entry GPG_READ ''GPG'' ''Read GPG keys'' ''List and export GPG keys.'' False,
    scope_entry GPG_MANAGE ''GPG'' ''Manage GPG keys'' ''Generate, import, publish, and delete GPG keys.'' False,
    scope_entry FORWARDING_READ ''Forwarding'' ''Read forwarding'' ''List forwarding rules.'' False,
    scope_entry FORWARDING_MANAGE ''Forwarding'' ''Manage forwarding'' ''Create, edit, test, and delete forwarding rules.'' False,
    scope_entry APIKEY_READ ''API keys'' ''Read API keys'' ''List API keys.'' False,
    scope_entry APIKEY_MANAGE ''API keys'' ''Manage API keys'' ''Create and revoke API keys (cannot exceed this key's own grants).'' False,
    scope_entry DOMAIN_READ ''Domains'' ''Read domains'' ''List domains and DNS state.'' True,
    scope_entry DOMAIN_MANAGE ''Domains'' ''Manage domains'' ''Create, delete, and verify domains.'' True,
    scope_entry ALIAS_READ ''Aliases'' ''Read aliases'' ''List aliases.'' True,
    scope_entry ALIAS_MANAGE ''Aliases'' ''Manage aliases'' ''Create, edit, and delete aliases.'' True,
    scope_entry SYSTEM_READ ''System'' ''Read system'' ''Read server settings and TLS status.'' True,
    scope_entry SYSTEM_MANAGE ''System'' ''Manage system'' ''Update server settings and upload TLS certificates.'' True,
    scope_entry TUNNEL_READ ''Tunnels'' ''Read tunnels'' ''List tunnels and client identity.'' True,
    scope_entry TUNNEL_MANAGE ''Tunnels'' ''Manage tunnels'' ''Create, edit, delete, and check tunnels.'' True,
    scope_entry WARMUP_READ ''Warmup'' ''Read warmup'' ''Read warmup accounts, campaigns, and delivery history.'' True,
    scope_entry WARMUP_MANAGE ''Warmup'' ''Manage warmup'' ''Configure external accounts and control warmup campaigns.'' True]"

definition ALL_SCOPES :: "string list" where
  "ALL_SCOPES = map sc_value SCOPES"

section \<open>Operations\<close>

definition is_valid_scope :: "string \<Rightarrow> bool" where
  "is_valid_scope scope \<longleftrightarrow> scope \<in> set ALL_SCOPES \<or> scope = WILDCARD"

definition normalize_scopes :: "string list option \<Rightarrow> string list result" where
  "normalize_scopes scopes =
     (case scopes of
        None \<Rightarrow> Inr [WILDCARD]
      | Some [] \<Rightarrow> Inr [WILDCARD]
      | Some requested \<Rightarrow>
          (let unknown = sorted_set (filter (\<lambda>s. \<not> is_valid_scope s) requested)
           in if unknown \<noteq> []
              then Inl (ValueErr (''Unknown scope(s): '' @ join '', '' unknown))
              else if WILDCARD \<in> set requested then Inr [WILDCARD]
              else Inr (filter (\<lambda>s. s \<in> set requested) ALL_SCOPES)))"

definition scope_satisfied :: "string list \<Rightarrow> string \<Rightarrow> bool" where
  "scope_satisfied granted required \<longleftrightarrow> WILDCARD \<in> set granted \<or> required \<in> set granted"

definition is_subset :: "string list \<Rightarrow> string list \<Rightarrow> bool" where
  "is_subset child parent =
     (if WILDCARD \<in> set parent then True
      else if WILDCARD \<in> set child then False
      else set child \<subseteq> set parent)"

section \<open>Lemmas\<close>

lemma set_ALL_SCOPES_finite: "finite (set ALL_SCOPES)"
  by simp

lemma ALL_SCOPES_list:
  "ALL_SCOPES = [EMAIL_READ, EMAIL_SEND, EMAIL_DELETE, EMAIL_VALIDATE, MAILBOX_READ,
     MAILBOX_MANAGE, GPG_READ, GPG_MANAGE, FORWARDING_READ, FORWARDING_MANAGE, APIKEY_READ,
     APIKEY_MANAGE, DOMAIN_READ, DOMAIN_MANAGE, ALIAS_READ, ALIAS_MANAGE, SYSTEM_READ,
     SYSTEM_MANAGE, TUNNEL_READ, TUNNEL_MANAGE, WARMUP_READ, WARMUP_MANAGE]"
  by (simp add: ALL_SCOPES_def SCOPES_def scope_entry_def)

lemma distinct_ALL_SCOPES: "distinct ALL_SCOPES"
  by (simp add: ALL_SCOPES_list scope_names)

lemma WILDCARD_not_catalogued: "WILDCARD \<notin> set ALL_SCOPES"
  by (simp add: ALL_SCOPES_list scope_names)

text \<open>There is always a scope name outside a given list, so the wildcard is strictly
  stronger than any explicit list.\<close>

lemma exists_other_scope: "\<exists>s::string. s \<notin> set granted"
  by (metis ex_new_if_finite finite_set infinite_UNIV_listI)

interpretation scope_grants: exact_grant_order scope_satisfied is_subset
proof unfold_locales
  fix c p :: "string list" and r
  assume "is_subset c p" and "scope_satisfied c r"
  then show "scope_satisfied p r"
    by (auto simp: is_subset_def scope_satisfied_def split: if_splits)
next
  fix c p :: "string list"
  assume incl: "\<And>r. scope_satisfied c r \<Longrightarrow> scope_satisfied p r"
  show "is_subset c p"
  proof (cases "WILDCARD \<in> set p")
    case True
    then show ?thesis by (simp add: is_subset_def)
  next
    case False
    obtain s where s: "s \<notin> set p" using exists_other_scope by blast
    have "WILDCARD \<notin> set c"
    proof
      assume "WILDCARD \<in> set c"
      then have "scope_satisfied p s" using incl by (simp add: scope_satisfied_def)
      with False s show False by (simp add: scope_satisfied_def)
    qed
    moreover have "set c \<subseteq> set p"
      using incl False by (auto simp: scope_satisfied_def)
    ultimately show ?thesis using False by (simp add: is_subset_def)
  qed
qed

lemma normalize_scopes_empty [simp]:
  "normalize_scopes None = Inr [WILDCARD]"
  "normalize_scopes (Some []) = Inr [WILDCARD]"
  by (simp_all add: normalize_scopes_def)

lemma normalize_scopes_nonempty:
  assumes "scopes \<noteq> []"
  shows "normalize_scopes (Some scopes) =
     (if \<exists>s \<in> set scopes. \<not> is_valid_scope s
      then Inl (ValueErr (''Unknown scope(s): '' @
             join '', '' (sorted_set (filter (\<lambda>s. \<not> is_valid_scope s) scopes))))
      else if WILDCARD \<in> set scopes then Inr [WILDCARD]
      else Inr (filter (\<lambda>s. s \<in> set scopes) ALL_SCOPES))"
proof -
  obtain a as where "scopes = a # as" using assms by (cases scopes) auto
  then show ?thesis
    by (auto simp: normalize_scopes_def Let_def filter_empty_conv simp del: filter.simps)
qed

lemma normalize_scopes_error:
  "scopes \<noteq> [] \<Longrightarrow>
   (\<exists>e. normalize_scopes (Some scopes) = Inl e) \<longleftrightarrow> (\<exists>s \<in> set scopes. \<not> is_valid_scope s)"
  by (simp add: normalize_scopes_nonempty)

lemma normalize_scopes_grants_same:
  assumes "normalize_scopes (Some scopes) = Inr out" and "scopes \<noteq> []"
  shows "scope_satisfied out r \<longleftrightarrow> scope_satisfied scopes r"
  using assms WILDCARD_not_catalogued
  by (auto simp: normalize_scopes_nonempty scope_satisfied_def is_valid_scope_def split: if_splits)

text \<open>a requested scope list is refused exactly when it names an unknown scope; otherwise
  the stored list is duplicate-free, in catalogue order, grants exactly what was requested,
  and normalising it again changes nothing.\<close>

theorem normalize_scopes_correct:
  assumes "scopes \<noteq> []"
  shows "case normalize_scopes (Some scopes) of
      Inl e \<Rightarrow> (\<exists>s \<in> set scopes. \<not> is_valid_scope s)
    | Inr out \<Rightarrow> (\<forall>s \<in> set scopes. is_valid_scope s) \<and> distinct out \<and>
        subseq out (WILDCARD # ALL_SCOPES) \<and>
        (\<forall>r. scope_satisfied out r \<longleftrightarrow> scope_satisfied scopes r) \<and>
        normalize_scopes (Some out) = Inr out"
proof (cases "normalize_scopes (Some scopes)")
  case (Inl e)
  with assms show ?thesis by (auto simp: normalize_scopes_nonempty split: if_splits)
next
  case (Inr out)
  have valid: "\<forall>s \<in> set scopes. is_valid_scope s"
    using Inr assms by (auto simp: normalize_scopes_nonempty split: if_splits)
  have out: "out = (if WILDCARD \<in> set scopes then [WILDCARD]
      else filter (\<lambda>s. s \<in> set scopes) ALL_SCOPES)"
    using Inr assms valid by (auto simp: normalize_scopes_nonempty split: if_splits)
  have "distinct out" using out distinct_ALL_SCOPES by simp
  moreover have "subseq out (WILDCARD # ALL_SCOPES)"
    using out by (simp add: list_emb_Cons)
  moreover have "\<forall>r. scope_satisfied out r \<longleftrightarrow> scope_satisfied scopes r"
    using normalize_scopes_grants_same [OF Inr assms] by blast
  moreover have "normalize_scopes (Some out) = Inr out"
  proof (cases "WILDCARD \<in> set scopes")
    case True
    then show ?thesis
      using out by (simp add: normalize_scopes_nonempty is_valid_scope_def)
  next
    case False
    have "set out = set scopes"
      using False valid out by (auto simp: is_valid_scope_def)
    moreover from this assms have "out \<noteq> []" by auto
    ultimately show ?thesis
      using False valid out by (auto simp: normalize_scopes_nonempty intro!: filter_cong)
  qed
  ultimately show ?thesis using Inr valid by simp
qed

theorem normalize_scopes_correct_witness:
  "normalize_scopes (Some [EMAIL_SEND, EMAIL_READ, EMAIL_SEND]) = Inr [EMAIL_READ, EMAIL_SEND] \<and>
   distinct [EMAIL_READ, EMAIL_SEND]"
proof -
  have n: "normalize_scopes (Some [EMAIL_SEND, EMAIL_READ, EMAIL_SEND]) = Inr [EMAIL_READ, EMAIL_SEND]"
    by (simp add: normalize_scopes_nonempty is_valid_scope_def ALL_SCOPES_list scope_names)
  have "[EMAIL_SEND, EMAIL_READ, EMAIL_SEND] \<noteq> []" by simp
  from normalize_scopes_correct [OF this] n show ?thesis by simp
qed

text \<open>\<open>is_subset\<close>, the guard against privilege escalation, is exact: it accepts a child
  scope list precisely when everything it satisfies is satisfied by the parent too.\<close>

theorem is_subset_iff_includes:
  "is_subset child parent \<longleftrightarrow>
     {r. scope_satisfied child r} \<subseteq> {r. scope_satisfied parent r}"
  by (auto simp: scope_grants.within_iff_includes)

end
