(* ===== verification/AuthGate.thy ===== *)
theory AuthGate
  imports AuthCore Scopes
begin

text \<open>
  \<^verbatim>\<open>dependencies.py\<close>: who is making a request and what the principal may do. The
  session store is the database of \<open>Models\<close>; \<open>get_auth\<close> tries the Bearer token, then the
  API key, then the refresh cookie, and stops at the first credential present.
\<close>

section \<open>Permissions of a principal\<close>

definition has_scope :: "auth_context \<Rightarrow> string \<Rightarrow> bool" where
  "has_scope auth scope =
     (case ctx_api_key auth of None \<Rightarrow> True | Some k \<Rightarrow> scope_satisfied (k_scopes k) scope)"

definition mailbox_allowed :: "auth_context \<Rightarrow> string \<Rightarrow> bool" where
  "mailbox_allowed auth address =
     (case ctx_allowed_mailboxes auth of
        None \<Rightarrow> True
      | Some allowed \<Rightarrow> lower address \<in> set allowed)"

definition require_scope :: "auth_context \<Rightarrow> string \<Rightarrow> unit result" where
  "require_scope auth scope =
     (if \<not> has_scope auth scope
      then Inl (Http 403 (''API key is missing the required '' @ quoted scope @ '' permission''))
      else Inr ())"

definition require_admin :: "user \<Rightarrow> user result" where
  "require_admin current_user =
     (if \<not> u_is_admin current_user then Inl (Http 403 ''Admin privileges required'')
      else Inr current_user)"

section \<open>Resolving the principal\<close>

definition user_from_jwt :: "crypto \<Rightarrow> time \<Rightarrow> string \<Rightarrow> bool \<Rightarrow> db \<Rightarrow> user result" where
  "user_from_jwt cr now token allow_refresh d =
     (case decode_jwt cr now token of
        Inl e \<Rightarrow> Inl (Http 401 ''Invalid or expired token'')
      | Inr payload \<Rightarrow>
          if c_type payload \<notin> {Some ''access'', Some ''refresh''} \<or>
             (c_type payload = Some ''refresh'' \<and> \<not> allow_refresh)
          then Inl (Http 401 ''Invalid token type'')
          else (case c_sub payload of
                  None \<Rightarrow> Inl (Http 401 ''Token missing subject'')
                | Some uid \<Rightarrow>
                    (case get_user uid d of
                       None \<Rightarrow> Inl (Http 401 ''User not found or inactive'')
                     | Some u \<Rightarrow>
                         if \<not> u_is_active u then Inl (Http 401 ''User not found or inactive'')
                         else if c_ver payload \<noteq> Some (u_token_version u)
                         then Inl (Http 401 ''Session has been revoked'')
                         else Inr u)))"

record request =
  rq_bearer :: "string option"
  rq_api_key :: "string option"
  rq_refresh_cookie :: "string option"

definition session_context :: "user \<Rightarrow> auth_context" where
  "session_context u = \<lparr>ctx_user = u, ctx_api_key = None\<rparr>"

definition get_auth :: "crypto \<Rightarrow> time \<Rightarrow> request \<Rightarrow> db \<Rightarrow> auth_context result \<times> db" where
  "get_auth cr now rq d =
     (case rq_bearer rq of
        Some token \<Rightarrow> (map_sum id session_context (user_from_jwt cr now token False d), d)
      | None \<Rightarrow>
          (case rq_api_key rq of
             Some raw \<Rightarrow>
               (case validate_api_key cr now raw d of
                  (Inl e, d') \<Rightarrow> (Inl e, d')
                | (Inr (Some (u, k)), d') \<Rightarrow> (Inr \<lparr>ctx_user = u, ctx_api_key = Some k\<rparr>, d')
                | (Inr None, d') \<Rightarrow> (Inl (Http 401 ''Invalid API key''), d'))
           | None \<Rightarrow>
               (case rq_refresh_cookie rq of
                  Some token \<Rightarrow> (map_sum id session_context (user_from_jwt cr now token True d), d)
                | None \<Rightarrow> (Inl (Http 401 ''Authentication required''), d))))"

section \<open>Lemmas\<close>

lemma has_scope_session [simp]: "ctx_api_key auth = None \<Longrightarrow> has_scope auth s"
  by (simp add: has_scope_def)

lemma has_scope_ctx_scopes: "has_scope auth s \<longleftrightarrow> scope_satisfied (ctx_scopes auth) s"
  by (auto simp: has_scope_def ctx_scopes_def scope_satisfied_def scope_names split: option.splits)

lemma require_scope_allowed [simp]: "has_scope auth s \<Longrightarrow> require_scope auth s = Inr ()"
  by (simp add: require_scope_def)

lemma require_scope_ok_iff: "require_scope auth s = Inr () \<longleftrightarrow> has_scope auth s"
  by (simp add: require_scope_def)

lemma require_admin_simps [simp]:
  "u_is_admin u \<Longrightarrow> require_admin u = Inr u"
  "\<not> u_is_admin u \<Longrightarrow> require_admin u = Inl (Http 403 ''Admin privileges required'')"
  by (simp_all add: require_admin_def)

lemma require_admin_Inr_iff: "require_admin u = Inr v \<longleftrightarrow> u_is_admin u \<and> v = u"
  by (auto simp: require_admin_def)

text \<open>A token opens a session exactly when it decodes to an admissible type, names an active
  user and carries that user's current version.\<close>

lemma user_from_jwt_Inr_iff:
  "user_from_jwt cr now token refresh d = Inr u \<longleftrightarrow>
     (\<exists>p uid. jwt_decode cr now token = Some p \<and>
        (c_type p = Some ''access'' \<or> c_type p = Some ''refresh'' \<and> refresh) \<and>
        c_sub p = Some uid \<and> get_user uid d = Some u \<and> u_is_active u \<and>
        c_ver p = Some (u_token_version u))"
  by (auto simp: user_from_jwt_def decode_jwt_def split: option.splits)

lemma user_from_jwt_error_401:
  "user_from_jwt cr now token refresh d = Inl e \<Longrightarrow> status_code e = 401"
  by (auto simp: user_from_jwt_def decode_jwt_def split: option.splits if_splits)

lemma validate_api_key_sound:
  assumes "validate_api_key cr now raw d = (Inr (Some (u, k)), d')"
  shows "u_is_active u \<and> get_user (k_user_id k) d = Some u \<and> k_is_active k \<and>
     argon_verify cr (k_key_hash k) raw = Verified \<and>
     (\<exists>row \<in> set (api_keys d). k = row\<lparr>k_last_used_at := Some now\<rparr> \<and> k_prefix row = take 8 raw)"
proof -
  from validate_rows_sound [OF assms [unfolded validate_api_key_def]]
  obtain row where "row \<in> set (api_keys d)" "k_prefix row = api_key_prefix raw" "k_is_active row"
      "verify_password cr raw (k_key_hash row) = Inr True" "k = row\<lparr>k_last_used_at := Some now\<rparr>"
      "get_user (k_user_id row) d = Some u" "u_is_active u"
    by auto
  moreover from this have "argon_verify cr (k_key_hash row) raw = Verified"
    by (simp add: verify_password_def split: argon_outcome.splits)
  ultimately show ?thesis by (auto simp: api_key_prefix_def)
qed

text \<open>The two restrictions of an API key, as grants in the sense of the interface in \<open>Scopes\<close>.\<close>

definition mailbox_grant_permits :: "string list option \<Rightarrow> string \<Rightarrow> bool" where
  "mailbox_grant_permits g a =
     (case g of None \<Rightarrow> True | Some [] \<Rightarrow> True | Some ms \<Rightarrow> lower a \<in> set (map lower ms))"

lemma mailbox_allowed_grant:
  "ctx_api_key auth = Some k \<Longrightarrow>
   mailbox_allowed auth a \<longleftrightarrow> mailbox_grant_permits (k_allowed_mailboxes k) a"
  by (auto simp: mailbox_allowed_def ctx_allowed_mailboxes_def mailbox_grant_permits_def
      split: option.splits list.splits)

end
