(* ===== verification/AuthSession.thy ===== *)
theory AuthSession
  imports AuthGate
begin

text \<open>
  The session endpoints of \<^verbatim>\<open>auth/router.py\<close>: login, second factor, refresh, logout,
  password change and reset, and the TOTP life cycle. A handler takes the database and
  returns its response (or the exception it raises) with the database as committed at that
  point; a failed attempt that is recorded before the exception is raised stays recorded.
\<close>

section \<open>Responses\<close>

record cookie =
  ck_value :: string
  ck_httponly :: bool
  ck_samesite :: string
  ck_secure :: bool
  ck_max_age :: int
  ck_path :: string

datatype login_response =
    TokenResponse (access_token: string) (refresh_cookie: cookie) (token_user: user)
  | LoginStepResponse (temp_token: string)

definition refresh_cookie_for :: "settings \<Rightarrow> string \<Rightarrow> cookie" where
  "refresh_cookie_for st refresh =
     \<lparr>ck_value = refresh, ck_httponly = True,
      ck_samesite = (if is_production st then ''strict'' else ''lax''),
      ck_secure = is_production st,
      ck_max_age = 60 * 60 * 24 * refresh_token_expire_days st,
      ck_path = ''/api/v1/auth/refresh''\<rparr>"

definition issue_tokens :: "settings \<Rightarrow> crypto \<Rightarrow> time \<Rightarrow> user \<Rightarrow> int \<Rightarrow> login_response" where
  "issue_tokens st cr now u ver =
     TokenResponse (create_access_token st cr now (u_id u) ver)
       (refresh_cookie_for st (create_refresh_token st cr now (u_id u) ver)) u"

section \<open>Login\<close>

definition login ::
  "settings \<Rightarrow> crypto \<Rightarrow> time \<Rightarrow> string \<Rightarrow> string \<Rightarrow> db \<Rightarrow> login_response result \<times> db" where
  "login st cr now username password d =
     (case one_or_none (filter (\<lambda>u. u_username u = username) (users d)) of
        Inl e \<Rightarrow> (Inl e, d)
      | Inr None \<Rightarrow> (Inl (Http 401 ''Invalid credentials''), d)
      | Inr (Some u) \<Rightarrow>
          if is_account_locked now u
          then (Inl (Http 423 ''Account is temporarily locked due to too many failed login attempts''), d)
          else (case verify_password cr password (u_hashed_password u) of
                  Inl e \<Rightarrow> (Inl e, d)
                | Inr False \<Rightarrow>
                    (Inl (Http 401 ''Invalid credentials''), save_user (record_failed_login st now u) d)
                | Inr True \<Rightarrow>
                    if \<not> u_is_active u then (Inl (Http 401 ''Account is disabled''), d)
                    else (let u' = reset_failed_login u; d' = save_user u' d
                          in if u_totp_enabled u
                             then (Inr (LoginStepResponse
                                     (create_2fa_temp_token cr now (u_id u) (u_token_version u))), d')
                             else (Inr (issue_tokens st cr now u' (u_token_version u)), d'))))"

text \<open>\<open>if not user.totp_secret\<close>: absent or empty.\<close>

definition login_2fa ::
  "settings \<Rightarrow> crypto \<Rightarrow> time \<Rightarrow> string \<Rightarrow> string \<Rightarrow> db \<Rightarrow> login_response result \<times> db" where
  "login_2fa st cr now temp_tok totp_code d =
     (case decode_jwt cr now temp_tok of
        Inl e \<Rightarrow> (Inl (Http 401 ''Invalid or expired 2FA token''), d)
      | Inr payload \<Rightarrow>
          if c_type payload \<noteq> Some ''2fa_temp'' then (Inl (Http 401 ''Invalid token type''), d)
          else (case c_sub payload of
             None \<Rightarrow> (Inl (Http 401 ''Bad token''), d)
           | Some uid \<Rightarrow>
              (case get_user uid d of
                 None \<Rightarrow> (Inl (Http 401 ''User not found or inactive''), d)
               | Some u \<Rightarrow>
                   if \<not> u_is_active u then (Inl (Http 401 ''User not found or inactive''), d)
                   else if c_ver payload \<noteq> Some (u_token_version u)
                   then (Inl (Http 401 ''Session has been revoked''), d)
                   else if is_account_locked now u
                   then (Inl (Http 423 ''Account is temporarily locked due to too many failed attempts''), d)
                   else if \<not> truthy (u_totp_secret u)
                   then (Inl (Http 400 ''TOTP not configured''), d)
                   else (case fernet_decrypt cr (the (u_totp_secret u)) of
                           None \<Rightarrow> (Inl (Http 503 ''Two-factor authentication is unavailable. Contact an administrator.''), d)
                         | Some secret \<Rightarrow>
                             if \<not> totp_verify cr now secret totp_code
                             then (Inl (Http 401 ''Invalid TOTP code''),
                                   save_user (record_failed_login st now u) d)
                             else (let u' = reset_failed_login u
                                   in (Inr (issue_tokens st cr now u' (u_token_version u)),
                                       save_user u' d))))))"

section \<open>Passwords\<close>

definition change_password ::
  "settings \<Rightarrow> crypto \<Rightarrow> time \<Rightarrow> string \<Rightarrow> user \<Rightarrow> string \<Rightarrow> string \<Rightarrow> db \<Rightarrow> unit result \<times> db" where
  "change_password st cr now salt current_user current_password new_password d =
     (if is_account_locked now current_user
      then (Inl (Http 423 ''Account is temporarily locked due to too many failed attempts''), d)
      else (case verify_password cr current_password (u_hashed_password current_user) of
              Inl e \<Rightarrow> (Inl e, d)
            | Inr False \<Rightarrow>
                (Inl (Http 401 ''Current password is incorrect''),
                 save_user (record_failed_login st now current_user) d)
            | Inr True \<Rightarrow>
                (let u = (reset_failed_login current_user)
                       \<lparr>u_hashed_password := hash_password cr salt new_password,
                        u_token_version := u_token_version current_user + 1\<rparr>
                 in (Inr (), save_user u d))))"

definition admin_reset_password ::
  "crypto \<Rightarrow> string \<Rightarrow> user \<Rightarrow> string \<Rightarrow> string \<Rightarrow> db \<Rightarrow> unit result \<times> db" where
  "admin_reset_password cr salt admin username new_password d =
     (case one_or_none (filter (\<lambda>u. u_username u = username) (users d)) of
        Inl e \<Rightarrow> (Inl e, d)
      | Inr None \<Rightarrow> (Inl (Http 404 (''User '' @ quoted username @ '' not found'')), d)
      | Inr (Some u) \<Rightarrow>
          (Inr (), save_user (u\<lparr>u_hashed_password := hash_password cr salt new_password,
                               u_token_version := u_token_version u + 1\<rparr>) d))"

section \<open>TOTP\<close>

definition totp_setup :: "crypto \<Rightarrow> string \<Rightarrow> string \<Rightarrow> user \<Rightarrow> db \<Rightarrow> string result \<times> db" where
  "totp_setup cr nonce secret current_user d =
     (if u_totp_enabled current_user then (Inl (Http 400 ''TOTP is already enabled''), d)
      else (Inr secret, save_user (current_user\<lparr>u_totp_secret := Some (fernet_encrypt cr nonce secret)\<rparr>) d))"

definition totp_confirm ::
  "settings \<Rightarrow> crypto \<Rightarrow> time \<Rightarrow> user \<Rightarrow> string \<Rightarrow> db \<Rightarrow> unit result \<times> db" where
  "totp_confirm st cr now current_user totp_code d =
     (if u_totp_enabled current_user then (Inl (Http 400 ''TOTP is already enabled''), d)
      else if \<not> truthy (u_totp_secret current_user)
      then (Inl (Http 400 ''TOTP setup has not been initiated. Call POST /totp/setup first.''), d)
      else (case fernet_decrypt cr (the (u_totp_secret current_user)) of
              None \<Rightarrow> (Inl (Http 400 ''TOTP secret could not be decrypted. Please restart setup with POST /totp/setup.''),
                       save_user (current_user\<lparr>u_totp_secret := None\<rparr>) d)
            | Some secret \<Rightarrow>
                if \<not> totp_verify cr now secret totp_code
                then (Inl (Http 400 ''Invalid TOTP code. Please try again.''),
                      save_user (record_failed_login st now current_user) d)
                else (Inr (), save_user ((reset_failed_login current_user)\<lparr>u_totp_enabled := True\<rparr>) d)))"

definition totp_disable ::
  "settings \<Rightarrow> crypto \<Rightarrow> time \<Rightarrow> user \<Rightarrow> string \<Rightarrow> string \<Rightarrow> db \<Rightarrow> unit result \<times> db" where
  "totp_disable st cr now current_user password totp_code d =
     (if \<not> u_totp_enabled current_user then (Inl (Http 400 ''TOTP is not enabled''), d)
      else if is_account_locked now current_user
      then (Inl (Http 423 ''Account is temporarily locked due to too many failed attempts''), d)
      else (case verify_password cr password (u_hashed_password current_user) of
              Inl e \<Rightarrow> (Inl e, d)
            | Inr False \<Rightarrow> (Inl (Http 401 ''Password is incorrect''),
                            save_user (record_failed_login st now current_user) d)
            | Inr True \<Rightarrow>
               (if \<not> truthy (u_totp_secret current_user)
                then (Inl (Http 400 ''TOTP secret not found''), d)
                else (case fernet_decrypt cr (the (u_totp_secret current_user)) of
                        None \<Rightarrow> (Inl (Http 503 ''Two-factor authentication is unavailable. Contact an administrator.''), d)
                      | Some secret \<Rightarrow>
                          if \<not> totp_verify cr now secret totp_code
                          then (Inl (Http 400 ''Invalid TOTP code''),
                                save_user (record_failed_login st now current_user) d)
                          else (Inr (), save_user ((reset_failed_login current_user)
                                  \<lparr>u_totp_enabled := False, u_totp_secret := None\<rparr>) d)))))"

section \<open>Logout and refresh\<close>

text \<open>
  \<open>logout\<close> computes the new version from the row its request loaded and writes that one
  column; the row may have changed in the meantime, so it is read again here.
\<close>

definition logout :: "user \<Rightarrow> db \<Rightarrow> unit result \<times> db" where
  "logout current_user d =
     (Inr (), case get_user (u_id current_user) d of
        None \<Rightarrow> d
      | Some row \<Rightarrow> save_user (row\<lparr>u_token_version := u_token_version current_user + 1\<rparr>) d)"

text \<open>
  \<open>refresh\<close> in two halves, because other requests can be served between them: reading the
  token and the user row, and the compare-and-set \<open>UPDATE ... RETURNING\<close> on the version
  that was read. \<open>origin\<close> is the request's Origin header.
\<close>

definition refresh_token_of :: "string option \<Rightarrow> string option \<Rightarrow> (string \<times> bool) option" where
  "refresh_token_of body_token cookie_token =
     (if truthy body_token then Some (the body_token, False)
      else map_option (\<lambda>t. (t, True)) cookie_token)"

definition refresh_read ::
  "settings \<Rightarrow> crypto \<Rightarrow> time \<Rightarrow> string option \<Rightarrow> string option \<Rightarrow> string option \<Rightarrow> db \<Rightarrow> user result" where
  "refresh_read st cr now body_token cookie_token origin d =
     (case refresh_token_of body_token cookie_token of
        None \<Rightarrow> Inl (Http 401 ''Refresh token required'')
      | Some (token, using_cookie) \<Rightarrow>
          if using_cookie \<and> is_production st \<and> origin \<noteq> None \<and>
             the origin \<notin> set (cors_origins st) \<union>
               {''https://'' @ s_hostname st, ''https://'' @ s_domain st}
          then Inl (Http 403 ''Refresh request origin is not allowed'')
          else (case decode_jwt cr now token of
             Inl e \<Rightarrow> Inl (Http 401 ''Invalid or expired refresh token'')
           | Inr payload \<Rightarrow>
               if c_type payload \<noteq> Some ''refresh''
               then Inl (Http 401 ''Token is not a refresh token'')
               else (case c_sub payload of
                  None \<Rightarrow> Inl (Http 401 ''Bad token'')
                | Some uid \<Rightarrow>
                    (case get_user uid d of
                       None \<Rightarrow> Inl (Http 401 ''User not found or inactive'')
                     | Some u \<Rightarrow>
                         if \<not> u_is_active u then Inl (Http 401 ''User not found or inactive'')
                         else if c_ver payload \<noteq> Some (u_token_version u)
                         then Inl (Http 401 ''Session has been revoked'')
                         else Inr u))))"

definition refresh_rotate ::
  "settings \<Rightarrow> crypto \<Rightarrow> time \<Rightarrow> user \<Rightarrow> db \<Rightarrow> login_response result \<times> db" where
  "refresh_rotate st cr now u d =
     (case get_user (u_id u) d of
        Some row \<Rightarrow>
          if u_token_version row = u_token_version u
          then (let new_version = u_token_version row + 1
                in (Inr (issue_tokens st cr now u new_version),
                    save_user (row\<lparr>u_token_version := new_version\<rparr>) d))
          else (Inl (Http 401 ''Refresh token has already been used''), d)
      | None \<Rightarrow> (Inl (Http 401 ''Refresh token has already been used''), d))"

definition refresh ::
  "settings \<Rightarrow> crypto \<Rightarrow> time \<Rightarrow> string option \<Rightarrow> string option \<Rightarrow> string option \<Rightarrow> db
     \<Rightarrow> login_response result \<times> db" where
  "refresh st cr now body_token cookie_token origin d =
     (case refresh_read st cr now body_token cookie_token origin d of
        Inl e \<Rightarrow> (Inl e, d)
      | Inr u \<Rightarrow> refresh_rotate st cr now u d)"

end
