(* ===== verification/DemoCrypto.thy ===== *)
theory DemoCrypto
  imports AuthCore
begin

text \<open>
  A concrete instance of the third-party primitives, with which the assumptions made about
  them are shown to be satisfiable: hashes are the plain text behind a marker, a token is a
  reversible text form of its claims, and the only valid TOTP code is \<open>123456\<close>.
\<close>

fun enc_str :: "string \<Rightarrow> string" where
  "enc_str [] = ''.''"
| "enc_str (c # s) = CHR ''x'' # c # enc_str s"

fun dec_str :: "string \<Rightarrow> string \<times> string" where
  "dec_str (x # c # s) =
     (if x = CHR ''x'' then (case dec_str s of (a, r) \<Rightarrow> (c # a, r)) else ([], c # s))"
| "dec_str [x] = ([], [])"
| "dec_str [] = ([], [])"

lemma dec_enc_str [simp]: "dec_str (enc_str s @ r) = (s, r)"
proof (induction s)
  case Nil
  show ?case by (cases r) auto
next
  case (Cons c s)
  then show ?case by simp
qed

definition enc_int :: "int \<Rightarrow> string" where
  "enc_int i = (if i < 0 then ''-'' else ''+'') @ enc_str (replicate (nat \<bar>i\<bar>) CHR ''1'')"

definition dec_int :: "string \<Rightarrow> int \<times> string" where
  "dec_int s = (case dec_str (tl s) of
     (ones, r) \<Rightarrow> (if hd s = CHR ''-'' then - int (length ones) else int (length ones), r))"

lemma dec_enc_int [simp]: "dec_int (enc_int i @ r) = (i, r)"
  by (simp add: dec_int_def enc_int_def)

definition enc_opt :: "('a \<Rightarrow> string) \<Rightarrow> 'a option \<Rightarrow> string" where
  "enc_opt f v = (case v of None \<Rightarrow> ''N'' | Some a \<Rightarrow> CHR ''S'' # f a)"

definition dec_opt :: "(string \<Rightarrow> 'a \<times> string) \<Rightarrow> string \<Rightarrow> 'a option \<times> string" where
  "dec_opt g s = (if hd s = CHR ''N'' then (None, tl s)
     else (case g (tl s) of (a, r) \<Rightarrow> (Some a, r)))"

lemma dec_enc_opt: "(\<And>a r. g (f a @ r) = (a, r)) \<Longrightarrow> dec_opt g (enc_opt f v @ r) = (v, r)"
  by (simp add: dec_opt_def enc_opt_def split: option.splits)

definition demo_encode :: "claims \<Rightarrow> string" where
  "demo_encode p = enc_opt enc_str (c_sub p) @ enc_opt enc_str (c_type p) @
     enc_opt enc_int (c_ver p) @ enc_int (c_exp p)"

definition demo_decode :: "time \<Rightarrow> string \<Rightarrow> claims option" where
  "demo_decode now s0 =
     (let (sub, s1) = dec_opt dec_str s0;
          (typ, s2) = dec_opt dec_str s1;
          (ver, s3) = dec_opt dec_int s2;
          (ex, s4) = dec_int s3;
          p = \<lparr>c_sub = sub, c_type = typ, c_ver = ver, c_exp = ex\<rparr>
      in if demo_encode p = s0 \<and> now < ex then Some p else None)"

definition demo_crypto :: crypto where
  "demo_crypto =
     \<lparr>argon_hash = (\<lambda>salt plain. CHR ''h'' # plain),
      argon_verify = (\<lambda>stored plain. if stored = CHR ''h'' # plain then Verified else Mismatch),
      jwt_encode = demo_encode,
      jwt_decode = demo_decode,
      fernet_encrypt = (\<lambda>nonce plain. CHR ''f'' # plain),
      fernet_decrypt = (\<lambda>s. case s of c # r \<Rightarrow> if c = CHR ''f'' then Some r else None | [] \<Rightarrow> None),
      totp_verify = (\<lambda>now secret code. code = ''123456'')\<rparr>"

lemma demo_crypto_simps [simp]:
  "argon_hash demo_crypto salt plain = CHR ''h'' # plain"
  "argon_verify demo_crypto stored plain = (if stored = CHR ''h'' # plain then Verified else Mismatch)"
  "jwt_encode demo_crypto = demo_encode"
  "jwt_decode demo_crypto = demo_decode"
  "fernet_encrypt demo_crypto nonce plain = CHR ''f'' # plain"
  "fernet_decrypt demo_crypto (c # r) = (if c = CHR ''f'' then Some r else None)"
  "totp_verify demo_crypto now secret tc \<longleftrightarrow> tc = ''123456''"
  by (simp_all add: demo_crypto_def)

lemma demo_decode_encode:
  "now < c_exp p \<Longrightarrow> demo_decode now (demo_encode p) = Some p"
  by (simp add: demo_decode_def demo_encode_def dec_enc_opt
      dec_enc_int [where r = "[]", simplified])

lemma demo_jwt_roundtrip: "jwt_roundtrip demo_crypto"
  by (simp add: jwt_roundtrip_def demo_decode_encode)

text \<open>A small database: an administrator and an ordinary user with a second factor.\<close>

definition demo_admin :: user where
  "demo_admin = \<lparr>u_id = ''1'', u_username = ''admin'', u_email = ''a@x'',
     u_hashed_password = ''hroot'', u_is_admin = True, u_is_active = True, u_created_at = 0,
     u_totp_secret = None, u_totp_enabled = False, u_failed_login_attempts = 0,
     u_locked_until = None, u_token_version = 0, u_max_mailboxes = 5\<rparr>"

definition demo_alice :: user where
  "demo_alice = \<lparr>u_id = ''2'', u_username = ''alice'', u_email = ''b@x'',
     u_hashed_password = ''hpw'', u_is_admin = False, u_is_active = True, u_created_at = 1,
     u_totp_secret = Some ''fS'', u_totp_enabled = True, u_failed_login_attempts = 0,
     u_locked_until = None, u_token_version = 0, u_max_mailboxes = 5\<rparr>"

definition demo_settings :: settings where
  "demo_settings = \<lparr>is_production = False, max_failed_login_attempts = 5,
     lockout_duration_minutes = 15, access_token_expire_minutes = 60,
     refresh_token_expire_days = 7, cors_origins = [], s_hostname = ''mail.x'',
     s_domain = ''x'', admin_user = ''admin'', admin_password = ''root'',
     mail_storage_path = ''/var/mail/vhosts''\<rparr>"

definition demo_db :: db where
  "demo_db = \<lparr>users = [demo_admin, demo_alice], api_keys = [], mailboxes = [], domains = [],
     catch_all_row = None\<rparr>"

lemmas demo_defs = demo_admin_def demo_alice_def demo_settings_def demo_db_def

end
