(* ===== verification/AuthSessionProps.thy ===== *)
theory AuthSessionProps
  imports AuthSession DemoCrypto
begin

text \<open>
  What the session endpoints guarantee: lockout blocks every password path and is reached by
  repeated failures, tokens live until the version of their user changes, a refresh token is
  exchanged at most once however requests interleave; and where the code falls short of that
  (second-factor guessing, a logout racing a refresh).
\<close>

section \<open>Well-formed user tables\<close>

text \<open>The unique constraints of the \<open>users\<close> table and the counter's lower bound.\<close>

definition wf_users :: "db \<Rightarrow> bool" where
  "wf_users d \<longleftrightarrow> distinct (map u_id (users d)) \<and> distinct (map u_username (users d)) \<and>
     distinct (map u_email (users d)) \<and> (\<forall>u \<in> set (users d). 0 \<le> u_failed_login_attempts u)"

lemma wf_users_save:
  assumes "wf_users d" and "get_user (u_id u) d = Some u0"
    and "u_username u = u_username u0" and "u_email u = u_email u0" and "0 \<le> u_failed_login_attempts u"
  shows "wf_users (save_user u d)"
proof -
  have r: "row_get u_id (u_id u) (users d) = Some u0" and i: "distinct (map u_id (users d))"
    using assms(1,2) by (simp_all add: get_user_def wf_users_def)
  have "set (users (save_user u d)) \<subseteq> insert u (set (users d))"
    using set_row_put [of u_id u "users d"] by simp
  with assms(1,5) have "\<forall>v \<in> set (users (save_user u d)). 0 \<le> u_failed_login_attempts v"
    by (auto simp: wf_users_def)
  moreover have "map u_username (row_put u_id u (users d)) = map u_username (users d)"
    "map u_email (row_put u_id u (users d)) = map u_email (users d)"
    using assms(3,4) by (auto intro!: row_put_same_key [OF i r])
  ultimately show ?thesis using assms(1) by (simp add: wf_users_def)
qed

lemma select_username:
  assumes "wf_users d" and "u \<in> set (users d)" and "u_username u = n"
  shows "one_or_none (filter (\<lambda>v. u_username v = n) (users d)) = Inr (Some u)"
  using assms one_or_none_filter_unique [of u_username "users d" n]
    row_get_unique [of u_username "users d" u]
  by (auto simp: wf_users_def)

lemma select_username_SomeD:
  assumes "one_or_none (filter (\<lambda>v. u_username v = n) (users d)) = Inr (Some u)"
  shows "u \<in> set (users d) \<and> u_username u = n"
proof -
  have "u \<in> set (filter (\<lambda>v. u_username v = n) (users d))"
    using assms by (cases "filter (\<lambda>v. u_username v = n) (users d)" rule: one_or_none.cases) auto
  then show ?thesis by simp
qed

lemma get_user_member: "wf_users d \<Longrightarrow> u \<in> set (users d) \<Longrightarrow> get_user (u_id u) d = Some u"
  by (simp add: wf_users_def get_user_def row_get_unique)

section \<open>Login\<close>

text \<open>One login attempt, for a user the table holds.\<close>

lemma login_known:
  assumes "wf_users d" and "get_user i d = Some u"
  shows "login st cr now (u_username u) password d =
     (if is_account_locked now u
      then (Inl (Http 423 ''Account is temporarily locked due to too many failed login attempts''), d)
      else (case verify_password cr password (u_hashed_password u) of
              Inl e \<Rightarrow> (Inl e, d)
            | Inr False \<Rightarrow>
                (Inl (Http 401 ''Invalid credentials''), save_user (record_failed_login st now u) d)
            | Inr True \<Rightarrow>
                if \<not> u_is_active u then (Inl (Http 401 ''Account is disabled''), d)
                else (let u' = reset_failed_login u; d' = save_user u' d
                      in if u_totp_enabled u
                         then (Inr (LoginStepResponse
                                 (create_2fa_temp_token cr now (u_id u) (u_token_version u))), d')
                         else (Inr (issue_tokens st cr now u' (u_token_version u)), d'))))"
  using select_username [OF assms(1), of u] get_user_in_users [OF assms(2)]
  by (simp add: login_def)

text \<open>C1: a successful password login means the account exists, is unlocked and active and the
  password verified; with a second factor enabled no session token is handed out, only the
  90-second token of the second step.\<close>

theorem login_success_requires:
  assumes "login st cr now username password d = (Inr resp, d')"
  shows "\<exists>u \<in> set (users d). u_username u = username \<and> \<not> is_account_locked now u \<and>
     argon_verify cr (u_hashed_password u) password = Verified \<and> u_is_active u \<and>
     (case resp of
        TokenResponse acc ck tu \<Rightarrow> \<not> u_totp_enabled u \<and>
          acc = create_access_token st cr now (u_id u) (u_token_version u)
      | LoginStepResponse t \<Rightarrow> u_totp_enabled u \<and>
          t = create_2fa_temp_token cr now (u_id u) (u_token_version u))"
proof -
  obtain u where u: "one_or_none (filter (\<lambda>v. u_username v = username) (users d)) = Inr (Some u)"
    using assms by (auto simp: login_def split: sum.splits option.splits)
  have "\<not> is_account_locked now u" "argon_verify cr (u_hashed_password u) password = Verified"
      "u_is_active u"
      "resp = (if u_totp_enabled u
         then LoginStepResponse (create_2fa_temp_token cr now (u_id u) (u_token_version u))
         else issue_tokens st cr now (reset_failed_login u) (u_token_version u))"
    using assms u
    by (auto simp: login_def verify_password_def Let_def
        split: if_splits sum.splits bool.splits argon_outcome.splits)
  then show ?thesis
    using select_username_SomeD [OF u] by (auto simp: issue_tokens_def intro!: bexI [of _ u])
qed

theorem login_success_requires_witness:
  "\<exists>u \<in> set (users demo_db). u_username u = ''admin'' \<and> \<not> u_totp_enabled u"
proof -
  have "login demo_settings demo_crypto 0 ''admin'' ''root'' demo_db =
      (Inr (issue_tokens demo_settings demo_crypto 0 demo_admin 0), demo_db)"
    by (simp add: login_def demo_defs verify_password_def is_account_locked_def Let_def
        reset_failed_login_def save_user_def row_put_def)
  from login_success_requires [OF this] show ?thesis
    by (auto simp: issue_tokens_def)
qed

text \<open>while an account is locked no password, right or wrong, and no second-factor code gets
  through or changes anything: the answer is 423 and the database is untouched.\<close>

theorem locked_account_blocks_login:
  assumes "wf_users d" and "get_user i d = Some u" and "is_account_locked now u"
  shows "fst (login st cr now (u_username u) password d) =
      Inl (Http 423 ''Account is temporarily locked due to too many failed login attempts'') \<and>
    snd (login st cr now (u_username u) password d) = d \<and>
    (\<forall>token tc p. jwt_decode cr now token = Some p \<and> c_sub p = Some i \<longrightarrow>
       isl (fst (login_2fa st cr now token tc d)) \<and> snd (login_2fa st cr now token tc d) = d) \<and>
    snd (change_password st cr now salt u old_pw new_pw d) = d \<and>
    status_code (projl (fst (change_password st cr now salt u old_pw new_pw d))) = 423"
  using login_known [OF assms(1,2), of st cr now password] assms(2,3)
  by (auto simp: login_2fa_def decode_jwt_def change_password_def Let_def
      split: option.splits if_splits)

theorem locked_account_blocks_login_witness:
  "fst (login demo_settings demo_crypto 10 ''admin'' ''root''
      (save_user (demo_admin\<lparr>u_locked_until := Some 20\<rparr>) demo_db)) =
    Inl (Http 423 ''Account is temporarily locked due to too many failed login attempts'')"
proof -
  let ?u = "demo_admin\<lparr>u_locked_until := Some 20\<rparr>" and ?d = "save_user (demo_admin\<lparr>u_locked_until := Some 20\<rparr>) demo_db"
  have "wf_users ?d" by (simp add: wf_users_def demo_defs row_put_def)
  moreover have "get_user ''1'' ?d = Some ?u"
    by (simp add: get_user_def demo_defs row_put_def row_get_def)
  moreover have "is_account_locked 10 ?u" by (simp add: is_account_locked_def)
  moreover have "u_username ?u = ''admin''" by (simp add: demo_admin_def)
  ultimately show ?thesis using locked_account_blocks_login [of ?d "''1''" ?u 10] by metis
qed

section \<open>Repeated failures lock the account\<close>

text \<open>A run of login attempts with one password, at the given times.\<close>

fun password_run :: "settings \<Rightarrow> crypto \<Rightarrow> string \<Rightarrow> string \<Rightarrow> time list \<Rightarrow> db \<Rightarrow> db" where
  "password_run st cr username password [] d = d"
| "password_run st cr username password (t # ts) d =
     password_run st cr username password ts (snd (login st cr t username password d))"

lemma wrong_password_step:
  assumes "wf_users d" and "get_user i d = Some u" and "u_username u = n"
    and "\<not> is_account_locked t u" and "argon_verify cr (u_hashed_password u) pw = Mismatch"
  shows "snd (login st cr t n pw d) = save_user (record_failed_login st t u) d"
    and "wf_users (save_user (record_failed_login st t u) d)"
    and "get_user i (save_user (record_failed_login st t u) d) = Some (record_failed_login st t u)"
proof -
  have i: "u_id u = i" using get_user_in_users [OF assms(2)] by simp
  show "snd (login st cr t n pw d) = save_user (record_failed_login st t u) d"
    using login_known [OF assms(1,2), of st cr t pw] assms(3-5) by (simp add: verify_password_def)
  have "0 \<le> u_failed_login_attempts u"
    using assms(1) get_user_in_users [OF assms(2)] by (simp add: wf_users_def)
  then show "wf_users (save_user (record_failed_login st t u) d)"
    using assms(2) i by (intro wf_users_save [OF assms(1), where ?u0.0 = u]) auto
  show "get_user i (save_user (record_failed_login st t u) d) = Some (record_failed_login st t u)"
    using assms(2) i by (intro user_store.get_after_update) auto
qed

lemma wrong_passwords_count:
  assumes "wf_users d" and "get_user i d = Some u" and "u_username u = n"
    and "argon_verify cr (u_hashed_password u) pw = Mismatch" and "u_locked_until u = None"
    and "u_failed_login_attempts u + int (length ts) < max_failed_login_attempts st"
  shows "wf_users (password_run st cr n pw ts d) \<and>
    get_user i (password_run st cr n pw ts d) =
      Some (u\<lparr>u_failed_login_attempts := u_failed_login_attempts u + int (length ts)\<rparr>)"
  using assms
proof (induction ts arbitrary: d u)
  case Nil
  then show ?case by simp
next
  case (Cons t ts)
  let ?u = "record_failed_login st t u"
  have unlocked: "\<not> is_account_locked t u" using Cons.prems(5) by (simp add: is_account_locked_def)
  note step = wrong_password_step [OF Cons.prems(1-3) unlocked Cons.prems(4), of st]
  have rec: "?u = u\<lparr>u_failed_login_attempts := u_failed_login_attempts u + 1\<rparr>"
    using Cons.prems(6) by (simp add: record_failed_login_def)
  have "wf_users (password_run st cr n pw ts (save_user ?u d)) \<and>
      get_user i (password_run st cr n pw ts (save_user ?u d)) =
        Some (?u\<lparr>u_failed_login_attempts := u_failed_login_attempts ?u + int (length ts)\<rparr>)"
    using Cons.prems step rec by (intro Cons.IH) auto
  then show ?case using step(1) rec by (simp add: algebra_simps)
qed

text \<open>as many wrong passwords in a row as the threshold allows lock the account for the
  configured time after the last of them, whatever the moments of the attempts were.\<close>

theorem repeated_failures_lock:
  assumes "wf_users d" and "get_user i d = Some u"
    and "argon_verify cr (u_hashed_password u) pw = Mismatch" and "u_locked_until u = None"
    and "u_failed_login_attempts u + int (length (ts @ [t])) = max_failed_login_attempts st"
  shows "\<exists>u'. get_user i (password_run st cr (u_username u) pw (ts @ [t]) d) = Some u' \<and>
     u_locked_until u' = Some (t + minutes (lockout_duration_minutes st)) \<and>
     u_failed_login_attempts u' = max_failed_login_attempts st"
proof -
  have run: "password_run st cr n p (xs @ [t]) e =
      snd (login st cr t n p (password_run st cr n p xs e))" for n p xs e
    by (induction xs arbitrary: e) auto
  let ?d = "password_run st cr (u_username u) pw ts d"
  let ?u = "u\<lparr>u_failed_login_attempts := u_failed_login_attempts u + int (length ts)\<rparr>"
  have "u_failed_login_attempts u + int (length ts) < max_failed_login_attempts st"
    using assms(5) by simp
  from wrong_passwords_count [OF assms(1,2) refl assms(3,4) this]
  have wf: "wf_users ?d" and get: "get_user i ?d = Some ?u" by blast+
  have "\<not> is_account_locked t ?u" using assms(4) by (simp add: is_account_locked_def)
  from wrong_password_step [OF wf get _ this, of "u_username u" cr pw st] assms(3)
  have "get_user i (password_run st cr (u_username u) pw (ts @ [t]) d) =
      Some (record_failed_login st t ?u)"
    by (simp add: run)
  moreover have "record_failed_login st t ?u =
      u\<lparr>u_failed_login_attempts := max_failed_login_attempts st,
        u_locked_until := Some (t + minutes (lockout_duration_minutes st))\<rparr>"
    using assms(5) by (simp add: record_failed_login_def Let_def)
  ultimately show ?thesis by simp
qed

theorem repeated_failures_lock_witness:
  "\<exists>u'. get_user ''1'' (password_run demo_settings demo_crypto ''admin'' ''guess'' [1, 2, 3, 4, 5] demo_db)
     = Some u' \<and> u_locked_until u' = Some (5 + minutes 15)"
proof -
  have wf: "wf_users demo_db" by (simp add: wf_users_def demo_defs)
  have get: "get_user ''1'' demo_db = Some demo_admin"
    by (simp add: get_user_def demo_defs row_get_def)
  have pw: "argon_verify demo_crypto (u_hashed_password demo_admin) ''guess'' = Mismatch"
    by (simp add: demo_admin_def)
  have n: "u_locked_until demo_admin = None" "u_username demo_admin = ''admin''"
    "u_failed_login_attempts demo_admin + int (length ([1, 2, 3, 4] @ [5::int])) =
       max_failed_login_attempts demo_settings"
    "lockout_duration_minutes demo_settings = 15"
    by (simp_all add: demo_defs)
  from repeated_failures_lock [OF wf get pw n(1) n(3)] n(2,4) show ?thesis by auto
qed

section \<open>Guessing the second factor\<close>

text \<open>One round of an attacker who knows the password of an account with a second factor: a
  password login, then a second-factor attempt with the token it returned.\<close>

definition guess_round ::
  "settings \<Rightarrow> crypto \<Rightarrow> string \<Rightarrow> string \<Rightarrow> time \<times> string \<Rightarrow> db \<Rightarrow> login_response result \<times> db" where
  "guess_round st cr n pw guess d =
     (case login st cr (fst guess) n pw d of
        (Inr (LoginStepResponse tok), d') \<Rightarrow> login_2fa st cr (fst guess) tok (snd guess) d'
      | (r, d') \<Rightarrow> (r, d'))"

fun guess_run ::
  "settings \<Rightarrow> crypto \<Rightarrow> string \<Rightarrow> string \<Rightarrow> (time \<times> string) list \<Rightarrow> db \<Rightarrow> db" where
  "guess_run st cr n pw [] d = d"
| "guess_run st cr n pw (g # gs) d = guess_run st cr n pw gs (snd (guess_round st cr n pw g d))"

definition open_2fa_account :: "crypto \<Rightarrow> string \<Rightarrow> string \<Rightarrow> string \<Rightarrow> user \<Rightarrow> bool" where
  "open_2fa_account cr n pw secret u \<longleftrightarrow> u_username u = n \<and>
     argon_verify cr (u_hashed_password u) pw = Verified \<and> u_is_active u \<and> u_totp_enabled u \<and>
     truthy (u_totp_secret u) \<and> fernet_decrypt cr (the (u_totp_secret u)) = Some secret \<and>
     u_locked_until u = None"

lemma guess_round_wrong:
  assumes wf: "wf_users d" and get: "get_user i d = Some u" and acc: "open_2fa_account cr n pw secret u"
    and jwt: "jwt_roundtrip cr" and wrong: "\<not> totp_verify cr t secret tc"
    and thr: "1 < max_failed_login_attempts st"
  shows "guess_round st cr n pw (t, tc) d =
     (Inl (Http 401 ''Invalid TOTP code''),
      save_user (record_failed_login st t (reset_failed_login u)) (save_user (reset_failed_login u) d))"
proof -
  have i: "u_id u = i" using get_user_in_users [OF get] by simp
  let ?d = "save_user (reset_failed_login u) d"
  have get': "get_user i ?d = Some (reset_failed_login u)"
    using get i by (intro user_store.get_after_update) auto
  have login: "login st cr t n pw d =
      (Inr (LoginStepResponse (create_2fa_temp_token cr t i (u_token_version u))), ?d)"
    using login_known [OF wf get, of st cr t pw] acc i
    by (simp add: open_2fa_account_def is_account_locked_def verify_password_def Let_def)
  have dec: "jwt_decode cr t (create_2fa_temp_token cr t i (u_token_version u)) =
      Some (token_claims i ''2fa_temp'' (u_token_version u) (t + seconds 90))"
    using jwt by (simp add: jwt_roundtrip_def create_2fa_temp_token_def seconds_def)
  have "login_2fa st cr t (create_2fa_temp_token cr t i (u_token_version u)) tc ?d =
      (Inl (Http 401 ''Invalid TOTP code''), save_user (record_failed_login st t (reset_failed_login u)) ?d)"
    using acc wrong by (simp add: login_2fa_def decode_jwt_def dec get' open_2fa_account_def)
  then show ?thesis by (simp add: guess_round_def login)
qed

text \<open>C9: guessing second-factor codes never locks the account. Every password login resets the
  failure counter, so an attacker who holds the password can try any number of codes, one
  after each login: the counter stays at most one and the account stays open. Nothing but
  the rate limit stands between the password and the second factor.\<close>

theorem second_factor_guessing_never_locks:
  assumes "wf_users d" and "get_user i d = Some u" and "open_2fa_account cr n pw secret u"
    and "jwt_roundtrip cr" and "1 < max_failed_login_attempts st"
    and "\<forall>g \<in> set guesses. \<not> totp_verify cr (fst g) secret (snd g)"
    and "u_failed_login_attempts u \<le> 1"
  shows "\<exists>u'. get_user i (guess_run st cr n pw guesses d) = Some u' \<and>
     open_2fa_account cr n pw secret u' \<and> u_failed_login_attempts u' \<le> 1"
  using assms
proof (induction guesses arbitrary: d u)
  case Nil
  then show ?case by auto
next
  case (Cons g gs)
  obtain t tc where g: "g = (t, tc)" by (cases g)
  let ?v = "reset_failed_login u" and ?w = "record_failed_login st t (reset_failed_login u)"
  let ?d = "save_user ?w (save_user ?v d)"
  have i: "u_id u = i" using get_user_in_users [OF Cons.prems(2)] by simp
  have att: "0 \<le> u_failed_login_attempts u"
    using Cons.prems(1) get_user_in_users [OF Cons.prems(2)] by (simp add: wf_users_def)
  have round: "snd (guess_round st cr n pw g d) = ?d"
    using guess_round_wrong [OF Cons.prems(1-4) _ Cons.prems(5), of t tc] Cons.prems(6) g by simp
  have v: "get_user i (save_user ?v d) = Some ?v"
    using Cons.prems(2) i by (intro user_store.get_after_update) auto
  have wfv: "wf_users (save_user ?v d)"
    using Cons.prems(2) i att by (intro wf_users_save [OF Cons.prems(1), where ?u0.0 = u]) auto
  have w: "get_user i ?d = Some ?w"
    using v i by (intro user_store.get_after_update) auto
  have wfw: "wf_users ?d"
    using v i att by (intro wf_users_save [OF wfv, where ?u0.0 = ?v]) auto
  have "u_locked_until ?w = None" "u_failed_login_attempts ?w = 1"
    using att Cons.prems(5) by (simp_all add: record_failed_login_below)
  then have "open_2fa_account cr n pw secret ?w" "u_failed_login_attempts ?w \<le> 1"
    using Cons.prems(3) by (auto simp: open_2fa_account_def)
  from Cons.IH [OF wfw w this(1) Cons.prems(4,5) _ this(2)] Cons.prems(6) show ?case
    by (simp add: round)
qed

theorem second_factor_guessing_never_locks_witness:
  "\<exists>u'. get_user ''2'' (guess_run demo_settings demo_crypto ''alice'' ''pw''
       [(1, ''000001''), (2, ''000002''), (3, ''000003''), (4, ''000004''), (5, ''000005''),
        (6, ''000006''), (7, ''000007'')] demo_db) = Some u' \<and>
     open_2fa_account demo_crypto ''alice'' ''pw'' ''S'' u'"
proof -
  have wf: "wf_users demo_db" by (simp add: wf_users_def demo_defs)
  have get: "get_user ''2'' demo_db = Some demo_alice"
    by (simp add: get_user_def demo_defs row_get_def)
  have acc: "open_2fa_account demo_crypto ''alice'' ''pw'' ''S'' demo_alice"
    by (simp add: open_2fa_account_def demo_alice_def)
  have s: "1 < max_failed_login_attempts demo_settings" "u_failed_login_attempts demo_alice \<le> 1"
    by (simp_all add: demo_defs)
  show ?thesis
    using second_factor_guessing_never_locks
      [OF wf get acc demo_jwt_roundtrip s(1) _ s(2), of "[(1, ''000001''), (2, ''000002''),
        (3, ''000003''), (4, ''000004''), (5, ''000005''), (6, ''000006''), (7, ''000007'')]"]
    by auto
qed

end
