(* ===== verification/AuthTokens.thy ===== *)
theory AuthTokens
  imports AuthSessionProps
begin

text \<open>
  The life of a token: it is good until it expires or the version of its user moves on, the
  endpoints that end sessions move the version, and the compare-and-set of \<open>refresh\<close> lets
  one request per version through. Handlers act on the row their request loaded, so a
  snapshot of the user is an argument and other requests may commit in between.
\<close>

section \<open>Tokens and versions\<close>

definition revokes :: "crypto \<Rightarrow> string \<Rightarrow> db \<Rightarrow> db \<Rightarrow> bool" where
  "revokes cr i d d' \<longleftrightarrow>
     (\<forall>now token r u. user_from_jwt cr now token r d = Inr u \<and> u_id u = i \<longrightarrow>
        user_from_jwt cr now token r d' = Inl (Http 401 ''Session has been revoked''))"

lemma version_change_revokes:
  assumes "get_user i d = Some u" and "get_user i d' = Some u'"
    and "u_token_version u' \<noteq> u_token_version u" and "u_is_active u'"
  shows "revokes cr i d d'"
  unfolding revokes_def
proof (intro allI impI)
  fix now token r v
  assume a: "user_from_jwt cr now token r d = Inr v \<and> u_id v = i"
  then obtain p uid where p: "jwt_decode cr now token = Some p" "c_sub p = Some uid"
      "c_type p = Some ''access'' \<or> c_type p = Some ''refresh'' \<and> r"
      "get_user uid d = Some v" "c_ver p = Some (u_token_version v)"
    by (auto simp: user_from_jwt_Inr_iff)
  have "uid = i" using a get_user_in_users [OF p(4)] by simp
  then have "v = u" using p(4) assms(1) by simp
  then show "user_from_jwt cr now token r d' = Inl (Http 401 ''Session has been revoked'')"
    using p assms \<open>uid = i\<close> by (auto simp: user_from_jwt_def decode_jwt_def)
qed

lemma version_after_save:
  assumes "get_user (u_id u) d = Some u0" and "u_token_version u \<noteq> u_token_version u0"
    and "u_is_active u"
  shows "revokes cr (u_id u) d (save_user u d)"
  using assms by (intro version_change_revokes [OF assms(1)]) auto

text \<open>a token is worth exactly as long as its user's version stands still: before its expiry
  it opens the session of the user it was issued to if the version is the one it was issued
  with, and is refused as revoked otherwise.\<close>

theorem access_token_lifetime:
  assumes "jwt_roundtrip cr" and "get_user i d = Some u" and "u_is_active u"
    and "t < issued + minutes (access_token_expire_minutes st)"
  shows "user_from_jwt cr t (create_access_token st cr issued i ver) r d =
    (if u_token_version u = ver then Inr u else Inl (Http 401 ''Session has been revoked''))"
  using assms by (auto simp: user_from_jwt_def decode_jwt_def create_access_token_def jwt_roundtrip_def)

theorem access_token_lifetime_witness:
  "user_from_jwt demo_crypto 5 (create_access_token demo_settings demo_crypto 0 ''1'' 0) False demo_db
     = Inr demo_admin"
proof -
  have "get_user ''1'' demo_db = Some demo_admin" "u_is_active demo_admin"
    "5 < 0 + minutes (access_token_expire_minutes demo_settings)"
    by (simp_all add: get_user_def demo_defs row_get_def minutes_def)
  from access_token_lifetime [OF demo_jwt_roundtrip this, of 0 False] show ?thesis
    by (simp add: demo_admin_def)
qed

text \<open>C7: a password change, an administrative reset, a logout and a token refresh each revoke
  every access and refresh token the user held.\<close>

theorem session_end_revokes:
  assumes "wf_users d" and "get_user i d = Some u" and "u_is_active u"
  shows "(fst (change_password st cr now salt u old_pw new_pw d) = Inr () \<longrightarrow>
      revokes cr i d (snd (change_password st cr now salt u old_pw new_pw d))) \<and>
    revokes cr i d (snd (admin_reset_password cr salt admin (u_username u) new_pw d)) \<and>
    revokes cr i d (snd (logout u d)) \<and>
    revokes cr i d (snd (refresh_rotate st cr now u d))"
proof -
  have i: "u_id u = i" and mem: "u \<in> set (users d)" using get_user_in_users [OF assms(2)] by simp_all
  have get: "get_user (u_id u) d = Some u" using assms(2) i by simp
  have "revokes cr i d (snd (change_password st cr now salt u old_pw new_pw d))"
    if "fst (change_password st cr now salt u old_pw new_pw d) = Inr ()"
  proof -
    let ?u = "(reset_failed_login u)\<lparr>u_hashed_password := hash_password cr salt new_pw,
        u_token_version := u_token_version u + 1\<rparr>"
    have "snd (change_password st cr now salt u old_pw new_pw d) = save_user ?u d"
      using that by (auto simp: change_password_def split: if_splits sum.splits bool.splits)
    then show ?thesis using version_after_save [of ?u d u cr] get i assms(3) by simp
  qed
  moreover have "revokes cr i d (snd (admin_reset_password cr salt admin (u_username u) new_pw d))"
    using version_after_save [of "u\<lparr>u_hashed_password := hash_password cr salt new_pw,
        u_token_version := u_token_version u + 1\<rparr>" d u cr] get i assms(3)
    by (simp add: admin_reset_password_def select_username [OF assms(1) mem])
  moreover have "revokes cr i d (snd (logout u d))" "revokes cr i d (snd (refresh_rotate st cr now u d))"
    using version_after_save [of "u\<lparr>u_token_version := u_token_version u + 1\<rparr>" d u cr] get i assms(3)
    by (simp_all add: logout_def refresh_rotate_def Let_def)
  ultimately show ?thesis by blast
qed

theorem session_end_revokes_witness:
  "revokes demo_crypto ''1'' demo_db (snd (logout demo_admin demo_db))"
proof -
  have "wf_users demo_db" "get_user ''1'' demo_db = Some demo_admin" "u_is_active demo_admin"
    by (simp_all add: wf_users_def get_user_def demo_defs row_get_def)
  from session_end_revokes [OF this] show ?thesis by blast
qed

section \<open>Refresh rotation under interleaving\<close>

text \<open>Requests that loaded their user (the snapshots) reach the compare-and-set in some order.\<close>

fun rotate_run :: "settings \<Rightarrow> crypto \<Rightarrow> time \<Rightarrow> user list \<Rightarrow> db \<Rightarrow> login_response result list" where
  "rotate_run st cr now [] d = []"
| "rotate_run st cr now (u # us) d =
     (case refresh_rotate st cr now u d of (r, d') \<Rightarrow> r # rotate_run st cr now us d')"

definition exchanges ::
  "string \<Rightarrow> int \<Rightarrow> user list \<Rightarrow> login_response result list \<Rightarrow> nat" where
  "exchanges i v us rs =
     length (filter (\<lambda>(u, r). u_id u = i \<and> u_token_version u = v \<and> \<not> isl r) (zip us rs))"

definition version_passed :: "string \<Rightarrow> int \<Rightarrow> db \<Rightarrow> bool" where
  "version_passed i v d \<longleftrightarrow> (\<forall>row. get_user i d = Some row \<longrightarrow> v < u_token_version row)"

lemma rotate_step_versions:
  assumes "refresh_rotate st cr now u d = (r, d')"
  shows "get_user i d' = (if \<not> isl r \<and> u_id u = i
      then map_option (\<lambda>row. row\<lparr>u_token_version := u_token_version row + 1\<rparr>) (get_user i d)
      else get_user i d)"
    and "\<not> isl r \<Longrightarrow> \<exists>row. get_user (u_id u) d = Some row \<and> u_token_version row = u_token_version u"
proof -
  have k: "u_id row = u_id u" if "get_user (u_id u) d = Some row" for row
    using that by (rule user_store.get_key)
  show "get_user i d' = (if \<not> isl r \<and> u_id u = i
      then map_option (\<lambda>row. row\<lparr>u_token_version := u_token_version row + 1\<rparr>) (get_user i d)
      else get_user i d)"
    using assms k
    by (auto simp: refresh_rotate_def Let_def user_store.get_put split: option.splits if_splits)
  show "\<exists>row. get_user (u_id u) d = Some row \<and> u_token_version row = u_token_version u" if "\<not> isl r"
    using assms that by (auto simp: refresh_rotate_def Let_def split: option.splits if_splits)
qed

lemma passed_blocks_rotation:
  assumes "version_passed i v d"
  shows "exchanges i v us (rotate_run st cr now us d) = 0"
  using assms
proof (induction us arbitrary: d)
  case Nil
  show ?case by (simp add: exchanges_def)
next
  case (Cons u us)
  obtain r d' where s: "refresh_rotate st cr now u d = (r, d')" by fastforce
  have "version_passed i v d'"
    using Cons.prems rotate_step_versions(1) [OF s, of i]
    by (auto simp: version_passed_def split: if_splits)
  from Cons.IH [OF this] have rest: "exchanges i v us (rotate_run st cr now us d') = 0" .
  have "\<not> (u_id u = i \<and> u_token_version u = v \<and> \<not> isl r)"
    using Cons.prems rotate_step_versions(2) [OF s]
    by (cases "isl r") (auto simp: version_passed_def)
  with rest s show ?case by (auto simp: exchanges_def)
qed

text \<open>C3: however many requests present refresh tokens of one version, and in whatever order
  they reach the database among the requests of other users and versions, at most one of
  them is answered with new tokens.\<close>

theorem refresh_token_exchanged_once:
  "exchanges i v us (rotate_run st cr now us d) \<le> 1"
proof (induction us arbitrary: d)
  case Nil
  show ?case by (simp add: exchanges_def)
next
  case (Cons u us)
  obtain r d' where s: "refresh_rotate st cr now u d = (r, d')" by fastforce
  show ?case
  proof (cases "u_id u = i \<and> u_token_version u = v \<and> \<not> isl r")
    case True
    then have "version_passed i v d'"
      using rotate_step_versions(1) [OF s, of i] rotate_step_versions(2) [OF s]
      by (auto simp: version_passed_def)
    then have "exchanges i v us (rotate_run st cr now us d') = 0"
      by (rule passed_blocks_rotation)
    with True s show ?thesis by (simp add: exchanges_def)
  next
    case False
    with Cons.IH [of d'] s show ?thesis by (auto simp: exchanges_def)
  qed
qed

section \<open>A logout that races a refresh\<close>

text \<open>when a logout request has loaded its user and a refresh of the same account commits
  before the logout does, the logout leaves the session alive: it writes the version it
  computed from its snapshot, which is the version of the tokens the refresh just issued.\<close>

theorem logout_race_keeps_refreshed_session:
  assumes "jwt_roundtrip cr" and "get_user i d = Some u" and "u_is_active u"
    and "refresh_rotate st cr now u d = (Inr resp, d1)"
    and "t < now + minutes (access_token_expire_minutes st)"
  shows "\<exists>acc ck tu u'. resp = TokenResponse acc ck tu \<and>
    user_from_jwt cr t acc False (snd (logout u d1)) = Inr u'"
proof -
  have i: "u_id u = i" using get_user_in_users [OF assms(2)] by simp
  let ?w = "u\<lparr>u_token_version := u_token_version u + 1\<rparr>"
  have resp: "resp = issue_tokens st cr now u (u_token_version u + 1)" and d1: "d1 = save_user ?w d"
    using assms(2,4) i by (auto simp: refresh_rotate_def Let_def)
  have get1: "get_user i d1 = Some ?w"
    using assms(2) i d1 by (auto intro: user_store.get_after_update)
  have get2: "get_user i (snd (logout u d1)) = Some ?w"
    using get1 i by (auto simp: logout_def intro: user_store.get_after_update)
  show ?thesis
    using assms(1,3,5) get2 i
    by (auto simp: resp issue_tokens_def user_from_jwt_def decode_jwt_def create_access_token_def
        jwt_roundtrip_def)
qed

theorem logout_race_keeps_refreshed_session_witness:
  "\<exists>acc ck tu u'. fst (refresh_rotate demo_settings demo_crypto 0 demo_admin demo_db) =
      Inr (TokenResponse acc ck tu) \<and>
    user_from_jwt demo_crypto 5 acc False
      (snd (logout demo_admin (snd (refresh_rotate demo_settings demo_crypto 0 demo_admin demo_db)))) = Inr u'"
proof -
  have a: "get_user ''1'' demo_db = Some demo_admin" "u_is_active demo_admin"
    by (simp_all add: get_user_def demo_defs row_get_def)
  have "u_id demo_admin = ''1''" by (simp add: demo_admin_def)
  then obtain resp d1 where r: "refresh_rotate demo_settings demo_crypto 0 demo_admin demo_db = (Inr resp, d1)"
    using a(1) by (simp add: refresh_rotate_def Let_def)
  have "5 < 0 + minutes (access_token_expire_minutes demo_settings)"
    by (simp add: demo_settings_def minutes_def)
  from logout_race_keeps_refreshed_session [OF demo_jwt_roundtrip a r this] r show ?thesis by simp
qed

end
