(* ===== verification/UserAdmin.thy ===== *)
theory UserAdmin
  imports AuthTokens
begin

text \<open>
  User management of \<^verbatim>\<open>auth/router.py\<close> (admin only) and the bootstrap of the first
  administrator in \<^verbatim>\<open>auth/service.py\<close>. An exception raised before the commit
  discards the changes made to the row so far, so every error leaves the database alone.
\<close>

section \<open>Handlers\<close>

text \<open>The columns a new \<open>User(...)\<close> gets from its defaults.\<close>

definition new_user :: "string \<Rightarrow> time \<Rightarrow> string \<Rightarrow> string \<Rightarrow> string \<Rightarrow> bool \<Rightarrow> int \<Rightarrow> user" where
  "new_user uid now username email hashed admin quota =
     \<lparr>u_id = uid, u_username = username, u_email = email, u_hashed_password = hashed,
      u_is_admin = admin, u_is_active = True, u_created_at = now, u_totp_secret = None,
      u_totp_enabled = False, u_failed_login_attempts = 0, u_locked_until = None,
      u_token_version = 0, u_max_mailboxes = quota\<rparr>"

definition add_user :: "user \<Rightarrow> db \<Rightarrow> db" where
  "add_user u d = d\<lparr>users := users d @ [u]\<rparr>"

record register_request =
  rr_username :: string
  rr_email :: string
  rr_password :: string
  rr_is_admin :: bool
  rr_max_mailboxes :: int

definition register ::
  "crypto \<Rightarrow> time \<Rightarrow> string \<Rightarrow> string \<Rightarrow> user \<Rightarrow> register_request \<Rightarrow> db \<Rightarrow> user result \<times> db" where
  "register cr now uid salt admin body d =
     (case bind_res (require_admin admin) (\<lambda>_.
            one_or_none (filter (\<lambda>u. u_username u = rr_username body \<or> u_email u = rr_email body)
              (users d))) of
        Inl e \<Rightarrow> (Inl e, d)
      | Inr (Some _) \<Rightarrow> (Inl (Http 409 ''Username or email already exists''), d)
      | Inr None \<Rightarrow>
          (let u = new_user uid now (rr_username body) (rr_email body)
                     (hash_password cr salt (rr_password body)) (rr_is_admin body) (rr_max_mailboxes body)
           in (Inr u, add_user u d)))"

record user_update =
  uu_max_mailboxes :: "int option"
  uu_is_active :: "bool option"
  uu_is_admin :: "bool option"

definition set_opt :: "'a option \<Rightarrow> 'a \<Rightarrow> 'a" where
  "set_opt v old = (case v of None \<Rightarrow> old | Some new \<Rightarrow> new)"

definition update_user :: "user \<Rightarrow> string \<Rightarrow> user_update \<Rightarrow> db \<Rightarrow> user result \<times> db" where
  "update_user admin user_id body d =
     (case require_admin admin of
        Inl e \<Rightarrow> (Inl e, d)
      | Inr _ \<Rightarrow>
         (case get_user user_id d of
            None \<Rightarrow> (Inl (Http 404 ''User not found''), d)
          | Some u \<Rightarrow>
              if uu_is_admin body = Some False \<and> u_id u = u_id admin
              then (Inl (Http 400 ''Cannot remove your own admin privileges''), d)
              else if uu_is_active body = Some False \<and> u_id u = u_id admin
              then (Inl (Http 400 ''Cannot deactivate your own account''), d)
              else (let u' = u\<lparr>u_max_mailboxes := set_opt (uu_max_mailboxes body) (u_max_mailboxes u),
                              u_is_active := set_opt (uu_is_active body) (u_is_active u),
                              u_is_admin := set_opt (uu_is_admin body) (u_is_admin u)\<rparr>
                    in (Inr u', save_user u' d))))"

definition deactivate_user :: "user \<Rightarrow> string \<Rightarrow> db \<Rightarrow> unit result \<times> db" where
  "deactivate_user admin user_id d =
     (case require_admin admin of
        Inl e \<Rightarrow> (Inl e, d)
      | Inr _ \<Rightarrow>
         (case get_user user_id d of
            None \<Rightarrow> (Inl (Http 404 ''User not found''), d)
          | Some u \<Rightarrow>
              if u_id u = u_id admin
              then (Inl (Http 400 ''Cannot deactivate your own account''), d)
              else (Inr (), save_user (u\<lparr>u_is_active := False\<rparr>) d)))"

definition list_users :: "user \<Rightarrow> db \<Rightarrow> user list result" where
  "list_users admin d =
     bind_res (require_admin admin) (\<lambda>_. Inr (rev (sort_key u_created_at (users d))))"

definition create_default_admin ::
  "settings \<Rightarrow> crypto \<Rightarrow> time \<Rightarrow> string \<Rightarrow> string \<Rightarrow> db \<Rightarrow> unit result \<times> db" where
  "create_default_admin st cr now uid salt d =
     (case one_or_none (filter (\<lambda>u. u_username u = admin_user st) (users d)) of
        Inl e \<Rightarrow> (Inl e, d)
      | Inr (Some _) \<Rightarrow> (Inr (), d)
      | Inr None \<Rightarrow>
          (Inr (), add_user (new_user uid now (admin_user st) (admin_user st @ ''@'' @ s_domain st)
             (hash_password cr salt (admin_password st)) True 5) d))"

section \<open>Administration as a transition system\<close>

text \<open>One request of an administrator whose row is in the database, active and flagged.\<close>

definition acting_admin :: "user \<Rightarrow> db \<Rightarrow> bool" where
  "acting_admin a d \<longleftrightarrow> get_user (u_id a) d = Some a \<and> u_is_admin a \<and> u_is_active a"

inductive admin_step :: "db \<Rightarrow> db \<Rightarrow> bool" where
  step_register: "acting_admin a d \<Longrightarrow> get_user uid d = None \<Longrightarrow>
     admin_step d (snd (register cr now uid salt a body d))"
| step_update: "acting_admin a d \<Longrightarrow> admin_step d (snd (update_user a i upd d))"
| step_deactivate: "acting_admin a d \<Longrightarrow> admin_step d (snd (deactivate_user a i d))"
| step_login: "admin_step d (snd (login st cr now name pw d))"
| step_logout: "get_user (u_id u) d = Some u \<Longrightarrow> admin_step d (snd (logout u d))"
| step_change: "get_user (u_id u) d = Some u \<Longrightarrow>
     admin_step d (snd (change_password st cr now salt u old_pw new_pw d))"
| step_reset: "acting_admin a d \<Longrightarrow> admin_step d (snd (admin_reset_password cr salt a name new_pw d))"

inductive_cases admin_stepE: "admin_step d d'"

definition has_active_admin :: "db \<Rightarrow> bool" where
  "has_active_admin d \<longleftrightarrow> (\<exists>u i. get_user i d = Some u \<and> u_is_admin u \<and> u_is_active u)"

text \<open>Changing a row without touching its two flags.\<close>

lemma active_admin_save:
  assumes "has_active_admin d" and "get_user (u_id u') d = Some u"
    and "u_is_admin u' = u_is_admin u" and "u_is_active u' = u_is_active u"
  shows "has_active_admin (save_user u' d)"
proof -
  obtain i v where v: "get_user i d = Some v" "u_is_admin v" "u_is_active v"
    using assms(1) by (auto simp: has_active_admin_def)
  show ?thesis
  proof (cases "i = u_id u'")
    case True
    with v assms(2-4) have "get_user i (save_user u' d) = Some u'" "u_is_admin u'" "u_is_active u'"
      by (auto simp: user_store.get_put)
    then show ?thesis unfolding has_active_admin_def by blast
  next
    case False
    with v have "get_user i (save_user u' d) = Some v" by (simp add: user_store.update_frame)
    with v(2,3) show ?thesis unfolding has_active_admin_def by blast
  qed
qed

text \<open>Every operation of an administrator leaves that administrator active and flagged.\<close>

lemma acting_admin_allowed: "acting_admin a d \<Longrightarrow> require_admin a = Inr a"
  by (simp add: acting_admin_def)

lemma acting_admin_survives:
  assumes "get_user (u_id a) d = Some a" "u_is_admin a" "u_is_active a"
    and "get_user (u_id u) d = Some u0"
    and "u_id u = u_id a \<Longrightarrow> u_is_admin u \<and> u_is_active u"
  shows "has_active_admin (save_user u d)"
proof (cases "u_id u = u_id a")
  case True
  with assms(1) have "get_user (u_id u) (save_user u d) = Some u"
    by (simp add: user_store.get_put)
  with True assms(5) show ?thesis unfolding has_active_admin_def by blast
next
  case False
  with assms(1) have "get_user (u_id a) (save_user u d) = Some a"
    by (simp add: user_store.update_frame)
  with assms(2,3) show ?thesis unfolding has_active_admin_def by blast
qed

lemma get_user_add_user: "get_user i d = Some v \<Longrightarrow> get_user i (add_user u d) = Some v"
  by (simp add: get_user_def add_user_def row_get_append)

lemma active_admin_add_user: "has_active_admin d \<Longrightarrow> has_active_admin (add_user u d)"
  unfolding has_active_admin_def using get_user_add_user by blast

lemma update_user_keeps_admin:
  assumes "acting_admin a d"
  shows "has_active_admin (snd (update_user a i body d))"
proof -
  have here: "has_active_admin d" using assms by (auto simp: acting_admin_def has_active_admin_def)
  show ?thesis
  proof (cases "get_user i d")
    case None
    with here acting_admin_allowed [OF assms] show ?thesis by (simp add: update_user_def)
  next
    case (Some u)
    then have i: "u_id u = i" by (rule user_store.get_key)
    let ?u = "u\<lparr>u_max_mailboxes := set_opt (uu_max_mailboxes body) (u_max_mailboxes u),
        u_is_active := set_opt (uu_is_active body) (u_is_active u),
        u_is_admin := set_opt (uu_is_admin body) (u_is_admin u)\<rparr>"
    consider (refused) "snd (update_user a i body d) = d"
      | (saved) "snd (update_user a i body d) = save_user ?u d"
          "\<not> (uu_is_admin body = Some False \<and> u_id u = u_id a)"
          "\<not> (uu_is_active body = Some False \<and> u_id u = u_id a)"
      using Some acting_admin_allowed [OF assms]
      by (cases "(uu_is_admin body = Some False \<or> uu_is_active body = Some False) \<and> u_id u = u_id a")
        (auto simp: update_user_def Let_def split: if_splits)
    then show ?thesis
    proof cases
      case refused
      with here show ?thesis by simp
    next
      case saved
      have "u_is_admin ?u \<and> u_is_active ?u" if "u_id ?u = u_id a"
        using that saved(2,3) assms Some i
        by (auto simp: set_opt_def acting_admin_def split: option.splits)
      then show ?thesis
        unfolding saved(1) using assms Some i
        by (intro acting_admin_survives [of a d _ u]) (auto simp: acting_admin_def)
    qed
  qed
qed

lemma deactivate_user_keeps_admin:
  assumes "acting_admin a d"
  shows "has_active_admin (snd (deactivate_user a i d))"
proof -
  have here: "has_active_admin d" using assms by (auto simp: acting_admin_def has_active_admin_def)
  show ?thesis
  proof (cases "get_user i d")
    case None
    with here acting_admin_allowed [OF assms] show ?thesis by (simp add: deactivate_user_def)
  next
    case (Some u)
    then have "u_id u = i" by (rule user_store.get_key)
    with assms Some here acting_admin_allowed [OF assms] show ?thesis
      by (auto simp: deactivate_user_def acting_admin_def intro!: acting_admin_survives [of a d _ u])
  qed
qed

lemma login_keeps_admin:
  assumes "has_active_admin d" and "wf_users d"
  shows "has_active_admin (snd (login st cr now name pw d))"
proof (cases "one_or_none (filter (\<lambda>u. u_username u = name) (users d))")
  case (Inr found)
  show ?thesis
  proof (cases found)
    case None
    with Inr assms(1) show ?thesis by (simp add: login_def)
  next
    case (Some u)
    have "get_user (u_id u) d = Some u"
      using select_username_SomeD Inr Some assms(2) by (auto intro: get_user_member)
    then show ?thesis
      using Inr Some assms(1)
      by (auto simp: login_def Let_def verify_password_def
          intro!: active_admin_save [where u = u] split: argon_outcome.splits)
  qed
qed (use assms in \<open>simp add: login_def\<close>)

text \<open>Every step of the system, for the invariant below.\<close>

lemma step_keeps_admin:
  assumes "admin_step d d'" and "has_active_admin d" and "wf_users d"
  shows "has_active_admin d'"
  using assms
proof (induction rule: admin_step.induct)
  case (step_register a d uid cr now salt body)
  then show ?case
    by (auto simp: register_def Let_def acting_admin_allowed split: sum.splits option.splits
        intro: active_admin_add_user)
next
  case (step_update a d i upd)
  then show ?case by (blast intro: update_user_keeps_admin)
next
  case (step_deactivate a d i)
  then show ?case by (blast intro: deactivate_user_keeps_admin)
next
  case (step_login d st cr now name pw)
  then show ?case by (blast intro: login_keeps_admin)
next
  case (step_logout u d)
  then show ?case
    by (auto simp: logout_def intro!: active_admin_save [where u = u])
next
  case (step_change u d st cr now salt old_pw new_pw)
  then show ?case
    by (auto simp: change_password_def verify_password_def Let_def
        intro!: active_admin_save [where u = u] split: argon_outcome.splits)
next
  case (step_reset a d cr salt name new_pw)
  show ?case
  proof (cases "one_or_none (filter (\<lambda>u. u_username u = name) (users d))")
    case (Inr found)
    show ?thesis
    proof (cases found)
      case None
      with Inr step_reset show ?thesis by (simp add: admin_reset_password_def)
    next
      case (Some u)
      have "get_user (u_id u) d = Some u"
        using select_username_SomeD Inr Some step_reset by (auto intro: get_user_member)
      with Inr Some step_reset show ?thesis
        by (auto simp: admin_reset_password_def intro!: active_admin_save [where u = u])
    qed
  qed (use step_reset in \<open>simp add: admin_reset_password_def\<close>)
qed

text \<open>The unique constraints survive as well, so the argument iterates.\<close>

lemma register_result:
  assumes "register cr now uid salt admin body d = (Inr u, d')"
  shows "u_is_admin admin \<and> d' = add_user u d \<and> u_id u = uid \<and>
    u_username u = rr_username body \<and> u_email u = rr_email body \<and> u_failed_login_attempts u = 0 \<and>
    (\<forall>v \<in> set (users d). u_username v \<noteq> rr_username body \<and> u_email v \<noteq> rr_email body)"
proof -
  have "one_or_none (filter (\<lambda>u. u_username u = rr_username body \<or> u_email u = rr_email body)
      (users d)) = Inr None" and "u_is_admin admin" and
    "u = new_user uid now (rr_username body) (rr_email body)
      (hash_password cr salt (rr_password body)) (rr_is_admin body) (rr_max_mailboxes body)"
    "d' = add_user u d"
    using assms by (auto simp: register_def Let_def require_admin_Inr_iff bind_res_eq_Inr_iff
        split: sum.splits option.splits)
  then show ?thesis
    by (auto simp: new_user_def one_or_none_None_iff filter_empty_conv)
qed

lemma wf_users_register:
  assumes "wf_users d" and "get_user uid d = None"
  shows "wf_users (snd (register cr now uid salt admin body d))"
proof (cases "register cr now uid salt admin body d")
  case (Pair r d')
  show ?thesis
  proof (cases r)
    case (Inl e)
    with Pair have "d' = d" by (auto simp: register_def Let_def split: sum.splits option.splits)
    with Pair assms(1) show ?thesis by simp
  next
    case (Inr u)
    have "uid \<notin> u_id ` set (users d)"
      using assms(2) by (simp add: get_user_def row_get_None_iff)
    with register_result [of cr now uid salt admin body d u d'] Pair Inr assms(1) show ?thesis
      by (auto simp: wf_users_def add_user_def)
  qed
qed

lemma wf_users_save_flags:
  assumes "wf_users d" and "get_user (u_id u) d = Some u0" and "u_username u = u_username u0"
    and "u_email u = u_email u0" and "u_failed_login_attempts u = u_failed_login_attempts u0"
  shows "wf_users (save_user u d)"
proof -
  have "0 \<le> u_failed_login_attempts u0"
    using assms(1) get_user_in_users [OF assms(2)] by (simp add: wf_users_def)
  with assms show ?thesis by (intro wf_users_save) auto
qed

end
