(* ===== verification/UserAdminProps.thy ===== *)
theory UserAdminProps
  imports UserAdmin
begin

text \<open>
  The user table under administration: its unique constraints and the presence of an active
  administrator are invariants of every run of the session and administration endpoints;
  the duplicate check of \<open>register\<close> and the one input on which it fails to answer 409.
\<close>

section \<open>Invariants of a run\<close>

lemma step_keeps_wf:
  assumes "admin_step d d'" and "wf_users d"
  shows "wf_users d'"
  using assms
proof (induction rule: admin_step.induct)
  case (step_register a d uid cr now salt body)
  then show ?case by (blast intro: wf_users_register)
next
  case (step_update a d i upd)
  show ?case
  proof (cases "get_user i d")
    case (Some u)
    then have "get_user (u_id u) d = Some u" using user_store.get_key by blast
    with Some step_update show ?thesis
      by (auto simp: update_user_def acting_admin_allowed Let_def
          intro!: wf_users_save_flags [where ?u0.0 = u])
  qed (use step_update in \<open>simp add: update_user_def acting_admin_allowed\<close>)
next
  case (step_deactivate a d i)
  show ?case
  proof (cases "get_user i d")
    case (Some u)
    then have "get_user (u_id u) d = Some u" using user_store.get_key by blast
    with Some step_deactivate show ?thesis
      by (auto simp: deactivate_user_def acting_admin_allowed
          intro!: wf_users_save_flags [where ?u0.0 = u])
  qed (use step_deactivate in \<open>simp add: deactivate_user_def acting_admin_allowed\<close>)
next
  case (step_login d st cr now name pw)
  show ?case
  proof (cases "one_or_none (filter (\<lambda>u. u_username u = name) (users d))")
    case (Inr found)
    show ?thesis
    proof (cases found)
      case (Some u)
      have u: "u \<in> set (users d)" using select_username_SomeD Inr Some by blast
      then have "get_user (u_id u) d = Some u" "0 \<le> u_failed_login_attempts u"
        using step_login by (auto intro: get_user_member simp: wf_users_def)
      with Inr Some step_login show ?thesis
        by (auto simp: login_def Let_def verify_password_def
            intro!: wf_users_save [where ?u0.0 = u] split: argon_outcome.splits)
    qed (use Inr step_login in \<open>simp add: login_def\<close>)
  qed (use step_login in \<open>simp add: login_def\<close>)
next
  case (step_logout u d)
  then show ?case by (auto simp: logout_def intro!: wf_users_save_flags [where ?u0.0 = u])
next
  case (step_change u d st cr now salt old_pw new_pw)
  then have "0 \<le> u_failed_login_attempts u"
    using get_user_in_users by (auto simp: wf_users_def)
  with step_change show ?case
    by (auto simp: change_password_def verify_password_def Let_def
        intro!: wf_users_save [where ?u0.0 = u] split: argon_outcome.splits)
next
  case (step_reset a d cr salt name new_pw)
  show ?case
  proof (cases "one_or_none (filter (\<lambda>u. u_username u = name) (users d))")
    case (Inr found)
    show ?thesis
    proof (cases found)
      case (Some u)
      have "u \<in> set (users d)" using select_username_SomeD Inr Some by blast
      then have "get_user (u_id u) d = Some u" using step_reset by (auto intro: get_user_member)
      with Inr Some step_reset show ?thesis
        by (auto simp: admin_reset_password_def intro!: wf_users_save_flags [where ?u0.0 = u])
    qed (use Inr step_reset in \<open>simp add: admin_reset_password_def\<close>)
  qed (use step_reset in \<open>simp add: admin_reset_password_def\<close>)
qed

text \<open>C5: the system never loses its last administrator. Whatever administrators do to accounts
  (their own included) and whoever logs in, out or changes passwords, in every state reached
  from one with an active administrator there is an active administrator, and user names,
  addresses and ids stay unique.\<close>

theorem admin_never_locked_out:
  assumes "admin_step\<^sup>*\<^sup>* d d'" and "has_active_admin d" and "wf_users d"
  shows "has_active_admin d' \<and> wf_users d'"
  using assms
  by (induction rule: rtranclp_induct) (auto intro: step_keeps_admin step_keeps_wf)

theorem admin_never_locked_out_witness:
  "has_active_admin (snd (deactivate_user demo_admin ''2'' demo_db))"
proof -
  have g: "get_user ''1'' demo_db = Some demo_admin" "u_is_admin demo_admin" "u_is_active demo_admin"
    "u_id demo_admin = ''1''"
    by (simp_all add: get_user_def demo_defs row_get_def)
  then have "admin_step demo_db (snd (deactivate_user demo_admin ''2'' demo_db))"
    by (intro admin_step.step_deactivate) (simp add: acting_admin_def)
  then have "admin_step\<^sup>*\<^sup>* demo_db (snd (deactivate_user demo_admin ''2'' demo_db))" by blast
  moreover have "has_active_admin demo_db" using g unfolding has_active_admin_def by blast
  moreover have "wf_users demo_db" by (simp add: wf_users_def demo_defs)
  ultimately show ?thesis using admin_never_locked_out by blast
qed

section \<open>Registration\<close>

text \<open>registration on a table that respects its unique constraints: a fresh name and address
  create exactly one account with the requested flags; one row in the way is answered 409;
  and when the name belongs to one account and the address to another, the duplicate check
  itself raises (an internal error, not a 409). The table is changed in the first case only.\<close>

theorem register_outcome:
  assumes "u_is_admin admin" and "register cr now uid salt admin body d = (r, d')"
  defines "clash \<equiv> filter (\<lambda>u. u_username u = rr_username body \<or> u_email u = rr_email body) (users d)"
  shows "(clash = [] \<longrightarrow> (\<exists>u. r = Inr u \<and> users d' = users d @ [u] \<and>
            u_username u = rr_username body \<and> u_is_admin u = rr_is_admin body \<and>
            u_is_active u \<and> u_max_mailboxes u = rr_max_mailboxes body)) \<and>
    (length clash = 1 \<longrightarrow> r = Inl (Http 409 ''Username or email already exists'') \<and> d' = d) \<and>
    (1 < length clash \<longrightarrow> r = Inl MultipleResultsFound \<and> status_code MultipleResultsFound = 500 \<and> d' = d)"
proof -
  let ?u = "new_user uid now (rr_username body) (rr_email body)
      (hash_password cr salt (rr_password body)) (rr_is_admin body) (rr_max_mailboxes body)"
  have res: "(r, d') = (case one_or_none clash of
        Inl e \<Rightarrow> (Inl e, d)
      | Inr (Some _) \<Rightarrow> (Inl (Http 409 ''Username or email already exists''), d)
      | Inr None \<Rightarrow> (Inr ?u, add_user ?u d))"
    unfolding assms(2) [symmetric] register_def clash_def Let_def
    by (simp only: require_admin_simps(1) [OF assms(1)] bind_res_simps)
  show ?thesis
  proof (cases clash rule: one_or_none.cases)
    case 1
    with res show ?thesis by (simp add: new_user_def add_user_def)
  next
    case (2 v)
    with res show ?thesis by simp
  next
    case (3 v w rest)
    with res show ?thesis by simp
  qed
qed

theorem register_outcome_witness:
  "fst (register demo_crypto 0 ''9'' ''s'' demo_admin
      \<lparr>rr_username = ''alice'', rr_email = ''a@x'', rr_password = ''password'',
       rr_is_admin = False, rr_max_mailboxes = 5\<rparr> demo_db) = Inl MultipleResultsFound"
proof -
  let ?body = "\<lparr>rr_username = ''alice'', rr_email = ''a@x'', rr_password = ''password'',
       rr_is_admin = False, rr_max_mailboxes = 5\<rparr>"
  have a: "u_is_admin demo_admin" by (simp add: demo_admin_def)
  have "1 < length (filter (\<lambda>u. u_username u = rr_username ?body \<or> u_email u = rr_email ?body) (users demo_db))"
    by (simp add: demo_defs)
  with register_outcome [OF a surjective_pairing [of "register demo_crypto 0 ''9'' ''s'' demo_admin ?body demo_db"]]
  show ?thesis by blast
qed

end
