(* ===== verification/ApiKeys.thy ===== *)
theory ApiKeys
  imports AuthSessionProps
begin

text \<open>
  The API-key endpoints of \<^verbatim>\<open>auth/router.py\<close>: creating, patching and revoking keys,
  the mailbox allow-list they accept, and the guard that keeps a key from granting more than
  it holds. A key's power is the pair of its scope list and its mailbox allow-list; the
  guard is an instance of the \<open>grant_order\<close> interface in \<open>Scopes\<close>.
\<close>

section \<open>Handlers\<close>

definition resolve_allowed_mailboxes ::
  "string list option \<Rightarrow> user \<Rightarrow> db \<Rightarrow> string list option result" where
  "resolve_allowed_mailboxes requested u d =
     (case requested of
        None \<Rightarrow> Inr None
      | Some rs \<Rightarrow>
          (let wanted = sorted_set (map (\<lambda>a. lower (strip a)) (filter (\<lambda>a. strip a \<noteq> []) rs))
           in if wanted = [] then Inr None
              else (let owned = map (\<lambda>m. lower (m_address m))
                          (filter (\<lambda>m. m_user_id m = Some (u_id u)) (mailboxes d));
                        invalid = filter (\<lambda>a. a \<notin> set owned) wanted
                    in if invalid \<noteq> []
                       then Inl (Http 400 (''Not your mailbox(es): '' @ join '', '' invalid))
                       else Inr (Some wanted))))"

definition enforce_grant_within_caller ::
  "auth_context \<Rightarrow> string list \<Rightarrow> string list option \<Rightarrow> unit result" where
  "enforce_grant_within_caller auth scopes allowed =
     (if \<not> is_api_key auth then Inr ()
      else if \<not> is_subset scopes (ctx_scopes auth)
      then Inl (Http 403 ''Cannot grant scopes broader than the API key making this request'')
      else (case ctx_allowed_mailboxes auth of
              None \<Rightarrow> Inr ()
            | Some parent \<Rightarrow>
                if (case allowed of None \<Rightarrow> True | Some ms \<Rightarrow> \<not> set ms \<subseteq> set parent)
                then Inl (Http 403 ''Cannot grant mailbox access broader than the API key making this request'')
                else Inr ()))"

definition http_400 :: "'a result \<Rightarrow> 'a result" where
  "http_400 r = (case r of Inl (ValueErr m) \<Rightarrow> Inl (Http 400 m) | _ \<Rightarrow> r)"

text \<open>The random parts of a new key: its row id, the random text behind \<open>mc_\<close>, the salt.\<close>

definition create_api_key ::
  "crypto \<Rightarrow> time \<Rightarrow> string \<Rightarrow> string \<Rightarrow> string \<Rightarrow> auth_context \<Rightarrow> string \<Rightarrow>
     string list option \<Rightarrow> string list option \<Rightarrow> db \<Rightarrow> (api_key \<times> string) result \<times> db" where
  "create_api_key cr now kid random salt auth name scopes mailboxes_requested d =
     (case bind_res (require_scope auth APIKEY_MANAGE) (\<lambda>_.
            bind_res (http_400 (normalize_scopes scopes)) (\<lambda>sc.
            bind_res (resolve_allowed_mailboxes mailboxes_requested (ctx_user auth) d) (\<lambda>ms.
            bind_res (enforce_grant_within_caller auth sc ms) (\<lambda>_. Inr (sc, ms))))) of
        Inl e \<Rightarrow> (Inl e, d)
      | Inr (sc, ms) \<Rightarrow>
          (let raw = generate_api_key random;
               key = \<lparr>k_id = kid, k_user_id = u_id (ctx_user auth),
                      k_key_hash = hash_password cr salt raw, k_name = name,
                      k_prefix = api_key_prefix raw, k_created_at = now, k_last_used_at = None,
                      k_is_active = True, k_scopes = sc, k_allowed_mailboxes = ms\<rparr>
           in (Inr (key, raw), d\<lparr>api_keys := api_keys d @ [key]\<rparr>)))"

text \<open>A PATCH body: \<open>None\<close> for a field the request does not contain.\<close>

record api_key_update =
  up_name :: "string option option"
  up_scopes :: "string list option option"
  up_allowed_mailboxes :: "string list option option"

text \<open>The body of the handler once the row is found: the effective grant after the patch, the
  guard on it, and the fields that were sent.\<close>

definition patched_key :: "auth_context \<Rightarrow> api_key_update \<Rightarrow> db \<Rightarrow> api_key \<Rightarrow> api_key result" where
  "patched_key auth body d key =
     bind_res (case up_scopes body of
                 Some sc \<Rightarrow> http_400 (normalize_scopes sc)
               | None \<Rightarrow> Inr (k_scopes key)) (\<lambda>new_scopes.
     bind_res (case up_allowed_mailboxes body of
                 Some ms \<Rightarrow> resolve_allowed_mailboxes ms (ctx_user auth) d
               | None \<Rightarrow> Inr (k_allowed_mailboxes key)) (\<lambda>new_mailboxes.
     bind_res (enforce_grant_within_caller auth new_scopes new_mailboxes) (\<lambda>_.
     Inr (key\<lparr>k_name := (case up_name body of Some (Some n) \<Rightarrow> n | _ \<Rightarrow> k_name key),
             k_scopes := (if up_scopes body \<noteq> None then new_scopes else k_scopes key),
             k_allowed_mailboxes := (if up_allowed_mailboxes body \<noteq> None
                then new_mailboxes else k_allowed_mailboxes key)\<rparr>))))"

definition select_own_key :: "auth_context \<Rightarrow> string \<Rightarrow> db \<Rightarrow> api_key option result" where
  "select_own_key auth key_id d =
     one_or_none (filter (\<lambda>k. k_id k = key_id \<and> k_user_id k = u_id (ctx_user auth)) (api_keys d))"

definition update_api_key ::
  "auth_context \<Rightarrow> string \<Rightarrow> api_key_update \<Rightarrow> db \<Rightarrow> api_key result \<times> db" where
  "update_api_key auth key_id body d =
     (case bind_res (require_scope auth APIKEY_MANAGE) (\<lambda>_.
            bind_res (select_own_key auth key_id d) (\<lambda>found.
            case found of
              None \<Rightarrow> Inl (Http 404 ''API key not found'')
            | Some key \<Rightarrow> patched_key auth body d key)) of
        Inl e \<Rightarrow> (Inl e, d)
      | Inr key \<Rightarrow> (Inr key, save_key key d))"

definition list_api_keys :: "auth_context \<Rightarrow> db \<Rightarrow> api_key list result" where
  "list_api_keys auth d =
     bind_res (require_scope auth APIKEY_READ) (\<lambda>_.
       Inr (rev (sort_key k_created_at (filter (\<lambda>k. k_user_id k = u_id (ctx_user auth)) (api_keys d)))))"

definition revoke_api_key :: "auth_context \<Rightarrow> string \<Rightarrow> db \<Rightarrow> unit result \<times> db" where
  "revoke_api_key auth key_id d =
     (case bind_res (require_scope auth APIKEY_MANAGE) (\<lambda>_.
            select_own_key auth key_id d) of
        Inl e \<Rightarrow> (Inl e, d)
      | Inr None \<Rightarrow> (Inl (Http 404 ''API key not found''), d)
      | Inr (Some k) \<Rightarrow> (Inr (), delete_key (k_id k) d))"

section \<open>The grant of a key\<close>

type_synonym key_grant = "string list \<times> string list option"

definition grant_of :: "api_key \<Rightarrow> key_grant" where
  "grant_of k = (k_scopes k, k_allowed_mailboxes k)"

definition mailbox_within :: "string list option \<Rightarrow> string list option \<Rightarrow> bool" where
  "mailbox_within c p \<longleftrightarrow>
     p = None \<or> p = Some [] \<or>
     (\<exists>cs ps. c = Some cs \<and> cs \<noteq> [] \<and> p = Some ps \<and> set cs \<subseteq> set (map lower ps))"

lemma mailbox_within_sound:
  assumes "mailbox_within c p" and "mailbox_grant_permits c a"
  shows "mailbox_grant_permits p a"
proof (cases "p = None \<or> p = Some []")
  case True
  then show ?thesis by (auto simp: mailbox_grant_permits_def)
next
  case False
  then obtain cs ps where *: "c = Some cs" "cs \<noteq> []" "p = Some ps" "set cs \<subseteq> set (map lower ps)"
    using assms(1) by (auto simp: mailbox_within_def)
  then have "ps \<noteq> []" by auto
  from * assms(2) obtain x where "x \<in> set cs" "lower a = lower x"
    by (cases cs) (auto simp: mailbox_grant_permits_def)
  moreover from this * obtain y where "y \<in> set ps" "x = lower y" by auto
  ultimately have "lower a \<in> set (map lower ps)" by auto
  with * \<open>ps \<noteq> []\<close> show ?thesis by (cases ps) (auto simp: mailbox_grant_permits_def)
qed

interpretation mailbox_grants: grant_order mailbox_grant_permits mailbox_within
  by unfold_locales (rule mailbox_within_sound)

interpretation key_grants: grant_order
    "both_permit scope_satisfied mailbox_grant_permits" "both_within is_subset mailbox_within"
  by (rule grant_order_product [OF scope_grants.grant_order_axioms mailbox_grants.grant_order_axioms])

abbreviation key_permits :: "key_grant \<Rightarrow> string \<times> string \<Rightarrow> bool" where
  "key_permits \<equiv> both_permit scope_satisfied mailbox_grant_permits"

abbreviation key_within :: "key_grant \<Rightarrow> key_grant \<Rightarrow> bool" where
  "key_within \<equiv> both_within is_subset mailbox_within"

lemma key_permits_context:
  assumes "ctx_api_key auth = Some k"
  shows "key_permits (grant_of k) (s, a) \<longleftrightarrow> has_scope auth s \<and> mailbox_allowed auth a"
  using assms by (simp add: both_permit_def grant_of_def has_scope_def mailbox_allowed_grant)

section \<open>Lemmas about the handlers\<close>

lemma http_400_Inr [simp]: "http_400 r = Inr a \<longleftrightarrow> r = Inr a"
  by (auto simp: http_400_def split: sum.splits error.splits)

text \<open>What a successful resolution of an allow-list returns.\<close>

lemma resolve_allowed_sound:
  assumes "resolve_allowed_mailboxes requested u d = Inr (Some ms)"
  shows "ms \<noteq> [] \<and> sorted ms \<and> distinct ms \<and>
     set ms = {lower (strip a) | a. a \<in> set (the requested) \<and> strip a \<noteq> []} \<and>
     (\<forall>a \<in> set ms. \<exists>m \<in> set (mailboxes d). m_user_id m = Some (u_id u) \<and> lower (m_address m) = a)"
proof -
  obtain rs where rs: "requested = Some rs"
    using assms by (auto simp: resolve_allowed_mailboxes_def split: option.splits)
  let ?wanted = "sorted_set (map (\<lambda>a. lower (strip a)) (filter (\<lambda>a. strip a \<noteq> []) rs))"
  let ?owned = "map (\<lambda>m. lower (m_address m)) (filter (\<lambda>m. m_user_id m = Some (u_id u)) (mailboxes d))"
  have *: "ms = ?wanted" "?wanted \<noteq> []" "filter (\<lambda>a. a \<notin> set ?owned) ?wanted = []"
    using assms rs by (simp_all only: resolve_allowed_mailboxes_def Let_def option.case
        split: if_splits) simp_all
  have "\<forall>a \<in> set ms. a \<in> set ?owned"
    using *(1,3) unfolding filter_empty_conv by simp
  then have "\<forall>a \<in> set ms. \<exists>m \<in> set (mailboxes d). m_user_id m = Some (u_id u) \<and> lower (m_address m) = a"
    by auto
  moreover have "sorted ms \<and> distinct ms" using *(1) by (simp add: sorted_set_def)
  moreover have "set ms = {lower (strip a) | a. a \<in> set (the requested) \<and> strip a \<noteq> []}"
    using *(1) rs by auto
  moreover have "ms \<noteq> []" using *(1,2) by simp
  ultimately show ?thesis by blast
qed

lemma resolve_allowed_not_empty: "resolve_allowed_mailboxes requested u d \<noteq> Inr (Some [])"
  using resolve_allowed_sound [of requested u d "[]"] by auto

text \<open>The guard, on an allow-list that is not the empty list, accepts narrower grants only.\<close>

lemma enforce_within:
  assumes "enforce_grant_within_caller auth sc ms = Inr ()" and "ctx_api_key auth = Some p"
    and "ms \<noteq> Some []"
  shows "key_within (sc, ms) (grant_of p)"
  using assms
  by (fastforce simp: enforce_grant_within_caller_def is_api_key_def ctx_scopes_def
      ctx_allowed_mailboxes_def both_within_def grant_of_def mailbox_within_def
      split: if_splits option.splits list.splits)

definition keys_ok :: "db \<Rightarrow> bool" where
  "keys_ok d \<longleftrightarrow> (\<forall>k \<in> set (api_keys d). k_allowed_mailboxes k \<noteq> Some [])"

lemma create_api_key_InrD:
  assumes "create_api_key cr now kid random salt auth name scopes req d = (Inr (k, raw), d')"
  shows "has_scope auth APIKEY_MANAGE \<and> normalize_scopes scopes = Inr (k_scopes k) \<and>
    resolve_allowed_mailboxes req (ctx_user auth) d = Inr (k_allowed_mailboxes k) \<and>
    enforce_grant_within_caller auth (k_scopes k) (k_allowed_mailboxes k) = Inr () \<and>
    k_user_id k = u_id (ctx_user auth) \<and> k_is_active k \<and> k_prefix k = api_key_prefix raw \<and>
    k_key_hash k = argon_hash cr salt raw \<and> d' = d\<lparr>api_keys := api_keys d @ [k]\<rparr>"
  using assms
  by (auto simp: create_api_key_def Let_def hash_password_def bind_res_eq_Inr_iff require_scope_ok_iff
      split: sum.splits prod.splits)

lemma select_own_key_SomeD:
  assumes "select_own_key auth key_id d = Inr (Some k)"
  shows "k \<in> set (api_keys d) \<and> k_id k = key_id \<and> k_user_id k = u_id (ctx_user auth)"
proof -
  have "k \<in> set (filter (\<lambda>k. k_id k = key_id \<and> k_user_id k = u_id (ctx_user auth)) (api_keys d))"
    using assms unfolding select_own_key_def by (rule one_or_none_SomeD)
  then show ?thesis by simp
qed

lemma patched_key_InrD:
  assumes "patched_key auth body d old = Inr k"
  shows "k_id k = k_id old \<and> k_user_id k = k_user_id old \<and> k_key_hash k = k_key_hash old \<and>
    k_is_active k = k_is_active old \<and>
    enforce_grant_within_caller auth (k_scopes k) (k_allowed_mailboxes k) = Inr () \<and>
    (k_allowed_mailboxes k = k_allowed_mailboxes old \<or>
      (\<exists>req. resolve_allowed_mailboxes req (ctx_user auth) d = Inr (k_allowed_mailboxes k)))"
  using assms by (auto simp: patched_key_def split: option.splits if_splits)

lemma update_api_key_InrD:
  assumes "update_api_key auth key_id body d = (Inr k, d')"
  obtains old where "old \<in> set (api_keys d)" "k_id old = key_id" "k_user_id old = u_id (ctx_user auth)"
    "patched_key auth body d old = Inr k" "d' = save_key k d" "has_scope auth APIKEY_MANAGE"
  using assms
  by (auto simp: update_api_key_def require_scope_ok_iff dest!: select_own_key_SomeD split: sum.splits option.splits)

end
