(* ===== verification/ApiKeyProps.thy ===== *)
theory ApiKeyProps
  imports ApiKeys
begin

text \<open>
  Delegation of API keys: a key minted or edited through another key never lets its holder
  do more, along chains of any length; the stored allow-lists name mailboxes of their owner;
  and, against the handler's documentation, a deactivated mailbox is accepted too.
\<close>

section \<open>Chains of keys\<close>

text \<open>\<open>minted_from p c\<close>: key \<open>c\<close> was created by a request authenticated with key \<open>p\<close>, or with
  a key minted from it, whatever the database held at the time.\<close>

inductive minted_from :: "api_key \<Rightarrow> api_key \<Rightarrow> bool" for p where
  self: "minted_from p p"
| mint: "minted_from p k \<Longrightarrow>
    create_api_key cr now kid random salt \<lparr>ctx_user = u, ctx_api_key = Some k\<rparr> name scopes req d
      = (Inr (c, raw), d') \<Longrightarrow> minted_from p c"

inductive_cases minted_fromE: "minted_from p c"

lemma create_api_key_within:
  assumes "create_api_key cr now kid random salt auth name scopes req d = (Inr (c, raw), d')"
    and "ctx_api_key auth = Some p"
  shows "key_within (grant_of c) (grant_of p)"
  using create_api_key_InrD [OF assms(1)] enforce_within [OF _ assms(2)]
    resolve_allowed_not_empty [of req "ctx_user auth" d]
  by (metis grant_of_def)

lemma minted_from_delegated:
  "minted_from p c \<Longrightarrow> key_grants.delegated (grant_of p) (grant_of c)"
proof (induction rule: minted_from.induct)
  case self
  show ?case by (rule key_grants.delegated.root)
next
  case (mint k cr now kid random salt u name scopes req d c raw d')
  have "key_within (grant_of c) (grant_of k)"
    by (rule create_api_key_within [OF mint.hyps(2)]) simp
  with mint.IH show ?case by (rule key_grants.delegated.issue)
qed

text \<open>C2: no privilege escalation. A key obtained through any chain of creations that starts
  from a key holds no scope and reaches no mailbox that the first key of the chain does
  not.\<close>

theorem minted_key_never_escalates:
  assumes "minted_from p c"
    and "ctx_api_key child = Some c" and "ctx_api_key parent = Some p"
    and "has_scope child s" and "mailbox_allowed child a"
  shows "has_scope parent s \<and> mailbox_allowed parent a"
proof -
  have "key_permits (grant_of c) (s, a)"
    using key_permits_context [OF assms(2)] assms(4,5) by simp
  then have "key_permits (grant_of p) (s, a)"
    by (rule key_grants.delegation_never_escalates [OF minted_from_delegated [OF assms(1)]])
  then show ?thesis using key_permits_context [OF assms(3)] by simp
qed

definition demo_mailbox :: mailbox where
  "demo_mailbox = \<lparr>m_id = ''m1'', m_address = ''bob@x'', m_display_name = ''bob'', m_domain = ''x'',
     m_is_active = True, m_is_catchall = False, m_purpose = Standard, m_created_at = 0,
     m_quota_mb = 500, m_signature = [], m_user_id = Some ''2''\<rparr>"

definition demo_key :: api_key where
  "demo_key = \<lparr>k_id = ''k1'', k_user_id = ''2'', k_key_hash = ''hmc_r'', k_name = ''ci'',
     k_prefix = ''mc_r'', k_created_at = 0, k_last_used_at = None, k_is_active = True,
     k_scopes = [APIKEY_MANAGE, EMAIL_READ, EMAIL_SEND], k_allowed_mailboxes = Some [''bob@x'']\<rparr>"

definition demo_key_db :: db where
  "demo_key_db = demo_db\<lparr>mailboxes := [demo_mailbox], api_keys := [demo_key]\<rparr>"

abbreviation demo_key_auth :: auth_context where
  "demo_key_auth \<equiv> \<lparr>ctx_user = demo_alice, ctx_api_key = Some demo_key\<rparr>"

definition demo_child :: api_key where
  "demo_child = \<lparr>k_id = ''k2'', k_user_id = ''2'', k_key_hash = ''hmc_q'', k_name = ''ro'',
     k_prefix = ''mc_q'', k_created_at = 3, k_last_used_at = None, k_is_active = True,
     k_scopes = [EMAIL_READ], k_allowed_mailboxes = Some [''bob@x'']\<rparr>"

lemma demo_child_created:
  "create_api_key demo_crypto 3 ''k2'' ''q'' ''s'' demo_key_auth ''ro'' (Some [EMAIL_READ])
     (Some [''bob@x'']) demo_key_db =
   (Inr (demo_child, ''mc_q''), demo_key_db\<lparr>api_keys := [demo_key, demo_child]\<rparr>)"
proof -
  have n: "normalize_scopes (Some [EMAIL_READ]) = Inr [EMAIL_READ]"
    by (simp add: normalize_scopes_nonempty is_valid_scope_def ALL_SCOPES_list scope_names)
  have r: "resolve_allowed_mailboxes (Some [''bob@x'']) demo_alice demo_key_db = Inr (Some [''bob@x''])"
    by code_simp
  have e: "enforce_grant_within_caller demo_key_auth [EMAIL_READ] (Some [''bob@x'']) = Inr ()"
    by code_simp
  have s: "require_scope demo_key_auth APIKEY_MANAGE = Inr ()"
    by (simp add: has_scope_def demo_key_def scope_satisfied_def)
  have i: "u_id demo_alice = ''2''" "api_keys demo_key_db = [demo_key]"
    by (simp_all add: demo_alice_def demo_key_db_def)
  show ?thesis
    by (simp add: create_api_key_def n r e s i http_400_def generate_api_key_def api_key_prefix_def
        hash_password_def demo_child_def Let_def)
qed

theorem minted_key_never_escalates_witness:
  "has_scope demo_key_auth EMAIL_READ \<and> mailbox_allowed demo_key_auth ''BOB@x''"
proof -
  let ?child = "\<lparr>ctx_user = demo_alice, ctx_api_key = Some demo_child\<rparr>"
  have m: "minted_from demo_key demo_child"
    by (rule minted_from.mint [OF minted_from.self demo_child_created])
  have "has_scope ?child EMAIL_READ"
    by (simp add: has_scope_def demo_child_def scope_satisfied_def)
  moreover have "mailbox_allowed ?child ''BOB@x''" by code_simp
  ultimately show ?thesis
    using minted_key_never_escalates [OF m, of ?child demo_key_auth EMAIL_READ "''BOB@x''"] by simp
qed

section \<open>Editing keys\<close>

text \<open>patching a key through an API key leaves the patched key within the power of the key
  that made the request (its own rows included), changes neither its owner nor its secret,
  and keeps every stored allow-list different from the empty list, which would mean "all
  mailboxes".\<close>

theorem patched_key_within_caller:
  assumes "keys_ok d" and "update_api_key auth key_id body d = (Inr k, d')"
  shows "(\<forall>p. ctx_api_key auth = Some p \<longrightarrow> key_within (grant_of k) (grant_of p)) \<and>
    k_user_id k = u_id (ctx_user auth) \<and> keys_ok d' \<and>
    (\<exists>old \<in> set (api_keys d). k_id old = k_id k \<and> k_key_hash old = k_key_hash k)"
proof -
  from assms(2) obtain old where o: "old \<in> set (api_keys d)" "k_id old = key_id"
      "k_user_id old = u_id (ctx_user auth)" "patched_key auth body d old = Inr k" "d' = save_key k d"
    by (rule update_api_key_InrD)
  note p = patched_key_InrD [OF o(4)]
  have ne: "k_allowed_mailboxes k \<noteq> Some []"
    using p o(1) assms(1) resolve_allowed_not_empty by (auto simp: keys_ok_def)
  have "key_within (grant_of k) (grant_of q)" if "ctx_api_key auth = Some q" for q
    using enforce_within [OF _ that ne, of "k_scopes k"] p by (simp add: grant_of_def)
  moreover have "keys_ok d'"
    using assms(1) ne set_row_put [of k_id k "api_keys d"] o(5) by (auto simp: keys_ok_def)
  ultimately show ?thesis using o p by auto
qed

theorem patched_key_within_caller_witness:
  "key_within (grant_of (demo_key\<lparr>k_scopes := [EMAIL_READ]\<rparr>)) (grant_of demo_key)"
proof -
  let ?body = "\<lparr>up_name = None, up_scopes = Some (Some [EMAIL_READ]), up_allowed_mailboxes = None\<rparr>"
  have ok: "keys_ok demo_key_db" by (simp add: keys_ok_def demo_key_db_def demo_key_def)
  have n: "normalize_scopes (Some [EMAIL_READ]) = Inr [EMAIL_READ]"
    by (simp add: normalize_scopes_nonempty is_valid_scope_def ALL_SCOPES_list scope_names)
  have e: "enforce_grant_within_caller demo_key_auth [EMAIL_READ] (Some [''bob@x'']) = Inr ()"
    by code_simp
  have k: "u_id demo_alice = ''2''" "api_keys demo_key_db = [demo_key]" "k_id demo_key = ''k1''"
    "k_user_id demo_key = ''2''" "APIKEY_MANAGE \<in> set (k_scopes demo_key)"
    "k_allowed_mailboxes demo_key = Some [''bob@x'']"
    by (simp_all add: demo_alice_def demo_key_db_def demo_key_def)
  have same: "demo_key\<lparr>k_scopes := x, k_allowed_mailboxes := Some [''bob@x'']\<rparr> = demo_key\<lparr>k_scopes := x\<rparr>" for x
    by (simp add: demo_key_def)
  have s: "require_scope demo_key_auth APIKEY_MANAGE = Inr ()"
    using k(5) by (simp add: has_scope_def scope_satisfied_def)
  have "update_api_key demo_key_auth ''k1'' ?body demo_key_db =
      (Inr (demo_key\<lparr>k_scopes := [EMAIL_READ]\<rparr>), save_key (demo_key\<lparr>k_scopes := [EMAIL_READ]\<rparr>) demo_key_db)"
    using n e k
    by (simp add: update_api_key_def select_own_key_def patched_key_def s same http_400_def)
  from patched_key_within_caller [OF ok this] show ?thesis by simp
qed

section \<open>Allow-lists\<close>

text \<open>an accepted allow-list is sorted, free of duplicates, in lower case, holds exactly the
  non-blank addresses that were asked for, and each of them is the address of a mailbox row
  the user owns.\<close>

theorem allowed_mailboxes_owned:
  assumes "resolve_allowed_mailboxes (Some requested) u d = Inr (Some ms)"
  shows "sorted ms \<and> distinct ms \<and> ms \<noteq> [] \<and>
    set ms = {lower (strip a) | a. a \<in> set requested \<and> strip a \<noteq> []} \<and>
    (\<forall>a \<in> set ms. lower a = a \<and>
       (\<exists>m \<in> set (mailboxes d). m_user_id m = Some (u_id u) \<and> lower (m_address m) = a))"
proof -
  from resolve_allowed_sound [OF assms] have *: "ms \<noteq> []" "sorted ms" "distinct ms"
      "set ms = {lower (strip a) | a. a \<in> set requested \<and> strip a \<noteq> []}"
      "\<forall>a \<in> set ms. \<exists>m \<in> set (mailboxes d). m_user_id m = Some (u_id u) \<and> lower (m_address m) = a"
    by simp_all
  have "\<forall>a \<in> set ms. lower a = a" using *(4) by auto
  with * show ?thesis by blast
qed

theorem allowed_mailboxes_owned_witness:
  "\<exists>m \<in> set (mailboxes demo_key_db). m_user_id m = Some (u_id demo_alice) \<and> lower (m_address m) = ''bob@x''"
proof -
  have "resolve_allowed_mailboxes (Some ['' BOB@x'']) demo_alice demo_key_db = Inr (Some [''bob@x''])"
    by code_simp
  from allowed_mailboxes_owned [OF this] show ?thesis by simp
qed

text \<open>the list is checked against ownership only: a mailbox that has been deactivated (soft
  deleted) is accepted like an active one, although the handler is documented to require an
  active mailbox.\<close>

theorem inactive_mailbox_accepted:
  assumes "m \<in> set (mailboxes d)" and "m_user_id m = Some (u_id u)"
    and "lower (strip a) = lower (m_address m)" and "strip a \<noteq> []"
  shows "resolve_allowed_mailboxes (Some [a]) u (d\<lparr>mailboxes :=
      map (\<lambda>x. x\<lparr>m_is_active := False\<rparr>) (mailboxes d)\<rparr>) = Inr (Some [lower (strip a)])"
proof -
  let ?d = "d\<lparr>mailboxes := map (\<lambda>x. x\<lparr>m_is_active := False\<rparr>) (mailboxes d)\<rparr>"
  have w: "sorted_set (map (\<lambda>a. lower (strip a)) (filter (\<lambda>a. strip a \<noteq> []) [a])) = [lower (strip a)]"
    using assms(4) by (simp add: sorted_set_def)
  have "m\<lparr>m_is_active := False\<rparr> \<in> set (filter (\<lambda>m. m_user_id m = Some (u_id u)) (mailboxes ?d))"
    using assms(1,2) by simp
  then have "lower (m_address (m\<lparr>m_is_active := False\<rparr>)) \<in> set (map (\<lambda>m. lower (m_address m))
      (filter (\<lambda>m. m_user_id m = Some (u_id u)) (mailboxes ?d)))"
    unfolding set_map by (rule imageI)
  then have "filter (\<lambda>x. x \<notin> set (map (\<lambda>m. lower (m_address m))
      (filter (\<lambda>m. m_user_id m = Some (u_id u)) (mailboxes ?d)))) [lower (strip a)] = []"
    using assms(3) by simp
  then show ?thesis
    unfolding resolve_allowed_mailboxes_def option.case w Let_def by simp
qed

theorem inactive_mailbox_accepted_witness:
  "resolve_allowed_mailboxes (Some [''bob@x'']) demo_alice (demo_key_db\<lparr>mailboxes :=
      map (\<lambda>x. x\<lparr>m_is_active := False\<rparr>) (mailboxes demo_key_db)\<rparr>) = Inr (Some [''bob@x''])"
proof -
  have "demo_mailbox \<in> set (mailboxes demo_key_db)" "m_user_id demo_mailbox = Some (u_id demo_alice)"
    by (simp_all add: demo_key_db_def demo_mailbox_def demo_alice_def)
  moreover have s: "lower (strip ''bob@x'') = ''bob@x''" "lower (m_address demo_mailbox) = ''bob@x''"
    "strip ''bob@x'' \<noteq> []" by code_simp+
  ultimately show ?thesis
    using inactive_mailbox_accepted [of demo_mailbox demo_key_db demo_alice "''bob@x''"] by simp
qed

end
