(* ===== verification/AuthGateProps.thy ===== *)
theory AuthGateProps
  imports AuthGate DemoCrypto
begin

text \<open>Properties of the authentication gate of \<open>AuthGate\<close>.\<close>

text \<open>C6: whoever \<open>get_auth\<close> lets in is backed by a credential: an unexpired token of the
  current version of an active user, or an active API key whose stored hash verifies and
  whose owner is active. Nobody is let in without one of the three credentials.\<close>

theorem get_auth_sound:
  assumes "get_auth cr now rq d = (Inr auth, d')"
  shows "u_is_active (ctx_user auth) \<and>
    (case ctx_api_key auth of
       Some k \<Rightarrow> (\<exists>raw. rq_bearer rq = None \<and> rq_api_key rq = Some raw \<and>
          argon_verify cr (k_key_hash k) raw = Verified \<and> k_is_active k \<and>
          get_user (k_user_id k) d = Some (ctx_user auth))
     | None \<Rightarrow> (\<exists>token p. (rq_bearer rq = Some token \<or> rq_refresh_cookie rq = Some token) \<and>
          jwt_decode cr now token = Some p \<and> c_type p \<in> {Some ''access'', Some ''refresh''} \<and>
          c_ver p = Some (u_token_version (ctx_user auth)) \<and>
          (\<exists>uid. c_sub p = Some uid \<and> get_user uid d = Some (ctx_user auth))))"
proof (cases "rq_bearer rq")
  case (Some token)
  then obtain u where "user_from_jwt cr now token False d = Inr u" "auth = session_context u"
    using assms by (cases "user_from_jwt cr now token False d") (auto simp: get_auth_def)
  with Some show ?thesis by (auto simp: user_from_jwt_Inr_iff session_context_def)
next
  case no_bearer: None
  show ?thesis
  proof (cases "rq_api_key rq")
    case (Some raw)
    then obtain u k where v: "validate_api_key cr now raw d = (Inr (Some (u, k)), d')"
        and auth: "auth = \<lparr>ctx_user = u, ctx_api_key = Some k\<rparr>"
      using assms no_bearer by (auto simp: get_auth_def split: prod.splits sum.splits option.splits)
    from validate_api_key_sound [OF v] auth no_bearer Some show ?thesis by auto
  next
    case None
    then obtain token u where "rq_refresh_cookie rq = Some token"
        "user_from_jwt cr now token True d = Inr u" "auth = session_context u"
      using assms no_bearer
      by (auto simp: get_auth_def split: option.splits sum.splits)
        (metis Inr_inject id_apply map_sum.simps old.sum.exhaust sum.distinct(1))
    then show ?thesis by (auto simp: user_from_jwt_Inr_iff session_context_def)
  qed
qed

lemma demo_access_token:
  "user_from_jwt demo_crypto 5 (create_access_token demo_settings demo_crypto 0 ''1'' 0) r demo_db
     = Inr demo_admin"
  using demo_jwt_roundtrip
  by (simp add: user_from_jwt_def decode_jwt_def create_access_token_def jwt_roundtrip_def
      get_user_def row_get_def demo_defs minutes_def)

theorem get_auth_sound_witness:
  "\<exists>token p. jwt_decode demo_crypto 5 token = Some p \<and> c_ver p = Some (u_token_version demo_admin)"
proof -
  let ?t = "create_access_token demo_settings demo_crypto 0 ''1'' 0"
  have "get_auth demo_crypto 5 \<lparr>rq_bearer = Some ?t, rq_api_key = None, rq_refresh_cookie = None\<rparr> demo_db
      = (Inr (session_context demo_admin), demo_db)"
    by (simp add: get_auth_def demo_access_token)
  from get_auth_sound [OF this] show ?thesis by (auto simp: session_context_def)
qed

text \<open>an invalid Bearer token is fatal even when the same request carries a valid API key
  or refresh cookie: the later credentials are never looked at.\<close>

theorem get_auth_bearer_first:
  assumes "rq_bearer rq = Some token"
  shows "get_auth cr now rq d =
    get_auth cr now (rq\<lparr>rq_api_key := None, rq_refresh_cookie := None\<rparr>) d \<and> snd (get_auth cr now rq d) = d"
  using assms by (simp add: get_auth_def)

theorem get_auth_bearer_first_witness:
  "fst (get_auth demo_crypto 0 \<lparr>rq_bearer = Some [], rq_api_key = Some ''mc_key'', rq_refresh_cookie = None\<rparr>
     demo_db) = Inl (Http 401 ''Invalid or expired token'')"
proof -
  let ?rq = "\<lparr>rq_bearer = Some [], rq_api_key = Some ''mc_key'', rq_refresh_cookie = None\<rparr>"
  have "demo_decode 0 [] = None"
    by (simp add: demo_decode_def demo_encode_def enc_opt_def case_prod_beta Let_def split: option.splits)
  then have "fst (get_auth demo_crypto 0 (?rq\<lparr>rq_api_key := None, rq_refresh_cookie := None\<rparr>) demo_db)
      = Inl (Http 401 ''Invalid or expired token'')"
    by (simp add: get_auth_def user_from_jwt_def decode_jwt_def)
  with get_auth_bearer_first [of ?rq "[]" demo_crypto 0 demo_db] show ?thesis by simp
qed

end
