(* ===== verification/Addressing.thy ===== *)
theory Addressing
  imports Prelude
begin

text \<open>
  \<^verbatim>\<open>addressing.py\<close>: the validation every address passes before it is written into a
  mail-server configuration file. The two regular expressions are written out as predicates:
  \<open>LOCAL_PART_RE\<close> as one on the characters, \<open>DOMAIN_RE\<close> as one on the labels between
  the dots (a label contains no dot, so the decomposition the expression looks for is the
  split at every dot).
\<close>

section \<open>Splitting at every occurrence of a character\<close>

fun split_on :: "char \<Rightarrow> string \<Rightarrow> string list" where
  "split_on c [] = [[]]"
| "split_on c (x # xs) =
     (if x = c then [] # split_on c xs
      else (case split_on c xs of p # ps \<Rightarrow> (x # p) # ps | [] \<Rightarrow> [[x]]))"

lemma split_on_not_Nil [simp]: "split_on c s \<noteq> []"
  by (induction s) (auto split: list.splits)

lemma set_split_on: "p \<in> set (split_on c s) \<Longrightarrow> set p \<subseteq> set s - {c}"
proof (induction s arbitrary: p)
  case (Cons x xs)
  show ?case
  proof (cases "split_on c xs")
    case Nil
    then show ?thesis by simp
  next
    case (Cons q qs)
    from Cons.IH Cons.prems local.Cons show ?thesis
      by (auto split: if_splits) blast+
  qed
qed simp

lemma join_split_on [simp]: "join [c] (split_on c s) = s"
proof (induction s)
  case (Cons x xs)
  obtain p ps where "split_on c xs = p # ps" by (meson split_on_not_Nil neq_Nil_conv)
  with Cons show ?case by (cases ps) auto
qed simp

lemma split_on_append: "c \<notin> set a \<Longrightarrow> split_on c (a @ c # b) = a # split_on c b"
  by (induction a) auto

lemma split_on_none: "c \<notin> set a \<Longrightarrow> split_on c a = [a]"
  by (induction a) auto

lemma split_on_join:
  "ps \<noteq> [] \<Longrightarrow> (\<forall>p \<in> set ps. c \<notin> set p) \<Longrightarrow> split_on c (join [c] ps) = ps"
  by (induction "[c]" ps rule: join.induct) (auto simp: split_on_append split_on_none)

lemma split_on_join_nl:
  "(\<forall>l \<in> set ls. c \<notin> set l) \<Longrightarrow> split_on c (join [c] ls @ [c]) = (if ls = [] then [[]] else ls) @ [[]]"
proof (induction "[c]" ls rule: join.induct)
  case 3
  then show ?case by (simp add: split_on_append)
qed (auto simp: split_on_append)

section \<open>The patterns\<close>

definition local_char :: "char \<Rightarrow> bool" where
  "local_char c \<longleftrightarrow> is_alnum c \<or> c \<in> set ''._+-''"

definition local_part_re :: "string \<Rightarrow> bool" where
  "local_part_re s \<longleftrightarrow> s \<noteq> [] \<and> length s \<le> 64 \<and> is_alnum (hd s) \<and> is_alnum (last s) \<and>
     list_all local_char s"

definition label_re :: "string \<Rightarrow> bool" where
  "label_re s \<longleftrightarrow> s \<noteq> [] \<and> length s \<le> 63 \<and> is_alnum (hd s) \<and> is_alnum (last s) \<and>
     list_all (\<lambda>c. is_alnum c \<or> c = CHR ''-'') s"

definition domain_re :: "string \<Rightarrow> bool" where
  "domain_re s \<longleftrightarrow> length s \<le> 253 \<and>
     (let labels = split_on (CHR ''.'') s
      in 2 \<le> length labels \<and> list_all label_re labels \<and> is_alpha (hd (last labels)))"

section \<open>The operations\<close>

definition normalize_local_part :: "string \<Rightarrow> string result" where
  "normalize_local_part v =
     (let normalized = lower (strip v)
      in if \<not> local_part_re normalized \<or> contains ''..'' normalized
         then Inl (ValueErr ''Invalid email local part'')
         else Inr normalized)"

definition normalize_domain :: "string \<Rightarrow> string result" where
  "normalize_domain v =
     (let normalized = rstrip_by (\<lambda>c. c = CHR ''.'') (lower (strip v))
      in if \<not> domain_re normalized then Inl (ValueErr ''Invalid email domain'')
         else Inr normalized)"

definition normalize_email_address :: "string \<Rightarrow> string result" where
  "normalize_email_address v =
     (let normalized = lower (strip v)
      in if length normalized > 254 \<or> count_list normalized (CHR ''@'') \<noteq> 1
         then Inl (ValueErr ''Invalid email address'')
         else (case split_last (CHR ''@'') normalized of
                 None \<Rightarrow> Inl (ValueErr ''Invalid email address'')
               | Some (local_part, domain) \<Rightarrow>
                   bind_res (normalize_local_part local_part) (\<lambda>l.
                   bind_res (normalize_domain domain) (\<lambda>dom.
                   Inr (l @ ''@'' @ dom)))))"

section \<open>Lemmas\<close>

lemma alnum_not_space: "is_alnum c \<Longrightarrow> \<not> is_space c"
  by (auto simp: is_alnum_def is_alpha_def is_digit_def is_space_def)

lemma not_alnum: "\<not> is_alnum (CHR ''@'')" "\<not> is_alnum (CHR ''.'')" "\<not> is_alnum (CHR ''/'')"
  by code_simp+

lemma alnum_not_special: "is_alnum c \<Longrightarrow> c \<noteq> CHR ''@'' \<and> c \<noteq> CHR ''.'' \<and> c \<noteq> CHR ''/''"
proof -
  show "is_alnum c \<Longrightarrow> ?thesis" using not_alnum by metis
qed

lemma local_char_safe: "local_char c \<Longrightarrow> \<not> is_space c \<and> c \<noteq> CHR ''@'' \<and> c \<noteq> CHR ''/''"
proof -
  have "\<forall>c \<in> set ''._+-''. \<not> is_space c" by code_simp
  then show "local_char c \<Longrightarrow> ?thesis"
    by (auto simp: local_char_def alnum_not_special alnum_not_space not_alnum)
qed

lemma rstrip_by_last:
  "s \<noteq> [] \<Longrightarrow> \<not> p (last s) \<Longrightarrow> rstrip_by p s = s"
  by (cases s rule: rev_cases) (auto simp: rstrip_by_def)

lemma lstrip_by_hd: "s \<noteq> [] \<Longrightarrow> \<not> p (hd s) \<Longrightarrow> lstrip_by p s = s"
  by (cases s) (auto simp: lstrip_by_def)

lemma strip_no_space: "(\<forall>c \<in> set s. \<not> is_space c) \<Longrightarrow> strip s = s"
proof (cases "s = []")
  case True
  then show ?thesis by (simp add: strip_def rstrip_by_def lstrip_by_def)
next
  case False
  then have "hd s \<in> set s" "last s \<in> set s" by simp_all
  with False show "(\<forall>c \<in> set s. \<not> is_space c) \<Longrightarrow> ?thesis"
    by (simp add: strip_def rstrip_by_last lstrip_by_hd)
qed

lemma lower_fixed: "set s \<subseteq> set (lower t) \<Longrightarrow> lower s = s"
  by (auto simp: lower_def intro!: map_idI)

lemma length_dropWhile: "length (dropWhile p s) \<le> length s"
  by (induction s) auto

lemma length_rstrip_by: "length (rstrip_by p s) \<le> length s"
  using length_dropWhile [of p "rev s"] by (simp add: rstrip_by_def)

lemma length_strip: "length (strip s) \<le> length s"
  using length_rstrip_by [of is_space "lstrip_by is_space s"] length_dropWhile [of is_space s]
  by (simp add: strip_def lstrip_by_def)

text \<open>What a normalised local part and a normalised domain look like.\<close>

lemma normalize_local_part_shape:
  assumes "normalize_local_part v = Inr l"
  shows "l = lower (strip v)" and "local_part_re l" and "\<not> contains ''..'' l"
  using assms by (auto simp: normalize_local_part_def Let_def split: if_splits)

lemma normalize_domain_shape:
  assumes "normalize_domain v = Inr d"
  shows "d = rstrip_by (\<lambda>c. c = CHR ''.'') (lower (strip v))" and "domain_re d"
  using assms by (auto simp: normalize_domain_def Let_def split: if_splits)

lemma domain_chars:
  assumes "domain_re d" and "c \<in> set d"
  shows "is_alnum c \<or> c = CHR ''-'' \<or> c = CHR ''.''"
proof -
  have "c \<in> {CHR ''.''} \<union> \<Union> (set ` set (split_on (CHR ''.'') d))" if "c \<in> set d" for d
    using that
  proof (induction d)
    case (Cons x xs)
    obtain p ps where "split_on (CHR ''.'') xs = p # ps" by (meson split_on_not_Nil neq_Nil_conv)
    with Cons show ?case by auto
  qed simp
  with assms show ?thesis
    by (force simp: domain_re_def Let_def label_re_def list_all_iff)
qed

lemma domain_char_safe:
  assumes "domain_re d" and "c \<in> set d"
  shows "\<not> is_space c" and "c \<noteq> CHR ''@''" and "c \<noteq> CHR ''/''"
  using domain_chars [OF assms] alnum_not_space [of c] alnum_not_special [of c]
  by (auto simp: is_space_def)

lemma label_shape: "label_re p \<Longrightarrow> p \<noteq> [] \<and> CHR ''.'' \<notin> set p"
  using not_alnum(2) by (force simp: label_re_def list_all_iff)

lemma last_join:
  "ps \<noteq> [] \<Longrightarrow> (\<forall>p \<in> set ps. p \<noteq> []) \<Longrightarrow> last (join [c] ps) = last (last ps) \<and> join [c] ps \<noteq> []"
  by (induction "[c]" ps rule: join.induct) auto

lemma domain_last:
  assumes "domain_re d"
  shows "d \<noteq> []" and "last d \<noteq> CHR ''.''"
proof -
  let ?ls = "split_on (CHR ''.'') d"
  have l: "2 \<le> length ?ls" "\<forall>p \<in> set ?ls. p \<noteq> [] \<and> CHR ''.'' \<notin> set p"
    using assms label_shape by (simp_all add: domain_re_def Let_def list_all_iff)
  then have ne: "?ls \<noteq> []" "\<forall>p \<in> set ?ls. p \<noteq> []" by auto
  have j: "last d = last (last ?ls)" "d \<noteq> []"
    using last_join [OF ne, of "CHR ''.''"] by simp_all
  have "last ?ls \<in> set ?ls" using ne(1) by (rule last_in_set)
  with l(2) have "last ?ls \<noteq> []" "CHR ''.'' \<notin> set (last ?ls)" by blast+
  then show "last d \<noteq> CHR ''.''" using j(1) last_in_set by metis
  show "d \<noteq> []" by (rule j(2))
qed

lemma normalize_local_part_idem:
  "normalize_local_part v = Inr l \<Longrightarrow> normalize_local_part l = Inr l"
proof -
  assume "normalize_local_part v = Inr l"
  note sh = normalize_local_part_shape [OF this]
  have "strip l = l" using sh(2)
    by (intro strip_no_space) (auto simp: local_part_re_def list_all_iff local_char_safe)
  moreover have "lower l = l" using sh(1) by simp
  ultimately show ?thesis using sh by (simp add: normalize_local_part_def)
qed

lemma normalize_domain_idem:
  "normalize_domain v = Inr d \<Longrightarrow> normalize_domain d = Inr d"
proof -
  assume "normalize_domain v = Inr d"
  note sh = normalize_domain_shape [OF this]
  have "strip d = d" using sh(2) by (intro strip_no_space) (auto simp: domain_char_safe)
  moreover have "lower d = d" using sh(1) set_rstrip_by by (intro lower_fixed) blast
  moreover have "rstrip_by (\<lambda>c. c = CHR ''.'') d = d" using domain_last [OF sh(2)]
    by (intro rstrip_by_last) auto
  ultimately show ?thesis using sh by (simp add: normalize_domain_def)
qed

lemma normalize_email_parts:
  assumes "normalize_email_address v = Inr e"
  obtains l d where "e = l @ ''@'' @ d" and "local_part_re l" and "\<not> contains ''..'' l"
    and "domain_re d" and "length e \<le> 254" and "lower e = e"
    and "normalize_local_part l = Inr l" and "normalize_domain d = Inr d"
proof -
  let ?n = "lower (strip v)"
  from assms obtain a b l d where s: "length ?n \<le> 254" "split_last (CHR ''@'') ?n = Some (a, b)"
      "normalize_local_part a = Inr l" "normalize_domain b = Inr d" "e = l @ ''@'' @ d"
    by (auto simp: normalize_email_address_def Let_def bind_res_eq_Inr_iff
        split: if_splits option.splits)
  from split_last_Some [OF s(2)] have n: "?n = a @ CHR ''@'' # b" by simp
  have "length l \<le> length a" "length d \<le> length b"
    using normalize_local_part_shape(1) [OF s(3)] normalize_domain_shape(1) [OF s(4)]
      length_strip [of a] length_strip [of b] length_rstrip_by [of _ "lower (strip b)"]
    by (auto intro: order_trans)
  moreover have "length a + length b + 1 \<le> 254"
    using s(1) n by simp
  ultimately have "length e \<le> 254" using s(5) by simp
  moreover have "lower e = e"
  proof -
    have "lower l = l" using normalize_local_part_shape(1) [OF s(3)] by simp
    moreover have "lower d = d"
      using normalize_domain_shape(1) [OF s(4)] set_rstrip_by by (intro lower_fixed) blast
    moreover have "lower ''@'' = ''@''" by code_simp
    ultimately show ?thesis using s(5) by (simp only: lower_append)
  qed
  ultimately show ?thesis
    using that s(5) normalize_local_part_shape(2,3) [OF s(3)] normalize_domain_shape(2) [OF s(4)]
      normalize_local_part_idem [OF s(3)] normalize_domain_idem [OF s(4)]
    by blast
qed

end
