(* ===== verification/Aliases.thy ===== *)
theory Aliases
  imports Addressing
begin

text \<open>
  \<^verbatim>\<open>aliases/\<close>: the alias table and the Postfix map
  \<^verbatim>\<open>/etc/postfix/virtual_aliases\<close> that is regenerated from it after every change. The
  row id is what the database assigns on insertion; running \<^verbatim>\<open>postmap\<close> has no effect
  on the modelled state.
\<close>

section \<open>State and requests\<close>

record mail_alias =
  a_id :: int
  a_source :: string
  a_destination :: string
  a_domain :: string
  a_is_catchall :: bool
  a_enabled :: bool
  a_created_at :: time
  a_updated_at :: time

record alias_state =
  aliases :: "mail_alias list"
  virtual_aliases :: string

record alias_create =
  ac_source :: string
  ac_destination :: string

definition alias_create_request :: "string \<Rightarrow> string \<Rightarrow> alias_create result" where
  "alias_create_request src dst =
     bind_res (normalize_email_address src) (\<lambda>s.
     bind_res (normalize_email_address dst) (\<lambda>t.
     Inr \<lparr>ac_source = s, ac_destination = t\<rparr>))"

record alias_update =
  au_destination :: "string option"
  au_enabled :: "bool option"

definition alias_update_request :: "string option \<Rightarrow> bool option \<Rightarrow> alias_update result" where
  "alias_update_request dst en =
     (case dst of
        None \<Rightarrow> Inr \<lparr>au_destination = None, au_enabled = en\<rparr>
      | Some v \<Rightarrow> bind_res (normalize_email_address v) (\<lambda>t.
          Inr \<lparr>au_destination = Some t, au_enabled = en\<rparr>))"

section \<open>The Postfix map\<close>

definition map_line :: "mail_alias \<Rightarrow> string" where
  "map_line a = a_source a @ ''    '' @ a_destination a"

definition rebuild_postfix_virtual_aliases :: "alias_state \<Rightarrow> alias_state" where
  "rebuild_postfix_virtual_aliases s =
     s\<lparr>virtual_aliases := join [CHR 0x0A] (map map_line (filter a_enabled (aliases s))) @ [CHR 0x0A]\<rparr>"

section \<open>Operations\<close>

definition list_aliases :: "alias_state \<Rightarrow> mail_alias list" where
  "list_aliases s = sort_key (\<lambda>a. - a_created_at a) (aliases s)"

definition get_alias :: "int \<Rightarrow> alias_state \<Rightarrow> mail_alias result" where
  "get_alias i s =
     (case row_get a_id i (aliases s) of
        None \<Rightarrow> Inl (NotFoundError ''Alias'' (show_int i))
      | Some a \<Rightarrow> Inr a)"

definition create_alias ::
  "int \<Rightarrow> time \<Rightarrow> alias_create \<Rightarrow> alias_state \<Rightarrow> mail_alias result \<times> alias_state" where
  "create_alias new_id now body s =
     (case split_last (CHR ''@'') (ac_source body) of
        None \<Rightarrow> (Inl (ValueErr ''not enough values to unpack''), s)
      | Some (local_part, domain) \<Rightarrow>
          (case one_or_none (filter (\<lambda>a. a_source a = ac_source body) (aliases s)) of
             Inl e \<Rightarrow> (Inl e, s)
           | Inr (Some _) \<Rightarrow>
               (Inl (ConflictError (''Alias '' @ quoted (ac_source body) @ '' already exists'')), s)
           | Inr None \<Rightarrow>
               (let a = \<lparr>a_id = new_id, a_source = ac_source body,
                      a_destination = ac_destination body, a_domain = domain,
                      a_is_catchall = (local_part = []), a_enabled = True,
                      a_created_at = now, a_updated_at = now\<rparr>
                in (Inr a, rebuild_postfix_virtual_aliases (s\<lparr>aliases := aliases s @ [a]\<rparr>)))))"

definition patched_alias :: "time \<Rightarrow> alias_update \<Rightarrow> mail_alias \<Rightarrow> mail_alias" where
  "patched_alias now body a =
     (let a' = a\<lparr>a_destination := (case au_destination body of None \<Rightarrow> a_destination a | Some t \<Rightarrow> t),
                a_enabled := (case au_enabled body of None \<Rightarrow> a_enabled a | Some e \<Rightarrow> e)\<rparr>
      in if a' = a then a else a'\<lparr>a_updated_at := now\<rparr>)"

definition update_alias ::
  "int \<Rightarrow> time \<Rightarrow> alias_update \<Rightarrow> alias_state \<Rightarrow> mail_alias result \<times> alias_state" where
  "update_alias i now body s =
     (case get_alias i s of
        Inl e \<Rightarrow> (Inl e, s)
      | Inr a \<Rightarrow>
          (let a' = patched_alias now body a
           in (Inr a', rebuild_postfix_virtual_aliases (s\<lparr>aliases := row_put a_id a' (aliases s)\<rparr>))))"

definition delete_alias :: "int \<Rightarrow> alias_state \<Rightarrow> unit result \<times> alias_state" where
  "delete_alias i s =
     (case get_alias i s of
        Inl e \<Rightarrow> (Inl e, s)
      | Inr a \<Rightarrow> (Inr (), rebuild_postfix_virtual_aliases (s\<lparr>aliases := row_del a_id i (aliases s)\<rparr>)))"

text \<open>The endpoints of the router on requests as they arrive: validation, then the service.\<close>

definition create_new_alias ::
  "int \<Rightarrow> time \<Rightarrow> string \<Rightarrow> string \<Rightarrow> alias_state \<Rightarrow> mail_alias result \<times> alias_state" where
  "create_new_alias new_id now src dst s =
     (case alias_create_request src dst of
        Inl e \<Rightarrow> (Inl e, s)
      | Inr body \<Rightarrow> create_alias new_id now body s)"

definition update_existing_alias ::
  "int \<Rightarrow> time \<Rightarrow> string option \<Rightarrow> bool option \<Rightarrow> alias_state \<Rightarrow> mail_alias result \<times> alias_state" where
  "update_existing_alias i now dst en s =
     (case alias_update_request dst en of
        Inl e \<Rightarrow> (Inl e, s)
      | Inr body \<Rightarrow> update_alias i now body s)"

inductive alias_step :: "alias_state \<Rightarrow> alias_state \<Rightarrow> bool" where
  create: "new_id \<notin> a_id ` set (aliases s) \<Longrightarrow>
     alias_step s (snd (create_new_alias new_id now src dst s))"
| update: "alias_step s (snd (update_existing_alias i now dst en s))"
| delete: "alias_step s (snd (delete_alias i s))"

definition no_aliases :: alias_state where
  "no_aliases = \<lparr>aliases = [], virtual_aliases = []\<rparr>"

section \<open>Reading the map back\<close>

text \<open>Postfix reads a lookup table line by line; a line is the key, white space, the value.\<close>

fun map_entry :: "string list \<Rightarrow> (string \<times> string) list" where
  "map_entry [k, v] = [(k, v)]"
| "map_entry _ = []"

definition parse_map :: "string \<Rightarrow> (string \<times> string) list" where
  "parse_map txt = concat (map (\<lambda>l. map_entry (split_ws l)) (split_on (CHR 0x0A) txt))"

definition enabled_pairs :: "alias_state \<Rightarrow> (string \<times> string) list" where
  "enabled_pairs s = map (\<lambda>a. (a_source a, a_destination a)) (filter a_enabled (aliases s))"

text \<open>A stored address is one that normalisation leaves alone.\<close>

definition address_ok :: "string \<Rightarrow> bool" where
  "address_ok e \<longleftrightarrow> (\<exists>v. normalize_email_address v = Inr e)"

definition alias_ok :: "mail_alias \<Rightarrow> bool" where
  "alias_ok a \<longleftrightarrow> address_ok (a_source a) \<and> address_ok (a_destination a) \<and> \<not> a_is_catchall a \<and>
     split_last (CHR ''@'') (a_source a) = Some (fst (the (split_last (CHR ''@'') (a_source a))), a_domain a)"

section \<open>Lemmas\<close>

lemma address_ok_chars:
  assumes "address_ok e"
  shows "e \<noteq> []" and "c \<in> set e \<Longrightarrow> \<not> is_space c"
proof -
  obtain v where "normalize_email_address v = Inr e" using assms by (auto simp: address_ok_def)
  then obtain l d where e: "e = l @ ''@'' @ d" "local_part_re l" "domain_re d"
    by (rule normalize_email_parts) 
  show "e \<noteq> []" using e by simp
  have at: "\<not> is_space (CHR ''@'')" by code_simp
  assume "c \<in> set e"
  then consider "c \<in> set l" | "c = CHR ''@''" | "c \<in> set d" using e(1) by auto
  then show "\<not> is_space c"
  proof cases
    case 1
    then show ?thesis using e(2) by (auto simp: local_part_re_def list_all_iff local_char_safe)
  qed (use e(3) at in \<open>auto simp: domain_char_safe\<close>)
qed

lemma split_ws_two:
  assumes "a \<noteq> []" "b \<noteq> []" "\<forall>c \<in> set a. \<not> is_space c" "\<forall>c \<in> set b. \<not> is_space c"
  shows "split_ws (a @ ''    '' @ b) = [a, b]"
proof -
  have sp: "is_space (CHR '' '')" by code_simp
  have "split_ws_aux [] (b @ []) = [b]"
    using assms(2) by (subst split_ws_aux_word [OF assms(4)]) simp
  then have b: "split_ws_aux [] b = [b]" by simp
  have "split_ws_aux [] (a @ ''    '' @ b) = split_ws_aux (rev a @ []) (''    '' @ b)"
    by (rule split_ws_aux_word [OF assms(3)])
  then show ?thesis using b sp assms(1) by (simp add: split_ws_def)
qed

lemma map_line_entry:
  assumes "alias_ok a"
  shows "split_ws (map_line a) = [a_source a, a_destination a]" and "CHR 0x0A \<notin> set (map_line a)"
proof -
  have ok: "address_ok (a_source a)" "address_ok (a_destination a)" using assms by (simp_all add: alias_ok_def)
  show "split_ws (map_line a) = [a_source a, a_destination a]"
    unfolding map_line_def using address_ok_chars [OF ok(1)] address_ok_chars [OF ok(2)]
    by (intro split_ws_two) auto
  have "is_space (CHR 0x0A)" by code_simp
  then show "CHR 0x0A \<notin> set (map_line a)"
    using address_ok_chars(2) [OF ok(1)] address_ok_chars(2) [OF ok(2)] by (auto simp: map_line_def)
qed

lemma parse_rebuilt:
  assumes "\<forall>a \<in> set (aliases s). alias_ok a"
  shows "parse_map (virtual_aliases (rebuild_postfix_virtual_aliases s)) = enabled_pairs s"
proof -
  let ?ls = "map map_line (filter a_enabled (aliases s))"
  have "\<forall>l \<in> set ?ls. CHR 0x0A \<notin> set l" using assms map_line_entry(2) by auto
  from split_on_join_nl [OF this]
  have "parse_map (virtual_aliases (rebuild_postfix_virtual_aliases s)) =
      concat (map (\<lambda>l. map_entry (split_ws l)) ?ls)"
    by (simp add: parse_map_def rebuild_postfix_virtual_aliases_def)
  also have "\<dots> = enabled_pairs s"
  proof -
    have "concat (map (\<lambda>l. map_entry (split_ws l)) (map map_line (filter a_enabled as))) =
        map (\<lambda>a. (a_source a, a_destination a)) (filter a_enabled as)" if "\<forall>a \<in> set as. alias_ok a" for as
      using that by (induction as) (auto simp: map_line_entry)
    with assms show ?thesis by (simp add: enabled_pairs_def)
  qed
  finally show ?thesis .
qed

lemma rebuild_keeps_rows [simp]: "aliases (rebuild_postfix_virtual_aliases s) = aliases s"
  by (simp add: rebuild_postfix_virtual_aliases_def)

lemma enabled_pairs_rebuild [simp]: "enabled_pairs (rebuild_postfix_virtual_aliases s) = enabled_pairs s"
  by (simp add: enabled_pairs_def)

definition aliases_inv :: "alias_state \<Rightarrow> bool" where
  "aliases_inv s \<longleftrightarrow> (\<forall>a \<in> set (aliases s). alias_ok a) \<and> distinct (map a_id (aliases s)) \<and>
     distinct (map a_source (aliases s)) \<and> parse_map (virtual_aliases s) = enabled_pairs s"

lemma aliases_inv_rebuild:
  assumes "\<forall>a \<in> set (aliases s). alias_ok a" and "distinct (map a_id (aliases s))"
    and "distinct (map a_source (aliases s))"
  shows "aliases_inv (rebuild_postfix_virtual_aliases s)"
  using assms by (simp add: aliases_inv_def parse_rebuilt)

end
