(* ===== verification/AliasProps.thy ===== *)
theory AliasProps
  imports Aliases
begin

text \<open>
  The alias table and the Postfix map through every sequence of requests, from a table that is
  empty and a map file with whatever the container's start-up script put there.
\<close>

definition rows_ok :: "alias_state \<Rightarrow> bool" where
  "rows_ok s \<longleftrightarrow> (\<forall>a \<in> set (aliases s). alias_ok a) \<and> distinct (map a_id (aliases s)) \<and>
     distinct (map a_source (aliases s))"

lemma address_ok_split:
  assumes "address_ok e"
  obtains l d where "split_last (CHR ''@'') e = Some (l, d)" and "l \<noteq> []" and "e = l @ ''@'' @ d"
proof -
  obtain v where "normalize_email_address v = Inr e" using assms by (auto simp: address_ok_def)
  then obtain l d where e: "e = l @ ''@'' @ d" "local_part_re l" "domain_re d"
    by (rule normalize_email_parts)
  moreover have "CHR ''@'' \<notin> set d" using e(3) domain_char_safe(2) by blast
  moreover have "l \<noteq> []" using e(2) by (simp add: local_part_re_def)
  ultimately show ?thesis using that [of l d] by simp
qed

lemma at_domain_rejected:
  assumes "address_ok e" and "e = l @ ''@'' @ d" and "CHR ''@'' \<notin> set d"
  shows "normalize_email_address (''@'' @ d) = Inl (ValueErr ''Invalid email local part'')"
proof -
  obtain v where "normalize_email_address v = Inr e" using assms by (auto simp: address_ok_def)
  then obtain l' d' where e: "e = l' @ ''@'' @ d'" "domain_re d'" "length e \<le> 254" "lower e = e"
    by (rule normalize_email_parts)
  have "CHR ''@'' \<notin> set d'" using e(2) domain_char_safe(2) by blast
  then have "d' = d" using assms(2,3) e(1) by (metis append_Cons append_Nil option.inject prod.inject split_last_append)
  have "\<not> is_space (CHR ''@'')" "lower ''@'' = ''@''" by code_simp+
  then have s: "strip (''@'' @ d) = ''@'' @ d"
    using domain_char_safe(1) [OF e(2)] \<open>d' = d\<close> by (intro strip_no_space) auto
  have "lower (l' @ ''@'' @ d') = l' @ ''@'' @ d'" using e by simp
  then have "lower d = d" using \<open>d' = d\<close> by (simp add: lower_def)
  then have n: "lower (strip (''@'' @ d)) = ''@'' @ d" using s \<open>lower ''@'' = ''@''\<close> by (simp only: s lower_append)
  moreover have "count_list (''@'' @ d) (CHR ''@'') = 1" using assms(3) by simp
  moreover have "length (''@'' @ d) \<le> 254" using e(1,3) \<open>d' = d\<close> by simp
  moreover have "split_last (CHR ''@'') (''@'' @ d) = Some ([], d)"
    using split_last_append [OF assms(3), of "[]"] by simp
  moreover have "normalize_local_part [] = Inl (ValueErr ''Invalid email local part'')" by code_simp
  ultimately show ?thesis by (simp add: normalize_email_address_def)
qed

lemma create_alias_row:
  assumes "alias_create_request src dst = Inr body" and "rows_ok s" and "new_id \<notin> a_id ` set (aliases s)"
    and "create_alias new_id now body s = (r, s')" and "s' \<noteq> s"
  obtains a where "r = Inr a" and "alias_ok a" and "a_source a = ac_source body"
    and "a_id a = new_id" and "ac_source body \<notin> a_source ` set (aliases s)"
    and "s' = rebuild_postfix_virtual_aliases (s\<lparr>aliases := aliases s @ [a]\<rparr>)"
proof -
  have ok: "address_ok (ac_source body)" "address_ok (ac_destination body)"
    using assms(1) by (auto simp: alias_create_request_def bind_res_eq_Inr_iff address_ok_def)
  obtain l d where sp: "split_last (CHR ''@'') (ac_source body) = Some (l, d)" "l \<noteq> []"
    using ok(1) by (rule address_ok_split)
  then have none: "one_or_none (filter (\<lambda>a. a_source a = ac_source body) (aliases s)) = Inr None"
    using assms(4,5) by (auto simp: create_alias_def split: sum.splits option.splits)
  with sp assms(4) show ?thesis
    by (intro that [of "\<lparr>a_id = new_id, a_source = ac_source body, a_destination = ac_destination body,
          a_domain = d, a_is_catchall = (l = []), a_enabled = True, a_created_at = now, a_updated_at = now\<rparr>"])
      (auto simp: create_alias_def alias_ok_def ok one_or_none_None_iff filter_empty_conv Let_def)
qed

lemma patched_alias_ok:
  assumes "alias_update_request dst en = Inr body" and "alias_ok a"
  shows "alias_ok (patched_alias now body a)" and "a_id (patched_alias now body a) = a_id a"
    and "a_source (patched_alias now body a) = a_source a"
proof -
  have "address_ok t" if "au_destination body = Some t" for t
    using assms(1) that
    by (auto simp: alias_update_request_def bind_res_eq_Inr_iff address_ok_def split: option.splits)
  with assms(2) show "alias_ok (patched_alias now body a)"
    by (auto simp: patched_alias_def alias_ok_def Let_def split: option.splits)
qed (simp_all add: patched_alias_def Let_def)

lemma alias_step_rows_ok:
  assumes "alias_step s s'" and "rows_ok s"
  shows "rows_ok s' \<and> (s' = s \<or> parse_map (virtual_aliases s') = enabled_pairs s')"
proof -
  have rebuilt: "?thesis" if "s' = rebuild_postfix_virtual_aliases t" "rows_ok t" for t
    using that by (simp add: rows_ok_def parse_rebuilt)
  show ?thesis
    using assms(1)
  proof cases
    case (create new_id now src dst)
    show ?thesis
    proof (cases "alias_create_request src dst")
      case (Inr body)
      obtain r where c: "create_alias new_id now body s = (r, s')"
        using create(1) Inr by (metis create_new_alias_def prod.collapse sum.case(2))
      show ?thesis
      proof (cases "s' = s")
        case False
        from create_alias_row [OF Inr assms(2) create(2) c False] obtain a where
          a: "alias_ok a" "a_source a = ac_source body" "a_id a = new_id"
          "ac_source body \<notin> a_source ` set (aliases s)" and
          s': "s' = rebuild_postfix_virtual_aliases (s\<lparr>aliases := aliases s @ [a]\<rparr>)" by metis
        show ?thesis
          using a assms(2) create(2) by (intro rebuilt [OF s']) (auto simp: rows_ok_def)
      qed (use assms(2) in simp)
    qed (use create assms(2) in \<open>simp add: create_new_alias_def\<close>)
  next
    case (update i now dst en)
    show ?thesis
    proof (cases "alias_update_request dst en")
      case (Inr body)
      show ?thesis
      proof (cases "row_get a_id i (aliases s)")
        case (Some a)
        then have a: "a \<in> set (aliases s)" by (auto simp: row_get_def find_Some_iff)
        let ?a = "patched_alias now body a"
        have ok: "alias_ok a" using a assms(2) by (simp add: rows_ok_def)
        have s': "s' = rebuild_postfix_virtual_aliases (s\<lparr>aliases := row_put a_id ?a (aliases s)\<rparr>)"
          using update Inr Some
          by (simp add: update_existing_alias_def update_alias_def get_alias_def Let_def)
        moreover have "\<forall>x \<in> set (row_put a_id ?a (aliases s)). alias_ok x"
          using patched_alias_ok(1) [OF Inr ok] assms(2) by (auto simp: row_put_def rows_ok_def)
        ultimately show ?thesis
          using a assms(2) patched_alias_ok(2,3) [OF Inr ok]
          by (intro rebuilt [OF s']) (auto simp: rows_ok_def row_put_map_same)
      qed (use update Inr assms(2) in
            \<open>simp add: update_existing_alias_def update_alias_def get_alias_def\<close>)
    qed (use update assms(2) in \<open>simp add: update_existing_alias_def\<close>)
  next
    case (delete i)
    show ?thesis
    proof (cases "row_get a_id i (aliases s)")
      case (Some a)
      then have s': "s' = rebuild_postfix_virtual_aliases (s\<lparr>aliases := row_del a_id i (aliases s)\<rparr>)"
        using delete by (simp add: delete_alias_def get_alias_def)
      show ?thesis
        using assms(2) by (intro rebuilt [OF s']) (auto simp: rows_ok_def row_del_def distinct_map_filter)
    qed (use delete assms(2) in \<open>simp add: delete_alias_def get_alias_def\<close>)
  qed
qed

lemma alias_run_rows_ok:
  assumes "alias_step\<^sup>*\<^sup>* s0 s" and "rows_ok s0"
  shows "rows_ok s \<and> (s = s0 \<or> parse_map (virtual_aliases s) = enabled_pairs s)"
  using assms
proof (induction rule: rtranclp_induct)
  case (step y z)
  then have "rows_ok y" by simp
  from alias_step_rows_ok [OF step.hyps(2) this] step show ?case by auto
qed simp

text \<open>C8: the Postfix map is the alias table. After any sequence of requests the file, read the
  way Postfix reads it, is exactly the list of the enabled aliases, one entry each: no
  request can smuggle a second entry or a second field into a line, no disabled or deleted
  alias stays, and a source address occurs once. Only as long as nothing has been changed is
  the file the one the container started with; after the first change none of its entries
  survives unless the table has it.\<close>

theorem virtual_map_exact:
  assumes "alias_step\<^sup>*\<^sup>* \<lparr>aliases = [], virtual_aliases = boot_file\<rparr> s"
  shows "(s = \<lparr>aliases = [], virtual_aliases = boot_file\<rparr> \<or>
      parse_map (virtual_aliases s) = map (\<lambda>a. (a_source a, a_destination a)) (filter a_enabled (aliases s))) \<and>
    distinct (map a_source (aliases s))"
proof -
  have "rows_ok \<lparr>aliases = [], virtual_aliases = boot_file\<rparr>" by (simp add: rows_ok_def)
  from alias_run_rows_ok [OF assms this] show ?thesis
    by (auto simp: rows_ok_def enabled_pairs_def)
qed

definition demo_boot :: alias_state where
  "demo_boot = \<lparr>aliases = [], virtual_aliases = ''postmaster@x.io    admin@x.io'' @ [CHR 0x0A]\<rparr>"

definition demo_alias_state :: alias_state where
  "demo_alias_state = snd (create_new_alias 1 7 '' Info@X.io '' ''bob@x.io.'' demo_boot)"

lemma demo_alias_reachable: "alias_step\<^sup>*\<^sup>* demo_boot demo_alias_state"
  unfolding demo_alias_state_def
  by (rule r_into_rtranclp, rule alias_step.create) (simp add: demo_boot_def)

theorem virtual_map_exact_witness:
  "parse_map (virtual_aliases demo_boot) = [(''postmaster@x.io'', ''admin@x.io'')] \<and>
   parse_map (virtual_aliases demo_alias_state) = [(''info@x.io'', ''bob@x.io'')]"
proof -
  have "map (\<lambda>a. (a_source a, a_destination a)) (filter a_enabled (aliases demo_alias_state)) =
      [(''info@x.io'', ''bob@x.io'')]" by code_simp
  moreover have "parse_map (virtual_aliases demo_boot) = [(''postmaster@x.io'', ''admin@x.io'')]"
    by code_simp
  moreover have "aliases demo_alias_state \<noteq> []" by code_simp
  then have "demo_alias_state \<noteq> \<lparr>aliases = [], virtual_aliases = f\<rparr>" for f
    by (metis alias_state.select_convs(1))
  ultimately show ?thesis
    using virtual_map_exact [OF demo_alias_reachable [unfolded demo_boot_def]]
    by (auto simp: demo_boot_def)
qed

text \<open>there is no catch-all alias. The source address of every stored alias has a non-empty
  part before its last at-sign and the alias' domain after it, so the catch-all flag that
  \<open>create_alias\<close> computes is never set and an address of the form \<^verbatim>\<open>@domain\<close> is always
  rejected by the request's validator.\<close>

theorem no_catch_all_alias:
  assumes "alias_step\<^sup>*\<^sup>* \<lparr>aliases = [], virtual_aliases = boot_file\<rparr> s" and "a \<in> set (aliases s)"
  shows "\<not> a_is_catchall a \<and> (\<exists>l. l \<noteq> [] \<and> a_source a = l @ ''@'' @ a_domain a) \<and>
    normalize_email_address (''@'' @ a_domain a) = Inl (ValueErr ''Invalid email local part'')"
proof -
  have "rows_ok \<lparr>aliases = [], virtual_aliases = boot_file\<rparr>" by (simp add: rows_ok_def)
  with alias_run_rows_ok [OF assms(1)] assms(2) have ok: "alias_ok a" by (simp add: rows_ok_def)
  then have src: "address_ok (a_source a)" by (simp add: alias_ok_def)
  obtain l d where sp: "split_last (CHR ''@'') (a_source a) = Some (l, d)" "l \<noteq> []"
      "a_source a = l @ ''@'' @ d" using src by (rule address_ok_split)
  then have "d = a_domain a" using ok by (simp add: alias_ok_def)
  moreover have "normalize_email_address (''@'' @ d) = Inl (ValueErr ''Invalid email local part'')"
    using src sp(3) split_last_Some [OF sp(1)] by (intro at_domain_rejected) auto
  ultimately show ?thesis using ok sp by (auto simp: alias_ok_def)
qed

theorem no_catch_all_alias_witness:
  "\<exists>a. aliases demo_alias_state = [a] \<and> \<not> a_is_catchall a"
proof -
  have "length (aliases demo_alias_state) = 1" by code_simp
  then obtain a where a: "aliases demo_alias_state = [a]" by (auto simp: length_Suc_conv)
  with no_catch_all_alias [OF demo_alias_reachable [unfolded demo_boot_def], of a] show ?thesis by simp
qed

end
