(* ===== verification/Json.thy ===== *)
theory Json
  imports Prelude
begin

text \<open>
  JSON values as Python dictionaries, lists and scalars, with the two ways the code reads a
  dictionary: \<open>d.get(k)\<close> and \<open>d.get(k, default)\<close>. Objects keep their insertion order and
  their keys are distinct.
\<close>

datatype json =
    JNull
  | JBool bool
  | JInt int
  | JFloat rat
  | JStr string
  | JArr "json list"
  | JObj "(string \<times> json) list"

type_synonym dict = "(string \<times> json) list"

definition dict_get :: "dict \<Rightarrow> string \<Rightarrow> json option" where
  "dict_get d k = map_of d k"

definition dict_get_default :: "dict \<Rightarrow> string \<Rightarrow> json \<Rightarrow> json" where
  "dict_get_default d k v = (case dict_get d k of None \<Rightarrow> v | Some x \<Rightarrow> x)"

text \<open>Truth value of a Python object.\<close>

fun json_truthy :: "json \<Rightarrow> bool" where
  "json_truthy JNull \<longleftrightarrow> False"
| "json_truthy (JBool b) \<longleftrightarrow> b"
| "json_truthy (JInt i) \<longleftrightarrow> i \<noteq> 0"
| "json_truthy (JFloat q) \<longleftrightarrow> q \<noteq> 0"
| "json_truthy (JStr s) \<longleftrightarrow> s \<noteq> []"
| "json_truthy (JArr xs) \<longleftrightarrow> xs \<noteq> []"
| "json_truthy (JObj ps) \<longleftrightarrow> ps \<noteq> []"

end
