(* ===== verification/Events.thy ===== *)
theory Events
  imports Json
begin

text \<open>
  \<^verbatim>\<open>events/bus.py\<close>: the in-process bus that fans events out to the queues of the
  connected clients. A subscriber is a bounded queue with the mailboxes whose events it may
  see; listeners are callbacks, represented by numbers, and \<open>publish\<close> returns the ones it
  calls, in order (an exception in one does not stop the next). \<open>next_event\<close> is the
  consumer's \<open>queue.get()\<close> of \<^verbatim>\<open>events/router.py\<close>.
\<close>

section \<open>State and operations\<close>

record message =
  ev_type :: string
  ev_data :: dict

record subscriber =
  sb_queue :: "message list"
  sb_allowed :: "string list"

record bus =
  subscribers :: "(string \<times> subscriber) list"
  listeners :: "(string \<times> nat list) list"

definition empty_bus :: bus where
  "empty_bus = \<lparr>subscribers = [], listeners = []\<rparr>"

definition queue_maxsize :: nat where
  "queue_maxsize = 256"

text \<open>Storing into a dictionary keeps the position of a key that is already there.\<close>

fun dict_set :: "'k \<Rightarrow> 'v \<Rightarrow> ('k \<times> 'v) list \<Rightarrow> ('k \<times> 'v) list" where
  "dict_set k v [] = [(k, v)]"
| "dict_set k v ((j, w) # d) = (if j = k then (k, v) # d else (j, w) # dict_set k v d)"

definition dict_pop :: "'k \<Rightarrow> ('k \<times> 'v) list \<Rightarrow> ('k \<times> 'v) list" where
  "dict_pop k d = filter (\<lambda>(j, v). j \<noteq> k) d"

definition subscribe :: "string \<Rightarrow> string list \<Rightarrow> bus \<Rightarrow> bus" where
  "subscribe client_id allowed_mailboxes b =
     b\<lparr>subscribers := dict_set client_id
         \<lparr>sb_queue = [], sb_allowed = map lower allowed_mailboxes\<rparr> (subscribers b)\<rparr>"

definition unsubscribe :: "string \<Rightarrow> bus \<Rightarrow> bus" where
  "unsubscribe client_id b = b\<lparr>subscribers := dict_pop client_id (subscribers b)\<rparr>"

definition add_listener :: "string \<Rightarrow> nat \<Rightarrow> bus \<Rightarrow> bus" where
  "add_listener event_type cb b =
     b\<lparr>listeners := dict_set event_type
         ((case map_of (listeners b) event_type of None \<Rightarrow> [] | Some cbs \<Rightarrow> cbs) @ [cb]) (listeners b)\<rparr>"

definition event_mailbox :: "string \<Rightarrow> dict \<Rightarrow> string option" where
  "event_mailbox event_type data =
     (let candidate = (if event_type = ''email.sent'' then dict_get data ''from''
                       else (case dict_get data ''mailbox'' of
                               None \<Rightarrow> dict_get data ''address''
                             | Some v \<Rightarrow> Some v))
      in case candidate of
           Some (JStr s) \<Rightarrow> if contains ''@'' s then Some (lower s) else None
         | _ \<Rightarrow> None)"

text \<open>The fan-out loop: the subscribers after \<open>put_nowait\<close> and the clients whose queue was full.\<close>

fun fan_out :: "message \<Rightarrow> string option \<Rightarrow> (string \<times> subscriber) list
    \<Rightarrow> (string \<times> subscriber) list \<times> string list" where
  "fan_out m mb [] = ([], [])"
| "fan_out m mb ((cid, s) # rest) =
     (case fan_out m mb rest of (rest', stale) \<Rightarrow>
        if (case mb of None \<Rightarrow> True | Some a \<Rightarrow> a \<notin> set (sb_allowed s))
        then ((cid, s) # rest', stale)
        else if length (sb_queue s) < queue_maxsize
        then ((cid, s\<lparr>sb_queue := sb_queue s @ [m]\<rparr>) # rest', stale)
        else ((cid, s) # rest', cid # stale))"

definition publish :: "string \<Rightarrow> dict \<Rightarrow> bus \<Rightarrow> bus \<times> nat list" where
  "publish event_type data b =
     (let m = \<lparr>ev_type = event_type, ev_data = data\<rparr>;
          (subs, stale) = fan_out m (event_mailbox event_type data) (subscribers b);
          b' = fold unsubscribe stale (b\<lparr>subscribers := subs\<rparr>);
          specific = (case map_of (listeners b') event_type of None \<Rightarrow> [] | Some cbs \<Rightarrow> cbs);
          wildcard = (case map_of (listeners b') ''*'' of None \<Rightarrow> [] | Some cbs \<Rightarrow> cbs)
      in (b', specific @ wildcard))"

definition next_event :: "string \<Rightarrow> bus \<Rightarrow> message option \<times> bus" where
  "next_event client_id b =
     (case map_of (subscribers b) client_id of
        Some s \<Rightarrow>
          (case sb_queue s of
             [] \<Rightarrow> (None, b)
           | m # q \<Rightarrow> (Some m, b\<lparr>subscribers := dict_set client_id (s\<lparr>sb_queue := q\<rparr>) (subscribers b)\<rparr>))
      | None \<Rightarrow> (None, b))"

section \<open>Lemmas\<close>

lemma map_of_dict_set: "map_of (dict_set k v d) = (map_of d)(k \<mapsto> v)"
  by (induction k v d rule: dict_set.induct) (auto simp: fun_eq_iff)

lemma map_of_dict_pop: "map_of (dict_pop k d) = (map_of d)(k := None)"
  by (induction d) (auto simp: dict_pop_def fun_eq_iff)

lemma subscriber_after_subscribe:
  "map_of (subscribers (subscribe c ms b)) = (map_of (subscribers b))
     (c \<mapsto> \<lparr>sb_queue = [], sb_allowed = map lower ms\<rparr>)"
  by (simp add: subscribe_def map_of_dict_set)

lemma subscriber_after_unsubscribe:
  "map_of (subscribers (unsubscribe c b)) = (map_of (subscribers b))(c := None)"
  by (simp add: unsubscribe_def map_of_dict_pop)

lemma subscriber_after_unsubscribe_all:
  "map_of (subscribers (fold unsubscribe cs b)) c =
     (if c \<in> set cs then None else map_of (subscribers b) c)"
  by (induction cs arbitrary: b) (auto simp: subscriber_after_unsubscribe)

lemma listeners_unsubscribe_all [simp]: "listeners (fold unsubscribe cs b) = listeners b"
  by (induction cs arbitrary: b) (auto simp: unsubscribe_def)

text \<open>What happens to one subscriber when an event for mailbox \<open>mb\<close> is published.\<close>

definition receive :: "message \<Rightarrow> string option \<Rightarrow> subscriber \<Rightarrow> subscriber option" where
  "receive m mb s =
     (case mb of
        None \<Rightarrow> Some s
      | Some a \<Rightarrow>
          if a \<notin> set (sb_allowed s) then Some s
          else if length (sb_queue s) < queue_maxsize then Some (s\<lparr>sb_queue := sb_queue s @ [m]\<rparr>)
          else None)"

lemma fst_fan_out_keys: "map fst (fst (fan_out m mb subs)) = map fst subs"
  by (induction m mb subs rule: fan_out.induct) (auto split: prod.splits)

lemma stale_subset_keys: "set (snd (fan_out m mb subs)) \<subseteq> fst ` set subs"
  by (induction m mb subs rule: fan_out.induct) (auto split: prod.splits)

lemma fan_out_lookup:
  assumes "distinct (map fst subs)"
  shows "(if c \<in> set (snd (fan_out m mb subs)) then None else map_of (fst (fan_out m mb subs)) c) =
    Option.bind (map_of subs c) (receive m mb)"
  using assms
proof (induction m mb subs rule: fan_out.induct)
  case (1 m mb)
  show ?case by simp
next
  case (2 m mb cid s rest)
  obtain rest' stale where f: "fan_out m mb rest = (rest', stale)" by fastforce
  have d: "distinct (map fst rest)" "cid \<notin> fst ` set rest" using "2.prems" by auto
  then have "cid \<notin> set stale" using stale_subset_keys [of m mb rest] f by auto
  with "2.IH" [OF d(1)] f show ?case
    by (auto simp: receive_def split: option.splits)
qed

lemma publish_subscriber:
  assumes "distinct (map fst (subscribers b))"
  shows "map_of (subscribers (fst (publish t data b))) c =
    Option.bind (map_of (subscribers b) c)
      (receive \<lparr>ev_type = t, ev_data = data\<rparr> (event_mailbox t data))"
  using fan_out_lookup [OF assms, of c "\<lparr>ev_type = t, ev_data = data\<rparr>" "event_mailbox t data"]
  by (simp add: publish_def Let_def subscriber_after_unsubscribe_all case_prod_beta split: if_splits)

text \<open>Client ids stay distinct keys.\<close>

lemma keys_dict_set: "fst ` set (dict_set k v d) = insert k (fst ` set d)"
  by (induction k v d rule: dict_set.induct) auto

lemma distinct_dict_set: "distinct (map fst d) \<Longrightarrow> distinct (map fst (dict_set k v d))"
  by (induction k v d rule: dict_set.induct) (auto simp: keys_dict_set)

lemma distinct_dict_pop: "distinct (map fst d) \<Longrightarrow> distinct (map fst (dict_pop k d))"
  unfolding dict_pop_def by (simp add: distinct_map_filter)

lemma distinct_unsubscribe_all:
  "distinct (map fst (subscribers b)) \<Longrightarrow> distinct (map fst (subscribers (fold unsubscribe cs b)))"
  by (induction cs arbitrary: b) (auto simp: unsubscribe_def distinct_dict_pop)

lemma distinct_publish:
  assumes "distinct (map fst (subscribers b))"
  shows "distinct (map fst (subscribers (fst (publish t data b))))"
proof -
  obtain subs stale where f: "fan_out \<lparr>ev_type = t, ev_data = data\<rparr> (event_mailbox t data) (subscribers b)
      = (subs, stale)" by fastforce
  have "map fst subs = map fst (subscribers b)"
    using fst_fan_out_keys [of "\<lparr>ev_type = t, ev_data = data\<rparr>" "event_mailbox t data" "subscribers b"] f
    by simp
  with assms f show ?thesis by (simp add: publish_def distinct_unsubscribe_all)
qed

section \<open>The contract other components rely on\<close>

text \<open>
  A component that publishes events about a mailbox relies on the bus in two ways: an event
  reaches no client that is not entitled to its mailbox, and publishing never blocks.
\<close>

locale tenant_stream =
  fixes inbox :: "'b \<Rightarrow> 'c \<Rightarrow> ('m list \<times> 'a set) option"
    and addressee :: "'m \<Rightarrow> 'a option"
    and send :: "'m \<Rightarrow> 'b \<Rightarrow> 'b"
    and wf :: "'b \<Rightarrow> bool"
  assumes wf_send: "wf b \<Longrightarrow> wf (send m b)"
    and send_inbox: "wf b \<Longrightarrow> inbox (send m b) c = Some (q', e) \<Longrightarrow>
      \<exists>q. inbox b c = Some (q, e) \<and> (q' = q \<or> q' = q @ [m] \<and> (\<exists>a \<in> e. addressee m = Some a))"
begin

definition confined :: "'b \<Rightarrow> bool" where
  "confined b \<longleftrightarrow> (\<forall>c q e m. inbox b c = Some (q, e) \<longrightarrow> m \<in> set q \<longrightarrow> (\<exists>a \<in> e. addressee m = Some a))"

lemma send_confined:
  assumes "wf b" and "confined b"
  shows "confined (send m b)"
  unfolding confined_def
proof (intro allI impI)
  fix c q' e m'
  assume i: "inbox (send m b) c = Some (q', e)" and m': "m' \<in> set q'"
  obtain q where q: "inbox b c = Some (q, e)"
      "q' = q \<or> q' = q @ [m] \<and> (\<exists>a \<in> e. addressee m = Some a)"
    using send_inbox [OF assms(1) i] by blast
  then show "\<exists>a \<in> e. addressee m' = Some a"
    using m' assms(2) by (auto simp: confined_def)
qed

lemma send_all_confined: "wf b \<Longrightarrow> confined b \<Longrightarrow> wf (fold send ms b) \<and> confined (fold send ms b)"
  by (induction ms arbitrary: b) (auto intro: wf_send send_confined)

lemma outsider_unaffected:
  assumes "wf b" and "inbox (send m b) c = Some (q', e)" and "\<forall>a \<in> e. addressee m \<noteq> Some a"
  shows "inbox b c = Some (q', e)"
  using send_inbox [OF assms(1,2)] assms(3) by blast

end

definition inbox_of :: "bus \<Rightarrow> string \<Rightarrow> (message list \<times> string set) option" where
  "inbox_of b c = map_option (\<lambda>s. (sb_queue s, set (sb_allowed s))) (map_of (subscribers b) c)"

definition addressee_of :: "message \<Rightarrow> string option" where
  "addressee_of m = event_mailbox (ev_type m) (ev_data m)"

definition send_event :: "message \<Rightarrow> bus \<Rightarrow> bus" where
  "send_event m b = fst (publish (ev_type m) (ev_data m) b)"

definition wf_bus :: "bus \<Rightarrow> bool" where
  "wf_bus b \<longleftrightarrow> distinct (map fst (subscribers b))"

lemma send_event_subscriber:
  assumes "wf_bus b"
  shows "map_of (subscribers (send_event m b)) c =
    Option.bind (map_of (subscribers b) c) (receive m (addressee_of m))"
proof (cases m)
  case (fields t data)
  then show ?thesis
    using publish_subscriber [of b t data c] assms
    by (simp add: send_event_def wf_bus_def addressee_of_def)
qed

interpretation sse: tenant_stream inbox_of addressee_of send_event wf_bus
proof unfold_locales
  fix b m
  show "wf_bus b \<Longrightarrow> wf_bus (send_event m b)"
    by (simp add: wf_bus_def send_event_def distinct_publish)
next
  fix b m c q' e
  assume wf: "wf_bus b" and i: "inbox_of (send_event m b) c = Some (q', e)"
  from i obtain s' where s': "map_of (subscribers (send_event m b)) c = Some s'"
      "q' = sb_queue s'" "e = set (sb_allowed s')"
    by (auto simp: inbox_of_def)
  then obtain s where s: "map_of (subscribers b) c = Some s" "receive m (addressee_of m) s = Some s'"
    using send_event_subscriber [OF wf] by (auto simp: bind_eq_Some_conv)
  then show "\<exists>q. inbox_of b c = Some (q, e) \<and>
      (q' = q \<or> q' = q @ [m] \<and> (\<exists>a \<in> e. addressee_of m = Some a))"
    using s' by (auto simp: inbox_of_def receive_def split: option.splits if_splits)
qed

section \<open>The bus as a transition system\<close>

inductive bus_step :: "bus \<Rightarrow> bus \<Rightarrow> bool" where
  connect: "bus_step b (subscribe c ms b)"
| disconnect: "bus_step b (unsubscribe c b)"
| listen: "bus_step b (add_listener t cb b)"
| event: "bus_step b (fst (publish t data b))"
| consume: "bus_step b (snd (next_event c b))"

definition bus_inv :: "bus \<Rightarrow> bool" where
  "bus_inv b \<longleftrightarrow> wf_bus b \<and> (\<forall>c s. map_of (subscribers b) c = Some s \<longrightarrow>
     length (sb_queue s) \<le> queue_maxsize \<and>
     (\<forall>m \<in> set (sb_queue s). \<exists>a \<in> set (sb_allowed s). addressee_of m = Some a))"

lemma bus_step_inv:
  assumes "bus_step b b'" and "bus_inv b"
  shows "bus_inv b'"
  using assms
proof (induction rule: bus_step.induct)
  case (connect b c ms)
  then show ?case
    by (auto simp: bus_inv_def wf_bus_def subscriber_after_subscribe)
      (auto simp: subscribe_def distinct_dict_set)
next
  case (disconnect b c)
  then show ?case
    by (auto simp: bus_inv_def wf_bus_def subscriber_after_unsubscribe split: if_splits)
      (auto simp: unsubscribe_def distinct_dict_pop)
next
  case (listen b t cb)
  then show ?case by (simp add: bus_inv_def wf_bus_def add_listener_def)
next
  case (event b t data)
  then have d: "distinct (map fst (subscribers b))" by (simp add: bus_inv_def wf_bus_def)
  have "length (sb_queue s') \<le> queue_maxsize \<and>
      (\<forall>m \<in> set (sb_queue s'). \<exists>a \<in> set (sb_allowed s'). addressee_of m = Some a)"
    if after: "map_of (subscribers (fst (publish t data b))) c = Some s'" for c s'
  proof -
    obtain s where s: "map_of (subscribers b) c = Some s"
        "receive \<lparr>ev_type = t, ev_data = data\<rparr> (event_mailbox t data) s = Some s'"
      using after publish_subscriber [OF d, of t data c] by (auto simp: bind_eq_Some_conv)
    then show ?thesis
      using event
      by (fastforce simp: bus_inv_def receive_def addressee_of_def split: option.splits if_splits)
  qed
  with d show ?case by (auto simp: bus_inv_def wf_bus_def distinct_publish)
next
  case (consume b c)
  show ?case
  proof (cases "map_of (subscribers b) c")
    case None
    with consume show ?thesis by (simp add: next_event_def)
  next
    case (Some s)
    show ?thesis
    proof (cases "sb_queue s")
      case Nil
      with Some consume show ?thesis by (simp add: next_event_def)
    next
      case (Cons m q)
      from consume Some have "length (sb_queue s) \<le> queue_maxsize"
          "\<forall>m \<in> set (sb_queue s). \<exists>a \<in> set (sb_allowed s). addressee_of m = Some a"
        unfolding bus_inv_def by blast+
      with consume Some Cons show ?thesis
        by (simp add: next_event_def bus_inv_def wf_bus_def map_of_dict_set distinct_dict_set
            del: map_of_eq_Some_iff)
    qed
  qed
qed

text \<open>C4: tenant isolation and bounded memory of the event stream. In every reachable state of
  the bus each client's queue holds at most 256 messages, and every message in it is
  attributed to a mailbox that client was admitted for; events that name no mailbox are in
  no queue at all.\<close>

theorem bus_isolation:
  assumes "bus_step\<^sup>*\<^sup>* empty_bus b" and "map_of (subscribers b) c = Some s"
  shows "length (sb_queue s) \<le> queue_maxsize \<and>
    (\<forall>m \<in> set (sb_queue s). \<exists>a \<in> set (sb_allowed s). event_mailbox (ev_type m) (ev_data m) = Some a)"
proof -
  have "bus_inv empty_bus" by (simp add: bus_inv_def wf_bus_def empty_bus_def)
  with assms(1) have "bus_inv b"
    by (induction rule: rtranclp_induct) (auto intro: bus_step_inv)
  with assms(2) show ?thesis by (auto simp: bus_inv_def addressee_of_def)
qed

definition demo_bus :: bus where
  "demo_bus = fst (publish ''email.received'' [(''mailbox'', JStr ''Bob@x'')]
     (subscribe ''eve'' [''eve@x''] (subscribe ''bob'' [''bob@X''] empty_bus)))"

lemma demo_bus_reachable: "bus_step\<^sup>*\<^sup>* empty_bus demo_bus"
proof -
  have "bus_step empty_bus (subscribe ''bob'' [''bob@X''] empty_bus)" by (rule bus_step.connect)
  moreover have "bus_step (subscribe ''bob'' [''bob@X''] empty_bus)
      (subscribe ''eve'' [''eve@x''] (subscribe ''bob'' [''bob@X''] empty_bus))" by (rule bus_step.connect)
  moreover have "bus_step (subscribe ''eve'' [''eve@x''] (subscribe ''bob'' [''bob@X''] empty_bus)) demo_bus"
    unfolding demo_bus_def by (rule bus_step.event)
  ultimately show ?thesis
    by (blast intro: rtranclp.rtrancl_into_rtrancl rtranclp.rtrancl_refl)
qed

lemma demo_bus_eval:
  "demo_bus = \<lparr>subscribers =
     [(''bob'', \<lparr>sb_queue = [\<lparr>ev_type = ''email.received'', ev_data = [(''mailbox'', JStr ''Bob@x'')]\<rparr>],
        sb_allowed = [''bob@x'']\<rparr>),
      (''eve'', \<lparr>sb_queue = [], sb_allowed = [''eve@x'']\<rparr>)],
    listeners = []\<rparr>"
proof -
  have "event_mailbox ''email.received'' [(''mailbox'', JStr ''Bob@x'')] = Some ''bob@x''"
    "map lower [''bob@X''] = [''bob@x'']" "map lower [''eve@x''] = [''eve@x'']" by code_simp+
  then show ?thesis
    by (simp add: demo_bus_def publish_def subscribe_def empty_bus_def queue_maxsize_def)
qed

theorem bus_isolation_witness:
  "\<exists>s. map_of (subscribers demo_bus) ''bob'' = Some s \<and> length (sb_queue s) = 1 \<and>
     (\<forall>m \<in> set (sb_queue s). event_mailbox (ev_type m) (ev_data m) = Some ''bob@x'')"
proof -
  let ?s = "\<lparr>sb_queue = [\<lparr>ev_type = ''email.received'', ev_data = [(''mailbox'', JStr ''Bob@x'')]\<rparr>],
      sb_allowed = [''bob@x'']\<rparr>"
  have s: "map_of (subscribers demo_bus) ''bob'' = Some ?s"
    by (simp add: demo_bus_eval)
  from bus_isolation [OF demo_bus_reachable s] s show ?thesis by auto
qed

text \<open>what one event does to each client: a client that may see it and has room gets it at
  the end of its queue; a client that may see it and has no room is disconnected (its whole
  subscription is dropped, not only this event); every other client is untouched. All
  registered listeners of the type, then those for every type, are called.\<close>

theorem publish_effect:
  assumes "wf_bus b" and "publish t data b = (b', called)"
  shows "map_of (subscribers b') c =
    (case map_of (subscribers b) c of
       None \<Rightarrow> None
     | Some s \<Rightarrow>
         if \<not> (\<exists>a \<in> set (sb_allowed s). event_mailbox t data = Some a) then Some s
         else if length (sb_queue s) < 256
         then Some (s\<lparr>sb_queue := sb_queue s @ [\<lparr>ev_type = t, ev_data = data\<rparr>]\<rparr>)
         else None) \<and>
    listeners b' = listeners b \<and>
    called = concat (map (\<lambda>k. case map_of (listeners b) k of None \<Rightarrow> [] | Some l \<Rightarrow> l) [t, ''*''])"
proof -
  have "map_of (subscribers b') c = Option.bind (map_of (subscribers b) c)
      (receive \<lparr>ev_type = t, ev_data = data\<rparr> (event_mailbox t data))"
    using publish_subscriber [of b t data c] assms by (simp add: wf_bus_def)
  moreover have "listeners b' = listeners b" "called =
      concat (map (\<lambda>k. case map_of (listeners b) k of None \<Rightarrow> [] | Some l \<Rightarrow> l) [t, ''*''])"
    using assms(2) by (auto simp: publish_def Let_def split: prod.splits)
  ultimately show ?thesis
    by (auto simp: receive_def queue_maxsize_def split: option.splits)
qed

theorem publish_effect_witness:
  "map_of (subscribers (fst (publish ''mailbox.created'' [(''address'', JStr ''EVE@x'')] demo_bus))) ''bob''
     = map_of (subscribers demo_bus) ''bob''"
proof -
  have s: "map_of (subscribers demo_bus) ''bob'' = Some \<lparr>sb_queue =
      [\<lparr>ev_type = ''email.received'', ev_data = [(''mailbox'', JStr ''Bob@x'')]\<rparr>], sb_allowed = [''bob@x'']\<rparr>"
    by (simp add: demo_bus_eval)
  have e: "event_mailbox ''mailbox.created'' [(''address'', JStr ''EVE@x'')] = Some ''eve@x''" by code_simp
  have "wf_bus demo_bus" by code_simp
  from publish_effect [OF this surjective_pairing, of "''mailbox.created''" _ "''bob''"] s e
  show ?thesis by simp
qed

end
