(* ===== verification/UsersFile.thy ===== *)
theory UsersFile
  imports Addressing
begin

text \<open>
  The two operations of \<^verbatim>\<open>mailboxes/service.py\<close> on the Dovecot passwd-file: replacing
  one identity and removing one. The file is text; \<open>read_text\<close> turns every line ending into
  a newline and \<open>splitlines\<close> also cuts at the other line boundaries Python knows. The
  abstraction is the list of identities with the rest of their line.
\<close>

section \<open>Text files\<close>

fun universal_newlines :: "string \<Rightarrow> string" where
  "universal_newlines [] = []"
| "universal_newlines [c] = [if c = CHR 0x0D then CHR 0x0A else c]"
| "universal_newlines (c # d # s) =
     (if c = CHR 0x0D
      then (if d = CHR 0x0A then CHR 0x0A # universal_newlines s
            else CHR 0x0A # universal_newlines (d # s))
      else c # universal_newlines (d # s))"

definition line_boundary :: "char \<Rightarrow> bool" where
  "line_boundary c \<longleftrightarrow> c \<in> {CHR 0x0A, CHR 0x0B, CHR 0x0C, CHR 0x1C, CHR 0x1D, CHR 0x1E}"

text \<open>\<open>splitlines(keepends=True)\<close> of text that has no carriage return.\<close>

fun splitlines_keep :: "string \<Rightarrow> string list" where
  "splitlines_keep [] = []"
| "splitlines_keep (c # s) =
     (if line_boundary c then [c] # splitlines_keep s
      else (case splitlines_keep s of [] \<Rightarrow> [[c]] | l # ls \<Rightarrow> (c # l) # ls))"

section \<open>The operations\<close>

definition partition_key :: "string \<Rightarrow> string" where
  "partition_key l = takeWhile (\<lambda>c. c \<noteq> CHR '':'') l"

definition upsert_dovecot_user :: "string option \<Rightarrow> string \<Rightarrow> string \<Rightarrow> string option" where
  "upsert_dovecot_user file address line =
     (let existing_lines = (case file of None \<Rightarrow> [] | Some t \<Rightarrow> splitlines_keep (universal_newlines t));
          retained = filter (\<lambda>l. lower (partition_key l) \<noteq> lower address) existing_lines;
          replacement = (if line \<noteq> [] \<and> last line = CHR 0x0A then line else line @ [CHR 0x0A])
      in Some (concat retained @ replacement))"

definition remove_from_dovecot_users :: "string option \<Rightarrow> string \<Rightarrow> string option" where
  "remove_from_dovecot_users file address =
     (case file of
        None \<Rightarrow> None
      | Some t \<Rightarrow> Some (concat (filter (\<lambda>l. \<not> prefix (address @ '':'') l)
                          (splitlines_keep (universal_newlines t)))))"

section \<open>Identities\<close>

type_synonym identity = "string \<times> string"

definition user_line :: "identity \<Rightarrow> string" where
  "user_line e = fst e @ '':'' @ snd e @ [CHR 0x0A]"

definition render_users :: "identity list \<Rightarrow> string" where
  "render_users es = concat (map user_line es)"

definition clean :: "string \<Rightarrow> bool" where
  "clean s \<longleftrightarrow> (\<forall>c \<in> set s. \<not> line_boundary c \<and> c \<noteq> CHR 0x0D)"

definition wf_identity :: "identity \<Rightarrow> bool" where
  "wf_identity e \<longleftrightarrow> clean (fst e) \<and> clean (snd e) \<and> CHR '':'' \<notin> set (fst e) \<and> lower (fst e) = fst e"

definition wf_identities :: "identity list \<Rightarrow> bool" where
  "wf_identities es \<longleftrightarrow> list_all wf_identity es \<and> distinct (map fst es)"

section \<open>Lemmas\<close>

lemma universal_newlines_id: "CHR 0x0D \<notin> set s \<Longrightarrow> universal_newlines s = s"
  by (induction s rule: universal_newlines.induct) auto

lemma splitlines_keep_line:
  "(\<forall>c \<in> set l. \<not> line_boundary c) \<Longrightarrow> line_boundary b \<Longrightarrow>
   splitlines_keep (l @ b # s) = (l @ [b]) # splitlines_keep s"
  by (induction l) auto

lemma concat_splitlines_keep: "concat (splitlines_keep s) = s"
  by (induction s) (auto split: list.splits)

lemma user_line_facts:
  assumes "wf_identity e"
  shows "splitlines_keep (user_line e @ s) = user_line e # splitlines_keep s"
    and "CHR 0x0D \<notin> set (user_line e)"
    and "partition_key (user_line e) = fst e"
    and "prefix (a @ '':'') (user_line e) \<longleftrightarrow> (fst e = a \<or> CHR '':'' \<in> set a \<and> prefix (a @ '':'') (user_line e))"
proof -
  obtain k r where e: "e = (k, r)" by (cases e)
  have b: "\<not> line_boundary (CHR '':'')" "line_boundary (CHR 0x0A)" by (simp_all add: line_boundary_def)
  have kr: "\<forall>c \<in> set k \<union> set r. \<not> line_boundary c \<and> c \<noteq> CHR 0x0D" and k: "CHR '':'' \<notin> set k"
    using assms by (simp_all add: wf_identity_def clean_def e ball_Un)
  have c: "\<forall>c \<in> set (k @ '':'' @ r). \<not> line_boundary c"
    using kr b(1) by (simp add: ball_Un)
  have u: "user_line e = (k @ '':'' @ r) @ [CHR 0x0A]" by (simp add: user_line_def e)
  show "splitlines_keep (user_line e @ s) = user_line e # splitlines_keep s"
    using splitlines_keep_line [OF c b(2), of s] by (simp add: u)
  show "CHR 0x0D \<notin> set (user_line e)"
    using kr by (simp add: user_line_def e) blast
  have "takeWhile (\<lambda>c. c \<noteq> CHR '':'') (k @ CHR '':'' # t) = k" for t
    using k by (subst takeWhile_append2) auto
  then show "partition_key (user_line e) = fst e"
    by (simp add: partition_key_def user_line_def e)
  show "prefix (a @ '':'') (user_line e) \<longleftrightarrow> (fst e = a \<or> CHR '':'' \<in> set a \<and> prefix (a @ '':'') (user_line e))"
  proof (cases "CHR '':'' \<in> set a")
    case False
    have "a = k" if "a @ CHR '':'' # t = k @ CHR '':'' # t'" for t t'
      using split_first_append [OF False, of t] split_first_append [OF k, of t']
      unfolding that by simp
    moreover have "user_line e = k @ CHR '':'' # (r @ [CHR 0x0A])" by (simp add: user_line_def e)
    ultimately have "a = k" if "prefix (a @ '':'') (user_line e)"
      using that by (elim prefixE) (metis append.assoc append_Cons append_Nil)
    moreover have "prefix (k @ '':'') (user_line e)"
      by (rule prefixI [of _ _ "r @ [CHR 0x0A]"]) (simp add: user_line_def e)
    ultimately show ?thesis using False by (metis e fst_conv)
  next
    case True
    with k have "fst e \<noteq> a" using e by auto
    with True show ?thesis by blast
  qed
qed

lemma render_users_simps [simp]:
  "render_users [] = []"
  "render_users (e # es) = user_line e @ render_users es"
  "render_users (es @ fs) = render_users es @ render_users fs"
  by (simp_all add: render_users_def)

lemma splitlines_render:
  "list_all wf_identity es \<Longrightarrow> splitlines_keep (render_users es) = map user_line es"
  by (induction es) (auto simp: user_line_facts(1))

lemma read_rendered:
  "list_all wf_identity es \<Longrightarrow>
   splitlines_keep (universal_newlines (render_users es)) = map user_line es"
proof -
  assume w: "list_all wf_identity es"
  then have "CHR 0x0D \<notin> set (render_users es)"
    by (induction es) (auto simp: user_line_facts(2))
  with w show ?thesis by (simp add: universal_newlines_id splitlines_render)
qed

lemma concat_filter_lines:
  "list_all (\<lambda>e. P (user_line e) \<longleftrightarrow> Q e) es \<Longrightarrow>
   concat (filter P (map user_line es)) = render_users (filter Q es)"
  by (induction es) auto

lemma upsert_render:
  assumes "list_all wf_identity es" and "lower a = a"
  shows "upsert_dovecot_user (Some (render_users es)) a (user_line (a, r)) =
    Some (render_users (filter (\<lambda>e. fst e \<noteq> a) es @ [(a, r)]))"
proof -
  have "list_all (\<lambda>e. lower (partition_key (user_line e)) \<noteq> lower a \<longleftrightarrow> fst e \<noteq> a) es"
    using assms by (auto simp: list_all_iff user_line_facts(3) wf_identity_def)
  from concat_filter_lines [OF this] show ?thesis
    using assms(1) by (simp add: upsert_dovecot_user_def read_rendered) (simp add: user_line_def)
qed

lemma remove_render:
  assumes "list_all wf_identity es" and "CHR '':'' \<notin> set a"
  shows "remove_from_dovecot_users (Some (render_users es)) a =
    Some (render_users (filter (\<lambda>e. fst e \<noteq> a) es))"
proof -
  have "list_all (\<lambda>e. \<not> prefix (a @ '':'') (user_line e) \<longleftrightarrow> fst e \<noteq> a) es"
    using assms user_line_facts(4) by (auto simp: list_all_iff)
  from concat_filter_lines [OF this] show ?thesis
    using assms(1) by (simp add: remove_from_dovecot_users_def read_rendered)
qed

section \<open>The contract of a credential store\<close>

text \<open>
  What provisioning relies on: after storing a credential it is the one found for that
  identity, after removing an identity none is, and no other identity is touched.
\<close>

locale credential_store =
  fixes find :: "'s \<Rightarrow> 'k \<Rightarrow> 'c option"
    and store :: "'s \<Rightarrow> 'k \<Rightarrow> 'c \<Rightarrow> 's"
    and discard :: "'s \<Rightarrow> 'k \<Rightarrow> 's"
    and wf :: "'s \<Rightarrow> bool"
    and ok :: "'k \<Rightarrow> 'c \<Rightarrow> bool"
  assumes wf_store: "wf s \<Longrightarrow> ok k c \<Longrightarrow> wf (store s k c)"
    and wf_discard: "wf s \<Longrightarrow> wf (discard s k)"
    and find_store: "wf s \<Longrightarrow> ok k c \<Longrightarrow> find (store s k c) j = (if j = k then Some c else find s j)"
    and find_discard: "wf s \<Longrightarrow> find (discard s k) j = (if j = k then None else find s j)"
begin

lemma store_then_discard: "wf s \<Longrightarrow> ok k c \<Longrightarrow> j \<noteq> k \<Longrightarrow> find (discard (store s k c) k) j = find s j"
  by (simp add: wf_store find_discard find_store)

lemma last_store_wins:
  "wf s \<Longrightarrow> ok k c \<Longrightarrow> ok k c' \<Longrightarrow> find (store (store s k c) k c') j = find (store s k c') j"
  by (simp add: wf_store find_store)

lemma stores_commute:
  "wf s \<Longrightarrow> ok k c \<Longrightarrow> ok k' c' \<Longrightarrow> k \<noteq> k' \<Longrightarrow>
   find (store (store s k c) k' c') j = find (store (store s k' c') k c) j"
  by (simp add: wf_store find_store)

end

definition store_identity :: "identity list \<Rightarrow> string \<Rightarrow> string \<Rightarrow> identity list" where
  "store_identity es a r = filter (\<lambda>e. fst e \<noteq> a) es @ [(a, r)]"

definition discard_identity :: "identity list \<Rightarrow> string \<Rightarrow> identity list" where
  "discard_identity es a = filter (\<lambda>e. fst e \<noteq> a) es"

lemma map_of_filter_key: "map_of (filter (\<lambda>e. fst e \<noteq> k) es) j = (if j = k then None else map_of es j)"
  by (induction es) auto

interpretation passwd: credential_store map_of store_identity discard_identity wf_identities
  "\<lambda>a r. wf_identity (a, r)"
proof unfold_locales
  fix s :: "identity list" and k c j
  show "wf_identities s \<Longrightarrow> wf_identity (k, c) \<Longrightarrow> wf_identities (store_identity s k c)"
    by (auto simp: wf_identities_def store_identity_def list_all_iff distinct_map_filter)
  show "wf_identities s \<Longrightarrow> wf_identities (discard_identity s k)"
    by (auto simp: wf_identities_def discard_identity_def list_all_iff distinct_map_filter)
  show "map_of (store_identity s k c) j = (if j = k then Some c else map_of s j)"
    by (simp add: store_identity_def map_add_def map_of_filter_key split: option.splits)
  show "map_of (discard_identity s k) j = (if j = k then None else map_of s j)"
    by (simp add: discard_identity_def map_of_filter_key)
qed

end
