(* ===== verification/Mailboxes.thy ===== *)
theory Mailboxes
  imports AuthGate Events UsersFile
begin

text \<open>
  \<^verbatim>\<open>mailboxes/service.py\<close> with the access check and the create, list and delete
  endpoints of \<^verbatim>\<open>mailboxes/router.py\<close>. The state is the database, the Dovecot
  passwd-file, the Maildir tree, the Postfix tables the service writes and the event bus. What
  the operating system may refuse during one request is a record of flags. Paths are lists
  of components below the file-system root, and the storage tree has no symbolic links.
\<close>

section \<open>State\<close>

type_synonym path = "string list"

text \<open>\<open>ms_maildirs\<close> are the directories \<open>domain/user\<close> that hold a \<^verbatim>\<open>cur\<close> directory, in
  the order the scan meets them; \<open>ms_storage\<close> tells whether the storage root exists.\<close>

record mail_state =
  ms_db :: db
  ms_users_file :: "string option"
  ms_storage :: bool
  ms_maildirs :: "(string \<times> string) list"
  ms_virtual_mailboxes :: string
  ms_sender_logins :: string
  ms_catchall_map :: "string option"
  ms_bus :: bus

record os =
  os_mkdir :: bool
  os_hash :: "string \<Rightarrow> string result"
  os_users_write :: bool
  os_users_remove :: bool
  os_rmtree :: bool
  os_postfix :: bool

record mailbox_create =
  mc_username :: string
  mc_password :: string
  mc_domain :: "string option"
  mc_display_name :: string
  mc_purpose :: purpose

definition mailbox_create_request ::
  "string \<Rightarrow> string \<Rightarrow> string option \<Rightarrow> string \<Rightarrow> purpose \<Rightarrow> mailbox_create result" where
  "mailbox_create_request username password domain display purpose =
     bind_res (normalize_local_part username) (\<lambda>u.
     bind_res (case domain of None \<Rightarrow> Inr None
               | Some v \<Rightarrow> bind_res (normalize_domain v) (\<lambda>n. Inr (Some n))) (\<lambda>dom.
     if length password < 12 then Inl (ValueErr ''Password must be at least 12 characters'')
     else if length password > 1024 then Inl (ValueErr ''Password must not exceed 1024 characters'')
     else Inr \<lparr>mc_username = u, mc_password = password, mc_domain = dom,
            mc_display_name = display, mc_purpose = purpose\<rparr>))"

section \<open>Discovery\<close>

definition catch_all_enabled :: "db \<Rightarrow> bool" where
  "catch_all_enabled d = (case catch_all_row d of None \<Rightarrow> False | Some b \<Rightarrow> b)"

definition get_catchall_owner_user_id :: "settings \<Rightarrow> db \<Rightarrow> string option result" where
  "get_catchall_owner_user_id st d =
     bind_res (one_or_none (filter (\<lambda>u. u_username u = admin_user st \<and> u_is_admin u \<and> u_is_active u)
                 (users d))) (\<lambda>configured.
     Inr (case configured of
            Some u \<Rightarrow> Some (u_id u)
          | None \<Rightarrow>
              (case sort_key u_created_at (filter (\<lambda>u. u_is_admin u \<and> u_is_active u) (users d)) of
                 [] \<Rightarrow> None
               | u # _ \<Rightarrow> Some (u_id u))))"

definition known_mailbox :: "string \<Rightarrow> mailbox list \<Rightarrow> mailbox option" where
  "known_mailbox address ms = find (\<lambda>m. lower (m_address m) = address) (rev ms)"

definition maildir_address :: "string \<times> string \<Rightarrow> string" where
  "maildir_address p = lower (snd p) @ ''@'' @ lower (fst p)"

definition sync_one :: "string option \<Rightarrow> (string \<Rightarrow> string) \<Rightarrow> time \<Rightarrow> string \<times> string
    \<Rightarrow> mailbox list \<Rightarrow> mailbox list" where
  "sync_one owner new_id now p ms =
     (case known_mailbox (maildir_address p) ms of
        Some m \<Rightarrow>
          (if m_is_active m \<and> m_user_id m = None \<and> owner \<noteq> None
           then row_put m_id (m\<lparr>m_user_id := owner, m_is_catchall := True\<rparr>) ms
           else ms)
      | None \<Rightarrow>
          ms @ [\<lparr>m_id = new_id (maildir_address p), m_address = maildir_address p,
             m_display_name = lower (snd p), m_domain = lower (fst p), m_is_active = True,
             m_is_catchall = True, m_purpose = Standard, m_created_at = now, m_quota_mb = 500,
             m_signature = [], m_user_id = owner\<rparr>])"

definition sync_filesystem_mailboxes ::
  "settings \<Rightarrow> (string \<Rightarrow> string) \<Rightarrow> time \<Rightarrow> mail_state \<Rightarrow> unit result \<times> mail_state" where
  "sync_filesystem_mailboxes st new_id now s =
     (if \<not> ms_storage s then (Inr (), s)
      else (case get_catchall_owner_user_id st (ms_db s) of
              Inl e \<Rightarrow> (Inl e, s)
            | Inr owner \<Rightarrow>
                (Inr (), s\<lparr>ms_db := (ms_db s)\<lparr>mailboxes :=
                   fold (sync_one owner new_id now) (ms_maildirs s) (mailboxes (ms_db s))\<rparr>\<rparr>)))"

section \<open>Lookups\<close>

definition visible_to :: "settings \<Rightarrow> db \<Rightarrow> user option \<Rightarrow> mailbox \<Rightarrow> bool" where
  "visible_to st d user m \<longleftrightarrow> m_is_active m \<and>
     (case user of
        None \<Rightarrow> True
      | Some u \<Rightarrow>
          if u_is_admin u
          then (if \<not> is_production st \<or> catch_all_enabled d
                then m_user_id m = Some (u_id u) \<or> m_is_catchall m
                else m_user_id m = Some (u_id u) \<and> \<not> m_is_catchall m)
          else m_user_id m = Some (u_id u) \<and>
            (is_production st \<and> \<not> catch_all_enabled d \<longrightarrow> \<not> m_is_catchall m))"

definition list_mailboxes :: "settings \<Rightarrow> (string \<Rightarrow> string) \<Rightarrow> time \<Rightarrow> user option \<Rightarrow> mail_state
    \<Rightarrow> mailbox list result \<times> mail_state" where
  "list_mailboxes st new_id now user s =
     (case sync_filesystem_mailboxes st new_id now s of
        (Inl e, s') \<Rightarrow> (Inl e, s')
      | (Inr _, s') \<Rightarrow>
          (Inr (sort_key (\<lambda>m. - m_created_at m)
                 (filter (visible_to st (ms_db s') user) (mailboxes (ms_db s')))), s'))"

definition hidden_catchall :: "settings \<Rightarrow> db \<Rightarrow> mailbox \<Rightarrow> bool" where
  "hidden_catchall st d m \<longleftrightarrow> is_production st \<and> m_is_catchall m \<and> \<not> catch_all_enabled d"

definition get_mailbox :: "settings \<Rightarrow> string \<Rightarrow> db \<Rightarrow> mailbox result" where
  "get_mailbox st mailbox_id d =
     bind_res (case get_mailbox_row mailbox_id d of
                 Some m \<Rightarrow> Inr (Some m)
               | None \<Rightarrow> if contains ''@'' mailbox_id
                   then one_or_none (filter (\<lambda>m. m_address m = lower mailbox_id) (mailboxes d))
                   else Inr None) (\<lambda>found.
     case found of
       None \<Rightarrow> Inl (NotFoundError ''Mailbox'' mailbox_id)
     | Some m \<Rightarrow>
         if \<not> m_is_active m then Inl (NotFoundError ''Mailbox'' mailbox_id)
         else if hidden_catchall st d m then Inl (NotFoundError ''Mailbox'' mailbox_id)
         else Inr m)"

definition get_mailbox_by_address :: "settings \<Rightarrow> string \<Rightarrow> db \<Rightarrow> mailbox result" where
  "get_mailbox_by_address st address d =
     bind_res (one_or_none (filter (\<lambda>m. m_address m = lower address) (mailboxes d))) (\<lambda>found.
     case found of
       None \<Rightarrow> Inl (NotFoundError ''Mailbox'' address)
     | Some m \<Rightarrow> if hidden_catchall st d m then Inl (NotFoundError ''Mailbox'' address) else Inr m)"

section \<open>Provisioning\<close>

fun resolve_step :: "path \<Rightarrow> string \<Rightarrow> path" where
  "resolve_step p c = (if c = [] \<or> c = ''.'' then p else if c = ''..'' then butlast p else p @ [c])"

definition resolve :: "path \<Rightarrow> path" where
  "resolve p = foldl resolve_step [] p"

definition storage_root :: "settings \<Rightarrow> path" where
  "storage_root st = resolve (split_on (CHR ''/'') (mail_storage_path st))"

definition bad_component :: "string \<Rightarrow> bool" where
  "bad_component c \<longleftrightarrow> c = [] \<or> CHR ''/'' \<in> set c \<or> CHR 0x5C \<in> set c \<or> CHR 0x00 \<in> set c"

definition safe_maildir_path :: "settings \<Rightarrow> string \<Rightarrow> string \<Rightarrow> path result" where
  "safe_maildir_path st domain local_part =
     (if bad_component domain \<or> bad_component local_part
      then Inl (ValueErr ''Invalid mailbox path component'')
      else (let root = storage_root st; maildir = resolve (root @ [domain, local_part])
            in if \<not> prefix root maildir \<or> butlast maildir = root
               then Inl (ValueErr ''Refusing to access a mailbox outside the mail storage root'')
               else Inr maildir))"

definition path_text :: "path \<Rightarrow> string" where
  "path_text p = ''/'' @ join ''/'' p"

definition create_maildir :: "settings \<Rightarrow> path \<Rightarrow> mail_state \<Rightarrow> mail_state" where
  "create_maildir st p s =
     (if length p = length (storage_root st) + 2 \<and> prefix (storage_root st) p
      then (let d = (last (butlast p), last p)
            in s\<lparr>ms_storage := True,
                 ms_maildirs := ms_maildirs s @ (if d \<in> set (ms_maildirs s) then [] else [d])\<rparr>)
      else s\<lparr>ms_storage := True\<rparr>)"

definition remove_directory_tree :: "settings \<Rightarrow> path \<Rightarrow> mail_state \<Rightarrow> mail_state" where
  "remove_directory_tree st p s =
     s\<lparr>ms_storage := (ms_storage s \<and> \<not> prefix p (storage_root st)),
       ms_maildirs := filter (\<lambda>(d, l). \<not> prefix p (storage_root st @ [d, l])) (ms_maildirs s)\<rparr>"

definition provision_system_mailbox ::
  "settings \<Rightarrow> os \<Rightarrow> string \<Rightarrow> string \<Rightarrow> string \<Rightarrow> string \<Rightarrow> mail_state \<Rightarrow> unit result \<times> mail_state" where
  "provision_system_mailbox st env address password domain local_part s =
     (case safe_maildir_path st domain local_part of
        Inl e \<Rightarrow> (Inl e, s)
      | Inr maildir \<Rightarrow>
          if \<not> os_mkdir env then (Inl (OtherExc ''OSError''), s)
          else (let s1 = create_maildir st maildir s
                in case os_hash env password of
                     Inl e \<Rightarrow> (Inl e, s1)
                   | Inr hashed \<Rightarrow>
                       if \<not> os_users_write env then (Inl (OtherExc ''OSError''), s1)
                       else (let user_line = address @ '':'' @ hashed @ '':5000:5000::'' @
                                   path_text maildir @ ''::'' @ [CHR 0x0A];
                                 s2 = s1\<lparr>ms_users_file :=
                                   upsert_dovecot_user (ms_users_file s1) address user_line\<rparr>
                             in (Inr (), if os_postfix env
                                  then s2\<lparr>ms_virtual_mailboxes := ms_virtual_mailboxes s2 @ address @
                                         ''    '' @ domain @ ''/'' @ local_part @ ''/'' @ [CHR 0x0A]\<rparr>
                                  else s2))))"

text \<open>\<^verbatim>\<open>domains/service.py\<close>: regenerating the recipient and sender tables. A failure is
  logged and swallowed; an address without an at-sign stops the writing.\<close>

fun escape_dots :: "string \<Rightarrow> string" where
  "escape_dots [] = []"
| "escape_dots (c # s) = (if c = CHR ''.'' then CHR 0x5C # c # escape_dots s else c # escape_dots s)"

definition recipient_line :: "mailbox \<Rightarrow> string option" where
  "recipient_line m = map_option (\<lambda>(l, d). m_address m @ ''    '' @ d @ ''/'' @ l @ ''/'')
     (split_first (CHR ''@'') (m_address m))"

definition rebuild_postfix_virtual_mailboxes :: "settings \<Rightarrow> os \<Rightarrow> mail_state \<Rightarrow> mail_state" where
  "rebuild_postfix_virtual_mailboxes st env s =
     (let active = filter m_is_active (mailboxes (ms_db s));
          active_domains = filter d_is_active (domains (ms_db s));
          lines = map recipient_line active;
          enabled = catch_all_enabled (ms_db s)
      in if \<not> os_postfix env \<or> None \<in> set lines then s
         else s\<lparr>ms_virtual_mailboxes := join [CHR 0x0A] (map the lines) @ [CHR 0x0A],
                ms_sender_logins := join [CHR 0x0A]
                  (map (\<lambda>m. m_address m @ ''    '' @ m_address m) active) @ [CHR 0x0A],
                ms_catchall_map :=
                  (if \<not> is_production st then ms_catchall_map s
                   else if enabled \<and> active_domains \<noteq> []
                   then Some (join [CHR 0x0A]
                          (map (\<lambda>d. ''/@'' @ escape_dots (d_name d) @ ''$/    OK'') active_domains) @ [CHR 0x0A])
                   else None)\<rparr>)"

section \<open>Creating and deleting\<close>

definition mailbox_event :: "string \<Rightarrow> string \<Rightarrow> string \<Rightarrow> message" where
  "mailbox_event ty i address =
     \<lparr>ev_type = ty, ev_data = [(''id'', JStr i), (''address'', JStr address)]\<rparr>"

definition publish_mailbox_event :: "string \<Rightarrow> string \<Rightarrow> string \<Rightarrow> mail_state \<Rightarrow> mail_state" where
  "publish_mailbox_event ty i address s =
     s\<lparr>ms_bus := send_event (mailbox_event ty i address) (ms_bus s)\<rparr>"

definition owned_count :: "string \<Rightarrow> db \<Rightarrow> nat" where
  "owned_count uid d =
     length (filter (\<lambda>m. m_user_id m = Some uid \<and> m_is_active m \<and> \<not> m_is_catchall m) (mailboxes d))"

definition quota_applies :: "settings \<Rightarrow> db \<Rightarrow> user \<Rightarrow> bool" where
  "quota_applies st d u \<longleftrightarrow> \<not> u_is_admin u \<or> is_production st \<or> filter d_is_active (domains d) \<noteq> []"

definition quota_error :: "nat \<Rightarrow> int \<Rightarrow> error" where
  "quota_error n q = Http 403 (''Mailbox quota exceeded. You have '' @ show_int (int n) @ ''/'' @
     show_int q @ '' mailboxes.'')"

text \<open>The checks before the first write: the managed domain, the caller's quota and the address.\<close>

definition create_checks ::
  "settings \<Rightarrow> string \<Rightarrow> string \<Rightarrow> string option \<Rightarrow> db \<Rightarrow> mailbox option result" where
  "create_checks st domain address user_id d =
     bind_res (if is_production st
               then bind_res (one_or_none (filter (\<lambda>r. d_name r = domain) (domains d))) (\<lambda>r.
                    if r = None
                    then Inl (Http 400 (''Domain '' @ quoted domain @
                           '' is not registered. Add it via /api/v1/domains first.''))
                    else Inr ())
               else Inr ()) (\<lambda>_.
     bind_res (case user_id of
                 None \<Rightarrow> Inr ()
               | Some uid \<Rightarrow>
                   (case get_user uid d of
                      None \<Rightarrow> Inr ()
                    | Some u \<Rightarrow>
                        if quota_applies st d u \<and> int (owned_count uid d) \<ge> u_max_mailboxes u
                        then Inl (quota_error (owned_count uid d) (u_max_mailboxes u))
                        else Inr ())) (\<lambda>_.
     bind_res (one_or_none (filter (\<lambda>m. m_address m = address) (mailboxes d))) (\<lambda>existing.
     case existing of
       Some m \<Rightarrow> if m_is_active m \<and> \<not> m_is_catchall m
                 then Inl (ConflictError (''Mailbox '' @ quoted address @ '' already exists''))
                 else Inr (Some m)
     | None \<Rightarrow> Inr None)))"

definition or_default :: "string \<Rightarrow> string \<Rightarrow> string" where
  "or_default a b = (if a = [] then b else a)"

definition adopted_mailbox :: "mailbox_create \<Rightarrow> string \<Rightarrow> string option \<Rightarrow> mailbox \<Rightarrow> mailbox" where
  "adopted_mailbox body local_part user_id m =
     m\<lparr>m_is_active := True, m_display_name := or_default (mc_display_name body) local_part,
       m_purpose := mc_purpose body,
       m_user_id := (case user_id of None \<Rightarrow> m_user_id m | Some u \<Rightarrow> Some u)\<rparr>"

definition fresh_mailbox ::
  "string \<Rightarrow> time \<Rightarrow> mailbox_create \<Rightarrow> string \<Rightarrow> string \<Rightarrow> string option \<Rightarrow> mailbox" where
  "fresh_mailbox new_id now body local_part domain user_id =
     \<lparr>m_id = new_id, m_address = local_part @ ''@'' @ domain,
      m_display_name = or_default (mc_display_name body) local_part, m_domain = domain,
      m_is_active = True, m_is_catchall = False, m_purpose = mc_purpose body,
      m_created_at = now, m_quota_mb = 500, m_signature = [], m_user_id = user_id\<rparr>"

definition with_mailboxes :: "(mailbox list \<Rightarrow> mailbox list) \<Rightarrow> mail_state \<Rightarrow> mail_state" where
  "with_mailboxes f s = s\<lparr>ms_db := (ms_db s)\<lparr>mailboxes := f (mailboxes (ms_db s))\<rparr>\<rparr>"

definition create_mailbox ::
  "settings \<Rightarrow> os \<Rightarrow> string \<Rightarrow> time \<Rightarrow> mailbox_create \<Rightarrow> string option \<Rightarrow> mail_state
     \<Rightarrow> mailbox result \<times> mail_state" where
  "create_mailbox st env new_id now body user_id s =
     (let domain = lower (case mc_domain body of None \<Rightarrow> s_domain st | Some v \<Rightarrow> or_default v (s_domain st));
          local_part = lower (mc_username body);
          address = local_part @ ''@'' @ domain
      in case create_checks st domain address user_id (ms_db s) of
           Inl e \<Rightarrow> (Inl e, s)
         | Inr existing \<Rightarrow>
             (let m = (case existing of
                         Some old \<Rightarrow> adopted_mailbox body local_part user_id old
                       | None \<Rightarrow> fresh_mailbox new_id now body local_part domain user_id);
                  s1 = with_mailboxes (\<lambda>ms. if existing = None then ms @ [m] else row_put m_id m ms) s
              in case provision_system_mailbox st env address (mc_password body) domain local_part s1 of
                   (Inl _, s2) \<Rightarrow>
                     (Inl (MailServerError (''Failed to provision mailbox '' @ quoted address @
                        '' on the mail server'')),
                      with_mailboxes (\<lambda>ms. if existing = None then row_del m_id (m_id m) ms
                                           else row_put m_id (m\<lparr>m_is_active := False\<rparr>) ms) s2)
                 | (Inr _, s2) \<Rightarrow>
                     (let s3 = (if is_production st then rebuild_postfix_virtual_mailboxes st env s2 else s2)
                      in (Inr m, publish_mailbox_event ''mailbox.created'' (m_id m) (m_address m) s3))))"

definition delete_mailbox ::
  "settings \<Rightarrow> os \<Rightarrow> bool \<Rightarrow> string \<Rightarrow> mail_state \<Rightarrow> unit result \<times> mail_state" where
  "delete_mailbox st env remove_maildir mailbox_id s =
     (case get_mailbox_row mailbox_id (ms_db s) of
        None \<Rightarrow> (Inl (NotFoundError ''Mailbox'' mailbox_id), s)
      | Some m \<Rightarrow>
          (case split_first (CHR ''@'') (m_address m) of
             None \<Rightarrow> (Inl (ValueErr ''not enough values to unpack''), s)
           | Some (local_part, domain) \<Rightarrow>
               (let s1 = with_mailboxes (row_put m_id (m\<lparr>m_is_active := False\<rparr>)) s;
                    s2 = (if os_users_remove env
                          then s1\<lparr>ms_users_file := remove_from_dovecot_users (ms_users_file s1) (m_address m)\<rparr>
                          else s1);
                    finish = (\<lambda>s3. (Inr (),
                      publish_mailbox_event ''mailbox.deleted'' (m_id m) (m_address m)
                        (if is_production st then rebuild_postfix_virtual_mailboxes st env s3 else s3)))
                in if \<not> remove_maildir then finish s2
                   else (case safe_maildir_path st domain local_part of
                           Inl e \<Rightarrow> (Inl e, s2)
                         | Inr p \<Rightarrow> finish (if os_rmtree env then remove_directory_tree st p s2 else s2)))))"

section \<open>The endpoints\<close>

definition hex_value :: "char \<Rightarrow> nat option" where
  "hex_value c =
     (if is_digit c then Some (code c - 48)
      else if 65 \<le> code c \<and> code c \<le> 70 then Some (code c - 55)
      else if 97 \<le> code c \<and> code c \<le> 102 then Some (code c - 87)
      else None)"

text \<open>\<open>urllib.parse.unquote\<close>.\<close>

fun unquote :: "string \<Rightarrow> string" where
  "unquote (c # a # b # s) =
     (if c = CHR ''%''
      then (case (hex_value a, hex_value b) of
              (Some x, Some y) \<Rightarrow> char_of (16 * x + y) # unquote s
            | _ \<Rightarrow> c # unquote (a # b # s))
      else c # unquote (a # b # s))"
| "unquote s = s"

definition authorization_error :: "string \<Rightarrow> error" where
  "authorization_error msg = Http 403 msg"

definition verify_mailbox_access ::
  "settings \<Rightarrow> (string \<Rightarrow> string) \<Rightarrow> time \<Rightarrow> string \<Rightarrow> auth_context \<Rightarrow> mail_state
     \<Rightarrow> unit result \<times> mail_state" where
  "verify_mailbox_access st new_id now mailbox_address auth s =
     (let decoded = lower (unquote mailbox_address);
          (found, s') =
            (case get_mailbox_by_address st decoded (ms_db s) of
               Inl (NotFoundError k i) \<Rightarrow>
                 (case sync_filesystem_mailboxes st new_id now s of
                    (Inl e, s') \<Rightarrow> (Inl e, s')
                  | (Inr _, s') \<Rightarrow> (get_mailbox_by_address st decoded (ms_db s'), s'))
             | r \<Rightarrow> (r, s))
      in (bind_res found (\<lambda>m.
            if m_user_id m \<noteq> Some (u_id (ctx_user auth)) \<and>
               \<not> (u_is_admin (ctx_user auth) \<and> m_is_catchall m)
            then Inl (authorization_error ''You do not have access to this mailbox'')
            else if \<not> mailbox_allowed auth decoded
            then Inl (authorization_error ''This API key is not permitted to access this mailbox'')
            else if hidden_catchall st (ms_db s') m
            then Inl (NotFoundError ''Mailbox'' decoded)
            else Inr ()), s'))"

definition list_all_mailboxes ::
  "settings \<Rightarrow> (string \<Rightarrow> string) \<Rightarrow> time \<Rightarrow> auth_context \<Rightarrow> mail_state
     \<Rightarrow> mailbox list result \<times> mail_state" where
  "list_all_mailboxes st new_id now auth s =
     (case list_mailboxes st new_id now (Some (ctx_user auth)) s of
        (r, s') \<Rightarrow> (bind_res r (\<lambda>ms. Inr (filter (\<lambda>m. mailbox_allowed auth (m_address m)) ms)), s'))"

definition create_new_mailbox ::
  "settings \<Rightarrow> os \<Rightarrow> string \<Rightarrow> time \<Rightarrow> mailbox_create \<Rightarrow> auth_context \<Rightarrow> mail_state
     \<Rightarrow> mailbox result \<times> mail_state" where
  "create_new_mailbox st env new_id now body auth s =
     (if is_production st \<and> \<not> u_is_admin (ctx_user auth)
      then (Inl (Http 403 ''Only administrators may provision mailbox addresses in production''), s)
      else create_mailbox st env new_id now body (Some (u_id (ctx_user auth))) s)"

definition delete_existing_mailbox ::
  "settings \<Rightarrow> os \<Rightarrow> (string \<Rightarrow> string) \<Rightarrow> time \<Rightarrow> string \<Rightarrow> auth_context \<Rightarrow> mail_state
     \<Rightarrow> unit result \<times> mail_state" where
  "delete_existing_mailbox st env new_id now address auth s =
     (case verify_mailbox_access st new_id now address auth s of
        (Inl e, s') \<Rightarrow> (Inl e, s')
      | (Inr _, s') \<Rightarrow>
          (case get_mailbox_by_address st (unquote address) (ms_db s') of
             Inl e \<Rightarrow> (Inl e, s')
           | Inr m \<Rightarrow> delete_mailbox st env False (m_id m) s'))"

section \<open>Lemmas\<close>

lemma with_mailboxes_simps [simp]:
  "ms_db (with_mailboxes f s) = (ms_db s)\<lparr>mailboxes := f (mailboxes (ms_db s))\<rparr>"
  "ms_users_file (with_mailboxes f s) = ms_users_file s"
  "ms_bus (with_mailboxes f s) = ms_bus s"
  "ms_maildirs (with_mailboxes f s) = ms_maildirs s"
  by (simp_all add: with_mailboxes_def)

lemma create_maildir_simps [simp]:
  "ms_db (create_maildir st p s) = ms_db s"
  "ms_users_file (create_maildir st p s) = ms_users_file s"
  "ms_bus (create_maildir st p s) = ms_bus s"
  by (simp_all add: create_maildir_def Let_def)

lemma rebuild_simps [simp]:
  "ms_db (rebuild_postfix_virtual_mailboxes st env s) = ms_db s"
  "ms_users_file (rebuild_postfix_virtual_mailboxes st env s) = ms_users_file s"
  "ms_bus (rebuild_postfix_virtual_mailboxes st env s) = ms_bus s"
  by (simp_all add: rebuild_postfix_virtual_mailboxes_def Let_def)

lemma publish_simps [simp]:
  "ms_db (publish_mailbox_event ty i a s) = ms_db s"
  "ms_users_file (publish_mailbox_event ty i a s) = ms_users_file s"
  "ms_bus (publish_mailbox_event ty i a s) = send_event (mailbox_event ty i a) (ms_bus s)"
  by (simp_all add: publish_mailbox_event_def)

lemma remove_tree_simps [simp]:
  "ms_db (remove_directory_tree st p s) = ms_db s"
  "ms_bus (remove_directory_tree st p s) = ms_bus s"
  "ms_users_file (remove_directory_tree st p s) = ms_users_file s"
  by (simp_all add: remove_directory_tree_def)

text \<open>Provisioning never touches the database or the bus.\<close>

lemma provision_keeps:
  "provision_system_mailbox st env a pw dm l s = (r, s') \<Longrightarrow> ms_db s' = ms_db s \<and> ms_bus s' = ms_bus s"
  by (auto simp: provision_system_mailbox_def Let_def split: sum.splits if_splits)

end
