(* ===== verification/MailboxProps.thy ===== *)
theory MailboxProps
  imports Mailboxes DemoCrypto
begin

text \<open>Quotas, failures, event isolation and the passwd-file.\<close>

section \<open>A concrete server\<close>

definition demo_os :: os where
  "demo_os = \<lparr>os_mkdir = True, os_hash = (\<lambda>pw. Inr (CHR ''h'' # pw)), os_users_write = True,
     os_users_remove = True, os_rmtree = True, os_postfix = True\<rparr>"

definition demo_info :: mailbox where
  "demo_info = \<lparr>m_id = ''m1'', m_address = ''info@x'', m_display_name = ''info'', m_domain = ''x'',
     m_is_active = True, m_is_catchall = True, m_purpose = Standard, m_created_at = 3,
     m_quota_mb = 500, m_signature = [], m_user_id = Some ''1''\<rparr>"

definition demo_mail :: mail_state where
  "demo_mail = \<lparr>ms_db = demo_db\<lparr>mailboxes := [demo_info]\<rparr>,
     ms_users_file = None, ms_storage = True, ms_maildirs = [(''x'', ''info'')],
     ms_virtual_mailboxes = [], ms_sender_logins = [], ms_catchall_map = None,
     ms_bus = demo_bus\<rparr>"

definition demo_body :: "string \<Rightarrow> mailbox_create" where
  "demo_body name = \<lparr>mc_username = name, mc_password = ''correct horse'', mc_domain = None,
     mc_display_name = [], mc_purpose = Standard\<rparr>"

lemma demo_checks:
  "create_checks demo_settings ''x'' ''bob@x'' (Some ''2'') (ms_db demo_mail) = Inr None"
  "create_checks demo_settings ''x'' ''info@x'' (Some ''2'') (ms_db demo_mail) = Inr (Some demo_info)"
  "safe_maildir_path demo_settings ''x'' ''bob'' = Inr [''var'', ''mail'', ''vhosts'', ''x'', ''bob'']"
  "lower ''bob'' = ''bob''" "lower ''info'' = ''info''" "lower (s_domain demo_settings) = ''x''"
  "get_user ''2'' (ms_db demo_mail) = Some demo_alice"
  "quota_applies demo_settings (ms_db demo_mail) demo_alice"
  by code_simp+

lemma demo_rows: "mailboxes (ms_db demo_mail) = [demo_info]"
  by (simp add: demo_mail_def)

lemma demo_create:
  "\<exists>s'. create_mailbox demo_settings demo_os ''m2'' 9 (demo_body ''bob'') (Some ''2'') demo_mail =
     (Inr (fresh_mailbox ''m2'' 9 (demo_body ''bob'') ''bob'' ''x'' (Some ''2'')), s')"
  by (simp add: create_mailbox_def demo_checks Let_def provision_system_mailbox_def demo_os_def demo_body_def)

section \<open>Counting rows\<close>

lemma count_row_put:
  assumes "distinct (map key rows)"
  shows "length (filter P (row_put key r rows)) \<le> length (filter P rows) + (if P r then 1 else 0)"
  using assms
proof (induction rows)
  case (Cons x xs)
  show ?case
  proof (cases "key x = key r")
    case True
    then have "row_put key r (x # xs) = r # xs"
      using Cons.prems by (auto simp: row_put_def intro!: map_idI) (metis imageI)
    then show ?thesis by simp
  next
    case False
    then have "row_put key r (x # xs) = x # row_put key r xs" by (simp add: row_put_def)
    then show ?thesis using Cons by (cases "P r") auto
  qed
qed (simp add: row_put_def)

lemma row_del_append_fresh:
  "key r \<notin> key ` set rows \<Longrightarrow> row_del key (key r) (rows @ [r]) = rows"
  by (auto simp: row_del_def filter_id_conv) (metis imageI)

text \<open>What \<open>create_mailbox\<close> does to the table in each of its outcomes.\<close>

lemma create_mailbox_cases:
  assumes "create_mailbox st env new_id now body user_id s = (r, s')"
  obtains (refused) e where "r = Inl e" and "s' = s"
  | (failed) dm l existing m where "r = Inl (MailServerError (''Failed to provision mailbox '' @
        quoted (l @ ''@'' @ dm) @ '' on the mail server''))"
      and "create_checks st dm (l @ ''@'' @ dm) user_id (ms_db s) = Inr existing"
      and "m = (case existing of Some old \<Rightarrow> adopted_mailbox body l user_id old
                 | None \<Rightarrow> fresh_mailbox new_id now body l dm user_id)"
      and "mailboxes (ms_db s') =
        (if existing = None then row_del m_id (m_id m) (mailboxes (ms_db s) @ [m])
         else row_put m_id (m\<lparr>m_is_active := False\<rparr>) (mailboxes (ms_db s)))"
      and "ms_bus s' = ms_bus s" and "l = lower (mc_username body)"
  | (created) dm l existing m where "r = Inr m"
      and "create_checks st dm (l @ ''@'' @ dm) user_id (ms_db s) = Inr existing"
      and "m = (case existing of Some old \<Rightarrow> adopted_mailbox body l user_id old
                 | None \<Rightarrow> fresh_mailbox new_id now body l dm user_id)"
      and "mailboxes (ms_db s') =
        (if existing = None then mailboxes (ms_db s) @ [m] else row_put m_id m (mailboxes (ms_db s)))"
      and "ms_bus s' = send_event (mailbox_event ''mailbox.created'' (m_id m) (m_address m)) (ms_bus s)"
proof -
  let ?dm = "lower (case mc_domain body of None \<Rightarrow> s_domain st | Some v \<Rightarrow> or_default v (s_domain st))"
  let ?l = "lower (mc_username body)"
  let ?a = "?l @ ''@'' @ ?dm"
  show thesis
  proof (cases "create_checks st ?dm ?a user_id (ms_db s)")
    case (Inl e)
    with assms show ?thesis by (intro refused [of e]) (simp_all add: create_mailbox_def Let_def)
  next
    case (Inr existing)
    define m where "m = (case existing of Some old \<Rightarrow> adopted_mailbox body ?l user_id old
                 | None \<Rightarrow> fresh_mailbox new_id now body ?l ?dm user_id)"
    define s1 where "s1 = with_mailboxes (\<lambda>ms. if existing = None then ms @ [m] else row_put m_id m ms) s"
    obtain pr s2 where p: "provision_system_mailbox st env ?a (mc_password body) ?dm ?l s1 = (pr, s2)"
      by fastforce
    note keep = provision_keeps [OF p]
    show ?thesis
    proof (cases pr)
      case Inl
      with assms Inr p have "r = Inl (MailServerError (''Failed to provision mailbox '' @ quoted ?a @
            '' on the mail server''))"
          "s' = with_mailboxes (\<lambda>ms. if existing = None then row_del m_id (m_id m) ms
                 else row_put m_id (m\<lparr>m_is_active := False\<rparr>) ms) s2"
        by (simp_all add: create_mailbox_def Let_def m_def [symmetric] s1_def [symmetric])
      with keep show ?thesis
        by (intro failed [OF _ Inr m_def]) (simp_all add: s1_def row_put_row_put)
    next
      case r: Inr
      with assms Inr p have "r = Inr m"
          "s' = publish_mailbox_event ''mailbox.created'' (m_id m) (m_address m)
             (if is_production st then rebuild_postfix_virtual_mailboxes st env s2 else s2)"
        by (simp_all add: create_mailbox_def Let_def m_def [symmetric] s1_def [symmetric])
      with keep show ?thesis
        by (intro created [OF _ Inr m_def]) (simp_all add: s1_def)
    qed
  qed
qed

lemma create_checks_quota:
  assumes "create_checks st dm a (Some uid) d = Inr existing" and "get_user uid d = Some u"
    and "quota_applies st d u"
  shows "int (owned_count uid d) < u_max_mailboxes u"
  using assms by (auto simp: create_checks_def bind_res_eq_Inr_iff split: if_splits)

lemma create_checks_existing:
  assumes "create_checks st dm a user_id d = Inr existing"
  shows "one_or_none (filter (\<lambda>m. m_address m = a) (mailboxes d)) = Inr existing"
    and "existing = Some m \<Longrightarrow> m \<in> set (mailboxes d) \<and> m_address m = a \<and> (m_is_active m \<longrightarrow> m_is_catchall m)"
proof -
  obtain e where e: "one_or_none (filter (\<lambda>m. m_address m = a) (mailboxes d)) = Inr e"
      "(case e of Some m \<Rightarrow> if m_is_active m \<and> \<not> m_is_catchall m
          then Inl (ConflictError (''Mailbox '' @ quoted a @ '' already exists'')) else Inr (Some m)
        | None \<Rightarrow> Inr None) = Inr existing"
    using assms by (auto simp: create_checks_def bind_res_eq_Inr_iff)
  then have x: "existing = e" "existing = Some m \<Longrightarrow> (m_is_active m \<longrightarrow> m_is_catchall m)" for m
    by (auto split: option.splits if_splits)
  then show o: "one_or_none (filter (\<lambda>m. m_address m = a) (mailboxes d)) = Inr existing" using e by simp
  assume "existing = Some m"
  with o one_or_none_SomeD [of "filter (\<lambda>m. m_address m = a) (mailboxes d)" m] x
  show "m \<in> set (mailboxes d) \<and> m_address m = a \<and> (m_is_active m \<longrightarrow> m_is_catchall m)"
    by (auto simp: filter_eq_Cons_iff)
qed

text \<open>C11: the quota of mailbox creation. A request to create a mailbox that succeeds leaves a user to whom
  the quota applies with no more mailboxes than the quota of that time; one that is refused or fails does
  not add one, and neither adds one to somebody else. An administrator who lowers the limit later may leave a
  user above it; that is another request.\<close>

theorem mailbox_quota:
  assumes "create_mailbox st env new_id now body (Some uid) s = (r, s')"
    and "get_user uid (ms_db s) = Some u" and "quota_applies st (ms_db s) u"
    and "distinct (map m_id (mailboxes (ms_db s)))" and "new_id \<notin> m_id ` set (mailboxes (ms_db s))"
  shows "(case r of
       Inl _ \<Rightarrow> owned_count uid (ms_db s') \<le> owned_count uid (ms_db s)
     | Inr _ \<Rightarrow> int (owned_count uid (ms_db s')) \<le> u_max_mailboxes u) \<and>
    (v \<noteq> uid \<longrightarrow> owned_count v (ms_db s') \<le> owned_count v (ms_db s))"
  using assms(1)
proof (cases rule: create_mailbox_cases)
  case (refused e)
  then show ?thesis by simp
next
  case (failed dm l existing m)
  have "owned_count v (ms_db s') \<le> owned_count v (ms_db s)" for v
  proof (cases existing)
    case None
    then have "m_id m = new_id" using failed by (simp add: fresh_mailbox_def)
    then have "mailboxes (ms_db s') = mailboxes (ms_db s)"
      using failed(4) None assms(5) row_del_append_fresh [of m_id m] by simp
    then show ?thesis by (simp add: owned_count_def)
  next
    case (Some old)
    then show ?thesis
      using failed(4) count_row_put [OF assms(4),
          of "\<lambda>m. m_user_id m = Some v \<and> m_is_active m \<and> \<not> m_is_catchall m" "m\<lparr>m_is_active := False\<rparr>"]
      by (simp add: owned_count_def)
  qed
  then show ?thesis using failed(1) by simp
next
  case (created dm l existing m)
  have own: "m_user_id m = Some uid"
    using created(3) by (auto simp: adopted_mailbox_def fresh_mailbox_def split: option.splits)
  have "owned_count v (ms_db s') \<le> owned_count v (ms_db s) + (if v = uid then 1 else 0)" for v
  proof (cases existing)
    case None
    then show ?thesis using created(4) own by (auto simp: owned_count_def)
  next
    case (Some old)
    then show ?thesis
      using created(4) own
        count_row_put [OF assms(4), of "\<lambda>m. m_user_id m = Some v \<and> m_is_active m \<and> \<not> m_is_catchall m" m]
      by (auto simp: owned_count_def split: if_splits)
  qed
  note this [of uid] this [of v]
  with created(1) create_checks_quota [OF created(2) assms(2,3)] show ?thesis by auto
qed

theorem mailbox_quota_witness:
  "\<exists>m s'. create_mailbox demo_settings demo_os ''m2'' 9 (demo_body ''bob'') (Some ''2'') demo_mail = (Inr m, s') \<and>
     int (owned_count ''2'' (ms_db s')) \<le> 5"
proof -
  obtain s' where c: "create_mailbox demo_settings demo_os ''m2'' 9 (demo_body ''bob'') (Some ''2'') demo_mail =
     (Inr (fresh_mailbox ''m2'' 9 (demo_body ''bob'') ''bob'' ''x'' (Some ''2'')), s')"
    using demo_create by blast
  have d: "distinct (map m_id (mailboxes (ms_db demo_mail)))" "''m2'' \<notin> m_id ` set (mailboxes (ms_db demo_mail))"
    by (simp_all add: demo_mail_def demo_info_def)
  have "u_max_mailboxes demo_alice = 5" by code_simp
  with mailbox_quota [OF c demo_checks(7,8) d] c show ?thesis by auto
qed

text \<open>what a request that ends in the provisioning error leaves behind: no event is published,
  and the table is as it was, except that an address that had a row has it marked inactive.
  That row may have been an active catch-all mailbox before the request.\<close>

theorem failed_provisioning:
  assumes "create_mailbox st env new_id now body user_id s = (Inl (MailServerError msg), s')"
    and "new_id \<notin> m_id ` set (mailboxes (ms_db s))"
  shows "ms_bus s' = ms_bus s \<and>
    (mailboxes (ms_db s') = mailboxes (ms_db s) \<or>
     (\<exists>old \<in> set (mailboxes (ms_db s)). (m_is_active old \<longrightarrow> m_is_catchall old) \<and>
        mailboxes (ms_db s') = row_put m_id
          ((adopted_mailbox body (lower (mc_username body)) user_id old)\<lparr>m_is_active := False\<rparr>) (mailboxes (ms_db s))))"
  using assms(1)
proof (cases rule: create_mailbox_cases)
  case (failed dm l existing m)
  show ?thesis
  proof (cases existing)
    case None
    then have "m_id m = new_id" using failed by (simp add: fresh_mailbox_def)
    then show ?thesis using failed None assms(2) row_del_append_fresh [of m_id m] by simp
  next
    case (Some old)
    with failed create_checks_existing(2) [OF failed(2) Some] show ?thesis by auto
  qed
qed simp_all

theorem failed_provisioning_witness:
  "\<exists>s'. create_mailbox demo_settings (demo_os\<lparr>os_users_write := False\<rparr>) ''m2'' 9 (demo_body ''info'') (Some ''2'')
       demo_mail = (Inl (MailServerError ''Failed to provision mailbox 'info@x' on the mail server''), s') \<and>
     map m_is_active (mailboxes (ms_db demo_mail)) = [True] \<and>
     map m_is_active (mailboxes (ms_db s')) = [False] \<and> ms_bus s' = demo_bus"
proof -
  have q: "''Failed to provision mailbox '' @ quoted ''info@x'' @ '' on the mail server'' =
      ''Failed to provision mailbox 'info@x' on the mail server''" by code_simp
  have p: "safe_maildir_path demo_settings ''x'' ''info'' = Inr [''var'', ''mail'', ''vhosts'', ''x'', ''info'']"
    by code_simp
  obtain s' where c: "create_mailbox demo_settings (demo_os\<lparr>os_users_write := False\<rparr>) ''m2'' 9
      (demo_body ''info'') (Some ''2'') demo_mail =
      (Inl (MailServerError ''Failed to provision mailbox 'info@x' on the mail server''), s')"
      "map m_is_active (mailboxes (ms_db s')) = [False]"
    using q by (simp add: create_mailbox_def demo_checks p Let_def provision_system_mailbox_def demo_os_def
        demo_body_def demo_rows adopted_mailbox_def row_put_def)
  have "''m2'' \<notin> m_id ` set (mailboxes (ms_db demo_mail))" "ms_bus demo_mail = demo_bus"
      "map m_is_active (mailboxes (ms_db demo_mail)) = [True]" by (simp_all add: demo_mail_def demo_info_def)
  with failed_provisioning [OF c(1)] c show ?thesis by auto
qed

text \<open>nobody hears about somebody else's mailbox. Creating or deleting a mailbox leaves the event
  queue of every connected client alone that was not admitted for that address.\<close>

theorem mailbox_events_isolated:
  assumes "wf_bus (ms_bus s)"
    and "create_mailbox st env new_id now body user_id s = (Inr m, s') \<or>
         delete_mailbox st env rm (m_id m) s = (Inr (), s') \<and> get_mailbox_row (m_id m) (ms_db s) = Some m"
    and "inbox_of (ms_bus s') c = Some (q, e)" and "lower (m_address m) \<notin> e"
  shows "inbox_of (ms_bus s) c = Some (q, e) \<and> wf_bus (ms_bus s')"
proof -
  obtain ty where b: "ms_bus s' = send_event (mailbox_event ty (m_id m) (m_address m)) (ms_bus s)"
    using assms(2)
  proof
    assume "create_mailbox st env new_id now body user_id s = (Inr m, s')"
    then show ?thesis by (cases rule: create_mailbox_cases) (use that in auto)
  next
    assume "delete_mailbox st env rm (m_id m) s = (Inr (), s') \<and> get_mailbox_row (m_id m) (ms_db s) = Some m"
    then show ?thesis
      using that by (auto simp: delete_mailbox_def Let_def split: option.splits if_splits sum.splits)
  qed
  have "addressee_of (mailbox_event ty (m_id m) (m_address m)) \<in> {None, Some (lower (m_address m))}"
    by (simp add: addressee_of_def event_mailbox_def mailbox_event_def dict_get_def)
  then have "\<forall>a \<in> e. addressee_of (mailbox_event ty (m_id m) (m_address m)) \<noteq> Some a"
    using assms(4) by auto
  from sse.outsider_unaffected [OF assms(1) assms(3) [unfolded b] this] sse.wf_send [OF assms(1)] b
  show ?thesis by simp
qed

theorem mailbox_events_isolated_witness:
  "\<exists>m s' q. create_mailbox demo_settings demo_os ''m2'' 9 (demo_body ''bob'') (Some ''2'') demo_mail = (Inr m, s') \<and>
     inbox_of (ms_bus s') ''eve'' = Some (q, {''eve@x''}) \<and> inbox_of demo_bus ''eve'' = Some (q, {''eve@x''})"
proof -
  let ?m = "fresh_mailbox ''m2'' 9 (demo_body ''bob'') ''bob'' ''x'' (Some ''2'')"
  obtain s' where c: "create_mailbox demo_settings demo_os ''m2'' 9 (demo_body ''bob'') (Some ''2'') demo_mail = (Inr ?m, s')"
    using demo_create by blast
  have w: "wf_bus (ms_bus demo_mail)" by (simp add: demo_mail_def demo_bus_eval wf_bus_def)
  have l: "lower (m_address ?m) = ''bob@x''" by code_simp
  have ev: "event_mailbox ''mailbox.created'' [(''id'', JStr ''m2''), (''address'', JStr ''bob@x'')] = Some ''bob@x''"
    by code_simp
  have b: "ms_bus s' = send_event (mailbox_event ''mailbox.created'' (m_id ?m) (m_address ?m)) demo_bus"
    using c by (cases rule: create_mailbox_cases) (auto simp: demo_mail_def)
  have i: "inbox_of (ms_bus s') ''eve'' = Some ([], {''eve@x''})"
    using ev by (simp add: b inbox_of_def send_event_def mailbox_event_def fresh_mailbox_def publish_def
        demo_bus_eval unsubscribe_def queue_maxsize_def)
  from mailbox_events_isolated [OF w, OF disjI1 [OF c] i] l
  have "inbox_of (ms_bus demo_mail) ''eve'' = Some ([], {''eve@x''})" by simp
  with c i show ?thesis by (auto simp: demo_mail_def)
qed

end
