(* ===== verification/MailboxAccess.thy ===== *)
theory MailboxAccess
  imports MailboxProps
begin

text \<open>Who reaches a mailbox, the discovery of Maildirs, the paths and the passwd-file.\<close>

section \<open>Access\<close>

lemma get_mailbox_by_address_Inr:
  assumes "get_mailbox_by_address st a d = Inr m"
  shows "m \<in> set (mailboxes d)" and "m_address m = lower a" and "\<not> hidden_catchall st d m"
proof -
  have "one_or_none (filter (\<lambda>m. m_address m = lower a) (mailboxes d)) = Inr (Some m)" and
      h: "\<not> hidden_catchall st d m"
    using assms by (auto simp: get_mailbox_by_address_def bind_res_eq_Inr_iff split: option.splits if_splits)
  from one_or_none_SomeD [OF this(1)] h
  show "m \<in> set (mailboxes d)" "m_address m = lower a" "\<not> hidden_catchall st d m"
    by (auto simp: filter_eq_Cons_iff)
qed

lemma access_granted:
  assumes "verify_mailbox_access st new_id now a auth s = (Inr (), s')"
  shows "\<exists>m \<in> set (mailboxes (ms_db s')). m_address m = lower (unquote a) \<and>
     (m_user_id m = Some (u_id (ctx_user auth)) \<or> u_is_admin (ctx_user auth) \<and> m_is_catchall m) \<and>
     mailbox_allowed auth (m_address m) \<and>
     \<not> (is_production st \<and> m_is_catchall m \<and> \<not> catch_all_enabled (ms_db s'))"
proof -
  let ?a = "lower (unquote a)"
  let ?lookup = "case get_mailbox_by_address st ?a (ms_db s) of
      Inl (NotFoundError k i) \<Rightarrow>
        (case sync_filesystem_mailboxes st new_id now s of
           (Inl e, s') \<Rightarrow> (Inl e, s')
         | (Inr _, s') \<Rightarrow> (get_mailbox_by_address st ?a (ms_db s'), s'))
    | r \<Rightarrow> (r, s)"
  obtain found where f: "?lookup = (found, s')"
    using assms by (auto simp: verify_mailbox_access_def Let_def split: prod.splits)
  have l: "get_mailbox_by_address st ?a (ms_db s') = Inr m" if "found = Inr m" for m
    using f that by (auto split: sum.splits prod.splits error.splits)
  obtain m where m: "found = Inr m"
      "m_user_id m = Some (u_id (ctx_user auth)) \<or> u_is_admin (ctx_user auth) \<and> m_is_catchall m"
      "mailbox_allowed auth ?a" "\<not> hidden_catchall st (ms_db s') m"
    using f assms by (auto simp: verify_mailbox_access_def Let_def bind_res_eq_Inr_iff split: if_splits)
  from get_mailbox_by_address_Inr [OF l [OF m(1)]] m show ?thesis
    by (auto simp: hidden_catchall_def)
qed

text \<open>C10: nobody reaches a mailbox without a right to it: a request passes the access check only when
  the table holds a row for the address that the user owns, or that is a catch-all and the
  user an administrator; an API key must list the address; and a catch-all row is out of
  reach while catch-all delivery is off in production.\<close>

theorem mailbox_access_sound:
  assumes "verify_mailbox_access st new_id now a auth s = (Inr (), s')"
  shows "\<exists>m \<in> set (mailboxes (ms_db s')). m_address m = lower (unquote a) \<and>
     (m_user_id m = Some (u_id (ctx_user auth)) \<or> u_is_admin (ctx_user auth) \<and> m_is_catchall m) \<and>
     mailbox_allowed auth (m_address m) \<and>
     \<not> (is_production st \<and> m_is_catchall m \<and> \<not> catch_all_enabled (ms_db s'))"
  by (rule access_granted [OF assms])

definition demo_alice_ctx :: auth_context where
  "demo_alice_ctx = \<lparr>ctx_user = demo_alice, ctx_api_key = None\<rparr>"

definition demo_own :: mailbox where
  "demo_own = demo_info\<lparr>m_id := ''m2'', m_address := ''bob@x'', m_is_catchall := False, m_user_id := Some ''2''\<rparr>"

definition demo_mail2 :: mail_state where
  "demo_mail2 = demo_mail\<lparr>ms_db := demo_db\<lparr>mailboxes := [demo_info, demo_own]\<rparr>\<rparr>"

theorem mailbox_access_sound_witness:
  "verify_mailbox_access demo_settings id 5 ''Bob%40x'' demo_alice_ctx demo_mail2 = (Inr (), demo_mail2) \<and>
   (\<exists>m. m \<in> set (mailboxes (ms_db demo_mail2)) \<and> m_address m = ''bob@x'' \<and> m_user_id m = Some ''2'')"
proof -
  have a: "lower (unquote ''Bob%40x'') = ''bob@x''" "lower ''bob@x'' = ''bob@x''" by code_simp+
  have g: "get_mailbox_by_address demo_settings ''bob@x'' (ms_db demo_mail2) = Inr demo_own" by code_simp
  have h: "\<not> hidden_catchall demo_settings (ms_db demo_mail2) demo_own" by code_simp
  have v: "verify_mailbox_access demo_settings id 5 ''Bob%40x'' demo_alice_ctx demo_mail2 = (Inr (), demo_mail2)"
    by (simp add: verify_mailbox_access_def a g h Let_def mailbox_allowed_def
        ctx_allowed_mailboxes_def demo_alice_ctx_def demo_alice_def del: unquote.simps)
      (simp add: demo_own_def)
  from mailbox_access_sound [OF v] v a show ?thesis
    by (auto simp: demo_alice_ctx_def demo_alice_def)
qed

text \<open>deleting a mailbox does not close it. After its owner has deleted a mailbox, the access check
  in front of reading and deleting mail still lets the owner in, because it does not look at
  the active flag, although the mailbox can no longer be fetched or listed.\<close>

theorem deleted_mailbox_still_readable:
  assumes "delete_mailbox st env rm i s = (Inr (), s')"
    and "get_mailbox_row i (ms_db s) = Some m" and "m_user_id m = Some (u_id (ctx_user auth))"
    and "distinct (map m_address (mailboxes (ms_db s)))" and "distinct (map m_id (mailboxes (ms_db s)))"
    and "lower (m_address m) = m_address m" and "mailbox_allowed auth (m_address m)"
    and "lower (unquote a) = m_address m" and "\<not> m_is_catchall m"
  shows "fst (verify_mailbox_access st new_id now a auth s') = Inr () \<and>
    get_mailbox st i (ms_db s') = Inl (NotFoundError ''Mailbox'' i) \<and>
    m\<lparr>m_is_active := False\<rparr> \<in> set (mailboxes (ms_db s')) \<and>
    \<not> visible_to st (ms_db s') (Some (ctx_user auth)) (m\<lparr>m_is_active := False\<rparr>)"
proof -
  let ?m = "m\<lparr>m_is_active := False\<rparr>"
  have g0: "row_get m_id i (mailboxes (ms_db s)) = Some m" using assms(2) by (simp add: get_mailbox_row_def)
  then have mi: "m \<in> set (mailboxes (ms_db s))" "m_id m = i" using row_get_SomeD by fast+
  have db: "ms_db s' = (ms_db s)\<lparr>mailboxes := row_put m_id ?m (mailboxes (ms_db s))\<rparr>"
    using assms(1,2)
    by (auto simp: delete_mailbox_def Let_def split: option.splits if_splits sum.splits)
  have in': "?m \<in> set (mailboxes (ms_db s'))" using mi by (force simp: db row_put_def)
  have "map m_address (mailboxes (ms_db s')) = map m_address (mailboxes (ms_db s))"
    using row_put_same_key [OF assms(5), of ?m m m_address] g0 mi(2) db by simp
  then have d: "distinct (map m_address (mailboxes (ms_db s')))" using assms(4) by simp
  have "one_or_none (filter (\<lambda>x. m_address x = m_address m) (mailboxes (ms_db s'))) = Inr (Some ?m)"
    using one_or_none_filter_unique [OF d, of "m_address m"] row_get_unique [OF d in'] by simp
  then have g: "get_mailbox_by_address st (m_address m) (ms_db s') = Inr ?m"
    using assms(6,9) by (simp add: get_mailbox_by_address_def hidden_catchall_def)
  have "get_mailbox_row i (ms_db s') = Some ?m"
    using g0 mi(2) db by (simp add: get_mailbox_row_def row_get_put)
  then have "get_mailbox st i (ms_db s') = Inl (NotFoundError ''Mailbox'' i)"
    by (simp add: get_mailbox_def)
  moreover have "fst (verify_mailbox_access st new_id now a auth s') = Inr ()"
    using g assms(3,7,8,9) by (simp add: verify_mailbox_access_def hidden_catchall_def)
  ultimately show ?thesis using in' by (simp add: visible_to_def)
qed

theorem deleted_mailbox_still_readable_witness:
  "\<exists>s'. delete_mailbox demo_settings demo_os False ''m2'' demo_mail2 = (Inr (), s') \<and>
     fst (verify_mailbox_access demo_settings id 5 ''bob@x'' demo_alice_ctx s') = Inr ()"
proof -
  have a: "lower (unquote ''bob@x'') = ''bob@x''" "lower ''bob@x'' = ''bob@x''"
    "split_first (CHR ''@'') ''bob@x'' = Some (''bob'', ''x'')" by code_simp+
  have g: "get_mailbox_row ''m2'' (ms_db demo_mail2) = Some demo_own"
    by (simp add: get_mailbox_row_def row_get_def demo_mail2_def demo_info_def demo_own_def)
  obtain s' where d: "delete_mailbox demo_settings demo_os False ''m2'' demo_mail2 = (Inr (), s')"
    using g a by (simp add: delete_mailbox_def Let_def demo_own_def)
  have "m_user_id demo_own = Some (u_id (ctx_user demo_alice_ctx))"
    by (simp add: demo_own_def demo_alice_ctx_def demo_alice_def)
  moreover have "distinct (map m_address (mailboxes (ms_db demo_mail2)))"
    "distinct (map m_id (mailboxes (ms_db demo_mail2)))"
    by (simp_all add: demo_mail2_def demo_info_def demo_own_def)
  moreover have "mailbox_allowed demo_alice_ctx (m_address demo_own)"
    by (simp add: mailbox_allowed_def ctx_allowed_mailboxes_def demo_alice_ctx_def)
  moreover have "m_address demo_own = ''bob@x''" "\<not> m_is_catchall demo_own" by (simp_all add: demo_own_def)
  ultimately show ?thesis
    using deleted_mailbox_still_readable [OF d g, of demo_alice_ctx "''bob@x''" id 5] a d by simp
qed

section \<open>Discovery\<close>

text \<open>A Maildir is settled when the table has a row for it that discovery would leave alone.\<close>

definition settled :: "string option \<Rightarrow> mailbox list \<Rightarrow> string \<times> string \<Rightarrow> bool" where
  "settled owner ms p \<longleftrightarrow> (case known_mailbox (maildir_address p) ms of
     None \<Rightarrow> False
   | Some m \<Rightarrow> \<not> (m_is_active m \<and> m_user_id m = None \<and> owner \<noteq> None))"

definition ids_ok :: "(string \<Rightarrow> string) \<Rightarrow> mailbox list \<Rightarrow> bool" where
  "ids_ok new_id ms \<longleftrightarrow> inj new_id \<and> distinct (map m_id ms) \<and>
     (\<forall>m \<in> set ms. \<forall>a. m_id m = new_id a \<longrightarrow> lower (m_address m) = a)"

lemma known_mailbox_Some:
  "known_mailbox a ms = Some m \<Longrightarrow> m \<in> set ms \<and> lower (m_address m) = a"
  by (auto simp: known_mailbox_def find_Some_iff) (metis nth_mem set_rev length_rev)

lemma known_mailbox_None: "known_mailbox a ms = None \<longleftrightarrow> a \<notin> (\<lambda>m. lower (m_address m)) ` set ms"
  by (auto simp: known_mailbox_def find_None_iff)

lemma known_mailbox_append:
  "known_mailbox a (ms @ [m]) = (if lower (m_address m) = a then Some m else known_mailbox a ms)"
  by (simp add: known_mailbox_def)

lemma find_row_put:
  assumes "distinct (map key rows)" and "r0 \<in> set rows" and "key r = key r0" and "P r = P r0"
  shows "find P (row_put key r rows) =
    (case find P rows of None \<Rightarrow> None | Some x \<Rightarrow> Some (if key x = key r then r else x))"
  using assms
proof (induction rows)
  case (Cons x xs)
  show ?case
  proof (cases "key x = key r0")
    case True
    with Cons.prems have "x = r0" by auto
    then show ?thesis
    proof (cases "P r0")
      case True
      with \<open>x = r0\<close> Cons.prems show ?thesis by (simp add: row_put_Cons)
    next
      case False
      have "key r0 \<notin> key ` set xs" using Cons.prems \<open>x = r0\<close> by simp
      then have "row_put key r xs = xs" "\<And>y. y \<in> set xs \<Longrightarrow> key y \<noteq> key r"
        using Cons.prems(3) by (auto simp: row_put_def intro!: map_idI) (metis imageI)+
      with False \<open>x = r0\<close> Cons.prems show ?thesis
        by (auto simp: row_put_Cons find_Some_iff split: option.splits)
    qed
  next
    case False
    with Cons show ?thesis by (auto simp: row_put_Cons)
  qed
qed (simp add: row_put_Nil)

lemma known_mailbox_row_put:
  assumes "distinct (map m_id ms)" and "r0 \<in> set ms" and "m_id r = m_id r0" and "m_address r = m_address r0"
  shows "known_mailbox a (row_put m_id r ms) =
    (case known_mailbox a ms of None \<Rightarrow> None | Some x \<Rightarrow> Some (if m_id x = m_id r then r else x))"
proof -
  have "rev (row_put m_id r ms) = row_put m_id r (rev ms)" by (simp add: row_put_def rev_map)
  moreover have "distinct (map m_id (rev ms))" using assms(1) by (simp add: rev_map [symmetric])
  ultimately show ?thesis
    using find_row_put [of m_id "rev ms" r0 r "\<lambda>m. lower (m_address m) = a"] assms(2-4)
    by (simp add: known_mailbox_def)
qed

lemma sync_one_settled:
  assumes "settled owner ms p"
  shows "sync_one owner new_id now p ms = ms"
  using assms by (auto simp: settled_def sync_one_def split: option.splits)

lemma sync_one_step:
  assumes "ids_ok new_id ms"
  shows "ids_ok new_id (sync_one owner new_id now p ms)"
    and "settled owner (sync_one owner new_id now p ms) p"
    and "settled owner ms q \<Longrightarrow> settled owner (sync_one owner new_id now p ms) q"
proof -
  let ?a = "maildir_address p"
  consider (new) "known_mailbox ?a ms = None"
    | (known) m where "known_mailbox ?a ms = Some m" by (cases "known_mailbox ?a ms") auto
  then have "ids_ok new_id (sync_one owner new_id now p ms) \<and> settled owner (sync_one owner new_id now p ms) p \<and>
      (settled owner ms q \<longrightarrow> settled owner (sync_one owner new_id now p ms) q)"
  proof cases
    case new
    define m where "m = \<lparr>m_id = new_id ?a, m_address = ?a,
             m_display_name = lower (snd p), m_domain = lower (fst p), m_is_active = True,
             m_is_catchall = True, m_purpose = Standard, m_created_at = now, m_quota_mb = 500,
             m_signature = [], m_user_id = owner\<rparr>"
    have s: "sync_one owner new_id now p ms = ms @ [m]" using new by (simp add: sync_one_def m_def)
    have la: "lower ?a = ?a"
    proof -
      have "lower ''@'' = ''@''" by code_simp
      then show ?thesis by (simp only: maildir_address_def lower_append lower_idem)
    qed
    have "\<forall>x \<in> set ms. lower (m_address x) \<noteq> ?a"
      using new unfolding known_mailbox_None by (metis imageI)
    then have "m_id m \<notin> m_id ` set ms" using assms by (auto simp: ids_ok_def m_def)
    moreover have "m_id m = new_id a \<longrightarrow> lower (m_address m) = a" for a
      using assms la by (auto simp: ids_ok_def m_def dest: injD)
    ultimately show ?thesis
      using assms new la s by (auto simp: ids_ok_def settled_def known_mailbox_append m_def split: option.splits)
  next
    case (known m)
    note km = known_mailbox_Some [OF known]
    show ?thesis
    proof (cases "m_is_active m \<and> m_user_id m = None \<and> owner \<noteq> None")
      case True
      let ?r = "m\<lparr>m_user_id := owner, m_is_catchall := True\<rparr>"
      have s: "sync_one owner new_id now p ms = row_put m_id ?r ms" using known True by (simp add: sync_one_def)
      have d: "distinct (map m_id ms)" using assms by (simp add: ids_ok_def)
      have k: "known_mailbox a (row_put m_id ?r ms) =
          (case known_mailbox a ms of None \<Rightarrow> None | Some x \<Rightarrow> Some (if m_id x = m_id ?r then ?r else x))" for a
        using known_mailbox_row_put [OF d conjunct1 [OF km], of ?r a] by simp
      have "ids_ok new_id (row_put m_id ?r ms)"
        using assms km by (auto simp: ids_ok_def dest!: subsetD [OF set_row_put])
      then show ?thesis
        using s k known True by (auto simp: settled_def split: option.splits)
    next
      case False
      then have "settled owner ms p" using known by (auto simp: settled_def)
      with assms show ?thesis by (simp add: sync_one_settled)
    qed
  qed
  then show "ids_ok new_id (sync_one owner new_id now p ms)"
    and "settled owner (sync_one owner new_id now p ms) p"
    and "settled owner ms q \<Longrightarrow> settled owner (sync_one owner new_id now p ms) q" by auto
qed

lemma sync_fold_settled:
  assumes "ids_ok new_id ms"
  shows "ids_ok new_id (fold (sync_one owner new_id now) ps ms) \<and>
    (\<forall>q. q \<in> set ps \<or> settled owner ms q \<longrightarrow> settled owner (fold (sync_one owner new_id now) ps ms) q)"
  using assms
proof (induction ps arbitrary: ms)
  case (Cons p ps)
  note st = sync_one_step [OF Cons.prems, where owner = owner and now = now and p = p]
  from Cons.IH [OF st(1)] st show ?case by auto
qed simp

lemma sync_fold_id:
  "\<forall>q \<in> set ps. settled owner ms q \<Longrightarrow> fold (sync_one owner new_id now) ps ms = ms"
  by (induction ps) (auto simp: sync_one_settled)

lemma owner_ignores_mailboxes:
  "get_catchall_owner_user_id st (d\<lparr>mailboxes := x\<rparr>) = get_catchall_owner_user_id st d"
proof -
  have u: "users (d\<lparr>mailboxes := x\<rparr>) = users d" by simp
  show ?thesis unfolding get_catchall_owner_user_id_def u ..
qed

text \<open>discovery is complete and idempotent. After it every Maildir has a row, an active row
  without owner has got the catch-all owner if there is one, and a second discovery, whenever
  it runs and whatever row ids it would draw, changes nothing.\<close>

theorem sync_idempotent:
  assumes "sync_filesystem_mailboxes st new_id now s = (Inr (), s')" and "ms_storage s"
    and "inj new_id" and "distinct (map m_id (mailboxes (ms_db s)))"
    and "range new_id \<inter> m_id ` set (mailboxes (ms_db s)) = {}"
  shows "sync_filesystem_mailboxes st new_id' now' s' = (Inr (), s') \<and>
    (\<forall>p \<in> set (ms_maildirs s). \<exists>m \<in> set (mailboxes (ms_db s')).
        lower (m_address m) = lower (snd p) @ ''@'' @ lower (fst p) \<and>
        (m_is_active m \<and> m_user_id m = None \<longrightarrow> get_catchall_owner_user_id st (ms_db s) = Inr None))"
proof -
  obtain owner where o: "get_catchall_owner_user_id st (ms_db s) = Inr owner"
      "s' = s\<lparr>ms_db := (ms_db s)\<lparr>mailboxes :=
         fold (sync_one owner new_id now) (ms_maildirs s) (mailboxes (ms_db s))\<rparr>\<rparr>"
    using assms(1,2) by (auto simp: sync_filesystem_mailboxes_def split: sum.splits)
  have "ids_ok new_id (mailboxes (ms_db s))" using assms(3-5) by (auto simp: ids_ok_def)
  note fold_st = sync_fold_settled [OF this, of owner now "ms_maildirs s"]
  have "mailboxes (ms_db s') = fold (sync_one owner new_id now) (ms_maildirs s) (mailboxes (ms_db s))"
    using o by simp
  with fold_st have st: "settled owner (mailboxes (ms_db s')) p" if "p \<in> set (ms_maildirs s)" for p
    using that by metis
  have "get_catchall_owner_user_id st (ms_db s') = Inr owner" "ms_storage s'" "ms_maildirs s' = ms_maildirs s"
    using o assms(2) by (simp_all add: owner_ignores_mailboxes)
  then have "sync_filesystem_mailboxes st new_id' now' s' = (Inr (), s')"
    using st by (simp add: sync_filesystem_mailboxes_def sync_fold_id)
  moreover have "\<exists>m \<in> set (mailboxes (ms_db s')). lower (m_address m) = lower (snd p) @ ''@'' @ lower (fst p) \<and>
        (m_is_active m \<and> m_user_id m = None \<longrightarrow> get_catchall_owner_user_id st (ms_db s) = Inr None)"
    if mem: "p \<in> set (ms_maildirs s)" for p
  proof -
    obtain m where "known_mailbox (maildir_address p) (mailboxes (ms_db s')) = Some m"
        "\<not> (m_is_active m \<and> m_user_id m = None \<and> owner \<noteq> None)"
      using st [OF mem] by (auto simp: settled_def split: option.splits)
    with known_mailbox_Some [of "maildir_address p" _ m] o(1) show ?thesis
      by (intro bexI [of _ m]) (auto simp: maildir_address_def)
  qed
  ultimately show ?thesis by blast
qed

theorem sync_idempotent_witness:
  "\<exists>s'. sync_filesystem_mailboxes demo_settings (\<lambda>a. CHR ''n'' # a) 5 demo_mail = (Inr (), s') \<and>
     sync_filesystem_mailboxes demo_settings id 6 s' = (Inr (), s')"
proof -
  have "get_catchall_owner_user_id demo_settings (ms_db demo_mail) = Inr (Some ''1'')"
    by (simp add: get_catchall_owner_user_id_def demo_mail_def demo_defs)
  moreover have st: "ms_storage demo_mail" by (simp add: demo_mail_def)
  ultimately obtain s' where s: "sync_filesystem_mailboxes demo_settings (\<lambda>a. CHR ''n'' # a) 5 demo_mail = (Inr (), s')"
    by (simp add: sync_filesystem_mailboxes_def)
  have "inj (\<lambda>a. CHR ''n'' # a)" "distinct (map m_id (mailboxes (ms_db demo_mail)))"
    "range (\<lambda>a. CHR ''n'' # a) \<inter> m_id ` set (mailboxes (ms_db demo_mail)) = {}"
    by (auto simp: demo_mail_def demo_info_def inj_def)
  from sync_idempotent [OF s st this] s show ?thesis by blast
qed

section \<open>Paths\<close>

definition plain :: "string \<Rightarrow> bool" where
  "plain c \<longleftrightarrow> c \<noteq> [] \<and> c \<noteq> ''.'' \<and> c \<noteq> ''..''"

lemma resolve_components: "c \<in> set (resolve p) \<Longrightarrow> plain c"
proof -
  have "list_all plain q \<Longrightarrow> list_all plain (foldl resolve_step q p)" for q
  proof (induction p arbitrary: q)
    case (Cons x p)
    have "list_all plain (butlast q)"
      using Cons.prems by (auto simp: list_all_iff dest: in_set_butlastD)
    then have "list_all plain (resolve_step q x)"
      using Cons.prems by (auto simp: list_all_append) (simp add: plain_def)
    from Cons.IH [OF this] show ?case by simp
  qed simp
  from this [of "[]"] show "c \<in> set (resolve p) \<Longrightarrow> plain c" by (simp add: resolve_def list_all_iff)
qed

lemma resolve_plain:
  "\<forall>c \<in> set p. plain c \<Longrightarrow> foldl resolve_step q p = q @ p"
  by (induction p arbitrary: q) (simp_all add: plain_def)

lemma resolve_below_root:
  "resolve (storage_root st @ cs) = foldl resolve_step (storage_root st) cs"
proof -
  have "foldl resolve_step [] (storage_root st) = [] @ storage_root st"
    by (rule resolve_plain) (auto simp: storage_root_def dest: resolve_components)
  then show ?thesis by (simp add: resolve_def)
qed

text \<open>a Maildir path that passes the check is the directory of that domain and user directly
  below the storage root; the one exception is the storage root itself, which is reached
  when a component is a dot or two dots.\<close>

theorem maildir_path_contained:
  assumes "safe_maildir_path st dm l = Inr p"
  shows "p = storage_root st @ [dm, l] \<and> {dm, l} \<inter> {''.'', ''..''} = {} \<or>
    p = storage_root st \<and> {dm, l} \<inter> {''.'', ''..''} \<noteq> {}"
proof -
  let ?r = "storage_root st"
  have ne: "dm \<noteq> []" "l \<noteq> []" and res: "p = foldl resolve_step ?r [dm, l]"
      and chk: "prefix ?r p" "butlast p \<noteq> ?r"
    using assms
    by (auto simp: safe_maildir_path_def bad_component_def Let_def resolve_below_root split: if_splits)
  have short: "p = ?r" if "length p \<le> length ?r"
    using chk(1) that by (auto simp: prefix_def)
  define d where "d = resolve_step ?r dm"
  have p: "p = resolve_step d l" using res by (simp add: d_def)
  consider "dm = ''.''" "d = ?r" | "dm = ''..''" "d = butlast ?r"
    | "dm \<noteq> ''.''" "dm \<noteq> ''..''" "d = ?r @ [dm]"
    using ne by (cases "dm = ''.''"; cases "dm = ''..''") (auto simp: d_def)
  note dm = this
  consider "l = ''.''" "p = d" | "l = ''..''" "p = butlast d"
    | "l \<noteq> ''.''" "l \<noteq> ''..''" "p = d @ [l]"
    using ne p by (cases "l = ''.''"; cases "l = ''..''") auto
  then show ?thesis
  proof cases
    case 1
    from dm show ?thesis by cases (use 1 chk(2) short in auto)
  next
    case 2
    from dm show ?thesis by cases (use 2 short in auto)
  next
    case 3
    from dm show ?thesis
    proof cases
      case 2
      have "length p \<le> length ?r \<or> ?r = []" using 2 3 by (cases ?r rule: rev_cases) auto
      then have "p = ?r" using short 2 3 chk(2) by auto
      with 2 show ?thesis by auto
    qed (use 3 chk(2) in auto)
  qed
qed

theorem maildir_path_contained_witness:
  "safe_maildir_path demo_settings ''x'' ''bob'' = Inr (storage_root demo_settings @ [''x'', ''bob'']) \<and>
   safe_maildir_path demo_settings ''x'' ''..'' = Inr (storage_root demo_settings)"
proof -
  have p: "safe_maildir_path demo_settings ''x'' ''bob'' = Inr [''var'', ''mail'', ''vhosts'', ''x'', ''bob'']"
    "safe_maildir_path demo_settings ''x'' ''..'' = Inr [''var'', ''mail'', ''vhosts'']" by code_simp+
  from maildir_path_contained [OF p(1)] maildir_path_contained [OF p(2)] p show ?thesis by auto
qed

section \<open>The passwd-file\<close>

text \<open>C12: the two passwd-file operations implement a map from identities to credentials. On a file
  that renders a list of well-formed identities with distinct names, storing and removing on
  the text gives the rendering of storing and removing on the list; the identity stored is
  then found, the one removed is not, every other one is untouched, and the result is
  well-formed again. Reading the text back gives the identities.\<close>

theorem users_file_refines_map:
  assumes "wf_identities es" and "wf_identity (a, r)"
  shows "upsert_dovecot_user (Some (render_users es)) a (user_line (a, r)) =
      Some (render_users (store_identity es a r)) \<and>
    remove_from_dovecot_users (Some (render_users es)) a = Some (render_users (discard_identity es a)) \<and>
    wf_identities (store_identity es a r) \<and> wf_identities (discard_identity es a) \<and>
    map_of (store_identity es a r) k = (if k = a then Some r else map_of es k) \<and>
    map_of (discard_identity es a) k = (if k = a then None else map_of es k) \<and>
    map (\<lambda>l. (partition_key l, butlast (drop (Suc (length (partition_key l))) l)))
      (splitlines_keep (universal_newlines (render_users es))) = es"
proof -
  have w: "list_all wf_identity es" using assms(1) by (simp add: wf_identities_def)
  have "lower a = a" "CHR '':'' \<notin> set a" using assms(2) by (simp_all add: wf_identity_def)
  moreover have "(partition_key (user_line e), butlast (drop (Suc (length (partition_key (user_line e)))) (user_line e))) = e"
    if "wf_identity e" for e
    using user_line_facts(3) [OF that] by (cases e) (simp add: user_line_def)
  then have "map (\<lambda>l. (partition_key l, butlast (drop (Suc (length (partition_key l))) l))) (map user_line es) = es"
    using w by (simp add: list_all_iff map_idI)
  ultimately show ?thesis
    using passwd.wf_store [OF assms] passwd.wf_discard [OF assms(1)] passwd.find_store [OF assms]
      passwd.find_discard [OF assms(1)] upsert_render [OF w, of a r] remove_render [OF w, of a]
    by (simp add: store_identity_def discard_identity_def read_rendered [OF w])
qed

theorem users_file_refines_map_witness:
  "upsert_dovecot_user (Some (render_users [(''a@x'', ''h1:5000''), (''b@x'', ''h2'')])) ''a@x'' (user_line (''a@x'', ''h3'')) =
     Some (render_users [(''b@x'', ''h2''), (''a@x'', ''h3'')])"
proof -
  have "wf_identities [(''a@x'', ''h1:5000''), (''b@x'', ''h2'')]" "wf_identity (''a@x'', ''h3'')" by code_simp+
  from users_file_refines_map [OF this] show ?thesis by (simp add: store_identity_def)
qed

end
