(* ===== verification/Forwarding.thy ===== *)
theory Forwarding
  imports Models Json
begin

text \<open>
  \<^verbatim>\<open>forwarding/\<close>: rules that forward incoming mail. The regex engine, URL parsing,
  name resolution and the two delivery channels are not part of the repository: they are the
  fields of two records. A stored \<open>action_config\<close> is the JSON object it encodes. What a
  processed message causes is the list of deliveries attempted, in order.
\<close>

section \<open>The world outside\<close>

datatype search_outcome = Found | NotFound | RegexError | RegexTimeout

record regex_engine =
  rx_compiles :: "string \<Rightarrow> bool"
  rx_search :: "string \<Rightarrow> string \<Rightarrow> search_outcome"

record url =
  url_scheme :: string
  url_host :: string
  url_username :: string
  url_password :: string
  url_port :: "nat option"

record network =
  parse_url :: "string \<Rightarrow> url"
  http_url :: "string \<Rightarrow> string option"
  getaddrinfo :: "string \<Rightarrow> nat \<Rightarrow> string list option"
  is_global :: "string \<Rightarrow> bool"
  smtp_send :: "string \<Rightarrow> dict \<Rightarrow> bool"
  http_send :: "string \<Rightarrow> string \<Rightarrow> dict \<Rightarrow> bool"

section \<open>Rules and requests\<close>

record forwarding_rule =
  r_id :: string
  r_user_id :: string
  r_name :: string
  r_enabled :: bool
  r_match_from :: "string option"
  r_match_to :: "string option"
  r_match_subject :: "string option"
  r_match_mailbox :: "string option"
  r_action_type :: string
  r_action_config :: dict
  r_created_at :: time
  r_updated_at :: "time option"

record smtp_config =
  sc_to_address :: string

record webhook_config =
  wc_url :: string
  wc_method :: string
  wc_headers :: "(string \<times> string) list"

definition invalid :: "'a result" where
  "invalid = Inl (ValueErr ''validation error'')"

definition url_space :: "char \<Rightarrow> bool" where
  "url_space c \<longleftrightarrow> (9 \<le> code c \<and> code c \<le> 13) \<or> code c = 32"

definition to_address_pattern :: "string \<Rightarrow> bool" where
  "to_address_pattern s \<longleftrightarrow>
     (case split_first (CHR ''@'') s of
        None \<Rightarrow> False
      | Some (a, b) \<Rightarrow> a \<noteq> [] \<and> b \<noteq> [] \<and> list_all (\<lambda>c. \<not> url_space c \<and> c \<noteq> CHR ''@'') (a @ b))"

definition smtp_forward_config :: "dict \<Rightarrow> smtp_config result" where
  "smtp_forward_config d =
     (case dict_get d ''to_address'' of
        Some (JStr s) \<Rightarrow>
          (if 3 \<le> length s \<and> length s \<le> 254 \<and> to_address_pattern s
           then Inr \<lparr>sc_to_address = s\<rparr> else invalid)
      | _ \<Rightarrow> invalid)"

fun string_pairs :: "dict \<Rightarrow> (string \<times> string) list option" where
  "string_pairs [] = Some []"
| "string_pairs ((k, JStr v) # d) = map_option (\<lambda>r. (k, v) # r) (string_pairs d)"
| "string_pairs ((k, v) # d) = None"

definition webhook_config_of :: "network \<Rightarrow> dict \<Rightarrow> webhook_config result" where
  "webhook_config_of net d =
     (case dict_get d ''url'' of
        Some (JStr u) \<Rightarrow>
          (case http_url net u of
             None \<Rightarrow> invalid
           | Some url \<Rightarrow>
               (case dict_get_default d ''method'' (JStr ''POST'') of
                  JStr meth \<Rightarrow>
                    (if meth \<notin> {''POST'', ''PUT'', ''PATCH''} then invalid
                     else (case dict_get_default d ''headers'' (JObj []) of
                             JObj hs \<Rightarrow>
                               (case string_pairs hs of
                                  Some ps \<Rightarrow> Inr \<lparr>wc_url = url, wc_method = meth, wc_headers = ps\<rparr>
                                | None \<Rightarrow> invalid)
                           | _ \<Rightarrow> invalid))
                | _ \<Rightarrow> invalid))
      | _ \<Rightarrow> invalid)"

definition validate_action :: "network \<Rightarrow> string \<Rightarrow> dict \<Rightarrow> unit result" where
  "validate_action net ty d =
     (if ty = ''smtp_forward'' then bind_res (smtp_forward_config d) (\<lambda>_. Inr ())
      else if ty = ''webhook'' then bind_res (webhook_config_of net d) (\<lambda>_. Inr ())
      else Inr ())"

definition max_pattern_length :: nat where
  "max_pattern_length = 512"

definition validate_regex_pattern :: "regex_engine \<Rightarrow> string option \<Rightarrow> string option result" where
  "validate_regex_pattern rx v =
     (case v of
        None \<Rightarrow> Inr None
      | Some s \<Rightarrow>
          if s = [] then Inr None
          else if length s > max_pattern_length
          then Inl (ValueErr ''Regex pattern must not exceed 512 characters'')
          else if \<not> rx_compiles rx s then Inl (ValueErr ''Invalid regex pattern'')
          else Inr (Some s))"

record rule_create =
  rc_name :: string
  rc_enabled :: bool
  rc_match_from :: "string option"
  rc_match_to :: "string option"
  rc_match_subject :: "string option"
  rc_match_mailbox :: "string option"
  rc_action_type :: string
  rc_action_config :: dict

definition rule_create_request :: "regex_engine \<Rightarrow> network \<Rightarrow> rule_create \<Rightarrow> rule_create result" where
  "rule_create_request rx net b =
     bind_res (validate_regex_pattern rx (rc_match_from b)) (\<lambda>f.
     bind_res (validate_regex_pattern rx (rc_match_to b)) (\<lambda>t.
     bind_res (validate_regex_pattern rx (rc_match_subject b)) (\<lambda>s.
     if rc_action_type b \<notin> {''smtp_forward'', ''webhook''} then invalid
     else bind_res (validate_action net (rc_action_type b) (rc_action_config b)) (\<lambda>_.
       Inr (b\<lparr>rc_match_from := f, rc_match_to := t, rc_match_subject := s\<rparr>)))))"

text \<open>An update distinguishes a field that was not sent (\<open>None\<close>) from an explicit null
  (\<open>Some None\<close>).\<close>

record rule_update =
  ru_name :: "string option option"
  ru_enabled :: "bool option option"
  ru_match_from :: "string option option"
  ru_match_to :: "string option option"
  ru_match_subject :: "string option option"
  ru_match_mailbox :: "string option option"
  ru_action_type :: "string option option"
  ru_action_config :: "dict option option"

definition sent :: "'a option option \<Rightarrow> 'a option" where
  "sent v = (case v of None \<Rightarrow> None | Some x \<Rightarrow> x)"

definition validate_sent_pattern :: "regex_engine \<Rightarrow> string option option \<Rightarrow> string option option result" where
  "validate_sent_pattern rx v =
     (case v of None \<Rightarrow> Inr None
      | Some p \<Rightarrow> bind_res (validate_regex_pattern rx p) (\<lambda>q. Inr (Some q)))"

definition rule_update_request :: "regex_engine \<Rightarrow> network \<Rightarrow> rule_update \<Rightarrow> rule_update result" where
  "rule_update_request rx net b =
     bind_res (validate_sent_pattern rx (ru_match_from b)) (\<lambda>f.
     bind_res (validate_sent_pattern rx (ru_match_to b)) (\<lambda>t.
     bind_res (validate_sent_pattern rx (ru_match_subject b)) (\<lambda>s.
     bind_res (case sent (ru_action_type b) of
                 None \<Rightarrow> Inr ()
               | Some ty \<Rightarrow>
                   if ty \<notin> {''smtp_forward'', ''webhook''} then invalid
                   else (case sent (ru_action_config b) of
                           None \<Rightarrow> Inr ()
                         | Some d \<Rightarrow> validate_action net ty d)) (\<lambda>_.
     Inr (b\<lparr>ru_match_from := f, ru_match_to := t, ru_match_subject := s\<rparr>)))))"

section \<open>The rule table\<close>

definition list_rules :: "string \<Rightarrow> forwarding_rule list \<Rightarrow> forwarding_rule list" where
  "list_rules uid rs = sort_key (\<lambda>r. - r_created_at r) (filter (\<lambda>r. r_user_id r = uid) rs)"

definition get_rule :: "string \<Rightarrow> string \<Rightarrow> forwarding_rule list \<Rightarrow> forwarding_rule result" where
  "get_rule rid uid rs =
     bind_res (one_or_none (filter (\<lambda>r. r_id r = rid \<and> r_user_id r = uid) rs)) (\<lambda>found.
     case found of None \<Rightarrow> Inl (NotFoundError ''ForwardingRule'' rid) | Some r \<Rightarrow> Inr r)"

definition create_rule :: "string \<Rightarrow> time \<Rightarrow> rule_create \<Rightarrow> string \<Rightarrow> forwarding_rule list
    \<Rightarrow> forwarding_rule result \<times> forwarding_rule list" where
  "create_rule new_id now b uid rs =
     (let r = \<lparr>r_id = new_id, r_user_id = uid, r_name = rc_name b, r_enabled = rc_enabled b,
            r_match_from = rc_match_from b, r_match_to = rc_match_to b,
            r_match_subject = rc_match_subject b, r_match_mailbox = rc_match_mailbox b,
            r_action_type = rc_action_type b, r_action_config = rc_action_config b,
            r_created_at = now, r_updated_at = None\<rparr>
      in (Inr r, rs @ [r]))"

text \<open>An exception of a validator outside request parsing is not a client error.\<close>

definition escaped :: "'a result \<Rightarrow> 'a result" where
  "escaped r = (case r of Inl _ \<Rightarrow> Inl (OtherExc ''ValidationError'') | Inr a \<Rightarrow> Inr a)"

definition keep :: "'a \<Rightarrow> 'a option option \<Rightarrow> 'a" where
  "keep old v = (case sent v of None \<Rightarrow> old | Some x \<Rightarrow> x)"

definition keep_nullable :: "'a option \<Rightarrow> 'a option option \<Rightarrow> 'a option" where
  "keep_nullable old v = (case v of None \<Rightarrow> old | Some x \<Rightarrow> x)"

definition patched_rule :: "time \<Rightarrow> rule_update \<Rightarrow> forwarding_rule \<Rightarrow> forwarding_rule" where
  "patched_rule now b r =
     r\<lparr>r_name := keep (r_name r) (ru_name b), r_enabled := keep (r_enabled r) (ru_enabled b),
       r_match_from := keep_nullable (r_match_from r) (ru_match_from b),
       r_match_to := keep_nullable (r_match_to r) (ru_match_to b),
       r_match_subject := keep_nullable (r_match_subject r) (ru_match_subject b),
       r_match_mailbox := keep_nullable (r_match_mailbox r) (ru_match_mailbox b),
       r_action_type := keep (r_action_type r) (ru_action_type b),
       r_action_config := keep (r_action_config r) (ru_action_config b),
       r_updated_at := Some now\<rparr>"

text \<open>Storing null into a column that does not admit it fails at the commit.\<close>

definition nulls_required_column :: "rule_update \<Rightarrow> bool" where
  "nulls_required_column b \<longleftrightarrow> ru_name b = Some None \<or> ru_enabled b = Some None \<or>
     ru_action_type b = Some None \<or> ru_action_config b = Some None"

definition update_rule :: "network \<Rightarrow> string \<Rightarrow> time \<Rightarrow> rule_update \<Rightarrow> string \<Rightarrow> forwarding_rule list
    \<Rightarrow> forwarding_rule result \<times> forwarding_rule list" where
  "update_rule net rid now b uid rs =
     (case get_rule rid uid rs of
        Inl e \<Rightarrow> (Inl e, rs)
      | Inr r \<Rightarrow>
          (let effective_action_type = (case sent (ru_action_type b) of None \<Rightarrow> r_action_type r | Some t \<Rightarrow> t)
           in case (case sent (ru_action_config b) of
                      None \<Rightarrow> Inr ()
                    | Some d \<Rightarrow> escaped (validate_action net effective_action_type d)) of
                Inl e \<Rightarrow> (Inl e, rs)
              | Inr _ \<Rightarrow>
                  if nulls_required_column b then (Inl (OtherExc ''IntegrityError''), rs)
                  else (Inr (patched_rule now b r), row_put r_id (patched_rule now b r) rs)))"

definition delete_rule :: "string \<Rightarrow> string \<Rightarrow> forwarding_rule list \<Rightarrow> unit result \<times> forwarding_rule list" where
  "delete_rule rid uid rs =
     (case get_rule rid uid rs of
        Inl e \<Rightarrow> (Inl e, rs)
      | Inr r \<Rightarrow> (Inr (), row_del r_id (r_id r) rs))"

section \<open>Matching\<close>

record mail_meta =
  mm_from :: string
  mm_to :: string
  mm_subject :: string
  mm_mailbox :: string

definition matches_pattern :: "regex_engine \<Rightarrow> string option \<Rightarrow> string \<Rightarrow> bool" where
  "matches_pattern rx pattern v =
     (if \<not> truthy pattern then True
      else (case rx_search rx (the pattern) v of
              Found \<Rightarrow> True
            | NotFound \<Rightarrow> False
            | RegexError \<Rightarrow> False
            | RegexTimeout \<Rightarrow> False))"

definition evaluate_rule :: "regex_engine \<Rightarrow> forwarding_rule \<Rightarrow> mail_meta \<Rightarrow> (string \<times> bool) list" where
  "evaluate_rule rx r m =
     [(''match_from'', matches_pattern rx (r_match_from r) (mm_from m)),
      (''match_to'', matches_pattern rx (r_match_to r) (mm_to m)),
      (''match_subject'', matches_pattern rx (r_match_subject r) (mm_subject m)),
      (''match_mailbox'', if truthy (r_match_mailbox r)
         then matches_pattern rx (r_match_mailbox r) (mm_mailbox m) else True)]"

definition rule_matches :: "regex_engine \<Rightarrow> forwarding_rule \<Rightarrow> mail_meta \<Rightarrow> bool" where
  "rule_matches rx r m = list_all snd (evaluate_rule rx r m)"

definition test_rule :: "regex_engine \<Rightarrow> string \<Rightarrow> string \<Rightarrow> mail_meta \<Rightarrow> forwarding_rule list
    \<Rightarrow> (bool \<times> string \<times> string \<times> (string \<times> bool) list) result" where
  "test_rule rx rid uid sample rs =
     bind_res (get_rule rid uid rs) (\<lambda>r.
     Inr (list_all snd (evaluate_rule rx r sample), r_id r, r_name r, evaluate_rule rx r sample))"

section \<open>Actions\<close>

datatype delivery =
    Smtp string dict
  | Webhook string string "(string \<times> string) list" dict

definition validate_webhook_destination :: "network \<Rightarrow> string \<Rightarrow> unit result" where
  "validate_webhook_destination net u =
     (let parsed = parse_url net u
      in if url_scheme parsed \<notin> {''http'', ''https''} \<or> url_host parsed = []
         then Inl (ValidationError ''Webhook URL must use HTTP or HTTPS'')
         else if url_username parsed \<noteq> [] \<or> url_password parsed \<noteq> []
         then Inl (ValidationError ''Webhook URL must not contain embedded credentials'')
         else (case getaddrinfo net (url_host parsed)
                      (case url_port parsed of
                         Some p \<Rightarrow> if p = 0 then (if url_scheme parsed = ''https'' then 443 else 80) else p
                       | None \<Rightarrow> if url_scheme parsed = ''https'' then 443 else 80) of
                 None \<Rightarrow> Inl (ValidationError ''Webhook hostname could not be resolved'')
               | Some addresses \<Rightarrow>
                   if addresses = [] then Inl (ValidationError ''Webhook hostname did not resolve'')
                   else if list_ex (\<lambda>a. \<not> is_global net a) addresses
                   then Inl (ValidationError ''Webhook destinations must resolve only to public IP addresses'')
                   else Inr ()))"

definition execute_rule_action ::
  "network \<Rightarrow> forwarding_rule \<Rightarrow> dict \<Rightarrow> unit result \<times> delivery list" where
  "execute_rule_action net r email_data =
     (if r_action_type r = ''smtp_forward''
      then (case smtp_forward_config (r_action_config r) of
              Inl e \<Rightarrow> (Inl e, [])
            | Inr c \<Rightarrow> (if smtp_send net (sc_to_address c) email_data then Inr ()
                       else Inl (OtherExc ''SMTPException''), [Smtp (sc_to_address c) email_data]))
      else if r_action_type r = ''webhook''
      then (case webhook_config_of net (r_action_config r) of
              Inl e \<Rightarrow> (Inl e, [])
            | Inr c \<Rightarrow>
                (case validate_webhook_destination net (wc_url c) of
                   Inl e \<Rightarrow> (Inl e, [])
                 | Inr _ \<Rightarrow> (if http_send net (wc_method c) (wc_url c) email_data then Inr ()
                            else Inl (OtherExc ''HTTPError''),
                            [Webhook (wc_method c) (wc_url c) (wc_headers c) email_data])))
      else (Inl (ValidationError (''Unknown action type: '' @ r_action_type r)), []))"

text \<open>The loop over the matching rules: failures are logged, the next rule goes on.\<close>

fun run_actions :: "network \<Rightarrow> forwarding_rule list \<Rightarrow> dict \<Rightarrow> nat \<times> delivery list" where
  "run_actions net [] email_data = (0, [])"
| "run_actions net (r # rs) email_data =
     (case execute_rule_action net r email_data of
        (res, ds) \<Rightarrow>
          (case run_actions net rs email_data of
             (n, ds') \<Rightarrow> ((if isl res then n else n + 1), ds @ ds')))"

text \<open>\<open>full\<close> is what fetching the message added to the payload, \<open>None\<close> when it failed.\<close>

definition email_payload :: "mail_meta \<Rightarrow> string \<Rightarrow> dict option \<Rightarrow> dict" where
  "email_payload m uid full =
     [(''from'', JStr (mm_from m)), (''to'', JStr (mm_to m)), (''subject'', JStr (mm_subject m)),
      (''mailbox'', JStr (mm_mailbox m)), (''uid'', JStr uid)] @
     (case full of None \<Rightarrow> [] | Some d \<Rightarrow> d)"

definition process_incoming_email ::
  "regex_engine \<Rightarrow> network \<Rightarrow> mailbox list \<Rightarrow> forwarding_rule list \<Rightarrow> mail_meta \<Rightarrow> string \<Rightarrow> dict option
     \<Rightarrow> nat result \<times> delivery list" where
  "process_incoming_email rx net mbs rs m uid full =
     (case one_or_none (filter (\<lambda>b. m_address b = lower (mm_mailbox m) \<and> m_is_active b) mbs) of
        Inl e \<Rightarrow> (Inl e, [])
      | Inr None \<Rightarrow> (Inr 0, [])
      | Inr (Some mb) \<Rightarrow>
          (case m_user_id mb of
             None \<Rightarrow> (Inr 0, [])
           | Some owner_id \<Rightarrow>
               (let matching = filter (\<lambda>r. rule_matches rx r m)
                      (filter (\<lambda>r. r_enabled r \<and> r_user_id r = owner_id) rs)
                in if matching = [] then (Inr 0, [])
                   else (case run_actions net matching (email_payload m uid full) of
                           (n, ds) \<Rightarrow> (Inr n, ds)))))"

section \<open>Lemmas\<close>

lemma rule_matches_iff:
  "rule_matches rx r m \<longleftrightarrow> matches_pattern rx (r_match_from r) (mm_from m) \<and>
     matches_pattern rx (r_match_to r) (mm_to m) \<and> matches_pattern rx (r_match_subject r) (mm_subject m) \<and>
     (truthy (r_match_mailbox r) \<longrightarrow> matches_pattern rx (r_match_mailbox r) (mm_mailbox m))"
  by (simp add: rule_matches_def evaluate_rule_def)

lemma run_actions_eq:
  "run_actions net rs d =
     (length (filter (\<lambda>r. \<not> isl (fst (execute_rule_action net r d))) rs),
      concat (map (\<lambda>r. snd (execute_rule_action net r d)) rs))"
  by (induction rs) (auto split: prod.splits)

lemma get_rule_InrD:
  assumes "get_rule rid uid rs = Inr r"
  shows "r \<in> set rs" and "r_id r = rid" and "r_user_id r = uid"
proof -
  have "one_or_none (filter (\<lambda>r. r_id r = rid \<and> r_user_id r = uid) rs) = Inr (Some r)"
    using assms by (auto simp: get_rule_def bind_res_eq_Inr_iff split: option.splits)
  then have "r \<in> set (filter (\<lambda>r. r_id r = rid \<and> r_user_id r = uid) rs)" by (rule one_or_none_SomeD)
  then show "r \<in> set rs" "r_id r = rid" "r_user_id r = uid" by auto
qed

lemma validate_webhook_ok:
  assumes "validate_webhook_destination net u = Inr ()"
  shows "url_scheme (parse_url net u) \<in> {''http'', ''https''} \<and> url_username (parse_url net u) = [] \<and>
    url_password (parse_url net u) = [] \<and>
    (\<exists>p addrs. getaddrinfo net (url_host (parse_url net u)) p = Some addrs \<and> addrs \<noteq> [] \<and>
           list_all (is_global net) addrs)"
proof -
  let ?u = "parse_url net u"
  have a: "url_scheme ?u \<in> {''http'', ''https''}" "url_username ?u = []" "url_password ?u = []"
    using assms by (auto simp: validate_webhook_destination_def Let_def split: if_split_asm)
  then obtain p where p: "(case getaddrinfo net (url_host ?u) p of
                 None \<Rightarrow> Inl (ValidationError ''Webhook hostname could not be resolved'')
               | Some addresses \<Rightarrow>
                   if addresses = [] then Inl (ValidationError ''Webhook hostname did not resolve'')
                   else if list_ex (\<lambda>a. \<not> is_global net a) addresses
                   then Inl (ValidationError ''Webhook destinations must resolve only to public IP addresses'')
                   else Inr ()) = Inr ()"
    using assms by (auto simp: validate_webhook_destination_def Let_def split: if_split_asm)
  then have "\<exists>addrs. getaddrinfo net (url_host ?u) p = Some addrs \<and> addrs \<noteq> [] \<and> list_all (is_global net) addrs"
    by (auto simp: list_ex_iff list_all_iff split: option.splits if_splits)
  with a show ?thesis by blast
qed

lemma webhook_delivery_validated:
  assumes "Webhook meth u hs d \<in> set (snd (execute_rule_action net r data))"
  shows "r_action_type r = ''webhook''" and "validate_webhook_destination net u = Inr ()"
  using assms by (auto simp: execute_rule_action_def split: if_splits sum.splits)

end
