(* ===== verification/ForwardingProps.thy ===== *)
theory ForwardingProps
  imports Forwarding
begin

text \<open>What an incoming message can trigger, and what an update can do to a rule.\<close>

text \<open>C13: forwarding is confined to the mailbox's owner, goes only to public destinations and does
  not stop at a failure. The rules that act on a message are the enabled rules of the owner of
  the active mailbox all of whose patterns match; the deliveries are those of each of these
  rules in order, whatever the outcome of the earlier ones; the count returned is the number
  that succeeded; and every webhook among the deliveries has an HTTP URL without credentials
  whose host resolved to public addresses only.\<close>

theorem forwarding_confined:
  assumes "process_incoming_email rx net mbs rs m uid full = (Inr n, ds)" and "ds \<noteq> []"
  shows "\<exists>mb owner. mb \<in> set mbs \<and> m_is_active mb \<and> m_address mb = lower (mm_mailbox m) \<and>
      m_user_id mb = Some owner \<and>
      (let acting = filter (\<lambda>r. r_enabled r \<and> r_user_id r = owner \<and> rule_matches rx r m) rs;
           act = (\<lambda>r. execute_rule_action net r (email_payload m uid full))
       in ds = concat (map (\<lambda>r. snd (act r)) acting) \<and> n = length (filter (\<lambda>r. \<not> isl (fst (act r))) acting)) \<and>
    (\<forall>meth u hs d. Webhook meth u hs d \<in> set ds \<longrightarrow>
       url_scheme (parse_url net u) \<in> {''http'', ''https''} \<and> url_username (parse_url net u) = [] \<and>
       url_password (parse_url net u) = [] \<and>
       (\<exists>p addrs. getaddrinfo net (url_host (parse_url net u)) p = Some addrs \<and> addrs \<noteq> [] \<and>
          list_all (is_global net) addrs))"
proof -
  let ?d = "email_payload m uid full"
  obtain mb owner where o: "one_or_none (filter (\<lambda>b. m_address b = lower (mm_mailbox m) \<and> m_is_active b) mbs) =
      Inr (Some mb)" "m_user_id mb = Some owner"
    using assms by (auto simp: process_incoming_email_def split: sum.splits option.splits)
  let ?acting = "filter (\<lambda>r. r_enabled r \<and> r_user_id r = owner \<and> rule_matches rx r m) rs"
  have f: "filter (\<lambda>r. rule_matches rx r m) (filter (\<lambda>r. r_enabled r \<and> r_user_id r = owner) rs) = ?acting"
    by (simp add: conj_ac)
  have "mb \<in> set (filter (\<lambda>b. m_address b = lower (mm_mailbox m) \<and> m_is_active b) mbs)"
    using o(1) by (rule one_or_none_SomeD)
  moreover have r: "(n, ds) = run_actions net ?acting ?d"
    using assms o f by (auto simp: process_incoming_email_def Let_def split: if_splits prod.splits)
  moreover have "\<exists>r. Webhook meth u hs d \<in> set (snd (execute_rule_action net r ?d))"
    if "Webhook meth u hs d \<in> set ds" for meth u hs d
    using that r by (auto simp: run_actions_eq)
  then have "validate_webhook_destination net u = Inr ()" if "Webhook meth u hs d \<in> set ds" for meth u hs d
    using that webhook_delivery_validated(2) by blast
  then have "\<forall>meth u hs d. Webhook meth u hs d \<in> set ds \<longrightarrow>
       url_scheme (parse_url net u) \<in> {''http'', ''https''} \<and> url_username (parse_url net u) = [] \<and>
       url_password (parse_url net u) = [] \<and>
       (\<exists>p addrs. getaddrinfo net (url_host (parse_url net u)) p = Some addrs \<and> addrs \<noteq> [] \<and>
          list_all (is_global net) addrs)"
    using validate_webhook_ok by blast
  ultimately show ?thesis
    using o(2) by (auto simp: run_actions_eq Let_def)
qed

definition demo_engine :: regex_engine where
  "demo_engine = \<lparr>rx_compiles = (\<lambda>p. True), rx_search = (\<lambda>p v. if contains p v then Found else NotFound)\<rparr>"

definition demo_network :: network where
  "demo_network = \<lparr>parse_url = (\<lambda>u. \<lparr>url_scheme = ''https'', url_host = u, url_username = [],
       url_password = [], url_port = None\<rparr>),
     http_url = Some, getaddrinfo = (\<lambda>h p. Some [if h = ''hook.io'' then ''1.2.3.4'' else ''10.0.0.1'']),
     is_global = (\<lambda>a. a = ''1.2.3.4''), smtp_send = (\<lambda>t d. False), http_send = (\<lambda>v u d. True)\<rparr>"

definition demo_rule :: "string \<Rightarrow> string \<Rightarrow> dict \<Rightarrow> forwarding_rule" where
  "demo_rule i ty cfg = \<lparr>r_id = i, r_user_id = ''2'', r_name = i, r_enabled = True,
     r_match_from = Some ''boss'', r_match_to = None, r_match_subject = None, r_match_mailbox = None,
     r_action_type = ty, r_action_config = cfg, r_created_at = 0, r_updated_at = None\<rparr>"

definition demo_rules :: "forwarding_rule list" where
  "demo_rules = [demo_rule ''r1'' ''smtp_forward'' [(''to_address'', JStr ''a@b'')],
     demo_rule ''r2'' ''webhook'' [(''url'', JStr ''inside'')],
     demo_rule ''r3'' ''webhook'' [(''url'', JStr ''hook.io'')]]"

definition demo_box :: mailbox where
  "demo_box = \<lparr>m_id = ''m1'', m_address = ''bob@x'', m_display_name = ''bob'', m_domain = ''x'',
     m_is_active = True, m_is_catchall = False, m_purpose = Standard, m_created_at = 0, m_quota_mb = 500,
     m_signature = [], m_user_id = Some ''2''\<rparr>"

definition demo_meta :: mail_meta where
  "demo_meta = \<lparr>mm_from = ''boss@y'', mm_to = ''bob@x'', mm_subject = ''hi'', mm_mailbox = ''Bob@x''\<rparr>"

lemma demo_forward:
  "process_incoming_email demo_engine demo_network [demo_box] demo_rules demo_meta ''7'' None =
     (Inr 1, [Smtp ''a@b'' (email_payload demo_meta ''7'' None),
              Webhook ''POST'' ''hook.io'' [] (email_payload demo_meta ''7'' None)])"
  by code_simp

theorem forwarding_confined_witness:
  "\<exists>ds. process_incoming_email demo_engine demo_network [demo_box] demo_rules demo_meta ''7'' None = (Inr 1, ds) \<and>
     length ds = 2 \<and> url_scheme (parse_url demo_network ''hook.io'') \<in> {''http'', ''https''}"
  using forwarding_confined [OF demo_forward] demo_forward by auto

text \<open>rules are private to their user. Nobody but a rule's owner can read, test, change or
  delete it: for every other user the answer is that it does not exist, and the table stays
  as it is.\<close>

theorem rules_private:
  assumes "r \<in> set rs" and "r_user_id r \<noteq> uid" and "distinct (map r_id rs)"
  shows "r \<notin> set (list_rules uid rs) \<and>
    get_rule (r_id r) uid rs = Inl (NotFoundError ''ForwardingRule'' (r_id r)) \<and>
    test_rule rx (r_id r) uid sample rs = Inl (NotFoundError ''ForwardingRule'' (r_id r)) \<and>
    update_rule net (r_id r) now b uid rs = (Inl (NotFoundError ''ForwardingRule'' (r_id r)), rs) \<and>
    delete_rule (r_id r) uid rs = (Inl (NotFoundError ''ForwardingRule'' (r_id r)), rs)"
proof -
  have "x = r" if "x \<in> set rs" "r_id x = r_id r" for x
    using that assms(1,3) by (metis distinct_map inj_onD)
  then have "filter (\<lambda>x. r_id x = r_id r \<and> r_user_id x = uid) rs = []"
    using assms(2) by (auto simp: filter_empty_conv)
  then have g: "get_rule (r_id r) uid rs = Inl (NotFoundError ''ForwardingRule'' (r_id r))"
    by (simp add: get_rule_def)
  then show ?thesis
    using assms(2) by (simp add: list_rules_def test_rule_def update_rule_def delete_rule_def)
qed

theorem rules_private_witness:
  "delete_rule ''r1'' ''9'' demo_rules = (Inl (NotFoundError ''ForwardingRule'' ''r1''), demo_rules)"
proof -
  let ?r = "demo_rule ''r1'' ''smtp_forward'' [(''to_address'', JStr ''a@b'')]"
  have "?r \<in> set demo_rules" "r_user_id ?r \<noteq> ''9''" "distinct (map r_id demo_rules)" "r_id ?r = ''r1''"
    by (simp_all add: demo_rules_def demo_rule_def)
  with rules_private [of ?r demo_rules "''9''"] show ?thesis by simp
qed

text \<open>an update can turn a rule into one that never fires. Changing only the action type of a
  rule is accepted, since the configuration is checked only when it is sent along; if the
  stored configuration does not fit the new type, every later execution fails without a
  delivery. A freshly created rule, in contrast, always has a configuration of its type.\<close>

theorem retyped_rule_is_dead:
  assumes "get_rule rid uid rs = Inr r" and "r_action_type r = ''smtp_forward''"
    and "dict_get (r_action_config r) ''url'' = None"
    and "b = \<lparr>ru_name = None, ru_enabled = None, ru_match_from = None, ru_match_to = None,
      ru_match_subject = None, ru_match_mailbox = None, ru_action_type = Some (Some ''webhook''),
      ru_action_config = None\<rparr>"
    and "rule_create_request rx net c = Inr c'"
  shows "rule_update_request rx net b = Inr b \<and>
    (\<exists>r'. fst (update_rule net rid now b uid rs) = Inr r' \<and> r' \<in> set (snd (update_rule net rid now b uid rs)) \<and>
       (\<forall>net' d. execute_rule_action net' r' d = (invalid, []))) \<and>
    validate_action net (rc_action_type c') (rc_action_config c') = Inr ()"
proof -
  let ?r = "patched_rule now b r"
  note g = get_rule_InrD [OF assms(1)]
  have u: "update_rule net rid now b uid rs = (Inr ?r, row_put r_id ?r rs)"
    using assms(1,4) by (simp add: update_rule_def sent_def nulls_required_column_def)
  have i: "r_id ?r = r_id r" "r_action_type ?r = ''webhook''" "r_action_config ?r = r_action_config r"
    using assms(4) by (simp_all add: patched_rule_def keep_def sent_def)
  have "?r \<in> set (row_put r_id ?r rs)" using g(1) i(1) by (force simp: row_put_def)
  moreover have "execute_rule_action net' ?r d = (invalid, [])" for net' d
    using assms(3) i by (simp add: execute_rule_action_def webhook_config_of_def invalid_def)
  moreover have "rule_update_request rx net b = Inr b"
    using assms(4) by (simp add: rule_update_request_def validate_sent_pattern_def sent_def)
  moreover have "validate_action net (rc_action_type c') (rc_action_config c') = Inr ()"
    using assms(5) by (auto simp: rule_create_request_def bind_res_eq_Inr_iff invalid_def split: if_splits)
  ultimately show ?thesis using u by simp
qed

theorem retyped_rule_is_dead_witness:
  "\<exists>r'. fst (update_rule demo_network ''r1'' 5 \<lparr>ru_name = None, ru_enabled = None, ru_match_from = None,
      ru_match_to = None, ru_match_subject = None, ru_match_mailbox = None,
      ru_action_type = Some (Some ''webhook''), ru_action_config = None\<rparr> ''2'' demo_rules) = Inr r' \<and>
     snd (execute_rule_action demo_network r' []) = []"
proof -
  let ?r = "demo_rule ''r1'' ''smtp_forward'' [(''to_address'', JStr ''a@b'')]"
  have g: "get_rule ''r1'' ''2'' demo_rules = Inr ?r"
    by (simp add: get_rule_def demo_rules_def demo_rule_def)
  have t: "r_action_type ?r = ''smtp_forward''" "dict_get (r_action_config ?r) ''url'' = None"
    by (simp_all add: demo_rule_def dict_get_def)
  have c: "rule_create_request demo_engine demo_network \<lparr>rc_name = [], rc_enabled = True,
      rc_match_from = None, rc_match_to = None, rc_match_subject = None, rc_match_mailbox = None,
      rc_action_type = ''webhook'', rc_action_config = [(''url'', JStr ''hook.io'')]\<rparr> =
    Inr \<lparr>rc_name = [], rc_enabled = True,
      rc_match_from = None, rc_match_to = None, rc_match_subject = None, rc_match_mailbox = None,
      rc_action_type = ''webhook'', rc_action_config = [(''url'', JStr ''hook.io'')]\<rparr>" by code_simp
  from retyped_rule_is_dead [OF g t refl c, of 5] show ?thesis by auto
qed

end
