(* ===== verification/PyNumbers.thy ===== *)
theory PyNumbers
  imports Json
begin

text \<open>
  Python's conversions between text, JSON values and numbers, where a component needs more than
  \<open>py_int\<close>: reading a decimal as a double, and \<open>str\<close> and \<open>int\<close> of a JSON value.
\<close>

text \<open>
  \<open>int(float(s))\<close>: the text is read as a decimal, rounded to the nearest double (ties to even)
  and truncated. A text that is no number and \<open>nan\<close> raise \<open>ValueError\<close>, an infinite value
  \<open>OverflowError\<close>.
\<close>

fun underscores_ok :: "char option \<Rightarrow> string \<Rightarrow> bool" where
  "underscores_ok prev [] \<longleftrightarrow> True"
| "underscores_ok prev (c # s) \<longleftrightarrow>
     (c = CHR ''_'' \<longrightarrow> (case prev of None \<Rightarrow> False | Some p \<Rightarrow> is_digit p) \<and> (case s of [] \<Rightarrow> False | d # _ \<Rightarrow> is_digit d)) \<and>
     underscores_ok (Some c) s"

definition digits_nat :: "string \<Rightarrow> nat" where
  "digits_nat ds = foldl (\<lambda>n c. 10 * n + (code c - 48)) 0 ds"

definition exponent_of :: "string \<Rightarrow> int option" where
  "exponent_of s =
     (case s of
        [] \<Rightarrow> Some 0
      | c # r \<Rightarrow>
          if c = CHR ''e'' \<or> c = CHR ''E''
          then (let neg = (r \<noteq> [] \<and> hd r = CHR ''-'');
                    ds = (if r \<noteq> [] \<and> (hd r = CHR ''-'' \<or> hd r = CHR ''+'') then tl r else r)
                in if ds = [] \<or> \<not> list_all is_digit ds then None
                   else Some (if neg then - int (digits_nat ds) else int (digits_nat ds)))
          else None)"

definition decimal :: "string \<Rightarrow> rat option" where
  "decimal s =
     (let d1 = takeWhile is_digit s; r1 = dropWhile is_digit s;
          (d2, r2) = (case r1 of
             [] \<Rightarrow> ([], [])
           | c # r \<Rightarrow> if c = CHR ''.'' then (takeWhile is_digit r, dropWhile is_digit r) else ([], r1))
      in if d1 @ d2 = [] then None
         else (case exponent_of r2 of
                 None \<Rightarrow> None
               | Some e \<Rightarrow>
                   (let k = e - int (length d2); m = rat_of_nat (digits_nat (d1 @ d2))
                    in Some (if k \<ge> 0 then m * 10 ^ nat k else m / 10 ^ nat (- k)))))"

definition half_even :: "rat \<Rightarrow> int" where
  "half_even q =
     (let f = \<lfloor>q\<rfloor>; d = q - rat_of_int f
      in if d < 1 / 2 then f else if d > 1 / 2 then f + 1 else if even f then f else f + 1)"

fun bit_length :: "nat \<Rightarrow> nat" where
  "bit_length n = (if n = 0 then 0 else Suc (bit_length (n div 2)))"

declare bit_length.simps [simp del]

definition double_trunc :: "rat \<Rightarrow> int" where
  "double_trunc q =
     (if q < 1 then (if q \<ge> 1 - 1 / 2 ^ 54 then 1 else 0)
      else (let l = bit_length (nat \<lfloor>q\<rfloor>)
            in if l \<le> 53 then half_even (q * 2 ^ (53 - l)) div 2 ^ (53 - l)
               else half_even (q / 2 ^ (l - 53)) * 2 ^ (l - 53)))"

definition py_float_int :: "string \<Rightarrow> int result" where
  "py_float_int s =
     (let t = strip s; neg = (t \<noteq> [] \<and> hd t = CHR ''-'');
          body = (if t \<noteq> [] \<and> (hd t = CHR ''-'' \<or> hd t = CHR ''+'') then tl t else t);
          low = lower body
      in if low = ''inf'' \<or> low = ''infinity''
         then Inl (OtherExc ''OverflowError'')
         else if low = ''nan'' then Inl (ValueErr ''cannot convert float NaN to integer'')
         else if \<not> underscores_ok None body then Inl (ValueErr ''could not convert string to float'')
         else (case decimal (filter (\<lambda>c. c \<noteq> CHR ''_'') body) of
                 None \<Rightarrow> Inl (ValueErr ''could not convert string to float'')
               | Some q \<Rightarrow>
                   if double_trunc q \<ge> 2 ^ 1024 then Inl (OtherExc ''OverflowError'')
                   else Inr (if neg then - double_trunc q else double_trunc q)))"

text \<open>\<open>str(x)\<close> and \<open>int(x)\<close> of a decoded JSON value; \<open>rp\<close> is the text Python prints for a float
  and for a list or dictionary.\<close>

fun py_str :: "(json \<Rightarrow> string) \<Rightarrow> json \<Rightarrow> string" where
  "py_str rp (JStr s) = s"
| "py_str rp JNull = ''None''"
| "py_str rp (JBool b) = (if b then ''True'' else ''False'')"
| "py_str rp (JInt i) = show_int i"
| "py_str rp v = rp v"

fun json_int :: "json \<Rightarrow> int result" where
  "json_int (JInt i) = Inr i"
| "json_int (JBool b) = Inr (if b then 1 else 0)"
| "json_int (JFloat q) = Inr (if q < 0 then - \<lfloor>- q\<rfloor> else \<lfloor>q\<rfloor>)"
| "json_int (JStr s) = py_int s"
| "json_int v = Inl (OtherExc ''TypeError'')"

text \<open>
  A double read from text made of digits, signs, dots and exponent letters: a sign with the exact
  decimal, rounded only when it is used, or infinity when it is out of range. A double
  is false when the decimal rounds to zero.
\<close>

datatype pyfloat = PFinite bool rat | PInf bool

definition py_float :: "string \<Rightarrow> pyfloat result" where
  "py_float s =
     (let neg = (s \<noteq> [] \<and> hd s = CHR ''-'');
          body = (if s \<noteq> [] \<and> (hd s = CHR ''-'' \<or> hd s = CHR ''+'') then tl s else s)
      in case decimal body of
           None \<Rightarrow> Inl (ValueErr ''could not convert string to float'')
         | Some q \<Rightarrow> Inr (if double_trunc q \<ge> 2 ^ 1024 then PInf neg else PFinite neg q))"

fun int_of_float :: "pyfloat \<Rightarrow> int result" where
  "int_of_float (PFinite neg q) = Inr (if neg then - double_trunc q else double_trunc q)"
| "int_of_float (PInf neg) = Inl (OtherExc ''OverflowError'')"

fun float_truthy :: "pyfloat \<Rightarrow> bool" where
  "float_truthy (PFinite neg q) \<longleftrightarrow> q > 1 / 2 ^ 1075"
| "float_truthy (PInf neg) \<longleftrightarrow> True"

end
