(* ===== verification/Voice.thy ===== *)
theory Voice
  imports Addressing PyNumbers
begin

text \<open>
  \<^verbatim>\<open>sandbox/voice/interpreter.py\<close>: the voice-control dialects and their common form.
  The XML and JSON decoders are parameters; a document that decodes is a tree of elements or
  a JSON value. A field that may hold any JSON value of the document is a JSON value here,
  null when it is absent. \<open>dial_number\<close>, always equal to \<open>dial_to\<close>, is not kept.
\<close>

section \<open>The intermediate form\<close>

datatype voice_action_type =
  SAY | PLAY | GATHER | RECORD | PAUSE | HANGUP | REDIRECT | DIAL | REJECT | CONVERSATION

record voice_action =
  va_type :: voice_action_type
  va_text :: "string option"
  va_url :: "string option"
  va_method :: string
  va_timeout :: int
  va_num_digits :: "int option"
  va_finish_on_key :: "string option"
  va_action_url :: "string option"
  va_action_method :: string
  va_max_length :: "int option"
  va_play_beep :: bool
  va_voice :: json
  va_language :: json
  va_loop :: int
  va_dial_to :: json
  va_input_types :: "string list"
  va_extra :: "(string \<times> string) list"

definition voice_action :: "voice_action_type \<Rightarrow> voice_action" where
  "voice_action ty = \<lparr>va_type = ty, va_text = None, va_url = None, va_method = ''POST'', va_timeout = 5,
     va_num_digits = None, va_finish_on_key = None, va_action_url = None, va_action_method = ''POST'',
     va_max_length = None, va_play_beep = True, va_voice = JNull, va_language = JNull, va_loop = 1,
     va_dial_to = JNull, va_input_types = [''dtmf''], va_extra = []\<rparr>"

record voice_ir =
  ir_actions :: "voice_action list"
  ir_dialect :: string
  ir_raw :: string

section \<open>Elements and their attributes\<close>

datatype element = Element (e_tag: string) (e_text: "string option") (e_attrib: "(string \<times> string) list")
  (e_children: "element list")

definition etext :: "element \<Rightarrow> string" where
  "etext e = strip (case e_text e of None \<Rightarrow> [] | Some t \<Rightarrow> t)"

text \<open>Lower-casing the keys of a dictionary: the last of two that coincide wins.\<close>

definition attrs :: "element \<Rightarrow> string \<Rightarrow> string option" where
  "attrs e k = map_of (rev (map (\<lambda>(n, v). (lower n, v)) (e_attrib e))) k"

definition attr_or :: "element \<Rightarrow> string \<Rightarrow> string \<Rightarrow> string" where
  "attr_or e k dflt = (case attrs e k of None \<Rightarrow> dflt | Some v \<Rightarrow> v)"

definition int_attr :: "element \<Rightarrow> string \<Rightarrow> int \<Rightarrow> int result" where
  "int_attr e k dflt = (case attrs e k of None \<Rightarrow> Inr dflt | Some v \<Rightarrow> py_int v)"

definition opt_int_attr :: "element \<Rightarrow> string \<Rightarrow> int option result" where
  "opt_int_attr e k =
     (case attrs e k of None \<Rightarrow> Inr None | Some v \<Rightarrow> bind_res (py_int v) (\<lambda>i. Inr (Some i)))"

definition non_empty :: "string \<Rightarrow> string option" where
  "non_empty s = (if s = [] then None else Some s)"

definition json_text :: "string option \<Rightarrow> json" where
  "json_text v = (case v of None \<Rightarrow> JNull | Some s \<Rightarrow> JStr s)"

definition prompt_of :: "element \<Rightarrow> string option" where
  "prompt_of e = non_empty (join '' '' (filter (\<lambda>t. t \<noteq> []) (map etext (e_children e))))"

text \<open>The loop over the sub-elements that keeps the last number it sees.\<close>

fun last_number :: "string \<Rightarrow> string option \<Rightarrow> element list \<Rightarrow> string option" where
  "last_number wanted acc [] = acc"
| "last_number wanted acc (s # ss) =
     last_number wanted (if lower (e_tag s) = wanted then non_empty (etext s) else acc) ss"

section \<open>TwiML\<close>

definition twiml_verb :: "element \<Rightarrow> voice_action option result" where
  "twiml_verb e =
     (let tg = lower (e_tag e); tx = etext e
      in if tg = ''say'' then
           bind_res (int_attr e ''loop'' 1) (\<lambda>l.
           Inr (Some ((voice_action SAY)\<lparr>va_text := Some tx, va_voice := json_text (attrs e ''voice''),
             va_language := json_text (attrs e ''language''), va_loop := l\<rparr>)))
         else if tg = ''play'' then
           bind_res (int_attr e ''loop'' 1) (\<lambda>l.
           Inr (Some ((voice_action PLAY)\<lparr>va_url := non_empty tx, va_loop := l\<rparr>)))
         else if tg = ''pause'' then
           bind_res (int_attr e ''length'' 1) (\<lambda>t.
           Inr (Some ((voice_action PAUSE)\<lparr>va_timeout := t\<rparr>)))
         else if tg = ''hangup'' then Inr (Some (voice_action HANGUP))
         else if tg = ''reject'' then
           Inr (Some ((voice_action REJECT)\<lparr>va_extra := [(''reason'', attr_or e ''reason'' ''rejected'')]\<rparr>))
         else if tg = ''redirect'' then
           Inr (Some ((voice_action REDIRECT)\<lparr>va_url := (if tx \<noteq> [] then Some tx else attrs e ''url''),
             va_method := upper (attr_or e ''method'' ''POST'')\<rparr>))
         else if tg = ''gather'' then
           bind_res (int_attr e ''timeout'' 5) (\<lambda>t.
           bind_res (opt_int_attr e ''numdigits'') (\<lambda>n.
           Inr (Some ((voice_action GATHER)\<lparr>va_text := prompt_of e, va_action_url := attrs e ''action'',
             va_action_method := upper (attr_or e ''method'' ''POST''), va_timeout := t, va_num_digits := n,
             va_finish_on_key := Some (attr_or e ''finishonkey'' ''#''),
             va_input_types := map strip (split_ws (attr_or e ''input'' ''dtmf''))\<rparr>))))
         else if tg = ''record'' then
           bind_res (int_attr e ''maxlength'' 3600) (\<lambda>n.
           Inr (Some ((voice_action RECORD)\<lparr>va_action_url := attrs e ''action'',
             va_action_method := upper (attr_or e ''method'' ''POST''), va_max_length := Some n,
             va_play_beep := (lower (attr_or e ''playbeep'' ''true'') = ''true''),
             va_finish_on_key := Some (attr_or e ''finishonkey'' ''1234567890*#'')\<rparr>)))
         else if tg = ''dial'' then
           bind_res (int_attr e ''timeout'' 30) (\<lambda>t.
           Inr (Some ((voice_action DIAL)\<lparr>va_dial_to :=
               json_text (if tx \<noteq> [] then Some tx else last_number ''number'' None (e_children e)),
             va_action_url := attrs e ''action'', va_timeout := t\<rparr>)))
         else Inr None)"

text \<open>The loop over the children; an exception ends it.\<close>

fun collect :: "('e \<Rightarrow> voice_action option result) \<Rightarrow> 'e list \<Rightarrow> voice_action list result" where
  "collect verb [] = Inr []"
| "collect verb (e # es) =
     bind_res (verb e) (\<lambda>a. bind_res (collect verb es) (\<lambda>as.
     Inr (case a of None \<Rightarrow> as | Some x \<Rightarrow> x # as)))"

definition parse_xml_dialect ::
  "(string \<Rightarrow> element option) \<Rightarrow> (element \<Rightarrow> voice_action option result) \<Rightarrow> string \<Rightarrow> string \<Rightarrow> voice_ir result" where
  "parse_xml_dialect fromstring verb dialect body =
     (let ir = \<lparr>ir_actions = [], ir_dialect = dialect, ir_raw = body\<rparr>
      in case fromstring (strip body) of
           None \<Rightarrow> Inr ir
         | Some doc \<Rightarrow>
             if lower (e_tag doc) \<noteq> ''response'' then Inr ir
             else bind_res (collect verb (e_children doc)) (\<lambda>as. Inr (ir\<lparr>ir_actions := as\<rparr>)))"

definition parse_twiml :: "(string \<Rightarrow> element option) \<Rightarrow> string \<Rightarrow> voice_ir result" where
  "parse_twiml fromstring body = parse_xml_dialect fromstring twiml_verb ''twiml'' body"

definition parse_texml :: "(string \<Rightarrow> element option) \<Rightarrow> string \<Rightarrow> voice_ir result" where
  "parse_texml fromstring body =
     bind_res (parse_twiml fromstring body) (\<lambda>ir. Inr (ir\<lparr>ir_dialect := ''texml''\<rparr>))"

section \<open>Plivo XML\<close>

definition plivo_verb :: "element \<Rightarrow> voice_action option result" where
  "plivo_verb e =
     (let tg = lower (e_tag e); tx = etext e
      in if tg = ''speak'' then
           bind_res (int_attr e ''loop'' 1) (\<lambda>l.
           Inr (Some ((voice_action SAY)\<lparr>va_text := Some tx, va_voice := json_text (attrs e ''voice''),
             va_language := json_text (attrs e ''language''), va_loop := l\<rparr>)))
         else if tg = ''play'' then Inr (Some ((voice_action PLAY)\<lparr>va_url := non_empty tx\<rparr>))
         else if tg = ''wait'' then
           bind_res (int_attr e ''length'' 1) (\<lambda>t.
           Inr (Some ((voice_action PAUSE)\<lparr>va_timeout := t\<rparr>)))
         else if tg = ''hangup'' then Inr (Some (voice_action HANGUP))
         else if tg = ''redirect'' then
           Inr (Some ((voice_action REDIRECT)\<lparr>va_url := (if tx \<noteq> [] then Some tx else attrs e ''url''),
             va_method := upper (attr_or e ''method'' ''POST'')\<rparr>))
         else if tg = ''getdigits'' then
           bind_res (int_attr e ''timeout'' 5) (\<lambda>t.
           bind_res (opt_int_attr e ''numdigits'') (\<lambda>n.
           Inr (Some ((voice_action GATHER)\<lparr>va_action_url := attrs e ''action'',
             va_action_method := upper (attr_or e ''method'' ''POST''), va_timeout := t, va_num_digits := n,
             va_finish_on_key := Some (attr_or e ''finishonkey'' ''#'')\<rparr>))))
         else if tg = ''record'' then
           bind_res (int_attr e ''maxlength'' 60) (\<lambda>n.
           Inr (Some ((voice_action RECORD)\<lparr>va_action_url := attrs e ''action'',
             va_action_method := upper (attr_or e ''method'' ''POST''), va_max_length := Some n,
             va_play_beep := (lower (attr_or e ''playbeep'' ''true'') = ''true'')\<rparr>)))
         else if tg = ''dial'' then
           bind_res (int_attr e ''timeout'' 30) (\<lambda>t.
           Inr (Some ((voice_action DIAL)\<lparr>va_dial_to :=
               json_text (case last_number ''number'' None (e_children e) of
                            Some n \<Rightarrow> Some n
                          | None \<Rightarrow> non_empty tx),
             va_action_url := attrs e ''action'', va_timeout := t\<rparr>)))
         else Inr None)"

definition parse_plivo_xml :: "(string \<Rightarrow> element option) \<Rightarrow> string \<Rightarrow> voice_ir result" where
  "parse_plivo_xml fromstring body = parse_xml_dialect fromstring plivo_verb ''plivo'' body"

section \<open>Bandwidth BXML\<close>

definition bxml_verb :: "element \<Rightarrow> voice_action option result" where
  "bxml_verb e =
     (let tg = lower (e_tag e); tx = etext e
      in if tg = ''speaksentence'' then
           Inr (Some ((voice_action SAY)\<lparr>va_text := Some tx, va_voice := json_text (attrs e ''voice''),
             va_language := json_text (attrs e ''locale'')\<rparr>))
         else if tg = ''playaudio'' then Inr (Some ((voice_action PLAY)\<lparr>va_url := non_empty tx\<rparr>))
         else if tg = ''pause'' then
           bind_res (py_float_int (attr_or e ''duration'' ''1'')) (\<lambda>t.
           Inr (Some ((voice_action PAUSE)\<lparr>va_timeout := t\<rparr>)))
         else if tg = ''hangup'' then Inr (Some (voice_action HANGUP))
         else if tg = ''redirect'' then
           Inr (Some ((voice_action REDIRECT)\<lparr>va_url := attrs e ''redirecturl'',
             va_method := upper (attr_or e ''redirectmethod'' ''POST'')\<rparr>))
         else if tg = ''gather'' then
           bind_res (int_attr e ''firstdigittimeout'' 5) (\<lambda>t.
           bind_res (opt_int_attr e ''maxdigits'') (\<lambda>n.
           Inr (Some ((voice_action GATHER)\<lparr>va_text := prompt_of e, va_action_url := attrs e ''gatherurl'',
             va_action_method := upper (attr_or e ''gathermethod'' ''POST''), va_timeout := t,
             va_num_digits := n, va_finish_on_key := Some (attr_or e ''terminatingdigits'' ''#'')\<rparr>))))
         else if tg = ''record'' then
           bind_res (int_attr e ''maxduration'' 300) (\<lambda>n.
           Inr (Some ((voice_action RECORD)\<lparr>va_action_url := attrs e ''recordcompleteurl'',
             va_action_method := upper (attr_or e ''recordcompletemethod'' ''POST''),
             va_max_length := Some n\<rparr>)))
         else if tg = ''transfer'' then
           Inr (Some ((voice_action DIAL)\<lparr>
             va_dial_to := json_text (last_number ''phonenumber'' None (e_children e)),
             va_action_url := attrs e ''transfercompleteurl''\<rparr>))
         else Inr None)"

definition parse_bxml :: "(string \<Rightarrow> element option) \<Rightarrow> string \<Rightarrow> voice_ir result" where
  "parse_bxml fromstring body = parse_xml_dialect fromstring bxml_verb ''bxml'' body"

section \<open>Vonage NCCO\<close>

text \<open>\<open>d.get(k) or dflt\<close>.\<close>

definition get_or :: "dict \<Rightarrow> string \<Rightarrow> json \<Rightarrow> json" where
  "get_or d k dflt = (case dict_get d k of None \<Rightarrow> dflt | Some v \<Rightarrow> if json_truthy v then v else dflt)"

definition get_json :: "dict \<Rightarrow> string \<Rightarrow> json" where
  "get_json d k = dict_get_default d k JNull"

definition first_text :: "(json \<Rightarrow> string) \<Rightarrow> json \<Rightarrow> string option" where
  "first_text rp v = (case v of JArr (x # _) \<Rightarrow> Some (py_str rp x) | _ \<Rightarrow> None)"

definition ncco_action :: "(json \<Rightarrow> string) \<Rightarrow> dict \<Rightarrow> voice_action option result" where
  "ncco_action rp d =
     (let name = lower (py_str rp (dict_get_default d ''action'' (JStr [])))
      in if name = ''talk'' then
           bind_res (json_int (dict_get_default d ''loop'' (JInt 1))) (\<lambda>l.
           Inr (Some ((voice_action SAY)\<lparr>va_text := Some (py_str rp (dict_get_default d ''text'' (JStr []))),
             va_voice := get_or d ''voiceName'' (get_json d ''style''),
             va_language := get_json d ''language'', va_loop := l\<rparr>)))
         else if name = ''stream'' then
           Inr (map_option (\<lambda>u. (voice_action PLAY)\<lparr>va_url := Some u\<rparr>)
             (first_text rp (get_or d ''streamUrl'' (JArr []))))
         else if name = ''input'' then
           (let dtmf = get_or d ''dtmf'' (JObj []);
                types = get_or d ''type'' (JArr [JStr ''dtmf'']);
                od = (case dtmf of JObj o' \<Rightarrow> Some o' | _ \<Rightarrow> None)
            in bind_res (case od of None \<Rightarrow> Inr 5 | Some o' \<Rightarrow> json_int (dict_get_default o' ''timeOut'' (JInt 5))) (\<lambda>t.
               bind_res (case od of
                   None \<Rightarrow> Inr None
                 | Some o' \<Rightarrow> (case dict_get o' ''maxDigits'' of
                                None \<Rightarrow> Inr None
                              | Some v \<Rightarrow> bind_res (json_int v) (\<lambda>i. Inr (Some i)))) (\<lambda>n.
               Inr (Some ((voice_action GATHER)\<lparr>
                 va_action_url := first_text rp (get_or d ''eventUrl'' (JArr [])),
                 va_action_method := upper (py_str rp (dict_get_default d ''eventMethod'' (JStr ''POST''))),
                 va_timeout := t, va_num_digits := n,
                 va_finish_on_key := map_option
                   (\<lambda>o'. py_str rp (dict_get_default o' ''submitOnHash'' (JBool False))) od,
                 va_input_types := (case types of JArr ts \<Rightarrow> map (py_str rp) ts | _ \<Rightarrow> [''dtmf''])\<rparr>)))))
         else if name = ''record'' then
           bind_res (case dict_get d ''endOnSilence'' of
               Some v \<Rightarrow> json_int v
             | None \<Rightarrow> json_int (get_or d ''endOnKey'' (JInt 3600))) (\<lambda>n.
           Inr (Some ((voice_action RECORD)\<lparr>
             va_action_url := first_text rp (get_or d ''eventUrl'' (JArr [])),
             va_action_method := upper (py_str rp (dict_get_default d ''eventMethod'' (JStr ''POST''))),
             va_max_length := Some n,
             va_play_beep := json_truthy (dict_get_default d ''beepStart'' (JBool True))\<rparr>)))
         else if name = ''connect'' then
           (let to = (case get_or d ''endpoint'' (JArr []) of
                        JArr (JObj o' # _) \<Rightarrow> get_json o' ''number''
                      | _ \<Rightarrow> JNull)
            in bind_res (json_int (dict_get_default d ''timeout'' (JInt 30))) (\<lambda>t.
               Inr (Some ((voice_action DIAL)\<lparr>va_dial_to := to, va_timeout := t\<rparr>))))
         else if name = ''conversation'' then
           Inr (Some ((voice_action CONVERSATION)\<lparr>
             va_extra := [(''name'', py_str rp (dict_get_default d ''name'' (JStr [])))]\<rparr>))
         else Inr None)"

definition ncco_entry :: "(json \<Rightarrow> string) \<Rightarrow> json \<Rightarrow> voice_action option result" where
  "ncco_entry rp v = (case v of JObj d \<Rightarrow> ncco_action rp d | _ \<Rightarrow> Inr None)"

definition parse_ncco :: "(string \<Rightarrow> json option) \<Rightarrow> (json \<Rightarrow> string) \<Rightarrow> string \<Rightarrow> voice_ir result" where
  "parse_ncco loads rp body =
     (let ir = \<lparr>ir_actions = [], ir_dialect = ''ncco'', ir_raw = body\<rparr>
      in case loads body of
           Some (JArr es) \<Rightarrow> bind_res (collect (ncco_entry rp) es) (\<lambda>as. Inr (ir\<lparr>ir_actions := as\<rparr>))
         | _ \<Rightarrow> Inr ir)"

section \<open>The dialect of a provider\<close>

record decoders =
  xml_tree :: "string \<Rightarrow> element option"
  json_value :: "string \<Rightarrow> json option"
  python_repr :: "json \<Rightarrow> string"

definition dialect_for :: "string \<Rightarrow> string" where
  "dialect_for p =
     (if p = ''twilio'' then ''twiml'' else if p = ''bandwidth'' then ''bxml''
      else if p = ''plivo'' then ''plivo'' else if p = ''telnyx'' then ''texml''
      else if p = ''vonage'' then ''ncco'' else ''twiml'')"

definition parse_for_provider :: "decoders \<Rightarrow> string \<Rightarrow> string \<Rightarrow> voice_ir result" where
  "parse_for_provider dc p body =
     (if p = ''twilio'' then parse_twiml (xml_tree dc) body
      else if p = ''bandwidth'' then parse_bxml (xml_tree dc) body
      else if p = ''plivo'' then parse_plivo_xml (xml_tree dc) body
      else if p = ''telnyx'' then parse_texml (xml_tree dc) body
      else if p = ''vonage'' then parse_ncco (json_value dc) (python_repr dc) body
      else Inr \<lparr>ir_actions = [], ir_dialect = ''twiml'', ir_raw = body\<rparr>)"

section \<open>Lemmas\<close>

lemma collect_actions:
  assumes "collect verb es = Inr as" and "\<And>e a. verb e = Inr (Some a) \<Longrightarrow> P a"
  shows "list_all P as"
  using assms(1)
proof (induction es arbitrary: as)
  case (Cons e es)
  then obtain a as' where a: "verb e = Inr a" "collect verb es = Inr as'"
      "as = (case a of None \<Rightarrow> as' | Some x \<Rightarrow> x # as')"
    by (auto simp: bind_res_eq_Inr_iff)
  then show ?case using Cons.IH [OF a(2)] assms(2) by (auto split: option.splits)
qed simp

text \<open>An empty document has no actions, and whatever a parser cannot decode counts as empty.\<close>

lemma parse_undecodable:
  "xml_tree dc (strip body) = None \<Longrightarrow> json_value dc body = None \<Longrightarrow>
   \<exists>ir. parse_for_provider dc p body = Inr ir \<and> ir_actions ir = [] \<and> ir_dialect ir = dialect_for p"
  by (auto simp: parse_for_provider_def parse_twiml_def parse_bxml_def parse_plivo_xml_def parse_texml_def
      parse_ncco_def parse_xml_dialect_def dialect_for_def Let_def)

end
