(* ===== verification/VoiceWorker.thy ===== *)
theory VoiceWorker
  imports Voice
begin

text \<open>
  \<^verbatim>\<open>sandbox/voice/worker.py\<close>: the worker that drives a simulated call. The
  application's answers, the clock and whether a status callback raises are functions of how
  many requests, clock readings and callbacks came before. Following an answer recurses; \<open>depth\<close>
  is how deep the interpreter lets it, and running out of it raises \<open>RecursionError\<close>.
\<close>

section \<open>State\<close>

record transcript_entry =
  t_type :: voice_action_type
  t_text :: "string option"
  t_url :: "string option"
  t_dial_to :: json
  t_time :: time

record call =
  c_id :: string
  c_status :: string
  c_answer_url :: "string option"
  c_answer_method :: "string option"
  c_answered_at :: "time option"
  c_ended_at :: "time option"
  c_duration :: "int option"
  c_transcript :: "transcript_entry list"

record envelope =
  v_call_id :: string
  v_provider :: string
  v_seed_digits :: string
  v_seed_speech :: string

type_synonym payload = "(string \<times> string) list"

record voice_world =
  answer :: "nat \<Rightarrow> string \<Rightarrow> string \<Rightarrow> payload \<Rightarrow> string option"
  clock :: "nat \<Rightarrow> time"
  callback_ok :: "nat \<Rightarrow> bool"
  dec :: decoders

record http_request =
  q_url :: string
  q_method :: string
  q_payload :: payload

record voice_state =
  vs_call :: "call option"
  vs_requests :: "http_request list"
  vs_events :: "(string \<times> json) list"
  vs_ticks :: nat

section \<open>Single steps\<close>

definition final_status :: "string \<Rightarrow> bool" where
  "final_status s \<longleftrightarrow> s \<in> {''completed'', ''failed'', ''canceled'', ''busy'', ''no-answer''}"

definition ended_call :: "time \<Rightarrow> call \<Rightarrow> call" where
  "ended_call now c =
     c\<lparr>c_ended_at := Some now,
       c_duration := (case c_answered_at c of
          None \<Rightarrow> c_duration c
        | Some t \<Rightarrow> Some (max ((now - t) div 1000000) 0))\<rparr>"

definition emit :: "voice_world \<Rightarrow> string \<Rightarrow> json \<Rightarrow> voice_state \<Rightarrow> unit result \<times> voice_state" where
  "emit w status extra s =
     (case vs_call s of
        None \<Rightarrow> (Inr (), s)
      | Some c0 \<Rightarrow>
          (let c = c0\<lparr>c_status := status\<rparr>;
               now = clock w (vs_ticks s);
               (c, k) = (if status = ''answered'' then (c\<lparr>c_answered_at := Some now\<rparr>, 1)
                         else if final_status status then (ended_call now c, 1) else (c, 0));
               s' = s\<lparr>vs_call := Some c, vs_ticks := vs_ticks s + k, vs_events := vs_events s @ [(status, extra)]\<rparr>
           in (if callback_ok w (length (vs_events s)) then Inr ()
               else Inl (OtherExc ''callback failed''), s')))"

definition finish :: "voice_world \<Rightarrow> string \<Rightarrow> voice_state \<Rightarrow> unit result \<times> voice_state" where
  "finish w status s = emit w status JNull s"

definition load_answer_url :: "voice_state \<Rightarrow> string option \<times> string" where
  "load_answer_url s =
     (case vs_call s of
        None \<Rightarrow> (None, ''POST'')
      | Some c \<Rightarrow> (c_answer_url c,
          upper (case c_answer_method c of None \<Rightarrow> ''POST'' | Some m \<Rightarrow> if m = [] then ''POST'' else m)))"

definition send_request :: "voice_world \<Rightarrow> string \<Rightarrow> string \<Rightarrow> payload \<Rightarrow> voice_state
    \<Rightarrow> string option \<times> voice_state" where
  "send_request w url meth p s =
     (let q = \<lparr>q_url = url, q_method = meth, q_payload = p\<rparr>
      in (answer w (length (vs_requests s)) url meth p, s\<lparr>vs_requests := vs_requests s @ [q]\<rparr>))"

definition fetch_ir :: "voice_world \<Rightarrow> envelope \<Rightarrow> string \<Rightarrow> string \<Rightarrow> voice_state
    \<Rightarrow> voice_ir result \<times> voice_state" where
  "fetch_ir w env url meth s =
     (case send_request w url (if meth = ''GET'' then ''GET'' else ''POST'')
             [(''CallSid'', v_call_id env), (''CallStatus'', ''in-progress''), (''From'', []), (''To'', [])] s of
        (None, s') \<Rightarrow> (Inr \<lparr>ir_actions = [], ir_dialect = dialect_for (v_provider env), ir_raw = []\<rparr>, s')
      | (Some body, s') \<Rightarrow> (parse_for_provider (dec w) (v_provider env) body, s'))"

definition fetch_raw :: "voice_world \<Rightarrow> string \<Rightarrow> string \<Rightarrow> payload \<Rightarrow> voice_state \<Rightarrow> string \<times> voice_state" where
  "fetch_raw w url meth p s =
     (case send_request w url (if upper meth = ''GET'' then ''GET'' else ''POST'') p s of
        (None, s') \<Rightarrow> ([], s')
      | (Some body, s') \<Rightarrow> (body, s'))"

definition record_transcript :: "voice_world \<Rightarrow> voice_action \<Rightarrow> voice_state \<Rightarrow> voice_state" where
  "record_transcript w a s =
     (case vs_call s of
        None \<Rightarrow> s
      | Some c \<Rightarrow>
          s\<lparr>vs_call := Some (c\<lparr>c_transcript := c_transcript c @
               [\<lparr>t_type = va_type a, t_text = va_text a, t_url = va_url a, t_dial_to = va_dial_to a,
                 t_time = clock w (vs_ticks s)\<rparr>]\<rparr>),
            vs_ticks := vs_ticks s + 1\<rparr>)"

section \<open>Executing actions\<close>

definition gather_payload :: "envelope \<Rightarrow> voice_action \<Rightarrow> payload" where
  "gather_payload env a =
     [(''CallSid'', v_call_id env)] @
     (if va_type a = GATHER
      then (if v_seed_digits env \<noteq> [] then [(''Digits'', v_seed_digits env)] else []) @
           (if v_seed_speech env \<noteq> [] \<and> ''speech'' \<in> set (va_input_types a)
            then [(''SpeechResult'', v_seed_speech env)] else [])
      else [])"

definition record_payload :: "envelope \<Rightarrow> payload" where
  "record_payload env =
     [(''CallSid'', v_call_id env),
      (''RecordingSid'', ''RE'' @ take 32 (filter (\<lambda>c. c \<noteq> CHR ''-'') (v_call_id env))),
      (''RecordingDuration'', ''3''),
      (''RecordingUrl'', ''https://sandbox.mailcue.local/recordings/'' @ v_call_id env)]"

text \<open>What an action asks for: stop, cancel, follow a document, announce a dial or go on.\<close>

datatype directive = Stop | Cancel | Follow string string payload | Dialing json | Go_on

definition directive_of :: "envelope \<Rightarrow> voice_action \<Rightarrow> directive" where
  "directive_of env a =
     (case va_type a of
        HANGUP \<Rightarrow> Stop
      | REJECT \<Rightarrow> Cancel
      | DIAL \<Rightarrow> Dialing (va_dial_to a)
      | RECORD \<Rightarrow>
          (if truthy (va_action_url a)
           then Follow (the (va_action_url a)) (va_action_method a) (record_payload env) else Go_on)
      | t \<Rightarrow>
          if t = REDIRECT \<or> t = GATHER
          then (let follow_url = or_text (va_action_url a) (va_url a);
                    follow_method = (if va_action_method a \<noteq> [] then va_action_method a else va_method a)
                in if truthy follow_url
                   then Follow (the follow_url) follow_method (gather_payload env a) else Go_on)
          else Go_on)"

fun execute_ir :: "voice_world \<Rightarrow> envelope \<Rightarrow> nat \<Rightarrow> voice_action list \<Rightarrow> voice_state
    \<Rightarrow> unit result \<times> voice_state" where
  "execute_ir w env depth [] s = (Inr (), s)"
| "execute_ir w env depth (a # as) s0 =
     (let s = record_transcript w a s0
      in case directive_of env a of
           Stop \<Rightarrow> (Inr (), s)
         | Cancel \<Rightarrow> emit w ''canceled'' JNull s
         | Go_on \<Rightarrow> execute_ir w env depth as s
         | Dialing d \<Rightarrow>
             (case emit w ''dialing'' d s of
                (Inl e, s') \<Rightarrow> (Inl e, s')
              | (Inr _, s') \<Rightarrow> execute_ir w env depth as s')
         | Follow url meth p \<Rightarrow>
             (case fetch_raw w url meth p s of
                (body, s') \<Rightarrow>
                  (case parse_for_provider (dec w) (v_provider env) body of
                     Inl e \<Rightarrow> (Inl e, s')
                   | Inr ir \<Rightarrow>
                       (case depth of
                          0 \<Rightarrow> (Inl (OtherExc ''RecursionError''), s')
                        | Suc n \<Rightarrow> execute_ir w env n (ir_actions ir) s'))))"

definition run_call :: "voice_world \<Rightarrow> envelope \<Rightarrow> nat \<Rightarrow> voice_state \<Rightarrow> unit result \<times> voice_state" where
  "run_call w env depth s =
     (case emit w ''initiated'' JNull s of
        (Inl e, s1) \<Rightarrow> (Inl e, s1)
      | (Inr _, s1) \<Rightarrow>
          (case emit w ''ringing'' JNull s1 of
             (Inl e, s2) \<Rightarrow> (Inl e, s2)
           | (Inr _, s2) \<Rightarrow>
               (case load_answer_url s2 of
                  (None, _) \<Rightarrow>
                    (case emit w ''answered'' JNull s2 of
                       (Inl e, s3) \<Rightarrow> (Inl e, s3)
                     | (Inr _, s3) \<Rightarrow> finish w ''completed'' s3)
                | (Some url, meth) \<Rightarrow>
                    (case fetch_ir w env url meth s2 of
                       (Inl e, s3) \<Rightarrow> (Inl e, s3)
                     | (Inr ir, s3) \<Rightarrow>
                         (case emit w ''answered'' JNull s3 of
                            (Inl e, s4) \<Rightarrow> (Inl e, s4)
                          | (Inr _, s4) \<Rightarrow>
                              (case execute_ir w env depth (ir_actions ir) s4 of
                                 (Inl e, s5) \<Rightarrow> (Inl e, s5)
                               | (Inr _, s5) \<Rightarrow> finish w ''completed'' s5))))))"

definition drive_call :: "voice_world \<Rightarrow> envelope \<Rightarrow> nat \<Rightarrow> voice_state \<Rightarrow> voice_state" where
  "drive_call w env depth s =
     (case run_call w env depth s of
        (Inr _, s') \<Rightarrow> s'
      | (Inl _, s') \<Rightarrow> snd (finish w ''failed'' s'))"

end
