(* ===== verification/VoiceProps.thy ===== *)
theory VoiceProps
  imports VoiceWorker
begin

text \<open>The life of a simulated call and the requests it makes.\<close>

section \<open>Steps\<close>

lemma emit_present:
  assumes "vs_call s = Some c"
  shows "\<exists>c'. vs_call (snd (emit w st x s)) = Some c' \<and> c_status c' = st \<and>
      (final_status st \<longrightarrow> st \<noteq> ''answered'' \<longrightarrow> c_ended_at c' \<noteq> None)"
    and "vs_events (snd (emit w st x s)) = vs_events s @ [(st, x)]"
    and "vs_requests (snd (emit w st x s)) = vs_requests s"
    and "callback_ok w (length (vs_events s)) \<Longrightarrow> fst (emit w st x s) = Inr ()"
  using assms by (simp_all add: emit_def Let_def ended_call_def)

lemma send_request_keeps:
  assumes "send_request w u m p s = (r, s')"
  shows "vs_call s' = vs_call s" and "vs_events s' = vs_events s"
    and "length (vs_requests s') = Suc (length (vs_requests s))"
  using assms by (auto simp: send_request_def)

lemma fetch_raw_keeps:
  assumes "fetch_raw w u m p s = (b, s')"
  shows "vs_call s' = vs_call s" and "vs_events s' = vs_events s"
    and "length (vs_requests s') = Suc (length (vs_requests s))"
  using assms send_request_keeps [of w u "if upper m = ''GET'' then ''GET'' else ''POST''" p s]
  by (auto simp: fetch_raw_def split: prod.splits option.splits)

lemma fetch_ir_keeps:
  assumes "fetch_ir w env u m s = (r, s')"
  shows "vs_call s' = vs_call s" and "vs_events s' = vs_events s"
    and "length (vs_requests s') = Suc (length (vs_requests s))"
  using assms send_request_keeps [of w u "if m = ''GET'' then ''GET'' else ''POST''"
      "[(''CallSid'', v_call_id env), (''CallStatus'', ''in-progress''), (''From'', []), (''To'', [])]" s]
  by (auto simp: fetch_ir_def split: prod.splits option.splits)

lemma record_transcript_keeps:
  "vs_events (record_transcript w a s) = vs_events s"
  "vs_requests (record_transcript w a s) = vs_requests s"
  "vs_call s \<noteq> None \<Longrightarrow> vs_call (record_transcript w a s) \<noteq> None"
  by (auto simp: record_transcript_def split: option.splits)

text \<open>What executing a document may add: dial announcements, then possibly a cancellation, and at
  most one request per level.\<close>

definition executed :: "nat \<Rightarrow> voice_state \<Rightarrow> unit result \<times> voice_state \<Rightarrow> bool" where
  "executed depth s r \<longleftrightarrow> vs_call (snd r) \<noteq> None \<and>
     length (vs_requests (snd r)) \<le> length (vs_requests s) + depth + 1 \<and>
     (\<exists>ds c. set c \<subseteq> {''canceled''} \<and> length c \<le> 1 \<and>
        map fst (vs_events (snd r)) = map fst (vs_events s) @ replicate ds ''dialing'' @ c)"

lemma executed_prefix:
  assumes "executed n t r" and "length (vs_requests t) + n \<le> length (vs_requests s) + m"
    and "map fst (vs_events t) = map fst (vs_events s) @ replicate k ''dialing''"
  shows "executed m s r"
proof -
  obtain ds c where "set c \<subseteq> {''canceled''}" "length c \<le> 1"
      "map fst (vs_events (snd r)) = map fst (vs_events t) @ replicate ds ''dialing'' @ c"
    using assms(1) by (auto simp: executed_def)
  then have "map fst (vs_events (snd r)) = map fst (vs_events s) @ replicate (k + ds) ''dialing'' @ c"
    using assms(3) by (simp add: replicate_add)
  with \<open>set c \<subseteq> _\<close> \<open>length c \<le> 1\<close> assms(1,2) show ?thesis
    unfolding executed_def by (intro conjI exI [of _ "k + ds"] exI [of _ c]) auto
qed

lemma execute_ir_executed:
  "vs_call s \<noteq> None \<Longrightarrow> executed depth s (execute_ir w env depth as s)"
proof (induction w env depth as s rule: execute_ir.induct)
  case (1 w env depth s)
  then show ?case by (auto simp: executed_def intro!: exI [of _ 0] exI [of _ "[]"])
next
  case (2 w env depth a as s0)
  define s where "s = record_transcript w a s0"
  note keep = record_transcript_keeps [where w = w and a = a and s = s0, folded s_def]
  have present: "vs_call s \<noteq> None" using keep(3) "2.prems" by simp
  have stay: "executed depth s0 r" if "executed depth s r" for r
    using executed_prefix [OF that, of s0 depth 0] keep by simp
  show ?case
  proof (cases "directive_of env a")
    case Stop
    then show ?thesis
      using present keep by (auto simp: executed_def s_def [symmetric] intro!: exI [of _ 0] exI [of _ "[]"])
  next
    case Cancel
    obtain c where c: "vs_call s = Some c" using present by auto
    have "executed depth s (emit w ''canceled'' JNull s)"
      using emit_present [OF c, of w "''canceled''" JNull]
      by (auto simp: executed_def intro!: exI [of _ 0] exI [of _ "[''canceled'']"])
    then show ?thesis using Cancel stay by (simp add: s_def [symmetric])
  next
    case (Dialing d)
    obtain c where c: "vs_call s = Some c" using present by auto
    obtain r s' where e: "emit w ''dialing'' d s = (r, s')" by fastforce
    note em = emit_present [OF c, of w "''dialing''" d, unfolded e, simplified]
    have ev: "map fst (vs_events s') = map fst (vs_events s) @ replicate 1 ''dialing''" using em(2) by simp
    show ?thesis
    proof (cases r)
      case (Inl x)
      have "executed depth s (Inl x, s')"
        using em ev by (auto simp: executed_def intro!: exI [of _ 1] exI [of _ "[]"])
      with Inl Dialing e stay show ?thesis by (simp add: s_def [symmetric])
    next
      case (Inr y)
      have "executed depth s' (execute_ir w env depth as s')"
        using "2.IH"(2) [OF s_def Dialing e [symmetric] Inr] em(1) by auto
      from executed_prefix [OF this _ ev] em(3) have "executed depth s (execute_ir w env depth as s')" by simp
      with Inr Dialing e stay show ?thesis by (simp add: s_def [symmetric])
    qed
  next
    case (Follow url meth p)
    obtain body s' where f: "fetch_raw w url meth p s = (body, s')" by fastforce
    note fk = fetch_raw_keeps [OF f]
    have lost: "executed depth s (Inl x, s')" for x
      using fk present by (auto simp: executed_def intro!: exI [of _ 0] exI [of _ "[]"])
    show ?thesis
    proof (cases "parse_for_provider (dec w) (v_provider env) body")
      case (Inl x)
      with Follow f lost stay show ?thesis by (simp add: s_def [symmetric])
    next
      case (Inr ir)
      show ?thesis
      proof (cases depth)
        case 0
        with Inr Follow f lost stay show ?thesis by (simp add: s_def [symmetric])
      next
        case (Suc n)
        have "executed n s' (execute_ir w env n (ir_actions ir) s')"
          using "2.IH"(1) [OF s_def Follow f [symmetric] Inr Suc] fk(1) present by simp
        from executed_prefix [OF this, of s depth 0] fk Suc
        have "executed depth s (execute_ir w env n (ir_actions ir) s')" by simp
        with Suc Inr Follow f stay show ?thesis by (simp add: s_def [symmetric])
      qed
    qed
  next
    case Go_on
    then have "executed depth s (execute_ir w env depth as s)"
      using "2.IH"(3) [OF s_def Go_on] present by simp
    with Go_on stay show ?thesis by (simp add: s_def [symmetric])
  qed
qed

text \<open>Running a call: what is true when it returns, normally or by an exception.\<close>

lemma run_call_outcome:
  assumes "vs_call s = Some c" and "run_call w env depth s = (r, s')"
  shows "vs_call s' \<noteq> None \<and> length (vs_requests s') \<le> length (vs_requests s) + depth + 2 \<and>
    (\<not> isl r \<longrightarrow> (\<exists>c' es. vs_call s' = Some c' \<and> c_status c' = ''completed'' \<and> c_ended_at c' \<noteq> None \<and>
       vs_events s' = es @ [(''completed'', JNull)]))"
proof -
  have fin: "final_status ''completed''" by (simp add: final_status_def)
  have done_call: "\<exists>c' es. vs_call t' = Some c' \<and> c_status c' = ''completed'' \<and> c_ended_at c' \<noteq> None \<and>
       vs_events t' = es @ [(''completed'', JNull)] \<and> vs_requests t' = vs_requests t"
    if "finish w ''completed'' t = (x, t')" "vs_call t = Some d" for t t' x d
    using emit_present(1-3) [OF that(2), of w "''completed''" JNull] that(1) fin
    by (simp add: finish_def)
  obtain r1 s1 where e1: "emit w ''initiated'' JNull s = (r1, s1)" by fastforce
  obtain c1 where c1: "vs_call s1 = Some c1" "vs_requests s1 = vs_requests s"
    using emit_present(1,3) [OF assms(1), of w "''initiated''" JNull] e1 by auto
  obtain r2 s2 where e2: "emit w ''ringing'' JNull s1 = (r2, s2)" by fastforce
  obtain c2 where c2: "vs_call s2 = Some c2" "vs_requests s2 = vs_requests s"
    using emit_present(1,3) [OF c1(1), of w "''ringing''" JNull] e2 c1(2) by auto
  consider (no1) x where "r1 = Inl x" | (no2) x where "r1 = Inr ()" "r2 = Inl x"
    | (ring) "r1 = Inr ()" "r2 = Inr ()" by (cases r1; cases r2) auto
  then show ?thesis
  proof cases
    case no1
    then show ?thesis using assms(2) e1 c1 by (auto simp: run_call_def)
  next
    case no2
    then show ?thesis using assms(2) e1 e2 c2 by (auto simp: run_call_def)
  next
    case ring
    obtain u m where u: "load_answer_url s2 = (u, m)" by fastforce
    show ?thesis
    proof (cases u)
      case None
      obtain r3 s3 where e3: "emit w ''answered'' JNull s2 = (r3, s3)" by fastforce
      obtain c3 where c3: "vs_call s3 = Some c3" "vs_requests s3 = vs_requests s"
        using emit_present(1,3) [OF c2(1), of w "''answered''" JNull] e3 c2(2) by auto
      obtain r4 s4 where e4: "finish w ''completed'' s3 = (r4, s4)" by fastforce
      show ?thesis
        using assms(2) ring e1 e2 u None e3 e4 c3 done_call [OF e4 c3(1)]
        by (cases r3) (auto simp: run_call_def)
    next
      case (Some url)
      obtain ri s3 where f: "fetch_ir w env url m s2 = (ri, s3)" by fastforce
      note fk = fetch_ir_keeps [OF f]
      show ?thesis
      proof (cases ri)
        case (Inl x)
        then show ?thesis using assms(2) ring e1 e2 u Some f fk c2 by (auto simp: run_call_def)
      next
        case (Inr ir)
        obtain r4 s4 where e4: "emit w ''answered'' JNull s3 = (r4, s4)" by fastforce
        obtain c4 where c4: "vs_call s4 = Some c4" "length (vs_requests s4) = Suc (length (vs_requests s))"
          using emit_present(1,3) [of s3 c2 w "''answered''" JNull] e4 fk c2 by auto
        obtain r5 s5 where e5: "execute_ir w env depth (ir_actions ir) s4 = (r5, s5)" by fastforce
        have x: "executed depth s4 (r5, s5)" using execute_ir_executed [of s4 depth w env "ir_actions ir"] e5 c4 by simp
        then obtain c5 where c5: "vs_call s5 = Some c5" "length (vs_requests s5) \<le> length (vs_requests s) + depth + 2"
          using c4(2) by (auto simp: executed_def)
        obtain r6 s6 where e6: "finish w ''completed'' s5 = (r6, s6)" by fastforce
        show ?thesis
          using assms(2) ring e1 e2 u Some f Inr e4 c4 e5 c5 e6 done_call [OF e6 c5(1)]
          by (cases r4; cases r5) (auto simp: run_call_def)
      qed
    qed
  qed
qed

text \<open>C14: every call ends. Whatever the application answers (also documents that redirect for ever,
  documents that do not parse, and attributes that are not numbers), whatever the status
  callbacks do and however deep the interpreter recurses, driving a call returns with the
  call completed or failed, its end time set and that status the last one reported, after at
  most \<open>depth + 2\<close> requests.\<close>

theorem call_always_ends:
  assumes "vs_call s = Some c"
  shows "\<exists>c'. vs_call (drive_call w env depth s) = Some c' \<and>
    c_status c' \<in> {''completed'', ''failed''} \<and> c_ended_at c' \<noteq> None \<and>
    fst (last (vs_events (drive_call w env depth s))) = c_status c' \<and>
    length (vs_requests (drive_call w env depth s)) \<le> length (vs_requests s) + depth + 2"
proof -
  obtain r s' where r: "run_call w env depth s = (r, s')" by fastforce
  note out = run_call_outcome [OF assms r]
  show ?thesis
  proof (cases r)
    case (Inr x)
    then show ?thesis using out r by (auto simp: drive_call_def)
  next
    case (Inl e)
    obtain c' where c': "vs_call s' = Some c'" using out by auto
    have "final_status ''failed''" by (simp add: final_status_def)
    then show ?thesis
      using emit_present(1-3) [OF c', of w "''failed''" JNull] out r Inl
      by (auto simp: drive_call_def finish_def)
  qed
qed

lemma emit_Inr:
  assumes "emit w st x s = (Inr u, s')" and "vs_call s = Some c"
  shows "\<exists>c'. vs_call s' = Some c' \<and> c_answer_url c' = c_answer_url c" and "vs_events s' = vs_events s @ [(st, x)]"
  using assms by (auto simp: emit_def Let_def ended_call_def split: if_splits)

text \<open>A server that answers every request with one document, a redirect back to itself or a
  rejection.\<close>

definition demo_doc :: "element \<Rightarrow> element" where
  "demo_doc e = Element ''Response'' None [] [e]"

definition demo_redirect :: element where
  "demo_redirect = Element ''Redirect'' (Some ''http://app/again'') [(''method'', ''GET'')] []"

definition demo_reject :: element where
  "demo_reject = Element ''Reject'' None [] []"

definition demo_world :: "element \<Rightarrow> voice_world" where
  "demo_world e = \<lparr>answer = (\<lambda>n u m p. Some ''doc''), clock = int, callback_ok = (\<lambda>n. True),
     dec = \<lparr>xml_tree = (\<lambda>b. Some (demo_doc e)), json_value = (\<lambda>b. None), python_repr = (\<lambda>v. [])\<rparr>\<rparr>"

definition demo_envelope :: envelope where
  "demo_envelope = \<lparr>v_call_id = ''CA1'', v_provider = ''twilio'', v_seed_digits = [], v_seed_speech = []\<rparr>"

definition demo_call :: call where
  "demo_call = \<lparr>c_id = ''CA1'', c_status = ''queued'', c_answer_url = Some ''http://app'', c_answer_method = None,
     c_answered_at = None, c_ended_at = None, c_duration = None, c_transcript = []\<rparr>"

definition demo_voice :: voice_state where
  "demo_voice = \<lparr>vs_call = Some demo_call, vs_requests = [], vs_events = [], vs_ticks = 0\<rparr>"

theorem call_always_ends_witness:
  "\<exists>c'. vs_call (drive_call (demo_world demo_redirect) demo_envelope 3 demo_voice) = Some c' \<and>
     c_status c' \<in> {''completed'', ''failed''} \<and>
     length (vs_requests (drive_call (demo_world demo_redirect) demo_envelope 3 demo_voice)) \<le> 5"
proof -
  have "vs_call demo_voice = Some demo_call" "vs_requests demo_voice = []" by (simp_all add: demo_voice_def)
  with call_always_ends [OF this(1), of "demo_world demo_redirect" demo_envelope 3] show ?thesis by auto
qed

text \<open>the order of the reported states. When no exception interrupts it, a call reports
  initiated, ringing and answered, then one dialing per dial action, then canceled if it ran
  into a reject, and always completed at the end, so that a rejected call is left with the
  status completed.\<close>

theorem lifecycle_order:
  assumes "vs_call s = Some c" and "vs_events s = []" and "run_call w env depth s = (Inr u, s')"
  shows "\<exists>k x. x \<in> {[], [''canceled'']} \<and> map fst (vs_events (drive_call w env depth s)) =
    [''initiated'', ''ringing'', ''answered''] @ replicate k ''dialing'' @ x @ [''completed'']"
proof -
  obtain s1 s2 where e: "emit w ''initiated'' JNull s = (Inr (), s1)" "emit w ''ringing'' JNull s1 = (Inr (), s2)"
    using assms(3) by (auto simp: run_call_def split: prod.splits sum.splits)
  obtain c1 where c1: "vs_call s1 = Some c1" using emit_Inr(1) [OF e(1) assms(1)] by auto
  obtain c2 where c2: "vs_call s2 = Some c2" using emit_Inr(1) [OF e(2) c1] by auto
  have ev2: "map fst (vs_events s2) = [''initiated'', ''ringing'']"
    using emit_Inr(2) [OF e(1) assms(1)] emit_Inr(2) [OF e(2) c1] assms(2) by simp
  have d: "drive_call w env depth s = s'" using assms(3) by (simp add: drive_call_def)
  obtain url m where l: "load_answer_url s2 = (url, m)" by fastforce
  show ?thesis
  proof (cases url)
    case None
    obtain s3 where e3: "emit w ''answered'' JNull s2 = (Inr (), s3)" "finish w ''completed'' s3 = (Inr u, s')"
      using assms(3) e l None by (auto simp: run_call_def split: prod.splits sum.splits)
    obtain c3 where c3: "vs_call s3 = Some c3" using emit_Inr(1) [OF e3(1) c2] by auto
    show ?thesis
      using emit_Inr(2) [OF e3(1) c2] emit_Inr(2) [OF e3(2) [unfolded finish_def] c3] ev2 d
      by (intro exI [of _ 0] exI [of _ "[]"]) simp
  next
    case (Some a)
    obtain ir s3 s4 s5 where f: "fetch_ir w env a m s2 = (Inr ir, s3)"
        "emit w ''answered'' JNull s3 = (Inr (), s4)" "execute_ir w env depth (ir_actions ir) s4 = (Inr (), s5)"
        "finish w ''completed'' s5 = (Inr u, s')"
      using assms(3) e l Some by (auto simp: run_call_def split: prod.splits sum.splits)
    note fk = fetch_ir_keeps [OF f(1)]
    have c3: "vs_call s3 = Some c2" using fk(1) c2 by simp
    obtain c4 where c4: "vs_call s4 = Some c4" using emit_Inr(1) [OF f(2) c3] by auto
    have "executed depth s4 (Inr (), s5)"
      using execute_ir_executed [of s4 depth w env "ir_actions ir"] f(3) c4 by simp
    then obtain k x where x: "set x \<subseteq> {''canceled''}" "length x \<le> 1" "vs_call s5 \<noteq> None"
        "map fst (vs_events s5) = map fst (vs_events s4) @ replicate k ''dialing'' @ x"
      by (auto simp: executed_def)
    then have "x \<in> {[], [''canceled'']}" by (cases x; cases "tl x") auto
    moreover obtain c5 where "vs_call s5 = Some c5" using x(3) by auto
    ultimately show ?thesis
      using emit_Inr(2) [OF f(2) c3] emit_Inr(2) [OF f(4) [unfolded finish_def], of c5] x(4) ev2 d fk(2)
      by (intro exI [of _ k] exI [of _ x]) simp
  qed
qed

theorem lifecycle_order_witness:
  "\<exists>s'. run_call (demo_world demo_reject) demo_envelope 3 demo_voice = (Inr (), s') \<and>
     map fst (vs_events s') = [''initiated'', ''ringing'', ''answered'', ''canceled'', ''completed''] \<and>
     last (map fst (vs_events (drive_call (demo_world demo_reject) demo_envelope 3 demo_voice))) = ''completed''"
proof -
  let ?r = "run_call (demo_world demo_reject) demo_envelope 3 demo_voice"
  have ok: "fst ?r = Inr ()" and tr: "map fst (vs_events (snd ?r)) =
      [''initiated'', ''ringing'', ''answered'', ''canceled'', ''completed'']" by code_simp+
  obtain x s' where x: "?r = (x, s')" by (rule prod.exhaust)
  have r: "?r = (Inr (), s')" and ev: "map fst (vs_events s') =
      [''initiated'', ''ringing'', ''answered'', ''canceled'', ''completed'']"
    using ok tr unfolding x by simp_all
  have "vs_call demo_voice = Some demo_call" "vs_events demo_voice = []" by (simp_all add: demo_voice_def)
  from lifecycle_order [OF this r] obtain k x where
    "map fst (vs_events (drive_call (demo_world demo_reject) demo_envelope 3 demo_voice)) =
       [''initiated'', ''ringing'', ''answered''] @ replicate k ''dialing'' @ x @ [''completed'']" by blast
  then have "last (map fst (vs_events (drive_call (demo_world demo_reject) demo_envelope 3 demo_voice))) = ''completed''"
    by simp
  with r ev show ?thesis by (intro exI conjI)
qed

section \<open>Redirects\<close>

lemma redirect_method_default:
  assumes "parse_for_provider dc p body = Inr ir" and "a \<in> set (ir_actions ir)" and "va_type a = REDIRECT"
  shows "va_action_method a = ''POST'' \<and> va_action_url a = None"
proof -
  let ?P = "\<lambda>a. va_type a = REDIRECT \<longrightarrow> va_action_method a = ''POST'' \<and> va_action_url a = None"
  have t: "?P b" if "twiml_verb e = Inr (Some b)" for e b
    using that by (auto simp: twiml_verb_def Let_def bind_res_eq_Inr_iff voice_action_def split: if_splits)
  have x: "?P b" if "bxml_verb e = Inr (Some b)" for e b
    using that by (auto simp: bxml_verb_def Let_def bind_res_eq_Inr_iff voice_action_def split: if_splits)
  have l: "?P b" if "plivo_verb e = Inr (Some b)" for e b
    using that by (auto simp: plivo_verb_def Let_def bind_res_eq_Inr_iff voice_action_def split: if_splits)
  have n: "?P b" if "ncco_entry rp v = Inr (Some b)" for rp v b
    using that
    by (auto simp: ncco_entry_def ncco_action_def Let_def bind_res_eq_Inr_iff voice_action_def
        split: if_splits json.splits)
  have xml: "list_all ?P (ir_actions i)"
    if "parse_xml_dialect fs verb dl body = Inr i" "\<And>e b. verb e = Inr (Some b) \<Longrightarrow> ?P b" for fs verb dl i
    using that(1) collect_actions [of verb _ _ ?P] that(2)
    by (auto simp: parse_xml_dialect_def Let_def bind_res_eq_Inr_iff split: option.splits if_splits)
  have "list_all ?P (ir_actions ir)"
  proof -
    consider "p = ''twilio''" | "p = ''bandwidth''" | "p = ''plivo''" | "p = ''telnyx''" | "p = ''vonage''"
      | "p \<notin> {''twilio'', ''bandwidth'', ''plivo'', ''telnyx'', ''vonage''}" by blast
    then show ?thesis
    proof cases
      case 1
      then show ?thesis using assms(1) xml [OF _ t] by (simp add: parse_for_provider_def parse_twiml_def)
    next
      case 2
      then show ?thesis using assms(1) xml [OF _ x] by (simp add: parse_for_provider_def parse_bxml_def)
    next
      case 3
      then show ?thesis using assms(1) xml [OF _ l] by (simp add: parse_for_provider_def parse_plivo_xml_def)
    next
      case 4
      then show ?thesis using assms(1) xml [OF _ t]
        by (auto simp: parse_for_provider_def parse_texml_def parse_twiml_def bind_res_eq_Inr_iff)
    next
      case 5
      then show ?thesis using assms(1) collect_actions [of "ncco_entry (python_repr dc)" _ _ ?P] n
        by (auto simp: parse_for_provider_def parse_ncco_def Let_def bind_res_eq_Inr_iff
            split: option.splits json.splits)
    next
      case 6
      then show ?thesis using assms(1) by (auto simp: parse_for_provider_def)
    qed
  qed
  with assms(2,3) show ?thesis by (simp add: list_all_iff)
qed

text \<open>a redirect is always followed with POST. Whatever dialect the document is in and whatever
  method its redirect names, the follow-up request of a redirect action uses POST: the
  action's own default method shadows the one the parser stored.\<close>

theorem redirect_always_posts:
  assumes "parse_for_provider dc p body = Inr ir" and "a \<in> set (ir_actions ir)" and "va_type a = REDIRECT"
    and "directive_of env a = Follow u meth pl"
  shows "meth = ''POST'' \<and> va_url a = Some u \<and> pl = [(''CallSid'', v_call_id env)]"
  using redirect_method_default [OF assms(1-3)] assms(3,4)
  by (cases "va_url a") (auto simp: directive_of_def Let_def or_text_def gather_payload_def split: if_splits)

theorem redirect_always_posts_witness:
  "\<exists>a. twiml_verb demo_redirect = Inr (Some a) \<and> va_method a = ''GET'' \<and>
     directive_of demo_envelope a = Follow ''http://app/again'' ''POST'' [(''CallSid'', ''CA1'')]"
proof -
  obtain a where a: "twiml_verb demo_redirect = Inr (Some a)" "va_method a = ''GET''" "va_type a = REDIRECT"
      "va_url a = Some ''http://app/again''" "va_action_url a = None"
  proof -
    have "strip ''http://app/again'' = ''http://app/again''" "lower ''Redirect'' = ''redirect''"
      "lower ''method'' = ''method''" "upper ''GET'' = ''GET''" by code_simp+
    then show ?thesis
      by (intro that [of "(voice_action REDIRECT)\<lparr>va_url := Some ''http://app/again'', va_method := ''GET''\<rparr>"])
        (simp_all add: twiml_verb_def demo_redirect_def etext_def attr_or_def attrs_def voice_action_def)
  qed
  let ?ir = "\<lparr>ir_actions = [a], ir_dialect = ''twiml'', ir_raw = []\<rparr>"
  have "lower ''Response'' = ''response''" by code_simp
  then have p: "parse_for_provider (dec (demo_world demo_redirect)) ''twilio'' [] = Inr ?ir"
    using a(1) by (simp add: parse_for_provider_def parse_twiml_def parse_xml_dialect_def demo_world_def demo_doc_def)
  obtain meth pl where d: "directive_of demo_envelope a = Follow ''http://app/again'' meth pl"
    using a by (simp add: directive_of_def or_text_def)
  have "a \<in> set (ir_actions ?ir)" by simp
  from redirect_always_posts [OF p this a(3) d] a d show ?thesis by (auto simp: demo_envelope_def)
qed

end
