(* ===== verification/Webhook.thy ===== *)
theory Webhook
  imports Json
begin

text \<open>
  \<^verbatim>\<open>sandbox/webhook_worker.py\<close>: delivering a stored message to the registered
  endpoints. The provider plugin (payload, content type, signature), the two encoders and the
  receiver's answers are parameters; the delivery rows and the pauses are the result.
\<close>

section \<open>Rewriting local addresses\<close>

text \<open>The regular expression, part by part: a literal prefix in any case, digits, and a path that
  does not contain a newline except for one at the very end, which the pattern leaves out.\<close>

definition strip_prefix_ci :: "string \<Rightarrow> string \<Rightarrow> (string \<times> string) option" where
  "strip_prefix_ci p s =
     (if lower (take (length p) s) = p then Some (take (length p) s, drop (length p) s) else None)"

definition first_prefix_ci :: "string list \<Rightarrow> string \<Rightarrow> (string \<times> string) option" where
  "first_prefix_ci ps s =
     (case filter (\<lambda>p. lower (take (length p) s) = p) ps of [] \<Rightarrow> None | p # _ \<Rightarrow> strip_prefix_ci p s)"

definition drop_final_newline :: "string \<Rightarrow> string" where
  "drop_final_newline s = (if s \<noteq> [] \<and> last s = CHR 0x0A then butlast s else s)"

definition local_path :: "string \<Rightarrow> string option" where
  "local_path r =
     (let t = drop_final_newline r
      in if t = [] then Some ''/''
         else if hd t = CHR ''/'' \<and> CHR 0x0A \<notin> set t then Some t else None)"

definition rewrite_localhost_url :: "string \<Rightarrow> string" where
  "rewrite_localhost_url url =
     (case first_prefix_ci [''http://'', ''https://''] url of
        None \<Rightarrow> url
      | Some (scheme, r1) \<Rightarrow>
          (case first_prefix_ci [''localhost:'', ''127.0.0.1:''] r1 of
             None \<Rightarrow> url
           | Some (host, r2) \<Rightarrow>
               if takeWhile is_digit r2 = [] then url
               else (case local_path (dropWhile is_digit r2) of
                       None \<Rightarrow> url
                     | Some p \<Rightarrow> scheme @ host @ ''80'' @ p)))"

section \<open>Encoding\<close>

record encoders =
  json_dumps :: "json \<Rightarrow> string"
  urlencode :: "(string \<times> string) list \<Rightarrow> string"
  str_of :: "json \<Rightarrow> string"

definition serialise_payload :: "encoders \<Rightarrow> json \<Rightarrow> string \<Rightarrow> string \<times> string" where
  "serialise_payload enc payload content_type =
     (if content_type = ''form''
      then (case payload of
              JObj d \<Rightarrow> (urlencode enc (map (\<lambda>(k, v). (k, if v = JNull then [] else str_of enc v)) d),
                         ''application/x-www-form-urlencoded'')
            | _ \<Rightarrow> (json_dumps enc payload, ''application/json''))
      else (json_dumps enc payload, ''application/json''))"

section \<open>Delivery\<close>

datatype http_answer = Response nat string | NetworkError string

record webhook_endpoint =
  we_id :: string
  we_provider_id :: string
  we_url :: string
  we_event_types :: "string list"
  we_is_active :: bool

record sandbox_message =
  sm_id :: string
  sm_provider_id :: string
  sm_direction :: string
  sm_sender :: string
  sm_content :: json

record webhook_delivery =
  wd_endpoint_id :: string
  wd_message_id :: string
  wd_event_type :: string
  wd_payload :: json
  wd_attempt :: nat
  wd_status_code :: "nat option"
  wd_response_body :: string
  wd_delivered_at :: "time option"

record post =
  po_url :: string
  po_body :: string
  po_headers :: "(string \<times> string) list"

record plugin =
  build_payload :: "sandbox_message \<Rightarrow> string \<Rightarrow> json result"
  content_type_label :: "sandbox_message \<Rightarrow> string \<Rightarrow> string"
  sign :: "string \<Rightarrow> string \<Rightarrow> (string \<times> string) list \<Rightarrow> (string \<times> string) list"

definition max_retries :: nat where
  "max_retries = 3"

definition backoff_base :: nat where
  "backoff_base = 1"

definition event_type_of :: "sandbox_message \<Rightarrow> string" where
  "event_type_of m = (if sm_direction m = ''inbound'' then ''message.received'' else ''message.created'')"

definition default_payload :: "sandbox_message \<Rightarrow> json" where
  "default_payload m =
     JObj [(''event'', JStr (event_type_of m)),
       (''message'', JObj [(''id'', JStr (sm_id m)), (''direction'', JStr (sm_direction m)),
          (''sender'', JStr (sm_sender m)), (''content'', sm_content m)])]"

definition delivery_row ::
  "webhook_endpoint \<Rightarrow> sandbox_message \<Rightarrow> json \<Rightarrow> nat \<Rightarrow> time \<Rightarrow> http_answer \<Rightarrow> webhook_delivery" where
  "delivery_row ep m payload attempt now ans =
     \<lparr>wd_endpoint_id = we_id ep, wd_message_id = sm_id m, wd_event_type = event_type_of m,
      wd_payload = (case payload of JObj d \<Rightarrow> JObj d | v \<Rightarrow> JObj [(''__array__'', v)]),
      wd_attempt = attempt,
      wd_status_code = (case ans of Response s _ \<Rightarrow> Some s | NetworkError _ \<Rightarrow> None),
      wd_response_body = take 2000 (case ans of Response _ b \<Rightarrow> b | NetworkError e \<Rightarrow> e),
      wd_delivered_at = (case ans of Response _ _ \<Rightarrow> Some now | NetworkError _ \<Rightarrow> None)\<rparr>"

definition accepted :: "http_answer \<Rightarrow> bool" where
  "accepted ans = (case ans of Response s _ \<Rightarrow> s < 400 | NetworkError _ \<Rightarrow> False)"

text \<open>The attempts from \<open>attempt\<close> on: the rows written, the requests sent and the pauses, in seconds.
  \<open>reply k\<close> is what the receiver does on attempt \<open>k\<close>, \<open>clk k\<close> when.\<close>

function attempts :: "webhook_endpoint \<Rightarrow> sandbox_message \<Rightarrow> json \<Rightarrow> post \<Rightarrow> (nat \<Rightarrow> post \<Rightarrow> http_answer)
    \<Rightarrow> (nat \<Rightarrow> time) \<Rightarrow> nat \<Rightarrow> webhook_delivery list \<times> post list \<times> nat list" where
  "attempts ep m payload p reply clk attempt =
     (if attempt > max_retries then ([], [], [])
      else (let ans = reply attempt p; row = delivery_row ep m payload attempt (clk attempt) ans
            in if accepted ans then ([row], [p], [])
               else (case attempts ep m payload p reply clk (attempt + 1) of
                       (rows, ps, ws) \<Rightarrow>
                         (row # rows, p # ps,
                          (if attempt < max_retries then [backoff_base * 4 ^ (attempt - 1)] else []) @ ws))))"
  by pat_completeness auto

termination by (relation "measure (\<lambda>(_, _, _, _, _, _, n). Suc max_retries - n)") auto

declare attempts.simps [simp del]

definition deliver_to_endpoint ::
  "encoders \<Rightarrow> plugin option \<Rightarrow> webhook_endpoint \<Rightarrow> sandbox_message \<Rightarrow> (nat \<Rightarrow> post \<Rightarrow> http_answer) \<Rightarrow> (nat \<Rightarrow> time)
     \<Rightarrow> (webhook_delivery list \<times> post list \<times> nat list) result" where
  "deliver_to_endpoint enc pl ep m reply clk =
     bind_res (case pl of
                 Some g \<Rightarrow> bind_res (build_payload g m (event_type_of m)) (\<lambda>v.
                   Inr (v, content_type_label g m (event_type_of m)))
               | None \<Rightarrow> Inr (default_payload m, ''json'')) (\<lambda>(payload, label).
     let (body, ctype) = serialise_payload enc payload label;
         base = [(''Content-Type'', ctype), (''User-Agent'', ''MailCue-Sandbox/1.0'')];
         url = rewrite_localhost_url (we_url ep);
         headers = (case pl of None \<Rightarrow> base | Some g \<Rightarrow> sign g url body base)
     in Inr (attempts ep m payload \<lparr>po_url = url, po_body = body, po_headers = headers\<rparr> reply clk 1))"

text \<open>The loop over the endpoints; \<open>provider\<close> is the outcome of the lookups of the provider's row
  and of its plugin.\<close>

fun deliver_each ::
  "encoders \<Rightarrow> plugin option \<Rightarrow> webhook_endpoint list \<Rightarrow> sandbox_message \<Rightarrow> (string \<Rightarrow> nat \<Rightarrow> post \<Rightarrow> http_answer)
     \<Rightarrow> (string \<Rightarrow> nat \<Rightarrow> time) \<Rightarrow> webhook_delivery list result" where
  "deliver_each enc pl [] m reply clk = Inr []"
| "deliver_each enc pl (ep # eps) m reply clk =
     bind_res (deliver_to_endpoint enc pl ep m (reply (we_id ep)) (clk (we_id ep))) (\<lambda>(rows, _, _).
     bind_res (deliver_each enc pl eps m reply clk) (\<lambda>rest. Inr (rows @ rest)))"

definition deliver_webhooks ::
  "encoders \<Rightarrow> plugin option option \<Rightarrow> webhook_endpoint list \<Rightarrow> sandbox_message
     \<Rightarrow> (string \<Rightarrow> nat \<Rightarrow> post \<Rightarrow> http_answer) \<Rightarrow> (string \<Rightarrow> nat \<Rightarrow> time) \<Rightarrow> webhook_delivery list result" where
  "deliver_webhooks enc provider all_endpoints m reply clk =
     (let eps = filter (\<lambda>e. we_provider_id e = sm_provider_id m \<and> we_is_active e) all_endpoints
      in if eps = [] then Inr []
         else (case provider of None \<Rightarrow> Inr [] | Some pl \<Rightarrow> deliver_each enc pl eps m reply clk))"

section \<open>Lemmas\<close>

text \<open>The loop, unfolded: \<open>n\<close> is the number of the last attempt.\<close>

lemma attempts_outcome:
  assumes "attempts ep m payload p reply clk 1 = (rows, ps, ws)"
  obtains n where "n \<in> {1, 2, 3}" and "ps = replicate n p"
    and "rows = map (\<lambda>j. delivery_row ep m payload j (clk j) (reply j p)) [1..<n + 1]"
    and "ws = take (n - 1) [1, 4]" and "\<forall>j \<in> {1..<n}. \<not> accepted (reply j p)"
    and "n < 3 \<longrightarrow> accepted (reply n p)"
proof -
  have r: "max_retries = 3" "backoff_base = 1" by (simp_all add: max_retries_def backoff_base_def)
  note unfold = attempts.simps [of ep m payload p reply clk, simplified r Let_def]
  have u4: "attempts ep m payload p reply clk 4 = ([], [], [])" by (simp add: unfold)
  have u3: "attempts ep m payload p reply clk 3 =
      ([delivery_row ep m payload 3 (clk 3) (reply 3 p)], [p], [])"
    by (simp add: unfold [of 3] u4)
  have u2: "attempts ep m payload p reply clk 2 =
      (if accepted (reply 2 p) then ([delivery_row ep m payload 2 (clk 2) (reply 2 p)], [p], [])
       else ([delivery_row ep m payload 2 (clk 2) (reply 2 p), delivery_row ep m payload 3 (clk 3) (reply 3 p)],
             [p, p], [4]))"
    by (simp add: unfold [of 2] u3)
  have u1: "attempts ep m payload p reply clk 1 =
      (if accepted (reply 1 p) then ([delivery_row ep m payload 1 (clk 1) (reply 1 p)], [p], [])
       else (case attempts ep m payload p reply clk 2 of
               (rows, ps, ws) \<Rightarrow> (delivery_row ep m payload 1 (clk 1) (reply 1 p) # rows, p # ps, 1 # ws)))"
    by (subst unfold [of 1]) (simp add: numeral_2_eq_2)
  have l: "[1..<2] = [1]" "[1..<3] = [1, 2]" "[1..<4] = [1, 2, (3::nat)]"
    by (simp_all add: upt_rec)
  show thesis
  proof (cases "accepted (reply 1 p)")
    case True
    then show thesis using assms u1 l by (intro that [of 1]) (simp_all add: numeral_2_eq_2)
  next
    case first: False
    show thesis
    proof (cases "accepted (reply 2 p)")
      case True
      have "\<forall>j \<in> {1..<2::nat}. \<not> accepted (reply j p)" using first by (auto simp: less_Suc_eq numeral_2_eq_2)
      then show thesis using True assms u1 u2 first l by (intro that [of 2]) (simp_all add: numeral_2_eq_2 numeral_3_eq_3)
    next
      case False
      have "\<forall>j \<in> {1..<3::nat}. \<not> accepted (reply j p)"
        using first False by (auto simp: less_Suc_eq numeral_2_eq_2 numeral_3_eq_3)
      then show thesis
        using False assms u1 u2 first l by (intro that [of 3]) (simp_all add: numeral_2_eq_2 numeral_3_eq_3 eval_nat_numeral)
    qed
  qed
qed

lemma attempts_event_types:
  "attempts (ep\<lparr>we_event_types := ts\<rparr>) m payload p reply clk k = attempts ep m payload p reply clk k"
proof (induction ep m payload p reply clk k rule: attempts.induct)
  case (1 ep m payload p reply clk k)
  have row: "delivery_row (ep\<lparr>we_event_types := ts\<rparr>) m payload k (clk k) a = delivery_row ep m payload k (clk k) a" for a
    by (simp add: delivery_row_def)
  show ?case
    using 1 by (subst (1 2) attempts.simps) (simp add: row Let_def)
qed

section \<open>Properties\<close>

text \<open>an endpoint gets at most three attempts, one more only after a failure. The same signed
  request is sent to the rewritten URL 1, 2 or 3 times; every attempt is recorded under its
  number; all but the last were rejected or failed, and stopping before the third means the
  last was accepted; the pauses between them are 1 and 4 seconds. The event types the
  endpoint registered for play no part.\<close>

theorem webhook_attempts:
  assumes "deliver_to_endpoint enc pl ep m reply clk = Inr (rows, ps, ws)"
  shows "\<exists>n p. n \<in> {1, 2, 3} \<and> ps = replicate n p \<and> po_url p = rewrite_localhost_url (we_url ep) \<and>
      map wd_attempt rows = [1..<n + 1] \<and>
      (\<forall>row \<in> set rows. wd_endpoint_id row = we_id ep \<and> wd_message_id row = sm_id m) \<and>
      ws = take (n - 1) [1, 4] \<and> (\<forall>j \<in> {1..<n}. \<not> accepted (reply j p)) \<and>
      (n < 3 \<longrightarrow> accepted (reply n p)) \<and>
    deliver_to_endpoint enc pl (ep\<lparr>we_event_types := ts\<rparr>) m reply clk = Inr (rows, ps, ws)"
proof -
  obtain payload p where a: "attempts ep m payload p reply clk 1 = (rows, ps, ws)"
      "po_url p = rewrite_localhost_url (we_url ep)"
    using assms by (auto simp: deliver_to_endpoint_def bind_res_eq_Inr_iff Let_def case_prod_beta)
  have same: "deliver_to_endpoint enc pl (ep\<lparr>we_event_types := ts\<rparr>) m reply clk = Inr (rows, ps, ws)"
    using assms by (simp add: deliver_to_endpoint_def attempts_event_types)
  from a(1) obtain n where "n \<in> {1, 2, 3}" "ps = replicate n p"
    "rows = map (\<lambda>j. delivery_row ep m payload j (clk j) (reply j p)) [1..<n + 1]"
    "ws = take (n - 1) [1, 4]" "\<forall>j \<in> {1..<n}. \<not> accepted (reply j p)" "n < 3 \<longrightarrow> accepted (reply n p)"
    by (rule attempts_outcome)
  then show ?thesis
    using a(2) same by (intro exI [of _ n] exI [of _ p]) (simp add: delivery_row_def comp_def)
qed

definition demo_endpoint :: webhook_endpoint where
  "demo_endpoint = \<lparr>we_id = ''e1'', we_provider_id = ''p1'', we_url = ''http://LocalHost:8088/hook'',
     we_event_types = [''message.received''], we_is_active = True\<rparr>"

definition demo_message :: sandbox_message where
  "demo_message = \<lparr>sm_id = ''s1'', sm_provider_id = ''p1'', sm_direction = ''outbound'', sm_sender = ''me'',
     sm_content = JStr ''hi''\<rparr>"

definition demo_encoders :: encoders where
  "demo_encoders = \<lparr>json_dumps = (\<lambda>v. ''json''), urlencode = (\<lambda>d. ''form''), str_of = (\<lambda>v. [])\<rparr>"

theorem webhook_attempts_witness:
  "\<exists>rows ps ws. deliver_to_endpoint demo_encoders None demo_endpoint demo_message
      (\<lambda>k p. if k = 1 then Response 500 [] else Response 204 []) (\<lambda>k. int k) = Inr (rows, ps, ws) \<and>
    map wd_attempt rows = [1, 2] \<and> map po_url ps = [''http://LocalHost:80/hook'', ''http://LocalHost:80/hook'']"
proof -
  let ?r = "\<lambda>k p. if k = 1 then Response 500 [] else Response 204 []"
  have u: "rewrite_localhost_url (we_url demo_endpoint) = ''http://LocalHost:80/hook''" by code_simp
  obtain rows ps ws where d: "deliver_to_endpoint demo_encoders None demo_endpoint demo_message ?r (\<lambda>k. int k) =
      Inr (rows, ps, ws)"
  proof -
    have "\<exists>x. deliver_to_endpoint demo_encoders None demo_endpoint demo_message ?r (\<lambda>k. int k) = Inr x"
      by (simp add: deliver_to_endpoint_def case_prod_beta del: split_paired_Ex)
    then show ?thesis using that by (metis prod_cases3)
  qed
  obtain n p where n: "n \<in> {1, 2, 3::nat}" "ps = replicate n p" "map wd_attempt rows = [1..<n + 1]"
      "po_url p = rewrite_localhost_url (we_url demo_endpoint)"
      "\<forall>j \<in> {1..<n}. \<not> accepted (?r j p)" "n < 3 \<longrightarrow> accepted (?r n p)"
    using webhook_attempts [OF d, of "[]"] by blast
  have "n \<noteq> 1" using n(6) by (auto simp: accepted_def)
  moreover have "n \<noteq> 3" using bspec [OF n(5), of 2] by (auto simp: accepted_def)
  ultimately have "n = 2" using n(1) by auto
  then have "map wd_attempt rows = [1, 2]" "map po_url ps = [''http://LocalHost:80/hook'', ''http://LocalHost:80/hook'']"
    using n u by (simp_all add: upt_rec numeral_2_eq_2)
  then show ?thesis using d by (intro exI [of _ rows] exI [of _ ps] exI [of _ ws] conjI) assumption+
qed

end
