(* ===== verification/SmtpCodes.thy ===== *)
theory SmtpCodes
  imports Prelude
begin

text \<open>
  The regular expressions that find an RFC 3463 status (\<open>5.1.1\<close>) and an SMTP reply code in the text
  of a reply; warm-up, the reading of RCPT replies and of bounces share them.
\<close>

section \<open>Status codes in the replies of a receiver\<close>

definition word_char :: "char \<Rightarrow> bool" where
  "word_char c \<longleftrightarrow> is_alnum c \<or> c = CHR ''_''"

definition boundary_at :: "string \<Rightarrow> bool" where
  "boundary_at rest \<longleftrightarrow> (case rest of [] \<Rightarrow> True | c # _ \<Rightarrow> \<not> word_char c)"

definition class_digit :: "char \<Rightarrow> bool" where
  "class_digit c \<longleftrightarrow> c \<in> set ''245''"

text \<open>One to three digits, as many as there are, and what follows them.\<close>

definition digits13 :: "string \<Rightarrow> (string \<times> string) option" where
  "digits13 s = (let d = takeWhile is_digit s
                 in if 1 \<le> length d \<and> length d \<le> 3 then Some (d, dropWhile is_digit s) else None)"

definition enhanced_here :: "string \<Rightarrow> string option" where
  "enhanced_here s =
     (case s of
        c # d # r \<Rightarrow>
          if class_digit c \<and> d = CHR ''.'' then
            (case digits13 r of
               Some (subject, e # r') \<Rightarrow>
                 if e = CHR ''.'' then
                   (case digits13 r' of
                      Some (detail, r'') \<Rightarrow>
                        if boundary_at r'' then Some (c # ''.'' @ subject @ ''.'' @ detail) else None
                    | None \<Rightarrow> None)
                 else None
             | _ \<Rightarrow> None)
          else None
      | _ \<Rightarrow> None)"

definition code_here :: "string \<Rightarrow> int option" where
  "code_here s =
     (case s of
        a # b # c # r \<Rightarrow>
          if class_digit a \<and> is_digit b \<and> is_digit c \<and> boundary_at r
          then Some (100 * (int (code a) - 48) + 10 * (int (code b) - 48) + (int (code c) - 48)) else None
      | _ \<Rightarrow> None)"

text \<open>The leftmost match; \<open>after_word\<close> tells that the character before is a word character.\<close>

fun search_here :: "(string \<Rightarrow> 'a option) \<Rightarrow> bool \<Rightarrow> string \<Rightarrow> 'a option" where
  "search_here here after_word [] = None"
| "search_here here after_word (c # s) =
     (case (if after_word then None else here (c # s)) of
        Some m \<Rightarrow> Some m
      | None \<Rightarrow> search_here here (word_char c) s)"

definition search_enhanced :: "string \<Rightarrow> string option" where
  "search_enhanced s = search_here enhanced_here False s"

definition search_code :: "string \<Rightarrow> int option" where
  "search_code s = search_here code_here False s"

end
