(* ===== verification/Warmup.thy ===== *)
theory Warmup
  imports Models SmtpCodes
begin

text \<open>
  \<^verbatim>\<open>warmup/\<close>: the rows and requests of warm-up campaigns, the resolution of
  provider names, the feedback of receiving servers and the health of a provider. A calendar
  date is its number of days, which stands for its ISO form; the time-zone database is a
  parameter. The \<open>\\b\<close> and \<open>\\d\<close> of the regular expressions are those of ASCII text.
\<close>

section \<open>Time zones\<close>

text \<open>A zone tells the offset of an instant and the offset of a wall-clock time.\<close>

record zone =
  utc_offset :: "time \<Rightarrow> int"
  wall_offset :: "time \<Rightarrow> int"

datatype zone_lookup = Zone zone | ZoneMissing | ZoneBadKey string

definition hours :: "int \<Rightarrow> time" where
  "hours n = 60 * minutes n"

definition days :: "int \<Rightarrow> time" where
  "days n = 24 * hours n"

definition wall :: "zone \<Rightarrow> time \<Rightarrow> time" where
  "wall z t = t + utc_offset z t"

definition from_wall :: "zone \<Rightarrow> time \<Rightarrow> time" where
  "from_wall z w = w - wall_offset z w"

definition date_of :: "time \<Rightarrow> int" where
  "date_of w = w div days 1"

definition hour_of :: "time \<Rightarrow> int" where
  "hour_of w = (w mod days 1) div hours 1"

section \<open>Rows\<close>

datatype security = Ssl | Starttls | Plain

record warmup_account =
  wa_id :: string
  wa_name :: string
  wa_email :: string
  wa_provider :: string
  wa_smtp_host :: string
  wa_smtp_port :: int
  wa_smtp_security :: security
  wa_imap_host :: string
  wa_imap_port :: int
  wa_imap_security :: security
  wa_username :: string
  wa_password_encrypted :: string
  wa_enabled :: bool
  wa_verified :: bool
  wa_last_checked_at :: "time option"
  wa_last_error :: "string option"
  wa_created_at :: time

record campaign_settings =
  cp_name :: string
  cp_local_address :: string
  cp_account_ids :: "string list"
  cp_start_daily_volume :: int
  cp_daily_ramp :: int
  cp_max_daily_volume :: int
  cp_min_delay_minutes :: int
  cp_max_delay_minutes :: int
  cp_reply_rate :: int
  cp_active_hour_start :: int
  cp_active_hour_end :: int
  cp_timezone :: string
  cp_auto_clean :: bool

record campaign =
  cp_id :: string
  cp_settings :: campaign_settings
  cp_status :: string
  cp_sent_today :: int
  cp_total_sent :: int
  cp_total_failed :: int
  cp_volume_date :: "int option"
  cp_started_at :: "time option"
  cp_stopped_at :: "time option"
  cp_next_run_at :: "time option"
  cp_created_at :: time

record warmup_event =
  wv_id :: string
  wv_campaign_id :: string
  wv_account_id :: "string option"
  wv_provider :: "string option"
  wv_direction :: string
  wv_status :: string
  wv_subject :: string
  wv_message_id :: "string option"
  wv_error :: "string option"
  wv_smtp_code :: "int option"
  wv_enhanced_status :: "string option"
  wv_created_at :: time

record provider_state =
  ps_id :: string
  ps_campaign_id :: string
  ps_provider :: string
  ps_status :: string
  ps_sent_today :: int
  ps_failed_today :: int
  ps_total_sent :: int
  ps_total_failed :: int
  ps_failures :: nat
  ps_volume_date :: "int option"
  ps_next_attempt_at :: "time option"
  ps_paused_until :: "time option"
  ps_last_sent_at :: "time option"
  ps_last_failure_at :: "time option"
  ps_last_smtp_code :: "int option"
  ps_last_enhanced_status :: "string option"
  ps_last_response :: "string option"

record warmup_db =
  wm_db :: db
  wm_accounts :: "warmup_account list"
  wm_campaigns :: "campaign list"
  wm_events :: "warmup_event list"
  wm_states :: "provider_state list"

definition put_campaign :: "campaign \<Rightarrow> warmup_db \<Rightarrow> warmup_db" where
  "put_campaign c w = w\<lparr>wm_campaigns := row_put cp_id c (wm_campaigns w)\<rparr>"

definition get_campaign :: "string \<Rightarrow> warmup_db \<Rightarrow> campaign option" where
  "get_campaign i w = row_get cp_id i (wm_campaigns w)"

definition put_account :: "warmup_account \<Rightarrow> warmup_db \<Rightarrow> warmup_db" where
  "put_account a w = w\<lparr>wm_accounts := row_put wa_id a (wm_accounts w)\<rparr>"

definition get_account :: "string \<Rightarrow> warmup_db \<Rightarrow> warmup_account option" where
  "get_account i w = row_get wa_id i (wm_accounts w)"

definition put_state :: "provider_state \<Rightarrow> warmup_db \<Rightarrow> warmup_db" where
  "put_state p w = w\<lparr>wm_states := row_put ps_id p (wm_states w)\<rparr>"

definition get_state :: "string \<Rightarrow> warmup_db \<Rightarrow> provider_state option" where
  "get_state i w = row_get ps_id i (wm_states w)"

section \<open>Requests\<close>

definition unprocessable :: "'a result" where
  "unprocessable = Inl (Http 422 ''validation error'')"

definition bounded :: "nat \<Rightarrow> nat \<Rightarrow> string \<Rightarrow> bool" where
  "bounded lo hi s \<longleftrightarrow> lo \<le> length s \<and> length s \<le> hi"

definition mail_shaped :: "string \<Rightarrow> bool" where
  "mail_shaped v \<longleftrightarrow> CHR ''@'' \<in> set v \<and> hd v \<noteq> CHR ''@'' \<and> last v \<noteq> CHR ''@''"

record account_create =
  ak_name :: string
  ak_email :: string
  ak_provider :: string
  ak_smtp_host :: string
  ak_smtp_port :: int
  ak_smtp_security :: security
  ak_imap_host :: string
  ak_imap_port :: int
  ak_imap_security :: security
  ak_username :: string
  ak_password :: string
  ak_enabled :: bool
  ak_ownership_confirmed :: bool

definition account_create_request :: "account_create \<Rightarrow> account_create result" where
  "account_create_request b =
     (let email = lower (strip (ak_email b))
      in if bounded 1 120 (ak_name b) \<and> bounded 0 40 (ak_provider b) \<and> bounded 1 255 (ak_smtp_host b) \<and>
            1 \<le> ak_smtp_port b \<and> ak_smtp_port b \<le> 65535 \<and> bounded 1 255 (ak_imap_host b) \<and>
            1 \<le> ak_imap_port b \<and> ak_imap_port b \<le> 65535 \<and> bounded 1 320 (ak_username b) \<and>
            bounded 1 1024 (ak_password b) \<and> mail_shaped email \<and> ak_ownership_confirmed b
         then Inr (b\<lparr>ak_email := email\<rparr>) else unprocessable)"

text \<open>A field of a patch is absent, null or a value.\<close>

record account_update =
  aw_name :: "string option option"
  aw_enabled :: "bool option option"
  aw_password :: "string option option"

definition account_update_request :: "account_update \<Rightarrow> account_update result" where
  "account_update_request b =
     (if (case aw_name b of Some (Some n) \<Rightarrow> bounded 1 120 n | _ \<Rightarrow> True) \<and>
         (case aw_password b of Some (Some p) \<Rightarrow> bounded 1 1024 p | _ \<Rightarrow> True)
      then Inr b else unprocessable)"

definition campaign_create_request :: "campaign_settings \<Rightarrow> campaign_settings result" where
  "campaign_create_request b =
     (let addr = lower (strip (cp_local_address b))
      in if bounded 1 120 (cp_name b) \<and> cp_account_ids b \<noteq> [] \<and>
            1 \<le> cp_start_daily_volume b \<and> cp_start_daily_volume b \<le> 100 \<and>
            0 \<le> cp_daily_ramp b \<and> cp_daily_ramp b \<le> 50 \<and>
            1 \<le> cp_max_daily_volume b \<and> cp_max_daily_volume b \<le> 200 \<and>
            5 \<le> cp_min_delay_minutes b \<and> cp_min_delay_minutes b \<le> 1440 \<and>
            5 \<le> cp_max_delay_minutes b \<and> cp_max_delay_minutes b \<le> 1440 \<and>
            0 \<le> cp_reply_rate b \<and> cp_reply_rate b \<le> 100 \<and>
            0 \<le> cp_active_hour_start b \<and> cp_active_hour_start b \<le> 23 \<and>
            1 \<le> cp_active_hour_end b \<and> cp_active_hour_end b \<le> 24 \<and>
            bounded 0 64 (cp_timezone b) \<and> mail_shaped addr \<and>
            cp_start_daily_volume b \<le> cp_max_daily_volume b \<and>
            cp_min_delay_minutes b \<le> cp_max_delay_minutes b \<and>
            cp_active_hour_start b < cp_active_hour_end b
         then Inr (b\<lparr>cp_local_address := addr\<rparr>) else unprocessable)"

section \<open>Providers\<close>

definition normalize_provider :: "string \<Rightarrow> string" where
  "normalize_provider p =
     (let value = lower (strip p)
      in case map_of [(''google'', ''gmail''), (''google_workspace'', ''gmail''), (''microsoft'', ''outlook''),
           (''office365'', ''outlook''), (''hotmail'', ''outlook''), (''aol'', ''yahoo''), (''apple'', ''icloud'')] value of
           Some canonical \<Rightarrow> canonical
         | None \<Rightarrow> if value = [] then ''custom'' else value)"

definition detect_provider :: "string \<Rightarrow> string \<Rightarrow> string \<Rightarrow> string" where
  "detect_provider provider smtp_host imap_host =
     (let normalized = normalize_provider provider;
          hosts = lower (smtp_host @ '' '' @ imap_host)
      in if normalized \<noteq> ''custom'' then normalized
         else if contains ''google'' hosts \<or> contains ''gmail'' hosts then ''gmail''
         else if contains ''yahoo'' hosts \<or> contains ''aol'' hosts then ''yahoo''
         else if contains ''outlook'' hosts \<or> contains ''office365'' hosts \<or> contains ''hotmail'' hosts
         then ''outlook''
         else if contains ''icloud'' hosts \<or> contains ''mail.me.com'' hosts then ''icloud''
         else ''custom'')"

record endpoints =
  ep_smtp_host :: string
  ep_smtp_port :: int
  ep_imap_host :: string
  ep_imap_port :: int

definition provider_defaults :: "string \<Rightarrow> endpoints option" where
  "provider_defaults provider = map_of
     [(''gmail'', \<lparr>ep_smtp_host = ''smtp.gmail.com'', ep_smtp_port = 587,
         ep_imap_host = ''imap.gmail.com'', ep_imap_port = 993\<rparr>),
      (''yahoo'', \<lparr>ep_smtp_host = ''smtp.mail.yahoo.com'', ep_smtp_port = 587,
         ep_imap_host = ''imap.mail.yahoo.com'', ep_imap_port = 993\<rparr>),
      (''icloud'', \<lparr>ep_smtp_host = ''smtp.mail.me.com'', ep_smtp_port = 587,
         ep_imap_host = ''imap.mail.me.com'', ep_imap_port = 993\<rparr>),
      (''outlook'', \<lparr>ep_smtp_host = ''smtp-mail.outlook.com'', ep_smtp_port = 587,
         ep_imap_host = ''outlook.office365.com'', ep_imap_port = 993\<rparr>)] (lower provider)"

definition provider_min_gap_minutes :: "string \<Rightarrow> int" where
  "provider_min_gap_minutes p =
     (case map_of [(''gmail'', 30), (''yahoo'', 45), (''outlook'', 45), (''icloud'', 45), (''custom'', 30)] p of
        Some g \<Rightarrow> g | None \<Rightarrow> 30)"

section \<open>Delivery errors\<close>

text \<open>An exception of a delivery: its attributes \<open>code\<close>, \<open>smtp_code\<close>, \<open>message\<close> and
  \<open>smtp_error\<close>, and its text.\<close>

datatype raw_code = NoCode | IntCode int | TextCode string | OtherCode
datatype raw_message = NoMessage | TextMessage string | BytesMessage string

record delivery_error =
  de_code :: raw_code
  de_smtp_code :: raw_code
  de_message :: raw_message
  de_smtp_error :: raw_message
  de_text :: string

fun numeric_code :: "raw_code \<Rightarrow> int option" where
  "numeric_code (IntCode n) = (if 0 \<le> n then Some n else None)"
| "numeric_code (TextCode s) = (if s \<noteq> [] \<and> list_all is_digit s then map_option int (digits_value False 0 s) else None)"
| "numeric_code _ = None"

definition extract_smtp_feedback :: "delivery_error \<Rightarrow> int option \<times> string option \<times> string" where
  "extract_smtp_feedback e =
     (let code = numeric_code (if de_code e = NoCode then de_smtp_code e else de_code e);
          response = (case (if de_message e = NoMessage then de_smtp_error e else de_message e) of
                        BytesMessage b \<Rightarrow> b
                      | TextMessage t \<Rightarrow> if t = [] then de_text e else t
                      | NoMessage \<Rightarrow> de_text e)
      in (if code = None then search_code response else code, search_enhanced response, take 2000 response))"

section \<open>Health of a provider\<close>

definition is_permanent :: "int option \<Rightarrow> string option \<Rightarrow> bool" where
  "is_permanent smtp_code enhanced \<longleftrightarrow>
     (case smtp_code of None \<Rightarrow> False | Some n \<Rightarrow> 500 \<le> n \<and> n < 600) \<or>
     (case enhanced of None \<Rightarrow> False | Some s \<Rightarrow> prefix ''5.'' s)"

definition cooldown_minutes :: "string \<Rightarrow> nat \<Rightarrow> int" where
  "cooldown_minutes provider failures =
     min 360 (max (if provider = ''gmail'' then 10 else 15) (10 * 2 ^ (failures - 1)))"

definition apply_success :: "time \<Rightarrow> provider_state \<Rightarrow> provider_state" where
  "apply_success now p =
     p\<lparr>ps_status := ''healthy'', ps_sent_today := ps_sent_today p + 1, ps_total_sent := ps_total_sent p + 1,
       ps_failures := 0, ps_last_sent_at := Some now, ps_last_smtp_code := None,
       ps_last_enhanced_status := None, ps_last_response := None, ps_paused_until := None,
       ps_next_attempt_at := Some (now + minutes (provider_min_gap_minutes (ps_provider p)))\<rparr>"

definition apply_failure ::
  "time \<Rightarrow> int option \<Rightarrow> string option \<Rightarrow> string option \<Rightarrow> provider_state \<Rightarrow> provider_state" where
  "apply_failure now smtp_code enhanced response p =
     (let p1 = p\<lparr>ps_failed_today := ps_failed_today p + 1, ps_total_failed := ps_total_failed p + 1,
                 ps_failures := ps_failures p + 1, ps_last_failure_at := Some now,
                 ps_last_smtp_code := smtp_code, ps_last_enhanced_status := enhanced,
                 ps_last_response := Some (take 2000 (case response of
                    Some r \<Rightarrow> if r = [] then ''Unknown delivery failure'' else r
                  | None \<Rightarrow> ''Unknown delivery failure''))\<rparr>
      in if is_permanent smtp_code enhanced
         then p1\<lparr>ps_status := ''blocked'', ps_paused_until := None, ps_next_attempt_at := None\<rparr>
         else (let until = now + minutes (cooldown_minutes (ps_provider p1) (ps_failures p1))
               in p1\<lparr>ps_status := ''cooling'', ps_paused_until := Some until, ps_next_attempt_at := Some until\<rparr>))"

text \<open>\<open>provider_is_available\<close> also ends a cooling period that is over.\<close>

definition provider_is_available :: "provider_state \<Rightarrow> time \<Rightarrow> bool \<times> provider_state" where
  "provider_is_available p now =
     (if ps_status p = ''blocked'' then (False, p)
      else (case (case ps_paused_until p of None \<Rightarrow> ps_next_attempt_at p | Some t \<Rightarrow> Some t) of
              Some available_at \<Rightarrow>
                if available_at > now then (False, p)
                else (True, if ps_status p = ''cooling'' then p\<lparr>ps_status := ''healthy'', ps_paused_until := None\<rparr> else p)
            | None \<Rightarrow> (True, if ps_status p = ''cooling'' then p\<lparr>ps_status := ''healthy'', ps_paused_until := None\<rparr> else p)))"

end
