(* ===== verification/WarmupRun.thy ===== *)
theory WarmupRun
  imports Warmup
begin

text \<open>
  The scheduler of \<^verbatim>\<open>warmup/service.py\<close>: one run of \<open>process_campaign\<close>. What the run
  meets is a record: the readings of the clock, the draws of the random generator, the delivery
  reports in the sender's inbox, and the outcome of a delivery. The run returns what it sends
  and the tables as last committed. The read flags it sets over IMAP are not modelled.
\<close>

section \<open>Texts\<close>

definition warm_subjects :: "string list" where
  "warm_subjects = [
     ''Quick check-in'',
     ''Following up'',
     ''A small update'',
     ''Checking the details'',
     ''One quick question'',
     ''Plans for this week'',
     ''Thanks for the update'',
     ''Confirming our notes'',
     ''A note for today'',
     ''About our next steps'',
     ''One detail to confirm'',
     ''Touching base'',
     ''A quick follow-up'',
     ''Sharing a brief update'',
     ''Checking our schedule'',
     ''A question for you'',
     ''Confirming the plan'',
     ''A quick status note'',
     ''Circling back'',
     ''Looking ahead'',
     ''A brief check-in'',
     ''About this week'' @ [CHR 0x27] @ ''s plan'',
     ''Checking availability'',
     ''A quick confirmation'',
     ''Notes from today'',
     ''Planning the next step'',
     ''Following up on the details'',
     ''One item to review'',
     ''A short update'',
     ''Confirming the timeline'',
     ''Checking in before the weekend'',
     ''A note about next week'']"

definition warm_bodies :: "string list" where
  "warm_bodies = [
     ''Hi,'' @ [CHR 0x0A, CHR 0x0A] @ ''Just checking in to make sure everything is on track. No rush'' @ [CHR 0xE2, CHR 0x80, CHR 0x94] @ ''reply when convenient.'' @ [CHR 0x0A, CHR 0x0A] @ ''Best,'',
     ''Hello,'' @ [CHR 0x0A, CHR 0x0A] @ ''I wanted to follow up on our earlier note. Everything looks good from my side.'' @ [CHR 0x0A, CHR 0x0A] @ ''Thanks,'',
     ''Hi there,'' @ [CHR 0x0A, CHR 0x0A] @ ''A quick confirmation that I received the update. Hope your week is going well.'' @ [CHR 0x0A, CHR 0x0A] @ ''Regards,'',
     ''Hello,'' @ [CHR 0x0A, CHR 0x0A] @ ''Could you confirm you received this when you have a moment?'' @ [CHR 0x0A, CHR 0x0A] @ ''Thank you,'',
     ''Hi,'' @ [CHR 0x0A, CHR 0x0A] @ ''I am checking whether the current plan still works for you. Let me know when you have a chance.'' @ [CHR 0x0A, CHR 0x0A] @ ''Best,'',
     ''Hello,'' @ [CHR 0x0A, CHR 0x0A] @ ''Here is a brief note to keep everything moving. I am available if any details need clarification.'' @ [CHR 0x0A, CHR 0x0A] @ ''Thanks,'',
     ''Hi there,'' @ [CHR 0x0A, CHR 0x0A] @ ''I wanted to touch base before we move to the next step. Does the timing still look right?'' @ [CHR 0x0A, CHR 0x0A] @ ''Regards,'',
     ''Hello,'' @ [CHR 0x0A, CHR 0x0A] @ ''Just sharing a quick update from my side. There are no issues to report at the moment.'' @ [CHR 0x0A, CHR 0x0A] @ ''Best,'',
     ''Hi,'' @ [CHR 0x0A, CHR 0x0A] @ ''I reviewed the notes and everything appears to be in order. Please send any updates when convenient.'' @ [CHR 0x0A, CHR 0x0A] @ ''Thank you,'',
     ''Hello,'' @ [CHR 0x0A, CHR 0x0A] @ ''I wanted to make sure we are aligned on the next step. A short confirmation would be helpful.'' @ [CHR 0x0A, CHR 0x0A] @ ''Thanks,'',
     ''Hi there,'' @ [CHR 0x0A, CHR 0x0A] @ ''This is a quick check on the schedule for the coming days. Let me know if anything has changed.'' @ [CHR 0x0A, CHR 0x0A] @ ''Best,'',
     ''Hello,'' @ [CHR 0x0A, CHR 0x0A] @ ''I am following up with one small question: are we still on track with the current timeline?'' @ [CHR 0x0A, CHR 0x0A] @ ''Regards,'',
     ''Hi,'' @ [CHR 0x0A, CHR 0x0A] @ ''A short note to confirm that I have the latest information. I will keep an eye out for your reply.'' @ [CHR 0x0A, CHR 0x0A] @ ''Thanks,'',
     ''Hello,'' @ [CHR 0x0A, CHR 0x0A] @ ''I hope your day is going well. I wanted to check whether there is anything else needed from me.'' @ [CHR 0x0A, CHR 0x0A] @ ''Best,'',
     ''Hi there,'' @ [CHR 0x0A, CHR 0x0A] @ ''I am touching base about our recent discussion. Everything is ready on my side.'' @ [CHR 0x0A, CHR 0x0A] @ ''Thank you,'',
     ''Hello,'' @ [CHR 0x0A, CHR 0x0A] @ ''Could you let me know if the proposed timing is still convenient? There is no urgency.'' @ [CHR 0x0A, CHR 0x0A] @ ''Regards,'',
     ''Hi,'' @ [CHR 0x0A, CHR 0x0A] @ ''I wanted to share a brief progress note. The current plan is moving forward as expected.'' @ [CHR 0x0A, CHR 0x0A] @ ''Best,'',
     ''Hello,'' @ [CHR 0x0A, CHR 0x0A] @ ''Just checking that my previous note reached you successfully. Please reply whenever convenient.'' @ [CHR 0x0A, CHR 0x0A] @ ''Thanks,'',
     ''Hi there,'' @ [CHR 0x0A, CHR 0x0A] @ ''I looked over the details again and they make sense to me. Let me know your thoughts when you can.'' @ [CHR 0x0A, CHR 0x0A] @ ''Regards,'',
     ''Hello,'' @ [CHR 0x0A, CHR 0x0A] @ ''A quick message to keep our notes current. Has anything changed since the last update?'' @ [CHR 0x0A, CHR 0x0A] @ ''Best,'',
     ''Hi,'' @ [CHR 0x0A, CHR 0x0A] @ ''I am planning the next step and wanted to confirm your availability. Any convenient time is fine.'' @ [CHR 0x0A, CHR 0x0A] @ ''Thank you,'',
     ''Hello,'' @ [CHR 0x0A, CHR 0x0A] @ ''I wanted to close the loop on the item we discussed. Please confirm when you have a moment.'' @ [CHR 0x0A, CHR 0x0A] @ ''Thanks,'',
     ''Hi there,'' @ [CHR 0x0A, CHR 0x0A] @ ''Everything remains on schedule here. I am checking whether the same is true on your side.'' @ [CHR 0x0A, CHR 0x0A] @ ''Best,'',
     ''Hello,'' @ [CHR 0x0A, CHR 0x0A] @ ''This is a brief follow-up before the end of the week. I hope all is going smoothly.'' @ [CHR 0x0A, CHR 0x0A] @ ''Regards,'']"

definition warm_replies :: "string list" where
  "warm_replies = [
     ''Thanks, I received it. Everything looks good here.'',
     ''Confirmed'' @ [CHR 0xE2, CHR 0x80, CHR 0x94] @ ''thank you for checking in.'',
     ''Got it. I appreciate the update.'',
     ''Yes, received. Have a great rest of your day.'',
     ''Thanks for the note. The current plan works for me.'',
     ''Received, thank you. I will let you know if anything changes.'',
     ''That sounds good. I appreciate the quick follow-up.'',
     ''Everything is clear on my side. Thanks for confirming.'',
     ''Yes, the timing still works. Thank you for checking.'',
     ''I have the update. We are all set for the next step.'',
     ''Thanks, I saw your message and the details look right.'',
     ''Confirmed. There is nothing else needed from my side right now.'',
     ''I appreciate the reminder. Everything remains on schedule.'',
     ''Thanks for following up. I will keep you posted.'',
     ''Yes, I received the earlier note. All looks good.'',
     ''The plan makes sense to me. Thanks for the update.'',
     ''Received and noted. I hope the rest of your week goes well.'',
     ''Thanks, the proposed time is convenient for me.'',
     ''I have reviewed it and everything is in order.'',
     ''That works well. Thank you for confirming the details.'',
     ''Message received. I do not have any changes to add.'',
     ''Thanks for checking. We can continue with the current plan.'',
     ''All clear here. I appreciate you keeping me updated.'',
     ''Confirmed on my end. Please proceed when ready.'']"
section \<open>What a run meets\<close>

text \<open>A part of a delivery report in the order of \<open>walk()\<close>: its content type and, when its
  payload is a list of messages, their headers.\<close>

type_synonym headers = "(string \<times> string) list"

record mime_part =
  mp_content_type :: string
  mp_blocks :: "headers list option"

record mail_out =
  mo_from :: string
  mo_to :: string
  mo_subject :: string
  mo_message_id :: string
  mo_in_reply_to :: "string option"
  mo_body :: string

text \<open>\<open>se_dsns\<close> are the unread messages of the inbox, \<open>None\<close> when it cannot be read; a message
  that cannot be fetched is \<open>None\<close>. \<open>se_pick\<close> and \<open>se_draw\<close> are the raw values behind the
  successive uses of \<open>random.choice\<close> and \<open>random.randint\<close>.\<close>

record slot_env =
  se_now :: time
  se_local_instant :: time
  se_target_now :: time
  se_feedback_now :: time
  se_saved_at :: time
  se_zoneinfo :: "string \<Rightarrow> zone_lookup"
  se_state_id :: "string \<Rightarrow> string"
  se_dsn_id :: "nat \<Rightarrow> string"
  se_event_id :: string
  se_message_id :: "string \<Rightarrow> string"
  se_dsns :: "mime_part list option list option"
  se_pick :: "nat \<Rightarrow> nat"
  se_draw :: "nat \<Rightarrow> int"
  se_send :: "mail_out \<Rightarrow> delivery_error option"

datatype warmup_effect = Mail mail_out bool | Purge string "string list"

definition choice :: "slot_env \<Rightarrow> nat \<Rightarrow> 'a list \<Rightarrow> 'a" where
  "choice env k xs = xs ! (se_pick env k mod length xs)"

definition randint :: "slot_env \<Rightarrow> nat \<Rightarrow> int \<Rightarrow> int \<Rightarrow> int result" where
  "randint env k a b =
     (if b < a then Inl (ValueErr ''empty range for randrange()'')
      else Inr (a + se_draw env k mod (b - a + 1)))"

section \<open>Delivery reports\<close>

definition header :: "string \<Rightarrow> headers \<Rightarrow> string option" where
  "header name hs = map_option snd (find (\<lambda>h. lower (fst h) = lower name) hs)"

definition or_else :: "string option \<Rightarrow> string \<Rightarrow> string" where
  "or_else a b = (if truthy a then the a else b)"

definition dsn_of_block :: "headers \<Rightarrow> (string \<times> int option \<times> string option \<times> string) option" where
  "dsn_of_block block =
     (let action = lower (or_else (header ''Action'' block) []);
          recipient_value = or_else (header ''Final-Recipient'' block)
            (or_else (header ''Original-Recipient'' block) []);
          recipient = lower (strip (case split_first (CHR '';'') recipient_value of
            None \<Rightarrow> recipient_value | Some (_, r) \<Rightarrow> r));
          enhanced = strip (or_else (header ''Status'' block) []);
          diagnostic = or_else (header ''Diagnostic-Code'' block) ''Delivery status notification''
      in if action \<notin> {''failed'', ''delayed''} \<or> CHR ''@'' \<notin> set recipient then None
         else Some (recipient, search_code diagnostic, if enhanced = [] then None else Some enhanced,
                    take 2000 diagnostic))"

definition dsn_feedback :: "mime_part list \<Rightarrow> (string \<times> int option \<times> string option \<times> string) list" where
  "dsn_feedback parts =
     concat (map (\<lambda>p. case mp_blocks p of
                        Some blocks \<Rightarrow> if mp_content_type p = ''message/delivery-status''
                                       then List.map_filter dsn_of_block blocks else []
                      | None \<Rightarrow> []) parts)"

definition fetch_local_dsns :: "string list \<Rightarrow> mime_part list option list
    \<Rightarrow> (string \<times> int option \<times> string option \<times> string) list" where
  "fetch_local_dsns expected inbox =
     concat (map (\<lambda>m. case m of None \<Rightarrow> [] | Some parts \<Rightarrow> filter (\<lambda>r. fst r \<in> set expected) (dsn_feedback parts))
       (drop (length inbox - 100) inbox))"

section \<open>Claiming a slot\<close>

definition due :: "time \<Rightarrow> campaign \<Rightarrow> bool" where
  "due now c \<longleftrightarrow> cp_status c = ''active'' \<and>
     (case cp_next_run_at c of None \<Rightarrow> False | Some t \<Rightarrow> t \<le> now)"

definition claim_slot :: "time \<Rightarrow> string \<Rightarrow> warmup_db \<Rightarrow> bool \<times> warmup_db" where
  "claim_slot now cid w =
     (if length (filter (\<lambda>c. cp_id c = cid \<and> due now c) (wm_campaigns w)) = 1
      then (True, w\<lparr>wm_campaigns := map (\<lambda>c. if cp_id c = cid \<and> due now c
                      then c\<lparr>cp_next_run_at := Some (now + minutes 5)\<rparr> else c) (wm_campaigns w)\<rparr>)
      else (False, w))"

section \<open>Preparing the run\<close>

definition healthy_accounts :: "campaign \<Rightarrow> warmup_db \<Rightarrow> warmup_account list" where
  "healthy_accounts c w =
     filter (\<lambda>a. wa_id a \<in> set (cp_account_ids (cp_settings c)) \<and> wa_enabled a \<and> wa_verified a) (wm_accounts w)"

definition states_of :: "string \<Rightarrow> warmup_db \<Rightarrow> provider_state list" where
  "states_of cid w = filter (\<lambda>p. ps_campaign_id p = cid) (wm_states w)"

definition new_state :: "string \<Rightarrow> string \<Rightarrow> string \<Rightarrow> provider_state" where
  "new_state i cid provider =
     \<lparr>ps_id = i, ps_campaign_id = cid, ps_provider = provider, ps_status = ''healthy'', ps_sent_today = 0,
      ps_failed_today = 0, ps_total_sent = 0, ps_total_failed = 0, ps_failures = 0, ps_volume_date = None,
      ps_next_attempt_at = None, ps_paused_until = None, ps_last_sent_at = None, ps_last_failure_at = None,
      ps_last_smtp_code = None, ps_last_enhanced_status = None, ps_last_response = None\<rparr>"

text \<open>The providers are a set in the code: the order in which the missing rows are added is not
  fixed; here it is that of the accounts.\<close>

definition ensure_provider_states :: "(string \<Rightarrow> string) \<Rightarrow> string \<Rightarrow> warmup_account list \<Rightarrow> warmup_db \<Rightarrow> warmup_db" where
  "ensure_provider_states new_id cid accounts w =
     (let known = map ps_provider (states_of cid w);
          missing = filter (\<lambda>p. p \<notin> set known) (remdups (map (\<lambda>a. normalize_provider (wa_provider a)) accounts))
      in w\<lparr>wm_states := wm_states w @ map (\<lambda>p. new_state (new_id p) cid p) missing\<rparr>)"

definition roll_day :: "int \<Rightarrow> string \<Rightarrow> warmup_db \<Rightarrow> warmup_db" where
  "roll_day today cid w =
     w\<lparr>wm_campaigns := map (\<lambda>c. if cp_id c = cid \<and> cp_volume_date c \<noteq> Some today
          then c\<lparr>cp_volume_date := Some today, cp_sent_today := 0\<rparr> else c) (wm_campaigns w),
       wm_states := map (\<lambda>p. if ps_campaign_id p = cid \<and> ps_volume_date p \<noteq> Some today
          then p\<lparr>ps_volume_date := Some today, ps_sent_today := 0, ps_failed_today := 0\<rparr> else p) (wm_states w)\<rparr>"

definition update_provider :: "string \<Rightarrow> string \<Rightarrow> (provider_state \<Rightarrow> provider_state) \<Rightarrow> warmup_db \<Rightarrow> warmup_db" where
  "update_provider cid provider f w =
     w\<lparr>wm_states := map (\<lambda>p. if ps_campaign_id p = cid \<and> ps_provider p = provider then f p else p) (wm_states w)\<rparr>"

definition feedback_event :: "slot_env \<Rightarrow> nat \<Rightarrow> string \<Rightarrow> warmup_account \<Rightarrow> int option \<Rightarrow> string option \<Rightarrow> string
    \<Rightarrow> warmup_event" where
  "feedback_event env k cid a smtp_code enhanced response =
     \<lparr>wv_id = se_dsn_id env k, wv_campaign_id = cid, wv_account_id = Some (wa_id a),
      wv_provider = Some (normalize_provider (wa_provider a)), wv_direction = ''delivery_feedback'',
      wv_status = (if 500 \<le> (case smtp_code of None \<Rightarrow> 0 | Some n \<Rightarrow> n) then ''bounced'' else ''deferred''),
      wv_subject = ''Delivery status notification'', wv_message_id = None, wv_error = Some response,
      wv_smtp_code = smtp_code, wv_enhanced_status = enhanced, wv_created_at = se_saved_at env\<rparr>"

fun apply_reports :: "slot_env \<Rightarrow> nat \<Rightarrow> string \<Rightarrow> warmup_account list
    \<Rightarrow> (string \<times> int option \<times> string option \<times> string) list \<Rightarrow> warmup_db \<Rightarrow> warmup_db" where
  "apply_reports env k cid accounts [] w = w"
| "apply_reports env k cid accounts ((recipient, smtp_code, enhanced, response) # rest) w =
     (case find (\<lambda>a. lower (wa_email a) = recipient) accounts of
        None \<Rightarrow> apply_reports env (Suc k) cid accounts rest w
      | Some a \<Rightarrow>
          (let w1 = update_provider cid (normalize_provider (wa_provider a))
                      (apply_failure (se_feedback_now env) smtp_code enhanced (Some response)) w
           in apply_reports env (Suc k) cid accounts rest
                (w1\<lparr>wm_events := wm_events w1 @ [feedback_event env k cid a smtp_code enhanced response]\<rparr>)))"

definition ingest_delivery_feedback :: "slot_env \<Rightarrow> string \<Rightarrow> warmup_account list \<Rightarrow> warmup_db \<Rightarrow> warmup_db" where
  "ingest_delivery_feedback env cid accounts w =
     (case se_dsns env of
        None \<Rightarrow> w
      | Some inbox \<Rightarrow>
          (let feedback = fetch_local_dsns (map (\<lambda>a. lower (wa_email a)) accounts) inbox;
               w1 = apply_reports env 0 cid accounts feedback w
           in w1\<lparr>wm_campaigns := map (\<lambda>c. if cp_id c = cid
                then c\<lparr>cp_total_failed := cp_total_failed c + int (length feedback)\<rparr> else c) (wm_campaigns w1)\<rparr>))"

section \<open>Times of the day\<close>

definition next_active_time :: "slot_env \<Rightarrow> zone \<Rightarrow> campaign_settings \<Rightarrow> time \<Rightarrow> time result" where
  "next_active_time env z s now =
     (let local_now = wall z now; h = hour_of local_now
      in if cp_active_hour_start s \<le> h \<and> h < cp_active_hour_end s then Inr now
         else (let day = (if h \<ge> cp_active_hour_end s then date_of local_now + 1 else date_of local_now)
               in bind_res (randint env 0 0 20) (\<lambda>jitter.
                    Inr (from_wall z (days day + hours (cp_active_hour_start s) + minutes jitter)))))"

definition daily_target :: "slot_env \<Rightarrow> zone \<Rightarrow> campaign \<Rightarrow> time \<Rightarrow> int" where
  "daily_target env z c local_now =
     (let started = (case cp_started_at c of None \<Rightarrow> se_target_now env | Some t \<Rightarrow> t);
          day_number = max 0 (date_of local_now - date_of (wall z started));
          s = cp_settings c
      in min (cp_max_daily_volume s) (cp_start_daily_volume s + day_number * cp_daily_ramp s))"

definition tomorrow_start :: "slot_env \<Rightarrow> zone \<Rightarrow> campaign_settings \<Rightarrow> time \<Rightarrow> time result" where
  "tomorrow_start env z s local_now =
     bind_res (randint env 1 0 20) (\<lambda>jitter.
       Inr (from_wall z (days (date_of local_now + 1) + hours (cp_active_hour_start s)) + minutes jitter))"

section \<open>Choosing what to send\<close>

text \<open>The latest message that was sent in this conversation; of two rows with the same time the
  later one.\<close>

definition last_sent :: "string \<Rightarrow> string \<Rightarrow> warmup_db \<Rightarrow> warmup_event option" where
  "last_sent cid aid w =
     (let es = filter (\<lambda>e. wv_campaign_id e = cid \<and> wv_account_id e = Some aid \<and> wv_status e = ''sent'') (wm_events w)
      in fold (\<lambda>e best. case best of None \<Rightarrow> Some e
                 | Some b \<Rightarrow> if wv_created_at b \<le> wv_created_at e then Some e else Some b) es None)"

definition last_outbound :: "string \<Rightarrow> warmup_account \<Rightarrow> warmup_db \<Rightarrow> bool" where
  "last_outbound cid a w =
     (case last_sent cid (wa_id a) w of None \<Rightarrow> False | Some e \<Rightarrow> wv_direction e = ''local_to_external'')"

definition active_states :: "string \<Rightarrow> warmup_account list \<Rightarrow> warmup_db \<Rightarrow> provider_state list" where
  "active_states cid accounts w =
     filter (\<lambda>p. ps_provider p \<in> (\<lambda>a. normalize_provider (wa_provider a)) ` set accounts) (states_of cid w)"

text \<open>Asking every active provider whether it is available, which ends elapsed cooling periods.\<close>

definition check_availability :: "time \<Rightarrow> string \<Rightarrow> warmup_account list \<Rightarrow> warmup_db \<Rightarrow> warmup_db" where
  "check_availability now cid accounts w =
     w\<lparr>wm_states := map (\<lambda>p. if ps_campaign_id p = cid \<and>
            ps_provider p \<in> (\<lambda>a. normalize_provider (wa_provider a)) ` set accounts
          then snd (provider_is_available p now) else p) (wm_states w)\<rparr>"

definition eligible_states :: "time \<Rightarrow> int \<Rightarrow> provider_state list \<Rightarrow> provider_state list" where
  "eligible_states now provider_target ps =
     filter (\<lambda>p. ps_sent_today p < provider_target)
       (map (\<lambda>p. snd (provider_is_available p now)) (filter (\<lambda>p. fst (provider_is_available p now)) ps))"

definition load_le :: "provider_state \<Rightarrow> provider_state \<Rightarrow> bool" where
  "load_le p q \<longleftrightarrow> ps_sent_today p < ps_sent_today q \<or>
     (ps_sent_today p = ps_sent_today q \<and> ps_total_sent p \<le> ps_total_sent q)"

definition least_loaded :: "provider_state list \<Rightarrow> provider_state list" where
  "least_loaded ps = filter (\<lambda>p. list_all (load_le p) ps) ps"

definition next_opening :: "time \<Rightarrow> provider_state list \<Rightarrow> time" where
  "next_opening now ps =
     (case filter (\<lambda>t. t > now) (concat (map (\<lambda>p. List.map_filter (\<lambda>t. t) [ps_paused_until p, ps_next_attempt_at p]) ps)) of
        [] \<Rightarrow> now + hours 6
      | t # ts \<Rightarrow> fold min ts t)"

section \<open>Sending\<close>

definition conversation_subject :: "slot_env \<Rightarrow> warmup_event option \<Rightarrow> string" where
  "conversation_subject env reply_to =
     (case reply_to of
        None \<Rightarrow> choice env 2 warm_subjects
      | Some e \<Rightarrow> ''Re: '' @ (if prefix ''Re: '' (wv_subject e) then drop 4 (wv_subject e) else wv_subject e))"

definition compose :: "slot_env \<Rightarrow> campaign \<Rightarrow> warmup_account \<Rightarrow> string \<Rightarrow> warmup_event option \<Rightarrow> mail_out option" where
  "compose env c a direction reply_to =
     (let local_address = cp_local_address (cp_settings c);
          sender = (if direction = ''local_to_external'' then local_address else wa_email a)
      in map_option (\<lambda>(_, domain).
           \<lparr>mo_from = sender, mo_to = (if direction = ''local_to_external'' then wa_email a else local_address),
            mo_subject = conversation_subject env reply_to, mo_message_id = se_message_id env domain,
            mo_in_reply_to = (case reply_to of None \<Rightarrow> None
              | Some e \<Rightarrow> if truthy (wv_message_id e) then wv_message_id e else None),
            mo_body = choice env 3 (if reply_to = None then warm_bodies else warm_replies)\<rparr>)
         (split_first (CHR ''@'') sender))"

definition no_domain :: delivery_error where
  "no_domain = \<lparr>de_code = NoCode, de_smtp_code = NoCode, de_message = NoMessage, de_smtp_error = NoMessage,
     de_text = ''list index out of range''\<rparr>"

definition send_one :: "slot_env \<Rightarrow> campaign \<Rightarrow> warmup_account \<Rightarrow> string \<Rightarrow> warmup_event option
    \<Rightarrow> (delivery_error + (string \<times> string)) \<times> warmup_effect list" where
  "send_one env c a direction reply_to =
     (case compose env c a direction reply_to of
        None \<Rightarrow> (Inl no_domain, [])
      | Some m \<Rightarrow>
          (case se_send env m of
             Some e \<Rightarrow> (Inl e, [Mail m False])
           | None \<Rightarrow> (Inr (mo_subject m, mo_message_id m), [Mail m True])))"

definition attempt_event :: "slot_env \<Rightarrow> string \<Rightarrow> warmup_account \<Rightarrow> string \<Rightarrow> warmup_event" where
  "attempt_event env cid a direction =
     \<lparr>wv_id = se_event_id env, wv_campaign_id = cid, wv_account_id = Some (wa_id a),
      wv_provider = Some (normalize_provider (wa_provider a)), wv_direction = direction,
      wv_status = ''failed'', wv_subject = ''Warmup message'', wv_message_id = None, wv_error = None,
      wv_smtp_code = None, wv_enhanced_status = None, wv_created_at = se_saved_at env\<rparr>"

text \<open>The bookkeeping after an attempt: event row, counters, provider health.\<close>

definition record_outcome :: "slot_env \<Rightarrow> campaign \<Rightarrow> warmup_account \<Rightarrow> string
    \<Rightarrow> delivery_error + (string \<times> string) \<Rightarrow> warmup_db \<Rightarrow> warmup_db" where
  "record_outcome env c a direction outcome w =
     (let provider = normalize_provider (wa_provider a); event = attempt_event env (cp_id c) a direction;
          outbound = (direction = ''local_to_external'')
      in case outcome of
           Inr (subject, message_id) \<Rightarrow>
             (let w1 = put_campaign (c\<lparr>cp_total_sent := cp_total_sent c + 1,
                         cp_sent_today := (if outbound then cp_sent_today c + 1 else cp_sent_today c)\<rparr>) w;
                  w2 = (if outbound then update_provider (cp_id c) provider (apply_success (se_now env)) w1 else w1)
              in w2\<lparr>wm_events := wm_events w2 @
                   [event\<lparr>wv_status := ''sent'', wv_subject := subject, wv_message_id := Some message_id\<rparr>]\<rparr>)
         | Inl e \<Rightarrow>
             (let (smtp_code, enhanced, response) = extract_smtp_feedback e;
                  w1 = put_account (a\<lparr>wa_last_error := Some response\<rparr>)
                         (put_campaign (c\<lparr>cp_total_failed := cp_total_failed c + 1\<rparr>) w);
                  w2 = (if outbound
                        then update_provider (cp_id c) provider
                               (apply_failure (se_now env) smtp_code enhanced (Some response)) w1
                        else w1)
              in w2\<lparr>wm_events := wm_events w2 @ [event\<lparr>wv_error := Some response, wv_smtp_code := smtp_code,
                   wv_enhanced_status := enhanced\<rparr>]\<rparr>))"

definition deliver :: "slot_env \<Rightarrow> campaign \<Rightarrow> warmup_account list \<Rightarrow> warmup_account \<Rightarrow> string \<Rightarrow> warmup_db
    \<Rightarrow> (warmup_effect list \<times> warmup_db) result" where
  "deliver env c accounts a direction w =
     bind_res (randint env 2 1 100) (\<lambda>dice.
     bind_res (randint env 3 (cp_min_delay_minutes (cp_settings c)) (cp_max_delay_minutes (cp_settings c))) (\<lambda>delay.
       (let reply_to = (case last_sent (cp_id c) (wa_id a) w of
                          Some e \<Rightarrow> if dice \<le> cp_reply_rate (cp_settings c) then Some e else None
                        | None \<Rightarrow> None);
            c1 = c\<lparr>cp_next_run_at := Some (se_now env + minutes delay)\<rparr>;
            (outcome, effects) = send_one env c1 a direction reply_to
        in Inr (effects @ (if cp_auto_clean (cp_settings c)
                           then [Purge (cp_local_address (cp_settings c)) (map wa_email accounts)] else []),
                record_outcome env c1 a direction outcome (put_campaign c1 w)))))"

text \<open>Postponing the run to a later time.\<close>

definition postpone :: "campaign \<Rightarrow> time \<Rightarrow> warmup_db \<Rightarrow> (warmup_effect list \<times> warmup_db) result" where
  "postpone c t w = Inr ([], put_campaign (c\<lparr>cp_next_run_at := Some t\<rparr>) w)"

definition start_outbound :: "slot_env \<Rightarrow> campaign \<Rightarrow> warmup_account list \<Rightarrow> int \<Rightarrow> warmup_db
    \<Rightarrow> (warmup_effect list \<times> warmup_db) result" where
  "start_outbound env c accounts target w =
     (let now = se_now env; before = active_states (cp_id c) accounts w;
          provider_count = max 1 (int (length before));
          provider_target = (target + provider_count - 1) div provider_count;
          eligible = eligible_states now provider_target before;
          w1 = check_availability now (cp_id c) accounts w
      in if eligible = [] then postpone c (next_opening now (active_states (cp_id c) accounts w1)) w1
         else (let chosen = choice env 1 (least_loaded eligible);
                   outbound = filter (\<lambda>a. normalize_provider (wa_provider a) = ps_provider chosen \<and>
                     \<not> last_outbound (cp_id c) a w1) accounts
               in if outbound = []
                  then postpone c (now + minutes 15) (update_provider (cp_id c) (ps_provider chosen)
                         (\<lambda>p. p\<lparr>ps_next_attempt_at := Some (now + minutes 15)\<rparr>) w1)
                  else deliver env c accounts (choice env 0 outbound) ''local_to_external'' w1))"

definition choose_action :: "slot_env \<Rightarrow> zone \<Rightarrow> time \<Rightarrow> campaign \<Rightarrow> warmup_account list \<Rightarrow> warmup_db
    \<Rightarrow> (warmup_effect list \<times> warmup_db) result" where
  "choose_action env z local_now c accounts w =
     (let target = daily_target env z c local_now;
          reply_accounts = filter (\<lambda>a. last_outbound (cp_id c) a w) accounts
      in if reply_accounts \<noteq> [] then deliver env c accounts (choice env 0 reply_accounts) ''external_to_local'' w
         else if cp_sent_today c \<ge> target
         then bind_res (tomorrow_start env z (cp_settings c) local_now) (\<lambda>t. postpone c t w)
         else start_outbound env c accounts target w)"

section \<open>The run\<close>

definition zone_of :: "slot_env \<Rightarrow> string \<Rightarrow> zone result" where
  "zone_of env name = (case se_zoneinfo env name of
     Zone z \<Rightarrow> Inr z | ZoneMissing \<Rightarrow> Inl (OtherExc ''ZoneInfoNotFoundError'') | ZoneBadKey m \<Rightarrow> Inl (ValueErr m))"

text \<open>Before anything is chosen: missing provider rows, the counters of a new day, delivery
  reports.\<close>

definition prepare_slot :: "slot_env \<Rightarrow> int \<Rightarrow> string \<Rightarrow> warmup_account list \<Rightarrow> warmup_db \<Rightarrow> warmup_db" where
  "prepare_slot env today cid accounts w =
     ingest_delivery_feedback env cid accounts
       (roll_day today cid (ensure_provider_states (se_state_id env) cid accounts w))"

text \<open>What happens between the claim and the end of the run; an exception leaves the claim.\<close>

definition run_slot :: "slot_env \<Rightarrow> campaign \<Rightarrow> warmup_db \<Rightarrow> (warmup_effect list \<times> warmup_db) result" where
  "run_slot env c w =
     (let accounts = healthy_accounts c w; cid = cp_id c
      in if accounts = [] then Inr ([], put_campaign (c\<lparr>cp_status := ''paused'', cp_next_run_at := None\<rparr>) w)
         else bind_res (zone_of env (cp_timezone (cp_settings c))) (\<lambda>z.
           (let local_now = wall z (se_local_instant env);
                w2 = prepare_slot env (date_of local_now) cid accounts w
            in case get_campaign cid w2 of
                 None \<Rightarrow> Inr ([], w2)
               | Some c2 \<Rightarrow>
                   bind_res (next_active_time env z (cp_settings c2) (se_now env)) (\<lambda>active_time.
                     if active_time > se_now env then postpone c2 active_time w2
                     else choose_action env z local_now c2 accounts w2))))"

text \<open>A worker whose claim was committed reads the campaign afresh, whatever happened since, and
  runs the slot; its clock stays at the time of the claim.\<close>

definition process_claimed :: "slot_env \<Rightarrow> string \<Rightarrow> warmup_db \<Rightarrow> unit result \<times> warmup_effect list \<times> warmup_db" where
  "process_claimed env cid w =
     (case get_campaign cid w of
        None \<Rightarrow> (Inr (), [], w)
      | Some c \<Rightarrow>
          (case run_slot env c w of
             Inl e \<Rightarrow> (Inl e, [], w)
           | Inr (effects, w2) \<Rightarrow> (Inr (), effects, w2)))"

definition process_campaign :: "slot_env \<Rightarrow> string \<Rightarrow> warmup_db \<Rightarrow> unit result \<times> warmup_effect list \<times> warmup_db" where
  "process_campaign env cid w =
     (case claim_slot (se_now env) cid w of
        (False, w1) \<Rightarrow> (Inr (), [], w1)
      | (True, w1) \<Rightarrow> process_claimed env cid w1)"

text \<open>\<open>scheduler_loop\<close>: one round over at most twenty due campaigns; an exception ends the round.\<close>

definition due_campaigns :: "time \<Rightarrow> warmup_db \<Rightarrow> string list" where
  "due_campaigns now w = take 20 (map cp_id (filter (due now) (wm_campaigns w)))"

fun scheduler_round :: "(string \<Rightarrow> slot_env) \<Rightarrow> string list \<Rightarrow> warmup_db \<Rightarrow> warmup_effect list \<times> warmup_db" where
  "scheduler_round env [] w = ([], w)"
| "scheduler_round env (cid # cids) w =
     (case process_campaign (env cid) cid w of
        (Inl e, effects, w1) \<Rightarrow> (effects, w1)
      | (Inr _, effects, w1) \<Rightarrow>
          (case scheduler_round env cids w1 of (later, w2) \<Rightarrow> (effects @ later, w2)))"

end
