(* ===== verification/WarmupAdmin.thy ===== *)
theory WarmupAdmin
  imports WarmupRun
begin

text \<open>
  The administration of warm-up: accounts and campaigns of \<^verbatim>\<open>warmup/service.py\<close> and the
  endpoints of \<^verbatim>\<open>warmup/router.py\<close> (whose guard, the administrator check, is a function of
  its own in \<open>AuthGate\<close>). The IMAP and SMTP sessions of the connection test, Fernet and the
  time-zone database are arguments.
\<close>

section \<open>Accounts\<close>

definition bad_request :: "'a result \<Rightarrow> 'a result" where
  "bad_request r = (case r of Inl (ValueErr m) \<Rightarrow> Inl (Http 400 m) | _ \<Rightarrow> r)"

definition list_accounts :: "warmup_db \<Rightarrow> warmup_account list" where
  "list_accounts w = sort_key wa_created_at (wm_accounts w)"

definition create_account :: "(string \<Rightarrow> string) \<Rightarrow> string \<Rightarrow> time \<Rightarrow> account_create \<Rightarrow> warmup_db
    \<Rightarrow> warmup_account result \<times> warmup_db" where
  "create_account encrypt i now b w =
     (case one_or_none (filter (\<lambda>a. wa_email a = ak_email b) (wm_accounts w)) of
        Inl e \<Rightarrow> (Inl e, w)
      | Inr (Some _) \<Rightarrow> (Inl (ValueErr ''A warmup account with this email already exists''), w)
      | Inr None \<Rightarrow>
          (let a = \<lparr>wa_id = i, wa_name = ak_name b, wa_email = ak_email b,
                    wa_provider = detect_provider (ak_provider b) (ak_smtp_host b) (ak_imap_host b),
                    wa_smtp_host = ak_smtp_host b, wa_smtp_port = ak_smtp_port b,
                    wa_smtp_security = ak_smtp_security b, wa_imap_host = ak_imap_host b,
                    wa_imap_port = ak_imap_port b, wa_imap_security = ak_imap_security b,
                    wa_username = ak_username b, wa_password_encrypted = encrypt (ak_password b),
                    wa_enabled = ak_enabled b, wa_verified = False, wa_last_checked_at = None,
                    wa_last_error = None, wa_created_at = now\<rparr>
           in (Inr a, w\<lparr>wm_accounts := wm_accounts w @ [a]\<rparr>)))"

definition add_account :: "(string \<Rightarrow> string) \<Rightarrow> string \<Rightarrow> time \<Rightarrow> account_create \<Rightarrow> warmup_db
    \<Rightarrow> warmup_account result \<times> warmup_db" where
  "add_account encrypt i now b w =
     (case account_create_request b of
        Inl e \<Rightarrow> (Inl e, w)
      | Inr b' \<Rightarrow> map_prod bad_request id (create_account encrypt i now b' w))"

text \<open>An explicit null for the name or the switch violates the column at the commit; a null
  password is ignored.\<close>

definition update_account :: "(string \<Rightarrow> string) \<Rightarrow> string \<Rightarrow> account_update \<Rightarrow> warmup_db
    \<Rightarrow> warmup_account result \<times> warmup_db" where
  "update_account encrypt i body w =
     (case account_update_request body of
        Inl e \<Rightarrow> (Inl e, w)
      | Inr b \<Rightarrow>
          (case get_account i w of
             None \<Rightarrow> (Inl (Http 404 ''Warmup account not found''), w)
           | Some a \<Rightarrow>
               if aw_name b = Some None \<or> aw_enabled b = Some None
               then (Inl (OtherExc ''IntegrityError''), w)
               else (let a1 = a\<lparr>wa_name := (case aw_name b of Some (Some n) \<Rightarrow> n | _ \<Rightarrow> wa_name a),
                                wa_enabled := (case aw_enabled b of Some (Some e) \<Rightarrow> e | _ \<Rightarrow> wa_enabled a)\<rparr>;
                         a2 = (case aw_password b of
                                 Some (Some p) \<Rightarrow>
                                   if p = [] then a1
                                   else a1\<lparr>wa_password_encrypted := encrypt p, wa_verified := False\<rparr>
                               | _ \<Rightarrow> a1)
                     in (Inr a2, put_account a2 w))))"

text \<open>\<open>probe\<close> is the outcome of signing in over SMTP and IMAP: the text of the exception, if any.\<close>

definition check_account :: "(warmup_account \<Rightarrow> string option) \<Rightarrow> time \<Rightarrow> warmup_account \<Rightarrow> warmup_db
    \<Rightarrow> (bool \<times> string) \<times> warmup_db" where
  "check_account probe now a w =
     (let (ok, err, message) = (case probe a of
            None \<Rightarrow> (True, None, ''SMTP and IMAP authentication succeeded'')
          | Some m \<Rightarrow> (False, Some (take 1000 m), take 1000 m));
          a1 = a\<lparr>wa_verified := ok, wa_last_error := err, wa_last_checked_at := Some now\<rparr>
      in ((ok, message), put_account a1 w))"

definition test_account :: "(warmup_account \<Rightarrow> string option) \<Rightarrow> time \<Rightarrow> string \<Rightarrow> warmup_db
    \<Rightarrow> (bool \<times> string) result \<times> warmup_db" where
  "test_account probe now i w =
     (case get_account i w of
        None \<Rightarrow> (Inl (Http 404 ''Warmup account not found''), w)
      | Some a \<Rightarrow> map_prod Inr id (check_account probe now a w))"

text \<open>Deleting an account removes its campaign links and clears it in the events.\<close>

definition remove_account :: "string \<Rightarrow> warmup_db \<Rightarrow> unit result \<times> warmup_db" where
  "remove_account i w =
     (case get_account i w of
        None \<Rightarrow> (Inl (Http 404 ''Warmup account not found''), w)
      | Some a \<Rightarrow>
          if list_ex (\<lambda>c. cp_status c = ''active'' \<and> i \<in> set (cp_account_ids (cp_settings c))) (wm_campaigns w)
          then (Inl (Http 409 ''Stop the active campaign using this account before deleting it''), w)
          else (Inr (), w\<lparr>wm_accounts := row_del wa_id i (wm_accounts w),
                  wm_campaigns := map (\<lambda>c. c\<lparr>cp_settings := (cp_settings c)\<lparr>cp_account_ids :=
                     filter (\<lambda>x. x \<noteq> i) (cp_account_ids (cp_settings c))\<rparr>\<rparr>) (wm_campaigns w),
                  wm_events := map (\<lambda>e. if wv_account_id e = Some i then e\<lparr>wv_account_id := None\<rparr> else e)
                     (wm_events w)\<rparr>))"

section \<open>Campaigns\<close>

definition unverified :: "domain_row \<Rightarrow> string list" where
  "unverified d = map fst (filter (\<lambda>p. \<not> snd p)
     [(''MX'', d_mx_verified d), (''SPF'', d_spf_verified d), (''DKIM'', d_dkim_verified d),
      (''DMARC'', d_dmarc_verified d)])"

definition validate_sender_domain :: "settings \<Rightarrow> string \<Rightarrow> db \<Rightarrow> unit result" where
  "validate_sender_domain st local_address d =
     (if \<not> is_production st then Inr ()
      else (let domain_name = lower (case split_last (CHR ''@'') local_address of
                  None \<Rightarrow> local_address | Some (_, part) \<Rightarrow> part)
            in bind_res (one_or_none (filter (\<lambda>r. d_name r = domain_name) (domains d))) (\<lambda>row.
                 case row of
                   None \<Rightarrow> Inl (ValueErr ''The sender domain is not active in MailCue'')
                 | Some r \<Rightarrow>
                     if \<not> d_is_active r then Inl (ValueErr ''The sender domain is not active in MailCue'')
                     else if unverified r \<noteq> []
                     then Inl (ValueErr (''Verify the sender domain before warmup. Missing: '' @
                            join '', '' (unverified r)))
                     else Inr ())))"

definition validate_configuration :: "settings \<Rightarrow> (string \<Rightarrow> zone_lookup) \<Rightarrow> campaign_settings \<Rightarrow> warmup_db
    \<Rightarrow> warmup_account list result" where
  "validate_configuration st zi b w =
     (let ids = cp_account_ids b;
          accounts = filter (\<lambda>a. wa_id a \<in> set ids) (wm_accounts w)
      in case zi (cp_timezone b) of
           ZoneMissing \<Rightarrow> Inl (ValueErr (''Unknown timezone: '' @ cp_timezone b))
         | ZoneBadKey m \<Rightarrow> Inl (ValueErr m)
         | Zone z \<Rightarrow>
             if \<not> distinct ids then Inl (ValueErr ''External accounts cannot be selected more than once'')
             else if length accounts \<noteq> length (remdups ids)
             then Inl (ValueErr ''One or more external accounts do not exist'')
             else if list_ex (\<lambda>a. \<not> wa_verified a \<or> \<not> wa_enabled a) accounts
             then Inl (ValueErr ''All campaign accounts must be enabled and connection-tested'')
             else bind_res (one_or_none (filter (\<lambda>m. m_address m = cp_local_address b) (mailboxes (wm_db w)))) (\<lambda>mb.
               if mb = None then Inl (ValueErr ''The local sender must be an existing MailCue mailbox'')
               else bind_res (validate_sender_domain st (cp_local_address b) (wm_db w)) (\<lambda>_. Inr accounts)))"

definition create_campaign :: "settings \<Rightarrow> (string \<Rightarrow> zone_lookup) \<Rightarrow> (string \<Rightarrow> string) \<Rightarrow> string \<Rightarrow> time
    \<Rightarrow> campaign_settings \<Rightarrow> warmup_db \<Rightarrow> campaign result \<times> warmup_db" where
  "create_campaign st zi state_id i now b w =
     (case validate_configuration st zi b w of
        Inl e \<Rightarrow> (Inl e, w)
      | Inr accounts \<Rightarrow>
          (let c = \<lparr>cp_id = i, cp_settings = b, cp_status = ''draft'', cp_sent_today = 0, cp_total_sent = 0,
                    cp_total_failed = 0, cp_volume_date = None, cp_started_at = None, cp_stopped_at = None,
                    cp_next_run_at = None, cp_created_at = now\<rparr>
           in (Inr c, ensure_provider_states state_id i accounts
                (w\<lparr>wm_campaigns := wm_campaigns w @ [c]\<rparr>))))"

definition update_campaign :: "settings \<Rightarrow> (string \<Rightarrow> zone_lookup) \<Rightarrow> (string \<Rightarrow> string) \<Rightarrow> time \<Rightarrow> campaign
    \<Rightarrow> campaign_settings \<Rightarrow> warmup_db \<Rightarrow> campaign result \<times> warmup_db" where
  "update_campaign st zi state_id now c b w =
     (case validate_configuration st zi b w of
        Inl e \<Rightarrow> (Inl e, w)
      | Inr accounts \<Rightarrow>
          (let c1 = c\<lparr>cp_settings := b\<rparr>;
               c2 = (if cp_status c1 = ''active'' \<and> cp_next_run_at c1 = None
                     then c1\<lparr>cp_next_run_at := Some now\<rparr> else c1)
           in (Inr c2, put_campaign c2 (ensure_provider_states state_id (cp_id c) accounts w))))"

definition set_campaign_status :: "time \<Rightarrow> string \<Rightarrow> campaign \<Rightarrow> warmup_db \<Rightarrow> campaign result \<times> warmup_db" where
  "set_campaign_status now action c w =
     (let saved = (\<lambda>c'. (Inr c', put_campaign c' w))
      in if action = ''start''
         then saved (c\<lparr>cp_started_at := (case cp_started_at c of None \<Rightarrow> Some now | Some t \<Rightarrow> Some t),
                       cp_status := ''active'', cp_stopped_at := None, cp_next_run_at := Some now\<rparr>)
         else if action = ''pause'' then saved (c\<lparr>cp_status := ''paused'', cp_next_run_at := None\<rparr>)
         else if action = ''stop''
         then saved (c\<lparr>cp_status := ''stopped'', cp_stopped_at := Some now, cp_next_run_at := None\<rparr>)
         else (Inl (ValueErr ''Action must be start, pause, or stop''), w))"

definition add_campaign :: "settings \<Rightarrow> (string \<Rightarrow> zone_lookup) \<Rightarrow> (string \<Rightarrow> string) \<Rightarrow> string \<Rightarrow> time
    \<Rightarrow> campaign_settings \<Rightarrow> warmup_db \<Rightarrow> campaign result \<times> warmup_db" where
  "add_campaign st zi state_id i now b w =
     (case campaign_create_request b of
        Inl e \<Rightarrow> (Inl e, w)
      | Inr b' \<Rightarrow> map_prod bad_request id (create_campaign st zi state_id i now b' w))"

definition edit_campaign :: "settings \<Rightarrow> (string \<Rightarrow> zone_lookup) \<Rightarrow> (string \<Rightarrow> string) \<Rightarrow> time \<Rightarrow> string
    \<Rightarrow> campaign_settings \<Rightarrow> warmup_db \<Rightarrow> campaign result \<times> warmup_db" where
  "edit_campaign st zi state_id now cid b w =
     (case campaign_create_request b of
        Inl e \<Rightarrow> (Inl e, w)
      | Inr b' \<Rightarrow>
          (case get_campaign cid w of
             None \<Rightarrow> (Inl (Http 404 ''Warmup campaign not found''), w)
           | Some c \<Rightarrow> map_prod bad_request id (update_campaign st zi state_id now c b' w)))"

definition control_campaign :: "settings \<Rightarrow> (string \<Rightarrow> string) \<Rightarrow> time \<Rightarrow> string \<Rightarrow> string \<Rightarrow> warmup_db
    \<Rightarrow> campaign result \<times> warmup_db" where
  "control_campaign st state_id now cid action w =
     (case get_campaign cid w of
        None \<Rightarrow> (Inl (Http 404 ''Warmup campaign not found''), w)
      | Some c \<Rightarrow>
          if action = ''start'' then
            (let accounts = filter (\<lambda>a. wa_id a \<in> set (cp_account_ids (cp_settings c))) (wm_accounts w)
             in if accounts = [] \<or> list_ex (\<lambda>a. \<not> wa_enabled a \<or> \<not> wa_verified a) accounts
                then (Inl (Http 409 ''Every campaign account must be enabled and connection-tested before starting''), w)
                else (case validate_sender_domain st (cp_local_address (cp_settings c)) (wm_db w) of
                        Inl (ValueErr m) \<Rightarrow> (Inl (Http 409 m), w)
                      | Inl e \<Rightarrow> (Inl e, w)
                      | Inr _ \<Rightarrow> set_campaign_status now action c
                                  (ensure_provider_states state_id cid accounts w)))
          else map_prod bad_request id (set_campaign_status now action c w))"

definition remove_campaign :: "string \<Rightarrow> warmup_db \<Rightarrow> unit result \<times> warmup_db" where
  "remove_campaign cid w =
     (case get_campaign cid w of
        None \<Rightarrow> (Inl (Http 404 ''Warmup campaign not found''), w)
      | Some c \<Rightarrow>
          if cp_status c = ''active'' then (Inl (Http 409 ''Stop the campaign before deleting it''), w)
          else (Inr (), w\<lparr>wm_campaigns := row_del cp_id cid (wm_campaigns w),
                  wm_states := filter (\<lambda>p. ps_campaign_id p \<noteq> cid) (wm_states w),
                  wm_events := filter (\<lambda>e. wv_campaign_id e \<noteq> cid) (wm_events w)\<rparr>))"

definition resume_provider :: "time \<Rightarrow> string \<Rightarrow> warmup_db \<Rightarrow> provider_state result \<times> warmup_db" where
  "resume_provider now sid w =
     (case get_state sid w of
        None \<Rightarrow> (Inl (Http 404 ''Warmup provider state not found''), w)
      | Some p \<Rightarrow>
          (let p' = p\<lparr>ps_status := ''healthy'', ps_failures := 0, ps_paused_until := None, ps_next_attempt_at := None\<rparr>;
               w1 = put_state p' w
           in (Inr p', case get_campaign (ps_campaign_id p) w1 of
                 Some c \<Rightarrow> if cp_status c = ''active'' then put_campaign (c\<lparr>cp_next_run_at := Some now\<rparr>) w1 else w1
               | None \<Rightarrow> w1)))"

text \<open>\<open>clear\<close> deletes the messages exchanged with the given addresses over IMAP and tells their
  number, or fails with the text of an exception.\<close>

definition clear_campaign_mailbox :: "(string \<Rightarrow> string list \<Rightarrow> string + nat) \<Rightarrow> string \<Rightarrow> warmup_db \<Rightarrow> nat result" where
  "clear_campaign_mailbox clear cid w =
     (case get_campaign cid w of
        None \<Rightarrow> Inl (Http 404 ''Warmup campaign not found'')
      | Some c \<Rightarrow>
          (let emails = map wa_email (filter (\<lambda>a. wa_id a \<in> set (cp_account_ids (cp_settings c))) (wm_accounts w))
           in if emails = [] then Inr 0
              else (case clear (cp_local_address (cp_settings c)) emails of
                      Inl m \<Rightarrow> Inl (Http 500 (''Failed to clear local mailbox: '' @ m))
                    | Inr n \<Rightarrow> Inr n)))"

section \<open>Listings\<close>

definition list_campaigns :: "warmup_db \<Rightarrow> campaign list" where
  "list_campaigns w = sort_key (\<lambda>c. - cp_created_at c) (wm_campaigns w)"

definition list_provider_states :: "string option \<Rightarrow> warmup_db \<Rightarrow> provider_state list" where
  "list_provider_states cid w =
     sort_key ps_campaign_id (sort_key ps_provider
       (filter (\<lambda>p. \<not> truthy cid \<or> Some (ps_campaign_id p) = cid) (wm_states w)))"

definition list_events :: "string option \<Rightarrow> nat \<Rightarrow> warmup_db \<Rightarrow> warmup_event list" where
  "list_events cid limit w =
     take limit (sort_key (\<lambda>e. - wv_created_at e)
       (filter (\<lambda>e. \<not> truthy cid \<or> Some (wv_campaign_id e) = cid) (wm_events w)))"

section \<open>A concrete instance\<close>

text \<open>A small campaign on which the properties of warm-up are exercised.\<close>

definition demo_campaign_settings :: campaign_settings where
  "demo_campaign_settings = \<lparr>cp_name = ''n'', cp_local_address = ''me@local.test'', cp_account_ids = [''a1''],
     cp_start_daily_volume = 3, cp_daily_ramp = 1, cp_max_daily_volume = 20, cp_min_delay_minutes = 30,
     cp_max_delay_minutes = 120, cp_reply_rate = 70, cp_active_hour_start = 8, cp_active_hour_end = 20,
     cp_timezone = ''UTC'', cp_auto_clean = False\<rparr>"

definition demo_campaign :: campaign where
  "demo_campaign = \<lparr>cp_id = ''c1'', cp_settings = demo_campaign_settings, cp_status = ''active'', cp_sent_today = 0,
     cp_total_sent = 0, cp_total_failed = 0, cp_volume_date = None, cp_started_at = Some 0,
     cp_stopped_at = None, cp_next_run_at = Some 0, cp_created_at = 0\<rparr>"

definition demo_account :: warmup_account where
  "demo_account = \<lparr>wa_id = ''a1'', wa_name = ''n'', wa_email = ''you@gmail.com'', wa_provider = ''gmail'',
     wa_smtp_host = ''h'', wa_smtp_port = 587, wa_smtp_security = Starttls, wa_imap_host = ''h'',
     wa_imap_port = 993, wa_imap_security = Ssl, wa_username = ''you'', wa_password_encrypted = ''x'',
     wa_enabled = True, wa_verified = True, wa_last_checked_at = None, wa_last_error = None, wa_created_at = 0\<rparr>"

definition demo_warmup :: warmup_db where
  "demo_warmup = \<lparr>wm_db = \<lparr>users = [], api_keys = [], mailboxes = [], domains = [], catch_all_row = None\<rparr>,
     wm_accounts = [demo_account], wm_campaigns = [demo_campaign], wm_events = [], wm_states = []\<rparr>"

definition demo_slot :: "time \<Rightarrow> slot_env" where
  "demo_slot now = \<lparr>se_now = now, se_local_instant = now, se_target_now = now, se_feedback_now = now, se_saved_at = now,
     se_zoneinfo = (\<lambda>_. Zone \<lparr>utc_offset = (\<lambda>_. 0), wall_offset = (\<lambda>_. 0)\<rparr>), se_state_id = (\<lambda>p. p),
     se_dsn_id = (\<lambda>_. ''d''), se_event_id = ''e'', se_message_id = (\<lambda>d. ''<1@'' @ d @ ''>''), se_dsns = Some [],
     se_pick = (\<lambda>_. 0), se_draw = (\<lambda>_. 0), se_send = (\<lambda>_. None)\<rparr>"

definition senders :: "warmup_effect list \<Rightarrow> string list" where
  "senders es = List.map_filter (\<lambda>e. case e of Mail m ok \<Rightarrow> Some (mo_from m) | _ \<Rightarrow> None) es"

lemma demo_run: "senders (fst (snd (process_campaign (demo_slot (hours 9)) ''c1'' demo_warmup))) = [''me@local.test'']"
  by code_simp

lemma senders_member:
  assumes "senders es = [x]"
  obtains m ok where "Mail m ok \<in> set es" "mo_from m = x"
proof -
  have "x \<in> set (senders es)" using assms by simp
  then show thesis using that
    by (auto simp: senders_def List.map_filter_def split: warmup_effect.splits)
qed

lemma demo_mail_accepted:
  assumes "process_campaign (demo_slot (hours 9)) ''c1'' demo_warmup = (r, effects, w')"
  shows "Mail m ok \<in> set effects \<Longrightarrow> ok"
proof -
  have "list_all (\<lambda>e. case e of Mail m ok \<Rightarrow> ok | _ \<Rightarrow> True)
      (fst (snd (process_campaign (demo_slot (hours 9)) ''c1'' demo_warmup)))"
    by code_simp
  then show "Mail m ok \<in> set effects \<Longrightarrow> ok" using assms by (auto simp: list_all_iff)
qed

end
