(* ===== verification/WarmupProps.thy ===== *)
theory WarmupProps
  imports WarmupAdmin
begin

text \<open>
  What a warm-up run may send and when; the pacing and health of the receiving providers, and
  the two ways a delayed delivery report undoes them.
\<close>

section \<open>Health of a provider\<close>

lemma available_keeps [simp]:
  "ps_provider (snd (provider_is_available p now)) = ps_provider p"
  "ps_sent_today (snd (provider_is_available p now)) = ps_sent_today p"
  "ps_campaign_id (snd (provider_is_available p now)) = ps_campaign_id p"
  "ps_id (snd (provider_is_available p now)) = ps_id p"
  by (simp_all add: provider_is_available_def split: option.splits)

lemma available_iff:
  "fst (provider_is_available p now) \<longleftrightarrow> ps_status p \<noteq> ''blocked'' \<and>
     (case (case ps_paused_until p of None \<Rightarrow> ps_next_attempt_at p | Some t \<Rightarrow> Some t) of
        None \<Rightarrow> True | Some t \<Rightarrow> t \<le> now)"
  by (auto simp: provider_is_available_def split: option.splits)

lemma unavailable_unchanged: "\<not> fst (provider_is_available p now) \<Longrightarrow> snd (provider_is_available p now) = p"
  by (auto simp: provider_is_available_def split: option.splits if_splits)

text \<open>A provider that is asked at several times.\<close>

definition asked :: "time list \<Rightarrow> provider_state \<Rightarrow> provider_state" where
  "asked ts p = fold (\<lambda>t q. snd (provider_is_available q t)) ts p"

lemma asked_Nil [simp]: "asked [] p = p"
  by (simp add: asked_def)

lemma asked_Cons [simp]: "asked (t # ts) p = asked ts (snd (provider_is_available p t))"
  by (simp add: asked_def)

lemma asked_unavailable:
  assumes "\<And>t. t \<in> set ts \<Longrightarrow> \<not> fst (provider_is_available p t)"
  shows "asked ts p = p"
  using assms by (induction ts) (auto simp: unavailable_unchanged)

lemma min_gap_values: "provider_min_gap_minutes p \<in> {30, 45}"
  by (auto simp: provider_min_gap_minutes_def split: option.splits if_splits)

lemma available_after_success:
  "fst (provider_is_available (apply_success t p) now) \<longleftrightarrow> t + minutes (provider_min_gap_minutes (ps_provider p)) \<le> now"
  by (simp add: available_iff apply_success_def)

lemma available_after_delay:
  assumes "\<not> is_permanent c e"
  shows "fst (provider_is_available (apply_failure t c e r p) now) \<longleftrightarrow>
    t + minutes (cooldown_minutes (ps_provider p) (Suc (ps_failures p))) \<le> now"
  using assms by (simp add: available_iff apply_failure_def Let_def)

lemma cooldown_values: "10 \<le> cooldown_minutes p n \<and> cooldown_minutes p n \<le> 360"
  by (auto simp: cooldown_minutes_def)

lemma cooldown_mono: "m \<le> n \<Longrightarrow> cooldown_minutes p m \<le> cooldown_minutes p n"
proof -
  assume "m \<le> n"
  then have "(2::int) ^ (m - 1) \<le> 2 ^ (n - 1)" by (intro power_increasing) simp_all
  then show ?thesis unfolding cooldown_minutes_def by (intro min.mono max.mono order_refl) simp_all
qed

text \<open>after a delivery the provider rests for its pacing floor, thirty or forty-five minutes, however
  often it is asked; but a delayed delivery report that arrives in between replaces the floor by
  the shorter cooling period, so a delivery may follow after fifteen minutes (ten for Gmail)
  counted from the report.\<close>

theorem pacing_floor:
  "provider_min_gap_minutes (ps_provider p) \<in> {30, 45} \<and>
    (\<forall>ts now. (\<forall>x \<in> set (ts @ [now]). x < t + minutes (provider_min_gap_minutes (ps_provider p))) \<longrightarrow>
       \<not> fst (provider_is_available (asked ts (apply_success t p)) now)) \<and>
    fst (provider_is_available (apply_success t p) (t + minutes (provider_min_gap_minutes (ps_provider p)))) \<and>
    (\<forall>t' c e r. \<not> is_permanent c e \<longrightarrow>
       fst (provider_is_available (apply_failure t' c e r (apply_success t p))
         (t' + minutes (if ps_provider p = ''gmail'' then 10 else 15))))"
proof (intro conjI allI impI)
  fix ts now
  assume *: "\<forall>x \<in> set (ts @ [now]). x < t + minutes (provider_min_gap_minutes (ps_provider p))"
  then have "asked ts (apply_success t p) = apply_success t p"
    by (intro asked_unavailable) (auto simp: available_after_success)
  with * show "\<not> fst (provider_is_available (asked ts (apply_success t p)) now)"
    by (simp add: available_after_success)
next
  fix t' c e r
  assume "\<not> is_permanent c e"
  then show "fst (provider_is_available (apply_failure t' c e r (apply_success t p))
      (t' + minutes (if ps_provider p = ''gmail'' then 10 else 15)))"
    by (simp add: available_after_delay cooldown_minutes_def apply_success_def)
qed (simp_all add: min_gap_values available_after_success del: insert_iff)

theorem pacing_floor_witness:
  "\<not> fst (provider_is_available (asked [minutes 5] (apply_success 0 (new_state ''s'' ''c'' ''gmail''))) (minutes 29)) \<and>
    fst (provider_is_available (apply_failure (minutes 1) (Some 451) None None
      (apply_success 0 (new_state ''s'' ''c'' ''gmail''))) (minutes 1 + minutes 10))"
proof -
  have g: "ps_provider (new_state ''s'' ''c'' ''gmail'') = ''gmail''" by (simp add: new_state_def)
  have n: "\<not> is_permanent (Some 451) None" by (simp add: is_permanent_def)
  have m: "provider_min_gap_minutes ''gmail'' = 30" by (simp add: provider_min_gap_minutes_def)
  note all = pacing_floor [of "new_state ''s'' ''c'' ''gmail''" 0, unfolded g m]
  have ts: "\<forall>x \<in> set ([minutes 5] @ [minutes 29]). x < 0 + minutes 30" by (simp add: minutes_def)
  show ?thesis
    using mp [OF spec [OF spec [OF conjunct1 [OF conjunct2 [OF all]]]] ts]
      mp [OF spec [OF spec [OF spec [OF spec [OF conjunct2 [OF conjunct2 [OF conjunct2 [OF all]]]]]]] n]
    by simp
qed

text \<open>the answer to failures. A transient failure makes the provider unavailable for a cooling
  period between ten minutes and six hours that never shortens as failures follow one another;
  a permanent one blocks it at all times, whatever it is asked; but a transient report after the block
  turns it into a cooling period, after which it is used again without an administrator.\<close>

theorem failure_backoff:
  assumes "\<not> is_permanent c e" and "is_permanent c' e'"
  shows "(\<exists>m \<in> {10..360}.
       (\<forall>now. fst (provider_is_available (apply_failure t c e r p) now) \<longleftrightarrow> t + minutes m \<le> now) \<and>
       (\<forall>n. ps_failures p \<le> n \<longrightarrow> m \<le> cooldown_minutes (ps_provider p) (Suc n))) \<and>
    (\<forall>ts now. \<not> fst (provider_is_available (asked ts (apply_failure t c' e' r' p)) now)) \<and>
    fst (provider_is_available (apply_failure t2 c e r (apply_failure t c' e' r' p)) (t2 + minutes 360))"
proof -
  let ?m = "cooldown_minutes (ps_provider p) (Suc (ps_failures p))"
  let ?b = "apply_failure t c' e' r' p"
  have blocked: "ps_status ?b = ''blocked''" using assms(2) by (simp add: apply_failure_def Let_def)
  then have never: "\<not> fst (provider_is_available ?b now)" for now by (simp add: available_iff)
  then have "asked ts ?b = ?b" for ts by (intro asked_unavailable) simp
  then have "\<not> fst (provider_is_available (asked ts ?b) now)" for ts now using never by simp
  moreover have "fst (provider_is_available (apply_failure t2 c e r ?b) (t2 + minutes 360))"
    using cooldown_values [of "ps_provider ?b" "Suc (ps_failures ?b)"] assms(1)
    by (simp add: available_after_delay)
  moreover have "\<forall>n. ps_failures p \<le> n \<longrightarrow> ?m \<le> cooldown_minutes (ps_provider p) (Suc n)"
    by (auto intro: cooldown_mono)
  moreover have "?m \<in> {10..360}" using cooldown_values by simp
  ultimately show ?thesis using available_after_delay [OF assms(1)] by blast
qed

theorem failure_backoff_witness:
  "\<exists>m \<in> {10..360}. \<forall>now.
     fst (provider_is_available (apply_failure 0 (Some 451) None None (new_state ''s'' ''c'' ''gmail'')) now)
       \<longleftrightarrow> minutes m \<le> now"
proof -
  have "\<not> is_permanent (Some 451) None" "is_permanent (Some 550) None" by (simp_all add: is_permanent_def)
  from conjunct1 [OF failure_backoff [OF this, of 0 None "new_state ''s'' ''c'' ''gmail''" None 0]]
  obtain m where "m \<in> {10..360}" and
    "\<forall>now. fst (provider_is_available (apply_failure 0 (Some 451) None None (new_state ''s'' ''c'' ''gmail'')) now)
       \<longleftrightarrow> 0 + minutes m \<le> now" by blast
  then show ?thesis by (intro bexI [of _ m]) simp_all
qed

section \<open>A run of the scheduler\<close>

lemma choice_in: "xs \<noteq> [] \<Longrightarrow> choice env k xs \<in> set xs"
  by (simp add: choice_def)

lemma put_campaign_frame [simp]:
  "wm_accounts (put_campaign c w) = wm_accounts w" "wm_events (put_campaign c w) = wm_events w"
  "wm_states (put_campaign c w) = wm_states w" "wm_db (put_campaign c w) = wm_db w"
  "wm_campaigns (put_campaign c w) = row_put cp_id c (wm_campaigns w)"
  by (simp_all add: put_campaign_def)

lemma update_provider_frame [simp]:
  "wm_accounts (update_provider i p f w) = wm_accounts w" "wm_events (update_provider i p f w) = wm_events w"
  "wm_campaigns (update_provider i p f w) = wm_campaigns w"
  by (simp_all add: update_provider_def)

lemma put_account_frame [simp]:
  "wm_campaigns (put_account a w) = wm_campaigns w" "wm_events (put_account a w) = wm_events w"
  by (simp_all add: put_account_def)

lemma check_availability_frame [simp]:
  "wm_accounts (check_availability n i as w) = wm_accounts w" "wm_events (check_availability n i as w) = wm_events w"
  "wm_campaigns (check_availability n i as w) = wm_campaigns w"
  by (simp_all add: check_availability_def)

lemma last_outbound_events: "wm_events w = wm_events w' \<Longrightarrow> last_outbound i a w = last_outbound i a w'"
  by (simp add: last_outbound_def last_sent_def)

text \<open>A claim succeeds exactly on the due campaign, and defers it by five minutes.\<close>

lemma claim_slot_True:
  assumes "claim_slot now cid w = (True, w1)" and "distinct (map cp_id (wm_campaigns w))"
  obtains c where "get_campaign cid w = Some c" "due now c"
    "w1 = put_campaign (c\<lparr>cp_next_run_at := Some (now + minutes 5)\<rparr>) w"
proof -
  have one: "length (filter (\<lambda>c. cp_id c = cid \<and> due now c) (wm_campaigns w)) = 1"
    and w1: "w1 = w\<lparr>wm_campaigns := map (\<lambda>c. if cp_id c = cid \<and> due now c
                      then c\<lparr>cp_next_run_at := Some (now + minutes 5)\<rparr> else c) (wm_campaigns w)\<rparr>"
    using assms(1) by (auto simp: claim_slot_def split: if_splits)
  from one obtain c where "filter (\<lambda>c. cp_id c = cid \<and> due now c) (wm_campaigns w) = [c]"
    by (auto simp: length_Suc_conv)
  then have "c \<in> set (filter (\<lambda>c. cp_id c = cid \<and> due now c) (wm_campaigns w))" by simp
  then have c: "c \<in> set (wm_campaigns w)" "cp_id c = cid" "due now c" by simp_all
  then have g: "get_campaign cid w = Some c"
    using row_get_unique [OF assms(2) c(1)] by (simp add: get_campaign_def)
  have same: "x = c" if "x \<in> set (wm_campaigns w)" "cp_id x = cid" for x
    using row_get_unique [OF assms(2) that(1)] g that(2) by (simp add: get_campaign_def)
  have "w1 = put_campaign (c\<lparr>cp_next_run_at := Some (now + minutes 5)\<rparr>) w"
  proof -
    have "map (\<lambda>x. if cp_id x = cid \<and> due now x then x\<lparr>cp_next_run_at := Some (now + minutes 5)\<rparr> else x) (wm_campaigns w) =
        row_put cp_id (c\<lparr>cp_next_run_at := Some (now + minutes 5)\<rparr>) (wm_campaigns w)"
      unfolding row_put_def
    proof (intro map_cong refl)
      fix x assume x: "x \<in> set (wm_campaigns w)"
      show "(if cp_id x = cid \<and> due now x then x\<lparr>cp_next_run_at := Some (now + minutes 5)\<rparr> else x) =
          (if cp_id x = cp_id (c\<lparr>cp_next_run_at := Some (now + minutes 5)\<rparr>)
           then c\<lparr>cp_next_run_at := Some (now + minutes 5)\<rparr> else x)"
      proof (cases "cp_id x = cid")
        case True
        from same [OF x this] c show ?thesis by simp
      qed (simp add: c(2))
    qed
    then show ?thesis by (simp add: w1 put_campaign_def)
  qed
  with that g c(3) show thesis by blast
qed

text \<open>What the choice of an action rests on, read from the moment of the choice.\<close>

definition may_start :: "slot_env \<Rightarrow> zone \<Rightarrow> time \<Rightarrow> campaign \<Rightarrow> warmup_account list \<Rightarrow> warmup_account \<Rightarrow> warmup_db \<Rightarrow> bool" where
  "may_start env z local_now c accounts a w \<longleftrightarrow>
     (\<forall>b \<in> set accounts. \<not> last_outbound (cp_id c) b w) \<and>
     cp_sent_today c < daily_target env z c local_now \<and>
     (\<exists>p \<in> set (active_states (cp_id c) accounts w). ps_provider p = normalize_provider (wa_provider a) \<and>
        fst (provider_is_available p (se_now env)) \<and>
        ps_sent_today p * int (length (active_states (cp_id c) accounts w)) < daily_target env z c local_now)"

lemma below_share:
  assumes "s < (target + n - 1) div n" and "(0::int) < n"
  shows "s * n < target"
proof -
  have "(s + 1) * n \<le> (target + n - 1) div n * n" using assms by (intro mult_right_mono) auto
  also have "\<dots> \<le> target + n - 1" using pos_mod_sign [OF assms(2), of "target + n - 1"] div_mult_mod_eq [of "target + n - 1" n]
    by linarith
  finally show ?thesis by (simp add: distrib_right)
qed

lemma set_least_loaded: "set (least_loaded ps) \<subseteq> set ps"
  by (auto simp: least_loaded_def)

lemma load_le_linear: "load_le p q \<or> load_le q p"
  by (auto simp: load_le_def)

lemma load_le_trans: "load_le p q \<Longrightarrow> load_le q r \<Longrightarrow> load_le p r"
  by (auto simp: load_le_def)

lemma least_loaded_nonempty: "ps \<noteq> [] \<Longrightarrow> least_loaded ps \<noteq> []"
proof -
  assume "ps \<noteq> []"
  then have "\<exists>p \<in> set ps. \<forall>q \<in> set ps. load_le p q"
  proof (induction ps rule: list_nonempty_induct)
    case (single p)
    show ?case by (simp add: load_le_def)
  next
    case (cons p ps)
    then obtain b where "b \<in> set ps" "\<forall>q \<in> set ps. load_le b q" by blast
    then show ?case using load_le_linear [of p b] load_le_trans
      by (metis load_le_linear set_ConsD list.set_intros)
  qed
  then show ?thesis by (auto simp: least_loaded_def list_all_iff filter_empty_conv)
qed

lemma start_outbound_mail:
  assumes "start_outbound env c accounts target w = Inr (effects, w')" and "Mail m ok \<in> set effects"
  obtains a w1 p where "deliver env c accounts a ''local_to_external'' w1 = Inr (effects, w')" "a \<in> set accounts"
    "wm_events w1 = wm_events w" "wm_campaigns w1 = wm_campaigns w"
    "p \<in> set (active_states (cp_id c) accounts w)" "ps_provider p = normalize_provider (wa_provider a)"
    "fst (provider_is_available p (se_now env))"
    "ps_sent_today p * int (length (active_states (cp_id c) accounts w)) < target"
proof -
  let ?now = "se_now env"
  define before where "before = active_states (cp_id c) accounts w"
  define n where "n = max 1 (int (length before))"
  define eligible where "eligible = eligible_states ?now ((target + n - 1) div n) before"
  define w1 where "w1 = check_availability ?now (cp_id c) accounts w"
  define chosen where "chosen = choice env 1 (least_loaded eligible)"
  define outbound where "outbound = filter (\<lambda>a. normalize_provider (wa_provider a) = ps_provider chosen \<and>
    \<not> last_outbound (cp_id c) a w1) accounts"
  note defs = before_def n_def eligible_def w1_def chosen_def outbound_def
  have run: "start_outbound env c accounts target w =
     (if eligible = [] then postpone c (next_opening ?now (active_states (cp_id c) accounts w1)) w1
      else if outbound = []
      then postpone c (?now + minutes 15) (update_provider (cp_id c) (ps_provider chosen)
                         (\<lambda>p. p\<lparr>ps_next_attempt_at := Some (?now + minutes 15)\<rparr>) w1)
      else deliver env c accounts (choice env 0 outbound) ''local_to_external'' w1)"
    by (simp only: start_outbound_def defs Let_def)
  have some: "eligible \<noteq> []" and out: "outbound \<noteq> []"
    using assms unfolding run by (auto simp: postpone_def split: if_splits)
  have "least_loaded eligible \<noteq> []"
    using least_loaded_nonempty [OF some] .
  then have "chosen \<in> set eligible"
    unfolding chosen_def by (rule subsetD [OF set_least_loaded choice_in])
  then obtain p where p: "p \<in> set before" "fst (provider_is_available p ?now)"
      "chosen = snd (provider_is_available p ?now)" "ps_sent_today chosen < (target + n - 1) div n"
    by (auto simp: eligible_def eligible_states_def)
  from p(1) have "before \<noteq> []" by auto
  then have "n = int (length before)" "0 < n" by (cases before; simp add: n_def)+
  with below_share [of "ps_sent_today chosen" target n] p(3,4)
  have share: "ps_sent_today p * int (length before) < target" by simp
  have a: "choice env 0 outbound \<in> set outbound" using out by (rule choice_in)
  show thesis
  proof (rule that)
    show "deliver env c accounts (choice env 0 outbound) ''local_to_external'' w1 = Inr (effects, w')"
      using assms(1) some out unfolding run by simp
    show "ps_provider p = normalize_provider (wa_provider (choice env 0 outbound))"
      using a p(3) by (simp add: outbound_def)
  qed (use a p share in \<open>simp_all add: outbound_def w1_def before_def\<close>)
qed

lemma deliver_mail:
  assumes "deliver env c accounts a direction w = Inr (effects, w')" and "Mail m ok \<in> set effects"
  shows "if direction = ''local_to_external''
    then mo_from m = cp_local_address (cp_settings c) \<and> mo_to m = wa_email a
    else mo_from m = wa_email a \<and> mo_to m = cp_local_address (cp_settings c)"
  using assms
  by (auto simp: deliver_def Let_def send_one_def compose_def split: option.splits if_splits prod.splits)

lemma choose_action_mail:
  assumes "choose_action env z local_now c accounts w = Inr (effects, w')" and "Mail m ok \<in> set effects"
  obtains a where "a \<in> set accounts" "mo_from m = wa_email a" "mo_to m = cp_local_address (cp_settings c)"
      "last_outbound (cp_id c) a w"
  | a where "a \<in> set accounts" "mo_from m = cp_local_address (cp_settings c)" "mo_to m = wa_email a"
      "may_start env z local_now c accounts a w"
proof -
  define pending where "pending = filter (\<lambda>a. last_outbound (cp_id c) a w) accounts"
  have run: "choose_action env z local_now c accounts w =
    (if pending \<noteq> [] then deliver env c accounts (choice env 0 pending) ''external_to_local'' w
     else if cp_sent_today c \<ge> daily_target env z c local_now
     then bind_res (tomorrow_start env z (cp_settings c) local_now) (\<lambda>t. postpone c t w)
     else start_outbound env c accounts (daily_target env z c local_now) w)"
    by (simp only: choose_action_def pending_def Let_def)
  show thesis
  proof (cases "pending = []")
    case False
    then have d: "deliver env c accounts (choice env 0 pending) ''external_to_local'' w = Inr (effects, w')"
      using assms(1) run by simp
    from choice_in [OF False] have "choice env 0 pending \<in> set pending" .
    with deliver_mail [OF d assms(2)] show thesis by (intro that(1) [of "choice env 0 pending"]) (auto simp: pending_def)
  next
    case True
    then have below: "cp_sent_today c < daily_target env z c local_now"
      and s: "start_outbound env c accounts (daily_target env z c local_now) w = Inr (effects, w')"
      using assms run by (auto simp: postpone_def split: if_splits)
    have none: "\<forall>b \<in> set accounts. \<not> last_outbound (cp_id c) b w"
      using True by (auto simp: pending_def filter_empty_conv)
    obtain a w1 p where a: "deliver env c accounts a ''local_to_external'' w1 = Inr (effects, w')" "a \<in> set accounts"
        "p \<in> set (active_states (cp_id c) accounts w)" "ps_provider p = normalize_provider (wa_provider a)"
        "fst (provider_is_available p (se_now env))"
        "ps_sent_today p * int (length (active_states (cp_id c) accounts w)) < daily_target env z c local_now"
      using s assms(2) by (rule start_outbound_mail)
    have "may_start env z local_now c accounts a w"
      unfolding may_start_def using none below a(3-6) by blast
    with deliver_mail [OF a(1) assms(2)] a(2) show thesis by (intro that(2)) auto
  qed
qed

lemma row_get_map:
  assumes "\<And>r. key (f r) = key r"
  shows "row_get key k (map f rows) = map_option f (row_get key k rows)"
  by (induction rows) (auto simp: table_simps assms)

lemma apply_reports_campaigns [simp]:
  "wm_campaigns (apply_reports env k cid accounts fb w) = wm_campaigns w"
  by (induction env k cid accounts fb w rule: apply_reports.induct) (auto simp: Let_def split: option.splits)

lemma prepare_slot_maps:
  obtains f where "wm_campaigns (prepare_slot env today cid accounts w) = map f (wm_campaigns w)"
    "\<And>c. cp_id (f c) = cp_id c \<and> cp_settings (f c) = cp_settings c \<and> cp_status (f c) = cp_status c \<and>
       cp_next_run_at (f c) = cp_next_run_at c"
proof -
  let ?roll = "\<lambda>c. if cp_id c = cid \<and> cp_volume_date c \<noteq> Some today
          then c\<lparr>cp_volume_date := Some today, cp_sent_today := 0\<rparr> else c"
  let ?count = "\<lambda>n c. if cp_id c = cid then c\<lparr>cp_total_failed := cp_total_failed c + n\<rparr> else c"
  let ?w1 = "roll_day today cid (ensure_provider_states (se_state_id env) cid accounts w)"
  have roll: "wm_campaigns ?w1 = map ?roll (wm_campaigns w)"
    by (simp add: roll_day_def ensure_provider_states_def Let_def)
  show thesis
  proof (cases "se_dsns env")
    case None
    then show thesis
      using roll by (intro that [of ?roll]) (auto simp: prepare_slot_def ingest_delivery_feedback_def)
  next
    case (Some inbox)
    let ?n = "int (length (fetch_local_dsns (map (\<lambda>a. lower (wa_email a)) accounts) inbox))"
    have "wm_campaigns (prepare_slot env today cid accounts w) = map (?count ?n \<circ> ?roll) (wm_campaigns w)"
      using Some roll by (simp add: prepare_slot_def ingest_delivery_feedback_def Let_def)
    then show thesis by (intro that [of "?count ?n \<circ> ?roll"]) auto
  qed
qed

lemma prepare_slot_campaign:
  assumes "get_campaign cid (prepare_slot env today cid accounts w) = Some c2"
  obtains c where "get_campaign cid w = Some c" "cp_id c2 = cp_id c" "cp_settings c2 = cp_settings c"
    "cp_status c2 = cp_status c" "cp_next_run_at c2 = cp_next_run_at c"
proof -
  obtain f where f: "wm_campaigns (prepare_slot env today cid accounts w) = map f (wm_campaigns w)"
    "\<And>c. cp_id (f c) = cp_id c \<and> cp_settings (f c) = cp_settings c \<and> cp_status (f c) = cp_status c \<and>
       cp_next_run_at (f c) = cp_next_run_at c"
    using prepare_slot_maps [of env today cid accounts w] by blast
  then obtain c where "get_campaign cid w = Some c" "c2 = f c"
    using assms row_get_map [of cp_id f cid "wm_campaigns w"] by (auto simp: get_campaign_def)
  then show thesis using f(2) that by simp
qed

text \<open>A zone in which the wall-clock times of a later hour denote later instants. A zone of constant
  offset is one, and so is every zone whose clock, when it is set back, repeats a part of one clock
  hour only, as daylight-saving time does nearly everywhere.\<close>

definition hours_in_order :: "zone \<Rightarrow> bool" where
  "hours_in_order z \<longleftrightarrow> (\<forall>t w. wall z t div hours 1 < w div hours 1 \<longrightarrow> t < from_wall z w)"

definition fixed_offset :: "zone \<Rightarrow> bool" where
  "fixed_offset z \<longleftrightarrow> (\<exists>k. \<forall>t. utc_offset z t = k \<and> wall_offset z t = k)"

lemma div_less_imp_less:
  fixes d :: int
  assumes "0 < d" and "a div d < b div d"
  shows "a < b"
proof (rule ccontr)
  assume "\<not> a < b"
  then have "b div d \<le> a div d" using assms(1) by (intro zdiv_mono1) simp_all
  with assms(2) show False by simp
qed

lemma less_mult_div_less:
  fixes d :: int
  assumes "0 < d" and "a < q * d"
  shows "a div d < q"
proof -
  have "a div d * d \<le> a" using div_mult_mod_eq [of a d] pos_mod_sign [OF assms(1), of a] by linarith
  with assms(2) have "a div d * d < q * d" by linarith
  then show ?thesis using assms(1) by (simp add: mult_less_cancel_right)
qed

lemma hours_pos: "0 < hours 1"
  by (simp add: hours_def minutes_def)

lemma fixed_offset_in_order: "fixed_offset z \<Longrightarrow> hours_in_order z"
  unfolding fixed_offset_def hours_in_order_def
proof (elim exE, intro allI impI)
  fix k t w
  assume "\<forall>t. utc_offset z t = k \<and> wall_offset z t = k" and "wall z t div hours 1 < w div hours 1"
  with div_less_imp_less [OF hours_pos this(2)] show "t < from_wall z w" by (simp add: wall_def from_wall_def)
qed

text \<open>The clock is set back by \<open>shift\<close> at the instant \<open>T\<close>, from the offset \<open>k + shift\<close> to
  the offset \<open>k\<close>; of a repeated wall-clock time the first occurrence is meant (\<open>fold=0\<close>).\<close>

definition set_back :: "time \<Rightarrow> int \<Rightarrow> int \<Rightarrow> zone" where
  "set_back T k shift = \<lparr>utc_offset = (\<lambda>t. if t < T then k + shift else k),
     wall_offset = (\<lambda>w. if w < T + k + shift then k + shift else k)\<rparr>"

lemma set_back_in_order:
  assumes "(T + k) mod hours 1 = 0"
  shows "hours_in_order (set_back T k (hours 1))"
proof (unfold hours_in_order_def, intro allI impI)
  fix t w
  let ?z = "set_back T k (hours 1)"
  assume less: "wall ?z t div hours 1 < w div hours 1"
  then have wall: "wall ?z t < w" by (rule div_less_imp_less [OF hours_pos])
  show "t < from_wall ?z w"
  proof (cases "t < T")
    case True
    with wall hours_pos show ?thesis by (simp add: set_back_def wall_def from_wall_def)
  next
    case False
    have "\<not> w < T + k + hours 1"
    proof
      assume "w < T + k + hours 1"
      moreover have "(T + k) div hours 1 * hours 1 = T + k" using assms div_mult_mod_eq [of "T + k" "hours 1"] by linarith
      ultimately have "w < ((T + k) div hours 1 + 1) * hours 1" by (simp add: distrib_right)
      then have "w div hours 1 < (T + k) div hours 1 + 1" by (rule less_mult_div_less [OF hours_pos])
      moreover have "(T + k) div hours 1 \<le> (t + k) div hours 1"
        using False hours_pos by (intro zdiv_mono1) simp_all
      ultimately show False using less False by (simp add: set_back_def wall_def)
    qed
    with wall False show ?thesis by (simp add: set_back_def wall_def from_wall_def)
  qed
qed

lemma day_bounds: "days (date_of t) \<le> t" "t < days (date_of t + 1)"
proof -
  have p: "0 < days 1" by (simp add: days_def hours_def minutes_def)
  have "days (date_of t) = t div days 1 * days 1" "days (date_of t + 1) = t div days 1 * days 1 + days 1"
    by (simp_all add: date_of_def days_def hours_def minutes_def)
  then show "days (date_of t) \<le> t" "t < days (date_of t + 1)"
    using div_mult_mod_eq [of t "days 1"] pos_mod_bound [OF p, of t] pos_mod_sign [OF p, of t]
    by linarith+
qed

lemma hour_before: "hour_of t < h \<Longrightarrow> t < days (date_of t) + hours h"
proof -
  assume h: "hour_of t < h"
  have p: "0 < hours 1" by (simp add: hours_def minutes_def)
  have "t mod days 1 < (hour_of t + 1) * hours 1"
    unfolding hour_of_def distrib_right
    using div_mult_mod_eq [of "t mod days 1" "hours 1"] pos_mod_bound [OF p, of "t mod days 1"]
    by linarith
  also have "\<dots> \<le> h * hours 1" using h p by (intro mult_right_mono) simp_all
  finally have "t mod days 1 < hours h" by (simp add: hours_def minutes_def)
  moreover have "days (date_of t) = t div days 1 * days 1" by (simp add: date_of_def days_def hours_def minutes_def)
  ultimately show ?thesis using div_mult_mod_eq [of t "days 1"] by linarith
qed

lemma outside_hours_waits:
  assumes "next_active_time env z s now = Inr t" and "t \<le> now" and "hours_in_order z" and "0 \<le> cp_active_hour_start s"
  shows "cp_active_hour_start s \<le> hour_of (wall z now) \<and> hour_of (wall z now) < cp_active_hour_end s"
proof (rule ccontr)
  assume out: "\<not> ?thesis"
  let ?l = "wall z now" and ?h = "cp_active_hour_start s"
  define day where "day = (if hour_of ?l \<ge> cp_active_hour_end s then date_of ?l + 1 else date_of ?l)"
  define j where "j = se_draw env 0 mod 21"
  have j: "0 \<le> j" "t = from_wall z (days day + hours ?h + minutes j)"
    using assms(1) out by (auto simp: next_active_time_def randint_def day_def j_def Let_def split: if_splits)
  have pos: "0 \<le> hours ?h" using assms(4) by (simp add: hours_def minutes_def)
  have "?l < days day + hours ?h"
  proof (cases "hour_of ?l \<ge> cp_active_hour_end s")
    case True
    with day_bounds(2) [of ?l] pos show ?thesis by (simp add: day_def)
  next
    case False
    with out have "hour_of ?l < ?h" by simp
    from hour_before [OF this] False show ?thesis by (simp add: day_def)
  qed
  moreover have target: "days day + hours ?h = (24 * day + ?h) * hours 1"
    by (simp add: days_def hours_def minutes_def)
  ultimately have "?l < (24 * day + ?h) * hours 1" by simp
  then have "?l div hours 1 < 24 * day + ?h" by (rule less_mult_div_less [OF hours_pos])
  also have "\<dots> = (days day + hours ?h) div hours 1" using hours_pos by (simp add: target)
  also have "\<dots> \<le> (days day + hours ?h + minutes j) div hours 1"
    using j(1) hours_pos by (intro zdiv_mono1) (simp_all add: minutes_def)
  finally have "now < t" using assms(3) j(2) by (simp add: hours_in_order_def)
  with assms(2) show False by simp
qed

lemma run_slot_mail:
  assumes "run_slot env c w = Inr (effects, w')" and "Mail m ok \<in> set effects"
  obtains z c2 t where "se_zoneinfo env (cp_timezone (cp_settings c)) = Zone z"
    "get_campaign (cp_id c) (prepare_slot env (date_of (wall z (se_local_instant env))) (cp_id c) (healthy_accounts c w) w) = Some c2"
    "next_active_time env z (cp_settings c2) (se_now env) = Inr t" "t \<le> se_now env"
    "choose_action env z (wall z (se_local_instant env)) c2 (healthy_accounts c w)
       (prepare_slot env (date_of (wall z (se_local_instant env))) (cp_id c) (healthy_accounts c w) w) = Inr (effects, w')"
proof -
  have some: "healthy_accounts c w \<noteq> []"
    using assms by (auto simp: run_slot_def Let_def)
  then obtain z where z: "se_zoneinfo env (cp_timezone (cp_settings c)) = Zone z"
    using assms(1) by (auto simp: run_slot_def Let_def zone_of_def split: zone_lookup.splits)
  define w2 where "w2 = prepare_slot env (date_of (wall z (se_local_instant env))) (cp_id c) (healthy_accounts c w) w"
  have run: "(case get_campaign (cp_id c) w2 of None \<Rightarrow> Inr ([], w2)
     | Some c2 \<Rightarrow> bind_res (next_active_time env z (cp_settings c2) (se_now env)) (\<lambda>active_time.
         if active_time > se_now env then postpone c2 active_time w2
         else choose_action env z (wall z (se_local_instant env)) c2 (healthy_accounts c w) w2)) = Inr (effects, w')"
    unfolding w2_def using assms(1) some z by (simp add: run_slot_def Let_def zone_of_def)
  then obtain c2 where c2: "get_campaign (cp_id c) w2 = Some c2" using assms(2) by (auto split: option.splits)
  with run obtain t where t: "next_active_time env z (cp_settings c2) (se_now env) = Inr t"
    "(if t > se_now env then postpone c2 t w2
      else choose_action env z (wall z (se_local_instant env)) c2 (healthy_accounts c w) w2) = Inr (effects, w')"
    by auto
  then have "t \<le> se_now env" using assms(2) by (auto simp: postpone_def split: if_splits)
  with t z c2 that show thesis unfolding w2_def by simp
qed

text \<open>A zone that repeats two clock hours breaks the active hours: in the second pass the opening at
  the second of them is converted to its first occurrence, which has passed, and the run goes on.\<close>

lemma two_hour_fold_opens_early:
  "next_active_time (demo_slot (hours 25 + minutes 30)) (set_back (hours 25) 0 (hours 2))
     (demo_campaign_settings\<lparr>cp_active_hour_start := 2\<rparr>) (hours 25 + minutes 30) = Inr (hours 24) \<and>
   hour_of (wall (set_back (hours 25) 0 (hours 2)) (hours 25 + minutes 30)) = 1"
  by code_simp

text \<open>C15: what a scheduler run may send. A message leaves only for a due campaign and an enabled,
  tested account of it, inside the active hours when the clock of the zone is never set back over more than a
  part of one clock hour. It is one of two kinds. An answer goes from that account to the sender of the campaign after the
  account was written to last; answers look neither at the target of the day nor at the health of the provider. Any
  other message goes out to the account, when no answer is pending, below the target of the day and the
  maximum, to a provider that is available and below its share of the target.\<close>

theorem warmup_mail_allowed:
  assumes "process_campaign env cid w = (r, effects, w')" and "Mail m ok \<in> set effects"
    and "distinct (map cp_id (wm_campaigns w))"
  shows "\<exists>c z c2 a. get_campaign cid w = Some c \<and> due (se_now env) c \<and> a \<in> set (healthy_accounts c w) \<and>
    se_zoneinfo env (cp_timezone (cp_settings c)) = Zone z \<and>
    (let local_now = wall z (se_local_instant env); s = cp_settings c; accounts = healthy_accounts c w;
         w2 = prepare_slot env (date_of local_now) cid accounts
                (put_campaign (c\<lparr>cp_next_run_at := Some (se_now env + minutes 5)\<rparr>) w)
     in get_campaign cid w2 = Some c2 \<and> cp_settings c2 = s \<and>
        (hours_in_order z \<and> 0 \<le> cp_active_hour_start s \<longrightarrow> cp_active_hour_start s \<le> hour_of (wall z (se_now env)) \<and>
           hour_of (wall z (se_now env)) < cp_active_hour_end s) \<and>
        (mo_from m = wa_email a \<and> mo_to m = cp_local_address s \<and> last_outbound cid a w2 \<or>
         mo_from m = cp_local_address s \<and> mo_to m = wa_email a \<and> may_start env z local_now c2 accounts a w2 \<and>
           cp_sent_today c2 < cp_max_daily_volume s))"
proof -
  obtain w1 where w1: "claim_slot (se_now env) cid w = (True, w1)"
    using assms(1,2) by (auto simp: process_campaign_def split: prod.splits bool.splits)
  obtain c where c: "get_campaign cid w = Some c" "due (se_now env) c"
    "w1 = put_campaign (c\<lparr>cp_next_run_at := Some (se_now env + minutes 5)\<rparr>) w"
    using w1 assms(3) by (rule claim_slot_True)
  let ?c1 = "c\<lparr>cp_next_run_at := Some (se_now env + minutes 5)\<rparr>"
  have id: "cp_id c = cid" using c(1) by (auto simp: get_campaign_def dest: row_get_SomeD)
  have g1: "get_campaign cid w1 = Some ?c1"
    using c(1) id by (simp add: c(3) get_campaign_def row_get_put)
  with assms(1,2) w1 have run: "run_slot env ?c1 w1 = Inr (effects, w')"
    by (auto simp: process_campaign_def process_claimed_def split: sum.splits prod.splits)
  have acc: "healthy_accounts ?c1 w1 = healthy_accounts c w" by (simp add: healthy_accounts_def c(3))
  obtain z c2 t where run: "se_zoneinfo env (cp_timezone (cp_settings c)) = Zone z"
    "get_campaign cid (prepare_slot env (date_of (wall z (se_local_instant env))) cid (healthy_accounts c w) w1) = Some c2"
    "next_active_time env z (cp_settings c2) (se_now env) = Inr t" "t \<le> se_now env"
    "choose_action env z (wall z (se_local_instant env)) c2 (healthy_accounts c w)
       (prepare_slot env (date_of (wall z (se_local_instant env))) cid (healthy_accounts c w) w1) = Inr (effects, w')"
    using run_slot_mail [OF run assms(2)] acc id by auto
  obtain c' where "get_campaign cid w1 = Some c'" "cp_id c2 = cp_id c'" "cp_settings c2 = cp_settings c'"
    using run(2) by (rule prepare_slot_campaign)
  with g1 id have s2: "cp_settings c2 = cp_settings c" "cp_id c2 = cid" by auto
  have below: "daily_target env z c2 l \<le> cp_max_daily_volume (cp_settings c)" for l
    by (simp add: daily_target_def Let_def s2)
  have hours: "hours_in_order z \<and> 0 \<le> cp_active_hour_start (cp_settings c) \<longrightarrow>
      cp_active_hour_start (cp_settings c) \<le> hour_of (wall z (se_now env)) \<and>
      hour_of (wall z (se_now env)) < cp_active_hour_end (cp_settings c)"
    using outside_hours_waits [OF run(3,4)] s2 by auto
  from run(5) assms(2) show ?thesis
  proof (cases rule: choose_action_mail)
    case (1 a)
    with run(1,2) c id s2 hours show ?thesis by (auto simp: Let_def)
  next
    case (2 a)
    then have "cp_sent_today c2 < cp_max_daily_volume (cp_settings c)"
      using less_le_trans [OF _ below] by (auto simp: may_start_def)
    with 2 run(1,2) c id s2 hours show ?thesis by (auto simp: Let_def)
  qed
qed

theorem warmup_mail_allowed_witness:
  "\<exists>m r effects w' a. process_campaign (demo_slot (hours 9)) ''c1'' demo_warmup = (r, effects, w') \<and>
    Mail m True \<in> set effects \<and> mo_to m = wa_email a \<and> a \<in> set (healthy_accounts demo_campaign demo_warmup)"
proof -
  obtain r effects w' where p: "process_campaign (demo_slot (hours 9)) ''c1'' demo_warmup = (r, effects, w')"
    by (cases "process_campaign (demo_slot (hours 9)) ''c1'' demo_warmup") auto
  with demo_run have s: "senders effects = [''me@local.test'']" by simp
  then obtain m ok where m: "Mail m ok \<in> set effects" "mo_from m = ''me@local.test''"
    by (rule senders_member)
  have ok: "ok" using p m(1) demo_mail_accepted by auto
  have d: "distinct (map cp_id (wm_campaigns demo_warmup))" by (simp add: demo_warmup_def)
  have g: "get_campaign ''c1'' demo_warmup = Some demo_campaign"
    by (simp add: get_campaign_def demo_warmup_def row_get_def demo_campaign_def)
  obtain a where a: "a \<in> set (healthy_accounts demo_campaign demo_warmup)"
      "mo_from m = wa_email a \<or> mo_to m = wa_email a"
    using warmup_mail_allowed [OF p m(1) d] g by (auto simp: Let_def)
  have "wa_email a = ''you@gmail.com''" using a(1)
    by (auto simp: healthy_accounts_def demo_warmup_def demo_account_def split: if_splits)
  with a(2) m(2) have to: "mo_to m = wa_email a" by auto
  from m(1) ok have sent: "Mail m True \<in> set effects" by simp
  show ?thesis
    by (intro exI conjI) (rule p, rule sent, rule to, rule a(1))
qed

end
