(* ===== verification/WarmupSlots.thy ===== *)
theory WarmupSlots
  imports WarmupProps
begin

text \<open>
  The warm-up tables under every operation: the invariant of campaigns, provider rows and
  accounts, and what it gives for workers that contend for the same campaign.
\<close>

section \<open>Well-formed tables\<close>

definition settings_ok :: "campaign_settings \<Rightarrow> bool" where
  "settings_ok s \<longleftrightarrow> 1 \<le> cp_start_daily_volume s \<and> cp_start_daily_volume s \<le> cp_max_daily_volume s \<and>
     cp_max_daily_volume s \<le> 200 \<and> 5 \<le> cp_min_delay_minutes s \<and> cp_min_delay_minutes s \<le> cp_max_delay_minutes s \<and>
     0 \<le> cp_active_hour_start s \<and> cp_active_hour_start s < cp_active_hour_end s \<and> cp_active_hour_end s \<le> 24 \<and>
     mail_shaped (cp_local_address s)"

definition campaign_ok :: "campaign \<Rightarrow> bool" where
  "campaign_ok c \<longleftrightarrow> settings_ok (cp_settings c) \<and> cp_status c \<in> {''draft'', ''active'', ''paused'', ''stopped''} \<and>
     (cp_next_run_at c \<noteq> None \<longleftrightarrow> cp_status c = ''active'') \<and>
     0 \<le> cp_sent_today c \<and> 0 \<le> cp_total_sent c \<and> 0 \<le> cp_total_failed c"

definition state_ok :: "provider_state \<Rightarrow> bool" where
  "state_ok p \<longleftrightarrow> ps_status p \<in> {''healthy'', ''cooling'', ''blocked''} \<and>
     0 \<le> ps_sent_today p \<and> ps_sent_today p \<le> ps_total_sent p \<and> 0 \<le> ps_failed_today p \<and> ps_failed_today p \<le> ps_total_failed p"

definition campaigns_wf :: "campaign list \<Rightarrow> bool" where
  "campaigns_wf cs \<longleftrightarrow> distinct (map cp_id cs) \<and> (\<forall>c \<in> set cs. campaign_ok c)"

abbreviation state_key :: "provider_state \<Rightarrow> string \<times> string" where
  "state_key p \<equiv> (ps_campaign_id p, ps_provider p)"

definition states_wf :: "provider_state list \<Rightarrow> bool" where
  "states_wf ps \<longleftrightarrow> distinct (map state_key ps) \<and> (\<forall>p \<in> set ps. state_ok p)"

definition accounts_wf :: "warmup_account list \<Rightarrow> bool" where
  "accounts_wf as \<longleftrightarrow> distinct (map wa_id as) \<and> distinct (map wa_email as) \<and> (\<forall>a \<in> set as. mail_shaped (wa_email a))"

definition wf_warmup :: "warmup_db \<Rightarrow> bool" where
  "wf_warmup w \<longleftrightarrow> campaigns_wf (wm_campaigns w) \<and> states_wf (wm_states w) \<and> accounts_wf (wm_accounts w)"

section \<open>Elementary changes\<close>

named_theorems warm_wf \<open>preservation of the warm-up tables\<close>

lemma campaigns_wf_put [warm_wf]:
  "campaigns_wf cs \<Longrightarrow> campaign_ok c \<Longrightarrow> campaigns_wf (row_put cp_id c cs)"
  using set_row_put [of cp_id c cs] by (auto simp: campaigns_wf_def)

lemma campaigns_wf_map:
  assumes "campaigns_wf cs" and "\<And>c. cp_id (f c) = cp_id c" and "\<And>c. campaign_ok c \<Longrightarrow> campaign_ok (f c)"
  shows "campaigns_wf (map f cs)"
  using assms by (auto simp: campaigns_wf_def comp_def)

lemma states_wf_map:
  assumes "states_wf ps" and "\<And>p. state_key (f p) = state_key p" and "\<And>p. state_ok p \<Longrightarrow> state_ok (f p)"
  shows "states_wf (map f ps)"
proof -
  have "map state_key (map f ps) = map state_key ps" using assms(2) by simp
  with assms(1,3) show ?thesis by (auto simp: states_wf_def simp del: map_map)
qed

lemma accounts_wf_put:
  assumes "accounts_wf as" and "get_account (wa_id a) w = Some a0" and "wm_accounts w = as" and "wa_email a = wa_email a0"
  shows "accounts_wf (row_put wa_id a as)"
proof -
  have g: "row_get wa_id (wa_id a) as = Some a0" using assms(2,3) by (simp add: get_account_def)
  then have "map wa_email (row_put wa_id a as) = map wa_email as"
    using assms(1,4) by (intro row_put_same_key) (auto simp: accounts_wf_def)
  moreover have "mail_shaped (wa_email a)"
    using g assms(1,4) by (auto simp: accounts_wf_def dest!: row_get_SomeD)
  ultimately show ?thesis
    using assms(1) set_row_put [of wa_id a as] by (auto simp: accounts_wf_def)
qed

lemma state_ok_success: "state_ok p \<Longrightarrow> state_ok (apply_success t p)"
  by (auto simp: state_ok_def apply_success_def)

lemma state_ok_failure: "state_ok p \<Longrightarrow> state_ok (apply_failure t c e r p)"
  by (auto simp: state_ok_def apply_failure_def Let_def)

lemma state_ok_available: "state_ok p \<Longrightarrow> state_ok (snd (provider_is_available p t))"
  by (auto simp: state_ok_def provider_is_available_def split: option.splits)

lemma state_key_success: "state_key (apply_success t p) = state_key p"
  by (simp add: apply_success_def)

lemma state_key_failure: "state_key (apply_failure t c e r p) = state_key p"
  by (simp add: apply_failure_def Let_def)

lemma states_wf_update_provider [warm_wf]:
  assumes "states_wf (wm_states w)" and "\<And>p. state_key (f p) = state_key p" and "\<And>p. state_ok p \<Longrightarrow> state_ok (f p)"
  shows "states_wf (wm_states (update_provider i q f w))"
  using assms unfolding update_provider_def by (auto intro!: states_wf_map)

lemma states_wf_ensure [warm_wf]:
  assumes "states_wf (wm_states w)"
  shows "states_wf (wm_states (ensure_provider_states f i as w))"
proof -
  define new where "new = map (\<lambda>p. new_state (f p) i p)
    (filter (\<lambda>p. p \<notin> set (map ps_provider (states_of i w))) (remdups (map (\<lambda>a. normalize_provider (wa_provider a)) as)))"
  have w': "wm_states (ensure_provider_states f i as w) = wm_states w @ new"
    by (simp add: ensure_provider_states_def new_def Let_def)
  have "map state_key new = map (\<lambda>p. (i, p))
      (filter (\<lambda>p. p \<notin> set (map ps_provider (states_of i w))) (remdups (map (\<lambda>a. normalize_provider (wa_provider a)) as)))"
    by (simp add: new_def new_state_def comp_def)
  then have "distinct (map state_key new)" by (simp add: distinct_map inj_on_def)
  moreover have "set (map state_key new) \<inter> set (map state_key (wm_states w)) = {}"
    by (auto simp: new_def new_state_def states_of_def)
  moreover have "\<forall>p \<in> set new. state_ok p" by (auto simp: new_def new_state_def state_ok_def)
  ultimately show ?thesis
    using assms unfolding w' states_wf_def by auto
qed

section \<open>A run preserves the tables\<close>

lemma wf_put_campaign [warm_wf]:
  "wf_warmup w \<Longrightarrow> campaign_ok c \<Longrightarrow> wf_warmup (put_campaign c w)"
  by (simp add: wf_warmup_def campaigns_wf_put)

lemma wf_update_provider [warm_wf]:
  assumes "wf_warmup w" and "\<And>p. state_key (f p) = state_key p" and "\<And>p. state_ok p \<Longrightarrow> state_ok (f p)"
  shows "wf_warmup (update_provider i q f w)"
  using assms states_wf_update_provider [of w f i q] by (simp add: wf_warmup_def)

lemma wf_events [warm_wf, simp]: "wf_warmup (w\<lparr>wm_events := es\<rparr>) = wf_warmup w"
  by (simp add: wf_warmup_def)

lemma wf_ensure [warm_wf]: "wf_warmup w \<Longrightarrow> wf_warmup (ensure_provider_states f i as w)"
  using states_wf_ensure [of w f i as] by (simp add: wf_warmup_def ensure_provider_states_def Let_def)

lemma wf_roll_day [warm_wf]: "wf_warmup w \<Longrightarrow> wf_warmup (roll_day d i w)"
  by (auto simp: wf_warmup_def roll_day_def campaign_ok_def state_ok_def
      intro!: campaigns_wf_map states_wf_map)

lemma wf_apply_reports [warm_wf]:
  "wf_warmup w \<Longrightarrow> wf_warmup (apply_reports env k cid accounts fb w)"
proof (induction env k cid accounts fb w rule: apply_reports.induct)
  case (2 env k cid accounts recipient smtp_code enhanced response rest w)
  show ?case
  proof (cases "find (\<lambda>a. lower (wa_email a) = recipient) accounts")
    case None
    with 2 show ?thesis by simp
  next
    case (Some a)
    from "2.prems" have "wf_warmup (update_provider cid (normalize_provider (wa_provider a))
        (apply_failure (se_feedback_now env) smtp_code enhanced (Some response)) w)"
      by (intro wf_update_provider state_ok_failure state_key_failure)
    with Some 2 show ?thesis by (simp add: Let_def)
  qed
qed simp

lemma wf_ingest [warm_wf]:
  assumes "wf_warmup w"
  shows "wf_warmup (ingest_delivery_feedback env cid accounts w)"
proof (cases "se_dsns env")
  case (Some inbox)
  let ?fb = "fetch_local_dsns (map (\<lambda>a. lower (wa_email a)) accounts) inbox"
  have "wf_warmup (apply_reports env 0 cid accounts ?fb w)" using assms by (rule wf_apply_reports)
  then show ?thesis
    using Some
    by (auto simp: ingest_delivery_feedback_def Let_def wf_warmup_def campaign_ok_def intro!: campaigns_wf_map)
qed (use assms in \<open>simp add: ingest_delivery_feedback_def\<close>)

lemma wf_prepare_slot [warm_wf]: "wf_warmup w \<Longrightarrow> wf_warmup (prepare_slot env d cid accounts w)"
  unfolding prepare_slot_def by (intro wf_ingest wf_roll_day wf_ensure)

lemma wf_check_availability [warm_wf]: "wf_warmup w \<Longrightarrow> wf_warmup (check_availability t cid accounts w)"
  by (auto simp: wf_warmup_def check_availability_def state_ok_available intro!: states_wf_map)

lemma get_campaign_ok: "wf_warmup w \<Longrightarrow> get_campaign i w = Some c \<Longrightarrow> campaign_ok c \<and> cp_id c = i"
  by (auto simp: wf_warmup_def campaigns_wf_def get_campaign_def dest: row_get_SomeD)

lemma wf_record_outcome:
  assumes "wf_warmup w" and "campaign_ok c" and "a \<in> set (wm_accounts w)"
  shows "wf_warmup (record_outcome env c a direction outcome w)"
proof (cases outcome)
  case (Inr r)
  let ?c = "c\<lparr>cp_total_sent := cp_total_sent c + 1,
    cp_sent_today := (if direction = ''local_to_external'' then cp_sent_today c + 1 else cp_sent_today c)\<rparr>"
  have "wf_warmup (put_campaign ?c w)"
    using assms by (intro wf_put_campaign) (auto simp: campaign_ok_def)
  then have "wf_warmup (update_provider (cp_id c) q (apply_success (se_now env)) (put_campaign ?c w))" for q
    by (intro wf_update_provider state_ok_success state_key_success)
  with \<open>wf_warmup (put_campaign ?c w)\<close> Inr show ?thesis
    by (cases "direction = ''local_to_external''"; cases r) (simp_all add: record_outcome_def Let_def)
next
  case (Inl e)
  obtain x y r where f: "extract_smtp_feedback e = (x, y, r)" by (cases "extract_smtp_feedback e") auto
  let ?a = "a\<lparr>wa_last_error := Some r\<rparr>" and ?c = "c\<lparr>cp_total_failed := cp_total_failed c + 1\<rparr>"
  have 1: "wf_warmup (put_campaign ?c w)"
    using assms by (intro wf_put_campaign) (auto simp: campaign_ok_def)
  have "get_account (wa_id ?a) (put_campaign ?c w) = Some a"
    using assms by (simp add: get_account_def wf_warmup_def accounts_wf_def row_get_unique)
  then have "accounts_wf (row_put wa_id ?a (wm_accounts w))"
    using assms(1) by (intro accounts_wf_put [of _ ?a "put_campaign ?c w" a]) (auto simp: wf_warmup_def)
  with 1 have 2: "wf_warmup (put_account ?a (put_campaign ?c w))"
    by (simp add: wf_warmup_def put_account_def)
  then have "wf_warmup (update_provider (cp_id c) q (apply_failure (se_now env) x y (Some r)) (put_account ?a (put_campaign ?c w)))" for q
    by (intro wf_update_provider state_ok_failure state_key_failure)
  with 2 Inl f show ?thesis by (simp add: record_outcome_def Let_def)
qed

lemma wf_deliver:
  assumes "deliver env c accounts a direction w = Inr (effects, w')"
    and "wf_warmup w" and "campaign_ok c" and "cp_status c = ''active''" and "a \<in> set (wm_accounts w)"
  shows "wf_warmup w'"
proof -
  obtain delay outcome where w': "w' = record_outcome env (c\<lparr>cp_next_run_at := Some (se_now env + minutes delay)\<rparr>) a direction outcome
      (put_campaign (c\<lparr>cp_next_run_at := Some (se_now env + minutes delay)\<rparr>) w)"
    using assms(1) by (auto simp: deliver_def Let_def split: prod.splits)
  let ?c = "c\<lparr>cp_next_run_at := Some (se_now env + minutes delay)\<rparr>"
  have "campaign_ok ?c" using assms(3,4) by (simp add: campaign_ok_def)
  then show ?thesis unfolding w' using assms(2,5) by (intro wf_record_outcome wf_put_campaign) simp_all
qed

lemma wf_postpone:
  assumes "postpone c t w = Inr (effects, w')" and "wf_warmup w" and "campaign_ok c" and "cp_status c = ''active''"
  shows "wf_warmup w' \<and> effects = []"
  using assms by (auto simp: postpone_def campaign_ok_def intro!: wf_put_campaign)

lemma wf_start_outbound:
  assumes "start_outbound env c accounts target w = Inr (effects, w')"
    and "wf_warmup w" and "campaign_ok c" and "cp_status c = ''active''" and "set accounts \<subseteq> set (wm_accounts w)"
  shows "wf_warmup w'"
proof -
  define w1 where "w1 = check_availability (se_now env) (cp_id c) accounts w"
  have w1: "wf_warmup w1" using assms(2) by (simp add: w1_def wf_check_availability)
  have acc: "wm_accounts w1 = wm_accounts w" by (simp add: w1_def)
  from assms(1) consider
      t where "postpone c t w1 = Inr (effects, w')"
    | t q u where "postpone c t (update_provider (cp_id c) q (\<lambda>p. p\<lparr>ps_next_attempt_at := Some u\<rparr>) w1) = Inr (effects, w')"
    | out where "deliver env c accounts (choice env 0 (filter out accounts)) ''local_to_external'' w1 = Inr (effects, w')"
        "filter out accounts \<noteq> []"
    unfolding start_outbound_def Let_def w1_def [symmetric] by (auto split: if_splits)
  then show ?thesis
  proof cases
    case (1 t)
    with w1 assms(3,4) show ?thesis by (blast dest: wf_postpone)
  next
    case (2 t q u)
    have "wf_warmup (update_provider (cp_id c) q (\<lambda>p. p\<lparr>ps_next_attempt_at := Some u\<rparr>) w1)"
      using w1 by (rule wf_update_provider) (auto simp: state_ok_def)
    with 2 assms(3,4) show ?thesis by (blast dest: wf_postpone)
  next
    case (3 out)
    have "choice env 0 (filter out accounts) \<in> set (filter out accounts)" using 3(2) by (rule choice_in)
    with assms(5) acc have "choice env 0 (filter out accounts) \<in> set (wm_accounts w1)" by auto
    with 3(1) w1 assms(3,4) show ?thesis by (blast intro: wf_deliver)
  qed
qed

lemma wf_choose_action:
  assumes "choose_action env z l c accounts w = Inr (effects, w')"
    and "wf_warmup w" and "campaign_ok c" and "cp_status c = ''active''" and "set accounts \<subseteq> set (wm_accounts w)"
  shows "wf_warmup w'"
proof -
  from assms(1) consider
      "deliver env c accounts (choice env 0 (filter (\<lambda>a. last_outbound (cp_id c) a w) accounts)) ''external_to_local'' w =
         Inr (effects, w')" "filter (\<lambda>a. last_outbound (cp_id c) a w) accounts \<noteq> []"
    | t where "postpone c t w = Inr (effects, w')"
    | "start_outbound env c accounts (daily_target env z c l) w = Inr (effects, w')"
    unfolding choose_action_def Let_def by (auto split: if_splits)
  then show ?thesis
  proof cases
    case 1
    from choice_in [OF 1(2)] assms(5)
    have "choice env 0 (filter (\<lambda>a. last_outbound (cp_id c) a w) accounts) \<in> set (wm_accounts w)"
      by (metis filter_is_subset subsetD)
    with 1(1) assms(2-4) show ?thesis by (blast intro: wf_deliver)
  next
    case (2 t)
    with assms(2-4) show ?thesis by (blast dest: wf_postpone)
  next
    case 3
    with assms(2-5) show ?thesis by (blast intro: wf_start_outbound)
  qed
qed

lemma prepare_slot_accounts [simp]: "wm_accounts (prepare_slot env d cid accounts w) = wm_accounts w"
proof -
  have [simp]: "wm_accounts (apply_reports e k i as fb v) = wm_accounts v" for e k i as fb v
    by (induction e k i as fb v rule: apply_reports.induct) (auto simp: Let_def split: option.splits)
  show ?thesis
    by (auto simp: prepare_slot_def ingest_delivery_feedback_def roll_day_def ensure_provider_states_def Let_def
        split: option.splits)
qed

lemma wf_run_slot:
  assumes "run_slot env c w = Inr (effects, w')" and "wf_warmup w" and "get_campaign (cp_id c) w = Some c"
    and "cp_status c = ''active''"
  shows "wf_warmup w'"
proof (cases "healthy_accounts c w = []")
  case True
  have "campaign_ok (c\<lparr>cp_status := ''paused'', cp_next_run_at := None\<rparr>)"
    using get_campaign_ok [OF assms(2,3)] by (auto simp: campaign_ok_def)
  then have "wf_warmup (put_campaign (c\<lparr>cp_status := ''paused'', cp_next_run_at := None\<rparr>) w)"
    using assms(2) by (intro wf_put_campaign)
  moreover have "w' = put_campaign (c\<lparr>cp_status := ''paused'', cp_next_run_at := None\<rparr>) w"
    using assms(1) True by (simp add: run_slot_def)
  ultimately show ?thesis by simp
next
  case False
  then obtain z where z: "zone_of env (cp_timezone (cp_settings c)) = Inr z"
    using assms(1) by (auto simp: run_slot_def Let_def)
  define w2 where "w2 = prepare_slot env (date_of (wall z (se_local_instant env))) (cp_id c) (healthy_accounts c w) w"
  have w2: "wf_warmup w2" using assms(2) by (simp add: w2_def wf_prepare_slot)
  have run: "(case get_campaign (cp_id c) w2 of None \<Rightarrow> Inr ([], w2)
     | Some c2 \<Rightarrow> bind_res (next_active_time env z (cp_settings c2) (se_now env)) (\<lambda>active_time.
         if active_time > se_now env then postpone c2 active_time w2
         else choose_action env z (wall z (se_local_instant env)) c2 (healthy_accounts c w) w2)) = Inr (effects, w')"
    unfolding w2_def using assms(1) False z by (simp add: run_slot_def Let_def)
  show ?thesis
  proof (cases "get_campaign (cp_id c) w2")
    case None
    with run w2 show ?thesis by simp
  next
    case (Some c2)
    from get_campaign_ok [OF w2 Some] have ok: "campaign_ok c2" by simp
    have active: "cp_status c2 = ''active''"
      using Some assms(3,4) prepare_slot_campaign [OF Some [unfolded w2_def]] by auto
    have sub: "set (healthy_accounts c w) \<subseteq> set (wm_accounts w2)"
      by (auto simp: w2_def healthy_accounts_def)
    from run Some obtain t where "(if t > se_now env then postpone c2 t w2
        else choose_action env z (wall z (se_local_instant env)) c2 (healthy_accounts c w) w2) = Inr (effects, w')"
      by auto
    then consider "postpone c2 t w2 = Inr (effects, w')"
      | "choose_action env z (wall z (se_local_instant env)) c2 (healthy_accounts c w) w2 = Inr (effects, w')"
      by (auto split: if_splits)
    then show ?thesis
      using w2 ok active sub by cases (blast dest: wf_postpone intro: wf_choose_action)+
  qed
qed

text \<open>A worker that has claimed.\<close>

lemma process_claimed_cases:
  assumes "process_claimed env cid w = (r, effects, w')"
  obtains "effects = []" "w' = w"
  | c where "get_campaign cid w = Some c" "cp_id c = cid" "run_slot env c w = Inr (effects, w')"
proof (cases "get_campaign cid w")
  case None
  with assms that(1) show thesis by (simp add: process_claimed_def)
next
  case (Some c)
  then have "cp_id c = cid" by (auto simp: get_campaign_def dest: row_get_SomeD)
  with Some assms that show thesis
    by (auto simp: process_claimed_def split: sum.splits prod.splits)
qed

lemma wf_process_claimed:
  assumes "wf_warmup w" and "get_campaign cid w = Some c" and "cp_status c = ''active''"
  shows "wf_warmup (snd (snd (process_claimed env cid w)))"
proof (cases "process_claimed env cid w")
  case (fields r effects w')
  from this have "wf_warmup w'"
  proof (cases rule: process_claimed_cases)
    case 1
    with assms show ?thesis by simp
  next
    case (2 d)
    with assms show ?thesis by (intro wf_run_slot [OF 2(3) assms(1)]) simp_all
  qed
  with fields show ?thesis by simp
qed

text \<open>What a claim leaves.\<close>

lemma claimed_campaign:
  assumes "claim_slot now cid w = (True, w1)" and "wf_warmup w"
  obtains c where "get_campaign cid w1 = Some c" "cp_status c = ''active''" "cp_next_run_at c = Some (now + minutes 5)"
    "wf_warmup w1"
proof -
  have "distinct (map cp_id (wm_campaigns w))" using assms(2) by (simp add: wf_warmup_def campaigns_wf_def)
  with assms(1) obtain c where c: "get_campaign cid w = Some c" "due now c"
      "w1 = put_campaign (c\<lparr>cp_next_run_at := Some (now + minutes 5)\<rparr>) w"
    by (rule claim_slot_True)
  have id: "cp_id c = cid" using c(1) by (auto simp: get_campaign_def dest: row_get_SomeD)
  have active: "cp_status c = ''active''" using c(2) by (simp add: due_def)
  have "wf_warmup w1"
    unfolding c(3) using get_campaign_ok [OF assms(2) c(1)] active assms(2)
    by (intro wf_put_campaign) (auto simp: campaign_ok_def)
  moreover have "get_campaign cid w1 = Some (c\<lparr>cp_next_run_at := Some (now + minutes 5)\<rparr>)"
    using c(1) id by (simp add: c(3) get_campaign_def row_get_put)
  ultimately show thesis using active by (intro that [of "c\<lparr>cp_next_run_at := Some (now + minutes 5)\<rparr>"]) simp_all
qed

lemma claim_slot_False: "claim_slot now cid w = (False, w1) \<Longrightarrow> w1 = w"
  by (auto simp: claim_slot_def split: if_splits)

lemma wf_process_campaign [warm_wf]:
  assumes "wf_warmup w"
  shows "wf_warmup (snd (snd (process_campaign env cid w)))"
proof (cases "claim_slot (se_now env) cid w")
  case (Pair b w1)
  show ?thesis
  proof (cases b)
    case False
    with Pair assms show ?thesis by (auto simp: process_campaign_def dest: claim_slot_False)
  next
    case True
    with Pair have "claim_slot (se_now env) cid w = (True, w1)" by simp
    from claimed_campaign [OF this assms] show ?thesis
      using Pair True by (simp add: process_campaign_def) (metis wf_process_claimed)
  qed
qed

section \<open>One message per slot\<close>

definition mails :: "warmup_effect list \<Rightarrow> mail_out list" where
  "mails es = List.map_filter (\<lambda>e. case e of Mail m ok \<Rightarrow> Some m | Purge a b \<Rightarrow> None) es"

lemma mails_simps [simp]:
  "mails [] = []" "mails (Mail m ok # es) = m # mails es" "mails (Purge a b # es) = mails es"
  "mails (es @ fs) = mails es @ mails fs"
  by (simp_all add: mails_def List.map_filter_def)

lemma mails_Nil_iff: "mails es = [] \<longleftrightarrow> (\<forall>m ok. Mail m ok \<notin> set es)"
  by (induction es) (auto simp: mails_def List.map_filter_def split: warmup_effect.splits)

lemma deferred_claim_refused:
  assumes "get_campaign cid w = Some c" and "cp_next_run_at c = Some t" and "now < t" and "wf_warmup w"
  shows "claim_slot now cid w = (False, w)"
proof -
  have d: "distinct (map cp_id (wm_campaigns w))" using assms(4) by (simp add: wf_warmup_def campaigns_wf_def)
  have "x = c" if "x \<in> set (wm_campaigns w)" "cp_id x = cid" for x
    using row_get_unique [OF d that(1)] assms(1) that(2) by (simp add: get_campaign_def)
  then have "filter (\<lambda>c. cp_id c = cid \<and> due now c) (wm_campaigns w) = []"
    using assms(2,3) by (auto simp: filter_empty_conv due_def)
  then show ?thesis by (simp add: claim_slot_def)
qed

lemma deliver_once:
  assumes "deliver env c accounts a direction w = Inr (effects, w')"
  shows "length (mails effects) \<le> 1"
  using assms by (auto simp: deliver_def send_one_def Let_def split: option.splits if_splits)

lemma record_outcome_next_run:
  assumes "get_campaign (cp_id c) w \<noteq> None"
  shows "\<exists>c'. get_campaign (cp_id c) (record_outcome env c a direction outcome w) = Some c' \<and>
     cp_next_run_at c' = cp_next_run_at c"
  using assms
  by (cases outcome) (auto simp: record_outcome_def get_campaign_def Let_def row_get_put split: prod.splits)

lemma deliver_defers:
  assumes "deliver env c accounts a direction w = Inr (effects, w')" and "get_campaign (cp_id c) w \<noteq> None"
    and "5 \<le> cp_min_delay_minutes (cp_settings c)"
  shows "\<exists>c' t. get_campaign (cp_id c) w' = Some c' \<and> cp_next_run_at c' = Some t \<and> se_now env + minutes 5 \<le> t"
proof -
  obtain delay outcome where d: "randint env 3 (cp_min_delay_minutes (cp_settings c)) (cp_max_delay_minutes (cp_settings c)) = Inr delay"
    and w': "w' = record_outcome env (c\<lparr>cp_next_run_at := Some (se_now env + minutes delay)\<rparr>) a direction outcome
      (put_campaign (c\<lparr>cp_next_run_at := Some (se_now env + minutes delay)\<rparr>) w)"
    using assms(1) by (auto simp: deliver_def Let_def split: prod.splits)
  have "cp_min_delay_minutes (cp_settings c) \<le> delay"
    using d by (auto simp: randint_def split: if_splits)
  with assms(3) have "minutes 5 \<le> minutes delay" by simp
  moreover have "get_campaign (cp_id c) (put_campaign (c\<lparr>cp_next_run_at := Some (se_now env + minutes delay)\<rparr>) w) \<noteq> None"
    using assms(2) by (simp add: get_campaign_def row_get_put)
  ultimately show ?thesis
    using record_outcome_next_run [of "c\<lparr>cp_next_run_at := Some (se_now env + minutes delay)\<rparr>"]
    unfolding w' by fastforce
qed

lemma choose_action_deliver:
  assumes "choose_action env z l c accounts w = Inr (effects, w')" and "mails effects \<noteq> []"
  obtains a dir w1 where "deliver env c accounts a dir w1 = Inr (effects, w')" "wm_campaigns w1 = wm_campaigns w"
proof -
  obtain m ok where m: "Mail m ok \<in> set effects" using assms(2) by (auto simp: mails_Nil_iff)
  consider
      a where "deliver env c accounts a ''external_to_local'' w = Inr (effects, w')"
    | t where "postpone c t w = Inr (effects, w')"
    | "start_outbound env c accounts (daily_target env z c l) w = Inr (effects, w')"
    using assms(1) unfolding choose_action_def Let_def by (auto split: if_splits)
  then show thesis
  proof cases
    case (1 a)
    with that show thesis by blast
  next
    case (2 t)
    with m show thesis by (auto simp: postpone_def)
  next
    case 3
    obtain a w1 where "deliver env c accounts a ''local_to_external'' w1 = Inr (effects, w')"
        "wm_campaigns w1 = wm_campaigns w"
      using start_outbound_mail [OF 3 m] by blast
    with that show thesis by blast
  qed
qed

lemma claimed_mail_defers:
  assumes "process_claimed env cid w = (r, effects, w')" and "mails effects \<noteq> []" and "wf_warmup w"
  shows "length (mails effects) = 1 \<and>
    (\<exists>c t. get_campaign cid w' = Some c \<and> cp_next_run_at c = Some t \<and> se_now env + minutes 5 \<le> t)"
proof -
  obtain c where c: "get_campaign cid w = Some c" "cp_id c = cid" and run: "run_slot env c w = Inr (effects, w')"
    using process_claimed_cases [OF assms(1)] assms(2) by (metis mails_simps(1))
  obtain m ok where m: "Mail m ok \<in> set effects" using assms(2) by (auto simp: mails_Nil_iff)
  obtain z c2 w2 where w2: "w2 = prepare_slot env (date_of (wall z (se_local_instant env))) cid (healthy_accounts c w) w"
    and c2: "get_campaign cid w2 = Some c2"
    and act: "choose_action env z (wall z (se_local_instant env)) c2 (healthy_accounts c w) w2 = Inr (effects, w')"
    using run_slot_mail [OF run m] c(2) by metis
  obtain a dir w3 where del: "deliver env c2 (healthy_accounts c w) a dir w3 = Inr (effects, w')"
    and w3: "wm_campaigns w3 = wm_campaigns w2"
    using choose_action_deliver [OF act assms(2)] by blast
  have id: "cp_id c2 = cid" using c2 by (auto simp: get_campaign_def dest: row_get_SomeD)
  have "cp_settings c2 = cp_settings c"
    using prepare_slot_campaign [OF c2 [unfolded w2]] c(1) by auto
  then have "5 \<le> cp_min_delay_minutes (cp_settings c2)"
    using get_campaign_ok [OF assms(3) c(1)] by (simp add: campaign_ok_def settings_ok_def)
  moreover have "get_campaign (cp_id c2) w3 \<noteq> None" using c2 w3 id by (simp add: get_campaign_def)
  ultimately have "\<exists>c t. get_campaign cid w' = Some c \<and> cp_next_run_at c = Some t \<and> se_now env + minutes 5 \<le> t"
    using deliver_defers [OF del] id by simp
  moreover have "length (mails effects) = 1"
    using deliver_once [OF del] assms(2) by (cases "mails effects") auto
  ultimately show ?thesis by simp
qed

text \<open>Workers that contend for a campaign. A step is the attempt of a worker to claim the slot, which is
  committed at once, or the run of a worker that has claimed, any time later, or never when it has
  died; its clock is that of its claim. In between, other campaigns are run and their rows, the accounts, the events and
  the provider rows change in any way that leaves the row of this campaign as it is. The state has the
  workers between claim and run, what was sent, and the tables; claims are made between two times.\<close>

inductive contention :: "string \<Rightarrow> time \<Rightarrow> time \<Rightarrow> slot_env list \<Rightarrow> warmup_effect list \<Rightarrow> warmup_db \<Rightarrow> bool"
  for cid :: string and t0 t1 :: time where
  start: "wf_warmup w \<Longrightarrow> contention cid t0 t1 [] [] w"
| claim: "contention cid t0 t1 ps sent w \<Longrightarrow> t0 \<le> se_now env \<Longrightarrow> se_now env < t1 \<Longrightarrow>
    claim_slot (se_now env) cid w = (b, w1) \<Longrightarrow> contention cid t0 t1 (if b then env # ps else ps) sent w1"
| work: "contention cid t0 t1 ps sent w \<Longrightarrow> env \<in> set ps \<Longrightarrow>
    process_claimed env cid w = (r, effects, w1) \<Longrightarrow> contention cid t0 t1 (remove1 env ps) (sent @ effects) w1"
| elsewhere: "contention cid t0 t1 ps sent w \<Longrightarrow> wf_warmup w1 \<Longrightarrow> get_campaign cid w1 = get_campaign cid w \<Longrightarrow>
    contention cid t0 t1 ps sent w1"

text \<open>The campaign is active and its next run is not before \<open>t\<close>.\<close>

definition deferred_to :: "string \<Rightarrow> time \<Rightarrow> warmup_db \<Rightarrow> bool" where
  "deferred_to cid t w \<longleftrightarrow> (\<exists>c u. get_campaign cid w = Some c \<and> cp_next_run_at c = Some u \<and> t \<le> u)"

definition active_in :: "string \<Rightarrow> warmup_db \<Rightarrow> bool" where
  "active_in cid w \<longleftrightarrow> (\<exists>c. get_campaign cid w = Some c \<and> cp_status c = ''active'')"

lemma contention_invariant:
  assumes "contention cid t0 (t0 + minutes 5) ps sent w"
  shows "wf_warmup w \<and> (\<forall>env \<in> set ps. t0 \<le> se_now env) \<and> length ps + length (mails sent) \<le> 1 \<and>
    (ps \<noteq> [] \<longrightarrow> active_in cid w) \<and>
    (ps \<noteq> [] \<or> mails sent \<noteq> [] \<longrightarrow> deferred_to cid (t0 + minutes 5) w)"
  using assms
proof (induction rule: contention.induct)
  case (claim ps sent w env b w1)
  show ?case
  proof (cases b)
    case False
    with claim show ?thesis by (auto dest: claim_slot_False)
  next
    case True
    with claim have claimed: "claim_slot (se_now env) cid w = (True, w1)" by simp
    have "\<not> deferred_to cid (t0 + minutes 5) w"
    proof
      assume "deferred_to cid (t0 + minutes 5) w"
      then obtain c u where "get_campaign cid w = Some c" "cp_next_run_at c = Some u" "se_now env < u"
        using claim.hyps(3) by (auto simp: deferred_to_def)
      from deferred_claim_refused [OF this] claim.IH claimed show False by simp
    qed
    with claim.IH have "ps = []" "mails sent = []" by auto
    moreover obtain c where "get_campaign cid w1 = Some c" "cp_status c = ''active''"
        "cp_next_run_at c = Some (se_now env + minutes 5)" "wf_warmup w1"
      using claimed_campaign [OF claimed] claim.IH by blast
    ultimately show ?thesis
      using True claim.hyps(2) by (auto simp: deferred_to_def active_in_def)
  qed
next
  case (work ps sent w env r effects w1)
  then have ps: "ps = [env]" and none: "mails sent = []" by (cases ps; auto)+
  have wf: "wf_warmup w1"
    using work wf_process_claimed [of w cid _ env] by (auto simp: active_in_def)
  show ?case
  proof (cases "mails effects = []")
    case True
    with ps none wf show ?thesis by simp
  next
    case False
    from claimed_mail_defers [OF work.hyps(3) False] work.IH work.hyps(2)
    have "length (mails effects) = 1" "deferred_to cid (t0 + minutes 5) w1"
      by (fastforce simp: deferred_to_def)+
    with ps none wf show ?thesis by simp
  qed
next
  case (elsewhere ps sent w w1)
  then show ?case by (simp add: deferred_to_def active_in_def)
qed simp


lemma wf_demo: "wf_warmup demo_warmup"
  by code_simp

text \<open>A claim and a run on the tables of the example; a second worker that comes between them is
  refused.\<close>

lemma contention_claim:
  assumes "contention cid t0 t1 ps sent w" and "t0 \<le> se_now env" and "se_now env < t1"
    and "fst (claim_slot (se_now env) cid w)"
  shows "contention cid t0 t1 (env # ps) sent (snd (claim_slot (se_now env) cid w))"
  using contention.claim [OF assms(1-3) surjective_pairing] assms(4) by simp

lemma contention_refused:
  fixes env :: slot_env
  assumes "contention cid t0 t1 ps sent w" and "t0 \<le> se_now env" and "se_now env < t1"
    and "\<not> fst (claim_slot (se_now env) cid w)"
  shows "contention cid t0 t1 ps sent (snd (claim_slot (se_now env) cid w))"
  using contention.claim [OF assms(1-3) surjective_pairing] assms(4) by simp

lemma contention_work:
  assumes "contention cid t0 t1 (env # ps) sent w"
  shows "contention cid t0 t1 ps (sent @ fst (snd (process_claimed env cid w))) (snd (snd (process_claimed env cid w)))"
  using contention.work [OF assms, of env "fst (process_claimed env cid w)" "fst (snd (process_claimed env cid w))"
      "snd (snd (process_claimed env cid w))"] by simp

definition claim_at :: "int \<Rightarrow> warmup_db \<Rightarrow> warmup_db" where
  "claim_at m w = snd (claim_slot (se_now (demo_slot (hours 9 + minutes m))) ''c1'' w)"

definition run_at :: "int \<Rightarrow> warmup_db \<Rightarrow> unit result \<times> warmup_effect list \<times> warmup_db" where
  "run_at m w = process_claimed (demo_slot (hours 9 + minutes m)) ''c1'' w"


text \<open>The two limits of the lease: a worker that is slower than five minutes is overtaken, and both
  send; and a worker that has claimed does not look at the status again, so a campaign that was
  paused since sends one more message and keeps a next run.\<close>

lemma slow_worker_is_overtaken:
  "length (mails (let w = claim_at 6 (claim_at 0 demo_warmup); (_, first, w1) = run_at 0 w; (_, second, w2) = run_at 6 w1
     in first @ second)) = 2"
  by code_simp

lemma paused_after_the_claim_sends:
  "(let w = claim_at 0 demo_warmup;
        (_, effects, w1) = run_at 0 (w\<lparr>wm_campaigns := map (\<lambda>c. c\<lparr>cp_status := ''paused'', cp_next_run_at := None\<rparr>) (wm_campaigns w)\<rparr>)
    in length (mails effects) = 1 \<and> map cp_status (wm_campaigns w1) = [''paused''] \<and>
       None \<notin> set (map cp_next_run_at (wm_campaigns w1)))"
  by code_simp

end
