(* ===== verification/WarmupLife.thy ===== *)
theory WarmupLife
  imports WarmupSlots
begin

text \<open>
  The life of the warm-up tables: every endpoint and every scheduler run is a step, and the
  invariant of \<open>WarmupSlots\<close> holds in all reachable states. New identifiers are fresh, as
  \<^verbatim>\<open>uuid4\<close> makes them, and those of the provider rows are a primary key.
\<close>

inductive warmup_step :: "warmup_db \<Rightarrow> warmup_db \<Rightarrow> bool" where
  run: "warmup_step w (snd (snd (process_campaign env cid w)))"
| add_account: "i \<notin> wa_id ` set (wm_accounts w) \<Longrightarrow> warmup_step w (snd (add_account enc i now b w))"
| update_account: "warmup_step w (snd (update_account enc i u w))"
| test_account: "warmup_step w (snd (test_account probe now i w))"
| remove_account: "warmup_step w (snd (remove_account i w))"
| add_campaign: "i \<notin> cp_id ` set (wm_campaigns w) \<Longrightarrow> warmup_step w (snd (add_campaign st zi sid i now cs w))"
| edit_campaign: "warmup_step w (snd (edit_campaign st zi sid now cid cs w))"
| control: "warmup_step w (snd (control_campaign st sid now cid action w))"
| remove_campaign: "warmup_step w (snd (remove_campaign cid w))"
| resume: "distinct (map ps_id (wm_states w)) \<Longrightarrow> warmup_step w (snd (resume_provider now psid w))"

lemma get_account_in: "get_account i w = Some a \<Longrightarrow> a \<in> set (wm_accounts w) \<and> wa_id a = i"
  by (auto simp: get_account_def dest: row_get_SomeD)

lemma wf_put_account:
  assumes "wf_warmup w" and "get_account (wa_id a) w = Some a0" and "wa_email a = wa_email a0"
  shows "wf_warmup (put_account a w)"
  using assms accounts_wf_put [of "wm_accounts w" a w a0] by (simp add: wf_warmup_def put_account_def)

lemma accepted_account_mail: "account_create_request b = Inr b' \<Longrightarrow> mail_shaped (ak_email b')"
  by (auto simp: account_create_request_def Let_def unprocessable_def split: if_splits)

lemma wf_add_account:
  assumes "wf_warmup w" and "i \<notin> wa_id ` set (wm_accounts w)"
  shows "wf_warmup (snd (add_account enc i now b w))"
proof (cases "account_create_request b")
  case (Inr b')
  show ?thesis
  proof (cases "filter (\<lambda>a. wa_email a = ak_email b') (wm_accounts w)" rule: one_or_none.cases)
    case 1
    then have "ak_email b' \<notin> wa_email ` set (wm_accounts w)" by (auto simp: filter_empty_conv)
    with 1 Inr assms accepted_account_mail [OF Inr] show ?thesis
      by (auto simp: add_account_def create_account_def wf_warmup_def accounts_wf_def Let_def)
  qed (use Inr assms in \<open>simp_all add: add_account_def create_account_def\<close>)
qed (use assms in \<open>simp add: add_account_def\<close>)

lemma wf_update_account: "wf_warmup w \<Longrightarrow> wf_warmup (snd (update_account enc i u w))"
  by (auto simp: update_account_def Let_def get_account_in intro!: wf_put_account dest: get_account_in
      split: sum.splits option.splits)

lemma wf_test_account: "wf_warmup w \<Longrightarrow> wf_warmup (snd (test_account probe now i w))"
proof (cases "get_account i w")
  case (Some a)
  assume w: "wf_warmup w"
  have "get_account (wa_id a) w = Some a" using Some get_account_in by auto
  then have "wf_warmup (put_account (a\<lparr>wa_verified := v, wa_last_error := e, wa_last_checked_at := t\<rparr>) w)" for v e t
    by (intro wf_put_account [OF w, of _ a]) simp_all
  with Some show ?thesis by (auto simp: test_account_def check_account_def Let_def split: option.splits)
qed (simp add: test_account_def)

lemma distinct_map_filter_key: "distinct (map f xs) \<Longrightarrow> distinct (map f (filter P xs))"
  by (simp add: distinct_map_filter)

lemma wf_remove_account: 
  assumes "wf_warmup w"
  shows "wf_warmup (snd (remove_account i w))"
proof -
  have "campaigns_wf (map (\<lambda>c. c\<lparr>cp_settings := (cp_settings c)\<lparr>cp_account_ids :=
      filter (\<lambda>x. x \<noteq> i) (cp_account_ids (cp_settings c))\<rparr>\<rparr>) (wm_campaigns w))"
    using assms by (intro campaigns_wf_map) (auto simp: wf_warmup_def campaign_ok_def settings_ok_def)
  then show ?thesis
    using assms by (auto simp: remove_account_def wf_warmup_def accounts_wf_def set_row_del distinct_row_del
        split: option.splits)
qed

lemma accepted_settings: "campaign_create_request b = Inr b' \<Longrightarrow> settings_ok b'"
  by (auto simp: campaign_create_request_def Let_def unprocessable_def settings_ok_def split: if_splits)

lemma wf_add_campaign:
  assumes "wf_warmup w" and "i \<notin> cp_id ` set (wm_campaigns w)"
  shows "wf_warmup (snd (add_campaign st zi sid i now cs w))"
proof (cases "campaign_create_request cs")
  case (Inr b)
  show ?thesis
  proof (cases "validate_configuration st zi b w")
    case (Inr accounts)
    define c where "c = \<lparr>cp_id = i, cp_settings = b, cp_status = ''draft'', cp_sent_today = 0, cp_total_sent = 0,
                    cp_total_failed = 0, cp_volume_date = None, cp_started_at = None, cp_stopped_at = None,
                    cp_next_run_at = None, cp_created_at = now\<rparr>"
    have "campaign_ok c" using accepted_settings [OF \<open>campaign_create_request cs = Inr b\<close>]
      by (simp add: c_def campaign_ok_def)
    then have "wf_warmup (w\<lparr>wm_campaigns := wm_campaigns w @ [c]\<rparr>)"
      using assms by (auto simp: wf_warmup_def campaigns_wf_def c_def)
    from wf_ensure [OF this] show ?thesis
      using Inr \<open>campaign_create_request cs = Inr b\<close>
      by (simp add: add_campaign_def create_campaign_def c_def Let_def)
  qed (use Inr assms in \<open>simp add: add_campaign_def create_campaign_def\<close>)
qed (use assms in \<open>simp add: add_campaign_def\<close>)

lemma wf_edit_campaign:
  assumes "wf_warmup w"
  shows "wf_warmup (snd (edit_campaign st zi sid now cid cs w))"
proof (cases "campaign_create_request cs")
  case (Inr b)
  show ?thesis
  proof (cases "get_campaign cid w")
    case (Some c)
    from get_campaign_ok [OF assms Some] accepted_settings [OF Inr]
    have "campaign_ok (if cp_status c = ''active'' \<and> cp_next_run_at c = None
        then c\<lparr>cp_settings := b, cp_next_run_at := Some now\<rparr> else c\<lparr>cp_settings := b\<rparr>)"
      by (auto simp: campaign_ok_def)
    with assms Inr Some show ?thesis
      by (auto simp: edit_campaign_def update_campaign_def Let_def intro!: wf_put_campaign wf_ensure
          split: sum.splits)
  qed (use Inr assms in \<open>simp add: edit_campaign_def\<close>)
qed (use assms in \<open>simp add: edit_campaign_def\<close>)

lemma wf_set_campaign_status:
  assumes "wf_warmup w" and "campaign_ok c"
  shows "wf_warmup (snd (set_campaign_status now action c w))"
  using assms by (auto simp: set_campaign_status_def Let_def campaign_ok_def intro!: wf_put_campaign)

lemma wf_control:
  assumes "wf_warmup w"
  shows "wf_warmup (snd (control_campaign st sid now cid action w))"
proof (cases "get_campaign cid w")
  case (Some c)
  note ok = get_campaign_ok [OF assms Some, THEN conjunct1]
  have "wf_warmup (snd (set_campaign_status now action c (ensure_provider_states sid cid accounts w)))" for accounts
    using wf_set_campaign_status [OF wf_ensure [OF assms] ok] .
  with wf_set_campaign_status [OF assms ok] assms Some show ?thesis
    by (auto simp: control_campaign_def Let_def split: sum.splits error.splits)
qed (use assms in \<open>simp add: control_campaign_def\<close>)

lemma wf_remove_campaign: "wf_warmup w \<Longrightarrow> wf_warmup (snd (remove_campaign cid w))"
  by (auto simp: remove_campaign_def wf_warmup_def campaigns_wf_def states_wf_def set_row_del distinct_row_del
      distinct_map_filter_key split: option.splits)

lemma wf_put_state:
  assumes "wf_warmup w" and "get_state (ps_id p) w = Some p0" and "state_key p = state_key p0" and "state_ok p"
    and "distinct (map ps_id (wm_states w))"
  shows "wf_warmup (put_state p w)"
proof -
  have "map state_key (row_put ps_id p (wm_states w)) = map state_key (wm_states w)"
    using assms(2,3,5) by (intro row_put_same_key) (auto simp: get_state_def)
  then show ?thesis
    using assms(1,4) set_row_put [of ps_id p "wm_states w"]
    by (auto simp: wf_warmup_def states_wf_def put_state_def simp del: map_map)
qed

lemma wf_resume:
  assumes "wf_warmup w" and "distinct (map ps_id (wm_states w))"
  shows "wf_warmup (snd (resume_provider now i w))"
proof (cases "get_state i w")
  case (Some p)
  let ?p = "p\<lparr>ps_status := ''healthy'', ps_failures := 0, ps_paused_until := None, ps_next_attempt_at := None\<rparr>"
  have p: "p \<in> set (wm_states w)" "ps_id p = i" using Some by (auto simp: get_state_def dest: row_get_SomeD)
  have w1: "wf_warmup (put_state ?p w)"
    using assms p Some by (intro wf_put_state [of w ?p p]) (auto simp: wf_warmup_def states_wf_def state_ok_def)
  have "wf_warmup (put_campaign (c\<lparr>cp_next_run_at := Some now\<rparr>) (put_state ?p w))"
    if "get_campaign (ps_campaign_id p) (put_state ?p w) = Some c" "cp_status c = ''active''" for c
    using get_campaign_ok [OF w1 that(1)] that(2) by (intro wf_put_campaign w1) (auto simp: campaign_ok_def)
  with w1 Some show ?thesis by (auto simp: resume_provider_def Let_def split: option.splits)
qed (use assms in \<open>simp add: resume_provider_def\<close>)

text \<open>C17: the warm-up tables stay well formed under any sequence of requests and scheduler runs: ids
  and account addresses are unique, settings stay within the validated ranges, a campaign has a next run
  exactly when it is active, a provider has one row per campaign, and the counters never go
  below zero or above their totals.\<close>

theorem warmup_tables_wf:
  assumes "warmup_step\<^sup>*\<^sup>* w w'" and "wf_warmup w"
  shows "wf_warmup w'"
  using assms
proof (induction rule: rtranclp_induct)
  case (step w1 w2)
  from step.hyps(2) step.IH [OF step.prems] show ?case
    by (cases rule: warmup_step.cases)
      (auto intro: wf_process_campaign wf_add_account wf_update_account wf_test_account wf_remove_account
        wf_add_campaign wf_edit_campaign wf_control wf_remove_campaign wf_resume)
qed

theorem warmup_tables_wf_witness:
  "wf_warmup (snd (resume_provider (hours 10) ''gmail''
     (snd (snd (process_campaign (demo_slot (hours 9)) ''c1'' demo_warmup)))))"
proof -
  let ?w1 = "snd (snd (process_campaign (demo_slot (hours 9)) ''c1'' demo_warmup))"
  have "distinct (map ps_id (wm_states ?w1))" by code_simp
  then have "warmup_step ?w1 (snd (resume_provider (hours 10) ''gmail'' ?w1))" by (rule warmup_step.resume)
  moreover have "warmup_step demo_warmup ?w1" by (rule warmup_step.run)
  ultimately have "warmup_step\<^sup>*\<^sup>* demo_warmup (snd (resume_provider (hours 10) ''gmail'' ?w1))" by auto
  from this wf_demo show ?thesis by (rule warmup_tables_wf)
qed

section \<open>Starting a campaign\<close>

lemma verified_domain:
  assumes "validate_sender_domain st addr d = Inr ()" and "is_production st"
  shows "\<exists>r \<in> set (domains d). d_is_active r \<and> d_mx_verified r \<and> d_spf_verified r \<and> d_dkim_verified r \<and> d_dmarc_verified r \<and>
    (\<exists>l. lower addr = l @ ''@'' @ d_name r \<or> lower addr = d_name r)"
proof -
  define dn where "dn = lower (case split_last (CHR ''@'') addr of None \<Rightarrow> addr | Some (_, part) \<Rightarrow> part)"
  obtain r where r: "one_or_none (filter (\<lambda>r. d_name r = dn) (domains d)) = Inr (Some r)" "d_is_active r" "unverified r = []"
    using assms by (auto simp: validate_sender_domain_def Let_def dn_def split: option.splits if_splits)
  from one_or_none_SomeD [OF r(1)] have "r \<in> set (domains d)" "d_name r = dn" by simp_all
  moreover have "\<exists>l. lower addr = l @ ''@'' @ dn \<or> lower addr = dn"
  proof (cases "split_last (CHR ''@'') addr")
    case (Some p)
    then obtain a b where "split_last (CHR ''@'') addr = Some (a, b)" by (cases p) auto
    with split_last_Some [OF this] have "lower addr = lower a @ ''@'' @ dn"
      by (simp add: dn_def lower_def lower_char_def)
    then show ?thesis by blast
  qed (simp add: dn_def)
  ultimately show ?thesis using r(2,3) by (auto simp: unverified_def split: if_splits)
qed

text \<open>a campaign starts only when it can run: every one of its accounts, of which there is at least
  one, is enabled and has passed its connection test, and in production the domain of
  its sender is active with MX, SPF, DKIM and DMARC verified. It is then due at once, and any other
  action leaves it without a next run.\<close>

theorem started_campaign_ready:
  assumes "control_campaign st sid now cid action w = (Inr c', w')"
  shows "get_campaign cid w' = Some c' \<and>
    (action = ''start'' \<longrightarrow> due now c' \<and>
      (\<exists>c. get_campaign cid w = Some c \<and> cp_settings c' = cp_settings c \<and>
        {a \<in> set (wm_accounts w). wa_id a \<in> set (cp_account_ids (cp_settings c))} \<noteq> {} \<and>
        (\<forall>a \<in> set (wm_accounts w). wa_id a \<in> set (cp_account_ids (cp_settings c)) \<longrightarrow> wa_enabled a \<and> wa_verified a) \<and>
        (is_production st \<longrightarrow> (\<exists>d \<in> set (domains (wm_db w)). d_is_active d \<and> d_mx_verified d \<and>
           d_spf_verified d \<and> d_dkim_verified d \<and> d_dmarc_verified d \<and>
           (\<exists>l. lower (cp_local_address (cp_settings c)) = l @ ''@'' @ d_name d \<or>
                lower (cp_local_address (cp_settings c)) = d_name d))))) \<and>
    (action \<noteq> ''start'' \<longrightarrow> action \<in> {''pause'', ''stop''} \<and> cp_next_run_at c' = None \<and> \<not> due now c')"
proof -
  obtain c where c: "get_campaign cid w = Some c"
    using assms by (auto simp: control_campaign_def split: option.splits)
  have id: "cp_id c = cid" using c by (auto simp: get_campaign_def dest: row_get_SomeD)
  have ens: "get_campaign cid (ensure_provider_states sid cid as w) = Some c" for as
    using c by (simp add: get_campaign_def ensure_provider_states_def Let_def)
  show ?thesis
  proof (cases "action = ''start''")
    case False
    with assms c id show ?thesis
      by (auto simp: control_campaign_def set_campaign_status_def bad_request_def Let_def due_def get_campaign_def row_get_put
          split: if_splits)
  next
    case True
    define accounts where "accounts = filter (\<lambda>a. wa_id a \<in> set (cp_account_ids (cp_settings c))) (wm_accounts w)"
    have acc: "accounts \<noteq> []" "\<not> list_ex (\<lambda>a. \<not> wa_enabled a \<or> \<not> wa_verified a) accounts"
      and dom: "validate_sender_domain st (cp_local_address (cp_settings c)) (wm_db w) = Inr ()"
      and set: "set_campaign_status now action c (ensure_provider_states sid cid accounts w) = (Inr c', w')"
      using assms c True
      by (auto simp: control_campaign_def accounts_def Let_def split: if_splits sum.splits error.splits)
    have ready: "\<exists>d \<in> set (domains (wm_db w)). d_is_active d \<and> d_mx_verified d \<and>
           d_spf_verified d \<and> d_dkim_verified d \<and> d_dmarc_verified d \<and>
           (\<exists>l. lower (cp_local_address (cp_settings c)) = l @ ''@'' @ d_name d \<or>
                lower (cp_local_address (cp_settings c)) = d_name d)" if "is_production st"
      using dom that by (rule verified_domain)
    from set True id have "due now c'" "cp_settings c' = cp_settings c" "get_campaign cid w' = Some c'"
      using ens [of accounts] by (auto simp: set_campaign_status_def Let_def due_def get_campaign_def row_get_put)
    moreover have "{a \<in> set (wm_accounts w). wa_id a \<in> set (cp_account_ids (cp_settings c))} \<noteq> {}"
      using acc(1) by (auto simp: accounts_def filter_empty_conv)
    ultimately show ?thesis using True c acc(2) ready by (auto simp: accounts_def list_ex_iff)
  qed
qed

theorem started_campaign_ready_witness:
  "\<exists>st c' w'. control_campaign st id (hours 9) ''c1'' ''start'' demo_warmup = (Inr c', w') \<and> due (hours 9) c'"
proof -
  let ?st = "\<lparr>is_production = False, max_failed_login_attempts = 5, lockout_duration_minutes = 15,
    access_token_expire_minutes = 15, refresh_token_expire_days = 7, cors_origins = [], s_hostname = [],
    s_domain = [], admin_user = [], admin_password = [], mail_storage_path = []\<rparr>"
  have "\<not> isl (fst (control_campaign ?st id (hours 9) ''c1'' ''start'' demo_warmup))" by code_simp
  then obtain c' w' where s: "control_campaign ?st id (hours 9) ''c1'' ''start'' demo_warmup = (Inr c', w')"
    by (metis isl_def prod.collapse sum.exhaust_sel)
  from started_campaign_ready [OF this] have "due (hours 9) c'" by simp
  with s show ?thesis by blast
qed

end
