(* ===== verification/Tunnels.thy ===== *)
theory Tunnels
  imports PyNumbers UsersFile "HOL-Library.AList"
begin

text \<open>
  \<^verbatim>\<open>tunnels/\<close>: the relay tunnels, the file \<^verbatim>\<open>tunnels.json\<close> the relay sidecar reads, and the status
  the API assembles from that file and the sidecar's metrics. The file is the JSON document it
  holds. SHA-256, the TCP probe, the HTTP request for the metrics and what the disk refuses
  are arguments.
\<close>

section \<open>Base64\<close>

text \<open>\<open>b64decode(s, validate=True)\<close> of Python 3.11: padding beyond a whole number of groups is
  accepted, any other irregularity is an error; the unused bits of the last character are ignored.\<close>

definition b64_chars :: string where
  "b64_chars = ''ABCDEFGHIJKLMNOPQRSTUVWXYZabcdefghijklmnopqrstuvwxyz0123456789+/''"

definition b64_value :: "char \<Rightarrow> nat option" where
  "b64_value c =
     (if 65 \<le> code c \<and> code c \<le> 90 then Some (code c - 65)
      else if 97 \<le> code c \<and> code c \<le> 122 then Some (code c - 71)
      else if is_digit c then Some (code c + 4)
      else if c = CHR ''+'' then Some 62 else if c = CHR ''/'' then Some 63 else None)"

definition b64_digit :: "nat \<Rightarrow> char" where
  "b64_digit n = b64_chars ! n"

fun b64_groups :: "bool \<Rightarrow> string \<Rightarrow> nat list option" where
  "b64_groups started [] = Some []"
| "b64_groups started (a # s) =
     (if started \<and> list_all (\<lambda>c. c = CHR ''='') (a # s) then Some []
      else (case s of
        b # c # d # rest \<Rightarrow>
          (case (b64_value a, b64_value b, b64_value c, b64_value d) of
             (Some w, Some x, Some y, Some z) \<Rightarrow>
               map_option (\<lambda>bs. (4 * w + x div 16) # (16 * (x mod 16) + y div 4) # (64 * (y mod 4) + z) # bs)
                 (b64_groups True rest)
           | (Some w, Some x, Some y, None) \<Rightarrow>
               if d = CHR ''='' \<and> rest = [] then Some [4 * w + x div 16, 16 * (x mod 16) + y div 4] else None
           | (Some w, Some x, None, None) \<Rightarrow>
               if c = CHR ''='' \<and> d = CHR ''='' \<and> rest = [] then Some [4 * w + x div 16] else None
           | _ \<Rightarrow> None)
      | _ \<Rightarrow> None))"

definition b64decode :: "string \<Rightarrow> nat list option" where
  "b64decode s = b64_groups False s"

text \<open>The standard encoding, for reference.\<close>

fun b64encode :: "nat list \<Rightarrow> string" where
  "b64encode [] = []"
| "b64encode [x] = [b64_digit (x div 4), b64_digit (16 * (x mod 4)), CHR ''='', CHR ''='']"
| "b64encode [x, y] = [b64_digit (x div 4), b64_digit (16 * (x mod 4) + y div 16), b64_digit (4 * (y mod 16)), CHR ''='']"
| "b64encode (x # y # z # bs) =
     b64_digit (x div 4) # b64_digit (16 * (x mod 4) + y div 16) # b64_digit (4 * (y mod 16) + z div 64) #
     b64_digit (z mod 64) # b64encode bs"

section \<open>Rows and requests\<close>

record tunnel =
  tn_id :: string
  tn_name :: string
  tn_host :: string
  tn_port :: int
  tn_pubkey :: string
  tn_enabled :: bool
  tn_weight :: int
  tn_notes :: "string option"
  tn_last_checked_at :: "time option"
  tn_last_check_ok :: "bool option"
  tn_last_check_message :: "string option"
  tn_created_at :: time
  tn_updated_at :: time

record client_identity =
  ci_public_key :: "string option"
  ci_fingerprint :: "string option"
  ci_updated_at :: "time option"

record tunnel_state =
  tt_tunnels :: "tunnel list"
  tt_identity :: "client_identity option"
  tt_file :: "json option"

definition validate_pubkey_b64 :: "string \<Rightarrow> string result" where
  "validate_pubkey_b64 v =
     (if v = [] then Inl (ValueErr ''server_pubkey must be a non-empty base64 string'')
      else (case b64decode v of
              None \<Rightarrow> Inl (ValueErr ''server_pubkey is not valid base64'')
            | Some raw \<Rightarrow>
                if length raw \<noteq> 32 then Inl (ValueErr (''server_pubkey must decode to 32 bytes (got '' @
                  show_nat (length raw) @ '').''))
                else Inr v))"

definition name_char :: "char \<Rightarrow> bool" where
  "name_char c \<longleftrightarrow> is_alnum c \<or> c \<in> set ''._-''"

definition validate_name :: "string \<Rightarrow> string result" where
  "validate_name v =
     (if v \<noteq> strip v then Inl (ValueErr ''name must not have leading or trailing whitespace'')
      else if \<not> (1 \<le> length v \<and> length v \<le> 120) then Inl (ValueErr ''name must be between 1 and 120 characters'')
      else if \<not> list_all name_char v
      then Inl (ValueErr (''name may only contain letters, digits, '' @ quoted ''.'' @ '', '' @ quoted ''_'' @ '' and '' @ quoted ''-'' @ ''.''))
      else Inr v)"

definition validate_host :: "string \<Rightarrow> string result" where
  "validate_host v =
     (if \<not> (1 \<le> length v \<and> length v \<le> 255) then Inl (ValueErr ''endpoint_host must be between 1 and 255 characters'')
      else if list_ex is_space v then Inl (ValueErr ''endpoint_host must not contain whitespace'')
      else Inr v)"

record tunnel_create =
  tc_name :: string
  tc_host :: string
  tc_port :: int
  tc_pubkey :: string
  tc_enabled :: bool
  tc_weight :: int
  tc_notes :: "string option"

definition in_range :: "int \<Rightarrow> int \<Rightarrow> int \<Rightarrow> unit result" where
  "in_range lo hi n = (if lo \<le> n \<and> n \<le> hi then Inr () else Inl (ValueErr ''value out of range''))"

definition tunnel_create_request :: "tunnel_create \<Rightarrow> tunnel_create result" where
  "tunnel_create_request b =
     bind_res (validate_name (tc_name b)) (\<lambda>_.
     bind_res (validate_host (tc_host b)) (\<lambda>_.
     bind_res (in_range 1 65535 (tc_port b)) (\<lambda>_.
     bind_res (validate_pubkey_b64 (tc_pubkey b)) (\<lambda>_.
     bind_res (in_range 1 1000 (tc_weight b)) (\<lambda>_. Inr b)))))"

record tunnel_update =
  tu_name :: "string option option"
  tu_host :: "string option option"
  tu_port :: "int option option"
  tu_pubkey :: "string option option"
  tu_enabled :: "bool option option"
  tu_weight :: "int option option"
  tu_notes :: "string option option"

definition if_value :: "('a \<Rightarrow> 'b result) \<Rightarrow> 'a option option \<Rightarrow> unit result" where
  "if_value check v = (case v of Some (Some x) \<Rightarrow> bind_res (check x) (\<lambda>_. Inr ()) | _ \<Rightarrow> Inr ())"

definition tunnel_update_request :: "tunnel_update \<Rightarrow> tunnel_update result" where
  "tunnel_update_request b =
     bind_res (if_value validate_name (tu_name b)) (\<lambda>_.
     bind_res (if_value validate_host (tu_host b)) (\<lambda>_.
     bind_res (if_value (in_range 1 65535) (tu_port b)) (\<lambda>_.
     bind_res (if_value validate_pubkey_b64 (tu_pubkey b)) (\<lambda>_.
     bind_res (if_value (in_range 1 1000) (tu_weight b)) (\<lambda>_. Inr b)))))"

section \<open>The file of the sidecar\<close>

definition list_tunnels :: "tunnel_state \<Rightarrow> tunnel list" where
  "list_tunnels s = sort_key tn_name (tt_tunnels s)"

definition tunnel_entry :: "tunnel \<Rightarrow> json" where
  "tunnel_entry t = JObj
     [(''id'', JStr (tn_id t)), (''name'', JStr (tn_name t)), (''host'', JStr (tn_host t)),
      (''port'', JInt (tn_port t)), (''edge_pubkey'', JStr (tn_pubkey t)),
      (''enabled'', JBool (tn_enabled t)), (''weight'', JInt (tn_weight t))]"

definition build_tunnels_payload :: "tunnel list \<Rightarrow> json" where
  "build_tunnels_payload ts = JObj
     [(''version'', JInt 1), (''client_static_key_path'', JStr ''/var/lib/mailcue-sidecar/client.key''),
      (''selection'', JStr ''ordered_failover''),
      (''tunnels'', JArr (map tunnel_entry (sort_key (\<lambda>t. - tn_weight t) (sort_key tn_name ts))))]"

text \<open>\<open>refused\<close> is the text of the \<open>OSError\<close> the disk raises, if it does.\<close>

definition write_tunnels_json :: "string option \<Rightarrow> tunnel_state \<Rightarrow> (bool \<times> string option) \<times> tunnel_state" where
  "write_tunnels_json refused s =
     (case refused of
        Some e \<Rightarrow> ((False, Some e), s)
      | None \<Rightarrow> ((True, None), s\<lparr>tt_file := Some (build_tunnels_payload (list_tunnels s))\<rparr>))"

section \<open>Operations\<close>

definition get_tunnel :: "string \<Rightarrow> tunnel_state \<Rightarrow> tunnel result" where
  "get_tunnel i s = (case row_get tn_id i (tt_tunnels s) of
     None \<Rightarrow> Inl (NotFoundError ''Tunnel'' i) | Some t \<Rightarrow> Inr t)"

definition get_tunnel_by_name :: "string \<Rightarrow> tunnel_state \<Rightarrow> tunnel option result" where
  "get_tunnel_by_name n s = one_or_none (filter (\<lambda>t. tn_name t = n) (tt_tunnels s))"

definition create_tunnel :: "string \<Rightarrow> time \<Rightarrow> string option \<Rightarrow> tunnel_create \<Rightarrow> tunnel_state
    \<Rightarrow> tunnel result \<times> tunnel_state" where
  "create_tunnel i now refused b s =
     (case get_tunnel_by_name (tc_name b) s of
        Inl e \<Rightarrow> (Inl e, s)
      | Inr (Some _) \<Rightarrow> (Inl (ConflictError (''Tunnel '' @ quoted (tc_name b) @ '' already exists'')), s)
      | Inr None \<Rightarrow>
          (let t = \<lparr>tn_id = i, tn_name = tc_name b, tn_host = tc_host b, tn_port = tc_port b,
                    tn_pubkey = tc_pubkey b, tn_enabled = tc_enabled b, tn_weight = tc_weight b,
                    tn_notes = tc_notes b, tn_last_checked_at = None, tn_last_check_ok = None,
                    tn_last_check_message = None, tn_created_at = now, tn_updated_at = now\<rparr>
           in (Inr t, snd (write_tunnels_json refused (s\<lparr>tt_tunnels := tt_tunnels s @ [t]\<rparr>)))))"

definition set_field :: "'a \<Rightarrow> 'a option option \<Rightarrow> 'a" where
  "set_field old v = (case v of Some (Some x) \<Rightarrow> x | _ \<Rightarrow> old)"

definition patched_tunnel :: "time \<Rightarrow> tunnel_update \<Rightarrow> tunnel \<Rightarrow> tunnel" where
  "patched_tunnel now b t =
     t\<lparr>tn_name := set_field (tn_name t) (tu_name b), tn_host := set_field (tn_host t) (tu_host b),
       tn_port := set_field (tn_port t) (tu_port b), tn_pubkey := set_field (tn_pubkey t) (tu_pubkey b),
       tn_enabled := set_field (tn_enabled t) (tu_enabled b), tn_weight := set_field (tn_weight t) (tu_weight b),
       tn_notes := (case tu_notes b of None \<Rightarrow> tn_notes t | Some v \<Rightarrow> v), tn_updated_at := now\<rparr>"

text \<open>A null sent for a column that does not admit it fails at the commit.\<close>

definition sends_null :: "tunnel_update \<Rightarrow> bool" where
  "sends_null b \<longleftrightarrow> tu_name b = Some None \<or> tu_host b = Some None \<or> tu_port b = Some None \<or>
     tu_pubkey b = Some None \<or> tu_enabled b = Some None \<or> tu_weight b = Some None"

definition update_tunnel :: "string \<Rightarrow> time \<Rightarrow> string option \<Rightarrow> tunnel_update \<Rightarrow> tunnel_state
    \<Rightarrow> tunnel result \<times> tunnel_state" where
  "update_tunnel i now refused b s =
     (case get_tunnel i s of
        Inl e \<Rightarrow> (Inl e, s)
      | Inr t \<Rightarrow>
          (case (case tu_name b of
                   Some (Some n) \<Rightarrow>
                     if n = tn_name t then Inr ()
                     else bind_res (get_tunnel_by_name n s) (\<lambda>clash.
                       case clash of
                         Some c \<Rightarrow> if tn_id c \<noteq> tn_id t
                                   then Inl (ConflictError (''Tunnel '' @ quoted n @ '' already exists'')) else Inr ()
                       | None \<Rightarrow> Inr ())
                 | _ \<Rightarrow> Inr ()) of
             Inl e \<Rightarrow> (Inl e, s)
           | Inr _ \<Rightarrow>
               if sends_null b then (Inl (OtherExc ''IntegrityError''), s)
               else (let t' = patched_tunnel now b t
                     in (Inr t', snd (write_tunnels_json refused
                          (s\<lparr>tt_tunnels := row_put tn_id t' (tt_tunnels s)\<rparr>))))))"

definition delete_tunnel :: "string \<Rightarrow> string option \<Rightarrow> tunnel_state \<Rightarrow> unit result \<times> tunnel_state" where
  "delete_tunnel i refused s =
     (case get_tunnel i s of
        Inl e \<Rightarrow> (Inl e, s)
      | Inr t \<Rightarrow> (Inr (), snd (write_tunnels_json refused (s\<lparr>tt_tunnels := row_del tn_id (tn_id t) (tt_tunnels s)\<rparr>))))"

definition get_or_init_client_identity :: "tunnel_state \<Rightarrow> client_identity \<times> tunnel_state" where
  "get_or_init_client_identity s =
     (case tt_identity s of
        Some r \<Rightarrow> (r, s)
      | None \<Rightarrow>
          (let r = \<lparr>ci_public_key = None, ci_fingerprint = None, ci_updated_at = None\<rparr>
           in (r, s\<lparr>tt_identity := Some r\<rparr>)))"

definition compute_fingerprint :: "(nat list \<Rightarrow> string) \<Rightarrow> string \<Rightarrow> string result" where
  "compute_fingerprint sha256_hex key =
     (case b64decode key of
        None \<Rightarrow> Inl (ValidationError ''public_key is not valid base64'')
      | Some raw \<Rightarrow>
          if length raw \<noteq> 32
          then Inl (ValidationError (''public_key must decode to 32 bytes (got '' @ show_nat (length raw) @ '').''))
          else Inr (take 32 (sha256_hex raw)))"

definition set_client_identity :: "(nat list \<Rightarrow> string) \<Rightarrow> time \<Rightarrow> string \<Rightarrow> tunnel_state
    \<Rightarrow> client_identity result \<times> tunnel_state" where
  "set_client_identity sha256_hex now key s =
     (case compute_fingerprint sha256_hex key of
        Inl e \<Rightarrow> (Inl e, s)
      | Inr fp \<Rightarrow>
          (let r = \<lparr>ci_public_key = Some key, ci_fingerprint = Some fp, ci_updated_at = Some now\<rparr>
           in (Inr r, (snd (get_or_init_client_identity s))\<lparr>tt_identity := Some r\<rparr>)))"

text \<open>The outcome of the TCP connection of a health check.\<close>

datatype connect_outcome = Connected | TimedOut | Refused string | ConnectRaises string

definition health_check :: "(string \<Rightarrow> int \<Rightarrow> connect_outcome) \<Rightarrow> time \<Rightarrow> string \<Rightarrow> tunnel_state
    \<Rightarrow> (bool \<times> string) result \<times> tunnel_state" where
  "health_check connect now i s =
     (case get_tunnel i s of
        Inl e \<Rightarrow> (Inl e, s)
      | Inr t \<Rightarrow>
          (let target = ''TCP connect to '' @ tn_host t @ '':'' @ show_int (tn_port t);
               saved = (\<lambda>ok message. (Inr (ok, message), s\<lparr>tt_tunnels := row_put tn_id
                 (t\<lparr>tn_last_checked_at := Some now, tn_last_check_ok := Some ok,
                    tn_last_check_message := Some message\<rparr>) (tt_tunnels s)\<rparr>))
           in case connect (tn_host t) (tn_port t) of
                Connected \<Rightarrow> saved True (target @ '' succeeded.'')
              | TimedOut \<Rightarrow> saved False (target @ '' timed out after 5.0s.'')
              | Refused m \<Rightarrow> saved False (target @ '' failed: '' @ m)
              | ConnectRaises m \<Rightarrow> (Inl (OtherExc m), s)))"

section \<open>The sidecar's metrics\<close>

type_synonym labels = "(string \<times> string) list"
type_synonym metric_table = "(string \<times> (string \<times> pyfloat) list) list"

definition label_char :: "char \<Rightarrow> bool" where
  "label_char c \<longleftrightarrow> is_alnum c \<or> c = CHR ''_''"

text \<open>The quoted part of a label: an escaped character counts as one, unless no closing quote would be
  left; then the match falls back to the last escaped quote.\<close>

fun scan_value :: "string \<Rightarrow> (string \<times> string) option" where
  "scan_value [] = None"
| "scan_value (c # s) =
     (if c = CHR 0x22 then Some ([], s)
      else if c = CHR 0x5C then
        (case s of
           d # s' \<Rightarrow>
             (case (if d = CHR 0x0A then None else scan_value s') of
                Some (v, r) \<Rightarrow> Some (c # d # v, r)
              | None \<Rightarrow> map_option (\<lambda>(v, r). (c # v, r)) (scan_value (d # s')))
         | [] \<Rightarrow> None)
      else map_option (\<lambda>(v, r). (c # v, r)) (scan_value s))"

fun replace_pair :: "char \<Rightarrow> char \<Rightarrow> char \<Rightarrow> string \<Rightarrow> string" where
  "replace_pair a b z (x # y # s) =
     (if x = a \<and> y = b then z # replace_pair a b z s else x # replace_pair a b z (y # s))"
| "replace_pair a b z s = s"

definition unescape_label :: "string \<Rightarrow> string" where
  "unescape_label v = replace_pair (CHR 0x5C) (CHR 0x5C) (CHR 0x5C) (replace_pair (CHR 0x5C) (CHR 0x22) (CHR 0x22) v)"

lemma scan_value_escape:
  "scan_value (CHR 0x5C # d # s) =
     (case (if d = CHR 0x0A then None else scan_value s) of
        Some (v, r) \<Rightarrow> Some (CHR 0x5C # d # v, r)
      | None \<Rightarrow> map_option (\<lambda>(v, r). (CHR 0x5C # v, r)) (scan_value (d # s)))"
  by (subst scan_value.simps(2)) simp

lemma scan_value_shorter: "scan_value s = Some (v, r) \<Longrightarrow> length r < length s"
proof (induction s arbitrary: v r rule: length_induct)
  case (1 s)
  show ?case
  proof (cases s)
    case Nil then show ?thesis using "1.prems" by simp
  next
    case (Cons c t)
    have IH: "\<And>u v r. length u < length s \<Longrightarrow> scan_value u = Some (v, r) \<Longrightarrow> length r < length u"
      using "1.IH" by blast
    consider "c = CHR 0x22" | "c = CHR 0x5C" | "c \<noteq> CHR 0x22" "c \<noteq> CHR 0x5C" by blast
    then show ?thesis
    proof cases
      case 1
      then show ?thesis using "1.prems" Cons by simp
    next
      case 2
      show ?thesis
      proof (cases t)
        case Nil then show ?thesis using "1.prems" Cons 2 by simp
      next
        case (Cons d u)
        show ?thesis
        proof (cases "if d = CHR 0x0A then None else scan_value u")
          case None
          then obtain w where "scan_value (d # u) = Some (w, r)"
            using "1.prems" \<open>s = c # t\<close> 2 Cons by (auto simp: scan_value_escape simp del: scan_value.simps)
          then show ?thesis using IH[of "d # u" w r] \<open>s = c # t\<close> Cons by simp
        next
          case (Some p)
          obtain w q where p: "p = (w, q)" by (cases p)
          then have "scan_value u = Some (w, q)" using Some by (simp split: if_splits)
          moreover have "q = r" using "1.prems" \<open>s = c # t\<close> 2 Cons Some p by simp
          ultimately show ?thesis using IH[of u w r] \<open>s = c # t\<close> Cons by simp
        qed
      qed
    next
      case 3
      then obtain w where "scan_value t = Some (w, r)" using "1.prems" Cons by auto
      then show ?thesis using IH[of t w r] Cons by simp
    qed
  qed
qed

lemma name_consumes:
  assumes "takeWhile label_char (dropWhile (\<lambda>c. \<not> label_char c) s) \<noteq> []"
  shows "length (dropWhile label_char (dropWhile (\<lambda>c. \<not> label_char c) s)) < length s"
proof -
  let ?s1 = "dropWhile (\<lambda>c. \<not> label_char c) s"
  have "length (takeWhile label_char ?s1) + length (dropWhile label_char ?s1) = length ?s1"
    by (metis length_append takeWhile_dropWhile_id)
  moreover have "length ?s1 \<le> length s" by (rule length_dropWhile_le)
  ultimately show ?thesis using assms by (cases "takeWhile label_char ?s1") auto
qed

lemma label_consumes:
  assumes "e # q # u = dropWhile label_char (dropWhile (\<lambda>c. \<not> label_char c) s)" "scan_value u = Some (v, r)"
    and "takeWhile label_char (dropWhile (\<lambda>c. \<not> label_char c) s) \<noteq> []"
  shows "length r < length s"
proof -
  have "length r < length u" by (rule scan_value_shorter) (rule assms(2))
  also have "length u \<le> length (e # q # u)" by simp
  also have "length (e # q # u) < length s" unfolding assms(1) by (rule name_consumes) (rule assms(3))
  finally show ?thesis .
qed

function parse_prometheus_labels :: "string \<Rightarrow> labels" where
  "parse_prometheus_labels s =
     (let s1 = dropWhile (\<lambda>c. \<not> label_char c) s; name = takeWhile label_char s1; s2 = dropWhile label_char s1
      in if name = [] then []
         else (case s2 of
                 e # q # s3 \<Rightarrow>
                   if e = CHR ''='' \<and> q = CHR 0x22
                   then (case scan_value s3 of
                           Some (v, r) \<Rightarrow> (name, unescape_label v) # parse_prometheus_labels r
                         | None \<Rightarrow> parse_prometheus_labels s2)
                   else parse_prometheus_labels s2
               | _ \<Rightarrow> []))"
  by pat_completeness auto

termination
  by (relation "measure length") (auto intro: label_consumes name_consumes)

definition prom_metrics :: "string list" where
  "prom_metrics = [''up'', ''requests_total'', ''last_success_seconds'', ''inflight'', ''idle_connections'']"

definition value_char :: "char \<Rightarrow> bool" where
  "value_char c \<longleftrightarrow> is_digit c \<or> c \<in> set ''.eE+-''"

definition prom_line :: "string \<Rightarrow> (string \<times> string \<times> string) option" where
  "prom_line line =
     (if \<not> prefix ''mailcue_tunnel_'' line then None
      else (case split_first (CHR 0x7B) (drop 15 line) of
              None \<Rightarrow> None
            | Some (metric, r) \<Rightarrow>
                (case split_first (CHR 0x7D) r of
                   None \<Rightarrow> None
                 | Some (labels, r2) \<Rightarrow>
                     (let v = dropWhile is_space r2
                      in if metric \<in> set prom_metrics \<and> r2 \<noteq> v \<and> v \<noteq> [] \<and> list_all value_char v
                         then Some (metric, labels, v) else None))))"

definition put_metric :: "string \<Rightarrow> string \<Rightarrow> pyfloat \<Rightarrow> metric_table \<Rightarrow> metric_table" where
  "put_metric i k v t =
     (let row = (case map_of t i of None \<Rightarrow> [] | Some r \<Rightarrow> r)
      in AList.update i (AList.update k v row) t)"

definition metric_of_line :: "string \<Rightarrow> (string \<times> string \<times> string) option" where
  "metric_of_line line =
     (case prom_line (strip line) of
        None \<Rightarrow> None
      | Some (metric, raw, v) \<Rightarrow>
          (let labels = rev (parse_prometheus_labels raw);
               tunnel_id = (case map_of labels ''tunnel'' of None \<Rightarrow> [] | Some i \<Rightarrow> i)
           in if tunnel_id = [] then None
              else if metric = ''requests_total''
              then (case map_of labels ''outcome'' of
                      Some out \<Rightarrow> if out \<in> {''ok'', ''err''} then Some (tunnel_id, ''requests_'' @ out, v) else None
                    | None \<Rightarrow> None)
              else Some (tunnel_id, metric, v)))"

fun parse_metric_lines :: "string list \<Rightarrow> metric_table \<Rightarrow> metric_table result" where
  "parse_metric_lines [] t = Inr t"
| "parse_metric_lines (line # ls) t =
     (case metric_of_line line of
        None \<Rightarrow> parse_metric_lines ls t
      | Some (i, k, v) \<Rightarrow> bind_res (py_float v) (\<lambda>x. parse_metric_lines ls (put_metric i k x t)))"

definition parse_sidecar_metrics :: "string \<Rightarrow> metric_table result" where
  "parse_sidecar_metrics body = parse_metric_lines (splitlines_keep (universal_newlines body)) []"

section \<open>The effective status\<close>

datatype config_read = ConfigMissing | ConfigDenied | ConfigError string | ConfigJson json

definition read_effective_tunnel_entries :: "string \<Rightarrow> config_read \<Rightarrow> dict list \<times> string option" where
  "read_effective_tunnel_entries path r =
     (case r of
        ConfigMissing \<Rightarrow> ([], Some (''Tunnel configuration is not mounted at '' @ path))
      | ConfigDenied \<Rightarrow> ([], Some (''Tunnel configuration is not readable at '' @ path))
      | ConfigError m \<Rightarrow> ([], Some (''Could not read tunnel configuration: '' @ m))
      | ConfigJson data \<Rightarrow>
          (case (case data of JObj d \<Rightarrow> dict_get_default d ''tunnels'' JNull | _ \<Rightarrow> JNull) of
             JArr es \<Rightarrow> (List.map_filter (\<lambda>e. case e of JObj d \<Rightarrow> Some d | _ \<Rightarrow> None) es, None)
           | _ \<Rightarrow> ([], Some ''Tunnel configuration does not contain a tunnels list'')))"

text \<open>The answer to the request for the metrics: a body, or the text of an HTTP error.\<close>

definition fetch_sidecar_metrics :: "string \<Rightarrow> string + string \<Rightarrow> (bool \<times> string option \<times> metric_table) result" where
  "fetch_sidecar_metrics url answer =
     (case answer of
        Inl m \<Rightarrow> Inr (False, Some (''Could not reach sidecar metrics at '' @ url @ '': '' @ m), [])
      | Inr body \<Rightarrow> bind_res (parse_sidecar_metrics body) (\<lambda>t. Inr (True, None, t)))"

record tunnel_status =
  es_id :: string
  es_name :: string
  es_host :: string
  es_port :: int
  es_enabled :: bool
  es_weight :: int
  es_source :: string
  es_managed :: bool
  es_healthy :: "bool option"
  es_idle :: "int option"
  es_inflight :: "int option"
  es_requests_ok :: "int option"
  es_requests_err :: "int option"
  es_last_success :: "int option"

definition metric_int :: "(string \<times> pyfloat) list \<Rightarrow> string \<Rightarrow> int option result" where
  "metric_int stat k = (case map_of stat k of None \<Rightarrow> Inr None | Some x \<Rightarrow> bind_res (int_of_float x) (\<lambda>n. Inr (Some n)))"

text \<open>\<open>datetime.fromtimestamp\<close>: seconds after the end of the year 9999 are an error.\<close>

definition from_timestamp :: "int \<Rightarrow> int result" where
  "from_timestamp n = (if n > 253402300799 then Inl (ValueErr ''year is out of range'') else Inr n)"

definition entry_status :: "(json \<Rightarrow> string) \<Rightarrow> string list \<Rightarrow> metric_table \<Rightarrow> dict \<Rightarrow> tunnel_status option result" where
  "entry_status rp known metrics e =
     (let tid = strip (py_str rp (dict_get_default e ''id'' (JStr [])));
          name = strip (py_str rp (dict_get_default e ''name'' (JStr tid)));
          host = strip (py_str rp (dict_get_default e ''host'' (JStr [])));
          stat = (case map_of metrics tid of None \<Rightarrow> [] | Some r \<Rightarrow> r)
      in if tid = [] \<or> name = [] \<or> host = [] then Inr None
         else (case (json_int (dict_get_default e ''port'' (JInt 7843)), json_int (dict_get_default e ''weight'' (JInt 1))) of
                 (Inr port, Inr weight) \<Rightarrow>
                   bind_res (metric_int stat ''last_success_seconds'') (\<lambda>ls.
                   bind_res (metric_int stat ''idle_connections'') (\<lambda>idle.
                   bind_res (metric_int stat ''inflight'') (\<lambda>infl.
                   bind_res (metric_int stat ''requests_ok'') (\<lambda>ok.
                   bind_res (metric_int stat ''requests_err'') (\<lambda>err.
                   bind_res (case ls of Some n \<Rightarrow> if n > 0 then bind_res (from_timestamp n) (\<lambda>x. Inr (Some x)) else Inr None
                             | None \<Rightarrow> Inr None) (\<lambda>last_success.
                   Inr (Some \<lparr>es_id = tid, es_name = name, es_host = host, es_port = port,
                     es_enabled = json_truthy (dict_get_default e ''enabled'' (JBool True)), es_weight = weight,
                     es_source = (if tid \<in> set known then ''database'' else ''config_file''),
                     es_managed = (tid \<in> set known),
                     es_healthy = (case map_of metrics tid of None \<Rightarrow> None
                       | Some r \<Rightarrow> Some (case map_of r ''up'' of None \<Rightarrow> False | Some x \<Rightarrow> float_truthy x)),
                     es_idle = idle, es_inflight = infl, es_requests_ok = ok, es_requests_err = err,
                     es_last_success = last_success\<rparr>)))))))
               | _ \<Rightarrow> Inr None))"

fun entry_statuses :: "(json \<Rightarrow> string) \<Rightarrow> string list \<Rightarrow> metric_table \<Rightarrow> dict list \<Rightarrow> tunnel_status list result" where
  "entry_statuses rp known metrics [] = Inr []"
| "entry_statuses rp known metrics (e # es) =
     bind_res (entry_status rp known metrics e) (\<lambda>s.
     bind_res (entry_statuses rp known metrics es) (\<lambda>ss. Inr (case s of None \<Rightarrow> ss | Some x \<Rightarrow> x # ss)))"

definition unloaded_status :: "tunnel \<Rightarrow> tunnel_status" where
  "unloaded_status t = \<lparr>es_id = tn_id t, es_name = tn_name t, es_host = tn_host t, es_port = tn_port t,
     es_enabled = tn_enabled t, es_weight = tn_weight t, es_source = ''database'', es_managed = True,
     es_healthy = None, es_idle = None, es_inflight = None, es_requests_ok = None, es_requests_err = None,
     es_last_success = None\<rparr>"

definition effective_tunnel_status :: "(json \<Rightarrow> string) \<Rightarrow> string \<Rightarrow> config_read \<Rightarrow> string \<Rightarrow> string + string \<Rightarrow> tunnel_state
    \<Rightarrow> (bool \<times> string option \<times> tunnel_status list) result" where
  "effective_tunnel_status rp path r url answer s =
     (let rows = list_tunnels s; (entries, config_error) = read_effective_tunnel_entries path r
      in bind_res (fetch_sidecar_metrics url answer) (\<lambda>(reachable, metrics_error, metrics).
         bind_res (entry_statuses rp (map tn_id rows) metrics entries) (\<lambda>loaded.
         (let missing = map unloaded_status (filter (\<lambda>t. tn_id t \<notin> es_id ` set loaded) rows)
          in Inr (reachable, or_text config_error metrics_error, sort_key es_name (loaded @ missing))))))"

end
