(* ===== verification/Sidecar.thy ===== *)
theory Sidecar
  imports Tunnels
begin

text \<open>
  The reader of \<^verbatim>\<open>tunnels.json\<close>: what the relay sidecar (\<^verbatim>\<open>tunnel/crates/sidecar\<close>, files
  \<^verbatim>\<open>tunnels.rs\<close> and \<^verbatim>\<open>selector.rs\<close>) makes of the document the API writes, and the order in which it
  tries the tunnels. The base64 crate is the argument \<open>decode\<close>.
\<close>

section \<open>Deserialisation\<close>

datatype selection = OrderedFailover | RoundRobin | UniformRandom | WeightedRandom

record raw_tunnel =
  rw_id :: string
  rw_name :: "string option"
  rw_host :: string
  rw_port :: int
  rw_pubkey :: string
  rw_weight :: int
  rw_enabled :: bool

definition str_field :: "dict \<Rightarrow> string \<Rightarrow> string option" where
  "str_field d k = (case dict_get d k of Some (JStr s) \<Rightarrow> Some s | _ \<Rightarrow> None)"

definition uint_field :: "nat \<Rightarrow> int option \<Rightarrow> dict \<Rightarrow> string \<Rightarrow> int option" where
  "uint_field w missing d k =
     (case dict_get d k of
        None \<Rightarrow> missing
      | Some (JInt n) \<Rightarrow> if 0 \<le> n \<and> n < 2 ^ w then Some n else None
      | _ \<Rightarrow> None)"

definition bool_field :: "bool \<Rightarrow> dict \<Rightarrow> string \<Rightarrow> bool option" where
  "bool_field missing d k = (case dict_get d k of None \<Rightarrow> Some missing | Some (JBool b) \<Rightarrow> Some b | _ \<Rightarrow> None)"

definition name_field :: "dict \<Rightarrow> string option option" where
  "name_field d =
     (case dict_get d ''name'' of
        None \<Rightarrow> Some None | Some JNull \<Rightarrow> Some None | Some (JStr s) \<Rightarrow> Some (Some s) | _ \<Rightarrow> None)"

definition raw_tunnel_of :: "json \<Rightarrow> raw_tunnel option" where
  "raw_tunnel_of j =
     (case j of
        JObj d \<Rightarrow>
          Option.bind (str_field d ''id'') (\<lambda>i.
          Option.bind (name_field d) (\<lambda>n.
          Option.bind (str_field d ''host'') (\<lambda>h.
          Option.bind (uint_field 16 None d ''port'') (\<lambda>p.
          Option.bind (str_field d ''edge_pubkey'') (\<lambda>k.
          Option.bind (uint_field 32 (Some 1) d ''weight'') (\<lambda>w.
          Option.bind (bool_field True d ''enabled'') (\<lambda>e.
          Some \<lparr>rw_id = i, rw_name = n, rw_host = h, rw_port = p, rw_pubkey = k, rw_weight = w, rw_enabled = e\<rparr>)))))))
      | _ \<Rightarrow> None)"

fun all_some :: "'a option list \<Rightarrow> 'a list option" where
  "all_some [] = Some []"
| "all_some (None # xs) = None"
| "all_some (Some x # xs) = map_option ((#) x) (all_some xs)"

definition selection_field :: "dict \<Rightarrow> selection option" where
  "selection_field d =
     (case dict_get d ''selection'' of
        None \<Rightarrow> Some OrderedFailover
      | Some (JStr s) \<Rightarrow>
          if s = ''ordered_failover'' then Some OrderedFailover
          else if s = ''round_robin'' then Some RoundRobin
          else if s = ''random'' then Some UniformRandom
          else if s = ''weighted_random'' then Some WeightedRandom else None
      | _ \<Rightarrow> None)"

definition raw_tunnels_field :: "dict \<Rightarrow> raw_tunnel list option" where
  "raw_tunnels_field d =
     (case dict_get d ''tunnels'' of
        None \<Rightarrow> Some [] | Some (JArr es) \<Rightarrow> all_some (map raw_tunnel_of es) | _ \<Rightarrow> None)"

section \<open>Validation and selection\<close>

record relay =
  rl_id :: string
  rl_name :: string
  rl_host :: string
  rl_port :: int
  rl_pubkey :: "nat list"
  rl_weight :: int
  rl_enabled :: bool

definition validate_relay :: "(string \<Rightarrow> nat list option) \<Rightarrow> raw_tunnel \<Rightarrow> relay option" where
  "validate_relay decode r =
     (if strip (rw_id r) = [] \<or> strip (rw_host r) = [] \<or> rw_port r = 0 then None
      else (case decode (strip (rw_pubkey r)) of
              None \<Rightarrow> None
            | Some k \<Rightarrow>
                if length k \<noteq> 32 then None
                else Some \<lparr>rl_id = rw_id r, rl_name = (case rw_name r of None \<Rightarrow> rw_id r | Some n \<Rightarrow> n),
                           rl_host = rw_host r, rl_port = rw_port r, rl_pubkey = k,
                           rl_weight = max (rw_weight r) 1, rl_enabled = rw_enabled r\<rparr>))"

text \<open>\<open>None\<close> is a document the sidecar refuses as a whole; it then keeps its previous view.\<close>

definition load_tunnels_file :: "(string \<Rightarrow> nat list option) \<Rightarrow> json option \<Rightarrow> (selection \<times> relay list) option" where
  "load_tunnels_file decode file =
     (case file of
        None \<Rightarrow> Some (OrderedFailover, [])
      | Some (JObj d) \<Rightarrow>
          Option.bind (uint_field 32 (Some 1) d ''version'') (\<lambda>v.
          Option.bind (selection_field d) (\<lambda>sel.
          Option.bind (raw_tunnels_field d) (\<lambda>raws.
          if v \<noteq> 1 then None else Some (sel, List.map_filter (validate_relay decode) raws))))
      | Some _ \<Rightarrow> None)"

definition ordered :: "relay list \<Rightarrow> relay list" where
  "ordered candidates = sort_key (\<lambda>t. - rl_weight t) candidates"

text \<open>The branch of \<open>pick_all\<close> for the strategy the API writes.\<close>

definition pick_all_ordered :: "string set \<Rightarrow> relay list \<Rightarrow> relay list" where
  "pick_all_ordered healthy view = ordered (filter (\<lambda>t. rl_enabled t \<and> rl_id t \<in> healthy) view)"

end
