(* ===== verification/TunnelProps.thy ===== *)
theory TunnelProps
  imports Sidecar
begin

text \<open>
  Properties of the tunnels: the format of edge keys, the rows stay well formed, \<^verbatim>\<open>tunnels.json\<close>
  follows the rows, and what the sidecar makes of the file.
\<close>

section \<open>Base64\<close>

lemma b64_digits: "list_all (\<lambda>n. b64_value (b64_digit n) = Some n \<and> b64_digit n \<noteq> CHR ''='') [0..<64]"
  by code_simp

lemma b64_value_digit [simp]: "n < 64 \<Longrightarrow> b64_value (b64_digit n) = Some n"
  and b64_digit_pad [simp]: "n < 64 \<Longrightarrow> b64_digit n \<noteq> CHR ''=''"
  using b64_digits by (auto simp: list_all_iff)

lemma b64_value_pad [simp]: "b64_value (CHR ''='') = None"
  by code_simp

lemma b64_value_bound: "b64_value c = Some n \<Longrightarrow> n < 64"
  by (auto simp: b64_value_def is_digit_def split: if_splits)

lemma sextet_bounds [simp]:
  fixes x y z :: nat
  shows "x < 256 \<Longrightarrow> x div 4 < 64" "y < 256 \<Longrightarrow> 16 * (x mod 4) + y div 16 < 64"
    "z < 256 \<Longrightarrow> 4 * (y mod 16) + z div 64 < 64" "16 * (x mod 4) < 64" "4 * (y mod 16) < 64" "z mod 64 < 64"
  by auto

lemma b64_groups_encode:
  assumes "\<forall>b \<in> set bs. b < 256"
  shows "b64_groups started (b64encode bs) = Some bs"
  using assms
proof (induction bs arbitrary: started rule: b64encode.induct)
  case (4 x y z bs)
  have "4 * (x div 4) + (16 * (x mod 4) + y div 16) div 16 = x"
    "16 * ((16 * (x mod 4) + y div 16) mod 16) + (4 * (y mod 16) + z div 64) div 4 = y"
    "64 * ((4 * (y mod 16) + z div 64) mod 4) + z mod 64 = z"
    using 4(2) by auto
  with 4 show ?case by simp
next
  case (3 x y)
  have "4 * (x div 4) + (16 * (x mod 4) + y div 16) div 16 = x"
    "16 * ((16 * (x mod 4) + y div 16) mod 16) + (4 * (y mod 16)) div 4 = y"
    using 3 by auto
  with 3 show ?case by simp
qed simp_all

lemma b64_groups_bytes:
  "b64_groups started s = Some bs \<Longrightarrow> b \<in> set bs \<Longrightarrow> b < 256"
proof (induction s arbitrary: started bs rule: length_induct)
  case (1 s)
  show ?case
  proof (cases "\<exists>a c d e rest. s = a # c # d # e # rest")
    case True
    then obtain a c d e rest where s: "s = a # c # d # e # rest" by blast
    have IH: "b < 256" if "b64_groups True rest = Some cs" "b \<in> set cs" for cs
    proof -
      have "length rest < length s" using s by simp
      with "1.IH" that show ?thesis by blast
    qed
    have two: "4 * w + x div 16 < 256" if "w < 64" "x < 64" for w x :: nat using that by auto
    have mid: "16 * (x mod 16) + y div 4 < 256" if "x < 64" "y < 64" for x y :: nat using that by auto
    have low: "64 * (y mod 4) + z < 256" if "z < 64" for y z :: nat using that by auto
    show ?thesis using "1.prems" s
      by (auto split: if_splits option.splits dest: b64_value_bound IH intro!: two mid low)
  next
    case False
    then show ?thesis using "1.prems" by (cases s) (auto split: if_splits list.splits)
  qed
qed

lemma b64_alphabet: "b64_value c \<noteq> None \<longleftrightarrow> is_alnum c \<or> c = CHR ''+'' \<or> c = CHR ''/''"
  by (auto simp: b64_value_def is_alnum_def is_alpha_def is_digit_def)

lemma b64_groups_two_over:
  assumes "b64_groups started s = Some bs" and "length bs = 3 * k + 2"
  shows "length s = 4 * k + 4 \<and> last s = CHR ''='' \<and> list_all (\<lambda>c. b64_value c \<noteq> None) (butlast s)"
  using assms
proof (induction k arbitrary: started s bs)
  case 0
  then obtain a b c d where s: "s = [a, b, c, d]"
    and v: "b64_value a \<noteq> None" "b64_value b \<noteq> None" "b64_value c \<noteq> None" "d = CHR ''=''"
    by (cases "(started, s)" rule: b64_groups.cases)
      (auto split: if_splits list.splits option.splits)
  then show ?case by simp
next
  case (Suc k)
  from Suc.prems obtain a b c d rest cs where s: "s = a # b # c # d # rest"
    and v: "b64_value a \<noteq> None" "b64_value b \<noteq> None" "b64_value c \<noteq> None" "b64_value d \<noteq> None"
    and rest: "b64_groups True rest = Some cs" "length cs = 3 * k + 2"
    by (cases "(started, s)" rule: b64_groups.cases)
      (auto split: if_splits list.splits option.splits)
  from Suc.IH [OF rest] s v show ?case by (cases rest) auto
qed

lemma b64_groups_padded:
  assumes "length s = 4 * k + 4" "last s = CHR ''=''" "list_all (\<lambda>c. b64_value c \<noteq> None) (butlast s)"
  shows "\<exists>bs. b64_groups started s = Some bs \<and> length bs = 3 * k + 2"
  using assms
proof (induction k arbitrary: started s)
  case 0
  then obtain a b c d where "s = [a, b, c, d]" by (auto simp: length_Suc_conv numeral_eq_Suc)
  with 0 show ?case by auto
next
  case (Suc k)
  then obtain a b c d rest where s: "s = a # b # c # d # rest" "length rest = 4 * k + 4"
    by (auto simp: length_Suc_conv numeral_eq_Suc)
  then have ne: "rest \<noteq> []" by auto
  with Suc.prems s have "last rest = CHR ''=''" "list_all (\<lambda>c. b64_value c \<noteq> None) (butlast rest)"
    and v: "b64_value a \<noteq> None" "b64_value b \<noteq> None" "b64_value c \<noteq> None" "b64_value d \<noteq> None"
    by (auto split: if_splits)
  with Suc.IH [of rest True] s(2) obtain cs where "b64_groups True rest = Some cs" "length cs = 3 * k + 2" by blast
  with v s(1) show ?case by auto
qed
text \<open>C19: What the validator of edge keys accepts. A key passes, unchanged, exactly when it is 44 characters long, a padding
  sign after 43 letters, digits, plus signs or slashes; every other text is refused. So every
  accepted key decodes to 32 bytes, and the standard encoding of any 32 bytes is accepted and decodes to them.\<close>

theorem pubkey_accepted_exactly:
  "(validate_pubkey_b64 v = Inr w) = (w = v \<and> length v = 44 \<and> last v = CHR ''='' \<and>
      list_all (\<lambda>c. is_alnum c \<or> c = CHR ''+'' \<or> c = CHR ''/'') (butlast v)) \<and>
   (validate_pubkey_b64 v = Inr w \<longrightarrow> (\<exists>bs. b64decode v = Some bs \<and> length bs = 32 \<and> list_all (\<lambda>b. b < 256) bs)) \<and>
   (length bs = 32 \<and> list_all (\<lambda>b. b < 256) bs \<longrightarrow>
      validate_pubkey_b64 (b64encode bs) = Inr (b64encode bs) \<and> b64decode (b64encode bs) = Some bs)"
proof (intro conjI impI)
  have "(validate_pubkey_b64 v = Inr w) = (w = v \<and> (\<exists>bs. b64decode v = Some bs \<and> length bs = 32))"
    by (cases v) (auto simp: validate_pubkey_b64_def b64decode_def split: option.splits)
  also have "(\<exists>bs. b64decode v = Some bs \<and> length bs = 32) =
      (length v = 44 \<and> last v = CHR ''='' \<and> list_all (\<lambda>c. b64_value c \<noteq> None) (butlast v))"
    using b64_groups_two_over [of False v _ 10] b64_groups_padded [of v 10 False] by (auto simp: b64decode_def)
  finally show "(validate_pubkey_b64 v = Inr w) = (w = v \<and> length v = 44 \<and> last v = CHR ''='' \<and>
      list_all (\<lambda>c. is_alnum c \<or> c = CHR ''+'' \<or> c = CHR ''/'') (butlast v))"
    by (simp only: b64_alphabet)
next
  assume "validate_pubkey_b64 v = Inr w"
  then obtain bs where bs: "b64decode v = Some bs" "length bs = 32"
    by (auto simp: validate_pubkey_b64_def split: if_splits option.splits)
  then have "list_all (\<lambda>b. b < 256) bs" using b64_groups_bytes by (auto simp: b64decode_def list_all_iff)
  with bs show "\<exists>bs. b64decode v = Some bs \<and> length bs = 32 \<and> list_all (\<lambda>b. b < 256) bs" by blast
next
  assume bs: "length bs = 32 \<and> list_all (\<lambda>b. b < 256) bs"
  then have decoded: "b64decode (b64encode bs) = Some bs"
    using b64_groups_encode by (simp add: b64decode_def list_all_iff)
  moreover have "b64encode bs \<noteq> []" using bs by (cases bs rule: b64encode.cases) simp_all
  ultimately show "validate_pubkey_b64 (b64encode bs) = Inr (b64encode bs)" "b64decode (b64encode bs) = Some bs"
    using bs by (simp_all add: validate_pubkey_b64_def)
qed

text \<open>A key of 31 bytes, one of another alphabet and the encoding of 32 bytes.\<close>

theorem pubkey_accepted_exactly_witness:
  "validate_pubkey_b64 (b64encode (replicate 31 7)) \<noteq> Inr (b64encode (replicate 31 7)) \<and>
   validate_pubkey_b64 (replicate 43 CHR ''_'' @ ''='') \<noteq> Inr (replicate 43 CHR ''_'' @ ''='') \<and>
   validate_pubkey_b64 (b64encode (replicate 32 7)) = Inr (b64encode (replicate 32 7)) \<and>
   b64decode (b64encode (replicate 32 7)) = Some (replicate 32 7)"
proof -
  have "\<not> list_all (\<lambda>c. is_alnum c \<or> c = CHR ''+'' \<or> c = CHR ''/'') (butlast (b64encode (replicate 31 7)))"
    "\<not> list_all (\<lambda>c. is_alnum c \<or> c = CHR ''+'' \<or> c = CHR ''/'') (butlast (replicate 43 CHR ''_'' @ ''=''))"
    by code_simp+
  moreover have "length (replicate 32 (7::nat)) = 32 \<and> list_all (\<lambda>b. b < 256) (replicate 32 (7::nat))" by (simp add: list_all_iff)
  ultimately show ?thesis
    using conjunct1 [OF pubkey_accepted_exactly [of "b64encode (replicate 31 7)" "b64encode (replicate 31 7)"]]
      conjunct1 [OF pubkey_accepted_exactly [of "replicate 43 CHR ''_'' @ ''=''" "replicate 43 CHR ''_'' @ ''=''"]]
      mp [OF conjunct2 [OF conjunct2 [OF pubkey_accepted_exactly [of undefined undefined "replicate 32 7"]]]]
    by (simp only: simp_thms)
qed

section \<open>Rows and file\<close>

definition hex_id :: "string \<Rightarrow> bool" where
  "hex_id i \<longleftrightarrow> length i = 32 \<and> list_all (\<lambda>c. is_digit c \<or> c \<in> set ''abcdef'') i"

definition tunnel_ok :: "tunnel \<Rightarrow> bool" where
  "tunnel_ok t \<longleftrightarrow> hex_id (tn_id t) \<and> validate_name (tn_name t) = Inr (tn_name t) \<and>
     validate_host (tn_host t) = Inr (tn_host t) \<and> 1 \<le> tn_port t \<and> tn_port t \<le> 65535 \<and>
     validate_pubkey_b64 (tn_pubkey t) = Inr (tn_pubkey t) \<and> 1 \<le> tn_weight t \<and> tn_weight t \<le> 1000"

definition tunnel_rows_ok :: "tunnel_state \<Rightarrow> bool" where
  "tunnel_rows_ok s \<longleftrightarrow> distinct (map tn_id (tt_tunnels s)) \<and> distinct (map tn_name (tt_tunnels s)) \<and>
     (\<forall>t \<in> set (tt_tunnels s). tunnel_ok t)"

text \<open>The requests of the API, each after its schema; \<open>refused\<close> is what the disk answers the write.\<close>

inductive tunnel_step :: "string option \<Rightarrow> tunnel_state \<Rightarrow> tunnel_state \<Rightarrow> bool" for refused where
  create: "tunnel_create_request b = Inr b' \<Longrightarrow> hex_id i \<Longrightarrow> i \<notin> tn_id ` set (tt_tunnels s) \<Longrightarrow>
    tunnel_step refused s (snd (create_tunnel i now refused b' s))"
| update: "tunnel_update_request b = Inr b' \<Longrightarrow> tunnel_step refused s (snd (update_tunnel i now refused b' s))"
| delete: "tunnel_step refused s (snd (delete_tunnel i refused s))"
| check: "tunnel_step refused s (snd (health_check connect now i s))"
| identity: "tunnel_step refused s (snd (set_client_identity sha256_hex now key s))"
| read_identity: "tunnel_step refused s (snd (get_or_init_client_identity s))"

definition file_current :: "tunnel_state \<Rightarrow> bool" where
  "file_current s \<longleftrightarrow> tt_file s = Some (build_tunnels_payload (list_tunnels s))"

inductive tunnels_reach :: "tunnel_state \<Rightarrow> bool" where
  start: "tt_tunnels s = [] \<Longrightarrow> tunnels_reach s"
| step: "tunnels_reach s \<Longrightarrow> tunnel_step refused s s' \<Longrightarrow> tunnels_reach s'"

lemma validators_identity:
  "validate_name v = Inr n \<Longrightarrow> n = v" "validate_host h = Inr m \<Longrightarrow> m = h"
  "validate_pubkey_b64 k = Inr l \<Longrightarrow> l = k"
  by (auto simp: validate_name_def validate_host_def validate_pubkey_b64_def split: if_splits option.splits)

lemma validators_same:
  "validate_name v = Inr n \<Longrightarrow> validate_name v = Inr v" "validate_host h = Inr m \<Longrightarrow> validate_host h = Inr h"
  "validate_pubkey_b64 k = Inr l \<Longrightarrow> validate_pubkey_b64 k = Inr k"
  using validators_identity by metis+

lemma tunnel_create_request_ok:
  assumes "tunnel_create_request b = Inr b'"
  shows "b' = b \<and> validate_name (tc_name b) = Inr (tc_name b) \<and> validate_host (tc_host b) = Inr (tc_host b) \<and>
    1 \<le> tc_port b \<and> tc_port b \<le> 65535 \<and> validate_pubkey_b64 (tc_pubkey b) = Inr (tc_pubkey b) \<and>
    1 \<le> tc_weight b \<and> tc_weight b \<le> 1000"
  using assms
  by (auto simp: tunnel_create_request_def in_range_def dest: validators_identity split: if_splits)

lemma create_tunnel_new:
  assumes "tunnel_rows_ok s"
  shows "create_tunnel i now refused b s = (Inl e, s') \<Longrightarrow> s' = s"
    and "create_tunnel i now refused b s = (Inr t, s') \<Longrightarrow>
      tt_tunnels s' = tt_tunnels s @ [t] \<and> tc_name b \<notin> tn_name ` set (tt_tunnels s) \<and>
      tn_id t = i \<and> tn_name t = tc_name b \<and> tn_host t = tc_host b \<and> tn_port t = tc_port b \<and>
      tn_pubkey t = tc_pubkey b \<and> tn_weight t = tc_weight b"
  by (auto simp: create_tunnel_def get_tunnel_by_name_def write_tunnels_json_def Let_def one_or_none_None_iff
      filter_empty_conv split: sum.splits option.splits)

lemma write_tunnels_frame [simp]:
  "tt_tunnels (snd (write_tunnels_json refused s)) = tt_tunnels s"
  "file_current (snd (write_tunnels_json None s))"
  by (simp_all add: write_tunnels_json_def file_current_def list_tunnels_def split: option.splits)

definition plain_row :: "tunnel \<Rightarrow> tunnel" where
  "plain_row t = t\<lparr>tn_last_checked_at := None, tn_last_check_ok := None, tn_last_check_message := None\<rparr>"

lemma plain_simps [simp]:
  "tn_id (plain_row t) = tn_id t" "tn_name (plain_row t) = tn_name t" "tn_weight (plain_row t) = tn_weight t"
  "tunnel_ok (plain_row t) = tunnel_ok t" "tunnel_entry (plain_row t) = tunnel_entry t"
  by (simp_all add: plain_row_def tunnel_ok_def tunnel_entry_def)

lemma plain_rows:
  assumes "map plain_row (tt_tunnels s') = map plain_row (tt_tunnels s)"
  shows "tunnel_rows_ok s' = tunnel_rows_ok s"
    and "build_tunnels_payload (list_tunnels s') = build_tunnels_payload (list_tunnels s)"
proof -
  have "map tn_id (tt_tunnels s') = map tn_id (tt_tunnels s)" "map tn_name (tt_tunnels s') = map tn_name (tt_tunnels s)"
    "map tunnel_ok (tt_tunnels s') = map tunnel_ok (tt_tunnels s)"
    using arg_cong[OF assms, of "map tn_id"] arg_cong[OF assms, of "map tn_name"] arg_cong[OF assms, of "map tunnel_ok"]
    by (simp_all add: comp_def)
  moreover have "(\<forall>t \<in> set rows. tunnel_ok t) \<longleftrightarrow> list_all id (map tunnel_ok rows)" for rows
    by (simp add: list_all_iff)
  ultimately show "tunnel_rows_ok s' = tunnel_rows_ok s"
    unfolding tunnel_rows_ok_def by simp
  have payload: "build_tunnels_payload rows = JObj
     [(''version'', JInt 1), (''client_static_key_path'', JStr ''/var/lib/mailcue-sidecar/client.key''),
      (''selection'', JStr ''ordered_failover''),
      (''tunnels'', JArr (map tunnel_entry (sort_key (\<lambda>t. - tn_weight t) (sort_key tn_name (map plain_row rows)))))]" for rows
    by (simp add: build_tunnels_payload_def sort_key_map_same comp_def)
  have "map plain_row (list_tunnels s') = map plain_row (list_tunnels s)"
    using assms by (simp add: list_tunnels_def flip: sort_key_map_same)
  then show "build_tunnels_payload (list_tunnels s') = build_tunnels_payload (list_tunnels s)"
    by (simp add: payload)
qed

lemma health_check_same:
  assumes "tunnel_rows_ok s"
  shows "map plain_row (tt_tunnels (snd (health_check connect now i s))) = map plain_row (tt_tunnels s)"
    and "tt_file (snd (health_check connect now i s)) = tt_file s"
proof -
  have "map plain_row (row_put tn_id (t\<lparr>tn_last_checked_at := a, tn_last_check_ok := b, tn_last_check_message := c\<rparr>)
      (tt_tunnels s)) = map plain_row (tt_tunnels s)" if "row_get tn_id i (tt_tunnels s) = Some t" for t a b c
    using assms row_get_SomeD[OF that]
    by (intro row_put_map_same[where a = t]) (auto simp: tunnel_rows_ok_def plain_row_def)
  then show "map plain_row (tt_tunnels (snd (health_check connect now i s))) = map plain_row (tt_tunnels s)"
    by (auto simp: health_check_def get_tunnel_def Let_def split: option.splits connect_outcome.splits)
  show "tt_file (snd (health_check connect now i s)) = tt_file s"
    by (auto simp: health_check_def get_tunnel_def Let_def split: option.splits connect_outcome.splits)
qed

lemma set_field_checked:
  assumes "if_value check v = Inr ()" and "P old" and "\<And>x y. check x = Inr y \<Longrightarrow> P x"
  shows "P (set_field old v)"
  using assms by (auto simp: if_value_def set_field_def split: option.splits)

lemma identity_frame [simp]:
  "tt_tunnels (snd (get_or_init_client_identity s)) = tt_tunnels s"
  "tt_file (snd (get_or_init_client_identity s)) = tt_file s"
  "tt_tunnels (snd (set_client_identity sha256_hex now key s)) = tt_tunnels s"
  "tt_file (snd (set_client_identity sha256_hex now key s)) = tt_file s"
  by (simp_all add: get_or_init_client_identity_def set_client_identity_def Let_def split: option.splits sum.splits)

lemma patched_tunnel_ok:
  assumes "tunnel_update_request b = Inr b'" and "tunnel_ok t"
  shows "tunnel_ok (patched_tunnel now b' t)" and "tn_id (patched_tunnel now b' t) = tn_id t"
proof -
  have checks: "b' = b \<and> if_value validate_name (tu_name b) = Inr () \<and> if_value validate_host (tu_host b) = Inr () \<and>
    if_value (in_range 1 65535) (tu_port b) = Inr () \<and> if_value validate_pubkey_b64 (tu_pubkey b) = Inr () \<and>
    if_value (in_range 1 1000) (tu_weight b) = Inr ()"
    using assms(1) unfolding tunnel_update_request_def bind_res_eq_Inr_iff by auto
  note given = checks[THEN conjunct1] checks[THEN conjunct2, THEN conjunct1]
    checks[THEN conjunct2, THEN conjunct2, THEN conjunct1]
    checks[THEN conjunct2, THEN conjunct2, THEN conjunct2, THEN conjunct1]
    checks[THEN conjunct2, THEN conjunct2, THEN conjunct2, THEN conjunct2, THEN conjunct1]
    checks[THEN conjunct2, THEN conjunct2, THEN conjunct2, THEN conjunct2, THEN conjunct2]
  have "validate_name (set_field (tn_name t) (tu_name b)) = Inr (set_field (tn_name t) (tu_name b))"
    by (rule set_field_checked[OF given(2), where P = "\<lambda>x. validate_name x = Inr x"])
      (use assms(2) in \<open>simp add: tunnel_ok_def\<close>, rule validators_same)
  moreover have "validate_host (set_field (tn_host t) (tu_host b)) = Inr (set_field (tn_host t) (tu_host b))"
    by (rule set_field_checked[OF given(3), where P = "\<lambda>x. validate_host x = Inr x"])
      (use assms(2) in \<open>simp add: tunnel_ok_def\<close>, rule validators_same)
  moreover have "in_range 1 65535 (set_field (tn_port t) (tu_port b)) = Inr ()"
    by (rule set_field_checked[OF given(4), where P = "\<lambda>x. in_range 1 65535 x = Inr ()"])
      (use assms(2) in \<open>simp_all add: tunnel_ok_def in_range_def split: if_splits\<close>)
  moreover have "validate_pubkey_b64 (set_field (tn_pubkey t) (tu_pubkey b)) = Inr (set_field (tn_pubkey t) (tu_pubkey b))"
    by (rule set_field_checked[OF given(5), where P = "\<lambda>x. validate_pubkey_b64 x = Inr x"])
      (use assms(2) in \<open>simp add: tunnel_ok_def\<close>, rule validators_same)
  moreover have "in_range 1 1000 (set_field (tn_weight t) (tu_weight b)) = Inr ()"
    by (rule set_field_checked[OF given(6), where P = "\<lambda>x. in_range 1 1000 x = Inr ()"])
      (use assms(2) in \<open>simp_all add: tunnel_ok_def in_range_def split: if_splits\<close>)
  ultimately show "tunnel_ok (patched_tunnel now b' t)"
    using assms(2) given(1) by (simp add: tunnel_ok_def patched_tunnel_def in_range_def split: if_splits)
qed (simp add: patched_tunnel_def)

lemma update_tunnel_cases:
  assumes "tunnel_rows_ok s" and "update_tunnel i now refused b s = (r, s')"
  obtains "s' = s"
  | t where "row_get tn_id i (tt_tunnels s) = Some t"
      "s' = snd (write_tunnels_json refused (s\<lparr>tt_tunnels := row_put tn_id (patched_tunnel now b t) (tt_tunnels s)\<rparr>))"
      "\<And>x. x \<in> set (tt_tunnels s) \<Longrightarrow> tn_id x \<noteq> tn_id t \<Longrightarrow> tn_name x \<noteq> tn_name (patched_tunnel now b t)"
proof -
  have names: "get_tunnel_by_name n s = Inr (row_get tn_name n (tt_tunnels s))" for n
    using assms(1) by (simp add: get_tunnel_by_name_def tunnel_rows_ok_def one_or_none_filter_unique)
  show thesis
  proof (cases "row_get tn_id i (tt_tunnels s)")
    case None
    then show thesis using assms(2) that(1) by (simp add: update_tunnel_def get_tunnel_def)
  next
    case (Some t)
    then have t: "t \<in> set (tt_tunnels s)" using row_get_SomeD by fast
    have same: "tn_name x \<noteq> tn_name t" if "x \<in> set (tt_tunnels s)" "tn_id x \<noteq> tn_id t" for x
      using assms(1) t that by (auto simp: tunnel_rows_ok_def distinct_map dest: inj_onD)
    show thesis
    proof (cases "\<exists>n. tu_name b = Some (Some n) \<and> n \<noteq> tn_name t")
      case True
      then obtain n where n: "tu_name b = Some (Some n)" "n \<noteq> tn_name t" by blast
      then have pn: "tn_name (patched_tunnel now b t) = n" by (simp add: patched_tunnel_def set_field_def)
      show thesis
      proof (cases "row_get tn_name n (tt_tunnels s)")
        case None
        then have "tn_name x \<noteq> n" if "x \<in> set (tt_tunnels s)" for x using that by (auto simp: row_get_None_iff)
        then show thesis using that Some assms(2) None n pn
          by (simp add: update_tunnel_def get_tunnel_def names Let_def split: if_splits)
      next
        case clash: (Some c)
        then have c: "c \<in> set (tt_tunnels s)" "tn_name c = n" using row_get_SomeD by fast+
        then have "tn_id c \<noteq> tn_id t"
          using t n assms(1) by (auto simp: tunnel_rows_ok_def distinct_map dest: inj_onD)
        then show thesis using that(1) Some clash assms(2) n
          by (simp add: update_tunnel_def get_tunnel_def names)
      qed
    next
      case False
      then have "tn_name (patched_tunnel now b t) = tn_name t"
        by (auto simp: patched_tunnel_def set_field_def split: option.splits)
      moreover have "(case tu_name b of
                   Some (Some n) \<Rightarrow>
                     if n = tn_name t then Inr ()
                     else bind_res (get_tunnel_by_name n s) (\<lambda>clash.
                       case clash of
                         Some c \<Rightarrow> if tn_id c \<noteq> tn_id t
                                   then Inl (ConflictError (''Tunnel '' @ quoted n @ '' already exists'')) else Inr ()
                       | None \<Rightarrow> Inr ())
                 | _ \<Rightarrow> Inr ()) = Inr ()"
        using False by (auto split: option.splits)
      ultimately show thesis using that Some same assms(2)
        by (simp add: update_tunnel_def get_tunnel_def Let_def split: if_splits)
    qed
  qed
qed

lemma tunnel_step_rows_ok:
  assumes "tunnel_step refused s s'" and ok: "tunnel_rows_ok s"
  shows "tunnel_rows_ok s'"
  using assms(1)
proof cases
  case (create b b' i now)
  obtain r where c: "create_tunnel i now refused b' s = (r, s')" using create(1) by (metis prod.collapse)
  show ?thesis
  proof (cases r)
    case (Inl e) then show ?thesis using create_tunnel_new(1)[OF ok] c ok by blast
  next
    case (Inr t)
    show ?thesis using create_tunnel_new(2)[OF ok c[unfolded Inr]] tunnel_create_request_ok[OF create(2)] create ok
      by (auto simp: tunnel_rows_ok_def tunnel_ok_def)
  qed
next
  case (update b b' i now)
  obtain r where "update_tunnel i now refused b' s = (r, s')" using update(1) by (metis prod.collapse)
  from update_tunnel_cases[OF ok this] show ?thesis
  proof cases
    case (2 t)
    have t: "t \<in> set (tt_tunnels s)" using 2(1) row_get_SomeD by fast
    then have p: "tunnel_ok (patched_tunnel now b' t)" "tn_id (patched_tunnel now b' t) = tn_id t"
      using patched_tunnel_ok[OF update(2)] ok by (auto simp: tunnel_rows_ok_def)
    have "distinct (map tn_name (row_put tn_id (patched_tunnel now b' t) (tt_tunnels s)))"
      using ok 2(3) p(2) by (intro distinct_row_put) (auto simp: tunnel_rows_ok_def)
    then show ?thesis using 2(2) ok p(1) set_row_put[of tn_id "patched_tunnel now b' t" "tt_tunnels s"]
      by (auto simp: tunnel_rows_ok_def)
  qed (use ok in simp)
next
  case (delete i)
  show ?thesis
  proof (cases "get_tunnel i s")
    case (Inl e) then show ?thesis using delete ok by (simp add: delete_tunnel_def)
  next
    case (Inr t)
    then have "tt_tunnels s' = row_del tn_id (tn_id t) (tt_tunnels s)" using delete by (simp add: delete_tunnel_def)
    then show ?thesis using ok by (simp add: tunnel_rows_ok_def distinct_row_del set_row_del)
  qed
next
  case (check connect now i)
  then show ?thesis using plain_rows(1)[OF health_check_same(1)[OF ok]] ok by blast
qed (use ok in \<open>simp_all add: tunnel_rows_ok_def\<close>)

lemma tunnels_reach_ok: "tunnels_reach s \<Longrightarrow> tunnel_rows_ok s"
  by (induction rule: tunnels_reach.induct) (simp add: tunnel_rows_ok_def, blast intro: tunnel_step_rows_ok)

lemma tunnel_step_file:
  assumes "tunnel_step None s s'" and ok: "tunnel_rows_ok s"
  shows "file_current s' \<or> tt_file s' = tt_file s \<and>
    build_tunnels_payload (list_tunnels s') = build_tunnels_payload (list_tunnels s)"
  using assms(1)
proof cases
  case (create b b' i now)
  then show ?thesis by (auto simp: create_tunnel_def Let_def split: sum.splits option.splits)
next
  case (update b b' i now)
  obtain r where "update_tunnel i now None b' s = (r, s')" using update(1) by (metis prod.collapse)
  from update_tunnel_cases[OF ok this] show ?thesis by cases simp_all
next
  case (delete i)
  then show ?thesis by (cases "get_tunnel i s") (simp_all add: delete_tunnel_def)
next
  case (check connect now i)
  then show ?thesis using plain_rows(2)[OF health_check_same(1)[OF ok]] health_check_same(2)[OF ok] by blast
qed (simp_all add: list_tunnels_def)

section \<open>What the sidecar makes of the file\<close>

text \<open>The base64 engine of the sidecar accepts the canonical encodings and nothing else.\<close>

definition canonical_decoder :: "(string \<Rightarrow> nat list option) \<Rightarrow> bool" where
  "canonical_decoder decode \<longleftrightarrow> (\<forall>s bs. decode s = Some bs \<longleftrightarrow> s = b64encode bs \<and> (\<forall>b \<in> set bs. b < 256))"

definition canonical_key :: "string \<Rightarrow> bool" where
  "canonical_key k \<longleftrightarrow> (case b64decode k of None \<Rightarrow> False | Some bs \<Rightarrow> b64encode bs = k)"

definition relay_of :: "tunnel \<Rightarrow> relay" where
  "relay_of t = \<lparr>rl_id = tn_id t, rl_name = tn_name t, rl_host = tn_host t, rl_port = tn_port t,
     rl_pubkey = the (b64decode (tn_pubkey t)), rl_weight = tn_weight t, rl_enabled = tn_enabled t\<rparr>"

definition raw_of :: "tunnel \<Rightarrow> raw_tunnel" where
  "raw_of t = \<lparr>rw_id = tn_id t, rw_name = Some (tn_name t), rw_host = tn_host t, rw_port = tn_port t,
     rw_pubkey = tn_pubkey t, rw_weight = tn_weight t, rw_enabled = tn_enabled t\<rparr>"

lemma strip_spaceless:
  assumes "\<not> list_ex is_space s"
  shows "strip s = s"
proof -
  have "dropWhile is_space t = t" if "\<not> list_ex is_space t" for t
    using that by (cases t) simp_all
  from this[OF assms] this[of "rev s"] assms show ?thesis
    by (simp add: strip_def lstrip_by_def rstrip_by_def list_ex_iff)
qed

lemma raw_tunnel_of_entry:
  assumes "tunnel_ok t"
  shows "raw_tunnel_of (tunnel_entry t) = Some (raw_of t)"
  using assms
  by (simp add: raw_tunnel_of_def tunnel_entry_def raw_of_def str_field_def name_field_def uint_field_def
      bool_field_def dict_get_def tunnel_ok_def)

lemma all_some_map:
  "(\<And>x. x \<in> set xs \<Longrightarrow> f x = Some (g x)) \<Longrightarrow> all_some (map f xs) = Some (map g xs)"
  by (induction xs) auto

lemma b64_no_space:
  "b64_groups started s = Some bs \<Longrightarrow> c \<in> set s \<Longrightarrow> \<not> is_space c"
proof (induction s arbitrary: started bs rule: length_induct)
  case (1 s)
  have val: "\<not> is_space x" if "b64_value x = Some n" for x n
    using that by (auto simp: b64_value_def is_space_def is_digit_def split: if_splits)
  have pad: "\<not> is_space (CHR ''='')" by code_simp
  show ?case
  proof (cases "list_all (\<lambda>c. c = CHR ''='') s")
    case True
    then show ?thesis using "1.prems"(2) pad by (auto simp: list_all_iff)
  next
    case False
    show ?thesis
    proof (cases "\<exists>a d e f rest. s = a # d # e # f # rest")
      case True
      then obtain a d e f rest where s: "s = a # d # e # f # rest" by blast
      have IH: "\<not> is_space c" if "b64_groups True rest = Some cs" "c \<in> set rest" for cs
      proof -
        have "length rest < length s" using s by simp
        with "1.IH" that show ?thesis by blast
      qed
      show ?thesis using "1.prems" s False
        by (auto split: if_splits option.splits dest: val IH simp: pad)
    next
      case none: False
      then show ?thesis using "1.prems" False by (cases s) (auto split: if_splits list.splits)
    qed
  qed
qed

lemma validate_relay_raw:
  assumes ok: "tunnel_ok t" and decode: "canonical_decoder decode"
  shows "validate_relay decode (raw_of t) = (if canonical_key (tn_pubkey t) then Some (relay_of t) else None)"
proof -
  from ok obtain bs where bs: "b64decode (tn_pubkey t) = Some bs" "length bs = 32"
    by (auto simp: tunnel_ok_def validate_pubkey_b64_def split: if_splits option.splits)
  then have bytes: "\<forall>b \<in> set bs. b < 256" and key: "strip (tn_pubkey t) = tn_pubkey t"
    by (auto simp: b64decode_def list_ex_iff intro!: strip_spaceless dest: b64_groups_bytes b64_no_space)
  have host: "strip (tn_host t) = tn_host t" "tn_host t \<noteq> []"
    using ok by (auto simp: tunnel_ok_def validate_host_def intro!: strip_spaceless split: if_splits)
  have "\<not> is_space c" if "c \<in> set (tn_id t)" for c
    using ok that by (auto simp: tunnel_ok_def hex_id_def list_all_iff is_space_def is_digit_def)
  then have ident: "strip (tn_id t) = tn_id t" "tn_id t \<noteq> []"
    using ok by (auto simp: tunnel_ok_def hex_id_def list_ex_iff intro!: strip_spaceless)
  have dec: "decode (tn_pubkey t) = (if canonical_key (tn_pubkey t) then Some bs else None)"
  proof (cases "canonical_key (tn_pubkey t)")
    case True
    then show ?thesis using bs bytes decode by (simp add: canonical_key_def canonical_decoder_def)
  next
    case False
    have "decode (tn_pubkey t) \<noteq> Some cs" for cs
    proof
      assume "decode (tn_pubkey t) = Some cs"
      then have "tn_pubkey t = b64encode cs" "\<forall>b \<in> set cs. b < 256" using decode by (auto simp: canonical_decoder_def)
      then show False using False b64_groups_encode[of cs False] by (simp add: canonical_key_def b64decode_def)
    qed
    then show ?thesis using False by (cases "decode (tn_pubkey t)") auto
  qed
  show ?thesis
    using ok bs host ident key dec
    by (simp add: validate_relay_def raw_of_def relay_of_def tunnel_ok_def)
qed

lemma load_built:
  assumes "\<forall>t \<in> set ts. tunnel_ok t" and "canonical_decoder decode"
  shows "load_tunnels_file decode (Some (build_tunnels_payload ts)) =
    Some (OrderedFailover, map relay_of (filter (\<lambda>t. canonical_key (tn_pubkey t))
      (sort_key (\<lambda>t. - tn_weight t) (sort_key tn_name ts))))"
proof -
  let ?xs = "sort_key (\<lambda>t. - tn_weight t) (sort_key tn_name ts)"
  have ok: "\<forall>t \<in> set ?xs. tunnel_ok t" using assms(1) by simp
  have raws: "all_some (map raw_tunnel_of (map tunnel_entry ?xs)) = Some (map raw_of ?xs)"
    unfolding map_map comp_def by (rule all_some_map) (use ok raw_tunnel_of_entry in blast)
  have relays: "List.map_filter (validate_relay decode) (map raw_of xs) =
    map relay_of (filter (\<lambda>t. canonical_key (tn_pubkey t)) xs)" if "\<forall>t \<in> set xs. tunnel_ok t" for xs
    using that by (induction xs) (simp_all add: validate_relay_raw[OF _ assms(2)])
  show ?thesis
    using raws relays[OF ok]
    by (simp add: load_tunnels_file_def build_tunnels_payload_def uint_field_def selection_field_def
        raw_tunnels_field_def dict_get_def)
qed

section \<open>A concrete run\<close>

definition demo_decode :: "string \<Rightarrow> nat list option" where
  "demo_decode s = (case b64decode s of None \<Rightarrow> None | Some bs \<Rightarrow> if b64encode bs = s then Some bs else None)"

lemma demo_decode_canonical: "canonical_decoder demo_decode"
  unfolding canonical_decoder_def
proof (intro allI iffI)
  fix s bs
  assume "demo_decode s = Some bs"
  then show "s = b64encode bs \<and> (\<forall>b \<in> set bs. b < 256)"
    by (auto simp: demo_decode_def b64decode_def split: option.splits if_splits dest: b64_groups_bytes)
next
  fix s bs
  assume "s = b64encode bs \<and> (\<forall>b \<in> set bs. b < 256)"
  then show "demo_decode s = Some bs" by (simp add: demo_decode_def b64decode_def b64_groups_encode)
qed

definition good_key :: string where
  "good_key = replicate 43 CHR ''A'' @ ''=''"

text \<open>Decodes to the same 32 bytes, with unused bits set.\<close>

definition loose_key :: string where
  "loose_key = replicate 42 CHR ''A'' @ ''B=''"

definition demo_create :: "string \<Rightarrow> string \<Rightarrow> int \<Rightarrow> tunnel_create" where
  "demo_create n k w = \<lparr>tc_name = n, tc_host = ''10.0.0.1'', tc_port = 7843, tc_pubkey = k, tc_enabled = True,
     tc_weight = w, tc_notes = None\<rparr>"

definition no_tunnels :: tunnel_state where
  "no_tunnels = \<lparr>tt_tunnels = [], tt_identity = None, tt_file = None\<rparr>"

definition one_tunnel :: tunnel_state where
  "one_tunnel = snd (create_tunnel (replicate 32 CHR ''a'') 0 None (demo_create ''paris'' good_key 1) no_tunnels)"

definition two_tunnels :: tunnel_state where
  "two_tunnels = snd (create_tunnel (replicate 32 CHR ''b'') 0 None (demo_create ''oslo'' loose_key 10) one_tunnel)"

definition three_tunnels :: tunnel_state where
  "three_tunnels = snd (create_tunnel (replicate 32 CHR ''c'') 0 None (demo_create ''rome'' good_key 5) two_tunnels)"

lemma create_step:
  "tunnel_create_request b = Inr b \<Longrightarrow> hex_id i \<Longrightarrow> i \<notin> tn_id ` set (tt_tunnels s) \<Longrightarrow>
    tunnel_step refused s (snd (create_tunnel i now refused b s))"
  by (rule tunnel_step.create)

lemma demo_steps:
  "tunnel_step None no_tunnels one_tunnel" "tunnel_step None one_tunnel two_tunnels"
  "tunnel_step None two_tunnels three_tunnels"
proof -
  show "tunnel_step None no_tunnels one_tunnel"
    unfolding one_tunnel_def by (rule create_step) code_simp+
  show "tunnel_step None one_tunnel two_tunnels"
    unfolding two_tunnels_def by (rule create_step) code_simp+
  show "tunnel_step None two_tunnels three_tunnels"
    unfolding three_tunnels_def by (rule create_step) code_simp+
qed

lemma demo_reach: "tunnels_reach no_tunnels" "tunnels_reach one_tunnel" "tunnels_reach two_tunnels" "tunnels_reach three_tunnels"
proof -
  show "tunnels_reach no_tunnels" by (rule tunnels_reach.start) (simp add: no_tunnels_def)
  then show "tunnels_reach one_tunnel" by (rule tunnels_reach.step) (rule demo_steps)
  then show "tunnels_reach two_tunnels" by (rule tunnels_reach.step) (rule demo_steps)
  then show "tunnels_reach three_tunnels" by (rule tunnels_reach.step) (rule demo_steps)
qed

text \<open>C18: The file follows the database. In whatever state the refused writes of the past have left
  the file, the first accepted write that changes the entries brings it up to date, and it stays
  the rendering of the rows while the disk accepts.\<close>

theorem tunnels_file_current:
  assumes "tunnels_reach s1" and "tunnel_step None s1 s2"
    and "build_tunnels_payload (list_tunnels s2) \<noteq> build_tunnels_payload (list_tunnels s1)"
    and "(tunnel_step None)\<^sup>*\<^sup>* s2 s3"
  shows "tt_file s3 = Some (build_tunnels_payload (list_tunnels s3))"
proof -
  have "file_current s2" using tunnel_step_file[OF assms(2) tunnels_reach_ok[OF assms(1)]] assms(3) by blast
  have "tunnels_reach s3 \<and> file_current s3" using assms(4)
  proof (induction rule: rtranclp_induct)
    case base
    then show ?case using assms(1,2) \<open>file_current s2\<close> tunnels_reach.step by blast
  next
    case (step s t)
    from tunnel_step_file[OF step(2)] step(3) tunnels_reach_ok have "file_current t"
      by (metis file_current_def)
    with step show ?case using tunnels_reach.step by blast
  qed
  then show ?thesis by (simp add: file_current_def)
qed

theorem tunnels_file_current_witness:
  "tt_file (snd (health_check (\<lambda>_ _. TimedOut) 5 (replicate 32 CHR ''a'') one_tunnel)) =
   Some (build_tunnels_payload (list_tunnels (snd (health_check (\<lambda>_ _. TimedOut) 5 (replicate 32 CHR ''a'') one_tunnel))))"
proof (rule tunnels_file_current[OF demo_reach(1) demo_steps(1)])
  show "build_tunnels_payload (list_tunnels one_tunnel) \<noteq> build_tunnels_payload (list_tunnels no_tunnels)"
    by code_simp
  show "(tunnel_step None)\<^sup>*\<^sup>* one_tunnel (snd (health_check (\<lambda>_ _. TimedOut) 5 (replicate 32 CHR ''a'') one_tunnel))"
    by (rule r_into_rtranclp) (rule tunnel_step.check)
qed

text \<open>Egress order. From a current file the sidecar loads every tunnel whose key is in canonical
  base64, and tries the enabled and healthy ones by falling weight, equal weights by name.\<close>

theorem egress_order:
  assumes "tunnels_reach s" and "tt_file s = Some (build_tunnels_payload (list_tunnels s))"
    and "canonical_decoder decode"
  shows "\<exists>view. load_tunnels_file decode (tt_file s) = Some (OrderedFailover, view) \<and>
    pick_all_ordered healthy view = map relay_of
      (filter (\<lambda>t. tn_enabled t \<and> tn_id t \<in> healthy \<and> canonical_key (tn_pubkey t))
        (sort_key (\<lambda>t. - tn_weight t) (sort_key tn_name (tt_tunnels s))))"
proof -
  let ?xs = "sort_key (\<lambda>t. - tn_weight t) (sort_key tn_name (tt_tunnels s))"
  have "\<forall>t \<in> set (list_tunnels s). tunnel_ok t"
    using tunnels_reach_ok[OF assms(1)] by (simp add: list_tunnels_def tunnel_rows_ok_def)
  from load_built[OF this assms(3)] have
    view: "load_tunnels_file decode (tt_file s) =
      Some (OrderedFailover, map relay_of (filter (\<lambda>t. canonical_key (tn_pubkey t)) ?xs))"
    by (simp add: assms(2) list_tunnels_def sort_key_id_if_sorted)
  have "pick_all_ordered healthy (map relay_of ys) =
    map relay_of (filter (\<lambda>t. tn_enabled t \<and> tn_id t \<in> healthy) ys)"
    if "sorted (map (\<lambda>t. - tn_weight t) ys)" for ys
    using sorted_filter[OF that]
    by (simp add: pick_all_ordered_def ordered_def filter_map comp_def relay_of_def sort_key_id_if_sorted)
  from this[of "filter (\<lambda>t. canonical_key (tn_pubkey t)) ?xs"] view show ?thesis
    by (auto simp: sorted_filter conj_ac)
qed

theorem egress_order_witness:
  "\<exists>view. load_tunnels_file demo_decode (tt_file three_tunnels) = Some (OrderedFailover, view) \<and>
    map rl_name (pick_all_ordered {replicate 32 CHR ''a'', replicate 32 CHR ''b'', replicate 32 CHR ''c''} view) =
      [''rome'', ''paris'']"
proof -
  have written: "tt_file three_tunnels = Some (build_tunnels_payload (list_tunnels three_tunnels))" by code_simp
  have names: "map rl_name (map relay_of (filter (\<lambda>t. tn_enabled t \<and>
      tn_id t \<in> {replicate 32 CHR ''a'', replicate 32 CHR ''b'', replicate 32 CHR ''c''} \<and> canonical_key (tn_pubkey t))
      (sort_key (\<lambda>t. - tn_weight t) (sort_key tn_name (tt_tunnels three_tunnels))))) = [''rome'', ''paris'']"
    by code_simp
  from egress_order[OF demo_reach(4) written demo_decode_canonical,
      of "{replicate 32 CHR ''a'', replicate 32 CHR ''b'', replicate 32 CHR ''c''}"] obtain view where
    view: "load_tunnels_file demo_decode (tt_file three_tunnels) = Some (OrderedFailover, view)"
    and picked: "pick_all_ordered {replicate 32 CHR ''a'', replicate 32 CHR ''b'', replicate 32 CHR ''c''} view = map relay_of
      (filter (\<lambda>t. tn_enabled t \<and> tn_id t \<in> {replicate 32 CHR ''a'', replicate 32 CHR ''b'', replicate 32 CHR ''c''} \<and>
          canonical_key (tn_pubkey t))
        (sort_key (\<lambda>t. - tn_weight t) (sort_key tn_name (tt_tunnels three_tunnels))))"
    by (elim exE conjE) (rule that)
  show ?thesis by (rule exI [where x = view], rule conjI [OF view], unfold picked, rule names)
qed

text \<open>The API accepts a key the sidecar then skips.\<close>

lemma loose_key_accepted_and_skipped:
  "validate_pubkey_b64 loose_key = Inr loose_key \<and> \<not> canonical_key loose_key"
  by code_simp

end
