(* ===== verification/PyFloat.thy ===== *)
theory PyFloat
  imports PyNumbers
begin

text \<open>
  Python's floats as the rational numbers they stand for: every operation is the exact one
  followed by \<open>dbl\<close>, rounding to the nearest number with a 53-bit significand (ties to even).
  Overflow and subnormal numbers are outside the model: the risk model computes with numbers far
  from both.
\<close>

definition pow2 :: "int \<Rightarrow> rat" where
  "pow2 e = (if 0 \<le> e then 2 ^ nat e else 1 / 2 ^ nat (- e))"

text \<open>The binary exponent: \<open>pow2 (expo x) \<le> x < pow2 (expo x + 1)\<close> for positive \<open>x\<close>.\<close>

definition expo :: "rat \<Rightarrow> int" where
  "expo x =
     (case quotient_of x of (p, q) \<Rightarrow>
        (let e = int (bit_length (nat p)) - int (bit_length (nat q))
         in if pow2 e \<le> x then e else e - 1))"

definition dbl_pos :: "rat \<Rightarrow> rat" where
  "dbl_pos x = (let u = pow2 (expo x - 52) in rat_of_int (half_even (x / u)) * u)"

definition dbl :: "rat \<Rightarrow> rat" where
  "dbl x = (if x = 0 then 0 else if 0 < x then dbl_pos x else - dbl_pos (- x))"

definition fadd :: "rat \<Rightarrow> rat \<Rightarrow> rat" where "fadd x y = dbl (x + y)"
definition fsub :: "rat \<Rightarrow> rat \<Rightarrow> rat" where "fsub x y = dbl (x - y)"
definition fmul :: "rat \<Rightarrow> rat \<Rightarrow> rat" where "fmul x y = dbl (x * y)"
definition fdiv :: "rat \<Rightarrow> rat \<Rightarrow> rat" where "fdiv x y = dbl (x / y)"

text \<open>\<open>sum\<close> of a list of floats adds from the left, starting with 0, as Python 3.11 does, the version of the
  continuous integration. From Python 3.12 on \<open>sum\<close> compensates the rounding of the single additions, so its last bits may differ;
  where every partial sum is exact, as for the points of a deliverability report, both agree.\<close>

definition fsum :: "rat list \<Rightarrow> rat" where
  "fsum xs = foldl fadd 0 xs"

text \<open>\<open>round(x, n)\<close>: the exact value rounded to \<open>n\<close> decimals, ties to even, then to a float.\<close>

definition fround :: "nat \<Rightarrow> rat \<Rightarrow> rat" where
  "fround n x = dbl (rat_of_int (half_even (x * 10 ^ n)) / 10 ^ n)"

section \<open>Rounding is monotone\<close>

lemma half_even_bounds: "\<lfloor>q\<rfloor> \<le> half_even q" "half_even q \<le> \<lfloor>q\<rfloor> + 1"
  by (simp_all add: half_even_def Let_def)

lemma half_even_mono:
  assumes "x \<le> y" shows "half_even x \<le> half_even y"
proof (cases "\<lfloor>x\<rfloor> = \<lfloor>y\<rfloor>")
  case True
  then show ?thesis using assms by (auto simp: half_even_def Let_def)
next
  case False
  then have "\<lfloor>x\<rfloor> + 1 \<le> \<lfloor>y\<rfloor>" using floor_mono[OF assms] by linarith
  then show ?thesis using half_even_bounds(2)[of x] half_even_bounds(1)[of y] by linarith
qed

lemma half_even_of_int [simp]: "half_even (rat_of_int n) = n"
  by (simp add: half_even_def Let_def)

lemma pow2_add_1: "pow2 (e + 1) = 2 * pow2 e"
proof (cases "0 \<le> e")
  case True
  then have "nat (e + 1) = Suc (nat e)" by simp
  then show ?thesis using True by (simp add: pow2_def)
next
  case False
  then have "nat (- e) = Suc (nat (- (e + 1)))" by simp
  then show ?thesis using False by (auto simp: pow2_def)
qed

lemma pow2_pos [simp]: "0 < pow2 e"
  by (simp add: pow2_def)

lemma pow2_add_nat: "pow2 (e + int n) = 2 ^ n * pow2 e"
proof (induction n)
  case (Suc n)
  have "e + int (Suc n) = (e + int n) + 1" by simp
  then show ?case by (simp only: pow2_add_1 Suc power_Suc mult.assoc)
qed simp

lemma pow2_less_iff: "pow2 a < pow2 b \<longleftrightarrow> a < b"
proof -
  have up: "pow2 e < pow2 (e + int (Suc n))" for e n
  proof -
    have "(1 :: rat) < 2 ^ Suc n" by (rule one_less_power) simp_all
    then have "1 * pow2 e < 2 ^ Suc n * pow2 e" by (rule mult_strict_right_mono) simp
    then show ?thesis by (simp only: pow2_add_nat mult_1)
  qed
  show ?thesis
  proof
    assume "a < b"
    then obtain n where "b = a + int (Suc n)" by (metis zless_iff_Suc_zadd)
    then show "pow2 a < pow2 b" using up by blast
  next
    assume l: "pow2 a < pow2 b"
    show "a < b"
    proof (rule ccontr)
      assume "\<not> a < b"
      then consider "a = b" | n where "a = b + int (Suc n)" by (metis linorder_neqE zless_iff_Suc_zadd)
      then show False
      proof cases
        case 1 then show False using l by simp
      next
        case 2 then show False using l up[of b n] by simp
      qed
    qed
  qed
qed

lemma bit_length_bounds:
  "0 < n \<Longrightarrow> 2 ^ (bit_length n - 1) \<le> n \<and> n < 2 ^ bit_length n \<and> 0 < bit_length n"
proof (induction n rule: less_induct)
  case (less n)
  show ?case
  proof (cases "n div 2 = 0")
    case True
    then have "n = 1" using less.prems by linarith
    then show ?thesis by (simp add: bit_length.simps)
  next
    case False
    then have "2 ^ (bit_length (n div 2) - 1) \<le> n div 2" "n div 2 < 2 ^ bit_length (n div 2)"
      "0 < bit_length (n div 2)" using less.IH[of "n div 2"] less.prems by auto
    moreover have "bit_length n = Suc (bit_length (n div 2))" using less.prems by (simp add: bit_length.simps[of n])
    ultimately show ?thesis by (cases "bit_length (n div 2)") auto
  qed
qed

lemma pow2_diff: "pow2 (int a - int b) = 2 ^ a / 2 ^ b"
proof (cases "b \<le> a")
  case True
  then have "nat (int a - int b) = a - b" by simp
  then show ?thesis using True by (simp add: pow2_def power_diff)
next
  case False
  then have "nat (int b - int a) = b - a" by simp
  then show ?thesis using False by (simp add: pow2_def power_diff)
qed

lemma expo_bounds:
  assumes "0 < x" shows "pow2 (expo x) \<le> x" "x < pow2 (expo x + 1)"
proof -
  obtain p q where pq: "quotient_of x = (p, q)" by (cases "quotient_of x")
  then have q: "0 < q" and x: "x = rat_of_int p / rat_of_int q"
    by (auto simp: quotient_of_denom_pos quotient_of_div)
  then have p: "0 < p" using assms by (simp add: zero_less_divide_iff)
  let ?a = "bit_length (nat p)" and ?b = "bit_length (nat q)"
  have a: "2 ^ (?a - 1) \<le> nat p" "nat p < 2 ^ ?a" "0 < ?a" using bit_length_bounds[of "nat p"] p by auto
  have b: "2 ^ (?b - 1) \<le> nat q" "nat q < 2 ^ ?b" "0 < ?b" using bit_length_bounds[of "nat q"] q by auto
  have ra: "2 ^ (?a - 1) \<le> rat_of_int p" "rat_of_int p < 2 ^ ?a"
    using a p by (metis of_nat_le_iff of_nat_less_iff of_nat_nat of_nat_numeral of_nat_power less_imp_le of_int_of_nat_eq)+
  have rb: "2 ^ (?b - 1) \<le> rat_of_int q" "rat_of_int q < 2 ^ ?b"
    using b q by (metis of_nat_le_iff of_nat_less_iff of_nat_nat of_nat_numeral of_nat_power less_imp_le of_int_of_nat_eq)+
  have up: "x < pow2 (int ?a - int ?b + 1)"
  proof -
    have "x < 2 ^ ?a / rat_of_int q" unfolding x using ra(2) q by (simp add: divide_strict_right_mono)
    also have "\<dots> \<le> 2 ^ ?a / 2 ^ (?b - 1)" using rb(1) by (simp add: frac_le)
    also have "\<dots> = pow2 (int ?a - int (?b - 1))" by (rule pow2_diff[symmetric])
    also have "int ?a - int (?b - 1) = int ?a - int ?b + 1" using b(3) by simp
    finally show ?thesis .
  qed
  have low: "pow2 (int ?a - int ?b - 1) \<le> x"
  proof -
    have "int ?a - int ?b - 1 = int (?a - 1) - int ?b" using a(3) by simp
    then have "pow2 (int ?a - int ?b - 1) = 2 ^ (?a - 1) / 2 ^ ?b" by (simp only: pow2_diff)
    also have "\<dots> \<le> 2 ^ (?a - 1) / rat_of_int q" using rb(2) q by (intro divide_left_mono) simp_all
    also have "\<dots> \<le> x" unfolding x using ra(1) q by (simp add: divide_right_mono)
    finally show ?thesis .
  qed
  show "pow2 (expo x) \<le> x" using low pq by (simp add: expo_def Let_def)
  show "x < pow2 (expo x + 1)" using up pq by (auto simp: expo_def Let_def)
qed

lemma dbl_pos_bounds:
  assumes "0 < x" shows "pow2 (expo x) \<le> dbl_pos x" "dbl_pos x \<le> pow2 (expo x + 1)"
proof -
  let ?u = "pow2 (expo x - 52)"
  have e: "pow2 (expo x) = 2 ^ 52 * ?u" "pow2 (expo x + 1) = 2 ^ 53 * ?u"
    using pow2_add_nat[of "expo x - 52" 52] pow2_add_nat[of "expo x - 52" 53] by (simp_all add: add.commute)
  have "rat_of_int (2 ^ 52) \<le> x / ?u" "x / ?u \<le> rat_of_int (2 ^ 53)"
    using expo_bounds[OF assms] e by (simp_all add: pos_le_divide_eq pos_divide_le_eq)
  then have "2 ^ 52 \<le> half_even (x / ?u)" "half_even (x / ?u) \<le> 2 ^ 53"
    using half_even_mono half_even_of_int by metis+
  then have "rat_of_int (2 ^ 52) \<le> rat_of_int (half_even (x / ?u))"
    "rat_of_int (half_even (x / ?u)) \<le> rat_of_int (2 ^ 53)"
    by (simp_all only: of_int_le_iff)
  then have "rat_of_int (2 ^ 52) * ?u \<le> dbl_pos x" "dbl_pos x \<le> rat_of_int (2 ^ 53) * ?u"
    unfolding dbl_pos_def Let_def by (auto intro: mult_right_mono)
  then show "pow2 (expo x) \<le> dbl_pos x" "dbl_pos x \<le> pow2 (expo x + 1)"
    by (simp_all add: e)
qed

lemma dbl_pos_mono:
  assumes "0 < x" "x \<le> y" shows "dbl_pos x \<le> dbl_pos y"
proof (cases "expo x = expo y")
  case True
  have "half_even (x / pow2 (expo y - 52)) \<le> half_even (y / pow2 (expo y - 52))"
    by (intro half_even_mono divide_right_mono) (use assms in \<open>simp_all add: less_imp_le\<close>)
  then show ?thesis using True by (simp add: dbl_pos_def Let_def mult_right_mono)
next
  case False
  have "pow2 (expo x) < pow2 (expo y + 1)"
    using expo_bounds(1)[of x] expo_bounds(2)[of y] assms by linarith
  then have "expo x + 1 \<le> expo y" using False by (simp add: pow2_less_iff)
  then have "pow2 (expo x + 1) \<le> pow2 (expo y)" using pow2_less_iff by (metis linorder_not_less)
  then show ?thesis using dbl_pos_bounds(2)[of x] dbl_pos_bounds(1)[of y] assms by linarith
qed

lemma dbl_pos_pos: "0 < x \<Longrightarrow> 0 < dbl_pos x"
  using dbl_pos_bounds(1)[of x] pow2_pos[of "expo x"] by linarith

theorem dbl_mono: "x \<le> y \<Longrightarrow> dbl x \<le> dbl y"
proof -
  assume le: "x \<le> y"
  consider "0 < x" | "x \<le> 0" "0 \<le> y" | "y < 0" by linarith
  then show ?thesis
  proof cases
    case 1 then show ?thesis using le dbl_pos_mono by (simp add: dbl_def)
  next
    case 2 then show ?thesis using dbl_pos_pos[of y] dbl_pos_pos[of "- x"] by (auto simp: dbl_def)
  next
    case 3 then show ?thesis using le dbl_pos_mono[of "- y" "- x"] by (simp add: dbl_def)
  qed
qed

lemma dbl_0 [simp]: "dbl 0 = 0"
  by (simp add: dbl_def)

lemma dbl_nonneg: "0 \<le> x \<Longrightarrow> 0 \<le> dbl x"
  using dbl_mono[of 0 x] by simp

text \<open>Evaluation of one rounding, with its exponent and significand given.\<close>

lemma half_even_eqI: "\<bar>x - rat_of_int n\<bar> < 1 / 2 \<Longrightarrow> half_even x = n"
proof -
  assume near: "\<bar>x - rat_of_int n\<bar> < 1 / 2"
  then have "\<lfloor>x\<rfloor> = n \<or> \<lfloor>x\<rfloor> = n - 1" by linarith
  then show ?thesis using near by (auto simp: half_even_def Let_def)
qed

lemma half_even_tie: "half_even (rat_of_int n + 1 / 2) = (if even n then n else n + 1)"
proof -
  have "\<lfloor>rat_of_int n + 1 / 2\<rfloor> = n" by linarith
  then show ?thesis by (simp add: half_even_def Let_def)
qed

lemma dbl_eqI:
  assumes "pow2 e \<le> x" "x < pow2 (e + 1)" "half_even (x / pow2 (e - 52)) = n"
  shows "dbl x = rat_of_int n * pow2 (e - 52)"
proof -
  have pos: "0 < x" using assms(1) pow2_pos[of e] by linarith
  have "pow2 e < pow2 (expo x + 1)" "pow2 (expo x) < pow2 (e + 1)"
    using expo_bounds[OF pos] assms(1,2) by linarith+
  then have "expo x = e" unfolding pow2_less_iff by linarith
  then show ?thesis using pos assms(3) by (simp add: dbl_def dbl_pos_def Let_def)
qed

lemmas dbl_nearI = dbl_eqI[OF _ _ half_even_eqI]

end
