(* ===== verification/MxProviders.thy ===== *)
theory MxProviders
  imports PyFloat
begin

text \<open>
  \<^verbatim>\<open>emails/mx_providers.py\<close>: which mail provider runs a domain, from its MX hosts. The table of
  providers and the suffix rules are those of the source, in its order.
\<close>

section \<open>Providers\<close>

datatype provider_category =
    HostedMailbox
  | SecurityGateway
  | Consumer
  | SelfHosted
  | Forwarder
  | Parked
  | Unroutable
  | UnknownCategory

record mx_provider =
  mx_id :: string
  mx_name :: string
  mx_category :: provider_category
  mx_prior :: rat
  mx_codes :: "string list"
  mx_verifies :: "bool option"
  mx_fronts_backend :: bool
  mx_notes :: string

definition mx :: "string \<Rightarrow> string \<Rightarrow> provider_category \<Rightarrow> rat \<Rightarrow> string list \<Rightarrow> bool option \<Rightarrow> bool \<Rightarrow> string \<Rightarrow> mx_provider" where
  "mx i n c p ks v b t = \<lparr>mx_id = i, mx_name = n, mx_category = c, mx_prior = dbl p, mx_codes = ks,
     mx_verifies = v, mx_fronts_backend = b, mx_notes = t\<rparr>"

definition UNKNOWN_PROVIDER :: mx_provider where
  "UNKNOWN_PROVIDER =
     mx ''unknown'' ''Unknown'' UnknownCategory (14 / 100) [] None False
       ''MX does not match any known provider.''"

definition NO_MX_PROVIDER :: mx_provider where
  "NO_MX_PROVIDER =
     mx ''no_mx'' ''No mail route'' Unroutable (90 / 100) [] None False
       ''Domain published no usable MX host.''"

definition gateway_providers :: "mx_provider list" where
  "gateway_providers =
     [mx ''microsoft365'' ''Microsoft 365'' HostedMailbox (16 / 100) [''5.1.10'', ''5.4.1''] None False
       ''Tenants with Directory Based Edge Blocking reject unknown recipients at the edge with 5.4.1. An accept-all therefore means DBEB is off and the mailbox store has not been consulted yet.'',
      mx ''google_workspace'' ''Google Workspace'' HostedMailbox (14 / 100) [] (Some True) False
       ''Google answers RCPT honestly for provisioned tenants, so an accept-all usually reflects a deliberately configured catch-all route that delivers.'',
      mx ''outlook_consumer'' ''Outlook.com'' Consumer (25 / 100) [''5.4.1''] (Some True) False
       ''Consumer mailboxes have no catch-all concept; accept-all implies throttling.'',
      mx ''proofpoint'' ''Proofpoint'' SecurityGateway (16 / 100) [] None True
       ''Accepts every recipient unless LDAP recipient verification is enabled.'',
      mx ''mimecast'' ''Mimecast'' SecurityGateway (16 / 100) [] None True
       ''Directory sync is optional; without it the backend generates the bounce.'',
      mx ''barracuda'' ''Barracuda'' SecurityGateway (16 / 100) [] None True
       '''',
      mx ''cisco_ironport'' ''Cisco Secure Email'' SecurityGateway (16 / 100) [] None True
       '''',
      mx ''messagelabs'' ''Broadcom Email Security'' SecurityGateway (16 / 100) [] None True
       '''',
      mx ''forcepoint'' ''Forcepoint'' SecurityGateway (16 / 100) [] None True
       '''',
      mx ''sophos'' ''Sophos Email'' SecurityGateway (16 / 100) [] None True
       '''',
      mx ''trend_micro'' ''Trend Micro Email Security'' SecurityGateway (16 / 100) [] None True
       '''',
      mx ''hornetsecurity'' ''Hornetsecurity'' SecurityGateway (16 / 100) [] None True
       '''',
      mx ''retarus'' ''Retarus'' SecurityGateway (16 / 100) [] None True
       '''',
      mx ''spamexperts'' ''N-able SpamExperts'' SecurityGateway (17 / 100) [] None True
       '''',
      mx ''cloudflare_area1'' ''Cloudflare Email Security'' SecurityGateway (15 / 100) [] None True
       '''',
      mx ''fortinet'' ''FortiMail'' SecurityGateway (16 / 100) [] None True
       '''',
      mx ''zoho'' ''Zoho Mail'' HostedMailbox (14 / 100) [] (Some True) False
       '''']"

definition mailbox_providers :: "mx_provider list" where
  "mailbox_providers =
     [mx ''fastmail'' ''Fastmail'' HostedMailbox (12 / 100) [] (Some True) False
       '''',
      mx ''proton'' ''Proton Mail'' HostedMailbox (13 / 100) [] (Some True) False
       '''',
      mx ''migadu'' ''Migadu'' HostedMailbox (13 / 100) [] (Some True) False
       '''',
      mx ''mxroute'' ''MXroute'' HostedMailbox (13 / 100) [] (Some True) False
       '''',
      mx ''rackspace'' ''Rackspace Email'' HostedMailbox (14 / 100) [] (Some True) False
       '''',
      mx ''godaddy'' ''GoDaddy'' HostedMailbox (14 / 100) [] (Some True) False
       '''',
      mx ''namecheap'' ''Namecheap Private Email'' HostedMailbox (14 / 100) [] (Some True) False
       '''',
      mx ''ionos'' ''IONOS'' HostedMailbox (14 / 100) [] (Some True) False
       '''',
      mx ''ovh'' ''OVH'' HostedMailbox (14 / 100) [] (Some True) False
       '''',
      mx ''hostinger'' ''Hostinger'' HostedMailbox (14 / 100) [] (Some True) False
       '''',
      mx ''titan'' ''Titan'' HostedMailbox (14 / 100) [] (Some True) False
       '''',
      mx ''amazon_workmail'' ''Amazon WorkMail'' HostedMailbox (14 / 100) [] (Some True) False
       '''',
      mx ''yandex'' ''Yandex 360'' HostedMailbox (15 / 100) [] (Some True) False
       '''',
      mx ''gmail_consumer'' ''Gmail'' Consumer (25 / 100) [] (Some True) False
       ''Consumer Gmail has no catch-all; accept-all means rate limiting.'',
      mx ''yahoo'' ''Yahoo Mail'' Consumer (25 / 100) [] (Some True) False
       '''',
      mx ''icloud'' ''iCloud Mail'' Consumer (25 / 100) [] (Some True) False
       '''',
      mx ''gmx'' ''GMX / Web.de'' Consumer (24 / 100) [] (Some True) False
       '''',
      mx ''mailru'' ''Mail.ru'' Consumer (24 / 100) [] (Some True) False
       '''',
      mx ''qq'' ''Tencent QQ Mail'' Consumer (24 / 100) [] (Some True) False
       '''',
      mx ''netease'' ''NetEase Mail'' Consumer (24 / 100) [] (Some True) False
       '''',
      mx ''parked'' ''Parked domain'' Parked (85 / 100) [] (Some False) False
       ''Registrar or parking-page MX; mail is discarded or bounced.'']"

definition SUFFIX_RULES :: "(string \<times> string) list" where
  "SUFFIX_RULES =
     [(''mail.protection.outlook.com'', ''microsoft365''),
      (''mail.eo.outlook.com'', ''microsoft365''),
      (''mail.protection.office365.us'', ''microsoft365''),
      (''olc.protection.outlook.com'', ''outlook_consumer''),
      (''gmail-smtp-in.l.google.com'', ''gmail_consumer''),
      (''aspmx.l.google.com'', ''google_workspace''),
      (''googlemail.com'', ''google_workspace''),
      (''google.com'', ''google_workspace''),
      (''pphosted.com'', ''proofpoint''),
      (''ppe-hosted.com'', ''proofpoint''),
      (''pphosted.co.uk'', ''proofpoint''),
      (''mimecast.com'', ''mimecast''),
      (''mimecast.co.za'', ''mimecast''),
      (''mimecast-offshore.com'', ''mimecast''),
      (''barracudanetworks.com'', ''barracuda''),
      (''ess.barracuda.com'', ''barracuda''),
      (''iphmx.com'', ''cisco_ironport''),
      (''messagelabs.com'', ''messagelabs''),
      (''mailcontrol.com'', ''forcepoint''),
      (''sophos.com'', ''sophos''),
      (''tmes.trendmicro.com'', ''trend_micro''),
      (''trendmicro.com'', ''trend_micro''),
      (''hornetsecurity.com'', ''hornetsecurity''),
      (''antispameurope.com'', ''hornetsecurity''),
      (''retarus.com'', ''retarus''),
      (''antispamcloud.com'', ''spamexperts''),
      (''spamexperts.com'', ''spamexperts''),
      (''mx.cloudflare.net'', ''cloudflare_area1''),
      (''fortimail.com'', ''fortinet''),
      (''zoho.com'', ''zoho''),
      (''zoho.eu'', ''zoho''),
      (''zohomail.com'', ''zoho''),
      (''messagingengine.com'', ''fastmail''),
      (''protonmail.ch'', ''proton''),
      (''proton.me'', ''proton''),
      (''migadu.com'', ''migadu''),
      (''mxroute.com'', ''mxroute''),
      (''emailsrvr.com'', ''rackspace''),
      (''secureserver.net'', ''godaddy''),
      (''privateemail.com'', ''namecheap''),
      (''registrar-servers.com'', ''namecheap''),
      (''ionos.com'', ''ionos''),
      (''1and1.com'', ''ionos''),
      (''kundenserver.de'', ''ionos''),
      (''ovh.net'', ''ovh''),
      (''hostinger.com'', ''hostinger''),
      (''titan.email'', ''titan''),
      (''awsapps.com'', ''amazon_workmail''),
      (''yandex.net'', ''yandex''),
      (''yandex.ru'', ''yandex''),
      (''am0.yahoodns.net'', ''yahoo''),
      (''yahoodns.net'', ''yahoo''),
      (''mail.icloud.com'', ''icloud''),
      (''icloud.com'', ''icloud''),
      (''gmx.net'', ''gmx''),
      (''web.de'', ''gmx''),
      (''mail.ru'', ''mailru''),
      (''qq.com'', ''qq''),
      (''163.com'', ''netease''),
      (''126.com'', ''netease''),
      (''sedoparking.com'', ''parked''),
      (''parkingcrew.net'', ''parked''),
      (''above.com'', ''parked''),
      (''bodis.com'', ''parked''),
      (''afternic.com'', ''parked'')]"

definition providers :: "mx_provider list" where
  "providers = gateway_providers @ mailbox_providers"

definition provider_by_id :: "string \<Rightarrow> mx_provider option" where
  "provider_by_id i = row_get mx_id i providers"

section \<open>Classification\<close>

record mx_profile =
  pf_provider :: mx_provider
  pf_hosts :: "string list"
  pf_matched :: "string option"

definition host_matches :: "string \<Rightarrow> string \<Rightarrow> bool" where
  "host_matches host s \<longleftrightarrow> host = s \<or> suffix (CHR ''.'' # s) host"

definition plain_host :: "string \<Rightarrow> string" where
  "plain_host h = lower (rstrip_by (\<lambda>c. c = CHR ''.'') (strip h))"

fun first_rule :: "string \<Rightarrow> (string \<times> string) list \<Rightarrow> string option" where
  "first_rule host [] = None"
| "first_rule host ((s, p) # rules) = (if host_matches host s then Some p else first_rule host rules)"

definition provider_for_host :: "string \<Rightarrow> mx_provider option" where
  "provider_for_host h =
     (let host = plain_host h
      in if host = [] then None
         else if prefix ''inbound-smtp.'' host \<and> suffix ''.amazonaws.com'' host then provider_by_id ''amazon_workmail''
         else (case first_rule host SUFFIX_RULES of None \<Rightarrow> None | Some p \<Rightarrow> provider_by_id p))"

definition SELF_HOSTED :: mx_provider where
  "SELF_HOSTED =
     mx ''self_hosted'' ''Self-hosted'' SelfHosted (15 / 100) [] None False
       ''MX is inside the recipient domain. Control panel defaults such as cPanel usually forward a catch-all to a real mailbox, but a discard route is equally common.''"

definition self_hosted_profile :: "string list \<Rightarrow> string \<Rightarrow> mx_provider option" where
  "self_hosted_profile hosts rdomain =
     (let d = plain_host rdomain
      in if d = [] then None else if list_ex (\<lambda>h. host_matches h d) hosts then Some SELF_HOSTED else None)"

definition classify_mx :: "string list \<Rightarrow> string \<Rightarrow> mx_profile" where
  "classify_mx mx_hosts rdomain =
     (let hosts = map plain_host (filter (\<lambda>h. strip h \<noteq> []) mx_hosts);
          matches = List.map_filter (\<lambda>h. map_option (Pair h) (provider_for_host h)) hosts
      in if hosts = [] then \<lparr>pf_provider = NO_MX_PROVIDER, pf_hosts = [], pf_matched = None\<rparr>
         else (case find (\<lambda>(h, p). mx_category p = SecurityGateway) matches of
                 Some (h, p) \<Rightarrow> \<lparr>pf_provider = p, pf_hosts = hosts, pf_matched = Some h\<rparr>
               | None \<Rightarrow>
                   (case matches of
                      (h, p) # _ \<Rightarrow> \<lparr>pf_provider = p, pf_hosts = hosts, pf_matched = Some h\<rparr>
                    | [] \<Rightarrow>
                        (case self_hosted_profile hosts rdomain of
                           Some p \<Rightarrow> \<lparr>pf_provider = p, pf_hosts = hosts, pf_matched = Some (hd hosts)\<rparr>
                         | None \<Rightarrow> \<lparr>pf_provider = UNKNOWN_PROVIDER, pf_hosts = hosts, pf_matched = None\<rparr>))))"

text \<open>Hosts of the texts \<open><preference> <host>.\<close> the DNS stage produces.\<close>

definition parse_mx_hosts :: "string list \<Rightarrow> string list" where
  "parse_mx_hosts records =
     filter (\<lambda>h. h \<noteq> [])
       (map (\<lambda>r. let parts = split_ws r
                 in rstrip_by (\<lambda>c. c = CHR ''.'') (strip (if length parts = 2 then parts ! 1 else r))) records)"

section \<open>The most specific rule decides\<close>

text \<open>No rule stands before a longer one whose hosts it would take.\<close>

fun unshadowed :: "(string \<times> string) list \<Rightarrow> bool" where
  "unshadowed [] \<longleftrightarrow> True"
| "unshadowed ((s, p) # rules) \<longleftrightarrow> list_all (\<lambda>(t, q). \<not> host_matches t s) rules \<and> unshadowed rules"

lemma host_matches_suffix: "host_matches h s \<Longrightarrow> suffix s h"
  by (auto simp: host_matches_def dest: suffix_ConsD)

lemma suffixes_nested:
  assumes "host_matches h s" "host_matches h t" "length s < length t"
  shows "host_matches t s"
proof -
  have "suffix t h" using assms(2) by (rule host_matches_suffix)
  moreover have "suffix (CHR ''.'' # s) h"
    using assms by (auto simp: host_matches_def dest!: suffix_length_le)
  ultimately have "suffix (CHR ''.'' # s) t"
    using assms(3) suffix_length_suffix by fastforce
  then show ?thesis by (simp add: host_matches_def)
qed

lemma same_length_suffixes:
  "host_matches h s \<Longrightarrow> host_matches h t \<Longrightarrow> length s = length t \<Longrightarrow> s = t"
  by (metis host_matches_suffix suffix_length_suffix order_refl suffix_order.antisym)

lemma first_rule_longest:
  assumes "unshadowed rules" and "(s, p) \<in> set rules" and "host_matches h s"
    and "\<And>t q. (t, q) \<in> set rules \<Longrightarrow> host_matches h t \<Longrightarrow> length t \<le> length s"
  shows "first_rule h rules = Some p"
  using assms
proof (induction rules)
  case (Cons r rules)
  obtain t q where r: "r = (t, q)" by (cases r)
  show ?case
  proof (cases "host_matches h t")
    case True
    show ?thesis
    proof (cases "(s, p) = (t, q)")
      case False
      then have "(s, p) \<in> set rules" using Cons.prems(2) r by auto
      then have free: "\<not> host_matches s t" using Cons.prems(1) r by (auto simp: list_all_iff)
      have "length t \<le> length s" using Cons.prems(4) r True by auto
      then have "t = s" using free suffixes_nested[OF True Cons.prems(3)] same_length_suffixes[OF True Cons.prems(3)]
        by linarith
      then show ?thesis using free by (simp add: host_matches_def)
    qed (use True r in simp)
  next
    case False
    then have "(s, p) \<in> set rules" using Cons.prems(2,3) r by auto
    then have "first_rule h rules = Some p"
      using Cons.IH Cons.prems(1,3,4) r by (meson list.set_intros(2) unshadowed.simps(2))
    then show ?thesis using False r by simp
  qed
qed simp

lemma rules_unshadowed: "unshadowed SUFFIX_RULES"
  by code_simp

text \<open>C24: The provider of a host is that of the most specific suffix rule that matches it, although the
  code takes the first one.\<close>

theorem most_specific_rule_wins:
  assumes "plain_host h \<noteq> []" and "\<not> (prefix ''inbound-smtp.'' (plain_host h) \<and> suffix ''.amazonaws.com'' (plain_host h))"
    and "(s, p) \<in> set SUFFIX_RULES" and "host_matches (plain_host h) s"
    and "\<And>t q. (t, q) \<in> set SUFFIX_RULES \<Longrightarrow> host_matches (plain_host h) t \<Longrightarrow> length t \<le> length s"
  shows "provider_for_host h = provider_by_id p \<and> (\<exists>v. provider_by_id p = Some v \<and> mx_id v = p)"
proof -
  have "first_rule (plain_host h) SUFFIX_RULES = Some p"
    by (rule first_rule_longest[OF rules_unshadowed assms(3-5)])
  moreover have "list_all (\<lambda>(t, q). q \<in> mx_id ` set providers) SUFFIX_RULES" by code_simp
  then have "p \<in> mx_id ` set providers" using assms(3) by (auto simp: list_all_iff)
  then obtain v where "provider_by_id p = Some v"
    unfolding provider_by_id_def by (metis row_get_None_iff not_Some_eq)
  ultimately show ?thesis
    using assms(1,2) row_get_SomeD[of mx_id p providers] by (auto simp: provider_for_host_def Let_def provider_by_id_def)
qed

theorem most_specific_rule_wins_witness:
  "provider_for_host ''Alt1.GMAIL-smtp-in.l.google.com. '' = provider_by_id ''gmail_consumer'' \<and>
   (\<exists>v. provider_by_id ''gmail_consumer'' = Some v \<and> mx_id v = ''gmail_consumer'')"
proof (rule most_specific_rule_wins)
  let ?h = "plain_host ''Alt1.GMAIL-smtp-in.l.google.com. ''"
  show "?h \<noteq> []" by code_simp
  show "\<not> (prefix ''inbound-smtp.'' ?h \<and> suffix ''.amazonaws.com'' ?h)" by code_simp
  show "(''gmail-smtp-in.l.google.com'', ''gmail_consumer'') \<in> set SUFFIX_RULES" by code_simp
  show "host_matches ?h ''gmail-smtp-in.l.google.com''" by code_simp
  have "list_all (\<lambda>(t, q). host_matches ?h t \<longrightarrow> length t \<le> length ''gmail-smtp-in.l.google.com'') SUFFIX_RULES"
    by code_simp
  then show "length t \<le> length ''gmail-smtp-in.l.google.com''"
    if "(t, q) \<in> set SUFFIX_RULES" "host_matches ?h t" for t q
    using that by (auto simp: list_all_iff)
qed

end
