(* ===== verification/SmtpReply.thy ===== *)
theory SmtpReply
  imports MxProviders SmtpCodes
begin

text \<open>
  \<^verbatim>\<open>emails/smtp_reply.py\<close>: what the reply to RCPT TO says about a recipient. Text is UTF-8;
  \<open>lower_text\<close> is \<open>str.lower\<close> on ASCII and on the letters of one and two bytes the phrases of the
  source are written with (Latin, Greek, Cyrillic); other letters are left alone.
\<close>

section \<open>Lower case\<close>

definition lower_point :: "nat \<Rightarrow> nat" where
  "lower_point n =
     (if (0xC0 \<le> n \<and> n \<le> 0xDE \<and> n \<noteq> 0xD7) \<or> (0x391 \<le> n \<and> n \<le> 0x3A9 \<and> n \<noteq> 0x3A2) \<or> (0x410 \<le> n \<and> n \<le> 0x42F)
      then n + 32
      else if 0x400 \<le> n \<and> n \<le> 0x40F then n + 80
      else if ((0x100 \<le> n \<and> n \<le> 0x137 \<and> n \<noteq> 0x130) \<or> (0x14A \<le> n \<and> n \<le> 0x177)) \<and> even n then n + 1
      else if ((0x139 \<le> n \<and> n \<le> 0x148) \<or> (0x179 \<le> n \<and> n \<le> 0x17E)) \<and> odd n then n + 1
      else if n = 0x178 then 0xFF
      else n)"

fun lower_text :: "string \<Rightarrow> string" where
  "lower_text (a # b # s) =
     (if 0xC2 \<le> code a \<and> code a \<le> 0xDF \<and> 0x80 \<le> code b \<and> code b \<le> 0xBF
      then (let n = lower_point (64 * (code a - 0xC0) + (code b - 0x80))
            in char_of (0xC0 + n div 64) # char_of (0x80 + n mod 64) # lower_text s)
      else lower_char a # lower_text (b # s))"
| "lower_text [a] = [lower_char a]"
| "lower_text [] = []"

lemma lower_text_plain:
  assumes "list_all (\<lambda>c. code c < 128 \<and> lower_char c = c) s" shows "lower_text s = s"
  using assms
proof (induction s rule: lower_text.induct)
  case (1 a b s)
  from "1.prems" have a: "code a < 128" "lower_char a = a" and bs: "list_all (\<lambda>c. code c < 128 \<and> lower_char c = c) (b # s)"
    by (simp_all only: list.pred_inject)
  from a(1) have not_two: "\<not> (0xC2 \<le> code a \<and> code a \<le> 0xDF \<and> 0x80 \<le> code b \<and> code b \<le> 0xBF)" by linarith
  note "1.IH"(2) [OF not_two bs]
  with a(2) not_two show ?case by (simp only: lower_text.simps if_False)
qed simp_all

section \<open>Phrases\<close>

definition UNIVERSAL_ABSENT_CODES :: "string list" where
  "UNIVERSAL_ABSENT_CODES = [''5.1.0'', ''5.1.1'', ''5.1.2'', ''5.1.3'', ''5.1.6'', ''5.1.10'', ''5.2.1'']"

definition STRONG_ABSENT_MARKERS :: "string list" where
  "STRONG_ABSENT_MARKERS =
     [''no such user'',
      ''no such recipient'',
      ''no such mailbox'',
      ''no such address'',
      ''user unknown'',
      ''unknown user'',
      ''unknown recipient'',
      ''unknown mailbox'',
      ''unknown address'',
      ''unknown email address'',
      ''recipient not found'',
      ''recipient unknown'',
      ''user not found'',
      ''mailbox not found'',
      ''mailbox does not exist'',
      ''address does not exist'',
      ''account does not exist'',
      ''does not exist'',
      ''invalid recipient'',
      ''invalid mailbox'',
      ''recipientnotfound'',
      ''unrouteable address'',
      ''unroutable address'',
      ''not a valid mailbox'',
      ''no mailbox here by that name'',
      ''mailbox is disabled'',
      ''account has been disabled'',
      ''account is disabled'',
      ''empf'' @ [CHR 0xC3, CHR 0xA4] @ ''nger existiert nicht'',
      ''unbekannter empf'' @ [CHR 0xC3, CHR 0xA4] @ ''nger'',
      ''benutzer unbekannt'',
      ''postfach existiert nicht'',
      ''destinataire inconnu'',
      ''destinataire n'existe pas'',
      ''utilisateur inconnu'',
      ''adresse inexistante'',
      ''n'existe pas'',
      ''usuario desconocido'',
      ''destinatario desconocido'',
      ''no existe'',
      ''utente sconosciuto'',
      ''destinatario sconosciuto'',
      ''non esiste'',
      ''onbekende gebruiker'',
      ''gebruiker onbekend'',
      ''bestaat niet'',
      ''usu'' @ [CHR 0xC3, CHR 0xA1] @ ''rio desconhecido'',
      ''utilizador desconhecido'',
      ''n'' @ [CHR 0xC3, CHR 0xA3] @ ''o existe'',
      ''nieznany u'' @ [CHR 0xC5, CHR 0xBC] @ ''ytkownik'',
      [CHR 0xD0, CHR 0xBF, CHR 0xD0, CHR 0xBE, CHR 0xD0, CHR 0xBB, CHR 0xD1, CHR 0x8C, CHR 0xD0, CHR 0xB7, CHR 0xD0, CHR 0xBE, CHR 0xD0, CHR 0xB2, CHR 0xD0, CHR 0xB0, CHR 0xD1, CHR 0x82, CHR 0xD0, CHR 0xB5, CHR 0xD0, CHR 0xBB, CHR 0xD1, CHR 0x8C] @ '' '' @ [CHR 0xD0, CHR 0xBD, CHR 0xD0, CHR 0xB5] @ '' '' @ [CHR 0xD0, CHR 0xBD, CHR 0xD0, CHR 0xB0, CHR 0xD0, CHR 0xB9, CHR 0xD0, CHR 0xB4, CHR 0xD0, CHR 0xB5, CHR 0xD0, CHR 0xBD],
      [CHR 0xD0, CHR 0xB0, CHR 0xD0, CHR 0xB4, CHR 0xD1, CHR 0x80, CHR 0xD0, CHR 0xB5, CHR 0xD1, CHR 0x81] @ '' '' @ [CHR 0xD0, CHR 0xBD, CHR 0xD0, CHR 0xB5] @ '' '' @ [CHR 0xD1, CHR 0x81, CHR 0xD1, CHR 0x83, CHR 0xD1, CHR 0x89, CHR 0xD0, CHR 0xB5, CHR 0xD1, CHR 0x81, CHR 0xD1, CHR 0x82, CHR 0xD0, CHR 0xB2, CHR 0xD1, CHR 0x83, CHR 0xD0, CHR 0xB5, CHR 0xD1, CHR 0x82],
      [CHR 0xD0, CHR 0xBF, CHR 0xD0, CHR 0xBE, CHR 0xD0, CHR 0xBB, CHR 0xD1, CHR 0x83, CHR 0xD1, CHR 0x87, CHR 0xD0, CHR 0xB0, CHR 0xD1, CHR 0x82, CHR 0xD0, CHR 0xB5, CHR 0xD0, CHR 0xBB, CHR 0xD1, CHR 0x8C] @ '' '' @ [CHR 0xD0, CHR 0xBD, CHR 0xD0, CHR 0xB5] @ '' '' @ [CHR 0xD0, CHR 0xBD, CHR 0xD0, CHR 0xB0, CHR 0xD0, CHR 0xB9, CHR 0xD0, CHR 0xB4, CHR 0xD0, CHR 0xB5, CHR 0xD0, CHR 0xBD],
      [CHR 0xE7, CHR 0x94, CHR 0xA8, CHR 0xE6, CHR 0x88, CHR 0xB7, CHR 0xE4, CHR 0xB8, CHR 0x8D, CHR 0xE5, CHR 0xAD, CHR 0x98, CHR 0xE5, CHR 0x9C, CHR 0xA8],
      [CHR 0xE9, CHR 0x82, CHR 0xAE, CHR 0xE7, CHR 0xAE, CHR 0xB1, CHR 0xE4, CHR 0xB8, CHR 0x8D, CHR 0xE5, CHR 0xAD, CHR 0x98, CHR 0xE5, CHR 0x9C, CHR 0xA8],
      [CHR 0xE5, CHR 0x9C, CHR 0xB0, CHR 0xE5, CHR 0x9D, CHR 0x80, CHR 0xE4, CHR 0xB8, CHR 0x8D, CHR 0xE5, CHR 0xAD, CHR 0x98, CHR 0xE5, CHR 0x9C, CHR 0xA8],
      [CHR 0xE5, CHR 0xAD, CHR 0x98, CHR 0xE5, CHR 0x9C, CHR 0xA8, CHR 0xE3, CHR 0x81, CHR 0x97, CHR 0xE3, CHR 0x81, CHR 0xBE, CHR 0xE3, CHR 0x81, CHR 0x9B, CHR 0xE3, CHR 0x82, CHR 0x93]]"

definition WEAK_ABSENT_MARKERS :: "string list" where
  "WEAK_ABSENT_MARKERS =
     [''recipient rejected'',
      ''address rejected'',
      ''invalid address'',
      ''unknown or illegal alias'',
      ''account not available'',
      ''mailbox unavailable'']"

definition POLICY_MARKERS :: "string list" where
  "POLICY_MARKERS =
     [''blocked'',
      ''blacklist'',
      ''blocklist'',
      ''denylist'',
      ''spamhaus'',
      ''spam'',
      ''reputation'',
      ''policy'',
      ''rate limit'',
      ''too many'',
      ''not authorized'',
      ''unauthorized'',
      ''authentication required'',
      ''relay access denied'',
      ''relaying denied'',
      ''access denied'',
      ''client host rejected'',
      ''sender rejected'',
      ''sender verify failed'',
      ''greylist'',
      ''try again'',
      ''temporarily deferred'']"

definition REPUTATION_MARKERS :: "string list" where
  "REPUTATION_MARKERS =
     [''blocked'',
      ''blacklist'',
      ''blocklist'',
      ''denylist'',
      ''spamhaus'',
      ''spam'',
      ''reputation'',
      ''client host rejected'',
      ''bad reputation'',
      ''poor reputation'']"

section \<open>Classification\<close>

datatype rcpt_verdict = MailboxAbsent | MailboxPresent | Temporary | Policy | Unknown

record rcpt_classification =
  rc_verdict :: rcpt_verdict
  rc_reason :: string
  rc_enhanced :: "string option"
  rc_reputation :: bool

definition is_absent :: "rcpt_classification \<Rightarrow> bool" where
  "is_absent c \<longleftrightarrow> rc_verdict c = MailboxAbsent"

definition is_present :: "rcpt_classification \<Rightarrow> bool" where
  "is_present c \<longleftrightarrow> rc_verdict c = MailboxPresent"

definition extract_enhanced_status :: "string \<Rightarrow> string option" where
  "extract_enhanced_status m = search_enhanced m"

definition classify_rcpt_response :: "int option \<Rightarrow> string \<Rightarrow> mx_provider option \<Rightarrow> rcpt_classification" where
  "classify_rcpt_response reply message provider =
     (let txt = strip message; low = lower_text txt; enhanced = extract_enhanced_status txt;
          reputation = contains_any REPUTATION_MARKERS low;
          answer = (\<lambda>v r rep. \<lparr>rc_verdict = v, rc_reason = r, rc_enhanced = enhanced, rc_reputation = rep\<rparr>);
          definitive = UNIVERSAL_ABSENT_CODES @ (case provider of None \<Rightarrow> [] | Some p \<Rightarrow> mx_codes p)
      in case reply of
           None \<Rightarrow> answer Unknown ''no_smtp_response'' False
         | Some n \<Rightarrow>
             if 200 \<le> n \<and> n < 300 then answer MailboxPresent ''mailbox_accepted'' False
             else if 400 \<le> n \<and> n < 500 then answer Temporary ''smtp_temporary_failure'' reputation
             else if \<not> (500 \<le> n \<and> n < 600) then answer Unknown ''smtp_unexpected_code'' False
             else if (case enhanced of None \<Rightarrow> False | Some e \<Rightarrow> e \<in> set definitive)
             then answer MailboxAbsent ''mailbox_rejected'' False
             else if contains_any STRONG_ABSENT_MARKERS low then answer MailboxAbsent ''mailbox_rejected'' False
             else if contains_any POLICY_MARKERS low
             then answer Policy (if reputation then ''sender_blocked'' else ''smtp_policy_rejection'') reputation
             else if contains_any WEAK_ABSENT_MARKERS low then answer MailboxAbsent ''mailbox_rejected'' False
             else answer Policy ''smtp_policy_rejection'' reputation)"

text \<open>A verdict about the mailbox rests on a reply of the matching class.\<close>

lemma classify_present:
  "rc_verdict (classify_rcpt_response reply m p) = MailboxPresent \<Longrightarrow> \<exists>n. reply = Some n \<and> 200 \<le> n \<and> n < 300"
  by (auto simp: classify_rcpt_response_def Let_def split: option.splits if_splits)

lemma classify_absent:
  "rc_verdict (classify_rcpt_response reply m p) = MailboxAbsent \<Longrightarrow> \<exists>n. reply = Some n \<and> 500 \<le> n \<and> n < 600"
  by (auto simp: classify_rcpt_response_def Let_def split: option.splits if_splits)

lemma classify_absent_evidence:
  assumes "rc_verdict (classify_rcpt_response reply m p) = MailboxAbsent"
  shows "(\<exists>e. extract_enhanced_status (strip m) = Some e \<and>
       (e \<in> set UNIVERSAL_ABSENT_CODES \<or> (\<exists>q. p = Some q \<and> e \<in> set (mx_codes q)))) \<or>
     contains_any STRONG_ABSENT_MARKERS (lower_text (strip m)) \<or>
     contains_any WEAK_ABSENT_MARKERS (lower_text (strip m)) \<and> \<not> contains_any POLICY_MARKERS (lower_text (strip m))"
  using assms by (auto simp: classify_rcpt_response_def Let_def split: option.splits if_splits)

text \<open>A refusal of the sender that speaks of a domain that does not exist is read as a missing mailbox.\<close>

lemma sender_refusal_read_as_absent:
  "rc_verdict (classify_rcpt_response (Some 550) ''5.7.1 Sender rejected: your domain does not exist'' None) = MailboxAbsent"
  by code_simp

end
