(* ===== verification/EmailSyntax.thy ===== *)
theory EmailSyntax
  imports Addressing SmtpReply "HOL-Library.Product_Lexorder"
begin

text \<open>
  \<^verbatim>\<open>emails/validation.py\<close>, the offline and the DNS stage: \<open>validate_syntax\<close> and \<open>validate_dns\<close>. Text is
  UTF-8. The IDNA codec of Python is modelled for ASCII names; for others it is the argument
  \<open>idna\<close>. The answers of the resolver are an argument.
\<close>

section \<open>Syntax\<close>

text \<open>\<open>len\<close> of a text counts characters, not bytes.\<close>

definition py_len :: "string \<Rightarrow> nat" where
  "py_len s = length (filter (\<lambda>c. \<not> (0x80 \<le> code c \<and> code c \<le> 0xBF)) s)"

definition is_ascii :: "string \<Rightarrow> bool" where
  "is_ascii s \<longleftrightarrow> list_all (\<lambda>c. code c < 128) s"

definition idna_encode :: "(string \<Rightarrow> string + string) \<Rightarrow> string \<Rightarrow> string + string" where
  "idna_encode idna s =
     (if \<not> is_ascii s then idna s
      else (let labels = split_on (CHR ''.'') s
            in if s = [] then Inr []
               else if list_ex (\<lambda>l. l = [] \<or> 64 \<le> length l) (butlast labels)
               then Inl ''encoding with 'idna' codec failed (UnicodeError: label empty or too long)''
               else if 64 \<le> length (last labels)
               then Inl ''encoding with 'idna' codec failed (UnicodeError: label too long)''
               else Inr s))"

definition email_local_char :: "char \<Rightarrow> bool" where
  "email_local_char c \<longleftrightarrow> is_alnum c \<or> c \<in> set ''.!#$%&*+/=?^_`{|}~-'' \<or> c = CHR 0x27"

text \<open>The regular expression of an address, its part before the \<open>@\<close> and its part after it.\<close>

definition email_re :: "string \<Rightarrow> string \<Rightarrow> bool" where
  "email_re local_part d \<longleftrightarrow> local_part \<noteq> [] \<and> list_all email_local_char local_part \<and> list_all label_re (split_on (CHR ''.'') d)"

definition RESERVED_TLDS :: "string list" where
  "RESERVED_TLDS = [''local'', ''localhost'', ''test'', ''example'', ''invalid'', ''internal'', ''lan'', ''home.arpa'']"

record syntax_result =
  sx_valid :: bool
  sx_local_part :: "string option"
  sx_domain :: "string option"
  sx_error :: "string option"

definition syntax_ok :: "string \<Rightarrow> string \<Rightarrow> syntax_result" where
  "syntax_ok l d = \<lparr>sx_valid = True, sx_local_part = Some l, sx_domain = Some d, sx_error = None\<rparr>"

definition syntax_bad :: "(string \<times> string) option \<Rightarrow> string \<Rightarrow> syntax_result" where
  "syntax_bad parts why = \<lparr>sx_valid = False, sx_local_part = map_option fst parts, sx_domain = map_option snd parts,
     sx_error = Some why\<rparr>"

text \<open>The labels are checked in order, the first fault is reported.\<close>

fun label_error :: "string list \<Rightarrow> string option" where
  "label_error [] = None"
| "label_error (l # ls) =
     (if l = [] then Some ''Domain labels cannot be empty''
      else if length l > 63 then Some (''Domain label '' @ quoted l @ '' exceeds maximum length of 63 characters'')
      else if hd l = CHR ''-'' \<or> last l = CHR ''-''
      then Some (''Domain label '' @ quoted l @ '' cannot start or end with a hyphen'')
      else label_error ls)"

definition reserved_domain :: "string \<Rightarrow> bool" where
  "reserved_domain d \<longleftrightarrow> list_ex (\<lambda>r. d = r \<or> suffix (CHR ''.'' # r) d) [''example.com'', ''example.net'', ''example.org'']"

definition validate_syntax :: "(string \<Rightarrow> string + string) \<Rightarrow> string \<Rightarrow> syntax_result" where
  "validate_syntax idna raw =
     (let email = strip raw; parts = split_on (CHR ''@'') email;
          l = parts ! 0; d = parts ! 1; bad = syntax_bad (Some (l, d))
      in if length parts \<noteq> 2 then syntax_bad None (''Email address must contain exactly one '' @ quoted ''@'' @ '' character'')
         else if py_len email > 254 then bad ''Email address exceeds maximum length of 254 characters''
         else if py_len l > 64 then bad ''Local part exceeds maximum length of 64 characters''
         else if py_len d > 255 then bad ''Domain part exceeds maximum length of 255 characters''
         else (case idna_encode idna d of
           Inl e \<Rightarrow> bad (''Invalid IDN domain: '' @ e)
         | Inr ascii_domain \<Rightarrow>
             (let labels = split_on (CHR ''.'') ascii_domain; tld = last labels
              in if \<not> email_re l ascii_domain then bad ''Invalid email address syntax''
                 else if hd l = CHR ''.'' \<or> last l = CHR ''.'' \<or> contains ''..'' l
                 then bad ''Local part cannot start or end with a dot or contain consecutive dots''
                 else if length labels < 2 then bad ''Domain must contain at least one dot (e.g., domain.com)''
                 else (case label_error labels of
                   Some e \<Rightarrow> bad e
                 | None \<Rightarrow>
                     if length tld < 2 then bad ''Top-level domain (TLD) must be at least 2 characters''
                     else if \<not> list_all (\<lambda>c. is_alnum c \<or> c = CHR ''-'') tld
                     then bad ''Top-level domain (TLD) contains invalid characters''
                     else if lower tld \<in> set RESERVED_TLDS
                     then bad (''Domain uses a reserved or internal top-level domain: .'' @ lower tld)
                     else if reserved_domain (lower_text d) then bad ''Domain is reserved for testing/examples''
                     else syntax_ok l (lower ascii_domain)))))"

lemma validate_syntax_domain:
  "sx_valid (validate_syntax idna raw) \<Longrightarrow> \<exists>d. sx_domain (validate_syntax idna raw) = Some d \<and> d \<noteq> []"
  by (auto simp: validate_syntax_def Let_def syntax_bad_def syntax_ok_def lower_def split: if_splits sum.splits option.splits)

text \<open>The entry \<open>home.arpa\<close> is compared with the last label alone and never applies.\<close>

lemma home_arpa_accepted: "sx_valid (validate_syntax (\<lambda>_. Inl []) ''root@nas.home.arpa'')"
  by code_simp

section \<open>DNS\<close>

datatype 'a dns_answer = Absent | LookupFails string | Records "'a list"

record dns_lookups =
  lk_mx :: "(int \<times> string) dns_answer"
  lk_ns :: "string dns_answer"
  lk_a :: "string dns_answer"
  lk_aaaa :: "string dns_answer"

datatype dns_status = DnsValid | DnsInvalid | DnsUndetermined

record dns_result =
  dn_valid :: bool
  dn_has_mx :: bool
  dn_has_ns :: bool
  dn_has_a :: bool
  dn_has_aaaa :: bool
  dn_null_mx :: bool
  dn_mx :: "string list"
  dn_ns :: "string list"
  dn_a :: "string list"
  dn_aaaa :: "string list"
  dn_status :: dns_status
  dn_error_code :: "string option"
  dn_error :: "string option"

fun records_of :: "'a dns_answer \<Rightarrow> 'a list" where
  "records_of (Records rs) = rs"
| "records_of _ = []"

fun failure_of :: "'a dns_answer \<Rightarrow> string list" where
  "failure_of (LookupFails e) = [e]"
| "failure_of _ = []"

definition without_dot :: "string \<Rightarrow> string" where
  "without_dot h = rstrip_by (\<lambda>c. c = CHR ''.'') h"

text \<open>The failures in the order of the lookups; in the code in the order in which they occur.\<close>

definition validate_dns :: "(string \<Rightarrow> string + string) \<Rightarrow> (string \<Rightarrow> dns_lookups) \<Rightarrow> string \<Rightarrow> dns_result" where
  "validate_dns idna resolver d =
     (let ascii_domain = (case idna_encode idna d of Inl _ \<Rightarrow> d | Inr a \<Rightarrow> a); lk = resolver ascii_domain;
          mx = records_of (lk_mx lk); null_mx = list_ex (\<lambda>(p, h). h = ''.'') mx;
          hosts = sort (filter (\<lambda>(p, h). h \<noteq> []) (map (\<lambda>(p, h). (p, without_dot h)) (filter (\<lambda>(p, h). h \<noteq> ''.'') mx)));
          ns = filter (\<lambda>h. h \<noteq> []) (map without_dot (records_of (lk_ns lk)));
          a = filter (\<lambda>x. x \<noteq> []) (records_of (lk_a lk)); aaaa = filter (\<lambda>x. x \<noteq> []) (records_of (lk_aaaa lk));
          errors = failure_of (lk_mx lk) @ failure_of (lk_ns lk) @ failure_of (lk_a lk) @ failure_of (lk_aaaa lk);
          ok = (\<not> null_mx \<and> (hosts \<noteq> [] \<or> a \<noteq> [] \<or> aaaa \<noteq> []));
          (status, err_code, err) =
            (if null_mx then (DnsInvalid, Some ''null_mx'', Some ''Domain publishes a null MX and does not accept email'')
             else if ok then (DnsValid, None, None)
             else if errors \<noteq> [] then (DnsUndetermined, Some ''dns_temporary_failure'',
               Some (''DNS lookup temporarily failed: '' @ hd errors))
             else (DnsInvalid, Some ''no_mail_route'',
               Some ''No MX, A, or AAAA records found; domain cannot receive mail''))
      in \<lparr>dn_valid = ok, dn_has_mx = (hosts \<noteq> []), dn_has_ns = (ns \<noteq> []), dn_has_a = (a \<noteq> []), dn_has_aaaa = (aaaa \<noteq> []),
          dn_null_mx = null_mx, dn_mx = map (\<lambda>(p, h). show_int p @ '' '' @ h @ ''.'') hosts,
          dn_ns = map (\<lambda>h. h @ ''.'') ns, dn_a = a, dn_aaaa = aaaa, dn_status = status, dn_error_code = err_code,
          dn_error = err\<rparr>)"

definition lookup_failed :: "dns_lookups \<Rightarrow> bool" where
  "lookup_failed lk \<longleftrightarrow> failure_of (lk_mx lk) \<noteq> [] \<or> failure_of (lk_ns lk) \<noteq> [] \<or> failure_of (lk_a lk) \<noteq> [] \<or> failure_of (lk_aaaa lk) \<noteq> []"

text \<open>A domain is declared dead only on the word of the DNS.\<close>

lemma validate_dns_invalid:
  assumes "dn_status (validate_dns idna resolver d) = DnsInvalid"
  shows "let lk = resolver (case idna_encode idna d of Inl _ \<Rightarrow> d | Inr a \<Rightarrow> a)
    in (\<exists>p. (p, ''.'') \<in> set (records_of (lk_mx lk))) \<or>
       (\<not> lookup_failed lk \<and> set (records_of (lk_a lk)) \<subseteq> {[]} \<and> set (records_of (lk_aaaa lk)) \<subseteq> {[]})"
  using assms
  by (auto simp: validate_dns_def Let_def lookup_failed_def list_ex_iff filter_empty_conv split: if_splits)

lemma validate_dns_status:
  "dn_valid (validate_dns idna resolver d) \<longleftrightarrow> dn_status (validate_dns idna resolver d) = DnsValid"
  by (auto simp: validate_dns_def Let_def)

end
