(* ===== verification/RiskModel.thy ===== *)
theory RiskModel
  imports MxProviders
begin

text \<open>
  \<^verbatim>\<open>emails/risk_model.py\<close>: the hard-bounce estimate of an accept-all recipient, the selection of
  addresses under a bounce budget and the calibration report. Floats are doubles (\<open>dbl\<close>);
  \<open>math.log\<close> and \<open>math.exp\<close> are taken from the platform's library and are arguments.
\<close>

section \<open>Data\<close>

datatype risk_level = Low | Medium | High
datatype risk_action = Send | Caution | Hold
datatype risk_source = ExactHistory | DomainHistory | SharedDomainHistory | ProviderHistory | ProviderPrior
datatype outcome = Delivered | HardBounce | SoftBounce

definition SEND_THRESHOLD :: rat where "SEND_THRESHOLD = dbl (4 / 100)"
definition HOLD_THRESHOLD :: rat where "HOLD_THRESHOLD = dbl (10 / 100)"
definition PROVIDER_PRIOR_STRENGTH :: rat where "PROVIDER_PRIOR_STRENGTH = 25"
definition DOMAIN_PRIOR_STRENGTH :: rat where "DOMAIN_PRIOR_STRENGTH = 15"
definition TIMING_LOOKUP_OBSERVED :: rat where "TIMING_LOOKUP_OBSERVED = dbl (- 18 / 10)"
definition TIMING_NO_LOOKUP :: rat where "TIMING_NO_LOOKUP = dbl (12 / 10)"
definition TIMING_RATIO :: rat where "TIMING_RATIO = dbl (18 / 10)"
definition LOCAL_PART_SCALE :: rat where "LOCAL_PART_SCALE = 1 / 2"
definition GLOBAL_PRIOR :: rat where "GLOBAL_PRIOR = dbl (14 / 100)"

record observation_counts =
  oc_delivered :: int
  oc_hard :: int
  oc_soft :: int
  oc_tenants :: int

definition decisive :: "observation_counts \<Rightarrow> int" where
  "decisive c = oc_delivered c + oc_hard c"

definition no_counts :: observation_counts where
  "no_counts = \<lparr>oc_delivered = 0, oc_hard = 0, oc_soft = 0, oc_tenants = 0\<rparr>"

record probe_evidence =
  pe_accepted :: "bool option"
  pe_total :: int
  pe_control_accepted :: int
  pe_rejected :: int
  pe_inconclusive :: int
  pe_target_ms :: "rat option"
  pe_control_ms :: "rat option"
  pe_reputation :: bool

definition selective :: "probe_evidence \<Rightarrow> bool" where
  "selective p \<longleftrightarrow> pe_rejected p > 0"

record contribution =
  cb_label :: string
  cb_delta :: rat
  cb_detail :: string

record risk_assessment =
  ra_score :: rat
  ra_level :: risk_level
  ra_action :: risk_action
  ra_source :: risk_source
  ra_samples :: int
  ra_explanation :: string
  ra_base_rate :: rat
  ra_provider_id :: "string option"
  ra_provider_rate :: "rat option"
  ra_confidence :: rat
  ra_contributions :: "contribution list"

section \<open>The estimate\<close>

record libm =
  lm_log :: "rat \<Rightarrow> rat"
  lm_exp :: "rat \<Rightarrow> rat"

definition logit :: "libm \<Rightarrow> rat \<Rightarrow> rat" where
  "logit m p = (let c = min (max p (dbl (1 / 10 ^ 6))) (fsub 1 (dbl (1 / 10 ^ 6))) in lm_log m (fdiv c (fsub 1 c)))"

definition sigmoid :: "libm \<Rightarrow> rat \<Rightarrow> rat" where
  "sigmoid m v =
     (if 0 \<le> v then fdiv 1 (fadd 1 (lm_exp m (- v)))
      else (let e = lm_exp m v in fdiv e (fadd 1 e)))"

definition pooled_rate :: "observation_counts \<Rightarrow> rat \<Rightarrow> rat \<Rightarrow> rat" where
  "pooled_rate c prior strength =
     fdiv (fadd (of_int (oc_hard c)) (fmul prior strength)) (fadd (of_int (decisive c)) strength)"

definition level_for :: "rat \<Rightarrow> risk_level \<times> risk_action" where
  "level_for score =
     (if score \<le> SEND_THRESHOLD then (Low, Send) else if HOLD_THRESHOLD \<le> score then (High, Hold) else (Medium, Caution))"

definition exact_assessment :: "rat \<Rightarrow> risk_level \<Rightarrow> risk_action \<Rightarrow> string \<Rightarrow> rat \<Rightarrow> risk_assessment" where
  "exact_assessment score l a why conf =
     \<lparr>ra_score = dbl score, ra_level = l, ra_action = a, ra_source = ExactHistory, ra_samples = 1, ra_explanation = why,
      ra_base_rate = GLOBAL_PRIOR, ra_provider_id = None, ra_provider_rate = None, ra_confidence = dbl conf,
      ra_contributions = []\<rparr>"

definition exact_recipient_risk :: "outcome \<Rightarrow> bool \<Rightarrow> risk_assessment option" where
  "exact_recipient_risk seen recent =
     (case seen of
        HardBounce \<Rightarrow> Some (exact_assessment (98 / 100) High Hold ''This exact recipient recently produced a hard bounce.'' (95 / 100))
      | Delivered \<Rightarrow>
          if recent then Some (exact_assessment (2 / 100) Low Send ''This exact recipient has a recent confirmed delivery.'' (9 / 10))
          else None
      | SoftBounce \<Rightarrow>
          Some (exact_assessment (20 / 100) Medium Caution
            ''This exact recipient recently produced a temporary delivery failure.'' (6 / 10)))"

text \<open>A float with one decimal.\<close>

definition show_fixed1 :: "rat \<Rightarrow> string" where
  "show_fixed1 x =
     (let n = half_even (\<bar>x\<bar> * 10)
      in (if x < 0 then ''-'' else []) @ show_int (n div 10) @ ''.'' @ show_int (n mod 10))"

definition source_of :: "mx_provider \<Rightarrow> observation_counts \<Rightarrow> observation_counts \<Rightarrow> bool \<Rightarrow> risk_source \<times> string" where
  "source_of provider pc dc shared =
     (if decisive dc > 0 then
        (if shared then SharedDomainHistory else DomainHistory,
         ''Estimated from '' @ show_int (decisive dc) @ '' observed outcomes at this domain, anchored on '' @
         mx_name provider @ '' behaviour.'')
      else if decisive pc > 0 then
        (ProviderHistory, ''No outcomes recorded for this domain. Estimated from '' @ show_int (decisive pc) @
         '' outcomes across '' @ mx_name provider @ '' destinations.'')
      else
        (ProviderPrior, ''No delivery history available. Estimated from the '' @ mx_name provider @
         '' accept-all prior, which reflects how that receiver handles unknown recipients.''))"

type_synonym evidence = "rat \<times> contribution list"

definition adjust :: "string \<Rightarrow> rat \<Rightarrow> rat \<Rightarrow> string \<Rightarrow> evidence \<Rightarrow> evidence" where
  "adjust label delta shown detail ev =
     (fadd (fst ev) delta, snd ev @ [\<lparr>cb_label = label, cb_delta = shown, cb_detail = detail\<rparr>])"

definition apply_selective :: "probe_evidence \<Rightarrow> evidence \<Rightarrow> evidence" where
  "apply_selective p ev =
     (if selective p
      then (let share = dbl (of_int (pe_rejected p) / of_int (max (pe_total p) 1));
                delta = fsub (dbl (- 12 / 10)) (fmul (dbl (6 / 10)) share)
            in adjust ''probe_selective'' delta (fround 3 delta)
                 (show_int (pe_rejected p) @ '' of '' @ show_int (pe_total p) @
                  '' control recipients were rejected, so the destination validates recipients.'') ev)
      else ev)"

definition apply_timing :: "probe_evidence \<Rightarrow> evidence \<Rightarrow> evidence" where
  "apply_timing p ev =
     (case (pe_target_ms p, pe_control_ms p) of
        (Some target, Some control) \<Rightarrow>
          if control > 0
          then (let ratio = fdiv target control
                in if TIMING_RATIO \<le> ratio
                   then adjust ''probe_timing'' TIMING_LOOKUP_OBSERVED TIMING_LOOKUP_OBSERVED
                     (''The target took '' @ show_fixed1 ratio @ '' times longer to answer than the control '' @
                      ''recipients, so the destination looked this mailbox up rather than accepting blindly.'') ev
                   else adjust ''probe_timing'' TIMING_NO_LOOKUP TIMING_NO_LOOKUP
                     (''The target was answered as quickly as recipients known not to exist, '' @
                      ''so no mailbox lookup took place.'') ev)
          else ev
      | _ \<Rightarrow> ev)"

definition apply_reputation :: "libm \<Rightarrow> mx_provider \<Rightarrow> probe_evidence \<Rightarrow> evidence \<Rightarrow> evidence" where
  "apply_reputation m provider p ev =
     (if pe_reputation p
      then (let pull = fmul (fsub (logit m (mx_prior provider)) (fst ev)) (1 / 2)
            in adjust ''probe_reputation'' pull (fround 3 pull)
                 ''The destination reacted to the probing host's reputation, so its responses are not evidence about this mailbox.'' ev)
      else ev)"

definition notes_or :: "string list \<Rightarrow> string \<Rightarrow> string" where
  "notes_or notes fallback = (let t = join ''; '' notes in if t = [] then fallback else t)"

definition apply_local_part :: "rat \<Rightarrow> string list \<Rightarrow> evidence \<Rightarrow> evidence" where
  "apply_local_part delta notes ev =
     (if delta = 0 then ev
      else (let scaled = fround 3 (fmul delta LOCAL_PART_SCALE)
            in adjust ''local_part'' scaled scaled (notes_or notes ''Local-part shape adjustment.'') ev))"

definition apply_domain :: "rat \<Rightarrow> string list \<Rightarrow> evidence \<Rightarrow> evidence" where
  "apply_domain delta notes ev =
     (if delta = 0 then ev
      else adjust ''domain_signals'' delta delta (notes_or notes ''Passive domain signal adjustment.'') ev)"

definition confidence_of :: "observation_counts \<Rightarrow> observation_counts \<Rightarrow> risk_source \<Rightarrow> probe_evidence option \<Rightarrow> rat" where
  "confidence_of pc dc source probe =
     (let evidence = fadd (of_int (decisive dc)) (dbl (of_int (min (decisive pc) 200) / 10));
          c1 = min (fadd (dbl (35 / 100)) (fdiv evidence 60)) (dbl (9 / 10));
          c2 = (if (case probe of None \<Rightarrow> False | Some p \<Rightarrow> pe_reputation p) then min c1 (dbl (35 / 100)) else c1)
      in if source = ProviderPrior then min c2 (dbl (45 / 100)) else c2)"

definition compute_risk :: "libm \<Rightarrow> mx_provider \<Rightarrow> observation_counts \<Rightarrow> observation_counts \<Rightarrow> bool
    \<Rightarrow> rat \<times> string list \<Rightarrow> rat \<times> string list \<Rightarrow> probe_evidence option \<Rightarrow> risk_assessment" where
  "compute_risk m provider pc dc shared local_part signals probe =
     (let provider_rate = pooled_rate pc (mx_prior provider) PROVIDER_PRIOR_STRENGTH;
          base_rate = pooled_rate dc provider_rate DOMAIN_PRIOR_STRENGTH;
          (source, explanation) = source_of provider pc dc shared;
          start = (logit m base_rate, []);
          probed = (case probe of
             None \<Rightarrow> start
           | Some p \<Rightarrow> apply_reputation m provider p (apply_timing p (apply_selective p start)));
          (log_odds, contributions) =
             apply_domain (fst signals) (snd signals) (apply_local_part (fst local_part) (snd local_part) probed);
          score = sigmoid m log_odds
      in \<lparr>ra_score = fround 4 score, ra_level = fst (level_for score), ra_action = snd (level_for score),
          ra_source = source, ra_samples = (if decisive dc \<noteq> 0 then decisive dc else decisive pc),
          ra_explanation = explanation, ra_base_rate = fround 4 base_rate, ra_provider_id = Some (mx_id provider),
          ra_provider_rate = Some (fround 4 provider_rate),
          ra_confidence = fround 3 (confidence_of pc dc source probe), ra_contributions = contributions\<rparr>)"

section \<open>The bounce budget\<close>

record budget_candidate =
  bc_email :: string
  bc_score :: rat

record budget_selection =
  bs_included :: "string list"
  bs_excluded :: "string list"
  bs_projected :: rat
  bs_target :: rat
  bs_included_count :: nat
  bs_excluded_count :: nat

record budget_state =
  bt_total :: rat
  bt_count :: nat
  bt_included :: "string list"
  bt_excluded :: "string list"

text \<open>One candidate; \<open>rnd\<close> is the rounding of the arithmetic, \<open>dbl\<close> in the code.\<close>

definition budget_step :: "(rat \<Rightarrow> rat) \<Rightarrow> rat \<Rightarrow> budget_state \<Rightarrow> budget_candidate \<Rightarrow> budget_state" where
  "budget_step rnd target s c =
     (let total = rnd (bt_total s + bc_score c); count = Suc (bt_count s)
      in if rnd (total / of_nat count) \<le> target
         then s\<lparr>bt_total := total, bt_count := count, bt_included := bt_included s @ [bc_email c]\<rparr>
         else s\<lparr>bt_excluded := bt_excluded s @ [bc_email c]\<rparr>)"

definition budget_start :: "(rat \<Rightarrow> rat) \<Rightarrow> rat list \<Rightarrow> budget_state" where
  "budget_start rnd committed =
     \<lparr>bt_total = foldl (\<lambda>t x. rnd (t + x)) 0 committed, bt_count = length committed, bt_included = [], bt_excluded = []\<rparr>"

definition select_with :: "(rat \<Rightarrow> rat) \<Rightarrow> budget_candidate list \<Rightarrow> rat \<Rightarrow> rat list \<Rightarrow> budget_state" where
  "select_with rnd candidates target committed =
     foldl (budget_step rnd target) (budget_start rnd committed) (sort_key bc_score candidates)"

definition select_within_budget :: "budget_candidate list \<Rightarrow> rat \<Rightarrow> rat list \<Rightarrow> budget_selection" where
  "select_within_budget candidates target committed =
     (let s = select_with dbl candidates target committed;
          projected = (if bt_count s = 0 then 0 else fdiv (bt_total s) (of_nat (bt_count s)))
      in \<lparr>bs_included = bt_included s, bs_excluded = bt_excluded s, bs_projected = fround 5 projected, bs_target = target,
          bs_included_count = length (bt_included s), bs_excluded_count = length (bt_excluded s)\<rparr>)"

section \<open>Calibration\<close>

record calibration_bin =
  cb_lower :: rat
  cb_upper :: rat
  cb_count :: nat
  cb_predicted :: rat
  cb_observed :: rat

record calibration_report =
  cr_samples :: nat
  cr_brier :: "rat option"
  cr_predicted :: "rat option"
  cr_observed :: "rat option"
  cr_bins :: "calibration_bin list"

type_synonym observation = "rat \<times> bool"

definition squared_error :: "observation \<Rightarrow> rat" where
  "squared_error x = (let d = fsub (fst x) (if snd x then 1 else 0) in fmul d d)"

definition mean_score :: "observation list \<Rightarrow> rat" where
  "mean_score xs = fdiv (fsum (map fst xs)) (of_nat (length xs))"

definition bounce_share :: "observation list \<Rightarrow> rat" where
  "bounce_share xs = dbl (of_nat (length (filter snd xs)) / of_nat (length xs))"

definition in_bin :: "nat \<Rightarrow> nat \<Rightarrow> rat \<Rightarrow> bool" where
  "in_bin bins i score \<longleftrightarrow>
     (let width = dbl (1 / of_nat bins); lower = fmul (of_nat i) width; upper = fadd lower width
      in (lower \<le> score \<and> score < upper) \<or> (i = bins - 1 \<and> score = 1))"

definition bin_of :: "nat \<Rightarrow> observation list \<Rightarrow> nat \<Rightarrow> calibration_bin option" where
  "bin_of bins xs i =
     (let width = dbl (1 / of_nat bins); lower = fmul (of_nat i) width; upper = fadd lower width;
          members = filter (\<lambda>x. in_bin bins i (fst x)) xs
      in if members = [] then None
         else Some \<lparr>cb_lower = fround 4 lower, cb_upper = fround 4 upper, cb_count = length members,
                    cb_predicted = fround 4 (mean_score members), cb_observed = fround 4 (bounce_share members)\<rparr>)"

definition calibration :: "observation list \<Rightarrow> nat \<Rightarrow> calibration_report" where
  "calibration xs bins =
     (if xs = [] then \<lparr>cr_samples = 0, cr_brier = None, cr_predicted = None, cr_observed = None, cr_bins = []\<rparr>
      else \<lparr>cr_samples = length xs, cr_brier = Some (fround 5 (fdiv (fsum (map squared_error xs)) (of_nat (length xs)))),
            cr_predicted = Some (fround 4 (mean_score xs)), cr_observed = Some (fround 4 (bounce_share xs)),
            cr_bins = List.map_filter (bin_of bins xs) [0..<bins]\<rparr>)"

end
