(* ===== verification/Probe.thy ===== *)
theory Probe
  imports EmailSyntax RiskModel
begin

text \<open>
  \<^verbatim>\<open>emails/validation.py\<close>, the mailbox stage: the control recipients, the RCPT probes on one
  connection, the result drawn from them, the loop over the hosts of a domain and the probe through
  a relay. The peer is an argument: what it answers to a command, given the commands before it.
  Random draws are arguments too. A latency is finite.
\<close>

section \<open>Control recipients\<close>

definition CONTROL_FIRST_NAMES :: "string list" where
  "CONTROL_FIRST_NAMES =
     [''adrian'', ''bernice'', ''callum'', ''delphine'', ''edmund'', ''fiona'', ''gareth'', ''harriet'', ''ingrid'',
      ''julius'', ''kirsten'', ''lorcan'', ''marguerite'', ''nolan'', ''ottoline'', ''perrin'']"

definition CONTROL_SURNAMES :: "string list" where
  "CONTROL_SURNAMES =
     [''ashcroft'', ''beaumont'', ''castellan'', ''dunmore'', ''ellingham'', ''fairweather'', ''grantley'',
      ''harkness'', ''inglethorpe'', ''jarvis'', ''kingsleigh'', ''lattimer'', ''mordaunt'', ''northwood'',
      ''oakhurst'', ''pemberton'']"

definition LETTERS :: string where
  "LETTERS = ''abcdefghijklmnopqrstuvwxyz''"

text \<open>The draws of one call; \<open>dr_order\<close> is the shuffle.\<close>

record draws =
  dr_first :: nat
  dr_surname :: nat
  dr_number :: nat
  dr_letter :: "nat \<Rightarrow> nat"
  dr_hex :: "nat \<Rightarrow> nat"
  dr_order :: "string list \<Rightarrow> string list"

definition choice :: "nat \<Rightarrow> 'a list \<Rightarrow> 'a" where
  "choice k xs = xs ! (k mod length xs)"

text \<open>The token takes the draws from number \<open>start\<close> on.\<close>

definition random_token :: "(nat \<Rightarrow> nat) \<Rightarrow> nat \<Rightarrow> nat \<Rightarrow> string \<Rightarrow> string" where
  "random_token draw start n alphabet = map (\<lambda>i. choice (draw (start + i)) alphabet) [0..<n]"

definition shape_separator :: "char \<Rightarrow> bool" where
  "shape_separator c \<longleftrightarrow> c \<in> set ''._-''"

text \<open>\<open>re.split\<close> with a group: the separators are parts of their own.\<close>

fun split_keep :: "(char \<Rightarrow> bool) \<Rightarrow> string \<Rightarrow> string \<Rightarrow> string list" where
  "split_keep sep acc [] = [acc]"
| "split_keep sep acc (c # s) = (if sep c then acc # [c] # split_keep sep [] s else split_keep sep (acc @ [c]) s)"

text \<open>The parts rebuilt, with the number of letters drawn.\<close>

fun rebuild :: "(nat \<Rightarrow> nat) \<Rightarrow> nat \<Rightarrow> string list \<Rightarrow> string \<times> nat" where
  "rebuild draw used [] = ([], used)"
| "rebuild draw used (p # ps) =
     (if p \<in> {''.'', ''_'', ''-''} then (let (s, n) = rebuild draw used ps in (p @ s, n))
      else if p = [] then rebuild draw used ps
      else (let k = min (py_len p) 20; (s, n) = rebuild draw (used + k) ps
            in (random_token draw used k LETTERS @ s, n)))"

definition shape_matched_local :: "(nat \<Rightarrow> nat) \<Rightarrow> string \<Rightarrow> string" where
  "shape_matched_local draw target =
     (let base = takeWhile (\<lambda>c. c \<noteq> CHR ''+'') target; (candidate, used) = rebuild draw 0 (split_keep shape_separator [] base)
      in if base = [] \<or> py_len base > 64 then []
         else if candidate = [] then []
         else take 64 (if used < 6 then candidate @ random_token draw used (6 - used) LETTERS else candidate))"

definition human_local :: "draws \<Rightarrow> string" where
  "human_local dr = choice (dr_first dr) CONTROL_FIRST_NAMES @ ''.'' @ choice (dr_surname dr) CONTROL_SURNAMES
     @ show_nat (dr_number dr mod 9000 + 1000)"

definition hex_local :: "draws \<Rightarrow> string" where
  "hex_local dr = random_token (dr_hex dr) 0 20 ''0123456789abcdef''"

fun unique_controls :: "string \<Rightarrow> string list \<Rightarrow> string list \<Rightarrow> string list" where
  "unique_controls target [] found = found"
| "unique_controls target (v # vs) found =
     unique_controls target vs (if v \<noteq> [] \<and> lower_text v \<noteq> lower_text target \<and> v \<notin> set found then found @ [v] else found)"

definition build_control_locals :: "draws \<Rightarrow> string \<Rightarrow> int \<Rightarrow> string list" where
  "build_control_locals dr target count =
     (let shaped = shape_matched_local (dr_letter dr) target
      in take (nat (max count 1))
           (unique_controls target ([human_local dr] @ (if shaped = [] then [] else [shaped]) @ [hex_local dr]) []))"

section \<open>The peer\<close>

datatype smtp_command = Connect | Ehlo | Helo | Starttls | Rset | Mail string | Rcpt string

text \<open>A reply of SMTP, with the error text of the client library where it raises on it.\<close>

datatype smtp_answer = Reply int string | ReplyRaised int string string | NoReply string

record smtp_peer =
  pr_answer :: "smtp_command list \<Rightarrow> smtp_command \<Rightarrow> smtp_answer"
  pr_starttls :: "smtp_command list \<Rightarrow> bool"
  pr_latency :: "smtp_command list \<Rightarrow> rat"

text \<open>A step of the client: an exception or a value, and the commands sent so far.\<close>

datatype smtp_error = Responded int string string | Broken string

type_synonym 'a smtp = "smtp_command list \<Rightarrow> (smtp_error + 'a) \<times> smtp_command list"

definition ret :: "'a \<Rightarrow> 'a smtp" where
  "ret x = (\<lambda>sent. (Inr x, sent))"

definition andThen :: "'a smtp \<Rightarrow> ('a \<Rightarrow> 'b smtp) \<Rightarrow> 'b smtp" where
  "andThen m f = (\<lambda>sent. case m sent of (Inl e, t) \<Rightarrow> (Inl e, t) | (Inr x, t) \<Rightarrow> f x t)"

definition suppressed :: "'a smtp \<Rightarrow> unit smtp" where
  "suppressed m = (\<lambda>sent. (Inr (), snd (m sent)))"

definition issue :: "smtp_peer \<Rightarrow> smtp_command \<Rightarrow> (int \<times> string) smtp" where
  "issue peer cmd = (\<lambda>sent.
     (case pr_answer peer sent cmd of Reply n m \<Rightarrow> Inr (n, m) | ReplyRaised n m e \<Rightarrow> Inl (Responded n m e)
        | NoReply e \<Rightarrow> Inl (Broken e), sent @ [cmd]))"

definition or_else :: "'a smtp \<Rightarrow> (smtp_error \<Rightarrow> 'a smtp) \<Rightarrow> 'a smtp" where
  "or_else m h = (\<lambda>sent. case m sent of (Inl e, t) \<Rightarrow> h e t | (Inr x, t) \<Rightarrow> (Inr x, t))"

section \<open>One probe\<close>

record probe_attempt =
  at_label :: string
  at_recipient :: string
  at_code :: "int option"
  at_message :: string
  at_class :: rcpt_classification
  at_ms :: rat

fun try_senders :: "smtp_peer \<Rightarrow> string list \<Rightarrow> bool smtp" where
  "try_senders peer [] = ret False"
| "try_senders peer (s # ss) =
     andThen (or_else (andThen (issue peer (Mail s)) (\<lambda>(n, m). ret (200 \<le> n \<and> n < 300)))
                (\<lambda>e. case e of Responded _ _ _ \<Rightarrow> ret False | Broken b \<Rightarrow> (\<lambda>sent. (Inl (Broken b), sent))))
       (\<lambda>ok. if ok then ret True
             else andThen (suppressed (issue peer Rset)) (\<lambda>_. try_senders peer ss))"

text \<open>RCPT TO itself, in an open envelope.\<close>

definition rcpt_step :: "smtp_peer \<Rightarrow> mx_provider option \<Rightarrow> string \<Rightarrow> string \<Rightarrow> probe_attempt option smtp" where
  "rcpt_step peer provider label recipient sent =
     andThen (or_else (issue peer (Rcpt recipient))
                (\<lambda>e. case e of Responded n m _ \<Rightarrow> ret (n, m) | Broken b \<Rightarrow> (\<lambda>sent. (Inl (Broken b), sent))))
       (\<lambda>(n, m). ret (Some \<lparr>at_label = label, at_recipient = recipient, at_code = Some n, at_message = m,
          at_class = classify_rcpt_response (Some n) m provider,
          at_ms = fround 2 (pr_latency peer (sent @ [Rcpt recipient]))\<rparr>)) sent"

definition rcpt_probe :: "smtp_peer \<Rightarrow> mx_provider option \<Rightarrow> string \<Rightarrow> string \<Rightarrow> string \<Rightarrow> probe_attempt option smtp" where
  "rcpt_probe peer provider sender label recipient =
     andThen (suppressed (issue peer Rset)) (\<lambda>_.
     andThen (try_senders peer [sender, []]) (\<lambda>ok.
       if ok then rcpt_step peer provider label recipient else ret None))"

section \<open>A session\<close>

record probe_session =
  pn_target :: "probe_attempt option"
  pn_controls :: "probe_attempt list"
  pn_degraded :: bool

text \<open>The trailing controls, until one finds no envelope.\<close>

fun probe_trailing :: "(string \<Rightarrow> string \<Rightarrow> probe_attempt option smtp) \<Rightarrow> string \<Rightarrow> nat \<Rightarrow> string list \<Rightarrow> probe_attempt list \<Rightarrow> probe_attempt list smtp" where
  "probe_trailing probe d i [] done_list = ret done_list"
| "probe_trailing probe d i (c # cs) done_list =
     andThen (probe (''control_'' @ show_nat i) (c @ ''@'' @ d)) (\<lambda>a. case a of
       None \<Rightarrow> ret done_list
     | Some attempt \<Rightarrow> probe_trailing probe d (i + 1) cs (done_list @ [attempt]))"

definition degraded :: "probe_attempt list \<Rightarrow> bool" where
  "degraded controls \<longleftrightarrow> (case controls of [] \<Rightarrow> False
     | first # later \<Rightarrow> is_present (at_class first) \<and> list_ex (\<lambda>c. is_absent (at_class c)) later)"

definition local_of :: "string \<Rightarrow> string" where
  "local_of email = (case split_last (CHR ''@'') email of Some (l, d) \<Rightarrow> l | None \<Rightarrow> email)"

definition domain_of :: "string \<Rightarrow> string" where
  "domain_of email = (case split_last (CHR ''@'') email of Some (l, d) \<Rightarrow> d | None \<Rightarrow> email)"

definition session_of :: "probe_attempt option \<Rightarrow> probe_attempt list \<Rightarrow> bool \<Rightarrow> probe_session" where
  "session_of t cs b = \<lparr>pn_target = t, pn_controls = cs, pn_degraded = b\<rparr>"

definition run_probe_session :: "smtp_peer \<Rightarrow> draws \<Rightarrow> mx_provider option \<Rightarrow> int \<Rightarrow> string \<Rightarrow> string \<Rightarrow> string \<Rightarrow> probe_session smtp" where
  "run_probe_session peer dr provider control_count sender d target_email =
     (let probe = rcpt_probe peer provider sender;
          target = probe ''target'' target_email;
          controls = dr_order dr (build_control_locals dr (local_of target_email) control_count)
      in if control_count \<le> 0 then andThen target (\<lambda>t. ret (session_of t [] False))
         else andThen (case controls of [] \<Rightarrow> ret [] | c # _ \<Rightarrow>
                andThen (probe ''control_0'' (c @ ''@'' @ d)) (\<lambda>a. ret (case a of None \<Rightarrow> [] | Some x \<Rightarrow> [x])))
           (\<lambda>leading. andThen target (\<lambda>t. case t of
              None \<Rightarrow> ret (session_of None leading False)
            | Some ta \<Rightarrow>
                if rc_verdict (at_class ta) \<noteq> MailboxPresent then ret (session_of t leading False)
                else andThen (probe_trailing probe d 1 (drop 1 controls) leading)
                       (\<lambda>all. ret (session_of t all (degraded all))))))"

end
