(* ===== verification/ProbeResult.thy ===== *)
theory ProbeResult
  imports Probe PyNumbers
begin

text \<open>
  \<^verbatim>\<open>emails/validation.py\<close>: the result of the mailbox stage, from the probes of one session, from the
  hosts of a domain in turn, or from the reply of a relay that probes on behalf of the server.
\<close>

section \<open>The result\<close>

datatype transport = Direct | MailcueTunnel | NoTransport

record control_probe =
  cp_shape :: string
  cp_code :: "int option"
  cp_response :: string
  cp_verdict :: rcpt_verdict
  cp_ms :: rat

record mailbox_result =
  mb_valid :: "bool option"
  mb_code :: "int option"
  mb_response :: "string option"
  mb_catch_all :: "bool option"
  mb_transport :: transport
  mb_reason :: "string option"
  mb_error :: "string option"
  mb_enhanced :: "string option"
  mb_host :: "string option"
  mb_target_ms :: "rat option"
  mb_control_ms :: "rat option"
  mb_probes :: "control_probe list"
  mb_accepted :: int
  mb_rejected :: int
  mb_inconclusive :: int
  mb_selective :: "bool option"
  mb_degraded :: bool
  mb_reputation :: bool

text \<open>The defaults of the schema: nothing is known.\<close>

definition no_result :: "transport \<Rightarrow> string option \<Rightarrow> string option \<Rightarrow> mailbox_result" where
  "no_result t reason err =
     \<lparr>mb_valid = None, mb_code = None, mb_response = None, mb_catch_all = None, mb_transport = t, mb_reason = reason,
      mb_error = err, mb_enhanced = None, mb_host = None, mb_target_ms = None, mb_control_ms = None, mb_probes = [],
      mb_accepted = 0, mb_rejected = 0, mb_inconclusive = 0, mb_selective = None, mb_degraded = False, mb_reputation = False\<rparr>"

section \<open>From a session\<close>

text \<open>The first \<open>n\<close> characters of a text.\<close>

fun py_take :: "nat \<Rightarrow> string \<Rightarrow> string" where
  "py_take n [] = []"
| "py_take n (c # s) =
     (if 0x80 \<le> code c \<and> code c \<le> 0xBF then c # py_take n s
      else (case n of 0 \<Rightarrow> [] | Suc k \<Rightarrow> c # py_take k s))"

definition median :: "rat list \<Rightarrow> rat" where
  "median xs = (let s = sort xs; n = length xs
                in if odd n then s ! (n div 2) else fdiv (fadd (s ! (n div 2 - 1)) (s ! (n div 2))) 2)"

definition control_probe_of :: "probe_attempt \<Rightarrow> control_probe" where
  "control_probe_of c = \<lparr>cp_shape = at_label c, cp_code = at_code c, cp_response = py_take 255 (at_message c),
     cp_verdict = rc_verdict (at_class c), cp_ms = at_ms c\<rparr>"

definition accepted_controls :: "probe_attempt list \<Rightarrow> nat" where
  "accepted_controls cs = length (filter (\<lambda>c. is_present (at_class c)) cs)"

definition rejected_controls :: "probe_attempt list \<Rightarrow> nat" where
  "rejected_controls cs = length (filter (\<lambda>c. is_absent (at_class c)) cs)"

definition mailbox_from_session :: "transport \<Rightarrow> mx_profile option \<Rightarrow> probe_session \<Rightarrow> mailbox_result" where
  "mailbox_from_session t profile session =
     (case pn_target session of
        None \<Rightarrow> no_result t (Some ''smtp_unreachable'') (Some ''Destination did not accept a probe envelope'')
      | Some target \<Rightarrow>
          (let cs = pn_controls session; deg = pn_degraded session; cls = at_class target; verdict = rc_verdict cls;
               accepted = accepted_controls cs; rejected = rejected_controls cs; total = length cs;
               selective = (if cs = [] then None
                            else if rejected > 0 \<and> \<not> deg then Some True
                            else if accepted = total then Some False else None);
               catch_all = (if verdict = MailboxAbsent then Some False
                            else if cs \<noteq> [] \<and> verdict = MailboxPresent
                            then (if accepted = total \<and> accepted > 0 then Some True
                                  else if rejected > 0 \<and> \<not> deg then Some False else None)
                            else None);
               (valid, reason, err) =
                 (case verdict of
                    MailboxPresent \<Rightarrow> (Some True, if catch_all = Some True then ''accept_all_domain'' else ''mailbox_accepted'', None)
                  | MailboxAbsent \<Rightarrow> (Some False, ''mailbox_rejected'', None)
                  | Temporary \<Rightarrow> (None, ''smtp_temporary_failure'', Some (''Temporary SMTP failure: '' @ at_message target))
                  | _ \<Rightarrow> (None, rc_reason cls, Some ''SMTP policy rejection did not prove that the mailbox is absent''))
           in \<lparr>mb_valid = valid, mb_code = at_code target, mb_response = Some (at_message target), mb_catch_all = catch_all,
               mb_transport = t, mb_reason = Some reason, mb_error = err, mb_enhanced = rc_enhanced cls,
               mb_host = Option.bind profile pf_matched, mb_target_ms = Some (at_ms target),
               mb_control_ms = (if cs = [] then None else Some (fround 2 (median (map at_ms cs)))),
               mb_probes = map control_probe_of cs, mb_accepted = int accepted, mb_rejected = int rejected,
               mb_inconclusive = int total - int accepted - int rejected, mb_selective = selective,
               mb_degraded = deg, mb_reputation = (rc_reputation cls \<or> list_ex (\<lambda>c. rc_reputation (at_class c)) cs)\<rparr>))"

section \<open>Over the hosts of a domain\<close>

record validation_settings =
  vs_probe_enabled :: bool
  vs_control_count :: int
  vs_relay_host :: string
  vs_signals_enabled :: bool
  vs_domain :: string
  vs_budget :: string

text \<open>Name resolution and the parsing of an address (its text and whether it is global) are arguments,
  as is the peer at an address.\<close>

record network =
  nw_resolve :: "string \<Rightarrow> string + string list"
  nw_address :: "string \<Rightarrow> string + (string \<times> bool)"
  nw_peer :: "string \<Rightarrow> smtp_peer"
  nw_draws :: "string \<Rightarrow> draws"

fun global_addresses :: "(string \<Rightarrow> string + (string \<times> bool)) \<Rightarrow> string list \<Rightarrow> string + string list" where
  "global_addresses ip [] = Inr []"
| "global_addresses ip (a # as) =
     (case ip a of
        Inl e \<Rightarrow> Inl e
      | Inr (txt, global) \<Rightarrow>
          (case global_addresses ip as of Inl e \<Rightarrow> Inl e | Inr rest \<Rightarrow> Inr (if global then txt # rest else rest)))"

definition resolve_public_smtp_addresses :: "network \<Rightarrow> string \<Rightarrow> string + string list" where
  "resolve_public_smtp_addresses nw host =
     (case nw_resolve nw host of Inl e \<Rightarrow> Inl e | Inr found \<Rightarrow> global_addresses (nw_address nw) found)"

text \<open>One connection: the greeting, encryption where it is offered, then the session.\<close>

definition probe_connection :: "smtp_peer \<Rightarrow> probe_session smtp \<Rightarrow> probe_session smtp" where
  "probe_connection peer session =
     andThen (issue peer Connect) (\<lambda>_.
     andThen (or_else (issue peer Ehlo) (\<lambda>_. issue peer Helo)) (\<lambda>_.
     andThen (\<lambda>sent. if pr_starttls peer sent
                then suppressed (andThen (issue peer Starttls) (\<lambda>_. suppressed (issue peer Ehlo))) sent
                else ret () sent) (\<lambda>_. session)))"

record probe_progress =
  pp_error :: "string option"
  pp_inconclusive :: "mailbox_result option"

definition session_rejected :: "mx_provider option \<Rightarrow> string \<Rightarrow> int \<Rightarrow> string \<Rightarrow> mailbox_result" where
  "session_rejected provider host n m =
     (let c = classify_rcpt_response (Some n) m provider
      in (no_result Direct (Some ''smtp_session_rejected'') (Some ''SMTP session was rejected before recipient validation''))
         \<lparr>mb_code := Some n, mb_response := Some m, mb_enhanced := rc_enhanced c, mb_reputation := rc_reputation c,
          mb_host := Some host\<rparr>)"

text \<open>The text of an error as Python shows it.\<close>

fun error_text :: "smtp_error \<Rightarrow> string" where
  "error_text (Responded n m e) = e"
| "error_text (Broken e) = e"

text \<open>The addresses of a host, until one settles the question.\<close>

fun probe_addresses :: "(string \<Rightarrow> smtp_error + probe_session) \<Rightarrow> mx_profile option \<Rightarrow> string \<Rightarrow> string list \<Rightarrow> probe_progress
    \<Rightarrow> mailbox_result + probe_progress" where
  "probe_addresses connect profile host [] pp = Inr pp"
| "probe_addresses connect profile host (a # as) pp =
     (case connect a of
        Inr session \<Rightarrow>
          (let m = mailbox_from_session Direct profile session
           in if mb_valid m \<noteq> None then Inl m
              else probe_addresses connect profile host as
                     \<lparr>pp_error = or_text (mb_error m) (pp_error pp), pp_inconclusive = Some m\<rparr>)
      | Inl e \<Rightarrow>
          probe_addresses connect profile host as
            \<lparr>pp_error = Some (error_text e),
             pp_inconclusive = (case e of Responded n m _ \<Rightarrow> Some (session_rejected (map_option pf_provider profile) host n m)
                                | Broken _ \<Rightarrow> pp_inconclusive pp)\<rparr>)"

fun probe_hosts :: "(string \<Rightarrow> string + string list) \<Rightarrow> (string \<Rightarrow> smtp_error + probe_session) \<Rightarrow> mx_profile option \<Rightarrow> string list
    \<Rightarrow> probe_progress \<Rightarrow> mailbox_result + probe_progress" where
  "probe_hosts addresses connect profile [] pp = Inr pp"
| "probe_hosts addresses connect profile (h # hs) pp =
     (case addresses h of
        Inl e \<Rightarrow> probe_hosts addresses connect profile hs (pp\<lparr>pp_error := Some e\<rparr>)
      | Inr [] \<Rightarrow> probe_hosts addresses connect profile hs
                    (pp\<lparr>pp_error := Some ''MX host does not resolve to a public IP address''\<rparr>)
      | Inr as \<Rightarrow> (case probe_addresses connect profile h as pp of
                    Inl m \<Rightarrow> Inl m
                  | Inr pp' \<Rightarrow> probe_hosts addresses connect profile hs pp'))"

definition control_count :: "validation_settings \<Rightarrow> int option \<Rightarrow> int" where
  "control_count st count = (case count of None \<Rightarrow> vs_control_count st | Some n \<Rightarrow> n)"

definition connect_to :: "network \<Rightarrow> mx_profile option \<Rightarrow> int \<Rightarrow> string \<Rightarrow> string \<Rightarrow> string \<Rightarrow> string \<Rightarrow> smtp_error + probe_session" where
  "connect_to nw profile count sender d target_email address =
     fst (probe_connection (nw_peer nw address)
            (run_probe_session (nw_peer nw address) (nw_draws nw address) (map_option pf_provider profile) count sender d target_email) [])"

definition validate_mailbox :: "validation_settings \<Rightarrow> network \<Rightarrow> string \<Rightarrow> string list \<Rightarrow> string \<Rightarrow> string \<Rightarrow> mx_profile option
    \<Rightarrow> int option \<Rightarrow> mailbox_result" where
  "validate_mailbox st nw d mx_records target_email sender profile count =
     (if \<not> vs_probe_enabled st
      then no_result NoTransport (Some ''smtp_probe_disabled'') (Some ''SMTP probe disabled by configuration'')
      else (let parsed = parse_mx_hosts mx_records; hosts = (if parsed = [] then [d] else parsed)
            in case probe_hosts (resolve_public_smtp_addresses nw)
                      (connect_to nw profile (control_count st count) sender d target_email) profile hosts
                      \<lparr>pp_error = None, pp_inconclusive = None\<rparr> of
                 Inl m \<Rightarrow> m
               | Inr pp \<Rightarrow>
                   (case pp_inconclusive pp of
                      Some m \<Rightarrow> m
                    | None \<Rightarrow> no_result Direct (Some ''smtp_unreachable'')
                        (map_option (\<lambda>e. ''SMTP connection failed: '' @ e) (or_text (pp_error pp) (Some ''No hosts resolved''))))))"

section \<open>Through a relay\<close>

text \<open>\<open>\b([a-z_]+)=([^\s]+)\<close>, every match from left to right; a later field replaces an earlier one.\<close>

definition field_name_char :: "char \<Rightarrow> bool" where
  "field_name_char c \<longleftrightarrow> (CHR ''a'' \<le> c \<and> c \<le> CHR ''z'') \<or> c = CHR ''_''"

definition field_here :: "string \<Rightarrow> ((string \<times> string) \<times> string) option" where
  "field_here s =
     (let k = takeWhile field_name_char s; r = dropWhile field_name_char s; v = takeWhile (\<lambda>c. \<not> is_space c) (tl r)
      in if k \<noteq> [] \<and> r \<noteq> [] \<and> hd r = CHR ''='' \<and> v \<noteq> [] then Some ((k, v), drop (length v) (tl r)) else None)"

lemma field_here_shorter: "field_here s = Some (kv, r) \<Longrightarrow> length r < length s"
proof -
  assume h: "field_here s = Some (kv, r)"
  have "length (dropWhile field_name_char s) \<le> length s" by (rule length_dropWhile_le)
  with h show ?thesis by (cases "dropWhile field_name_char s") (auto simp: field_here_def Let_def split: if_splits)
qed

function (sequential) probe_fields :: "bool \<Rightarrow> string \<Rightarrow> (string \<times> string) list" where
  "probe_fields after_word [] = []"
| "probe_fields after_word (c # s) =
     (case (if after_word then None else field_here (c # s)) of
        Some (kv, r) \<Rightarrow> kv # probe_fields True r
      | None \<Rightarrow> probe_fields (word_char c) s)"
  by pat_completeness auto
termination by (relation "measure (\<lambda>(b, s). length s)") (auto dest: field_here_shorter split: if_splits)

definition parse_probe_fields :: "string \<Rightarrow> string \<Rightarrow> string option" where
  "parse_probe_fields txt = map_of (rev (probe_fields False txt))"

definition probe_int :: "(string \<Rightarrow> string option) \<Rightarrow> string \<Rightarrow> int option" where
  "probe_int info key =
     (case info key of None \<Rightarrow> None | Some raw \<Rightarrow> (case py_int raw of Inl _ \<Rightarrow> None | Inr n \<Rightarrow> Some n))"

text \<open>A number too large for a double is left out, see the head of the theory.\<close>

definition probe_float :: "(string \<Rightarrow> string option) \<Rightarrow> string \<Rightarrow> rat option" where
  "probe_float info key =
     (case info key of
        None \<Rightarrow> None
      | Some raw \<Rightarrow> (case py_float raw of Inr (PFinite neg q) \<Rightarrow> Some (dbl (if neg then - q else q)) | _ \<Rightarrow> None))"

definition int_or_zero :: "int option \<Rightarrow> int" where
  "int_or_zero n = (case n of None \<Rightarrow> 0 | Some k \<Rightarrow> k)"

text \<open>What the relay did: the greeting failed, it has no such extension, the command failed, or it replied.\<close>

datatype relay_answer = RelayFails string | NoExtension | RelayReply int string

definition relay_result :: "int \<Rightarrow> string \<Rightarrow> mailbox_result" where
  "relay_result n txt =
     (let info = parse_probe_fields txt;
          total = int_or_zero (probe_int info ''controls_total'');
          accepted = int_or_zero (probe_int info ''controls_accepted'');
          rejected = int_or_zero (probe_int info ''controls_rejected'');
          deg = (info ''degraded'' = Some ''1'');
          selective = (if total = 0 then None
                       else if rejected \<noteq> 0 \<and> \<not> deg then Some True
                       else if accepted = total then Some False else None);
          (valid, catch_all, reason, err) =
            (if n = 250 then (Some True, Some False, ''mailbox_accepted'', None)
             else if n = 252 then (Some True, Some True, ''accept_all_domain'', None)
             else if n = 550 then (Some False, Some False, ''mailbox_rejected'', None)
             else (None, None, ''smtp_temporary_failure'', Some txt))
      in \<lparr>mb_valid = valid, mb_code = probe_int info ''upstream_code'', mb_response = Some txt, mb_catch_all = catch_all,
          mb_transport = MailcueTunnel, mb_reason = Some reason, mb_error = err, mb_enhanced = info ''enhanced'',
          mb_host = info ''mx'', mb_target_ms = probe_float info ''target_ms'',
          mb_control_ms = probe_float info ''control_ms'', mb_probes = [], mb_accepted = accepted, mb_rejected = rejected,
          mb_inconclusive = max (total - accepted - rejected) 0, mb_selective = selective, mb_degraded = deg,
          mb_reputation = (info ''reputation'' = Some ''1'')\<rparr>)"

definition validate_mailbox_via_tunnel :: "validation_settings \<Rightarrow> (string \<Rightarrow> string \<Rightarrow> int \<Rightarrow> relay_answer) \<Rightarrow> string \<Rightarrow> string \<Rightarrow> int option \<Rightarrow> mailbox_result" where
  "validate_mailbox_via_tunnel st relay target_email sender count =
     (if vs_relay_host st = []
      then no_result NoTransport (Some ''probe_relay_not_configured'') (Some ''MailCue validation relay is not configured'')
      else (case relay target_email sender (control_count st count) of
              RelayFails e \<Rightarrow> no_result MailcueTunnel (Some ''probe_relay_unreachable'') (Some (''MailCue validation relay failed: '' @ e))
            | NoExtension \<Rightarrow> no_result MailcueTunnel (Some ''probe_extension_unavailable'')
                (Some ''Configured validation relay does not support XMAILCUEPROBE'')
            | RelayReply n txt \<Rightarrow> relay_result n txt))"

end
