(* ===== verification/LocalPart.thy ===== *)
theory LocalPart
  imports PyFloat
begin

text \<open>
  \<^verbatim>\<open>emails/local_part.py\<close>: what the local part of an address says about its risk. The callers pass
  ASCII local parts (the syntax check admits no others); \<open>math.log2\<close> is an argument.
\<close>

section \<open>Word lists\<close>

definition ROLE_ACCOUNTS :: "string list" where
  "ROLE_ACCOUNTS =
     [''abuse'', ''accounting'', ''accounts'', ''admin'', ''administrator'', ''billing'', ''careers'', ''compliance'', ''contact'',
      ''customerservice'', ''enquiries'', ''enquiry'', ''finance'', ''help'', ''helpdesk'', ''hello'', ''hi'', ''hr'',
      ''info'', ''informacion'', ''inquiries'', ''invoice'', ''invoices'', ''it'', ''jobs'', ''legal'', ''mail'',
      ''marketing'', ''media'', ''newsletter'', ''no-reply'', ''noc'', ''noreply'', ''office'', ''operations'', ''orders'',
      ''partners'', ''payments'', ''postmaster'', ''press'', ''privacy'', ''purchasing'', ''recruitment'', ''returns'', ''sales'',
      ''security'', ''service'', ''shop'', ''support'', ''team'', ''tech'', ''webmaster'', ''welcome'']"

definition PLACEHOLDER_LOCALS :: "string list" where
  "PLACEHOLDER_LOCALS =
     [''a'', ''aa'', ''aaa'', ''abc'', ''asdf'', ''asdfasdf'', ''demo'', ''dummy'', ''email'',
      ''emailaddress'', ''example'', ''fake'', ''firstname'', ''foo'', ''foobar'', ''name'', ''none'', ''null'',
      ''qwerty'', ''sample'', ''test'', ''test1'', ''test123'', ''testing'', ''tester'', ''unknown'', ''user'',
      ''username'', ''x'', ''xx'', ''xxx'', ''you'', ''your'', ''yourname'', ''youremail'', ''zzz'']"

definition TRAP_MARKERS :: "string list" where
  "TRAP_MARKERS =
     [''spamtrap'', ''honeypot'', ''abuse'', ''postmaster'', ''spam'']"

section \<open>Shape\<close>

datatype local_shape = Dotted | Underscored | Hyphenated | SingleToken | TokenWithDigits | InitialPrefixed | Opaque

definition token_separator :: "char \<Rightarrow> bool" where
  "token_separator c \<longleftrightarrow> c \<in> set ''._-+''"

fun tokens_of :: "string \<Rightarrow> string \<Rightarrow> string list" where
  "tokens_of acc [] = (if acc = [] then [] else [rev acc])"
| "tokens_of acc (c # s) =
     (if token_separator c then (if acc = [] then tokens_of [] s else rev acc # tokens_of [] s)
      else tokens_of (c # acc) s)"

definition tokens :: "string \<Rightarrow> string list" where
  "tokens s = tokens_of [] s"

definition compact :: "string \<Rightarrow> string" where
  "compact s = filter (\<lambda>c. \<not> token_separator c) s"

definition strip_plus_tag :: "string \<Rightarrow> string \<times> bool" where
  "strip_plus_tag s = (if CHR ''+'' \<in> set s then (takeWhile (\<lambda>c. c \<noteq> CHR ''+'') s, True) else (s, False))"

definition shape_of :: "string \<Rightarrow> local_shape \<times> nat" where
  "shape_of s =
     (let ts = tokens s; n = length ts
      in if CHR ''.'' \<in> set s \<and> 2 \<le> n then (Dotted, n)
         else if CHR ''_'' \<in> set s \<and> 2 \<le> n then (Underscored, n)
         else if CHR ''-'' \<in> set s \<and> 2 \<le> n then (Hyphenated, n)
         else if n = 1
         then (let t = hd ts
               in if list_ex is_digit t \<and> list_ex is_alpha t then (TokenWithDigits, n)
                  else if list_all is_alpha t then (SingleToken, n) else (Opaque, n))
         else (Opaque, max n 1))"

section \<open>Likeness to a name\<close>

definition vowel :: "char \<Rightarrow> bool" where
  "vowel c \<longleftrightarrow> c \<in> set ''aeiouy''"

fun longest_run :: "nat \<Rightarrow> nat \<Rightarrow> string \<Rightarrow> nat" where
  "longest_run current best [] = best"
| "longest_run current best (c # s) =
     (if vowel c then longest_run 0 best s else longest_run (Suc current) (max best (Suc current)) s)"

definition hex_only :: "string \<Rightarrow> bool" where
  "hex_only s \<longleftrightarrow> s \<noteq> [] \<and> list_all (\<lambda>c. is_digit c \<or> c \<in> set ''abcdef'') s"

definition entropy :: "(rat \<Rightarrow> rat) \<Rightarrow> string \<Rightarrow> rat" where
  "entropy log2 s =
     (let share = (\<lambda>c. dbl (of_nat (length (filter ((=) c) s)) / of_nat (length s)))
      in - fsum (map (\<lambda>c. fmul (share c) (log2 (share c))) (rev (remdups (rev s)))))"

definition gibberish_score :: "(rat \<Rightarrow> rat) \<Rightarrow> string \<Rightarrow> rat" where
  "gibberish_score log2 s =
     (let letters = filter is_alpha s; packed = compact s
      in if length s < 4 then 0
         else if letters = [] then 1
         else
           (let ratio = dbl (of_nat (length (filter vowel letters)) / of_nat (length letters));
                s1 = (if ratio < dbl (20 / 100) then dbl (35 / 100)
                      else if ratio < dbl (28 / 100) then dbl (15 / 100)
                      else if ratio > dbl (75 / 100) then dbl (20 / 100) else 0);
                run = longest_run 0 0 letters;
                s2 = (if 6 \<le> run then fadd s1 (dbl (30 / 100)) else if 5 \<le> run then fadd s1 (dbl (15 / 100)) else s1);
                s3 = (if 12 \<le> length packed \<and> hex_only packed then fadd s2 (dbl (45 / 100)) else s2);
                s4 = (if 16 \<le> length packed \<and> CHR ''.'' \<notin> set s \<and> CHR ''_'' \<notin> set s then fadd s3 (dbl (15 / 100)) else s3);
                s5 = (if packed \<noteq> [] \<and> entropy log2 packed > dbl (39 / 10) \<and> 10 \<le> length packed
                      then fadd s4 (dbl (20 / 100)) else s4)
            in min s5 1))"

section \<open>Signals\<close>

record local_signals =
  lp_local_part :: string
  lp_normalized :: string
  lp_shape :: local_shape
  lp_role :: bool
  lp_role_name :: "string option"
  lp_placeholder :: bool
  lp_trap :: bool
  lp_plus_tag :: bool
  lp_gibberish :: rat
  lp_digit_ratio :: rat
  lp_tokens :: nat
  lp_delta :: rat
  lp_notes :: "string list"

type_synonym weight = "rat \<times> string list"

definition weigh :: "bool \<Rightarrow> rat \<Rightarrow> string \<Rightarrow> weight \<Rightarrow> weight" where
  "weigh applies delta note w = (if applies then (fadd (fst w) (dbl delta), snd w @ [note]) else w)"

definition analyze_local_part :: "(rat \<Rightarrow> rat) \<Rightarrow> string \<Rightarrow> local_signals" where
  "analyze_local_part log2 local_part =
     (let raw = strip local_part; (normalized, plus_tag) = strip_plus_tag (lower raw);
          (shape, token_count) = shape_of normalized; packed = compact normalized;
          digit_ratio = (if normalized = [] then 0
            else dbl (of_nat (length (filter is_digit normalized)) / of_nat (length normalized)));
          role = normalized \<in> set ROLE_ACCOUNTS \<or> packed \<in> set ROLE_ACCOUNTS;
          placeholder = normalized \<in> set PLACEHOLDER_LOCALS \<or> packed \<in> set PLACEHOLDER_LOCALS;
          trap = list_ex (\<lambda>m. contains m packed) TRAP_MARKERS;
          gibberish = gibberish_score log2 normalized;
          (delta, notes) =
            weigh (length normalized \<le> 2 \<and> \<not> role) (9 / 10) ''Local part is unusually short.''
            (weigh (shape = Dotted \<and> token_count = 2 \<and> gibberish < dbl (35 / 100)) (- 35 / 100) ''Conventional first.last shape.''
            (weigh plus_tag (3 / 10) ''Sub-addressed local parts are frequently list artefacts.''
            (weigh (digit_ratio > 1 / 2 \<and> 6 \<le> length normalized) (8 / 10) ''Local part is mostly digits.''
            (weigh (gibberish < dbl (60 / 100) \<and> gibberish \<ge> dbl (35 / 100)) (7 / 10) ''Local part is only weakly name-like.''
            (weigh (gibberish \<ge> dbl (60 / 100)) (16 / 10) ''Local part looks machine-generated rather than name-like.''
            (weigh (trap \<and> \<not> role) (12 / 10) ''Local part resembles a spam trap or monitoring address.''
            (weigh placeholder (22 / 10) ''Local part is a placeholder rather than a person.''
            (weigh role (- 9 / 10) (''Role account '' @ quoted normalized @ '' is usually routed on an accept-all domain.'')
            (0, [])))))))))
      in \<lparr>lp_local_part = raw, lp_normalized = normalized, lp_shape = shape, lp_role = role,
          lp_role_name = (if role then Some normalized else None), lp_placeholder = placeholder, lp_trap = trap,
          lp_plus_tag = plus_tag, lp_gibberish = fround 3 gibberish, lp_digit_ratio = fround 3 digit_ratio,
          lp_tokens = token_count, lp_delta = fround 3 delta, lp_notes = notes\<rparr>)"

section \<open>Evidence of a batch\<close>

definition base_of :: "string \<Rightarrow> string" where
  "base_of s = fst (strip_plus_tag (lower (strip s)))"

text \<open>The first of the keys with the greatest count, in the order of their first occurrence.\<close>

fun most_common :: "('k \<Rightarrow> nat) \<Rightarrow> 'k list \<Rightarrow> 'k option" where
  "most_common count [] = None"
| "most_common count (k # ks) =
     (case most_common count ks of None \<Rightarrow> Some k | Some l \<Rightarrow> if count k \<ge> count l then Some k else Some l)"

definition dominant_shape :: "string list \<Rightarrow> local_shape option \<times> rat" where
  "dominant_shape local_parts =
     (let bases = filter (\<lambda>b. b \<noteq> []) (map base_of local_parts); shapes = map (\<lambda>b. fst (shape_of b)) bases;
          count = (\<lambda>s. length (filter ((=) s) shapes))
      in case most_common count (rev (remdups (rev shapes))) of
           None \<Rightarrow> (None, 0)
         | Some s \<Rightarrow> (Some s, dbl (of_nat (count s) / of_nat (length bases))))"

definition name_tokens :: "string \<Rightarrow> string list" where
  "name_tokens s = tokens (filter (\<lambda>c. \<not> is_digit c) s)"

definition surname_of :: "string \<Rightarrow> string option" where
  "surname_of base =
     (case most_common length (name_tokens base) of
        None \<Rightarrow> None
      | Some t \<Rightarrow> if length (concat (name_tokens base)) < 4 \<or> length t < 4 then None else Some t)"

definition permutation_clusters :: "string list \<Rightarrow> string set" where
  "permutation_clusters local_parts =
     (let bases = map base_of local_parts
      in set (filter (\<lambda>b. surname_of b \<noteq> None \<and> list_ex (\<lambda>c. c \<noteq> b \<and> surname_of c = surname_of b) bases) bases))"

text \<open>The variant of the example in the source that is written in one word is not found.\<close>

lemma one_word_variant_missed:
  "permutation_clusters [''j.smith'', ''jsmith'', ''john.smith''] = {''j.smith'', ''john.smith''}"
  by code_simp

end
