(* ===== verification/DomainSignals.thy ===== *)
theory DomainSignals
  imports PyFloat SmtpCodes "HOL-Library.AList"
begin

text \<open>
  \<^verbatim>\<open>emails/domain_signals.py\<close> and \<^verbatim>\<open>emails/disposable.py\<close>: what the DNS and the registry say about a
  recipient domain, and the list of throw-away domains. The answers of the DNS, the reply of the
  registry (JSON), the reading of ISO dates, the clock and the downloads are arguments.
\<close>

section \<open>Passive signals\<close>

record domain_signals =
  ds_domain :: string
  ds_age_days :: "int option"
  ds_registered :: "time option"
  ds_expires :: "time option"
  ds_expires_in_days :: "int option"
  ds_has_spf :: bool
  ds_spf_record :: "string option"
  ds_has_dmarc :: bool
  ds_dmarc_policy :: "string option"
  ds_has_mta_sts :: bool
  ds_has_tls_rpt :: bool
  ds_wildcard :: bool
  ds_parked :: bool
  ds_backend :: "string option"
  ds_delta :: rat
  ds_notes :: "string list"

definition no_signals :: "string \<Rightarrow> domain_signals" where
  "no_signals d = \<lparr>ds_domain = d, ds_age_days = None, ds_registered = None, ds_expires = None, ds_expires_in_days = None,
     ds_has_spf = False, ds_spf_record = None, ds_has_dmarc = False, ds_dmarc_policy = None, ds_has_mta_sts = False,
     ds_has_tls_rpt = False, ds_wildcard = False, ds_parked = False, ds_backend = None, ds_delta = 0, ds_notes = []\<rparr>"

definition PARKING_NAMESERVERS :: "string list" where
  "PARKING_NAMESERVERS =
     [''sedoparking.com'', ''parkingcrew.net'', ''bodis.com'', ''above.com'', ''afternic.com'',
      ''dan.com'', ''undeveloped.com'', ''sav.com'', ''parklogic.com'', ''parkingpanel.com'',
      ''voodoo.com'', ''domaincntrol.com'', ''fabulous.com'']"

definition BACKEND_SPF_HINTS :: "(string \<times> string) list" where
  "BACKEND_SPF_HINTS =
     [(''spf.protection.outlook.com'', ''microsoft365''),
      (''protection.office365.us'', ''microsoft365''),
      (''_spf.google.com'', ''google_workspace''),
      (''spf.zoho.com'', ''zoho''),
      (''spf.messagingengine.com'', ''fastmail''),
      (''_spf.protonmail.ch'', ''proton''),
      (''spf.mail.yandex.net'', ''yandex''),
      (''amazonses.com'', ''amazon_workmail'')]"

text \<open>\<open>\bp\s*=\s*(none|quarantine|reject)\b\<close>, without regard to case.\<close>

definition policy_here :: "string \<Rightarrow> string option" where
  "policy_here s =
     (case lower s of
        c # r \<Rightarrow>
          (case dropWhile is_space r of
             e # r2 \<Rightarrow>
               (let v = dropWhile is_space r2
                in if c = CHR ''p'' \<and> e = CHR ''=''
                   then find (\<lambda>p. prefix p v \<and> boundary_at (drop (length p) v)) [''none'', ''quarantine'', ''reject'']
                   else None)
           | [] \<Rightarrow> None)
      | [] \<Rightarrow> None)"

definition dmarc_policy :: "string \<Rightarrow> string option" where
  "dmarc_policy txt = search_here policy_here False txt"

text \<open>The dates of an RDAP reply; \<open>read_iso\<close> reads a date, without zone as UTC.\<close>

definition parse_rdap_timestamp :: "(string \<Rightarrow> time option) \<Rightarrow> string \<Rightarrow> time option" where
  "parse_rdap_timestamp read_iso v =
     (let t = strip v in read_iso (if suffix ''Z'' t then butlast t @ ''+00:00'' else t))"

fun rdap_events :: "(json \<Rightarrow> string) \<Rightarrow> (string \<Rightarrow> time option) \<Rightarrow> json list \<Rightarrow> time option \<times> time option
    \<Rightarrow> (time option \<times> time option) result" where
  "rdap_events rp read_iso [] found = Inr found"
| "rdap_events rp read_iso (JObj ev # es) (registered, expires) =
     (case dict_get ev ''eventDate'' of
        Some (JStr stamp) \<Rightarrow>
          (let action = lower (py_str rp (dict_get_default ev ''eventAction'' (JStr [])))
           in case parse_rdap_timestamp read_iso stamp of
                None \<Rightarrow> rdap_events rp read_iso es (registered, expires)
              | Some t \<Rightarrow> rdap_events rp read_iso es
                  (if action = ''registration'' \<and> registered = None then (Some t, expires)
                   else if action = ''expiration'' \<and> expires = None then (registered, Some t) else (registered, expires)))
      | _ \<Rightarrow> rdap_events rp read_iso es (registered, expires))"
| "rdap_events rp read_iso (_ # es) found = Inl (OtherExc ''AttributeError'')"

definition rdap_dates :: "(json \<Rightarrow> string) \<Rightarrow> (string \<Rightarrow> time option) \<Rightarrow> json \<Rightarrow> (time option \<times> time option) result" where
  "rdap_dates rp read_iso payload =
     (case payload of
        JObj d \<Rightarrow>
          (let events = dict_get_default d ''events'' (JArr [])
           in if \<not> json_truthy events then Inr (None, None)
              else (case events of
                      JArr es \<Rightarrow> rdap_events rp read_iso es (None, None)
                    | JStr _ \<Rightarrow> Inl (OtherExc ''AttributeError'')
                    | JObj _ \<Rightarrow> Inl (OtherExc ''AttributeError'')
                    | _ \<Rightarrow> Inl (OtherExc ''TypeError'')))
      | _ \<Rightarrow> Inl (OtherExc ''AttributeError''))"

record domain_answers =
  da_spf :: "string list result"
  da_dmarc :: "string list result"
  da_mta_sts :: "string list result"
  da_tls_rpt :: "string list result"
  da_ns :: "string list result"
  da_wildcard :: "bool result"
  da_rdap :: "(time option \<times> time option) result"

definition starts :: "string \<Rightarrow> string \<Rightarrow> bool" where
  "starts tag r \<longleftrightarrow> prefix tag (lower r)"

definition spf_signals :: "string list \<Rightarrow> domain_signals \<Rightarrow> domain_signals" where
  "spf_signals txt s =
     (case find (starts ''v=spf1'') txt of
        None \<Rightarrow> s
      | Some r \<Rightarrow> s\<lparr>ds_has_spf := True, ds_spf_record := Some (take 512 r),
          ds_backend := map_option snd (find (\<lambda>(hint, b). contains hint (lower r)) BACKEND_SPF_HINTS)\<rparr>)"

definition dmarc_signals :: "string list \<Rightarrow> domain_signals \<Rightarrow> domain_signals" where
  "dmarc_signals txt s =
     (case find (starts ''v=dmarc1'') txt of
        None \<Rightarrow> s
      | Some r \<Rightarrow> s\<lparr>ds_has_dmarc := True, ds_dmarc_policy := dmarc_policy r\<rparr>)"

definition parked_by :: "string list \<Rightarrow> bool" where
  "parked_by targets \<longleftrightarrow>
     list_ex (\<lambda>ns. list_ex (\<lambda>p. suffix p ns \<or> ns = p) PARKING_NAMESERVERS)
       (map (\<lambda>t. lower (rstrip_by (\<lambda>c. c = CHR ''.'') t)) targets)"

definition whole_days :: "time \<Rightarrow> int" where
  "whole_days t = t div seconds 86400"

definition note_if :: "bool \<Rightarrow> rat \<Rightarrow> string \<Rightarrow> rat \<times> string list \<Rightarrow> rat \<times> string list" where
  "note_if applies delta note w =
     (if applies then (if delta = 0 then fst w else fadd (fst w) (dbl delta), snd w @ [note]) else w)"

definition score_age :: "domain_signals \<Rightarrow> rat \<times> string list \<Rightarrow> rat \<times> string list" where
  "score_age s w =
     (case ds_age_days s of
        None \<Rightarrow> w
      | Some a \<Rightarrow>
          if a < 30 then note_if True (14 / 10) (''Domain was registered '' @ show_int a @ '' days ago.'') w
          else if a < 180 then note_if True (6 / 10) (''Domain is '' @ show_int a @ '' days old.'') w
          else note_if (a > 3650) (- 2 / 10) ''Domain has been registered for over ten years.'' w)"

definition score_expiry :: "domain_signals \<Rightarrow> rat \<times> string list \<Rightarrow> rat \<times> string list" where
  "score_expiry s w =
     (case ds_expires_in_days s of
        None \<Rightarrow> w
      | Some n \<Rightarrow> note_if (n < 30) (8 / 10) (''Domain registration expires in '' @ show_int n @ '' days.'') w)"

definition score_signals :: "domain_signals \<Rightarrow> domain_signals" where
  "score_signals s =
     (let (delta, notes) =
            (let w1 = note_if (ds_parked s) (25 / 10) ''Domain uses parking nameservers.'' (0, []);
                 w2 = score_expiry s (score_age s w1);
                 w3 = note_if (\<not> ds_has_spf s) (6 / 10) ''Domain publishes no SPF record.'' w2;
                 w4 = note_if (ds_has_dmarc s) 0 ''Domain publishes DMARC.'' w3;
                 w5 = note_if (ds_has_mta_sts s) 0 ''Domain publishes MTA-STS.'' w4;
                 w6 = note_if (ds_wildcard s \<and> \<not> ds_has_dmarc s) (3 / 10) ''Domain resolves wildcard hostnames.'' w5
             in case ds_backend s of
                  None \<Rightarrow> w6
                | Some b \<Rightarrow> note_if (b \<noteq> []) 0 (''SPF indicates a '' @ b @ '' mailbox backend.'') w6)
      in s\<lparr>ds_delta := fround 3 delta, ds_notes := notes\<rparr>)"

text \<open>The exception of any lookup is raised when its result is read.\<close>

definition collect :: "time \<Rightarrow> domain_answers \<Rightarrow> string \<Rightarrow> domain_signals result" where
  "collect now a d =
     bind_res (da_spf a) (\<lambda>spf.
     bind_res (da_dmarc a) (\<lambda>dmarc.
     bind_res (da_mta_sts a) (\<lambda>sts.
     bind_res (da_tls_rpt a) (\<lambda>tls.
     bind_res (da_ns a) (\<lambda>ns.
     bind_res (da_wildcard a) (\<lambda>wildcard.
     bind_res (da_rdap a) (\<lambda>(registered, expires).
     Inr (score_signals ((dmarc_signals dmarc (spf_signals spf (no_signals d)))
       \<lparr>ds_has_mta_sts := list_ex (starts ''v=stsv1'') sts, ds_has_tls_rpt := list_ex (starts ''v=tlsrptv1'') tls,
        ds_wildcard := wildcard, ds_parked := parked_by ns, ds_registered := registered, ds_expires := expires,
        ds_age_days := map_option (\<lambda>r. max (whole_days (now - r)) 0) registered,
        ds_expires_in_days := map_option (\<lambda>e. whole_days (e - now)) expires\<rparr>)))))))))"

section \<open>The cache\<close>

type_synonym signal_cache = "(string \<times> (rat \<times> domain_signals)) list"

text \<open>\<open>answer\<close> is what the lookups within the time limit yield; \<open>clock\<close> is the monotonic clock.\<close>

definition collect_domain_signals :: "rat \<Rightarrow> (string \<Rightarrow> domain_signals result) \<Rightarrow> string \<Rightarrow> signal_cache
    \<Rightarrow> domain_signals \<times> signal_cache" where
  "collect_domain_signals clock answer d cache =
     (let key = lower (strip d)
      in if key = [] then (no_signals key, cache)
         else (let fresh = (let s = (case answer key of Inl _ \<Rightarrow> no_signals key | Inr s \<Rightarrow> s)
                 in (s, AList.update key (clock + 3600, s) (if length cache \<ge> 4096 then [] else cache)))
               in case map_of cache key of
                    Some (expiry, s) \<Rightarrow> if expiry > clock then (s, cache) else fresh
                  | None \<Rightarrow> fresh))"

text \<open>The test for parking name servers does not stop at a label: any host whose name ends with the letters
  of one is taken for parking.\<close>

lemma parked_by_accident:
  "parked_by [''ns1.jordan.com.''] \<and> \<not> parked_by [''ns1.jordan.org.'']"
  by code_simp

section \<open>Throw-away domains\<close>

definition FALLBACK_DOMAINS :: "string list" where
  "FALLBACK_DOMAINS =
     [''mailinator.com'', ''yopmail.com'', ''yopmail.net'', ''yopmail.fr'', ''guerrillamail.com'',
      ''guerrillamail.net'', ''guerrillamail.org'', ''guerrillamail.biz'', ''guerrillamail.co'', ''guerrillamail.info'',
      ''guerrillamail.me'', ''guerrillamail.mobi'', ''guerrillamail.to'', ''guerrillamailblock.com'', ''10minutemail.com'',
      ''10minutemail.net'', ''10minutemail.co'', ''10minutemail.co.uk'', ''tempmail.com'', ''tempmail.net'',
      ''tempmail.co'', ''tempmail.live'', ''tempmail.plus'', ''temp-mail.org'', ''temp-mail.io'',
      ''temp-mail.ru'', ''trashmail.com'', ''sharklasers.com'', ''getairmail.com'', ''mailnesia.com'',
      ''maildrop.cc'', ''maildrop.org.ua'', ''dispostable.com'', ''mintemail.com'', ''slipry.net'',
      ''mytrashmail.com'', ''fakeinbox.com'', ''generator.email'', ''tempmailaddress.com'', ''throwawaymail.com'',
      ''mailcatch.com'', ''tempail.com'', ''fastmail.wtf'', ''spam4.me'', ''grr.la'',
      ''mailnull.com'', ''dropmail.me'', ''10minemail.com'', ''crazymailing.com'', ''boun.cr'',
      ''mailexpire.com'', ''discard.email'', ''jetable.org'', ''safetymail.info'', ''maildu.de'',
      ''incognitomail.com'', ''temp-mailbox.com'', ''disposablemail.com'', ''emailondeck.com'', ''burnermail.io'']"

definition FORWARDING_ALIAS_DOMAINS :: "string list" where
  "FORWARDING_ALIAS_DOMAINS =
     [''anonaddy.com'', ''anonaddy.me'', ''duck.com'', ''mozmail.com'']"

definition listed_domains :: "string list \<Rightarrow> string list" where
  "listed_domains lines =
     map lower (filter (\<lambda>l. l \<noteq> [] \<and> hd l \<noteq> CHR 0x23) (map strip lines))"

text \<open>The lines of the cached file, if it exists and can be read.\<close>

definition load_cached_domains :: "string list option \<Rightarrow> string list" where
  "load_cached_domains cached =
     (case cached of
        None \<Rightarrow> FALLBACK_DOMAINS
      | Some lines \<Rightarrow> if listed_domains lines = [] then FALLBACK_DOMAINS else listed_domains lines)"

text \<open>A download takes effect when it is not empty and can be written.\<close>

definition update_disposable_domains :: "string list option \<Rightarrow> bool \<Rightarrow> string list \<Rightarrow> string list" where
  "update_disposable_domains download writable loaded =
     (case download of
        None \<Rightarrow> loaded
      | Some lines \<Rightarrow> if listed_domains lines \<noteq> [] \<and> writable then listed_domains lines else loaded)"

definition is_disposable_domain :: "string list \<Rightarrow> string \<Rightarrow> bool" where
  "is_disposable_domain loaded d \<longleftrightarrow>
     (let n = lower (strip d) in n \<notin> set FORWARDING_ALIAS_DOMAINS \<and> n \<in> set loaded)"

definition is_forwarding_alias_domain :: "string \<Rightarrow> bool" where
  "is_forwarding_alias_domain d \<longleftrightarrow> lower (strip d) \<in> set FORWARDING_ALIAS_DOMAINS"

end
