(* ===== verification/Validate.thy ===== *)
theory Validate
  imports ProbeResult LocalPart DomainSignals
begin

text \<open>
  \<^verbatim>\<open>emails/validation.py\<close>, \<open>validate_email_detailed\<close>: the stages of one validation put together,
  from the syntax to the verdict, and the evidence handed to the risk model.
\<close>

section \<open>The response\<close>

datatype validation_status = StValid | StInvalid | StUndetermined | StDisposable | StCatchAll

datatype verdict = Deliverable | Undeliverable | Risky | VerdictUnknown

record provider_info =
  pi_provider :: mx_provider
  pi_matched :: "string option"
  pi_backend :: "string option"

record validation_response =
  vr_email :: string
  vr_valid :: bool
  vr_status :: validation_status
  vr_verdict :: verdict
  vr_deliverable :: "bool option"
  vr_confidence :: rat
  vr_reason :: string
  vr_syntax :: syntax_result
  vr_dns :: dns_result
  vr_mailbox :: mailbox_result
  vr_disposable :: "bool \<times> bool"
  vr_provider :: "provider_info option"
  vr_local_part :: "local_signals option"
  vr_signals :: "domain_signals option"

record validation_outcome =
  vo_response :: validation_response
  vo_profile :: "mx_profile option"
  vo_probe :: "probe_evidence option"
  vo_local :: "rat \<times> string list"
  vo_domain :: "rat \<times> string list"

definition no_dns :: "string \<Rightarrow> dns_result" where
  "no_dns e = \<lparr>dn_valid = False, dn_has_mx = False, dn_has_ns = False, dn_has_a = False, dn_has_aaaa = False, dn_null_mx = False,
     dn_mx = [], dn_ns = [], dn_a = [], dn_aaaa = [], dn_status = DnsInvalid, dn_error_code = None, dn_error = Some e\<rparr>"

definition provider_schema :: "mx_profile \<Rightarrow> string option \<Rightarrow> provider_info" where
  "provider_schema p backend = \<lparr>pi_provider = pf_provider p, pi_matched = pf_matched p, pi_backend = backend\<rparr>"

definition probe_evidence_of :: "mailbox_result \<Rightarrow> probe_evidence" where
  "probe_evidence_of m =
     \<lparr>pe_accepted = mb_valid m, pe_total = mb_accepted m + mb_rejected m + mb_inconclusive m,
      pe_control_accepted = mb_accepted m, pe_rejected = (if mb_degraded m then 0 else mb_rejected m),
      pe_inconclusive = mb_inconclusive m, pe_target_ms = mb_target_ms m, pe_control_ms = mb_control_ms m,
      pe_reputation = mb_reputation m\<rparr>"

section \<open>The stages\<close>

text \<open>What the validation asks of the world: the codec, the DNS, the binary logarithm, the list of throw-away
  domains, the signals of a domain, the network, the relay, and whether the budget of time ran out.\<close>

record world =
  wd_idna :: "string \<Rightarrow> string + string"
  wd_dns :: "string \<Rightarrow> dns_lookups"
  wd_log2 :: "rat \<Rightarrow> rat"
  wd_disposable :: "string list"
  wd_signals :: "string \<Rightarrow> domain_signals"
  wd_network :: network
  wd_relay :: "string \<Rightarrow> string \<Rightarrow> int \<Rightarrow> relay_answer"
  wd_timeout :: bool

definition provider_id_for_domain :: "world \<Rightarrow> string \<Rightarrow> string option" where
  "provider_id_for_domain w d =
     (let r = validate_dns (wd_idna w) (wd_dns w) d
      in if dn_mx r = [] then None else Some (mx_id (pf_provider (classify_mx (parse_mx_hosts (dn_mx r)) d))))"

definition syntax_outcome :: "string \<Rightarrow> syntax_result \<Rightarrow> validation_outcome" where
  "syntax_outcome email sx =
     \<lparr>vo_response = \<lparr>vr_email = email, vr_valid = False, vr_status = StInvalid, vr_verdict = Undeliverable,
        vr_deliverable = Some False, vr_confidence = 1, vr_reason = ''invalid_syntax'', vr_syntax = sx,
        vr_dns = no_dns ''Syntax validation failed'', vr_mailbox = no_result NoTransport None (Some ''Syntax validation failed''),
        vr_disposable = (False, False), vr_provider = None, vr_local_part = None, vr_signals = None\<rparr>,
      vo_profile = None, vo_probe = None, vo_local = (0, []), vo_domain = (0, [])\<rparr>"

definition dns_outcome :: "string \<Rightarrow> syntax_result \<Rightarrow> dns_result \<Rightarrow> bool \<times> bool \<Rightarrow> local_signals \<Rightarrow> validation_outcome" where
  "dns_outcome email sx dns disposable ls =
     \<lparr>vo_response = \<lparr>vr_email = email, vr_valid = False,
        vr_status = (if fst disposable then StDisposable else if dn_status dns = DnsUndetermined then StUndetermined else StInvalid),
        vr_verdict = (if fst disposable then Risky else if dn_status dns = DnsUndetermined then VerdictUnknown else Undeliverable),
        vr_deliverable = (if dn_status dns = DnsUndetermined then None else Some False),
        vr_confidence = (if dn_status dns = DnsInvalid then dbl (95 / 100) else dbl (2 / 10)),
        vr_reason = (case dn_error_code dns of None \<Rightarrow> ''dns_validation_failed'' | Some c \<Rightarrow> if c = [] then ''dns_validation_failed'' else c),
        vr_syntax = sx, vr_dns = dns, vr_mailbox = no_result NoTransport None (Some ''DNS validation failed''),
        vr_disposable = disposable, vr_provider = None, vr_local_part = Some ls, vr_signals = None\<rparr>,
      vo_profile = None, vo_probe = None, vo_local = (lp_delta ls, lp_notes ls), vo_domain = (0, [])\<rparr>"

text \<open>The verdict drawn from the mailbox stage.\<close>

record conclusion =
  cn_valid :: bool
  cn_status :: validation_status
  cn_verdict :: verdict
  cn_deliverable :: "bool option"
  cn_confidence :: rat
  cn_reason :: string

definition conclude :: "bool \<Rightarrow> mailbox_result \<Rightarrow> conclusion" where
  "conclude disposable m =
     (let because = (\<lambda>fallback. case mb_reason m of None \<Rightarrow> fallback | Some r \<Rightarrow> if r = [] then fallback else r);
          answer = (\<lambda>v s e d c r. \<lparr>cn_valid = v, cn_status = s, cn_verdict = e, cn_deliverable = d, cn_confidence = c, cn_reason = r\<rparr>)
      in if disposable then answer False StDisposable Risky (mb_valid m) (dbl (8 / 10)) ''disposable_domain''
         else if mb_valid m = Some False
         then answer False StInvalid Undeliverable (Some False) (dbl (98 / 100)) (because ''mailbox_accepted'')
         else if mb_catch_all m = Some True then answer True StCatchAll Risky None (dbl (5 / 10)) ''accept_all_domain''
         else if mb_valid m = None then answer False StUndetermined VerdictUnknown None (dbl (2 / 10)) (because ''smtp_unknown'')
         else answer True StValid Deliverable (Some True)
                (if mb_selective m = Some True then dbl (97 / 100) else dbl (95 / 100)) (because ''mailbox_accepted''))"

definition mailbox_stage :: "world \<Rightarrow> validation_settings \<Rightarrow> string \<Rightarrow> string list \<Rightarrow> string \<Rightarrow> mx_profile \<Rightarrow> int option \<Rightarrow> mailbox_result" where
  "mailbox_stage w st d mx_records email profile count =
     (let sender = ''validate-probe@'' @ vs_domain st; tunnel = (vs_relay_host st \<noteq> [])
      in if wd_timeout w
         then no_result (if tunnel then MailcueTunnel else Direct) (Some ''smtp_probe_timeout'')
                (Some (''Mailbox validation exceeded the '' @ vs_budget st @ ''-second probe budget''))
         else if tunnel then validate_mailbox_via_tunnel st (wd_relay w) email sender count
         else validate_mailbox st (wd_network w) d mx_records email sender (Some profile) count)"

definition final_outcome :: "string \<Rightarrow> syntax_result \<Rightarrow> dns_result \<Rightarrow> bool \<times> bool \<Rightarrow> local_signals \<Rightarrow> mx_profile
    \<Rightarrow> domain_signals option \<Rightarrow> mailbox_result \<Rightarrow> validation_outcome" where
  "final_outcome email sx dns disposable ls profile ds m =
     (let c = conclude (fst disposable) m
      in \<lparr>vo_response = \<lparr>vr_email = email, vr_valid = cn_valid c, vr_status = cn_status c, vr_verdict = cn_verdict c,
            vr_deliverable = cn_deliverable c, vr_confidence = cn_confidence c, vr_reason = cn_reason c, vr_syntax = sx,
            vr_dns = dns, vr_mailbox = m, vr_disposable = disposable,
            vr_provider = Some (provider_schema profile (Option.bind ds ds_backend)),
            vr_local_part = Some ls, vr_signals = ds\<rparr>,
          vo_profile = Some profile, vo_probe = Some (probe_evidence_of m), vo_local = (lp_delta ls, lp_notes ls),
          vo_domain = (case ds of None \<Rightarrow> (0, []) | Some s \<Rightarrow> (ds_delta s, ds_notes s))\<rparr>)"

definition validate_email_detailed :: "world \<Rightarrow> validation_settings \<Rightarrow> bool \<Rightarrow> int option \<Rightarrow> string \<Rightarrow> validation_outcome" where
  "validate_email_detailed w st collect_signals count raw =
     (let email = strip raw; sx = validate_syntax (wd_idna w) email
      in case sx_domain sx of
           None \<Rightarrow> syntax_outcome email sx
         | Some d \<Rightarrow>
             if \<not> sx_valid sx \<or> d = [] then syntax_outcome email sx
             else (let disposable = (is_disposable_domain (wd_disposable w) d, is_forwarding_alias_domain d);
                       ls = analyze_local_part (wd_log2 w) (case sx_local_part sx of None \<Rightarrow> [] | Some l \<Rightarrow> l);
                       dns = validate_dns (wd_idna w) (wd_dns w) d
                   in if \<not> dn_valid dns then dns_outcome email sx dns disposable ls
                      else (let profile = classify_mx (parse_mx_hosts (dn_mx dns)) d;
                                ds = (if collect_signals \<and> vs_signals_enabled st then Some (wd_signals w d) else None);
                                m = mailbox_stage w st d (dn_mx dns) email profile count
                            in final_outcome email sx dns disposable ls profile ds m)))"

end
