(* ===== verification/ProbeProps.thy ===== *)
theory ProbeProps
  imports Validate
begin

text \<open>
  What the mailbox stage observes is what the peer said: every verdict rests on a reply to RCPT TO in an
  envelope of its own.
\<close>

section \<open>Reasoning about the client\<close>

text \<open>A result of \<open>m\<close>, from any state, satisfies \<open>Q\<close>; \<open>m\<close> keeps the invariant \<open>I\<close> of the log.\<close>

definition yields :: "'a smtp \<Rightarrow> ('a \<Rightarrow> bool) \<Rightarrow> bool" where
  "yields m Q \<longleftrightarrow> (\<forall>sent x. fst (m sent) = Inr x \<longrightarrow> Q x)"

definition keeps :: "(smtp_command list \<Rightarrow> bool) \<Rightarrow> 'a smtp \<Rightarrow> bool" where
  "keeps I m \<longleftrightarrow> (\<forall>sent. I sent \<longrightarrow> I (snd (m sent)))"

lemma yieldsD: "yields m Q \<Longrightarrow> fst (m sent) = Inr x \<Longrightarrow> Q x"
  by (simp add: yields_def)

lemma keepsD: "keeps I m \<Longrightarrow> I sent \<Longrightarrow> I (snd (m sent))"
  by (simp add: keeps_def)

lemma yields_ret [intro]: "Q x \<Longrightarrow> yields (ret x) Q"
  by (simp add: yields_def ret_def)

lemma andThen_Inr:
  "fst (andThen m f sent) = Inr y \<Longrightarrow> \<exists>x. fst (m sent) = Inr x \<and> andThen m f sent = f x (snd (m sent))"
  by (auto simp: andThen_def split: prod.splits sum.splits)

lemma yields_andThen: "yields m R \<Longrightarrow> (\<And>x. R x \<Longrightarrow> yields (f x) Q) \<Longrightarrow> yields (andThen m f) Q"
  unfolding yields_def by (metis andThen_Inr)

lemma yields_skip: "(\<And>x. yields (f x) Q) \<Longrightarrow> yields (andThen m f) Q"
  by (rule yields_andThen [where R = "\<lambda>_. True"]) (auto simp: yields_def)

lemma keeps_ret [intro]: "keeps I (ret x)"
  by (simp add: keeps_def ret_def)

lemma keeps_andThen: "keeps I m \<Longrightarrow> (\<And>x. keeps I (f x)) \<Longrightarrow> keeps I (andThen m f)"
  by (fastforce simp: keeps_def andThen_def split: prod.splits sum.splits)

lemma keeps_suppressed [intro]: "keeps I m \<Longrightarrow> keeps I (suppressed m)"
  by (simp add: keeps_def suppressed_def)

lemma keeps_or_else: "keeps I m \<Longrightarrow> (\<And>e. keeps I (h e)) \<Longrightarrow> keeps I (or_else m h)"
  by (fastforce simp: keeps_def or_else_def split: prod.splits sum.splits)

section \<open>Envelopes\<close>

definition mail_accepted :: "smtp_answer \<Rightarrow> bool" where
  "mail_accepted a \<longleftrightarrow> (case a of Reply n m \<Rightarrow> 200 \<le> n \<and> n < 300 | _ \<Rightarrow> False)"

text \<open>The last command of the log is a MAIL the peer accepted.\<close>

definition open_envelope :: "smtp_peer \<Rightarrow> smtp_command list \<Rightarrow> bool" where
  "open_envelope peer sent \<longleftrightarrow>
     (case rev sent of Mail s # r \<Rightarrow> mail_accepted (pr_answer peer (rev r) (Mail s)) | _ \<Rightarrow> False)"

text \<open>Every RCPT of the log comes right after such a MAIL.\<close>

definition enveloped :: "smtp_peer \<Rightarrow> smtp_command list \<Rightarrow> bool" where
  "enveloped peer sent \<longleftrightarrow> (\<forall>k<length sent. (\<exists>r. sent ! k = Rcpt r) \<longrightarrow> open_envelope peer (take k sent))"

lemma enveloped_snoc:
  "enveloped peer (sent @ [c]) \<longleftrightarrow> enveloped peer sent \<and> ((\<exists>r. c = Rcpt r) \<longrightarrow> open_envelope peer sent)"
  by (auto simp: enveloped_def nth_append less_Suc_eq)

lemma keeps_issue: "(\<And>r. c \<noteq> Rcpt r) \<Longrightarrow> keeps (enveloped peer) (issue peer c)"
  by (simp add: keeps_def issue_def enveloped_snoc)

lemma keeps_raise: "keeps I (\<lambda>sent. (Inl e, sent))"
  by (simp add: keeps_def)

lemma keeps_try_senders: "keeps (enveloped peer) (try_senders peer ss)"
proof (induction ss)
  case Nil
  show ?case by (simp add: keeps_ret)
next
  case (Cons s ss)
  have "keeps (enveloped peer) (case e of Responded n m x \<Rightarrow> ret False | Broken b \<Rightarrow> (\<lambda>sent. (Inl (Broken b), sent)))" for e
    by (cases e) (auto intro: keeps_raise)
  moreover have "keeps (enveloped peer) (case x of (n, m) \<Rightarrow> ret (200 \<le> n \<and> n < (300::int)))" for x :: "int \<times> string"
    by (cases x) auto
  moreover have "keeps (enveloped peer) (if ok then ret True else andThen (suppressed (issue peer Rset)) (\<lambda>_. try_senders peer ss))" for ok
    by (simp add: keeps_ret keeps_andThen keeps_suppressed keeps_issue Cons.IH)
  ultimately show ?case
    unfolding try_senders.simps by (intro keeps_andThen keeps_or_else keeps_issue) simp_all
qed

lemma open_envelope_mail: "mail_accepted (pr_answer peer sent (Mail s)) \<Longrightarrow> open_envelope peer (sent @ [Mail s])"
  by (simp add: open_envelope_def)

lemma try_senders_opens:
  "fst (try_senders peer ss sent) = Inr True \<Longrightarrow> open_envelope peer (snd (try_senders peer ss sent))"
proof (induction ss arbitrary: sent)
  case Nil
  then show ?case by (simp add: ret_def)
next
  case (Cons s ss)
  then show ?case
    by (cases "pr_answer peer sent (Mail s)")
       (auto simp: andThen_def or_else_def issue_def ret_def suppressed_def mail_accepted_def
             intro!: open_envelope_mail split: if_splits)
qed

lemma rcpt_step_log:
  "snd (rcpt_step peer provider label recipient sent) = sent @ [Rcpt recipient]"
  by (cases "pr_answer peer sent (Rcpt recipient)")
     (auto simp: rcpt_step_def andThen_def or_else_def issue_def ret_def)

lemma keeps_rcpt_probe: "keeps (enveloped peer) (rcpt_probe peer provider sender label recipient)"
proof -
  have "enveloped peer (snd (andThen (try_senders peer [sender, []])
      (\<lambda>ok. if ok then rcpt_step peer provider label recipient else ret None) sent))" if "enveloped peer sent" for sent
  proof (cases "fst (try_senders peer [sender, []] sent)")
    case (Inl e)
    then show ?thesis
      using keepsD [OF keeps_try_senders that, of "[sender, []]"]
      by (auto simp: andThen_def simp del: try_senders.simps split: prod.splits)
  next
    case (Inr ok)
    then show ?thesis
      using keepsD [OF keeps_try_senders that, of "[sender, []]"] try_senders_opens [of peer "[sender, []]" sent]
      by (auto simp: andThen_def ret_def enveloped_snoc rcpt_step_log simp del: try_senders.simps split: prod.splits)
  qed
  then have "keeps (enveloped peer) (andThen (try_senders peer [sender, []])
      (\<lambda>ok. if ok then rcpt_step peer provider label recipient else ret None))"
    unfolding keeps_def by blast
  then show ?thesis unfolding rcpt_probe_def
    by (rule keeps_andThen [OF keeps_suppressed [OF keeps_issue], rotated]) simp
qed

lemma keeps_probe_trailing:
  "(\<And>l r. keeps I (probe l r)) \<Longrightarrow> keeps I (probe_trailing probe d i cs found)"
  by (induction cs arbitrary: i found) (auto intro!: keeps_andThen split: option.splits)

lemma keeps_session: "keeps (enveloped peer) (run_probe_session peer dr provider count sender d email)"
  unfolding run_probe_session_def Let_def
  by (auto intro!: keeps_andThen keeps_rcpt_probe keeps_probe_trailing split: list.splits option.splits)

lemma keeps_if: "keeps I a \<Longrightarrow> keeps I b \<Longrightarrow> keeps I (\<lambda>sent. if p sent then a sent else b sent)"
  by (simp add: keeps_def)

lemma keeps_connection:
  "keeps (enveloped peer) s \<Longrightarrow> keeps (enveloped peer) (probe_connection peer s)"
  unfolding probe_connection_def
  by (intro keeps_andThen keeps_or_else keeps_if keeps_suppressed keeps_issue keeps_ret) simp_all

text \<open>C22: on a probe connection every RCPT TO follows at once a MAIL FROM the peer accepted, so no envelope has
  two recipients, whatever the peer answers.\<close>

theorem one_recipient_per_envelope:
  "enveloped peer (snd (probe_connection peer (run_probe_session peer dr provider count sender d email) []))"
  by (rule keepsD [OF keeps_connection [OF keeps_session]]) (simp add: enveloped_def)

section \<open>Attempts are genuine\<close>

text \<open>The peer gave this reply to the command at some point.\<close>

definition replied :: "smtp_peer \<Rightarrow> smtp_command \<Rightarrow> int \<Rightarrow> string \<Rightarrow> bool" where
  "replied peer c n m \<longleftrightarrow> (\<exists>sent. pr_answer peer sent c = Reply n m \<or> (\<exists>e. pr_answer peer sent c = ReplyRaised n m e))"

definition genuine :: "smtp_peer \<Rightarrow> mx_provider option \<Rightarrow> string \<Rightarrow> probe_attempt \<Rightarrow> bool" where
  "genuine peer provider recipient a \<longleftrightarrow> at_recipient a = recipient \<and>
     (\<exists>n. at_code a = Some n \<and> at_class a = classify_rcpt_response (Some n) (at_message a) provider \<and>
          replied peer (Rcpt recipient) n (at_message a))"

lemma rcpt_step_genuine:
  "yields (rcpt_step peer provider label recipient) (\<lambda>a. \<exists>x. a = Some x \<and> genuine peer provider recipient x)"
  unfolding yields_def
proof (intro allI impI)
  fix sent x
  assume "fst (rcpt_step peer provider label recipient sent) = Inr x"
  then show "\<exists>a. x = Some a \<and> genuine peer provider recipient a"
    by (cases "pr_answer peer sent (Rcpt recipient)")
       (auto simp: rcpt_step_def andThen_def or_else_def issue_def ret_def genuine_def replied_def, blast+)
qed

definition observed :: "smtp_peer \<Rightarrow> mx_provider option \<Rightarrow> string \<Rightarrow> probe_attempt option \<Rightarrow> bool" where
  "observed peer provider recipient a \<longleftrightarrow> (\<forall>x. a = Some x \<longrightarrow> genuine peer provider recipient x)"

lemma rcpt_probe_observed:
  "yields (rcpt_probe peer provider sender label recipient) (observed peer provider recipient)"
  unfolding rcpt_probe_def
  by (intro yields_skip)
     (auto simp: observed_def intro: yields_ret yieldsD [OF rcpt_step_genuine] simp: yields_def ret_def
           dest: yieldsD [OF rcpt_step_genuine])

definition control_attempt :: "smtp_peer \<Rightarrow> mx_provider option \<Rightarrow> string \<Rightarrow> string set \<Rightarrow> probe_attempt \<Rightarrow> bool" where
  "control_attempt peer provider d locals a \<longleftrightarrow> (\<exists>l\<in>locals. genuine peer provider (l @ ''@'' @ d) a)"

lemma probe_trailing_controls:
  assumes "set cs \<subseteq> locals" "list_all (control_attempt peer provider d locals) found"
  shows "yields (probe_trailing (rcpt_probe peer provider sender) d i cs found)
           (list_all (control_attempt peer provider d locals))"
  using assms
proof (induction cs arbitrary: i found)
  case Nil
  then show ?case by auto
next
  case (Cons c cs)
  show ?case unfolding probe_trailing.simps
  proof (rule yields_andThen [OF rcpt_probe_observed])
    fix a assume a: "observed peer provider (c @ ''@'' @ d) a"
    show "yields (case a of None \<Rightarrow> ret found
        | Some x \<Rightarrow> probe_trailing (rcpt_probe peer provider sender) d (i + 1) cs (found @ [x]))
        (list_all (control_attempt peer provider d locals))"
    proof (cases a)
      case None
      with Cons.prems show ?thesis by (simp add: yields_ret)
    next
      case (Some x)
      have "c \<in> locals" using Cons.prems(1) by simp
      moreover have "genuine peer provider (c @ ''@'' @ d) x" using a by (simp add: Some observed_def)
      ultimately have "control_attempt peer provider d locals x" unfolding control_attempt_def by blast
      with Cons.prems have "list_all (control_attempt peer provider d locals) (found @ [x])" by simp
      with Cons.IH [OF _ this] Cons.prems show ?thesis by (simp add: Some)
    qed
  qed
qed

definition genuine_session :: "smtp_peer \<Rightarrow> mx_provider option \<Rightarrow> string \<Rightarrow> string \<Rightarrow> string set \<Rightarrow> probe_session \<Rightarrow> bool" where
  "genuine_session peer provider email d locals s \<longleftrightarrow>
     observed peer provider email (pn_target s) \<and> list_all (control_attempt peer provider d locals) (pn_controls s)"

lemma session_genuine:
  assumes sub: "set (dr_order dr (build_control_locals dr (local_of email) count)) \<subseteq> locals"
  shows "yields (run_probe_session peer dr provider count sender d email) (genuine_session peer provider email d locals)"
proof -
  let ?probe = "rcpt_probe peer provider sender" and ?locals = locals
  let ?controls = "dr_order dr (build_control_locals dr (local_of email) count)"
  let ?ok = "genuine_session peer provider email d ?locals" and ?good = "list_all (control_attempt peer provider d ?locals)"
  have lead: "yields (case ?controls of [] \<Rightarrow> ret [] | c # _ \<Rightarrow>
      andThen (?probe ''control_0'' (c @ ''@'' @ d)) (\<lambda>a. ret (case a of None \<Rightarrow> [] | Some x \<Rightarrow> [x]))) ?good"
  proof (cases ?controls)
    case Nil
    then show ?thesis by (auto simp: yields_ret)
  next
    case (Cons c cs)
    then have c: "c \<in> ?locals" using sub by auto
    show ?thesis unfolding Cons list.case
    proof (rule yields_andThen [OF rcpt_probe_observed])
      fix a assume "observed peer provider (c @ ''@'' @ d) a"
      then show "yields (ret (case a of None \<Rightarrow> [] | Some x \<Rightarrow> [x])) ?good"
        using c by (intro yields_ret) (auto simp: observed_def control_attempt_def split: option.splits)
    qed
  qed
  have rest: "yields (probe_trailing ?probe d 1 (drop 1 ?controls) leading) ?good" if "?good leading" for leading
    using sub that by (intro probe_trailing_controls) (auto dest: in_set_dropD)
  have main: "yields (case t of None \<Rightarrow> ret (session_of None leading False)
      | Some ta \<Rightarrow> if rc_verdict (at_class ta) \<noteq> MailboxPresent then ret (session_of t leading False)
          else andThen (probe_trailing ?probe d 1 (drop 1 ?controls) leading) (\<lambda>all. ret (session_of t all (degraded all)))) ?ok"
    if "?good leading" "observed peer provider email t" for leading t
    using that yields_andThen [OF rest [OF that(1)], where f = "\<lambda>all. ret (session_of t all (degraded all))" and Q = ?ok]
    by (cases t) (auto simp: genuine_session_def session_of_def observed_def yields_ret)
  show ?thesis
  proof (cases "count \<le> 0")
    case True
    have "yields (andThen (?probe ''target'' email) (\<lambda>t. ret (session_of t [] False))) ?ok"
      by (rule yields_andThen [OF rcpt_probe_observed]) (simp add: yields_ret genuine_session_def session_of_def)
    with True show ?thesis by (simp add: run_probe_session_def Let_def)
  next
    case False
    then show ?thesis unfolding run_probe_session_def Let_def
      using yields_andThen [OF lead yields_andThen [OF rcpt_probe_observed main]] by simp
  qed
qed

section \<open>Verdicts\<close>

lemma mailbox_from_session_valid:
  "mb_valid (mailbox_from_session t profile s) = Some b \<longleftrightarrow>
     (\<exists>a. pn_target s = Some a \<and> rc_verdict (at_class a) = (if b then MailboxPresent else MailboxAbsent))"
  by (auto simp: mailbox_from_session_def no_result_def Let_def split: option.splits rcpt_verdict.splits)

lemma connect_to_target:
  assumes "connect_to nw profile count sender d email a = Inr s" "pn_target s = Some t"
  shows "genuine (nw_peer nw a) (map_option pf_provider profile) email t"
proof -
  let ?peer = "nw_peer nw a" and ?p = "map_option pf_provider profile"
  have "yields (probe_connection ?peer (run_probe_session ?peer (nw_draws nw a) ?p count sender d email))
      (genuine_session ?peer ?p email d UNIV)"
    unfolding probe_connection_def by (intro yields_skip session_genuine) simp
  from yieldsD [OF this, of "[]" s] assms show ?thesis
    by (simp add: connect_to_def genuine_session_def observed_def)
qed

text \<open>An inconclusive result never carries a verdict.\<close>

definition undecided :: "probe_progress \<Rightarrow> bool" where
  "undecided pp \<longleftrightarrow> (\<forall>m. pp_inconclusive pp = Some m \<longrightarrow> mb_valid m = None)"

lemma session_rejected_undecided: "mb_valid (session_rejected provider host n m) = None"
  by (simp add: session_rejected_def no_result_def Let_def)

lemma probe_addresses_result:
  assumes "undecided pp"
  shows "case probe_addresses connect profile host as pp of
      Inl m \<Rightarrow> mb_valid m \<noteq> None \<and> (\<exists>a\<in>set as. \<exists>s. connect a = Inr s \<and> m = mailbox_from_session Direct profile s)
    | Inr pp' \<Rightarrow> undecided pp'"
  using assms
proof (induction as arbitrary: pp)
  case Nil
  then show ?case by simp
next
  case (Cons a as)
  show ?case
  proof (cases "connect a")
    case (Inl e)
    have "undecided \<lparr>pp_error = Some (error_text e), pp_inconclusive =
        (case e of Responded n m x \<Rightarrow> Some (session_rejected (map_option pf_provider profile) host n m)
         | Broken _ \<Rightarrow> pp_inconclusive pp)\<rparr>"
      using Cons.prems by (cases e) (auto simp: undecided_def session_rejected_undecided)
    from Cons.IH [OF this] show ?thesis by (auto simp: Inl split: sum.splits)
  next
    case (Inr s)
    show ?thesis
    proof (cases "mb_valid (mailbox_from_session Direct profile s)")
      case None
      then have "undecided \<lparr>pp_error = or_text (mb_error (mailbox_from_session Direct profile s)) (pp_error pp),
          pp_inconclusive = Some (mailbox_from_session Direct profile s)\<rparr>"
        by (simp add: undecided_def)
      from Cons.IH [OF this] show ?thesis by (auto simp: Inr Let_def None split: sum.splits)
    qed (auto simp: Inr Let_def)
  qed
qed

lemma probe_hosts_result:
  assumes "undecided pp"
  shows "case probe_hosts addresses connect profile hs pp of
      Inl m \<Rightarrow> mb_valid m \<noteq> None \<and> (\<exists>h\<in>set hs. \<exists>as. addresses h = Inr as \<and> (\<exists>a\<in>set as. \<exists>s. connect a = Inr s \<and>
        m = mailbox_from_session Direct profile s))
    | Inr pp' \<Rightarrow> undecided pp'"
  using assms
proof (induction hs arbitrary: pp)
  case Nil
  then show ?case by simp
next
  case (Cons h hs)
  have upd: "undecided (pp\<lparr>pp_error := e\<rparr>)" for e using Cons.prems by (simp add: undecided_def)
  show ?case
  proof (cases "addresses h")
    case (Inl e)
    with Cons.IH [OF upd, of "Some e"] show ?thesis by (auto split: sum.splits)
  next
    case (Inr as)
    show ?thesis
    proof (cases as)
      case Nil
      with Inr Cons.IH [OF upd, of "Some ''MX host does not resolve to a public IP address''"] show ?thesis by (auto split: sum.splits)
    next
      case (Cons a rest)
      show ?thesis
      proof (cases "probe_addresses connect profile h as pp")
        case (Inl m)
        with probe_addresses_result [OF Cons.prems, where connect = connect and profile = profile and host = h and as = as] Inr Cons show ?thesis by auto
      next
        case (Inr pp')
        with probe_addresses_result [OF Cons.prems, where connect = connect and profile = profile and host = h and as = as] have "undecided pp'" by simp
        from Cons.IH [OF this] Inr Cons \<open>addresses h = Inr as\<close> show ?thesis by (auto split: sum.splits)
      qed
    qed
  qed
qed

text \<open>The direct probe names a valid or an absent mailbox only on the reply of a public mail host of the domain.\<close>

lemma validate_mailbox_verdict:
  assumes "mb_valid (validate_mailbox st nw d mxs email sender profile count) = Some b"
  shows "\<exists>h as a n m. (h \<in> set (parse_mx_hosts mxs) \<or> parse_mx_hosts mxs = [] \<and> h = d) \<and>
     resolve_public_smtp_addresses nw h = Inr as \<and> a \<in> set as \<and> replied (nw_peer nw a) (Rcpt email) n m \<and>
     rc_verdict (classify_rcpt_response (Some n) m (map_option pf_provider profile)) = (if b then MailboxPresent else MailboxAbsent)"
proof -
  let ?hosts = "if parse_mx_hosts mxs = [] then [d] else parse_mx_hosts mxs"
  let ?connect = "connect_to nw profile (control_count st count) sender d email"
  let ?start = "\<lparr>pp_error = None, pp_inconclusive = None\<rparr>"
  let ?res = "probe_hosts (resolve_public_smtp_addresses nw) ?connect profile ?hosts ?start"
  have start: "undecided ?start" by (simp add: undecided_def)
  note result = probe_hosts_result [OF start, where addresses = "resolve_public_smtp_addresses nw" and connect = ?connect and profile = profile and hs = ?hosts]
  have "\<exists>m. ?res = Inl m \<and> mb_valid m = Some b"
    using assms result
    by (auto simp: validate_mailbox_def Let_def no_result_def undecided_def split: if_splits sum.splits option.splits)
  then obtain m where m: "?res = Inl m" "mb_valid m = Some b" by blast
  with result obtain h as a s where h: "h \<in> set ?hosts" "resolve_public_smtp_addresses nw h = Inr as" "a \<in> set as"
    and s: "?connect a = Inr s" "m = mailbox_from_session Direct profile s" by auto
  from m(2) obtain t where t: "pn_target s = Some t" "rc_verdict (at_class t) = (if b then MailboxPresent else MailboxAbsent)"
    unfolding s(2) mailbox_from_session_valid by blast
  from connect_to_target [OF s(1) t(1)] obtain n where
    "at_class t = classify_rcpt_response (Some n) (at_message t) (map_option pf_provider profile)"
    "replied (nw_peer nw a) (Rcpt email) n (at_message t)"
    by (auto simp: genuine_def)
  with t(2) have "replied (nw_peer nw a) (Rcpt email) n (at_message t) \<and>
      rc_verdict (classify_rcpt_response (Some n) (at_message t) (map_option pf_provider profile)) = (if b then MailboxPresent else MailboxAbsent)"
    by simp
  moreover have "h \<in> set (parse_mx_hosts mxs) \<or> parse_mx_hosts mxs = [] \<and> h = d" using h(1) by (auto split: if_splits)
  ultimately show ?thesis using h(2,3) by blast
qed

end
