(* ===== verification/VerdictProps.thy ===== *)
theory VerdictProps
  imports ProbeProps
begin

text \<open>
  The verdict of a validation is earned: what the response says of an address follows from what its
  domain, its mail hosts or the relay said.
\<close>

text \<open>A reply at a public mail host of the domain, or the reply of the relay.\<close>

definition answered :: "world \<Rightarrow> validation_settings \<Rightarrow> string \<Rightarrow> string \<Rightarrow> int option \<Rightarrow> (int \<Rightarrow> bool) \<Rightarrow> int \<Rightarrow> bool" where
  "answered w st d email count codes relay_code \<longleftrightarrow>
     (if vs_relay_host st \<noteq> []
      then \<exists>n txt. wd_relay w email (''validate-probe@'' @ vs_domain st) (control_count st count) = RelayReply n txt \<and>
             (n = relay_code \<or> relay_code = 250 \<and> n = 252)
      else (let mxs = parse_mx_hosts (dn_mx (validate_dns (wd_idna w) (wd_dns w) d))
            in \<exists>h as a n m. (h \<in> set mxs \<or> mxs = [] \<and> h = d) \<and> resolve_public_smtp_addresses (wd_network w) h = Inr as \<and>
                 a \<in> set as \<and> replied (nw_peer (wd_network w) a) (Rcpt email) n m \<and> codes n))"

lemma mailbox_stage_answered:
  assumes v: "mb_valid (mailbox_stage w st d (dn_mx (validate_dns (wd_idna w) (wd_dns w) d)) email profile count) = Some b"
  shows "answered w st d email count (\<lambda>n. if b then 200 \<le> n \<and> n < 300 else 500 \<le> n \<and> n < 600) (if b then 250 else 550)"
proof (cases "vs_relay_host st = []")
  case False
  then show ?thesis using v
    by (auto simp: mailbox_stage_def answered_def validate_mailbox_via_tunnel_def relay_result_def no_result_def Let_def
        split: if_splits relay_answer.splits)
next
  case True
  with v have "mb_valid (validate_mailbox st (wd_network w) d (dn_mx (validate_dns (wd_idna w) (wd_dns w) d)) email
      (''validate-probe@'' @ vs_domain st) (Some profile) count) = Some b"
    by (auto simp: mailbox_stage_def no_result_def Let_def split: if_splits)
  from validate_mailbox_verdict [OF this] show ?thesis
    by (cases b) (fastforce simp: answered_def True Let_def dest: classify_present classify_absent)+
qed

text \<open>The address whose mailbox was probed.\<close>

lemma validate_email_cases:
  obtains (rejected) "validate_email_detailed w st cs count raw = syntax_outcome (strip raw) (validate_syntax (wd_idna w) (strip raw))"
      "\<not> sx_valid (validate_syntax (wd_idna w) (strip raw)) \<or> sx_domain (validate_syntax (wd_idna w) (strip raw)) \<in> {None, Some []}"
  | (dead) d ls b where "sx_valid (validate_syntax (wd_idna w) (strip raw))" "sx_domain (validate_syntax (wd_idna w) (strip raw)) = Some d"
      "\<not> dn_valid (validate_dns (wd_idna w) (wd_dns w) d)"
      "validate_email_detailed w st cs count raw = dns_outcome (strip raw) (validate_syntax (wd_idna w) (strip raw))
         (validate_dns (wd_idna w) (wd_dns w) d) (is_disposable_domain (wd_disposable w) d, b) ls"
  | (probed) d ls b profile ds where "sx_valid (validate_syntax (wd_idna w) (strip raw))"
      "sx_domain (validate_syntax (wd_idna w) (strip raw)) = Some d" "dn_valid (validate_dns (wd_idna w) (wd_dns w) d)"
      "validate_email_detailed w st cs count raw = final_outcome (strip raw) (validate_syntax (wd_idna w) (strip raw))
         (validate_dns (wd_idna w) (wd_dns w) d) (is_disposable_domain (wd_disposable w) d, b) ls profile ds
         (mailbox_stage w st d (dn_mx (validate_dns (wd_idna w) (wd_dns w) d)) (strip raw) profile count)"
proof -
  let ?sx = "validate_syntax (wd_idna w) (strip raw)"
  show thesis
  proof (cases "sx_valid ?sx \<and> sx_domain ?sx \<notin> {None, Some []}")
    case False
    then show thesis by (intro rejected) (auto simp: validate_email_detailed_def Let_def split: option.splits)
  next
    case True
    then obtain d where d: "sx_domain ?sx = Some d" "d \<noteq> []" by auto
    show thesis
    proof (cases "dn_valid (validate_dns (wd_idna w) (wd_dns w) d)")
      case False
      with True d show thesis by (intro dead) (auto simp: validate_email_detailed_def Let_def)
    next
      case ok: True
      with True d show thesis by (intro probed) (auto simp: validate_email_detailed_def Let_def)
    qed
  qed
qed

section \<open>A concrete world\<close>

definition acme_dns :: "string \<Rightarrow> dns_lookups" where
  "acme_dns d = (if d = ''acme.dev'' then \<lparr>lk_mx = Records [(10, ''mx.acme.dev.'')], lk_ns = Absent, lk_a = Absent, lk_aaaa = Absent\<rparr>
     else \<lparr>lk_mx = Absent, lk_ns = Absent, lk_a = Absent, lk_aaaa = Absent\<rparr>)"

text \<open>A peer with one mailbox; a lax one accepts whatever the first recipient of a connection is.\<close>

definition acme_peer :: "bool \<Rightarrow> smtp_peer" where
  "acme_peer lax = \<lparr>pr_answer = (\<lambda>sent c. case c of
      Rcpt r \<Rightarrow> if r = ''ann@acme.dev'' \<or> (lax \<and> length sent < 6) then Reply 250 ''OK'' else ReplyRaised 550 ''5.1.1 no such user'' ''550''
    | _ \<Rightarrow> Reply 250 ''OK''), pr_starttls = (\<lambda>_. False), pr_latency = (\<lambda>_. 20)\<rparr>"

definition acme_draws :: draws where
  "acme_draws = \<lparr>dr_first = 0, dr_surname = 0, dr_number = 0, dr_letter = (\<lambda>_. 0), dr_hex = (\<lambda>_. 0), dr_order = (\<lambda>xs. xs)\<rparr>"

definition acme_world :: "bool \<Rightarrow> world" where
  "acme_world lax = \<lparr>wd_idna = Inr, wd_dns = acme_dns, wd_log2 = (\<lambda>x. x), wd_disposable = [], wd_signals = no_signals,
     wd_network = \<lparr>nw_resolve = (\<lambda>_. Inr [''1.2.3.4'']), nw_address = (\<lambda>a. Inr (a, True)), nw_peer = (\<lambda>_. acme_peer lax),
       nw_draws = (\<lambda>_. acme_draws)\<rparr>,
     wd_relay = (\<lambda>_ _ _. NoExtension), wd_timeout = False\<rparr>"

definition direct_settings :: validation_settings where
  "direct_settings = \<lparr>vs_probe_enabled = True, vs_control_count = 3, vs_relay_host = [], vs_signals_enabled = False,
     vs_domain = ''mail.example'', vs_budget = ''15''\<rparr>"


section \<open>Verdicts\<close>

text \<open>C20: an address is called deliverable only when its syntax is valid, its domain takes mail and is not a
  throw-away domain, and a public mail host of that domain answered 2xx to RCPT TO for this very address
  (or the relay reported an acceptance).\<close>

theorem deliverable_is_earned:
  assumes "vr_verdict (vo_response (validate_email_detailed w st cs count raw)) = Deliverable"
  shows "\<exists>d. sx_domain (validate_syntax (wd_idna w) (strip raw)) = Some d \<and> sx_valid (validate_syntax (wd_idna w) (strip raw)) \<and>
     dn_valid (validate_dns (wd_idna w) (wd_dns w) d) \<and> \<not> is_disposable_domain (wd_disposable w) d \<and>
     answered w st d (strip raw) count (\<lambda>n. 200 \<le> n \<and> n < 300) 250"
proof (rule validate_email_cases [of w st cs count raw], goal_cases)
  case 1
  with assms show ?case by (simp add: syntax_outcome_def)
next
  case (2 d ls b)
  with assms show ?case by (simp add: dns_outcome_def split: if_splits)
next
  case (3 d ls b profile ds)
  with assms have "\<not> is_disposable_domain (wd_disposable w) d"
    "mb_valid (mailbox_stage w st d (dn_mx (validate_dns (wd_idna w) (wd_dns w) d)) (strip raw) profile count) = Some True"
    by (auto simp: final_outcome_def conclude_def Let_def split: if_splits)
  with 3 mailbox_stage_answered [OF this(2)] show ?case by auto
qed

lemma deliverable_is_earned_witness:
  "vr_verdict (vo_response (validate_email_detailed (acme_world False) direct_settings False None ''ann@acme.dev'')) = Deliverable \<and>
   (\<exists>d. sx_domain (validate_syntax (wd_idna (acme_world False)) (strip ''ann@acme.dev'')) = Some d \<and>
     sx_valid (validate_syntax (wd_idna (acme_world False)) (strip ''ann@acme.dev'')) \<and>
     dn_valid (validate_dns (wd_idna (acme_world False)) (wd_dns (acme_world False)) d) \<and>
     \<not> is_disposable_domain (wd_disposable (acme_world False)) d \<and>
     answered (acme_world False) direct_settings d (strip ''ann@acme.dev'') None (\<lambda>n. 200 \<le> n \<and> n < 300) 250)"
proof -
  have "vr_verdict (vo_response (validate_email_detailed (acme_world False) direct_settings False None ''ann@acme.dev'')) = Deliverable"
    by code_simp
  from this deliverable_is_earned [OF this] show ?thesis by (rule conjI)
qed

definition malformed :: "world \<Rightarrow> string \<Rightarrow> bool" where
  "malformed w raw \<longleftrightarrow> \<not> sx_valid (validate_syntax (wd_idna w) (strip raw))"

text \<open>C21: an address is called undeliverable only when its syntax is invalid, when the DNS settles that its domain
  takes no mail, or when a public mail host of the domain refused RCPT TO for this very address with a 5xx reply
  (or the relay reported a refusal); a temporary failure or silence never condemns an address.\<close>

theorem undeliverable_is_earned:
  assumes "vr_verdict (vo_response (validate_email_detailed w st cs count raw)) = Undeliverable"
  shows "malformed w raw \<or>
     (\<exists>d. sx_domain (validate_syntax (wd_idna w) (strip raw)) = Some d \<and>
       (dn_status (validate_dns (wd_idna w) (wd_dns w) d) = DnsInvalid \<or>
        answered w st d (strip raw) count (\<lambda>n. 500 \<le> n \<and> n < 600) 550))"
proof (rule validate_email_cases [of w st cs count raw], goal_cases)
  case 1
  then show ?case using validate_syntax_domain [of "wd_idna w" "strip raw"] by (auto simp: malformed_def)
next
  case (2 d ls b)
  with assms have "dn_status (validate_dns (wd_idna w) (wd_dns w) d) \<noteq> DnsUndetermined"
    by (auto simp: dns_outcome_def split: if_splits)
  with 2 show ?case using validate_dns_status [of "wd_idna w" "wd_dns w" d]
    by (cases "dn_status (validate_dns (wd_idna w) (wd_dns w) d)") auto
next
  case (3 d ls b profile ds)
  with assms have "mb_valid (mailbox_stage w st d (dn_mx (validate_dns (wd_idna w) (wd_dns w) d)) (strip raw) profile count) = Some False"
    by (auto simp: final_outcome_def conclude_def Let_def split: if_splits)
  with 3 mailbox_stage_answered [OF this] show ?case by auto
qed

lemma undeliverable_is_earned_witness:
  "vr_verdict (vo_response (validate_email_detailed (acme_world False) direct_settings False None ''bob@acme.dev'')) = Undeliverable \<and>
   (malformed (acme_world False) ''bob@acme.dev'' \<or>
    (\<exists>d. sx_domain (validate_syntax (wd_idna (acme_world False)) (strip ''bob@acme.dev'')) = Some d \<and>
     (dn_status (validate_dns (wd_idna (acme_world False)) (wd_dns (acme_world False)) d) = DnsInvalid \<or>
      answered (acme_world False) direct_settings d (strip ''bob@acme.dev'') None (\<lambda>n. 500 \<le> n \<and> n < 600) 550)))"
proof -
  have "vr_verdict (vo_response (validate_email_detailed (acme_world False) direct_settings False None ''bob@acme.dev'')) = Undeliverable"
    by code_simp
  from this undeliverable_is_earned [OF this] show ?thesis by (rule conjI)
qed

text \<open>A connection that turns strict after the first recipient: the destination took an address that does not exist,
  no control tells the target apart from it, and the address is reported as deliverable all the same.\<close>

lemma degraded_session_still_deliverable:
  "let r = vo_response (validate_email_detailed (acme_world True) direct_settings False None ''ann@acme.dev'')
   in mb_degraded (vr_mailbox r) \<and> mb_accepted (vr_mailbox r) = 1 \<and> mb_catch_all (vr_mailbox r) = None \<and>
      vr_verdict r = Deliverable \<and> vr_status r = StValid"
  by code_simp

section \<open>Controls\<close>

text \<open>a destination is called accept-all exactly when it accepted the target and every control recipient, at least one
  of them; a control without a clear answer is not taken for an acceptance.\<close>

theorem accept_all_means_every_control:
  "mb_catch_all (mailbox_from_session t profile s) = Some True \<longleftrightarrow>
     (case pn_target s of None \<Rightarrow> False | Some a \<Rightarrow> is_present (at_class a)) \<and>
     pn_controls s \<noteq> [] \<and> list_all (\<lambda>c. is_present (at_class c)) (pn_controls s)"
proof -
  have all_iff: "accepted_controls cs = length cs \<longleftrightarrow> list_all (\<lambda>c. is_present (at_class c)) cs" for cs
    unfolding accepted_controls_def list_all_iff by (metis length_filter_less less_irrefl filter_True)
  have some: "accepted_controls cs > 0" if "accepted_controls cs = length cs" "cs \<noteq> []" for cs
    using that by simp
  show ?thesis
  proof (cases "pn_target s")
    case (Some a)
    with all_iff [of "pn_controls s"] some [of "pn_controls s"] show ?thesis
      by (cases "rc_verdict (at_class a)") (auto simp: mailbox_from_session_def Let_def is_present_def)
  qed (simp add: mailbox_from_session_def no_result_def)
qed

lemma unique_controls_spec:
  assumes "distinct found" "list_all (\<lambda>c. c \<noteq> [] \<and> lower_text c \<noteq> lower_text target) found"
  shows "distinct (unique_controls target vs found) \<and>
     list_all (\<lambda>c. c \<noteq> [] \<and> lower_text c \<noteq> lower_text target) (unique_controls target vs found) \<and>
     set (unique_controls target vs found) = set found \<union> {v \<in> set vs. v \<noteq> [] \<and> lower_text v \<noteq> lower_text target}"
  using assms
proof (induction vs arbitrary: found)
  case Nil
  then show ?case by simp
next
  case (Cons v vs)
  let ?fresh = "v \<noteq> [] \<and> lower_text v \<noteq> lower_text target \<and> v \<notin> set found"
  show ?case
  proof (cases ?fresh)
    case True
    with Cons.prems have "distinct (found @ [v])" "list_all (\<lambda>c. c \<noteq> [] \<and> lower_text c \<noteq> lower_text target) (found @ [v])"
      by simp_all
    from Cons.IH [OF this] True show ?thesis by (simp only: unique_controls.simps if_True) auto
  next
    case False
    with Cons.prems(2) have "{u \<in> set (v # vs). u \<noteq> [] \<and> lower_text u \<noteq> lower_text target} \<union> set found =
        {u \<in> set vs. u \<noteq> [] \<and> lower_text u \<noteq> lower_text target} \<union> set found" by auto
    with Cons.IH [OF Cons.prems] False show ?thesis by (simp only: unique_controls.simps if_False Un_commute)
  qed
qed

lemma draw_in: "xs \<noteq> [] \<Longrightarrow> choice k xs \<in> set xs"
  by (simp add: choice_def)

lemma list_all_choice: "list_all P xs \<Longrightarrow> xs \<noteq> [] \<Longrightarrow> P (choice k xs)"
  by (auto simp: list_all_iff draw_in)

lemma random_token_all: "alphabet \<noteq> [] \<Longrightarrow> list_all P alphabet \<Longrightarrow> list_all P (random_token draw i n alphabet)"
  by (auto simp: random_token_def list_all_iff draw_in)

lemma hex_local_lower: "lower_text (hex_local dr) = hex_local dr" "CHR ''.'' \<notin> set (hex_local dr)" "hex_local dr \<noteq> []"
proof -
  show "lower_text (hex_local dr) = hex_local dr"
    unfolding hex_local_def by (intro lower_text_plain random_token_all) code_simp+
  have "list_all (\<lambda>c. c \<noteq> CHR ''.'') (hex_local dr)"
    unfolding hex_local_def by (intro random_token_all) code_simp+
  then show "CHR ''.'' \<notin> set (hex_local dr)" by (auto simp: list_all_iff)
  show "hex_local dr \<noteq> []" by (simp add: hex_local_def random_token_def)
qed

lemma dot_survives_lower: "list_all (\<lambda>c. code c < 128) s \<Longrightarrow> CHR ''.'' \<in> set s \<Longrightarrow> CHR ''.'' \<in> set (lower_text s)"
proof (induction s rule: lower_text.induct)
  case (1 a b s)
  from "1.prems"(1) have a: "code a < 128" and bs: "list_all (\<lambda>c. code c < 128) (b # s)" by (simp_all only: list.pred_inject)
  from a have not_two: "\<not> (0xC2 \<le> code a \<and> code a \<le> 0xDF \<and> 0x80 \<le> code b \<and> code b \<le> 0xBF)" by linarith
  have dot: "lower_char (CHR ''.'') = CHR ''.''" by code_simp
  show ?case
  proof (cases "a = CHR ''.''")
    case True
    then show ?thesis using not_two dot by (simp only: lower_text.simps if_False list.set insert_iff simp_thms)
  next
    case False
    with "1.prems"(2) have "CHR ''.'' \<in> set (b # s)" by (simp only: list.set insert_iff) blast
    from "1.IH"(2) [OF not_two bs this] show ?thesis using not_two by (simp only: lower_text.simps if_False list.set insert_iff simp_thms)
  qed
next
  case (2 a)
  have "lower_char (CHR ''.'') = CHR ''.''" by code_simp
  with 2 show ?case by simp
qed simp

lemma show_nat_ascii: "list_all (\<lambda>c. code c < 128) (show_nat n)"
proof (induction n rule: show_nat.induct)
  case (1 n)
  have "code (char_of (48 + k)) < 128" if "k < 10" for k :: nat using that by simp
  then have "list_all (\<lambda>c. code c < 128) [char_of (48 + n mod 10)]" "n < 10 \<Longrightarrow> list_all (\<lambda>c. code c < 128) [char_of (48 + n)]"
    by simp_all
  with 1 show ?case by (subst show_nat.simps) (simp only: list_all_append if_split simp_thms, blast)
qed

lemma human_local_dotted: "CHR ''.'' \<in> set (lower_text (human_local dr))" "human_local dr \<noteq> []"
proof -
  have "list_all (\<lambda>c. code c < 128) (choice k CONTROL_FIRST_NAMES)" "list_all (\<lambda>c. code c < 128) (choice k CONTROL_SURNAMES)" for k
    by (rule list_all_choice [where P = "list_all (\<lambda>c. code c < 128)"], code_simp, simp add: CONTROL_FIRST_NAMES_def,
        rule list_all_choice [where P = "list_all (\<lambda>c. code c < 128)"], code_simp, simp add: CONTROL_SURNAMES_def)
  then have "list_all (\<lambda>c. code c < 128) (human_local dr)" by (simp add: human_local_def show_nat_ascii)
  then show "CHR ''.'' \<in> set (lower_text (human_local dr))" by (rule dot_survives_lower) (simp add: human_local_def)
  show "human_local dr \<noteq> []" by (simp add: human_local_def)
qed

text \<open>the control recipients of a probe are at least one and at most as many as asked for, no two alike, and none
  is the target itself in any case of its letters, whatever the random draws.\<close>

theorem controls_differ_from_target:
  "let cs = build_control_locals dr target count
   in cs \<noteq> [] \<and> length cs \<le> nat (max count 1) \<and> distinct cs \<and>
      list_all (\<lambda>c. c \<noteq> [] \<and> lower_text c \<noteq> lower_text target) cs"
proof -
  define vs where "vs = [human_local dr] @ (if shape_matched_local (dr_letter dr) target = [] then []
    else [shape_matched_local (dr_letter dr) target]) @ [hex_local dr]"
  let ?us = "unique_controls target vs []"
  note spec = unique_controls_spec [of "[]" target vs, simplified]
  have "lower_text (human_local dr) \<noteq> lower_text (hex_local dr)"
    using human_local_dotted [of dr] hex_local_lower [of dr] by metis
  moreover have there: "human_local dr \<in> set vs" "hex_local dr \<in> set vs" by (simp_all add: vs_def)
  moreover have mem: "v \<in> set ?us \<longleftrightarrow> v \<in> set vs \<and> v \<noteq> [] \<and> lower_text v \<noteq> lower_text target" for v
    unfolding spec [THEN conjunct2, THEN conjunct2] by blast
  ultimately have "human_local dr \<in> set ?us \<or> hex_local dr \<in> set ?us"
    using human_local_dotted(2) [of dr] hex_local_lower(3) [of dr] by metis
  then have "?us \<noteq> []" by auto
  moreover have "0 < nat (max count 1)" by simp
  ultimately have "take (nat (max count 1)) ?us \<noteq> []" by simp
  moreover have "list_all P (take n xs)" if "list_all P xs" for P n and xs :: "string list"
    using that by (auto simp: list_all_iff dest: in_set_takeD)
  ultimately show ?thesis
    using spec unfolding build_control_locals_def vs_def [symmetric] Let_def
    by (intro conjI) (simp_all add: distinct_take)
qed

section \<open>The address on the wire\<close>

definition wire_char :: "char \<Rightarrow> bool" where
  "wire_char c \<longleftrightarrow> email_local_char c \<or> c = CHR ''@''"

lemma set_join_subset: "set (join s ps) \<subseteq> \<Union> (set ` set ps) \<union> set s"
  by (induction s ps rule: join.induct) auto

lemma email_re_wire: "email_re l d \<Longrightarrow> list_all wire_char (l @ ''@'' @ d)"
proof -
  assume h: "email_re l d"
  have "email_local_char c" if "c \<in> set d" for c
  proof (cases "c = CHR ''.''")
    case True
    then show ?thesis by (simp add: email_local_char_def)
  next
    case False
    have "set d = set (join ''.'' (split_on (CHR ''.'') d))" by simp
    also have "\<dots> \<subseteq> \<Union> (set ` set (split_on (CHR ''.'') d)) \<union> set ''.''" by (rule set_join_subset)
    finally have "c \<in> \<Union> (set ` set (split_on (CHR ''.'') d)) \<union> {CHR ''.''}" using that by auto
    with False obtain p where "p \<in> set (split_on (CHR ''.'') d)" "c \<in> set p" by blast
    with h have "is_alnum c \<or> c = CHR ''-''" by (auto simp: email_re_def list_all_iff label_re_def)
    then show ?thesis by (auto simp: email_local_char_def)
  qed
  with h show ?thesis by (auto simp: wire_char_def email_re_def list_all_iff)
qed

text \<open>C23: an ASCII address that passes the syntax check is made of letters, digits and the punctuation of the
  pattern only, so the probe cannot be made to send a space, a line end or an angle bracket.\<close>

theorem accepted_address_is_inert:
  assumes "sx_valid (validate_syntax idna raw)" "is_ascii raw"
  shows "list_all wire_char (strip raw)"
proof -
  let ?parts = "split_on (CHR ''@'') (strip raw)"
  have len: "length ?parts = 2" using assms(1) by (auto simp: validate_syntax_def Let_def syntax_bad_def split: if_splits)
  then obtain l d where ld: "?parts = [l, d]" by (auto simp: numeral_2_eq_2 length_Suc_conv)
  then have raw: "strip raw = l @ ''@'' @ d" using join_split_on [of "CHR ''@''" "strip raw"] by simp
  have "set (strip raw) \<subseteq> set raw" by (rule set_strip)
  with assms(2) have "is_ascii d" by (auto simp: raw is_ascii_def list_all_iff)
  then have "idna_encode idna d = Inr d \<or> (\<exists>e. idna_encode idna d = Inl e)" by (auto simp: idna_encode_def Let_def)
  with assms(1) ld have "email_re l d"
    by (auto simp: validate_syntax_def Let_def syntax_bad_def split: if_splits sum.splits)
  then show ?thesis unfolding raw by (rule email_re_wire)
qed

lemma accepted_address_is_inert_witness:
  "sx_valid (validate_syntax Inr ''ann+x@acme.dev'') \<and> is_ascii ''ann+x@acme.dev'' \<and> list_all wire_char (strip ''ann+x@acme.dev'')"
proof -
  have "sx_valid (validate_syntax Inr ''ann+x@acme.dev'')" "is_ascii ''ann+x@acme.dev''" by code_simp+
  with accepted_address_is_inert [OF this] show ?thesis by blast
qed

end
