(* ===== verification/RiskProps.thy ===== *)
theory RiskProps
  imports RiskModel "HOL-Library.Multiset"
begin

text \<open>
  Properties of the bounce budget and of the calibration report.
\<close>

section \<open>The selection is a prefix\<close>

definition fits :: "(rat \<Rightarrow> rat) \<Rightarrow> rat \<Rightarrow> budget_state \<Rightarrow> budget_candidate \<Rightarrow> bool" where
  "fits rnd target s c \<longleftrightarrow> rnd (rnd (bt_total s + bc_score c) / of_nat (Suc (bt_count s))) \<le> target"

definition take_in :: "(rat \<Rightarrow> rat) \<Rightarrow> budget_state \<Rightarrow> budget_candidate \<Rightarrow> budget_state" where
  "take_in rnd s c = s\<lparr>bt_total := rnd (bt_total s + bc_score c), bt_count := Suc (bt_count s),
     bt_included := bt_included s @ [bc_email c]\<rparr>"

lemma budget_step_cases:
  "budget_step rnd target s c =
     (if fits rnd target s c then take_in rnd s c else s\<lparr>bt_excluded := bt_excluded s @ [bc_email c]\<rparr>)"
  by (simp add: budget_step_def fits_def take_in_def Let_def)

lemma taken_in:
  "bt_included (foldl (take_in rnd) s cs) = bt_included s @ map bc_email cs"
  "bt_excluded (foldl (take_in rnd) s cs) = bt_excluded s"
  "bt_count (foldl (take_in rnd) s cs) = bt_count s + length cs"
  "bt_total (foldl (take_in rnd) s cs) = foldl (\<lambda>t c. rnd (t + bc_score c)) (bt_total s) cs"
  by (induction cs arbitrary: s) (simp_all add: take_in_def)

lemma all_rejected:
  assumes mono: "\<And>x y. x \<le> y \<Longrightarrow> rnd x \<le> rnd y" and "\<not> fits rnd target s c"
    and "\<forall>d \<in> set cs. bc_score c \<le> bc_score d"
  shows "foldl (budget_step rnd target) s cs = s\<lparr>bt_excluded := bt_excluded s @ map bc_email cs\<rparr>"
  using assms(2,3)
proof (induction cs arbitrary: s)
  case (Cons d cs)
  have "rnd (rnd (bt_total s + bc_score c) / of_nat (Suc (bt_count s)))
      \<le> rnd (rnd (bt_total s + bc_score d) / of_nat (Suc (bt_count s)))"
    using Cons.prems(2) by (intro mono divide_right_mono add_left_mono) auto
  then have "\<not> fits rnd target s d" using Cons.prems(1) by (simp add: fits_def)
  moreover have "\<not> fits rnd target (s\<lparr>bt_excluded := bt_excluded s @ [bc_email d]\<rparr>) c"
    using Cons.prems(1) by (simp add: fits_def)
  ultimately show ?case using Cons by (simp add: budget_step_cases)
qed simp

lemma budget_prefix:
  assumes mono: "\<And>x y. x \<le> y \<Longrightarrow> rnd x \<le> rnd y" and "sorted (map bc_score cs)"
  shows "\<exists>k \<le> length cs. (let t = foldl (take_in rnd) s (take k cs) in
    foldl (budget_step rnd target) s cs = t\<lparr>bt_excluded := bt_excluded s @ map bc_email (drop k cs)\<rparr> \<and>
    (\<forall>n < k. fits rnd target (foldl (take_in rnd) s (take n cs)) (cs ! n)) \<and>
    (k < length cs \<longrightarrow> \<not> fits rnd target t (cs ! k)))"
  using assms(2)
proof (induction cs arbitrary: s)
  case (Cons c cs)
  show ?case
  proof (cases "fits rnd target s c")
    case True
    from Cons.IH[of "take_in rnd s c"] Cons.prems obtain k where k: "k \<le> length cs" and
      t: "let t = foldl (take_in rnd) (take_in rnd s c) (take k cs) in
        foldl (budget_step rnd target) (take_in rnd s c) cs =
          t\<lparr>bt_excluded := bt_excluded (take_in rnd s c) @ map bc_email (drop k cs)\<rparr> \<and>
        (\<forall>n < k. fits rnd target (foldl (take_in rnd) (take_in rnd s c) (take n cs)) (cs ! n)) \<and>
        (k < length cs \<longrightarrow> \<not> fits rnd target t (cs ! k))"
      by auto
    have first: "fits rnd target (foldl (take_in rnd) s (take n (c # cs))) ((c # cs) ! n)" if "n < Suc k" for n
      using that True t by (cases n) (simp_all add: Let_def)
    have step: "budget_step rnd target s c = take_in rnd s c" using True by (simp add: budget_step_cases)
    have "bt_excluded (take_in rnd s c) = bt_excluded s" by (simp add: take_in_def)
    with k t first step show ?thesis
      by (intro exI[of _ "Suc k"]) (simp add: Let_def)
  next
    case False
    have "foldl (budget_step rnd target) s (c # cs) = s\<lparr>bt_excluded := bt_excluded s @ map bc_email (c # cs)\<rparr>"
      using all_rejected[OF mono False, of "c # cs"] Cons.prems by simp
    with False show ?thesis by (intro exI[of _ 0]) simp
  qed
qed (simp add: Let_def)

lemma budget_taken:
  assumes "n \<le> length cs"
  shows "bt_total (foldl (take_in dbl) (budget_start dbl committed) (take n cs)) = foldl fadd (fsum committed) (map bc_score (take n cs))"
    and "bt_count (foldl (take_in dbl) (budget_start dbl committed) (take n cs)) = length committed + n"
proof -
  have fadd_fun: "fadd = (\<lambda>x y. dbl (x + y))" by (simp add: fun_eq_iff fadd_def)
  show "bt_total (foldl (take_in dbl) (budget_start dbl committed) (take n cs)) = foldl fadd (fsum committed) (map bc_score (take n cs))"
    by (simp add: taken_in budget_start_def fsum_def fadd_fun foldl_map)
  show "bt_count (foldl (take_in dbl) (budget_start dbl committed) (take n cs)) = length committed + n"
    using assms by (simp add: taken_in budget_start_def)
qed

lemma fits_taken:
  assumes "n < length cs"
  shows "fits dbl target (foldl (take_in dbl) (budget_start dbl committed) (take n cs)) (cs ! n) \<longleftrightarrow>
    fdiv (foldl fadd (fsum committed) (map bc_score (take (Suc n) cs))) (of_nat (length committed + Suc n)) \<le> target"
  using assms budget_taken [of n cs committed] by (simp add: fits_def fdiv_def fadd_def take_Suc_conv_app_nth)

text \<open>C25: The bounce budget, in double arithmetic. In the order of rising risk, equal risks in the order given, the selection takes
  a prefix and excludes the rest; the blended rate after each address it takes is within the target, the rate it
  reports is that of the last one, rounded, and the first address it excludes would push the rate above the target.\<close>

theorem budget_respected:
  "\<exists>k. k \<le> length candidates \<and>
     (let ordered = sort_key bc_score candidates; sel = select_within_budget candidates target committed;
          blend = (\<lambda>n. fdiv (foldl fadd (fsum committed) (map bc_score (take n ordered))) (of_nat (length committed + n)))
      in bs_included sel = map bc_email (take k ordered) \<and> bs_excluded sel = map bc_email (drop k ordered) \<and>
         list_all (\<lambda>n. blend n \<le> target) [1..<Suc k] \<and>
         (k = 0 \<or> bs_projected sel = fround 5 (blend k)) \<and>
         (k = length candidates \<or> target < blend (Suc k)))"
proof -
  let ?ordered = "sort_key bc_score candidates" and ?s = "budget_start dbl committed"
  let ?blend = "\<lambda>n. fdiv (foldl fadd (fsum committed) (map bc_score (take n ?ordered))) (of_nat (length committed + n))"
  obtain k where k: "k \<le> length candidates" and
    t: "let t = foldl (take_in dbl) ?s (take k ?ordered) in
      foldl (budget_step dbl target) ?s ?ordered =
        t\<lparr>bt_excluded := bt_excluded ?s @ map bc_email (drop k ?ordered)\<rparr> \<and>
      (\<forall>n < k. fits dbl target (foldl (take_in dbl) ?s (take n ?ordered)) (?ordered ! n)) \<and>
      (k < length ?ordered \<longrightarrow> \<not> fits dbl target t (?ordered ! k))"
    using budget_prefix[where rnd = dbl and cs = ?ordered and s = ?s and target = target, OF dbl_mono] by auto
  let ?t = "foldl (take_in dbl) ?s (take k ?ordered)"
  have sel: "select_with dbl candidates target committed = ?t\<lparr>bt_excluded := map bc_email (drop k ?ordered)\<rparr>"
    using t by (simp add: select_with_def Let_def budget_start_def)
  have le: "?blend (Suc n) \<le> target" if "n < k" for n
    using that t k fits_taken[of n ?ordered target committed] by (simp add: Let_def)
  have gt: "k < length candidates \<longrightarrow> target < ?blend (Suc k)"
    using t fits_taken[of k ?ordered target committed] by (auto simp: Let_def not_le)
  have within: "list_all (\<lambda>n. ?blend n \<le> target) [1..<Suc k]"
    unfolding list_all_iff using le by (auto simp: Suc_le_eq gr0_conv_Suc simp del: upt_Suc of_nat_add of_nat_Suc)
  have out: "bs_included (select_within_budget candidates target committed) = map bc_email (take k ?ordered)"
    "bs_excluded (select_within_budget candidates target committed) = map bc_email (drop k ?ordered)"
    "k = 0 \<or> bs_projected (select_within_budget candidates target committed) = fround 5 (?blend k)"
    using k budget_taken[of k ?ordered committed]
    by (simp_all add: select_within_budget_def sel Let_def taken_in budget_start_def)
  show ?thesis
    unfolding Let_def using k out within gt by (intro exI [of _ k]) (auto simp: le_less)
qed

section \<open>The selection is as large as possible\<close>

lemma smallest_sum:
  fixes xs ys :: "rat list"
  assumes "sorted xs" and "mset ys \<subseteq># mset xs"
  shows "sum_list (take (length ys) xs) \<le> sum_list ys"
  using assms
proof (induction xs arbitrary: ys)
  case (Cons x xs)
  show ?case
  proof (cases "ys = []")
    case False
    obtain y where y: "y \<in> set ys" "x \<le> y" "mset (remove1 y ys) \<subseteq># mset xs"
    proof (cases "x \<in> set ys")
      case True
      have "mset (remove1 x ys) \<subseteq># mset xs"
        using Cons.prems(2) True by (simp add: subset_eq_diff_conv)
      then show thesis using that[of x] True by simp
    next
      case False
      have sub: "mset ys \<subseteq># mset xs"
      proof (rule mset_subset_eqI)
        fix a
        have none: "count (mset ys) x = 0" using False by (simp add: count_eq_zero_iff)
        show "count (mset ys) a \<le> count (mset xs) a"
        proof (cases "a = x")
          case True
          then show ?thesis using none by (metis le0)
        qed (use mset_subset_eq_count[OF Cons.prems(2), of a] in simp)
      qed
      obtain y where "y \<in> set ys" using \<open>ys \<noteq> []\<close> by (cases ys) auto
      moreover have "x \<le> y" using Cons.prems(1) mset_subset_eqD[OF sub] \<open>y \<in> set ys\<close> by auto
      moreover have "mset (remove1 y ys) \<subseteq># mset xs"
        using sub by (metis diff_subset_eq_self mset_remove1 subset_mset.order_trans)
      ultimately show thesis using that by blast
    qed
    have "length ys = Suc (length (remove1 y ys))" using y(1) by (simp add: length_remove1) (metis Suc_pred length_pos_if_in_set)
    moreover have "sum_list ys = y + sum_list (remove1 y ys)" using y(1) by (simp add: sum_list_map_remove1[of y ys id, simplified])
    ultimately show ?thesis using Cons.IH[OF _ y(3)] Cons.prems(1) y(2) by simp
  qed simp
qed simp

lemma sum_bounds:
  fixes t :: rat
  shows "\<forall>x \<in> set xs. t \<le> x \<Longrightarrow> of_nat (length xs) * t \<le> sum_list xs"
    and "\<forall>x \<in> set xs. x \<le> t \<Longrightarrow> sum_list xs \<le> of_nat (length xs) * t"
  by (induction xs) (auto simp: algebra_simps)

lemma exact_sum:
  "foldl (\<lambda>t c. t + bc_score c) x cs = x + sum_list (map bc_score cs)"
  "foldl (+) y ys = y + sum_list (ys :: rat list)"
  by (induction cs arbitrary: x) (simp_all add: add.assoc, induction ys arbitrary: y, simp_all add: add.assoc)

text \<open>In exact arithmetic the selection would be as large as any that respects the target, when what is
  committed already respects it; the code computes with doubles, and loses this (\<open>rounding_loses_a_candidate\<close>).\<close>

theorem budget_maximal:
  assumes "sum_list committed \<le> target * of_nat (length committed)"
    and "mset chosen \<subseteq># mset candidates"
    and "(sum_list committed + sum_list (map bc_score chosen)) / of_nat (length committed + length chosen) \<le> target"
    and "chosen \<noteq> []"
  shows "length chosen \<le> length (bt_included (select_with id candidates target committed))"
proof (rule ccontr)
  let ?cs = "sort_key bc_score candidates"
  let ?xs = "map bc_score ?cs"
  let ?n = "length committed" and ?j = "length chosen"
  have committed: "bt_total (budget_start id committed) = sum_list committed"
    by (simp add: budget_start_def exact_sum)
  obtain k where k: "k \<le> length ?cs" and
    t: "let t = foldl (take_in id) (budget_start id committed) (take k ?cs) in
      foldl (budget_step id target) (budget_start id committed) ?cs =
        t\<lparr>bt_excluded := bt_excluded (budget_start id committed) @ map bc_email (drop k ?cs)\<rparr> \<and>
      (\<forall>n < k. fits id target (foldl (take_in id) (budget_start id committed) (take n ?cs)) (?cs ! n)) \<and>
      (k < length ?cs \<longrightarrow> \<not> fits id target t (?cs ! k))"
    using budget_prefix[where rnd = id and cs = ?cs and s = "budget_start id committed" and target = target] by auto
  have "length (bt_included (select_with id candidates target committed)) = k"
    using k t by (simp add: select_with_def Let_def taken_in budget_start_def)
  moreover assume "\<not> ?j \<le> length (bt_included (select_with id candidates target committed))"
  ultimately have kj: "k < ?j" by simp
  have "size (mset chosen) \<le> size (mset candidates)" using assms(2) by (rule size_mset_mono)
  then have j: "?j \<le> length ?xs" by simp
  with kj have kx: "k < length ?xs" by simp
  have "mset (map bc_score chosen) \<subseteq># mset ?xs" using assms(2) by (simp add: image_mset_subseteq_mono)
  from smallest_sum[OF _ this] have least: "sum_list (take ?j ?xs) \<le> sum_list (map bc_score chosen)" by simp
  have "\<not> (sum_list committed + sum_list (take k ?xs) + ?xs ! k) / of_nat (Suc (?n + k)) \<le> target"
    using t kx by (simp add: fits_def taken_in committed exact_sum take_map budget_start_def Let_def)
  then have over: "target * of_nat (?n + k + 1) < sum_list committed + sum_list (take (Suc k) ?xs)"
    using kx by (simp add: pos_divide_le_eq take_Suc_conv_app_nth not_le)
  have asc: "?xs ! a \<le> ?xs ! b" if "a \<le> b" "b < length ?xs" for a b
    using that by (intro sorted_nth_mono) auto
  have above: "target < ?xs ! k"
  proof (rule ccontr)
    assume "\<not> target < ?xs ! k"
    then have "\<forall>x \<in> set (take (Suc k) ?xs). x \<le> target"
      using asc kx by (auto simp: in_set_conv_nth) (meson le_trans less_Suc_eq_le not_le order_le_less_trans)
    from sum_bounds(2)[OF this] kx over assms(1) show False by (simp add: algebra_simps)
  qed
  have "\<forall>x \<in> set (take (?j - Suc k) (drop (Suc k) ?xs)). target \<le> x"
  proof
    fix x assume "x \<in> set (take (?j - Suc k) (drop (Suc k) ?xs))"
    then have "x \<in> set (drop (Suc k) ?xs)" by (rule in_set_takeD)
    then obtain i where "i < length ?xs - Suc k" "x = ?xs ! (Suc k + i)" by (auto simp: in_set_conv_nth)
    moreover from this have "Suc k + i < length ?xs" by linarith
    ultimately show "target \<le> x" using asc[of k "Suc k + i"] above by simp
  qed
  moreover have "length (take (?j - Suc k) (drop (Suc k) ?xs)) = ?j - Suc k" using j kj by simp
  ultimately have "of_nat (?j - Suc k) * target \<le> sum_list (take (?j - Suc k) (drop (Suc k) ?xs))"
    using sum_bounds(1) by metis
  moreover have "take ?j ?xs = take (Suc k) ?xs @ take (?j - Suc k) (drop (Suc k) ?xs)"
    using kj by (metis Suc_leI le_add_diff_inverse take_add)
  ultimately have "target * of_nat (?n + k + 1) + of_nat (?j - Suc k) * target < sum_list committed + sum_list (take ?j ?xs)"
    using over by simp
  moreover have "target * of_nat (?n + k + 1) + of_nat (?j - Suc k) * target = target * of_nat (?n + ?j)"
    using kj by (simp add: algebra_simps of_nat_diff)
  moreover have "sum_list committed + sum_list (map bc_score chosen) \<le> target * of_nat (?n + ?j)"
  proof -
    have "0 < ?n + ?j" using assms(4) by simp
    then have "0 < rat_of_nat (?n + ?j)" by (simp only: of_nat_0_less_iff)
    then show ?thesis using assms(3) by (simp only: pos_divide_le_eq)
  qed
  ultimately show False using least by linarith
qed

theorem budget_maximal_witness:
  "length [\<lparr>bc_email = ''a@b.de'', bc_score = 1 / 10\<rparr>] \<le>
   length (bt_included (select_with id
     [\<lparr>bc_email = ''c@d.de'', bc_score = 1 / 2\<rparr>, \<lparr>bc_email = ''a@b.de'', bc_score = 1 / 10\<rparr>] (1 / 10) [1 / 20]))"
  by (rule budget_maximal) simp_all

text \<open>In doubles, three candidates of risk 0.1 do not all fit a target of 0.1: their sum is rounded up.\<close>

lemma rounding_loses_a_candidate:
  "let p = dbl (1 / 10); c = \<lparr>bc_email = ''a@b.de'', bc_score = p\<rparr>
   in length (bs_included (select_within_budget [c, c, c] p [])) = 2"
proof -
  define p :: rat where "p = 3602879701896397 / 36028797018963968"
  define c where "c = \<lparr>bc_email = ''a@b.de'', bc_score = p\<rparr>"
  have p: "dbl (1 / 10) = p" using dbl_nearI [of "- 4" "1 / 10" "7205759403792794"] by (simp add: pow2_def p_def)
  have one: "dbl (0 + p) = p" "dbl (p / 1) = p" using dbl_nearI [of "- 4" p "7205759403792794"] by (simp_all add: pow2_def p_def)
  have two: "dbl (p + p) = 2 * p" using dbl_nearI [of "- 3" "2 * p" "7205759403792794"] by (simp add: pow2_def p_def)
  have sum: "dbl (2 * p + p) = 5404319552844596 / 18014398509481984"
    using dbl_eqI [of "- 2" "2 * p + p", OF _ _ trans [OF _ half_even_tie [of 5404319552844595]]] by (simp add: pow2_def p_def)
  have "dbl (5404319552844596 / 18014398509481984 / 3) = 7205759403792795 / 72057594037927936"
    using dbl_nearI [of "- 4" "5404319552844596 / 18014398509481984 / 3" "7205759403792795"] by (simp add: pow2_def)
  then have "dbl (dbl (2 * p + p) / 3) = 7205759403792795 / 72057594037927936" by (simp only: sum)
  then have three: "\<not> dbl (dbl (2 * p + p) / 3) \<le> p" by (simp only: p_def)
  have sorted: "sort_key bc_score [c, c, c] = [c, c, c]" by (rule sort_key_id_if_sorted) simp
  have "select_with dbl [c, c, c] p [] = \<lparr>bt_total = 2 * p, bt_count = 2, bt_included = [''a@b.de'', ''a@b.de''], bt_excluded = [''a@b.de'']\<rparr>"
    unfolding select_with_def sorted using one two three
    by (simp add: budget_start_def budget_step_def c_def Let_def)
  then show ?thesis by (simp add: p select_within_budget_def Let_def c_def [symmetric])
qed

text \<open>What is committed above the target makes the selection miss sets that would bring the blend back
  below it: six addresses of risk 1/64 after one of risk 1/2 blend to less than a tenth.\<close>

lemma budget_misses_recovery:
  "bs_included (select_within_budget (replicate 6 \<lparr>bc_email = ''a@b.de'', bc_score = 1 / 64\<rparr>) (1 / 10) [1 / 2]) = [] \<and>
   (1 / 2 + sum_list (replicate 6 (1 / 64))) / 7 \<le> (1 / 10 :: rat)"
proof -
  let ?c = "\<lparr>bc_email = ''a@b.de'', bc_score = 1 / 64\<rparr>"
  have a: "dbl (0 + 1 / 2) = 1 / 2" using dbl_nearI[of "- 1" "1 / 2" "2 ^ 52"] by (simp add: pow2_def)
  have b: "dbl (1 / 2 + 1 / 64) = 33 / 64" using dbl_nearI[of "- 1" "33 / 64" "33 * 2 ^ 47"] by (simp add: pow2_def)
  have c: "dbl (33 / 64 / 2) = 33 / 128" using dbl_nearI[of "- 2" "33 / 128" "33 * 2 ^ 47"] by (simp add: pow2_def)
  have total: "bt_total (budget_start dbl [1 / 2]) = 1 / 2"
    by (simp only: budget_start_def budget_state.simps foldl.simps a)
  have count: "rat_of_nat (Suc (bt_count (budget_start dbl [1 / 2]))) = 2" by (simp add: budget_start_def)
  have "\<not> fits dbl (1 / 10) (budget_start dbl [1 / 2]) ?c"
    unfolding fits_def total count budget_candidate.simps b c by simp
  from all_rejected[OF dbl_mono this, of "replicate 6 ?c"]
  have "bt_included (foldl (budget_step dbl (1 / 10)) (budget_start dbl [1 / 2]) (replicate 6 ?c)) = []"
    by (simp add: budget_start_def)
  moreover have "sort_key bc_score (replicate 6 ?c) = replicate 6 ?c" by (rule sort_key_id_if_sorted) simp
  ultimately have "bs_included (select_within_budget (replicate 6 ?c) (1 / 10) [1 / 2]) = []"
    by (simp add: select_within_budget_def select_with_def Let_def)
  then show ?thesis by (simp add: sum_list_replicate)
qed

text \<open>The bounds of the bins are computed in two ways that do not meet: the score 0.6 is in none.\<close>

lemma calibration_loses_score:
  "cr_samples (calibration [(dbl (6 / 10), True)] 10) = 1 \<and> cr_bins (calibration [(dbl (6 / 10), True)] 10) = []"
proof -
  let ?w = "3602879701896397 / 36028797018963968 :: rat"
  let ?s = "5404319552844595 / 9007199254740992 :: rat"
  have w: "dbl (1 / 10) = ?w" using dbl_nearI[of "- 4" "1 / 10" 7205759403792794] by (simp add: pow2_def)
  have s: "dbl (6 / 10) = ?s" using dbl_nearI[of "- 1" "6 / 10" 5404319552844595] by (simp add: pow2_def)
  have half: "fmul 5 ?w = 1 / 2"
    using dbl_nearI[of "- 1" "5 * ?w" "2 ^ 52"] by (simp add: pow2_def fmul_def)
  have upper: "fadd (1 / 2) ?w = ?s"
    using dbl_nearI[of "- 1" "1 / 2 + ?w" 5404319552844595] by (simp add: pow2_def fadd_def)
  have lower: "?s < fmul 6 ?w"
    using dbl_eqI[of "- 1" "6 * ?w" 5404319552844596] half_even_tie[of 5404319552844595]
    by (simp add: pow2_def fmul_def)
  have "\<not> in_bin 10 i ?s" for i
  proof (cases "i \<le> 5")
    case True
    then have "fmul (of_nat i) ?w \<le> fmul 5 ?w" unfolding fmul_def by (intro dbl_mono) simp
    then have "fadd (fmul (of_nat i) ?w) ?w \<le> ?s"
      unfolding half upper[symmetric] fadd_def by (intro dbl_mono add_right_mono)
    then show ?thesis using True by (simp add: in_bin_def w Let_def)
  next
    case False
    then have "fmul 6 ?w \<le> fmul (of_nat i) ?w" unfolding fmul_def by (intro dbl_mono) simp
    then show ?thesis using lower by (auto simp: in_bin_def w Let_def)
  qed
  then have "bin_of 10 [(?s, True)] i = None" for i by (simp add: bin_of_def Let_def)
  then have "List.map_filter (bin_of 10 [(?s, True)]) is = []" for "is" by (induction "is") simp_all
  then show ?thesis unfolding s by (simp add: calibration_def)
qed

end
