(* ===== verification/RiskFeedback.thy ===== *)
theory RiskFeedback
  imports RiskModel
begin

text \<open>
  \<^verbatim>\<open>emails/validation_feedback.py\<close> and the tables it keeps (\<^verbatim>\<open>emails/models.py\<close>): delivery outcomes,
  issued scores and suppressed domains, shared by all tenants. The keyed hash of an address is
  an argument. Rows are in insertion order, which breaks ties between equal times.
\<close>

section \<open>Tables\<close>

record feedback =
  vf_user :: string
  vf_hash :: string
  vf_domain :: string
  vf_outcome :: outcome
  vf_smtp_code :: "int option"
  vf_enhanced :: "string option"
  vf_provider :: "string option"
  vf_source :: string
  vf_predicted :: "rat option"
  vf_at :: time

record prediction =
  vp_user :: string
  vp_hash :: string
  vp_domain :: string
  vp_provider :: "string option"
  vp_status :: string
  vp_score :: rat
  vp_at :: time

record suppression =
  sp_domain :: string
  sp_reason :: string
  sp_hard :: int
  sp_observations :: int
  sp_created :: time
  sp_expires :: "time option"

record risk_db =
  rd_feedback :: "feedback list"
  rd_predictions :: "prediction list"
  rd_suppressions :: "suppression list"

record risk_settings =
  rs_cross_tenant :: bool
  rs_min_tenants :: int
  rs_min_samples :: int

definition day_count :: "int \<Rightarrow> time" where
  "day_count n = seconds (86400 * n)"

definition HISTORY_DAYS :: int where "HISTORY_DAYS = 180"
definition RECENT_DELIVERY_DAYS :: int where "RECENT_DELIVERY_DAYS = 90"
definition PREDICTION_MATCH_DAYS :: int where "PREDICTION_MATCH_DAYS = 30"
definition PREDICTION_RETENTION_DAYS :: int where "PREDICTION_RETENTION_DAYS = 365"
definition SUPPRESSION_MIN_OBSERVATIONS :: int where "SUPPRESSION_MIN_OBSERVATIONS = 8"
definition SUPPRESSION_HARD_RATE :: rat where "SUPPRESSION_HARD_RATE = dbl (30 / 100)"
definition SUPPRESSION_DAYS :: int where "SUPPRESSION_DAYS = 30"

definition email_hash :: "(string \<Rightarrow> string) \<Rightarrow> string \<Rightarrow> string" where
  "email_hash digest e = digest (lower (strip e))"

section \<open>Operations\<close>

definition record_prediction :: "(string \<Rightarrow> string) \<Rightarrow> time \<Rightarrow> string \<Rightarrow> string \<Rightarrow> string \<Rightarrow> string option \<Rightarrow> string
    \<Rightarrow> rat \<Rightarrow> risk_db \<Rightarrow> risk_db" where
  "record_prediction digest now user e d provider status score db =
     db\<lparr>rd_predictions :=
       filter (\<lambda>p. \<not> (vp_user p = user \<and> vp_at p < now - day_count PREDICTION_RETENTION_DAYS)) (rd_predictions db) @
       [\<lparr>vp_user = user, vp_hash = email_hash digest e, vp_domain = lower d, vp_provider = provider,
         vp_status = status, vp_score = score, vp_at = now\<rparr>]\<rparr>"

definition latest_by :: "('r \<Rightarrow> time) \<Rightarrow> 'r list \<Rightarrow> 'r option" where
  "latest_by at_time rows = (case sort_key (\<lambda>r. - at_time r) rows of [] \<Rightarrow> None | r # _ \<Rightarrow> Some r)"

definition count_where :: "outcome \<Rightarrow> feedback list \<Rightarrow> int" where
  "count_where k rows = int (length (filter (\<lambda>r. vf_outcome r = k) rows))"

definition counts_of :: "feedback list \<Rightarrow> observation_counts" where
  "counts_of rows = \<lparr>oc_delivered = count_where Delivered rows, oc_hard = count_where HardBounce rows,
     oc_soft = count_where SoftBounce rows, oc_tenants = int (length (remdups (map vf_user rows)))\<rparr>"

definition matches :: "'a option \<Rightarrow> 'a \<Rightarrow> bool" where
  "matches wanted x \<longleftrightarrow> (case wanted of None \<Rightarrow> True | Some w \<Rightarrow> x = w)"

definition counts_for :: "string option \<Rightarrow> string option \<Rightarrow> string option \<Rightarrow> time \<Rightarrow> risk_db \<Rightarrow> observation_counts" where
  "counts_for d provider user since db =
     counts_of (filter (\<lambda>r. since \<le> vf_at r \<and> matches d (vf_domain r) \<and>
       (case provider of None \<Rightarrow> True | Some p \<Rightarrow> vf_provider r = Some p) \<and> matches user (vf_user r)) (rd_feedback db))"

definition domain_counts :: "risk_settings \<Rightarrow> string \<Rightarrow> string \<Rightarrow> time \<Rightarrow> risk_db \<Rightarrow> observation_counts \<times> bool" where
  "domain_counts cfg user d since db =
     (let own = counts_for (Some d) None (Some user) since db
      in if \<not> rs_cross_tenant cfg then (own, False)
         else (let shared = counts_for (Some d) None None since db
               in if rs_min_tenants cfg \<le> oc_tenants shared \<and> rs_min_samples cfg \<le> decisive shared
                  then (shared, True) else (own, False)))"

text \<open>The circuit breaker of a domain.\<close>

definition breaker_trips :: "observation_counts \<Rightarrow> bool" where
  "breaker_trips c \<longleftrightarrow> SUPPRESSION_MIN_OBSERVATIONS \<le> decisive c \<and>
     \<not> fdiv (of_int (oc_hard c)) (of_int (decisive c)) < SUPPRESSION_HARD_RATE"

definition suppression_reason :: "observation_counts \<Rightarrow> string" where
  "suppression_reason c = take 255 (show_int (oc_hard c) @ '' of '' @ show_int (decisive c) @
     '' recorded outcomes at this domain were hard bounces.'')"

definition maybe_suppress_domain :: "time \<Rightarrow> string \<Rightarrow> risk_db \<Rightarrow> risk_db" where
  "maybe_suppress_domain now d db =
     (let c = counts_for (Some d) None None (now - day_count HISTORY_DAYS) db
      in if \<not> breaker_trips c then db
         else (case row_get sp_domain d (rd_suppressions db) of
                 None \<Rightarrow> db\<lparr>rd_suppressions := rd_suppressions db @
                   [\<lparr>sp_domain = d, sp_reason = suppression_reason c, sp_hard = oc_hard c, sp_observations = decisive c,
                     sp_created = now, sp_expires = Some (now + day_count SUPPRESSION_DAYS)\<rparr>]\<rparr>
               | Some r \<Rightarrow> db\<lparr>rd_suppressions := row_put sp_domain
                   (r\<lparr>sp_reason := suppression_reason c, sp_hard := oc_hard c, sp_observations := decisive c,
                      sp_expires := Some (now + day_count SUPPRESSION_DAYS)\<rparr>) (rd_suppressions db)\<rparr>))"

record delivery_result =
  dr_email :: string
  dr_domain :: string
  dr_outcome :: outcome
  dr_smtp_code :: "int option"
  dr_enhanced :: "string option"
  dr_provider :: "string option"
  dr_source :: string

definition new_feedback :: "(string \<Rightarrow> string) \<Rightarrow> time \<Rightarrow> string \<Rightarrow> delivery_result \<Rightarrow> risk_db \<Rightarrow> feedback" where
  "new_feedback digest now user x db =
     \<lparr>vf_user = user, vf_hash = email_hash digest (dr_email x), vf_domain = lower (dr_domain x), vf_outcome = dr_outcome x,
      vf_smtp_code = dr_smtp_code x, vf_enhanced = dr_enhanced x, vf_provider = dr_provider x, vf_source = dr_source x,
      vf_predicted = map_option vp_score (latest_by vp_at (filter (\<lambda>p. vp_hash p = email_hash digest (dr_email x) \<and>
        now - day_count PREDICTION_MATCH_DAYS \<le> vp_at p) (rd_predictions db))),
      vf_at = now\<rparr>"

definition record_validation_feedback :: "(string \<Rightarrow> string) \<Rightarrow> time \<Rightarrow> string \<Rightarrow> delivery_result \<Rightarrow> risk_db \<Rightarrow> risk_db" where
  "record_validation_feedback digest now user x db =
     (let db1 = db\<lparr>rd_feedback :=
            filter (\<lambda>r. \<not> (vf_user r = user \<and> vf_at r < now - day_count HISTORY_DAYS)) (rd_feedback db) @
            [new_feedback digest now user x db]\<rparr>
      in if dr_outcome x = HardBounce then maybe_suppress_domain now (lower (dr_domain x)) db1 else db1)"

definition domain_suppression :: "time \<Rightarrow> string \<Rightarrow> risk_db \<Rightarrow> suppression option" where
  "domain_suppression now d db =
     (case row_get sp_domain (lower d) (rd_suppressions db) of
        None \<Rightarrow> None
      | Some r \<Rightarrow> (case sp_expires r of Some e \<Rightarrow> if e < now then None else Some r | None \<Rightarrow> Some r))"

record risk_request =
  rq_user :: string
  rq_email :: string
  rq_domain :: string
  rq_provider :: mx_provider
  rq_local_part :: "rat \<times> string list"
  rq_signals :: "rat \<times> string list"
  rq_probe :: "probe_evidence option"

definition assess_catch_all_risk :: "libm \<Rightarrow> (string \<Rightarrow> string) \<Rightarrow> risk_settings \<Rightarrow> time \<Rightarrow> risk_request \<Rightarrow> risk_db
    \<Rightarrow> risk_assessment" where
  "assess_catch_all_risk m digest cfg now q db =
     (let since = now - day_count HISTORY_DAYS; provider = rq_provider q;
          latest = latest_by vf_at (filter (\<lambda>r. vf_user r = rq_user q \<and> vf_hash r = email_hash digest (rq_email q) \<and>
            since \<le> vf_at r) (rd_feedback db));
          exact = (case latest of None \<Rightarrow> None
            | Some r \<Rightarrow> exact_recipient_risk (vf_outcome r) (now - day_count RECENT_DELIVERY_DAYS \<le> vf_at r))
      in case exact of
           Some a \<Rightarrow> a\<lparr>ra_provider_id := Some (mx_id provider)\<rparr>
         | None \<Rightarrow>
             (let (dc, shared) = domain_counts cfg (rq_user q) (lower (rq_domain q)) since db;
                  pc = (if mx_id provider \<in> {''unknown'', ''no_mx''} then no_counts
                        else counts_for None (Some (mx_id provider)) None since db)
              in compute_risk m provider pc dc shared (rq_local_part q) (rq_signals q) (rq_probe q)))"

definition build_calibration_report :: "time \<Rightarrow> string option \<Rightarrow> int \<Rightarrow> risk_db \<Rightarrow> calibration_report" where
  "build_calibration_report now user n db =
     calibration (List.map_filter (\<lambda>r.
       if now - day_count n \<le> vf_at r \<and> vf_outcome r \<noteq> SoftBounce \<and> matches user (vf_user r)
       then map_option (\<lambda>s. (s, vf_outcome r = HardBounce)) (vf_predicted r) else None) (rd_feedback db)) 10"

section \<open>Suppression\<close>

definition feedback_after :: "(string \<Rightarrow> string) \<Rightarrow> time \<Rightarrow> string \<Rightarrow> delivery_result \<Rightarrow> risk_db \<Rightarrow> feedback list" where
  "feedback_after digest now user x db = rd_feedback (record_validation_feedback digest now user x db)"

lemma maybe_suppress_feedback [simp]: "rd_feedback (maybe_suppress_domain now d db) = rd_feedback db"
  by (simp add: maybe_suppress_domain_def Let_def split: option.splits)

lemma suppress_other_domain:
  "d \<noteq> e \<Longrightarrow> row_get sp_domain e (rd_suppressions (maybe_suppress_domain now d db)) = row_get sp_domain e (rd_suppressions db)"
  by (auto simp: maybe_suppress_domain_def Let_def table_simps dest!: row_get_SomeD split: option.splits)

lemma suppress_same_domain:
  "breaker_trips (counts_for (Some d) None None (now - day_count HISTORY_DAYS) db) \<Longrightarrow>
    \<exists>r. row_get sp_domain d (rd_suppressions (maybe_suppress_domain now d db)) = Some r \<and>
      sp_expires r = Some (now + day_count SUPPRESSION_DAYS)"
  by (auto simp: maybe_suppress_domain_def Let_def table_simps dest: row_get_SomeD split: option.splits)

text \<open>Domain suppression. After a reported outcome a domain is suppressed for thirty days exactly when
  the report is a hard bounce of that domain and the outcomes of all tenants in the last 180 days, this one
  included, trip the breaker (at least eight decisive ones, at least three tenths of them hard bounces);
  otherwise the suppression of every domain is what it was.\<close>

theorem suppression_exact:
  assumes "lower d = d"
  shows "let db' = record_validation_feedback digest now user x db;
       trips = (dr_outcome x = HardBounce \<and> lower (dr_domain x) = d \<and>
         breaker_trips (counts_of (filter (\<lambda>r. now - day_count 180 \<le> vf_at r \<and> vf_domain r = d) (rd_feedback db'))))
     in (domain_suppression t d db' \<noteq> None) =
        (if trips then t \<le> now + day_count 30 else domain_suppression t d db \<noteq> None)"
proof -
  let ?db1 = "db\<lparr>rd_feedback :=
            filter (\<lambda>r. \<not> (vf_user r = user \<and> vf_at r < now - day_count HISTORY_DAYS)) (rd_feedback db) @
            [new_feedback digest now user x db]\<rparr>"
  let ?db' = "record_validation_feedback digest now user x db"
  have same: "rd_feedback ?db' = rd_feedback ?db1"
    by (simp add: record_validation_feedback_def Let_def)
  have counts: "counts_for (Some d) None None (now - day_count HISTORY_DAYS) ?db1 =
      counts_of (filter (\<lambda>r. now - day_count 180 \<le> vf_at r \<and> vf_domain r = d) (rd_feedback ?db'))"
    by (simp add: counts_for_def matches_def HISTORY_DAYS_def same)
  let ?trips = "dr_outcome x = HardBounce \<and> lower (dr_domain x) = d \<and>
    breaker_trips (counts_for (Some d) None None (now - day_count HISTORY_DAYS) ?db1)"
  show ?thesis
  proof (cases ?trips)
    case True
    then obtain r where "row_get sp_domain d (rd_suppressions (maybe_suppress_domain now d ?db1)) = Some r"
      "sp_expires r = Some (now + day_count SUPPRESSION_DAYS)" using suppress_same_domain by blast
    then have "(domain_suppression t d ?db' \<noteq> None) = (t \<le> now + day_count 30)"
      using True assms by (auto simp: domain_suppression_def record_validation_feedback_def SUPPRESSION_DAYS_def not_less)
    then show ?thesis using True unfolding Let_def counts[symmetric] by simp
  next
    case False
    have "row_get sp_domain d (rd_suppressions ?db') = row_get sp_domain d (rd_suppressions db)"
    proof (cases "dr_outcome x = HardBounce \<and> lower (dr_domain x) = d")
      case True
      then show ?thesis using False
        by (simp add: record_validation_feedback_def maybe_suppress_domain_def Let_def)
    next
      case other: False
      then show ?thesis
        using suppress_other_domain[of "lower (dr_domain x)" d now ?db1]
        by (auto simp: record_validation_feedback_def Let_def)
    qed
    then have "domain_suppression t d ?db' = domain_suppression t d db"
      using assms by (simp add: domain_suppression_def)
    then show ?thesis using False unfolding Let_def counts[symmetric] by auto
  qed
qed

definition hard_bounce_at :: "string \<Rightarrow> string \<Rightarrow> delivery_result" where
  "hard_bounce_at e d = \<lparr>dr_email = e, dr_domain = d, dr_outcome = HardBounce, dr_smtp_code = Some 550,
     dr_enhanced = Some ''5.1.1'', dr_provider = None, dr_source = ''dsn''\<rparr>"

definition empty_risk_db :: risk_db where
  "empty_risk_db = \<lparr>rd_feedback = [], rd_predictions = [], rd_suppressions = []\<rparr>"

theorem suppression_exact_witness:
  "let db' = record_validation_feedback id 0 ''u'' (hard_bounce_at ''a@b.de'' ''B.de'') empty_risk_db;
       trips = (dr_outcome (hard_bounce_at ''a@b.de'' ''B.de'') = HardBounce \<and>
         lower (dr_domain (hard_bounce_at ''a@b.de'' ''B.de'')) = ''b.de'' \<and>
         breaker_trips (counts_of (filter (\<lambda>r. 0 - day_count 180 \<le> vf_at r \<and> vf_domain r = ''b.de'') (rd_feedback db'))))
   in (domain_suppression 5 ''b.de'' db' \<noteq> None) =
      (if trips then 5 \<le> 0 + day_count 30 else domain_suppression 5 ''b.de'' empty_risk_db \<noteq> None)"
  by (rule suppression_exact) code_simp

section \<open>Isolation of tenants\<close>

text \<open>The outcomes at a domain are shared only above the configured numbers of tenants and outcomes.\<close>

definition pooled :: "risk_settings \<Rightarrow> string \<Rightarrow> time \<Rightarrow> risk_db \<Rightarrow> bool" where
  "pooled cfg d since db \<longleftrightarrow> rs_cross_tenant cfg \<and>
     rs_min_tenants cfg \<le> oc_tenants (counts_for (Some d) None None since db) \<and>
     rs_min_samples cfg \<le> decisive (counts_for (Some d) None None since db)"

lemma domain_counts_own:
  "\<not> pooled cfg d since db \<Longrightarrow> domain_counts cfg user d since db = (counts_for (Some d) None (Some user) since db, False)"
  by (auto simp: domain_counts_def pooled_def Let_def)

lemma own_rows_decide:
  assumes "filter (\<lambda>r. vf_user r = user) (rd_feedback db1) = filter (\<lambda>r. vf_user r = user) (rd_feedback db2)"
  shows "filter (\<lambda>r. vf_user r = user \<and> Q r) (rd_feedback db1) = filter (\<lambda>r. vf_user r = user \<and> Q r) (rd_feedback db2)"
proof -
  have "filter (\<lambda>r. vf_user r = user \<and> Q r) rows = filter Q (filter (\<lambda>r. vf_user r = user) rows)" for rows
    by (simp add: conj_commute)
  then show ?thesis by (simp only: assms)
qed

text \<open>What a tenant's estimate may rest on: its own rows, the totals of the domain over all tenants when sharing
  is on and both thresholds are reached, and, with no threshold at all, the totals of the receiving provider over
  all tenants when the provider is known.\<close>

definition tenant_view :: "risk_settings \<Rightarrow> time \<Rightarrow> risk_request \<Rightarrow> risk_db
    \<Rightarrow> feedback list \<times> observation_counts option \<times> observation_counts option" where
  "tenant_view cfg now q db =
     (let since = now - day_count 180; d = lower (rq_domain q)
      in (filter (\<lambda>r. vf_user r = rq_user q) (rd_feedback db),
          if pooled cfg d since db then Some (counts_for (Some d) None None since db) else None,
          if mx_id (rq_provider q) \<in> {''unknown'', ''no_mx''} then None
          else Some (counts_for None (Some (mx_id (rq_provider q))) None since db)))"

lemma tenant_view_counts:
  assumes "tenant_view cfg now q db1 = tenant_view cfg now q db2"
  shows "domain_counts cfg (rq_user q) (lower (rq_domain q)) (now - day_count 180) db1 =
      domain_counts cfg (rq_user q) (lower (rq_domain q)) (now - day_count 180) db2"
    and "filter (\<lambda>r. vf_user r = rq_user q) (rd_feedback db1) = filter (\<lambda>r. vf_user r = rq_user q) (rd_feedback db2)"
    and "(if mx_id (rq_provider q) \<in> {''unknown'', ''no_mx''} then no_counts
        else counts_for None (Some (mx_id (rq_provider q))) None (now - day_count 180) db1) =
      (if mx_id (rq_provider q) \<in> {''unknown'', ''no_mx''} then no_counts
        else counts_for None (Some (mx_id (rq_provider q))) None (now - day_count 180) db2)"
proof -
  let ?d = "lower (rq_domain q)" and ?since = "now - day_count 180"
  show rows: "filter (\<lambda>r. vf_user r = rq_user q) (rd_feedback db1) = filter (\<lambda>r. vf_user r = rq_user q) (rd_feedback db2)"
    using assms by (simp add: tenant_view_def Let_def)
  have own: "counts_for (Some ?d) None (Some (rq_user q)) ?since db1 = counts_for (Some ?d) None (Some (rq_user q)) ?since db2"
    using own_rows_decide [OF rows, of "\<lambda>r. ?since \<le> vf_at r \<and> vf_domain r = ?d"]
    by (simp add: counts_for_def matches_def conj_ac)
  have both: "(if pooled cfg ?d ?since db1 then Some (counts_for (Some ?d) None None ?since db1) else None) =
      (if pooled cfg ?d ?since db2 then Some (counts_for (Some ?d) None None ?since db2) else None)"
    using assms by (simp add: tenant_view_def Let_def)
  show "domain_counts cfg (rq_user q) ?d ?since db1 = domain_counts cfg (rq_user q) ?d ?since db2"
  proof (cases "pooled cfg ?d ?since db1")
    case True
    with both have "pooled cfg ?d ?since db2" "counts_for (Some ?d) None None ?since db1 = counts_for (Some ?d) None None ?since db2"
      by (simp_all split: if_splits)
    with True show ?thesis by (simp add: domain_counts_def pooled_def Let_def)
  next
    case False
    with both have "\<not> pooled cfg ?d ?since db2" by (simp split: if_splits)
    with False own show ?thesis by (simp add: domain_counts_own)
  qed
  show "(if mx_id (rq_provider q) \<in> {''unknown'', ''no_mx''} then no_counts
        else counts_for None (Some (mx_id (rq_provider q))) None ?since db1) =
      (if mx_id (rq_provider q) \<in> {''unknown'', ''no_mx''} then no_counts
        else counts_for None (Some (mx_id (rq_provider q))) None ?since db2)"
    using assms by (cases "mx_id (rq_provider q) \<in> {''unknown'', ''no_mx''}") (simp_all add: tenant_view_def Let_def)
qed

text \<open>C26: What tenants learn of each other. An estimate is the same in any two databases that agree on the tenant's own rows,
  on the totals of the domain over all tenants when sharing is on and both thresholds are reached, and on the totals of
  the receiving provider over all tenants, for which there is no threshold, when the provider is known. No address of another tenant and, below the
  thresholds, nothing else they reported at the domain makes a difference.\<close>

theorem estimate_from_tenant_view:
  assumes "tenant_view cfg now q db1 = tenant_view cfg now q db2"
  shows "assess_catch_all_risk m digest cfg now q db1 = assess_catch_all_risk m digest cfg now q db2"
  unfolding assess_catch_all_risk_def Let_def HISTORY_DAYS_def tenant_view_counts(1,3) [OF assms]
    own_rows_decide [OF tenant_view_counts(2) [OF assms]] ..

text \<open>Two other tenants report a hard bounce at Google, once of the very address that is asked for, once of an address
  elsewhere: the estimate for an address at Google is the same.\<close>

definition tenant_request :: risk_request where
  "tenant_request = \<lparr>rq_user = ''u'', rq_email = ''a@b.de'', rq_domain = ''b.de'', rq_provider = the (provider_for_host ''aspmx.l.google.com''),
     rq_local_part = (0, []), rq_signals = (0, []), rq_probe = None\<rparr>"

definition other_tenant_db :: "string \<Rightarrow> string \<Rightarrow> string \<Rightarrow> risk_db" where
  "other_tenant_db user address d = record_validation_feedback id 0 user
     ((hard_bounce_at address d)\<lparr>dr_provider := Some ''google_workspace''\<rparr>) empty_risk_db"

definition tenant_settings :: "bool \<Rightarrow> risk_settings" where
  "tenant_settings share = \<lparr>rs_cross_tenant = share, rs_min_tenants = 3, rs_min_samples = 12\<rparr>"

theorem estimate_from_tenant_view_witness:
  "assess_catch_all_risk \<lparr>lm_log = id, lm_exp = id\<rparr> id (tenant_settings True) 5 tenant_request (other_tenant_db ''v'' ''a@b.de'' ''b.de'') =
   assess_catch_all_risk \<lparr>lm_log = id, lm_exp = id\<rparr> id (tenant_settings True) 5 tenant_request (other_tenant_db ''w'' ''c@d.fr'' ''d.fr'')"
proof (rule estimate_from_tenant_view)
  show "tenant_view (tenant_settings True) 5 tenant_request (other_tenant_db ''v'' ''a@b.de'' ''b.de'') =
      tenant_view (tenant_settings True) 5 tenant_request (other_tenant_db ''w'' ''c@d.fr'' ''d.fr'')"
    by code_simp
qed

text \<open>The totals of a known provider are pooled also when sharing between tenants is switched off.\<close>

lemma provider_totals_ignore_the_switch:
  "snd (snd (tenant_view (tenant_settings False) 5 tenant_request (other_tenant_db ''v'' ''c@d.fr'' ''d.fr''))) =
     Some \<lparr>oc_delivered = 0, oc_hard = 1, oc_soft = 0, oc_tenants = 1\<rparr>"
  by code_simp

end
