(* ===== verification/Batch.thy ===== *)
theory Batch
  imports Validate RiskFeedback
begin

text \<open>
  \<^verbatim>\<open>emails/batch_validation.py\<close>: a list of addresses validated together. The first address of a
  domain leads: what it shows of the destination is reused for the others. The validations of a batch run
  concurrently but do not share state, so their order does not matter; a validation that raises is the
  left side of the argument \<open>validate\<close>.
\<close>

section \<open>The work\<close>

record address_work =
  wk_email :: string
  wk_local_part :: string
  wk_domain :: string
  wk_index :: nat

record batch_item =
  bi_email :: string
  bi_status :: validation_status
  bi_verdict :: verdict
  bi_deliverable :: "bool option"
  bi_reason :: string
  bi_provider :: "string option"
  bi_score :: rat
  bi_action :: risk_action
  bi_matches :: "bool option"
  bi_permutation :: bool
  bi_risk :: "risk_assessment option"
  bi_target_ms :: "rat option"
  bi_control_ms :: "rat option"
  bi_error :: "string option"

definition CONFIRMED_RISK :: rat where "CONFIRMED_RISK = dbl (5 / 1000)"
definition UNDELIVERABLE_RISK :: rat where "UNDELIVERABLE_RISK = 1"
definition UNKNOWN_RISK :: rat where "UNKNOWN_RISK = 1 / 4"

definition plain_item :: "string \<Rightarrow> validation_status \<Rightarrow> verdict \<Rightarrow> bool option \<Rightarrow> string \<Rightarrow> rat \<Rightarrow> risk_action \<Rightarrow> string option \<Rightarrow> batch_item" where
  "plain_item e st v d reason score action err =
     \<lparr>bi_email = e, bi_status = st, bi_verdict = v, bi_deliverable = d, bi_reason = reason, bi_provider = None, bi_score = score,
      bi_action = action, bi_matches = None, bi_permutation = False, bi_risk = None, bi_target_ms = None, bi_control_ms = None,
      bi_error = err\<rparr>"

definition invalid_item :: "string \<Rightarrow> string option \<Rightarrow> batch_item" where
  "invalid_item e err = plain_item e StInvalid Undeliverable (Some False) ''invalid_syntax'' 1 Hold err"

definition failed_item :: "string \<Rightarrow> batch_item" where
  "failed_item e = plain_item e StUndetermined VerdictUnknown None ''validation_failed'' UNKNOWN_RISK Caution
     (Some ''Validation could not be completed for this address.'')"

text \<open>Blank addresses and repetitions in another case are passed over.\<close>

fun collect_work :: "(string \<Rightarrow> syntax_result) \<Rightarrow> nat \<Rightarrow> string set \<Rightarrow> string list \<Rightarrow> address_work list \<times> batch_item list" where
  "collect_work syn i seen [] = ([], [])"
| "collect_work syn i seen (raw # rest) =
     (let c = strip raw; key = lower_text c; sx = syn c
      in if c = [] \<or> key \<in> seen then collect_work syn (i + 1) seen rest
         else (let (work, invalid) = collect_work syn (i + 1) (insert key seen) rest
               in case sx_domain sx of
                    Some d \<Rightarrow>
                      if sx_valid sx \<and> d \<noteq> []
                      then (\<lparr>wk_email = c, wk_local_part = (case sx_local_part sx of None \<Rightarrow> [] | Some l \<Rightarrow> l), wk_domain = d,
                             wk_index = i\<rparr> # work, invalid)
                      else (work, invalid_item c (sx_error sx) # invalid)
                  | None \<Rightarrow> (work, invalid_item c (sx_error sx) # invalid)))"

definition domain_members :: "string \<Rightarrow> address_work list \<Rightarrow> address_work list" where
  "domain_members d work = filter (\<lambda>x. wk_domain x = d) work"

definition domain_shape :: "string \<Rightarrow> address_work list \<Rightarrow> local_shape option \<times> rat" where
  "domain_shape d work = dominant_shape (map wk_local_part (domain_members d work))"

definition domain_permutation_set :: "string \<Rightarrow> address_work list \<Rightarrow> string set" where
  "domain_permutation_set d work =
     (let members = domain_members d work
      in if length members > 1 then permutation_clusters (map wk_local_part members) else {})"

section \<open>Validation with a lead\<close>

definition baseline_risk :: "validation_response \<Rightarrow> rat" where
  "baseline_risk r =
     (if vr_deliverable r = Some False then UNDELIVERABLE_RISK
      else if vr_status r = StValid then CONFIRMED_RISK
      else if vr_status r = StDisposable then 1 / 2
      else UNKNOWN_RISK)"

text \<open>The latency of the lead's controls stands in where a member has none of its own.\<close>

definition inherit_baseline :: "mailbox_result \<Rightarrow> validation_outcome \<Rightarrow> validation_outcome" where
  "inherit_baseline lead out =
     (if mb_control_ms (vr_mailbox (vo_response out)) = None \<and> mb_control_ms lead \<noteq> None
      then out\<lparr>vo_response := (vo_response out)\<lparr>vr_mailbox := (vr_mailbox (vo_response out))\<lparr>mb_control_ms := mb_control_ms lead\<rparr>\<rparr>,
               vo_probe := map_option (\<lambda>p. p\<lparr>pe_control_ms := mb_control_ms lead\<rparr>) (vo_probe out)\<rparr>
      else out)"

definition inherit_catch_all :: "mailbox_result \<Rightarrow> validation_outcome \<Rightarrow> validation_outcome" where
  "inherit_catch_all lead out =
     (let r = vo_response out; m = vr_mailbox r
      in if mb_catch_all m = None \<and> mb_catch_all lead \<noteq> None
         then (let r' = r\<lparr>vr_mailbox := m\<lparr>mb_catch_all := mb_catch_all lead\<rparr>\<rparr>
               in out\<lparr>vo_response :=
                    (if mb_catch_all lead = Some True \<and> vr_status r = StValid
                     then r'\<lparr>vr_status := StCatchAll, vr_verdict := Risky, vr_deliverable := None, vr_reason := ''accept_all_domain''\<rparr>
                     else r')\<rparr>)
         else out)"

definition process_domain :: "(int option \<Rightarrow> string \<Rightarrow> string + validation_outcome) \<Rightarrow> address_work list \<Rightarrow> (string \<times> validation_outcome) list" where
  "process_domain validate members =
     (case members of
        [] \<Rightarrow> []
      | lead # others \<Rightarrow>
          (case validate None (wk_email lead) of
             Inl _ \<Rightarrow> []
           | Inr first \<Rightarrow>
               (let m = vr_mailbox (vo_response first); reuse = (if mb_catch_all m \<noteq> None then Some 0 else None)
                in (wk_email lead, first) # List.map_filter (\<lambda>x. case validate reuse (wk_email x) of
                     Inl _ \<Rightarrow> None
                   | Inr out \<Rightarrow> Some (wk_email x, inherit_catch_all m (inherit_baseline m out))) others)))"

definition batch_results :: "(int option \<Rightarrow> string \<Rightarrow> string + validation_outcome) \<Rightarrow> address_work list \<Rightarrow> (string \<times> validation_outcome) list" where
  "batch_results validate work = concat (map (\<lambda>d. process_domain validate (domain_members d work)) (remdups (map wk_domain work)))"

section \<open>Scoring\<close>

fun status_text :: "validation_status \<Rightarrow> string" where
  "status_text StValid = ''valid''"
| "status_text StInvalid = ''invalid''"
| "status_text StUndetermined = ''undetermined''"
| "status_text StDisposable = ''disposable''"
| "status_text StCatchAll = ''catch_all''"

record batch_settings =
  bt_libm :: libm
  bt_digest :: "string \<Rightarrow> string"
  bt_risk :: risk_settings
  bt_now :: time
  bt_user :: string

definition pattern_match :: "address_work list \<Rightarrow> address_work \<Rightarrow> validation_response \<Rightarrow> bool option" where
  "pattern_match work x r =
     (case domain_shape (wk_domain x) work of
        (Some shape, share) \<Rightarrow>
          if dbl (6 / 10) \<le> share \<and> 3 \<le> length (domain_members (wk_domain x) work)
          then Some (case vr_local_part r of None \<Rightarrow> False | Some l \<Rightarrow> lp_shape l = shape) else None
      | (None, _) \<Rightarrow> None)"

definition local_evidence :: "bool option \<Rightarrow> bool \<Rightarrow> rat \<times> string list \<Rightarrow> rat \<times> string list" where
  "local_evidence matched permuted w =
     (let w1 = (case matched of
            None \<Rightarrow> w
          | Some True \<Rightarrow> weigh True (- 3 / 10) ''Matches the naming convention used by this domain in the batch.'' w
          | Some False \<Rightarrow> weigh True (7 / 10) ''Does not match the naming convention this domain uses.'' w)
      in weigh permuted 1 ''The batch contains several generated variants of this name at this domain.'' w1)"

definition action_for :: "rat \<Rightarrow> risk_action" where
  "action_for score = (if score \<le> dbl (4 / 100) then Send else if dbl (10 / 100) \<le> score then Hold else Caution)"

definition score_item :: "batch_settings \<Rightarrow> address_work list \<Rightarrow> address_work \<Rightarrow> validation_outcome \<Rightarrow> risk_db \<Rightarrow> batch_item \<times> risk_db" where
  "score_item cfg work x out db =
     (let r = vo_response out;
          provider = (case vo_profile out of None \<Rightarrow> UNKNOWN_PROVIDER | Some p \<Rightarrow> pf_provider p);
          matched = pattern_match work x r;
          permuted = (lower (wk_local_part x) \<in> domain_permutation_set (wk_domain x) work);
          evidence = local_evidence matched permuted (vo_local out);
          risk = (if vr_status r = StCatchAll
            then Some (assess_catch_all_risk (bt_libm cfg) (bt_digest cfg) (bt_risk cfg) (bt_now cfg)
              \<lparr>rq_user = bt_user cfg, rq_email = wk_email x, rq_domain = wk_domain x, rq_provider = provider,
               rq_local_part = evidence, rq_signals = vo_domain out, rq_probe = vo_probe out\<rparr> db)
            else None);
          score = (case risk of Some a \<Rightarrow> ra_score a | None \<Rightarrow> baseline_risk r);
          action = (case risk of Some a \<Rightarrow> ra_action a | None \<Rightarrow> action_for score)
      in (\<lparr>bi_email = wk_email x, bi_status = vr_status r, bi_verdict = vr_verdict r, bi_deliverable = vr_deliverable r,
           bi_reason = vr_reason r, bi_provider = Some (mx_id provider), bi_score = fround 4 score, bi_action = action,
           bi_matches = matched, bi_permutation = permuted, bi_risk = risk, bi_target_ms = mb_target_ms (vr_mailbox r),
           bi_control_ms = mb_control_ms (vr_mailbox r), bi_error = None\<rparr>,
          record_prediction (bt_digest cfg) (bt_now cfg) (bt_user cfg) (wk_email x) (wk_domain x) (Some (mx_id provider))
            (status_text (vr_status r)) score db))"

fun score_items :: "batch_settings \<Rightarrow> address_work list \<Rightarrow> (string \<times> validation_outcome) list \<Rightarrow> address_work list \<Rightarrow> risk_db
    \<Rightarrow> batch_item list \<times> risk_db" where
  "score_items cfg work results [] db = ([], db)"
| "score_items cfg work results (x # xs) db =
     (let (item, db1) = (case map_of results (wk_email x) of
            None \<Rightarrow> (failed_item (wk_email x), db)
          | Some out \<Rightarrow> score_item cfg work x out db);
          (items, db2) = score_items cfg work results xs db1
      in (item # items, db2))"

section \<open>The response\<close>

record batch_summary =
  bu_total :: nat
  bu_valid :: nat
  bu_invalid :: nat
  bu_catch_all :: nat
  bu_undetermined :: nat
  bu_disposable :: nat
  bu_mean :: rat
  bu_projected :: rat

record batch_response =
  br_results :: "batch_item list"
  br_summary :: batch_summary
  br_selection :: "budget_selection option"

definition with_status :: "validation_status \<Rightarrow> batch_item list \<Rightarrow> nat" where
  "with_status st items = length (filter (\<lambda>i. bi_status i = st) items)"

definition summarise :: "batch_item list \<Rightarrow> batch_summary" where
  "summarise items =
     (let mean = (if items = [] then 0 else fround 5 (fdiv (fsum (map bi_score items)) (of_nat (length items))))
      in \<lparr>bu_total = length items, bu_valid = with_status StValid items, bu_invalid = with_status StInvalid items,
          bu_catch_all = with_status StCatchAll items, bu_undetermined = with_status StUndetermined items,
          bu_disposable = with_status StDisposable items, bu_mean = mean, bu_projected = mean\<rparr>)"

definition select_sendable :: "rat \<Rightarrow> batch_item list \<Rightarrow> budget_selection" where
  "select_sendable target items =
     (let sendable = filter (\<lambda>i. bi_deliverable i \<noteq> Some False) items;
          chosen = select_within_budget (map (\<lambda>i. \<lparr>bc_email = bi_email i, bc_score = bi_score i\<rparr>) sendable) target [];
          excluded = bs_excluded chosen @ map bi_email (filter (\<lambda>i. bi_deliverable i = Some False) items)
      in chosen\<lparr>bs_excluded := excluded, bs_included_count := length (bs_included chosen), bs_excluded_count := length excluded\<rparr>)"

definition validate_batch :: "batch_settings \<Rightarrow> (string \<Rightarrow> syntax_result) \<Rightarrow> (bool \<Rightarrow> int option \<Rightarrow> string \<Rightarrow> string + validation_outcome)
    \<Rightarrow> string list \<Rightarrow> rat option \<Rightarrow> bool \<Rightarrow> risk_db \<Rightarrow> batch_response \<times> risk_db" where
  "validate_batch cfg syn validate emails target signals db =
     (let (work, invalid) = collect_work syn 0 {} emails;
          (scored, db') = score_items cfg work (batch_results (validate signals) work) work db;
          items = invalid @ scored
      in (\<lparr>br_results = items, br_summary = summarise items, br_selection = map_option (\<lambda>t. select_sendable t items) target\<rparr>, db'))"

end
