(* ===== verification/BatchProps.thy ===== *)
theory BatchProps
  imports Batch VerdictProps
begin

text \<open>
  What a batch promises: every address is answered once, and what the lead shows of a domain binds the
  other addresses of that domain.
\<close>

section \<open>Every address is answered once\<close>

definition address_key :: "string \<Rightarrow> string" where
  "address_key e = lower_text (strip e)"

lemma lower_text_strip_keys:
  "lower_text ` set (map wk_email (fst (collect_work syn i seen es))) \<inter> seen = {} \<and>
   lower_text ` set (map bi_email (snd (collect_work syn i seen es))) \<inter> seen = {} \<and>
   distinct (map (lower_text \<circ> wk_email) (fst (collect_work syn i seen es)) @ map (lower_text \<circ> bi_email) (snd (collect_work syn i seen es))) \<and>
   (lower_text \<circ> wk_email) ` set (fst (collect_work syn i seen es)) \<union> (lower_text \<circ> bi_email) ` set (snd (collect_work syn i seen es)) =
     address_key ` set (filter (\<lambda>e. strip e \<noteq> []) es) - seen"
proof (induction es arbitrary: i seen)
  case Nil
  show ?case by simp
next
  case (Cons raw rest)
  show ?case
  proof (cases "strip raw = [] \<or> lower_text (strip raw) \<in> seen")
    case True
    then have "collect_work syn i seen (raw # rest) = collect_work syn (i + 1) seen rest" by (simp add: Let_def)
    with Cons.IH [of "i + 1" seen] True show ?thesis by (auto simp: address_key_def)
  next
    case False
    let ?key = "lower_text (strip raw)"
    obtain work invalid where rec: "collect_work syn (i + 1) (insert ?key seen) rest = (work, invalid)" by fastforce
    have "\<exists>x j. lower_text (wk_email x) = ?key \<and> lower_text (bi_email j) = ?key \<and>
        (collect_work syn i seen (raw # rest) = (x # work, invalid) \<or> collect_work syn i seen (raw # rest) = (work, j # invalid))"
    proof -
      let ?x = "\<lparr>wk_email = strip raw, wk_local_part = (case sx_local_part (syn (strip raw)) of None \<Rightarrow> [] | Some l \<Rightarrow> l),
        wk_domain = the (sx_domain (syn (strip raw))), wk_index = i\<rparr>" and ?j = "invalid_item (strip raw) (sx_error (syn (strip raw)))"
      have "collect_work syn i seen (raw # rest) = (?x # work, invalid) \<or> collect_work syn i seen (raw # rest) = (work, ?j # invalid)"
        using False rec by (auto simp: Let_def split: option.splits)
      moreover have "lower_text (wk_email ?x) = ?key" "lower_text (bi_email ?j) = ?key"
        by (simp_all add: invalid_item_def plain_item_def)
      ultimately show ?thesis by blast
    qed
    then obtain x j where x: "lower_text (wk_email x) = ?key" "lower_text (bi_email j) = ?key"
      and col: "collect_work syn i seen (raw # rest) = (x # work, invalid) \<or> collect_work syn i seen (raw # rest) = (work, j # invalid)"
      by blast
    have ih: "lower_text ` wk_email ` set work \<inter> insert ?key seen = {}" "lower_text ` bi_email ` set invalid \<inter> insert ?key seen = {}"
      "distinct (map (lower_text \<circ> wk_email) work @ map (lower_text \<circ> bi_email) invalid)"
      "(lower_text \<circ> wk_email) ` set work \<union> (lower_text \<circ> bi_email) ` set invalid =
         address_key ` set (filter (\<lambda>e. strip e \<noteq> []) rest) - insert ?key seen"
      using Cons.IH [of "i + 1" "insert ?key seen"] unfolding rec by (simp_all add: image_image o_def)
    have keys: "address_key ` set (filter (\<lambda>e. strip e \<noteq> []) (raw # rest)) - seen =
        insert ?key (address_key ` set (filter (\<lambda>e. strip e \<noteq> []) rest) - insert ?key seen)"
      using False by (auto simp: address_key_def)
    from col show ?thesis
    proof
      assume c: "collect_work syn i seen (raw # rest) = (x # work, invalid)"
      show ?thesis using ih x False unfolding c keys ih(4) [symmetric] by (auto simp: image_image o_def)
    next
      assume c: "collect_work syn i seen (raw # rest) = (work, j # invalid)"
      show ?thesis using ih x False unfolding c keys ih(4) [symmetric] by (auto simp: image_image o_def)
    qed
  qed
qed

lemma score_item_email [simp]: "bi_email (fst (score_item cfg work x out db)) = wk_email x"
  by (simp add: score_item_def Let_def)

lemma score_items_emails: "map bi_email (fst (score_items cfg work results xs db)) = map wk_email xs"
proof (induction xs arbitrary: db)
  case (Cons x xs)
  show ?case
    by (cases "map_of results (wk_email x)") (simp_all add: case_prod_beta Let_def Cons.IH failed_item_def plain_item_def)
qed simp

text \<open>a batch answers every address it was given exactly once: blank entries and repetitions in another case are passed
  over, nothing else is lost (an address whose validation fails is reported as such) and nothing is added.\<close>

theorem batch_answers_every_address:
  "distinct (map (lower_text \<circ> bi_email) (br_results (fst (validate_batch cfg syn validate emails target signals db)))) \<and>
   (lower_text \<circ> bi_email) ` set (br_results (fst (validate_batch cfg syn validate emails target signals db))) =
     address_key ` set (filter (\<lambda>e. strip e \<noteq> []) emails)"
proof -
  obtain work invalid where c: "collect_work syn 0 {} emails = (work, invalid)" by fastforce
  let ?scored = "fst (score_items cfg work (batch_results (validate signals) work) work db)"
  have res: "br_results (fst (validate_batch cfg syn validate emails target signals db)) = invalid @ ?scored"
    by (simp add: validate_batch_def c case_prod_beta Let_def)
  have "map (lower_text \<circ> bi_email) (invalid @ ?scored) = map (lower_text \<circ> bi_email) invalid @ map (lower_text \<circ> wk_email) work"
    using score_items_emails [of cfg work "batch_results (validate signals) work" work db] by (simp flip: map_map)
  moreover from this have "(lower_text \<circ> bi_email) ` set (invalid @ ?scored) =
      (lower_text \<circ> wk_email) ` set work \<union> (lower_text \<circ> bi_email) ` set invalid"
    by (metis list.set_map set_append sup_commute)
  ultimately show ?thesis using lower_text_strip_keys [of syn 0 "{}" emails] by (auto simp: res c)
qed

section \<open>The lead binds its domain\<close>

text \<open>A validation of one address, which may raise.\<close>

definition single_validation :: "(string \<Rightarrow> bool) \<Rightarrow> world \<Rightarrow> validation_settings \<Rightarrow> bool \<Rightarrow> int option \<Rightarrow> string \<Rightarrow> string + validation_outcome" where
  "single_validation raises w st signals count e =
     (if raises e then Inl ''validation failed'' else Inr (validate_email_detailed w st signals count e))"

lemma session_without_controls:
  "yields (run_probe_session peer dr provider 0 sender d email) (\<lambda>s. pn_controls s = [])"
  unfolding run_probe_session_def Let_def
  by (auto simp: session_of_def intro!: yields_skip yields_ret)

lemma connect_without_controls:
  assumes "connect_to nw profile 0 sender d email a = Inr s"
  shows "pn_controls s = []"
proof -
  have "yields (probe_connection (nw_peer nw a) (run_probe_session (nw_peer nw a) (nw_draws nw a) (map_option pf_provider profile) 0 sender d email))
      (\<lambda>s. pn_controls s = [])"
    unfolding probe_connection_def by (intro yields_skip session_without_controls)
  from yieldsD [OF this, of "[]" s] assms show ?thesis by (simp add: connect_to_def)
qed

lemma no_controls_no_catch_all:
  "pn_controls s = [] \<Longrightarrow> mb_valid (mailbox_from_session t profile s) = Some True \<Longrightarrow> mb_catch_all (mailbox_from_session t profile s) = None"
  by (auto simp: mailbox_from_session_def no_result_def Let_def split: option.splits rcpt_verdict.splits)

lemma validate_mailbox_without_controls:
  assumes "mb_valid (validate_mailbox st nw d mxs email sender profile (Some 0)) = Some True"
  shows "mb_catch_all (validate_mailbox st nw d mxs email sender profile (Some 0)) = None"
proof -
  let ?hosts = "if parse_mx_hosts mxs = [] then [d] else parse_mx_hosts mxs"
  let ?connect = "connect_to nw profile 0 sender d email"
  let ?start = "\<lparr>pp_error = None, pp_inconclusive = None\<rparr>"
  have start: "undecided ?start" by (simp add: undecided_def)
  note result = probe_hosts_result [OF start, where addresses = "resolve_public_smtp_addresses nw" and connect = ?connect and profile = profile and hs = ?hosts]
  have v: "validate_mailbox st nw d mxs email sender profile (Some 0) =
      (case probe_hosts (resolve_public_smtp_addresses nw) ?connect profile ?hosts ?start of
         Inl m \<Rightarrow> m
       | Inr pp \<Rightarrow> (case pp_inconclusive pp of
           Some m \<Rightarrow> m
         | None \<Rightarrow> no_result Direct (Some ''smtp_unreachable'')
             (map_option (\<lambda>e. ''SMTP connection failed: '' @ e) (or_text (pp_error pp) (Some ''No hosts resolved'')))))"
    using assms by (auto simp: validate_mailbox_def Let_def control_count_def no_result_def split: if_splits)
  show ?thesis
  proof (cases "probe_hosts (resolve_public_smtp_addresses nw) ?connect profile ?hosts ?start")
    case (Inl m)
    with result obtain a s where "?connect a = Inr s" "m = mailbox_from_session Direct profile s" by auto
    with Inl v assms show ?thesis using connect_without_controls no_controls_no_catch_all by simp
  next
    case (Inr pp)
    with result v assms show ?thesis by (auto simp: undecided_def no_result_def split: option.splits)
  qed
qed

lemma outcome_valid_status:
  assumes "vr_status (vo_response (validate_email_detailed w st sg count e)) = StValid"
  shows "mb_valid (vr_mailbox (vo_response (validate_email_detailed w st sg count e))) = Some True \<and>
     mb_catch_all (vr_mailbox (vo_response (validate_email_detailed w st sg count e))) \<noteq> Some True"
  using assms
  by (cases rule: validate_email_cases [of w st sg count e])
     (auto simp: syntax_outcome_def dns_outcome_def final_outcome_def conclude_def Let_def split: if_splits)

lemma outcome_deliverable_status:
  assumes "vr_verdict (vo_response (validate_email_detailed w st sg count e)) = Deliverable"
  shows "vr_status (vo_response (validate_email_detailed w st sg count e)) = StValid"
  using assms
  by (cases rule: validate_email_cases [of w st sg count e])
     (auto simp: syntax_outcome_def dns_outcome_def final_outcome_def conclude_def Let_def split: if_splits)

lemma outcome_without_controls:
  assumes "vs_relay_host st = []" "vr_status (vo_response (validate_email_detailed w st sg (Some 0) e)) = StValid"
  shows "mb_catch_all (vr_mailbox (vo_response (validate_email_detailed w st sg (Some 0) e))) = None"
proof -
  from outcome_valid_status [OF assms(2)] have v: "mb_valid (vr_mailbox (vo_response (validate_email_detailed w st sg (Some 0) e))) = Some True" by blast
  show ?thesis
  proof (cases rule: validate_email_cases [of w st sg "Some 0" e])
    case (probed d ls b profile ds)
    with v have m: "mb_valid (mailbox_stage w st d (dn_mx (validate_dns (wd_idna w) (wd_dns w) d)) (strip e) profile (Some 0)) = Some True"
      by (simp add: final_outcome_def Let_def)
    then have "mb_catch_all (mailbox_stage w st d (dn_mx (validate_dns (wd_idna w) (wd_dns w) d)) (strip e) profile (Some 0)) = None"
      using assms(1) by (auto simp: mailbox_stage_def no_result_def Let_def validate_mailbox_without_controls split: if_splits)
    with probed show ?thesis by (simp add: final_outcome_def Let_def)
  qed (use v in \<open>simp_all add: syntax_outcome_def dns_outcome_def no_result_def\<close>)
qed

lemma inherit_baseline_same [simp]:
  "vr_status (vo_response (inherit_baseline m out)) = vr_status (vo_response out)"
  "vr_verdict (vo_response (inherit_baseline m out)) = vr_verdict (vo_response out)"
  "mb_catch_all (vr_mailbox (vo_response (inherit_baseline m out))) = mb_catch_all (vr_mailbox (vo_response out))"
  by (simp_all add: inherit_baseline_def)

text \<open>once the lead of a domain was found at an accept-all destination, no address of that domain is reported as valid or
  deliverable, although the others are probed without control recipients.\<close>

theorem accept_all_lead_spreads:
  assumes "vs_relay_host st = []"
    and "mb_catch_all (vr_mailbox (vo_response (validate_email_detailed w st sg None (wk_email lead)))) = Some True"
    and "(e, out) \<in> set (process_domain (single_validation raises w st sg) (lead # others))"
  shows "vr_status (vo_response out) \<noteq> StValid \<and> vr_verdict (vo_response out) \<noteq> Deliverable"
proof -
  let ?lead = "validate_email_detailed w st sg None (wk_email lead)"
  let ?m = "vr_mailbox (vo_response ?lead)"
  have lead: "vr_status (vo_response ?lead) \<noteq> StValid" "vr_verdict (vo_response ?lead) \<noteq> Deliverable"
    using outcome_valid_status [of w st sg None "wk_email lead"] outcome_deliverable_status [of w st sg None "wk_email lead"] assms(2) by auto
  from assms(2,3) have "out = ?lead \<or>
      (\<exists>x::address_work. out = inherit_catch_all ?m (inherit_baseline ?m (validate_email_detailed w st sg (Some 0) (wk_email x))))"
    by (auto simp: process_domain_def single_validation_def Let_def map_filter_def simp del: not_None_eq split: if_splits)
  then show ?thesis
  proof
    assume "out = ?lead"
    with lead show ?thesis by simp
  next
    assume "\<exists>x::address_work. out = inherit_catch_all ?m (inherit_baseline ?m (validate_email_detailed w st sg (Some 0) (wk_email x)))"
    then obtain x :: address_work where x: "out = inherit_catch_all ?m (inherit_baseline ?m (validate_email_detailed w st sg (Some 0) (wk_email x)))" by blast
    let ?o = "validate_email_detailed w st sg (Some 0) (wk_email x)"
    have "vr_status (vo_response ?o) = StValid" if "vr_verdict (vo_response ?o) = Deliverable"
      using that by (rule outcome_deliverable_status)
    then show ?thesis using x assms(2) outcome_without_controls [OF assms(1), of w sg "wk_email x"]
      by (auto simp: inherit_catch_all_def Let_def)
  qed
qed

text \<open>A destination that accepts every recipient.\<close>

definition open_peer :: smtp_peer where
  "open_peer = \<lparr>pr_answer = (\<lambda>_ _. Reply 250 ''OK''), pr_starttls = (\<lambda>_. False), pr_latency = (\<lambda>_. 20)\<rparr>"

definition open_world :: world where
  "open_world = (acme_world False)\<lparr>wd_network := (wd_network (acme_world False))\<lparr>nw_peer := (\<lambda>_. open_peer)\<rparr>\<rparr>"

definition acme_work :: "string \<Rightarrow> address_work" where
  "acme_work l = \<lparr>wk_email = l @ ''@acme.dev'', wk_local_part = l, wk_domain = ''acme.dev'', wk_index = 0\<rparr>"

lemma accept_all_lead_spreads_witness:
  "let r = vo_response (snd (process_domain (single_validation (\<lambda>_. False) open_world direct_settings False)
             [acme_work ''ann'', acme_work ''bob''] ! 1))
   in vr_status r \<noteq> StValid \<and> vr_verdict r \<noteq> Deliverable"
proof -
  let ?p = "process_domain (single_validation (\<lambda>_. False) open_world direct_settings False) [acme_work ''ann'', acme_work ''bob'']"
  have c: "mb_catch_all (vr_mailbox (vo_response (validate_email_detailed open_world direct_settings False None (wk_email (acme_work ''ann''))))) = Some True"
    by code_simp
  have "length ?p = 2" by (simp add: process_domain_def single_validation_def Let_def map_filter_def)
  then have i: "(fst (?p ! 1), snd (?p ! 1)) \<in> set ?p" by simp
  have d: "vs_relay_host direct_settings = []" by (simp add: direct_settings_def)
  from accept_all_lead_spreads [OF d c i] show ?thesis by (simp add: Let_def)
qed

end
