(* ===== verification/Canary.thy ===== *)
theory Canary
  imports Batch
begin

text \<open>
  \<^verbatim>\<open>emails/canary.py\<close>, \<^verbatim>\<open>emails/canary_scheduler.py\<close> and the staged-send endpoints of
  \<^verbatim>\<open>emails/validation_router.py\<close>: a batch goes out as a sample first; the rest follows when the sample
  survived its window. What \<open>send_email\<close> does with a message is the argument \<open>send\<close> (it raises or not);
  the messages it took are the log \<open>cd_outbox\<close>. A query without an order returns the rows as inserted.
\<close>

section \<open>Rows\<close>

datatype canary_status = CanaryPending | Probing | CanaryReleased | CanaryBlocked | Cancelled | CanaryFailed

datatype recipient_role = Sample | Held

datatype recipient_status =
  RPending | RSent | RDelivered | RHardBounce | RSoftBounce | RReleased | RBlocked | RSkipped

record canary =
  ca_id :: string
  ca_user :: string
  ca_name :: string
  ca_status :: canary_status
  ca_sample_size :: int
  ca_hold_minutes :: int
  ca_threshold :: rat
  ca_from :: string
  ca_from_name :: string
  ca_subject :: string
  ca_body :: string
  ca_body_type :: string
  ca_reply_to :: "string option"
  ca_auto_release :: bool
  ca_created :: time
  ca_sample_sent :: "time option"
  ca_due :: "time option"
  ca_decided :: "time option"
  ca_reason :: "string option"

record canary_recipient =
  cr_canary :: string
  cr_email :: string
  cr_hash :: string
  cr_domain :: string
  cr_role :: recipient_role
  cr_status :: recipient_status
  cr_score :: "rat option"
  cr_smtp_code :: "int option"
  cr_enhanced :: "string option"
  cr_sent_at :: "time option"
  cr_resolved_at :: "time option"

record outgoing =
  og_canary :: string
  og_to :: string
  og_from :: string
  og_from_name :: string
  og_subject :: string
  og_body :: string
  og_body_type :: string
  og_reply_to :: "string option"

record canary_db =
  cd_canaries :: "canary list"
  cd_recipients :: "canary_recipient list"
  cd_outbox :: "outgoing list"

definition save_canary :: "canary \<Rightarrow> canary_db \<Rightarrow> canary_db" where
  "save_canary c db = db\<lparr>cd_canaries := row_put ca_id c (cd_canaries db)\<rparr>"

definition recipients_of :: "string \<Rightarrow> canary_db \<Rightarrow> canary_recipient list" where
  "recipients_of cid db = filter (\<lambda>r. cr_canary r = cid) (cd_recipients db)"

section \<open>The sample\<close>

definition riskiest_first :: "(string \<times> rat) list \<Rightarrow> (string \<times> rat) list" where
  "riskiest_first scored = sort_key (\<lambda>p. - snd p) scored"

definition spread_indices :: "nat \<Rightarrow> nat \<Rightarrow> nat list" where
  "spread_indices k n =
     (if k > 1
      then (let step = fdiv (of_nat (n - 1)) (of_nat (k - 1))
            in fold (\<lambda>pos picked. List.insert (min (nat (half_even (fmul (of_nat pos) step))) (n - 1)) picked) [1..<k] [0])
      else [0])"

definition fill_indices :: "nat \<Rightarrow> nat \<Rightarrow> nat list \<Rightarrow> nat list" where
  "fill_indices k n picked = fold (\<lambda>c p. if length p < k then List.insert c p else p) [0..<n] picked"

definition choose_sample :: "(string \<times> rat) list \<Rightarrow> int \<Rightarrow> string list \<times> string list" where
  "choose_sample scored sample_size =
     (if scored = [] then ([], [])
      else (let ordered = riskiest_first scored; n = length ordered; k = nat (max 1 (min sample_size (int n)))
            in if k \<ge> n then (map fst ordered, [])
               else (let picked = fill_indices k n (spread_indices k n)
                     in (map (\<lambda>i. fst (ordered ! i)) (sort picked),
                         map (\<lambda>i. fst (ordered ! i)) (filter (\<lambda>i. i \<notin> set picked) [0..<n])))))"

section \<open>Creation\<close>

record canary_request =
  cq_recipients :: "string list"
  cq_from :: string
  cq_subject :: string
  cq_body :: string
  cq_name :: string
  cq_from_name :: string
  cq_body_type :: string
  cq_reply_to :: "string option"
  cq_sample_size :: "int option"
  cq_hold_minutes :: "int option"
  cq_threshold :: rat
  cq_auto_release :: bool

record canary_settings =
  cs_enabled :: bool
  cs_sample_size :: int
  cs_hold_minutes :: int
  cs_max_hold_minutes :: int
  cs_max_recipients :: nat

text \<open>The schema bounds the optional numbers from below by one, so \<open>or\<close> falls back on \<open>None\<close> only.\<close>

definition or_default :: "int option \<Rightarrow> int \<Rightarrow> int" where
  "or_default given fallback = (case given of None \<Rightarrow> fallback | Some n \<Rightarrow> if n = 0 then fallback else n)"

text \<open>The valid addresses, each in the first spelling it comes in.\<close>

fun unique_recipients :: "(string \<Rightarrow> syntax_result) \<Rightarrow> string set \<Rightarrow> string list \<Rightarrow> string list" where
  "unique_recipients syn seen [] = []"
| "unique_recipients syn seen (raw # rest) =
     (let c = strip raw; sx = syn c
      in if c = [] \<or> \<not> sx_valid sx \<or> sx_domain sx \<in> {None, Some []} \<or> lower_text c \<in> seen
         then unique_recipients syn seen rest
         else c # unique_recipients syn (insert (lower_text c) seen) rest)"

definition recipient_domain :: "string \<Rightarrow> string" where
  "recipient_domain address = lower_text (domain_of address)"

definition is_suppressed :: "time \<Rightarrow> risk_db \<Rightarrow> string \<Rightarrow> bool" where
  "is_suppressed now rdb address \<longleftrightarrow> domain_suppression now (recipient_domain address) rdb \<noteq> None"

definition new_recipient :: "(string \<Rightarrow> string) \<Rightarrow> string \<Rightarrow> recipient_status \<Rightarrow> string \<Rightarrow> canary_recipient" where
  "new_recipient digest cid st address =
     \<lparr>cr_canary = cid, cr_email = address, cr_hash = email_hash digest address, cr_domain = recipient_domain address,
      cr_role = Held, cr_status = st, cr_score = None, cr_smtp_code = None, cr_enhanced = None, cr_sent_at = None,
      cr_resolved_at = None\<rparr>"

definition create_canary :: "canary_settings \<Rightarrow> (string \<Rightarrow> syntax_result) \<Rightarrow> (string \<Rightarrow> string) \<Rightarrow> time \<Rightarrow> string \<Rightarrow> string \<Rightarrow> canary_request
    \<Rightarrow> risk_db \<Rightarrow> canary_db \<Rightarrow> canary result \<times> canary_db" where
  "create_canary cfg syn digest now cid user q rdb db =
     (let unique = unique_recipients syn {} (cq_recipients q);
          sendable = filter (\<lambda>a. \<not> is_suppressed now rdb a) unique; skipped = filter (is_suppressed now rdb) unique;
          c = \<lparr>ca_id = cid, ca_user = user,
               ca_name = (if cq_name q = [] then ''Staged send to '' @ show_nat (length sendable) @ '' recipients'' else cq_name q),
               ca_status = (if sendable = [] then CanaryBlocked else CanaryPending),
               ca_sample_size = or_default (cq_sample_size q) (cs_sample_size cfg),
               ca_hold_minutes = min (or_default (cq_hold_minutes q) (cs_hold_minutes cfg)) (cs_max_hold_minutes cfg),
               ca_threshold = cq_threshold q, ca_from = cq_from q, ca_from_name = cq_from_name q, ca_subject = cq_subject q,
               ca_body = cq_body q, ca_body_type = cq_body_type q, ca_reply_to = cq_reply_to q,
               ca_auto_release = cq_auto_release q, ca_created = now, ca_sample_sent = None, ca_due = None, ca_decided = None,
               ca_reason = (if sendable = [] then Some ''Every recipient domain is currently suppressed for sending.'' else None)\<rparr>
      in if unique = [] then (Inl (ValueErr ''No valid recipient addresses were supplied''), db)
         else (Inr c, db\<lparr>cd_canaries := cd_canaries db @ [c],
                 cd_recipients := cd_recipients db @ map (new_recipient digest cid RPending) sendable
                   @ map (new_recipient digest cid RSkipped) skipped\<rparr>))"

section \<open>Scoring\<close>

definition pending_row :: "string \<Rightarrow> canary_recipient \<Rightarrow> bool" where
  "pending_row cid r \<longleftrightarrow> cr_canary r = cid \<and> cr_status r = RPending"

text \<open>A dead address is skipped and is not part of the sample; an address without a result scores 0.125.\<close>

definition score_row :: "time \<Rightarrow> batch_item list \<Rightarrow> canary_recipient \<Rightarrow> canary_recipient" where
  "score_row now items r =
     (let key = lower_text (cr_email r);
          score = (case map_of (rev (map (\<lambda>i. (lower_text (bi_email i), bi_score i)) items)) key of None \<Rightarrow> 1 / 8 | Some s \<Rightarrow> s);
          r' = r\<lparr>cr_score := Some score\<rparr>
      in if list_ex (\<lambda>i. lower_text (bi_email i) = key \<and> bi_deliverable i = Some False) items
         then r'\<lparr>cr_status := RSkipped, cr_resolved_at := Some now\<rparr> else r')"

definition scored_rows :: "time \<Rightarrow> batch_item list \<Rightarrow> canary_recipient list \<Rightarrow> (string \<times> rat) list" where
  "scored_rows now items rows =
     map (\<lambda>r. (cr_email r, case cr_score r of None \<Rightarrow> 0 | Some s \<Rightarrow> s))
       (filter (\<lambda>r. cr_status r = RPending) (map (score_row now items) rows))"

definition assign_row :: "time \<Rightarrow> batch_item list \<Rightarrow> string list \<Rightarrow> canary_recipient \<Rightarrow> canary_recipient" where
  "assign_row now items sample r =
     (let r' = score_row now items r
      in if cr_status r' = RPending \<and> lower_text (cr_email r') \<in> set sample then r'\<lparr>cr_role := Sample\<rparr> else r')"

definition assign_sample :: "time \<Rightarrow> batch_item list \<Rightarrow> canary \<Rightarrow> canary_db \<Rightarrow> nat \<times> canary \<times> canary_db" where
  "assign_sample now items c db =
     (let scored = scored_rows now items (filter (pending_row (ca_id c)) (cd_recipients db));
          sample = map lower_text (fst (choose_sample scored (ca_sample_size c)));
          c' = (if scored = [] then c\<lparr>ca_status := CanaryBlocked, ca_decided := Some now,
                  ca_reason := Some ''No recipient survived validation.''\<rparr> else c)
      in (length scored, c', save_canary c' (db\<lparr>cd_recipients :=
            map (\<lambda>r. if pending_row (ca_id c) r then assign_row now items sample r else r) (cd_recipients db)\<rparr>)))"

text \<open>\<open>batch\<close> validates a list of addresses and may raise.\<close>

definition score_and_assign_sample :: "time \<Rightarrow> (string list \<Rightarrow> string + batch_item list) \<Rightarrow> canary \<Rightarrow> canary_db
    \<Rightarrow> string + (nat \<times> canary \<times> canary_db)" where
  "score_and_assign_sample now batch c db =
     (let rows = filter (pending_row (ca_id c)) (cd_recipients db)
      in if rows = [] then Inr (0, c, db)
         else (case batch (map cr_email rows) of Inl e \<Rightarrow> Inl e | Inr items \<Rightarrow> Inr (assign_sample now items c db)))"

section \<open>Sending\<close>

definition message_to :: "canary \<Rightarrow> string \<Rightarrow> outgoing" where
  "message_to c address = \<lparr>og_canary = ca_id c, og_to = address, og_from = ca_from c, og_from_name = ca_from_name c,
     og_subject = ca_subject c, og_body = ca_body c, og_body_type = ca_body_type c, og_reply_to = ca_reply_to c\<rparr>"

text \<open>The rows a wave selects are sent one by one; a row at or above the cutoff is blocked; \<open>ok\<close> is the status of a sent row.\<close>

fun send_wave :: "(outgoing \<Rightarrow> bool) \<Rightarrow> time \<Rightarrow> canary \<Rightarrow> (canary_recipient \<Rightarrow> bool) \<Rightarrow> rat option \<Rightarrow> recipient_status \<Rightarrow> canary_recipient list
    \<Rightarrow> canary_recipient list \<times> outgoing list" where
  "send_wave send now c chosen cutoff ok [] = ([], [])"
| "send_wave send now c chosen cutoff ok (r # rs) =
     (let (rs', out) = send_wave send now c chosen cutoff ok rs
      in if \<not> chosen r then (r # rs', out)
         else if (case (cutoff, cr_score r) of (Some x, Some s) \<Rightarrow> x \<le> s | _ \<Rightarrow> False)
         then (r\<lparr>cr_status := RBlocked, cr_resolved_at := Some now\<rparr> # rs', out)
         else if send (message_to c (cr_email r))
         then (r\<lparr>cr_status := ok, cr_sent_at := Some now\<rparr> # rs', message_to c (cr_email r) # out)
         else (r\<lparr>cr_status := RSkipped, cr_resolved_at := Some now\<rparr> # rs', out))"

definition role_pending :: "string \<Rightarrow> recipient_role \<Rightarrow> canary_recipient \<Rightarrow> bool" where
  "role_pending cid role r \<longleftrightarrow> cr_canary r = cid \<and> cr_role r = role \<and> cr_status r = RPending"

definition dispatch_sample :: "(outgoing \<Rightarrow> bool) \<Rightarrow> time \<Rightarrow> canary \<Rightarrow> canary_db \<Rightarrow> nat \<times> canary_db" where
  "dispatch_sample send now c db =
     (if filter (role_pending (ca_id c) Sample) (cd_recipients db) = [] then (0, db)
      else (let (rs, out) = send_wave send now c (role_pending (ca_id c) Sample) None RSent (cd_recipients db)
            in (length out, save_canary (c\<lparr>ca_status := Probing, ca_sample_sent := Some now,
                    ca_due := Some (now + minutes (ca_hold_minutes c))\<rparr>)
                  (db\<lparr>cd_recipients := rs, cd_outbox := cd_outbox db @ out\<rparr>))))"

definition release_remaining :: "(outgoing \<Rightarrow> bool) \<Rightarrow> time \<Rightarrow> canary \<Rightarrow> rat \<Rightarrow> canary_db \<Rightarrow> nat \<times> canary_db" where
  "release_remaining send now c cutoff db =
     (let (rs, out) = send_wave send now c (role_pending (ca_id c) Held) (Some cutoff) RReleased (cd_recipients db)
      in (length out, db\<lparr>cd_recipients := rs, cd_outbox := cd_outbox db @ out\<rparr>))"

definition block_remaining :: "time \<Rightarrow> canary \<Rightarrow> canary_db \<Rightarrow> canary_db" where
  "block_remaining now c db =
     db\<lparr>cd_recipients := map (\<lambda>r. if role_pending (ca_id c) Held r then r\<lparr>cr_status := RBlocked, cr_resolved_at := Some now\<rparr> else r)
       (cd_recipients db)\<rparr>"

section \<open>The decision\<close>

definition observed_sample :: "string \<Rightarrow> canary_db \<Rightarrow> canary_recipient list" where
  "observed_sample cid db =
     filter (\<lambda>r. cr_canary r = cid \<and> cr_role r = Sample \<and> cr_status r \<in> {RSent, RDelivered, RHardBounce}) (cd_recipients db)"

definition bounced_sample :: "string \<Rightarrow> canary_db \<Rightarrow> canary_recipient list" where
  "bounced_sample cid db = filter (\<lambda>r. cr_status r = RHardBounce) (observed_sample cid db)"

definition safest_failure :: "canary_recipient list \<Rightarrow> rat" where
  "safest_failure bounced = (case List.map_filter cr_score bounced of [] \<Rightarrow> 1 | s # ss \<Rightarrow> fold min ss s)"

definition decided :: "time \<Rightarrow> canary_status \<Rightarrow> string \<Rightarrow> canary \<Rightarrow> canary" where
  "decided now st reason c = c\<lparr>ca_status := st, ca_decided := Some now, ca_reason := Some reason\<rparr>"

definition show_fixed3 :: "rat \<Rightarrow> string" where
  "show_fixed3 q = (let n = nat (half_even (q * 1000)); f = show_nat (n mod 1000)
     in show_nat (n div 1000) @ ''.'' @ replicate (3 - length f) (CHR ''0'') @ f)"

definition decide :: "(outgoing \<Rightarrow> bool) \<Rightarrow> time \<Rightarrow> canary \<Rightarrow> canary_db \<Rightarrow> canary_db" where
  "decide send now c db =
     (let observed = observed_sample (ca_id c) db; bounced = bounced_sample (ca_id c) db;
          rate = fdiv (of_nat (length bounced)) (of_nat (length observed))
      in if observed = [] then save_canary (decided now CanaryFailed ''No sample recipient could be sent.'' c) db
         else if rate \<le> ca_threshold c
         then (let (released, db') = release_remaining send now c (dbl (11 / 10)) db
               in save_canary (decided now CanaryReleased (''Sample of '' @ show_nat (length observed) @
                    '' produced no disqualifying bounce; released '' @ show_nat released @ ''.'') c) db')
         else if length bounced = length observed
         then save_canary (decided now CanaryBlocked (''Every one of the '' @ show_nat (length observed) @
                '' sampled recipients hard bounced.'') c) (block_remaining now c db)
         else (let cutoff = safest_failure bounced; (released, db') = release_remaining send now c cutoff db
               in save_canary (decided now CanaryReleased (show_nat (length bounced) @ '' of '' @ show_nat (length observed) @
                    '' sampled recipients bounced; released '' @ show_nat released @ '' addresses scored below '' @ show_fixed3 cutoff @ ''.'') c)
                    db'))"

section \<open>Outcomes from bounces\<close>

definition outcome_status :: "outcome \<Rightarrow> recipient_status" where
  "outcome_status x = (case x of HardBounce \<Rightarrow> RHardBounce | SoftBounce \<Rightarrow> RSoftBounce | Delivered \<Rightarrow> RDelivered)"

definition apply_bounce :: "(string \<Rightarrow> string) \<Rightarrow> time \<Rightarrow> string \<Rightarrow> outcome \<Rightarrow> int option \<Rightarrow> string option \<Rightarrow> canary_db \<Rightarrow> string list \<times> canary_db" where
  "apply_bounce digest now email x smtp_code enhanced db =
     (let hit = (\<lambda>r. cr_hash r = email_hash digest email \<and> cr_status r = RSent)
      in (map cr_canary (filter hit (cd_recipients db)),
          db\<lparr>cd_recipients := map (\<lambda>r. if hit r then r\<lparr>cr_status := outcome_status x, cr_smtp_code := smtp_code,
             cr_enhanced := enhanced, cr_resolved_at := Some now\<rparr> else r) (cd_recipients db)\<rparr>))"

section \<open>Endpoints\<close>

definition load_canary :: "string \<Rightarrow> string \<Rightarrow> canary_db \<Rightarrow> canary result" where
  "load_canary cid user db =
     (case find (\<lambda>c. ca_id c = cid \<and> ca_user c = user) (cd_canaries db) of
        None \<Rightarrow> Inl (Http 404 ''Staged send not found'')
      | Some c \<Rightarrow> Inr c)"

fun canary_status_text :: "canary_status \<Rightarrow> string" where
  "canary_status_text CanaryPending = ''pending''"
| "canary_status_text Probing = ''probing''"
| "canary_status_text CanaryReleased = ''released''"
| "canary_status_text CanaryBlocked = ''blocked''"
| "canary_status_text Cancelled = ''cancelled''"
| "canary_status_text CanaryFailed = ''failed''"

definition create_send_canary :: "canary_settings \<Rightarrow> (string \<Rightarrow> syntax_result) \<Rightarrow> (string \<Rightarrow> string) \<Rightarrow> time \<Rightarrow> string \<Rightarrow> string \<Rightarrow> canary_request
    \<Rightarrow> risk_db \<Rightarrow> canary_db \<Rightarrow> canary result \<times> canary_db" where
  "create_send_canary cfg syn digest now cid user q rdb db =
     (if \<not> cs_enabled cfg then (Inl (Http 403 ''Staged sending is disabled''), db)
      else if length (cq_recipients q) > cs_max_recipients cfg
      then (Inl (Http 422 (''A staged send may contain at most '' @ show_nat (cs_max_recipients cfg) @ '' recipients'')), db)
      else (case create_canary cfg syn digest now cid user q rdb db of
              (Inl (ValueErr e), db') \<Rightarrow> (Inl (Http 422 e), db')
            | r \<Rightarrow> r))"

definition decide_send_canary :: "(outgoing \<Rightarrow> bool) \<Rightarrow> time \<Rightarrow> string \<Rightarrow> string \<Rightarrow> canary_db \<Rightarrow> unit result \<times> canary_db" where
  "decide_send_canary send now cid user db =
     (case load_canary cid user db of
        Inl e \<Rightarrow> (Inl e, db)
      | Inr c \<Rightarrow>
          if ca_status c \<noteq> Probing
          then (Inl (Http 409 (''Staged send is '' @ canary_status_text (ca_status c) @ '', not awaiting a decision'')), db)
          else (Inr (), decide send now c db))"

definition cancel_send_canary :: "time \<Rightarrow> string \<Rightarrow> string \<Rightarrow> canary_db \<Rightarrow> unit result \<times> canary_db" where
  "cancel_send_canary now cid user db =
     (case load_canary cid user db of
        Inl e \<Rightarrow> (Inl e, db)
      | Inr c \<Rightarrow>
          if ca_status c \<in> {CanaryReleased, CanaryBlocked, Cancelled}
          then (Inl (Http 409 (''Staged send is already '' @ canary_status_text (ca_status c))), db)
          else (Inr (), save_canary (decided now Cancelled ''Cancelled by the caller.'' c)
                 (db\<lparr>cd_recipients := map (\<lambda>r. if pending_row cid r then r\<lparr>cr_status := RBlocked, cr_resolved_at := Some now\<rparr> else r)
                   (cd_recipients db)\<rparr>)))"

text \<open>What a staged send shows of itself: the rows by role and address, and what became of them.\<close>

record canary_view =
  cw_canary :: canary
  cw_total :: nat
  cw_sample :: nat
  cw_held :: nat
  cw_hard :: nat
  cw_soft :: nat
  cw_recipients :: "canary_recipient list"

fun role_text :: "recipient_role \<Rightarrow> string" where
  "role_text Sample = ''sample''"
| "role_text Held = ''held''"

definition to_response :: "canary_db \<Rightarrow> canary \<Rightarrow> canary_view" where
  "to_response db c =
     (let rows = sort_key (\<lambda>r. role_text (cr_role r)) (sort_key cr_email (recipients_of (ca_id c) db));
          count = (\<lambda>P. length (filter P rows))
      in \<lparr>cw_canary = c, cw_total = length rows, cw_sample = count (\<lambda>r. cr_role r = Sample), cw_held = count (\<lambda>r. cr_role r = Held),
          cw_hard = count (\<lambda>r. cr_status r = RHardBounce), cw_soft = count (\<lambda>r. cr_status r = RSoftBounce), cw_recipients = rows\<rparr>)"

definition count_for_user :: "canary_db \<Rightarrow> string \<Rightarrow> nat" where
  "count_for_user db user = length (filter (\<lambda>c. ca_user c = user) (cd_canaries db))"

definition list_send_canaries :: "nat \<Rightarrow> string \<Rightarrow> canary_db \<Rightarrow> canary_view list \<times> nat" where
  "list_send_canaries limit user db =
     (map (to_response db) (take limit (sort_key (\<lambda>c. - ca_created c) (filter (\<lambda>c. ca_user c = user) (cd_canaries db)))),
      count_for_user db user)"

definition get_send_canary :: "string \<Rightarrow> string \<Rightarrow> canary_db \<Rightarrow> canary_view result" where
  "get_send_canary cid user db = (case load_canary cid user db of Inl e \<Rightarrow> Inl e | Inr c \<Rightarrow> Inr (to_response db c))"

section \<open>The scheduler\<close>

definition batch_limit :: nat where "batch_limit = 20"

text \<open>The rows selected at the start of a tick are processed one by one; each is read again when it is used.\<close>

definition dispatch_one :: "(outgoing \<Rightarrow> bool) \<Rightarrow> time \<Rightarrow> (string list \<Rightarrow> string + batch_item list) \<Rightarrow> canary \<Rightarrow> canary_db \<Rightarrow> canary_db" where
  "dispatch_one send now batch c db =
     (case score_and_assign_sample now batch c db of
        Inl _ \<Rightarrow> db
      | Inr (n, c', db1) \<Rightarrow> if n = 0 then db1 else snd (dispatch_sample send now c' db1))"

definition dispatch_pending :: "(outgoing \<Rightarrow> bool) \<Rightarrow> time \<Rightarrow> (string list \<Rightarrow> string + batch_item list) \<Rightarrow> canary_db \<Rightarrow> canary_db" where
  "dispatch_pending send now batch db =
     fold (dispatch_one send now batch)
       (take batch_limit (sort_key ca_created (filter (\<lambda>c. ca_status c = CanaryPending) (cd_canaries db)))) db"

definition decision_due :: "time \<Rightarrow> canary \<Rightarrow> bool" where
  "decision_due now c \<longleftrightarrow> ca_status c = Probing \<and> (case ca_due c of None \<Rightarrow> False | Some t \<Rightarrow> t \<le> now)"

definition decide_due :: "(outgoing \<Rightarrow> bool) \<Rightarrow> time \<Rightarrow> canary_db \<Rightarrow> canary_db" where
  "decide_due send now db =
     fold (\<lambda>c db. if ca_auto_release c then decide send now c db else db)
       (take batch_limit (sort_key (\<lambda>c. the (ca_due c)) (filter (decision_due now) (cd_canaries db)))) db"

end
