(* ===== verification/CanaryProps.thy ===== *)
theory CanaryProps
  imports Canary "HOL-Library.Multiset"
begin

text \<open>
  Staged sends: the sample is a proper split of the batch, nobody is written to twice, and until the decision
  no more than the sample has left.
\<close>

section \<open>The sample\<close>

lemma fold_insert_indices:
  fixes n :: nat
  assumes "distinct p" "set p \<subseteq> {0..<n}" "p \<noteq> []"
  shows "let q = fold (\<lambda>pos. List.insert (min (f pos) (n - 1))) xs p
    in distinct q \<and> set p \<subseteq> set q \<and> set q \<subseteq> {0..<n} \<and> length q \<le> length p + length xs"
  using assms
proof (induction xs arbitrary: p)
  case Nil
  then show ?case by simp
next
  case (Cons x xs)
  let ?p = "List.insert (min (f x) (n - 1)) p"
  from Cons.prems(3) obtain y where "y \<in> set p" by (cases p) auto
  with Cons.prems(2) have "0 < n" by auto
  then have "distinct ?p" "set ?p \<subseteq> {0..<n}" "?p \<noteq> []" using Cons.prems by (auto simp: List.insert_def)
  from Cons.IH [OF this] show ?case
    by (auto simp: Let_def List.insert_def split: if_splits)
qed

lemma spread_indices_ok:
  assumes "0 < k" "0 < n"
  shows "distinct (spread_indices k n) \<and> 0 \<in> set (spread_indices k n) \<and> set (spread_indices k n) \<subseteq> {0..<n} \<and>
    length (spread_indices k n) \<le> k"
proof (cases "k > 1")
  case True
  note step = fold_insert_indices [where p = "[0]" and n = n and xs = "[1..<k]"
    and f = "\<lambda>pos. nat (half_even (fmul (of_nat pos) (fdiv (of_nat (n - 1)) (of_nat (k - 1)))))"]
  with True assms show ?thesis by (auto simp: spread_indices_def Let_def)
next
  case False
  with assms show ?thesis by (simp add: spread_indices_def)
qed

lemma fill_indices_ok:
  assumes "distinct p" "set p \<subseteq> {0..<n}" "length p \<le> k" "k \<le> n"
  shows "distinct (fill_indices k n p) \<and> set p \<subseteq> set (fill_indices k n p) \<and> set (fill_indices k n p) \<subseteq> {0..<n} \<and>
    length (fill_indices k n p) = k"
proof -
  have "distinct q \<and> set p \<subseteq> set q \<and> set q \<subseteq> {0..<n} \<and> length q \<le> k \<and> (length q = k \<or> {0..<m} \<subseteq> set q)"
    if "q = fold (\<lambda>c p. if length p < k then List.insert c p else p) [0..<m] p" "m \<le> n" for m q
    using that
  proof (induction m arbitrary: q)
    case 0
    with assms show ?case by simp
  next
    case (Suc m)
    let ?q = "fold (\<lambda>c p. if length p < k then List.insert c p else p) [0..<m] p"
    from Suc.IH [OF refl] Suc.prems(2)
    have q: "distinct ?q" "set p \<subseteq> set ?q" "set ?q \<subseteq> {0..<n}" "length ?q \<le> k" "length ?q = k \<or> {0..<m} \<subseteq> set ?q" by simp_all
    from Suc.prems(1) have "q = (if length ?q < k then List.insert m ?q else ?q)" by simp
    with q Suc.prems(2) show ?case by (auto simp: List.insert_def atLeastLessThanSuc)
  qed
  note final = this [OF refl order_refl, folded fill_indices_def]
  have "length (fill_indices k n p) = k"
  proof (rule ccontr)
    assume ne: "length (fill_indices k n p) \<noteq> k"
    with final have "{0..<n} \<subseteq> set (fill_indices k n p)" by blast
    then have "card {0..<n} \<le> card (set (fill_indices k n p))" by (intro card_mono) simp_all
    also have "\<dots> \<le> length (fill_indices k n p)" by (rule card_length)
    also have "\<dots> < k" using ne final by (meson le_neq_implies_less)
    finally show False using assms(4) by simp
  qed
  with final show ?thesis by blast
qed

lemma sample_split:
  assumes "distinct p" "set p \<subseteq> {0..<n}"
  shows "mset (sort p) + mset (filter (\<lambda>i. i \<notin> set p) [0..<n]) = mset [0..<n]"
proof -
  have "mset p = mset (filter (\<lambda>i. i \<in> set p) [0..<n])"
    using assms by (subst set_eq_iff_mset_eq_distinct [symmetric]) auto
  then have "mset (sort p) + mset (filter (\<lambda>i. i \<notin> set p) [0..<n]) =
      filter_mset (\<lambda>i. i \<in> set p) (mset [0..<n]) + filter_mset (\<lambda>i. i \<notin> set p) (mset [0..<n])"
    by simp
  then show ?thesis by (metis multiset_partition)
qed

lemma riskiest_first_facts:
  "mset (riskiest_first scored) = mset scored" "length (riskiest_first scored) = length scored"
  by (simp_all add: riskiest_first_def)

lemma riskiest_first_top:
  assumes "p \<in> set scored" shows "snd p \<le> snd (riskiest_first scored ! 0)"
proof -
  have "sorted (map (\<lambda>p. - snd p) (riskiest_first scored))" by (simp add: riskiest_first_def)
  moreover obtain i where "i < length (riskiest_first scored)" "riskiest_first scored ! i = p"
    using assms by (metis riskiest_first_facts(1) in_set_conv_nth set_mset_mset)
  ultimately show ?thesis
    using sorted_nth_mono [of "map (\<lambda>p. - snd p) (riskiest_first scored)" 0 i]
      nth_map [of 0 "riskiest_first scored" "\<lambda>p. - snd p"] nth_map [of i "riskiest_first scored" "\<lambda>p. - snd p"]
    by (metis gr_implies_not0 le_0_eq length_map neg_le_iff_le neq0_conv not_less)
qed

lemma sample_facts:
  assumes "scored \<noteq> []"
  shows "let (sample, held) = choose_sample scored k
    in mset sample + mset held = mset (map fst scored) \<and>
       length sample = nat (max 1 (min k (int (length scored)))) \<and>
       fst (riskiest_first scored ! 0) \<in> set sample \<and>
       list_all (\<lambda>p. snd p \<le> snd (riskiest_first scored ! 0)) scored"
proof -
  define os where "os = riskiest_first scored"
  define n where "n = length scored"
  define m where "m = nat (max 1 (min k (int n)))"
  have len: "length os = n" by (simp add: os_def n_def riskiest_first_facts)
  have n: "0 < n" using assms by (simp add: n_def)
  have m: "0 < m" "m \<le> n" using n by (auto simp: m_def)
  have top: "list_all (\<lambda>p. snd p \<le> snd (os ! 0)) scored" by (simp add: list_all_iff os_def riskiest_first_top)
  have os: "mset (map fst os) = mset (map fst scored)" by (simp add: os_def riskiest_first_facts)
  define p where "p = fill_indices m n (spread_indices m n)"
  let ?f = "\<lambda>i. fst (os ! i)"
  have choice: "choose_sample scored k = (if m \<ge> n then (map fst os, [])
      else (map ?f (sort p), map ?f (filter (\<lambda>i. i \<notin> set p) [0..<n])))"
    using assms by (simp only: choose_sample_def Let_def os_def n_def m_def p_def riskiest_first_facts if_False)
  show ?thesis unfolding choice os_def [symmetric] n_def [symmetric] m_def [symmetric]
  proof (cases "n \<le> m")
    case True
    have "fst (os ! 0) \<in> set (map fst os)" using len n by (metis nth_mem length_map nth_map)
    with True top os len m show "let (sample, held) = if m \<ge> n then (map fst os, [])
        else (map ?f (sort p), map ?f (filter (\<lambda>i. i \<notin> set p) [0..<n]))
      in mset sample + mset held = mset (map fst scored) \<and> length sample = m \<and> fst (os ! 0) \<in> set sample \<and>
         list_all (\<lambda>p. snd p \<le> snd (os ! 0)) scored"
      by simp
  next
    case False
    have s: "distinct (spread_indices m n)" "0 \<in> set (spread_indices m n)" "set (spread_indices m n) \<subseteq> {0..<n}"
      "length (spread_indices m n) \<le> m" using spread_indices_ok [OF m(1) n] by auto
    have p: "distinct p" "set (spread_indices m n) \<subseteq> set p" "set p \<subseteq> {0..<n}" "length p = m"
      using fill_indices_ok [OF s(1) s(3) s(4) m(2)] by (auto simp: p_def)
    have "image_mset ?f (mset (sort p)) + image_mset ?f (mset (filter (\<lambda>i. i \<notin> set p) [0..<n])) = image_mset ?f (mset [0..<n])"
      by (metis image_mset_union sample_split [OF p(1,3)])
    moreover have "map ?f [0..<n] = map fst os" by (rule nth_equalityI) (simp_all add: len)
    ultimately have "mset (map ?f (sort p)) + mset (map ?f (filter (\<lambda>i. i \<notin> set p) [0..<n])) = mset (map fst scored)"
      using os by (metis mset_map)
    moreover have "?f 0 \<in> set (map ?f (sort p))" using s(2) p(2) by auto
    ultimately show "let (sample, held) = if m \<ge> n then (map fst os, [])
        else (map ?f (sort p), map ?f (filter (\<lambda>i. i \<notin> set p) [0..<n]))
      in mset sample + mset held = mset (map fst scored) \<and> length sample = m \<and> fst (os ! 0) \<in> set sample \<and>
         list_all (\<lambda>p. snd p \<le> snd (os ! 0)) scored"
      using False top p(4) by simp
  qed
qed

lemma sample_size_exact:
  "scored \<noteq> [] \<Longrightarrow> length (fst (choose_sample scored k)) = nat (max 1 (min k (int (length scored))))"
  using sample_facts [of scored k] by (simp add: case_prod_beta)

lemma sample_members:
  assumes "scored \<noteq> []"
  shows "fst (riskiest_first scored ! 0) \<in> set (fst (choose_sample scored k)) \<and>
    set (fst (choose_sample scored k)) \<subseteq> set (map fst scored)"
proof -
  have "mset (fst (choose_sample scored k)) + mset (snd (choose_sample scored k)) = mset (map fst scored)"
    using sample_facts [OF assms, of k] by (simp add: case_prod_beta)
  then have "set (fst (choose_sample scored k)) \<subseteq> set (map fst scored)"
    by (metis set_mset_mset set_mset_union Un_upper1)
  with sample_facts [OF assms, of k] show ?thesis by (simp add: case_prod_beta)
qed

text \<open>the sample and what is held behind it split the scored recipients; the sample has the size asked for, at
  least one and at most all of them, and holds the riskiest address.\<close>

theorem sample_is_a_split:
  assumes "scored \<noteq> []"
  shows "let (sample, held) = choose_sample scored k
    in mset sample + mset held = mset (map fst scored) \<and>
       length sample = nat (max 1 (min k (int (length scored)))) \<and>
       fst (riskiest_first scored ! 0) \<in> set sample \<and>
       list_all (\<lambda>p. snd p \<le> snd (riskiest_first scored ! 0)) scored"
  using sample_facts [OF assms] .

lemma sample_is_a_split_witness:
  "choose_sample [(''a'', 1 / 8), (''b'', 1 / 2), (''c'', 1 / 4)] 2 = ([''b'', ''a''], [''c'']) \<and>
   (let (sample, held) = choose_sample [(''a'', 1 / 8), (''b'', 1 / 2), (''c'', 1 / 4)] 2
    in mset sample + mset held = mset (map fst [(''a'', 1 / 8), (''b'', 1 / 2 :: rat), (''c'', 1 / 4)]))"
proof -
  have "choose_sample [(''a'', 1 / 8), (''b'', 1 / 2), (''c'', 1 / 4)] 2 = ([''b'', ''a''], [''c''])" by code_simp
  moreover note sample_is_a_split [of "[(''a'', 1 / 8), (''b'', 1 / 2), (''c'', 1 / 4)]" 2]
  ultimately show ?thesis by auto
qed

end
