(* ===== verification/CanaryLife.thy ===== *)
theory CanaryLife
  imports CanaryProps
begin

text \<open>
  The life of staged sends as a state machine: creation, scheduler ticks, decisions, cancellations and bounces
  in any order, each an atomic step. The invariant counts messages against rows and bounds what has
  left before the decision.
\<close>

section \<open>Rows and messages\<close>

definition was_sent :: "canary_recipient \<Rightarrow> bool" where
  "was_sent r \<longleftrightarrow> cr_status r \<in> {RSent, RDelivered, RHardBounce, RSoftBounce, RReleased}"

definition row_key :: "canary_recipient \<Rightarrow> string \<times> string" where
  "row_key r = (cr_canary r, lower_text (cr_email r))"

definition row_addr :: "canary_recipient \<Rightarrow> string \<times> string" where
  "row_addr r = (cr_canary r, cr_email r)"

definition out_addr :: "outgoing \<Rightarrow> string \<times> string" where
  "out_addr m = (og_canary m, og_to m)"

text \<open>A wave, row by row.\<close>

definition over_cutoff :: "rat option \<Rightarrow> canary_recipient \<Rightarrow> bool" where
  "over_cutoff cutoff r \<longleftrightarrow> (case (cutoff, cr_score r) of (Some x, Some s) \<Rightarrow> x \<le> s | _ \<Rightarrow> False)"

definition goes_out :: "(outgoing \<Rightarrow> bool) \<Rightarrow> canary \<Rightarrow> (canary_recipient \<Rightarrow> bool) \<Rightarrow> rat option \<Rightarrow> canary_recipient \<Rightarrow> bool" where
  "goes_out send c chosen cutoff r \<longleftrightarrow> chosen r \<and> \<not> over_cutoff cutoff r \<and> send (message_to c (cr_email r))"

definition after_wave :: "(outgoing \<Rightarrow> bool) \<Rightarrow> time \<Rightarrow> canary \<Rightarrow> (canary_recipient \<Rightarrow> bool) \<Rightarrow> rat option \<Rightarrow> recipient_status
    \<Rightarrow> canary_recipient \<Rightarrow> canary_recipient" where
  "after_wave send now c chosen cutoff ok r =
     (if \<not> chosen r then r
      else if over_cutoff cutoff r then r\<lparr>cr_status := RBlocked, cr_resolved_at := Some now\<rparr>
      else if send (message_to c (cr_email r)) then r\<lparr>cr_status := ok, cr_sent_at := Some now\<rparr>
      else r\<lparr>cr_status := RSkipped, cr_resolved_at := Some now\<rparr>)"

lemma send_wave_rows:
  "send_wave send now c chosen cutoff ok rs =
     (map (after_wave send now c chosen cutoff ok) rs, map (\<lambda>r. message_to c (cr_email r)) (filter (goes_out send c chosen cutoff) rs))"
  by (induction rs) (auto simp: after_wave_def goes_out_def over_cutoff_def Let_def)

lemma after_wave_keeps [simp]:
  "cr_canary (after_wave send now c chosen cutoff ok r) = cr_canary r" "cr_email (after_wave send now c chosen cutoff ok r) = cr_email r"
  "cr_role (after_wave send now c chosen cutoff ok r) = cr_role r" "cr_hash (after_wave send now c chosen cutoff ok r) = cr_hash r"
  by (simp_all add: after_wave_def)

section \<open>The invariant\<close>

definition rows_for :: "canary \<Rightarrow> canary_recipient list \<Rightarrow> canary_recipient list" where
  "rows_for c rows = filter (\<lambda>r. cr_canary r = ca_id c) rows"

definition in_sample :: "canary_recipient \<Rightarrow> bool" where
  "in_sample r \<longleftrightarrow> cr_role r = Sample"

definition exposure_ok :: "canary_recipient list \<Rightarrow> canary \<Rightarrow> bool" where
  "exposure_ok rows c \<longleftrightarrow>
     length (filter in_sample (rows_for c rows)) \<le> nat (max 1 (ca_sample_size c)) \<and>
     (ca_status c = CanaryPending \<longrightarrow> list_all (\<lambda>r. \<not> in_sample r \<and> cr_status r \<in> {RPending, RSkipped}) (rows_for c rows)) \<and>
     (ca_status c = Probing \<longrightarrow> list_all (\<lambda>r. was_sent r \<longrightarrow> in_sample r) (rows_for c rows))"

definition canary_inv :: "canary_db \<Rightarrow> bool" where
  "canary_inv db \<longleftrightarrow>
     distinct (map ca_id (cd_canaries db)) \<and>
     cr_canary ` set (cd_recipients db) \<subseteq> ca_id ` set (cd_canaries db) \<and>
     distinct (map row_key (cd_recipients db)) \<and>
     mset (map out_addr (cd_outbox db)) = mset (map row_addr (filter was_sent (cd_recipients db))) \<and>
     list_all (exposure_ok (cd_recipients db)) (cd_canaries db)"

text \<open>One staged send changes: its own row \<open>c'\<close>, its recipients by \<open>f\<close>, and messages leave for the rows that become sent.\<close>

definition own_change :: "string \<Rightarrow> (canary_recipient \<Rightarrow> canary_recipient) \<Rightarrow> canary_recipient list \<Rightarrow> outgoing list \<Rightarrow> bool" where
  "own_change cid f rows out \<longleftrightarrow>
     (\<forall>r\<in>set rows. cr_canary (f r) = cr_canary r \<and> cr_email (f r) = cr_email r \<and> (was_sent r \<longrightarrow> was_sent (f r)) \<and>
        (cr_canary r \<noteq> cid \<longrightarrow> f r = r)) \<and>
     map out_addr out = map row_addr (filter (\<lambda>r. was_sent (f r) \<and> \<not> was_sent r) rows)"

lemma sent_after:
  assumes "\<forall>r\<in>set rows. cr_canary (f r) = cr_canary r \<and> cr_email (f r) = cr_email r \<and> (was_sent r \<longrightarrow> was_sent (f r))"
  shows "mset (map row_addr (filter was_sent (map f rows))) =
     mset (map row_addr (filter was_sent rows)) + mset (map row_addr (filter (\<lambda>r. was_sent (f r) \<and> \<not> was_sent r) rows))"
  using assms by (induction rows) (auto simp: row_addr_def)

lemma rows_for_other:
  assumes "\<forall>r\<in>set rows. cr_canary (f r) = cr_canary r \<and> (cr_canary r \<noteq> cid \<longrightarrow> f r = r)" "ca_id c \<noteq> cid"
  shows "rows_for c (map f rows) = rows_for c rows"
  using assms by (induction rows) (auto simp: rows_for_def)

lemma canary_inv_step:
  assumes inv: "canary_inv db" and change: "own_change (ca_id c') f (cd_recipients db) out"
    and present: "row_get ca_id (ca_id c') (cd_canaries db) = Some c"
    and exposure: "exposure_ok (map f (cd_recipients db)) c'"
  shows "canary_inv (save_canary c' (db\<lparr>cd_recipients := map f (cd_recipients db), cd_outbox := cd_outbox db @ out\<rparr>))"
proof -
  have keep: "\<forall>r\<in>set (cd_recipients db). cr_canary (f r) = cr_canary r \<and> cr_email (f r) = cr_email r \<and> (was_sent r \<longrightarrow> was_sent (f r))"
    and other: "\<forall>r\<in>set (cd_recipients db). cr_canary (f r) = cr_canary r \<and> (cr_canary r \<noteq> ca_id c' \<longrightarrow> f r = r)"
    using change by (auto simp: own_change_def)
  have ids: "map ca_id (row_put ca_id c' (cd_canaries db)) = map ca_id (cd_canaries db)" by simp
  have keys: "map row_key (map f (cd_recipients db)) = map row_key (cd_recipients db)"
    using keep by (simp add: row_key_def)
  have "mset (map out_addr (cd_outbox db @ out)) = mset (map row_addr (filter was_sent (map f (cd_recipients db))))"
    using inv change unfolding canary_inv_def own_change_def by (simp only: mset_append map_append sent_after [OF keep])
  moreover have "list_all (exposure_ok (map f (cd_recipients db))) (row_put ca_id c' (cd_canaries db))"
    unfolding list_all_iff
  proof
    fix x assume "x \<in> set (row_put ca_id c' (cd_canaries db))"
    then have "x = c' \<or> x \<in> set (cd_canaries db) \<and> ca_id x \<noteq> ca_id c'" by (auto simp: row_put_def split: if_splits)
    then show "exposure_ok (map f (cd_recipients db)) x"
    proof
      assume "x \<in> set (cd_canaries db) \<and> ca_id x \<noteq> ca_id c'"
      then show ?thesis using inv rows_for_other [OF other, of x] by (auto simp: canary_inv_def list_all_iff exposure_ok_def)
    qed (simp add: exposure)
  qed
  moreover have "cr_canary ` set (map f (cd_recipients db)) = cr_canary ` set (cd_recipients db)"
    using keep by (force simp: image_iff)
  moreover have "ca_id ` set (row_put ca_id c' (cd_canaries db)) = ca_id ` set (cd_canaries db)"
    using ids by (metis list.set_map)
  ultimately show ?thesis using inv keys ids by (simp add: canary_inv_def save_canary_def del: map_map)
qed

section \<open>The steps of one staged send\<close>

lemma score_row_keeps [simp]:
  "cr_canary (score_row now items r) = cr_canary r" "cr_email (score_row now items r) = cr_email r"
  "cr_role (score_row now items r) = cr_role r"
  by (simp_all add: score_row_def Let_def)

lemma score_row_status: "cr_status r = RPending \<Longrightarrow> cr_status (score_row now items r) \<in> {RPending, RSkipped}"
  by (simp add: score_row_def Let_def)

lemma score_row_scored: "\<exists>s. cr_score (score_row now items r) = Some s"
  by (simp add: score_row_def Let_def)

lemma assign_row_keeps [simp]:
  "cr_canary (assign_row now items sample r) = cr_canary r" "cr_email (assign_row now items sample r) = cr_email r"
  "cr_status (assign_row now items sample r) = cr_status (score_row now items r)"
  by (simp_all add: assign_row_def Let_def)

lemma assign_row_role:
  "cr_role (assign_row now items sample r) =
     (if cr_status (score_row now items r) = RPending \<and> lower_text (cr_email r) \<in> set sample then Sample else cr_role r)"
  by (simp add: assign_row_def Let_def)

lemma wave_change:
  assumes "\<And>r. chosen r \<Longrightarrow> cr_canary r = ca_id c \<and> cr_status r = RPending" and "ok \<in> {RSent, RReleased}"
  shows "own_change (ca_id c) (after_wave send now c chosen cutoff ok) rows
    (map (\<lambda>r. message_to c (cr_email r)) (filter (goes_out send c chosen cutoff) rows))"
proof -
  have sent: "was_sent (after_wave send now c chosen cutoff ok r) \<and> \<not> was_sent r \<longleftrightarrow> goes_out send c chosen cutoff r" for r
    using assms(1) [of r] assms(2) by (auto simp: after_wave_def goes_out_def was_sent_def)
  have "out_addr (message_to c (cr_email r)) = row_addr r" if "goes_out send c chosen cutoff r" for r
    using assms(1) [of r] that by (simp add: goes_out_def out_addr_def message_to_def row_addr_def)
  then have "map out_addr (map (\<lambda>r. message_to c (cr_email r)) (filter (goes_out send c chosen cutoff) rows)) =
      map row_addr (filter (goes_out send c chosen cutoff) rows)" by simp
  moreover have "cr_canary r \<noteq> ca_id c \<longrightarrow> after_wave send now c chosen cutoff ok r = r" for r
    using assms(1) [of r] by (auto simp: after_wave_def)
  moreover have "was_sent r \<longrightarrow> was_sent (after_wave send now c chosen cutoff ok r)" for r
    using assms(1) [of r] by (auto simp: after_wave_def was_sent_def)
  ultimately show ?thesis unfolding own_change_def sent by simp
qed

lemma quiet_change:
  assumes "\<And>r. r \<in> set rows \<Longrightarrow> cr_canary (f r) = cr_canary r \<and> cr_email (f r) = cr_email r \<and> was_sent (f r) = was_sent r \<and>
    (cr_canary r \<noteq> cid \<longrightarrow> f r = r)"
  shows "own_change cid f rows []"
  using assms by (auto simp: own_change_def filter_empty_conv)

text \<open>Later steps keep the number of rows in the sample.\<close>

lemma sample_rows_same:
  assumes "\<And>r. r \<in> set rows \<Longrightarrow> cr_canary (f r) = cr_canary r \<and> cr_role (f r) = cr_role r"
  shows "length (filter in_sample (rows_for c (map f rows))) = length (filter in_sample (rows_for c rows))"
  using assms by (induction rows) (auto simp: rows_for_def in_sample_def)

lemma exposure_decided:
  assumes "exposure_ok rows c" "\<And>r. r \<in> set rows \<Longrightarrow> cr_canary (f r) = cr_canary r \<and> cr_role (f r) = cr_role r"
    and "ca_id c' = ca_id c" "ca_sample_size c' = ca_sample_size c" "ca_status c' \<notin> {CanaryPending, Probing}"
  shows "exposure_ok (map f rows) c'"
  using assms sample_rows_same [of rows f c] by (simp add: exposure_ok_def rows_for_def)

lemma release_inv:
  assumes inv: "canary_inv db" and c: "row_get ca_id (ca_id c) (cd_canaries db) = Some c0" "exposure_ok (cd_recipients db) c"
    and c': "ca_id c' = ca_id c" "ca_sample_size c' = ca_sample_size c" "ca_status c' \<notin> {CanaryPending, Probing}"
  shows "canary_inv (save_canary c' (snd (release_remaining send now c cutoff db)))"
proof -
  let ?chosen = "role_pending (ca_id c) Held"
  let ?f = "after_wave send now c ?chosen (Some cutoff) RReleased"
  let ?out = "map (\<lambda>r. message_to c (cr_email r)) (filter (goes_out send c ?chosen (Some cutoff)) (cd_recipients db))"
  have "own_change (ca_id c') ?f (cd_recipients db) ?out"
    unfolding c'(1) by (rule wave_change) (simp_all add: role_pending_def)
  moreover have "exposure_ok (map ?f (cd_recipients db)) c'"
    by (rule exposure_decided [OF c(2) _ c']) simp
  ultimately show ?thesis
    using canary_inv_step [OF inv, of c' ?f ?out c0] c(1) c'(1) by (simp add: release_remaining_def send_wave_rows)
qed

lemma decide_inv:
  assumes inv: "canary_inv db" and c: "row_get ca_id (ca_id c) (cd_canaries db) = Some c"
  shows "canary_inv (decide send now c db)"
proof -
  have ok: "exposure_ok (cd_recipients db) c"
    using inv row_get_SomeD [OF c] by (auto simp: canary_inv_def list_all_iff)
  have quiet: "canary_inv (save_canary (decided now st reason c) (db\<lparr>cd_recipients := map f (cd_recipients db)\<rparr>))"
    if "st \<notin> {CanaryPending, Probing}"
      "\<And>r. cr_canary (f r) = cr_canary r \<and> cr_email (f r) = cr_email r \<and> cr_role (f r) = cr_role r \<and> was_sent (f r) = was_sent r \<and>
         (cr_canary r \<noteq> ca_id c \<longrightarrow> f r = r)" for f st reason
    using canary_inv_step [OF inv, of "decided now st reason c" f "[]" c] that c
      quiet_change [of "cd_recipients db" f "ca_id c"] exposure_decided [OF ok, of f "decided now st reason c"]
    by (simp add: decided_def)
  have block: "cd_recipients (block_remaining now c db) = map (\<lambda>r. if role_pending (ca_id c) Held r
      then r\<lparr>cr_status := RBlocked, cr_resolved_at := Some now\<rparr> else r) (cd_recipients db)" by (simp add: block_remaining_def)
  have "canary_inv (save_canary (decided now st reason c) db)" if "st \<notin> {CanaryPending, Probing}" for st reason
    using quiet [OF that, of "\<lambda>r. r" reason] by simp
  moreover have "canary_inv (save_canary (decided now st reason c) (block_remaining now c db))" if "st \<notin> {CanaryPending, Probing}" for st reason
    unfolding block_remaining_def by (rule quiet [OF that]) (simp add: role_pending_def was_sent_def)
  moreover have "canary_inv (save_canary (decided now st reason c) (snd (release_remaining send now c cutoff db)))"
    if "st \<notin> {CanaryPending, Probing}" for st reason cutoff
    by (rule release_inv [OF inv c ok]) (use that in \<open>simp_all add: decided_def\<close>)
  ultimately show ?thesis by (simp add: decide_def Let_def case_prod_beta)
qed

text \<open>Scoring followed by the sample wave.\<close>

definition assign_rows :: "time \<Rightarrow> batch_item list \<Rightarrow> canary \<Rightarrow> string list \<Rightarrow> canary_recipient \<Rightarrow> canary_recipient" where
  "assign_rows now items c sample r = (if pending_row (ca_id c) r then assign_row now items sample r else r)"

lemma assign_rows_keeps [simp]:
  "cr_canary (assign_rows now items c sample r) = cr_canary r" "cr_email (assign_rows now items c sample r) = cr_email r"
  by (simp_all add: assign_rows_def)

lemma assign_rows_quiet:
  "was_sent (assign_rows now items c sample r) = was_sent r" "cr_canary r \<noteq> ca_id c \<Longrightarrow> assign_rows now items c sample r = r"
  using score_row_status [of r now items] by (auto simp: assign_rows_def pending_row_def was_sent_def)

lemma own_change_comp:
  assumes quiet: "\<And>r. cr_canary (g r) = cr_canary r \<and> cr_email (g r) = cr_email r \<and> was_sent (g r) = was_sent r \<and>
      (cr_canary r \<noteq> cid \<longrightarrow> g r = r)"
    and f: "own_change cid f (map g rows) out"
  shows "own_change cid (\<lambda>r. f (g r)) rows out"
proof -
  have "map row_addr (filter (\<lambda>r. was_sent (f r) \<and> \<not> was_sent r) (map g rows)) =
      map row_addr (filter (\<lambda>r. was_sent (f (g r)) \<and> \<not> was_sent r) rows)"
    using quiet by (induction rows) (auto simp: row_addr_def)
  moreover have "cr_canary (f (g r)) = cr_canary r \<and> cr_email (f (g r)) = cr_email r \<and> (was_sent r \<longrightarrow> was_sent (f (g r))) \<and>
      (cr_canary r \<noteq> cid \<longrightarrow> f (g r) = r)" if "r \<in> set rows" for r
    using f quiet [of r] that by (auto simp: own_change_def)
  ultimately show ?thesis using f by (simp add: own_change_def)
qed

lemma distinct_rows_for:
  assumes "distinct (map row_key rows)"
  shows "distinct (map (\<lambda>r. lower_text (cr_email r)) (filter P (rows_for c rows)))"
  using assms by (induction rows) (auto simp: rows_for_def row_key_def image_iff)

lemma sample_bound:
  assumes keys: "distinct (map row_key rows)" and held: "list_all (\<lambda>r. \<not> in_sample r) (rows_for c rows)"
    and h: "\<And>r. cr_canary (h r) = cr_canary r \<and> (in_sample (h r) \<longrightarrow> in_sample r \<or> lower_text (cr_email r) \<in> set sample)"
  shows "length (filter in_sample (rows_for c (map h rows))) \<le> length sample"
proof -
  let ?rs = "filter (\<lambda>r. in_sample (h r)) (rows_for c rows)"
  have "filter in_sample (rows_for c (map h rows)) = map h ?rs"
    using h by (induction rows) (auto simp: rows_for_def)
  then have "length (filter in_sample (rows_for c (map h rows))) = length (map (\<lambda>r. lower_text (cr_email r)) ?rs)" by simp
  also have "\<dots> = card (set (map (\<lambda>r. lower_text (cr_email r)) ?rs))"
    by (rule distinct_card [symmetric], rule distinct_rows_for [OF keys])
  also have "\<dots> \<le> card (set sample)"
    using held h by (intro card_mono) (auto simp: list_all_iff)
  also have "\<dots> \<le> length sample" by (rule card_length)
  finally show ?thesis .
qed

lemma choose_sample_length: "length (fst (choose_sample scored k)) \<le> nat (max 1 k)"
proof (cases "scored = []")
  case False
  from sample_size_exact [OF this, of k] show ?thesis by (auto simp: case_prod_beta)
qed (simp add: choose_sample_def)

lemma scored_rows_emails: "set (map fst (scored_rows now items rows)) \<subseteq> cr_email ` {r \<in> set rows. cr_status (score_row now items r) = RPending}"
  by (auto simp: scored_rows_def)

lemma sample_nonempty:
  assumes "scored_rows now items (filter (pending_row (ca_id c)) rows) \<noteq> []"
    and "sample = map lower_text (fst (choose_sample (scored_rows now items (filter (pending_row (ca_id c)) rows)) k))"
  shows "\<exists>r\<in>set rows. role_pending (ca_id c) Sample (assign_rows now items c sample r)"
proof -
  let ?scored = "scored_rows now items (filter (pending_row (ca_id c)) rows)"
  have "fst (riskiest_first ?scored ! 0) \<in> set (fst (choose_sample ?scored k))"
    and "set (fst (choose_sample ?scored k)) \<subseteq> set (map fst ?scored)"
    using sample_members [OF assms(1), of k] by blast+
  then obtain e where e: "e \<in> set (fst (choose_sample ?scored k))" "e \<in> set (map fst ?scored)" by blast
  then obtain r where r: "r \<in> set rows" "pending_row (ca_id c) r" "cr_email r = e" "cr_status (score_row now items r) = RPending"
    using scored_rows_emails [of now items "filter (pending_row (ca_id c)) rows"] by auto
  have "lower_text (cr_email r) \<in> set sample" using e(1) r(3) by (auto simp: assms(2))
  with r have "role_pending (ca_id c) Sample (assign_rows now items c sample r)"
    by (simp add: role_pending_def assign_rows_def assign_row_role pending_row_def)
  with r(1) show ?thesis by blast
qed

lemma dispatch_one_inv:
  assumes inv: "canary_inv db" and c: "row_get ca_id (ca_id c) (cd_canaries db) = Some c" and pending: "ca_status c = CanaryPending"
  shows "canary_inv (dispatch_one send now batch c db)"
proof (cases "score_and_assign_sample now batch c db")
  case (Inl e)
  with inv show ?thesis by (simp add: dispatch_one_def)
next
  case (Inr res)
  have ok: "exposure_ok (cd_recipients db) c"
    using inv row_get_SomeD [OF c] by (auto simp: canary_inv_def list_all_iff)
  show ?thesis
  proof (cases "filter (pending_row (ca_id c)) (cd_recipients db) = []")
    case True
    with inv show ?thesis by (simp add: dispatch_one_def score_and_assign_sample_def)
  next
    case False
    with Inr obtain items where res: "res = assign_sample now items c db"
      by (auto simp: score_and_assign_sample_def Let_def split: sum.splits)
    define scored where "scored = scored_rows now items (filter (pending_row (ca_id c)) (cd_recipients db))"
    define sample where "sample = map lower_text (fst (choose_sample scored (ca_sample_size c)))"
    let ?g = "assign_rows now items c sample"
    have rows: "map (\<lambda>r. if pending_row (ca_id c) r then assign_row now items sample r else r) (cd_recipients db) = map ?g (cd_recipients db)"
      by (simp add: assign_rows_def)
    have assigned: "assign_sample now items c db = (length scored,
        if scored = [] then c\<lparr>ca_status := CanaryBlocked, ca_decided := Some now, ca_reason := Some ''No recipient survived validation.''\<rparr> else c,
        save_canary (if scored = [] then c\<lparr>ca_status := CanaryBlocked, ca_decided := Some now,
            ca_reason := Some ''No recipient survived validation.''\<rparr> else c) (db\<lparr>cd_recipients := map ?g (cd_recipients db)\<rparr>))"
      unfolding rows [symmetric] by (simp only: assign_sample_def Let_def scored_def sample_def)
    show ?thesis
    proof (cases "scored = []")
      case True
      define c' where "c' = c\<lparr>ca_status := CanaryBlocked, ca_decided := Some now, ca_reason := Some ''No recipient survived validation.''\<rparr>"
      have "sample = []" by (simp add: sample_def True choose_sample_def)
      then have role: "cr_role (?g r) = cr_role r" for r by (simp add: assign_rows_def assign_row_role)
      have "dispatch_one send now batch c db = save_canary c' (db\<lparr>cd_recipients := map ?g (cd_recipients db)\<rparr>)"
        using True by (simp add: dispatch_one_def Inr res assigned c'_def)
      moreover have "own_change (ca_id c') ?g (cd_recipients db) []"
        by (rule quiet_change) (simp add: assign_rows_quiet c'_def)
      moreover have "exposure_ok (map ?g (cd_recipients db)) c'"
        by (rule exposure_decided [OF ok]) (simp_all add: role c'_def)
      ultimately show ?thesis using canary_inv_step [OF inv, of c' ?g "[]" c] c by (simp add: c'_def)
    next
      case some: False
      let ?rs = "map ?g (cd_recipients db)" and ?chosen = "role_pending (ca_id c) Sample"
      let ?w = "after_wave send now c ?chosen None RSent"
      define c' where "c' = c\<lparr>ca_status := Probing, ca_sample_sent := Some now, ca_due := Some (now + minutes (ca_hold_minutes c))\<rparr>"
      define out where "out = map (\<lambda>r. message_to c (cr_email r)) (filter (goes_out send c ?chosen None) ?rs)"
      have "filter ?chosen ?rs \<noteq> []"
        using sample_nonempty [OF some [unfolded scored_def] sample_def [unfolded scored_def]] by (auto simp: filter_empty_conv)
      then have result: "dispatch_one send now batch c db = save_canary c'
          (db\<lparr>cd_recipients := map (\<lambda>r. ?w (?g r)) (cd_recipients db), cd_outbox := cd_outbox db @ out\<rparr>)"
        using some by (simp add: dispatch_one_def Inr res assigned dispatch_sample_def send_wave_rows save_canary_def
          row_put_row_put c'_def out_def o_def)
      have "own_change (ca_id c') (\<lambda>r. ?w (?g r)) (cd_recipients db) out"
      proof (rule own_change_comp [where g = ?g and f = ?w])
        show "cr_canary (?g r) = cr_canary r \<and> cr_email (?g r) = cr_email r \<and> was_sent (?g r) = was_sent r \<and>
            (cr_canary r \<noteq> ca_id c' \<longrightarrow> ?g r = r)" for r
          by (simp add: assign_rows_quiet c'_def)
        show "own_change (ca_id c') ?w ?rs out"
          unfolding out_def c'_def using wave_change [of ?chosen c RSent send now None ?rs] by (simp add: role_pending_def)
      qed
      moreover have "exposure_ok (map (\<lambda>r. ?w (?g r)) (cd_recipients db)) c'"
      proof -
        have held: "list_all (\<lambda>r. \<not> in_sample r \<and> cr_status r \<in> {RPending, RSkipped}) (rows_for c (cd_recipients db))"
          using ok pending by (simp add: exposure_ok_def)
        have "length (filter in_sample (rows_for c (map (\<lambda>r. ?w (?g r)) (cd_recipients db)))) \<le> length sample"
        proof (rule sample_bound)
          show "distinct (map row_key (cd_recipients db))" using inv by (simp add: canary_inv_def)
          show "list_all (\<lambda>r. \<not> in_sample r) (rows_for c (cd_recipients db))" using held by (auto simp: list_all_iff)
          show "cr_canary (?w (?g r)) = cr_canary r \<and> (in_sample (?w (?g r)) \<longrightarrow> in_sample r \<or> lower_text (cr_email r) \<in> set sample)" for r
            by (auto simp: in_sample_def assign_rows_def assign_row_role split: if_splits)
        qed
        also have "length sample \<le> nat (max 1 (ca_sample_size c))" by (simp add: sample_def choose_sample_length)
        finally have "length (filter in_sample (rows_for c (map (\<lambda>r. ?w (?g r)) (cd_recipients db)))) \<le> nat (max 1 (ca_sample_size c))" .
        moreover have "was_sent (?w (?g r)) \<longrightarrow> in_sample (?w (?g r))" if "r \<in> set (rows_for c (cd_recipients db))" for r
        proof -
          have "\<not> was_sent r" using held that by (auto simp: list_all_iff was_sent_def)
          then have "\<not> was_sent (?g r)" by (simp add: assign_rows_quiet)
          then show ?thesis by (auto simp: after_wave_def role_pending_def in_sample_def)
        qed
        moreover have "rows_for c (map (\<lambda>r. ?w (?g r)) rs) = map (\<lambda>r. ?w (?g r)) (rows_for c rs)" for rs
          by (induction rs) (auto simp: rows_for_def)
        ultimately show ?thesis by (simp add: exposure_ok_def c'_def rows_for_def list_all_iff o_def)
      qed
      ultimately show ?thesis using canary_inv_step [OF inv, of c' "\<lambda>r. ?w (?g r)" out c] c result by (simp add: c'_def)
    qed
  qed
qed

lemma cancel_inv:
  assumes inv: "canary_inv db" and ids: "load_canary cid user db = Inr c"
  shows "canary_inv (snd (cancel_send_canary now cid user db))"
proof -
  have c: "c \<in> set (cd_canaries db)" "ca_id c = cid"
    using ids by (auto simp: load_canary_def find_Some_iff split: option.splits)
  have get: "row_get ca_id (ca_id c) (cd_canaries db) = Some c"
    using inv c(1) by (intro row_get_unique) (auto simp: canary_inv_def)
  have ok: "exposure_ok (cd_recipients db) c" using inv c(1) by (auto simp: canary_inv_def list_all_iff)
  let ?f = "\<lambda>r. if pending_row cid r then r\<lparr>cr_status := RBlocked, cr_resolved_at := Some now\<rparr> else r"
  let ?c = "decided now Cancelled ''Cancelled by the caller.'' c"
  have "own_change (ca_id ?c) ?f (cd_recipients db) []"
    by (rule quiet_change) (simp add: pending_row_def was_sent_def decided_def c(2))
  moreover have "exposure_ok (map ?f (cd_recipients db)) ?c"
    by (rule exposure_decided [OF ok]) (simp_all add: decided_def)
  ultimately have "canary_inv (save_canary ?c (db\<lparr>cd_recipients := map ?f (cd_recipients db)\<rparr>))"
    using canary_inv_step [OF inv, of ?c ?f "[]" c] get by (simp add: decided_def)
  with inv ids show ?thesis by (simp add: cancel_send_canary_def)
qed

text \<open>A bounce changes rows of any staged send, and none of them from unsent to sent.\<close>

lemma bounce_inv:
  assumes inv: "canary_inv db"
  shows "canary_inv (snd (apply_bounce digest now email x reply enhanced db))"
proof -
  let ?hit = "\<lambda>r :: canary_recipient. cr_hash r = email_hash digest email \<and> cr_status r = RSent"
  define f where "f = (\<lambda>r :: canary_recipient. if ?hit r then r\<lparr>cr_status := outcome_status x, cr_smtp_code := reply, cr_enhanced := enhanced,
    cr_resolved_at := Some now\<rparr> else r)"
  have f: "cr_canary (f r) = cr_canary r" "cr_email (f r) = cr_email r" "cr_role (f r) = cr_role r" "was_sent (f r) = was_sent r"
    "cr_status r \<in> {RPending, RSkipped} \<Longrightarrow> f r = r" for r
    by (auto simp: f_def outcome_status_def was_sent_def split: outcome.splits)
  have "mset (map row_addr (filter was_sent (map f (cd_recipients db)))) = mset (map row_addr (filter was_sent (cd_recipients db)))"
    using sent_after [of "cd_recipients db" f] f by simp
  moreover have "map row_key (map f (cd_recipients db)) = map row_key (cd_recipients db)" by (simp add: row_key_def f)
  moreover have "exposure_ok (map f (cd_recipients db)) c" if "exposure_ok (cd_recipients db) c" for c
  proof -
    have "rows_for c (map f (cd_recipients db)) = map f (rows_for c (cd_recipients db))"
      by (simp add: rows_for_def filter_map o_def f)
    with that sample_rows_same [of "cd_recipients db" f c] show ?thesis
      by (auto simp: exposure_ok_def list_all_iff in_sample_def f)
  qed
  ultimately show ?thesis
    using inv by (auto simp: canary_inv_def apply_bounce_def Let_def f_def [symmetric] list_all_iff f simp del: map_map)
qed

lemma unique_recipients_distinct:
  "distinct (map lower_text (unique_recipients syn seen rs)) \<and> lower_text ` set (unique_recipients syn seen rs) \<inter> seen = {}"
proof (induction rs arbitrary: seen)
  case (Cons raw rest)
  from Cons [of seen] Cons [of "insert (lower_text (strip raw)) seen"] show ?case
    by (auto simp: Let_def)
qed simp

lemma create_inv:
  assumes inv: "canary_inv db" and fresh: "cid \<notin> ca_id ` set (cd_canaries db)"
  shows "canary_inv (snd (create_canary cfg syn digest now cid user q rdb db))"
proof (cases "unique_recipients syn {} (cq_recipients q) = []")
  case True
  with inv show ?thesis by (simp add: create_canary_def)
next
  case False
  let ?u = "unique_recipients syn {} (cq_recipients q)"
  let ?s = "filter (\<lambda>a. \<not> is_suppressed now rdb a) ?u" and ?k = "filter (is_suppressed now rdb) ?u"
  define new where "new = map (new_recipient digest cid RPending) ?s @ map (new_recipient digest cid RSkipped) ?k"
  obtain c where c: "create_canary cfg syn digest now cid user q rdb db = (Inr c, db\<lparr>cd_canaries := cd_canaries db @ [c],
      cd_recipients := cd_recipients db @ new\<rparr>)" "ca_id c = cid" "ca_status c \<noteq> Probing"
    using False by (auto simp: create_canary_def Let_def new_def)
  have new: "r \<in> set new \<Longrightarrow> cr_canary r = cid \<and> \<not> was_sent r \<and> \<not> in_sample r \<and> cr_status r \<in> {RPending, RSkipped}" for r
    by (auto simp: new_def new_recipient_def was_sent_def in_sample_def)
  have old: "r \<in> set (cd_recipients db) \<Longrightarrow> cr_canary r \<noteq> cid" for r using inv fresh by (auto simp: canary_inv_def)
  have "distinct (map lower_text ?s @ map lower_text ?k)"
    using unique_recipients_distinct [of syn "{}" "cq_recipients q"] by (auto simp: distinct_map inj_on_def)
  moreover have "map row_key new = map (Pair cid) (map lower_text ?s @ map lower_text ?k)"
    by (simp add: new_def new_recipient_def row_key_def)
  ultimately have "distinct (map row_key new)" by (simp add: distinct_map inj_on_def del: map_append)
  then have keys: "distinct (map row_key (cd_recipients db @ new))"
    using inv new old by (auto simp: canary_inv_def row_key_def)
  have sent: "filter was_sent (cd_recipients db @ new) = filter was_sent (cd_recipients db)"
    using new by (auto simp: filter_empty_conv)
  have split: "rows_for x (cd_recipients db @ new) = (if ca_id x = cid then new else rows_for x (cd_recipients db))" for x
    using new old by (auto simp: rows_for_def filter_empty_conv intro!: filter_True filter_False)
  have "exposure_ok (cd_recipients db @ new) x" if "x \<in> set (cd_canaries db)" for x
    using inv that fresh split [of x] by (auto simp: canary_inv_def list_all_iff exposure_ok_def)
  moreover have "filter in_sample new = []" using new by (auto simp: filter_empty_conv)
  then have "exposure_ok (cd_recipients db @ new) c"
    using new split [of c] c(2,3) by (auto simp: exposure_ok_def list_all_iff)
  moreover have "cr_canary ` set (cd_recipients db @ new) \<subseteq> ca_id ` set (cd_canaries db @ [c])"
    using inv new c(2) by (auto simp: canary_inv_def)
  ultimately show ?thesis
    using inv keys fresh by (simp add: c(1,2) canary_inv_def sent list_all_iff del: filter_append)
qed

section \<open>Ticks\<close>

text \<open>A tick runs over staged sends as they were when it began; each step leaves the others alone.\<close>

definition same_others :: "canary \<Rightarrow> canary_db \<Rightarrow> canary_db \<Rightarrow> bool" where
  "same_others c db db' \<longleftrightarrow> (\<forall>k. k \<noteq> ca_id c \<longrightarrow> row_get ca_id k (cd_canaries db') = row_get ca_id k (cd_canaries db))"

lemma same_others_save: "ca_id c' = ca_id c \<Longrightarrow> cd_canaries db1 = cd_canaries db \<Longrightarrow> same_others c db (save_canary c' db1)"
  by (simp add: same_others_def save_canary_def row_get_put)

lemma same_others_trans: "same_others c a b \<Longrightarrow> same_others c b d \<Longrightarrow> same_others c a d"
  by (simp add: same_others_def)

lemma decide_others: "same_others c db (decide send now c db)"
  by (auto simp: decide_def Let_def decided_def release_remaining_def block_remaining_def case_prod_beta intro!: same_others_save)

lemma dispatch_one_others: "same_others c db (dispatch_one send now batch c db)"
proof -
  have assign: "same_others c db (snd (snd (assign_sample now items c db))) \<and> ca_id (fst (snd (assign_sample now items c db))) = ca_id c" for items
    by (simp add: assign_sample_def Let_def same_others_save)
  have dispatch: "same_others c x (snd (dispatch_sample send now c' x))" if "ca_id c' = ca_id c" for c' x
    using that by (auto simp: dispatch_sample_def case_prod_beta intro!: same_others_save) (simp add: same_others_def)
  have refl: "same_others c db db" by (simp add: same_others_def)
  show ?thesis
    unfolding dispatch_one_def score_and_assign_sample_def Let_def
    using assign dispatch refl by (auto split: sum.splits prod.splits if_splits intro: same_others_trans) (metis fst_conv snd_conv same_others_trans)+
qed

lemma tick_inv:
  assumes step: "\<And>c db. canary_inv db \<Longrightarrow> row_get ca_id (ca_id c) (cd_canaries db) = Some c \<Longrightarrow> ready c \<Longrightarrow> canary_inv (act c db)"
    and others: "\<And>c db. same_others c db (act c db)"
    and "canary_inv db" "distinct (map ca_id cs)" "\<forall>c\<in>set cs. ready c \<and> row_get ca_id (ca_id c) (cd_canaries db) = Some c"
  shows "canary_inv (fold act cs db)"
  using assms(3-5)
proof (induction cs arbitrary: db)
  case (Cons c cs)
  have "canary_inv (act c db)" using Cons.prems by (intro step) auto
  moreover have "\<forall>x\<in>set cs. ready x \<and> row_get ca_id (ca_id x) (cd_canaries (act c db)) = Some x"
    using Cons.prems others [of c db] by (auto simp: same_others_def image_iff)
  ultimately show ?case using Cons by simp
qed simp

lemma selected_rows:
  assumes "canary_inv db" "sub = take n (sort_key f (filter P (cd_canaries db)))"
  shows "distinct (map ca_id sub) \<and> (\<forall>c\<in>set sub. P c \<and> row_get ca_id (ca_id c) (cd_canaries db) = Some c)"
proof -
  have ids: "distinct (map ca_id (cd_canaries db))" using assms(1) by (simp add: canary_inv_def)
  then have "distinct (map ca_id (filter P (cd_canaries db)))" by (simp add: distinct_map_filter)
  then have "distinct (map ca_id (sort_key f (filter P (cd_canaries db))))" by (simp add: distinct_map inj_on_def)
  then have "distinct (map ca_id sub)" unfolding assms(2) take_map [symmetric] by (rule distinct_take)
  moreover have "P c \<and> c \<in> set (cd_canaries db)" if "c \<in> set sub" for c
    using in_set_takeD [OF that [unfolded assms(2)]] by simp
  ultimately show ?thesis using row_get_unique [OF ids] by blast
qed

lemma dispatch_pending_inv:
  assumes "canary_inv db" shows "canary_inv (dispatch_pending send now batch db)"
  unfolding dispatch_pending_def
proof (rule tick_inv [where ready = "\<lambda>c. ca_status c = CanaryPending"])
  let ?sub = "take batch_limit (sort_key ca_created (filter (\<lambda>c. ca_status c = CanaryPending) (cd_canaries db)))"
  note sub = selected_rows [OF assms refl, where n = batch_limit and f = ca_created and P = "\<lambda>c. ca_status c = CanaryPending"]
  show "distinct (map ca_id ?sub)" using sub by blast
  show "\<forall>c\<in>set ?sub. ca_status c = CanaryPending \<and> row_get ca_id (ca_id c) (cd_canaries db) = Some c" using sub by blast
qed (simp_all add: assms dispatch_one_inv dispatch_one_others)

lemma decide_due_inv:
  assumes "canary_inv db" shows "canary_inv (decide_due send now db)"
  unfolding decide_due_def
proof (rule tick_inv [where ready = "decision_due now"])
  let ?sub = "take batch_limit (sort_key (\<lambda>c. the (ca_due c)) (filter (decision_due now) (cd_canaries db)))"
  note sub = selected_rows [OF assms refl, where n = batch_limit and f = "\<lambda>c. the (ca_due c)" and P = "decision_due now"]
  show "distinct (map ca_id ?sub)" using sub by blast
  show "\<forall>c\<in>set ?sub. decision_due now c \<and> row_get ca_id (ca_id c) (cd_canaries db) = Some c" using sub by blast
  show "canary_inv (if ca_auto_release c then decide send now c db else db)"
    if "canary_inv db" "row_get ca_id (ca_id c) (cd_canaries db) = Some c" for c db
    using that by (simp add: decide_inv)
  show "same_others c db (if ca_auto_release c then decide send now c db else db)" for c db
    using decide_others [of c db send now] by (simp add: same_others_def)
qed (rule assms)

end
