(* ===== verification/CanarySafety.thy ===== *)
theory CanarySafety
  imports CanaryLife
begin

text \<open>
  What staged sends guarantee in every reachable state, and where they fall short of their documentation.
\<close>

section \<open>Reachable states\<close>

definition empty_canary_db :: canary_db where
  "empty_canary_db = \<lparr>cd_canaries = [], cd_recipients = [], cd_outbox = []\<rparr>"

text \<open>Any order of creations with a fresh identifier, scheduler ticks, requests and bounces.\<close>

inductive canary_reach :: "canary_db \<Rightarrow> bool" where
  start: "canary_reach empty_canary_db"
| created: "canary_reach db \<Longrightarrow> cid \<notin> ca_id ` set (cd_canaries db) \<Longrightarrow>
    canary_reach (snd (create_send_canary cfg syn digest now cid user q rdb db))"
| dispatched: "canary_reach db \<Longrightarrow> canary_reach (dispatch_pending send now batch db)"
| resolved: "canary_reach db \<Longrightarrow> canary_reach (decide_due send now db)"
| decided_by_user: "canary_reach db \<Longrightarrow> canary_reach (snd (decide_send_canary send now cid user db))"
| cancelled: "canary_reach db \<Longrightarrow> canary_reach (snd (cancel_send_canary now cid user db))"
| bounced: "canary_reach db \<Longrightarrow> canary_reach (snd (apply_bounce digest now email x reply enhanced db))"

lemma load_canary_row:
  assumes "canary_inv db" "load_canary cid user db = Inr c"
  shows "row_get ca_id (ca_id c) (cd_canaries db) = Some c"
proof -
  have "c \<in> set (cd_canaries db)" using assms(2) by (auto simp: load_canary_def find_Some_iff split: option.splits)
  with assms(1) show ?thesis by (intro row_get_unique) (auto simp: canary_inv_def)
qed

lemma canary_reach_inv: "canary_reach db \<Longrightarrow> canary_inv db"
proof (induction rule: canary_reach.induct)
  case start
  show ?case by (simp add: canary_inv_def empty_canary_db_def)
next
  case (created db cid cfg syn digest now user q rdb)
  then show ?case using create_inv [of db cid cfg syn digest now user q rdb]
    by (auto simp: create_send_canary_def split: prod.splits sum.splits error.splits)
next
  case (decided_by_user db send now cid user)
  then show ?case using load_canary_row [of db cid user]
    by (auto simp: decide_send_canary_def decide_inv split: sum.splits)
next
  case (cancelled db now cid user)
  show ?case
  proof (cases "load_canary cid user db")
    case (Inl e)
    with cancelled show ?thesis by (simp add: cancel_send_canary_def)
  qed (rule cancel_inv [OF cancelled.IH])
qed (simp_all add: dispatch_pending_inv decide_due_inv bounce_inv)

lemma filter_length_mono: "list_all (\<lambda>r. P r \<longrightarrow> Q r) xs \<Longrightarrow> length (filter P xs) \<le> length (filter Q xs)"
  by (induction xs) auto

section \<open>A concrete run\<close>

definition canary_cfg :: canary_settings where
  "canary_cfg = \<lparr>cs_enabled = True, cs_sample_size = 2, cs_hold_minutes = 15, cs_max_hold_minutes = 1440, cs_max_recipients = 100\<rparr>"

definition some_syntax :: "string \<Rightarrow> syntax_result" where
  "some_syntax e = syntax_ok (local_of e) (domain_of e)"

definition staged_request :: canary_request where
  "staged_request = \<lparr>cq_recipients = [''ann@a.dev'', ''bob@a.dev'', ''Ann@a.dev'', ''cy@a.dev''], cq_from = ''me@b.dev'', cq_subject = ''hi'',
     cq_body = [], cq_name = [], cq_from_name = [], cq_body_type = ''plain'', cq_reply_to = None, cq_sample_size = None,
     cq_hold_minutes = None, cq_threshold = 0, cq_auto_release = True\<rparr>"

text \<open>Scores for the batch: \<open>bob\<close> is the riskiest.\<close>

definition some_batch :: "string list \<Rightarrow> string + batch_item list" where
  "some_batch es = Inr (map (\<lambda>e. plain_item e StCatchAll Risky None ''accept_all_domain''
     (if e = ''bob@a.dev'' then 1 / 2 else if e = ''ann@a.dev'' then 1 / 8 else 1 / 4) Caution None) es)"

definition staged_db :: canary_db where
  "staged_db = snd (create_send_canary canary_cfg some_syntax (\<lambda>x. x) 0 ''k'' ''u'' staged_request empty_risk_db empty_canary_db)"

definition probing_db :: canary_db where
  "probing_db = dispatch_pending (\<lambda>_. True) 1 some_batch staged_db"

lemma staged_reach: "canary_reach staged_db"
  unfolding staged_db_def by (rule canary_reach.created [OF canary_reach.start]) (simp add: empty_canary_db_def)

lemma probing_reach: "canary_reach probing_db"
  unfolding probing_db_def by (rule canary_reach.dispatched [OF staged_reach])

definition queued_canary :: canary where
  "queued_canary = \<lparr>ca_id = ''k'', ca_user = ''u'', ca_name = ''Staged send to 3 recipients'', ca_status = CanaryPending,
     ca_sample_size = 2, ca_hold_minutes = 15, ca_threshold = 0, ca_from = ''me@b.dev'', ca_from_name = [], ca_subject = ''hi'',
     ca_body = [], ca_body_type = ''plain'', ca_reply_to = None, ca_auto_release = True, ca_created = 0, ca_sample_sent = None,
     ca_due = None, ca_decided = None, ca_reason = None\<rparr>"

definition queued_row :: "string \<Rightarrow> canary_recipient" where
  "queued_row e = \<lparr>cr_canary = ''k'', cr_email = e, cr_hash = e, cr_domain = ''a.dev'', cr_role = Held, cr_status = RPending,
     cr_score = None, cr_smtp_code = None, cr_enhanced = None, cr_sent_at = None, cr_resolved_at = None\<rparr>"

definition queued_db :: canary_db where
  "queued_db = \<lparr>cd_canaries = [queued_canary], cd_recipients = map queued_row [''ann@a.dev'', ''bob@a.dev'', ''cy@a.dev''], cd_outbox = []\<rparr>"

lemma staged_value: "staged_db = queued_db"
  by code_simp

lemma probing_value: "probing_db = queued_db\<lparr>
     cd_canaries := [queued_canary\<lparr>ca_status := Probing, ca_sample_sent := Some 1, ca_due := Some (1 + minutes 15)\<rparr>],
     cd_recipients := [(queued_row ''ann@a.dev'')\<lparr>cr_role := Sample, cr_status := RSent, cr_score := Some (1 / 8), cr_sent_at := Some 1\<rparr>,
       (queued_row ''bob@a.dev'')\<lparr>cr_role := Sample, cr_status := RSent, cr_score := Some (1 / 2), cr_sent_at := Some 1\<rparr>,
       (queued_row ''cy@a.dev'')\<lparr>cr_score := Some (1 / 4)\<rparr>],
     cd_outbox := map (message_to queued_canary) [''ann@a.dev'', ''bob@a.dev'']\<rparr>"
  unfolding probing_db_def staged_value by code_simp

lemma probing_messages: "map out_addr (cd_outbox probing_db) = [(''k'', ''ann@a.dev''), (''k'', ''bob@a.dev'')]"
  by (simp add: probing_value message_to_def out_addr_def queued_canary_def)

section \<open>Exposure\<close>

text \<open>C27: whatever the order of requests, ticks and bounces, no recipient of a staged send is written to twice.\<close>

theorem one_message_per_recipient:
  assumes "canary_reach db"
  shows "distinct (map out_addr (cd_outbox db))"
proof -
  note inv = canary_reach_inv [OF assms]
  have "distinct (map row_key (filter was_sent (cd_recipients db)))"
    using inv by (simp add: canary_inv_def distinct_map_filter)
  then have "distinct (map row_addr (filter was_sent (cd_recipients db)))"
    by (auto simp: distinct_map row_key_def row_addr_def inj_on_def)
  with inv show ?thesis by (metis canary_inv_def mset_eq_imp_distinct_iff)
qed

lemma one_message_per_recipient_witness:
  "canary_reach probing_db \<and> map out_addr (cd_outbox probing_db) = [(''k'', ''ann@a.dev''), (''k'', ''bob@a.dev'')] \<and>
   distinct (map out_addr (cd_outbox probing_db))"
  using probing_reach probing_messages one_message_per_recipient [OF probing_reach] by blast

text \<open>until a staged send is decided, no more messages have left than its sample holds, and none before its first wave.\<close>

theorem exposure_before_decision:
  assumes "canary_reach db" "c \<in> set (cd_canaries db)" "ca_status c \<in> {CanaryPending, Probing}"
  shows "length (filter (\<lambda>m. og_canary m = ca_id c) (cd_outbox db)) \<le>
     (if ca_status c = CanaryPending then 0 else nat (max 1 (ca_sample_size c)))"
proof -
  note inv = canary_reach_inv [OF assms(1)]
  have ok: "exposure_ok (cd_recipients db) c" using inv assms(2) by (auto simp: canary_inv_def list_all_iff)
  have "size (filter_mset (\<lambda>p. fst p = ca_id c) (mset (map out_addr (cd_outbox db)))) =
      size (filter_mset (\<lambda>p. fst p = ca_id c) (mset (map row_addr (filter was_sent (cd_recipients db)))))"
    using inv by (simp add: canary_inv_def)
  then have "length (filter (\<lambda>m. og_canary m = ca_id c) (cd_outbox db)) = length (filter was_sent (rows_for c (cd_recipients db)))"
    by (simp add: rows_for_def out_addr_def row_addr_def filter_mset_image_mset o_def conj_commute flip: mset_filter size_mset)
  also have "\<dots> \<le> (if ca_status c = CanaryPending then 0 else nat (max 1 (ca_sample_size c)))"
  proof (cases "ca_status c = CanaryPending")
    case True
    with ok have "filter was_sent (rows_for c (cd_recipients db)) = []"
      by (auto simp: exposure_ok_def list_all_iff filter_empty_conv was_sent_def)
    then show ?thesis by simp
  next
    case False
    with ok assms(3) have "list_all (\<lambda>r. was_sent r \<longrightarrow> in_sample r) (rows_for c (cd_recipients db))" by (simp add: exposure_ok_def)
    then have "length (filter was_sent (rows_for c (cd_recipients db))) \<le> length (filter in_sample (rows_for c (cd_recipients db)))"
      by (rule filter_length_mono)
    with ok False show ?thesis by (simp add: exposure_ok_def)
  qed
  finally show ?thesis .
qed

lemma exposure_before_decision_witness:
  "canary_reach probing_db \<and> hd (cd_canaries probing_db) \<in> set (cd_canaries probing_db) \<and>
   ca_status (hd (cd_canaries probing_db)) \<in> {CanaryPending, Probing} \<and>
   length (filter (\<lambda>m. og_canary m = ca_id (hd (cd_canaries probing_db))) (cd_outbox probing_db)) \<le>
     (if ca_status (hd (cd_canaries probing_db)) = CanaryPending then 0 else nat (max 1 (ca_sample_size (hd (cd_canaries probing_db)))))"
proof -
  have c: "hd (cd_canaries probing_db) \<in> set (cd_canaries probing_db)" by (simp add: probing_value)
  have s: "ca_status (hd (cd_canaries probing_db)) \<in> {CanaryPending, Probing}" by (simp add: probing_value)
  show ?thesis by (intro conjI probing_reach c s exposure_before_decision [OF probing_reach c s])
qed

section \<open>The decision\<close>

lemma fold_min_start: "fold min ss (s0 :: rat) \<le> s0"
proof (induction ss arbitrary: s0)
  case (Cons x ss)
  from Cons.IH [of "min x s0"] show ?case by simp
qed simp

lemma fold_min_le: "y \<in> set ss \<Longrightarrow> fold min ss (s0 :: rat) \<le> y"
proof (induction ss arbitrary: s0)
  case (Cons x ss)
  from Cons.prems Cons.IH [of "min x s0"] fold_min_start [of ss "min x s0"] show ?case by auto
qed simp

lemma safest_failure_le:
  assumes "x \<in> set bounced" "cr_score x = Some s"
  shows "safest_failure bounced \<le> s"
proof -
  have "s \<in> set (List.map_filter cr_score bounced)" using assms by (force simp: map_filter_def)
  then show ?thesis by (auto simp: safest_failure_def fold_min_start fold_min_le split: list.splits)
qed

lemma release_messages:
  "cd_outbox (snd (release_remaining send now c cutoff db)) = cd_outbox db @ map (\<lambda>r. message_to c (cr_email r))
     (filter (goes_out send c (role_pending (ca_id c) Held) (Some cutoff)) (cd_recipients db))"
  by (simp add: release_remaining_def send_wave_rows)

lemma save_canary_outbox [simp]: "cd_outbox (save_canary c db) = cd_outbox db"
  by (simp add: save_canary_def)

text \<open>C28: a decision sends to held recipients only, and only after at least one sample recipient was observed; unless the bounce rate of
  the sample is within the threshold, some sample recipient survived and each recipient written to scored strictly below every
  sample recipient that bounced.\<close>

theorem released_are_safer:
  assumes "m \<in> set (drop (length (cd_outbox db)) (cd_outbox (decide send now c db)))"
  shows "\<exists>r. r \<in> set (cd_recipients db) \<and> role_pending (ca_id c) Held r \<and> m = message_to c (cr_email r) \<and>
     observed_sample (ca_id c) db \<noteq> [] \<and>
     (fdiv (of_nat (length (bounced_sample (ca_id c) db))) (of_nat (length (observed_sample (ca_id c) db))) \<le> ca_threshold c \<or>
      length (bounced_sample (ca_id c) db) < length (observed_sample (ca_id c) db) \<and>
      list_all (\<lambda>x. case (cr_score r, cr_score x) of (Some s, Some failed) \<Rightarrow> s < failed | _ \<Rightarrow> True) (bounced_sample (ca_id c) db))"
proof -
  let ?o = "observed_sample (ca_id c) db" and ?b = "bounced_sample (ca_id c) db"
  have sent: "\<exists>r. r \<in> set (cd_recipients db) \<and> role_pending (ca_id c) Held r \<and> m = message_to c (cr_email r) \<and> \<not> over_cutoff (Some x) r"
    if "m \<in> set (drop (length (cd_outbox db)) (cd_outbox (snd (release_remaining send now c x db))))" for x
    using that by (auto simp: release_messages goes_out_def)
  have fewer: "length ?b \<le> length ?o" by (simp add: bounced_sample_def)
  consider (none) "?o = []" | (clean) "?o \<noteq> []" "fdiv (of_nat (length ?b)) (of_nat (length ?o)) \<le> ca_threshold c"
    | (all) "?o \<noteq> []" "\<not> fdiv (of_nat (length ?b)) (of_nat (length ?o)) \<le> ca_threshold c" "length ?b = length ?o"
    | (some) "?o \<noteq> []" "\<not> fdiv (of_nat (length ?b)) (of_nat (length ?o)) \<le> ca_threshold c" "length ?b < length ?o"
    using fewer by linarith
  then show ?thesis
  proof cases
    case none
    with assms show ?thesis by (simp add: decide_def Let_def)
  next
    case clean
    with assms sent show ?thesis by (auto simp: decide_def Let_def case_prod_beta)
  next
    case all
    with assms show ?thesis by (simp add: decide_def Let_def block_remaining_def)
  next
    case some
    then have "m \<in> set (drop (length (cd_outbox db)) (cd_outbox (snd (release_remaining send now c (safest_failure ?b) db))))"
      using assms by (simp add: decide_def Let_def case_prod_beta)
    from sent [OF this] obtain r where r: "r \<in> set (cd_recipients db)" "role_pending (ca_id c) Held r" "m = message_to c (cr_email r)"
      "\<not> over_cutoff (Some (safest_failure ?b)) r" by blast
    have "case (cr_score r, cr_score x) of (Some s, Some failed) \<Rightarrow> s < failed | _ \<Rightarrow> True" if "x \<in> set ?b" for x
      using r(4) safest_failure_le [OF that] by (auto simp: over_cutoff_def split: option.splits)
    with r some show ?thesis by (auto simp: list_all_iff)
  qed
qed

text \<open>A staged send whose window is open; of its sample, one address had the given outcome and one the other.\<close>

definition open_canary :: canary where
  "open_canary = \<lparr>ca_id = ''k'', ca_user = ''u'', ca_name = [], ca_status = Probing, ca_sample_size = 2, ca_hold_minutes = 15,
     ca_threshold = 0, ca_from = ''me@b.dev'', ca_from_name = [], ca_subject = ''hi'', ca_body = [], ca_body_type = ''plain'',
     ca_reply_to = None, ca_auto_release = True, ca_created = 0, ca_sample_sent = Some 1, ca_due = Some 2, ca_decided = None,
     ca_reason = None\<rparr>"

definition staged_row :: "string \<Rightarrow> recipient_role \<Rightarrow> recipient_status \<Rightarrow> rat \<Rightarrow> canary_recipient" where
  "staged_row e role st s = \<lparr>cr_canary = ''k'', cr_email = e, cr_hash = e, cr_domain = ''a.dev'', cr_role = role, cr_status = st,
     cr_score = Some s, cr_smtp_code = None, cr_enhanced = None, cr_sent_at = None, cr_resolved_at = None\<rparr>"

definition window_db :: "recipient_status \<Rightarrow> recipient_status \<Rightarrow> canary_db" where
  "window_db x y = \<lparr>cd_canaries = [open_canary], cd_recipients = [staged_row ''ann@a.dev'' Sample x (1 / 8),
     staged_row ''bob@a.dev'' Sample y (1 / 2), staged_row ''cy@a.dev'' Held RPending (1 / 4)],
     cd_outbox = [message_to open_canary ''ann@a.dev'', message_to open_canary ''bob@a.dev'']\<rparr>"

lemma released_are_safer_witness:
  "\<exists>m. m \<in> set (drop (length (cd_outbox (window_db RSent RHardBounce))) (cd_outbox (decide (\<lambda>_. True) 3 open_canary (window_db RSent RHardBounce)))) \<and>
     og_to m = ''cy@a.dev'' \<and>
     (\<exists>r. r \<in> set (cd_recipients (window_db RSent RHardBounce)) \<and> role_pending (ca_id open_canary) Held r \<and> m = message_to open_canary (cr_email r))"
proof -
  let ?m = "message_to open_canary ''cy@a.dev''"
  have m: "?m \<in> set (drop (length (cd_outbox (window_db RSent RHardBounce))) (cd_outbox (decide (\<lambda>_. True) 3 open_canary (window_db RSent RHardBounce))))" by code_simp
  have "og_to ?m = ''cy@a.dev''" by (simp add: message_to_def)
  with released_are_safer [OF m] m show ?thesis by blast
qed

section \<open>Where the scheduler falls short\<close>

text \<open>A sample that was sent and soft-bounced as a whole counts as never sent, and the batch fails with that reason.\<close>

lemma soft_bounced_sample_fails:
  "let c = hd (cd_canaries (decide_due (\<lambda>_. True) 3 (window_db RSoftBounce RSoftBounce)))
   in ca_status c = CanaryFailed \<and> ca_reason c = Some ''No sample recipient could be sent.''"
  by code_simp

text \<open>Batches that wait for their owner are skipped after they were selected; when as many of them as a tick selects are due
  first, no other batch is ever decided.\<close>

lemma manual_batches_starve_others:
  assumes "list_all (\<lambda>c. \<not> ca_auto_release c) (take batch_limit (sort_key (\<lambda>c. the (ca_due c)) (filter (decision_due now) (cd_canaries db))))"
  shows "decide_due send now db = db"
proof -
  have "fold (\<lambda>c db. if ca_auto_release c then decide send now c db else db) cs d = d"
    if "list_all (\<lambda>c. \<not> ca_auto_release c) cs" for cs d
    using that by (induction cs arbitrary: d) auto
  with assms show ?thesis by (simp add: decide_due_def)
qed

text \<open>A bounce is matched on the address alone: the report of one user changes the staged sends of another.\<close>

lemma bounce_reaches_other_users:
  "fst (apply_bounce (\<lambda>x. x) 2 ''bob@a.dev'' HardBounce None None
      \<lparr>cd_canaries = [open_canary, open_canary\<lparr>ca_id := ''k2'', ca_user := ''v''\<rparr>],
       cd_recipients = [staged_row ''bob@a.dev'' Sample RSent 0, (staged_row ''bob@a.dev'' Sample RSent 0)\<lparr>cr_canary := ''k2''\<rparr>],
       cd_outbox = []\<rparr>) = [''k'', ''k2'']"
  by code_simp

section \<open>Progress\<close>

text \<open>
  Staged sends are decided: when no more of them are due than one tick of the scheduler takes, the tick decides every one
  it may decide.
\<close>

definition settled :: "canary \<Rightarrow> bool" where
  "settled c \<longleftrightarrow> ca_status c \<in> {CanaryReleased, CanaryBlocked, CanaryFailed}"

lemma release_canaries [simp]: "cd_canaries (snd (release_remaining send now c cutoff db)) = cd_canaries db"
  by (simp add: release_remaining_def case_prod_beta)

lemma decide_settles:
  assumes "row_get ca_id (ca_id c) (cd_canaries db) = Some c"
  shows "\<exists>c'. row_get ca_id (ca_id c) (cd_canaries (decide send now c db)) = Some c' \<and> settled c'"
proof -
  have "\<exists>c' db'. decide send now c db = save_canary c' db' \<and> ca_id c' = ca_id c \<and> settled c' \<and> cd_canaries db' = cd_canaries db"
    unfolding decide_def Let_def case_prod_beta
    by (split if_split)+ (fastforce simp: decided_def settled_def block_remaining_def)
  with assms show ?thesis by (auto simp: save_canary_def row_get_put)
qed

lemma fold_settles:
  assumes "distinct (map ca_id cs)" "\<forall>c \<in> set cs. row_get ca_id (ca_id c) (cd_canaries db) = Some c"
    "c \<in> set cs" "ca_auto_release c"
  shows "\<exists>c'. row_get ca_id (ca_id c) (cd_canaries (fold (\<lambda>c db. if ca_auto_release c then decide send now c db else db) cs db)) = Some c' \<and> settled c'"
  using assms(1-3)
proof (induction cs arbitrary: db)
  case (Cons d cs)
  let ?act = "\<lambda>c db. if ca_auto_release c then decide send now c db else db"
  have others: "same_others d db (?act d db)" using decide_others by (simp add: same_others_def)
  show ?case
  proof (cases "c = d")
    case False
    with Cons.prems have "c \<in> set cs" by simp
    moreover have "\<forall>x \<in> set cs. row_get ca_id (ca_id x) (cd_canaries (?act d db)) = Some x"
      using Cons.prems others by (auto simp: same_others_def image_iff)
    ultimately show ?thesis using Cons.IH [of "?act d db"] Cons.prems(1) by simp
  next
    case True
    have keep: "row_get ca_id (ca_id c) (cd_canaries (fold ?act xs db)) = row_get ca_id (ca_id c) (cd_canaries db)"
      if "ca_id c \<notin> ca_id ` set xs" for xs db
      using that
    proof (induction xs arbitrary: db)
      case (Cons x xs)
      then show ?case using decide_others [of x db send now] by (auto simp: same_others_def)
    qed simp
    have "\<exists>c'. row_get ca_id (ca_id c) (cd_canaries (?act d db)) = Some c' \<and> settled c'"
      using decide_settles [of c db send now] Cons.prems(2) assms(4) True by simp
    moreover have "ca_id c \<notin> ca_id ` set cs" using Cons.prems(1) True by simp
    ultimately show ?thesis using keep by simp
  qed
qed simp

text \<open>C30: when no more staged sends are due than one tick of the scheduler takes, the tick decides every due one that may be
  released without its owner: its window does not stay open.\<close>

theorem due_batch_is_decided:
  assumes "canary_reach db" "c \<in> set (cd_canaries db)" "decision_due now c" "ca_auto_release c"
    and "length (filter (decision_due now) (cd_canaries db)) \<le> batch_limit"
  shows "\<exists>c'. row_get ca_id (ca_id c) (cd_canaries (decide_due send now db)) = Some c' \<and> settled c'"
proof -
  let ?sub = "take batch_limit (sort_key (\<lambda>c. the (ca_due c)) (filter (decision_due now) (cd_canaries db)))"
  note sub = selected_rows [OF canary_reach_inv [OF assms(1)] refl, where n = batch_limit and f = "\<lambda>c. the (ca_due c)" and P = "decision_due now"]
  have "c \<in> set ?sub" using assms(2,3,5) by simp
  with sub assms(4) show ?thesis unfolding decide_due_def by (intro fold_settles) blast+
qed

lemma due_batch_is_decided_witness:
  "canary_reach probing_db \<and> decision_due (minutes 20) (hd (cd_canaries probing_db)) \<and>
   (\<exists>c'. row_get ca_id ''k'' (cd_canaries (decide_due (\<lambda>_. True) (minutes 20) probing_db)) = Some c' \<and> settled c')"
proof -
  let ?c = "hd (cd_canaries probing_db)"
  have c: "?c \<in> set (cd_canaries probing_db)" by (simp add: probing_value)
  have d: "decision_due (minutes 20) ?c" by (simp add: probing_value decision_due_def minutes_def seconds_def)
  have a: "ca_auto_release ?c" "ca_id ?c = ''k''" by (simp_all add: probing_value queued_canary_def)
  have n: "length (filter (decision_due (minutes 20)) (cd_canaries probing_db)) \<le> batch_limit"
    by (simp add: probing_value batch_limit_def)
  from due_batch_is_decided [OF probing_reach c d a(1) n] d a(2) probing_reach show ?thesis by simp
qed

end
