(* ===== verification/Dsn.thy ===== *)
theory Dsn
  imports ProbeResult RiskModel
begin

text \<open>
  \<^verbatim>\<open>emails/dsn.py\<close>: the outcomes a delivery status notification reports. A message is the tree
  Python's \<open>email\<close> package parses it into: its headers, its content type in lower case and either the parts
  inside or the content with the transfer encoding undone. Parsing text into such a tree and decoding UTF-8 are
  arguments.
\<close>

section \<open>Messages\<close>

datatype mime = Mime (mm_headers: "(string \<times> string) list") (mm_type: string) (mm_body: "mime list + string")

record mail_library =
  ml_parse :: "string \<Rightarrow> mime"
  ml_utf8 :: "string \<Rightarrow> string"

fun walk :: "mime \<Rightarrow> mime list" where
  "walk (Mime h t (Inr s)) = [Mime h t (Inr s)]"
| "walk (Mime h t (Inl parts)) = Mime h t (Inl parts) # concat (map walk parts)"

definition header_of :: "mime \<Rightarrow> string \<Rightarrow> string option" where
  "header_of m name = map_option snd (find (\<lambda>h. lower (fst h) = lower name) (mm_headers m))"

definition maintype :: "mime \<Rightarrow> string" where
  "maintype m = takeWhile (\<lambda>c. c \<noteq> CHR 0x2F) (mm_type m)"

section \<open>Values\<close>

record dsn_recipient =
  dn_recipient :: string
  dn_action :: string
  dn_state :: "string option"
  dn_code :: "int option"
  dn_diagnostic :: "string option"
  dn_remote :: "string option"

record dsn_report =
  dp_is_dsn :: bool
  dp_reporting :: "string option"
  dp_original_id :: "string option"
  dp_recipients :: "dsn_recipient list"

definition dsn_outcome :: "dsn_recipient \<Rightarrow> outcome option" where
  "dsn_outcome r =
     (let action = lower (dn_action r);
          status_class = (if truthy (dn_state r) then map_option (takeWhile (\<lambda>c. c \<noteq> CHR ''.'')) (dn_state r) else None)
      in if action \<in> {''delivered'', ''relayed'', ''expanded''} then Some Delivered
         else if action = ''delayed'' then Some SoftBounce
         else if action = ''failed''
         then (if status_class = Some ''5'' then Some HardBounce
               else if status_class = Some ''4'' then Some SoftBounce
               else (case dn_code r of
                       Some n \<Rightarrow> if n div 100 = 5 then Some HardBounce else Some SoftBounce
                     | None \<Rightarrow> Some HardBounce))
         else None)"

definition failures :: "dsn_report \<Rightarrow> dsn_recipient list" where
  "failures p = filter (\<lambda>r. dsn_outcome r \<in> {Some HardBounce, Some SoftBounce}) (dp_recipients p)"

text \<open>\<open>^\s*(?:rfc822|x-[\w-]+|local|dns)\s*;\s*\<close> without regard to case.\<close>

definition after_prefix :: "string \<Rightarrow> string \<Rightarrow> string option" where
  "after_prefix p s = (if prefix p (lower s) then Some (drop (length p) s) else None)"

definition after_type_name :: "string \<Rightarrow> string option" where
  "after_type_name s =
     (case after_prefix ''rfc822'' s of
        Some r \<Rightarrow> Some r
      | None \<Rightarrow>
         (case after_prefix ''x-'' s of
            Some r \<Rightarrow> (let w = takeWhile (\<lambda>c. word_char c \<or> c = CHR ''-'') r in if w = [] then None else Some (drop (length w) r))
          | None \<Rightarrow>
             (case after_prefix ''local'' s of
                Some r \<Rightarrow> Some r
              | None \<Rightarrow> after_prefix ''dns'' s)))"

definition drop_address_type :: "string \<Rightarrow> string" where
  "drop_address_type s =
     (case after_type_name (lstrip_by is_space s) of
        None \<Rightarrow> s
      | Some r \<Rightarrow> (case lstrip_by is_space r of
                    c # r' \<Rightarrow> if c = CHR '';'' then lstrip_by is_space r' else s
                  | [] \<Rightarrow> s))"

definition strip_address_type :: "string \<Rightarrow> string" where
  "strip_address_type value =
     (let angle = (\<lambda>c. c = CHR ''<'' \<or> c = CHR ''>'')
      in strip (rstrip_by angle (lstrip_by angle (strip (drop_address_type (strip value))))))"

definition extract_status :: "string option \<Rightarrow> string option" where
  "extract_status value = (if truthy value then Option.bind value search_enhanced else None)"

definition extract_smtp_code :: "string option \<Rightarrow> int option" where
  "extract_smtp_code diagnostic = (if truthy diagnostic then Option.bind diagnostic search_code else None)"

definition or_none :: "string \<Rightarrow> string option" where
  "or_none s = (if s = [] then None else Some s)"

definition or_empty :: "string option \<Rightarrow> string" where
  "or_empty v = (case v of None \<Rightarrow> [] | Some s \<Rightarrow> s)"

definition normalise_header :: "string option \<Rightarrow> string option" where
  "normalise_header value = Option.bind value (\<lambda>s. or_none (join '' '' (split_ws s)))"

section \<open>The delivery-status part\<close>

text \<open>\<open>re.split(r"\r?\n\s*\r?\n", s)\<close>: a separator starts at the end of a line and takes the white space after it up to
  the last end of a line in it.\<close>

definition through_last_newline :: "string \<Rightarrow> string option" where
  "through_last_newline s =
     (let w = takeWhile is_space s; r = dropWhile is_space s
      in if CHR 0x0A \<in> set w then Some (rev (takeWhile (\<lambda>c. c \<noteq> CHR 0x0A) (rev w)) @ r) else None)"

definition separator_here :: "string \<Rightarrow> string option" where
  "separator_here s =
     (case s of
        c # r \<Rightarrow> if c = CHR 0x0A then through_last_newline r
                 else if c = CHR 0x0D
                 then (case r of d # r' \<Rightarrow> if d = CHR 0x0A then through_last_newline r' else None | [] \<Rightarrow> None)
                 else None
      | [] \<Rightarrow> None)"

lemma separator_shorter: "separator_here s = Some r \<Longrightarrow> length r < length s"
proof -
  have le: "length r' \<le> length t" if "through_last_newline t = Some r'" for t r'
  proof -
    have "length (takeWhile (\<lambda>c. c \<noteq> CHR 0x0A) (rev (takeWhile is_space t))) \<le> length (takeWhile is_space t)"
      using length_takeWhile_le [of "\<lambda>c. c \<noteq> CHR 0x0A" "rev (takeWhile is_space t)"] by simp
    moreover have "length t = length (takeWhile is_space t) + length (dropWhile is_space t)"
      by (metis length_append takeWhile_dropWhile_id)
    ultimately show ?thesis using that by (auto simp: through_last_newline_def Let_def split: if_splits)
  qed
  assume "separator_here s = Some r"
  then show ?thesis by (auto simp: separator_here_def split: list.splits if_splits dest!: le)
qed

function split_blocks :: "string \<Rightarrow> string \<Rightarrow> string list" where
  "split_blocks acc [] = [rev acc]"
| "split_blocks acc (c # s) =
     (case separator_here (c # s) of
        Some r \<Rightarrow> rev acc # split_blocks [] r
      | None \<Rightarrow> split_blocks (c # acc) s)"
  by pat_completeness auto
termination by (relation "measure (\<lambda>(acc, s). length s)") (auto dest: separator_shorter)

definition delivery_status_blocks :: "mail_library \<Rightarrow> mime \<Rightarrow> mime list" where
  "delivery_status_blocks lib part =
     (case mm_body part of
        Inl blocks \<Rightarrow> blocks
      | Inr bytes \<Rightarrow> map (ml_parse lib) (filter (\<lambda>b. strip b \<noteq> []) (split_blocks [] (strip (ml_utf8 lib bytes)))))"

definition status_recipient :: "mime \<Rightarrow> dsn_recipient option" where
  "status_recipient fs =
     (let raw = or_text (header_of fs ''Original-Recipient'') (header_of fs ''Final-Recipient'');
          recipient = strip_address_type (or_empty (normalise_header raw));
          action = lower_text (strip (or_empty (normalise_header (header_of fs ''Action''))));
          diagnostic = normalise_header (header_of fs ''Diagnostic-Code'')
      in if \<not> truthy raw \<or> CHR ''@'' \<notin> set recipient then None
         else Some \<lparr>dn_recipient = recipient, dn_action = (if action = [] then ''failed'' else action),
                dn_state = extract_status (normalise_header (header_of fs ''Status'')),
                dn_code = extract_smtp_code diagnostic, dn_diagnostic = map_option (py_take 512) diagnostic,
                dn_remote = or_none (strip_address_type (or_empty (normalise_header (header_of fs ''Remote-MTA''))))\<rparr>)"

definition parse_delivery_status :: "mail_library \<Rightarrow> mime \<Rightarrow> string option \<times> dsn_recipient list" where
  "parse_delivery_status lib part =
     (case delivery_status_blocks lib part of
        [] \<Rightarrow> (None, [])
      | first # rest \<Rightarrow> (or_none (strip_address_type (or_empty (header_of first ''Reporting-MTA''))), List.map_filter status_recipient rest))"

definition original_id_in :: "mail_library \<Rightarrow> mime \<Rightarrow> string option" where
  "original_id_in lib part =
     (if mm_type part \<in> {''message/rfc822'', ''text/rfc822-headers''}
      then (case mm_body part of
              Inr bytes \<Rightarrow> normalise_header (header_of (ml_parse lib bytes) ''Message-ID'')
            | Inl [] \<Rightarrow> None
            | Inl (inner # _) \<Rightarrow> normalise_header (header_of inner ''Message-ID''))
      else None)"

definition original_message_id :: "mail_library \<Rightarrow> mime \<Rightarrow> string option" where
  "original_message_id lib m = (case List.map_filter (original_id_in lib) (walk m) of [] \<Rightarrow> None | i # _ \<Rightarrow> Some i)"

section \<open>Bounces in prose\<close>

definition FAILURE_PHRASES :: "string list" where
  "FAILURE_PHRASES = [''delivery has failed'', ''delivery failed'', ''undeliverable'', ''returned to sender'',
     ''could not be delivered'', ''delivery status notification (failure)'', ''mail delivery failed'', ''failure notice'']"

text \<open>\<open><([^<>@\s]+@[^<>@\s]+)>\<close>.\<close>

definition angle_char :: "char \<Rightarrow> bool" where
  "angle_char c \<longleftrightarrow> c \<notin> {CHR ''<'', CHR ''>'', CHR ''@''} \<and> \<not> is_space c"

definition angle_here :: "string \<Rightarrow> (string \<times> string) option" where
  "angle_here s =
     (case s of
        c # r \<Rightarrow>
          (let u = takeWhile angle_char r; r1 = dropWhile angle_char r; v = takeWhile angle_char (tl r1); r2 = dropWhile angle_char (tl r1)
           in if c = CHR ''<'' \<and> u \<noteq> [] \<and> r1 \<noteq> [] \<and> hd r1 = CHR ''@'' \<and> v \<noteq> [] \<and> r2 \<noteq> [] \<and> hd r2 = CHR ''>''
              then Some (u @ ''@'' @ v, tl r2) else None)
      | [] \<Rightarrow> None)"

text \<open>\<open>\b([A-Za-z0-9._%+\-]+@[A-Za-z0-9.\-]+\.[A-Za-z]{2,})\b\<close>: the longest run of domain characters that ends in a dot and
  at least two letters, with no word character after it.\<close>

definition mail_char :: "char \<Rightarrow> bool" where
  "mail_char c \<longleftrightarrow> is_alnum c \<or> c \<in> set ''._%+-''"

definition host_char :: "char \<Rightarrow> bool" where
  "host_char c \<longleftrightarrow> is_alnum c \<or> c \<in> set ''.-''"

definition host_end :: "string \<Rightarrow> nat \<Rightarrow> nat option" where
  "host_end s i =
     (let letters = takeWhile is_alpha (drop (Suc i) s)
      in if 0 < i \<and> i < length s \<and> s ! i = CHR ''.'' \<and> 2 \<le> length letters \<and> boundary_at (drop (Suc i + length letters) s)
         then Some (Suc i + length letters) else None)"

definition bare_here :: "string \<Rightarrow> (string \<times> string) option" where
  "bare_here s =
     (let u = takeWhile mail_char s; r = dropWhile mail_char s; h = tl r
      in if u = [] \<or> r = [] \<or> hd r \<noteq> CHR ''@'' then None
         else (case List.map_filter (host_end h) (rev [0..<length (takeWhile host_char h)]) of
                 [] \<Rightarrow> None
               | n # _ \<Rightarrow> Some (u @ ''@'' @ take n h, drop n h)))"

text \<open>The matches from left to right; a match of the second expression starts at a word boundary.\<close>

definition bare_starts :: "bool \<Rightarrow> string \<Rightarrow> (string \<times> string) option" where
  "bare_starts after_word s = (case s of c # _ \<Rightarrow> if after_word = word_char c then None else bare_here s | [] \<Rightarrow> None)"

lemma angle_shorter: "angle_here s = Some (m, r) \<Longrightarrow> length r < length s"
proof -
  assume h: "angle_here s = Some (m, r)"
  then obtain c t where s: "s = c # t" by (cases s) (auto simp: angle_here_def)
  let ?r1 = "dropWhile angle_char t" and ?r2 = "dropWhile angle_char (tl (dropWhile angle_char t))"
  from h have "r = tl ?r2" "?r2 \<noteq> []" by (auto simp: angle_here_def s Let_def split: if_splits)
  moreover have "length ?r2 \<le> length (tl ?r1)" "length ?r1 \<le> length t" by (rule length_dropWhile_le)+
  ultimately show ?thesis by (simp add: s)
qed

lemma bare_shorter: "bare_starts b s = Some (m, r) \<Longrightarrow> length r < length s"
proof -
  assume "bare_starts b s = Some (m, r)"
  then have h: "bare_here s = Some (m, r)" by (auto simp: bare_starts_def split: list.splits if_splits)
  let ?r = "dropWhile mail_char s"
  from h have "?r \<noteq> []" and "length r \<le> length (tl ?r)"
    by (auto simp: bare_here_def Let_def split: if_splits list.splits)
  moreover have "length ?r \<le> length s" by (rule length_dropWhile_le)
  ultimately show ?thesis by (cases ?r) auto
qed

function find_angles :: "string \<Rightarrow> string list" where
  "find_angles [] = []"
| "find_angles (c # s) = (case angle_here (c # s) of Some (m, r) \<Rightarrow> m # find_angles r | None \<Rightarrow> find_angles s)"
  by pat_completeness auto
termination by (relation "measure length") (auto dest: angle_shorter)

function find_bare :: "bool \<Rightarrow> string \<Rightarrow> string list" where
  "find_bare after_word [] = []"
| "find_bare after_word (c # s) =
     (case bare_starts after_word (c # s) of
        Some (m, r) \<Rightarrow> m # find_bare True r
      | None \<Rightarrow> find_bare (word_char c) s)"
  by pat_completeness auto
termination by (relation "measure (\<lambda>(b, s). length s)") (auto dest: bare_shorter)

definition SYSTEM_LOCALS :: "string list" where
  "SYSTEM_LOCALS = [''postmaster'', ''mailer-daemon'', ''mailerdaemon'', ''noreply'', ''no-reply'']"

text \<open>At most ten different addresses.\<close>

fun prose_recipients :: "string option \<Rightarrow> int option \<Rightarrow> string list \<Rightarrow> nat \<Rightarrow> string list \<Rightarrow> dsn_recipient list" where
  "prose_recipients status smtp seen room [] = []"
| "prose_recipients status smtp seen room (candidate # rest) =
     (let address = lower_text (strip candidate)
      in if room = 0 then []
         else if takeWhile (\<lambda>c. c \<noteq> CHR ''@'') address \<in> set SYSTEM_LOCALS \<or> address \<in> set seen
         then prose_recipients status smtp seen room rest
         else \<lparr>dn_recipient = address, dn_action = ''failed'', dn_state = status, dn_code = smtp, dn_diagnostic = None, dn_remote = None\<rparr>
                # prose_recipients status smtp (address # seen) (room - 1) rest)"

definition text_of :: "mail_library \<Rightarrow> mime \<Rightarrow> string" where
  "text_of lib m = join [CHR 0x0A] (List.map_filter (\<lambda>p.
     if maintype p = ''text'' then (case mm_body p of Inr bytes \<Rightarrow> Some (ml_utf8 lib bytes) | Inl _ \<Rightarrow> None) else None) (walk m))"

definition heuristic_parse :: "mail_library \<Rightarrow> mime \<Rightarrow> dsn_recipient list" where
  "heuristic_parse lib m =
     (let subject = lower_text (or_empty (normalise_header (header_of m ''Subject'')));
          body = text_of lib m;
          status = extract_status (Some body); smtp = extract_smtp_code (Some body);
          angles = find_angles body
      in if \<not> contains_any FAILURE_PHRASES (lower_text (subject @ [CHR 0x0A] @ body)) \<or> (status = None \<and> smtp = None) then []
         else prose_recipients status smtp [] 10 (if angles = [] then find_bare False body else angles))"

section \<open>The report\<close>

definition status_parts :: "mime \<Rightarrow> mime list" where
  "status_parts m = filter (\<lambda>p. mm_type p = ''message/delivery-status'') (walk m)"

definition looks_automated :: "mime \<Rightarrow> bool" where
  "looks_automated m =
     (let sender = lower_text (or_empty (normalise_header (header_of m ''From'')));
          auto = lower_text (or_empty (normalise_header (header_of m ''Auto-Submitted'')))
      in contains ''mailer-daemon'' sender \<or> contains ''postmaster'' sender \<or> prefix ''auto-replied'' auto \<or>
         prefix ''auto-generated'' auto \<or> status_parts m \<noteq> [])"

definition parse_dsn :: "mail_library \<Rightarrow> mime \<Rightarrow> dsn_report" where
  "parse_dsn lib m =
     (let parsed = map (parse_delivery_status lib) (status_parts m);
          report = \<lparr>dp_is_dsn = (status_parts m \<noteq> []),
            dp_reporting = fold (\<lambda>p known. or_text known (fst p)) parsed None,
            dp_original_id = original_message_id lib m, dp_recipients = concat (map snd parsed)\<rparr>;
          heuristic = heuristic_parse lib m
      in if dp_is_dsn report \<and> dp_recipients report \<noteq> [] then report
         else if \<not> looks_automated m then report
         else if heuristic = [] then report
         else report\<lparr>dp_is_dsn := True, dp_recipients := dp_recipients report @ heuristic\<rparr>)"

end
