(* ===== verification/Bounces.thy ===== *)
theory Bounces
  imports Dsn Canary Models
begin

text \<open>
  What feeds delivery outcomes back: \<^verbatim>\<open>emails/bounce_scanner.py\<close>, which reads the mailboxes of the server, and the
  endpoints of \<^verbatim>\<open>emails/validation_router.py\<close> and \<^verbatim>\<open>emails/router.py\<close> that take bounces, outcomes and
  validations. Listing and fetching mail over IMAP are arguments, and may raise.
\<close>

section \<open>State\<close>

record bounce_scan =
  sn_mailbox :: string
  sn_last_uid :: int
  sn_scanned :: time

record bounce_db =
  bd_scans :: "bounce_scan list"
  bd_risk :: risk_db
  bd_canary :: canary_db

text \<open>What recording an outcome needs: the keyed hash, the syntax check, the provider of a domain, the mail library.\<close>

record bounce_env =
  be_digest :: "string \<Rightarrow> string"
  be_syntax :: "string \<Rightarrow> syntax_result"
  be_provider :: "string \<Rightarrow> string option"
  be_mail :: mail_library

section \<open>Recording\<close>

definition entry_domain :: "bounce_env \<Rightarrow> dsn_recipient \<Rightarrow> string option" where
  "entry_domain env e =
     (let sx = be_syntax env (dn_recipient e)
      in if sx_valid sx then (case sx_domain sx of Some d \<Rightarrow> if d = [] then None else Some d | None \<Rightarrow> None) else None)"

definition delivery_of :: "bounce_env \<Rightarrow> dsn_recipient \<Rightarrow> outcome \<Rightarrow> string \<Rightarrow> delivery_result" where
  "delivery_of env e x d = \<lparr>dr_email = dn_recipient e, dr_domain = d, dr_outcome = x, dr_smtp_code = dn_code e,
     dr_enhanced = dn_state e, dr_provider = be_provider env d, dr_source = ''dsn''\<rparr>"

definition record_entry :: "bounce_env \<Rightarrow> time \<Rightarrow> string \<Rightarrow> dsn_recipient \<Rightarrow> bounce_db \<Rightarrow> bool \<times> bounce_db" where
  "record_entry env now user e db =
     (case (dsn_outcome e, entry_domain env e) of
        (Some x, Some d) \<Rightarrow>
          (True, db\<lparr>bd_risk := record_validation_feedback (be_digest env) now user (delivery_of env e x d) (bd_risk db),
             bd_canary := snd (apply_bounce (be_digest env) now (dn_recipient e) x (dn_code e) (dn_state e) (bd_canary db))\<rparr>)
      | _ \<Rightarrow> (False, db))"

fun record_entries :: "bounce_env \<Rightarrow> time \<Rightarrow> string \<Rightarrow> dsn_recipient list \<Rightarrow> bounce_db \<Rightarrow> dsn_recipient list \<times> bounce_db" where
  "record_entries env now user [] db = ([], db)"
| "record_entries env now user (e # es) db =
     (let (ok, db1) = record_entry env now user e db; (rest, db2) = record_entries env now user es db1
      in (if ok then e # rest else rest, db2))"

section \<open>The scanner\<close>

record mail_summary =
  mz_uid :: string
  mz_from :: string
  mz_subject :: string

definition MAX_MESSAGES :: nat where "MAX_MESSAGES = 100"

definition looks_like_bounce :: "mail_summary \<Rightarrow> bool" where
  "looks_like_bounce m =
     (let sender = lower_text (mz_from m); subject = lower_text (mz_subject m)
      in contains ''mailer-daemon'' sender \<or> contains ''postmaster'' sender \<or>
         contains_any [''undeliverable'', ''delivery status notification'', ''returned mail'', ''delivery has failed'', ''failure notice''] subject)"

definition summary_uid :: "mail_summary \<Rightarrow> int option" where
  "summary_uid m = (case py_int (mz_uid m) of Inl _ \<Rightarrow> None | Inr n \<Rightarrow> Some n)"

definition candidate_uids :: "int \<Rightarrow> mail_summary list \<Rightarrow> int list" where
  "candidate_uids lo ms = List.map_filter (\<lambda>m. case summary_uid m of
     Some u \<Rightarrow> if lo < u \<and> looks_like_bounce m then Some u else None | None \<Rightarrow> None) ms"

definition highest_uid :: "int \<Rightarrow> mail_summary list \<Rightarrow> int" where
  "highest_uid lo ms = fold max (List.map_filter summary_uid ms) lo"

text \<open>\<open>list_emails\<close> with the newest hundred messages of the inbox, and \<open>get_email_raw\<close>.\<close>

record imap =
  im_list :: "string \<Rightarrow> nat \<Rightarrow> string + mail_summary list"
  im_raw :: "string \<Rightarrow> int \<Rightarrow> string + string"

definition read_candidate :: "bounce_env \<Rightarrow> imap \<Rightarrow> time \<Rightarrow> mailbox \<Rightarrow> int \<Rightarrow> bounce_db \<Rightarrow> nat \<times> bounce_db" where
  "read_candidate env im now mb uid db =
     (case im_raw im (m_address mb) uid of
        Inl _ \<Rightarrow> (0, db)
      | Inr raw \<Rightarrow>
          (let report = parse_dsn (be_mail env) (ml_parse (be_mail env) raw)
           in case m_user_id mb of
                None \<Rightarrow> (0, db)
              | Some user \<Rightarrow>
                  if dp_is_dsn report
                  then (let (done, db') = record_entries env now user (dp_recipients report) db in (length done, db'))
                  else (0, db)))"

fun read_candidates :: "bounce_env \<Rightarrow> imap \<Rightarrow> time \<Rightarrow> mailbox \<Rightarrow> int list \<Rightarrow> bounce_db \<Rightarrow> nat \<times> bounce_db" where
  "read_candidates env im now mb [] db = (0, db)"
| "read_candidates env im now mb (u # us) db =
     (let (n, db1) = read_candidate env im now mb u db; (k, db2) = read_candidates env im now mb us db1 in (n + k, db2))"

definition last_uid :: "string \<Rightarrow> bounce_db \<Rightarrow> int" where
  "last_uid address db = (case row_get sn_mailbox address (bd_scans db) of None \<Rightarrow> 0 | Some r \<Rightarrow> sn_last_uid r)"

definition save_scan :: "time \<Rightarrow> string \<Rightarrow> int \<Rightarrow> bounce_db \<Rightarrow> bounce_db" where
  "save_scan now address uid db =
     (let r = \<lparr>sn_mailbox = address, sn_last_uid = uid, sn_scanned = now\<rparr>
      in db\<lparr>bd_scans := (case row_get sn_mailbox address (bd_scans db) of None \<Rightarrow> bd_scans db @ [r]
                         | Some _ \<Rightarrow> row_put sn_mailbox r (bd_scans db))\<rparr>)"

definition scan_mailbox :: "bounce_env \<Rightarrow> imap \<Rightarrow> time \<Rightarrow> mailbox \<Rightarrow> bounce_db \<Rightarrow> nat \<times> bounce_db" where
  "scan_mailbox env im now mb db =
     (let lo = last_uid (m_address mb) db
      in case im_list im (m_address mb) MAX_MESSAGES of
           Inl _ \<Rightarrow> (0, db)
         | Inr ms \<Rightarrow>
             (let (n, db') = read_candidates env im now mb (candidate_uids lo ms) db; highest = highest_uid lo ms
              in (n, if lo < highest then save_scan now (m_address mb) highest db' else db')))"

definition scanned_mailboxes :: "mailbox list \<Rightarrow> mailbox list" where
  "scanned_mailboxes mbs = filter (\<lambda>m. m_is_active m \<and> m_user_id m \<noteq> None) mbs"

fun scan_all :: "bounce_env \<Rightarrow> imap \<Rightarrow> time \<Rightarrow> mailbox list \<Rightarrow> bounce_db \<Rightarrow> nat \<times> bounce_db" where
  "scan_all env im now [] db = (0, db)"
| "scan_all env im now (m # ms) db =
     (let (n, db1) = scan_mailbox env im now m db; (k, db2) = scan_all env im now ms db1 in (n + k, db2))"

definition scan_once :: "bounce_env \<Rightarrow> imap \<Rightarrow> time \<Rightarrow> mailbox list \<Rightarrow> bounce_db \<Rightarrow> nat \<times> bounce_db" where
  "scan_once env im now mbs db = scan_all env im now (scanned_mailboxes mbs) db"

section \<open>Endpoints\<close>

record ingest_response =
  ig_is_dsn :: bool
  ig_recorded :: nat
  ig_recipients :: "dsn_recipient list"

definition ingest_bounce :: "bool \<Rightarrow> bounce_env \<Rightarrow> time \<Rightarrow> string \<Rightarrow> string \<Rightarrow> bounce_db \<Rightarrow> ingest_response result \<times> bounce_db" where
  "ingest_bounce enabled env now user raw db =
     (let report = parse_dsn (be_mail env) (ml_parse (be_mail env) raw);
          (recorded, db') = record_entries env now user (dp_recipients report) db
      in if \<not> enabled then (Inl (Http 403 ''Bounce ingestion is disabled''), db)
         else if \<not> dp_is_dsn report then (Inr \<lparr>ig_is_dsn = False, ig_recorded = 0, ig_recipients = []\<rparr>, db)
         else (Inr \<lparr>ig_is_dsn = True, ig_recorded = length recorded, ig_recipients = recorded\<rparr>, db'))"

record feedback_request =
  fq_email :: string
  fq_outcome :: outcome
  fq_smtp_code :: "int option"
  fq_enhanced :: "string option"

definition outcome_class :: "outcome \<Rightarrow> int" where
  "outcome_class x = (case x of Delivered \<Rightarrow> 2 | SoftBounce \<Rightarrow> 4 | HardBounce \<Rightarrow> 5)"

text \<open>The checks of the request: the codes are of the class of the outcome.\<close>

definition feedback_request_ok :: "feedback_request \<Rightarrow> bool" where
  "feedback_request_ok q \<longleftrightarrow>
     (case fq_smtp_code q of None \<Rightarrow> True | Some n \<Rightarrow> 100 \<le> n \<and> n \<le> 599 \<and> n div 100 = outcome_class (fq_outcome q)) \<and>
     (case fq_enhanced q of None \<Rightarrow> True
      | Some e \<Rightarrow> e = [] \<or> (length e \<le> 16 \<and> enhanced_here e = Some e \<and> int (code (hd e)) - 48 = outcome_class (fq_outcome q)))"

definition create_email_validation_feedback :: "bounce_env \<Rightarrow> time \<Rightarrow> string \<Rightarrow> feedback_request \<Rightarrow> risk_db \<Rightarrow> outcome result \<times> risk_db" where
  "create_email_validation_feedback env now user q db =
     (let sx = be_syntax env (fq_email q)
      in case sx_domain sx of
           Some d \<Rightarrow>
             if \<not> sx_valid sx \<or> d = [] then (Inl (Http 422 ''A valid public email address is required''), db)
             else (Inr (fq_outcome q), record_validation_feedback (be_digest env) now user
                    \<lparr>dr_email = fq_email q, dr_domain = d, dr_outcome = fq_outcome q, dr_smtp_code = fq_smtp_code q,
                     dr_enhanced = fq_enhanced q, dr_provider = be_provider env d, dr_source = ''api''\<rparr> db)
         | None \<Rightarrow> (Inl (Http 422 ''A valid public email address is required''), db))"

text \<open>The validation of one address: the response, the assessment of an accept-all destination, and the score kept for later.\<close>

definition validate_email_endpoint :: "batch_settings \<Rightarrow> (string \<Rightarrow> validation_outcome) \<Rightarrow> string \<Rightarrow> risk_db
    \<Rightarrow> (validation_response \<times> risk_assessment option) \<times> risk_db" where
  "validate_email_endpoint cfg validate email db =
     (let out = validate email; r = vo_response out;
          provider = (case vo_profile out of None \<Rightarrow> UNKNOWN_PROVIDER | Some p \<Rightarrow> pf_provider p);
          d = or_empty (sx_domain (vr_syntax r));
          risk = (if vr_status r = StCatchAll \<and> d \<noteq> []
            then Some (assess_catch_all_risk (bt_libm cfg) (bt_digest cfg) (bt_risk cfg) (bt_now cfg)
              \<lparr>rq_user = bt_user cfg, rq_email = vr_email r, rq_domain = d, rq_provider = provider,
               rq_local_part = vo_local out, rq_signals = vo_domain out, rq_probe = vo_probe out\<rparr> db)
            else None);
          score = (case risk of Some a \<Rightarrow> ra_score a
            | None \<Rightarrow> if vr_deliverable r = Some False then 1 else if vr_status r = StValid then dbl (5 / 1000) else 1 / 4)
      in ((r, risk),
          if d = [] then db
          else record_prediction (bt_digest cfg) (bt_now cfg) (bt_user cfg) (vr_email r) d (Some (mx_id provider))
                 (status_text (vr_status r)) score db))"

definition validate_email_batch_endpoint :: "nat \<Rightarrow> batch_settings \<Rightarrow> (string \<Rightarrow> syntax_result)
    \<Rightarrow> (bool \<Rightarrow> int option \<Rightarrow> string \<Rightarrow> string + validation_outcome) \<Rightarrow> string list \<Rightarrow> rat option \<Rightarrow> bool \<Rightarrow> risk_db
    \<Rightarrow> batch_response result \<times> risk_db" where
  "validate_email_batch_endpoint limit cfg syn validate emails target signals db =
     (if limit < length emails
      then (Inl (Http 422 (''A batch may contain at most '' @ show_nat limit @ '' addresses'')), db)
      else (let (r, db') = validate_batch cfg syn validate emails target signals db in (Inr r, db')))"

definition get_validation_calibration :: "time \<Rightarrow> bool \<Rightarrow> string \<Rightarrow> int \<Rightarrow> risk_db \<Rightarrow> calibration_report" where
  "get_validation_calibration now global user n db = build_calibration_report now (if global then None else Some user) n db"

definition list_suppressed_domains :: "time \<Rightarrow> risk_db \<Rightarrow> suppression list" where
  "list_suppressed_domains now db = sort_key (\<lambda>r. - sp_created r)
     (filter (\<lambda>r. case sp_expires r of None \<Rightarrow> True | Some t \<Rightarrow> now < t) (rd_suppressions db))"

end
