(* ===== verification/BounceProps.thy ===== *)
theory BounceProps
  imports Bounces
begin

text \<open>
  Bounces: a message is read by the scanner at most once, and an outcome is counted for one user only.
\<close>

section \<open>Recording touches one user\<close>

definition others_feedback :: "string \<Rightarrow> risk_db \<Rightarrow> feedback list" where
  "others_feedback user db = filter (\<lambda>r. vf_user r \<noteq> user) (rd_feedback db)"

lemma record_feedback_others [simp]:
  "others_feedback user (record_validation_feedback digest now user x db) = others_feedback user db"
proof -
  have "filter (\<lambda>r. vf_user r \<noteq> user) (filter (\<lambda>r. \<not> (vf_user r = user \<and> P r)) rs) = filter (\<lambda>r. vf_user r \<noteq> user) rs" for P rs
    by (induction rs) auto
  then show ?thesis by (simp add: others_feedback_def record_validation_feedback_def Let_def new_feedback_def)
qed

lemma record_entry_facts:
  "others_feedback user (bd_risk (snd (record_entry env now user e db))) = others_feedback user (bd_risk db)"
  "bd_scans (snd (record_entry env now user e db)) = bd_scans db"
  "cd_outbox (bd_canary (snd (record_entry env now user e db))) = cd_outbox (bd_canary db)"
  by (auto simp: record_entry_def apply_bounce_def Let_def split: option.splits)

lemma record_entries_facts:
  "others_feedback user (bd_risk (snd (record_entries env now user es db))) = others_feedback user (bd_risk db)"
  "bd_scans (snd (record_entries env now user es db)) = bd_scans db"
  "cd_outbox (bd_canary (snd (record_entries env now user es db))) = cd_outbox (bd_canary db)"
  by (induction es arbitrary: db) (simp_all add: case_prod_beta Let_def record_entry_facts)

lemma read_candidate_scans [simp]: "bd_scans (snd (read_candidate env im now mb u db)) = bd_scans db"
  by (auto simp: read_candidate_def Let_def record_entries_facts split: sum.splits option.splits prod.splits
      dest: arg_cong [where f = "\<lambda>p. bd_scans (snd p)"])

lemma read_candidates_scans [simp]: "bd_scans (snd (read_candidates env im now mb us db)) = bd_scans db"
  by (induction us arbitrary: db) (simp_all add: case_prod_beta Let_def)

lemma read_candidate_others:
  "m_user_id mb = Some user \<Longrightarrow>
     others_feedback user (bd_risk (snd (read_candidate env im now mb u db))) = others_feedback user (bd_risk db)"
  by (auto simp: read_candidate_def Let_def record_entries_facts split: sum.splits option.splits prod.splits
      dest: arg_cong [where f = "\<lambda>p. others_feedback user (bd_risk (snd p))"])

lemma read_candidates_others:
  "m_user_id mb = Some user \<Longrightarrow>
     others_feedback user (bd_risk (snd (read_candidates env im now mb us db))) = others_feedback user (bd_risk db)"
  by (induction us arbitrary: db) (simp_all add: case_prod_beta Let_def read_candidate_others)

lemma save_scan_risk [simp]: "bd_risk (save_scan now a u db) = bd_risk db"
  by (simp add: save_scan_def Let_def)

text \<open>the outcomes of a notification are counted for one user: for the caller that hands it in, or for the owner of the
  mailbox it arrived in; the outcomes of everybody else stay what they were.\<close>

theorem outcomes_counted_for_one_user:
  "others_feedback user (bd_risk (snd (ingest_bounce enabled env now user raw db))) = others_feedback user (bd_risk db) \<and>
   (case m_user_id mb of
      None \<Rightarrow> bd_risk (snd (scan_mailbox env im now mb db)) = bd_risk db
    | Some owner \<Rightarrow> others_feedback owner (bd_risk (snd (scan_mailbox env im now mb db))) = others_feedback owner (bd_risk db))"
proof -
  have none: "bd_risk (snd (read_candidates env im now mb us db)) = bd_risk db" if "m_user_id mb = None" for us db
  proof (induction us arbitrary: db)
    case (Cons u us)
    have "bd_risk (snd (read_candidate env im now mb u db)) = bd_risk db"
      using that by (simp add: read_candidate_def split: sum.splits)
    with Cons.IH show ?case by (simp add: case_prod_beta Let_def)
  qed simp
  show ?thesis
    by (auto simp: ingest_bounce_def scan_mailbox_def case_prod_beta Let_def record_entries_facts read_candidates_others none
        split: sum.splits option.splits)
qed

section \<open>Every message is read once\<close>

lemma row_get_snoc: "row_get key k (rows @ [r]) = (case row_get key k rows of Some x \<Rightarrow> Some x | None \<Rightarrow> if key r = k then Some r else None)"
  by (induction rows) (auto simp: row_get_def)

lemma last_uid_save: "last_uid a (save_scan now b u db) = (if a = b then u else last_uid a db)"
  by (auto simp: last_uid_def save_scan_def Let_def row_get_snoc row_get_put split: option.splits)

lemma fold_max_ge: "(x :: int) \<le> fold max xs x \<and> (\<forall>y \<in> set xs. y \<le> fold max xs x)"
proof (induction xs arbitrary: x)
  case (Cons z zs)
  from Cons.IH [of "max z x"] show ?case by (auto simp: max.coboundedI1)
qed simp

lemma candidates_at_most_highest: "u \<in> set (candidate_uids lo ms) \<Longrightarrow> lo < u \<and> u \<le> highest_uid lo ms"
  using fold_max_ge [of lo "List.map_filter summary_uid ms"]
  by (fastforce simp: candidate_uids_def highest_uid_def map_filter_def split: option.splits if_splits)

lemma last_uid_same_scans: "bd_scans db = bd_scans db' \<Longrightarrow> last_uid a db = last_uid a db'"
  by (simp add: last_uid_def)

lemma scan_mailbox_last_uid:
  "last_uid a (snd (scan_mailbox env im now mb db)) =
     (case im_list im (m_address mb) MAX_MESSAGES of
        Inl _ \<Rightarrow> last_uid a db
      | Inr ms \<Rightarrow> if a = m_address mb then highest_uid (last_uid a db) ms else last_uid a db)"
proof (cases "im_list im (m_address mb) MAX_MESSAGES")
  case (Inl e)
  then show ?thesis by (simp add: scan_mailbox_def Let_def)
next
  case (Inr ms)
  let ?lo = "last_uid (m_address mb) db"
  have ge: "?lo \<le> highest_uid ?lo ms" using fold_max_ge [of ?lo] by (simp add: highest_uid_def)
  have same: "last_uid a (snd (read_candidates env im now mb us db)) = last_uid a db" for us
    by (rule last_uid_same_scans) simp
  show ?thesis using Inr ge same by (auto simp: scan_mailbox_def case_prod_beta Let_def last_uid_save)
qed

text \<open>Whatever runs between two scans: other scans, bounces handed in, outcomes, staged sends.\<close>

inductive bounce_steps :: "bounce_db \<Rightarrow> bounce_db \<Rightarrow> bool" where
  start: "bounce_steps db db"
| scanned: "bounce_steps db db' \<Longrightarrow> bounce_steps db (snd (scan_mailbox env im now mb db'))"
| ingested: "bounce_steps db db' \<Longrightarrow> bounce_steps db (snd (ingest_bounce enabled env now user raw db'))"
| elsewhere: "bounce_steps db db' \<Longrightarrow> bounce_steps db (db'\<lparr>bd_risk := r, bd_canary := c\<rparr>)"

lemma bounce_steps_monotone: "bounce_steps db db' \<Longrightarrow> last_uid a db \<le> last_uid a db'"
proof (induction rule: bounce_steps.induct)
  case (scanned db db' env im now mb)
  have "last_uid a db' \<le> last_uid a (snd (scan_mailbox env im now mb db'))"
    unfolding scan_mailbox_last_uid using fold_max_ge [of "last_uid a db'"] by (auto simp: highest_uid_def split: sum.splits)
  with scanned.IH show ?case by simp
next
  case (ingested db db' enabled env now user raw)
  have "bd_scans (snd (ingest_bounce enabled env now user raw db')) = bd_scans db'"
    by (auto simp: ingest_bounce_def case_prod_beta Let_def record_entries_facts)
  with ingested.IH show ?case by (simp add: last_uid_def)
qed (simp_all add: last_uid_def)

text \<open>The messages a scan fetches.\<close>

definition scan_reads :: "imap \<Rightarrow> mailbox \<Rightarrow> bounce_db \<Rightarrow> int list" where
  "scan_reads im mb db = (case im_list im (m_address mb) MAX_MESSAGES of Inl _ \<Rightarrow> [] | Inr ms \<Rightarrow> candidate_uids (last_uid (m_address mb) db) ms)"

text \<open>C29: a message of a mailbox is fetched by at most one scan, whatever happens in between and whatever the server lists:
  later scans only fetch messages with higher identifiers than every message listed before.\<close>

theorem notification_read_once:
  assumes "u \<in> set (scan_reads im mb db)"
    and "bounce_steps (snd (scan_mailbox env im now mb db)) db'"
    and "v \<in> set (scan_reads im' mb db')"
  shows "u < v"
proof -
  from assms(1) obtain ms where ms: "im_list im (m_address mb) MAX_MESSAGES = Inr ms"
      "u \<in> set (candidate_uids (last_uid (m_address mb) db) ms)"
    by (cases "im_list im (m_address mb) MAX_MESSAGES") (auto simp: scan_reads_def)
  have "u \<le> last_uid (m_address mb) (snd (scan_mailbox env im now mb db))"
    using candidates_at_most_highest [OF ms(2)] by (simp add: scan_mailbox_last_uid ms(1))
  also have "\<dots> \<le> last_uid (m_address mb) db'" by (rule bounce_steps_monotone [OF assms(2)])
  also have "\<dots> < v"
    using assms(3) candidates_at_most_highest by (auto simp: scan_reads_def split: sum.splits)
  finally show ?thesis .
qed

section \<open>A concrete scan\<close>

definition plain_mime :: "string \<Rightarrow> mime" where
  "plain_mime s = Mime [] ''text/plain'' (Inr s)"

definition demo_env :: bounce_env where
  "demo_env = \<lparr>be_digest = (\<lambda>x. x), be_syntax = (\<lambda>e. syntax_ok (local_of e) (domain_of e)), be_provider = (\<lambda>_. None),
     be_mail = \<lparr>ml_parse = plain_mime, ml_utf8 = (\<lambda>s. s)\<rparr>\<rparr>"

definition daemon_mail :: "string \<Rightarrow> mail_summary" where
  "daemon_mail u = \<lparr>mz_uid = u, mz_from = ''MAILER-DAEMON@a.dev'', mz_subject = ''failure notice''\<rparr>"

text \<open>An inbox that lists the given messages; none of them can be fetched.\<close>

definition broken_inbox :: "string list \<Rightarrow> imap" where
  "broken_inbox us = \<lparr>im_list = (\<lambda>_ n. Inr (map daemon_mail (take n us))), im_raw = (\<lambda>_ _. Inl ''timeout'')\<rparr>"

definition demo_mailbox :: mailbox where
  "demo_mailbox = \<lparr>m_id = ''m'', m_address = ''a@a.dev'', m_display_name = [], m_domain = ''a.dev'', m_is_active = True,
     m_is_catchall = False, m_purpose = Standard, m_created_at = 0, m_quota_mb = 0, m_signature = [], m_user_id = Some ''u''\<rparr>"

definition empty_bounce_db :: bounce_db where
  "empty_bounce_db = \<lparr>bd_scans = [], bd_risk = \<lparr>rd_feedback = [], rd_predictions = [], rd_suppressions = []\<rparr>,
     bd_canary = \<lparr>cd_canaries = [], cd_recipients = [], cd_outbox = []\<rparr>\<rparr>"

definition scanned_db :: bounce_db where
  "scanned_db = snd (scan_mailbox demo_env (broken_inbox [''4'']) 0 demo_mailbox empty_bounce_db)"

lemma scanned_db_uid: "last_uid ''a@a.dev'' scanned_db = 4"
  by (simp add: scanned_db_def scan_mailbox_last_uid broken_inbox_def demo_mailbox_def daemon_mail_def highest_uid_def MAX_MESSAGES_def
      map_filter_def summary_uid_def last_uid_def empty_bounce_db_def row_get_def)
     code_simp

lemma notification_read_once_witness:
  "(4 :: int) \<in> set (scan_reads (broken_inbox [''4'']) demo_mailbox empty_bounce_db) \<and>
   9 \<in> set (scan_reads (broken_inbox [''9'', ''4'']) demo_mailbox scanned_db) \<and> (4 :: int) < 9"
proof -
  have a: "4 \<in> set (scan_reads (broken_inbox [''4'']) demo_mailbox empty_bounce_db)"
    unfolding demo_mailbox_def empty_bounce_db_def by code_simp
  have "scan_reads (broken_inbox [''9'', ''4'']) demo_mailbox scanned_db = candidate_uids 4 (map daemon_mail [''9'', ''4''])"
    by (simp add: scan_reads_def broken_inbox_def demo_mailbox_def MAX_MESSAGES_def scanned_db_uid)
  also have "\<dots> = [9]" by code_simp
  finally have b: "9 \<in> set (scan_reads (broken_inbox [''9'', ''4'']) demo_mailbox scanned_db)" by simp
  have s: "bounce_steps (snd (scan_mailbox demo_env (broken_inbox [''4'']) 0 demo_mailbox empty_bounce_db)) scanned_db"
    unfolding scanned_db_def by (rule bounce_steps.start)
  from a b notification_read_once [OF a s b] show ?thesis by blast
qed

section \<open>Bounces that are lost\<close>

text \<open>When the folder was recreated its identifiers start over, and nothing is read until they pass the old highest one.\<close>

lemma recreated_folder_ignored:
  assumes "im_list im (m_address mb) MAX_MESSAGES = Inr ms"
    and "list_all (\<lambda>m. case summary_uid m of None \<Rightarrow> True | Some u \<Rightarrow> u \<le> last_uid (m_address mb) db) ms"
  shows "scan_mailbox env im now mb db = (0, db)"
proof -
  let ?lo = "last_uid (m_address mb) db"
  have "candidate_uids ?lo ms = []" using assms(2)
    by (induction ms) (auto simp: candidate_uids_def map_filter_def split: option.splits)
  moreover have "highest_uid ?lo ms = ?lo" using assms(2)
    by (induction ms) (auto simp: highest_uid_def map_filter_def split: option.splits)
  ultimately show ?thesis using assms(1) by (simp add: scan_mailbox_def Let_def)
qed

text \<open>A notification that could not be fetched is not tried again: the scan moves past it.\<close>

lemma unfetched_notification_lost:
  "scan_reads (broken_inbox [''4'']) demo_mailbox scanned_db = []"
proof -
  have "scan_reads (broken_inbox [''4'']) demo_mailbox scanned_db = candidate_uids 4 (map daemon_mail [''4''])"
    by (simp add: scan_reads_def broken_inbox_def demo_mailbox_def MAX_MESSAGES_def scanned_db_uid)
  also have "\<dots> = []" by code_simp
  finally show ?thesis .
qed

end
