(* ===== verification/Spf.thy ===== *)
theory Spf
  imports Addressing SmtpReply
begin

text \<open>
  The addresses and networks of Python's \<open>ipaddress\<close>, as far as the domain checks read and print them: dotted quads
  without leading zeros, IPv6 groups with one compression, an optional prefix length or (IPv4) mask.
\<close>

section \<open>IPv4\<close>

definition decimal_value :: "string \<Rightarrow> int" where
  "decimal_value s = foldl (\<lambda>n c. 10 * n + (int (code c) - 48)) 0 s"

lemma decimal_value_show_nat [simp]: "decimal_value (show_nat n) = int n"
proof (induction n rule: show_nat.induct)
  case (1 n)
  show ?case
  proof (cases "n < 10")
    case True
    then show ?thesis by (simp add: show_nat.simps [of n] decimal_value_def)
  next
    case False
    have "decimal_value (show_nat n) = 10 * decimal_value (show_nat (n div 10)) + int (n mod 10)"
      using False by (simp add: show_nat.simps [of n] decimal_value_def)
    also have "\<dots> = int (10 * (n div 10) + n mod 10)" using 1 [OF False] by (simp only: of_nat_add of_nat_mult of_nat_numeral)
    also have "\<dots> = int n" by (simp only: mult_div_mod_eq)
    finally show ?thesis .
  qed
qed

definition octet :: "string \<Rightarrow> int option" where
  "octet s =
     (if s = [] \<or> \<not> list_all is_digit s \<or> 3 < length s \<or> (s \<noteq> ''0'' \<and> hd s = CHR ''0'') \<or> 255 < decimal_value s then None
      else Some (decimal_value s))"

fun all_some :: "'a option list \<Rightarrow> 'a list option" where
  "all_some [] = Some []"
| "all_some (None # xs) = None"
| "all_some (Some x # xs) = map_option (\<lambda>ys. x # ys) (all_some xs)"

definition parse_ip4 :: "string \<Rightarrow> int list option" where
  "parse_ip4 s = (let os = split_on (CHR ''.'') s in if length os = 4 then all_some (map octet os) else None)"

definition show_ip4 :: "int list \<Rightarrow> string" where
  "show_ip4 os = join ''.'' (map show_int os)"

definition ip4_number :: "int list \<Rightarrow> int" where
  "ip4_number os = foldl (\<lambda>n k. 256 * n + k) 0 os"

section \<open>IPv6\<close>

definition hex_digit :: "char \<Rightarrow> bool" where
  "hex_digit c \<longleftrightarrow> is_digit c \<or> (65 \<le> code c \<and> code c \<le> 70) \<or> (97 \<le> code c \<and> code c \<le> 102)"

definition hextet_digit :: "char \<Rightarrow> int" where
  "hextet_digit c = (if is_digit c then int (code c) - 48 else if code c \<le> 70 then int (code c) - 55 else int (code c) - 87)"

definition hextet :: "string \<Rightarrow> int option" where
  "hextet s = (if list_all hex_digit s \<and> length s \<le> 4 then Some (foldl (\<lambda>n c. 16 * n + hextet_digit c) 0 s) else None)"

text \<open>A dotted quad at the end stands for two groups.\<close>

definition with_quad :: "string list \<Rightarrow> (string + int) list option" where
  "with_quad parts =
     (if CHR ''.'' \<in> set (last parts)
      then (case parse_ip4 (last parts) of
              None \<Rightarrow> None
            | Some os \<Rightarrow> Some (map Inl (butlast parts) @ [Inr (256 * (os ! 0) + os ! 1), Inr (256 * (os ! 2) + os ! 3)]))
      else Some (map Inl parts))"

definition group_value :: "string + int \<Rightarrow> int option" where
  "group_value g = (case g of Inl s \<Rightarrow> hextet s | Inr n \<Rightarrow> Some n)"

text \<open>The positions of empty groups strictly inside, at most one.\<close>

definition inner_gaps :: "(string + int) list \<Rightarrow> nat list" where
  "inner_gaps gs = filter (\<lambda>i. gs ! i = Inl []) [1..<length gs - 1]"

definition parse_ip6_groups :: "(string + int) list \<Rightarrow> int list option" where
  "parse_ip6_groups gs =
     (let n = length gs
      in if n > 9 then None
         else (case inner_gaps gs of
                 [] \<Rightarrow> if n \<noteq> 8 \<or> hd gs = Inl [] \<or> last gs = Inl [] then None else all_some (map group_value gs)
               | [i] \<Rightarrow>
                   (let hi = (if hd gs = Inl [] then i - 1 else i);
                        lo = (if last gs = Inl [] then n - i - 2 else n - i - 1)
                    in if (hd gs = Inl [] \<and> hi \<noteq> 0) \<or> (last gs = Inl [] \<and> lo \<noteq> 0) \<or> 8 \<le> hi + lo then None
                       else (case (all_some (map group_value (take hi gs)), all_some (map group_value (drop (n - lo) gs))) of
                               (Some a, Some b) \<Rightarrow> Some (a @ replicate (8 - (hi + lo)) 0 @ b)
                             | _ \<Rightarrow> None))
               | _ \<Rightarrow> None))"

definition without_scope :: "string \<Rightarrow> string option" where
  "without_scope s =
     (case split_first (CHR ''%'') s of
        None \<Rightarrow> Some s
      | Some (a, scope) \<Rightarrow> if scope = [] \<or> CHR ''%'' \<in> set scope then None else Some a)"

definition parse_ip6 :: "string \<Rightarrow> int list option" where
  "parse_ip6 s =
     (case without_scope s of
        None \<Rightarrow> None
      | Some a \<Rightarrow>
          (let parts = split_on (CHR '':'') a
           in if length parts < 3 then None else (case with_quad parts of None \<Rightarrow> None | Some gs \<Rightarrow> parse_ip6_groups gs)))"

text \<open>The shortest text: groups in lower-case hexadecimal, the first longest run of at least two zeros left out.\<close>

fun hex_text :: "nat \<Rightarrow> string" where
  "hex_text n = (let d = (\<lambda>k. if k < 10 then char_of (48 + k) else char_of (87 + k))
     in if n < 16 then [d n] else hex_text (n div 16) @ [d (n mod 16)])"

declare hex_text.simps [simp del]

definition show_hex :: "int \<Rightarrow> string" where
  "show_hex n = hex_text (nat n)"

definition zero_run :: "int list \<Rightarrow> nat \<Rightarrow> nat" where
  "zero_run gs i = length (takeWhile (\<lambda>g. g = 0) (drop i gs))"

definition longest_run :: "int list \<Rightarrow> nat \<times> nat" where
  "longest_run gs = foldl (\<lambda>(i, k) j. if k < zero_run gs j then (j, zero_run gs j) else (i, k)) (0, 0) [0..<length gs]"

definition show_ip6 :: "int list \<Rightarrow> string" where
  "show_ip6 gs =
     (case longest_run gs of
        (i, k) \<Rightarrow> if k \<le> 1 then join '':'' (map show_hex gs)
                 else join '':'' (map show_hex (take i gs)) @ ''::'' @ join '':'' (map show_hex (drop (i + k) gs)))"

section \<open>Either\<close>

datatype ip_address = Ip4 "int list" | Ip6 "int list" "string"

text \<open>The scope of an IPv6 address stays with it.\<close>

definition scope_of :: "string \<Rightarrow> string" where
  "scope_of s = (case split_first (CHR ''%'') s of None \<Rightarrow> [] | Some (_, scope) \<Rightarrow> CHR ''%'' # scope)"

definition parse_address :: "string \<Rightarrow> ip_address option" where
  "parse_address s =
     (if CHR 0x2F \<in> set s then None
      else (case parse_ip4 s of
              Some os \<Rightarrow> Some (Ip4 os)
            | None \<Rightarrow> map_option (\<lambda>gs. Ip6 gs (scope_of s)) (parse_ip6 s)))"

fun ip_version :: "ip_address \<Rightarrow> nat" where
  "ip_version (Ip4 _) = 4"
| "ip_version (Ip6 _ _) = 6"

fun show_address :: "ip_address \<Rightarrow> string" where
  "show_address (Ip4 os) = show_ip4 os"
| "show_address (Ip6 gs scope) = show_ip6 gs @ scope"

section \<open>Networks\<close>

definition prefix_digits :: "int \<Rightarrow> string \<Rightarrow> bool" where
  "prefix_digits bits s \<longleftrightarrow> s \<noteq> [] \<and> list_all is_digit s \<and> decimal_value s \<le> bits"

text \<open>A mask of ones then zeros, or the other way round.\<close>

definition mask_ok :: "int \<Rightarrow> bool" where
  "mask_ok n \<longleftrightarrow> list_ex (\<lambda>k. n = 2 ^ 32 - 2 ^ k \<or> n = 2 ^ k - 1) [0..<33]"

definition ip4_mask :: "string \<Rightarrow> bool" where
  "ip4_mask s \<longleftrightarrow> prefix_digits 32 s \<or> (case parse_ip4 s of None \<Rightarrow> False | Some os \<Rightarrow> mask_ok (ip4_number os))"

definition network_version :: "string \<Rightarrow> nat option" where
  "network_version s =
     (case split_on (CHR 0x2F) s of
        [a] \<Rightarrow> if parse_ip4 a \<noteq> None then Some 4 else if parse_ip6 a \<noteq> None then Some 6 else None
      | [a, m] \<Rightarrow>
          if parse_ip4 a \<noteq> None \<and> ip4_mask m then Some 4
          else if parse_ip6 a \<noteq> None \<and> prefix_digits 128 m then Some 6 else None
      | _ \<Rightarrow> None)"

section \<open>SPF records\<close>

text \<open>
  \<^verbatim>\<open>domains/service.py\<close>: the SPF records of a domain, their syntax, the record the server asks for, and when a
  published record is as good as that one.
\<close>

section \<open>Syntax\<close>

definition SPF_QUALIFIERS :: string where "SPF_QUALIFIERS = ''+-~?''"

definition SPF_DNS_MECHANISMS :: "string list" where
  "SPF_DNS_MECHANISMS = [''a'', ''mx'', ''ptr'', ''include'', ''exists'']"

text \<open>\<open>[A-Za-z][A-Za-z0-9_.-]*\<close>.\<close>

fun modifier_name :: "string \<Rightarrow> bool" where
  "modifier_name [] = False"
| "modifier_name (c # s) = (is_alpha c \<and> list_all (\<lambda>d. is_alnum d \<or> d \<in> set ''_.-'') s)"

text \<open>One to three digits, and what follows.\<close>

definition cidr_digits :: "string \<Rightarrow> (int \<times> string) option" where
  "cidr_digits s =
     (let d = takeWhile is_digit s
      in if d = [] \<or> 3 < length d then None else Some (decimal_value d, dropWhile is_digit s))"

text \<open>\<open>(?://(\d{1,3}))?\<close> to the end.\<close>

definition second_cidr :: "string \<Rightarrow> int option option" where
  "second_cidr s =
     (if s = [] then Some None
      else if prefix ''//'' s
      then (case cidr_digits (drop 2 s) of Some (n, []) \<Rightarrow> Some (Some n) | _ \<Rightarrow> None)
      else None)"

text \<open>\<open>(?:/(\d{1,3}))?(?://(\d{1,3}))?\<close> to the end.\<close>

definition both_cidrs :: "string \<Rightarrow> (int option \<times> int option) option" where
  "both_cidrs s =
     (if prefix ''/'' s \<and> \<not> prefix ''//'' s
      then (case cidr_digits (drop 1 s) of
              None \<Rightarrow> None
            | Some (n, r) \<Rightarrow> map_option (\<lambda>v6. (Some n, v6)) (second_cidr r))
      else map_option (\<lambda>v6. (None, v6)) (second_cidr s))"

text \<open>\<open>(?::[^/\s]+)?\<close>.\<close>

definition after_host :: "string \<Rightarrow> string option" where
  "after_host s =
     (if prefix '':'' s
      then (let h = takeWhile (\<lambda>c. c \<noteq> CHR 0x2F \<and> \<not> is_space c) (tl s) in if h = [] then None else Some (drop (Suc (length h)) s))
      else Some s)"

definition host_cidrs :: "string \<Rightarrow> string \<Rightarrow> (int option \<times> int option) option" where
  "host_cidrs name term' = Option.bind (after_host (drop (length name) term')) both_cidrs"

definition over :: "int \<Rightarrow> int option \<Rightarrow> bool" where
  "over limit n = (case n of None \<Rightarrow> False | Some k \<Rightarrow> limit < k)"

definition mechanism_name :: "string \<Rightarrow> string" where
  "mechanism_name term' = lower_text (takeWhile (\<lambda>c. c \<noteq> CHR '':'' \<and> c \<noteq> CHR 0x2F) term')"

text \<open>What is wrong with a mechanism; \<open>raw\<close> is the term with its qualifier.\<close>

definition mechanism_error :: "string \<Rightarrow> string \<Rightarrow> string option" where
  "mechanism_error raw term' =
     (let name = mechanism_name term'; starts = prefix (name @ '':'') (lower_text term'); rest = drop (length name + 1) term'
      in if name = ''all''
         then (if lower_text term' \<noteq> ''all'' then Some (''Invalid all mechanism: '' @ raw) else None)
         else if name \<in> {''a'', ''mx''}
         then (case host_cidrs name term' of
                 None \<Rightarrow> Some (''Invalid '' @ name @ '' mechanism: '' @ raw)
               | Some (v4, v6) \<Rightarrow>
                   if over 32 v4 then Some (''Invalid IPv4 prefix length in '' @ raw)
                   else if over 128 v6 then Some (''Invalid IPv6 prefix length in '' @ raw)
                   else None)
         else if name = ''ptr''
         then (if after_host (drop 3 term') = Some [] then None else Some (''Invalid ptr mechanism: '' @ raw))
         else if name \<in> {''include'', ''exists''}
         then (if \<not> starts \<or> rest = [] then Some (''Invalid '' @ name @ '' mechanism: '' @ raw) else None)
         else if name \<in> {''ip4'', ''ip6''}
         then (if \<not> starts then Some (''Invalid '' @ name @ '' mechanism: '' @ raw)
               else (case network_version rest of
                       None \<Rightarrow> Some (''Invalid '' @ name @ '' network: '' @ raw)
                     | Some v \<Rightarrow> if v \<noteq> (if name = ''ip4'' then 4 else 6)
                                then Some (''Address family does not match '' @ name @ '': '' @ raw) else None))
         else Some (''Unknown SPF mechanism: '' @ name))"

definition is_modifier :: "string \<Rightarrow> bool" where
  "is_modifier term' \<longleftrightarrow> CHR ''='' \<in> set term'"

text \<open>The terms of a record: the modifiers seen and the DNS lookups counted so far.\<close>

fun spf_terms :: "string list \<Rightarrow> nat \<Rightarrow> string list \<Rightarrow> string + nat" where
  "spf_terms seen n [] = Inr n"
| "spf_terms seen n (raw # rest) =
     (let qualified = (raw \<noteq> [] \<and> hd raw \<in> set SPF_QUALIFIERS); term' = (if qualified then tl raw else raw)
      in if term' = [] then Inl (''Invalid empty SPF term after '' @ (if qualified then [hd raw] else ''+''))
         else if is_modifier term'
         then (let name = takeWhile (\<lambda>c. c \<noteq> CHR ''='') term'; value = drop (Suc (length name)) term'
               in if qualified then Inl (''SPF modifiers cannot have a qualifier: '' @ raw)
                  else if \<not> modifier_name name \<or> value = [] then Inl (''Invalid SPF modifier: '' @ raw)
                  else if lower_text name \<in> set seen then Inl (''Duplicate SPF modifier: '' @ name)
                  else spf_terms (lower_text name # seen) (if lower_text name = ''redirect'' then Suc n else n) rest)
         else (case mechanism_error raw term' of
                 Some e \<Rightarrow> Inl e
               | None \<Rightarrow> spf_terms seen (if mechanism_name term' \<in> set SPF_DNS_MECHANISMS then Suc n else n) rest))"

definition validate_spf_record :: "string \<Rightarrow> bool \<times> string option" where
  "validate_spf_record value =
     (let tokens = split_ws (strip value)
      in if tokens = [] \<or> lower_text (hd tokens) \<noteq> ''v=spf1'' then (False, Some ''SPF must start with v=spf1'')
         else if length tokens = 1 then (False, Some ''SPF has no mechanisms'')
         else (case spf_terms [] 0 (tl tokens) of
                 Inl e \<Rightarrow> (False, Some e)
               | Inr n \<Rightarrow> if 10 < n then (False, Some (''SPF uses '' @ show_nat n @ '' DNS lookups; the limit is 10'')) else (True, None)))"

definition spf_status_detail :: "string option \<Rightarrow> string option" where
  "spf_status_detail current =
     (case current of
        None \<Rightarrow> None
      | Some v \<Rightarrow> if contains '' | '' v then Some ''Multiple SPF records are published; receivers return permerror''
                 else snd (validate_spf_record v))"

section \<open>The record asked for\<close>

definition tunnel_mechanism :: "string \<Rightarrow> string" where
  "tunnel_mechanism host =
     (case parse_address host of
        None \<Rightarrow> ''a:'' @ host
      | Some a \<Rightarrow> ''ip'' @ show_nat (ip_version a) @ '':'' @ show_address a)"

definition build_spf_expected :: "string \<Rightarrow> string list \<Rightarrow> string" where
  "build_spf_expected hostname tunnel_hosts =
     (if tunnel_hosts \<noteq> [] then ''v=spf1 mx '' @ join '' '' (map tunnel_mechanism tunnel_hosts) @ '' -all''
      else ''v=spf1 mx a:'' @ hostname @ '' ~all'')"

section \<open>Equivalence of records\<close>

definition simple_mechanism :: "string \<Rightarrow> bool" where
  "simple_mechanism m \<longleftrightarrow> m \<in> {''mx'', ''a''} \<or> prefix ''mx:'' m \<or> prefix ''a:'' m"

definition without_plus :: "string \<Rightarrow> string" where
  "without_plus t = (if prefix ''+'' t then tl t else t)"

definition simple_spf_parts :: "string \<Rightarrow> (string list \<times> string) option" where
  "simple_spf_parts value =
     (let tokens = split_ws value; terminal = last tokens; inner = map without_plus (butlast (tl tokens))
      in if length tokens < 2 \<or> hd tokens \<noteq> ''v=spf1'' \<or> terminal \<notin> {''-all'', ''~all''} \<or> \<not> list_all simple_mechanism inner then None
         else Some (map (rstrip_by (\<lambda>c. c = CHR ''.'')) inner, terminal))"

definition one_spaced :: "string \<Rightarrow> string" where
  "one_spaced s = join '' '' (split_ws (lower_text s))"

definition required_mechanisms :: "string list \<Rightarrow> string \<Rightarrow> string list" where
  "required_mechanisms ms terminal = (if ''mx'' \<in> set ms \<and> terminal = ''~all'' then filter (\<lambda>m. \<not> prefix ''a:'' m) ms else ms)"

definition spf_matches :: "string \<Rightarrow> string \<Rightarrow> bool" where
  "spf_matches expected current =
     (let e = one_spaced expected; c = one_spaced current
      in fst (validate_spf_record e) \<and> fst (validate_spf_record c) \<and>
         (case (simple_spf_parts e, simple_spf_parts c) of
            (Some (em, et), Some (cm, ct)) \<Rightarrow>
              set (required_mechanisms em et) \<subseteq> set cm \<and> (ct = et \<or> (et = ''~all'' \<and> ct = ''-all''))
          | _ \<Rightarrow> e = c))"

end
