(* ===== verification/DomainDns.thy ===== *)
theory DomainDns
  imports Spf Tunnels Models
begin

text \<open>
  \<^verbatim>\<open>domains/service.py\<close>: the DNS records a mail domain needs, what is published, and the verdict. DNS answers and
  the HTTPS request for the MTA-STS policy are arguments; an argument that answers \<open>None\<close> stands for no answer and for a
  failed lookup alike, which the code does not tell apart.
\<close>

section \<open>Rows and records\<close>

text \<open>The columns of \<^verbatim>\<open>domains/models.py\<close> beside those other services read; the audit times by the name of the slot.\<close>

record mail_domain = domain_row +
  dk_created :: time
  dk_selector :: string
  dk_key_path :: "string option"
  dk_key_txt :: "string option"
  dk_mta_sts_verified :: bool
  dk_tls_rpt_verified :: bool
  dk_last_check :: "time option"
  dk_checked_at :: "string \<Rightarrow> time option"
  dk_verified_at :: "string \<Rightarrow> time option"

record dns_record =
  rc_type :: string
  rc_host :: string
  rc_expected :: string
  rc_current :: "string option"
  rc_verified :: bool
  rc_purpose :: string
  rc_scope :: string
  rc_required :: bool
  rc_detail :: "string option"
  rc_checked :: "time option"
  rc_verified_at :: "time option"
  rc_drift :: bool

definition dns_entry :: "string \<Rightarrow> string \<Rightarrow> string \<Rightarrow> bool \<Rightarrow> string \<Rightarrow> dns_record" where
  "dns_entry ty host expected verified purpose =
     \<lparr>rc_type = ty, rc_host = host, rc_expected = expected, rc_current = None, rc_verified = verified, rc_purpose = purpose,
      rc_scope = ''Domain'', rc_required = True, rc_detail = None, rc_checked = None, rc_verified_at = None, rc_drift = False\<rparr>"

datatype policy_answer =
    ConnectFailed string
  | FetchTimedOut
  | HttpsFailed string string
  | PolicyResponse int "string option" int string

record dns_world =
  dw_txt :: "string \<Rightarrow> string list list option"
  dw_mx :: "string \<Rightarrow> (int \<times> string) list option"
  dw_ips :: "string \<Rightarrow> string \<Rightarrow> string list option"
  dw_ptr :: "string \<Rightarrow> string list option"
  dw_global :: "string \<Rightarrow> bool"
  dw_policy :: "string \<Rightarrow> policy_answer"

type_synonym check = "bool \<times> string option"
type_synonym checks = "string \<Rightarrow> check"

section \<open>Text\<close>

definition rstrip_dots :: "string \<Rightarrow> string" where
  "rstrip_dots s = rstrip_by (\<lambda>c. c = CHR ''.'') s"

text \<open>\<open>s.partition(sep)\<close>.\<close>

fun partition_at :: "string \<Rightarrow> string \<Rightarrow> (string \<times> string) option" where
  "partition_at sep [] = (if sep = [] then Some ([], []) else None)"
| "partition_at sep (c # s) =
     (if prefix sep (c # s) then Some ([], drop (length sep) (c # s))
      else map_option (\<lambda>(a, b). (c # a, b)) (partition_at sep s))"

definition normalize_dkim_txt :: "string \<Rightarrow> string" where
  "normalize_dkim_txt txt =
     (case partition_at ''p='' txt of None \<Rightarrow> txt | Some (head, tail) \<Rightarrow> head @ ''p='' @ concat (split_ws tail))"

definition normalize_mta_sts_policy :: "string \<Rightarrow> string" where
  "normalize_mta_sts_policy v = join [CHR 0x0A] (filter (\<lambda>l. l \<noteq> []) (map strip (splitlines_keep (universal_newlines v))))"

definition build_mta_sts_policy :: "bool \<Rightarrow> string \<Rightarrow> string" where
  "build_mta_sts_policy production hostname = join [CHR 0x0A]
     [''version: STSv1'', ''mode: '' @ (if production then ''enforce'' else ''testing''), ''mx: '' @ hostname, ''max_age: 86400'']"

text \<open>\<open>dict.fromkeys\<close>: the first occurrences, in order.\<close>

definition first_occurrences :: "'a list \<Rightarrow> 'a list" where
  "first_occurrences xs = rev (remdups (rev xs))"

definition join_txt_rdata :: "string list \<Rightarrow> string" where
  "join_txt_rdata chunks = concat chunks"

definition format_mx_rdata :: "int \<times> string \<Rightarrow> string" where
  "format_mx_rdata r = show_int (fst r) @ '' '' @ rstrip_dots (snd r) @ ''.''"

section \<open>Checks\<close>

definition check_mx :: "dns_world \<Rightarrow> string \<Rightarrow> string \<Rightarrow> check" where
  "check_mx w d hostname =
     (case dw_mx w d of
        None \<Rightarrow> (False, None)
      | Some answers \<Rightarrow>
          (case find (\<lambda>r. rstrip_dots (snd r) = hostname) answers of
             Some r \<Rightarrow> (True, Some (format_mx_rdata r))
           | None \<Rightarrow> (False, case answers of [] \<Rightarrow> None | r # _ \<Rightarrow> Some (format_mx_rdata r))))"

definition check_spf :: "dns_world \<Rightarrow> string \<Rightarrow> check" where
  "check_spf w d =
     (case dw_txt w d of
        None \<Rightarrow> (False, None)
      | Some answers \<Rightarrow>
          (case filter (\<lambda>t. prefix ''v=spf1'' (lower_text t)) (map join_txt_rdata answers) of
             [] \<Rightarrow> (False, None)
           | [v] \<Rightarrow> (fst (validate_spf_record v), Some v)
           | vs \<Rightarrow> (False, Some (join '' | '' vs))))"

definition check_dkim :: "dns_world \<Rightarrow> string \<Rightarrow> string \<Rightarrow> string option \<Rightarrow> check" where
  "check_dkim w d selector key =
     (case dw_txt w (selector @ ''._domainkey.'' @ d) of
        None \<Rightarrow> (False, None)
      | Some answers \<Rightarrow>
          (let txts = map join_txt_rdata answers
           in case find (contains ''p='') txts of
                Some t \<Rightarrow> (case key of None \<Rightarrow> (True, Some t) | Some k \<Rightarrow> (normalize_dkim_txt t = normalize_dkim_txt k, Some t))
              | None \<Rightarrow> (False, case txts of [] \<Rightarrow> None | t # _ \<Rightarrow> Some t)))"

text \<open>The four records that only need to exist.\<close>

definition check_prefixed :: "dns_world \<Rightarrow> string \<Rightarrow> string \<Rightarrow> check" where
  "check_prefixed w name start =
     (case dw_txt w name of
        None \<Rightarrow> (False, None)
      | Some answers \<Rightarrow>
          (let txts = map join_txt_rdata answers
           in case find (prefix start) txts of
                Some t \<Rightarrow> (True, Some t)
              | None \<Rightarrow> (False, case txts of [] \<Rightarrow> None | t # _ \<Rightarrow> Some t)))"

definition check_dmarc :: "dns_world \<Rightarrow> string \<Rightarrow> check" where
  "check_dmarc w d = check_prefixed w (''_dmarc.'' @ d) ''v=DMARC1''"

definition check_bimi :: "dns_world \<Rightarrow> string \<Rightarrow> check" where
  "check_bimi w d = check_prefixed w (''default._bimi.'' @ d) ''v=BIMI1''"

definition check_mta_sts :: "dns_world \<Rightarrow> string \<Rightarrow> check" where
  "check_mta_sts w d = check_prefixed w (''_mta-sts.'' @ d) ''v=STSv1''"

definition check_tls_rpt :: "dns_world \<Rightarrow> string \<Rightarrow> check" where
  "check_tls_rpt w d = check_prefixed w (''_smtp._tls.'' @ d) ''v=TLSRPTv1''"

definition or_no_answers :: "'a list option \<Rightarrow> 'a list" where
  "or_no_answers xs = (case xs of None \<Rightarrow> [] | Some ys \<Rightarrow> ys)"

definition check_mta_sts_host :: "dns_world \<Rightarrow> string \<Rightarrow> check" where
  "check_mta_sts_host w d =
     (let host = ''mta-sts.'' @ d;
          addresses = first_occurrences (map rstrip_dots (or_no_answers (dw_ips w ''A'' host) @ or_no_answers (dw_ips w ''AAAA'' host)))
      in if addresses = [] then (False, None) else (list_all (dw_global w) addresses, Some (join '', '' addresses)))"

definition check_mta_sts_policy :: "dns_world \<Rightarrow> bool \<Rightarrow> string \<Rightarrow> string \<Rightarrow> check" where
  "check_mta_sts_policy w production d hostname =
     (let or_text' = (\<lambda>a b. if strip a = [] then b else strip a)
      in case dw_policy w (''https://mta-sts.'' @ d @ ''/.well-known/mta-sts.txt'') of
           ConnectFailed e \<Rightarrow> (False, Some (''Connection failed: '' @ or_text' e ''connection failed''))
         | FetchTimedOut \<Rightarrow> (False, Some ''Connection timed out'')
         | HttpsFailed e cls \<Rightarrow> (False, Some (''HTTPS validation failed: '' @ or_text' e cls))
         | PolicyResponse status ctype bytes txt \<Rightarrow>
             (let content_type = (case ctype of None \<Rightarrow> [] | Some c \<Rightarrow> lower_text c);
                  current = normalize_mta_sts_policy txt
              in if status \<noteq> 200 then (False, Some (''HTTP '' @ show_int status))
                 else if \<not> prefix ''text/plain'' content_type
                 then (False, Some (''Invalid Content-Type: '' @ (if content_type = [] then ''(missing)'' else content_type)))
                 else if 64 * 1024 < bytes then (False, Some ''Policy exceeds 64 KiB'')
                 else (current = normalize_mta_sts_policy (build_mta_sts_policy production hostname), Some current)))"

definition check_mta_sts_endpoint :: "dns_world \<Rightarrow> bool \<Rightarrow> string \<Rightarrow> string \<Rightarrow> check \<times> check" where
  "check_mta_sts_endpoint w production d hostname =
     (let host = check_mta_sts_host w d
      in if \<not> fst host then (host, (False, None)) else (host, check_mta_sts_policy w production d hostname))"

definition run_dns_checks :: "dns_world \<Rightarrow> bool \<Rightarrow> mail_domain \<Rightarrow> string \<Rightarrow> checks" where
  "run_dns_checks w production dm hostname =
     (let d = d_name dm; (sts_host, sts_policy) = check_mta_sts_endpoint w production d hostname; sts = check_mta_sts w d
      in (\<lambda>_. (False, None))(''mx'' := check_mx w d hostname, ''spf'' := check_spf w d, ''helo_spf'' := check_spf w hostname,
           ''dkim'' := check_dkim w d (dk_selector dm) (dk_key_txt dm), ''dmarc'' := check_dmarc w d, ''bimi'' := check_bimi w d,
           ''mta_sts'' := (fst sts \<and> fst sts_host \<and> fst sts_policy, snd sts), ''mta_sts_txt'' := sts,
           ''mta_sts_host'' := sts_host, ''mta_sts_policy'' := sts_policy, ''tls_rpt'' := check_tls_rpt w d))"

section \<open>The records asked for\<close>

definition dash :: string where "dash = [CHR 0xE2, CHR 0x80, CHR 0x94]"

definition build_mta_sts_expected :: "mail_domain \<Rightarrow> string" where
  "build_mta_sts_expected dm = ''v=STSv1; id='' @ show_int (dk_created dm div 1000000)"

definition build_dns_records :: "bool \<Rightarrow> mail_domain \<Rightarrow> string \<Rightarrow> bool \<Rightarrow> bool \<Rightarrow> string list \<Rightarrow> dns_record list" where
  "build_dns_records production dm hostname helo bimi tunnel_hosts =
     (let d = d_name dm
      in [dns_entry ''MX'' d (''10 '' @ hostname @ ''.'') (d_mx_verified dm) ''Route incoming email to this server'',
          dns_entry ''TXT'' d (build_spf_expected hostname tunnel_hosts) (d_spf_verified dm)
            ''Authorize this server to send email for the domain (SPF)'',
          (dns_entry ''TXT'' hostname ''v=spf1 a -all'' helo ''SPF for the mail server hostname (checked during SMTP EHLO handshake)'')
            \<lparr>rc_scope := ''Mail server''\<rparr>,
          dns_entry ''TXT'' (dk_selector dm @ ''._domainkey.'' @ d)
            (if truthy (dk_key_txt dm) then the (dk_key_txt dm) else ''(DKIM key not yet generated)'') (d_dkim_verified dm)
            ''DKIM public key for email signature verification'',
          dns_entry ''TXT'' (''_dmarc.'' @ d) (''v=DMARC1; p=reject; rua=mailto:postmaster@'' @ d) (d_dmarc_verified dm)
            ''DMARC policy for handling authentication failures (p=reject for BIMI eligibility)'',
          (dns_entry ''TXT'' (''default._bimi.'' @ d) (''v=BIMI1; l=https://'' @ hostname @ ''/brand/logo.svg'') bimi
            (''BIMI '' @ dash @ '' publish a brand logo displayed by supporting mailbox providers (requires DMARC p=reject)''))
            \<lparr>rc_required := False\<rparr>,
          dns_entry ''TXT'' (''_mta-sts.'' @ d) (build_mta_sts_expected dm) (dk_mta_sts_verified dm)
            ''MTA-STS policy enabling strict TLS for inbound email (RFC 8461)'',
          (dns_entry ''A / AAAA'' (''mta-sts.'' @ d) ''(Public address serving the MTA-STS HTTPS policy)'' False
            ''Makes the MTA-STS policy hostname reachable over IPv4 or IPv6'')\<lparr>rc_scope := ''MTA-STS policy''\<rparr>,
          (dns_entry ''HTTPS'' (''mta-sts.'' @ d @ ''/.well-known/mta-sts.txt'') (build_mta_sts_policy production hostname) False
            ''Valid CA-signed HTTPS certificate and MailCue MTA-STS policy content'')\<lparr>rc_scope := ''MTA-STS policy''\<rparr>,
          dns_entry ''TXT'' (''_smtp._tls.'' @ d) (''v=TLSRPTv1; rua=mailto:tls-reports@'' @ d) (dk_tls_rpt_verified dm)
            (''TLS reporting '' @ dash @ '' receive reports about TLS connection failures (RFC 8460)''),
          (dns_entry ''PTR'' ''(Configure at your VPS/hosting provider)'' hostname False
            (''Reverse DNS '' @ dash @ '' critical for deliverability. Set your server IP's PTR record to match the hostname''))
            \<lparr>rc_scope := ''Mail server'', rc_required := False\<rparr>,
          (dns_entry ''A'' hostname (''(Your server's public IPv4 address)'') False
            (''Points your mail hostname to your server's IP address''))
            \<lparr>rc_scope := ''Mail server'', rc_required := False\<rparr>])"

section \<open>Published against asked for\<close>

definition record_matches :: "string \<Rightarrow> string \<Rightarrow> string \<Rightarrow> bool" where
  "record_matches slot expected current =
     (if slot = ''dkim'' then normalize_dkim_txt expected = normalize_dkim_txt current
      else if slot = ''mta_sts''
      then (let p = ''v=STSv1; id='' in prefix p (strip current) \<and> length p < length (strip current))
      else if slot = ''mta_sts_policy'' then normalize_mta_sts_policy expected = normalize_mta_sts_policy current
      else if slot = ''spf'' then spf_matches expected current
      else expected = current)"

type_synonym layout_row = "string \<times> string option \<times> string option"

definition CHECK_RECORD_LAYOUT :: "layout_row list" where
  "CHECK_RECORD_LAYOUT =
     [(''mx'', Some ''mx'', Some ''mx''), (''spf'', Some ''spf'', Some ''spf''), (''helo_spf'', None, Some ''spf''),
      (''dkim'', Some ''dkim'', Some ''dkim''), (''dmarc'', Some ''dmarc'', Some ''dmarc''), (''bimi'', None, Some ''bimi''),
      (''mta_sts_txt'', Some ''mta_sts'', Some ''mta_sts''), (''mta_sts_host'', None, None),
      (''mta_sts_policy'', None, Some ''mta_sts_policy''), (''tls_rpt'', Some ''tls_rpt'', Some ''tls_rpt'')]"

definition CANONICAL_RECORD_SLOTS :: "string list" where
  "CANONICAL_RECORD_SLOTS = [''mx'', ''spf'', ''dkim'', ''dmarc'', ''mta_sts'', ''tls_rpt'']"

definition expected_result :: "dns_record \<Rightarrow> string option \<Rightarrow> check \<Rightarrow> check" where
  "expected_result r match_slot c =
     (fst c \<and> (case match_slot of
        None \<Rightarrow> True
      | Some s \<Rightarrow> (case snd c of None \<Rightarrow> False | Some current \<Rightarrow> record_matches s (rc_expected r) current)), snd c)"

definition apply_expected_check_results :: "dns_record list \<Rightarrow> checks \<Rightarrow> checks" where
  "apply_expected_check_results records checks =
     (let c1 = fold (\<lambda>(r, slot, audit, match_slot) c. c(slot := expected_result r match_slot (c slot))) (zip records CHECK_RECORD_LAYOUT) checks
      in c1(''mta_sts'' := (list_all (\<lambda>s. fst (c1 s)) [''mta_sts_txt'', ''mta_sts_host'', ''mta_sts_policy''], snd (c1 ''mta_sts_txt''))))"

definition stamp_audit_timestamps :: "checks \<Rightarrow> time \<Rightarrow> mail_domain \<Rightarrow> mail_domain" where
  "stamp_audit_timestamps checks now dm =
     fold (\<lambda>slot dm. let dm1 = dm\<lparr>dk_checked_at := (dk_checked_at dm)(slot \<mapsto> now)\<rparr>
                     in if fst (checks slot) then dm1\<lparr>dk_verified_at := (dk_verified_at dm)(slot \<mapsto> now)\<rparr> else dm1)
       CANONICAL_RECORD_SLOTS dm"

definition slot_detail :: "mail_domain \<Rightarrow> string \<Rightarrow> string option \<Rightarrow> bool \<Rightarrow> string option \<Rightarrow> string option \<Rightarrow> string option" where
  "slot_detail dm slot match_slot verified current detail =
     (if match_slot = Some ''spf'' then spf_status_detail current
      else if slot = ''mta_sts_host'' \<and> \<not> verified
      then Some (if truthy current then ''The policy hostname must resolve only to public IP addresses''
                 else ''Publish an A or AAAA record for mta-sts.'' @ d_name dm)
      else if slot = ''mta_sts_policy'' \<and> \<not> verified
      then (if truthy current
            then (if prefix ''version:'' (the current) then Some ''Policy content does not match MailCue's expected policy'' else current)
            else Some ''The HTTPS policy could not be retrieved'')
      else detail)"

definition attach_one :: "mail_domain \<Rightarrow> checks \<Rightarrow> time \<Rightarrow> layout_row \<Rightarrow> dns_record \<Rightarrow> dns_record" where
  "attach_one dm checks now row r =
     (case row of (slot, audit, match_slot) \<Rightarrow>
        (let current = snd (checks slot);
             drift = (case (match_slot, current) of (Some s, Some v) \<Rightarrow> \<not> record_matches s (rc_expected r) v | _ \<Rightarrow> False);
             verified = (fst (checks slot) \<and> \<not> drift)
         in r\<lparr>rc_current := current, rc_drift := drift, rc_verified := verified,
              rc_detail := slot_detail dm slot match_slot verified current (rc_detail r),
              rc_checked := (case audit of None \<Rightarrow> Some now | Some a \<Rightarrow> dk_checked_at dm a),
              rc_verified_at := (case audit of None \<Rightarrow> if verified then Some now else None | Some a \<Rightarrow> dk_verified_at dm a)\<rparr>))"

text \<open>The two records after the layout are informational.\<close>

definition attach_check_metadata :: "mail_domain \<Rightarrow> checks \<Rightarrow> time \<Rightarrow> dns_record list \<Rightarrow> dns_record list" where
  "attach_check_metadata dm checks now records =
     map2 (attach_one dm checks now) CHECK_RECORD_LAYOUT (take (length CHECK_RECORD_LAYOUT) records) @
     map (\<lambda>r. r\<lparr>rc_current := None, rc_drift := False\<rparr>) (drop (length CHECK_RECORD_LAYOUT) records)"

section \<open>Relays\<close>

definition read_tunnel_hosts_from_json :: "json option \<Rightarrow> string list" where
  "read_tunnel_hosts_from_json doc =
     (case doc of
        Some (JObj d) \<Rightarrow>
          (case dict_get d ''tunnels'' of
             Some (JArr entries) \<Rightarrow> first_occurrences (List.map_filter (\<lambda>e. case e of
                 JObj f \<Rightarrow>
                   if dict_get f ''enabled'' = Some (JBool False) then None
                   else (case dict_get f ''host'' of
                           Some (JStr h) \<Rightarrow> (let host = lower_text (rstrip_dots (strip h)) in if host = [] then None else Some host)
                         | _ \<Rightarrow> None)
               | _ \<Rightarrow> None) entries)
           | _ \<Rightarrow> [])
      | _ \<Rightarrow> [])"

definition list_active_tunnel_hosts :: "tunnel list \<Rightarrow> json option \<Rightarrow> string list" where
  "list_active_tunnel_hosts tunnels doc =
     (let hosts = first_occurrences (filter (\<lambda>h. h \<noteq> []) (map (\<lambda>t. lower_text (rstrip_dots (strip (tn_host t))))
            (sort_key tn_name (filter tn_enabled tunnels))))
      in if hosts \<noteq> [] then hosts else read_tunnel_hosts_from_json doc)"

definition resolve_ip_addresses :: "dns_world \<Rightarrow> string \<Rightarrow> string \<Rightarrow> string list" where
  "resolve_ip_addresses w hostname ty = sorted_set (or_no_answers (dw_ips w ty hostname))"

definition check_ptr :: "dns_world \<Rightarrow> string \<Rightarrow> string \<Rightarrow> check" where
  "check_ptr w address hostname =
     (case dw_ptr w address of
        None \<Rightarrow> (False, None)
      | Some answers \<Rightarrow>
          (let names = sorted_set (map (\<lambda>a. lower_text (rstrip_dots a)) answers)
           in (lower_text (rstrip_dots hostname) \<in> set names,
               if names = [] then None else Some (join '', '' (map (\<lambda>n. n @ ''.'') names)))))"

definition relay_scope :: "string \<Rightarrow> string" where
  "relay_scope hostname = ''Relay '' @ [CHR 0xC2, CHR 0xB7] @ '' '' @ hostname"

definition relay_addresses :: "string \<Rightarrow> string \<Rightarrow> string \<Rightarrow> bool \<Rightarrow> string \<Rightarrow> string list \<Rightarrow> time \<Rightarrow> dns_record" where
  "relay_addresses ty hostname expected required purpose addresses now =
     (dns_entry ty hostname expected (addresses \<noteq> []) purpose)
       \<lparr>rc_current := (if addresses = [] then None else Some (join '', '' addresses)), rc_required := required,
        rc_scope := relay_scope hostname, rc_checked := Some now, rc_verified_at := (if addresses = [] then None else Some now)\<rparr>"

definition relay_ptr :: "dns_world \<Rightarrow> string \<Rightarrow> time \<Rightarrow> string \<Rightarrow> dns_record" where
  "relay_ptr w hostname now address =
     (let (ok, current) = check_ptr w address hostname
      in (dns_entry ''PTR'' address (hostname @ ''.'') ok ''Reverse DNS set at the relay hosting provider; must match its HELO name'')
           \<lparr>rc_current := current, rc_drift := (current \<noteq> None \<and> \<not> ok), rc_scope := relay_scope hostname, rc_checked := Some now,
            rc_verified_at := (if ok then Some now else None)\<rparr>)"

definition check_one_relay_dns :: "dns_world \<Rightarrow> time \<Rightarrow> string \<Rightarrow> dns_record list" where
  "check_one_relay_dns w now hostname =
     (if parse_address hostname \<noteq> None
      then [(dns_entry ''CONFIG'' hostname ''A DNS hostname matching the edge PTR and EHLO/HELO name'' False
               ''Set the tunnel endpoint to the relay hostname so MailCue can audit HELO SPF and FCrDNS'')
              \<lparr>rc_current := Some hostname, rc_drift := True, rc_scope := relay_scope hostname,
               rc_detail := Some ''The tunnel endpoint is an IP address; relay DNS cannot be audited safely'', rc_checked := Some now\<rparr>]
      else (let (valid, current) = check_spf w hostname;
                v4 = resolve_ip_addresses w hostname ''A''; v6 = resolve_ip_addresses w hostname ''AAAA'';
                ok = (valid \<and> (case current of None \<Rightarrow> False | Some v \<Rightarrow> record_matches ''spf'' ''v=spf1 a -all'' v))
            in [(dns_entry ''TXT'' hostname ''v=spf1 a -all'' ok ''HELO SPF for tunnel-generated bounces and other empty-envelope mail'')
                  \<lparr>rc_current := current, rc_drift := (current \<noteq> None \<and> \<not> ok), rc_scope := relay_scope hostname,
                   rc_detail := spf_status_detail current, rc_checked := Some now, rc_verified_at := (if ok then Some now else None)\<rparr>,
                relay_addresses ''A'' hostname ''Public IPv4 address of this relay'' True
                  ''Forward DNS for the relay's IPv4 egress address'' v4 now,
                relay_addresses ''AAAA'' hostname ''Public IPv6 address of this relay (when IPv6 egress is enabled)'' False
                  ''Optional IPv6 forward DNS; when published, matching PTR is required'' v6 now] @
               map (relay_ptr w hostname now) (v4 @ v6)))"

definition check_relay_dns :: "dns_world \<Rightarrow> string list \<Rightarrow> time \<Rightarrow> dns_record list" where
  "check_relay_dns w hostnames now = concat (map (check_one_relay_dns w now) hostnames)"

end
