(* ===== verification/DomainAdmin.thy ===== *)
theory DomainAdmin
  imports DomainDns Mailboxes
begin

text \<open>
  \<^verbatim>\<open>domains/service.py\<close>, \<^verbatim>\<open>domains/router.py\<close> and \<^verbatim>\<open>domains/schemas.py\<close>: adding and
  removing mail domains with the files OpenDKIM and Postfix read, and the DNS verdict kept with a domain. Key
  generation and \<open>postconf\<close> are arguments; a disk that refuses the files is a flag of the environment.
\<close>

section \<open>State\<close>

record mail_config =
  mf_key_table :: string
  mf_signing_table :: string
  mf_trusted_hosts :: string
  mf_main_cf :: "string option"
  mf_virtual_domains :: string

record domain_state =
  do_domains :: "mail_domain list"
  do_hostname :: "string option"
  do_tunnels :: "tunnel list"
  do_tunnel_file :: "json option"
  do_config :: mail_config
  do_mail :: mail_state

text \<open>\<open>opendkim-genkey\<close> fails, or leaves a zone file or not; \<open>postconf -e\<close> edits the text of \<open>main.cf\<close>.\<close>

record domain_env =
  de_settings :: settings
  de_os :: os
  de_genkey :: "string \<Rightarrow> string \<Rightarrow> string option option"
  de_postconf :: "string \<Rightarrow> string \<Rightarrow> string"
  de_writable :: bool
  de_dns :: dns_world

definition get_server_hostname :: "settings \<Rightarrow> domain_state \<Rightarrow> string" where
  "get_server_hostname st s = (if truthy (do_hostname s) then the (do_hostname s) else s_hostname st)"

section \<open>Requests\<close>

record domain_create =
  dq_name :: string
  dq_selector :: string

text \<open>A character outside ASCII counts as a letter.\<close>

definition label_char :: "char \<Rightarrow> bool" where
  "label_char c \<longleftrightarrow> is_alnum c \<or> c = CHR ''-'' \<or> 128 \<le> code c"

definition domain_label_error :: "string \<Rightarrow> string option" where
  "domain_label_error p =
     (if p = [] \<or> 63 < length p then Some ''Each label must be 1-63 characters''
      else if \<not> list_all label_char p then Some ''Domain labels may only contain alphanumeric characters and hyphens''
      else if hd p = CHR ''-'' \<or> last p = CHR ''-'' then Some ''Domain labels cannot start or end with a hyphen''
      else None)"

definition validate_domain_name :: "string \<Rightarrow> string result" where
  "validate_domain_name v0 =
     (let v = lower_text (strip v0); parts = split_on (CHR ''.'') v
      in if v = [] \<or> 253 < length v then Inl (ValueErr ''Domain name must be between 1 and 253 characters'')
         else if contains ''..'' v \<or> hd v = CHR ''.'' \<or> last v = CHR ''.'' then Inl (ValueErr ''Invalid domain name format'')
         else if length parts < 2 then Inl (ValueErr ''Domain must have at least two parts (e.g. example.com)'')
         else (case List.map_filter domain_label_error parts of e # _ \<Rightarrow> Inl (ValueErr e) | [] \<Rightarrow> Inr v))"

definition selector_char :: "char \<Rightarrow> bool" where
  "selector_char c \<longleftrightarrow> is_digit c \<or> (97 \<le> code c \<and> code c \<le> 122)"

text \<open>\<open>[a-z0-9](?:[a-z0-9-]{0,61}[a-z0-9])?\<close>.\<close>

definition selector_re :: "string \<Rightarrow> bool" where
  "selector_re v \<longleftrightarrow> v \<noteq> [] \<and> length v \<le> 63 \<and> selector_char (hd v) \<and> selector_char (last v) \<and>
     list_all (\<lambda>c. selector_char c \<or> c = CHR ''-'') v"

definition validate_dkim_selector :: "string \<Rightarrow> string result" where
  "validate_dkim_selector v0 =
     (let v = lower_text (strip v0) in if selector_re v then Inr v else Inl (ValueErr ''DKIM selector must be a valid DNS label''))"

definition domain_create_request :: "domain_create \<Rightarrow> domain_create result" where
  "domain_create_request q =
     bind_res (validate_domain_name (dq_name q)) (\<lambda>n.
     bind_res (validate_dkim_selector (dq_selector q)) (\<lambda>sel. Inr \<lparr>dq_name = n, dq_selector = sel\<rparr>))"

section \<open>Keys\<close>

text \<open>Every second piece between quotation marks.\<close>

fun quoted_pieces :: "string list \<Rightarrow> string list" where
  "quoted_pieces (a # b # c # rest) = b # quoted_pieces (c # rest)"
| "quoted_pieces _ = []"

definition parse_zonefile_txt :: "string \<Rightarrow> string" where
  "parse_zonefile_txt raw = strip (concat (quoted_pieces (split_on (CHR 0x22) raw)))"

definition generate_dkim_keys :: "domain_env \<Rightarrow> string \<Rightarrow> string \<Rightarrow> string option \<times> string option" where
  "generate_dkim_keys env name selector =
     (case de_genkey env name selector of
        None \<Rightarrow> (None, None)
      | Some zone \<Rightarrow> (Some (''/etc/opendkim/keys/'' @ name @ ''/'' @ selector @ ''.private''), map_option parse_zonefile_txt zone))"

section \<open>Files\<close>

definition signs :: "mail_domain \<Rightarrow> bool" where
  "signs d \<longleftrightarrow> d_is_active d \<and> truthy (dk_key_path d)"

definition dkim_entry :: "mail_domain \<Rightarrow> string" where
  "dkim_entry d = dk_selector d @ ''._domainkey.'' @ d_name d"

definition key_line :: "mail_domain \<Rightarrow> string" where
  "key_line d = dkim_entry d @ '' '' @ d_name d @ '':'' @ dk_selector d @ '':'' @ the (dk_key_path d)"

definition signing_line :: "mail_domain \<Rightarrow> string" where
  "signing_line d = ''*@'' @ d_name d @ '' '' @ dkim_entry d"

definition text_lines_of :: "string list \<Rightarrow> string" where
  "text_lines_of ls = join [CHR 0x0A] ls @ [CHR 0x0A]"

definition rebuild_opendkim_tables :: "mail_domain list \<Rightarrow> mail_config \<Rightarrow> mail_config" where
  "rebuild_opendkim_tables ds cf =
     (let ds' = filter signs ds
      in cf\<lparr>mf_key_table := text_lines_of (map key_line ds'), mf_signing_table := text_lines_of (map signing_line ds'),
            mf_trusted_hosts := text_lines_of ([''127.0.0.1'', ''localhost''] @ map d_name ds')\<rparr>)"

text \<open>\<open>s.replace(old, new)\<close>; \<open>skip\<close> counts the characters of a replaced text still to pass.\<close>

fun replace_skip :: "string \<Rightarrow> string \<Rightarrow> nat \<Rightarrow> string \<Rightarrow> string" where
  "replace_skip old new skip [] = []"
| "replace_skip old new 0 (c # s) =
     (if prefix old (c # s) then new @ replace_skip old new (length old - 1) s else c # replace_skip old new 0 s)"
| "replace_skip old new (Suc k) (c # s) = replace_skip old new k s"

definition replace_text :: "string \<Rightarrow> string \<Rightarrow> string \<Rightarrow> string" where
  "replace_text old new s = replace_skip old new 0 s"

definition regexp_map :: string where "regexp_map = ''regexp:/etc/postfix/virtual_domains''"
definition hash_map :: string where "hash_map = ''hash:/etc/postfix/virtual_domains''"

definition rebuild_postfix_virtual_domains :: "domain_env \<Rightarrow> mail_domain list \<Rightarrow> bool \<Rightarrow> mail_config \<Rightarrow> mail_config" where
  "rebuild_postfix_virtual_domains env ds catch_all cf =
     (let active = filter d_is_active ds
      in case mf_main_cf cf of
           None \<Rightarrow> cf
         | Some content \<Rightarrow>
             if active \<noteq> []
             then (let content1 = replace_text regexp_map hash_map content;
                       content2 = (if is_production (de_settings env)
                         then de_postconf env (if catch_all
                                then ''virtual_mailbox_maps=hash:/etc/postfix/virtual_mailboxes, regexp:/etc/postfix/virtual_mailboxes_catchall''
                                else ''virtual_mailbox_maps=hash:/etc/postfix/virtual_mailboxes'')
                                (de_postconf env ''smtpd_reject_unlisted_recipient=yes'' content1)
                         else content1)
                   in cf\<lparr>mf_virtual_domains := text_lines_of (map (\<lambda>d. d_name d @ '' OK'') active), mf_main_cf := Some content2\<rparr>)
             else cf\<lparr>mf_main_cf := Some (replace_text hash_map regexp_map content)\<rparr>)"

section \<open>Operations\<close>

definition list_domains :: "domain_state \<Rightarrow> mail_domain list" where
  "list_domains s = sort_key (\<lambda>d. - dk_created d) (do_domains s)"

definition get_domain_detail :: "string \<Rightarrow> domain_state \<Rightarrow> mail_domain result" where
  "get_domain_detail name s =
     (case row_get d_name name (do_domains s) of
        None \<Rightarrow> Inl (ValueErr (''Domain '' @ quoted name @ '' not found''))
      | Some d \<Rightarrow> Inr d)"

text \<open>The mailboxes see the same table of domains.\<close>

definition mailbox_view :: "domain_state \<Rightarrow> mail_state" where
  "mailbox_view s = (do_mail s)\<lparr>ms_db := (ms_db (do_mail s))\<lparr>domains := map domain_row.truncate (do_domains s)\<rparr>\<rparr>"

definition rebuild_config :: "domain_env \<Rightarrow> domain_state \<Rightarrow> unit result \<times> domain_state" where
  "rebuild_config env s =
     (if \<not> de_writable env then (Inl (OtherExc ''OSError''), s)
      else (let cf = rebuild_postfix_virtual_domains env (list_domains s) (catch_all_enabled (ms_db (do_mail s)))
                       (rebuild_opendkim_tables (list_domains s) (do_config s));
                mail = (if is_production (de_settings env)
                        then rebuild_postfix_virtual_mailboxes (de_settings env) (de_os env) (mailbox_view s) else mailbox_view s)
            in (Inr (), s\<lparr>do_config := cf, do_mail := mail\<rparr>)))"

definition new_domain :: "domain_env \<Rightarrow> time \<Rightarrow> string \<Rightarrow> string \<Rightarrow> mail_domain" where
  "new_domain env now name selector =
     (let (path, txt) = generate_dkim_keys env name selector
      in \<lparr>d_name = name, d_is_active = True, d_mx_verified = False, d_spf_verified = False, d_dkim_verified = False,
          d_dmarc_verified = False, dk_created = now, dk_selector = selector, dk_key_path = path, dk_key_txt = txt,
          dk_mta_sts_verified = False, dk_tls_rpt_verified = False, dk_last_check = None, dk_checked_at = (\<lambda>_. None),
          dk_verified_at = (\<lambda>_. None)\<rparr>)"

definition add_domain :: "domain_env \<Rightarrow> time \<Rightarrow> string \<Rightarrow> string \<Rightarrow> domain_state \<Rightarrow> mail_domain result \<times> domain_state" where
  "add_domain env now name selector s =
     (let d = new_domain env now name selector; (r, s') = rebuild_config env (s\<lparr>do_domains := do_domains s @ [d]\<rparr>)
      in (bind_res r (\<lambda>_. Inr d), s'))"

definition remove_domain :: "domain_env \<Rightarrow> string \<Rightarrow> domain_state \<Rightarrow> unit result \<times> domain_state" where
  "remove_domain env name s =
     (case get_domain_detail name s of
        Inl e \<Rightarrow> (Inl e, s)
      | Inr d \<Rightarrow> rebuild_config env (s\<lparr>do_domains := row_del d_name name (do_domains s)\<rparr>))"

definition create_domain :: "domain_env \<Rightarrow> time \<Rightarrow> domain_create \<Rightarrow> domain_state \<Rightarrow> mail_domain result \<times> domain_state" where
  "create_domain env now q0 s =
     (case domain_create_request q0 of
        Inl e \<Rightarrow> (Inl e, s)
      | Inr q \<Rightarrow>
          if row_get d_name (dq_name q) (do_domains s) \<noteq> None
          then (Inl (Http 409 (''Domain '' @ quoted (dq_name q) @ '' already exists'')), s)
          else add_domain env now (dq_name q) (dq_selector q) s)"

definition or_404 :: "'a result \<Rightarrow> 'a result" where
  "or_404 r = (case r of Inl (ValueErr e) \<Rightarrow> Inl (Http 404 e) | _ \<Rightarrow> r)"

definition delete_domain :: "domain_env \<Rightarrow> string \<Rightarrow> domain_state \<Rightarrow> unit result \<times> domain_state" where
  "delete_domain env name s = (let (r, s') = remove_domain env name s in (or_404 r, s'))"

text \<open>What the server itself publishes as its MTA-STS policy.\<close>

definition mta_sts_policy :: "settings \<Rightarrow> domain_state \<Rightarrow> string" where
  "mta_sts_policy st s =
     text_lines_of [''version: STSv1'', ''mode: testing'', ''mx: '' @ get_server_hostname st s, ''max_age: 86400'']"

section \<open>The DNS verdict\<close>

record dns_check_response =
  cr_flags :: "bool list"
  cr_all_verified :: bool
  cr_records :: "dns_record list"

record dns_state_response =
  ds_domain :: string
  ds_records :: "dns_record list"
  ds_has_drift :: bool
  ds_has_missing :: bool
  ds_last_check :: "time option"

definition set_verified :: "checks \<Rightarrow> time \<Rightarrow> mail_domain \<Rightarrow> mail_domain" where
  "set_verified checks now d = d\<lparr>d_mx_verified := fst (checks ''mx''), d_spf_verified := fst (checks ''spf''),
     d_dkim_verified := fst (checks ''dkim''), d_dmarc_verified := fst (checks ''dmarc''),
     dk_mta_sts_verified := fst (checks ''mta_sts''), dk_tls_rpt_verified := fst (checks ''tls_rpt''), dk_last_check := Some now\<rparr>"

definition verified_flags :: "mail_domain \<Rightarrow> bool list" where
  "verified_flags d = [d_mx_verified d, d_spf_verified d, d_dkim_verified d, d_dmarc_verified d, dk_mta_sts_verified d, dk_tls_rpt_verified d]"

text \<open>The records and the verdicts of one round of lookups.\<close>

definition dns_round :: "domain_env \<Rightarrow> mail_domain \<Rightarrow> domain_state \<Rightarrow> dns_record list \<times> checks" where
  "dns_round env d s =
     (let production = is_production (de_settings env); hostname = get_server_hostname (de_settings env) s;
          found = run_dns_checks (de_dns env) production d hostname;
          records = build_dns_records production d hostname (fst (found ''helo_spf'')) (fst (found ''bimi''))
            (list_active_tunnel_hosts (do_tunnels s) (do_tunnel_file s))
      in (records, apply_expected_check_results records found))"

definition finished_records :: "domain_env \<Rightarrow> mail_domain \<Rightarrow> checks \<Rightarrow> dns_record list \<Rightarrow> time \<Rightarrow> domain_state \<Rightarrow> dns_record list" where
  "finished_records env d checks records now s =
     attach_check_metadata d checks now records @
     check_relay_dns (de_dns env) (list_active_tunnel_hosts (do_tunnels s) (do_tunnel_file s)) now"

definition verify_dns :: "domain_env \<Rightarrow> time \<Rightarrow> string \<Rightarrow> domain_state \<Rightarrow> dns_check_response result \<times> domain_state" where
  "verify_dns env now name s =
     (case get_domain_detail name s of
        Inl e \<Rightarrow> (Inl e, s)
      | Inr d \<Rightarrow>
          (let (records, checks) = dns_round env d s;
               d' = stamp_audit_timestamps checks now (set_verified checks now d);
               final = finished_records env d' checks records now s
           in (Inr \<lparr>cr_flags = verified_flags d', cr_all_verified = list_all rc_verified (filter rc_required final), cr_records = final\<rparr>,
               s\<lparr>do_domains := row_put d_name d' (do_domains s)\<rparr>)))"

definition latest :: "time list \<Rightarrow> time option" where
  "latest ts = (case ts of [] \<Rightarrow> None | t # rest \<Rightarrow> Some (fold max rest t))"

definition compute_dns_state :: "domain_env \<Rightarrow> time \<Rightarrow> string \<Rightarrow> domain_state \<Rightarrow> dns_state_response result \<times> domain_state" where
  "compute_dns_state env now name s =
     (case get_domain_detail name s of
        Inl e \<Rightarrow> (Inl e, s)
      | Inr d \<Rightarrow>
          (let (records, checks) = dns_round env d s;
               d' = stamp_audit_timestamps checks now d;
               final = finished_records env d' checks records now s
           in (Inr \<lparr>ds_domain = name, ds_records = final, ds_has_drift = list_ex rc_drift (filter rc_required final),
                  ds_has_missing = list_ex (\<lambda>r. rc_required r \<and> rc_current r = None \<and> rc_checked r \<noteq> None) final,
                  ds_last_check = latest (List.map_filter rc_checked final)\<rparr>,
               s\<lparr>do_domains := row_put d_name d' (do_domains s)\<rparr>)))"

text \<open>The endpoints over them.\<close>

definition verify_domain_dns :: "domain_env \<Rightarrow> time \<Rightarrow> string \<Rightarrow> domain_state \<Rightarrow> dns_check_response result \<times> domain_state" where
  "verify_domain_dns env now name s = (let (r, s') = verify_dns env now name s in (or_404 r, s'))"

definition get_dns_state :: "domain_env \<Rightarrow> time \<Rightarrow> string \<Rightarrow> domain_state \<Rightarrow> dns_state_response result \<times> domain_state" where
  "get_dns_state env now name s = (let (r, s') = compute_dns_state env now name s in (or_404 r, s'))"

record domain_response =
  dr_row :: mail_domain
  dr_all_verified :: bool

definition domain_to_response :: "mail_domain \<Rightarrow> domain_response" where
  "domain_to_response d = \<lparr>dr_row = d, dr_all_verified = list_all (\<lambda>b. b) (verified_flags d)\<rparr>"

definition list_all_domains :: "domain_state \<Rightarrow> domain_response list" where
  "list_all_domains s = map domain_to_response (list_domains s)"

definition get_domain :: "domain_env \<Rightarrow> time \<Rightarrow> string \<Rightarrow> domain_state \<Rightarrow> (domain_response \<times> dns_record list) result" where
  "get_domain env now name s =
     bind_res (or_404 (get_domain_detail name s)) (\<lambda>d.
       (let st = de_settings env; hostname = get_server_hostname st s; hosts = list_active_tunnel_hosts (do_tunnels s) (do_tunnel_file s)
        in Inr (domain_to_response d,
             build_dns_records (is_production st) d hostname (fst (check_spf (de_dns env) hostname))
               (fst (check_bimi (de_dns env) (d_name d))) hosts @ check_relay_dns (de_dns env) hosts now)))"

end
