(* ===== verification/DomainProps.thy ===== *)
theory DomainProps
  imports DomainAdmin DemoCrypto
begin

text \<open>
  What the verdict on a mail domain means: a flag that verification sets is a fact about the published records, the
  drift report changes no verdict, and the record asked for can be published.
\<close>

section \<open>The verdict of one lookup\<close>

definition txt_answers :: "dns_world \<Rightarrow> string \<Rightarrow> string list" where
  "txt_answers w name = map join_txt_rdata (or_no_answers (dw_txt w name))"

definition mx_published :: "dns_world \<Rightarrow> string \<Rightarrow> string \<Rightarrow> bool" where
  "mx_published w d hostname \<longleftrightarrow> list_ex (\<lambda>r. fst r = 10 \<and> rstrip_dots (snd r) = hostname) (or_no_answers (dw_mx w d))"

text \<open>Exactly one SPF record, valid, and as good as the one asked for.\<close>

definition spf_published :: "dns_world \<Rightarrow> string \<Rightarrow> string \<Rightarrow> bool" where
  "spf_published w d expected \<longleftrightarrow>
     (case filter (\<lambda>t. prefix ''v=spf1'' (lower_text t)) (txt_answers w d) of
        [v] \<Rightarrow> fst (validate_spf_record v) \<and> spf_matches expected v
      | _ \<Rightarrow> False)"

definition dkim_published :: "dns_world \<Rightarrow> mail_domain \<Rightarrow> bool" where
  "dkim_published w dm \<longleftrightarrow> truthy (dk_key_txt dm) \<and>
     list_ex (\<lambda>t. normalize_dkim_txt t = normalize_dkim_txt (the (dk_key_txt dm)))
       (txt_answers w (dk_selector dm @ ''._domainkey.'' @ d_name dm))"

definition policy_fetched :: "dns_world \<Rightarrow> bool \<Rightarrow> string \<Rightarrow> string \<Rightarrow> bool" where
  "policy_fetched w production d hostname \<longleftrightarrow>
     (case dw_policy w (''https://mta-sts.'' @ d @ ''/.well-known/mta-sts.txt'') of
        PolicyResponse status ctype bytes txt \<Rightarrow> status = 200 \<and> bytes \<le> 64 * 1024 \<and>
          normalize_mta_sts_policy txt = normalize_mta_sts_policy (build_mta_sts_policy production hostname)
      | _ \<Rightarrow> False)"

definition mta_sts_published :: "dns_world \<Rightarrow> bool \<Rightarrow> string \<Rightarrow> string \<Rightarrow> bool" where
  "mta_sts_published w production d hostname \<longleftrightarrow>
     list_ex (prefix ''v=STSv1'') (txt_answers w (''_mta-sts.'' @ d)) \<and>
     fst (check_mta_sts_host w d) \<and> policy_fetched w production d hostname"

lemma check_prefixed_Some:
  "fst (check_prefixed w name start) \<Longrightarrow>
     \<exists>t. snd (check_prefixed w name start) = Some t \<and> t \<in> set (txt_answers w name) \<and> prefix start t"
proof (cases "dw_txt w name")
  case (Some answers)
  assume ok: "fst (check_prefixed w name start)"
  show ?thesis
  proof (cases "find (prefix start) (map join_txt_rdata answers)")
    case None
    with Some ok show ?thesis by (simp add: check_prefixed_def)
  next
    case (Some t)
    from find_SomeD [OF Some] Some \<open>dw_txt w name = Some answers\<close> show ?thesis
      by (simp add: check_prefixed_def txt_answers_def or_no_answers_def)
  qed
qed (simp add: check_prefixed_def)

lemma check_spf_Some:
  "fst (check_spf w d) \<Longrightarrow>
     \<exists>v. snd (check_spf w d) = Some v \<and> filter (\<lambda>t. prefix ''v=spf1'' (lower_text t)) (txt_answers w d) = [v] \<and> fst (validate_spf_record v)"
  by (auto simp: check_spf_def txt_answers_def or_no_answers_def split: option.splits list.splits)

lemma show_int_space: "CHR '' '' \<notin> set (show_int n)"
proof -
  have "\<not> is_digit (CHR '' '')" by code_simp
  then show ?thesis using digits_show_nat unfolding show_int_def list_all_iff by (auto split: if_splits)
qed

lemma show_int_10: "show_int n = ''10'' \<Longrightarrow> n = 10"
proof (cases "n < 0")
  case False
  assume "show_int n = ''10''"
  with False have "decimal_value (show_nat (nat n)) = decimal_value ''10''" by (simp add: show_int_def)
  moreover have "decimal_value ''10'' = 10" by code_simp
  ultimately show ?thesis using False by simp
qed (simp add: show_int_def)

lemma format_mx_rdata_eq:
  "format_mx_rdata r = ''10 '' @ hostname @ ''.'' \<longleftrightarrow> fst r = 10 \<and> rstrip_dots (snd r) = hostname"
proof
  assume "format_mx_rdata r = ''10 '' @ hostname @ ''.''"
  then have a: "show_int (fst r) @ CHR '' '' # (rstrip_dots (snd r) @ ''.'') = ''10'' @ CHR '' '' # (hostname @ ''.'')"
    by (simp add: format_mx_rdata_def)
  have "split_first (CHR '' '') (''10'' @ CHR '' '' # (hostname @ ''.'')) = Some (''10'', hostname @ ''.'')" by simp
  from this [folded a, unfolded split_first_append [OF show_int_space]]
  have "show_int (fst r) = ''10'' \<and> rstrip_dots (snd r) = hostname" by simp
  then show "fst r = 10 \<and> rstrip_dots (snd r) = hostname" using show_int_10 by blast
next
  have "show_int 10 = ''10''" by code_simp
  moreover assume "fst r = 10 \<and> rstrip_dots (snd r) = hostname"
  ultimately show "format_mx_rdata r = ''10 '' @ hostname @ ''.''" by (simp add: format_mx_rdata_def)
qed

lemma check_mx_matches:
  assumes "snd (check_mx w d hostname) = Some (''10 '' @ hostname @ ''.'')"
  shows "fst (check_mx w d hostname) \<and> mx_published w d hostname"
proof (cases "dw_mx w d")
  case (Some answers)
  show ?thesis
  proof (cases "find (\<lambda>r. rstrip_dots (snd r) = hostname) answers")
    case None
    with Some assms obtain r rest where r: "answers = r # rest" "format_mx_rdata r = ''10 '' @ hostname @ ''.''"
      by (auto simp: check_mx_def split: list.splits)
    from r(2) have "rstrip_dots (snd r) = hostname" unfolding format_mx_rdata_eq by simp
    with None r(1) show ?thesis by simp
  next
    case (Some r)
    from Some assms \<open>dw_mx w d = Some answers\<close> have "format_mx_rdata r = ''10 '' @ hostname @ ''.''" by (simp add: check_mx_def)
    with find_SomeD [OF Some] Some \<open>dw_mx w d = Some answers\<close> show ?thesis
      unfolding format_mx_rdata_eq by (auto simp: check_mx_def mx_published_def or_no_answers_def list_ex_iff)
  qed
qed (use assms in \<open>simp add: check_mx_def\<close>)


section \<open>The verdicts of a round\<close>

definition agreed :: "string \<Rightarrow> string \<Rightarrow> check \<Rightarrow> bool" where
  "agreed slot expected c \<longleftrightarrow> fst c \<and> (case snd c of None \<Rightarrow> False | Some v \<Rightarrow> record_matches slot expected v)"

lemma fst_expected_result:
  "fst (expected_result r (Some slot) c) = agreed slot (rc_expected r) c"
  by (simp add: expected_result_def agreed_def split: option.splits)

abbreviation round_checks :: "domain_env \<Rightarrow> mail_domain \<Rightarrow> domain_state \<Rightarrow> checks" where
  "round_checks env d s \<equiv> snd (dns_round env d s)"

abbreviation host_name :: "domain_env \<Rightarrow> domain_state \<Rightarrow> string" where
  "host_name env s \<equiv> get_server_hostname (de_settings env) s"

abbreviation relay_hosts :: "domain_state \<Rightarrow> string list" where
  "relay_hosts s \<equiv> list_active_tunnel_hosts (do_tunnels s) (do_tunnel_file s)"

text \<open>The fold over the layout is one update per slot.\<close>

lemma fold_slots:
  "distinct (map (\<lambda>x. fst (snd x)) xs) \<Longrightarrow>
     fold (\<lambda>(r, slot, audit, m) c. c(slot := expected_result r m (c slot))) xs c k =
       (case find (\<lambda>x. fst (snd x) = k) xs of None \<Rightarrow> c k | Some x \<Rightarrow> expected_result (fst x) (snd (snd (snd x))) (c k))"
proof (induction xs arbitrary: c)
  case (Cons x xs)
  obtain r slot audit m where x: "x = (r, slot, audit, m)" by (cases x) auto
  have none: "find (\<lambda>x. fst (snd x) = slot) xs = None" using Cons.prems x by (force simp: find_None_iff)
  show ?case using Cons.IH Cons.prems none unfolding x by (auto split: option.splits)
qed simp

lemma layout_distinct: "distinct (map fst CHECK_RECORD_LAYOUT)"
  by code_simp

lemma apply_expected_slots:
  fixes c :: checks and r0 r1 r2 r3 r4 r5 r6 r7 r8 r9 r10 r11 :: dns_record
  defines "a \<equiv> apply_expected_check_results [r0, r1, r2, r3, r4, r5, r6, r7, r8, r9, r10, r11] c"
  shows
    "a ''mx'' = expected_result r0 (Some ''mx'') (c ''mx'')" and
    "a ''spf'' = expected_result r1 (Some ''spf'') (c ''spf'')" and
    "a ''helo_spf'' = expected_result r2 (Some ''spf'') (c ''helo_spf'')" and
    "a ''dkim'' = expected_result r3 (Some ''dkim'') (c ''dkim'')" and
    "a ''dmarc'' = expected_result r4 (Some ''dmarc'') (c ''dmarc'')" and
    "a ''bimi'' = expected_result r5 (Some ''bimi'') (c ''bimi'')" and
    "a ''mta_sts_txt'' = expected_result r6 (Some ''mta_sts'') (c ''mta_sts_txt'')" and
    "a ''mta_sts_host'' = expected_result r7 None (c ''mta_sts_host'')" and
    "a ''mta_sts_policy'' = expected_result r8 (Some ''mta_sts_policy'') (c ''mta_sts_policy'')" and
    "a ''tls_rpt'' = expected_result r9 (Some ''tls_rpt'') (c ''tls_rpt'')" and
    "fst (a ''mta_sts'') \<longleftrightarrow> fst (a ''mta_sts_txt'') \<and> fst (a ''mta_sts_host'') \<and> fst (a ''mta_sts_policy'')"
proof -
  let ?rs = "[r0, r1, r2, r3, r4, r5, r6, r7, r8, r9, r10, r11]"
  have z: "map (\<lambda>x. fst (snd x)) (zip ?rs CHECK_RECORD_LAYOUT) = map fst CHECK_RECORD_LAYOUT"
    by (simp add: CHECK_RECORD_LAYOUT_def)
  have k: "fold (\<lambda>(r, slot, audit, m) c. c(slot := expected_result r m (c slot))) (zip ?rs CHECK_RECORD_LAYOUT) c k =
      (case find (\<lambda>x. fst (snd x) = k) (zip ?rs CHECK_RECORD_LAYOUT) of
         None \<Rightarrow> c k | Some x \<Rightarrow> expected_result (fst x) (snd (snd (snd x))) (c k))" for k
    by (rule fold_slots) (simp only: z layout_distinct)
  have m: "a k = (if k = ''mta_sts'' then (list_all (\<lambda>s. fst (a s)) [''mta_sts_txt'', ''mta_sts_host'', ''mta_sts_policy''], snd (a ''mta_sts_txt''))
      else (case find (\<lambda>x. fst (snd x) = k) (zip ?rs CHECK_RECORD_LAYOUT) of
         None \<Rightarrow> c k | Some x \<Rightarrow> expected_result (fst x) (snd (snd (snd x))) (c k)))" for k
    unfolding a_def apply_expected_check_results_def Let_def by (simp add: k)
  show "a ''mx'' = expected_result r0 (Some ''mx'') (c ''mx'')" by (subst m) (simp add: CHECK_RECORD_LAYOUT_def)
  show "a ''spf'' = expected_result r1 (Some ''spf'') (c ''spf'')" by (subst m) (simp add: CHECK_RECORD_LAYOUT_def)
  show "a ''helo_spf'' = expected_result r2 (Some ''spf'') (c ''helo_spf'')" by (subst m) (simp add: CHECK_RECORD_LAYOUT_def)
  show "a ''dkim'' = expected_result r3 (Some ''dkim'') (c ''dkim'')" by (subst m) (simp add: CHECK_RECORD_LAYOUT_def)
  show "a ''dmarc'' = expected_result r4 (Some ''dmarc'') (c ''dmarc'')" by (subst m) (simp add: CHECK_RECORD_LAYOUT_def)
  show "a ''bimi'' = expected_result r5 (Some ''bimi'') (c ''bimi'')" by (subst m) (simp add: CHECK_RECORD_LAYOUT_def)
  show "a ''mta_sts_txt'' = expected_result r6 (Some ''mta_sts'') (c ''mta_sts_txt'')" by (subst m) (simp add: CHECK_RECORD_LAYOUT_def)
  show "a ''mta_sts_host'' = expected_result r7 None (c ''mta_sts_host'')" by (subst m) (simp add: CHECK_RECORD_LAYOUT_def)
  show "a ''mta_sts_policy'' = expected_result r8 (Some ''mta_sts_policy'') (c ''mta_sts_policy'')" by (subst m) (simp add: CHECK_RECORD_LAYOUT_def)
  show "a ''tls_rpt'' = expected_result r9 (Some ''tls_rpt'') (c ''tls_rpt'')" by (subst m) (simp add: CHECK_RECORD_LAYOUT_def)
  show "fst (a ''mta_sts'') \<longleftrightarrow> fst (a ''mta_sts_txt'') \<and> fst (a ''mta_sts_host'') \<and> fst (a ''mta_sts_policy'')"
    by (subst m) simp
qed

lemma run_dns_checks_slots:
  fixes w :: dns_world and dm :: mail_domain and production :: bool and hostname :: string
  defines "a \<equiv> run_dns_checks w production dm hostname"
  shows
    "a ''mx'' = check_mx w (d_name dm) hostname" and
    "a ''spf'' = check_spf w (d_name dm)" and
    "a ''helo_spf'' = check_spf w hostname" and
    "a ''dkim'' = check_dkim w (d_name dm) (dk_selector dm) (dk_key_txt dm)" and
    "a ''dmarc'' = check_dmarc w (d_name dm)" and
    "a ''bimi'' = check_bimi w (d_name dm)" and
    "a ''mta_sts_txt'' = check_mta_sts w (d_name dm)" and
    "a ''mta_sts_host'' = fst (check_mta_sts_endpoint w production (d_name dm) hostname)" and
    "a ''mta_sts_policy'' = snd (check_mta_sts_endpoint w production (d_name dm) hostname)" and
    "a ''tls_rpt'' = check_tls_rpt w (d_name dm)"
  unfolding a_def run_dns_checks_def Let_def split_beta by simp_all

lemmas round_slots = dns_round_def Let_def snd_conv build_dns_records_def apply_expected_slots run_dns_checks_slots
  fst_expected_result dns_entry_def dns_record.simps

lemma round_mx:
  "fst (round_checks env d s ''mx'') = agreed ''mx'' (''10 '' @ host_name env s @ ''.'') (check_mx (de_dns env) (d_name d) (host_name env s))"
  by (simp only: round_slots)

lemma round_spf:
  "fst (round_checks env d s ''spf'') =
     agreed ''spf'' (build_spf_expected (host_name env s) (relay_hosts s)) (check_spf (de_dns env) (d_name d))"
  by (simp only: round_slots)

lemma round_dkim:
  "fst (round_checks env d s ''dkim'') =
     agreed ''dkim'' (if truthy (dk_key_txt d) then the (dk_key_txt d) else ''(DKIM key not yet generated)'')
       (check_dkim (de_dns env) (d_name d) (dk_selector d) (dk_key_txt d))"
  by (simp only: round_slots)

lemma round_dmarc:
  "fst (round_checks env d s ''dmarc'') =
     agreed ''dmarc'' (''v=DMARC1; p=reject; rua=mailto:postmaster@'' @ d_name d) (check_dmarc (de_dns env) (d_name d))"
  by (simp only: round_slots)

lemma round_tls_rpt:
  "fst (round_checks env d s ''tls_rpt'') =
     agreed ''tls_rpt'' (''v=TLSRPTv1; rua=mailto:tls-reports@'' @ d_name d) (check_tls_rpt (de_dns env) (d_name d))"
  by (simp only: round_slots)

lemma fst_expected_result_None: "fst (expected_result r None c) = fst c"
  by (simp add: expected_result_def)

lemma round_mta_sts:
  "fst (round_checks env d s ''mta_sts'') \<longleftrightarrow>
     agreed ''mta_sts'' (build_mta_sts_expected d) (check_mta_sts (de_dns env) (d_name d)) \<and>
     fst (fst (check_mta_sts_endpoint (de_dns env) (is_production (de_settings env)) (d_name d) (host_name env s))) \<and>
     agreed ''mta_sts_policy'' (build_mta_sts_policy (is_production (de_settings env)) (host_name env s))
       (snd (check_mta_sts_endpoint (de_dns env) (is_production (de_settings env)) (d_name d) (host_name env s)))"
  by (simp only: round_slots fst_expected_result_None)

section \<open>Verified records are published\<close>

lemma partition_at_None: "\<not> contains sep s \<Longrightarrow> partition_at sep s = None"
  by (induction s) (auto split: if_splits)

lemma partition_at_Some: "contains sep s \<Longrightarrow> partition_at sep s \<noteq> None"
  by (induction s) auto

lemma normalize_dkim_txt_contains:
  "contains ''p='' (normalize_dkim_txt t) \<longleftrightarrow> contains ''p='' t"
proof (cases "contains ''p='' t")
  case True
  then obtain a b where "partition_at ''p='' t = Some (a, b)" using partition_at_Some by fast
  with True show ?thesis by (auto simp: normalize_dkim_txt_def contains_append_iff)
qed (simp add: normalize_dkim_txt_def partition_at_None)

lemma dkim_agreed:
  assumes "agreed ''dkim'' (if truthy (dk_key_txt d) then the (dk_key_txt d) else ''(DKIM key not yet generated)'')
       (check_dkim w (d_name d) (dk_selector d) (dk_key_txt d))"
  shows "dkim_published w d"
proof -
  let ?e = "if truthy (dk_key_txt d) then the (dk_key_txt d) else ''(DKIM key not yet generated)''"
  obtain answers where a: "dw_txt w (dk_selector d @ ''._domainkey.'' @ d_name d) = Some answers"
    using assms by (cases "dw_txt w (dk_selector d @ ''._domainkey.'' @ d_name d)") (auto simp: agreed_def check_dkim_def)
  obtain t where t: "find (contains ''p='') (map join_txt_rdata answers) = Some t"
    using assms a by (cases "find (contains ''p='') (map join_txt_rdata answers)") (auto simp: agreed_def check_dkim_def)
  have e: "normalize_dkim_txt ?e = normalize_dkim_txt t"
    using assms a t by (auto simp: agreed_def check_dkim_def record_matches_def Let_def split: option.splits)
  have "contains ''p='' ?e" using find_SomeD [OF t] e by (metis normalize_dkim_txt_contains)
  moreover have "\<not> contains ''p='' ''(DKIM key not yet generated)''" by code_simp
  ultimately have "truthy (dk_key_txt d)" by (auto split: if_splits)
  with e find_SomeD [OF t] a show ?thesis
    by (auto simp: dkim_published_def txt_answers_def or_no_answers_def list_ex_iff intro!: bexI [of _ t])
qed

lemma exact_agreed:
  assumes "agreed slot expected (check_prefixed w name start)" "slot \<in> {''dmarc'', ''tls_rpt''}"
  shows "expected \<in> set (txt_answers w name)"
  using assms check_prefixed_Some [of w name start] by (auto simp: agreed_def record_matches_def)

lemma spf_agreed: "agreed ''spf'' expected (check_spf w d) \<Longrightarrow> spf_published w d expected"
  using check_spf_Some [of w d] by (auto simp: agreed_def record_matches_def spf_published_def)

lemma mx_agreed: "agreed ''mx'' (''10 '' @ hostname @ ''.'') (check_mx w d hostname) \<Longrightarrow> mx_published w d hostname"
  using check_mx_matches [of w d hostname] by (auto simp: agreed_def record_matches_def split: option.splits)

lemma policy_checked:
  assumes "fst (snd (check_mta_sts_endpoint w production d hostname))"
  shows "policy_fetched w production d hostname"
proof -
  have "fst (check_mta_sts_policy w production d hostname)"
    using assms by (auto simp: check_mta_sts_endpoint_def Let_def split: if_splits)
  then show ?thesis
    by (auto simp: check_mta_sts_policy_def policy_fetched_def Let_def split: policy_answer.splits if_splits option.splits)
qed

lemma mta_sts_round:
  assumes "fst (round_checks env d s ''mta_sts'')"
  shows "mta_sts_published (de_dns env) (is_production (de_settings env)) (d_name d) (host_name env s)"
proof -
  from assms [unfolded round_mta_sts agreed_def] have sts: "fst (check_mta_sts (de_dns env) (d_name d))"
    and host: "fst (fst (check_mta_sts_endpoint (de_dns env) (is_production (de_settings env)) (d_name d) (host_name env s)))"
    and policy: "fst (snd (check_mta_sts_endpoint (de_dns env) (is_production (de_settings env)) (d_name d) (host_name env s)))"
    by blast+
  from host have "fst (check_mta_sts_host (de_dns env) (d_name d))"
    by (auto simp: check_mta_sts_endpoint_def Let_def split: if_splits)
  with policy_checked [OF policy] check_prefixed_Some [OF sts [unfolded check_mta_sts_def]] show ?thesis
    by (auto simp: mta_sts_published_def list_ex_iff)
qed

lemma stamp_keeps:
  "domain_row.truncate (stamp_audit_timestamps checks now d) = domain_row.truncate d"
  "verified_flags (stamp_audit_timestamps checks now d) = verified_flags d"
  "dk_last_check (stamp_audit_timestamps checks now d) = dk_last_check d"
  "dk_created (stamp_audit_timestamps checks now d) = dk_created d"
  "dk_selector (stamp_audit_timestamps checks now d) = dk_selector d"
  "dk_key_path (stamp_audit_timestamps checks now d) = dk_key_path d"
  "dk_key_txt (stamp_audit_timestamps checks now d) = dk_key_txt d"
proof -
  let ?f = "\<lambda>slot d. let d1 = d\<lparr>dk_checked_at := (dk_checked_at d)(slot \<mapsto> now)\<rparr>
                 in if fst (checks slot) then d1\<lparr>dk_verified_at := (dk_verified_at d)(slot \<mapsto> now)\<rparr> else d1"
  have fold: "g (fold ?f slots d) = g d" if "\<And>slot d. g (?f slot d) = g d" for g :: "mail_domain \<Rightarrow> 'g" and slots d
    using that by (induction slots arbitrary: d) simp_all
  have eq: "stamp_audit_timestamps checks now d = fold ?f CANONICAL_RECORD_SLOTS d"
    by (rule stamp_audit_timestamps_def)
  show "domain_row.truncate (stamp_audit_timestamps checks now d) = domain_row.truncate d"
    unfolding eq by (rule fold) (simp add: Let_def domain_row.truncate_def)
  show "verified_flags (stamp_audit_timestamps checks now d) = verified_flags d"
    unfolding eq by (rule fold) (simp add: Let_def verified_flags_def)
  show "dk_last_check (stamp_audit_timestamps checks now d) = dk_last_check d"
    "dk_created (stamp_audit_timestamps checks now d) = dk_created d"
    "dk_selector (stamp_audit_timestamps checks now d) = dk_selector d"
    "dk_key_path (stamp_audit_timestamps checks now d) = dk_key_path d"
    "dk_key_txt (stamp_audit_timestamps checks now d) = dk_key_txt d"
    unfolding eq by (rule fold, simp add: Let_def)+
qed


lemma truncate_fields:
  "domain_row.truncate a = domain_row.truncate b \<longleftrightarrow>
     d_name a = d_name b \<and> d_is_active a = d_is_active b \<and> d_mx_verified a = d_mx_verified b \<and>
     d_spf_verified a = d_spf_verified b \<and> d_dkim_verified a = d_dkim_verified b \<and> d_dmarc_verified a = d_dmarc_verified b"
  by (auto simp: domain_row.truncate_def)

lemma stamp_name [simp]: "d_name (stamp_audit_timestamps checks now d) = d_name d"
  using stamp_keeps(1) by (simp only: truncate_fields)

lemma set_verified_keeps [simp]:
  "d_name (set_verified checks now d) = d_name d" "d_is_active (set_verified checks now d) = d_is_active d"
  "dk_selector (set_verified checks now d) = dk_selector d" "dk_key_path (set_verified checks now d) = dk_key_path d"
  "dk_key_txt (set_verified checks now d) = dk_key_txt d"
  by (simp_all add: set_verified_def)

lemma verify_dns_row:
  assumes "verify_dns env now name s = (Inr r, s')"
  obtains d d' where "row_get d_name name (do_domains s) = Some d" "row_get d_name name (do_domains s') = Some d'"
    "d' = stamp_audit_timestamps (round_checks env d s) now (set_verified (round_checks env d s) now d)"
    "cr_flags r = verified_flags d'"
    "s' = s\<lparr>do_domains := row_put d_name d' (do_domains s)\<rparr>"
proof -
  from assms obtain d where d: "row_get d_name name (do_domains s) = Some d"
    by (auto simp: verify_dns_def get_domain_detail_def split: option.splits sum.splits)
  let ?d = "stamp_audit_timestamps (round_checks env d s) now (set_verified (round_checks env d s) now d)"
  have n: "d_name d = name" using row_get_SomeD [OF d] by simp
  show thesis
  proof (rule that [OF d _ refl])
    show s': "s' = s\<lparr>do_domains := row_put d_name ?d (do_domains s)\<rparr>" and "cr_flags r = verified_flags ?d"
      using assms d by (auto simp: verify_dns_def get_domain_detail_def Let_def split_beta)
    show "row_get d_name name (do_domains s') = Some ?d" using d n by (simp add: s' row_get_put)
  qed
qed

text \<open>C31: After a DNS verification the flags it stored for the domain are facts about what the lookups of that request
  returned: the mail exchanger is published with preference 10, there is exactly one SPF record and it is valid and
  authorizes what the server asked for, the DKIM record holds the stored key, the DMARC and TLS-RPT records are the ones
  asked for, and the MTA-STS policy is announced, served from public addresses only, and is the server's own.\<close>

theorem verified_means_published:
  assumes "verify_dns env now name s = (Inr r, s')"
  shows "\<exists>d d'. row_get d_name name (do_domains s) = Some d \<and> row_get d_name name (do_domains s') = Some d' \<and>
     cr_flags r = verified_flags d' \<and>
     (d_mx_verified d' \<longrightarrow> mx_published (de_dns env) name (get_server_hostname (de_settings env) s)) \<and>
     (d_spf_verified d' \<longrightarrow> spf_published (de_dns env) name
        (build_spf_expected (get_server_hostname (de_settings env) s) (list_active_tunnel_hosts (do_tunnels s) (do_tunnel_file s)))) \<and>
     (d_dkim_verified d' \<longrightarrow> dkim_published (de_dns env) d) \<and>
     (d_dmarc_verified d' \<longrightarrow>
        (''v=DMARC1; p=reject; rua=mailto:postmaster@'' @ name) \<in> set (txt_answers (de_dns env) (''_dmarc.'' @ name))) \<and>
     (dk_mta_sts_verified d' \<longrightarrow>
        mta_sts_published (de_dns env) (is_production (de_settings env)) name (get_server_hostname (de_settings env) s)) \<and>
     (dk_tls_rpt_verified d' \<longrightarrow>
        (''v=TLSRPTv1; rua=mailto:tls-reports@'' @ name) \<in> set (txt_answers (de_dns env) (''_smtp._tls.'' @ name)))"
proof -
  from verify_dns_row [OF assms] obtain d d' where d: "row_get d_name name (do_domains s) = Some d"
    and d': "row_get d_name name (do_domains s') = Some d'"
      "d' = stamp_audit_timestamps (round_checks env d s) now (set_verified (round_checks env d s) now d)"
    and flags: "cr_flags r = verified_flags d'" by blast
  have n: "d_name d = name" using row_get_SomeD [OF d] by simp
  have "verified_flags d' = map (\<lambda>slot. fst (round_checks env d s slot)) [''mx'', ''spf'', ''dkim'', ''dmarc'', ''mta_sts'', ''tls_rpt'']"
    unfolding d'(2) stamp_keeps by (simp add: verified_flags_def set_verified_def)
  then have f: "d_mx_verified d' = fst (round_checks env d s ''mx'')" "d_spf_verified d' = fst (round_checks env d s ''spf'')"
    "d_dkim_verified d' = fst (round_checks env d s ''dkim'')" "d_dmarc_verified d' = fst (round_checks env d s ''dmarc'')"
    "dk_mta_sts_verified d' = fst (round_checks env d s ''mta_sts'')" "dk_tls_rpt_verified d' = fst (round_checks env d s ''tls_rpt'')"
    by (simp_all add: verified_flags_def)
  note facts = mx_agreed [of "host_name env s" "de_dns env" name] spf_agreed [of _ "de_dns env" name] dkim_agreed [of d "de_dns env"]
    exact_agreed [of "''dmarc''" _ "de_dns env" "''_dmarc.'' @ name" "''v=DMARC1''"]
    exact_agreed [of "''tls_rpt''" _ "de_dns env" "''_smtp._tls.'' @ name" "''v=TLSRPTv1''"] mta_sts_round [of env d s]
  show ?thesis unfolding f
    using d d'(1) flags facts
    by (intro exI [of _ d] exI [of _ d'] conjI impI)
       (simp_all add: f round_mx round_spf round_dkim round_dmarc round_tls_rpt n check_dmarc_def check_tls_rpt_def)
qed


text \<open>A domain whose records are all published.\<close>

definition example_dns :: dns_world where
  "example_dns = \<lparr>
     dw_txt = (\<lambda>n. if n = ''a.bc'' then Some [[''v=spf1 mx'', '' -all'']]
                else if n = ''k._domainkey.a.bc'' then Some [[''v=DKIM1; p=QUJD'']]
                else if n = ''_dmarc.a.bc'' then Some [[''v=DMARC1; p=reject; rua=mailto:postmaster@a.bc'']]
                else if n = ''_mta-sts.a.bc'' then Some [[''v=STSv1; id=7'']]
                else if n = ''_smtp._tls.a.bc'' then Some [[''v=TLSRPTv1; rua=mailto:tls-reports@a.bc'']]
                else None),
     dw_mx = (\<lambda>n. if n = ''a.bc'' then Some [(20, ''z.bc.''), (10, ''m.bc.'')] else None),
     dw_ips = (\<lambda>t n. if t = ''A'' then Some [''9.9.9.9''] else None),
     dw_ptr = (\<lambda>n. None),
     dw_global = (\<lambda>a. a = ''9.9.9.9''),
     dw_policy = (\<lambda>u. PolicyResponse 200 (Some ''text/plain'') 64
        (''version: STSv1'' @ [CHR 0x0D, CHR 0x0A] @ ''mode: testing'' @ [CHR 0x0A] @ ''mx: m.bc'' @ [CHR 0x0A] @ ''max_age: 86400'' @ [CHR 0x0A]))\<rparr>"

definition example_domain :: mail_domain where
  "example_domain = \<lparr>d_name = ''a.bc'', d_is_active = True, d_mx_verified = False, d_spf_verified = False,
     d_dkim_verified = False, d_dmarc_verified = False, dk_created = 0, dk_selector = ''k'', dk_key_path = Some ''/k'',
     dk_key_txt = Some ''v=DKIM1; p=QU JD'', dk_mta_sts_verified = False, dk_tls_rpt_verified = False, dk_last_check = None,
     dk_checked_at = (\<lambda>_. None), dk_verified_at = (\<lambda>_. None)\<rparr>"

definition example_state :: domain_state where
  "example_state = \<lparr>do_domains = [example_domain], do_hostname = Some ''m.bc'', do_tunnels = [], do_tunnel_file = None,
     do_config = \<lparr>mf_key_table = [], mf_signing_table = [], mf_trusted_hosts = [], mf_main_cf = None, mf_virtual_domains = []\<rparr>,
     do_mail = \<lparr>ms_db = demo_db, ms_users_file = None, ms_storage = False, ms_maildirs = [], ms_virtual_mailboxes = [],
       ms_sender_logins = [], ms_catchall_map = None, ms_bus = empty_bus\<rparr>\<rparr>"

definition example_env :: domain_env where
  "example_env = \<lparr>de_settings = demo_settings,
     de_os = \<lparr>os_mkdir = True, os_hash = Inr, os_users_write = True, os_users_remove = True, os_rmtree = True, os_postfix = True\<rparr>,
     de_genkey = (\<lambda>_ _. None), de_postconf = (\<lambda>_ c. c), de_writable = True, de_dns = example_dns\<rparr>"

lemmas example_env_simps = example_env_def example_state_def example_domain_def demo_settings_def get_server_hostname_def

lemma example_endpoint:
  "check_mta_sts_endpoint example_dns False ''a.bc'' ''m.bc'' =
     ((True, Some ''9.9.9.9''),
      (True, Some (normalize_mta_sts_policy (build_mta_sts_policy False ''m.bc''))))"
  by code_simp

lemma example_agrees:
  "agreed ''mx'' ''10 m.bc.'' (check_mx example_dns ''a.bc'' ''m.bc'')"
  "agreed ''spf'' (build_spf_expected ''m.bc'' []) (check_spf example_dns ''a.bc'')"
  "agreed ''dkim'' ''v=DKIM1; p=QU JD'' (check_dkim example_dns ''a.bc'' ''k'' (Some ''v=DKIM1; p=QU JD''))"
  "agreed ''dmarc'' ''v=DMARC1; p=reject; rua=mailto:postmaster@a.bc'' (check_dmarc example_dns ''a.bc'')"
  "agreed ''tls_rpt'' ''v=TLSRPTv1; rua=mailto:tls-reports@a.bc'' (check_tls_rpt example_dns ''a.bc'')"
  "agreed ''mta_sts'' (build_mta_sts_expected example_domain) (check_mta_sts example_dns ''a.bc'')"
  by code_simp+

lemma example_policy_agrees:
  "agreed ''mta_sts_policy'' (build_mta_sts_policy False ''m.bc'')
     (True, Some (normalize_mta_sts_policy (build_mta_sts_policy False ''m.bc'')))"
  by code_simp


theorem verified_means_published_witness:
  "\<exists>d d' r s'. verify_dns example_env 9 ''a.bc'' example_state = (Inr r, s') \<and>
     row_get d_name ''a.bc'' (do_domains s') = Some d' \<and> verified_flags d' = replicate 6 True \<and>
     mx_published example_dns ''a.bc'' ''m.bc'' \<and> spf_published example_dns ''a.bc'' (build_spf_expected ''m.bc'' []) \<and>
     dkim_published example_dns d \<and> dk_key_txt d = Some ''v=DKIM1; p=QU JD'' \<and>
     mta_sts_published example_dns False ''a.bc'' ''m.bc''"
proof -
  let ?d = example_domain and ?s = example_state and ?e = example_env
  have get: "row_get d_name ''a.bc'' (do_domains ?s) = Some ?d" by (simp add: example_state_def example_domain_def row_get_Cons)
  obtain r s' where v: "verify_dns ?e 9 ''a.bc'' ?s = (Inr r, s')"
    using get by (simp add: verify_dns_def get_domain_detail_def split_beta Let_def)
  have relays: "relay_hosts ?s = []" by code_simp
  have env: "de_dns ?e = example_dns" "is_production (de_settings ?e) = False" "host_name ?e ?s = ''m.bc''" "d_name ?d = ''a.bc''"
    "dk_selector ?d = ''k''" "dk_key_txt ?d = Some ''v=DKIM1; p=QU JD''"
    by (simp_all add: example_env_simps)
  have key: "truthy (Some ''v=DKIM1; p=QU JD'') = True" by simp
  note eval = env relays append.simps example_agrees example_policy_agrees example_endpoint fst_conv snd_conv key if_True option.sel
  have "fst (round_checks ?e ?d ?s ''mx'')" by (simp only: round_mx eval)
  moreover have "fst (round_checks ?e ?d ?s ''spf'')" by (simp only: round_spf eval)
  moreover have "fst (round_checks ?e ?d ?s ''dkim'')" by (simp only: round_dkim eval)
  moreover have "fst (round_checks ?e ?d ?s ''dmarc'')" by (simp only: round_dmarc eval)
  moreover have "fst (round_checks ?e ?d ?s ''tls_rpt'')" by (simp only: round_tls_rpt eval)
  moreover have "fst (round_checks ?e ?d ?s ''mta_sts'')" by (simp only: round_mta_sts eval simp_thms)
  ultimately have round: "map (\<lambda>slot. fst (round_checks ?e ?d ?s slot)) [''mx'', ''spf'', ''dkim'', ''dmarc'', ''mta_sts'', ''tls_rpt''] = replicate 6 True"
    by (simp only: list.map) (simp add: numeral_eq_Suc)
  obtain e d' where e: "row_get d_name ''a.bc'' (do_domains ?s) = Some e" and d': "row_get d_name ''a.bc'' (do_domains s') = Some d'"
    "d' = stamp_audit_timestamps (round_checks ?e e ?s) 9 (set_verified (round_checks ?e e ?s) 9 e)"
    by (rule verify_dns_row [OF v])
  from e get have e_eq: "e = ?d" by (simp only: option.inject)
  have "verified_flags d' = map (\<lambda>slot. fst (round_checks ?e ?d ?s slot)) [''mx'', ''spf'', ''dkim'', ''dmarc'', ''mta_sts'', ''tls_rpt'']"
    unfolding d'(2) stamp_keeps e_eq by (simp only: verified_flags_def set_verified_def) simp
  then have flags: "verified_flags d' = replicate 6 True" unfolding round .
  then have set: "d_mx_verified d'" "d_spf_verified d'" "d_dkim_verified d'" "dk_mta_sts_verified d'"
    by (simp_all add: verified_flags_def numeral_eq_Suc)
  from verified_means_published [OF v] obtain d0 d0' where
    row: "row_get d_name ''a.bc'' (do_domains ?s) = Some d0" "row_get d_name ''a.bc'' (do_domains s') = Some d0'" and
    facts: "d_mx_verified d0' \<longrightarrow> mx_published (de_dns ?e) ''a.bc'' (host_name ?e ?s)"
      "d_spf_verified d0' \<longrightarrow> spf_published (de_dns ?e) ''a.bc'' (build_spf_expected (host_name ?e ?s) (relay_hosts ?s))"
      "d_dkim_verified d0' \<longrightarrow> dkim_published (de_dns ?e) d0"
      "dk_mta_sts_verified d0' \<longrightarrow> mta_sts_published (de_dns ?e) (is_production (de_settings ?e)) ''a.bc'' (host_name ?e ?s)"
    by blast
  from row get d'(1) have same: "d0 = ?d" "d0' = d'" by (simp_all only: option.inject)
  show ?thesis
    using v d'(1) flags facts [unfolded same env relays] set env(6) by blast
qed

end
