(* ===== verification/SpfProps.thy ===== *)
theory SpfProps
  imports DomainDns
begin

text \<open>
  The SPF record the server asks for names every relay. Receivers stop at ten DNS lookups, so the record can only be
  published for nine relays.
\<close>

definition relay_char :: "char \<Rightarrow> bool" where
  "relay_char c \<longleftrightarrow> is_digit c \<or> (97 \<le> code c \<and> code c \<le> 122) \<or> c \<in> set ''-._''"

text \<open>A relay reached by name, as \<open>list_active_tunnel_hosts\<close> returns it.\<close>

definition relay_name :: "string \<Rightarrow> bool" where
  "relay_name h \<longleftrightarrow> h \<noteq> [] \<and> list_all relay_char h \<and> parse_address h = None"

lemma relay_char_plain:
  assumes "relay_char c"
  shows "\<not> is_space c \<and> c \<noteq> CHR 0x2F \<and> c \<noteq> CHR ''='' \<and> code c < 128 \<and> lower_char c = c"
proof -
  have "48 \<le> code c \<and> code c \<le> 57 \<or> 97 \<le> code c \<and> code c \<le> 122 \<or> c = CHR ''-'' \<or> c = CHR ''.'' \<or> c = CHR ''_''"
    using assms by (auto simp: relay_char_def is_digit_def)
  then show ?thesis by (auto simp: is_space_def lower_char_def)
qed

lemma relay_name_chars:
  "relay_name h \<Longrightarrow> \<forall>c \<in> set h. \<not> is_space c \<and> c \<noteq> CHR 0x2F \<and> c \<noteq> CHR ''='' \<and> code c < 128 \<and> lower_char c = c"
  using relay_char_plain by (auto simp: relay_name_def list_all_iff)

lemma tunnel_mechanism_name: "relay_name h \<Longrightarrow> tunnel_mechanism h = ''a:'' @ h"
  by (simp add: relay_name_def tunnel_mechanism_def)

lemma mechanism_named:
  assumes "relay_name h"
  shows "mechanism_error raw (''a:'' @ h) = None" and "mechanism_name (''a:'' @ h) = ''a''" and "\<not> is_modifier (''a:'' @ h)"
proof -
  have w: "takeWhile (\<lambda>c. c \<noteq> CHR 0x2F \<and> \<not> is_space c) h = h"
    using relay_name_chars [OF assms] by (simp add: takeWhile_eq_all_conv)
  have "h \<noteq> []" using assms by (simp add: relay_name_def)
  then have "after_host ('':'' @ h) = Some []" by (simp add: after_host_def w Let_def del: takeWhile_eq_all_conv)
  then have "host_cidrs ''a'' (''a:'' @ h) = Some (None, None)"
    by (simp add: host_cidrs_def both_cidrs_def second_cidr_def)
  moreover show n: "mechanism_name (''a:'' @ h) = ''a''" by (simp add: mechanism_name_def lower_char_def)
  ultimately show "mechanism_error raw (''a:'' @ h) = None" unfolding mechanism_error_def n by (simp add: over_def)
  show "\<not> is_modifier (''a:'' @ h)" using relay_name_chars [OF assms] by (auto simp: is_modifier_def)
qed

lemma spf_terms_mx: "spf_terms seen n (''mx'' # rest) = spf_terms seen (Suc n) rest"
proof -
  have "mechanism_error ''mx'' ''mx'' = None" "mechanism_name ''mx'' \<in> set SPF_DNS_MECHANISMS" "\<not> is_modifier ''mx''"
    "hd ''mx'' \<notin> set SPF_QUALIFIERS" by code_simp+
  then show ?thesis by simp
qed

lemma spf_terms_all: "spf_terms seen n [''-all''] = Inr n"
proof -
  have "mechanism_error ''-all'' ''all'' = None" "mechanism_name ''all'' \<notin> set SPF_DNS_MECHANISMS" "\<not> is_modifier ''all''"
    "hd ''-all'' \<in> set SPF_QUALIFIERS" by code_simp+
  then show ?thesis by simp
qed

lemma spf_terms_named:
  "list_all relay_name hs \<Longrightarrow>
     spf_terms seen n (map tunnel_mechanism hs @ rest) = spf_terms seen (n + length hs) rest"
proof (induction hs arbitrary: n)
  case (Cons h hs)
  then have h: "relay_name h" by simp
  have q: "CHR ''a'' \<notin> set SPF_QUALIFIERS" and d: "''a'' \<in> set SPF_DNS_MECHANISMS" by code_simp+
  have "spf_terms seen n ((''a:'' @ h) # map tunnel_mechanism hs @ rest) = spf_terms seen (Suc n) (map tunnel_mechanism hs @ rest)"
    using q d mechanism_named [OF h] by simp
  with Cons h show ?case by (simp add: tunnel_mechanism_name)
qed simp

lemma join_append: "xs \<noteq> [] \<Longrightarrow> ys \<noteq> [] \<Longrightarrow> join sep (xs @ ys) = join sep xs @ sep @ join sep ys"
proof (induction sep xs rule: join.induct)
  case (2 sep p)
  then show ?case by (cases ys) auto
qed auto

definition spf_words :: "string list \<Rightarrow> string list" where
  "spf_words hs = ''v=spf1'' # ''mx'' # map tunnel_mechanism hs @ [''-all'']"

lemma expected_words: "hs \<noteq> [] \<Longrightarrow> build_spf_expected hostname hs = join '' '' (spf_words hs)"
proof -
  assume "hs \<noteq> []"
  then have "join '' '' ([''v=spf1'', ''mx''] @ (map tunnel_mechanism hs @ [''-all''])) =
      join '' '' [''v=spf1'', ''mx''] @ '' '' @ join '' '' (map tunnel_mechanism hs) @ '' '' @ ''-all''"
    by (simp only: join_append list.distinct map_is_Nil_conv append_is_Nil_conv simp_thms join.simps)
  moreover have "spf_words hs = [''v=spf1'', ''mx''] @ (map tunnel_mechanism hs @ [''-all''])" by (simp add: spf_words_def)
  ultimately have "join '' '' (spf_words hs) = join '' '' [''v=spf1'', ''mx''] @ '' '' @ join '' '' (map tunnel_mechanism hs) @ '' '' @ ''-all''"
    by (simp only:)
  with \<open>hs \<noteq> []\<close> show ?thesis by (simp add: build_spf_expected_def)
qed

lemma spf_words_plain:
  assumes "list_all relay_name hs" "w \<in> set (spf_words hs)"
  shows "w \<noteq> [] \<and> (\<forall>c \<in> set w. \<not> is_space c \<and> code c < 128 \<and> lower_char c = c)"
proof -
  have "list_all (\<lambda>w. w \<noteq> [] \<and> list_all (\<lambda>c. \<not> is_space c \<and> code c < 128 \<and> lower_char c = c) w) [''v=spf1'', ''mx'', ''-all'', ''a:'']"
    by code_simp
  then have fixed: "\<forall>c \<in> set w. \<not> is_space c \<and> code c < 128 \<and> lower_char c = c" if "w \<in> {''v=spf1'', ''mx'', ''-all'', ''a:''}" for w
    using that by (auto simp only: list_all_iff set_simps)
  from assms(2) consider "w \<in> {''v=spf1'', ''mx'', ''-all''}" | h where "h \<in> set hs" "w = tunnel_mechanism h"
    by (auto simp: spf_words_def)
  then show ?thesis
  proof cases
    case 1
    then show ?thesis using fixed [of w] by auto
  next
    case 2
    then have "relay_name h" using assms(1) by (simp add: list_all_iff)
    with 2 tunnel_mechanism_name relay_name_chars fixed [of "''a:''"] show ?thesis by auto
  qed
qed

lemma split_expected: "list_all relay_name hs \<Longrightarrow> split_ws (join '' '' (spf_words hs)) = spf_words hs"
  using spf_words_plain by (intro split_ws_join) (auto simp: list_all_iff)

lemma set_join: "set (join sep ws) \<subseteq> set sep \<union> (\<Union>w \<in> set ws. set w)"
  by (induction sep ws rule: join.induct) auto

lemma lower_expected: "list_all relay_name hs \<Longrightarrow> lower_text (join '' '' (spf_words hs)) = join '' '' (spf_words hs)"
proof (rule lower_text_plain)
  assume a: "list_all relay_name hs"
  have "code (CHR '' '') < 128 \<and> lower_char (CHR '' '') = CHR '' ''" by code_simp
  with spf_words_plain [OF a] set_join [of "'' ''" "spf_words hs"]
  show "list_all (\<lambda>c. code c < 128 \<and> lower_char c = c) (join '' '' (spf_words hs))" unfolding list_all_iff by fastforce
qed

lemma one_spaced_expected: "list_all relay_name hs \<Longrightarrow> one_spaced (join '' '' (spf_words hs)) = join '' '' (spf_words hs)"
  by (simp add: one_spaced_def lower_expected split_expected)

lemma validate_expected:
  assumes "list_all relay_name hs" "hs \<noteq> []"
  shows "fst (validate_spf_record (join '' '' (spf_words hs))) \<longleftrightarrow> length hs \<le> 9"
proof -
  let ?e = "join '' '' (spf_words hs)"
  have sp: "\<not> is_space (CHR ''v'')" "\<not> is_space (CHR ''l'')" by code_simp+
  have e: "?e = ''v=spf1 mx '' @ join '' '' (map tunnel_mechanism hs) @ '' -all''"
    using expected_words [OF assms(2)] assms(2) by (simp add: build_spf_expected_def)
  have strip: "strip ?e = ?e" unfolding e strip_def rstrip_by_def lstrip_by_def using sp by simp
  have "lower_text ''v=spf1'' = ''v=spf1''" by code_simp
  moreover have "spf_terms [] 0 (tl (spf_words hs)) = Inr (Suc (length hs))"
    by (simp only: spf_words_def list.sel spf_terms_mx spf_terms_named [OF assms(1)] spf_terms_all) simp
  ultimately show ?thesis
    unfolding validate_spf_record_def Let_def strip split_expected [OF assms(1)]
    by (simp add: spf_words_def)
qed

text \<open>C39: With relays reached by name, the SPF record the server asks for is one a receiver accepts, and any published
  record can satisfy the check, exactly when there are at most nine of them; the record itself is then one that does.
  With ten, the domain cannot be verified whatever is published.\<close>

theorem recommended_spf_limit:
  assumes "list_all relay_name hosts" "hosts \<noteq> []"
  shows "fst (validate_spf_record (build_spf_expected hostname hosts)) = (length hosts \<le> 9) \<and>
     (\<exists>published. spf_matches (build_spf_expected hostname hosts) published) = (length hosts \<le> 9) \<and>
     spf_matches (build_spf_expected hostname hosts) (build_spf_expected hostname hosts) = (length hosts \<le> 9)"
proof -
  let ?e = "build_spf_expected hostname hosts"
  have e: "?e = join '' '' (spf_words hosts)" by (rule expected_words [OF assms(2)])
  have valid: "fst (validate_spf_record ?e) \<longleftrightarrow> length hosts \<le> 9" unfolding e by (rule validate_expected [OF assms])
  have spaced: "one_spaced ?e = ?e" unfolding e by (rule one_spaced_expected [OF assms(1)])
  have self: "spf_matches ?e ?e \<longleftrightarrow> length hosts \<le> 9"
    unfolding spf_matches_def Let_def spaced valid by (auto simp: required_mechanisms_def split: option.splits prod.splits)
  have "length hosts \<le> 9" if "spf_matches ?e p" for p
    using that unfolding spf_matches_def Let_def spaced valid by simp
  with self valid show ?thesis by blast
qed

theorem recommended_spf_limit_witness:
  "\<not> (\<exists>published. spf_matches (build_spf_expected ''m.bc'' (map (\<lambda>d. ''edge'' @ [d] @ ''.bc'') ''0123456789'')) published) \<and>
   spf_matches (build_spf_expected ''m.bc'' (map (\<lambda>d. ''edge'' @ [d] @ ''.bc'') ''123456789''))
     (build_spf_expected ''m.bc'' (map (\<lambda>d. ''edge'' @ [d] @ ''.bc'') ''123456789''))"
proof -
  have "list_all relay_name (map (\<lambda>d. ''edge'' @ [d] @ ''.bc'') ''0123456789'')"
    "list_all relay_name (map (\<lambda>d. ''edge'' @ [d] @ ''.bc'') ''123456789'')" by code_simp+
  then show ?thesis using recommended_spf_limit [of _ "''m.bc''"] by simp
qed

end
