(* ===== verification/DomainTables.thy ===== *)
theory DomainTables
  imports DomainAdmin DemoCrypto
begin

text \<open>
  The OpenDKIM tables against the domains: read back the way OpenDKIM reads them, they give every domain its own key
  from the first request that could write them on, whatever came before; a request whose write the disk refuses
  leaves them behind the database.
\<close>

section \<open>Reading the tables\<close>

definition key_table :: "string \<Rightarrow> (string \<times> string \<times> string \<times> string) list" where
  "key_table txt = List.map_filter (\<lambda>l. case split_ws l of
       [entry, v] \<Rightarrow> (case split_on (CHR '':'') v of [d, sel, path] \<Rightarrow> Some (entry, d, sel, path) | _ \<Rightarrow> None)
     | _ \<Rightarrow> None) (split_on (CHR 0x0A) txt)"

definition signing_table :: "string \<Rightarrow> (string \<times> string) list" where
  "signing_table txt = List.map_filter (\<lambda>l. case split_ws l of
       [pattern, entry] \<Rightarrow> if prefix ''*@'' pattern then Some (drop 2 pattern, entry) else None
     | _ \<Rightarrow> None) (split_on (CHR 0x0A) txt)"

text \<open>Domain, selector and key file for mail from a domain.\<close>

definition signing_key :: "mail_config \<Rightarrow> string \<Rightarrow> (string \<times> string \<times> string) option" where
  "signing_key cf name = Option.bind (map_of (signing_table (mf_signing_table cf)) name) (map_of (key_table (mf_key_table cf)))"

definition own_key :: "mail_domain list \<Rightarrow> string \<Rightarrow> (string \<times> string \<times> string) option" where
  "own_key ds name =
     (case row_get d_name name ds of
        Some d \<Rightarrow> if signs d then Some (d_name d, dk_selector d, the (dk_key_path d)) else None
      | None \<Rightarrow> None)"

section \<open>Rows\<close>

definition table_word :: "string \<Rightarrow> bool" where
  "table_word s \<longleftrightarrow> s \<noteq> [] \<and> (\<forall>c \<in> set s. \<not> is_space c \<and> c \<noteq> CHR '':'')"

definition row_ok :: "mail_domain \<Rightarrow> bool" where
  "row_ok d \<longleftrightarrow> table_word (d_name d) \<and> table_word (dk_selector d) \<and> CHR ''.'' \<notin> set (dk_selector d) \<and>
     (truthy (dk_key_path d) \<longrightarrow> table_word (the (dk_key_path d)))"

lemma newline_space: "is_space (CHR 0x0A)" "is_space (CHR '' '')"
  by code_simp+

lemma table_word_append: "table_word a \<Longrightarrow> table_word b \<Longrightarrow> table_word (a @ b)"
  by (auto simp: table_word_def)

lemma table_word_newline: "table_word a \<Longrightarrow> CHR 0x0A \<notin> set a"
  using newline_space by (auto simp: table_word_def)

lemma dkim_entry_word: "row_ok d \<Longrightarrow> table_word (dkim_entry d)"
proof -
  have "table_word ''._domainkey.''" by (simp add: table_word_def is_space_def)
  then show "row_ok d \<Longrightarrow> table_word (dkim_entry d)"
    unfolding dkim_entry_def row_ok_def by (blast intro: table_word_append)
qed

lemma split_two_words:
  assumes "a \<noteq> []" "b \<noteq> []" "\<forall>c \<in> set a. \<not> is_space c" "\<forall>c \<in> set b. \<not> is_space c"
  shows "split_ws (a @ '' '' @ b) = [a, b]"
  using split_ws_join [of "[a, b]"] assms by simp

lemma key_line_read:
  assumes "row_ok d" "signs d"
  shows "split_ws (key_line d) = [dkim_entry d, d_name d @ '':'' @ dk_selector d @ '':'' @ the (dk_key_path d)]"
    and "split_on (CHR '':'') (d_name d @ '':'' @ dk_selector d @ '':'' @ the (dk_key_path d)) = [d_name d, dk_selector d, the (dk_key_path d)]"
    and "CHR 0x0A \<notin> set (key_line d)"
proof -
  have w: "table_word (d_name d)" "table_word (dk_selector d)" "table_word (the (dk_key_path d))" "table_word (dkim_entry d)"
    using assms dkim_entry_word by (auto simp: row_ok_def signs_def)
  have c: "\<not> is_space (CHR '':'')" by code_simp
  show "split_ws (key_line d) = [dkim_entry d, d_name d @ '':'' @ dk_selector d @ '':'' @ the (dk_key_path d)]"
    unfolding key_line_def using w c by (intro split_two_words) (auto simp: table_word_def)
  show "split_on (CHR '':'') (d_name d @ '':'' @ dk_selector d @ '':'' @ the (dk_key_path d)) = [d_name d, dk_selector d, the (dk_key_path d)]"
    using split_on_join [of "[d_name d, dk_selector d, the (dk_key_path d)]" "CHR '':''"] w by (auto simp: table_word_def)
  show "CHR 0x0A \<notin> set (key_line d)" using w table_word_newline by (auto simp: key_line_def)
qed

lemma signing_line_read:
  assumes "row_ok d"
  shows "split_ws (signing_line d) = [''*@'' @ d_name d, dkim_entry d]" and "CHR 0x0A \<notin> set (signing_line d)"
proof -
  have w: "table_word (d_name d)" "table_word (dkim_entry d)" using assms dkim_entry_word by (auto simp: row_ok_def)
  have c: "\<not> is_space (CHR ''*'')" "\<not> is_space (CHR ''@'')" by code_simp+
  have "split_ws ((''*@'' @ d_name d) @ '' '' @ dkim_entry d) = [''*@'' @ d_name d, dkim_entry d]"
    using w c by (intro split_two_words) (auto simp: table_word_def)
  then show "split_ws (signing_line d) = [''*@'' @ d_name d, dkim_entry d]" by (simp add: signing_line_def)
  show "CHR 0x0A \<notin> set (signing_line d)" using w table_word_newline by (auto simp: signing_line_def)
qed

lemma map_filter_simps: "List.map_filter f [] = []"
  "List.map_filter f (x # xs) = (case f x of None \<Rightarrow> List.map_filter f xs | Some y \<Rightarrow> y # List.map_filter f xs)"
  by (simp_all add: List.map_filter_def split: option.split)

lemma map_filter_lines:
  assumes "list_all (\<lambda>d. f (line d) = Some (g d) \<and> CHR 0x0A \<notin> set (line d)) ds" "f [] = None"
  shows "List.map_filter f (split_on (CHR 0x0A) (text_lines_of (map line ds))) = map g ds"
proof -
  have m: "List.map_filter f (map line es @ [[]]) = map g es" if "list_all (\<lambda>d. f (line d) = Some (g d)) es" for es
    using that assms(2) by (induction es) (auto simp: map_filter_simps)
  have "split_on (CHR 0x0A) (text_lines_of (map line ds)) = (if map line ds = [] then [[]] else map line ds) @ [[]]"
    unfolding text_lines_of_def using assms(1) by (intro split_on_join_nl) (auto simp: list_all_iff)
  with assms m [of ds] show ?thesis by (auto simp: map_filter_simps list_all_iff)
qed

lemma tables_read:
  assumes "list_all row_ok ds"
  shows "key_table (mf_key_table (rebuild_opendkim_tables ds cf)) =
      map (\<lambda>d. (dkim_entry d, d_name d, dk_selector d, the (dk_key_path d))) (filter signs ds)"
    and "signing_table (mf_signing_table (rebuild_opendkim_tables ds cf)) = map (\<lambda>d. (d_name d, dkim_entry d)) (filter signs ds)"
  unfolding key_table_def signing_table_def rebuild_opendkim_tables_def Let_def
  using assms key_line_read signing_line_read
  by (auto intro!: map_filter_lines simp: list_all_iff)


section \<open>The tables of distinct domains\<close>

lemma dkim_entry_inj:
  assumes "row_ok d" "row_ok e" "dkim_entry d = dkim_entry e"
  shows "d_name d = d_name e"
proof -
  have "split_first (CHR ''.'') (dkim_entry d) = Some (dk_selector d, ''_domainkey.'' @ d_name d)" if "row_ok d" for d
  proof -
    have "dkim_entry d = dk_selector d @ CHR ''.'' # (''_domainkey.'' @ d_name d)" by (simp add: dkim_entry_def)
    moreover have "CHR ''.'' \<notin> set (dk_selector d)" using that by (simp add: row_ok_def)
    ultimately show ?thesis by (simp only: split_first_append not_False_eq_True)
  qed
  from this [OF assms(1)] this [OF assms(2)] assms(3) have "''_domainkey.'' @ d_name d = ''_domainkey.'' @ d_name e"
    by (simp only: option.inject prod.inject)
  then show ?thesis by (simp only: same_append_eq)
qed

lemma map_of_rows:
  assumes "\<And>y. y \<in> set xs \<Longrightarrow> key y = key x \<Longrightarrow> val y = val x" "x \<in> set xs"
  shows "map_of (map (\<lambda>x. (key x, val x)) xs) (key x) = Some (val x)"
  using assms by (induction xs) fastforce+

lemma map_of_rows_None: "k \<notin> key ` set xs \<Longrightarrow> map_of (map (\<lambda>x. (key x, val x)) xs) k = None"
  by (induction xs) auto

lemma distinct_names: "distinct (map key xs) \<Longrightarrow> x \<in> set xs \<Longrightarrow> y \<in> set xs \<Longrightarrow> key x = key y \<Longrightarrow> x = y"
  by (auto simp: distinct_map dest: inj_onD)

lemma signing_key_rebuilt:
  assumes ok: "list_all row_ok ds" and dist: "distinct (map d_name ds)"
  shows "signing_key (rebuild_opendkim_tables ds cf) name = own_key ds name"
proof -
  let ?ds = "filter signs ds"
  let ?K = "map_of (map (\<lambda>d. (dkim_entry d, d_name d, dk_selector d, the (dk_key_path d))) ?ds)"
  let ?S = "map_of (map (\<lambda>d. (d_name d, dkim_entry d)) ?ds)"
  have same: "x = y" if "x \<in> set ds" "y \<in> set ds" "d_name x = d_name y" for x y
    using distinct_names [OF dist that] .
  have entry: "x = y" if "x \<in> set ds" "y \<in> set ds" "dkim_entry x = dkim_entry y" for x y
    using that ok same dkim_entry_inj by (simp add: list_all_iff)
  have key: "signing_key (rebuild_opendkim_tables ds cf) name = Option.bind (?S name) ?K"
    by (simp add: signing_key_def tables_read [OF ok])
  show ?thesis
  proof (cases "\<exists>d \<in> set ?ds. d_name d = name")
    case True
    then obtain d where d: "d \<in> set ds" "signs d" "d_name d = name" by auto
    have "?S (d_name d) = Some (dkim_entry d)" using d same by (intro map_of_rows) auto
    moreover have "?K (dkim_entry d) = Some (d_name d, dk_selector d, the (dk_key_path d))"
      using d entry by (intro map_of_rows) auto
    ultimately show ?thesis using d row_get_unique [OF dist d(1)] key by (simp add: own_key_def)
  next
    case False
    then have "?S name = None" by (intro map_of_rows_None) auto
    moreover have "own_key ds name = None"
      using False by (auto simp: own_key_def split: option.splits dest!: row_get_SomeD)
    ultimately show ?thesis using key by simp
  qed
qed

lemma own_key_perm:
  assumes "set xs = set ys" "distinct (map d_name xs)" "distinct (map d_name ys)"
  shows "own_key xs name = own_key ys name"
proof -
  have "row_get d_name name xs = row_get d_name name ys"
  proof (cases "name \<in> d_name ` set xs")
    case True
    then obtain d where "d \<in> set xs" "d_name d = name" by auto
    with row_get_unique [OF assms(2)] row_get_unique [OF assms(3)] assms(1) show ?thesis by auto
  next
    case False
    with assms(1) have "row_get d_name name xs = None" "row_get d_name name ys = None" by (simp_all add: row_get_None_iff)
    then show ?thesis by simp
  qed
  then show ?thesis by (simp add: own_key_def)
qed

section \<open>Names the requests let in\<close>

lemma label_char_word: "label_char c \<Longrightarrow> \<not> is_space c \<and> c \<noteq> CHR '':'' \<and> c \<noteq> CHR 0x0A"
  by (auto simp: label_char_def is_space_def is_alnum_def is_alpha_def is_digit_def)

lemma domain_name_word:
  assumes "validate_domain_name v0 = Inr v" shows "table_word v"
proof -
  let ?v = "lower_text (strip v0)"
  have v: "v = ?v" "v \<noteq> []" "List.map_filter domain_label_error (split_on (CHR ''.'') v) = []"
    using assms by (auto simp: validate_domain_name_def Let_def split: if_splits list.splits)
  have "\<forall>p \<in> set (split_on (CHR ''.'') v). domain_label_error p = None"
    using v(3) by (auto simp: List.map_filter_def filter_empty_conv)
  then have lab: "\<forall>p \<in> set (split_on (CHR ''.'') v). list_all label_char p"
    by (auto simp: domain_label_error_def split: if_splits)
  have "set v \<subseteq> insert (CHR ''.'') (\<Union>p \<in> set (split_on (CHR ''.'') v). set p)"
  proof -
    have "set (join sep ws) \<subseteq> set sep \<union> (\<Union>w \<in> set ws. set w)" for sep ws
      by (induction sep ws rule: join.induct) auto
    from this [of "''.''" "split_on (CHR ''.'') v"] show ?thesis by simp
  qed
  moreover have "\<not> is_space (CHR ''.'')" by code_simp
  ultimately show ?thesis using v(2) lab label_char_word by (fastforce simp: table_word_def list_all_iff)
qed

lemma selector_word:
  assumes "validate_dkim_selector v0 = Inr v" shows "table_word v \<and> CHR ''.'' \<notin> set v"
proof -
  have "selector_re v" using assms by (auto simp: validate_dkim_selector_def Let_def split: if_splits)
  then show ?thesis
    by (auto simp: selector_re_def table_word_def list_all_iff selector_char_def is_space_def is_digit_def)
qed

lemma new_domain_ok:
  assumes "domain_create_request q0 = Inr q"
  shows "row_ok (new_domain env now (dq_name q) (dq_selector q))" and
    "d_name (new_domain env now (dq_name q) (dq_selector q)) = dq_name q"
proof -
  from assms have w: "table_word (dq_name q)" "table_word (dq_selector q)" "CHR ''.'' \<notin> set (dq_selector q)"
    using domain_name_word selector_word by (auto simp: domain_create_request_def)
  have "table_word ''/etc/opendkim/keys/''" "table_word ''/''" "table_word ''.private''" by (simp_all add: table_word_def is_space_def)
  then have "table_word (''/etc/opendkim/keys/'' @ dq_name q @ ''/'' @ dq_selector q @ ''.private'')"
    using w by (intro table_word_append)
  with w show "row_ok (new_domain env now (dq_name q) (dq_selector q))"
    by (auto simp: row_ok_def new_domain_def generate_dkim_keys_def split: option.splits)
  show "d_name (new_domain env now (dq_name q) (dq_selector q)) = dq_name q" by (simp add: new_domain_def split_beta)
qed


section \<open>Requests\<close>

datatype domain_op =
    CreateDomain time domain_create
  | DeleteDomain string
  | VerifyDomain time string
  | StateOfDomain time string

fun domain_step :: "domain_env \<Rightarrow> domain_op \<Rightarrow> domain_state \<Rightarrow> domain_state" where
  "domain_step env (CreateDomain now q) s = snd (create_domain env now q s)"
| "domain_step env (DeleteDomain name) s = snd (delete_domain env name s)"
| "domain_step env (VerifyDomain now name) s = snd (verify_domain_dns env now name s)"
| "domain_step env (StateOfDomain now name) s = snd (get_dns_state env now name s)"

text \<open>Every request meets the surroundings of its own moment.\<close>

definition domain_run :: "(domain_env \<times> domain_op) list \<Rightarrow> domain_state \<Rightarrow> domain_state" where
  "domain_run ops s = foldl (\<lambda>s (env, op). domain_step env op s) s ops"

lemma domain_run_append: "domain_run (xs @ ys) s = domain_run ys (domain_run xs s)"
  by (simp add: domain_run_def)

lemma domain_run_Cons: "domain_run ((env, op) # ops) s = domain_run ops (domain_step env op s)"
  by (simp add: domain_run_def)

text \<open>A request that changes the domains and succeeds; the requests that write files.\<close>

fun accepted_change :: "domain_env \<Rightarrow> domain_op \<Rightarrow> domain_state \<Rightarrow> bool" where
  "accepted_change env (CreateDomain now q) s = (case fst (create_domain env now q s) of Inr _ \<Rightarrow> True | Inl _ \<Rightarrow> False)"
| "accepted_change env (DeleteDomain name) s = (case fst (delete_domain env name s) of Inr _ \<Rightarrow> True | Inl _ \<Rightarrow> False)"
| "accepted_change env _ s = False"

fun disk_accepts :: "domain_env \<times> domain_op \<Rightarrow> bool" where
  "disk_accepts (env, VerifyDomain now name) = True"
| "disk_accepts (env, StateOfDomain now name) = True"
| "disk_accepts (env, _) = de_writable env"

definition rows_inv :: "domain_state \<Rightarrow> bool" where
  "rows_inv s \<longleftrightarrow> list_all row_ok (do_domains s) \<and> distinct (map d_name (do_domains s))"

definition domains_inv :: "domain_state \<Rightarrow> bool" where
  "domains_inv s \<longleftrightarrow> rows_inv s \<and> (\<forall>name. signing_key (do_config s) name = own_key (do_domains s) name)"

lemma virtual_domains_keep_tables:
  "signing_key (rebuild_postfix_virtual_domains env ds c cf) = signing_key cf"
  by (intro ext) (simp add: signing_key_def rebuild_postfix_virtual_domains_def Let_def split: option.splits)

lemma rebuild_config_rows [simp]: "do_domains (snd (rebuild_config env s)) = do_domains s"
  by (simp add: rebuild_config_def Let_def)

lemma rows_inv_rebuild [simp]: "rows_inv (snd (rebuild_config env s)) = rows_inv s"
  by (simp add: rows_inv_def)

lemma rebuild_config_state:
  assumes "de_writable env"
  shows "signing_key (do_config (snd (rebuild_config env s))) = signing_key (rebuild_opendkim_tables (list_domains s) (do_config s))"
  using assms by (simp_all add: rebuild_config_def Let_def virtual_domains_keep_tables)

lemma rebuild_config_inv:
  assumes "de_writable env" "rows_inv s"
  shows "domains_inv (snd (rebuild_config env s))"
proof -
  have rows: "list_all row_ok (do_domains s)" "distinct (map d_name (do_domains s))"
    using assms(2) by (simp_all add: rows_inv_def)
  have set: "set (list_domains s) = set (do_domains s)" by (simp add: list_domains_def)
  have dist: "distinct (map d_name (list_domains s))"
  proof -
    have "inj_on d_name (set (do_domains s))" "distinct (do_domains s)" using rows(2) by (simp_all add: distinct_map)
    then show ?thesis by (simp add: distinct_map list_domains_def)
  qed
  have "list_all row_ok (list_domains s)" using rows(1) set by (simp add: list_all_iff)
  then have "signing_key (do_config (snd (rebuild_config env s))) name = own_key (do_domains s) name" for name
    using signing_key_rebuilt [OF _ dist] own_key_perm [OF set dist rows(2)] by (simp add: rebuild_config_state [OF assms(1)])
  with assms show ?thesis by (simp add: domains_inv_def)
qed

text \<open>What a request to create or delete a domain does to the rows, and when it reaches the files.\<close>

lemma create_domain_cases:
  assumes "rows_inv s"
  obtains e where "create_domain env now q0 s = (Inl e, s)"
  | s1 d where "rows_inv s1" "create_domain env now q0 s = (bind_res (fst (rebuild_config env s1)) (\<lambda>_. Inr d), snd (rebuild_config env s1))"
proof (cases "domain_create_request q0")
  case (Inr q)
  show thesis
  proof (cases "row_get d_name (dq_name q) (do_domains s)")
    case None
    let ?d = "new_domain env now (dq_name q) (dq_selector q)"
    have "rows_inv (s\<lparr>do_domains := do_domains s @ [?d]\<rparr>)"
      using assms None new_domain_ok [OF Inr] by (auto simp: rows_inv_def row_get_None_iff)
    with Inr None show thesis by (intro that(2)) (auto simp: create_domain_def add_domain_def Let_def split_beta)
  qed (use Inr that(1) in \<open>simp add: create_domain_def\<close>)
qed (use that(1) in \<open>simp add: create_domain_def\<close>)

lemma delete_domain_cases:
  assumes "rows_inv s"
  obtains e where "delete_domain env name s = (Inl e, s)"
  | s1 where "rows_inv s1" "delete_domain env name s = (or_404 (fst (rebuild_config env s1)), snd (rebuild_config env s1))"
proof (cases "get_domain_detail name s")
  case (Inl e)
  then have "delete_domain env name s = (or_404 (Inl e), s)" by (simp add: delete_domain_def remove_domain_def)
  moreover have "\<exists>e'. or_404 (Inl e) = (Inl e' :: unit result)" by (simp add: or_404_def split: error.splits)
  ultimately show thesis using that(1) by auto
next
  case (Inr d)
  have "rows_inv (s\<lparr>do_domains := row_del d_name name (do_domains s)\<rparr>)"
    using assms by (auto simp: rows_inv_def list_all_iff set_row_del distinct_row_del)
  with Inr show thesis by (intro that(2)) (auto simp: delete_domain_def remove_domain_def split_beta)
qed

lemma rebuild_accepted: "fst (rebuild_config env s) = Inr u \<longleftrightarrow> de_writable env"
  by (simp add: rebuild_config_def Let_def)

lemma domains_inv_rows: "domains_inv s \<Longrightarrow> rows_inv s"
  by (simp add: domains_inv_def)

lemma domain_create_inv:
  assumes "de_writable env" "domains_inv s" shows "domains_inv (snd (create_domain env now q0 s))"
  using domains_inv_rows [OF assms(2)]
  by (cases rule: create_domain_cases [where env = env and now = now and ?q0.0 = q0]) (use assms rebuild_config_inv in simp_all)

lemma delete_inv:
  assumes "de_writable env" "domains_inv s" shows "domains_inv (snd (delete_domain env name s))"
  using domains_inv_rows [OF assms(2)]
  by (cases rule: delete_domain_cases [where env = env and name = name]) (use assms rebuild_config_inv in simp_all)

lemma accepted_change_inv:
  assumes "accepted_change env op s" and "rows_inv s"
  shows "domains_inv (domain_step env op s)"
proof (cases op)
  case (CreateDomain now q)
  from assms(2) show ?thesis
  proof (cases rule: create_domain_cases [where env = env and now = now and ?q0.0 = q])
    case (2 s1 d)
    with assms(1) CreateDomain have "de_writable env"
      by (cases "fst (rebuild_config env s1)") (auto simp: rebuild_accepted)
    with 2 CreateDomain rebuild_config_inv show ?thesis by simp
  qed (use assms(1) CreateDomain in simp)
next
  case (DeleteDomain name)
  from assms(2) show ?thesis
  proof (cases rule: delete_domain_cases [where env = env and name = name])
    case (2 s1)
    with assms(1) DeleteDomain have "de_writable env"
      by (cases "fst (rebuild_config env s1)") (auto simp: rebuild_accepted or_404_def split: error.splits)
    with 2 DeleteDomain rebuild_config_inv show ?thesis by simp
  qed (use assms(1) DeleteDomain in simp)
qed (use assms(1) in simp_all)

text \<open>A verdict leaves what the tables depend on alone.\<close>

definition same_key :: "mail_domain \<Rightarrow> mail_domain \<Rightarrow> bool" where
  "same_key d e \<longleftrightarrow> d_name d = d_name e \<and> d_is_active d = d_is_active e \<and> dk_selector d = dk_selector e \<and> dk_key_path d = dk_key_path e"

lemma row_put_rows:
  assumes "rows_inv s" "row_get d_name name (do_domains s) = Some d" "same_key d' d"
  shows "rows_inv (s\<lparr>do_domains := row_put d_name d' (do_domains s)\<rparr>)"
proof -
  from row_get_SomeD [OF assms(2)] have d: "d \<in> set (do_domains s)" by auto
  have "row_ok d' = row_ok d" using assms(3) by (simp add: same_key_def row_ok_def)
  then have "row_ok d'" using d assms(1) by (simp add: rows_inv_def list_all_iff)
  then show ?thesis
    using assms(1) set_row_put [of d_name d' "do_domains s"] by (auto simp: rows_inv_def list_all_iff)
qed

lemma row_put_inv:
  assumes "domains_inv s" "row_get d_name name (do_domains s) = Some d" "same_key d' d"
  shows "domains_inv (s\<lparr>do_domains := row_put d_name d' (do_domains s)\<rparr>)"
proof -
  have n: "d_name d' = name" using row_get_SomeD [OF assms(2)] assms(3) by (simp add: same_key_def)
  have ok: "signs d' = signs d" using assms(3) by (simp add: same_key_def signs_def)
  have "own_key (row_put d_name d' (do_domains s)) k = own_key (do_domains s) k" for k
  proof (cases "k = name")
    case True
    with assms(2,3) n ok show ?thesis by (simp add: own_key_def row_get_put same_key_def)
  next
    case False
    with n show ?thesis by (simp add: own_key_def row_get_put)
  qed
  with assms row_put_rows [OF domains_inv_rows] show ?thesis by (simp add: domains_inv_def)
qed

lemma stamp_same_key: "same_key (stamp_audit_timestamps checks now d) d"
proof -
  have "same_key (fold (\<lambda>slot dm. let dm1 = dm\<lparr>dk_checked_at := (dk_checked_at dm)(slot \<mapsto> now)\<rparr>
      in if fst (checks slot) then dm1\<lparr>dk_verified_at := (dk_verified_at dm)(slot \<mapsto> now)\<rparr> else dm1) slots d) d" for slots
    by (induction slots arbitrary: d) (auto simp: same_key_def Let_def)
  then show ?thesis by (simp add: stamp_audit_timestamps_def)
qed

lemma verify_domain_dns_cases:
  obtains "snd (verify_domain_dns env now name s) = s"
  | d d' where "row_get d_name name (do_domains s) = Some d" "same_key d' d"
    "snd (verify_domain_dns env now name s) = s\<lparr>do_domains := row_put d_name d' (do_domains s)\<rparr>"
proof (cases "row_get d_name name (do_domains s)")
  case (Some d)
  have "same_key (stamp_audit_timestamps checks now (set_verified checks now d)) d" for checks
    using stamp_same_key [of checks now "set_verified checks now d"] by (simp add: same_key_def set_verified_def)
  with Some show thesis
    by (intro that(2)) (auto simp: verify_domain_dns_def verify_dns_def get_domain_detail_def Let_def split_beta)
qed (use that(1) in \<open>simp add: verify_domain_dns_def verify_dns_def get_domain_detail_def\<close>)

lemma get_dns_state_cases:
  obtains "snd (get_dns_state env now name s) = s"
  | d d' where "row_get d_name name (do_domains s) = Some d" "same_key d' d"
    "snd (get_dns_state env now name s) = s\<lparr>do_domains := row_put d_name d' (do_domains s)\<rparr>"
proof (cases "row_get d_name name (do_domains s)")
  case (Some d)
  with stamp_same_key show thesis
    by (intro that(2)) (auto simp: get_dns_state_def compute_dns_state_def get_domain_detail_def Let_def split_beta)
qed (use that(1) in \<open>simp add: get_dns_state_def compute_dns_state_def get_domain_detail_def\<close>)

text \<open>The rows stay well formed under every request, also one whose write is refused; tables that are
  current stay so when the disk accepts.\<close>

lemma domain_step_rows: "rows_inv s \<Longrightarrow> rows_inv (domain_step env op s)"
proof (cases op)
  case (CreateDomain now q)
  assume "rows_inv s"
  then show ?thesis
    by (cases rule: create_domain_cases [where env = env and now = now and ?q0.0 = q])
      (simp_all add: CreateDomain \<open>rows_inv s\<close>)
next
  case (DeleteDomain name)
  assume "rows_inv s"
  then show ?thesis
    by (cases rule: delete_domain_cases [where env = env and name = name]) (simp_all add: DeleteDomain \<open>rows_inv s\<close>)
next
  case (VerifyDomain now name)
  assume "rows_inv s"
  then show ?thesis
    by (cases rule: verify_domain_dns_cases [of env now name s]) (simp_all add: VerifyDomain row_put_rows)
next
  case (StateOfDomain now name)
  assume "rows_inv s"
  then show ?thesis
    by (cases rule: get_dns_state_cases [of env now name s]) (simp_all add: StateOfDomain row_put_rows)
qed

lemma domain_step_inv:
  assumes "disk_accepts (env, op)" and "domains_inv s"
  shows "domains_inv (domain_step env op s)"
proof (cases op)
  case (VerifyDomain now name)
  show ?thesis
    by (cases rule: verify_domain_dns_cases [of env now name s]) (simp_all add: VerifyDomain assms(2) row_put_inv)
next
  case (StateOfDomain now name)
  show ?thesis
    by (cases rule: get_dns_state_cases [of env now name s]) (simp_all add: StateOfDomain assms(2) row_put_inv)
qed (use assms domain_create_inv delete_inv in simp_all)

lemma domain_run_rows: "rows_inv s \<Longrightarrow> rows_inv (domain_run ops s)"
  unfolding domain_run_def by (induction ops arbitrary: s) (auto simp: domain_step_rows split_beta)

lemma domain_run_inv: "list_all disk_accepts ops \<Longrightarrow> domains_inv s \<Longrightarrow> domains_inv (domain_run ops s)"
  unfolding domain_run_def by (induction ops arbitrary: s) (auto simp: domain_step_inv split_beta)

text \<open>C40: The OpenDKIM tables. Starting without domains, let any requests be served, with any DNS answers and key generation, some of
  them with a disk that refuses the files; then a request that creates or deletes a domain succeeds, and in the requests after it
  every one that creates or deletes a domain meets a disk that accepts. Then OpenDKIM, reading its two tables, signs mail
  from a name with that domain's selector and key when it is an active domain with a key, and does not sign it otherwise.\<close>

theorem dkim_tables_current:
  assumes "do_domains s = []" and "accepted_change env op (domain_run before s)" and "list_all disk_accepts after"
    and "s' = domain_run (before @ (env, op) # after) s"
  shows "signing_key (do_config s') name =
     (case row_get d_name name (do_domains s') of
        None \<Rightarrow> None
      | Some d \<Rightarrow> if d_is_active d \<and> truthy (dk_key_path d) then Some (name, dk_selector d, the (dk_key_path d)) else None)"
proof -
  have "rows_inv s" using assms(1) by (simp add: rows_inv_def)
  then have "rows_inv (domain_run before s)" by (rule domain_run_rows)
  from domain_run_inv [OF assms(3) accepted_change_inv [OF assms(2) this]]
  have "domains_inv s'" by (simp add: assms(4) domain_run_append domain_run_Cons)
  then show ?thesis
    by (auto simp: domains_inv_def own_key_def signs_def split: option.splits dest: row_get_SomeD)
qed

text \<open>Two domains, one of them deleted again; key generation fails for the third.\<close>

definition tables_dns :: dns_world where
  "tables_dns = \<lparr>dw_txt = (\<lambda>_. None), dw_mx = (\<lambda>_. None), dw_ips = (\<lambda>_ _. None), dw_ptr = (\<lambda>_. None), dw_global = (\<lambda>_. False),
     dw_policy = (\<lambda>_. FetchTimedOut)\<rparr>"

definition tables_env :: domain_env where
  "tables_env = \<lparr>de_settings = demo_settings,
     de_os = \<lparr>os_mkdir = True, os_hash = Inr, os_users_write = True, os_users_remove = True, os_rmtree = True, os_postfix = True\<rparr>,
     de_genkey = (\<lambda>name _. if name = ''z.bc'' then None else Some None), de_postconf = (\<lambda>_ c. c), de_writable = True,
     de_dns = tables_dns\<rparr>"

definition tables_start :: domain_state where
  "tables_start = \<lparr>do_domains = [], do_hostname = Some ''m.bc'', do_tunnels = [], do_tunnel_file = None,
     do_config = \<lparr>mf_key_table = [], mf_signing_table = [], mf_trusted_hosts = [], mf_main_cf = None, mf_virtual_domains = []\<rparr>,
     do_mail = \<lparr>ms_db = demo_db, ms_users_file = None, ms_storage = False, ms_maildirs = [], ms_virtual_mailboxes = [],
       ms_sender_logins = [], ms_catchall_map = None, ms_bus = empty_bus\<rparr>\<rparr>"

definition tables_ops :: "(domain_env \<times> domain_op) list" where
  "tables_ops = map (Pair tables_env)
     [CreateDomain 2 \<lparr>dq_name = ''b.bc'', dq_selector = ''k''\<rparr>,
      CreateDomain 3 \<lparr>dq_name = ''z.bc'', dq_selector = ''k''\<rparr>, DeleteDomain ''b.bc'']"

text \<open>The first domain is created while the disk refuses: the row is there, a second attempt is answered
  with 409, and the domain is signed for only after the next accepted change.\<close>

definition refused_first :: "(domain_env \<times> domain_op) list" where
  "refused_first = [(tables_env\<lparr>de_writable := False\<rparr>, CreateDomain 1 \<lparr>dq_name = ''a.bc'', dq_selector = ''k''\<rparr>)]"

lemma refused_write_leaves_tables:
  "let s = domain_run refused_first tables_start
   in map (\<lambda>d. (d_name d, d_is_active d, dk_key_path d)) (do_domains s) = [(''a.bc'', True, Some ''/etc/opendkim/keys/a.bc/k.private'')] \<and>
      signing_key (do_config s) ''a.bc'' = None \<and>
      (case fst (create_domain tables_env 2 \<lparr>dq_name = ''a.bc'', dq_selector = ''k''\<rparr> s) of
         Inl e \<Rightarrow> e = Http 409 (''Domain '' @ quoted ''a.bc'' @ '' already exists'')
       | Inr _ \<Rightarrow> False)"
  by code_simp

theorem dkim_tables_current_witness:
  "map (signing_key (do_config (domain_run (refused_first @ tables_ops) tables_start))) [''a.bc'', ''b.bc'', ''z.bc''] =
     [Some (''a.bc'', ''k'', ''/etc/opendkim/keys/a.bc/k.private''), None, None]"
proof -
  have start: "do_domains tables_start = []" by (simp add: tables_start_def)
  have first: "accepted_change tables_env (CreateDomain 2 \<lparr>dq_name = ''b.bc'', dq_selector = ''k''\<rparr>) (domain_run refused_first tables_start)"
    by code_simp
  have after: "list_all disk_accepts (tl tables_ops)" by (simp add: tables_ops_def tables_env_def)
  have ops: "domain_run (refused_first @ tables_ops) tables_start =
      domain_run (refused_first @ (tables_env, CreateDomain 2 \<lparr>dq_name = ''b.bc'', dq_selector = ''k''\<rparr>) # tl tables_ops) tables_start"
    by (simp add: tables_ops_def)
  have "map (\<lambda>d. (d_name d, d_is_active d, dk_selector d, dk_key_path d)) (do_domains (domain_run (refused_first @ tables_ops) tables_start)) =
      [(''a.bc'', True, ''k'', Some ''/etc/opendkim/keys/a.bc/k.private''), (''z.bc'', True, ''k'', None)]"
    by code_simp
  then show ?thesis
    by (auto simp: dkim_tables_current [OF start first after ops] row_get_Cons row_get_Nil)
qed

end
