(* ===== verification/HttpBin.thy ===== *)
theory HttpBin
  imports Prelude Json
begin

text \<open>
  \<^verbatim>\<open>httpbin/service.py\<close>, \<^verbatim>\<open>httpbin/router.py\<close>: bins that record the HTTP requests sent to them. Management
  needs a signed-in user; the capture address is public. Fresh identifiers and the time are arguments of a request.
\<close>

section \<open>State\<close>

record http_bin =
  hb_id :: string
  hb_user :: string
  hb_name :: string
  hb_status :: int
  hb_body :: "string option"
  hb_type :: string
  hb_created :: time

record captured =
  cp_id :: string
  cp_bin :: string
  cp_method :: string
  cp_path :: string
  cp_headers :: "(string \<times> string) list"
  cp_query :: "(string \<times> string) list"
  cp_body :: "string option"
  cp_type :: "string option"
  cp_addr :: "string option"
  cp_created :: time

record bin_db =
  bins :: "http_bin list"
  captures :: "captured list"

record bin_create =
  bc_name :: string
  bc_status :: int
  bc_body :: string
  bc_type :: string

record bin_update =
  bu_name :: "string option"
  bu_status :: "int option"
  bu_body :: "string option"
  bu_type :: "string option"

record bin_response =
  br_bin :: http_bin
  br_count :: nat

text \<open>A request to the capture address, as the framework hands it over: the header lines in order, with
  lower-case names and the bytes of their values, the decoded pairs of the query string in order, and the bytes of the body.\<close>

record incoming =
  in_method :: string
  in_path :: string
  in_headers :: "(string \<times> string) list"
  in_query :: "(string \<times> string) list"
  in_body :: string
  in_client :: "string option"

record bin_answer =
  ba_content :: string
  ba_status :: int
  ba_type :: string

section \<open>Service\<close>

definition get_bins :: "string \<Rightarrow> bin_db \<Rightarrow> http_bin list" where
  "get_bins u s = filter (\<lambda>b. hb_user b = u) (bins s)"

definition get_bin_by_id :: "string \<Rightarrow> string \<Rightarrow> bin_db \<Rightarrow> http_bin option" where
  "get_bin_by_id i u s = find (\<lambda>b. hb_id b = i \<and> hb_user b = u) (bins s)"

definition get_bin_by_id_public :: "string \<Rightarrow> bin_db \<Rightarrow> http_bin option" where
  "get_bin_by_id_public i s = row_get hb_id i (bins s)"

definition create_bin :: "string \<Rightarrow> time \<Rightarrow> string \<Rightarrow> bin_create \<Rightarrow> bin_db \<Rightarrow> http_bin \<times> bin_db" where
  "create_bin fresh now u q s =
     (let b = \<lparr>hb_id = fresh, hb_user = u, hb_name = bc_name q, hb_status = bc_status q, hb_body = Some (bc_body q),
               hb_type = bc_type q, hb_created = now\<rparr>
      in (b, s\<lparr>bins := bins s @ [b]\<rparr>))"

definition or_old :: "'a option \<Rightarrow> 'a \<Rightarrow> 'a" where
  "or_old new old = (case new of None \<Rightarrow> old | Some v \<Rightarrow> v)"

definition update_bin :: "string \<Rightarrow> string \<Rightarrow> bin_update \<Rightarrow> bin_db \<Rightarrow> http_bin option \<times> bin_db" where
  "update_bin i u q s =
     (case get_bin_by_id i u s of
        None \<Rightarrow> (None, s)
      | Some b \<Rightarrow>
          (let b' = b\<lparr>hb_name := or_old (bu_name q) (hb_name b), hb_status := or_old (bu_status q) (hb_status b),
                      hb_body := (case bu_body q of None \<Rightarrow> hb_body b | Some t \<Rightarrow> Some t),
                      hb_type := or_old (bu_type q) (hb_type b)\<rparr>
           in (Some b', s\<lparr>bins := row_put hb_id b' (bins s)\<rparr>)))"

text \<open>The captured requests go with their bin.\<close>

definition delete_bin :: "string \<Rightarrow> string \<Rightarrow> bin_db \<Rightarrow> bool \<times> bin_db" where
  "delete_bin i u s =
     (case get_bin_by_id i u s of
        None \<Rightarrow> (False, s)
      | Some b \<Rightarrow> (True, s\<lparr>bins := row_del hb_id i (bins s), captures := filter (\<lambda>r. cp_bin r \<noteq> i) (captures s)\<rparr>))"

definition get_request_count :: "string \<Rightarrow> bin_db \<Rightarrow> nat" where
  "get_request_count i s = length (filter (\<lambda>r. cp_bin r = i) (captures s))"

definition capture_request :: "captured \<Rightarrow> bin_db \<Rightarrow> bin_db" where
  "capture_request r s = s\<lparr>captures := captures s @ [r]\<rparr>"

definition get_requests :: "string \<Rightarrow> nat \<Rightarrow> nat \<Rightarrow> bin_db \<Rightarrow> captured list \<times> nat" where
  "get_requests i limit offset s =
     (take limit (drop offset (sort_key (\<lambda>r. - cp_created r) (filter (\<lambda>r. cp_bin r = i) (captures s)))), get_request_count i s)"

definition delete_request :: "string \<Rightarrow> bin_db \<Rightarrow> bool \<times> bin_db" where
  "delete_request i s =
     (case row_get cp_id i (captures s) of
        None \<Rightarrow> (False, s)
      | Some r \<Rightarrow> (True, s\<lparr>captures := row_del cp_id i (captures s)\<rparr>))"

definition clear_requests :: "string \<Rightarrow> bin_db \<Rightarrow> nat \<times> bin_db" where
  "clear_requests i s = (get_request_count i s, s\<lparr>captures := filter (\<lambda>r. cp_bin r \<noteq> i) (captures s)\<rparr>)"

section \<open>Endpoints\<close>

definition bin_response :: "bin_db \<Rightarrow> http_bin \<Rightarrow> bin_response" where
  "bin_response s b = \<lparr>br_bin = b, br_count = get_request_count (hb_id b) s\<rparr>"

definition bin_not_found :: error where "bin_not_found = Http 404 ''Bin not found''"

datatype bin_result =
    BinList "bin_response list"
  | OneBin bin_response
  | Requests "captured list" nat
  | NoContent
  | Captured bin_answer

definition list_bins :: "string \<Rightarrow> bin_db \<Rightarrow> bin_result result \<times> bin_db" where
  "list_bins u s = (Inr (BinList (map (bin_response s) (get_bins u s))), s)"

definition create_bin_endpoint :: "string \<Rightarrow> time \<Rightarrow> string \<Rightarrow> bin_create \<Rightarrow> bin_db \<Rightarrow> bin_result result \<times> bin_db" where
  "create_bin_endpoint fresh now u q s = (let (b, s') = create_bin fresh now u q s in (Inr (OneBin (bin_response s' b)), s'))"

definition get_bin_endpoint :: "string \<Rightarrow> string \<Rightarrow> bin_db \<Rightarrow> bin_result result \<times> bin_db" where
  "get_bin_endpoint u i s =
     (case get_bin_by_id i u s of None \<Rightarrow> (Inl bin_not_found, s) | Some b \<Rightarrow> (Inr (OneBin (bin_response s b)), s))"

definition update_bin_endpoint :: "string \<Rightarrow> string \<Rightarrow> bin_update \<Rightarrow> bin_db \<Rightarrow> bin_result result \<times> bin_db" where
  "update_bin_endpoint u i q s =
     (case update_bin i u q s of (None, s') \<Rightarrow> (Inl bin_not_found, s') | (Some b, s') \<Rightarrow> (Inr (OneBin (bin_response s' b)), s'))"

definition delete_bin_endpoint :: "string \<Rightarrow> string \<Rightarrow> bin_db \<Rightarrow> bin_result result \<times> bin_db" where
  "delete_bin_endpoint u i s = (let (ok, s') = delete_bin i u s in (if ok then Inr NoContent else Inl bin_not_found, s'))"

definition list_bin_requests :: "string \<Rightarrow> string \<Rightarrow> int \<Rightarrow> int \<Rightarrow> bin_db \<Rightarrow> bin_result result \<times> bin_db" where
  "list_bin_requests u i limit offset s =
     (if limit < 1 \<or> 500 < limit \<or> offset < 0 then (Inl (Http 422 ''value out of range''), s)
      else (case get_bin_by_id i u s of
              None \<Rightarrow> (Inl bin_not_found, s)
            | Some b \<Rightarrow> (let (rs, total) = get_requests i (nat limit) (nat offset) s in (Inr (Requests rs total), s))))"

definition clear_bin_requests :: "string \<Rightarrow> string \<Rightarrow> bin_db \<Rightarrow> bin_result result \<times> bin_db" where
  "clear_bin_requests u i s =
     (case get_bin_by_id i u s of None \<Rightarrow> (Inl bin_not_found, s) | Some b \<Rightarrow> (Inr NoContent, snd (clear_requests i s)))"

definition delete_request_endpoint :: "string \<Rightarrow> string \<Rightarrow> bin_db \<Rightarrow> bin_result result \<times> bin_db" where
  "delete_request_endpoint u i s =
     (let (ok, s') = delete_request i s in (if ok then Inr NoContent else Inl (Http 404 ''Request not found''), s'))"

text \<open>\<open>bytes.decode("utf-8", errors="replace")\<close>, with text as its UTF-8 bytes: what is well formed stays, and
  every longest beginning of a well-formed sequence that breaks off, or single wrong byte, becomes U+FFFD.
  \<open>second_byte b\<close> is the range of the byte after the leading byte \<open>b\<close>, \<open>tail_length\<close> the number of bytes after it.\<close>

definition tail_length :: "nat \<Rightarrow> nat" where
  "tail_length b = (if 0xC2 \<le> b \<and> b \<le> 0xDF then 1 else if 0xE0 \<le> b \<and> b \<le> 0xEF then 2 else if 0xF0 \<le> b \<and> b \<le> 0xF4 then 3 else 0)"

definition second_byte :: "nat \<Rightarrow> nat \<Rightarrow> bool" where
  "second_byte b c \<longleftrightarrow> (if b = 0xE0 then 0xA0 else if b = 0xF0 then 0x90 else 0x80) \<le> c \<and>
     c \<le> (if b = 0xED then 0x9F else if b = 0xF4 then 0x8F else 0xBF)"

definition later_byte :: "nat \<Rightarrow> bool" where
  "later_byte c \<longleftrightarrow> 0x80 \<le> c \<and> c \<le> 0xBF"

text \<open>The bytes after the leading byte \<open>b\<close> that go on with its sequence.\<close>

definition sequence_tail :: "nat \<Rightarrow> string \<Rightarrow> string" where
  "sequence_tail b s =
     (case s of [] \<Rightarrow> []
      | c # rest \<Rightarrow> if 1 \<le> tail_length b \<and> second_byte b (code c)
                    then c # take (tail_length b - 1) (takeWhile (\<lambda>d. later_byte (code d)) rest) else [])"

definition REPLACEMENT :: string where
  "REPLACEMENT = [CHR 0xEF, CHR 0xBF, CHR 0xBD]"

function decode_replace :: "string \<Rightarrow> string" where
  "decode_replace [] = []"
| "decode_replace (c # s) =
     (if code c < 0x80 then c # decode_replace s
      else (let t = sequence_tail (code c) s
            in (if tail_length (code c) \<noteq> 0 \<and> length t = tail_length (code c) then c # t else REPLACEMENT) @
               decode_replace (drop (length t) s)))"
  by pat_completeness auto
termination by (relation "measure length") (auto simp: Let_def)

text \<open>The text of Latin-1 bytes, which header values are taken for.\<close>

definition latin1_char :: "char \<Rightarrow> string" where
  "latin1_char c = (if code c < 0x80 then [c] else [char_of (0xC0 + code c div 64), char_of (0x80 + code c mod 64)])"

definition latin1_text :: "string \<Rightarrow> string" where
  "latin1_text s = concat (map latin1_char s)"

text \<open>\<open>dict(m)\<close> of a mapping that repeats keys: every key once, in the order of first occurrence, with the value
  the mapping answers; that is the first value of a header and the last value of a query parameter.\<close>

definition dict_of :: "('k \<Rightarrow> 'v) \<Rightarrow> 'k list \<Rightarrow> ('k \<times> 'v) list" where
  "dict_of val ks = map (\<lambda>k. (k, val k)) (rev (remdups (rev ks)))"

definition captured_header :: "incoming \<Rightarrow> string \<Rightarrow> string option" where
  "captured_header q name = map_option latin1_text (map_of (in_headers q) name)"

definition captured_of :: "string \<Rightarrow> time \<Rightarrow> string \<Rightarrow> incoming \<Rightarrow> captured" where
  "captured_of fresh now i q =
     \<lparr>cp_id = fresh, cp_bin = i, cp_method = in_method q, cp_path = CHR 0x2F # in_path q,
      cp_headers = dict_of (\<lambda>k. the (captured_header q k)) (map fst (in_headers q)),
      cp_query = dict_of (\<lambda>k. the (map_of (rev (in_query q)) k)) (map fst (in_query q)),
      cp_body = (if in_body q = [] then None else Some (decode_replace (in_body q))),
      cp_type = captured_header q ''content-type'', cp_addr = in_client q, cp_created = now\<rparr>"

definition handle_capture :: "string \<Rightarrow> time \<Rightarrow> string \<Rightarrow> incoming \<Rightarrow> bin_db \<Rightarrow> bin_result result \<times> bin_db" where
  "handle_capture fresh now i q s =
     (case get_bin_by_id_public i s of
        None \<Rightarrow> (Inl bin_not_found, s)
      | Some b \<Rightarrow>
          (Inr (Captured \<lparr>ba_content = (case hb_body b of None \<Rightarrow> [] | Some t \<Rightarrow> t), ba_status = hb_status b, ba_type = hb_type b\<rparr>),
           capture_request (captured_of fresh now i q) s))"

section \<open>Requests in order\<close>

datatype bin_op =
    ListBins string
  | CreateBin string time string bin_create
  | GetBin string string
  | UpdateBin string string bin_update
  | DeleteBin string string
  | ListRequests string string int int
  | ClearRequests string string
  | DeleteRequest string string
  | Capture string time string incoming

fun bin_step :: "bin_op \<Rightarrow> bin_db \<Rightarrow> bin_result result \<times> bin_db" where
  "bin_step (ListBins u) s = list_bins u s"
| "bin_step (CreateBin fresh now u q) s = create_bin_endpoint fresh now u q s"
| "bin_step (GetBin u i) s = get_bin_endpoint u i s"
| "bin_step (UpdateBin u i q) s = update_bin_endpoint u i q s"
| "bin_step (DeleteBin u i) s = delete_bin_endpoint u i s"
| "bin_step (ListRequests u i limit offset) s = list_bin_requests u i limit offset s"
| "bin_step (ClearRequests u i) s = clear_bin_requests u i s"
| "bin_step (DeleteRequest u i) s = delete_request_endpoint u i s"
| "bin_step (Capture fresh now i q) s = handle_capture fresh now i q s"

definition bin_run :: "bin_op list \<Rightarrow> bin_db \<Rightarrow> bin_db" where
  "bin_run ops s = foldl (\<lambda>s op. snd (bin_step op s)) s ops"

text \<open>Whose request it is; nobody's for a capture.\<close>

fun bin_user :: "bin_op \<Rightarrow> string option" where
  "bin_user (ListBins u) = Some u"
| "bin_user (CreateBin fresh now u q) = Some u"
| "bin_user (GetBin u i) = Some u"
| "bin_user (UpdateBin u i q) = Some u"
| "bin_user (DeleteBin u i) = Some u"
| "bin_user (ListRequests u i limit offset) = Some u"
| "bin_user (ClearRequests u i) = Some u"
| "bin_user (DeleteRequest u i) = Some u"
| "bin_user (Capture fresh now i q) = None"

text \<open>Fresh identifiers are new, and bins have distinct ones.\<close>

fun bin_fresh :: "bin_op \<Rightarrow> bin_db \<Rightarrow> bool" where
  "bin_fresh (CreateBin fresh now u q) s = (fresh \<notin> hb_id ` set (bins s))"
| "bin_fresh _ s = True"

fun bin_fresh_run :: "bin_op list \<Rightarrow> bin_db \<Rightarrow> bool" where
  "bin_fresh_run [] s = True"
| "bin_fresh_run (op # ops) s = (bin_fresh op s \<and> bin_fresh_run ops (snd (bin_step op s)))"

section \<open>Bins are private\<close>

text \<open>What was sent to a bin while the operations ran.\<close>

fun sent_to :: "string \<Rightarrow> bin_op \<Rightarrow> captured list" where
  "sent_to i (Capture fresh now j q) = (if i = j then [captured_of fresh now i q] else [])"
| "sent_to i _ = []"

definition requests_of :: "string \<Rightarrow> bin_db \<Rightarrow> captured list" where
  "requests_of i s = filter (\<lambda>r. cp_bin r = i) (captures s)"

fun deletes_request :: "bin_op \<Rightarrow> bool" where
  "deletes_request (DeleteRequest u i) = True"
| "deletes_request _ = False"

lemma get_bin_Some: "get_bin_by_id i u s = Some b \<Longrightarrow> b \<in> set (bins s) \<and> hb_id b = i \<and> hb_user b = u"
  by (auto simp: get_bin_by_id_def find_Some_iff)

lemma get_bin_other:
  assumes "distinct (map hb_id (bins s))" "b \<in> set (bins s)" "hb_user b \<noteq> u"
  shows "get_bin_by_id (hb_id b) u s = None"
proof (rule ccontr)
  assume "get_bin_by_id (hb_id b) u s \<noteq> None"
  then obtain c where "c \<in> set (bins s)" "hb_id c = hb_id b" "hb_user c = u" using get_bin_Some by fast
  with assms show False by (auto simp: distinct_map dest: inj_onD)
qed

lemma bin_step_distinct:
  "distinct (map hb_id (bins s)) \<Longrightarrow> bin_fresh op s \<Longrightarrow> distinct (map hb_id (bins (snd (bin_step op s))))"
  by (cases op)
     (auto simp: list_bins_def create_bin_endpoint_def create_bin_def get_bin_endpoint_def update_bin_endpoint_def update_bin_def
       delete_bin_endpoint_def delete_bin_def list_bin_requests_def clear_bin_requests_def clear_requests_def
       delete_request_endpoint_def delete_request_def handle_capture_def capture_request_def Let_def split_beta
       intro: distinct_row_del split: option.splits)


lemmas bin_step_defs = list_bins_def create_bin_endpoint_def create_bin_def get_bin_endpoint_def update_bin_endpoint_def update_bin_def
  delete_bin_endpoint_def delete_bin_def list_bin_requests_def clear_bin_requests_def clear_requests_def handle_capture_def
  capture_request_def Let_def split_beta requests_of_def

lemma foreign_step:
  assumes "distinct (map hb_id (bins s))" "b \<in> set (bins s)" "bin_user op \<noteq> Some (hb_user b)" "\<not> deletes_request op"
  shows "b \<in> set (bins (snd (bin_step op s))) \<and>
    requests_of (hb_id b) (snd (bin_step op s)) = requests_of (hb_id b) s @ sent_to (hb_id b) op"
proof -
  have other: "hb_id b \<noteq> i" if "get_bin_by_id i u s = Some c" "u \<noteq> hb_user b" for i u c
    using get_bin_other [OF assms(1,2)] that by auto
  have found: "get_bin_by_id_public (hb_id b) s = Some b"
    using row_get_unique [OF assms(1,2)] by (simp add: get_bin_by_id_public_def)
  show ?thesis
  proof (cases op)
    case (UpdateBin u i q)
    show ?thesis
    proof (cases "get_bin_by_id i u s")
      case (Some c)
      with UpdateBin assms(3) other have "hb_id b \<noteq> i" by simp
      moreover have "hb_id c = i" using get_bin_Some [OF Some] by simp
      ultimately show ?thesis using UpdateBin Some assms(2) by (auto simp: bin_step_defs row_put_def intro!: image_eqI [of _ _ b])
    qed (use UpdateBin assms in \<open>simp add: bin_step_defs\<close>)
  next
    case (DeleteBin u i)
    show ?thesis
    proof (cases "get_bin_by_id i u s")
      case (Some c)
      with DeleteBin assms(3) other have "hb_id b \<noteq> i" by simp
      then show ?thesis using DeleteBin Some assms(2) by (auto simp: bin_step_defs set_row_del intro!: filter_cong)
    qed (use DeleteBin assms in \<open>simp add: bin_step_defs\<close>)
  next
    case (ClearRequests u i)
    show ?thesis
    proof (cases "get_bin_by_id i u s")
      case (Some c)
      with ClearRequests assms(3) other have "hb_id b \<noteq> i" by simp
      then show ?thesis using ClearRequests Some assms(2) by (auto simp: bin_step_defs intro!: filter_cong)
    qed (use ClearRequests assms in \<open>simp add: bin_step_defs\<close>)
  next
    case (Capture fresh now i q)
    show ?thesis
    proof (cases "i = hb_id b")
      case True
      with Capture found assms(2) show ?thesis by (simp add: bin_step_defs captured_of_def)
    next
      case False
      with Capture assms(2) show ?thesis by (auto simp: bin_step_defs captured_of_def split: option.splits)
    qed
  qed (use assms in \<open>auto simp: bin_step_defs split: option.splits\<close>)
qed

lemma foreign_run:
  assumes "distinct (map hb_id (bins s))" "b \<in> set (bins s)" "bin_fresh_run ops s"
    "list_all (\<lambda>op. bin_user op \<noteq> Some (hb_user b) \<and> \<not> deletes_request op) ops"
  shows "distinct (map hb_id (bins (bin_run ops s))) \<and> b \<in> set (bins (bin_run ops s)) \<and>
    requests_of (hb_id b) (bin_run ops s) = requests_of (hb_id b) s @ concat (map (sent_to (hb_id b)) ops)"
  using assms
proof (induction ops arbitrary: s)
  case (Cons op ops)
  let ?s = "snd (bin_step op s)"
  from Cons.prems have "distinct (map hb_id (bins ?s))" by (intro bin_step_distinct) simp_all
  moreover from Cons.prems foreign_step [of s b op] have f: "b \<in> set (bins ?s)"
    "requests_of (hb_id b) ?s = requests_of (hb_id b) s @ sent_to (hb_id b) op" by auto
  ultimately show ?case using Cons.IH [of ?s] Cons.prems by (simp add: bin_run_def)
qed (simp add: bin_run_def)

section \<open>What is kept of a request\<close>

lemma dict_of_lookup: "map_of (dict_of val ks) k = (if k \<in> set ks then Some (val k) else None)"
proof -
  have "map_of (map (\<lambda>k. (k, val k)) xs) k = (if k \<in> set xs then Some (val k) else None)" for xs
    by (induction xs) auto
  from this [of "rev (remdups (rev ks))"] show ?thesis by (simp add: dict_of_def)
qed

lemma dict_of_keys: "distinct (map fst (dict_of val ks))"
  by (simp add: dict_of_def comp_def)

text \<open>The UTF-8 encoding of a Unicode scalar value.\<close>

definition scalar :: "nat \<Rightarrow> bool" where
  "scalar n \<longleftrightarrow> n < 0xD800 \<or> 0xE000 \<le> n \<and> n < 0x110000"

definition utf8_char :: "nat \<Rightarrow> string" where
  "utf8_char n =
     (if n < 0x80 then [char_of n]
      else if n < 0x800 then [char_of (0xC0 + n div 64), char_of (0x80 + n mod 64)]
      else if n < 0x10000 then [char_of (0xE0 + n div 4096), char_of (0x80 + n div 64 mod 64), char_of (0x80 + n mod 64)]
      else [char_of (0xF0 + n div 262144), char_of (0x80 + n div 4096 mod 64), char_of (0x80 + n div 64 mod 64), char_of (0x80 + n mod 64)])"

lemma code_char_of: "n < 256 \<Longrightarrow> code (char_of n) = n"
  by simp

lemma later_byte_mod: "later_byte (0x80 + n mod 64)"
proof -
  have "n mod 64 < 64" by simp
  then show ?thesis unfolding later_byte_def by linarith
qed

lemma decode_replace_sequence:
  assumes "0x80 \<le> b" "b < 256" "tail_length b = length t" "sequence_tail b (t @ s) = t" "t \<noteq> []"
  shows "decode_replace ((char_of b # t) @ s) = (char_of b # t) @ decode_replace s"
  using assms by (simp add: Let_def)

lemma decode_replace_char:
  assumes "scalar n"
  shows "decode_replace (utf8_char n @ s) = utf8_char n @ decode_replace s"
proof -
  have mod: "code (char_of (0x80 + m mod 64)) = 0x80 + m mod 64" for m
  proof -
    have "m mod 64 < 64" by simp
    then show ?thesis by (intro code_char_of) linarith
  qed
  consider "n < 0x80" | "0x80 \<le> n" "n < 0x800" | "0x800 \<le> n" "n < 0x10000" | "0x10000 \<le> n" by linarith
  then show ?thesis
  proof cases
    case 1
    then show ?thesis by (simp add: utf8_char_def)
  next
    case 2
    define b where "b = 0xC0 + n div 64"
    have b: "0xC2 \<le> b" "b \<le> 0xDF" using 2 by (auto simp: b_def)
    have "decode_replace ((char_of b # [char_of (0x80 + n mod 64)]) @ s) = (char_of b # [char_of (0x80 + n mod 64)]) @ decode_replace s"
      using b later_byte_mod [of n]
      by (intro decode_replace_sequence) (auto simp: tail_length_def sequence_tail_def second_byte_def later_byte_def mod)
    with 2 show ?thesis by (simp add: utf8_char_def b_def)
  next
    case 3
    define b where "b = 0xE0 + n div 4096"
    have b: "0xE0 \<le> b" "b \<le> 0xEF" using 3 by (auto simp: b_def)
    have second: "second_byte b (0x80 + n div 64 mod 64)"
    proof -
      define r h where "r = n div 64 mod 64" and "h = n div 4096"
      have "n div 64 = 64 * h + r"
        using mult_div_mod_eq [of 64 "n div 64"] by (simp add: div_mult2_eq [symmetric] r_def h_def)
      moreover have "r < 64" by (simp add: r_def)
      moreover have "32 \<le> n div 64" using 3 by linarith
      moreover have "h < 16" using 3 by (simp add: h_def less_mult_imp_div_less)
      moreover have "n div 64 < 0x360 \<or> 0x380 \<le> n div 64" using assms 3 unfolding scalar_def by linarith
      ultimately have "second_byte (0xE0 + h) (0x80 + r)" unfolding second_byte_def by auto
      then show ?thesis by (simp add: b_def r_def h_def)
    qed
    have "decode_replace ((char_of b # [char_of (0x80 + n div 64 mod 64), char_of (0x80 + n mod 64)]) @ s) =
        (char_of b # [char_of (0x80 + n div 64 mod 64), char_of (0x80 + n mod 64)]) @ decode_replace s"
      using b second later_byte_mod [of n]
      by (intro decode_replace_sequence) (auto simp: tail_length_def sequence_tail_def mod)
    with 3 show ?thesis by (simp add: utf8_char_def b_def)
  next
    case 4
    define b where "b = 0xF0 + n div 262144"
    have upper: "n < 0x110000" using assms 4 by (auto simp: scalar_def)
    then have b: "0xF0 \<le> b" "b \<le> 0xF4" using 4 by (auto simp: b_def)
    have second: "second_byte b (0x80 + n div 4096 mod 64)"
    proof -
      define r h where "r = n div 4096 mod 64" and "h = n div 262144"
      have "n div 4096 = 64 * h + r"
        using mult_div_mod_eq [of 64 "n div 4096"] by (simp add: div_mult2_eq [symmetric] r_def h_def)
      moreover have "r < 64" by (simp add: r_def)
      moreover have "16 \<le> n div 4096" using 4 by linarith
      moreover have "n div 4096 < 0x110" using upper by linarith
      ultimately have "second_byte (0xF0 + h) (0x80 + r)" unfolding second_byte_def by auto
      then show ?thesis by (simp add: b_def r_def h_def)
    qed
    have "decode_replace ((char_of b # [char_of (0x80 + n div 4096 mod 64), char_of (0x80 + n div 64 mod 64), char_of (0x80 + n mod 64)]) @ s) =
        (char_of b # [char_of (0x80 + n div 4096 mod 64), char_of (0x80 + n div 64 mod 64), char_of (0x80 + n mod 64)]) @ decode_replace s"
      using b second later_byte_mod [of n] later_byte_mod [of "n div 64"]
      by (intro decode_replace_sequence) (auto simp: tail_length_def sequence_tail_def mod)
    with 4 show ?thesis by (simp add: utf8_char_def b_def)
  qed
qed

lemma decode_replace_text: "list_all scalar ns \<Longrightarrow> decode_replace (concat (map utf8_char ns)) = concat (map utf8_char ns)"
  by (induction ns) (simp_all add: decode_replace_char del: decode_replace.simps(2))

text \<open>The record \<open>r\<close> of a request: method and path as sent; every header once, with its first value; every query parameter
  once, with its last value; no body when it is empty, and the body itself when it is the UTF-8 encoding of a text. Nothing is
  said of other bodies.\<close>

definition keeps :: "incoming \<Rightarrow> captured \<Rightarrow> bool" where
  "keeps q r \<longleftrightarrow> cp_method r = in_method q \<and> cp_path r = ''/'' @ in_path q \<and> cp_addr r = in_client q \<and>
     distinct (map fst (cp_headers r)) \<and> map_of (cp_headers r) = (\<lambda>n. map_option latin1_text (map_of (in_headers q) n)) \<and>
     distinct (map fst (cp_query r)) \<and> map_of (cp_query r) = map_of (rev (in_query q)) \<and>
     cp_type r = map_of (cp_headers r) ''content-type'' \<and>
     (cp_body r = None \<longleftrightarrow> in_body q = []) \<and>
     (\<forall>ns. list_all scalar ns \<and> in_body q = concat (map utf8_char ns) \<longrightarrow>
        (case cp_body r of None \<Rightarrow> [] | Some t \<Rightarrow> t) = in_body q)"

lemma captured_keeps: "keeps q (captured_of fresh now i q)"
proof -
  have h: "map_of (cp_headers (captured_of fresh now i q)) n = map_option latin1_text (map_of (in_headers q) n)" for n
  proof (cases "map_of (in_headers q) n")
    case None
    then have "n \<notin> fst ` set (in_headers q)" by (simp add: map_of_eq_None_iff)
    with None show ?thesis by (simp add: captured_of_def dict_of_lookup)
  next
    case (Some v)
    then have "n \<in> fst ` set (in_headers q)" by (force dest: map_of_SomeD)
    with Some show ?thesis by (simp add: captured_of_def dict_of_lookup captured_header_def)
  qed
  have p: "map_of (cp_query (captured_of fresh now i q)) n = map_of (rev (in_query q)) n" for n
  proof (cases "map_of (rev (in_query q)) n")
    case None
    then have "n \<notin> fst ` set (in_query q)" by (simp add: map_of_eq_None_iff)
    with None show ?thesis by (simp add: captured_of_def dict_of_lookup)
  next
    case (Some v)
    then have "n \<in> fst ` set (in_query q)" by (force dest: map_of_SomeD)
    with Some show ?thesis by (simp add: captured_of_def dict_of_lookup)
  qed
  have t: "cp_type (captured_of fresh now i q) = map_of (cp_headers (captured_of fresh now i q)) ''content-type''"
    unfolding h by (simp add: captured_of_def captured_header_def)
  have "map_of (cp_headers (captured_of fresh now i q)) = (\<lambda>n. map_option latin1_text (map_of (in_headers q) n))"
    "map_of (cp_query (captured_of fresh now i q)) = map_of (rev (in_query q))" using h p by (simp_all add: fun_eq_iff)
  with t show ?thesis
    unfolding keeps_def by (simp add: captured_of_def dict_of_keys decode_replace_text del: decode_replace.simps(2))
qed

text \<open>C32: While other users do what they like with their bins and anybody sends requests to the capture addresses, a bin
  keeps its settings, and its owner reads exactly the requests it held before and one record for each request sent to it meanwhile,
  newest first. A record has the method, path and sender of its request, every header with its first value and every query parameter
  with its last one, and the body when it is UTF-8 text; repeated headers and parameters are lost. The one exception, left out here, is that
  deleting a single captured request does not ask whose it is.\<close>

theorem owner_reads_what_was_sent:
  assumes "distinct (map hb_id (bins s))" "b \<in> set (bins s)" "bin_fresh_run ops s"
    "list_all (\<lambda>op. bin_user op \<noteq> Some (hb_user b) \<and> \<not> deletes_request op) ops" "1 \<le> limit" "limit \<le> 500" "0 \<le> offset"
  shows "fst (bin_step (GetBin (hb_user b) (hb_id b)) (bin_run ops s)) =
      Inr (OneBin \<lparr>br_bin = b, br_count = length (requests_of (hb_id b) s @ concat (map (sent_to (hb_id b)) ops))\<rparr>) \<and>
    fst (bin_step (ListRequests (hb_user b) (hb_id b) limit offset) (bin_run ops s)) =
      Inr (Requests (take (nat limit) (drop (nat offset)
          (sort_key (\<lambda>r. - cp_created r) (requests_of (hb_id b) s @ concat (map (sent_to (hb_id b)) ops)))))
        (length (requests_of (hb_id b) s @ concat (map (sent_to (hb_id b)) ops)))) \<and>
    (\<forall>fresh now q. \<exists>r. sent_to (hb_id b) (Capture fresh now (hb_id b) q) = [r] \<and> cp_id r = fresh \<and> cp_created r = now \<and> keeps q r)"
proof -
  have kept: "\<exists>r. sent_to (hb_id b) (Capture fresh now (hb_id b) q) = [r] \<and> cp_id r = fresh \<and> cp_created r = now \<and> keeps q r" for fresh now q
    using captured_keeps by (simp add: captured_of_def [THEN arg_cong, of cp_id] captured_of_def [THEN arg_cong, of cp_created])
  from foreign_run [OF assms(1-4)] have r: "distinct (map hb_id (bins (bin_run ops s)))" "b \<in> set (bins (bin_run ops s))"
    "requests_of (hb_id b) (bin_run ops s) = requests_of (hb_id b) s @ concat (map (sent_to (hb_id b)) ops)" by auto
  have "get_bin_by_id (hb_id b) (hb_user b) (bin_run ops s) = Some b"
  proof -
    have "find (\<lambda>c. hb_id c = hb_id b \<and> hb_user c = hb_user b) (bins (bin_run ops s)) \<noteq> None"
      using r(2) by (auto simp: find_None_iff)
    then obtain c where c: "get_bin_by_id (hb_id b) (hb_user b) (bin_run ops s) = Some c" by (auto simp: get_bin_by_id_def)
    from get_bin_Some [OF this] r(1,2) have "c = b" by (auto simp: distinct_map dest: inj_onD)
    with c show ?thesis by simp
  qed
  with assms(5-7) r(3) kept show ?thesis
    by (simp del: sent_to.simps add: get_bin_endpoint_def bin_response_def list_bin_requests_def get_requests_def get_request_count_def
        requests_of_def [symmetric])
qed

definition sample_bin :: http_bin where
  "sample_bin = \<lparr>hb_id = ''b'', hb_user = ''u'', hb_name = ''n'', hb_status = 200, hb_body = Some [], hb_type = ''t'', hb_created = 0\<rparr>"

definition sample_hit :: incoming where
  "sample_hit = \<lparr>in_method = ''POST'', in_path = ''x'', in_headers = [(''content-type'', ''text/plain''), (''x-a'', ''1''), (''x-a'', ''2'')],
     in_query = [(''a'', ''1''), (''b'', []), (''a'', ''2'')], in_body = ''hi'', in_client = Some ''9.9.9.9''\<rparr>"

text \<open>What is lost: the second header, the first parameter, and the bytes of a body that is not UTF-8.\<close>

lemma conversions_lose:
  "cp_headers (captured_of ''r1'' 1 ''b'' sample_hit) = [(''content-type'', ''text/plain''), (''x-a'', ''1'')] \<and>
   cp_query (captured_of ''r1'' 1 ''b'' sample_hit) = [(''a'', ''2''), (''b'', [])] \<and>
   decode_replace [CHR 0xFF] = decode_replace [CHR 0xFE] \<and>
   decode_replace [CHR 0xC3, CHR 0xA9, CHR 0xE2, CHR 0x82, CHR ''x''] = [CHR 0xC3, CHR 0xA9] @ REPLACEMENT @ ''x''"
  by code_simp

theorem owner_reads_what_was_sent_witness:
  "fst (bin_step (ListRequests ''u'' ''b'' 500 0)
      (bin_run [Capture ''r1'' 1 ''b'' sample_hit, DeleteBin ''v'' ''b'', ClearRequests ''v'' ''b''] \<lparr>bins = [sample_bin], captures = []\<rparr>)) =
    Inr (Requests [captured_of ''r1'' 1 ''b'' sample_hit] 1) \<and>
    keeps sample_hit (captured_of ''r1'' 1 ''b'' sample_hit)"
  using owner_reads_what_was_sent [of "\<lparr>bins = [sample_bin], captures = []\<rparr>" sample_bin
      "[Capture ''r1'' 1 ''b'' sample_hit, DeleteBin ''v'' ''b'', ClearRequests ''v'' ''b'']" 500 0]
  by (simp add: sample_bin_def requests_of_def)

text \<open>Any user deletes the captured requests of any other.\<close>

lemma any_user_deletes_requests:
  "row_get cp_id i (captures s) = Some r \<Longrightarrow>
     bin_step (DeleteRequest u i) s = (Inr NoContent, s\<lparr>captures := row_del cp_id i (captures s)\<rparr>)"
  by (simp add: delete_request_endpoint_def delete_request_def)

end
