(* ===== verification/Reports.thy ===== *)
theory Reports
  imports PyFloat Mailboxes
begin

text \<open>
  \<^verbatim>\<open>deliverability/service.py\<close>, \<^verbatim>\<open>emails/deliverability.py\<close>: the score of a received message, the stored
  reports, their baselines, comparisons and trends. The inspection of a message and its SHA-256 are arguments here.
\<close>

section \<open>Checks, categories, reports\<close>

record evidence =
  ev_code :: string
  ev_title :: string
  ev_value :: "json option"
  ev_score :: "rat option"
  ev_description :: "string option"
  ev_recommendation :: "string option"

record deliv_check =
  ck_id :: string
  ck_category :: string
  ck_title :: string
  ck_status :: string
  ck_summary :: string
  ck_details :: "string list"
  ck_evidence :: "evidence list"
  ck_recommendation :: "string option"
  ck_points :: rat
  ck_max :: rat

record deliv_category =
  cg_id :: string
  cg_title :: string
  cg_score :: "int option"
  cg_points :: rat
  cg_max :: rat
  cg_checks :: "deliv_check list"

record deliv_report =
  rt_version :: string
  rt_id :: "string option"
  rt_sha :: string
  rt_cached :: bool
  rt_baseline :: bool
  rt_score :: int
  rt_verdict :: string
  rt_summary :: string
  rt_mailbox :: string
  rt_uid :: string
  rt_folder :: string
  rt_message_id :: string
  rt_sender_domain :: "string option"
  rt_generated :: time
  rt_categories :: "deliv_category list"
  rt_recommendations :: "string list"
  rt_limitations :: "string list"

section \<open>Score\<close>

definition DELIVERABILITY_SCORE_VERSION :: string where "DELIVERABILITY_SCORE_VERSION = ''2.3''"

definition CATEGORY_TITLES :: "(string \<times> string) list" where
  "CATEGORY_TITLES = [(''authentication'', ''Authentication''), (''content'', ''Content quality''), (''headers'', ''Message setup''),
     (''transport'', ''Transport''), (''spam_filter'', ''Spam filter''), (''attachments'', ''Attachments'')]"

text \<open>What the six inspections of a parsed message find.\<close>

record inspection =
  is_message_id :: string
  is_sender_domain :: "string option"
  is_checks :: "string \<Rightarrow> deliv_check list"

definition percent :: "rat \<Rightarrow> rat \<Rightarrow> int" where
  "percent points max_points = half_even (fmul (fdiv points max_points) 100)"

definition score_category :: "inspection \<Rightarrow> string \<times> string \<Rightarrow> deliv_category" where
  "score_category i kt =
     (case kt of (k, title) \<Rightarrow>
        (let points = fsum (map ck_points (is_checks i k)); max_points = fsum (map ck_max (is_checks i k))
         in \<lparr>cg_id = k, cg_title = title, cg_score = (if max_points \<noteq> 0 then Some (percent points max_points) else None),
             cg_points = fround 1 points, cg_max = fround 1 max_points, cg_checks = is_checks i k\<rparr>))"

definition verdict_of :: "int \<Rightarrow> string \<times> string" where
  "verdict_of score =
     (if 90 \<le> score then (''excellent'', ''Strong technical setup with no major deliverability issues detected.'')
      else if 75 \<le> score then (''good'', ''Good foundation with a few improvements worth making.'')
      else if 50 \<le> score then (''needs_work'', ''Several issues may reduce inbox placement and sender trust.'')
      else (''poor'', ''Critical issues are likely to harm delivery or filtering outcomes.''))"

definition total_score :: "inspection \<Rightarrow> int" where
  "total_score i =
     (let parts = map (\<lambda>(k, t). (fsum (map ck_points (is_checks i k)), fsum (map ck_max (is_checks i k)))) CATEGORY_TITLES;
          points = fsum (map fst parts); max_points = fsum (map snd parts)
      in if max_points \<noteq> 0 then max 0 (min 100 (percent points max_points)) else 0)"

text \<open>The recommendations of the weakest checks, five at most.\<close>

definition all_checks :: "inspection \<Rightarrow> deliv_check list" where
  "all_checks i = concat (map (\<lambda>(k, t). is_checks i k) CATEGORY_TITLES)"

definition recommendations :: "inspection \<Rightarrow> string list" where
  "recommendations i =
     (let ranked = sort_key (\<lambda>c. fdiv (ck_points c) (ck_max c)) (sort_key (\<lambda>c. - ck_max c) (sort_key ck_id
            (filter (\<lambda>c. truthy (ck_recommendation c) \<and> ck_max c \<noteq> 0) (all_checks i))))
      in take 5 (rev (remdups (rev (List.map_filter ck_recommendation ranked)))))"

definition limitations :: "string list" where
  "limitations =
     [''This report does not measure sender reputation or provider-specific inbox placement.'',
      ''Blocklist checks are not run because public DNS lists have provider and privacy constraints.'',
      ''A high score improves readiness but cannot guarantee inbox placement.'']"

definition score_deliverability :: "inspection \<Rightarrow> time \<Rightarrow> string \<Rightarrow> string \<Rightarrow> string \<Rightarrow> deliv_report" where
  "score_deliverability i now mailbox' uid folder =
     (let score = total_score i; (verdict', summary) = verdict_of score
      in \<lparr>rt_version = DELIVERABILITY_SCORE_VERSION, rt_id = None, rt_sha = [], rt_cached = False, rt_baseline = False,
          rt_score = score, rt_verdict = verdict', rt_summary = summary, rt_mailbox = mailbox', rt_uid = uid, rt_folder = folder,
          rt_message_id = is_message_id i, rt_sender_domain = is_sender_domain i, rt_generated = now,
          rt_categories = map (score_category i) CATEGORY_TITLES, rt_recommendations = recommendations i,
          rt_limitations = limitations\<rparr>)"

section \<open>Stored reports\<close>

record report_row =
  rr_id :: string
  rr_user :: string
  rr_mailbox :: string
  rr_address :: string
  rr_folder :: string
  rr_uid :: string
  rr_message_id :: string
  rr_sha :: string
  rr_version :: string
  rr_score :: int
  rr_verdict :: string
  rr_report :: deliv_report
  rr_baseline :: bool
  rr_created :: time

record report_summary =
  su_id :: string
  su_mailbox :: string
  su_uid :: string
  su_folder :: string
  su_message_id :: string
  su_sha :: string
  su_version :: string
  su_score :: int
  su_verdict :: string
  su_baseline :: bool
  su_created :: time

definition hydrate :: "bool \<Rightarrow> report_row \<Rightarrow> deliv_report" where
  "hydrate cached r = (rr_report r)\<lparr>rt_id := Some (rr_id r), rt_sha := rr_sha r, rt_cached := cached, rt_baseline := rr_baseline r\<rparr>"

definition summary_of :: "report_row \<Rightarrow> report_summary" where
  "summary_of r = \<lparr>su_id = rr_id r, su_mailbox = rr_address r, su_uid = rr_uid r, su_folder = rr_folder r,
     su_message_id = rr_message_id r, su_sha = rr_sha r, su_version = rr_version r, su_score = rr_score r,
     su_verdict = rr_verdict r, su_baseline = rr_baseline r, su_created = rr_created r\<rparr>"

text \<open>The unique constraint of the table.\<close>

definition report_key :: "report_row \<Rightarrow> string \<times> string \<times> string \<times> string \<times> string" where
  "report_key r = (rr_mailbox r, rr_folder r, rr_uid r, rr_sha r, rr_version r)"

definition find_report :: "string \<times> string \<times> string \<times> string \<times> string \<Rightarrow> report_row list \<Rightarrow> report_row option" where
  "find_report k rows = find (\<lambda>r. report_key r = k) rows"

definition new_report :: "string \<Rightarrow> time \<Rightarrow> string \<Rightarrow> mailbox \<Rightarrow> string \<Rightarrow> string \<Rightarrow> string \<Rightarrow> deliv_report \<Rightarrow> report_row" where
  "new_report fresh now u m uid folder sha d =
     \<lparr>rr_id = fresh, rr_user = u, rr_mailbox = m_id m, rr_address = m_address m, rr_folder = folder, rr_uid = uid,
      rr_message_id = rt_message_id d, rr_sha = sha, rr_version = rt_version d, rr_score = rt_score d, rr_verdict = rt_verdict d,
      rr_report = d\<lparr>rt_id := None, rt_sha := sha, rt_cached := False, rt_baseline := False\<rparr>, rr_baseline = False, rr_created = now\<rparr>"

text \<open>The commit: a row that another request stored meanwhile is answered instead.\<close>

definition commit_report :: "report_row \<Rightarrow> report_row list \<Rightarrow> deliv_report \<times> report_row list" where
  "commit_report r rows =
     (case find_report (report_key r) rows of
        Some r' \<Rightarrow> (hydrate True r', rows)
      | None \<Rightarrow> (hydrate False r, rows @ [r]))"

definition get_or_create_report ::
  "(string \<Rightarrow> inspection result) \<Rightarrow> (string \<Rightarrow> string) \<Rightarrow> string \<Rightarrow> time \<Rightarrow> string \<Rightarrow> mailbox \<Rightarrow> string \<Rightarrow> string \<Rightarrow> string
     \<Rightarrow> report_row list \<Rightarrow> deliv_report result \<times> report_row list" where
  "get_or_create_report inspect sha256 fresh now u m uid folder raw rows =
     (case find_report (m_id m, folder, uid, sha256 raw, DELIVERABILITY_SCORE_VERSION) rows of
        Some r \<Rightarrow> (Inr (hydrate True r), rows)
      | None \<Rightarrow>
          (case inspect raw of
             Inl e \<Rightarrow> (Inl e, rows)
           | Inr i \<Rightarrow>
               map_prod Inr id (commit_report (new_report fresh now u m uid folder (sha256 raw)
                 (score_deliverability i now (m_address m) uid folder)) rows)))"

definition get_report_record :: "string \<Rightarrow> string \<Rightarrow> report_row list \<Rightarrow> report_row result" where
  "get_report_record i u rows =
     (case find (\<lambda>r. rr_id r = i \<and> rr_user r = u) rows of
        None \<Rightarrow> Inl (NotFoundError ''Deliverability report'' i)
      | Some r \<Rightarrow> Inr r)"

definition get_report :: "string \<Rightarrow> string \<Rightarrow> report_row list \<Rightarrow> deliv_report result" where
  "get_report i u rows = bind_res (get_report_record i u rows) (\<lambda>r. Inr (hydrate True r))"

text \<open>Newest first, ties by identifier.\<close>

definition newest_first :: "report_row list \<Rightarrow> report_row list" where
  "newest_first rows = sort_key (\<lambda>r. - rr_created r) (rev (sort_key rr_id rows))"

record report_list =
  rl_reports :: "report_summary list"
  rl_total :: int
  rl_page :: int
  rl_page_size :: int
  rl_more :: bool

definition list_reports :: "string \<Rightarrow> mailbox option \<Rightarrow> int \<Rightarrow> int \<Rightarrow> report_row list \<Rightarrow> report_list" where
  "list_reports u m page page_size rows =
     (let rs = filter (\<lambda>r. rr_user r = u \<and> (case m of None \<Rightarrow> True | Some m' \<Rightarrow> rr_mailbox r = m_id m')) rows
      in \<lparr>rl_reports = map summary_of (take (nat page_size) (drop (nat ((page - 1) * page_size)) (newest_first rs))),
          rl_total = int (length rs), rl_page = page, rl_page_size = page_size, rl_more = (page * page_size < int (length rs))\<rparr>)"

definition set_baseline :: "report_row \<Rightarrow> bool \<Rightarrow> report_row list \<Rightarrow> deliv_report \<times> report_row list" where
  "set_baseline r flag rows =
     (let rows1 = (if flag then map (\<lambda>x. if rr_mailbox x = rr_mailbox r then x\<lparr>rr_baseline := False\<rparr> else x) rows else rows);
          r' = r\<lparr>rr_baseline := flag\<rparr>
      in (hydrate True r', row_put rr_id r' rows1))"

definition resolve_comparison_base :: "report_row \<Rightarrow> string \<Rightarrow> string option \<Rightarrow> report_row list \<Rightarrow> report_row result" where
  "resolve_comparison_base after u before rows =
     (if truthy before
      then bind_res (get_report_record (the before) u rows) (\<lambda>b.
             if rr_mailbox b \<noteq> rr_mailbox after then Inl (NotFoundError ''Deliverability report'' (the before)) else Inr b)
      else (let own = filter (\<lambda>r. rr_user r = u \<and> rr_mailbox r = rr_mailbox after \<and> rr_id r \<noteq> rr_id after) rows
            in case sort_key (\<lambda>r. - rr_created r) (filter rr_baseline own) of
                 b # _ \<Rightarrow> Inr b
               | [] \<Rightarrow> (case newest_first (filter (\<lambda>r. rr_created r \<le> rr_created after) own) of
                          b # _ \<Rightarrow> Inr b
                        | [] \<Rightarrow> Inl (NotFoundError ''Earlier deliverability report'' (rr_id after)))))"

section \<open>Comparison\<close>

record check_change =
  cc_id :: string
  cc_title :: string
  cc_before_status :: "string option"
  cc_after_status :: "string option"
  cc_before_points :: "rat option"
  cc_after_points :: "rat option"
  cc_delta :: rat

record category_change =
  gc_id :: string
  gc_title :: string
  gc_before :: "int option"
  gc_after :: "int option"
  gc_delta :: "int option"
  gc_changes :: "check_change list"

record comparison =
  cm_before_id :: string
  cm_after_id :: string
  cm_before_score :: int
  cm_after_score :: int
  cm_delta :: int
  cm_improved :: int
  cm_regressed :: int
  cm_unchanged :: int
  cm_categories :: "category_change list"

text \<open>A dictionary built from a list: the last entry of a key stays.\<close>

definition by_id :: "('a \<Rightarrow> string) \<Rightarrow> 'a list \<Rightarrow> string \<Rightarrow> 'a option" where
  "by_id key xs k = find (\<lambda>x. key x = k) (rev xs)"

definition ids_of :: "('a \<Rightarrow> string) \<Rightarrow> 'a list \<Rightarrow> 'a list \<Rightarrow> string list" where
  "ids_of key xs ys = sorted_set (map key xs @ map key ys)"

definition checks_of :: "deliv_category option \<Rightarrow> deliv_check list" where
  "checks_of g = (case g of None \<Rightarrow> [] | Some g' \<Rightarrow> cg_checks g')"

definition points_of :: "deliv_check option \<Rightarrow> rat" where
  "points_of c = (case c of None \<Rightarrow> 0 | Some c' \<Rightarrow> ck_points c')"

definition raw_delta :: "deliv_check option \<Rightarrow> deliv_check option \<Rightarrow> rat" where
  "raw_delta old new = fsub (points_of new) (points_of old)"

definition check_change_of :: "string \<Rightarrow> deliv_check option \<Rightarrow> deliv_check option \<Rightarrow> check_change" where
  "check_change_of k old new =
     \<lparr>cc_id = k,
      cc_title = (case new of Some c \<Rightarrow> ck_title c | None \<Rightarrow> (case old of Some c \<Rightarrow> ck_title c | None \<Rightarrow> k)),
      cc_before_status = map_option ck_status old, cc_after_status = map_option ck_status new,
      cc_before_points = map_option ck_points old, cc_after_points = map_option ck_points new,
      cc_delta = fround 1 (raw_delta old new)\<rparr>"

text \<open>The pairs of checks of one category, by identifier.\<close>

definition check_pairs :: "deliv_category option \<Rightarrow> deliv_category option \<Rightarrow> (string \<times> deliv_check option \<times> deliv_check option) list" where
  "check_pairs old new =
     map (\<lambda>k. (k, by_id ck_id (checks_of old) k, by_id ck_id (checks_of new) k)) (ids_of ck_id (checks_of old) (checks_of new))"

definition category_change_of :: "string \<Rightarrow> deliv_category option \<Rightarrow> deliv_category option \<Rightarrow> category_change" where
  "category_change_of k old new =
     (let old_score = Option.bind old cg_score; new_score = Option.bind new cg_score
      in \<lparr>gc_id = k,
          gc_title = (case new of Some g \<Rightarrow> cg_title g | None \<Rightarrow> (case old of Some g \<Rightarrow> cg_title g | None \<Rightarrow> k)),
          gc_before = old_score, gc_after = new_score,
          gc_delta = (case (old_score, new_score) of (Some a, Some b) \<Rightarrow> Some (b - a) | _ \<Rightarrow> None),
          gc_changes = map (\<lambda>(i, a, b). check_change_of i a b) (check_pairs old new)\<rparr>)"

definition category_pairs :: "deliv_category list \<Rightarrow> deliv_category list \<Rightarrow> (string \<times> deliv_category option \<times> deliv_category option) list" where
  "category_pairs old new = map (\<lambda>k. (k, by_id cg_id old k, by_id cg_id new k)) (ids_of cg_id old new)"

definition count_deltas :: "(rat \<Rightarrow> bool) \<Rightarrow> (string \<times> deliv_category option \<times> deliv_category option) list \<Rightarrow> int" where
  "count_deltas p pairs =
     int (length (filter (\<lambda>(k, a, b). p (raw_delta a b)) (concat (map (\<lambda>(k, old, new). check_pairs old new) pairs))))"

definition compare_reports :: "report_row \<Rightarrow> report_row \<Rightarrow> comparison" where
  "compare_reports b a =
     (let old = hydrate True b; new = hydrate True a; pairs = category_pairs (rt_categories old) (rt_categories new)
      in \<lparr>cm_before_id = rr_id b, cm_after_id = rr_id a, cm_before_score = rt_score old, cm_after_score = rt_score new,
          cm_delta = rt_score new - rt_score old, cm_improved = count_deltas (\<lambda>d. 0 < d) pairs,
          cm_regressed = count_deltas (\<lambda>d. d < 0) pairs, cm_unchanged = count_deltas (\<lambda>d. d = 0) pairs,
          cm_categories = map (\<lambda>(k, x, y). category_change_of k x y) pairs\<rparr>)"

section \<open>Trend\<close>

record trend =
  td_mailbox :: string
  td_points :: "(string \<times> int \<times> string \<times> time) list"
  td_count :: int
  td_average :: "rat option"
  td_minimum :: "int option"
  td_maximum :: "int option"
  td_delta :: "int option"

definition get_trend :: "string \<Rightarrow> mailbox \<Rightarrow> int \<Rightarrow> report_row list \<Rightarrow> trend" where
  "get_trend u m limit rows =
     (let rs = rev (take (nat limit) (newest_first (filter (\<lambda>r. rr_user r = u \<and> rr_mailbox r = m_id m) rows)));
          scores = map rr_score rs
      in \<lparr>td_mailbox = m_address m, td_points = map (\<lambda>r. (rr_id r, rr_score r, rr_verdict r, rr_created r)) rs,
          td_count = int (length rs),
          td_average = (if scores = [] then None else Some (fround 1 (fdiv (rat_of_int (sum_list scores)) (rat_of_nat (length scores))))),
          td_minimum = (if scores = [] then None else Some (Min (set scores))),
          td_maximum = (if scores = [] then None else Some (Max (set scores))),
          td_delta = (if 1 < length scores then Some (last scores - hd scores) else None)\<rparr>)"

end
