(* ===== verification/Monitor.thy ===== *)
theory Monitor
  imports Reports Warmup Forwarding SmtpReply
begin

text \<open>
  \<^verbatim>\<open>deliverability/service.py\<close>, \<^verbatim>\<open>deliverability/schemas.py\<close>: what hangs on the stored reports. Policies
  judge a report, schedules produce reports, providers offer further checks, alerts tell the owner. Fresh identifiers and
  the time are arguments.
\<close>

section \<open>Rows\<close>

record deliv_policy =
  po_id :: string
  po_user :: string
  po_mailbox :: string
  po_name :: string
  po_enabled :: bool
  po_minimum :: int
  po_regression :: int
  po_fail :: "string list"
  po_checks :: "string list"
  po_caps :: "string list"
  po_created :: time
  po_updated :: time

record policy_eval =
  pe_id :: string
  pe_policy :: string
  pe_report :: string
  pe_passed :: bool
  pe_delta :: "int option"
  pe_reasons :: "string list"
  pe_created :: time

record provider_row =
  pv_id :: string
  pv_user :: string
  pv_name :: string
  pv_kind :: string
  pv_adapter :: string
  pv_enabled :: bool
  pv_config :: dict
  pv_secret :: string
  pv_status :: string
  pv_error :: "string option"
  pv_checked :: "time option"
  pv_created :: time
  pv_updated :: time

record schedule_row =
  sc_id :: string
  sc_user :: string
  sc_mailbox :: string
  sc_policy :: "string option"
  sc_name :: string
  sc_enabled :: bool
  sc_interval :: int
  sc_checks :: "string list"
  sc_next :: "time option"
  sc_last :: "time option"
  sc_created :: time
  sc_updated :: time

record alert_row =
  al_id :: string
  al_user :: string
  al_mailbox :: string
  al_report :: "string option"
  al_run :: "string option"
  al_policy :: "string option"
  al_key :: string
  al_type :: string
  al_severity :: string
  al_title :: string
  al_detail :: string
  al_acknowledged :: bool
  al_created :: time
  al_acknowledged_at :: "time option"

record capability =
  cb_id :: string
  cb_title :: string
  cb_description :: string
  cb_mode :: string
  cb_status :: string
  cb_reason :: "string option"

record run_row =
  ru_id :: string
  ru_user :: string
  ru_mailbox :: string
  ru_report :: string
  ru_status :: string
  ru_checks :: "string list"
  ru_capabilities :: "capability list"
  ru_categories :: "deliv_category list"
  ru_error_code :: "string option"
  ru_error_detail :: "string option"
  ru_created :: time
  ru_started :: "time option"
  ru_completed :: "time option"

record artifact_row =
  at_id :: string
  at_user :: string
  at_run :: string
  at_kind :: string
  at_filename :: string
  at_media :: string
  at_sha :: string
  at_width :: "int option"
  at_height :: "int option"
  at_data :: string
  at_created :: time

record deliv_state =
  dv_reports :: "report_row list"
  dv_runs :: "run_row list"
  dv_artifacts :: "artifact_row list"
  dv_policies :: "deliv_policy list"
  dv_evals :: "policy_eval list"
  dv_providers :: "provider_row list"
  dv_schedules :: "schedule_row list"
  dv_alerts :: "alert_row list"
  dv_accounts :: "warmup_account list"
  dv_mail :: mail_state

text \<open>Settings of the deployment, and whether Chromium is found.\<close>

record deliv_env =
  dl_settings :: settings
  dl_network_checks :: bool
  dl_visual_checks :: bool
  dl_chromium :: bool
  dl_max_bytes :: int
  dl_report_days :: int
  dl_artifact_days :: int
  dl_parse_url :: "string \<Rightarrow> url"
  dl_json_length :: "dict \<Rightarrow> int"
  dl_encrypt :: "string \<Rightarrow> string"

section \<open>Deleting reports\<close>

text \<open>Runs and artifacts are deleted first; evaluations and alerts go with the report by their foreign keys.\<close>

definition delete_report_records :: "(report_row \<Rightarrow> bool) \<Rightarrow> deliv_state \<Rightarrow> nat \<times> deliv_state" where
  "delete_report_records doomed s =
     (let gone = map rr_id (filter doomed (dv_reports s));
          gone_runs = map ru_id (filter (\<lambda>r. ru_report r \<in> set gone) (dv_runs s))
      in (length gone,
          s\<lparr>dv_reports := filter (\<lambda>r. \<not> doomed r) (dv_reports s),
            dv_runs := filter (\<lambda>r. ru_report r \<notin> set gone) (dv_runs s),
            dv_artifacts := filter (\<lambda>a. at_run a \<notin> set gone_runs) (dv_artifacts s),
            dv_evals := filter (\<lambda>e. pe_report e \<notin> set gone) (dv_evals s),
            dv_alerts := filter (\<lambda>a. al_report a \<notin> Some ` set gone \<and> al_run a \<notin> Some ` set gone_runs) (dv_alerts s)\<rparr>))"

definition delete_message_reports :: "string \<Rightarrow> string \<Rightarrow> string \<Rightarrow> string list \<Rightarrow> deliv_state \<Rightarrow> nat \<times> deliv_state" where
  "delete_message_reports u m folder uids s =
     (if uids = [] then (0, s)
      else delete_report_records (\<lambda>r. rr_user r = u \<and> rr_mailbox r = m \<and> rr_folder r = folder \<and> rr_uid r \<in> set uids) s)"

definition delete_mailbox_reports :: "string \<Rightarrow> string \<Rightarrow> deliv_state \<Rightarrow> nat \<times> deliv_state" where
  "delete_mailbox_reports u m s = delete_report_records (\<lambda>r. rr_user r = u \<and> rr_mailbox r = m) s"

section \<open>Capabilities\<close>

definition config_ids :: "dict \<Rightarrow> string list" where
  "config_ids cfg =
     (case dict_get cfg ''account_ids'' of
        Some (JArr vs) \<Rightarrow> List.map_filter (\<lambda>v. case v of JStr t \<Rightarrow> Some t | _ \<Rightarrow> None) vs
      | _ \<Rightarrow> [])"

definition enabled_kinds :: "string \<Rightarrow> deliv_state \<Rightarrow> string list" where
  "enabled_kinds u s = map pv_kind (filter (\<lambda>p. pv_user p = u \<and> pv_enabled p) (dv_providers s))"

definition eligible_accounts :: "string \<Rightarrow> deliv_state \<Rightarrow> nat" where
  "eligible_accounts u s =
     (let ids = concat (map (\<lambda>p. config_ids (pv_config p))
            (filter (\<lambda>p. pv_user p = u \<and> pv_enabled p \<and> pv_kind p = ''placement'') (dv_providers s)))
      in length (filter (\<lambda>a. wa_id a \<in> set ids \<and> wa_enabled a \<and> wa_verified a) (dv_accounts s)))"

definition capability_of :: "string \<Rightarrow> string \<Rightarrow> string \<Rightarrow> string \<Rightarrow> string \<Rightarrow> string option \<Rightarrow> capability" where
  "capability_of i title desc mode status reason =
     \<lparr>cb_id = i, cb_title = title, cb_description = desc, cb_mode = mode, cb_status = status, cb_reason = reason\<rparr>"

definition optional :: "string \<Rightarrow> string \<Rightarrow> string \<Rightarrow> string \<Rightarrow> bool \<Rightarrow> capability" where
  "optional i title desc mode enabled =
     capability_of i title desc mode (if enabled then ''available'' else ''disabled'')
       (if enabled then None else Some ''Disabled by server configuration.'')"

definition get_capabilities :: "deliv_env \<Rightarrow> string \<Rightarrow> deliv_state \<Rightarrow> capability list" where
  "get_capabilities env u s =
     (let kinds = enabled_kinds u s; eligible = eligible_accounts u s
      in [capability_of ''local_analysis'' ''Local message analysis''
            ''Authentication evidence, headers, MIME, content, and local spam filtering.'' ''local'' ''available'' None,
          optional ''dns_reputation'' ''DNS and reputation checks''
            ''Bounded DNS policy, infrastructure, and configured blocklist checks.'' ''network'' (dl_network_checks env),
          optional ''link_validation'' ''Safe link validation''
            ''Public destination resolution and bounded HTTP link checks.'' ''network'' (dl_network_checks env),
          capability_of ''visual_rendering'' ''Local visual rendering''
            ''Network-blocked desktop, tablet, and mobile screenshots in light and dark modes.'' ''local''
            (if \<not> dl_visual_checks env then ''disabled'' else if dl_chromium env then ''available'' else ''unavailable'')
            (if \<not> dl_visual_checks env then Some ''Disabled by server configuration.''
             else if dl_chromium env then None else Some ''Chromium was not found at the configured executable path.''),
          capability_of ''client_previews'' ''Real-client previews'' ''Optional external client-preview provider adapter.'' ''provider''
            (if ''preview'' \<in> set kinds then ''available'' else ''not_configured'')
            (if ''preview'' \<in> set kinds then None else Some ''No enabled preview provider is configured.''),
          capability_of ''inbox_placement'' ''Seed inbox placement''
            ''Optional placement checks using inboxes controlled by the operator.'' ''provider''
            (if 0 < eligible then ''available'' else if ''placement'' \<in> set kinds then ''unavailable'' else ''not_configured'')
            (if 0 < eligible then None
             else if ''placement'' \<in> set kinds then Some ''The placement provider has no enabled, verified seed accounts.''
             else Some ''No enabled placement provider is configured.''),
          capability_of ''ai_analysis'' ''AI-assisted copy review''
            ''Optional advisory analysis from an explicitly configured HTTPS provider.'' ''provider''
            (if ''analysis'' \<in> set kinds then ''available'' else ''not_configured'')
            (if ''analysis'' \<in> set kinds then None else Some ''No enabled analysis provider is configured.'')])"

definition available_ids :: "deliv_env \<Rightarrow> string \<Rightarrow> deliv_state \<Rightarrow> string list" where
  "available_ids env u s = map cb_id (filter (\<lambda>c. cb_status c = ''available'') (get_capabilities env u s))"

section \<open>Policies\<close>

record policy_write =
  pw_name :: string
  pw_mailbox :: string
  pw_enabled :: bool
  pw_minimum :: int
  pw_regression :: int
  pw_fail :: "string list"
  pw_checks :: "string list"
  pw_caps :: "string list"

definition normalize_ids :: "string list \<Rightarrow> string list result" where
  "normalize_ids vs =
     (let ns = map (\<lambda>v. lower_text (strip v)) (filter (\<lambda>v. strip v \<noteq> []) vs)
      in if distinct ns then Inr ns else Inl (ValueErr ''values must be unique''))"

definition policy_write_request :: "policy_write \<Rightarrow> policy_write result" where
  "policy_write_request q =
     (let name = strip (pw_name q); mb = strip (pw_mailbox q)
      in if pw_name q = [] \<or> 120 < length (pw_name q) \<or> length (pw_mailbox q) < 3 \<or> 320 < length (pw_mailbox q) \<or>
            pw_minimum q < 0 \<or> 100 < pw_minimum q \<or> pw_regression q < 0 \<or> 100 < pw_regression q \<or>
            \<not> set (pw_fail q) \<subseteq> {''warning'', ''fail''} \<or> 100 < length (pw_checks q) \<or> 30 < length (pw_caps q)
         then Inl (ValueErr ''value out of range'')
         else if name = [] \<or> mb = [] then Inl (ValueErr ''value cannot be blank'')
         else bind_res (normalize_ids (pw_checks q)) (\<lambda>cs.
              bind_res (normalize_ids (pw_caps q)) (\<lambda>ps.
              Inr (q\<lparr>pw_name := name, pw_mailbox := mb, pw_checks := cs, pw_caps := ps\<rparr>))))"

definition policy_order :: "deliv_policy list \<Rightarrow> deliv_policy list" where
  "policy_order ps = sort_key po_name (sort_key po_id ps)"

definition list_policies :: "string \<Rightarrow> mailbox \<Rightarrow> deliv_state \<Rightarrow> (deliv_policy \<times> string) list" where
  "list_policies u m s = map (\<lambda>p. (p, m_address m)) (policy_order (filter (\<lambda>p. po_user p = u \<and> po_mailbox p = m_id m) (dv_policies s)))"

definition get_policy :: "string \<Rightarrow> string \<Rightarrow> deliv_state \<Rightarrow> deliv_policy result" where
  "get_policy i u s =
     (case find (\<lambda>p. po_id p = i \<and> po_user p = u) (dv_policies s) of
        None \<Rightarrow> Inl (NotFoundError ''Deliverability policy'' i)
      | Some p \<Rightarrow> Inr p)"

text \<open>A row is stamped when the request changes it.\<close>

definition written_policy :: "time \<Rightarrow> mailbox \<Rightarrow> policy_write \<Rightarrow> deliv_policy \<Rightarrow> deliv_policy" where
  "written_policy now m q p =
     (let p' = p\<lparr>po_mailbox := m_id m, po_name := pw_name q, po_enabled := pw_enabled q, po_minimum := pw_minimum q,
                 po_regression := pw_regression q, po_fail := pw_fail q, po_checks := pw_checks q, po_caps := pw_caps q\<rparr>
      in if p' = p then p else p'\<lparr>po_updated := now\<rparr>)"

definition blank_policy :: "string \<Rightarrow> time \<Rightarrow> string \<Rightarrow> mailbox \<Rightarrow> deliv_policy" where
  "blank_policy fresh now u m = \<lparr>po_id = fresh, po_user = u, po_mailbox = m_id m, po_name = [], po_enabled = True, po_minimum = 80,
     po_regression = 5, po_fail = [''fail''], po_checks = [], po_caps = [], po_created = now, po_updated = now\<rparr>"

definition policy_conflict :: "deliv_policy \<Rightarrow> deliv_policy list \<Rightarrow> bool" where
  "policy_conflict p ps \<longleftrightarrow> list_ex (\<lambda>x. po_id x \<noteq> po_id p \<and> po_mailbox x = po_mailbox p \<and> po_name x = po_name p) ps"

definition save_policy ::
  "string \<Rightarrow> time \<Rightarrow> string \<Rightarrow> mailbox \<Rightarrow> policy_write \<Rightarrow> deliv_policy option \<Rightarrow> deliv_state \<Rightarrow> (deliv_policy \<times> string) result \<times> deliv_state" where
  "save_policy fresh now u m q old s =
     (let p = written_policy now m q (case old of None \<Rightarrow> blank_policy fresh now u m | Some p \<Rightarrow> p)
      in if policy_conflict p (dv_policies s)
         then (Inl (ConflictError (''Deliverability policy '' @ quoted (pw_name q) @ '' already exists'')), s)
         else (Inr (p, m_address m),
               s\<lparr>dv_policies := (case old of None \<Rightarrow> dv_policies s @ [p] | Some _ \<Rightarrow> row_put po_id p (dv_policies s))\<rparr>))"

text \<open>Evaluations go with the policy; schedules and alerts lose the reference.\<close>

definition delete_policy :: "deliv_policy \<Rightarrow> deliv_state \<Rightarrow> deliv_state" where
  "delete_policy p s =
     s\<lparr>dv_policies := row_del po_id (po_id p) (dv_policies s),
       dv_evals := filter (\<lambda>e. pe_policy e \<noteq> po_id p) (dv_evals s),
       dv_schedules := map (\<lambda>c. if sc_policy c = Some (po_id p) then c\<lparr>sc_policy := None\<rparr> else c) (dv_schedules s),
       dv_alerts := map (\<lambda>a. if al_policy a = Some (po_id p) then a\<lparr>al_policy := None\<rparr> else a) (dv_alerts s)\<rparr>"


section \<open>Evaluation\<close>

record evaluation_response =
  er_id :: string
  er_policy :: string
  er_report :: string
  er_passed :: bool
  er_score :: int
  er_delta :: "int option"
  er_reasons :: "string list"
  er_created :: time

definition eval_response :: "report_row \<Rightarrow> policy_eval \<Rightarrow> evaluation_response" where
  "eval_response r e = \<lparr>er_id = pe_id e, er_policy = pe_policy e, er_report = pe_report e, er_passed = pe_passed e,
     er_score = rr_score r, er_delta = pe_delta e, er_reasons = pe_reasons e, er_created = pe_created e\<rparr>"

definition report_checks :: "report_row \<Rightarrow> deliv_check list" where
  "report_checks r = concat (map cg_checks (rt_categories (hydrate True r)))"

text \<open>The values of the dictionary by check identifier.\<close>

definition checks_by_id :: "report_row \<Rightarrow> deliv_check list" where
  "checks_by_id r = List.map_filter (by_id ck_id (report_checks r)) (remdups (map ck_id (report_checks r)))"

definition score_reasons :: "deliv_policy \<Rightarrow> report_row \<Rightarrow> string list" where
  "score_reasons p r =
     (if rr_score r < po_minimum p
      then [''Score '' @ show_int (rr_score r) @ '' is below the required '' @ show_int (po_minimum p) @ ''.''] else [])"

definition status_reasons :: "deliv_policy \<Rightarrow> report_row \<Rightarrow> string list" where
  "status_reasons p r =
     (let failing = sort (map ck_title (filter (\<lambda>c. ck_status c \<in> set (po_fail p)) (checks_by_id r)))
      in if failing = [] then [] else [''Checks with blocked statuses: '' @ join '', '' failing @ ''.''])"

definition check_reasons :: "deliv_policy \<Rightarrow> report_row \<Rightarrow> string list" where
  "check_reasons p r = List.map_filter (\<lambda>i. case by_id ck_id (report_checks r) i of
       None \<Rightarrow> Some (''Required check '' @ quoted i @ '' is missing.'')
     | Some c \<Rightarrow> if ck_status c \<noteq> ''pass'' then Some (''Required check '' @ quoted i @ '' did not pass.'') else None) (po_checks p)"

definition capability_reasons :: "deliv_env \<Rightarrow> deliv_policy \<Rightarrow> deliv_state \<Rightarrow> string list" where
  "capability_reasons env p s =
     map (\<lambda>i. ''Required capability '' @ quoted i @ '' is unavailable.'')
       (filter (\<lambda>i. i \<notin> set (available_ids env (po_user p) s)) (po_caps p))"

definition eval_delta :: "deliv_policy \<Rightarrow> report_row \<Rightarrow> deliv_state \<Rightarrow> int option" where
  "eval_delta p r s =
     (case resolve_comparison_base r (po_user p) None (dv_reports s) of Inl e \<Rightarrow> None | Inr b \<Rightarrow> Some (rr_score r - rr_score b))"

definition regression_reasons :: "deliv_policy \<Rightarrow> int option \<Rightarrow> string list" where
  "regression_reasons p delta =
     (case delta of
        None \<Rightarrow> []
      | Some d \<Rightarrow> if d < - po_regression p
                 then [''Score regressed by '' @ show_int (- d) @ '' points, above the allowed '' @ show_int (po_regression p) @ ''.'']
                 else [])"

definition policy_reasons :: "deliv_env \<Rightarrow> deliv_policy \<Rightarrow> report_row \<Rightarrow> deliv_state \<Rightarrow> string list" where
  "policy_reasons env p r s =
     score_reasons p r @ status_reasons p r @ check_reasons p r @ capability_reasons env p s @ regression_reasons p (eval_delta p r s)"

definition policy_alert :: "string \<Rightarrow> time \<Rightarrow> deliv_policy \<Rightarrow> report_row \<Rightarrow> string list \<Rightarrow> alert_row" where
  "policy_alert fresh now p r reasons =
     \<lparr>al_id = fresh, al_user = po_user p, al_mailbox = po_mailbox p, al_report = Some (rr_id r), al_run = None,
      al_policy = Some (po_id p), al_key = ''policy:'' @ po_id p @ '':report:'' @ rr_id r, al_type = ''policy_failed'',
      al_severity = ''error'', al_title = take 255 (''Deliverability policy failed: '' @ po_name p),
      al_detail = take 4000 (join '' '' reasons), al_acknowledged = False, al_created = now, al_acknowledged_at = None\<rparr>"

text \<open>
  An alert with the same key makes the commit fail. The code then evaluates again, but the rollback has expired the rows,
  and an asynchronous session raises when their attributes are read.
\<close>

definition evaluate_policy ::
  "deliv_env \<Rightarrow> string \<Rightarrow> string \<Rightarrow> time \<Rightarrow> deliv_policy \<Rightarrow> report_row \<Rightarrow> deliv_state \<Rightarrow> evaluation_response result \<times> deliv_state" where
  "evaluate_policy env fresh fresh_alert now p r s =
     (case find (\<lambda>e. pe_policy e = po_id p \<and> pe_report e = rr_id r) (dv_evals s) of
        Some e \<Rightarrow> (Inr (eval_response r e), s)
      | None \<Rightarrow>
          (let reasons = policy_reasons env p r s;
               e = \<lparr>pe_id = fresh, pe_policy = po_id p, pe_report = rr_id r, pe_passed = (reasons = []),
                    pe_delta = eval_delta p r s, pe_reasons = reasons, pe_created = now\<rparr>;
               a = policy_alert fresh_alert now p r reasons
           in if reasons \<noteq> [] \<and> al_key a \<in> al_key ` set (dv_alerts s) then (Inl (OtherExc ''MissingGreenlet''), s)
              else (Inr (eval_response r e),
                    s\<lparr>dv_evals := dv_evals s @ [e], dv_alerts := dv_alerts s @ (if reasons = [] then [] else [a])\<rparr>)))"

section \<open>Providers\<close>

record provider_write =
  vw_name :: string
  vw_kind :: string
  vw_adapter :: string
  vw_enabled :: bool
  vw_config :: dict
  vw_secret :: "string option"

definition PROVIDER_PAIRS :: "(string \<times> string) list" where
  "PROVIDER_PAIRS = [(''preview'', ''generic_http_preview''), (''placement'', ''seed_imap''), (''analysis'', ''generic_http_analysis'')]"

definition config_text :: "dict \<Rightarrow> string \<Rightarrow> (json \<Rightarrow> string) \<Rightarrow> string" where
  "config_text cfg k show' = (case dict_get cfg k of None \<Rightarrow> [] | Some v \<Rightarrow> show' v)"

fun plain_text :: "json \<Rightarrow> string" where
  "plain_text (JStr s) = s"
| "plain_text (JInt i) = show_int i"
| "plain_text (JBool b) = (if b then ''True'' else ''False'')"
| "plain_text v = []"

definition bad_account_id :: "json \<Rightarrow> bool" where
  "bad_account_id v = (case v of JStr t \<Rightarrow> strip t = [] | _ \<Rightarrow> True)"

definition bad_folder :: "json \<Rightarrow> bool" where
  "bad_folder v = (case v of JStr t \<Rightarrow> strip t = [] \<or> 255 < length t \<or> list_ex (\<lambda>c. code c < 32) t | _ \<Rightarrow> True)"

definition default_folders :: json where
  "default_folders = JArr (map JStr [''INBOX'', ''Spam'', ''Junk'', ''Promotions''])"

definition validate_provider :: "deliv_env \<Rightarrow> provider_write \<Rightarrow> unit result" where
  "validate_provider env q =
     (if (vw_kind q, vw_adapter q) \<notin> set PROVIDER_PAIRS then Inl (ConflictError ''Provider kind does not match its adapter'')
      else if 16384 < dl_json_length env (vw_config q) then Inl (ConflictError ''Provider configuration is too large'')
      else bind_res
        (if vw_adapter q \<in> {''generic_http_preview'', ''generic_http_analysis''}
         then (let u = dl_parse_url env (config_text (vw_config q) ''base_url'' plain_text)
               in if url_scheme u \<noteq> ''https'' \<or> url_host u = [] \<or> url_username u \<noteq> [] \<or> url_password u \<noteq> []
                  then Inl (ConflictError ''Provider base_url must be a credential-free HTTPS URL'')
                  else if url_port u \<notin> {None, Some 443} then Inl (ConflictError ''Provider base_url must use port 443'')
                  else Inr ())
         else Inr ()) (\<lambda>_.
      if vw_adapter q \<noteq> ''seed_imap'' then Inr ()
      else (case dict_get (vw_config q) ''account_ids'' of
              Some (JArr ids) \<Rightarrow>
                if \<not> (1 \<le> length ids \<and> length ids \<le> 50) then Inl (ConflictError ''Seed IMAP providers require 1 to 50 account_ids'')
                else if list_ex bad_account_id ids then Inl (ConflictError ''Seed IMAP account_ids must be non-empty strings'')
                else (case dict_get_default (vw_config q) ''folders'' default_folders of
                        JArr fs \<Rightarrow>
                          if \<not> (1 \<le> length fs \<and> length fs \<le> 20) then Inl (ConflictError ''Seed IMAP folders must contain 1 to 20 names'')
                          else if list_ex bad_folder fs then Inl (ConflictError ''Seed IMAP folders contain an invalid name'')
                          else Inr ()
                      | _ \<Rightarrow> Inl (ConflictError ''Seed IMAP folders must contain 1 to 20 names''))
            | _ \<Rightarrow> Inl (ConflictError ''Seed IMAP providers require 1 to 50 account_ids''))))"

definition provider_order :: "provider_row list \<Rightarrow> provider_row list" where
  "provider_order ps = sort_key pv_name (sort_key pv_id ps)"

text \<open>The answer shows whether there is a secret, not the secret.\<close>

definition provider_response :: "provider_row \<Rightarrow> provider_row \<times> bool" where
  "provider_response p = (p\<lparr>pv_secret := []\<rparr>, pv_secret p \<noteq> [])"

definition list_providers :: "string \<Rightarrow> deliv_state \<Rightarrow> (provider_row \<times> bool) list" where
  "list_providers u s = map provider_response (provider_order (filter (\<lambda>p. pv_user p = u) (dv_providers s)))"

definition get_provider :: "string \<Rightarrow> string \<Rightarrow> deliv_state \<Rightarrow> provider_row result" where
  "get_provider i u s =
     (case find (\<lambda>p. pv_id p = i \<and> pv_user p = u) (dv_providers s) of
        None \<Rightarrow> Inl (NotFoundError ''Deliverability provider'' i)
      | Some p \<Rightarrow> Inr p)"

definition blank_provider :: "string \<Rightarrow> time \<Rightarrow> string \<Rightarrow> provider_row" where
  "blank_provider fresh now u = \<lparr>pv_id = fresh, pv_user = u, pv_name = [], pv_kind = [], pv_adapter = [], pv_enabled = True,
     pv_config = [], pv_secret = [], pv_status = ''not_checked'', pv_error = None, pv_checked = None, pv_created = now, pv_updated = now\<rparr>"

definition written_provider :: "deliv_env \<Rightarrow> time \<Rightarrow> provider_write \<Rightarrow> provider_row \<Rightarrow> provider_row" where
  "written_provider env now q p =
     (let p' = p\<lparr>pv_name := vw_name q, pv_kind := vw_kind q, pv_adapter := vw_adapter q, pv_enabled := vw_enabled q,
                 pv_config := vw_config q,
                 pv_secret := (case vw_secret q of None \<Rightarrow> pv_secret p | Some t \<Rightarrow> if t = [] then [] else dl_encrypt env t)\<rparr>
      in if p' = p then p else p'\<lparr>pv_updated := now\<rparr>)"

definition save_provider ::
  "deliv_env \<Rightarrow> string \<Rightarrow> time \<Rightarrow> string \<Rightarrow> provider_write \<Rightarrow> provider_row option \<Rightarrow> deliv_state \<Rightarrow> (provider_row \<times> bool) result \<times> deliv_state" where
  "save_provider env fresh now u q old s =
     (case validate_provider env q of
        Inl e \<Rightarrow> (Inl e, s)
      | Inr _ \<Rightarrow>
          (let p = written_provider env now q (case old of None \<Rightarrow> blank_provider fresh now u | Some p \<Rightarrow> p)
           in if list_ex (\<lambda>x. pv_id x \<noteq> pv_id p \<and> pv_user x = pv_user p \<and> pv_name x = pv_name p) (dv_providers s)
              then (Inl (ConflictError (''Deliverability provider '' @ quoted (vw_name q) @ '' already exists'')), s)
              else (Inr (provider_response p),
                    s\<lparr>dv_providers := (case old of None \<Rightarrow> dv_providers s @ [p] | Some _ \<Rightarrow> row_put pv_id p (dv_providers s))\<rparr>)))"

definition delete_provider :: "provider_row \<Rightarrow> deliv_state \<Rightarrow> deliv_state" where
  "delete_provider p s = s\<lparr>dv_providers := row_del pv_id (pv_id p) (dv_providers s)\<rparr>"

section \<open>Schedules\<close>

record schedule_write =
  sw_name :: string
  sw_mailbox :: string
  sw_enabled :: bool
  sw_interval :: int
  sw_checks :: "string list"
  sw_policy :: "string option"

definition RUN_CHECKS :: "string list" where
  "RUN_CHECKS = [''dns'', ''reputation'', ''links'', ''visual'', ''placement'', ''client_previews'', ''ai_analysis'']"

definition schedule_write_request :: "schedule_write \<Rightarrow> schedule_write result" where
  "schedule_write_request q =
     (if sw_name q = [] \<or> 120 < length (sw_name q) \<or> length (sw_mailbox q) < 3 \<or> 320 < length (sw_mailbox q) \<or>
         sw_interval q < 5 \<or> 43200 < sw_interval q \<or> 7 < length (sw_checks q) \<or> \<not> set (sw_checks q) \<subseteq> set RUN_CHECKS \<or>
         (case sw_policy q of None \<Rightarrow> False | Some i \<Rightarrow> 36 < length i)
      then Inl (ValueErr ''value out of range'')
      else if \<not> distinct (sw_checks q) then Inl (ValueErr ''checks must be unique'')
      else Inr (q\<lparr>sw_name := strip (sw_name q), sw_mailbox := strip (sw_mailbox q)\<rparr>))"

definition list_schedules :: "string \<Rightarrow> mailbox \<Rightarrow> deliv_state \<Rightarrow> (schedule_row \<times> string) list" where
  "list_schedules u m s = map (\<lambda>c. (c, m_address m))
     (sort_key sc_name (sort_key sc_id (filter (\<lambda>c. sc_user c = u \<and> sc_mailbox c = m_id m) (dv_schedules s))))"

definition get_schedule :: "string \<Rightarrow> string \<Rightarrow> deliv_state \<Rightarrow> schedule_row result" where
  "get_schedule i u s =
     (case find (\<lambda>c. sc_id c = i \<and> sc_user c = u) (dv_schedules s) of
        None \<Rightarrow> Inl (NotFoundError ''Deliverability schedule'' i)
      | Some c \<Rightarrow> Inr c)"

definition blank_schedule :: "string \<Rightarrow> time \<Rightarrow> string \<Rightarrow> mailbox \<Rightarrow> schedule_row" where
  "blank_schedule fresh now u m = \<lparr>sc_id = fresh, sc_user = u, sc_mailbox = m_id m, sc_policy = None, sc_name = [],
     sc_enabled = False, sc_interval = 60, sc_checks = [], sc_next = None, sc_last = None, sc_created = now, sc_updated = now\<rparr>"

definition written_schedule :: "time \<Rightarrow> mailbox \<Rightarrow> schedule_write \<Rightarrow> schedule_row \<Rightarrow> schedule_row" where
  "written_schedule now m q c =
     (let c' = c\<lparr>sc_mailbox := m_id m, sc_policy := sw_policy q, sc_name := sw_name q, sc_enabled := sw_enabled q,
                 sc_interval := sw_interval q, sc_checks := sw_checks q,
                 sc_next := (if sw_enabled q \<and> (\<not> sc_enabled c \<or> sc_next c = None) then Some (now + minutes (sw_interval q))
                             else if \<not> sw_enabled q then None else sc_next c)\<rparr>
      in if c' = c then c else c'\<lparr>sc_updated := now\<rparr>)"

definition schedule_policy_ok :: "string \<Rightarrow> mailbox \<Rightarrow> string option \<Rightarrow> deliv_state \<Rightarrow> unit result" where
  "schedule_policy_ok u m i s =
     (if truthy i
      then bind_res (get_policy (the i) u s) (\<lambda>p.
             if po_mailbox p \<noteq> m_id m then Inl (ConflictError ''Schedule policy must belong to the same mailbox'') else Inr ())
      else Inr ())"

definition save_schedule ::
  "string \<Rightarrow> time \<Rightarrow> string \<Rightarrow> mailbox \<Rightarrow> schedule_write \<Rightarrow> schedule_row option \<Rightarrow> deliv_state \<Rightarrow> (schedule_row \<times> string) result \<times> deliv_state" where
  "save_schedule fresh now u m q old s =
     (case schedule_policy_ok u m (sw_policy q) s of
        Inl e \<Rightarrow> (Inl e, s)
      | Inr _ \<Rightarrow>
          (let c = written_schedule now m q (case old of None \<Rightarrow> blank_schedule fresh now u m | Some c \<Rightarrow> c)
           in if list_ex (\<lambda>x. sc_id x \<noteq> sc_id c \<and> sc_mailbox x = sc_mailbox c \<and> sc_name x = sc_name c) (dv_schedules s) \<or>
                 sw_policy q = Some []
              then (Inl (ConflictError (''Deliverability schedule '' @ quoted (sw_name q) @ '' already exists'')), s)
              else (Inr (c, m_address m),
                    s\<lparr>dv_schedules := (case old of None \<Rightarrow> dv_schedules s @ [c] | Some _ \<Rightarrow> row_put sc_id c (dv_schedules s))\<rparr>)))"

definition delete_schedule :: "schedule_row \<Rightarrow> deliv_state \<Rightarrow> deliv_state" where
  "delete_schedule c s = s\<lparr>dv_schedules := row_del sc_id (sc_id c) (dv_schedules s)\<rparr>"

section \<open>Alerts\<close>

definition mailbox_address_of :: "string \<Rightarrow> deliv_state \<Rightarrow> string option" where
  "mailbox_address_of i s = map_option m_address (row_get m_id i (mailboxes (ms_db (dv_mail s))))"

definition list_alerts :: "string \<Rightarrow> bool option \<Rightarrow> deliv_state \<Rightarrow> (alert_row \<times> string) list" where
  "list_alerts u acknowledged s =
     (let rows = filter (\<lambda>a. al_user a = u \<and> (case acknowledged of None \<Rightarrow> True | Some b \<Rightarrow> al_acknowledged a = b)) (dv_alerts s);
          joined = List.map_filter (\<lambda>a. map_option (Pair a) (mailbox_address_of (al_mailbox a) s)) rows
      in take 500 (sort_key (\<lambda>x. - al_created (fst x)) (rev (sort_key (\<lambda>x. al_id (fst x)) joined))))"

definition get_alert :: "string \<Rightarrow> string \<Rightarrow> deliv_state \<Rightarrow> alert_row result" where
  "get_alert i u s =
     (case find (\<lambda>a. al_id a = i \<and> al_user a = u) (dv_alerts s) of
        None \<Rightarrow> Inl (NotFoundError ''Deliverability alert'' i)
      | Some a \<Rightarrow> Inr a)"

definition acknowledge_alert :: "time \<Rightarrow> alert_row \<Rightarrow> deliv_state \<Rightarrow> (alert_row \<times> string) result \<times> deliv_state" where
  "acknowledge_alert now a s =
     (case mailbox_address_of (al_mailbox a) s of
        None \<Rightarrow> (Inl (NotFoundError ''Mailbox'' (al_mailbox a)), s)
      | Some address \<Rightarrow>
          (let a' = a\<lparr>al_acknowledged := True, al_acknowledged_at := Some now\<rparr>
           in (Inr (a', address), s\<lparr>dv_alerts := row_put al_id a' (dv_alerts s)\<rparr>)))"

end
