(* ===== verification/MessageChecks.thy ===== *)
theory MessageChecks
  imports Reports SmtpCodes "HOL-Library.AList"
begin

text \<open>
  \<^verbatim>\<open>emails/deliverability.py\<close>: the checks of authentication, headers, transport, spam filter and attachments of a
  received message. The parsed message of Python's email package is a value: its header fields in order and its parts.
  Address and date parsing are arguments; the regular expressions are written out.
\<close>

section \<open>Parsed messages\<close>

record mail_part =
  mp_disposition :: "string option"
  mp_type :: string
  mp_text :: string
  mp_filename :: "string option"
  mp_size :: nat

record mail_message =
  mm_headers :: "(string \<times> string) list"
  mm_multipart :: bool
  mm_parts :: "mail_part list"

definition get_all :: "string \<Rightarrow> mail_message \<Rightarrow> string list" where
  "get_all name msg = map snd (filter (\<lambda>(n, v). lower n = lower name) (mm_headers msg))"

definition header_value :: "string \<Rightarrow> mail_message \<Rightarrow> string" where
  "header_value name msg = (case get_all name msg of [] \<Rightarrow> [] | v # vs \<Rightarrow> v)"

text \<open>What the standard library does for the checks. \<open>ml_address\<close> is \<open>parseaddr(s)[1]\<close>, \<open>ml_date\<close> whether
  \<open>parsedate_to_datetime\<close> accepts.\<close>

record mail_lib =
  ml_address :: "string \<Rightarrow> string"
  ml_date :: "string \<Rightarrow> bool"
  ml_show_g :: "rat \<Rightarrow> string"

definition chk :: "string \<Rightarrow> string \<Rightarrow> string \<Rightarrow> string \<Rightarrow> string \<Rightarrow> rat \<Rightarrow> rat \<Rightarrow> string list \<Rightarrow> string option \<Rightarrow> deliv_check" where
  "chk i category title status summary points max_points details recommendation =
     \<lparr>ck_id = i, ck_category = category, ck_title = title, ck_status = status, ck_summary = summary, ck_details = details,
      ck_evidence = [], ck_recommendation = recommendation, ck_points = points, ck_max = max_points\<rparr>"

text \<open>\<open>s.splitlines()\<close>.\<close>

definition text_lines :: "string \<Rightarrow> string list" where
  "text_lines s = map (rstrip_by line_boundary) (splitlines_keep (universal_newlines s))"

text \<open>\<open>str.title\<close>: a letter after another letter becomes small, any other one large.\<close>

fun title_from :: "bool \<Rightarrow> string \<Rightarrow> string" where
  "title_from inside [] = []"
| "title_from inside (c # s) =
     (if is_alpha c then (if inside then lower_char c else upper_char c) # title_from True s else c # title_from False s)"

section \<open>Domains\<close>

definition text_or_none :: "string \<Rightarrow> string option" where "text_or_none s = (if s = [] then None else Some s)"

definition strip_set :: "string \<Rightarrow> string \<Rightarrow> string" where
  "strip_set cs s = rstrip_by (\<lambda>c. c \<in> set cs) (lstrip_by (\<lambda>c. c \<in> set cs) s)"

definition no_dots :: "string \<Rightarrow> string" where "no_dots s = rstrip_by (\<lambda>c. c = CHR ''.'') s"

definition address_domain :: "mail_lib \<Rightarrow> string \<Rightarrow> string option" where
  "address_domain lib address =
     (case split_last (CHR ''@'') (lower (ml_address lib address)) of None \<Rightarrow> None | Some (l, d) \<Rightarrow> text_or_none (no_dots d))"

definition identity_domain :: "mail_lib \<Rightarrow> string option \<Rightarrow> string option" where
  "identity_domain lib value =
     (case value of
        None \<Rightarrow> None
      | Some v \<Rightarrow>
          (let n = no_dots (lower (strip_set ''<>'' (strip v)))
           in if v = [] \<or> n = [] then None else if CHR ''@'' \<in> set n then address_domain lib n else Some n))"

definition aligned :: "mail_lib \<Rightarrow> string option \<Rightarrow> string option \<Rightarrow> bool" where
  "aligned lib left right =
     (case (identity_domain lib left, identity_domain lib right) of
        (Some l, Some r) \<Rightarrow> l = r \<or> suffix (CHR ''.'' # r) l \<or> suffix (CHR ''.'' # l) r
      | _ \<Rightarrow> False)"

section \<open>Authentication results\<close>

definition trusted_authserv_ids :: "settings \<Rightarrow> string list" where
  "trusted_authserv_ids st =
     map (\<lambda>c. no_dots (lower (strip c))) (filter (\<lambda>c. strip c \<noteq> []) [''mailcue'', s_hostname st, ''mx1.'' @ s_domain st])"

definition authserv_id :: "string \<Rightarrow> string option" where
  "authserv_id value =
     (case split_first (CHR '';'') value of
        None \<Rightarrow> None
      | Some (preamble, rest) \<Rightarrow>
          (case split_ws preamble of [] \<Rightarrow> None | t # ts \<Rightarrow> text_or_none (no_dots (lower (strip_set [CHR 0x22] t)))))"

text \<open>\<open>\b(spf|dkim|dmarc)\s*=\s*([a-z]+)\<close>, letters of either case.\<close>

definition skip_ws :: "string \<Rightarrow> string" where "skip_ws s = dropWhile is_space s"

definition after_equals :: "string \<Rightarrow> string option" where
  "after_equals s = (case skip_ws s of c # r \<Rightarrow> if c = CHR ''='' then Some (skip_ws r) else None | [] \<Rightarrow> None)"

definition method_at :: "string list \<Rightarrow> string \<Rightarrow> (string \<times> string) option" where
  "method_at names s = map_option (\<lambda>n. (n, drop (length n) s)) (find (\<lambda>n. prefix n (lower s)) names)"

definition auth_result_here :: "string \<Rightarrow> (string \<times> string) option" where
  "auth_result_here s =
     Option.bind (method_at [''spf'', ''dkim'', ''dmarc''] s) (\<lambda>(n, r).
     Option.bind (after_equals r) (\<lambda>v.
       (let w = takeWhile is_alpha v in if w = [] then None else Some (n, lower w))))"

definition auth_result :: "string \<Rightarrow> (string \<times> string) option" where
  "auth_result segment = search_here auth_result_here False segment"

text \<open>\<open>\b([a-z][a-z0-9_.-]*)\s*=\s*(?:"([^"]*)"|([^\s;]+))\<close>: name, value and length of a match. An empty quoted value is
  no value.\<close>

definition property_char :: "char \<Rightarrow> bool" where
  "property_char c \<longleftrightarrow> is_alnum c \<or> c \<in> set ''_.-''"

definition quoted_value :: "string \<Rightarrow> (string option \<times> string) option" where
  "quoted_value v =
     (case v of
        c # r \<Rightarrow> if c = CHR 0x22 then map_option (\<lambda>(q, rest). (text_or_none q, rest)) (split_first (CHR 0x22) r) else None
      | [] \<Rightarrow> None)"

definition bare_value :: "string \<Rightarrow> (string option \<times> string) option" where
  "bare_value v =
     (let w = takeWhile (\<lambda>c. \<not> is_space c \<and> c \<noteq> CHR '';'') v in if w = [] then None else Some (Some w, drop (length w) v))"

definition property_here :: "string \<Rightarrow> (string \<times> string option \<times> nat) option" where
  "property_here s =
     (if s = [] \<or> \<not> is_alpha (hd s) then None
      else Option.bind (after_equals (dropWhile property_char s)) (\<lambda>v.
           Option.bind (case quoted_value v of None \<Rightarrow> bare_value v | q \<Rightarrow> q) (\<lambda>(x, rest).
             Some (lower (takeWhile property_char s), x, length s - length rest))))"

text \<open>The matches from left to right; \<open>skip\<close> characters of the last match are still to be passed.\<close>

fun property_matches :: "nat \<Rightarrow> bool \<Rightarrow> string \<Rightarrow> (string \<times> string option) list" where
  "property_matches skip after_word [] = []"
| "property_matches skip after_word (c # s) =
     (if 0 < skip then property_matches (skip - 1) (word_char c) s
      else (case (if after_word then None else property_here (c # s)) of
              None \<Rightarrow> property_matches 0 (word_char c) s
            | Some (n, v, len) \<Rightarrow> (n, v) # property_matches (len - 1) (word_char c) s))"

type_synonym auth_props = "(string \<times> string option) list"

definition properties_of :: "string \<Rightarrow> auth_props" where
  "properties_of s = property_matches 0 False s"

text \<open>Of equal names the last counts.\<close>

definition prop_get :: "auth_props \<Rightarrow> string \<Rightarrow> string option" where
  "prop_get ps n = Option.bind (map_of (rev ps) n) id"

type_synonym auth_entry = "string \<times> string \<times> auth_props"

definition segment_entry :: "string \<Rightarrow> auth_entry option" where
  "segment_entry segment = map_option (\<lambda>(m, r). (m, r, properties_of segment)) (auth_result segment)"

definition authentication_results :: "settings \<Rightarrow> mail_message \<Rightarrow> auth_entry list" where
  "authentication_results st msg =
     concat (map (\<lambda>v. List.map_filter segment_entry (tl (split_on (CHR '';'') v)))
       (filter (\<lambda>v. case authserv_id v of None \<Rightarrow> False | Some i \<Rightarrow> i \<in> set (trusted_authserv_ids st)) (get_all ''Authentication-Results'' msg)))"

text \<open>\<open>^\s*(pass|fail|softfail|neutral|none|temperror|permerror)\b\<close>.\<close>

definition received_spf_result :: "string \<Rightarrow> string option" where
  "received_spf_result v =
     find (\<lambda>r. prefix r (lower (skip_ws v)) \<and> boundary_at (drop (length r) (skip_ws v)))
       [''pass'', ''fail'', ''softfail'', ''neutral'', ''none'', ''temperror'', ''permerror'']"

definition received_spf_entry :: "settings \<Rightarrow> mail_lib \<Rightarrow> string \<Rightarrow> auth_entry option" where
  "received_spf_entry st lib v =
     (case received_spf_result v of
        None \<Rightarrow> None
      | Some r \<Rightarrow>
          (let ps = properties_of v
           in case identity_domain lib (prop_get ps ''receiver'') of
                None \<Rightarrow> None
              | Some d \<Rightarrow>
                  if d \<in> set (trusted_authserv_ids st)
                  then Some (''spf'', r, [(''smtp.mailfrom'', prop_get ps ''envelope-from''), (''smtp.helo'', prop_get ps ''helo'')])
                  else None))"

text \<open>The older header counts only when no newer one reports SPF, and only its first trusted field.\<close>

definition parsed_authentication_results :: "settings \<Rightarrow> mail_lib \<Rightarrow> mail_message \<Rightarrow> auth_entry list" where
  "parsed_authentication_results st lib msg =
     (let es = authentication_results st msg
      in if list_ex (\<lambda>(m, r, ps). m = ''spf'') es then es
         else es @ take 1 (List.map_filter (received_spf_entry st lib) (get_all ''Received-SPF'' msg)))"

definition best_result :: "string \<Rightarrow> auth_entry list \<Rightarrow> (string \<times> auth_props) option" where
  "best_result method es =
     (let rs = map snd (filter (\<lambda>(m, r, ps). m = method) es)
      in case find (\<lambda>(r, ps). r = ''pass'') rs of Some b \<Rightarrow> Some b | None \<Rightarrow> (case rs of [] \<Rightarrow> None | b # bs \<Rightarrow> Some b))"

definition spf_identity :: "mail_lib \<Rightarrow> auth_props \<Rightarrow> string option" where
  "spf_identity lib ps =
     (case identity_domain lib (prop_get ps ''smtp.mailfrom'') of
        Some d \<Rightarrow> Some d | None \<Rightarrow> identity_domain lib (prop_get ps ''smtp.helo''))"

definition trusted_spf_domain :: "settings \<Rightarrow> mail_lib \<Rightarrow> mail_message \<Rightarrow> string option" where
  "trusted_spf_domain st lib msg =
     Option.bind (best_result ''spf'' (parsed_authentication_results st lib msg)) (\<lambda>(r, ps). spf_identity lib ps)"

record auth_method =
  am_id :: string
  am_weight :: rat
  am_title :: string
  am_advice :: string

definition auth_methods :: "auth_method list" where
  "auth_methods =
     [\<lparr>am_id = ''spf'', am_weight = 10, am_title = ''SPF'', am_advice = ''Publish SPF for the envelope sender and authorize this sending IP.''\<rparr>,
      \<lparr>am_id = ''dkim'', am_weight = 15, am_title = ''DKIM'', am_advice = ''Sign the message with DKIM using the visible From domain.''\<rparr>,
      \<lparr>am_id = ''dmarc'', am_weight = 15, am_title = ''DMARC'', am_advice = ''Publish DMARC and align SPF or DKIM with the visible From domain.''\<rparr>]"

definition auth_domain :: "mail_lib \<Rightarrow> string \<Rightarrow> auth_props \<Rightarrow> string option" where
  "auth_domain lib method ps =
     (if method = ''spf'' then spf_identity lib ps
      else identity_domain lib (prop_get ps (if method = ''dkim'' then ''header.d'' else ''header.from'')))"

definition auth_details :: "string \<Rightarrow> string \<Rightarrow> string option \<Rightarrow> bool \<Rightarrow> string list" where
  "auth_details method result d alignment =
     (''Receiver result: '' @ result) # (case d of None \<Rightarrow> [] | Some x \<Rightarrow> [''Authenticated domain: '' @ x]) @
     (if method \<in> {''spf'', ''dkim''} \<and> result = ''pass''
      then [''Visible From alignment: '' @ (if alignment then ''aligned'' else ''not aligned'')] else [])"

definition auth_verdict :: "auth_method \<Rightarrow> string \<Rightarrow> bool \<Rightarrow> string \<times> rat \<times> string" where
  "auth_verdict a result alignment =
     (let title = am_title a; w = am_weight a
      in if result = ''pass'' \<and> (am_id a = ''dmarc'' \<or> alignment)
         then (''pass'', w, title @ '' passed'' @ (if am_id a \<noteq> ''dmarc'' then '' with aligned identity.'' else ''.''))
         else if result = ''pass''
         then (''warning'', fmul w (dbl (6 / 10)), title @ '' passed, but its domain is not aligned with the visible From domain.'')
         else if result \<in> {''neutral'', ''none'', ''softfail'', ''temperror''}
         then (''warning'', fmul w (1 / 4), ''The receiver reported '' @ title @ '' '' @ result @ ''.'')
         else (''fail'', 0, ''The receiver reported '' @ title @ '' '' @ result @ ''.''))"

definition auth_check :: "mail_lib \<Rightarrow> auth_entry list \<Rightarrow> string option \<Rightarrow> auth_method \<Rightarrow> deliv_check" where
  "auth_check lib es sender a =
     (case best_result (am_id a) es of
        None \<Rightarrow>
          chk (am_id a) ''authentication'' (am_title a) ''fail'' (''No receiver-verified '' @ am_title a @ '' result was found.'') 0
            (am_weight a) [] (Some (am_advice a))
      | Some (result, ps) \<Rightarrow>
          (let d = auth_domain lib (am_id a) ps; alignment = aligned lib d sender; (status, points, summary) = auth_verdict a result alignment
           in chk (am_id a) ''authentication'' (am_title a) status summary points (am_weight a)
                (auth_details (am_id a) result d alignment) (if status = ''pass'' then None else Some (am_advice a))))"

definition authentication_checks :: "settings \<Rightarrow> mail_lib \<Rightarrow> mail_message \<Rightarrow> string option \<Rightarrow> deliv_check list" where
  "authentication_checks st lib msg sender =
     map (auth_check lib (parsed_authentication_results st lib msg) sender) auth_methods"

section \<open>Headers\<close>

definition from_header_check :: "mail_lib \<Rightarrow> mail_message \<Rightarrow> deliv_check" where
  "from_header_check lib msg =
     (let vs = get_all ''From'' msg; ok = (length vs = 1 \<and> ml_address lib (hd vs) \<noteq> [])
      in chk ''from_header'' ''headers'' ''From identity'' (if ok then ''pass'' else ''fail'')
           (if ok then ''One valid From identity is present.'' else ''The message must contain exactly one valid From header.'')
           (if ok then 3 else 0) 3 [] (if ok then None else Some ''Send with exactly one syntactically valid From mailbox.''))"

definition duplicate_names :: "mail_message \<Rightarrow> string list" where
  "duplicate_names msg = filter (\<lambda>n. 1 < length (get_all n msg)) [''Date'', ''From'', ''Message-ID'', ''Reply-To'', ''Subject'']"

definition duplicate_check :: "mail_message \<Rightarrow> deliv_check" where
  "duplicate_check msg =
     (let ds = duplicate_names msg
      in chk ''duplicate_headers'' ''headers'' ''Duplicate identity headers'' (if ds \<noteq> [] then ''fail'' else ''pass'')
           (if ds \<noteq> [] then ''Conflicting singleton headers were found.'' else ''No conflicting singleton identity headers were found.'')
           (if ds \<noteq> [] then 0 else 2) 2 ds
           (if ds \<noteq> [] then Some ''Emit only one Date, From, Message-ID, Reply-To, and Subject header.'' else None))"

text \<open>\<open>\s*<[^<>\s]+@[^<>\s]+>\s*\<close>.\<close>

definition message_id_ok :: "string \<Rightarrow> bool" where
  "message_id_ok v =
     (let s = strip v; b = butlast (tl s)
      in 5 \<le> length s \<and> hd s = CHR ''<'' \<and> last s = CHR ''>'' \<and> list_all (\<lambda>c. c \<notin> {CHR ''<'', CHR ''>''} \<and> \<not> is_space c) b \<and>
         CHR ''@'' \<in> set (butlast (tl b)))"

definition message_id_check :: "mail_message \<Rightarrow> deliv_check" where
  "message_id_check msg =
     (let vs = get_all ''Message-ID'' msg; ok = (length vs = 1 \<and> message_id_ok (hd vs))
      in chk ''message_id'' ''headers'' ''Message ID'' (if ok then ''pass'' else ''warning'')
           (if ok then ''A well-formed Message-ID is present.'' else ''A unique, well-formed Message-ID was not found.'')
           (if ok then 3 else 1) 3 [] (if ok then None else Some ''Generate one stable Message-ID in angle brackets for each message.''))"

definition date_check :: "mail_lib \<Rightarrow> mail_message \<Rightarrow> deliv_check" where
  "date_check lib msg =
     (let ok = ml_date lib (header_value ''Date'' msg)
      in chk ''date_header'' ''headers'' ''Date header'' (if ok then ''pass'' else ''warning'')
           (if ok then ''The Date header is valid.'' else ''The Date header is missing or invalid.'')
           (if ok then 2 else 1) 2 [] (if ok then None else Some ''Add an RFC 5322 Date header when the message is created.''))"

definition mime_check :: "mail_message \<Rightarrow> deliv_check" where
  "mime_check msg =
     (let ok = (\<not> mm_multipart msg \<or> header_value ''MIME-Version'' msg = ''1.0'')
      in chk ''mime_structure'' ''headers'' ''MIME structure'' (if ok then ''pass'' else ''warning'')
           (if ok then ''The MIME declaration matches the message structure.'' else ''A multipart message is missing MIME-Version: 1.0.'')
           (if ok then 2 else 1) 2 [] (if ok then None else Some ''Add MIME-Version: 1.0 and validate MIME boundaries.''))"

definition unsubscribe_check :: "mail_message \<Rightarrow> deliv_check" where
  "unsubscribe_check msg =
     (let bulk = list_ex (\<lambda>n. header_value n msg \<noteq> []) [''List-ID'', ''Precedence'', ''List-Unsubscribe''];
          unsubscribe = header_value ''List-Unsubscribe'' msg \<noteq> [];
          one_click = contains ''list-unsubscribe=one-click'' (lower (header_value ''List-Unsubscribe-Post'' msg));
          c = chk ''unsubscribe'' ''headers'' ''Unsubscribe support''
      in if \<not> bulk
         then c ''info'' ''The message does not identify itself as bulk mail, so unsubscribe headers are not required.'' 0 0 [] None
         else if unsubscribe \<and> one_click then c ''pass'' ''Bulk mail includes unsubscribe and one-click support.'' 3 3 [] None
         else if unsubscribe
         then c ''warning'' ''An unsubscribe method is present, but RFC 8058 one-click support is missing.'' 2 3 []
                (Some ''Add List-Unsubscribe-Post: List-Unsubscribe=One-Click for eligible bulk mail.'')
         else c ''fail'' ''Bulk mail does not include a List-Unsubscribe header.'' 0 3 []
                (Some ''Add working mailto or HTTPS List-Unsubscribe options.''))"

definition envelope_check :: "mail_lib \<Rightarrow> mail_message \<Rightarrow> string option \<Rightarrow> deliv_check" where
  "envelope_check lib msg sender =
     (let c = chk ''envelope_alignment'' ''headers'' ''Envelope alignment''
      in case address_domain lib (header_value ''Return-Path'' msg) of
           None \<Rightarrow> c ''warning'' ''No usable Return-Path domain was found.'' 1 2 []
                     (Some ''Configure a valid envelope sender for bounce handling and SPF alignment.'')
         | Some d \<Rightarrow>
             if aligned lib (Some d) sender then c ''pass'' ''The Return-Path domain aligns with the visible From domain.'' 2 2 [] None
             else c ''warning'' ''The Return-Path domain does not align with the visible From domain.'' 1 2
                    [''Return-Path domain: '' @ d] (Some ''Use an aligned custom bounce domain when possible.''))"

definition reply_to_check :: "mail_lib \<Rightarrow> mail_message \<Rightarrow> string option \<Rightarrow> deliv_check" where
  "reply_to_check lib msg sender =
     (let reply_to = header_value ''Reply-To'' msg; d = address_domain lib reply_to; c = chk ''reply_to_identity'' ''headers'' ''Reply-To identity''
      in if reply_to = [] then c ''info'' ''No Reply-To override is present.'' 0 0 [] None
         else if d \<noteq> None \<and> aligned lib d sender then c ''pass'' ''The Reply-To domain aligns with the visible From domain.'' 2 2 [] None
         else c ''warning'' ''The Reply-To address is invalid or uses an unrelated domain.'' 1 2 [''Reply-To: '' @ take 320 reply_to]
                (Some ''Use an expected, monitored Reply-To domain and explain intentional differences.''))"

definition header_checks :: "mail_lib \<Rightarrow> mail_message \<Rightarrow> string option \<Rightarrow> deliv_check list" where
  "header_checks lib msg sender =
     [from_header_check lib msg, duplicate_check msg, message_id_check msg, date_check lib msg, mime_check msg, unsubscribe_check msg,
      envelope_check lib msg sender, reply_to_check lib msg sender]"

section \<open>Transport\<close>

text \<open>\<open>\b(?:TLS|ESMTPS)\b\<close> and \<open>\bfrom\s+[a-z0-9.-]+\<close>, letters of either case.\<close>

definition tls_here :: "string \<Rightarrow> unit option" where
  "tls_here s = (if list_ex (\<lambda>w. prefix w (lower s) \<and> boundary_at (drop (length w) s)) [''tls'', ''esmtps''] then Some () else None)"

definition named_here :: "string \<Rightarrow> unit option" where
  "named_here s =
     (let r = drop 4 s
      in if prefix ''from'' (lower s) \<and> r \<noteq> [] \<and> is_space (hd r) \<and>
            (case skip_ws r of [] \<Rightarrow> False | c # cs \<Rightarrow> is_alnum c \<or> c = CHR ''.'' \<or> c = CHR ''-'') then Some () else None)"

definition transport_checks :: "mail_message \<Rightarrow> deliv_check list" where
  "transport_checks msg =
     (let received = get_all ''Received'' msg;
          tls_hops = filter (\<lambda>v. search_here tls_here False v \<noteq> None) received;
          tls = chk ''transport_tls'' ''transport'' ''Transport encryption'';
          named = (received \<noteq> [] \<and> search_here named_here False (last received) \<noteq> None);
          arc = (header_value ''ARC-Seal'' msg \<noteq> [] \<and> header_value ''ARC-Message-Signature'' msg \<noteq> [])
      in [if received \<noteq> [] \<and> tls_hops \<noteq> []
          then tls ''pass'' ''At least one recorded delivery hop used TLS.'' 4 4
                 [''TLS hops: '' @ show_nat (length tls_hops) @ '' of '' @ show_nat (length received)] None
          else if received \<noteq> []
          then tls ''warning'' ''No TLS evidence was found in the recorded delivery route.'' 1 4 []
                 (Some ''Require opportunistic or enforced TLS between sending and receiving MTAs.'')
          else tls ''info'' ''No Received route was available, so transport encryption cannot be assessed.'' 0 0 [] None,
          chk ''received_route'' ''transport'' ''Delivery route'' (if received \<noteq> [] then ''pass'' else ''info'')
            (if received \<noteq> [] then ''The message contains '' @ show_nat (length received) @ '' delivery hop(s).''
             else ''No delivery route is available for this message.'')
            (if received \<noteq> [] then 2 else 0) (if received \<noteq> [] then 2 else 0) [] None,
          chk ''origin_identity'' ''transport'' ''Origin identity'' (if named then ''pass'' else if received \<noteq> [] then ''warning'' else ''info'')
            (if named then ''The earliest recorded hop includes a named sending host.''
             else ''The sending host identity could not be established from the route.'')
            (if named then 2 else if received \<noteq> [] then 1 else 0) (if received \<noteq> [] then 2 else 0) []
            (if named \<or> received = [] then None else Some ''Configure a stable sending hostname and matching reverse DNS.''),
          chk ''arc'' ''transport'' ''ARC chain'' (if arc then ''pass'' else ''info'')
            (if arc then ''An ARC chain is present for forwarded authentication evidence.''
             else ''No ARC chain is present. ARC is optional unless the message was forwarded.'')
            (if arc then 2 else 0) (if arc then 2 else 0) [] None])"

section \<open>Spam filter\<close>

definition SPAM_RULE_GUIDANCE :: "(string \<times> string) list" where
  "SPAM_RULE_GUIDANCE =
     [(''DKIM_INVALID'', ''Verify the DKIM signature, selector, canonicalization, and signed headers.''),
      (''DKIM_SIGNED'', ''The message contains a DKIM signature. This rule is informational.''),
      (''DMARC_FAIL_REJECT'', ''Align a passing SPF or DKIM identity with the visible From domain.''),
      (''HTML_MESSAGE'', ''This rule only notes that HTML is present and is usually informational.''),
      (''MISSING_DATE'', ''Add a valid RFC 5322 Date header.''),
      (''MISSING_MID'', ''Add one unique and well-formed Message-ID header.''),
      (''SPF_FAIL'', ''Authorize the sending IP in the envelope sender domain SPF record.''),
      (''SPF_SOFTFAIL'', ''Replace SPF soft-fail with an accurate authorized sender policy.'')]"

text \<open>\<open>-?\d+(?:\.\d+)?\<close> at the start of a text: the double and what follows.\<close>

definition signed_number :: "string \<Rightarrow> (rat \<times> string) option" where
  "signed_number s =
     (let neg = (s \<noteq> [] \<and> hd s = CHR ''-''); b = (if neg then tl s else s);
          whole = takeWhile is_digit b; r = drop (length whole) b;
          frac = (case r of c # r' \<Rightarrow> if c = CHR ''.'' then takeWhile is_digit r' else [] | [] \<Rightarrow> []);
          q = rat_of_nat (digits_nat (whole @ frac)) / 10 ^ length frac
      in if whole = [] then None
         else Some (dbl (if neg then - q else q), if frac = [] then r else drop (Suc (length frac)) r))"

definition value_here :: "string \<Rightarrow> string \<Rightarrow> rat option" where
  "value_here name s = (if prefix name (lower s) then map_option fst (signed_number (drop (length name) s)) else None)"

definition tests_here :: "string \<Rightarrow> string option" where
  "tests_here s =
     (let w = takeWhile (\<lambda>c. \<not> is_space c) (drop 6 s) in if prefix ''tests='' (lower s) \<and> w \<noteq> [] then Some w else None)"

definition rule_char :: "char \<Rightarrow> bool" where
  "rule_char c \<longleftrightarrow> (65 \<le> code c \<and> code c \<le> 90) \<or> is_digit c \<or> c = CHR ''_''"

definition rule_title :: "string \<Rightarrow> string" where
  "rule_title s = title_from False (map (\<lambda>c. if c = CHR ''_'' then CHR '' '' else c) s)"

definition tested_rule :: "string \<Rightarrow> evidence" where
  "tested_rule c = \<lparr>ev_code = c, ev_title = rule_title c, ev_value = None, ev_score = None,
     ev_description = Some ''Matched by the local SpamAssassin ruleset.'', ev_recommendation = map_of SPAM_RULE_GUIDANCE c\<rparr>"

definition tested_codes :: "string \<Rightarrow> string list" where
  "tested_codes status =
     (case search_here tests_here False status of
        None \<Rightarrow> []
      | Some t \<Rightarrow> filter (\<lambda>c. c \<noteq> [] \<and> length c \<le> 80 \<and> list_all rule_char c) (map (\<lambda>c. upper (strip c)) (split_on (CHR '','') t)))"

text \<open>\<open>^\s*\*?\s*(-?\d+(?:\.\d+)?)\s+([A-Z][A-Z0-9_]+)\s*(.*)$\<close>: score, code, description.\<close>

definition report_rule :: "string \<Rightarrow> (rat \<times> string \<times> string) option" where
  "report_rule l =
     (let s = skip_ws l; s' = (case s of c # r \<Rightarrow> if c = CHR ''*'' then skip_ws r else s | [] \<Rightarrow> s)
      in case signed_number s' of
           None \<Rightarrow> None
         | Some (q, r) \<Rightarrow>
             (let t = skip_ws r; c = takeWhile rule_char t
              in if r \<noteq> [] \<and> is_space (hd r) \<and> 2 \<le> length c \<and> is_alpha (hd c) then Some (q, c, skip_ws (drop (length c) t)) else None))"

definition reported_rule :: "(string \<times> evidence) list \<Rightarrow> rat \<times> string \<times> string \<Rightarrow> (string \<times> evidence) list" where
  "reported_rule known x =
     (case x of (q, c, d) \<Rightarrow>
        (let current = map_of known c; text' = take 500 (strip d)
         in AList.update c \<lparr>ev_code = c, ev_title = (case current of Some e \<Rightarrow> ev_title e | None \<Rightarrow> rule_title c), ev_value = None,
              ev_score = Some q,
              ev_description = (if text' \<noteq> [] then Some text'
                 else (case current of Some e \<Rightarrow> ev_description e | None \<Rightarrow> Some ''Matched by the local SpamAssassin ruleset.'')),
              ev_recommendation = map_of SPAM_RULE_GUIDANCE c\<rparr> known))"

definition spam_rule_evidence :: "mail_message \<Rightarrow> string \<Rightarrow> evidence list" where
  "spam_rule_evidence msg status =
     (let tested = fold (\<lambda>c. AList.update c (tested_rule c)) (tested_codes status) [];
          rules = List.map_filter report_rule (take 200 (text_lines (header_value ''X-Spam-Report'' msg)));
          found = map snd (foldl reported_rule tested rules)
      in take 100 (sort_key (\<lambda>e. - (case ev_score e of None \<Rightarrow> 0 | Some q \<Rightarrow> q)) (sort_key ev_code found)))"

definition spam_verdict :: "bool \<Rightarrow> rat option \<Rightarrow> rat \<Rightarrow> rat \<times> string \<times> string" where
  "spam_verdict flagged score required =
     (if flagged then (0, ''fail'', ''The local spam filter classified the message as spam.'')
      else (case score of
              None \<Rightarrow> (9, ''warning'', ''The local spam filter did not flag the message, but no numeric score was recorded.'')
            | Some q \<Rightarrow>
                (let margin = fsub required q
                 in if 2 \<le> margin then (12, ''pass'', ''The local spam filter accepted the message.'')
                    else (if 1 / 2 \<le> margin then 9 else 6, ''warning'', ''The message passed the local spam filter with limited margin.''))))"

definition spam_filter_checks :: "mail_lib \<Rightarrow> mail_message \<Rightarrow> deliv_check list" where
  "spam_filter_checks lib msg =
     (let status = header_value ''X-Spam-Status'' msg; flag = header_value ''X-Spam-Flag'' msg;
          score = search_here (value_here ''score='') False status;
          required = (case search_here (value_here ''required='') False status of Some q \<Rightarrow> q | None \<Rightarrow> 5);
          flagged = (lower (strip flag) = ''yes'' \<or> prefix ''yes'' (lower status));
          (points, st, summary) = spam_verdict flagged score required
      in if status = [] \<and> flag = []
         then [chk ''spamassassin'' ''spam_filter'' ''SpamAssassin'' ''info'' ''No local SpamAssassin result was attached to this message.'' 0 0 [] None]
         else [(chk ''spamassassin'' ''spam_filter'' ''SpamAssassin'' st summary points 12
                  (case score of None \<Rightarrow> [] | Some q \<Rightarrow> [''SpamAssassin score: '' @ ml_show_g lib q @ '', threshold: '' @ ml_show_g lib required])
                  (if st = ''pass'' then None
                   else Some ''Review the SpamAssassin rules in X-Spam-Report and fix the highest-impact findings.''))
                 \<lparr>ck_evidence := spam_rule_evidence msg status\<rparr>,
               chk ''spam_flag'' ''spam_filter'' ''Spam flag'' (if flagged then ''fail'' else ''pass'')
                 (if flagged then ''X-Spam-Flag is YES.'' else ''X-Spam-Flag does not classify the message as spam.'')
                 (if flagged then 0 else 3) 3 [] None])"

section \<open>Attachments\<close>

definition dangerous_extensions :: "string list" where
  "dangerous_extensions = [''.app'', ''.bat'', ''.cmd'', ''.com'', ''.exe'', ''.hta'', ''.jar'', ''.js'', ''.lnk'', ''.msi'', ''.ps1'', ''.scr'', ''.vbs'']"

text \<open>\<open>re.findall(r"\.[a-z0-9]{1,8}", filename)\<close>: small letters only.\<close>

fun suffixes_from :: "nat \<Rightarrow> string \<Rightarrow> string list" where
  "suffixes_from skip [] = []"
| "suffixes_from skip (c # s) =
     (if 0 < skip then suffixes_from (skip - 1) s
      else (let w = take 8 (takeWhile (\<lambda>d. (97 \<le> code d \<and> code d \<le> 122) \<or> is_digit d) s)
            in if c = CHR ''.'' \<and> w \<noteq> [] then (c # w) # suffixes_from (length w) s else suffixes_from 0 s))"

definition attachment_name :: "mail_part \<Rightarrow> string" where
  "attachment_name p = (case mp_filename p of None \<Rightarrow> ''unnamed attachment'' | Some f \<Rightarrow> if f = [] then ''unnamed attachment'' else f)"

definition is_dangerous :: "string \<Rightarrow> bool" where
  "is_dangerous filename \<longleftrightarrow> list_ex (\<lambda>x. lower x \<in> set dangerous_extensions) (suffixes_from 0 filename)"

text \<open>\<open>f"{x:.1f}"\<close>.\<close>

definition fixed1 :: "rat \<Rightarrow> string" where
  "fixed1 q = (let n = nat (half_even (q * 10)) in show_nat (n div 10) @ ''.'' @ show_nat (n mod 10))"

definition megabytes :: "nat \<Rightarrow> string" where
  "megabytes n = fixed1 (fdiv (fdiv (of_nat n) 1024) 1024) @ '' MB''"

definition attachments_of :: "mail_message \<Rightarrow> mail_part list" where
  "attachments_of msg = filter (\<lambda>p. mp_disposition p = Some ''attachment'') (mm_parts msg)"

definition attachment_checks :: "mail_message \<Rightarrow> deliv_check list" where
  "attachment_checks msg =
     (let all' = attachments_of msg; some' = take 100 all'; total = sum_list (map mp_size some');
          dangerous = filter is_dangerous (map attachment_name some');
          oversized = map (\<lambda>p. attachment_name p @ '': '' @ megabytes (mp_size p)) (filter (\<lambda>p. 10 * 1024 * 1024 < mp_size p) some');
          details = [''Attachments: '' @ show_nat (length all'), ''Decoded attachment size: '' @ megabytes total];
          c = chk ''attachment_safety'' ''attachments'' ''Attachment safety''
      in if all' = [] then [c ''info'' ''The message has no attachments.'' 0 0 [] None]
         else if dangerous \<noteq> []
         then [c ''fail'' ''Executable or commonly blocked attachment types were detected.'' 0 5 (details @ take 20 dangerous)
                 (Some ''Remove executable attachments and share files through a trusted HTTPS service.'')]
         else if oversized \<noteq> [] \<or> 20 * 1024 * 1024 < total
         then [c ''warning'' ''Attachment size may exceed receiving-provider limits.'' 2 5 (details @ take 20 oversized)
                 (Some ''Keep the encoded message below common provider limits or send a download link.'')]
         else [c ''pass'' ''Attachment names, types, and decoded size do not show common delivery risks.'' 5 5 details None])"

end
