(* ===== verification/DelivExec.thy ===== *)
theory DelivExec
  imports Monitor Tunnels MessageChecks
begin

text \<open>
  \<^verbatim>\<open>deliverability/service.py\<close> (\<open>_execute_run\<close>), \<^verbatim>\<open>deliverability/providers.py\<close>,
  \<^verbatim>\<open>deliverability/placement.py\<close>: the further checks of a report. The network, link and rendering analyses, HTTPS,
  IMAP, JSON reading, image comparison and hashing are arguments; an analysis that raises answers with the exception.
\<close>

section \<open>What the run meets\<close>

datatype run_exc = RuntimeExc string | TimeoutExc | OtherClass string

type_synonym 'a run_result = "run_exc + 'a"

record rendered =
  rd_name :: string
  rd_width :: int
  rd_height :: int
  rd_data :: string

record provider_reply =
  py_status :: int
  py_type :: string
  py_body :: string

record imap_session =
  im_select :: "string \<Rightarrow> bool option"
  im_search :: "string \<Rightarrow> string \<Rightarrow> bool option"

record run_world =
  rw_network :: "string \<Rightarrow> string option \<Rightarrow> deliv_category list run_result"
  rw_links :: "string \<Rightarrow> deliv_category run_result"
  rw_render :: "string \<Rightarrow> rendered list run_result"
  rw_difference :: "string \<Rightarrow> string \<Rightarrow> rat option"
  rw_public :: "string \<Rightarrow> int \<Rightarrow> string list"
  rw_post :: "string \<Rightarrow> string \<Rightarrow> string \<Rightarrow> provider_reply run_result"
  rw_json :: "string \<Rightarrow> json option"
  rw_repr :: "json \<Rightarrow> string"
  rw_imap :: "string \<Rightarrow> string \<Rightarrow> imap_session option"
  rw_sha :: "string \<Rightarrow> string"
  rw_fresh :: "nat \<Rightarrow> string"
  rw_show_g :: "rat \<Rightarrow> string"
  rw_max_image :: int

section \<open>Providers\<close>

record preview =
  px_client :: string
  px_platform :: string
  px_theme :: string
  px_status :: string
  px_description :: string
  px_media :: "string option"
  px_data :: "string option"

record finding =
  fi_severity :: string
  fi_title :: string
  fi_detail :: string
  fi_recommendation :: string

definition png_magic :: string where
  "png_magic = [CHR 0x89, CHR 0x50, CHR 0x4E, CHR 0x47, CHR 0x0D, CHR 0x0A, CHR 0x1A, CHR 0x0A]"

definition jpeg_magic :: string where "jpeg_magic = [CHR 0xFF, CHR 0xD8, CHR 0xFF]"

definition run_bind :: "'a run_result \<Rightarrow> ('a \<Rightarrow> 'b run_result) \<Rightarrow> 'b run_result" where
  "run_bind r f = (case r of Inl e \<Rightarrow> Inl e | Inr x \<Rightarrow> f x)"

text \<open>A media type that is a list or an object cannot be looked up in a set: Python raises.\<close>

definition decode_image :: "run_world \<Rightarrow> json option \<Rightarrow> json option \<Rightarrow> (string option \<times> string option) run_result" where
  "decode_image w value media =
     (case value of
        Some (JStr v) \<Rightarrow>
          if v = [] then Inr (None, None)
          else (case media of
                  Some (JArr vs) \<Rightarrow> Inl (OtherClass ''TypeError'')
                | Some (JObj d) \<Rightarrow> Inl (OtherClass ''TypeError'')
                | Some (JStr m) \<Rightarrow>
                    if m \<notin> {''image/png'', ''image/jpeg''} then Inr (None, None)
                    else (case b64decode v of
                            None \<Rightarrow> Inr (None, None)
                          | Some bs \<Rightarrow>
                              (let data = map char_of bs
                               in if rw_max_image w < int (length data) then Inr (None, None)
                                  else if prefix (if m = ''image/png'' then png_magic else jpeg_magic) data then Inr (Some m, Some data)
                                  else Inr (None, None)))
                | _ \<Rightarrow> Inr (None, None))
      | _ \<Rightarrow> Inr (None, None))"

text \<open>The answer of the provider, asked at a pinned public address.\<close>

definition provider_body :: "deliv_env \<Rightarrow> run_world \<Rightarrow> provider_row \<Rightarrow> string \<Rightarrow> string \<Rightarrow> string run_result" where
  "provider_body env w p raw contract =
     (let u = dl_parse_url env (config_text (pv_config p) ''base_url'' (py_str (rw_repr w)))
      in if url_scheme u \<noteq> ''https'' \<or> url_host u = [] \<or> url_port u \<notin> {None, Some 443}
         then Inl (RuntimeExc ''Provider URL is not a supported HTTPS endpoint'')
         else (case rw_public w (url_host u) 443 of
                 [] \<Rightarrow> Inl (RuntimeExc ''Provider does not resolve exclusively to public addresses'')
               | address # _ \<Rightarrow>
                   run_bind (rw_post w (pv_id p) address contract) (\<lambda>r.
                     if py_status r \<noteq> 200 then Inl (RuntimeExc (''Provider returned HTTP '' @ show_int (py_status r)))
                     else if \<not> prefix ''application/json'' (lower_text (py_type r)) then Inl (RuntimeExc ''Provider did not return JSON'')
                     else if 20 * 1024 * 1024 < int (length (py_body r)) then Inl (RuntimeExc ''Provider response exceeded the size limit'')
                     else Inr (py_body r))))"

text \<open>\<open>str(item.get(key, default))[:n]\<close>.\<close>

definition field_text :: "run_world \<Rightarrow> dict \<Rightarrow> string \<Rightarrow> string \<Rightarrow> nat \<Rightarrow> string" where
  "field_text w d k default' n = take n (case dict_get d k of None \<Rightarrow> default' | Some v \<Rightarrow> py_str (rw_repr w) v)"

definition preview_of :: "run_world \<Rightarrow> json \<Rightarrow> preview option run_result" where
  "preview_of w item =
     (case item of
        JObj d \<Rightarrow>
          run_bind (decode_image w (dict_get d ''image_base64'') (dict_get d ''media_type'')) (\<lambda>(media, data).
            Inr (Some \<lparr>px_client = field_text w d ''client'' ''Unknown'' 120, px_platform = field_text w d ''platform'' ''unknown'' 80,
                  px_theme = field_text w d ''theme'' ''default'' 40, px_status = field_text w d ''status'' ''unknown'' 40,
                  px_description = field_text w d ''description'' [] 1000, px_media = media, px_data = data\<rparr>))
      | _ \<Rightarrow> Inr None)"

fun previews_of :: "run_world \<Rightarrow> json list \<Rightarrow> preview list run_result" where
  "previews_of w [] = Inr []"
| "previews_of w (item # items) =
     run_bind (preview_of w item) (\<lambda>p. run_bind (previews_of w items) (\<lambda>ps. Inr (case p of None \<Rightarrow> ps | Some x \<Rightarrow> x # ps)))"

definition run_preview_provider :: "deliv_env \<Rightarrow> run_world \<Rightarrow> provider_row \<Rightarrow> string \<Rightarrow> preview list run_result" where
  "run_preview_provider env w p raw =
     run_bind (provider_body env w p raw ''preview-v1'') (\<lambda>body.
       case rw_json w body of
         None \<Rightarrow> Inl (RuntimeExc ''Preview provider returned invalid JSON'')
       | Some (JObj d) \<Rightarrow>
           (case dict_get d ''previews'' of
              Some (JArr items) \<Rightarrow>
                run_bind (previews_of w (take 100 items)) (\<lambda>results.
                  if results = [] then Inl (RuntimeExc ''Preview provider returned no usable preview results'') else Inr results)
            | _ \<Rightarrow> Inl (RuntimeExc ''Preview provider response is missing previews''))
       | Some _ \<Rightarrow> Inl (RuntimeExc ''Preview provider response is missing previews''))"

definition finding_of :: "run_world \<Rightarrow> json \<Rightarrow> finding option" where
  "finding_of w item =
     (case item of
        JObj d \<Rightarrow> Some \<lparr>fi_severity = lower_text (field_text w d ''severity'' ''info'' 20), fi_title = field_text w d ''title'' ''Finding'' 160,
                        fi_detail = field_text w d ''detail'' [] 2000, fi_recommendation = field_text w d ''recommendation'' [] 2000\<rparr>
      | _ \<Rightarrow> None)"

definition run_analysis_provider :: "deliv_env \<Rightarrow> run_world \<Rightarrow> provider_row \<Rightarrow> string \<Rightarrow> (string \<times> finding list) run_result" where
  "run_analysis_provider env w p raw =
     run_bind (provider_body env w p raw ''analysis-v1'') (\<lambda>body.
       case rw_json w body of
         None \<Rightarrow> Inl (RuntimeExc ''Analysis provider returned invalid JSON'')
       | Some (JObj d) \<Rightarrow>
           (case dict_get d ''findings'' of
              Some (JArr items) \<Rightarrow> Inr (field_text w d ''summary'' [] 2000, List.map_filter (finding_of w) (take 100 items))
            | _ \<Rightarrow> Inl (RuntimeExc ''Analysis provider response is missing findings''))
       | Some _ \<Rightarrow> Inl (RuntimeExc ''Analysis provider response is missing findings''))"

section \<open>Seed inboxes\<close>

record placement =
  pl_account :: string
  pl_email :: string
  pl_provider :: string
  pl_placement :: string
  pl_folder :: "string option"
  pl_detail :: string

definition id_part :: "nat \<Rightarrow> string \<Rightarrow> bool" where
  "id_part n s \<longleftrightarrow> s \<noteq> [] \<and> length s \<le> n \<and> list_all (\<lambda>c. c \<notin> {CHR ''<'', CHR ''>'', CHR 0x22, CHR 0x5C} \<and> \<not> is_space c) s"

text \<open>\<open><[^<>\s"\\]{1,900}@[^<>\s"\\]{1,200}>\<close>.\<close>

definition safe_message_id :: "string \<Rightarrow> bool" where
  "safe_message_id s \<longleftrightarrow> 2 \<le> length s \<and> hd s = CHR ''<'' \<and> last s = CHR ''>'' \<and>
     (let b = butlast (tl s)
      in list_ex (\<lambda>i. b ! i = CHR ''@'' \<and> id_part 900 (take i b) \<and> id_part 200 (drop (Suc i) b)) [0..<length b])"

definition folder_placement :: "string \<Rightarrow> string" where
  "folder_placement folder =
     (if contains_any [''spam'', ''junk''] (lower_text folder) then ''spam''
      else if contains_any [''promotion'', ''update'', ''social''] (lower_text folder) then ''category''
      else ''inbox'')"

definition placed :: "warmup_account \<Rightarrow> string \<Rightarrow> string option \<Rightarrow> string \<Rightarrow> placement" where
  "placed a where' folder detail =
     \<lparr>pl_account = wa_id a, pl_email = wa_email a, pl_provider = wa_provider a, pl_placement = where', pl_folder = folder, pl_detail = detail\<rparr>"

definition safe_folder :: "string \<Rightarrow> string" where
  "safe_folder f = filter (\<lambda>c. c \<noteq> CHR 0x22 \<and> c \<noteq> CHR 0x5C) f"

text \<open>The folders in order; \<open>None\<close> when the session fails.\<close>

fun search_folders :: "imap_session \<Rightarrow> warmup_account \<Rightarrow> string \<Rightarrow> string list \<Rightarrow> placement option" where
  "search_folders im a mid [] = Some (placed a ''missing'' None ''The Message-ID was not found in the configured folders.'')"
| "search_folders im a mid (f # fs) =
     (case im_select im (CHR 0x22 # safe_folder f @ [CHR 0x22]) of
        None \<Rightarrow> None
      | Some False \<Rightarrow> search_folders im a mid fs
      | Some True \<Rightarrow>
          (case im_search im f (CHR 0x22 # mid @ [CHR 0x22]) of
             None \<Rightarrow> None
           | Some True \<Rightarrow> Some (placed a (folder_placement f) (Some f) (''Matched Message-ID in '' @ f @ ''.''))
           | Some False \<Rightarrow> search_folders im a mid fs))"

definition classify_seed_account :: "run_world \<Rightarrow> warmup_account \<Rightarrow> string \<Rightarrow> string list \<Rightarrow> placement" where
  "classify_seed_account w a mid folders =
     (if wa_imap_security a \<noteq> Ssl then placed a ''unavailable'' None ''Placement checks require an SSL IMAP account.''
      else (case rw_public w (wa_imap_host a) (wa_imap_port a) of
              [] \<Rightarrow> placed a ''unavailable'' None ''The IMAP host does not resolve exclusively to public addresses.''
            | address # _ \<Rightarrow>
                if \<not> safe_message_id mid then placed a ''unavailable'' None ''The message does not have a safely searchable Message-ID.''
                else (case Option.bind (rw_imap w (wa_id a) address) (\<lambda>im. search_folders im a mid folders) of
                        Some r \<Rightarrow> r
                      | None \<Rightarrow> placed a ''unavailable'' None
                                 ''The seed inbox could not be queried within the bounded check budget.'')))"

section \<open>Runs\<close>

text \<open>
  \<^verbatim>\<open>deliverability/service.py\<close>: \<open>_execute_run\<close>. The checks run one after another; each contributes categories, may
  store artifacts, and may raise. What was found before an exception is kept.
\<close>

section \<open>Checks in order\<close>

definition RUN_CHECK_LABELS :: "(string \<times> string) list" where
  "RUN_CHECK_LABELS =
     [(''dns_reputation'', ''DNS and reputation checks''), (''links'', ''Safe link validation''),
      (''visual'', ''Local visual rendering''), (''client_previews'', ''Real-client previews''),
      (''ai_analysis'', ''AI-assisted copy review''), (''placement'', ''Seed inbox placement'')]"

definition CAPABILITY_IDS :: "(string \<times> string) list" where
  "CAPABILITY_IDS =
     [(''dns'', ''dns_reputation''), (''reputation'', ''dns_reputation''), (''links'', ''link_validation''),
      (''visual'', ''visual_rendering''), (''placement'', ''inbox_placement''), (''client_previews'', ''client_previews''),
      (''ai_analysis'', ''ai_analysis'')]"

definition safe_exception_detail :: "run_exc \<Rightarrow> string" where
  "safe_exception_detail e =
     (case e of
        RuntimeExc t \<Rightarrow> (let d = join '' '' (split_ws t)
                        in if d = [] then ''RuntimeError: unexpected check failure'' else take 500 d)
      | TimeoutExc \<Rightarrow> ''The operation timed out.''
      | OtherClass c \<Rightarrow> c @ '': unexpected check failure'')"

text \<open>A check reads and changes the stored rows and yields one category or several, or raises.\<close>

type_synonym run_check = "deliv_state \<Rightarrow> deliv_category list run_result \<times> deliv_state"

fun run_checks :: "(string \<times> run_check) list \<Rightarrow> deliv_category list \<Rightarrow> deliv_state \<Rightarrow> deliv_category list \<times> (string \<times> run_exc) option \<times> deliv_state" where
  "run_checks [] found s = (found, None, s)"
| "run_checks ((label', c) # cs) found s =
     (case c s of
        (Inl e, s') \<Rightarrow> (found, Some (label', e), s')
      | (Inr gs, s') \<Rightarrow> run_checks cs (found @ gs) s')"

section \<open>The checks\<close>

definition one_check :: "string \<Rightarrow> string \<Rightarrow> string \<Rightarrow> string \<Rightarrow> string \<Rightarrow> evidence list \<Rightarrow> string option \<Rightarrow> rat \<Rightarrow> rat \<Rightarrow> deliv_check" where
  "one_check i category title status summary evidence' recommendation points max_points =
     \<lparr>ck_id = i, ck_category = category, ck_title = title, ck_status = status, ck_summary = summary, ck_details = [],
      ck_evidence = evidence', ck_recommendation = recommendation, ck_points = points, ck_max = max_points\<rparr>"

definition one_category :: "string \<Rightarrow> string \<Rightarrow> int option \<Rightarrow> deliv_check \<Rightarrow> deliv_category" where
  "one_category i title score c =
     \<lparr>cg_id = i, cg_title = title, cg_score = score, cg_points = ck_points c, cg_max = ck_max c, cg_checks = [c]\<rparr>"

definition network_check :: "run_world \<Rightarrow> report_row \<Rightarrow> string \<Rightarrow> string list \<Rightarrow> run_check" where
  "network_check w r raw requested s =
     (let domain = (case rt_sender_domain (rr_report r) of Some d \<Rightarrow> if d = [] then None else Some d | None \<Rightarrow> None)
      in (run_bind (rw_network w raw domain) (\<lambda>gs. Inr (filter (\<lambda>g. cg_id g \<in> set requested) gs)), s))"

definition links_check :: "run_world \<Rightarrow> string \<Rightarrow> run_check" where
  "links_check w raw s = (run_bind (rw_links w raw) (\<lambda>g. Inr [g]), s)"

text \<open>The screenshots of the baseline, the newest of each name.\<close>

definition baseline_visual_artifacts :: "report_row \<Rightarrow> deliv_state \<Rightarrow> (string \<Rightarrow> artifact_row option) result" where
  "baseline_visual_artifacts r s =
     bind_res (one_or_none (filter (\<lambda>x. rr_mailbox x = rr_mailbox r \<and> rr_baseline x \<and> rr_id x \<noteq> rr_id r) (dv_reports s)))
       (\<lambda>b. case b of
          None \<Rightarrow> Inr (\<lambda>_. None)
        | Some base \<Rightarrow>
            (let runs = map ru_id (filter (\<lambda>x. ru_report x = rr_id base) (dv_runs s));
                 shots = sort_key (\<lambda>a. - at_created a) (filter (\<lambda>a. at_run a \<in> set runs \<and> at_kind a = ''screenshot'') (dv_artifacts s))
             in Inr (\<lambda>n. find (\<lambda>a. at_filename a = n) shots)))"

definition title_text :: "string \<Rightarrow> string" where
  "title_text s = title_from False (map (\<lambda>c. if c = CHR ''-'' then CHR '' '' else c) s)"

definition artifact_path :: "string \<Rightarrow> string" where
  "artifact_path i = ''/api/v1/deliverability/artifacts/'' @ i"

definition screenshot :: "run_world \<Rightarrow> report_row \<Rightarrow> run_row \<Rightarrow> time \<Rightarrow> string \<Rightarrow> rendered \<Rightarrow> artifact_row" where
  "screenshot w r run now i x =
     \<lparr>at_id = i, at_user = rr_user r, at_run = ru_id run, at_kind = ''screenshot'', at_filename = rd_name x @ ''.png'',
      at_media = ''image/png'', at_sha = rw_sha w (rd_data x), at_width = Some (rd_width x), at_height = Some (rd_height x),
      at_data = rd_data x, at_created = now\<rparr>"

definition render_difference :: "run_world \<Rightarrow> (string \<Rightarrow> artifact_row option) \<Rightarrow> rendered \<Rightarrow> rat option" where
  "render_difference w base x = Option.bind (base (rd_name x @ ''.png'')) (\<lambda>a. rw_difference w (at_data a) (rd_data x))"

definition is_attention :: "rendered \<Rightarrow> bool" where
  "is_attention x \<longleftrightarrow> prefix ''attention-'' (rd_name x)"

definition render_evidence :: "run_world \<Rightarrow> (string \<Rightarrow> artifact_row option) \<Rightarrow> rendered \<Rightarrow> string \<Rightarrow> evidence" where
  "render_evidence w base x i =
     (let d = render_difference w base x; dims = show_int (rd_width x) @ '' by '' @ show_int (rd_height x)
      in \<lparr>ev_code = rd_name x, ev_title = title_text (rd_name x), ev_value = Some (JStr (artifact_path i)), ev_score = d,
          ev_description = Some ((if is_attention x
              then dims @ '' deterministic contrast and edge saliency estimate. This is a design aid, not measured eye tracking.''
              else dims @ '' network-blocked local render.'') @
            (case d of None \<Rightarrow> [] | Some v \<Rightarrow> '' Pixel difference from baseline: '' @ rw_show_g w v @ ''%.'')),
          ev_recommendation = None\<rparr>)"

definition visual_summary :: "nat \<Rightarrow> rendered list \<Rightarrow> string" where
  "visual_summary changed xs =
     (if 0 < changed then show_nat changed @ '' render variant(s) differ materially from the baseline.''
      else if xs \<noteq> []
      then ''Generated '' @ show_nat (length (filter (\<lambda>x. \<not> is_attention x) xs)) @
        '' desktop, tablet, and mobile light/dark renders plus local attention estimates.''
      else ''The message has no HTML body to render.'')"

text \<open>\<open>n\<close> artifacts were numbered before.\<close>

definition visual_check :: "run_world \<Rightarrow> report_row \<Rightarrow> run_row \<Rightarrow> time \<Rightarrow> string \<Rightarrow> run_check" where
  "visual_check w r run now raw s =
     (case rw_render w raw of
        Inl e \<Rightarrow> (Inl e, s)
      | Inr xs \<Rightarrow>
          (case baseline_visual_artifacts r s of
             Inl e \<Rightarrow> (Inl (OtherClass ''MultipleResultsFound''), s)
           | Inr base \<Rightarrow>
               (let named = zip xs (map (rw_fresh w) [0..<length xs]);
                    changed = length (filter (\<lambda>x. case render_difference w base x of Some d \<Rightarrow> 1 < d | None \<Rightarrow> False) xs);
                    c = one_check ''visual_rendering'' ''visual'' ''Local visual rendering''
                          (if 0 < changed then ''warning'' else if xs \<noteq> [] then ''pass'' else ''info'')
                          (visual_summary changed xs) (map (\<lambda>(x, i). render_evidence w base x i) named)
                          (if 0 < changed then Some ''Review the screenshots against the selected baseline.'' else None)
                          (if 0 < changed then 2 else if xs \<noteq> [] then 4 else 0) (if xs \<noteq> [] then 4 else 0)
                in (Inr [one_category ''visual'' ''Visual rendering''
                           (if ck_max c \<noteq> 0 then Some (percent (ck_points c) (ck_max c)) else None) c],
                    s\<lparr>dv_artifacts := dv_artifacts s @ map (\<lambda>(x, i). screenshot w r run now i x) named\<rparr>))))"

definition first_provider :: "string \<Rightarrow> string \<Rightarrow> deliv_state \<Rightarrow> provider_row option" where
  "first_provider u kind s =
     (case provider_order (filter (\<lambda>p. pv_user p = u \<and> pv_kind p = kind \<and> pv_enabled p) (dv_providers s)) of
        [] \<Rightarrow> None | p # _ \<Rightarrow> Some p)"

text \<open>The provider remembers how the last call went.\<close>

definition note_provider :: "time \<Rightarrow> string \<Rightarrow> string option \<Rightarrow> provider_row \<Rightarrow> deliv_state \<Rightarrow> deliv_state" where
  "note_provider now status err p s =
     s\<lparr>dv_providers := row_put pv_id (p\<lparr>pv_status := status, pv_error := err, pv_checked := Some now, pv_updated := now\<rparr>) (dv_providers s)\<rparr>"

definition with_provider ::
  "time \<Rightarrow> string \<Rightarrow> string \<Rightarrow> (provider_row \<Rightarrow> 'a run_result) \<Rightarrow> ('a \<Rightarrow> deliv_state \<Rightarrow> deliv_category list run_result \<times> deliv_state) \<Rightarrow> run_check" where
  "with_provider now u kind call k s =
     (case first_provider u kind s of
        None \<Rightarrow> (Inl (OtherClass ''NoResultFound''), s)
      | Some p \<Rightarrow>
          (case call p of
             Inl e \<Rightarrow> (Inl e, note_provider now ''error'' (Some (safe_exception_detail e)) p s)
           | Inr x \<Rightarrow> k x (note_provider now ''healthy'' None p s)))"

definition preview_ok :: "preview \<Rightarrow> bool" where
  "preview_ok p \<longleftrightarrow> lower_text (px_status p) \<in> {''complete'', ''passed'', ''ready'', ''success''}"

definition preview_artifact :: "run_world \<Rightarrow> report_row \<Rightarrow> run_row \<Rightarrow> time \<Rightarrow> string \<Rightarrow> preview \<Rightarrow> artifact_row option" where
  "preview_artifact w r run now i p =
     (case (px_data p, px_media p) of
        (Some data, Some media) \<Rightarrow>
          Some \<lparr>at_id = i, at_user = rr_user r, at_run = ru_id run, at_kind = ''client_preview'',
            at_filename = ''preview-'' @ i @ (if media = ''image/png'' then ''.png'' else ''.jpg''), at_media = media,
            at_sha = rw_sha w data, at_width = None, at_height = None, at_data = data, at_created = now\<rparr>
      | _ \<Rightarrow> None)"

definition preview_evidence :: "preview \<Rightarrow> string \<Rightarrow> evidence" where
  "preview_evidence p i =
     \<lparr>ev_code = take 255 (px_client p @ '':'' @ px_platform p @ '':'' @ px_theme p),
      ev_title = strip (px_client p @ '' '' @ px_platform p @ '' '' @ px_theme p),
      ev_value = Some (JStr (if px_data p \<noteq> None \<and> px_media p \<noteq> None then artifact_path i else px_status p)), ev_score = None,
      ev_description = Some (if px_description p = [] then ''Provider status: '' @ px_status p else px_description p),
      ev_recommendation = None\<rparr>"

definition previews_check :: "deliv_env \<Rightarrow> run_world \<Rightarrow> report_row \<Rightarrow> run_row \<Rightarrow> time \<Rightarrow> string \<Rightarrow> run_check" where
  "previews_check env w r run now raw =
     with_provider now (rr_user r) ''preview'' (\<lambda>p. run_preview_provider env w p raw) (\<lambda>previews s.
       (let named = zip previews (map (\<lambda>k. rw_fresh w (k + 1000)) [0..<length previews]);
            good = length (filter preview_ok previews);
            points = fround 1 (fdiv (of_nat (5 * good)) (of_nat (length previews)));
            c = one_check ''client_previews'' ''client_previews'' ''Real-client previews''
                  (if good = length previews then ''pass'' else ''warning'')
                  (''The configured provider returned '' @ show_nat (length previews) @ '' client preview(s).'')
                  (map (\<lambda>(p, i). preview_evidence p i) named)
                  (if good \<noteq> length previews then Some ''Review provider warnings and failed client renders.'' else None) points 5
        in (Inr [one_category ''client_previews'' ''Real-client previews'' (Some (percent points 5)) c],
            s\<lparr>dv_artifacts := dv_artifacts s @ List.map_filter (\<lambda>(p, i). preview_artifact w r run now i p) named\<rparr>)))"

definition finding_evidence :: "finding \<Rightarrow> nat \<Rightarrow> evidence" where
  "finding_evidence f k =
     \<lparr>ev_code = ''finding-'' @ show_nat k, ev_title = fi_title f, ev_value = Some (JStr (fi_severity f)), ev_score = None,
      ev_description = (if fi_detail f = [] then None else Some (fi_detail f)),
      ev_recommendation = (if fi_recommendation f = [] then None else Some (fi_recommendation f))\<rparr>"

definition analysis_check :: "deliv_env \<Rightarrow> run_world \<Rightarrow> report_row \<Rightarrow> time \<Rightarrow> string \<Rightarrow> run_check" where
  "analysis_check env w r now raw =
     with_provider now (rr_user r) ''analysis'' (\<lambda>p. run_analysis_provider env w p raw) (\<lambda>(summary, fs) s.
       (let c = one_check ''ai_analysis'' ''ai_analysis'' ''AI-assisted copy review'' ''info''
                  (if summary = [] then ''The configured provider returned '' @ show_nat (length fs) @ '' advisory finding(s).'' else summary)
                  (map2 finding_evidence fs [1..<Suc (length fs)]) None 0 0
        in (Inr [one_category ''ai_analysis'' ''AI-assisted copy review'' None c], s)))"

definition provider_folders :: "run_world \<Rightarrow> dict \<Rightarrow> string list" where
  "provider_folders w cfg =
     (case dict_get_default cfg ''folders'' default_folders of
        JArr fs \<Rightarrow> map (\<lambda>v. take 255 (py_str (rw_repr w) v)) fs
      | _ \<Rightarrow> [''INBOX'', ''Spam'', ''Junk'', ''Promotions''])"

definition provider_accounts :: "run_world \<Rightarrow> dict \<Rightarrow> string list" where
  "provider_accounts w cfg = (case dict_get cfg ''account_ids'' of Some (JArr vs) \<Rightarrow> map (py_str (rw_repr w)) vs | _ \<Rightarrow> [])"

definition seed_account :: "string \<Rightarrow> deliv_state \<Rightarrow> warmup_account option" where
  "seed_account i s = row_get wa_id i (filter (\<lambda>a. wa_enabled a \<and> wa_verified a) (dv_accounts s))"

definition placement_evidence :: "placement \<Rightarrow> evidence" where
  "placement_evidence p =
     \<lparr>ev_code = pl_provider p, ev_title = pl_provider p @ '': '' @ pl_email p, ev_value = Some (JStr (pl_placement p)), ev_score = None,
      ev_description = Some (pl_detail p), ev_recommendation = None\<rparr>"

definition missing_evidence :: "string \<Rightarrow> evidence" where
  "missing_evidence i =
     \<lparr>ev_code = ''unavailable'', ev_title = ''Seed account '' @ i, ev_value = Some (JStr ''unavailable''), ev_score = None,
      ev_description = Some ''The seed account is missing, disabled, or not verified.'', ev_recommendation = None\<rparr>"

definition placement_category :: "placement list \<Rightarrow> string list \<Rightarrow> deliv_category" where
  "placement_category placements missing =
     (let classified = filter (\<lambda>p. pl_placement p \<noteq> ''unavailable'') placements;
          inbox = length (filter (\<lambda>p. pl_placement p = ''inbox'') classified);
          spam = length (filter (\<lambda>p. pl_placement p = ''spam'') classified);
          points = (if classified = [] then 0 else fround 1 (fdiv (of_nat (5 * inbox)) (of_nat (length classified))));
          c = one_check ''seed_placement'' ''placement'' ''Seed inbox placement''
                (if 0 < spam then ''fail'' else if classified \<noteq> [] \<and> inbox = length classified then ''pass''
                 else if classified \<noteq> [] then ''warning'' else ''info'')
                (if classified \<noteq> []
                 then ''Found the message in '' @ show_nat inbox @ '' inbox(es), with '' @ show_nat spam @ '' spam placement(s).''
                 else ''No configured seed inbox could provide a placement result.'')
                (map placement_evidence placements @ map missing_evidence missing)
                (if 0 < spam \<or> inbox \<noteq> length classified then Some ''Investigate provider-specific spam or missing placements.'' else None)
                points (if classified = [] then 0 else 5)
      in one_category ''placement'' ''Seed inbox placement'' (if classified = [] then None else Some (percent points 5)) c)"

definition placement_check :: "run_world \<Rightarrow> report_row \<Rightarrow> run_check" where
  "placement_check w r s =
     (case first_provider (rr_user r) ''placement'' s of
        None \<Rightarrow> (Inl (OtherClass ''NoResultFound''), s)
      | Some p \<Rightarrow>
          (let ids = provider_accounts w (pv_config p); folders = provider_folders w (pv_config p);
               accounts = List.map_filter (\<lambda>i. seed_account i s) ids; missing = filter (\<lambda>i. seed_account i s = None) ids
           in if rr_message_id r = [] then (Inl (RuntimeExc ''Seed placement requires a Message-ID''), s)
              else (Inr [placement_category (map (\<lambda>a. classify_seed_account w a (rr_message_id r) folders) accounts) missing], s)))"

section \<open>The run\<close>

definition check_available :: "capability list \<Rightarrow> string \<Rightarrow> bool" where
  "check_available caps k =
     (case map_of CAPABILITY_IDS k of
        None \<Rightarrow> False
      | Some i \<Rightarrow> (case by_id cb_id caps i of None \<Rightarrow> False | Some c \<Rightarrow> cb_status c = ''available''))"

definition new_run :: "string \<Rightarrow> time \<Rightarrow> report_row \<Rightarrow> string list \<Rightarrow> capability list \<Rightarrow> run_row" where
  "new_run fresh now r requested caps =
     \<lparr>ru_id = fresh, ru_user = rr_user r, ru_mailbox = rr_mailbox r, ru_report = rr_id r, ru_status = ''running'',
      ru_checks = requested, ru_capabilities = caps, ru_categories = [], ru_error_code = None, ru_error_detail = None,
      ru_created = now, ru_started = Some now, ru_completed = None\<rparr>"

definition planned_checks ::
  "deliv_env \<Rightarrow> run_world \<Rightarrow> report_row \<Rightarrow> run_row \<Rightarrow> time \<Rightarrow> string \<Rightarrow> string list \<Rightarrow> string list \<Rightarrow> (string \<times> run_check) list" where
  "planned_checks env w r run now raw requested available =
     (if ''dns'' \<in> set available \<or> ''reputation'' \<in> set available then [(''dns_reputation'', network_check w r raw requested)] else []) @
     (if ''links'' \<in> set available then [(''links'', links_check w raw)] else []) @
     (if ''visual'' \<in> set available then [(''visual'', visual_check w r run now raw)] else []) @
     (if ''client_previews'' \<in> set available then [(''client_previews'', previews_check env w r run now raw)] else []) @
     (if ''ai_analysis'' \<in> set available then [(''ai_analysis'', analysis_check env w r now raw)] else []) @
     (if ''placement'' \<in> set available then [(''placement'', placement_check w r)] else [])"

definition finished_run :: "time \<Rightarrow> deliv_category list \<Rightarrow> (string \<times> run_exc) option \<Rightarrow> string list \<Rightarrow> run_row \<Rightarrow> run_row" where
  "finished_run now found failure unavailable run =
     (case failure of
        None \<Rightarrow>
          run\<lparr>ru_status := (if unavailable = [] then ''completed'' else ''partial''), ru_categories := found,
              ru_error_code := (if unavailable = [] then None else Some ''capability_unavailable''),
              ru_error_detail := (if unavailable = [] then None else Some (''Unavailable checks: '' @ join '', '' (sort unavailable))),
              ru_completed := Some now\<rparr>
      | Some (active, e) \<Rightarrow>
          run\<lparr>ru_status := (if found \<noteq> [] then ''partial'' else ''failed''), ru_categories := found,
              ru_error_code := Some (active @ ''_failed''),
              ru_error_detail := Some ((case map_of RUN_CHECK_LABELS active of Some l \<Rightarrow> l | None \<Rightarrow> ''Deliverability enrichment'') @
                '': '' @ safe_exception_detail e), ru_completed := Some now\<rparr>)"

definition execute_run ::
  "deliv_env \<Rightarrow> run_world \<Rightarrow> string \<Rightarrow> time \<Rightarrow> report_row \<Rightarrow> string \<Rightarrow> string list \<Rightarrow> deliv_state \<Rightarrow> run_row \<times> deliv_state" where
  "execute_run env w fresh now r raw requested s =
     (let caps = get_capabilities env (rr_user r) s;
          run = new_run fresh now r requested caps;
          s1 = s\<lparr>dv_runs := dv_runs s @ [run]\<rparr>;
          available = filter (check_available caps) requested;
          unavailable = filter (\<lambda>k. k \<notin> set available) requested;
          (found, failure, s2) = run_checks (planned_checks env w r run now raw requested available) [] s1;
          run' = finished_run now found failure unavailable run
      in (run', s2\<lparr>dv_runs := row_put ru_id run' (dv_runs s2)\<rparr>))"

definition get_run :: "string \<Rightarrow> string \<Rightarrow> deliv_state \<Rightarrow> run_row result" where
  "get_run i u s =
     (case find (\<lambda>r. ru_id r = i \<and> ru_user r = u) (dv_runs s) of
        None \<Rightarrow> Inl (NotFoundError ''Deliverability run'' i)
      | Some r \<Rightarrow> Inr r)"

definition list_runs_for_report :: "string \<Rightarrow> string \<Rightarrow> deliv_state \<Rightarrow> run_row list" where
  "list_runs_for_report i u s =
     take 100 (sort_key (\<lambda>r. - ru_created r) (rev (sort_key ru_id (filter (\<lambda>r. ru_report r = i \<and> ru_user r = u) (dv_runs s)))))"

definition get_artifact :: "string \<Rightarrow> string \<Rightarrow> deliv_state \<Rightarrow> artifact_row result" where
  "get_artifact i u s =
     (case find (\<lambda>a. at_id a = i \<and> at_user a = u) (dv_artifacts s) of
        None \<Rightarrow> Inl (NotFoundError ''Deliverability artifact'' i)
      | Some a \<Rightarrow> Inr a)"

end
