(* ===== verification/MessageContent.thy ===== *)
theory MessageContent
  imports MessageChecks Addressing
begin

text \<open>
  \<^verbatim>\<open>emails/deliverability.py\<close>: the checks of the bodies of a message. Python's HTML parser yields the events the inspector
  handles; URL parsing, the power function of luminance, entity decoding and the expressions that search the whole HTML text
  are arguments.
\<close>

section \<open>Inspecting HTML\<close>

datatype html_event =
    StartTag string "(string \<times> string option) list"
  | EndTag string
  | HtmlText string

record inspector =
  hi_text :: "string list"
  hi_links :: "string list"
  hi_labels :: "(string \<times> string) list"
  hi_images :: nat
  hi_without_alt :: nat
  hi_remote :: nat
  hi_pixels :: nat
  hi_scripts :: nat
  hi_forms :: nat
  hi_forbidden :: "string list"
  hi_hidden :: nat
  hi_duplicates :: nat
  hi_language :: string
  hi_headings :: nat
  hi_levels :: "nat list"
  hi_styles :: "string list"
  hi_small_targets :: nat
  hi_depth :: nat
  hi_href :: "string option"
  hi_anchor :: "string list"

definition new_inspector :: inspector where
  "new_inspector = \<lparr>hi_text = [], hi_links = [], hi_labels = [], hi_images = 0, hi_without_alt = 0, hi_remote = 0, hi_pixels = 0,
     hi_scripts = 0, hi_forms = 0, hi_forbidden = [], hi_hidden = 0, hi_duplicates = 0, hi_language = [], hi_headings = 0, hi_levels = [], hi_styles = [],
     hi_small_targets = 0, hi_depth = 0, hi_href = None, hi_anchor = []\<rparr>"

text \<open>The attributes as a dictionary: the last of equal names stays, no value is the empty one.\<close>

definition attr_values :: "(string \<times> string option) list \<Rightarrow> (string \<times> string) list" where
  "attr_values attrs = foldl (\<lambda>d (k, v). AList.update (lower k) (case v of None \<Rightarrow> [] | Some x \<Rightarrow> x) d) [] attrs"

definition attr :: "(string \<times> string) list \<Rightarrow> string \<Rightarrow> string" where
  "attr values k = (case map_of values k of None \<Rightarrow> [] | Some v \<Rightarrow> v)"

text \<open>\<open>(?:^|;)\s*(width|height|min-width|min-height)\s*:\s*(\d+)px\<close>, letters of either case.\<close>

definition dimension_at :: "string \<Rightarrow> (string \<times> nat) option" where
  "dimension_at piece =
     (let s = skip_ws piece
      in case find (\<lambda>n. prefix n (lower s)) [''width'', ''height'', ''min-width'', ''min-height''] of
           None \<Rightarrow> None
         | Some n \<Rightarrow>
             (case skip_ws (drop (length n) s) of
                c # r \<Rightarrow>
                  (let d = takeWhile is_digit (skip_ws r)
                   in if c = CHR '':'' \<and> d \<noteq> [] \<and> prefix ''px'' (lower (drop (length d) (skip_ws r))) then Some (n, digits_nat d) else None)
              | [] \<Rightarrow> None))"

definition style_dimensions :: "string \<Rightarrow> (string \<times> nat) list" where
  "style_dimensions style = rev (List.map_filter dimension_at (split_on (CHR '';'') style))"

definition digits_of :: "string \<Rightarrow> nat option" where
  "digits_of s = (if s \<noteq> [] \<and> list_all is_digit s then Some (digits_nat s) else None)"

text \<open>Python's \<open>a or b\<close> on sizes: zero counts as absent.\<close>

definition or_size :: "nat option \<Rightarrow> nat option \<Rightarrow> nat option" where
  "or_size a b = (case a of Some n \<Rightarrow> if n = 0 then b else a | None \<Rightarrow> b)"

definition tap_size :: "(string \<times> string) list \<Rightarrow> string \<Rightarrow> nat option" where
  "tap_size values side =
     (let ds = style_dimensions (attr values ''style'')
      in or_size (or_size (digits_of (attr values side)) (map_of ds (''min-'' @ side))) (map_of ds side))"

definition small_target :: "(string \<times> string) list \<Rightarrow> bool" where
  "small_target values =
     (case (tap_size values ''width'', tap_size values ''height'') of (Some w, Some h) \<Rightarrow> w < 44 \<or> h < 44 | _ \<Rightarrow> False)"

definition hidden_style :: "string \<Rightarrow> bool" where
  "hidden_style style \<longleftrightarrow>
     contains_any [''display:none'', ''visibility:hidden'', ''font-size:0''] (lower (filter (\<lambda>c. c \<noteq> CHR '' '') style))"

definition active_tags :: "string list" where
  "active_tags = [''applet'', ''audio'', ''embed'', ''iframe'', ''object'', ''script'', ''video'']"

definition pixel_side :: "string \<Rightarrow> nat option" where
  "pixel_side v = digits_of (rstrip_by (\<lambda>c. c = CHR ''p'' \<or> c = CHR ''x'') (strip v))"

definition tiny_image :: "(string \<times> string) list \<Rightarrow> bool" where
  "tiny_image values =
     (case (pixel_side (attr values ''width''), pixel_side (attr values ''height'')) of (Some w, Some h) \<Rightarrow> w \<le> 2 \<and> h \<le> 2 | _ \<Rightarrow> False)"

text \<open>What every start tag counts, then what depends on its name.\<close>

definition count_common :: "string \<Rightarrow> (string \<times> string option) list \<Rightarrow> inspector \<Rightarrow> inspector" where
  "count_common tag attrs i =
     (let values = attr_values attrs
      in i\<lparr>hi_duplicates := hi_duplicates i + (length attrs - length values),
           hi_language := (if tag = ''html'' then strip (attr values ''lang'') else hi_language i),
           hi_headings := hi_headings i + (if tag \<in> {''h1'', ''h2'', ''h3'', ''h4'', ''h5'', ''h6''} then 1 else 0),
           hi_levels := (if tag \<in> {''h1'', ''h2'', ''h3'', ''h4'', ''h5'', ''h6''} then hi_levels i @ [digits_nat (tl tag)] else hi_levels i),
           hi_styles := (if attr values ''style'' \<noteq> [] then hi_styles i @ [attr values ''style''] else hi_styles i),
           hi_small_targets := hi_small_targets i + (if tag \<in> {''a'', ''button''} \<and> small_target values then 1 else 0),
           hi_forbidden := (if tag \<in> set active_tags then hi_forbidden i @ [tag] else hi_forbidden i),
           hi_hidden := hi_hidden i + (if hidden_style (attr values ''style'') then 1 else 0),
           hi_depth := hi_depth i + (if tag \<in> {''script'', ''style''} then 1 else 0)\<rparr>)"

definition count_tag :: "string \<Rightarrow> (string \<times> string) list \<Rightarrow> inspector \<Rightarrow> inspector" where
  "count_tag tag values i =
     (if tag = ''script'' then i\<lparr>hi_scripts := hi_scripts i + 1\<rparr>
      else if tag = ''form'' then i\<lparr>hi_forms := hi_forms i + 1\<rparr>
      else if tag = ''a'' \<and> attr values ''href'' \<noteq> []
      then i\<lparr>hi_links := hi_links i @ [attr values ''href''], hi_href := Some (attr values ''href''), hi_anchor := []\<rparr>
      else if tag = ''img''
      then i\<lparr>hi_images := hi_images i + 1, hi_without_alt := hi_without_alt i + (if strip (attr values ''alt'') = [] then 1 else 0),
             hi_remote := hi_remote i + (if prefix ''http://'' (lower (attr values ''src'')) \<or> prefix ''https://'' (lower (attr values ''src'')) then 1 else 0),
             hi_pixels := hi_pixels i + (if tiny_image values then 1 else 0)\<rparr>
      else i)"

definition handle_starttag :: "string \<Rightarrow> (string \<times> string option) list \<Rightarrow> inspector \<Rightarrow> inspector" where
  "handle_starttag tag attrs i = count_tag (lower tag) (attr_values attrs) (count_common (lower tag) attrs i)"

definition handle_endtag :: "string \<Rightarrow> inspector \<Rightarrow> inspector" where
  "handle_endtag tag i =
     (let j = (if lower tag \<in> {''script'', ''style''} \<and> 0 < hi_depth i then i\<lparr>hi_depth := hi_depth i - 1\<rparr> else i)
      in case hi_href j of
           Some h \<Rightarrow> if lower tag = ''a''
                     then j\<lparr>hi_labels := hi_labels j @ [(h, strip (join '' '' (hi_anchor j)))], hi_href := None, hi_anchor := []\<rparr> else j
         | None \<Rightarrow> j)"

definition handle_data :: "string \<Rightarrow> inspector \<Rightarrow> inspector" where
  "handle_data data i =
     (if 0 < hi_depth i then i
      else i\<lparr>hi_text := hi_text i @ [data], hi_anchor := (if hi_href i \<noteq> None then hi_anchor i @ [data] else hi_anchor i)\<rparr>)"

fun handle_event :: "inspector \<Rightarrow> html_event \<Rightarrow> inspector" where
  "handle_event i (StartTag tag attrs) = handle_starttag tag attrs i"
| "handle_event i (EndTag tag) = handle_endtag tag i"
| "handle_event i (HtmlText data) = handle_data data i"

section \<open>Colours\<close>

record content_lib =
  cl_events :: "string \<Rightarrow> html_event list"
  cl_url :: "string \<Rightarrow> (string \<times> string option) option"
  cl_pow24 :: "rat \<Rightarrow> rat"
  cl_preheader :: "string \<Rightarrow> string option"
  cl_unescape :: "string \<Rightarrow> string"
  cl_css :: "string \<Rightarrow> string \<Rightarrow> nat"

definition color_digit :: "char \<Rightarrow> nat option" where
  "color_digit c = (if is_digit c then Some (code c - 48) else if 97 \<le> code c \<and> code c \<le> 102 then Some (code c - 87) else None)"

fun color_digits :: "string \<Rightarrow> nat list option" where
  "color_digits [] = Some []"
| "color_digits (c # s) = Option.bind (color_digit c) (\<lambda>d. map_option (Cons d) (color_digits s))"

text \<open>\<open>rgba?\(\s*(\d{1,3})\s*,\s*(\d{1,3})\s*,\s*(\d{1,3})(?:\s*,[^)]*)?\)\<close>.\<close>

definition channel_at :: "string \<Rightarrow> (nat \<times> string) option" where
  "channel_at s =
     (let t = skip_ws s; d = takeWhile is_digit t
      in if 1 \<le> length d \<and> length d \<le> 3 then Some (digits_nat d, drop (length d) t) else None)"

definition comma_at :: "string \<Rightarrow> string option" where
  "comma_at s = (case skip_ws s of c # r \<Rightarrow> if c = CHR '','' then Some r else None | [] \<Rightarrow> None)"

definition css_function :: "string \<Rightarrow> (nat \<times> nat \<times> nat) option" where
  "css_function v =
     Option.bind (find (\<lambda>p. prefix p v) [''rgb('', ''rgba('']) (\<lambda>p.
     Option.bind (channel_at (drop (length p) v)) (\<lambda>(r, s1).
     Option.bind (Option.bind (comma_at s1) channel_at) (\<lambda>(g, s2).
     Option.bind (Option.bind (comma_at s2) channel_at) (\<lambda>(b, s3).
       if s3 = '')'' \<or> (case comma_at s3 of None \<Rightarrow> False | Some a \<Rightarrow> a \<noteq> [] \<and> last a = CHR '')'' \<and> CHR '')'' \<notin> set (butlast a))
       then Some (min r 255, min g 255, min b 255) else None))))"

definition css_rgb :: "string \<Rightarrow> (nat \<times> nat \<times> nat) option" where
  "css_rgb value =
     (let v = lower (strip value)
      in if v \<noteq> [] \<and> hd v = CHR ''#''
         then (case color_digits (tl v) of
                 Some [r, g, b] \<Rightarrow> Some (17 * r, 17 * g, 17 * b)
               | Some [r, r', g, g', b, b'] \<Rightarrow> Some (16 * r + r', 16 * g + g', 16 * b + b')
               | _ \<Rightarrow> None)
         else css_function v)"

definition linear_channel :: "content_lib \<Rightarrow> nat \<Rightarrow> rat" where
  "linear_channel cl n =
     (let v = fdiv (of_nat n) 255
      in if v \<le> dbl (4045 / 100000) then fdiv v (dbl (1292 / 100)) else cl_pow24 cl (fdiv (fadd v (dbl (55 / 1000))) (dbl (1055 / 1000))))"

definition luminance :: "content_lib \<Rightarrow> nat \<times> nat \<times> nat \<Rightarrow> rat" where
  "luminance cl c =
     (case c of (r, g, b) \<Rightarrow>
        fadd (fadd (fmul (dbl (2126 / 10000)) (linear_channel cl r)) (fmul (dbl (7152 / 10000)) (linear_channel cl g)))
          (fmul (dbl (722 / 10000)) (linear_channel cl b)))"

definition contrast_ratio :: "content_lib \<Rightarrow> nat \<times> nat \<times> nat \<Rightarrow> nat \<times> nat \<times> nat \<Rightarrow> rat" where
  "contrast_ratio cl left right =
     (let a = luminance cl left; b = luminance cl right
      in fdiv (fadd (max a b) (dbl (5 / 100))) (fadd (min a b) (dbl (5 / 100))))"

text \<open>The declarations of a style, the last of equal names first.\<close>

definition declarations :: "string \<Rightarrow> (string \<times> string) list" where
  "declarations style =
     rev (map (\<lambda>(n, v). (lower (strip n), strip v)) (List.map_filter (split_first (CHR '':'')) (split_on (CHR '';'') style)))"

definition decl :: "string \<Rightarrow> string \<Rightarrow> string \<Rightarrow> string" where
  "decl style k default' = (case map_of (declarations style) k of None \<Rightarrow> default' | Some v \<Rightarrow> v)"

text \<open>\<open>f"{x:.2f}"\<close>.\<close>

definition fixed2 :: "rat \<Rightarrow> string" where
  "fixed2 q = (let n = nat (half_even (q * 100)) in show_nat (n div 100) @ ''.'' @ show_nat (n mod 100 div 10) @ show_nat (n mod 10))"

definition style_failure :: "content_lib \<Rightarrow> string \<Rightarrow> string option" where
  "style_failure cl style =
     (case (css_rgb (decl style ''color'' []), css_rgb (decl style ''background-color'' (decl style ''background'' []))) of
        (Some f, Some b) \<Rightarrow>
          (let ratio = contrast_ratio cl f b
           in if ratio < 9 / 2 then Some (''Inline foreground/background contrast: '' @ fixed2 ratio @ '':1'') else None)
      | _ \<Rightarrow> None)"

definition inline_contrast_failures :: "content_lib \<Rightarrow> string list \<Rightarrow> string list" where
  "inline_contrast_failures cl styles = take 20 (List.map_filter (style_failure cl) styles)"

section \<open>Bodies\<close>

text \<open>\<open>re.sub(r"\s+", " ", s).strip()\<close>, and \<open>re.sub(r"<[^>]+>", "", s)\<close>.\<close>

definition squeeze :: "string \<Rightarrow> string" where "squeeze s = join '' '' (split_ws s)"

fun without_tags :: "nat \<Rightarrow> string \<Rightarrow> string" where
  "without_tags skip [] = []"
| "without_tags skip (c # s) =
     (if 0 < skip then without_tags (skip - 1) s
      else if c = CHR ''<''
      then (case split_first (CHR ''>'') s of
              Some (inner, rest) \<Rightarrow> if inner = [] then c # without_tags 0 s else without_tags (Suc (length inner)) s
            | None \<Rightarrow> c # without_tags 0 s)
      else c # without_tags 0 s)"

definition preheader_text :: "content_lib \<Rightarrow> string \<Rightarrow> string" where
  "preheader_text cl html =
     (case cl_preheader cl (take 20000 html) of
        None \<Rightarrow> []
      | Some g \<Rightarrow> take 500 (squeeze (cl_unescape cl (without_tags 0 g))))"

definition body_text :: "string \<Rightarrow> mail_message \<Rightarrow> string" where
  "body_text kind msg =
     strip (join [CHR 0x0A] (map mp_text (filter (\<lambda>p. mp_disposition p \<noteq> Some ''attachment'' \<and> mp_type p = kind) (mm_parts msg))))"

definition inspect_html :: "content_lib \<Rightarrow> string \<Rightarrow> inspector" where
  "inspect_html cl html = (if html = [] then new_inspector else foldl handle_event new_inspector (cl_events cl html))"

section \<open>Checks of the bodies\<close>

definition alternatives_check :: "string \<Rightarrow> string \<Rightarrow> deliv_check" where
  "alternatives_check plain html =
     (let c = chk ''body_alternatives'' ''content'' ''Body alternatives''
      in if plain \<noteq> [] \<and> html \<noteq> [] then c ''pass'' ''Both plain-text and HTML versions are present.'' 4 4 [] None
         else if plain \<noteq> [] then c ''pass'' ''A readable plain-text body is present.'' 4 4 [] None
         else if html \<noteq> []
         then c ''warning'' ''The message has HTML but no plain-text alternative.'' 2 4 []
                (Some ''Add a meaningful text/plain alternative for accessibility and filtering resilience.'')
         else c ''fail'' ''No readable text or HTML body was found.'' 0 4 [] (Some ''Include a non-empty message body.''))"

definition tag_counts :: "string list \<Rightarrow> string" where
  "tag_counts tags = join '', '' (map (\<lambda>t. t @ '' ('' @ show_nat (count_list tags t) @ '')'') (sorted_set tags))"

definition html_check :: "inspector \<Rightarrow> string \<Rightarrow> string \<Rightarrow> deliv_check" where
  "html_check i html visible =
     (let c = chk ''html_quality'' ''content'' ''HTML quality''
      in if html = [] then c ''info'' ''No HTML body was supplied, so HTML checks do not apply.'' 0 0 [] None
         else if 0 < length (hi_forbidden i) + hi_forms i
         then c ''fail'' ''The HTML contains unsupported active content.'' 0 4
                [''Unsupported tags: '' @ tag_counts (hi_forbidden i), ''Form tags: '' @ show_nat (hi_forms i)]
                (Some ''Remove scripts and forms from email HTML.'')
         else if length visible < 40 \<and> 500 < length html
         then c ''warning'' ''The HTML contains very little visible text.'' 2 4 [] (Some ''Add useful copy and avoid an image-only message.'')
         else if 30 < fdiv (of_nat (length html)) (of_nat (max (length visible) 1))
         then c ''warning'' ''The HTML-to-visible-text ratio is unusually high.'' (5 / 2) 4 []
                (Some ''Simplify the markup and include more meaningful visible text.'')
         else c ''pass'' ''The HTML has a reasonable amount of visible content.'' 4 4 [] None)"

definition is_upper_text :: "string \<Rightarrow> bool" where
  "is_upper_text s \<longleftrightarrow> list_ex is_alpha s \<and> upper s = s"

definition subject_check :: "mail_message \<Rightarrow> deliv_check" where
  "subject_check msg =
     (let subject = strip (header_value ''Subject'' msg); c = chk ''subject_quality'' ''content'' ''Subject line''
      in if subject = []
         then c ''fail'' ''The subject line is missing.'' 0 4 [] (Some ''Add a concise subject that accurately describes the message.'')
         else if 120 < length subject \<or> 4 \<le> count_list subject (CHR ''!'') \<or> is_upper_text subject \<and> 8 < length subject
         then c ''warning'' ''The subject uses patterns commonly associated with low-quality mail.'' 2 4
                [''Length: '' @ show_nat (length subject) @ '' characters'']
                (Some ''Use a concise, natural subject with restrained punctuation and capitalization.'')
         else c ''pass'' ''The subject is present and reasonably formatted.'' 4 4 [] None)"

definition RISKY_PHRASES :: "string list" where
  "RISKY_PHRASES = [''act now'', ''buy now'', ''click here'', ''free money'', ''guaranteed income'', ''limited time'', ''risk free'',
     ''urgent action'', ''winner'']"

definition phrase_check :: "string \<Rightarrow> deliv_check" where
  "phrase_check combined =
     (let found = filter (\<lambda>p. contains p combined) RISKY_PHRASES; c = chk ''risky_language'' ''content'' ''Promotional language''
      in if 3 \<le> length found
         then c ''warning'' ''Several high-pressure phrases were detected.'' 1 4 (sort found)
                (Some ''Rewrite high-pressure or misleading language in a direct, specific tone.'')
         else if found \<noteq> []
         then c ''warning'' ''A potentially high-pressure phrase was detected.'' 3 4 (sort found) (Some ''Review the flagged phrase in context.'')
         else c ''pass'' ''No obvious high-pressure phrase patterns were detected.'' 4 4 [] None)"

text \<open>\<open>\d{1,3}(?:\.\d{1,3}){3}\<close>.\<close>

definition raw_ip :: "string \<Rightarrow> bool" where
  "raw_ip host \<longleftrightarrow> (let ps = split_on (CHR ''.'') host
     in length ps = 4 \<and> list_all (\<lambda>p. 1 \<le> length p \<and> length p \<le> 3 \<and> list_all is_digit p) ps)"

definition url_error :: error where "url_error = ValueErr ''Invalid IPv6 URL''"

definition parsed_url :: "content_lib \<Rightarrow> string \<Rightarrow> (string \<times> string option) result" where
  "parsed_url cl link = (case cl_url cl link of None \<Rightarrow> Inl url_error | Some u \<Rightarrow> Inr u)"

fun map_res :: "('a \<Rightarrow> 'b result) \<Rightarrow> 'a list \<Rightarrow> 'b list result" where
  "map_res f [] = Inr []"
| "map_res f (x # xs) = bind_res (f x) (\<lambda>y. bind_res (map_res f xs) (\<lambda>ys. Inr (y # ys)))"

definition unsafe_link :: "content_lib \<Rightarrow> string \<Rightarrow> string list result" where
  "unsafe_link cl link =
     bind_res (parsed_url cl link) (\<lambda>(scheme, host).
       Inr (if lower scheme \<notin> {''http'', ''https'', ''mailto'', ''tel'', []} \<or> (case host of None \<Rightarrow> False | Some h \<Rightarrow> raw_ip h)
            then [link] else []))"

definition hygiene_check :: "content_lib \<Rightarrow> inspector \<Rightarrow> deliv_check result" where
  "hygiene_check cl i =
     bind_res (map_res (unsafe_link cl) (hi_links i)) (\<lambda>found.
       (let unsafe = concat found; c = chk ''link_hygiene'' ''content'' ''Link hygiene''
        in Inr (if unsafe \<noteq> []
                then c ''fail'' ''The message contains suspicious link targets.'' 0 2 (take 10 unsafe)
                       (Some ''Use HTTPS links on recognizable domains and remove executable or raw-IP targets.'')
                else c ''pass'' (''No suspicious targets were found across '' @ show_nat (length (hi_links i)) @ '' link(s).'') 2 2 [] None)))"

text \<open>\<open>https?://[^\s<>]+\<close>, letters of either case, anywhere.\<close>

fun shown_url :: "string \<Rightarrow> string option" where
  "shown_url [] = None"
| "shown_url (c # s) =
     (case find (\<lambda>p. prefix p (lower (c # s)) \<and> takeWhile (\<lambda>d. \<not> is_space d \<and> d \<noteq> CHR ''<'' \<and> d \<noteq> CHR ''>'') (drop (length p) (c # s)) \<noteq> [])
        [''https://'', ''http://''] of
        Some p \<Rightarrow> Some (takeWhile (\<lambda>d. \<not> is_space d \<and> d \<noteq> CHR ''<'' \<and> d \<noteq> CHR ''>'') (c # s))
      | None \<Rightarrow> shown_url s)"

text \<open>Whether the target is plain HTTP, and the difference between the host a label shows and the one it targets.\<close>

definition label_result :: "content_lib \<Rightarrow> string \<times> string \<Rightarrow> (bool \<times> string list) result" where
  "label_result cl x =
     (case x of (href, label') \<Rightarrow>
        bind_res (parsed_url cl href) (\<lambda>(scheme, host).
          (case (shown_url label', host) of
             (Some u, Some h) \<Rightarrow>
               if h = [] then Inr (lower scheme = ''http'', [])
               else bind_res (parsed_url cl (rstrip_by (\<lambda>c. c \<in> set ''.,;)'') u)) (\<lambda>(_, shown).
                 Inr (lower scheme = ''http'',
                      case shown of
                        Some d \<Rightarrow> if d \<noteq> [] \<and> lower d \<noteq> lower h then [''Displayed '' @ d @ '', targets '' @ h] else []
                      | None \<Rightarrow> []))
           | _ \<Rightarrow> Inr (lower scheme = ''http'', []))))"

definition identity_check :: "content_lib \<Rightarrow> inspector \<Rightarrow> deliv_check result" where
  "identity_check cl i =
     bind_res (map_res (label_result cl) (hi_labels i)) (\<lambda>rs.
       (let mismatched = concat (map snd rs); insecure = length (filter fst rs); c = chk ''link_identity'' ''content'' ''Link identity''
        in Inr (if mismatched \<noteq> []
                then c ''fail'' ''Some visible URL labels point to a different host.'' 0 2 (take 10 mismatched)
                       (Some ''Make displayed URL hosts match their actual destinations.'')
                else if 0 < insecure
                then c ''warning'' ''Some web links use unencrypted HTTP.'' 1 2 [''HTTP links: '' @ show_nat insecure]
                       (Some ''Use HTTPS for web destinations.'')
                else c ''pass'' ''Visible link labels and target schemes do not show obvious deception.'' 2 2 [] None)))"

definition hidden_check :: "inspector \<Rightarrow> string \<Rightarrow> deliv_check" where
  "hidden_check i preheader =
     (let n = hi_hidden i - (if preheader \<noteq> [] then 1 else 0); c = chk ''hidden_content'' ''content'' ''Hidden content''
      in if 0 < n
         then c ''warning'' ''The HTML contains visually hidden elements that filters may scrutinize.'' 1 2
                [''Hidden elements outside the detected preheader: '' @ show_nat n]
                (Some ''Remove hidden copy unless it has a clear accessibility or layout purpose.'')
         else c ''pass'' ''No common hidden-text techniques were detected.'' 2 2 [] None)"

definition pixel_check :: "inspector \<Rightarrow> deliv_check" where
  "pixel_check i =
     (let c = chk ''tracking_pixels'' ''content'' ''Tracking pixels''
      in if 0 < hi_pixels i
         then c ''warning'' ''Tiny remote images consistent with tracking pixels were detected.'' 0 1
                [''Likely tracking pixels: '' @ show_nat (hi_pixels i)]
                (Some ''Use tracking only when consent, privacy policy, and message purpose allow it.'')
         else c ''pass'' ''No tiny remote tracking images were detected.'' 1 1 [] None)"

definition language_check :: "inspector \<Rightarrow> string \<Rightarrow> deliv_check" where
  "language_check i html =
     (let c = chk ''document_accessibility'' ''content'' ''Document accessibility''
      in if html \<noteq> [] \<and> hi_language i = []
         then c ''warning'' ''The HTML document does not declare a language.'' 1 2 [] (Some ''Set the html lang attribute to the message language.'')
         else c ''pass'' ''The HTML language is declared or the message is plain text.'' 2 2 [] None)"

definition preheader_check :: "string \<Rightarrow> deliv_check" where
  "preheader_check preheader =
     (let n = length preheader; good = (40 \<le> n \<and> n \<le> 130); some' = preheader \<noteq> []
      in chk ''preheader'' ''content'' ''Preview preheader'' (if good then ''pass'' else if some' then ''warning'' else ''info'')
           (if good then ''A concise hidden preheader was detected.''
            else if some' then ''The hidden preheader may be too short or too long.''
            else ''No common hidden preheader pattern was detected. This is optional.'')
           (if good then 1 else 0) (if some' then 1 else 0)
           (if some' then [''Detected preheader length: '' @ show_nat n @ '' characters''] else [])
           (if some' \<and> \<not> good then Some ''Use a useful preheader of roughly 40 to 130 characters.'' else None))"

definition heading_check :: "nat list \<Rightarrow> deliv_check" where
  "heading_check levels =
     (let skips = length (filter (\<lambda>(p, c). p + 1 < c) (zip levels (tl levels)))
      in chk ''heading_order'' ''content'' ''Heading order'' (if 0 < skips then ''warning'' else ''pass'')
           (if 0 < skips then ''The heading structure skips '' @ show_nat skips @ '' level(s).'' else ''No skipped HTML heading levels were detected.'')
           (if 0 < skips then 0 else 1) 1
           (if levels \<noteq> [] then [''Heading sequence: '' @ join '', '' (map (\<lambda>l. CHR ''h'' # show_nat l) levels)] else [])
           (if 0 < skips then Some ''Use headings in a logical sequence without skipping levels.'' else None))"

definition contrast_check :: "content_lib \<Rightarrow> inspector \<Rightarrow> deliv_check" where
  "contrast_check cl i =
     (let fs = inline_contrast_failures cl (hi_styles i)
      in chk ''inline_color_contrast'' ''content'' ''Inline color contrast'' (if fs \<noteq> [] then ''warning'' else ''pass'')
           (if fs \<noteq> [] then ''Some explicit inline foreground and background colors are below 4.5:1.''
            else ''No low-contrast explicit inline color pairs were detected.'')
           (if fs \<noteq> [] then 0 else 2) 2 fs
           (if fs \<noteq> [] then Some ''Use WCAG AA color contrast and verify inherited, image, and dark-mode colors in previews.'' else None))"

definition tap_check :: "inspector \<Rightarrow> deliv_check" where
  "tap_check i =
     (let n = hi_small_targets i
      in chk ''tap_target_size'' ''content'' ''Tap target size'' (if 0 < n then ''warning'' else ''pass'')
           (if 0 < n then show_nat n @ '' explicitly sized link or button target(s) are below 44 by 44 pixels.''
            else ''No undersized explicitly dimensioned link or button targets were detected.'')
           (if 0 < n then 0 else 1) 1 [] (if 0 < n then Some ''Make important touch targets at least 44 by 44 CSS pixels.'' else None))"

definition css_risks :: "string list" where
  "css_risks = [''CSS animations'', ''CSS variables'', ''Fixed positioning'', ''Grid layout'', ''External font imports'']"

definition css_check :: "content_lib \<Rightarrow> string \<Rightarrow> deliv_check" where
  "css_check cl html =
     (let found = List.map_filter (\<lambda>n. if 0 < cl_css cl n html then Some (n @ '': '' @ show_nat (cl_css cl n html)) else None) css_risks
      in chk ''email_client_css'' ''content'' ''Email client CSS compatibility'' (if found \<noteq> [] then ''warning'' else ''pass'')
           (if found \<noteq> [] then ''The HTML uses CSS features with uneven email-client support.''
            else ''No commonly unsupported CSS feature was detected.'')
           (if found \<noteq> [] then 1 else 2) 2 found
           (if found \<noteq> [] then Some ''Use progressively enhanced, inlined email CSS and test critical clients.'' else None))"

definition image_check :: "inspector \<Rightarrow> deliv_check" where
  "image_check i =
     (let c = chk ''image_accessibility'' ''content'' ''Image accessibility''
      in if 0 < hi_images i \<and> 0 < hi_without_alt i
         then c ''warning'' ''Some images are missing alternative text.'' 1 2
                [''Images without alt text: '' @ show_nat (hi_without_alt i) @ '' of '' @ show_nat (hi_images i)]
                (Some ''Add concise alt text to meaningful images and empty alt text to decorative images.'')
         else c ''pass'' ''Images include alternative text or no images are present.'' 2 2 [] None)"

definition content_checks :: "content_lib \<Rightarrow> mail_message \<Rightarrow> deliv_check list result" where
  "content_checks cl msg =
     (let plain = body_text ''text/plain'' msg; html = body_text ''text/html'' msg; i = inspect_html cl html;
          preheader = (if html \<noteq> [] then preheader_text cl html else []); visible = squeeze (join '' '' (hi_text i));
          combined = lower (header_value ''Subject'' msg @ '' '' @ (if plain \<noteq> [] then plain else visible))
      in bind_res (hygiene_check cl i) (\<lambda>hygiene. bind_res (identity_check cl i) (\<lambda>identity.
         Inr ([alternatives_check plain html, html_check i html visible, subject_check msg, phrase_check combined, hygiene, identity,
               hidden_check i preheader, pixel_check i, language_check i html] @
              (if html \<noteq> []
               then [preheader_check preheader, heading_check (hi_levels i), contrast_check cl i, tap_check i, css_check cl html] else []) @
              [image_check i]))))"

section \<open>The inspection of a message\<close>

definition inspect_message :: "settings \<Rightarrow> mail_lib \<Rightarrow> content_lib \<Rightarrow> mail_message \<Rightarrow> inspection result" where
  "inspect_message st lib cl msg =
     (let sender = address_domain lib (header_value ''From'' msg); auth = authentication_checks st lib msg sender
      in bind_res (content_checks cl msg) (\<lambda>content.
           Inr \<lparr>is_message_id = header_value ''Message-ID'' msg, is_sender_domain = sender,
                is_checks = (\<lambda>k. if k = ''authentication'' then auth else if k = ''content'' then content
                  else if k = ''headers'' then header_checks lib msg sender else if k = ''transport'' then transport_checks msg
                  else if k = ''spam_filter'' then spam_filter_checks lib msg else if k = ''attachments'' then attachment_checks msg else [])\<rparr>))"

end
