(* ===== verification/DelivSched.thy ===== *)
theory DelivSched
  imports DelivExec MessageContent
begin

text \<open>
  \<^verbatim>\<open>deliverability/router.py\<close> and the endpoints of \<^verbatim>\<open>mailboxes/router.py\<close> and \<^verbatim>\<open>emails/router.py\<close> that store
  or delete reports; \<^verbatim>\<open>deliverability/scheduler.py\<close>. What IMAP answers is an argument.
\<close>

section \<open>Guards shared by the endpoints\<close>

type_synonym 'a deliv_action = "deliv_state \<Rightarrow> 'a result \<times> deliv_state"

definition deliv_scoped :: "auth_context \<Rightarrow> string \<Rightarrow> 'a deliv_action \<Rightarrow> 'a deliv_action" where
  "deliv_scoped auth scope f s = (case require_scope auth scope of Inl e \<Rightarrow> (Inl e, s) | Inr _ \<Rightarrow> f s)"

definition deliv_try :: "'a result \<Rightarrow> ('a \<Rightarrow> 'b deliv_action) \<Rightarrow> 'b deliv_action" where
  "deliv_try r k s = (case r of Inl e \<Rightarrow> (Inl e, s) | Inr x \<Rightarrow> k x s)"

definition verify_record_key_access :: "string \<Rightarrow> auth_context \<Rightarrow> unit result" where
  "verify_record_key_access record_mailbox auth =
     (if mailbox_allowed auth record_mailbox then Inr ()
      else Inl (authorization_error ''This API key is not permitted to access this mailbox''))"

text \<open>The access check, which may register mailboxes it discovers, and the row of the address as given.\<close>

definition own_mailbox ::
  "deliv_env \<Rightarrow> (string \<Rightarrow> string) \<Rightarrow> time \<Rightarrow> auth_context \<Rightarrow> string \<Rightarrow> string \<Rightarrow> (mailbox \<Rightarrow> 'a deliv_action) \<Rightarrow> 'a deliv_action" where
  "own_mailbox env new_id now auth checked looked_up k s =
     (case verify_mailbox_access (dl_settings env) new_id now checked auth (dv_mail s) of
        (Inl e, ms) \<Rightarrow> (Inl e, s\<lparr>dv_mail := ms\<rparr>)
      | (Inr _, ms) \<Rightarrow> deliv_try (get_mailbox_by_address (dl_settings env) looked_up (ms_db ms)) k (s\<lparr>dv_mail := ms\<rparr>))"

definition record_mailbox :: "string \<Rightarrow> string \<Rightarrow> auth_context \<Rightarrow> deliv_state \<Rightarrow> unit result" where
  "record_mailbox what mailbox_id auth s =
     (case mailbox_address_of mailbox_id s of
        None \<Rightarrow> Inl (authorization_error (''The '' @ what @ '' mailbox no longer exists''))
      | Some a \<Rightarrow> verify_record_key_access a auth)"

section \<open>Providers\<close>

definition provider_write_request :: "provider_write \<Rightarrow> provider_write result" where
  "provider_write_request q =
     (if vw_name q = [] \<or> 120 < length (vw_name q) \<or> vw_kind q \<notin> {''preview'', ''placement'', ''analysis''} \<or>
         vw_adapter q \<notin> {''generic_http_preview'', ''seed_imap'', ''generic_http_analysis''} \<or>
         (case vw_secret q of None \<Rightarrow> False | Some t \<Rightarrow> 8192 < length t)
      then Inl (ValueErr ''value out of range'')
      else Inr (q\<lparr>vw_name := strip (vw_name q)\<rparr>))"

definition placement_needs_admin :: "provider_write \<Rightarrow> auth_context \<Rightarrow> unit result" where
  "placement_needs_admin q auth =
     (if vw_kind q = ''placement'' \<and> \<not> u_is_admin (ctx_user auth)
      then Inl (authorization_error ''Seed inbox providers require an administrator'') else Inr ())"

definition create_provider ::
  "deliv_env \<Rightarrow> string \<Rightarrow> time \<Rightarrow> auth_context \<Rightarrow> provider_write \<Rightarrow> (provider_row \<times> bool) deliv_action" where
  "create_provider env fresh now auth body =
     deliv_scoped auth MAILBOX_MANAGE (deliv_try (provider_write_request body) (\<lambda>q.
       deliv_try (placement_needs_admin q auth) (\<lambda>_. save_provider env fresh now (u_id (ctx_user auth)) q None)))"

definition update_provider ::
  "deliv_env \<Rightarrow> string \<Rightarrow> time \<Rightarrow> auth_context \<Rightarrow> string \<Rightarrow> provider_write \<Rightarrow> (provider_row \<times> bool) deliv_action" where
  "update_provider env fresh now auth i body =
     deliv_scoped auth MAILBOX_MANAGE (deliv_try (provider_write_request body) (\<lambda>q.
       deliv_try (placement_needs_admin q auth) (\<lambda>_ s.
         deliv_try (get_provider i (u_id (ctx_user auth)) s) (\<lambda>p. save_provider env fresh now (u_id (ctx_user auth)) q (Some p)) s)))"

definition remove_provider :: "auth_context \<Rightarrow> string \<Rightarrow> unit deliv_action" where
  "remove_provider auth i =
     deliv_scoped auth MAILBOX_MANAGE (\<lambda>s. deliv_try (get_provider i (u_id (ctx_user auth)) s) (\<lambda>p s'. (Inr (), delete_provider p s')) s)"

section \<open>Policies\<close>

definition create_policy ::
  "deliv_env \<Rightarrow> (string \<Rightarrow> string) \<Rightarrow> string \<Rightarrow> time \<Rightarrow> auth_context \<Rightarrow> policy_write \<Rightarrow> (deliv_policy \<times> string) deliv_action" where
  "create_policy env new_id fresh now auth body =
     deliv_scoped auth MAILBOX_MANAGE (deliv_try (policy_write_request body) (\<lambda>q.
       own_mailbox env new_id now auth (pw_mailbox q) (pw_mailbox q) (\<lambda>m. save_policy fresh now (u_id (ctx_user auth)) m q None)))"

definition update_policy ::
  "deliv_env \<Rightarrow> (string \<Rightarrow> string) \<Rightarrow> string \<Rightarrow> time \<Rightarrow> auth_context \<Rightarrow> string \<Rightarrow> policy_write \<Rightarrow> (deliv_policy \<times> string) deliv_action" where
  "update_policy env new_id fresh now auth i body =
     deliv_scoped auth MAILBOX_MANAGE (deliv_try (policy_write_request body) (\<lambda>q s.
       deliv_try (get_policy i (u_id (ctx_user auth)) s) (\<lambda>p s.
         deliv_try (record_mailbox ''policy'' (po_mailbox p) auth s) (\<lambda>_.
           own_mailbox env new_id now auth (pw_mailbox q) (pw_mailbox q) (\<lambda>m.
             save_policy fresh now (u_id (ctx_user auth)) m q (Some p))) s) s))"

definition remove_policy :: "auth_context \<Rightarrow> string \<Rightarrow> unit deliv_action" where
  "remove_policy auth i =
     deliv_scoped auth MAILBOX_MANAGE (\<lambda>s. deliv_try (get_policy i (u_id (ctx_user auth)) s) (\<lambda>p s.
       deliv_try (record_mailbox ''policy'' (po_mailbox p) auth s) (\<lambda>_ s. (Inr (), delete_policy p s)) s) s)"

definition policies :: "deliv_env \<Rightarrow> (string \<Rightarrow> string) \<Rightarrow> time \<Rightarrow> auth_context \<Rightarrow> string \<Rightarrow> (deliv_policy \<times> string) list deliv_action" where
  "policies env new_id now auth address =
     deliv_scoped auth EMAIL_READ (own_mailbox env new_id now auth address address (\<lambda>m s. (Inr (list_policies (u_id (ctx_user auth)) m s), s)))"

definition policy_evaluation ::
  "deliv_env \<Rightarrow> string \<Rightarrow> string \<Rightarrow> time \<Rightarrow> auth_context \<Rightarrow> string \<Rightarrow> string \<Rightarrow> evaluation_response deliv_action" where
  "policy_evaluation env fresh fresh_alert now auth i j =
     deliv_scoped auth EMAIL_READ (\<lambda>s.
       deliv_try (get_policy i (u_id (ctx_user auth)) s) (\<lambda>p s.
         deliv_try (get_report_record j (u_id (ctx_user auth)) (dv_reports s)) (\<lambda>r.
           if po_mailbox p \<noteq> rr_mailbox r
           then (\<lambda>s. (Inl (authorization_error ''Policy and report must belong to the same mailbox''), s))
           else deliv_try (verify_record_key_access (rr_address r) auth) (\<lambda>_. evaluate_policy env fresh fresh_alert now p r)) s) s)"

section \<open>Schedules and alerts\<close>

definition schedules :: "deliv_env \<Rightarrow> (string \<Rightarrow> string) \<Rightarrow> time \<Rightarrow> auth_context \<Rightarrow> string \<Rightarrow> (schedule_row \<times> string) list deliv_action" where
  "schedules env new_id now auth address =
     deliv_scoped auth EMAIL_READ (own_mailbox env new_id now auth address address (\<lambda>m s. (Inr (list_schedules (u_id (ctx_user auth)) m s), s)))"

definition create_schedule ::
  "deliv_env \<Rightarrow> (string \<Rightarrow> string) \<Rightarrow> string \<Rightarrow> time \<Rightarrow> auth_context \<Rightarrow> schedule_write \<Rightarrow> (schedule_row \<times> string) deliv_action" where
  "create_schedule env new_id fresh now auth body =
     deliv_scoped auth MAILBOX_MANAGE (deliv_try (schedule_write_request body) (\<lambda>q.
       own_mailbox env new_id now auth (sw_mailbox q) (sw_mailbox q) (\<lambda>m. save_schedule fresh now (u_id (ctx_user auth)) m q None)))"

definition update_schedule ::
  "deliv_env \<Rightarrow> (string \<Rightarrow> string) \<Rightarrow> string \<Rightarrow> time \<Rightarrow> auth_context \<Rightarrow> string \<Rightarrow> schedule_write \<Rightarrow> (schedule_row \<times> string) deliv_action" where
  "update_schedule env new_id fresh now auth i body =
     deliv_scoped auth MAILBOX_MANAGE (deliv_try (schedule_write_request body) (\<lambda>q s.
       deliv_try (get_schedule i (u_id (ctx_user auth)) s) (\<lambda>c s.
         deliv_try (record_mailbox ''schedule'' (sc_mailbox c) auth s) (\<lambda>_.
           own_mailbox env new_id now auth (sw_mailbox q) (sw_mailbox q) (\<lambda>m.
             save_schedule fresh now (u_id (ctx_user auth)) m q (Some c))) s) s))"

definition remove_schedule :: "auth_context \<Rightarrow> string \<Rightarrow> unit deliv_action" where
  "remove_schedule auth i =
     deliv_scoped auth MAILBOX_MANAGE (\<lambda>s. deliv_try (get_schedule i (u_id (ctx_user auth)) s) (\<lambda>c s.
       deliv_try (record_mailbox ''schedule'' (sc_mailbox c) auth s) (\<lambda>_ s. (Inr (), delete_schedule c s)) s) s)"

definition alerts :: "auth_context \<Rightarrow> bool option \<Rightarrow> ((alert_row \<times> string) list \<times> nat) deliv_action" where
  "alerts auth acknowledged =
     deliv_scoped auth EMAIL_READ (\<lambda>s.
       (let rows = filter (\<lambda>x. mailbox_allowed auth (snd x)) (list_alerts (u_id (ctx_user auth)) acknowledged s)
        in (Inr (rows, length rows), s)))"

definition acknowledge :: "time \<Rightarrow> auth_context \<Rightarrow> string \<Rightarrow> (alert_row \<times> string) deliv_action" where
  "acknowledge now auth i =
     deliv_scoped auth EMAIL_READ (\<lambda>s. deliv_try (get_alert i (u_id (ctx_user auth)) s) (\<lambda>a s.
       deliv_try (record_mailbox ''alert'' (al_mailbox a) auth s) (\<lambda>_. acknowledge_alert now a) s) s)"

section \<open>Reports, runs, artifacts\<close>

definition own_report :: "auth_context \<Rightarrow> string \<Rightarrow> deliv_state \<Rightarrow> report_row result" where
  "own_report auth i s =
     bind_res (get_report_record i (u_id (ctx_user auth)) (dv_reports s)) (\<lambda>r.
     bind_res (verify_record_key_access (rr_address r) auth) (\<lambda>_. Inr r))"

definition report_runs :: "auth_context \<Rightarrow> string \<Rightarrow> run_row list deliv_action" where
  "report_runs auth i = deliv_scoped auth EMAIL_READ (\<lambda>s.
     (bind_res (own_report auth i s) (\<lambda>_. Inr (list_runs_for_report i (u_id (ctx_user auth)) s)), s))"

definition run_detail :: "auth_context \<Rightarrow> string \<Rightarrow> run_row deliv_action" where
  "run_detail auth i = deliv_scoped auth EMAIL_READ (\<lambda>s.
     (bind_res (get_run i (u_id (ctx_user auth)) s) (\<lambda>r. bind_res (own_report auth (ru_report r) s) (\<lambda>_. Inr r)), s))"

definition artifact_content :: "auth_context \<Rightarrow> string \<Rightarrow> artifact_row deliv_action" where
  "artifact_content auth i = deliv_scoped auth EMAIL_READ (\<lambda>s.
     (bind_res (get_artifact i (u_id (ctx_user auth)) s) (\<lambda>a.
      bind_res (get_run (at_run a) (u_id (ctx_user auth)) s) (\<lambda>r. bind_res (own_report auth (ru_report r) s) (\<lambda>_. Inr a))), s))"

definition report_history ::
  "deliv_env \<Rightarrow> (string \<Rightarrow> string) \<Rightarrow> time \<Rightarrow> auth_context \<Rightarrow> string \<Rightarrow> int \<Rightarrow> int \<Rightarrow> report_list deliv_action" where
  "report_history env new_id now auth address page page_size =
     deliv_scoped auth EMAIL_READ (
       if page < 1 \<or> page_size < 1 \<or> 200 < page_size then (\<lambda>s. (Inl (Http 422 ''value out of range''), s))
       else own_mailbox env new_id now auth address address (\<lambda>m s.
              (Inr (list_reports (u_id (ctx_user auth)) (Some m) page page_size (dv_reports s)), s)))"

definition report_trend :: "deliv_env \<Rightarrow> (string \<Rightarrow> string) \<Rightarrow> time \<Rightarrow> auth_context \<Rightarrow> string \<Rightarrow> int \<Rightarrow> trend deliv_action" where
  "report_trend env new_id now auth address limit =
     deliv_scoped auth EMAIL_READ (
       if limit < 2 \<or> 1000 < limit then (\<lambda>s. (Inl (Http 422 ''value out of range''), s))
       else own_mailbox env new_id now auth address address (\<lambda>m s. (Inr (get_trend (u_id (ctx_user auth)) m limit (dv_reports s)), s)))"

definition report_detail :: "auth_context \<Rightarrow> string \<Rightarrow> deliv_report deliv_action" where
  "report_detail auth i = deliv_scoped auth EMAIL_READ (\<lambda>s.
     (bind_res (own_report auth i s) (\<lambda>_. get_report i (u_id (ctx_user auth)) (dv_reports s)), s))"

definition update_report_baseline :: "auth_context \<Rightarrow> string \<Rightarrow> bool \<Rightarrow> deliv_report deliv_action" where
  "update_report_baseline auth i flag = deliv_scoped auth MAILBOX_MANAGE (\<lambda>s.
     deliv_try (own_report auth i s) (\<lambda>r s.
       (case set_baseline r flag (dv_reports s) of (d, rows) \<Rightarrow> (Inr d, s\<lparr>dv_reports := rows\<rparr>))) s)"

definition report_comparison :: "auth_context \<Rightarrow> string \<Rightarrow> string option \<Rightarrow> comparison deliv_action" where
  "report_comparison auth i before = deliv_scoped auth EMAIL_READ (\<lambda>s.
     (bind_res (own_report auth i s) (\<lambda>a.
      bind_res (resolve_comparison_base a (u_id (ctx_user auth)) before (dv_reports s)) (\<lambda>b.
      bind_res (verify_record_key_access (rr_address b) auth) (\<lambda>_. Inr (compare_reports b a)))), s))"

section \<open>Export\<close>

text \<open>\<open>html.escape\<close>.\<close>

definition html_char :: "char \<Rightarrow> string" where
  "html_char c =
     (if c = CHR ''&'' then ''&amp;'' else if c = CHR ''<'' then ''&lt;'' else if c = CHR ''>'' then ''&gt;''
      else if c = CHR 0x22 then ''&quot;'' else if c = CHR 0x27 then ''&#x27;'' else [c])"

definition html_escape :: "string \<Rightarrow> string" where
  "html_escape s = concat (map html_char s)"

definition check_html :: "deliv_check \<Rightarrow> string" where
  "check_html c =
     ''<article><h3>'' @ html_escape (ck_title c) @ '' <small>'' @ html_escape (ck_status c) @ ''</small></h3><p>'' @
     html_escape (ck_summary c) @ ''</p>'' @
     (if truthy (ck_recommendation c)
      then ''<p><strong>Recommendation:</strong> '' @ html_escape (the (ck_recommendation c)) @ ''</p>'' else []) @ ''</article>''"

definition category_html :: "deliv_category \<Rightarrow> string" where
  "category_html g =
     ''<section><h2>'' @ html_escape (cg_title g) @ ''</h2>'' @ concat (map check_html (cg_checks g)) @ ''</section>''"

definition report_html :: "string \<Rightarrow> deliv_report \<Rightarrow> string" where
  "report_html i d =
     ''<!doctype html><html><head><meta charset='' @ quoted ''utf-8'' @ ''><title>MailCue deliverability '' @ html_escape i @
     ''</title><style>body{font:16px system-ui;max-width:960px;margin:40px auto;padding:0 20px}'' @
     ''header,section{border:1px solid #ddd;border-radius:12px;padding:20px;margin:16px 0}'' @
     ''article{border-top:1px solid #eee;padding:12px 0}small{font-weight:normal}</style></head>'' @
     ''<body><header><h1>Deliverability score: '' @ show_int (rt_score d) @ ''/100</h1><p>'' @ html_escape (rt_summary d) @ ''</p></header>'' @
     concat (map category_html (rt_categories d)) @ ''</body></html>''"

record export =
  xp_content :: string
  xp_media :: string
  xp_filename :: string

text \<open>JSON and CSV are written by library code.\<close>

definition export_report :: "(deliv_report \<Rightarrow> string) \<Rightarrow> (deliv_report \<Rightarrow> string) \<Rightarrow> auth_context \<Rightarrow> string \<Rightarrow> string \<Rightarrow> export deliv_action" where
  "export_report to_json to_csv auth i kind = deliv_scoped auth EMAIL_READ (\<lambda>s.
     (if kind \<notin> {''json'', ''csv'', ''html''} then Inl (Http 422 ''format'')
      else bind_res (own_report auth i s) (\<lambda>_. bind_res (get_report i (u_id (ctx_user auth)) (dv_reports s)) (\<lambda>d.
        Inr \<lparr>xp_content = (if kind = ''json'' then to_json d else if kind = ''csv'' then to_csv d else report_html i d),
             xp_media = (if kind = ''json'' then ''application/json'' else if kind = ''csv'' then ''text/csv'' else ''text/html''),
             xp_filename = ''mailcue-deliverability-'' @ i @ ''.'' @ kind\<rparr>)), s))"

section \<open>Scheduler and messages\<close>

text \<open>
  \<^verbatim>\<open>deliverability/scheduler.py\<close>, and the endpoints of \<^verbatim>\<open>mailboxes/router.py\<close> and \<^verbatim>\<open>emails/router.py\<close> that
  score a message or delete messages with their reports. What IMAP answers is an argument.
\<close>

section \<open>Endpoints that read or delete messages\<close>

record mail_reader =
  mr_raw :: "string \<Rightarrow> string \<Rightarrow> string \<Rightarrow> string result"
  mr_latest :: "string \<Rightarrow> string option result"
  mr_parse :: "string \<Rightarrow> mail_message"
  mr_settings :: settings
  mr_lib :: mail_lib
  mr_content :: content_lib

definition inspect_raw :: "mail_reader \<Rightarrow> string \<Rightarrow> inspection result" where
  "inspect_raw rd raw = inspect_message (mr_settings rd) (mr_lib rd) (mr_content rd) (mr_parse rd raw)"

text \<open>The report of a message, stored when it is new.\<close>

definition stored_report ::
  "mail_reader \<Rightarrow> run_world \<Rightarrow> string \<Rightarrow> time \<Rightarrow> string \<Rightarrow> mailbox \<Rightarrow> string \<Rightarrow> string \<Rightarrow> string \<Rightarrow> deliv_report deliv_action" where
  "stored_report rd w fresh now u m uid folder raw s =
     (case get_or_create_report (inspect_raw rd) (rw_sha w) fresh now u m uid folder raw (dv_reports s) of
        (d, rows) \<Rightarrow> (d, s\<lparr>dv_reports := rows\<rparr>))"

definition too_large :: "deliv_env \<Rightarrow> string \<Rightarrow> bool" where
  "too_large env raw \<longleftrightarrow> dl_max_bytes env < int (length raw)"

definition analysed_message ::
  "deliv_env \<Rightarrow> mail_reader \<Rightarrow> string \<Rightarrow> string \<Rightarrow> string \<Rightarrow> string result" where
  "analysed_message env rd address uid folder =
     bind_res (mr_raw rd address uid folder) (\<lambda>raw.
       if too_large env raw then Inl (Http 413 ''Message is too large for deliverability analysis.'') else Inr raw)"

definition get_email_deliverability ::
  "deliv_env \<Rightarrow> mail_reader \<Rightarrow> run_world \<Rightarrow> (string \<Rightarrow> string) \<Rightarrow> string \<Rightarrow> time \<Rightarrow> auth_context \<Rightarrow> string \<Rightarrow> string \<Rightarrow> string
     \<Rightarrow> deliv_report deliv_action" where
  "get_email_deliverability env rd w new_id fresh now auth address uid folder =
     deliv_scoped auth EMAIL_READ (own_mailbox env new_id now auth address (unquote address) (\<lambda>m.
       deliv_try (analysed_message env rd (unquote address) uid folder) (\<lambda>raw.
         stored_report rd w fresh now (u_id (ctx_user auth)) m uid folder raw)))"

definition run_request :: "string list \<Rightarrow> string list result" where
  "run_request checks =
     (if checks = [] \<or> 7 < length checks \<or> \<not> set checks \<subseteq> set RUN_CHECKS then Inl (ValueErr ''value out of range'')
      else if \<not> distinct checks then Inl (ValueErr ''checks must be unique'') else Inr checks)"

definition run_email_deliverability_enrichment ::
  "deliv_env \<Rightarrow> mail_reader \<Rightarrow> run_world \<Rightarrow> (string \<Rightarrow> string) \<Rightarrow> string \<Rightarrow> string \<Rightarrow> time \<Rightarrow> auth_context \<Rightarrow> string \<Rightarrow> string \<Rightarrow> string
     \<Rightarrow> string list \<Rightarrow> run_row deliv_action" where
  "run_email_deliverability_enrichment env rd w new_id fresh fresh_run now auth address uid folder body =
     deliv_scoped auth EMAIL_READ (deliv_try (run_request body) (\<lambda>checks.
       own_mailbox env new_id now auth address (unquote address) (\<lambda>m.
         deliv_try (analysed_message env rd (unquote address) uid folder) (\<lambda>raw s.
           (case stored_report rd w fresh now (u_id (ctx_user auth)) m uid folder raw s of
              (Inl e, s1) \<Rightarrow> (Inl e, s1)
            | (Inr d, s1) \<Rightarrow>
                (case rt_id d of
                   None \<Rightarrow> (Inl (Http 500 ''Deliverability report was not persisted''), s1)
                 | Some i \<Rightarrow> deliv_try (get_report_record i (u_id (ctx_user auth)) (dv_reports s1)) (\<lambda>r s2.
                     (case execute_run env w fresh_run now r raw checks s2 of (run, s3) \<Rightarrow> (Inr run, s3))) s1))))))"

text \<open>After the messages are gone from the server their reports are deleted.\<close>

definition delete_mailbox_email ::
  "deliv_env \<Rightarrow> (string \<Rightarrow> string) \<Rightarrow> time \<Rightarrow> auth_context \<Rightarrow> string \<Rightarrow> string \<Rightarrow> string \<Rightarrow> unit result \<Rightarrow> unit deliv_action" where
  "delete_mailbox_email env new_id now auth address uid folder deleted =
     deliv_scoped auth EMAIL_DELETE (own_mailbox env new_id now auth address (unquote address) (\<lambda>m.
       deliv_try deleted (\<lambda>_ s. (Inr (), snd (delete_message_reports (u_id (ctx_user auth)) (m_id m) folder [uid] s)))))"

definition bulk_delete_mailbox_emails ::
  "deliv_env \<Rightarrow> (string \<Rightarrow> string) \<Rightarrow> time \<Rightarrow> auth_context \<Rightarrow> string \<Rightarrow> string \<Rightarrow> ('r \<times> string list) result \<Rightarrow> 'r deliv_action" where
  "bulk_delete_mailbox_emails env new_id now auth address folder deleted =
     deliv_scoped auth EMAIL_DELETE (own_mailbox env new_id now auth address (unquote address) (\<lambda>m.
       deliv_try deleted (\<lambda>(r, uids) s. (Inr r, snd (delete_message_reports (u_id (ctx_user auth)) (m_id m) folder uids s)))))"

definition delete_single_email ::
  "deliv_env \<Rightarrow> (string \<Rightarrow> string) \<Rightarrow> time \<Rightarrow> auth_context \<Rightarrow> string \<Rightarrow> string \<Rightarrow> string \<Rightarrow> unit result \<Rightarrow> unit deliv_action" where
  "delete_single_email env new_id now auth address uid folder deleted =
     deliv_scoped auth EMAIL_DELETE (own_mailbox env new_id now auth address address (\<lambda>m.
       deliv_try deleted (\<lambda>_ s. (Inr (), snd (delete_message_reports (u_id (ctx_user auth)) (m_id m) folder [uid] s)))))"

definition purge_mailbox_emails ::
  "deliv_env \<Rightarrow> (string \<Rightarrow> string) \<Rightarrow> time \<Rightarrow> auth_context \<Rightarrow> string \<Rightarrow> int result \<Rightarrow> int deliv_action" where
  "purge_mailbox_emails env new_id now auth address deleted =
     deliv_scoped auth EMAIL_DELETE (own_mailbox env new_id now auth address (unquote address) (\<lambda>m.
       deliv_try deleted (\<lambda>n s. (Inr n, snd (delete_mailbox_reports (u_id (ctx_user auth)) (m_id m) s)))))"

section \<open>Retention\<close>

definition days :: "int \<Rightarrow> time" where "days n = minutes (1440 * n)"

definition baseline_run_ids :: "deliv_state \<Rightarrow> string list" where
  "baseline_run_ids s =
     map ru_id (filter (\<lambda>r. list_ex (\<lambda>x. rr_id x = ru_report r \<and> rr_baseline x) (dv_reports s)) (dv_runs s))"

definition prune_expired_data :: "deliv_env \<Rightarrow> time \<Rightarrow> deliv_state \<Rightarrow> (nat \<times> nat) \<times> deliv_state" where
  "prune_expired_data env now s =
     (let old_shot = (\<lambda>a. dl_artifact_days env \<noteq> 0 \<and> at_created a < now - days (dl_artifact_days env) \<and>
                       at_run a \<notin> set (baseline_run_ids s));
          s1 = s\<lparr>dv_artifacts := filter (\<lambda>a. \<not> old_shot a) (dv_artifacts s)\<rparr>;
          (reports_deleted, s2) =
            (if dl_report_days env \<noteq> 0
             then delete_report_records (\<lambda>r. rr_created r < now - days (dl_report_days env) \<and> \<not> rr_baseline r) s1
             else (0, s1))
      in ((reports_deleted, length (filter old_shot (dv_artifacts s))), s2))"

section \<open>Claiming a due schedule\<close>

text \<open>The earliest due one, ties by identifier.\<close>

definition is_due :: "time \<Rightarrow> schedule_row \<Rightarrow> bool" where
  "is_due now c \<longleftrightarrow> sc_enabled c \<and> (case sc_next c of None \<Rightarrow> False | Some t \<Rightarrow> t \<le> now)"

definition due_schedule :: "time \<Rightarrow> deliv_state \<Rightarrow> schedule_row option" where
  "due_schedule now s =
     (case sort_key (\<lambda>c. the (sc_next c)) (sort_key sc_id (filter (is_due now) (dv_schedules s))) of [] \<Rightarrow> None | c # _ \<Rightarrow> Some c)"

text \<open>The compare-and-set: the row must still be enabled with the next run that was read.\<close>

definition claims :: "schedule_row \<Rightarrow> schedule_row \<Rightarrow> bool" where
  "claims seen c \<longleftrightarrow> sc_id c = sc_id seen \<and> sc_enabled c \<and> sc_next c = sc_next seen"

definition claimed :: "time \<Rightarrow> schedule_row \<Rightarrow> schedule_row \<Rightarrow> schedule_row" where
  "claimed now seen c = c\<lparr>sc_last := Some now, sc_next := Some (now + minutes (sc_interval seen)), sc_updated := now\<rparr>"

definition claim_schedule :: "time \<Rightarrow> schedule_row \<Rightarrow> deliv_state \<Rightarrow> schedule_row option \<times> deliv_state" where
  "claim_schedule now seen s =
     (case find (claims seen) (dv_schedules s) of
        None \<Rightarrow> (None, s)
      | Some c \<Rightarrow> (Some (claimed now seen c),
                    s\<lparr>dv_schedules := map (\<lambda>x. if claims seen x then claimed now seen x else x) (dv_schedules s)\<rparr>))"

text \<open>A claimed schedule of a mailbox that is gone or inactive is switched off.\<close>

definition switch_off :: "time \<Rightarrow> schedule_row \<Rightarrow> deliv_state \<Rightarrow> deliv_state" where
  "switch_off now c s = s\<lparr>dv_schedules := row_put sc_id (c\<lparr>sc_enabled := False, sc_next := None, sc_updated := now\<rparr>) (dv_schedules s)\<rparr>"

definition open_schedule :: "time \<Rightarrow> schedule_row option \<times> deliv_state \<Rightarrow> (schedule_row \<times> mailbox \<times> time) option \<times> deliv_state" where
  "open_schedule now r =
     (case r of
        (None, s) \<Rightarrow> (None, s)
      | (Some c, s) \<Rightarrow>
          (case get_mailbox_row (sc_mailbox c) (ms_db (dv_mail s)) of
             None \<Rightarrow> (None, switch_off now c s)
           | Some m \<Rightarrow> if m_is_active m then (Some (c, m, now), s) else (None, switch_off now c s)))"

definition claim_due_schedule :: "time \<Rightarrow> deliv_state \<Rightarrow> (schedule_row \<times> mailbox \<times> time) option \<times> deliv_state" where
  "claim_due_schedule now s =
     (case due_schedule now s of None \<Rightarrow> (None, s) | Some c \<Rightarrow> open_schedule now (claim_schedule now c s))"

section \<open>Running a schedule\<close>

text \<open>\<open>isoformat(timespec="minutes")\<close> of a time counted from 1970 in UTC.\<close>

definition civil :: "int \<Rightarrow> int \<times> int \<times> int" where
  "civil d =
     (let z = d + 719468; era = z div 146097; doe = z mod 146097;
          yoe = (doe - doe div 1460 + doe div 36524 - doe div 146096) div 365;
          doy = doe - (365 * yoe + yoe div 4 - yoe div 100); mp = (5 * doy + 2) div 153;
          month = (if mp < 10 then mp + 3 else mp - 9)
      in (yoe + era * 400 + (if month \<le> 2 then 1 else 0), month, doy - (153 * mp + 2) div 5 + 1))"

definition padded :: "nat \<Rightarrow> int \<Rightarrow> string" where
  "padded n i = (let s = show_int i in replicate (n - length s) (CHR ''0'') @ s)"

definition iso_minutes :: "time \<Rightarrow> string" where
  "iso_minutes t =
     (let m = t div minutes 1; (y, mo, d) = civil (m div 1440)
      in padded 4 y @ ''-'' @ padded 2 mo @ ''-'' @ padded 2 d @ ''T'' @ padded 2 (m mod 1440 div 60) @ '':'' @ padded 2 (m mod 60) @ ''+00:00'')"

record alert_text =
  ax_type :: string
  ax_severity :: string
  ax_title :: string
  ax_detail :: string
  ax_report :: "string option"
  ax_run :: "string option"

definition schedule_alert :: "string \<Rightarrow> time \<Rightarrow> schedule_row \<Rightarrow> time \<Rightarrow> alert_text \<Rightarrow> alert_row" where
  "schedule_alert fresh now c claimed_at x =
     \<lparr>al_id = fresh, al_user = sc_user c, al_mailbox = sc_mailbox c, al_report = ax_report x, al_run = ax_run x,
      al_policy = sc_policy c, al_key = ''schedule:'' @ sc_id c @ '':'' @ ax_type x @ '':'' @ iso_minutes claimed_at,
      al_type = ax_type x, al_severity = ax_severity x, al_title = take 255 (ax_title x), al_detail = take 4000 (ax_detail x),
      al_acknowledged = False, al_created = now, al_acknowledged_at = None\<rparr>"

text \<open>The key of an alert is unique.\<close>

definition create_schedule_alert :: "string \<Rightarrow> time \<Rightarrow> schedule_row \<Rightarrow> time \<Rightarrow> alert_text \<Rightarrow> unit deliv_action" where
  "create_schedule_alert fresh now c claimed_at x s =
     (let a = schedule_alert fresh now c claimed_at x
      in if al_key a \<in> al_key ` set (dv_alerts s) then (Inl (OtherExc ''IntegrityError''), s)
         else (Inr (), s\<lparr>dv_alerts := dv_alerts s @ [a]\<rparr>))"

definition then_do :: "unit deliv_action \<Rightarrow> unit deliv_action \<Rightarrow> unit deliv_action" where
  "then_do f g s = (case f s of (Inl e, s') \<Rightarrow> (Inl e, s') | (Inr _, s') \<Rightarrow> g s')"

definition checked_run ::
  "deliv_env \<Rightarrow> run_world \<Rightarrow> string \<Rightarrow> string \<Rightarrow> time \<Rightarrow> schedule_row \<Rightarrow> time \<Rightarrow> report_row \<Rightarrow> string \<Rightarrow> unit deliv_action" where
  "checked_run env w fresh_run fresh_alert now c claimed_at r raw s =
     (if sc_checks c = [] then (Inr (), s)
      else (case execute_run env w fresh_run now r raw (sc_checks c) s of
              (run, s') \<Rightarrow>
                if ru_status run \<in> {''failed'', ''partial''}
                then create_schedule_alert fresh_alert now c claimed_at
                       \<lparr>ax_type = ''schedule_run_incomplete'', ax_severity = ''warning'',
                        ax_title = ''Scheduled checks incomplete: '' @ sc_name c,
                        ax_detail = (case ru_error_detail run of
                           Some d \<Rightarrow> if d = [] then ''Run finished with status '' @ ru_status run @ ''.'' else d
                         | None \<Rightarrow> ''Run finished with status '' @ ru_status run @ ''.''),
                        ax_report = Some (rr_id r), ax_run = Some (ru_id run)\<rparr> s'
                else (Inr (), s')))"

definition scheduled_policy :: "deliv_env \<Rightarrow> string \<Rightarrow> string \<Rightarrow> time \<Rightarrow> schedule_row \<Rightarrow> report_row \<Rightarrow> unit deliv_action" where
  "scheduled_policy env fresh fresh_alert now c r s =
     (if truthy (sc_policy c)
      then (case row_get po_id (the (sc_policy c)) (dv_policies s) of
              None \<Rightarrow> (Inr (), s)
            | Some p \<Rightarrow>
                if po_enabled p
                then (case evaluate_policy env fresh fresh_alert now p r s of (e, s') \<Rightarrow> (bind_res e (\<lambda>_. Inr ()), s'))
                else (Inr (), s))
      else (Inr (), s))"

definition scheduled_analysis ::
  "deliv_env \<Rightarrow> mail_reader \<Rightarrow> run_world \<Rightarrow> (nat \<Rightarrow> string) \<Rightarrow> time \<Rightarrow> schedule_row \<Rightarrow> mailbox \<Rightarrow> time \<Rightarrow> string \<Rightarrow> string \<Rightarrow> unit deliv_action" where
  "scheduled_analysis env rd w fresh now c m claimed_at uid raw s =
     (case row_get m_id (m_id m) (mailboxes (ms_db (dv_mail s))) of
        None \<Rightarrow> (Inr (), s)
      | Some m' \<Rightarrow>
          (case stored_report rd w (fresh 0) now (sc_user c) m' uid ''INBOX'' raw s of
             (Inl e, s1) \<Rightarrow> (Inl e, s1)
           | (Inr d, s1) \<Rightarrow>
               (case Option.bind (rt_id d) (\<lambda>i. row_get rr_id i (dv_reports s1)) of
                  None \<Rightarrow> (Inl (OtherExc ''Scheduled report could not be reloaded''), s1)
                | Some r \<Rightarrow>
                    then_do (checked_run env w (fresh 1) (fresh 2) now c claimed_at r raw)
                      (scheduled_policy env (fresh 3) (fresh 4) now c r) s1)))"

definition schedule_body ::
  "deliv_env \<Rightarrow> mail_reader \<Rightarrow> run_world \<Rightarrow> (nat \<Rightarrow> string) \<Rightarrow> time \<Rightarrow> schedule_row \<Rightarrow> mailbox \<Rightarrow> time \<Rightarrow> unit deliv_action" where
  "schedule_body env rd w fresh now c m claimed_at =
     deliv_try (mr_latest rd (m_address m)) (\<lambda>latest.
       case latest of
         None \<Rightarrow> create_schedule_alert (fresh 5) now c claimed_at
                   \<lparr>ax_type = ''schedule_empty'', ax_severity = ''warning'', ax_title = ''No message available for schedule: '' @ sc_name c,
                    ax_detail = ''The mailbox had no message to analyze at the scheduled time.'', ax_report = None, ax_run = None\<rparr>
       | Some uid \<Rightarrow>
           deliv_try (mr_raw rd (m_address m) uid ''INBOX'') (\<lambda>raw.
             if too_large env raw then (\<lambda>s. (Inl (OtherExc ''Latest message exceeds the analysis size limit''), s))
             else scheduled_analysis env rd w fresh now c m claimed_at uid raw))"

text \<open>Whatever fails becomes an alert; only that alert itself can still fail.\<close>

definition run_schedule ::
  "deliv_env \<Rightarrow> mail_reader \<Rightarrow> run_world \<Rightarrow> (nat \<Rightarrow> string) \<Rightarrow> time \<Rightarrow> schedule_row \<Rightarrow> mailbox \<Rightarrow> time \<Rightarrow> unit deliv_action" where
  "run_schedule env rd w fresh now c m claimed_at s =
     (case schedule_body env rd w fresh now c m claimed_at s of
        (Inr _, s') \<Rightarrow> (Inr (), s')
      | (Inl e, s') \<Rightarrow>
          create_schedule_alert (fresh 6) now c claimed_at
            \<lparr>ax_type = ''schedule_failed'', ax_severity = ''error'', ax_title = ''Deliverability schedule failed: '' @ sc_name c,
             ax_detail = ''The scheduled analysis failed. Review server logs and provider configuration.'',
             ax_report = None, ax_run = None\<rparr> s')"

text \<open>One iteration of the loop; the next clean-up is kept with the state.\<close>

definition scheduler_iteration ::
  "deliv_env \<Rightarrow> mail_reader \<Rightarrow> run_world \<Rightarrow> (nat \<Rightarrow> string) \<Rightarrow> time \<Rightarrow> time \<times> deliv_state \<Rightarrow> unit result \<times> time \<times> deliv_state" where
  "scheduler_iteration env rd w fresh now x =
     (case x of (next_cleanup, s) \<Rightarrow>
        (let (next_cleanup', s1) = (if next_cleanup \<le> now then (now + days 1, snd (prune_expired_data env now s)) else (next_cleanup, s))
         in case claim_due_schedule now s1 of
              (None, s2) \<Rightarrow> (Inr (), next_cleanup', s2)
            | (Some (c, m, claimed_at), s2) \<Rightarrow>
                (case run_schedule env rd w fresh now c m claimed_at s2 of (r, s3) \<Rightarrow> (r, next_cleanup', s3))))"

end
