(* ===== verification/DelivPace.thy ===== *)
theory DelivPace
  imports DelivSched MailboxAccess
begin

text \<open>
  The schedules of deliverability under any number of scheduler workers and requests: a run of a schedule is claimed by
  reading the due row and comparing it again when it is written.
\<close>

section \<open>Workers and requests\<close>

text \<open>\<open>sd_seen\<close> holds what workers have read and when, \<open>sd_log\<close> the claims that succeeded, the newest first.\<close>

record sched_world =
  sd_clock :: time
  sd_deliv :: deliv_state
  sd_seen :: "(time \<times> schedule_row) list"
  sd_log :: "(string \<times> time) list"

datatype sched_op =
    CreateSchedule string schedule_write
  | UpdateSchedule string schedule_write
  | RemoveSchedule string
  | RemovePolicy string

definition fresh_schedule :: "string \<Rightarrow> sched_world \<Rightarrow> bool" where
  "fresh_schedule i x \<longleftrightarrow> i \<notin> sc_id ` set (dv_schedules (sd_deliv x)) \<and> i \<notin> fst ` set (sd_log x)"

fun sched_request ::
  "deliv_env \<Rightarrow> (string \<Rightarrow> string) \<Rightarrow> time \<Rightarrow> auth_context \<Rightarrow> sched_op \<Rightarrow> deliv_state \<Rightarrow> deliv_state" where
  "sched_request env new_id now auth (CreateSchedule fresh q) s = snd (create_schedule env new_id fresh now auth q s)"
| "sched_request env new_id now auth (UpdateSchedule i q) s = snd (update_schedule env new_id [] now auth i q s)"
| "sched_request env new_id now auth (RemoveSchedule i) s = snd (remove_schedule auth i s)"
| "sched_request env new_id now auth (RemovePolicy i) s = snd (remove_policy auth i s)"

inductive sched_step :: "sched_world \<Rightarrow> sched_world \<Rightarrow> bool" where
  Tick: "sd_clock x \<le> t \<Longrightarrow> sched_step x (x\<lparr>sd_clock := t\<rparr>)"
| Look: "due_schedule (sd_clock x) (sd_deliv x) = Some c \<Longrightarrow> sched_step x (x\<lparr>sd_seen := (sd_clock x, c) # sd_seen x\<rparr>)"
| Claim: "(now, seen) \<in> set (sd_seen x) \<Longrightarrow> claim_schedule now seen (sd_deliv x) = (Some c, s) \<Longrightarrow>
    sched_step x (x\<lparr>sd_deliv := snd (open_schedule now (Some c, s)), sd_log := (sc_id c, now) # sd_log x\<rparr>)"
| Request: "(\<And>fresh q. op' = CreateSchedule fresh q \<Longrightarrow> fresh_schedule fresh x) \<Longrightarrow>
    sched_step x (x\<lparr>sd_deliv := sched_request env new_id (sd_clock x) auth op' (sd_deliv x)\<rparr>)"
| Elsewhere: "dv_schedules s = dv_schedules (sd_deliv x) \<Longrightarrow> sched_step x (x\<lparr>sd_deliv := s\<rparr>)"

definition spaced :: "(string \<times> time) list \<Rightarrow> bool" where
  "spaced ledger = sorted_wrt (\<lambda>(i, t) (j, u). i = j \<longrightarrow> u + minutes 5 \<le> t) ledger"

section \<open>Invariant\<close>

definition row_paced :: "(string \<times> time) list \<Rightarrow> schedule_row \<Rightarrow> bool" where
  "row_paced ledger c \<longleftrightarrow> 5 \<le> sc_interval c \<and>
     (\<forall>n t. sc_next c = Some n \<longrightarrow> (sc_id c, t) \<in> set ledger \<longrightarrow> t + minutes 5 \<le> n)"

definition sched_inv :: "sched_world \<Rightarrow> bool" where
  "sched_inv x \<longleftrightarrow>
     distinct (map sc_id (dv_schedules (sd_deliv x))) \<and>
     (\<forall>c \<in> set (dv_schedules (sd_deliv x)). row_paced (sd_log x) c) \<and>
     (\<forall>(now, c) \<in> set (sd_seen x). now \<le> sd_clock x \<and> 5 \<le> sc_interval c \<and> (\<exists>n. sc_next c = Some n \<and> n \<le> now)) \<and>
     (\<forall>(i, t) \<in> set (sd_log x). t \<le> sd_clock x) \<and>
     spaced (sd_log x)"

text \<open>What a table of schedules may become at a given time.\<close>

definition rows_ok :: "sched_world \<Rightarrow> deliv_state \<Rightarrow> bool" where
  "rows_ok x s \<longleftrightarrow> distinct (map sc_id (dv_schedules s)) \<and> (\<forall>c \<in> set (dv_schedules s). row_paced (sd_log x) c)"

lemma minutes_mono: "a \<le> b \<Longrightarrow> t + minutes a \<le> t + minutes b"
  by simp

lemma deliv_scoped_keeps:
  assumes "\<And>s. P s \<Longrightarrow> P (snd (f s))" and "P s"
  shows "P (snd (deliv_scoped auth sc f s))"
  using assms by (simp add: deliv_scoped_def split: sum.split)

lemma deliv_try_keeps:
  assumes "\<And>v s. r = Inr v \<Longrightarrow> P s \<Longrightarrow> P (snd (k v s))" and "P s"
  shows "P (snd (deliv_try r k s))"
  using assms by (cases r) (simp_all add: deliv_try_def)

lemma own_mailbox_keeps:
  assumes "\<And>m s. P s \<Longrightarrow> P (snd (k m s))" and "\<And>ms. P s \<Longrightarrow> P (s\<lparr>dv_mail := ms\<rparr>)" and "P s"
  shows "P (snd (own_mailbox env new_id now auth a b k s))"
  using assms by (auto simp: own_mailbox_def split: prod.split sum.split intro!: deliv_try_keeps [of _ P])

lemma rows_ok_mail [simp]: "rows_ok x (s\<lparr>dv_mail := ms\<rparr>) = rows_ok x s"
  by (simp add: rows_ok_def)

lemma claim_scheduleD:
  assumes "claim_schedule now seen s = (Some c, s')"
  obtains c0 where "c0 \<in> set (dv_schedules s)" "claims seen c0" "c = claimed now seen c0"
    "dv_schedules s' = map (\<lambda>x. if claims seen x then claimed now seen x else x) (dv_schedules s)"
proof -
  from assms obtain c0 where f: "find (claims seen) (dv_schedules s) = Some c0" and c: "c = claimed now seen c0"
    and s': "dv_schedules s' = map (\<lambda>x. if claims seen x then claimed now seen x else x) (dv_schedules s)"
    by (auto simp: claim_schedule_def split: option.splits)
  from f have "c0 \<in> set (dv_schedules s)" "claims seen c0" by (auto simp: find_Some_iff)
  then show thesis using c s' by (rule that)
qed

lemma claimed_sel [simp]:
  "sc_id (claimed now seen c) = sc_id c" "sc_next (claimed now seen c) = Some (now + minutes (sc_interval seen))"
  "sc_interval (claimed now seen c) = sc_interval c"
  by (simp_all add: claimed_def)

lemma ids_claim: "map sc_id (map (\<lambda>x. if claims seen x then claimed now seen x else x) cs) = map sc_id cs"
  by (induction cs) simp_all

text \<open>Switching a schedule off or opening it leaves the table paced.\<close>

lemma open_rows:
  assumes "distinct (map sc_id (dv_schedules s))" "\<forall>x \<in> set (dv_schedules s). row_paced ledger x" "c \<in> set (dv_schedules s)"
  shows "distinct (map sc_id (dv_schedules (snd (open_schedule now (Some c, s))))) \<and>
    (\<forall>x \<in> set (dv_schedules (snd (open_schedule now (Some c, s)))). row_paced ledger x)"
proof -
  have "row_paced ledger (c\<lparr>sc_enabled := False, sc_next := None, sc_updated := now\<rparr>)"
    using assms(2,3) by (auto simp: row_paced_def)
  then have "rows_ok \<lparr>sd_clock = now, sd_deliv = s, sd_seen = [], sd_log = ledger\<rparr> (switch_off now c s)"
    using assms set_row_put [of sc_id "c\<lparr>sc_enabled := False, sc_next := None, sc_updated := now\<rparr>" "dv_schedules s"]
    by (auto simp: rows_ok_def switch_off_def)
  with assms show ?thesis by (auto simp: open_schedule_def rows_ok_def split: option.splits)
qed

section \<open>Steps keep the invariant\<close>

lemma claim_keeps:
  assumes inv: "sched_inv x" and seen: "(now, seen) \<in> set (sd_seen x)"
    and cl: "claim_schedule now seen (sd_deliv x) = (Some c, s)"
  shows "sched_inv (x\<lparr>sd_deliv := snd (open_schedule now (Some c, s)), sd_log := (sc_id c, now) # sd_log x\<rparr>)"
proof -
  let ?ledger = "(sc_id c, now) # sd_log x"
  from inv seen obtain n where n: "now \<le> sd_clock x" "5 \<le> sc_interval seen" "sc_next seen = Some n" "n \<le> now"
    by (auto simp: sched_inv_def)
  from cl obtain c0 where c0: "c0 \<in> set (dv_schedules (sd_deliv x))" "claims seen c0" "c = claimed now seen c0"
    and s: "dv_schedules s = map (\<lambda>x. if claims seen x then claimed now seen x else x) (dv_schedules (sd_deliv x))"
    by (rule claim_scheduleD)
  have d: "distinct (map sc_id (dv_schedules (sd_deliv x)))" using inv by (simp add: sched_inv_def)
  have older: "u + minutes 5 \<le> now" if "(sc_id c, u) \<in> set (sd_log x)" for u
  proof -
    have "row_paced (sd_log x) c0" using inv c0(1) by (auto simp: sched_inv_def)
    with that n(3) c0(2,3) have "u + minutes 5 \<le> n" by (auto simp: row_paced_def claims_def)
    with n(4) show ?thesis by simp
  qed
  have rows: "row_paced ?ledger y" if y: "y \<in> set (dv_schedules s)" for y
  proof -
    from y obtain y0 where y0: "y0 \<in> set (dv_schedules (sd_deliv x))" "y = (if claims seen y0 then claimed now seen y0 else y0)"
      by (auto simp: s)
    have p: "row_paced (sd_log x) y0" using inv y0(1) by (auto simp: sched_inv_def)
    show ?thesis
    proof (cases "claims seen y0")
      case True
      then have i: "sc_id y0 = sc_id c" using c0(2,3) by (simp add: claims_def)
      have le: "now + minutes 5 \<le> now + minutes (sc_interval seen)" using n(2) by simp
      have "t + minutes 5 \<le> now + minutes (sc_interval seen)" if "(sc_id c, t) \<in> set ?ledger" for t
      proof (cases "t = now")
        case False
        with that older [of t] have "t + minutes 5 \<le> now" by simp
        also have "\<dots> \<le> now + minutes (sc_interval seen)" using n(2) by (simp add: minutes_def)
        finally show ?thesis .
      qed (simp add: n(2))
      then show ?thesis using p i True n(2) by (auto simp: y0(2) row_paced_def)
    next
      case False
      have "sc_id y0 \<noteq> sc_id c"
      proof
        assume "sc_id y0 = sc_id c"
        then have "sc_id y0 = sc_id c0" using c0(3) by simp
        with d y0(1) c0(1) have "y0 = c0" by (meson eq_key_imp_eq_value distinct_map inj_onD)
        with c0(2) False show False by simp
      qed
      then show ?thesis using p False by (auto simp: y0(2) row_paced_def)
    qed
  qed
  have ds: "distinct (map sc_id (dv_schedules s))" using d by (simp only: s ids_claim)
  have cs: "c \<in> set (dv_schedules s)" using c0 by (auto simp: s image_iff intro!: bexI [of _ c0])
  have sp: "spaced ?ledger" using inv older by (auto simp: sched_inv_def spaced_def)
  have lg: "\<forall>(i, t) \<in> set ?ledger. t \<le> sd_clock x" using inv n(1) by (auto simp: sched_inv_def)
  show ?thesis using open_rows [OF ds _ cs, of ?ledger now] rows sp lg inv by (simp add: sched_inv_def)
qed

lemma written_paced:
  assumes "row_paced ledger c" "5 \<le> sw_interval q" "\<forall>(i, t) \<in> set ledger. t \<le> now"
  shows "row_paced ledger (written_schedule now m q c)"
proof -
  have "t + minutes 5 \<le> now + minutes (sw_interval q)" if "(i, t) \<in> set ledger" for i t
  proof -
    have "t \<le> now" using assms(3) that by auto
    moreover have "minutes 5 \<le> minutes (sw_interval q)" using assms(2) by simp
    ultimately show ?thesis by (rule add_mono)
  qed
  then show ?thesis using assms(1,2) by (auto simp: written_schedule_def Let_def row_paced_def split: if_splits)
qed

lemma written_id [simp]: "sc_id (written_schedule now m q c) = sc_id c"
  by (simp add: written_schedule_def Let_def)

lemma schedule_write_interval: "schedule_write_request body = Inr q \<Longrightarrow> 5 \<le> sw_interval q"
  by (auto simp: schedule_write_request_def split: if_splits)

lemma save_schedule_rows:
  assumes "rows_ok x s" "5 \<le> sw_interval q" "\<forall>(i, t) \<in> set (sd_log x). t \<le> now"
    and "case old of None \<Rightarrow> fresh \<notin> sc_id ` set (dv_schedules s) \<and> fresh \<notin> fst ` set (sd_log x)
         | Some c \<Rightarrow> row_paced (sd_log x) c"
  shows "rows_ok x (snd (save_schedule fresh now u m q old s))"
proof -
  let ?c0 = "case old of None \<Rightarrow> blank_schedule fresh now u m | Some c \<Rightarrow> c"
  have "row_paced (sd_log x) ?c0"
    using assms(4) by (auto simp: row_paced_def blank_schedule_def split: option.splits)
  then have w: "row_paced (sd_log x) (written_schedule now m q ?c0)" using assms(2,3) by (rule written_paced)
  show ?thesis
  proof (cases old)
    case None
    have "sc_id (blank_schedule fresh now u m) = fresh" by (simp add: blank_schedule_def)
    with w None assms(1,4) show ?thesis by (auto simp: save_schedule_def rows_ok_def Let_def split: sum.split)
  next
    case (Some c)
    have "rows_ok x (s\<lparr>dv_schedules := row_put sc_id (written_schedule now m q c) (dv_schedules s)\<rparr>)"
      using w Some assms(1) set_row_put [of sc_id "written_schedule now m q c" "dv_schedules s"] by (auto simp: rows_ok_def)
    with Some assms(1) show ?thesis by (auto simp: save_schedule_def Let_def split: sum.split)
  qed
qed

lemma ids_forget: "map sc_id (map (\<lambda>c. if P c then c\<lparr>sc_policy := None\<rparr> else c) cs) = map sc_id cs"
  by (induction cs) simp_all

lemma get_schedule_mem: "get_schedule i u s = Inr c \<Longrightarrow> c \<in> set (dv_schedules s) \<and> sc_id c = i"
  by (auto simp: get_schedule_def find_Some_iff split: option.splits)

lemma request_keeps:
  assumes "rows_ok x s" "\<forall>(i, t) \<in> set (sd_log x). t \<le> now"
    and "\<And>fresh q. op' = CreateSchedule fresh q \<Longrightarrow> fresh \<notin> sc_id ` set (dv_schedules s) \<and> fresh \<notin> fst ` set (sd_log x)"
  shows "rows_ok x (sched_request env new_id now auth op' s)"
proof (cases op')
  case (CreateSchedule fresh body)
  let ?P = "\<lambda>t. rows_ok x t \<and> dv_schedules t = dv_schedules s"
  show ?thesis unfolding CreateSchedule sched_request.simps create_schedule_def deliv_scoped_def
    using assms(1)
  proof (auto simp: deliv_try_def own_mailbox_def split: sum.split prod.split)
    fix q ms m
    assume "schedule_write_request body = Inr q"
    then show "rows_ok x (snd (save_schedule fresh now (u_id (ctx_user auth)) m q None (s\<lparr>dv_mail := ms\<rparr>)))"
      using assms(1,2) assms(3) [OF CreateSchedule] by (intro save_schedule_rows) (auto dest: schedule_write_interval)
  qed
next
  case (UpdateSchedule i body)
  show ?thesis unfolding UpdateSchedule sched_request.simps update_schedule_def deliv_scoped_def
    using assms(1)
  proof (auto simp: deliv_try_def own_mailbox_def split: sum.split prod.split)
    fix q c ms m
    assume "schedule_write_request body = Inr q" "get_schedule i (u_id (ctx_user auth)) s = Inr c"
    then show "rows_ok x (snd (save_schedule [] now (u_id (ctx_user auth)) m q (Some c) (s\<lparr>dv_mail := ms\<rparr>)))"
      using assms(1,2) get_schedule_mem by (intro save_schedule_rows) (auto dest: schedule_write_interval simp: rows_ok_def)
  qed
next
  case (RemoveSchedule i)
  then show ?thesis using assms(1)
    by (auto simp: remove_schedule_def deliv_scoped_def deliv_try_def delete_schedule_def rows_ok_def set_row_del
        intro!: distinct_row_del split: sum.split)
next
  case (RemovePolicy i)
  have "rows_ok x (delete_policy p s)" for p
    using assms(1) ids_forget [of "\<lambda>c. sc_policy c = Some (po_id p)" "dv_schedules s"]
    by (auto simp: delete_policy_def rows_ok_def row_paced_def simp del: map_map)
  with RemovePolicy assms(1) show ?thesis
    by (auto simp: remove_policy_def deliv_scoped_def deliv_try_def split: sum.split)
qed

lemma due_scheduleD: "due_schedule now s = Some c \<Longrightarrow> c \<in> set (dv_schedules s) \<and> is_due now c"
proof -
  assume "due_schedule now s = Some c"
  then obtain cs where cs: "sort_key (\<lambda>c. the (sc_next c)) (sort_key sc_id (filter (is_due now) (dv_schedules s))) = c # cs"
    by (auto simp: due_schedule_def split: list.splits)
  have "c \<in> set (sort_key (\<lambda>c. the (sc_next c)) (sort_key sc_id (filter (is_due now) (dv_schedules s))))"
    unfolding cs by simp
  then show ?thesis by simp
qed

lemma sched_step_keeps: "sched_step x y \<Longrightarrow> sched_inv x \<Longrightarrow> sched_inv y"
proof (induction rule: sched_step.induct)
  case (Tick x t)
  then show ?case by (fastforce simp: sched_inv_def)
next
  case (Look x c)
  then have "c \<in> set (dv_schedules (sd_deliv x))" "is_due (sd_clock x) c" using due_scheduleD by blast+
  with Look.prems show ?case by (auto simp: sched_inv_def is_due_def row_paced_def split: option.splits)
next
  case (Claim now seen x c s)
  then show ?case using claim_keeps by blast
next
  case (Request op' x env new_id auth)
  have "rows_ok x (sched_request env new_id (sd_clock x) auth op' (sd_deliv x))"
    using Request by (intro request_keeps) (auto simp: sched_inv_def rows_ok_def fresh_schedule_def)
  with Request.prems show ?case by (simp add: sched_inv_def rows_ok_def)
next
  case (Elsewhere s x)
  then show ?case by (simp add: sched_inv_def)
qed

lemma sched_run_keeps: "sched_step\<^sup>*\<^sup>* x y \<Longrightarrow> sched_inv x \<Longrightarrow> sched_inv y"
  by (induction rule: rtranclp_induct) (auto intro: sched_step_keeps)

section \<open>Property\<close>

definition idle_world :: "sched_world \<Rightarrow> bool" where
  "idle_world x \<longleftrightarrow> sd_seen x = [] \<and> sd_log x = [] \<and> distinct (map sc_id (dv_schedules (sd_deliv x))) \<and>
     (\<forall>c \<in> set (dv_schedules (sd_deliv x)). 5 \<le> sc_interval c)"

text \<open>C33: however many scheduler workers and requests interleave, the successful claims of one schedule are at least five
  minutes apart, so a schedule is never run twice for one due time.\<close>

theorem schedules_are_paced:
  assumes "idle_world x" and "sched_step\<^sup>*\<^sup>* x y"
  shows "spaced (sd_log y)"
proof -
  have "sched_inv x" using assms(1) by (auto simp: idle_world_def sched_inv_def row_paced_def spaced_def)
  with assms(2) have "sched_inv y" by (rule sched_run_keeps)
  then show ?thesis by (simp add: sched_inv_def)
qed

definition demo_schedule :: schedule_row where
  "demo_schedule = \<lparr>sc_id = ''c1'', sc_user = ''2'', sc_mailbox = ''m2'', sc_policy = None, sc_name = ''daily'', sc_enabled = True,
     sc_interval = 5, sc_checks = [], sc_next = Some 0, sc_last = None, sc_created = 0, sc_updated = 0\<rparr>"

definition demo_deliv :: deliv_state where
  "demo_deliv = \<lparr>dv_reports = [], dv_runs = [], dv_artifacts = [], dv_policies = [], dv_evals = [], dv_providers = [],
     dv_schedules = [demo_schedule], dv_alerts = [], dv_accounts = [], dv_mail = demo_mail2\<rparr>"

definition demo_world :: sched_world where
  "demo_world = \<lparr>sd_clock = 0, sd_deliv = demo_deliv, sd_seen = [], sd_log = []\<rparr>"

theorem schedules_are_paced_witness:
  "\<exists>y. sched_step\<^sup>*\<^sup>* demo_world y \<and> sd_log y = [(''c1'', minutes 6), (''c1'', 0)] \<and> spaced (sd_log y)"
proof -
  let ?c1 = "demo_schedule\<lparr>sc_last := Some 0, sc_next := Some (minutes 5)\<rparr>"
  let ?c2 = "demo_schedule\<lparr>sc_last := Some (minutes 6), sc_next := Some (minutes 11), sc_updated := minutes 6\<rparr>"
  let ?s1 = "demo_deliv\<lparr>dv_schedules := [?c1]\<rparr>"
  let ?s2 = "demo_deliv\<lparr>dv_schedules := [?c2]\<rparr>"
  have opened: "snd (open_schedule t (Some c, s)) = s" if "dv_mail s = demo_mail2" "sc_mailbox c = ''m2''" for t c s
    using that by (simp add: open_schedule_def get_mailbox_row_def row_get_def demo_mail2_def demo_info_def demo_own_def)
  let ?x1 = "demo_world\<lparr>sd_seen := [(0, demo_schedule)]\<rparr>"
  let ?x2 = "?x1\<lparr>sd_deliv := ?s1, sd_log := [(''c1'', 0)]\<rparr>"
  let ?x3 = "?x2\<lparr>sd_clock := minutes 6\<rparr>"
  let ?x4 = "?x3\<lparr>sd_seen := [(minutes 6, ?c1), (0, demo_schedule)]\<rparr>"
  let ?x5 = "?x4\<lparr>sd_deliv := ?s2, sd_log := [(''c1'', minutes 6), (''c1'', 0)]\<rparr>"
  have "due_schedule 0 demo_deliv = Some demo_schedule" by (simp add: due_schedule_def demo_deliv_def is_due_def demo_schedule_def)
  then have a1: "sched_step demo_world ?x1" using Look [of demo_world demo_schedule] by (simp add: demo_world_def)
  have "claim_schedule 0 demo_schedule demo_deliv = (Some ?c1, ?s1)"
    by (simp add: claim_schedule_def demo_deliv_def claims_def claimed_def demo_schedule_def)
  then have a2: "sched_step ?x1 ?x2" using Claim [of 0 demo_schedule ?x1 ?c1 ?s1] opened [of ?s1 ?c1 0]
    by (simp add: demo_world_def demo_schedule_def demo_deliv_def)
  have a3: "sched_step ?x2 ?x3" using Tick [of ?x2 "minutes 6"] by (simp add: demo_world_def minutes_def)
  have "due_schedule (minutes 6) ?s1 = Some ?c1" by (simp add: due_schedule_def is_due_def demo_schedule_def)
  then have a4: "sched_step ?x3 ?x4" using Look [of ?x3 ?c1] by (simp add: demo_world_def)
  have "claim_schedule (minutes 6) ?c1 ?s1 = (Some ?c2, ?s2)"
    by (simp add: claim_schedule_def claims_def claimed_def demo_schedule_def minutes_def)
  then have a5: "sched_step ?x4 ?x5" using Claim [of "minutes 6" ?c1 ?x4 ?c2 ?s2] opened [of ?s2 ?c2 "minutes 6"]
    by (simp add: demo_world_def demo_schedule_def demo_deliv_def)
  have run: "sched_step\<^sup>*\<^sup>* demo_world ?x5" using a1 a2 a3 a4 a5 by (meson converse_rtranclp_into_rtranclp rtranclp.rtrancl_refl)
  have "idle_world demo_world" by (simp add: idle_world_def demo_world_def demo_deliv_def demo_schedule_def)
  from schedules_are_paced [OF this run] run show ?thesis by (intro exI [of _ ?x5]) simp
qed

end
