(* ===== verification/DelivProps.thy ===== *)
theory DelivProps
  imports DelivPace
begin

text \<open>
  What the stored reports promise: one baseline for each mailbox, a policy verdict that says what its conditions say, and an
  exported page in which no text of a message becomes markup.
\<close>

section \<open>The exported page\<close>

text \<open>The characters of a page that belong to tags, with whether a tag is open.\<close>

fun markup :: "bool \<Rightarrow> string \<Rightarrow> string" where
  "markup open_tag [] = []"
| "markup open_tag (c # s) =
     (if open_tag then c # markup (c \<noteq> CHR ''>'') s else if c = CHR ''<'' then c # markup True s else markup False s)"

fun inside_tag :: "bool \<Rightarrow> string \<Rightarrow> bool" where
  "inside_tag open_tag [] = open_tag"
| "inside_tag open_tag (c # s) = inside_tag (if open_tag then c \<noteq> CHR ''>'' else c = CHR ''<'') s"

lemma markup_append: "markup t (a @ b) = markup t a @ markup (inside_tag t a) b"
  by (induction t a rule: markup.induct) auto

lemma inside_append: "inside_tag t (a @ b) = inside_tag (inside_tag t a) b"
  by (induction a arbitrary: t) auto

text \<open>Text without an opening bracket is no markup.\<close>

definition plain :: "string \<Rightarrow> bool" where "plain s \<longleftrightarrow> CHR ''<'' \<notin> set s"

lemma plain_markup: "plain s \<Longrightarrow> markup False s = [] \<and> \<not> inside_tag False s"
  by (induction s) (auto simp: plain_def)

lemma plain_html_escape: "plain (html_escape s)"
  by (induction s) (auto simp: plain_def html_escape_def html_char_def)

lemma plain_show_int: "plain (show_int i)"
proof -
  have "CHR ''<'' \<notin> set (show_nat n)" for n
    using digits_show_nat [of n] by (auto simp: list_all_iff is_digit_def)
  then show ?thesis by (simp add: plain_def show_int_def)
qed

lemma escaped_text [simp]: "markup False (html_escape s) = []" "inside_tag False (html_escape s) = False"
  using plain_markup [OF plain_html_escape] by simp_all

lemma number_text [simp]: "markup False (show_int i) = []" "inside_tag False (show_int i) = False"
  using plain_markup [OF plain_show_int] by simp_all

lemma concat_markup:
  assumes "\<And>x. x \<in> set xs \<Longrightarrow> \<not> inside_tag False (f x)"
  shows "markup False (concat (map f xs)) = concat (map (\<lambda>x. markup False (f x)) xs) \<and> \<not> inside_tag False (concat (map f xs))"
  using assms by (induction xs) (simp_all add: markup_append inside_append)

text \<open>The tags the page of a report has, from the number of its categories and checks alone.\<close>

definition check_tags :: "bool \<Rightarrow> string" where
  "check_tags recommended =
     ''<article><h3><small></small></h3><p></p>'' @ (if recommended then ''<p><strong></strong></p>'' else []) @ ''</article>''"

definition category_tags :: "bool list \<Rightarrow> string" where
  "category_tags g = ''<section><h2></h2>'' @ concat (map check_tags g) @ ''</section>''"

definition page_tags :: "bool list list \<Rightarrow> string" where
  "page_tags gs =
     ''<!doctype html><html><head><meta charset='' @ quoted ''utf-8'' @ ''><title></title><style></style></head>'' @
     ''<body><header><h1></h1><p></p></header>'' @ concat (map category_tags gs) @ ''</body></html>''"

definition report_shape :: "deliv_report \<Rightarrow> bool list list" where
  "report_shape d = map (\<lambda>g. map (\<lambda>c. truthy (ck_recommendation c)) (cg_checks g)) (rt_categories d)"

lemma check_markup: "markup False (check_html c) = check_tags (truthy (ck_recommendation c)) \<and> \<not> inside_tag False (check_html c)"
  by (simp add: check_html_def check_tags_def markup_append inside_append)

lemma category_markup:
  "markup False (category_html g) = category_tags (map (\<lambda>c. truthy (ck_recommendation c)) (cg_checks g)) \<and>
   \<not> inside_tag False (category_html g)"
proof -
  have "markup False (concat (map check_html (cg_checks g))) =
      concat (map check_tags (map (\<lambda>c. truthy (ck_recommendation c)) (cg_checks g)))"
    using concat_markup [of "cg_checks g" check_html] by (simp add: check_markup comp_def)
  moreover have "\<not> inside_tag False (concat (map check_html (cg_checks g)))"
    using concat_markup [of "cg_checks g" check_html] by (simp add: check_markup)
  ultimately show ?thesis by (simp add: category_html_def category_tags_def markup_append inside_append)
qed

text \<open>C36: the tags of an exported page depend only on how many categories and checks the report has and which of them carry a
  recommendation: no text taken from the analysed message can add or change markup.\<close>

theorem exported_markup_is_fixed: "markup False (report_html i d) = page_tags (report_shape d)"
proof -
  have "markup False (concat (map category_html (rt_categories d))) = concat (map category_tags (report_shape d))"
    using concat_markup [of "rt_categories d" category_html] by (simp add: category_markup comp_def report_shape_def)
  moreover have "\<not> inside_tag False (concat (map category_html (rt_categories d)))"
    using concat_markup [of "rt_categories d" category_html] by (simp add: category_markup)
  ultimately show ?thesis by (simp add: report_html_def page_tags_def markup_append inside_append quoted_def)
qed

section \<open>Policies\<close>

text \<open>What a policy asks of a report.\<close>

definition policy_holds :: "deliv_env \<Rightarrow> deliv_policy \<Rightarrow> report_row \<Rightarrow> deliv_state \<Rightarrow> bool" where
  "policy_holds env p r s \<longleftrightarrow>
     po_minimum p \<le> rr_score r \<and>
     (\<forall>c \<in> set (report_checks r). by_id ck_id (report_checks r) (ck_id c) = Some c \<longrightarrow> ck_status c \<notin> set (po_fail p)) \<and>
     (\<forall>i \<in> set (po_checks p). \<exists>c. by_id ck_id (report_checks r) i = Some c \<and> ck_status c = ''pass'') \<and>
     set (po_caps p) \<subseteq> set (available_ids env (po_user p) s) \<and>
     (\<forall>b. resolve_comparison_base r (po_user p) None (dv_reports s) = Inr b \<longrightarrow> rr_score b - rr_score r \<le> po_regression p)"

lemma by_id_mem: "by_id key xs k = Some x \<Longrightarrow> x \<in> set xs \<and> key x = k"
proof -
  assume "by_id key xs k = Some x"
  then obtain n where "n < length (rev xs)" "x = rev xs ! n" "key x = k" unfolding by_id_def find_Some_iff by blast
  then show ?thesis using nth_mem [of n "rev xs"] by simp
qed

lemma set_of_map_filter: "set (List.map_filter f xs) = {y. \<exists>x \<in> set xs. f x = Some y}"
  by (force simp: List.map_filter_def)

lemma checks_by_id_iff: "c \<in> set (checks_by_id r) \<longleftrightarrow> c \<in> set (report_checks r) \<and> by_id ck_id (report_checks r) (ck_id c) = Some c"
proof
  assume "c \<in> set (checks_by_id r)"
  then obtain k where "by_id ck_id (report_checks r) k = Some c" by (auto simp: checks_by_id_def set_of_map_filter)
  with by_id_mem [OF this] show "c \<in> set (report_checks r) \<and> by_id ck_id (report_checks r) (ck_id c) = Some c" by auto
next
  assume "c \<in> set (report_checks r) \<and> by_id ck_id (report_checks r) (ck_id c) = Some c"
  then show "c \<in> set (checks_by_id r)" by (auto simp: checks_by_id_def set_of_map_filter intro!: exI [of _ "ck_id c"])
qed

lemma map_filter_Nil_iff: "List.map_filter f xs = [] \<longleftrightarrow> (\<forall>x \<in> set xs. f x = None)"
  by (induction xs) (auto simp: map_filter_simps split: option.splits)

lemma score_reasons_iff: "score_reasons p r = [] \<longleftrightarrow> po_minimum p \<le> rr_score r"
  by (auto simp: score_reasons_def)

lemma status_reasons_iff:
  "status_reasons p r = [] \<longleftrightarrow>
   (\<forall>c \<in> set (report_checks r). by_id ck_id (report_checks r) (ck_id c) = Some c \<longrightarrow> ck_status c \<notin> set (po_fail p))"
proof -
  have "status_reasons p r = [] \<longleftrightarrow> filter (\<lambda>c. ck_status c \<in> set (po_fail p)) (checks_by_id r) = []"
    by (simp add: status_reasons_def Let_def flip: set_empty)
  also have "\<dots> \<longleftrightarrow> (\<forall>c \<in> set (checks_by_id r). ck_status c \<notin> set (po_fail p))" by (simp add: filter_empty_conv)
  finally show ?thesis by (auto simp: checks_by_id_iff)
qed

lemma check_reasons_iff:
  "check_reasons p r = [] \<longleftrightarrow> (\<forall>i \<in> set (po_checks p). \<exists>c. by_id ck_id (report_checks r) i = Some c \<and> ck_status c = ''pass'')"
  by (auto simp: check_reasons_def map_filter_Nil_iff split: option.splits if_splits)

lemma capability_reasons_iff: "capability_reasons env p s = [] \<longleftrightarrow> set (po_caps p) \<subseteq> set (available_ids env (po_user p) s)"
  by (auto simp: capability_reasons_def filter_empty_conv)

lemma regression_reasons_iff:
  "regression_reasons p (eval_delta p r s) = [] \<longleftrightarrow>
   (\<forall>b. resolve_comparison_base r (po_user p) None (dv_reports s) = Inr b \<longrightarrow> rr_score b - rr_score r \<le> po_regression p)"
  by (cases "resolve_comparison_base r (po_user p) None (dv_reports s)") (auto simp: regression_reasons_def eval_delta_def)

lemma policy_reasons_iff: "policy_reasons env p r s = [] \<longleftrightarrow> policy_holds env p r s"
  by (simp add: policy_reasons_def policy_holds_def score_reasons_iff status_reasons_iff check_reasons_iff
      capability_reasons_iff regression_reasons_iff)

definition judged :: "deliv_policy \<Rightarrow> report_row \<Rightarrow> deliv_state \<Rightarrow> bool" where
  "judged p r s \<longleftrightarrow> list_ex (\<lambda>e. pe_policy e = po_id p \<and> pe_report e = rr_id r) (dv_evals s)"

definition policy_key :: "deliv_policy \<Rightarrow> report_row \<Rightarrow> string" where
  "policy_key p r = ''policy:'' @ po_id p @ '':report:'' @ rr_id r"

lemma find_None_ex: "\<not> list_ex P xs \<Longrightarrow> find P xs = None"
  by (auto simp: find_None_iff list_ex_iff)

lemma find_append_None: "find P xs = None \<Longrightarrow> find P (xs @ ys) = find P ys"
  by (induction xs) (auto split: if_splits)

text \<open>C34: the first evaluation of a report passes exactly when the policy's conditions hold, and it stores an alert exactly when
  they do not. The verdict is final: whatever the policy is changed to afterwards, evaluating it again on that report repeats
  the first answer and changes nothing.\<close>

theorem policy_verdict_exact:
  assumes "\<not> judged p r s" and "policy_key p r \<notin> al_key ` set (dv_alerts s)"
    and "evaluate_policy env fresh fresh_alert now p r s = (res, s')"
  shows "\<exists>e. res = Inr e \<and> er_passed e = policy_holds env p r s \<and>
    length (dv_alerts s') = length (dv_alerts s) + (if policy_holds env p r s then 0 else 1) \<and>
    (policy_key p r \<in> al_key ` set (dv_alerts s')) = (\<not> policy_holds env p r s) \<and>
    (\<forall>env' fresh' now' p'. po_id p' = po_id p \<longrightarrow> evaluate_policy env' fresh' fresh' now' p' r s' = (Inr e, s'))"
proof -
  let ?reasons = "policy_reasons env p r s"
  let ?e = "\<lparr>pe_id = fresh, pe_policy = po_id p, pe_report = rr_id r, pe_passed = (?reasons = []),
              pe_delta = eval_delta p r s, pe_reasons = ?reasons, pe_created = now\<rparr>"
  let ?a = "policy_alert fresh_alert now p r ?reasons"
  have none: "find (\<lambda>e. pe_policy e = po_id p \<and> pe_report e = rr_id r) (dv_evals s) = None"
    using assms(1) by (auto simp: judged_def intro: find_None_ex)
  have key: "al_key ?a = policy_key p r" by (simp add: policy_alert_def policy_key_def)
  have res: "res = Inr (eval_response r ?e)"
    and s': "s' = s\<lparr>dv_evals := dv_evals s @ [?e], dv_alerts := dv_alerts s @ (if ?reasons = [] then [] else [?a])\<rparr>"
    using assms(2,3) none key by (auto simp: evaluate_policy_def Let_def split: if_splits)
  have again: "evaluate_policy env' fresh' fresh' now' p' r s' = (Inr (eval_response r ?e), s')" if "po_id p' = po_id p" for env' fresh' now' p'
    using that none by (simp add: evaluate_policy_def s' find_append_None)
  have "er_passed (eval_response r ?e) = policy_holds env p r s"
    by (simp add: eval_response_def policy_reasons_iff)
  moreover have "length (dv_alerts s') = length (dv_alerts s) + (if policy_holds env p r s then 0 else 1)"
    by (simp add: s' policy_reasons_iff)
  moreover have "(policy_key p r \<in> al_key ` set (dv_alerts s')) = (\<not> policy_holds env p r s)"
    using assms(2) key by (simp add: s' policy_reasons_iff)
  ultimately show ?thesis using res again by blast
qed

definition demo_check :: deliv_check where
  "demo_check = \<lparr>ck_id = ''spf'', ck_category = ''authentication'', ck_title = ''SPF'', ck_status = ''warning'', ck_summary = [],
     ck_details = [], ck_evidence = [], ck_recommendation = None, ck_points = 5, ck_max = 10\<rparr>"

definition demo_stored :: report_row where
  "demo_stored = \<lparr>rr_id = ''r1'', rr_user = ''2'', rr_mailbox = ''m2'', rr_address = ''bob@x'', rr_folder = ''INBOX'', rr_uid = ''7'',
     rr_message_id = [], rr_sha = ''h'', rr_version = ''2.3'', rr_score = 85, rr_verdict = ''good'',
     rr_report = \<lparr>rt_version = ''2.3'', rt_id = None, rt_sha = ''h'', rt_cached = False, rt_baseline = False, rt_score = 85,
       rt_verdict = ''good'', rt_summary = [], rt_mailbox = ''bob@x'', rt_uid = ''7'', rt_folder = ''INBOX'', rt_message_id = [],
       rt_sender_domain = None, rt_generated = 0,
       rt_categories = [\<lparr>cg_id = ''authentication'', cg_title = ''Authentication'', cg_score = Some 50, cg_points = 5, cg_max = 10,
                        cg_checks = [demo_check]\<rparr>],
       rt_recommendations = [], rt_limitations = []\<rparr>,
     rr_baseline = False, rr_created = 0\<rparr>"

definition demo_policy :: deliv_policy where
  "demo_policy = \<lparr>po_id = ''p1'', po_user = ''2'', po_mailbox = ''m2'', po_name = ''gate'', po_enabled = True, po_minimum = 80,
     po_regression = 5, po_fail = [''fail'', ''warning''], po_checks = [], po_caps = [], po_created = 0, po_updated = 0\<rparr>"

theorem policy_verdict_exact_witness:
  "\<forall>env. \<exists>e s'. evaluate_policy env ''e1'' ''a1'' 9 demo_policy demo_stored demo_deliv = (Inr e, s') \<and> \<not> er_passed e \<and>
     length (dv_alerts s') = 1 \<and>
     evaluate_policy env ''e2'' ''e2'' 20 (demo_policy\<lparr>po_fail := []\<rparr>) demo_stored s' = (Inr e, s')"
proof
  fix env
  obtain res s' where ev: "evaluate_policy env ''e1'' ''a1'' 9 demo_policy demo_stored demo_deliv = (res, s')" by fastforce
  have j: "\<not> judged demo_policy demo_stored demo_deliv" "policy_key demo_policy demo_stored \<notin> al_key ` set (dv_alerts demo_deliv)"
    by (simp_all add: judged_def demo_deliv_def)
  have checks: "report_checks demo_stored = [demo_check]" by (simp add: report_checks_def hydrate_def demo_stored_def)
  have holds: "\<not> policy_holds env demo_policy demo_stored demo_deliv"
    by (simp add: policy_holds_def checks by_id_def) (simp add: demo_check_def demo_policy_def)
  have none: "length (dv_alerts demo_deliv) = 0" by (simp add: demo_deliv_def)
  from policy_verdict_exact [OF j ev] obtain e where "res = Inr e" "\<not> er_passed e" "length (dv_alerts s') = 1"
    "evaluate_policy env ''e2'' ''e2'' 20 (demo_policy\<lparr>po_fail := []\<rparr>) demo_stored s' = (Inr e, s')"
    using holds none by auto
  with ev show "\<exists>e s'. evaluate_policy env ''e1'' ''a1'' 9 demo_policy demo_stored demo_deliv = (Inr e, s') \<and> \<not> er_passed e \<and>
     length (dv_alerts s') = 1 \<and>
     evaluate_policy env ''e2'' ''e2'' 20 (demo_policy\<lparr>po_fail := []\<rparr>) demo_stored s' = (Inr e, s')" by blast
qed

section \<open>One baseline\<close>

text \<open>Everything that writes the table of reports. An identifier of a new row is unused.\<close>

inductive report_step :: "deliv_state \<Rightarrow> deliv_state \<Rightarrow> bool" where
  Score: "fresh \<notin> rr_id ` set (dv_reports s) \<Longrightarrow>
    report_step s (snd (stored_report rd w fresh now u m uid folder raw s))"
| Baseline: "report_step s (snd (update_report_baseline auth i flag s))"
| DeleteMessages: "report_step s (snd (delete_message_reports u m folder uids s))"
| PurgeMailbox: "report_step s (snd (delete_mailbox_reports u m s))"
| Prune: "report_step s (snd (prune_expired_data env now s))"
| NotReports: "dv_reports s' = dv_reports s \<Longrightarrow> report_step s s'"

definition one_baseline :: "report_row list \<Rightarrow> bool" where
  "one_baseline rows \<longleftrightarrow> distinct (map rr_id rows) \<and>
     (\<forall>x \<in> set rows. \<forall>y \<in> set rows. rr_baseline x \<longrightarrow> rr_baseline y \<longrightarrow> rr_mailbox x = rr_mailbox y \<longrightarrow> x = y)"

lemma one_baseline_filter: "one_baseline rows \<Longrightarrow> one_baseline (filter P rows)"
  by (auto simp: one_baseline_def distinct_map_filter)

lemma one_baseline_deleted: "one_baseline (dv_reports s) \<Longrightarrow> one_baseline (dv_reports (snd (delete_report_records doomed s)))"
  by (simp add: delete_report_records_def Let_def one_baseline_filter)

lemma one_baseline_snoc:
  assumes "one_baseline rows" "rr_id r \<notin> rr_id ` set rows" "\<not> rr_baseline r"
  shows "one_baseline (rows @ [r])"
  using assms by (auto simp: one_baseline_def)

lemma one_baseline_stored:
  assumes "one_baseline (dv_reports s)" "fresh \<notin> rr_id ` set (dv_reports s)"
  shows "one_baseline (dv_reports (snd (stored_report rd w fresh now u m uid folder raw s)))"
  using assms
  by (auto simp: stored_report_def get_or_create_report_def commit_report_def new_report_def split: option.split sum.split intro!: one_baseline_snoc)

lemma one_baseline_set:
  assumes "one_baseline rows" "r \<in> set rows"
  shows "one_baseline (snd (set_baseline r flag rows))"
proof -
  let ?clear = "\<lambda>x. if rr_mailbox x = rr_mailbox r then x\<lparr>rr_baseline := False\<rparr> else x"
  let ?rows1 = "if flag then map ?clear rows else rows"
  let ?r = "r\<lparr>rr_baseline := flag\<rparr>"
  have ids: "map rr_id ?rows1 = map rr_id rows" by (simp add: comp_def cong: map_cong)
  have eq: "snd (set_baseline r flag rows) = row_put rr_id ?r ?rows1" by (simp add: set_baseline_def Let_def)
  have d: "distinct (map rr_id (row_put rr_id ?r ?rows1))" using assms(1) ids by (simp add: one_baseline_def del: map_map)
  have marked: "(z = ?r \<and> flag) \<or> (z \<in> set rows \<and> (flag \<longrightarrow> rr_mailbox z \<noteq> rr_mailbox r))"
    if z: "z \<in> set (row_put rr_id ?r ?rows1)" "rr_baseline z" for z
  proof (cases "z = ?r")
    case True
    then show ?thesis using z(2) by simp
  next
    case False
    with z(1) set_row_put [of rr_id ?r ?rows1] have "z \<in> set ?rows1" by blast
    then show ?thesis using z(2) by (cases flag) (auto split: if_splits)
  qed
  have "x = y" if "x \<in> set (row_put rr_id ?r ?rows1)" "y \<in> set (row_put rr_id ?r ?rows1)"
      "rr_baseline x" "rr_baseline y" "rr_mailbox x = rr_mailbox y" for x y
    using marked [OF that(1,3)] marked [OF that(2,4)]
  proof (elim disjE conjE)
    assume "x \<in> set rows" "y \<in> set rows"
    with that(3-5) assms(1) show ?thesis unfolding one_baseline_def by blast
  next
    assume x: "x = ?r" "flag" and y: "flag \<longrightarrow> rr_mailbox y \<noteq> rr_mailbox r"
    then have "rr_mailbox y \<noteq> rr_mailbox x" by simp
    with that(5) show ?thesis by metis
  next
    assume y: "y = ?r" "flag" and x: "flag \<longrightarrow> rr_mailbox x \<noteq> rr_mailbox r"
    then have "rr_mailbox x \<noteq> rr_mailbox y" by simp
    with that(5) show ?thesis by metis
  qed simp
  with d show ?thesis unfolding eq one_baseline_def by blast
qed

lemma own_report_mem: "own_report auth i s = Inr r \<Longrightarrow> r \<in> set (dv_reports s) \<and> rr_id r = i \<and> rr_user r = u_id (ctx_user auth)"
  by (auto simp: own_report_def get_report_record_def find_Some_iff split: option.splits)

lemma update_baseline_reports:
  "dv_reports (snd (update_report_baseline auth i flag s)) = dv_reports s \<or>
   (\<exists>r \<in> set (dv_reports s). dv_reports (snd (update_report_baseline auth i flag s)) = snd (set_baseline r flag (dv_reports s)))"
proof (cases "own_report auth i s")
  case (Inl e)
  then show ?thesis by (simp add: update_report_baseline_def deliv_scoped_def deliv_try_def split: sum.split)
next
  case (Inr r)
  then have "r \<in> set (dv_reports s)" using own_report_mem by blast
  with Inr show ?thesis
    by (auto simp: update_report_baseline_def deliv_scoped_def deliv_try_def split: sum.split prod.split intro!: bexI [of _ r])
qed

lemma report_step_keeps: "report_step s s' \<Longrightarrow> one_baseline (dv_reports s) \<Longrightarrow> one_baseline (dv_reports s')"
proof (induction rule: report_step.induct)
  case (Baseline s auth i flag)
  then show ?case using update_baseline_reports [of auth i flag s] one_baseline_set by metis
next
  case (DeleteMessages s u m folder uids)
  then show ?case by (simp add: delete_message_reports_def one_baseline_deleted)
next
  case (PurgeMailbox s u m)
  then show ?case by (simp add: delete_mailbox_reports_def one_baseline_deleted)
next
  case (Prune s env now)
  then show ?case by (simp add: prune_expired_data_def Let_def one_baseline_deleted case_prod_beta)
qed (simp_all add: one_baseline_stored)

lemma report_run_keeps: "report_step\<^sup>*\<^sup>* s t \<Longrightarrow> one_baseline (dv_reports s) \<Longrightarrow> one_baseline (dv_reports t)"
  by (induction rule: rtranclp_induct) (auto intro: report_step_keeps)

lemma unique_length: "distinct xs \<Longrightarrow> (\<And>x y. x \<in> set xs \<Longrightarrow> y \<in> set xs \<Longrightarrow> x = y) \<Longrightarrow> length xs \<le> 1"
proof (cases xs)
  case (Cons x ys)
  assume "distinct xs" and same: "\<And>x y. x \<in> set xs \<Longrightarrow> y \<in> set xs \<Longrightarrow> x = y"
  with Cons have "x \<notin> set ys" by simp
  moreover have "y = x" if "y \<in> set ys" for y using same [of y x] that Cons by simp
  ultimately have "ys = []" by (cases ys) auto
  with Cons show ?thesis by simp
qed simp

lemma one_baseline_count: "one_baseline rows \<Longrightarrow> length (filter (\<lambda>r. rr_mailbox r = m \<and> rr_baseline r) rows) \<le> 1"
proof (rule unique_length)
  assume "one_baseline rows"
  then have "distinct rows" by (auto simp: one_baseline_def distinct_map)
  then show "distinct (filter (\<lambda>r. rr_mailbox r = m \<and> rr_baseline r) rows)" by simp
qed (auto simp: one_baseline_def)

text \<open>C35: whatever sequence of scoring, marking, deleting and pruning, a mailbox has at most one baseline report; so the comparison
  of screenshots always finds one or none, and the clean-up never deletes a baseline.\<close>

theorem at_most_one_baseline:
  assumes "dv_reports s0 = []" and "report_step\<^sup>*\<^sup>* s0 s"
  shows "length (filter (\<lambda>r. rr_mailbox r = m \<and> rr_baseline r) (dv_reports s)) \<le> 1 \<and>
    (\<exists>base. baseline_visual_artifacts r s = Inr base) \<and>
    filter rr_baseline (dv_reports (snd (prune_expired_data env now s))) = filter rr_baseline (dv_reports s)"
proof -
  have ok: "one_baseline (dv_reports s)"
    using report_run_keeps [OF assms(2)] assms(1) by (simp add: one_baseline_def)
  let ?rows = "filter (\<lambda>x. rr_mailbox x = rr_mailbox r \<and> rr_baseline x \<and> rr_id x \<noteq> rr_id r) (dv_reports s)"
  have "length ?rows \<le> 1"
    using one_baseline_count [OF one_baseline_filter [OF ok, of "\<lambda>x. rr_id x \<noteq> rr_id r"], of "rr_mailbox r"]
    by (simp add: conj_ac)
  then have "\<exists>b. one_or_none ?rows = Inr b" by (cases ?rows rule: one_or_none.cases) auto
  then have "\<exists>base. baseline_visual_artifacts r s = Inr base"
    by (auto simp: baseline_visual_artifacts_def split: option.split)
  moreover have "filter rr_baseline (dv_reports (snd (prune_expired_data env now s))) = filter rr_baseline (dv_reports s)"
    by (auto simp: prune_expired_data_def Let_def delete_report_records_def intro!: filter_cong)
  ultimately show ?thesis using one_baseline_count [OF ok] by blast
qed

definition empty_deliv :: deliv_state where "empty_deliv = demo_deliv\<lparr>dv_schedules := []\<rparr>"

text \<open>A message without headers and bodies.\<close>

definition demo_reader :: mail_reader where
  "demo_reader = \<lparr>mr_raw = (\<lambda>a b c. Inr []), mr_latest = (\<lambda>a. Inr None),
     mr_parse = (\<lambda>raw. \<lparr>mm_headers = [], mm_multipart = False, mm_parts = []\<rparr>), mr_settings = demo_settings,
     mr_lib = \<lparr>ml_address = (\<lambda>s. s), ml_date = (\<lambda>s. False), ml_show_g = (\<lambda>q. [])\<rparr>,
     mr_content = \<lparr>cl_events = (\<lambda>h. []), cl_url = (\<lambda>s. None), cl_pow24 = (\<lambda>q. q), cl_preheader = (\<lambda>h. None), cl_unescape = (\<lambda>s. s),
       cl_css = (\<lambda>n h. 0)\<rparr>\<rparr>"

definition demo_inspection :: inspection where
  "demo_inspection = (case inspect_raw demo_reader [] of Inr i \<Rightarrow> i)"

lemma demo_inspected: "inspect_raw demo_reader [] = Inr demo_inspection"
proof -
  have "\<exists>i. inspect_raw demo_reader [] = Inr i"
    by (simp add: inspect_raw_def inspect_message_def content_checks_def demo_reader_def hygiene_check_def identity_check_def
        body_text_def strip_def lstrip_by_def rstrip_by_def inspect_html_def new_inspector_def Let_def)
  then show ?thesis by (auto simp: demo_inspection_def)
qed

definition demo_row :: "string \<Rightarrow> string \<Rightarrow> bool \<Rightarrow> report_row" where
  "demo_row i uid flag = (new_report i 0 ''2'' demo_own uid ''INBOX'' ''h'' (score_deliverability demo_inspection 0 ''bob@x'' uid ''INBOX''))\<lparr>rr_baseline := flag\<rparr>"

lemma demo_row_sel [simp]:
  "rr_id (demo_row i uid flag) = i" "rr_user (demo_row i uid flag) = ''2''" "rr_mailbox (demo_row i uid flag) = ''m2''"
  "rr_address (demo_row i uid flag) = ''bob@x''" "rr_baseline (demo_row i uid flag) = flag"
  "report_key (demo_row i uid flag) = (''m2'', ''INBOX'', uid, ''h'', ''2.3'')"
  "(demo_row i uid flag)\<lparr>rr_baseline := g\<rparr> = demo_row i uid g"
  by (simp_all add: demo_row_def new_report_def demo_own_def report_key_def score_deliverability_def DELIVERABILITY_SCORE_VERSION_def
      Let_def case_prod_beta)

lemma score_demo:
  fixes w :: run_world and s :: deliv_state
  assumes "rw_sha w = (\<lambda>x. ''h'')" and "i \<notin> rr_id ` set (dv_reports s)"
    and "(''m2'', ''INBOX'', uid, ''h'', ''2.3'') \<notin> report_key ` set (dv_reports s)"
  shows "report_step s (s\<lparr>dv_reports := dv_reports s @ [demo_row i uid False]\<rparr>)"
proof -
  have none: "find_report (''m2'', ''INBOX'', uid, ''h'', ''2.3'') (dv_reports s) = None"
    using assms(3) by (auto simp: find_report_def find_None_iff image_iff)
  have new: "new_report i 0 ''2'' demo_own uid ''INBOX'' ''h'' (score_deliverability demo_inspection 0 ''bob@x'' uid ''INBOX'') =
      demo_row i uid False"
    by (simp add: demo_row_def new_report_def)
  have addr: "m_address demo_own = ''bob@x''" "m_id demo_own = ''m2''" by (simp_all add: demo_own_def)
  have "snd (stored_report demo_reader w i 0 ''2'' demo_own uid ''INBOX'' [] s) = s\<lparr>dv_reports := dv_reports s @ [demo_row i uid False]\<rparr>"
    using assms(1) none
    by (simp add: stored_report_def get_or_create_report_def commit_report_def demo_inspected addr new DELIVERABILITY_SCORE_VERSION_def)
  then show ?thesis using Score [OF assms(2), of demo_reader w 0 "''2''" demo_own uid "''INBOX''" "[]"] by simp
qed

lemma mark_demo:
  fixes s :: deliv_state
  assumes "find (\<lambda>r. rr_id r = i \<and> rr_user r = ''2'') (dv_reports s) = Some r" and "rr_address r = ''bob@x''"
  shows "report_step s (s\<lparr>dv_reports := snd (set_baseline r True (dv_reports s))\<rparr>)"
proof -
  have "own_report demo_alice_ctx i s = Inr r"
    using assms by (simp add: own_report_def get_report_record_def verify_record_key_access_def mailbox_allowed_def
        ctx_allowed_mailboxes_def demo_alice_ctx_def demo_alice_def)
  moreover have "require_scope demo_alice_ctx MAILBOX_MANAGE = Inr ()" by code_simp
  ultimately have "snd (update_report_baseline demo_alice_ctx i True s) = s\<lparr>dv_reports := snd (set_baseline r True (dv_reports s))\<rparr>"
    by (simp add: update_report_baseline_def deliv_scoped_def deliv_try_def case_prod_beta)
  then show ?thesis using Baseline [of s demo_alice_ctx i True] by simp
qed

theorem at_most_one_baseline_witness:
  "\<exists>s. report_step\<^sup>*\<^sup>* empty_deliv s \<and> dv_reports s = [demo_row ''r1'' ''7'' False, demo_row ''r2'' ''8'' True] \<and>
     length (filter (\<lambda>r. rr_mailbox r = ''m2'' \<and> rr_baseline r) (dv_reports s)) \<le> 1 \<and>
     (\<exists>base. baseline_visual_artifacts (demo_row ''r1'' ''7'' False) s = Inr base)"
proof -
  let ?w = "\<lparr>rw_network = (\<lambda>a b. Inr []), rw_links = (\<lambda>a. Inl TimeoutExc), rw_render = (\<lambda>a. Inr []), rw_difference = (\<lambda>a b. None),
    rw_public = (\<lambda>a b. []), rw_post = (\<lambda>a b c. Inl TimeoutExc), rw_json = (\<lambda>a. None), rw_repr = (\<lambda>a. []), rw_imap = (\<lambda>a b. None),
    rw_sha = (\<lambda>x. ''h''), rw_fresh = (\<lambda>n. []), rw_show_g = (\<lambda>q. []), rw_max_image = 0\<rparr>"
  let ?s = "\<lambda>rows. empty_deliv\<lparr>dv_reports := rows\<rparr>"
  let ?a = "demo_row ''r1'' ''7''" and ?b = "demo_row ''r2'' ''8''"
  have a1: "report_step empty_deliv (?s [?a False])"
    using score_demo [of ?w "''r1''" empty_deliv "''7''"] by (simp add: empty_deliv_def demo_deliv_def)
  have a2: "report_step (?s [?a False]) (?s [?a True])"
    using mark_demo [of "''r1''" "?s [?a False]" "?a False"] by (simp add: set_baseline_def row_put_def empty_deliv_def Let_def)
  have a3: "report_step (?s [?a True]) (?s [?a True, ?b False])"
    using score_demo [of ?w "''r2''" "?s [?a True]" "''8''"] by (simp add: empty_deliv_def)
  have a4: "report_step (?s [?a True, ?b False]) (?s [?a False, ?b True])"
    using mark_demo [of "''r2''" "?s [?a True, ?b False]" "?b False"] by (simp add: set_baseline_def row_put_def empty_deliv_def Let_def)
  have run: "report_step\<^sup>*\<^sup>* empty_deliv (?s [?a False, ?b True])"
    using a1 a2 a3 a4 by (meson converse_rtranclp_into_rtranclp rtranclp.rtrancl_refl)
  have none: "dv_reports empty_deliv = []" by (simp add: empty_deliv_def demo_deliv_def)
  from at_most_one_baseline [OF none run, of "''m2''" "?a False"] run show ?thesis
    by (intro exI [of _ "?s [?a False, ?b True]"]) simp
qed

end
