(* ===== verification/MessageProps.thy ===== *)
theory MessageProps
  imports MessageContent DemoCrypto
begin

text \<open>
  The inspection of a message: authentication points come from trusted fields only, and no check, category or report is scored
  outside its range.
\<close>

section \<open>Points within their bounds\<close>

definition check_ok :: "deliv_check \<Rightarrow> bool" where
  "check_ok c \<longleftrightarrow> 0 \<le> ck_points c \<and> ck_points c \<le> ck_max c"

lemma check_ok_chk [simp]: "check_ok (chk i category title status summary p m details r) \<longleftrightarrow> 0 \<le> p \<and> p \<le> m"
  by (simp add: check_ok_def chk_def)

lemma check_ok_evidence [simp]: "check_ok (c\<lparr>ck_evidence := e\<rparr>) = check_ok c"
  by (simp add: check_ok_def)

lemma dbl_whole: "dbl 1 = 1" "dbl 10 = 10" "dbl 15 = 15" "dbl 100 = 100" by code_simp+

lemma fmul_share:
  assumes "dbl w = w" "0 \<le> w" "0 \<le> q" "q \<le> 1" shows "0 \<le> fmul w q" "fmul w q \<le> w"
  using assms dbl_nonneg[of "w * q"] dbl_mono[of "w * q" w] by (simp_all add: fmul_def mult_left_le)

lemma auth_weights:
  assumes "a \<in> set auth_methods"
  shows "0 \<le> am_weight a \<and> 0 \<le> fmul (am_weight a) (dbl (6 / 10)) \<and> fmul (am_weight a) (dbl (6 / 10)) \<le> am_weight a \<and>
         0 \<le> fmul (am_weight a) (1 / 4) \<and> fmul (am_weight a) (1 / 4) \<le> am_weight a"
proof -
  have w: "dbl (am_weight a) = am_weight a" "0 \<le> am_weight a" using assms by (auto simp: auth_methods_def dbl_whole)
  have q: "0 \<le> dbl (6 / 10)" "dbl (6 / 10) \<le> 1" using dbl_nonneg[of "6 / 10"] dbl_mono[of "6 / 10" 1] by (simp_all add: dbl_whole)
  show ?thesis using fmul_share[OF w q] fmul_share[OF w, of "1 / 4"] w by simp
qed

lemma auth_verdict_points:
  assumes "a \<in> set auth_methods" "auth_verdict a r al = (s, p, summary)" shows "0 \<le> p \<and> p \<le> am_weight a"
  using assms(2) auth_weights[OF assms(1)] by (auto simp: auth_verdict_def Let_def split: if_splits)

lemma auth_check_ok: "a \<in> set auth_methods \<Longrightarrow> check_ok (auth_check lib es sender a)"
  using auth_weights[of a] by (auto simp: auth_check_def Let_def auth_verdict_points split: option.splits prod.splits)

lemma from_header_ok: "check_ok (from_header_check lib msg)" by (simp add: from_header_check_def Let_def)
lemma duplicate_ok: "check_ok (duplicate_check msg)" by (simp add: duplicate_check_def Let_def)
lemma message_id_checked: "check_ok (message_id_check msg)" by (simp add: message_id_check_def Let_def)
lemma date_ok: "check_ok (date_check lib msg)" by (simp add: date_check_def Let_def)
lemma mime_ok: "check_ok (mime_check msg)" by (simp add: mime_check_def Let_def)
lemma unsubscribe_ok: "check_ok (unsubscribe_check msg)" by (simp add: unsubscribe_check_def Let_def)
lemma envelope_ok: "check_ok (envelope_check lib msg sender)" by (simp add: envelope_check_def Let_def split: option.split)
lemma reply_to_ok: "check_ok (reply_to_check lib msg sender)" by (simp add: reply_to_check_def Let_def)
lemma alternatives_ok: "check_ok (alternatives_check plain html)" by (simp add: alternatives_check_def Let_def)
lemma html_ok: "check_ok (html_check i html visible)" by (simp add: html_check_def Let_def)
lemma subject_ok: "check_ok (subject_check msg)" by (simp add: subject_check_def Let_def)
lemma phrase_ok: "check_ok (phrase_check combined)" by (simp add: phrase_check_def Let_def)
lemma hidden_ok: "check_ok (hidden_check i preheader)" by (simp add: hidden_check_def Let_def)
lemma pixel_ok: "check_ok (pixel_check i)" by (simp add: pixel_check_def Let_def)
lemma language_ok: "check_ok (language_check i html)" by (simp add: language_check_def Let_def)
lemma preheader_ok: "check_ok (preheader_check preheader)" by (simp add: preheader_check_def Let_def)
lemma heading_ok: "check_ok (heading_check levels)" by (simp add: heading_check_def Let_def)
lemma contrast_ok: "check_ok (contrast_check cl i)" by (simp add: contrast_check_def Let_def)
lemma tap_ok: "check_ok (tap_check i)" by (simp add: tap_check_def Let_def)
lemma css_ok: "check_ok (css_check cl html)" by (simp add: css_check_def Let_def)
lemma image_ok: "check_ok (image_check i)" by (simp add: image_check_def Let_def)

lemmas single_checks_ok =
  from_header_ok duplicate_ok message_id_checked date_ok mime_ok unsubscribe_ok envelope_ok reply_to_ok alternatives_ok html_ok
  subject_ok phrase_ok hidden_ok pixel_ok language_ok preheader_ok heading_ok contrast_ok tap_ok css_ok image_ok

lemma header_checks_ok: "list_all check_ok (header_checks lib msg sender)"
  by (simp add: header_checks_def single_checks_ok)

lemma transport_checks_ok: "list_all check_ok (transport_checks msg)"
  by (simp add: transport_checks_def Let_def)

lemma spam_verdict_points: "spam_verdict flagged score required = (p, s, summary) \<Longrightarrow> 0 \<le> p \<and> p \<le> 12"
  by (auto simp: spam_verdict_def Let_def split: if_splits option.splits)

lemma spam_filter_checks_ok: "list_all check_ok (spam_filter_checks lib msg)"
  using spam_verdict_points by (auto simp: spam_filter_checks_def Let_def split: prod.splits)

lemma attachment_checks_ok: "list_all check_ok (attachment_checks msg)"
  by (simp add: attachment_checks_def Let_def)

lemma link_checks_ok: "hygiene_check cl i = Inr c \<Longrightarrow> check_ok c" "identity_check cl i = Inr d \<Longrightarrow> check_ok d"
  by (auto simp: hygiene_check_def identity_check_def Let_def bind_res_eq_Inr_iff)

lemma content_checks_ok: "content_checks cl msg = Inr cs \<Longrightarrow> list_all check_ok cs"
  by (auto simp: content_checks_def Let_def bind_res_eq_Inr_iff link_checks_ok single_checks_ok)

lemma inspection_ok:
  assumes "inspect_message st lib cl msg = Inr i" shows "list_all check_ok (is_checks i k)"
proof -
  have "list_all check_ok (authentication_checks st lib msg s)" for s
    by (simp add: authentication_checks_def list_all_iff auth_check_ok)
  moreover obtain cs where "content_checks cl msg = Inr cs"
    "i = \<lparr>is_message_id = header_value ''Message-ID'' msg, is_sender_domain = address_domain lib (header_value ''From'' msg),
          is_checks = (\<lambda>k. if k = ''authentication'' then authentication_checks st lib msg (address_domain lib (header_value ''From'' msg))
             else if k = ''content'' then cs
             else if k = ''headers'' then header_checks lib msg (address_domain lib (header_value ''From'' msg))
             else if k = ''transport'' then transport_checks msg
             else if k = ''spam_filter'' then spam_filter_checks lib msg else if k = ''attachments'' then attachment_checks msg else [])\<rparr>"
    using assms by (auto simp: inspect_message_def Let_def bind_res_eq_Inr_iff)
  ultimately show ?thesis
    by (simp add: content_checks_ok header_checks_ok transport_checks_ok spam_filter_checks_ok attachment_checks_ok)
qed

section \<open>Sums and percentages\<close>

lemma fadd_mono: "a \<le> b \<Longrightarrow> c \<le> d \<Longrightarrow> fadd a c \<le> fadd b d"
  by (simp add: fadd_def dbl_mono add_mono)

lemma foldl_fadd_mono: "a \<le> b \<Longrightarrow> list_all2 (\<le>) xs ys \<Longrightarrow> foldl fadd a xs \<le> foldl fadd b ys"
  by (induction xs arbitrary: a b ys) (auto simp: list_all2_Cons1 fadd_mono)

lemma fsum_mono: "list_all2 (\<le>) xs ys \<Longrightarrow> fsum xs \<le> fsum ys"
  by (simp add: fsum_def foldl_fadd_mono)

lemma foldl_fadd_nonneg: "0 \<le> a \<Longrightarrow> list_all (\<lambda>x. 0 \<le> x) xs \<Longrightarrow> 0 \<le> foldl fadd a xs"
  by (induction xs arbitrary: a) (auto simp: fadd_def dbl_nonneg)

lemma fsum_nonneg: "list_all (\<lambda>x. 0 \<le> x) xs \<Longrightarrow> 0 \<le> fsum xs"
  by (simp add: fsum_def foldl_fadd_nonneg)

lemma checks_sum:
  assumes "list_all check_ok cs"
  shows "0 \<le> fsum (map ck_points cs)" "fsum (map ck_points cs) \<le> fsum (map ck_max cs)"
  using assms by (auto simp: check_ok_def list_all_iff list_all2_conv_all_nth intro!: fsum_nonneg fsum_mono)

lemma percent_bounds:
  assumes "0 \<le> p" "p \<le> m" "m \<noteq> 0" shows "0 \<le> percent p m" "percent p m \<le> 100"
proof -
  have "0 \<le> p / m" "p / m \<le> 1" using assms by (auto simp: divide_le_eq)
  then have q: "0 \<le> fdiv p m" "fdiv p m \<le> 1" using dbl_nonneg[of "p / m"] dbl_mono[of "p / m" 1] by (simp_all add: fdiv_def dbl_whole)
  then have "0 \<le> fmul (fdiv p m) 100" "fmul (fdiv p m) 100 \<le> 100"
    using dbl_nonneg[of "fdiv p m * 100"] dbl_mono[of "fdiv p m * 100" 100] by (simp_all add: fmul_def dbl_whole)
  then show "0 \<le> percent p m" "percent p m \<le> 100"
    using half_even_mono[of 0 "fmul (fdiv p m) 100"] half_even_mono[of "fmul (fdiv p m) 100" 100]
      half_even_of_int[of 0] half_even_of_int[of 100] by (simp_all add: percent_def)
qed

lemma fround_mono: "a \<le> b \<Longrightarrow> fround n a \<le> fround n b"
  by (simp add: fround_def dbl_mono half_even_mono divide_right_mono mult_right_mono)

lemma fround_nonneg: "0 \<le> a \<Longrightarrow> 0 \<le> fround n a"
  using fround_mono[of 0 a n] half_even_of_int[of 0] by (simp add: fround_def)

text \<open>The clamp of the total never acts.\<close>

definition unclamped_score :: "inspection \<Rightarrow> int" where
  "unclamped_score i =
     (let m = fsum (map (\<lambda>(k, t). fsum (map ck_max (is_checks i k))) CATEGORY_TITLES)
      in if m = 0 then 0 else percent (fsum (map (\<lambda>(k, t). fsum (map ck_points (is_checks i k))) CATEGORY_TITLES)) m)"

lemma total_unclamped:
  assumes "\<And>k. list_all check_ok (is_checks i k)"
  shows "total_score i = unclamped_score i"
proof -
  let ?p = "fsum (map (\<lambda>(k, t). fsum (map ck_points (is_checks i k))) CATEGORY_TITLES)"
  let ?m = "fsum (map (\<lambda>(k, t). fsum (map ck_max (is_checks i k))) CATEGORY_TITLES)"
  have "0 \<le> ?p" "?p \<le> ?m"
    using checks_sum[OF assms] by (auto simp: list_all_iff list_all2_conv_all_nth case_prod_unfold intro!: fsum_nonneg fsum_mono)
  then show ?thesis using percent_bounds[of ?p ?m]
    by (simp add: total_score_def unclamped_score_def Let_def comp_def case_prod_unfold)
qed

section \<open>Scores in range\<close>

definition category_ok :: "deliv_category \<Rightarrow> bool" where
  "category_ok g \<longleftrightarrow> 0 \<le> cg_points g \<and> cg_points g \<le> cg_max g \<and>
     (case cg_score g of None \<Rightarrow> fsum (map ck_max (cg_checks g)) = 0 | Some s \<Rightarrow> 0 \<le> s \<and> s \<le> 100)"

lemma score_category_ok: "list_all check_ok (is_checks i (fst kt)) \<Longrightarrow> category_ok (score_category i kt)"
  using checks_sum [of "is_checks i (fst kt)"]
  by (auto simp: category_ok_def score_category_def case_prod_unfold Let_def fround_mono fround_nonneg percent_bounds)

text \<open>C38: Every check that an inspection yields earns between 0 and its maximum. So each category has no more points than its
  maximum and a score between 0 and 100, or none when nothing in it applies, and the score of the report is the rounded
  percentage of the sums themselves: the clamp to 0..100 never hides anything.\<close>

theorem inspection_scores_bounded:
  assumes "inspect_message st lib cl msg = Inr i"
  shows "list_all check_ok (all_checks i) \<and> list_all category_ok (rt_categories (score_deliverability i now address uid folder)) \<and>
    rt_score (score_deliverability i now address uid folder) = unclamped_score i \<and> 0 \<le> unclamped_score i \<and> unclamped_score i \<le> 100"
proof -
  note ok = inspection_ok [OF assms]
  have "rt_score (score_deliverability i now address uid folder) = total_score i"
    "rt_categories (score_deliverability i now address uid folder) = map (score_category i) CATEGORY_TITLES"
    by (simp_all add: score_deliverability_def Let_def case_prod_unfold)
  moreover have "total_score i = unclamped_score i" using total_unclamped [OF ok] .
  moreover have "0 \<le> total_score i \<and> total_score i \<le> 100" by (simp add: total_score_def Let_def)
  moreover have "list_all check_ok (all_checks i)" using ok by (auto simp: all_checks_def list_all_iff)
  moreover have "list_all category_ok (map (score_category i) CATEGORY_TITLES)"
    using ok by (auto simp: list_all_iff intro!: score_category_ok)
  ultimately show ?thesis by simp
qed

text \<open>Only a link that cannot be parsed makes an inspection fail.\<close>

lemma map_res_total: "(\<And>x. \<exists>y. f x = Inr y) \<Longrightarrow> \<exists>ys. map_res f xs = Inr ys"
proof (induction xs)
  case (Cons x xs)
  then obtain y ys where "f x = Inr y" "map_res f xs = Inr ys" by blast
  then show ?case by simp
qed simp

lemma readable_links_inspected:
  assumes "\<And>l. cl_url cl l \<noteq> None" shows "\<exists>i. inspect_message st lib cl msg = Inr i"
proof -
  have u: "\<exists>y. parsed_url cl l = Inr y" for l using assms [of l] by (auto simp: parsed_url_def)
  have a: "\<exists>y. unsafe_link cl l = Inr y" for l using u [of l] by (auto simp: unsafe_link_def)
  have b: "\<exists>y. label_result cl x = Inr y" for x
  proof (cases x)
    case (Pair href label')
    obtain scheme host where h: "parsed_url cl href = Inr (scheme, host)" using u [of href] by force
    have "\<exists>s h. parsed_url cl l = Inr (s, h)" for l using u [of l] by force
    then show ?thesis by (cases "shown_url label'"; cases host) (auto simp: Pair label_result_def h bind_res_eq_Inr_iff)
  qed
  obtain found where "map_res (unsafe_link cl) (hi_links (inspect_html cl (body_text ''text/html'' msg))) = Inr found"
    using map_res_total [of "unsafe_link cl"] a by blast
  moreover obtain rs where "map_res (label_result cl) (hi_labels (inspect_html cl (body_text ''text/html'' msg))) = Inr rs"
    using map_res_total [of "label_result cl"] b by blast
  ultimately show ?thesis
    by (simp add: inspect_message_def content_checks_def hygiene_check_def identity_check_def Let_def)
qed

text \<open>A message that this server signed for, with one link.\<close>

definition demo_mail_lib :: mail_lib where
  "demo_mail_lib = \<lparr>ml_address = (\<lambda>s. s), ml_date = (\<lambda>s. True), ml_show_g = (\<lambda>q. [])\<rparr>"

definition demo_content_lib :: content_lib where
  "demo_content_lib = \<lparr>cl_events = (\<lambda>h. [StartTag ''a'' [(''href'', Some ''https://x.org'')], HtmlText ''news'', EndTag ''a'']),
     cl_url = (\<lambda>s. Some (''https'', Some ''x.org'')), cl_pow24 = (\<lambda>q. q), cl_preheader = (\<lambda>h. None), cl_unescape = (\<lambda>s. s), cl_css = (\<lambda>n h. 0)\<rparr>"

definition demo_scored :: mail_message where
  "demo_scored = \<lparr>mm_headers = [(''From'', ''bob@x.org''), (''Authentication-Results'', ''mailcue; dkim=pass header.d=x.org''),
       (''authentication-results'', ''evil.net; spf=pass smtp.mailfrom=x.org; dmarc=pass'')],
     mm_multipart = False, mm_parts = [\<lparr>mp_disposition = None, mp_type = ''text/html'', mp_text = ''<a>news</a>'', mp_filename = None, mp_size = 11\<rparr>]\<rparr>"

lemma demo_scored_inspected: "\<exists>i. inspect_message demo_settings demo_mail_lib demo_content_lib demo_scored = Inr i"
  by (rule readable_links_inspected) (simp add: demo_content_lib_def)

theorem inspection_scores_bounded_witness:
  "\<exists>i. inspect_message demo_settings demo_mail_lib demo_content_lib demo_scored = Inr i \<and>
     list_all category_ok (rt_categories (score_deliverability i 0 ''bob@x'' ''7'' ''INBOX'')) \<and> 0 \<le> unclamped_score i"
  using demo_scored_inspected inspection_scores_bounded [of demo_settings demo_mail_lib demo_content_lib demo_scored _ 0 "''bob@x''" "''7''" "''INBOX''"]
  by blast

section \<open>Authentication\<close>

text \<open>A header field that carries a result of a trusted receiver: an Authentication-Results field whose authserv-id is trusted, or
  a Received-SPF field with an SPF result, whose \<open>receiver\<close> property names a trusted receiver.\<close>

definition trusted_receiver :: "settings \<Rightarrow> mail_lib \<Rightarrow> string \<Rightarrow> bool" where
  "trusted_receiver st lib v \<longleftrightarrow>
     (\<exists>d. identity_domain lib (prop_get (properties_of v) ''receiver'') = Some d \<and> d \<in> set (trusted_authserv_ids st))"

definition field_entry :: "settings \<Rightarrow> mail_lib \<Rightarrow> string \<times> string \<Rightarrow> auth_entry \<Rightarrow> bool" where
  "field_entry st lib f e \<longleftrightarrow>
     (lower (fst f) = ''authentication-results'' \<and> (\<exists>i. authserv_id (snd f) = Some i \<and> i \<in> set (trusted_authserv_ids st)) \<and>
        e \<in> set (List.map_filter segment_entry (tl (split_on (CHR '';'') (snd f))))) \<or>
     (lower (fst f) = ''received-spf'' \<and> trusted_receiver st lib (snd f) \<and> fst e = ''spf'' \<and>
        received_spf_result (snd f) = Some (fst (snd e)) \<and>
        snd (snd e) = [(''smtp.mailfrom'', prop_get (properties_of (snd f)) ''envelope-from''),
                       (''smtp.helo'', prop_get (properties_of (snd f)) ''helo'')])"

definition foreign_result :: "settings \<Rightarrow> mail_lib \<Rightarrow> string \<times> string \<Rightarrow> bool" where
  "foreign_result st lib f \<longleftrightarrow>
     lower (fst f) = ''authentication-results'' \<and> (\<forall>i. authserv_id (snd f) = Some i \<longrightarrow> i \<notin> set (trusted_authserv_ids st)) \<or>
     lower (fst f) = ''received-spf'' \<and> \<not> trusted_receiver st lib (snd f)"

definition without_foreign :: "settings \<Rightarrow> mail_lib \<Rightarrow> mail_message \<Rightarrow> mail_message" where
  "without_foreign st lib msg = msg\<lparr>mm_headers := filter (\<lambda>f. \<not> foreign_result st lib f) (mm_headers msg)\<rparr>"

lemma received_spf_entry_trusted:
  assumes "received_spf_entry st lib v = Some e"
  shows "trusted_receiver st lib v \<and> fst e = ''spf'' \<and> received_spf_result v = Some (fst (snd e)) \<and>
    snd (snd e) = [(''smtp.mailfrom'', prop_get (properties_of v) ''envelope-from''), (''smtp.helo'', prop_get (properties_of v) ''helo'')]"
  using assms by (auto simp: received_spf_entry_def trusted_receiver_def Let_def split: option.splits if_splits)

lemma lower_field_names: "lower ''Authentication-Results'' = ''authentication-results''" "lower ''Received-SPF'' = ''received-spf''"
  by code_simp+

lemma set_get_all: "v \<in> set (get_all name msg) \<Longrightarrow> \<exists>n. (n, v) \<in> set (mm_headers msg) \<and> lower n = lower name"
  by (auto simp: get_all_def)

lemma get_all_without_foreign:
  "List.map_filter (received_spf_entry st lib) (get_all ''Received-SPF'' (without_foreign st lib msg)) =
   List.map_filter (received_spf_entry st lib) (get_all ''Received-SPF'' msg)"
  "filter (\<lambda>v. case authserv_id v of None \<Rightarrow> False | Some i \<Rightarrow> i \<in> set (trusted_authserv_ids st)) (get_all ''Authentication-Results'' (without_foreign st lib msg)) =
   filter (\<lambda>v. case authserv_id v of None \<Rightarrow> False | Some i \<Rightarrow> i \<in> set (trusted_authserv_ids st)) (get_all ''Authentication-Results'' msg)"
  unfolding get_all_def without_foreign_def lower_field_names List.map_filter_def
  by (auto simp: filter_map comp_def foreign_result_def case_prod_unfold dest: received_spf_entry_trusted
      intro!: arg_cong [where f = "map snd"] arg_cong [where f = "map (\<lambda>x. the (received_spf_entry st lib (snd x)))"] filter_cong split: option.splits)

lemma foreign_ignored: "authentication_checks st lib (without_foreign st lib msg) sender = authentication_checks st lib msg sender"
  by (simp add: authentication_checks_def parsed_authentication_results_def authentication_results_def get_all_without_foreign Let_def)

lemma parsed_from_field:
  assumes "e \<in> set (parsed_authentication_results st lib msg)"
  shows "\<exists>f \<in> set (mm_headers msg). field_entry st lib f e"
proof -
  consider "e \<in> set (authentication_results st msg)"
    | "e \<in> set (List.map_filter (received_spf_entry st lib) (get_all ''Received-SPF'' msg))"
    using assms by (auto simp: parsed_authentication_results_def Let_def split: if_splits dest: in_set_takeD)
  then show ?thesis
  proof cases
    case 1
    then obtain v i where v: "v \<in> set (get_all ''Authentication-Results'' msg)" "authserv_id v = Some i"
        "i \<in> set (trusted_authserv_ids st)" "e \<in> set (List.map_filter segment_entry (tl (split_on (CHR '';'') v)))"
      by (auto simp: authentication_results_def split: option.splits)
    with set_get_all [OF v(1)] show ?thesis by (auto simp: field_entry_def lower_field_names intro!: bexI)
  next
    case 2
    then obtain v where v: "v \<in> set (get_all ''Received-SPF'' msg)" "received_spf_entry st lib v = Some e"
      by (auto simp: List.map_filter_def)
    with set_get_all [OF v(1)] received_spf_entry_trusted [OF v(2)] show ?thesis
      by (auto simp: field_entry_def lower_field_names intro!: bexI)
  qed
qed

lemma best_result_in:
  assumes "best_result m es = Some (r, ps)" shows "(m, r, ps) \<in> set es"
proof -
  let ?rs = "map snd (filter (\<lambda>(m', r, ps). m' = m) es)"
  have "find (\<lambda>(r, ps). r = ''pass'') ?rs = Some (r, ps) \<or> (\<exists>bs. ?rs = (r, ps) # bs)"
    using assms by (auto simp: best_result_def Let_def simp del: find.simps split: option.splits list.splits)
  then have "(r, ps) \<in> set ?rs" by (auto simp del: set_map dest!: find_SomeD)
  then show ?thesis by auto
qed

text \<open>What the receiver reported, for a check that earns points.\<close>

definition earned :: "mail_lib \<Rightarrow> string option \<Rightarrow> deliv_check \<Rightarrow> string \<Rightarrow> auth_props \<Rightarrow> bool" where
  "earned lib sender c r ps \<longleftrightarrow> r \<in> {''pass'', ''neutral'', ''none'', ''softfail'', ''temperror''} \<and>
     (ck_status c = ''pass'' \<longrightarrow> r = ''pass'' \<and> (ck_id c = ''dmarc'' \<or> aligned lib (auth_domain lib (ck_id c) ps) sender))"

lemma auth_check_earned:
  assumes "ck_points (auth_check lib es sender a) \<noteq> 0"
  shows "ck_id (auth_check lib es sender a) = am_id a \<and>
    (\<exists>r ps. best_result (am_id a) es = Some (r, ps) \<and> earned lib sender (auth_check lib es sender a) r ps)"
  using assms by (auto simp: auth_check_def chk_def earned_def auth_verdict_def Let_def split: option.splits prod.splits if_splits)

text \<open>C37: Results that a message claims for itself never count. Removing every Authentication-Results field of another receiver
  and every Received-SPF field whose receiver is not trusted changes no authentication check. A check that earns points has a field of this receiver behind it: an Authentication-Results field
  of a trusted authserv-id or a Received-SPF field whose receiver property names a trusted receiver, whose result for that method is one of the five that earn
  points, and to be passed it must be a pass whose domain is aligned with the visible sender (DMARC: a pass).\<close>

theorem authentication_points_are_earned:
  assumes "c \<in> set (authentication_checks st lib msg sender)" and "ck_points c \<noteq> 0"
  shows "(\<exists>f \<in> set (mm_headers msg). \<exists>r ps. field_entry st lib f (ck_id c, r, ps) \<and> earned lib sender c r ps) \<and>
    authentication_checks st lib (without_foreign st lib msg) sender = authentication_checks st lib msg sender"
proof -
  obtain a where c: "c = auth_check lib (parsed_authentication_results st lib msg) sender a"
    using assms(1) by (auto simp: authentication_checks_def)
  from auth_check_earned [OF assms(2) [unfolded c]] obtain r ps where
    r: "best_result (ck_id c) (parsed_authentication_results st lib msg) = Some (r, ps)" "earned lib sender c r ps"
    by (auto simp: c)
  with parsed_from_field [OF best_result_in [OF r(1)]] show ?thesis by (auto simp: foreign_ignored)
qed

lemma demo_parsed:
  "parsed_authentication_results demo_settings demo_mail_lib demo_scored =
     [(''dkim'', ''pass'', [(''dkim'', Some ''pass''), (''header.d'', Some ''x.org'')])]"
  by code_simp

lemma demo_checks_valued:
  "map (\<lambda>c. (ck_id c, ck_status c, ck_points c))
     (map (auth_check demo_mail_lib [(''dkim'', ''pass'', [(''dkim'', Some ''pass''), (''header.d'', Some ''x.org'')])] (Some ''x.org'')) auth_methods) =
   [(''spf'', ''fail'', 0), (''dkim'', ''pass'', 15), (''dmarc'', ''fail'', 0)]"
  by code_simp

theorem authentication_points_are_earned_witness:
  "map ck_status (authentication_checks demo_settings demo_mail_lib demo_scored (Some ''x.org'')) = [''fail'', ''pass'', ''fail''] \<and>
   (\<exists>f \<in> set (mm_headers demo_scored). \<exists>r ps. field_entry demo_settings demo_mail_lib f (''dkim'', r, ps) \<and> r = ''pass'')"
proof -
  let ?cs = "authentication_checks demo_settings demo_mail_lib demo_scored (Some ''x.org'')"
  have v: "map (\<lambda>c. (ck_id c, ck_status c, ck_points c)) ?cs = [(''spf'', ''fail'', 0), (''dkim'', ''pass'', 15), (''dmarc'', ''fail'', 0)]"
    by (simp only: authentication_checks_def demo_parsed demo_checks_valued)
  then have "(''dkim'', ''pass'', 15) \<in> set (map (\<lambda>c. (ck_id c, ck_status c, ck_points c)) ?cs)" by simp
  then obtain c where c: "c \<in> set ?cs" "ck_points c \<noteq> 0" and i: "ck_id c = ''dkim''" "ck_status c = ''pass''"
    by fastforce
  have "map ck_status ?cs = map (fst \<circ> snd) (map (\<lambda>c. (ck_id c, ck_status c, ck_points c)) ?cs)" by simp
  then have "map ck_status ?cs = [''fail'', ''pass'', ''fail'']" by (simp only: v) simp
  then show ?thesis using authentication_points_are_earned [OF c] unfolding i earned_def by blast
qed

section \<open>Gaps\<close>

text \<open>Suffixes are found in small letters only: the same program under a name in capitals passes for a safe attachment.\<close>

lemma capital_extension_not_detected: "is_dangerous ''update.exe'' \<and> \<not> is_dangerous ''UPDATE.EXE'' \<and> \<not> is_dangerous ''update.Exe''"
  by code_simp

text \<open>Decorative images with an empty text count as missing it, although the recommendation asks for the empty text. Tiny images count
  as remote ones wherever they come from.\<close>

lemma decorative_image_counted: "hi_without_alt (handle_starttag ''img'' [(''src'', Some ''cid:1''), (''alt'', Some [])] new_inspector) = 1"
  by code_simp

lemma inline_image_counted_as_pixel:
  "hi_pixels (handle_starttag ''img'' [(''src'', Some ''cid:1''), (''width'', Some ''1''), (''height'', Some ''1'')] new_inspector) = 1"
  by code_simp

text \<open>A single link that \<open>urlparse\<close> rejects makes the whole inspection fail.\<close>

lemma malformed_link_fails_inspection:
  assumes "l \<in> set (hi_links (inspect_html cl (body_text ''text/html'' msg)))" and "cl_url cl l = None"
  shows "\<exists>e. inspect_message st lib cl msg = Inl e"
proof -
  have "\<exists>e. map_res (unsafe_link cl) ls = Inl e" if "l \<in> set ls" for ls
    using that
  proof (induction ls)
    case (Cons x xs)
    show ?case
    proof (cases "unsafe_link cl x")
      case (Inr y)
      with assms(2) have "x \<noteq> l" by (auto simp: unsafe_link_def parsed_url_def)
      with Cons Inr show ?thesis by auto
    qed simp
  qed simp
  from this [OF assms(1)] show ?thesis
    by (auto simp: inspect_message_def content_checks_def hygiene_check_def Let_def)
qed

end
