(* ===== verification/Spec2Isabelle.thy ===== *)
theory Spec2Isabelle
  imports UserAdminProps ApiKeyProps AuthGateProps AliasProps MailboxAccess ForwardingProps VoiceProps Webhook WarmupLife
    TunnelProps VerdictProps RiskProps RiskFeedback BatchProps CanarySafety BounceProps DomainProps SpfProps DomainTables
    HttpBin DelivProps MessageProps
begin

text \<open>
  A verification development for the MailCue backend (Python, under
  \<^verbatim>\<open>src/backend/app\<close>): an HTTP service that administers a mail server for testing and
  production use. Users sign in and hold API keys; they own mailboxes, which the service
  provisions in Dovecot and Postfix by rewriting their configuration files; aliases and
  forwarding rules act on the mail that arrives; an in-process event bus tells connected
  clients what happened; and a sandbox imitates the messaging and voice providers an
  application may use.

  \<^bold>\<open>How the parts interact.\<close> Every request passes \<open>get_auth\<close>, which turns a token or an API key
  into a principal; the endpoint checks the scope and, for mailbox routes,
  \<open>verify_mailbox_access\<close>. Handlers read rows, change them and commit; mailbox handlers then
  provision the mail server and publish an event, which the bus delivers to the clients
  admitted for the address and to the internal listeners, among them the forwarding rules.

  \<^bold>\<open>Theories and the code they model\<close>
  \<^item> \<open>Prelude\<close>: the exceptions of \<^verbatim>\<open>exceptions.py\<close> as the type \<open>error\<close> with their status codes,
    Python's string functions on character lists, rows addressed by key (locale \<open>keyed_store\<close>).
  \<^item> \<open>Models\<close>: the rows of \<^verbatim>\<open>auth/models.py\<close>, \<^verbatim>\<open>mailboxes/models.py\<close> and
    \<^verbatim>\<open>domains/models.py\<close>, the record \<open>db\<close> of all tables and the \<open>settings\<close> of \<^verbatim>\<open>config.py\<close>.
  \<^item> \<open>Scopes\<close> (\<^verbatim>\<open>auth/scopes.py\<close>), \<open>AuthCore\<close> (\<^verbatim>\<open>auth/service.py\<close>, \<^verbatim>\<open>auth/utils.py\<close>),
    \<open>AuthGate\<close> with \<open>AuthGateProps\<close> (\<^verbatim>\<open>dependencies.py\<close>), \<open>AuthSession\<close> with
    \<open>AuthSessionProps\<close> and \<open>AuthTokens\<close>, \<open>ApiKeys\<close> with \<open>ApiKeyProps\<close>, \<open>UserAdmin\<close> with
    \<open>UserAdminProps\<close> (the endpoints of \<^verbatim>\<open>auth/router.py\<close>). \<open>Scopes\<close> also states the contract of
    delegated permissions as a locale; \<open>ApiKeys\<close> interprets it on the key checks.
    \<open>DemoCrypto\<close> is a concrete instance of the cryptographic primitives for the witnesses.
  \<^item> \<open>Json\<close> and \<open>Events\<close>: JSON values, and the bus of \<^verbatim>\<open>events/bus.py\<close> with the consumer of
    \<^verbatim>\<open>events/router.py\<close>.
  \<^item> \<open>Addressing\<close> (\<^verbatim>\<open>addressing.py\<close>), \<open>Aliases\<close> with \<open>AliasProps\<close> (\<^verbatim>\<open>aliases/\<close>).
  \<^item> \<open>UsersFile\<close>: the passwd-file text operations of \<^verbatim>\<open>mailboxes/service.py\<close>, with the locale
    \<open>credential_store\<close> they implement; \<open>Mailboxes\<close> with \<open>MailboxProps\<close> and \<open>MailboxAccess\<close>: the
    rest of that module, the access check and three endpoints of \<^verbatim>\<open>mailboxes/router.py\<close>, and
    the table rebuild of \<^verbatim>\<open>domains/service.py\<close>.
  \<^item> \<open>Forwarding\<close> with \<open>ForwardingProps\<close> (\<^verbatim>\<open>forwarding/\<close>).
  \<^item> \<open>Voice\<close> (\<^verbatim>\<open>sandbox/voice/interpreter.py\<close>), \<open>VoiceWorker\<close> with \<open>VoiceProps\<close>
    (\<^verbatim>\<open>sandbox/voice/worker.py\<close>), \<open>Webhook\<close> (\<^verbatim>\<open>sandbox/webhook_worker.py\<close>).

  \<^item> \<open>PyNumbers\<close>, \<open>PyFloat\<close>: the integers and doubles Python reads from text, and arithmetic rounded to
    doubles; \<open>SmtpCodes\<close>: the regular expressions for reply codes and enhanced status codes.
  \<^item> \<open>Warmup\<close>, \<open>WarmupAdmin\<close>, \<open>WarmupRun\<close> with \<open>WarmupProps\<close>, \<open>WarmupSlots\<close>, \<open>WarmupLife\<close>
    (\<^verbatim>\<open>warmup/\<close>): the plan, the accounts and campaigns and their requests,
    and the scheduler that sends at most one message per slot.
  \<^item> \<open>Tunnels\<close>, \<open>Sidecar\<close> with \<open>TunnelProps\<close>: the tunnel rows and the file they are published in
    (\<^verbatim>\<open>tunnels/\<close>), and the reader and selector of that file in the sidecar (Rust).
  \<^item> Address validation (\<^verbatim>\<open>emails/\<close>): \<open>MxProviders\<close> (\<^verbatim>\<open>mx_providers.py\<close>), \<open>SmtpReply\<close>
    (\<^verbatim>\<open>smtp_reply.py\<close>), \<open>LocalPart\<close> (\<^verbatim>\<open>local_part.py\<close>), \<open>DomainSignals\<close> (\<^verbatim>\<open>domain_signals.py\<close>,
    \<^verbatim>\<open>disposable.py\<close>), \<open>EmailSyntax\<close>, \<open>Probe\<close>, \<open>ProbeResult\<close>, \<open>Validate\<close> with \<open>ProbeProps\<close> and
    \<open>VerdictProps\<close> (\<^verbatim>\<open>validation.py\<close>, stage by stage), \<open>RiskModel\<close> with \<open>RiskProps\<close>
    (\<^verbatim>\<open>risk_model.py\<close>), \<open>RiskFeedback\<close> (\<^verbatim>\<open>validation_feedback.py\<close>), \<open>Batch\<close> with \<open>BatchProps\<close>
    (\<^verbatim>\<open>batch_validation.py\<close>).
  \<^item> Staged sends: \<open>Canary\<close>, \<open>CanaryProps\<close>, \<open>CanaryLife\<close>, \<open>CanarySafety\<close> (\<^verbatim>\<open>emails/canary.py\<close>, its scheduler and its
    endpoints); \<open>Dsn\<close>, \<open>Bounces\<close> with \<open>BounceProps\<close> (\<^verbatim>\<open>emails/dsn.py\<close>, \<^verbatim>\<open>emails/bounce_scanner.py\<close>): the notifications that
    decide them.
  \<^item> Domains (\<^verbatim>\<open>domains/\<close>): \<open>Spf\<close> with \<open>SpfProps\<close> (Python's address parser, SPF syntax and the record the
    server asks for), \<open>DomainDns\<close> (the DNS checks), \<open>DomainAdmin\<close> with \<open>DomainProps\<close> and \<open>DomainTables\<close> (rows, endpoints
    and the files of OpenDKIM and Postfix).
  \<^item> \<open>HttpBin\<close> (\<^verbatim>\<open>httpbin/\<close>): request bins and what they capture.
  \<^item> Deliverability (\<^verbatim>\<open>emails/deliverability.py\<close>, \<^verbatim>\<open>deliverability/\<close>): \<open>MessageChecks\<close> (authentication results, headers,
    transport, spam filter, attachments), \<open>MessageContent\<close> (the bodies and the HTML inspector) with \<open>MessageProps\<close>, \<open>Reports\<close>
    (scores, stored reports, baselines, comparison, trend), \<open>Monitor\<close> (capabilities, policies, providers, schedules, alerts), \<open>DelivExec\<close> (the
    further checks and the run that collects them), \<open>DelivSched\<close> (endpoints, export, the scheduler, retention), with \<open>DelivPace\<close> and \<open>DelivProps\<close>.

  \<^bold>\<open>How the model corresponds to the code\<close>
  \<^item> A handler is a function from its arguments and the state it reads to a \<open>result\<close>
    (\<open>Inl\<close> the exception, \<open>Inr\<close> the response) and the state as committed when it ends; what is
    written before an exception stays written exactly where the code has committed it. A
    table is the list of its rows, in insertion order.
  \<^item> Time is an integer number of microseconds and an argument, like every random value and
    every identifier the database or \<^verbatim>\<open>uuid4\<close> would choose.
  \<^item> Third-party code is a parameter: Argon2, JWT and TOTP (\<open>crypto\<close>), the regular-expression
    engine, URL parsing, name resolution and the delivery channels of forwarding, XML and JSON
    decoding, the email and HTML parsers with the searches over a whole HTML text, the provider plugins, the application that answers voice requests. Assumptions
    about it are named (for instance \<open>jwt_roundtrip\<close>) and shown satisfiable by a witness.
  \<^item> What concurrent requests may do is modelled where the code defends against it: \<open>AuthTokens\<close>
    splits a refresh into its read and its compare-and-set and interleaves any number of them; \<open>WarmupSlots\<close> splits a run of a
    campaign into the committed claim and the work that follows it; \<open>DelivPace\<close> splits the claim of a schedule into look and write.
  \<^item> Doubles are rational numbers rounded after every operation. \<open>sum\<close> over floats adds from the left, as in the Python 3.11 of the
    continuous integration; Python 3.12 and later compensate the rounding, which can change the last bits of such sums
    (entropy of a local part, calibration, means of a batch), not of the points of a report, whose sums are exact.

  \<^bold>\<open>What the lemmas show\<close>
  \<^item> Authentication: a login or a request succeeds only with the credential it names; failures
    lock an account and a locked account refuses; every endpoint that ends sessions revokes the
    outstanding tokens; a refresh token is exchanged at most once. Against its purpose, a
    password login between two second-factor guesses keeps the account open, and a logout that
    races a refresh can leave the new session alive.
  \<^item> Permissions: a key minted or edited through a key never permits more than that key; the
    scope order is inclusion of what is permitted; an active administrator always remains.
  \<^item> Mail state: the alias map on disk is the table's enabled rows after any run; the passwd-file
    refines a finite map; creating a mailbox keeps to the quota; discovery of Maildirs is complete and idempotent; paths
    stay below the storage root; the access check admits owners only; events reach only
    the clients admitted for their mailbox; forwarding is confined to the owner's rules and to public
    destinations.
  \<^item> Sandbox: a simulated call always ends, with its states in order; webhook delivery stops at
    the first acceptance.

  \<^item> Warm-up: a message leaves only for a due campaign within its hours; outbound ones keep to the targets and to available
    providers, answers look at neither; of the workers that claim within five minutes, the length of the lease, at most one
    sends; failures cool a provider down; the tables stay well formed.
  \<^item> Tunnels: exactly the keys of the right format are accepted; the published file follows the rows; the sidecar tries the usable tunnels in order.
  \<^item> Validation: a verdict is earned by the reply of a mail host to that very recipient, each in an
    envelope of its own; accept-all means every control was accepted; the first matching provider
    rule is the most specific; the send budget, computed in doubles, is kept after every address it takes, and the next one
    would break it; suppression follows its rule; an estimate sees other tenants only in the totals of the domain, above the
    thresholds, and of the provider; a batch answers each address once.
  \<^item> Staged sends: whatever the order of requests, ticks and bounces, no recipient is written to twice, a decision writes to
    held recipients only, and a due send is decided; a notification is read once and counted for one user.
  \<^item> Domains: a verified flag states what DNS and the policy host published; the tables of OpenDKIM follow the rows from an
    accepted change on, until a write is refused; the recommended SPF record can be published with at most nine named relays.
  \<^item> Deliverability: the runs of a schedule keep their distance under any interleaving of workers and edits; a policy
    verdict says what its conditions say and stays; a mailbox has at most one baseline; no text of a message becomes markup
    of an exported page; authentication points come from fields of a trusted receiver only, and every score stays in its
    range. Bins: their owner reads a record of everything sent to them, short of what the conversions lose.

  \<^bold>\<open>Bounds and fuel.\<close> Only \<open>execute_ir\<close> takes a recursion bound, \<open>depth\<close>: each redirect or gathered
  answer is one more level of Python's stack, so a document that keeps redirecting ends with a
  recursion error there and with an exception here; \<open>call_always_ends\<close> holds for every bound.
  Webhook delivery makes at most three attempts and has its own termination proof; a subscriber
  queue holds 256 messages as in the code. All other recursion is structural.

  In \<open>DelivPace\<close> time is a clock that only advances, and what a worker has read may be written at any later time.

  \<^bold>\<open>Not modelled.\<close> IMAP and SMTP sessions with MIME parsing (\<^verbatim>\<open>emails/service.py\<close>, \<^verbatim>\<open>emails/parser.py\<close>) and the
  network, link and browser analyses of a deliverability run, because they are almost entirely calls of library code; the tunnel processes in Rust apart from the reader of their file; GnuPG, certificates and server
  settings; the provider imitations of the sandbox, which translate request formats; rate limiting, database migrations, the
  user interface and the client libraries.
\<close>

end
